(* ===== verification/Prelude.thy ===== *)
theory Prelude
  imports
    Main
    "HOL-Library.Char_ord"
    "HOL-Library.List_Lexorder"
    "HOL-Library.Product_Lexorder"
begin

text \<open>
  Shared vocabulary of the development: the exceptions of the package as one error
  datatype, results as \<open>error + 'a\<close>, the Python string and list idioms the
  components use (character classes of the regular expressions, stripping, joining,
  uniqueness tests by set size, stable sorting by key), and the lemmas about them
  that the component theories share.

  Text.  A Python \<open>str\<close> is a \<open>string\<close>, one \<open>char\<close> per code point, so the
  texts of the model are those whose code points lie below U+0100.  On these texts
  \<open>unicodedata.normalize("NFC", s)\<close> is the identity (every code point below U+0300
  is NFC-stable), \<open>sorted\<close> on strings is the lexicographic order of the code
  points, and \<open>len\<close> counts code points.
\<close>

named_theorems res_simps \<open>inversion rules for results\<close>
named_theorems payload_simps \<open>unfolding rules for hash-domain payloads\<close>
named_theorems json_keys \<open>payloads whose keys are distinct at every level\<close>

subsection \<open>Exceptions and results\<close>

text \<open>
  One constructor per exception class of the package that the model raises, carrying
  the message.  \<open>ValidationError e\<close> is pydantic's wrapper around an error raised by
  a field constraint or a validator.
\<close>

datatype error =
    ValueError string
  | TypeError string
  | KeyError string
  | CanonicalizationError string
  | InvalidCanonicalKeyError string
  | NormalizationCollisionError string
  | UnsupportedCanonicalTypeError string
  | InvalidIdentifierPrefixError string
  | InvalidAccessPolicyError string
  | InvalidAccessScopeError string
  | PurposeNotAllowedError string
  | PermittedTokenError string
  | PermittedTokenMismatchError string
  | SnapshotContractError string
  | EvidenceGateContractError string
  | ResearchSessionReplayError string
  | ParserOutputInvalidError string
  | ExtractedTextLimitExceededError string
  | NoExtractableTextError string
  | InvalidUtf8Error string
  | UnicodeDecodeError string
  | ClaimEvidenceContractError string
  | StopIteration string
  | SqliteIntegrityError string
  | StoreClosedError string
  | PersistenceIntegrityError string
  | PersistenceConflictError string
  | AuthorizationError string
  | CollectionNotFoundError string
  | AccessPolicyNotFoundError string
  | CorpusSnapshotNotFoundError string
  | SourceNotFoundError string
  | ProcessingRunNotFoundError string
  | CoverageReportNotFoundError string
  | SourceLineageIntegrityError string
  | OutboxExportError string
  | RelationContractError string
  | RelationAuthorizationError string
  | RelationIntegrityError string
  | RelationNotFoundError string
  | FieldConstraint string string
  | ValidationError error

type_synonym 'a res = "error + 'a"

definition res_bind :: "'a res \<Rightarrow> ('a \<Rightarrow> 'b res) \<Rightarrow> 'b res" where
  "res_bind r f = (case r of Inl e \<Rightarrow> Inl e | Inr x \<Rightarrow> f x)"

definition guard_res :: "bool \<Rightarrow> error \<Rightarrow> unit res" where
  "guard_res c e = (if c then Inr () else Inl e)"

definition wrap_validation :: "'a res \<Rightarrow> 'a res" where
  "wrap_validation r = (case r of Inl e \<Rightarrow> Inl (ValidationError e) | Inr x \<Rightarrow> Inr x)"

fun map_res :: "('a \<Rightarrow> 'b res) \<Rightarrow> 'a list \<Rightarrow> 'b list res" where
  "map_res f [] = Inr []"
| "map_res f (x # xs) =
     res_bind (f x) (\<lambda>y. res_bind (map_res f xs) (\<lambda>ys. Inr (y # ys)))"

lemma res_bind_Inr [simp]: "res_bind (Inr x) f = f x"
  by (simp add: res_bind_def)

lemma res_bind_Inl [simp]: "res_bind (Inl e) f = Inl e"
  by (simp add: res_bind_def)

lemma res_bind_eq_Inr [res_simps]:
  "res_bind r f = Inr y \<longleftrightarrow> (\<exists>x. r = Inr x \<and> f x = Inr y)"
  by (cases r) simp_all

lemma res_bind_assoc: "res_bind (res_bind r f) g = res_bind r (\<lambda>x. res_bind (f x) g)"
  by (cases r) simp_all

lemma guard_res_eq_Inr [res_simps]: "guard_res c e = Inr u \<longleftrightarrow> c"
  by (simp add: guard_res_def)

lemma guard_res_True [simp]: "guard_res True e = Inr ()"
  by (simp add: guard_res_def)

lemma guard_res_False [simp]: "guard_res False e = Inl e"
  by (simp add: guard_res_def)

lemma wrap_validation_eq_Inr [res_simps]: "wrap_validation r = Inr x \<longleftrightarrow> r = Inr x"
  by (cases r) (simp_all add: wrap_validation_def)

lemma wrap_validation_Inr [simp]: "wrap_validation (Inr x) = Inr x"
  by (simp add: wrap_validation_def)

lemma wrap_validation_Inl [simp]: "wrap_validation (Inl e) = Inl (ValidationError e)"
  by (simp add: wrap_validation_def)

lemma if_res_eq_Inr [res_simps]:
  "(if c then Inl e else r) = Inr x \<longleftrightarrow> \<not> c \<and> r = Inr x"
  by simp

lemma map_res_eq_Inr: "map_res f xs = Inr ys \<longleftrightarrow> list_all2 (\<lambda>x y. f x = Inr y) xs ys"
proof (induction xs arbitrary: ys)
  case Nil
  then show ?case by auto
next
  case (Cons x xs)
  then show ?case by (cases ys) (auto simp: res_simps)
qed

lemma map_res_Inr_total: "(\<And>x. x \<in> set xs \<Longrightarrow> f x = Inr (g x)) \<Longrightarrow> map_res f xs = Inr (map g xs)"
  by (induction xs) simp_all

lemma map_res_ok: "(\<And>x. x \<in> set xs \<Longrightarrow> \<exists>y. f x = Inr y) \<Longrightarrow> \<exists>ys. map_res f xs = Inr ys"
  by (induction xs) (force simp: res_simps)+

lemma map_res_InrD: "map_res f xs = Inr ys \<Longrightarrow> x \<in> set xs \<Longrightarrow> \<exists>y. f x = Inr y"
  unfolding map_res_eq_Inr list_all2_conv_all_nth in_set_conv_nth by blast

lemma map_res_perm:
  "\<exists>xs. map_res f cids = Inr xs \<Longrightarrow> set cids' = set cids \<Longrightarrow> \<exists>xs. map_res f cids' = Inr xs"
  by (rule map_res_ok) (auto dest: map_res_InrD)

text \<open>A loop over a list that updates a state and may raise.\<close>

fun fold_res :: "('a \<Rightarrow> 's \<Rightarrow> 's res) \<Rightarrow> 'a list \<Rightarrow> 's \<Rightarrow> 's res" where
  "fold_res f [] s = Inr s"
| "fold_res f (x # xs) s = res_bind (f x s) (fold_res f xs)"

text \<open>
  A loop that visits every element once: the invariant knows the keys already visited, and
  what the step establishes for its element stays true as the state grows.
\<close>

locale visit_loop =
  fixes step :: "'a \<Rightarrow> 's \<Rightarrow> 's res"
    and key :: "'a \<Rightarrow> 'k"
    and inv :: "'k set \<Rightarrow> 's \<Rightarrow> bool"
    and accepts :: "'a \<Rightarrow> bool"
    and grows :: "'s \<Rightarrow> 's \<Rightarrow> bool"
    and post :: "'a \<Rightarrow> 's \<Rightarrow> bool"
  assumes visit_ok: "inv seen s \<Longrightarrow> accepts x \<Longrightarrow> key x \<notin> seen \<Longrightarrow>
      \<exists>s'. step x s = Inr s' \<and> inv (insert (key x) seen) s' \<and> grows s s' \<and> post x s'"
    and visit_refl: "grows s s"
    and visit_trans: "grows s t \<Longrightarrow> grows t u \<Longrightarrow> grows s u"
    and post_stable: "post x s \<Longrightarrow> grows s t \<Longrightarrow> post x t"
begin

lemma visits_ok:
  assumes "inv seen s" and "\<forall>x \<in> set xs. accepts x" and "distinct (map key xs)"
    and "key ` set xs \<inter> seen = {}"
  shows "\<exists>s'. fold_res step xs s = Inr s' \<and> inv (seen \<union> key ` set xs) s' \<and> grows s s' \<and>
    (\<forall>x \<in> set xs. post x s')"
  using assms
proof (induction xs arbitrary: s seen)
  case Nil
  then show ?case by (simp add: visit_refl)
next
  case (Cons x xs)
  then obtain t where t: "step x s = Inr t" "inv (insert (key x) seen) t" "grows s t" "post x t"
    using visit_ok [of seen s x] by auto
  have "key ` set xs \<inter> insert (key x) seen = {}" using Cons.prems(3,4) by auto
  with Cons.IH [OF t(2)] Cons.prems obtain u where
    u: "fold_res step xs t = Inr u" "inv (insert (key x) seen \<union> key ` set xs) u" "grows t u"
      "\<forall>x \<in> set xs. post x u" by auto
  from t(4) u(3) have "post x u" by (rule post_stable)
  with t u show ?case by (auto intro: visit_trans)
qed

end

subsection \<open>Uniqueness, sets and dictionaries over lists\<close>

text \<open>The test \<open>len(set(xs)) != len(xs)\<close>.\<close>

definition has_duplicates :: "'a list \<Rightarrow> bool" where
  "has_duplicates xs \<longleftrightarrow> length (remdups xs) \<noteq> length xs"

lemma has_duplicates_iff [simp]: "has_duplicates xs \<longleftrightarrow> \<not> distinct xs"
  unfolding has_duplicates_def
  by (metis distinct_card length_remdups_card_conv card_distinct)

text \<open>
  \<open>sorted(set(xs))\<close>: the distinct elements in increasing order.
\<close>

definition sorted_set :: "'a::linorder list \<Rightarrow> 'a list" where
  "sorted_set xs = sort (remdups xs)"

lemma set_sorted_set [simp]: "set (sorted_set xs) = set xs"
  by (simp add: sorted_set_def)

lemma distinct_sorted_set [simp]: "distinct (sorted_set xs)"
  by (simp add: sorted_set_def)

lemma sorted_sorted_set [simp]: "sorted (sorted_set xs)"
  by (simp add: sorted_set_def)

lemma sorted_set_cong: "set xs = set ys \<Longrightarrow> sorted_set xs = sorted_set ys"
  by (rule sorted_distinct_set_unique) simp_all

lemma length_sorted_set: "length (sorted_set xs) = card (set xs)"
  by (simp add: sorted_set_def length_remdups_card_conv)

lemma sort_perm_unique:
  assumes "distinct xs" and "set xs = set ys" and "distinct ys"
  shows "sort xs = sort (ys :: 'a::linorder list)"
  by (rule sorted_distinct_set_unique) (use assms in simp_all)

text \<open>
  Sorting records by a key that determines them gives one list for every
  presentation of the same set of records.
\<close>

lemma sort_key_unique:
  fixes f :: "'a \<Rightarrow> 'b::linorder"
  assumes "distinct (map f xs)" and "distinct (map f ys)" and "set xs = set ys"
  shows "sort_key f xs = sort_key f ys"
proof (rule map_sorted_distinct_set_unique [where f = f])
  show "inj_on f (set (sort_key f xs) \<union> set (sort_key f ys))"
    using assms by (simp add: distinct_map)
qed (use assms in \<open>simp_all add: distinct_map distinct_sort\<close>)

text \<open>
  The loop \<open>previous = d.setdefault(k, v); if previous != v: raise\<close> over a list of
  pairs: it passes exactly when the pairs are a function.
\<close>

fun setdefault_loop :: "('k \<times> 'v) list \<Rightarrow> ('k \<times> 'v) list \<Rightarrow> bool" where
  "setdefault_loop d [] = True"
| "setdefault_loop d (kv # kvs) =
     (case map_of d (fst kv) of
        None \<Rightarrow> setdefault_loop (kv # d) kvs
      | Some w \<Rightarrow> w = snd kv \<and> setdefault_loop d kvs)"

lemma setdefault_loop_iff:
  "distinct (map fst d) \<Longrightarrow>
   setdefault_loop d kvs \<longleftrightarrow> single_valued (set d \<union> set kvs)"
proof (induction kvs arbitrary: d)
  case Nil
  then show ?case by (auto simp: single_valued_def dest: eq_key_imp_eq_value)
next
  case (Cons kv kvs)
  show ?case
  proof (cases "map_of d (fst kv)")
    case None
    then have "distinct (map fst (kv # d))"
      using Cons.prems by (simp add: map_of_eq_None_iff)
    with Cons.IH [OF this] None show ?thesis by simp
  next
    case (Some w)
    then have mem: "(fst kv, w) \<in> set d" by (rule map_of_SomeD)
    show ?thesis
    proof (cases "w = snd kv")
      case True
      then have "insert kv (set d \<union> set kvs) = set d \<union> set kvs" using mem by auto
      with True Some Cons.IH [OF Cons.prems] show ?thesis by simp
    next
      case False
      then have "\<not> single_valued (set d \<union> set (kv # kvs))"
        using mem unfolding single_valued_def by (cases kv) auto
      with False Some show ?thesis by simp
    qed
  qed
qed

lemma setdefault_loop_map:
  "setdefault_loop [] (map (\<lambda>x. (k x, v x)) xs) \<longleftrightarrow>
   (\<forall>x \<in> set xs. \<forall>y \<in> set xs. k x = k y \<longrightarrow> v x = v y)"
proof -
  have "setdefault_loop [] (map (\<lambda>x. (k x, v x)) xs) \<longleftrightarrow>
      single_valued ((\<lambda>x. (k x, v x)) ` set xs)"
    by (simp add: setdefault_loop_iff)
  also have "\<dots> \<longleftrightarrow> (\<forall>x \<in> set xs. \<forall>y \<in> set xs. k x = k y \<longrightarrow> v x = v y)"
  proof
    assume sv: "single_valued ((\<lambda>x. (k x, v x)) ` set xs)"
    show "\<forall>x \<in> set xs. \<forall>y \<in> set xs. k x = k y \<longrightarrow> v x = v y"
    proof (intro ballI impI)
      fix x y assume "x \<in> set xs" "y \<in> set xs" "k x = k y"
      then have "(k x, v x) \<in> (\<lambda>x. (k x, v x)) ` set xs" "(k x, v y) \<in> (\<lambda>x. (k x, v x)) ` set xs"
        using \<open>k x = k y\<close> by (auto intro: rev_image_eqI)
      with sv show "v x = v y" by (rule single_valuedD)
    qed
  next
    assume same: "\<forall>x \<in> set xs. \<forall>y \<in> set xs. k x = k y \<longrightarrow> v x = v y"
    show "single_valued ((\<lambda>x. (k x, v x)) ` set xs)"
    proof (rule single_valuedI)
      fix a b c
      assume b: "(a, b) \<in> (\<lambda>x. (k x, v x)) ` set xs" and c: "(a, c) \<in> (\<lambda>x. (k x, v x)) ` set xs"
      from b obtain x where "x \<in> set xs" "a = k x" "b = v x" by (elim imageE) simp
      moreover from c obtain y where "y \<in> set xs" "a = k y" "c = v y" by (elim imageE) simp
      ultimately show "b = c" using same by metis
    qed
  qed
  finally show ?thesis .
qed

text \<open>
  The elements in order of first occurrence: \<open>list(dict.fromkeys(xs))\<close>, or appending
  each element that is not there yet.
\<close>

definition first_occurrences :: "'a list \<Rightarrow> 'a list" where
  "first_occurrences xs = rev (remdups (rev xs))"

lemma first_occurrences_Nil [simp]: "first_occurrences [] = []"
  by (simp add: first_occurrences_def)

lemma first_occurrences_snoc [simp]:
  "first_occurrences (xs @ [x]) =
     (if x \<in> set xs then first_occurrences xs else first_occurrences xs @ [x])"
  by (simp add: first_occurrences_def)

lemma set_first_occurrences [simp]: "set (first_occurrences xs) = set xs"
  by (simp add: first_occurrences_def)

lemma distinct_first_occurrences [simp]: "distinct (first_occurrences xs)"
  by (simp add: first_occurrences_def)

text \<open>The dictionary \<open>{key(x): x for x in xs}\<close>: the last element of a key wins.\<close>

definition dict_by :: "('a \<Rightarrow> 'k) \<Rightarrow> 'a list \<Rightarrow> 'k \<Rightarrow> 'a option" where
  "dict_by key xs = map_of (rev (map (\<lambda>x. (key x, x)) xs))"

lemma dict_by_SomeD: "dict_by key xs k = Some x \<Longrightarrow> x \<in> set xs \<and> key x = k"
  unfolding dict_by_def by (auto dest!: map_of_SomeD)

lemma dict_by_None: "dict_by key xs k = None \<longleftrightarrow> k \<notin> key ` set xs"
  unfolding dict_by_def by (auto simp: map_of_eq_None_iff image_image)

lemma dict_by_unique: "distinct (map key xs) \<Longrightarrow> x \<in> set xs \<Longrightarrow> dict_by key xs (key x) = Some x"
proof -
  assume d: "distinct (map key xs)" and x: "x \<in> set xs"
  obtain y where y: "dict_by key xs (key x) = Some y"
    using x dict_by_None [of key xs "key x"] by fastforce
  then have "y \<in> set xs" "key y = key x" by (auto dest: dict_by_SomeD)
  with d x have "y = x" by (auto simp: distinct_map dest: inj_onD)
  with y show ?thesis by simp
qed

text \<open>\<open>d[k]\<close> on such a dictionary.\<close>

definition require_key :: "('a \<Rightarrow> string) \<Rightarrow> 'a list \<Rightarrow> string \<Rightarrow> 'a res" where
  "require_key key xs k = (case dict_by key xs k of None \<Rightarrow> Inl (KeyError k) | Some x \<Rightarrow> Inr x)"

lemma require_key_InrD: "require_key key xs k = Inr x \<Longrightarrow> x \<in> set xs \<and> key x = k"
  by (auto simp: require_key_def split: option.splits dest: dict_by_SomeD)

lemma require_key_Inr:
  "distinct (map key xs) \<Longrightarrow> require_key key xs k = Inr x \<longleftrightarrow> x \<in> set xs \<and> key x = k"
  by (auto simp: require_key_def dict_by_unique split: option.splits dest: dict_by_SomeD)

lemma require_key_ex: "k \<in> key ` set xs \<Longrightarrow> \<exists>x. require_key key xs k = Inr x"
  by (auto simp: require_key_def dict_by_None split: option.splits)

subsection \<open>Strings\<close>

definition lower_az :: string where
  "lower_az = ''abcdefghijklmnopqrstuvwxyz''"

definition upper_az :: string where
  "upper_az = ''ABCDEFGHIJKLMNOPQRSTUVWXYZ''"

definition digits09 :: string where
  "digits09 = ''0123456789''"

definition hexdigits :: string where
  "hexdigits = ''0123456789abcdef''"

text \<open>The pattern \<open>[0-9a-f]{n}\<close> under \<open>fullmatch\<close>.\<close>

definition matches_hex :: "nat \<Rightarrow> string \<Rightarrow> bool" where
  "matches_hex n s \<longleftrightarrow> length s = n \<and> list_all (\<lambda>c. c \<in> set hexdigits) s"

text \<open>
  A class for the first character, a class for the rest, and bounds on the length of
  the rest: the shape \<open>[A][B]{lo,hi}\<close>.
\<close>

definition matches_head_rest :: "string \<Rightarrow> string \<Rightarrow> nat \<Rightarrow> nat \<Rightarrow> string \<Rightarrow> bool" where
  "matches_head_rest hd_cls rest_cls lo hi s \<longleftrightarrow>
     (case s of [] \<Rightarrow> False
      | c # cs \<Rightarrow> c \<in> set hd_cls \<and> lo \<le> length cs \<and> length cs \<le> hi \<and>
          list_all (\<lambda>x. x \<in> set rest_cls) cs)"

text \<open>The pattern \<open>[a-z0-9]+(?:_[a-z0-9]+)*\<close>: nonempty words joined by single underscores.\<close>

fun words_underscore :: "string \<Rightarrow> bool \<Rightarrow> bool" where
  "words_underscore [] inword = inword"
| "words_underscore (c # cs) inword =
     (if c = CHR ''_'' then inword \<and> words_underscore cs False
      else c \<in> set (lower_az @ digits09) \<and> words_underscore cs True)"

definition has_prefix :: "string \<Rightarrow> string \<Rightarrow> bool" where
  "has_prefix p s \<longleftrightarrow> take (length p) s = p"

lemma has_prefix_iff: "has_prefix p s \<longleftrightarrow> (\<exists>t. s = p @ t)"
  unfolding has_prefix_def by (metis append_eq_conv_conj append_take_drop_id)

lemma has_prefix_append [simp]: "has_prefix p (p @ t)"
  by (simp add: has_prefix_def)

text \<open>The pattern \<open>prefix[0-9a-f]{n}\<close> under \<open>fullmatch\<close>.\<close>

definition matches_prefixed_hex :: "string \<Rightarrow> nat \<Rightarrow> string \<Rightarrow> bool" where
  "matches_prefixed_hex p n s \<longleftrightarrow> has_prefix p s \<and> matches_hex n (drop (length p) s)"

lemma matches_prefixed_hex_append [simp]:
  "matches_prefixed_hex p n (p @ t) = matches_hex n t"
  by (simp add: matches_prefixed_hex_def)

text \<open>
  Identifiers \<open>prefix_suffix\<close> whose suffix is words joined by single underscores.
\<close>

definition words_id :: "string \<Rightarrow> string \<Rightarrow> bool" where
  "words_id pre value \<longleftrightarrow>
     has_prefix (pre @ ''_'') value \<and> words_underscore (drop (length pre + 1) value) False"

text \<open>
  White space of \<open>str.strip\<close> among the code points below U+0100.
\<close>

definition is_space :: "char \<Rightarrow> bool" where
  "is_space c \<longleftrightarrow> (of_char c :: nat) \<in> {9, 10, 11, 12, 13, 28, 29, 30, 31, 32, 133, 160}"

definition strip :: "string \<Rightarrow> string" where
  "strip s = rev (dropWhile is_space (rev (dropWhile is_space s)))"

definition nfc :: "string \<Rightarrow> string" where
  "nfc s = s"

text \<open>\<open>sep.join(parts)\<close>.\<close>

fun join :: "string \<Rightarrow> string list \<Rightarrow> string" where
  "join sep [] = []"
| "join sep [x] = x"
| "join sep (x # y # ys) = x @ sep @ join sep (y # ys)"

text \<open>\<open>needle in haystack\<close> for strings.\<close>

fun contains :: "string \<Rightarrow> string \<Rightarrow> bool" where
  "contains [] needle = (needle = [])"
| "contains (c # cs) needle = (has_prefix needle (c # cs) \<or> contains cs needle)"

lemma contains_iff: "contains hay needle \<longleftrightarrow> (\<exists>pre post. hay = pre @ needle @ post)"
proof (induction hay)
  case Nil
  then show ?case by simp
next
  case (Cons c cs)
  have "(\<exists>pre post. c # cs = pre @ needle @ post) \<longleftrightarrow>
    (\<exists>post. c # cs = needle @ post) \<or> (\<exists>pre post. cs = pre @ needle @ post)"
    by (metis append_Cons append_Nil append_eq_Cons_conv)
  with Cons show ?case by (simp add: has_prefix_iff)
qed

lemma strip_eq_self_iff:
  "strip s = s \<longleftrightarrow> s = [] \<or> \<not> is_space (hd s) \<and> \<not> is_space (last s)"
proof (cases "s = [] \<or> \<not> is_space (hd s)")
  case True
  then have drop: "dropWhile is_space s = s" by (cases s) auto
  have "strip s = s \<longleftrightarrow> dropWhile is_space (rev s) = rev s"
    unfolding strip_def drop by (metis rev_rev_ident)
  with True show ?thesis by (auto simp: dropWhile_eq_self_iff hd_rev)
next
  case False
  then obtain c cs where s: "s = c # cs" "is_space c" by (cases s) auto
  have "length (strip s) \<le> length (dropWhile is_space s)"
    unfolding strip_def by (metis length_rev length_dropWhile_le)
  also have "\<dots> \<le> length cs" using s by (simp add: length_dropWhile_le)
  finally have "strip s \<noteq> s" using s by auto
  with False show ?thesis by simp
qed

end
