(* ===== verification/Sha256.thy ===== *)
theory Sha256
  imports Prelude "HOL-Library.Word"
begin

unbundle bit_operations_syntax

text \<open>
  SHA-256 as FIPS 180-4 defines it, standing for \<open>hashlib.sha256\<close> of the standard
  library: padding to 64-byte blocks, the message schedule, 64 rounds of compression
  per block on words of 32 bits, and the hexadecimal rendering of the digest.  The
  other theories use it through two facts: the digest is 64 lowercase hexadecimal
  digits, and it is a function of the bytes.
\<close>

type_synonym byte = "8 word"
type_synonym w32 = "32 word"

text \<open>
  The constants are the first 32 bits of the fractional parts of the cube roots of the
  first 64 primes, and of the square roots of the first eight; \<open>int_root k n b acc\<close>
  finds the integer \<open>k\<close>-th root of \<open>n\<close> bit by bit.
\<close>

definition first_primes :: "nat list" where
  "first_primes =
     [2, 3, 5, 7, 11, 13, 17, 19, 23, 29, 31, 37, 41, 43, 47, 53,
      59, 61, 67, 71, 73, 79, 83, 89, 97, 101, 103, 107, 109, 113, 127, 131,
      137, 139, 149, 151, 157, 163, 167, 173, 179, 181, 191, 193, 197, 199, 211, 223,
      227, 229, 233, 239, 241, 251, 257, 263, 269, 271, 277, 281, 283, 293, 307, 311]"

fun int_root :: "nat \<Rightarrow> nat \<Rightarrow> nat \<Rightarrow> nat \<Rightarrow> nat" where
  "int_root k n 0 acc = acc"
| "int_root k n (Suc b) acc =
     int_root k n b (if (acc + 2 ^ b) ^ k \<le> n then acc + 2 ^ b else acc)"

definition root_fraction :: "nat \<Rightarrow> nat \<Rightarrow> w32" where
  "root_fraction k p = word_of_nat (int_root k (p * 2 ^ (32 * k)) 40 0)"

definition sha_k :: "w32 list" where
  "sha_k = map (root_fraction 3) first_primes"

definition sha_h0 :: "w32 list" where
  "sha_h0 = map (root_fraction 2) (take 8 first_primes)"

definition rotr32 :: "nat \<Rightarrow> w32 \<Rightarrow> w32" where
  "rotr32 n x = drop_bit n x OR push_bit (32 - n) x"

definition sha_ch :: "w32 \<Rightarrow> w32 \<Rightarrow> w32 \<Rightarrow> w32" where
  "sha_ch x y z = (x AND y) XOR (NOT x AND z)"

definition sha_maj :: "w32 \<Rightarrow> w32 \<Rightarrow> w32 \<Rightarrow> w32" where
  "sha_maj x y z = (x AND y) XOR (x AND z) XOR (y AND z)"

definition sha_Sigma0 :: "w32 \<Rightarrow> w32" where
  "sha_Sigma0 x = rotr32 2 x XOR rotr32 13 x XOR rotr32 22 x"

definition sha_Sigma1 :: "w32 \<Rightarrow> w32" where
  "sha_Sigma1 x = rotr32 6 x XOR rotr32 11 x XOR rotr32 25 x"

definition sha_sigma0 :: "w32 \<Rightarrow> w32" where
  "sha_sigma0 x = rotr32 7 x XOR rotr32 18 x XOR drop_bit 3 x"

definition sha_sigma1 :: "w32 \<Rightarrow> w32" where
  "sha_sigma1 x = rotr32 17 x XOR rotr32 19 x XOR drop_bit 10 x"

definition be_bytes :: "nat \<Rightarrow> nat \<Rightarrow> byte list" where
  "be_bytes k n = map (\<lambda>i. word_of_nat (n div 256 ^ (k - 1 - i))) [0..<k]"

definition sha_pad :: "byte list \<Rightarrow> byte list" where
  "sha_pad m =
     (let n = length m; z = (119 - n mod 64) mod 64
      in m @ [0x80] @ replicate z 0 @ be_bytes 8 (8 * n))"

fun be_words :: "byte list \<Rightarrow> w32 list" where
  "be_words (a # b # c # d # rest) =
     (push_bit 24 (ucast a) OR push_bit 16 (ucast b) OR push_bit 8 (ucast c) OR ucast d)
     # be_words rest"
| "be_words _ = []"

text \<open>The schedule is kept newest word first.\<close>

fun sha_extend :: "nat \<Rightarrow> w32 list \<Rightarrow> w32 list" where
  "sha_extend 0 ws = ws"
| "sha_extend (Suc k) ws =
     sha_extend k
       ((sha_sigma1 (ws ! 1) + ws ! 6 + sha_sigma0 (ws ! 14) + ws ! 15) # ws)"

definition sha_schedule :: "byte list \<Rightarrow> w32 list" where
  "sha_schedule block = rev (sha_extend 48 (rev (be_words block)))"

type_synonym sha_state = "w32 \<times> w32 \<times> w32 \<times> w32 \<times> w32 \<times> w32 \<times> w32 \<times> w32"

fun sha_round :: "sha_state \<Rightarrow> w32 \<times> w32 \<Rightarrow> sha_state" where
  "sha_round (a, b, c, d, e, f, g, h) (k, w) =
     (let t1 = h + sha_Sigma1 e + sha_ch e f g + k + w;
          t2 = sha_Sigma0 a + sha_maj a b c
      in (t1 + t2, a, b, c, d + t1, e, f, g))"

fun sha_state_of :: "w32 list \<Rightarrow> sha_state" where
  "sha_state_of [a, b, c, d, e, f, g, h] = (a, b, c, d, e, f, g, h)"
| "sha_state_of _ = (0, 0, 0, 0, 0, 0, 0, 0)"

fun sha_list_of :: "sha_state \<Rightarrow> w32 list" where
  "sha_list_of (a, b, c, d, e, f, g, h) = [a, b, c, d, e, f, g, h]"

definition sha_compress :: "w32 list \<Rightarrow> byte list \<Rightarrow> w32 list" where
  "sha_compress hs block =
     map2 (+) hs
       (sha_list_of (foldl sha_round (sha_state_of hs) (zip sha_k (sha_schedule block))))"

function sha_blocks :: "w32 list \<Rightarrow> byte list \<Rightarrow> w32 list" where
  "sha_blocks hs m =
     (if m = [] then hs else sha_blocks (sha_compress hs (take 64 m)) (drop 64 m))"
  by pat_completeness auto
termination
  by (relation "measure (\<lambda>(hs, m). length m)") auto

declare sha_blocks.simps [simp del]

definition sha256 :: "byte list \<Rightarrow> w32 list" where
  "sha256 m = sha_blocks sha_h0 (sha_pad m)"

text \<open>\<open>hexdigest()\<close>: eight lowercase hexadecimal digits per word, most significant first.\<close>

definition hex_nibble :: "nat \<Rightarrow> char" where
  "hex_nibble n = hexdigits ! (n mod 16)"

definition hex_word32 :: "w32 \<Rightarrow> string" where
  "hex_word32 w = map (\<lambda>i. hex_nibble (unat w div 16 ^ (7 - i))) [0..<8]"

definition sha256_hexdigest :: "byte list \<Rightarrow> string" where
  "sha256_hexdigest m = concat (map hex_word32 (sha256 m))"

lemma length_sha_list_of [simp]: "length (sha_list_of s) = 8"
  by (cases s rule: sha_list_of.cases) simp

lemma length_sha_compress: "length hs = 8 \<Longrightarrow> length (sha_compress hs b) = 8"
  by (simp add: sha_compress_def)

lemma length_sha_blocks: "length hs = 8 \<Longrightarrow> length (sha_blocks hs m) = 8"
proof (induction hs m rule: sha_blocks.induct)
  case (1 hs m)
  then show ?case
    by (subst sha_blocks.simps) (simp add: length_sha_compress)
qed

lemma length_sha256: "length (sha256 m) = 8"
  by (simp add: sha256_def length_sha_blocks sha_h0_def first_primes_def)

lemma hex_nibble_in: "hex_nibble n \<in> set hexdigits"
proof -
  have "n mod 16 < length hexdigits" by (simp add: hexdigits_def)
  then show ?thesis unfolding hex_nibble_def by (rule nth_mem)
qed

lemma matches_hex_append:
  "matches_hex n s \<Longrightarrow> matches_hex m t \<Longrightarrow> matches_hex (n + m) (s @ t)"
  by (simp add: matches_hex_def)

lemma matches_hex_word32: "matches_hex 8 (hex_word32 w)"
  by (simp add: matches_hex_def hex_word32_def list_all_iff hex_nibble_in)

lemma matches_hex_concat_words: "matches_hex (8 * length ws) (concat (map hex_word32 ws))"
proof (induction ws)
  case Nil
  then show ?case by (simp add: matches_hex_def)
next
  case (Cons w ws)
  from matches_hex_append [OF matches_hex_word32 [of w] Cons.IH] show ?case by simp
qed

theorem sha256_hexdigest_format: "matches_hex 64 (sha256_hexdigest m)"
  using matches_hex_concat_words [of "sha256 m"]
  by (simp add: sha256_hexdigest_def length_sha256)

end
