(* ===== verification/Canonical.thy ===== *)
theory Canonical
  imports Sha256
begin

text \<open>
  The deterministic contracts of \<open>src/dithyramba/contracts\<close>: canonical JSON
  (\<open>canonical.py\<close>), SHA-256 helpers (\<open>hashing.py\<close>) and identifiers
  (\<open>identifiers.py\<close>).

  \<open>normalize\<close> is \<open>_normalize\<close> over an explicit store, because the code tracks the
  identity of the containers on the path to the current value: a Python value is a
  scalar or the address of a list or dict in a heap, which may be shared or cyclic.
  Its result is a tree of type \<open>json\<close>, and \<open>canonical_json_bytes\<close> serializes such
  trees.  The payloads the other components hash are fresh dict literals, that is,
  trees whose keys are distinct at every level (\<open>json_wf\<close>); on them the Python entry
  point cannot raise, and the components use the total function on trees.
\<close>

subsection \<open>Values\<close>

datatype pyval =
    PNone
  | PBool bool
  | PInt int
  | PFloat
  | PStr string
  | PRef nat
  | POther string

datatype container =
    CList "pyval list"
  | CDict "(pyval \<times> pyval) list"

type_synonym heap = "(nat \<times> container) list"

datatype json =
    JNull
  | JBool bool
  | JInt int
  | JStr string
  | JList "json list"
  | JObj "(string \<times> json) list"

fun json_wf :: "json \<Rightarrow> bool" where
  "json_wf (JList js) = list_all json_wf js"
| "json_wf (JObj kvs) = (distinct (map fst kvs) \<and> list_all (\<lambda>kv. json_wf (snd kv)) kvs)"
| "json_wf _ = True"

text \<open>
  Decimal rendering.  \<open>int.__repr__\<close> refuses more than 4300 digits with a
  \<open>ValueError\<close>.
\<close>

fun nat_repr :: "nat \<Rightarrow> string" where
  "nat_repr n =
     (if n < 10 then [digits09 ! n] else nat_repr (n div 10) @ [digits09 ! (n mod 10)])"

declare nat_repr.simps [simp del]

definition int_repr :: "int \<Rightarrow> string" where
  "int_repr i = (if i < 0 then CHR ''-'' # nat_repr (nat (- i)) else nat_repr (nat i))"

definition max_str_digits :: nat where
  "max_str_digits = 4300"

fun ints_printable :: "json \<Rightarrow> bool" where
  "ints_printable (JInt i) = (length (nat_repr (nat \<bar>i\<bar>)) \<le> max_str_digits)"
| "ints_printable (JList js) = list_all ints_printable js"
| "ints_printable (JObj kvs) = list_all (\<lambda>kv. ints_printable (snd kv)) kvs"
| "ints_printable _ = True"

subsection \<open>Normalization over the heap\<close>

definition type_name :: "pyval \<Rightarrow> string" where
  "type_name v =
     (case v of PNone \<Rightarrow> ''NoneType'' | PBool _ \<Rightarrow> ''bool'' | PInt _ \<Rightarrow> ''int''
      | PFloat \<Rightarrow> ''float'' | PStr _ \<Rightarrow> ''str'' | PRef _ \<Rightarrow> ''container'' | POther t \<Rightarrow> t)"

definition unsupported :: "string \<Rightarrow> string \<Rightarrow> error" where
  "unsupported t path =
     UnsupportedCanonicalTypeError (''unsupported canonical type '' @ t @ '' at '' @ path)"

text \<open>
  Termination: entering a container removes its address from the inactive ones; the
  loops over items and entries consume their list.
\<close>

definition inactive :: "heap \<Rightarrow> nat list \<Rightarrow> nat" where
  "inactive h act = card (fst ` set h - set act)"

lemma inactive_decreases:
  assumes "map_of h a = Some c" and "a \<notin> set act"
  shows "inactive h (a # act) < inactive h act"
proof -
  from assms(1) have "a \<in> fst ` set h" by (metis domI dom_map_of_conv_image_fst)
  then have "fst ` set h - set (a # act) \<subset> fst ` set h - set act"
    using assms(2) by auto
  then show ?thesis unfolding inactive_def by (rule psubset_card_mono [rotated]) simp
qed

text \<open>
  \<open>nf\<close> stands for \<open>unicodedata.normalize("NFC", _)\<close>, \<open>act\<close> for the set of active
  containers (the ones on the path to the value), \<open>path\<close> for the location used in
  messages.  The entry loop carries the dict built so far.
\<close>

function (sequential)
  normalize :: "(string \<Rightarrow> string) \<Rightarrow> heap \<Rightarrow> nat list \<Rightarrow> string \<Rightarrow> pyval \<Rightarrow> json res"
  and normalize_items ::
    "(string \<Rightarrow> string) \<Rightarrow> heap \<Rightarrow> nat list \<Rightarrow> string \<Rightarrow> nat \<Rightarrow> pyval list \<Rightarrow> json list res"
  and normalize_entries ::
    "(string \<Rightarrow> string) \<Rightarrow> heap \<Rightarrow> nat list \<Rightarrow> string \<Rightarrow> (string \<times> json) list \<Rightarrow>
       (pyval \<times> pyval) list \<Rightarrow> (string \<times> json) list res"
where
  "normalize nf h act path PNone = Inr JNull"
| "normalize nf h act path (PBool b) = Inr (JBool b)"
| "normalize nf h act path (PInt i) = Inr (JInt i)"
| "normalize nf h act path (PStr s) = Inr (JStr (nf s))"
| "normalize nf h act path PFloat =
     Inl (UnsupportedCanonicalTypeError (''floats are forbidden at '' @ path))"
| "normalize nf h act path (PRef a) =
     (case map_of h a of
        None \<Rightarrow> Inl (unsupported ''container'' path)
      | Some c \<Rightarrow>
          if a \<in> set act
          then Inl (CanonicalizationError (''cyclic container reference at '' @ path))
          else
            (case c of
               CList vs \<Rightarrow>
                 res_bind (normalize_items nf h (a # act) path 0 vs) (\<lambda>js. Inr (JList js))
             | CDict kvs \<Rightarrow>
                 res_bind (normalize_entries nf h (a # act) path [] kvs)
                   (\<lambda>es. Inr (JObj es))))"
| "normalize nf h act path (POther t) = Inl (unsupported t path)"
| "normalize_items nf h act path i [] = Inr []"
| "normalize_items nf h act path i (v # vs) =
     res_bind (normalize nf h act (path @ ''['' @ nat_repr i @ '']'') v)
       (\<lambda>j. res_bind (normalize_items nf h act path (Suc i) vs) (\<lambda>js. Inr (j # js)))"
| "normalize_entries nf h act path done [] = Inr done"
| "normalize_entries nf h act path done ((k, v) # kvs) =
     (case k of
        PStr s \<Rightarrow>
          if nf s \<in> set (map fst done)
          then Inl (NormalizationCollisionError
                 (''keys at '' @ path @ '' normalize to '' @ nf s))
          else res_bind (normalize nf h act (path @ ''.'' @ nf s) v)
            (\<lambda>j. normalize_entries nf h act path (done @ [(nf s, j)]) kvs)
      | _ \<Rightarrow> Inl (InvalidCanonicalKeyError
               (''mapping key at '' @ path @ '' must be str, got '' @ type_name k)))"
  by pat_completeness auto

termination
  by (relation "measures
       [\<lambda>x. (case x of Inl (nf, h, act, path, v) \<Rightarrow> inactive h act
         | Inr (Inl (nf, h, act, path, i, vs)) \<Rightarrow> inactive h act
         | Inr (Inr (nf, h, act, path, dn, kvs)) \<Rightarrow> inactive h act),
        \<lambda>x. (case x of Inl (nf, h, act, path, v) \<Rightarrow> 0
         | Inr (Inl (nf, h, act, path, i, vs)) \<Rightarrow> Suc (length vs)
         | Inr (Inr (nf, h, act, path, dn, kvs)) \<Rightarrow> Suc (length kvs))]")
    (auto intro: inactive_decreases)

subsection \<open>Serialization\<close>

text \<open>
  \<open>json.dumps(..., ensure_ascii=False, sort_keys=True, separators=(",", ":"))\<close>: the
  escapes of strings, the members of an object in increasing order of their keys, and
  no white space.
\<close>

definition escape_char :: "char \<Rightarrow> string" where
  "escape_char c =
     (if c = CHR 0x22 then [CHR 0x5C, CHR 0x22]
      else if c = CHR 0x5C then [CHR 0x5C, CHR 0x5C]
      else if c = CHR 0x0A then [CHR 0x5C, CHR ''n'']
      else if c = CHR 0x0D then [CHR 0x5C, CHR ''r'']
      else if c = CHR 0x09 then [CHR 0x5C, CHR ''t'']
      else if c = CHR 0x0C then [CHR 0x5C, CHR ''f'']
      else if c = CHR 0x08 then [CHR 0x5C, CHR ''b'']
      else if (of_char c :: nat) < 32
      then [CHR 0x5C, CHR ''u'', CHR ''0'', CHR ''0'',
            hex_nibble (of_char c div 16), hex_nibble (of_char c)]
      else [c])"

definition quote :: "string \<Rightarrow> string" where
  "quote s = CHR 0x22 # concat (map escape_char s) @ [CHR 0x22]"

fun canon :: "json \<Rightarrow> json" where
  "canon (JList js) = JList (map canon js)"
| "canon (JObj kvs) = JObj (sort_key fst (map (\<lambda>kv. (fst kv, canon (snd kv))) kvs))"
| "canon j = j"

fun emit :: "json \<Rightarrow> string"
  and emit_items :: "json list \<Rightarrow> string"
  and emit_members :: "(string \<times> json) list \<Rightarrow> string"
where
  "emit JNull = ''null''"
| "emit (JBool b) = (if b then ''true'' else ''false'')"
| "emit (JInt i) = int_repr i"
| "emit (JStr s) = quote s"
| "emit (JList js) = ''['' @ emit_items js @ '']''"
| "emit (JObj kvs) = ''{'' @ emit_members kvs @ ''}''"
| "emit_items [] = []"
| "emit_items (j # js) = emit j @ (if js = [] then [] else CHR '','' # emit_items js)"
| "emit_members [] = []"
| "emit_members (kv # kvs) =
     quote (fst kv) @ CHR '':'' # emit (snd kv) @
       (if kvs = [] then [] else CHR '','' # emit_members kvs)"

definition dumps :: "json \<Rightarrow> string" where
  "dumps j = emit (canon j)"

text \<open>\<open>str.encode("utf-8")\<close> on code points below U+0100.\<close>

definition utf8_char :: "char \<Rightarrow> byte list" where
  "utf8_char c =
     (let n = of_char c :: nat
      in if n < 128 then [word_of_nat n]
         else [word_of_nat (192 + n div 64), word_of_nat (128 + n mod 64)])"

definition utf8 :: "string \<Rightarrow> byte list" where
  "utf8 s = concat (map utf8_char s)"

definition canonical_json_bytes :: "json \<Rightarrow> byte list" where
  "canonical_json_bytes j = utf8 (dumps j)"

text \<open>The Python entry point: normalize the value at the root path, then serialize.\<close>

definition py_canonical_json_bytes :: "(string \<Rightarrow> string) \<Rightarrow> heap \<Rightarrow> pyval \<Rightarrow> byte list res" where
  "py_canonical_json_bytes nf h v =
     res_bind (normalize nf h [] ''$'' v)
       (\<lambda>j. if ints_printable j then Inr (canonical_json_bytes j)
            else Inl (CanonicalizationError ''value cannot be serialized canonically''))"

subsection \<open>Hashing and identifiers\<close>

definition sha256_hex :: "byte list \<Rightarrow> string" where
  "sha256_hex payload = sha256_hexdigest payload"

definition sha256_digest :: "byte list \<Rightarrow> string" where
  "sha256_digest payload = ''sha256:'' @ sha256_hex payload"

definition canonical_sha256_hex :: "json \<Rightarrow> string" where
  "canonical_sha256_hex v = sha256_hex (canonical_json_bytes v)"

definition canonical_sha256_digest :: "json \<Rightarrow> string" where
  "canonical_sha256_digest v = sha256_digest (canonical_json_bytes v)"

text \<open>
  The prefix grammar \<open>[a-z][a-z0-9]*(?:_[a-z0-9]+)*\<close> with at most 32 characters.
\<close>

definition valid_prefix :: "string \<Rightarrow> bool" where
  "valid_prefix p \<longleftrightarrow>
     length p \<le> 32 \<and>
     (case p of [] \<Rightarrow> False | c # cs \<Rightarrow> c \<in> set lower_az \<and> words_underscore p False)"

definition validate_prefix :: "string \<Rightarrow> string res" where
  "validate_prefix p =
     (if valid_prefix p then Inr p
      else Inl (InvalidIdentifierPrefixError
        ''identifier prefix must be 1-32 lowercase ASCII letters/digits with single internal underscores, starting with a letter''))"

text \<open>\<open>hex\<close> stands for the 32 hexadecimal digits of a fresh UUID4.\<close>

definition random_id :: "string \<Rightarrow> string \<Rightarrow> string res" where
  "random_id hex p = res_bind (validate_prefix p) (\<lambda>v. Inr (v @ ''_'' @ hex))"

definition content_id :: "string \<Rightarrow> byte list \<Rightarrow> string res" where
  "content_id p payload =
     res_bind (validate_prefix p) (\<lambda>v. Inr (v @ ''_'' @ take 32 (sha256_hex payload)))"

definition canonical_content_id_res :: "string \<Rightarrow> json \<Rightarrow> string res" where
  "canonical_content_id_res p v = content_id p (canonical_json_bytes v)"

text \<open>
  Every call in the package passes a literal prefix that satisfies the grammar, so the
  components use the value of the successful branch.
\<close>

definition canonical_content_id :: "string \<Rightarrow> json \<Rightarrow> string" where
  "canonical_content_id p v = p @ ''_'' @ take 32 (sha256_hex (canonical_json_bytes v))"

lemma canonical_content_id_res_valid:
  "valid_prefix p \<Longrightarrow> canonical_content_id_res p v = Inr (canonical_content_id p v)"
  by (simp add: canonical_content_id_res_def content_id_def validate_prefix_def
      canonical_content_id_def)

subsection \<open>Injectivity of the encoding\<close>

definition is_digit :: "char \<Rightarrow> bool" where
  "is_digit c \<longleftrightarrow> c \<in> set digits09"

definition digits_value :: "string \<Rightarrow> nat" where
  "digits_value s = foldl (\<lambda>a c. 10 * a + (of_char c - 48)) 0 s"

lemma digit_char: "n < 10 \<Longrightarrow> is_digit (digits09 ! n) \<and> of_char (digits09 ! n) = (48 + n :: nat)"
proof -
  assume "n < 10"
  then have "n \<in> {0, 1, 2, 3, 4, 5, 6, 7, 8, 9}" by auto
  then show ?thesis by (auto simp: digits09_def is_digit_def)
qed

lemma nat_repr_digits: "list_all is_digit (nat_repr n)"
proof (induction n rule: nat_repr.induct)
  case (1 n)
  then show ?case by (subst nat_repr.simps) (simp add: digit_char)
qed

lemma nat_repr_value: "digits_value (nat_repr n) = n"
proof (induction n rule: nat_repr.induct)
  case (1 n)
  then show ?case by (subst nat_repr.simps) (auto simp: digits_value_def digit_char)
qed

lemma nat_repr_nonempty: "nat_repr n \<noteq> []"
  by (subst nat_repr.simps) simp

definition no_digit_head :: "string \<Rightarrow> bool" where
  "no_digit_head r \<longleftrightarrow> r = [] \<or> \<not> is_digit (hd r)"

lemma takeWhile_digits:
  "list_all is_digit ds \<Longrightarrow> no_digit_head r \<Longrightarrow> takeWhile is_digit (ds @ r) = ds"
  by (induction ds) (cases r, auto simp: no_digit_head_def)

lemma nat_repr_append_eq:
  assumes "nat_repr n @ r = nat_repr m @ r'" and "no_digit_head r" and "no_digit_head r'"
  shows "n = m \<and> r = r'"
proof -
  have "nat_repr n = nat_repr m"
    using assms takeWhile_digits [OF nat_repr_digits] by metis
  then show ?thesis using assms(1) nat_repr_value by (metis append_same_eq same_append_eq)
qed

lemma nat_repr_hd: "is_digit (hd (nat_repr n))"
  using nat_repr_digits [of n] nat_repr_nonempty [of n] by (cases "nat_repr n") auto

lemma not_is_digit_minus [simp]: "\<not> is_digit CHR ''-''"
  by (simp add: is_digit_def digits09_def)

lemma int_repr_append_eq:
  assumes eq: "int_repr i @ r = int_repr k @ r'" and "no_digit_head r" and "no_digit_head r'"
  shows "i = k \<and> r = r'"
proof -
  have hd: "nat_repr n @ s \<noteq> CHR ''-'' # t" for n s t
    using nat_repr_hd [of n] nat_repr_nonempty [of n]
    by (cases "nat_repr n") auto
  show ?thesis
    using assms hd [of "nat i"] hd [of "nat k"] not_sym [OF hd [of "nat i"]] not_sym [OF hd [of "nat k"]]
    by (auto simp: int_repr_def dest!: nat_repr_append_eq split: if_splits)
qed

lemma hex_nibble_inj: "a < 16 \<Longrightarrow> b < 16 \<Longrightarrow> hex_nibble a = hex_nibble b \<Longrightarrow> a = b"
proof -
  have d: "distinct hexdigits" by (simp add: hexdigits_def)
  assume "a < 16" "b < 16" "hex_nibble a = hex_nibble b"
  then have "hexdigits ! a = hexdigits ! b" "a < length hexdigits" "b < length hexdigits"
    by (simp_all add: hex_nibble_def) (simp_all add: hexdigits_def)
  with d show ?thesis by (simp add: nth_eq_iff_index_eq)
qed

text \<open>The reader of one escaped character.\<close>

definition hex_value :: "char \<Rightarrow> nat" where
  "hex_value c = length (takeWhile (\<lambda>x. x \<noteq> c) hexdigits)"

lemma hex_value_nibble: "hex_value (hex_nibble n) = n mod 16"
proof -
  have "list_all (\<lambda>m. hex_value (hex_nibble m) = m) [0..<16]" by code_simp
  then have "hex_value (hex_nibble (n mod 16)) = n mod 16" by (simp only: list_all_iff set_upt) simp
  then show ?thesis by (simp add: hex_nibble_def)
qed

definition unescape :: "string \<Rightarrow> char" where
  "unescape s =
     (case s of
        [c] \<Rightarrow> c
      | [_, e] \<Rightarrow>
          (if e = CHR ''n'' then CHR 0x0A else if e = CHR ''r'' then CHR 0x0D
           else if e = CHR ''t'' then CHR 0x09 else if e = CHR ''f'' then CHR 0x0C
           else if e = CHR ''b'' then CHR 0x08 else e)
      | [_, _, _, _, x, y] \<Rightarrow> char_of (16 * hex_value x + hex_value y)
      | _ \<Rightarrow> CHR 0x00)"

lemma unescape_escape: "unescape (escape_char c) = c"
proof (cases "(of_char c :: nat) < 32")
  case True
  have "16 * (of_char c div 16 mod 16) + of_char c mod 16 = (of_char c :: nat)"
    using True by simp
  then show ?thesis
    by (simp add: escape_char_def unescape_def hex_value_nibble)
next
  case False
  then show ?thesis by (simp add: escape_char_def unescape_def)
qed

definition escape_length :: "string \<Rightarrow> nat" where
  "escape_length s =
     (case s of x # y # _ \<Rightarrow> (if x \<noteq> CHR 0x5C then 1 else if y = CHR ''u'' then 6 else 2)
      | _ \<Rightarrow> 1)"

lemma escape_length_eq: "escape_length (escape_char c @ s) = length (escape_char c)"
  by (cases s) (auto simp: escape_length_def escape_char_def)

lemma escape_append_eq:
  assumes "escape_char c @ s = escape_char d @ t"
  shows "c = d \<and> s = t"
proof -
  have "length (escape_char c) = length (escape_char d)"
    using assms escape_length_eq by metis
  with assms have "escape_char c = escape_char d" "s = t" by simp_all
  then show ?thesis using unescape_escape by metis
qed

lemma escape_not_quote: "escape_char c @ s \<noteq> CHR 0x22 # t"
  by (auto simp: escape_char_def)

lemma escape_not_quote': "CHR 0x22 # t \<noteq> escape_char c @ s"
  using escape_not_quote [of c s t] by metis

lemma escapes_append_eq:
  "concat (map escape_char s) @ CHR 0x22 # r = concat (map escape_char t) @ CHR 0x22 # r' \<Longrightarrow>
   s = t \<and> r = r'"
proof (induction s arbitrary: t)
  case Nil
  then show ?case
    by (cases t) (simp_all add: escape_not_quote')
next
  case (Cons c cs)
  show ?case
  proof (cases t)
    case Nil
    with Cons.prems show ?thesis by (simp add: escape_not_quote)
  next
    case (Cons d ds)
    with Cons.prems have
      "escape_char c @ (concat (map escape_char cs) @ CHR 0x22 # r) =
       escape_char d @ (concat (map escape_char ds) @ CHR 0x22 # r')" by simp
    from escape_append_eq [OF this] Cons.IH [of ds] Cons show ?thesis by simp
  qed
qed

lemma quote_append_eq:
  assumes "quote s @ r = quote t @ r'"
  shows "s = t \<and> r = r'"
  by (rule escapes_append_eq) (use assms in \<open>simp add: quote_def\<close>)

text \<open>The first character of a value tells its kind.\<close>

definition head_kind :: "char \<Rightarrow> nat" where
  "head_kind c =
     (if c = CHR ''n'' then 0 else if c = CHR ''t'' \<or> c = CHR ''f'' then 1
      else if c = CHR ''-'' \<or> is_digit c then 2 else if c = CHR 0x22 then 3
      else if c = CHR ''['' then 4 else if c = CHR ''{'' then 5 else 6)"

definition json_kind :: "json \<Rightarrow> nat" where
  "json_kind j =
     (case j of JNull \<Rightarrow> 0 | JBool _ \<Rightarrow> 1 | JInt _ \<Rightarrow> 2 | JStr _ \<Rightarrow> 3 | JList _ \<Rightarrow> 4 | JObj _ \<Rightarrow> 5)"

lemma emit_nonempty: "emit j \<noteq> []"
  by (cases j) (simp_all add: int_repr_def nat_repr_nonempty quote_def)

lemma head_kind_emit: "head_kind (hd (emit j)) = json_kind j"
proof (cases j)
  case (JInt i)
  have "head_kind (hd (nat_repr n)) = 2" for n
    using nat_repr_hd [of n] by (auto simp: head_kind_def is_digit_def digits09_def)
  then show ?thesis by (simp add: JInt int_repr_def json_kind_def) (simp add: head_kind_def)
qed (simp_all add: head_kind_def json_kind_def quote_def is_digit_def digits09_def)

definition value_end :: "string \<Rightarrow> bool" where
  "value_end r \<longleftrightarrow> r = [] \<or> hd r \<in> {CHR '','', CHR '']'', CHR ''}''}"

lemma value_end_no_digit: "value_end r \<Longrightarrow> no_digit_head r"
  by (auto simp: value_end_def no_digit_head_def is_digit_def digits09_def)

lemma value_end_Cons [simp]:
  "value_end (CHR '','' # r)" "value_end (CHR '']'' # r)" "value_end (CHR ''}'' # r)"
  by (simp_all add: value_end_def)

lemma emit_kind_eq: "emit j @ r = emit k @ r' \<Longrightarrow> json_kind j = json_kind k"
  by (metis emit_nonempty hd_append2 head_kind_emit)

lemma emit_not_bracket: "emit j @ r \<noteq> CHR '']'' # r'"
  using head_kind_emit [of j] emit_nonempty [of j]
  by (cases "emit j") (auto simp: head_kind_def json_kind_def is_digit_def digits09_def split: json.splits)

lemma emit_not_bracket': "CHR '']'' # r' \<noteq> emit j @ r"
  using emit_not_bracket [of j r r'] by metis

lemma quote_not_brace: "quote s @ r \<noteq> CHR ''}'' # r'"
  by (simp add: quote_def)

lemma emit_append_eq:
  "value_end r \<Longrightarrow> value_end r' \<Longrightarrow> emit j @ r = emit k @ r' \<Longrightarrow> j = k \<and> r = r'"
  "emit_items js @ CHR '']'' # s = emit_items ks @ CHR '']'' # s' \<Longrightarrow> js = ks \<and> s = s'"
  "emit_members ms @ CHR ''}'' # t = emit_members ns @ CHR ''}'' # t' \<Longrightarrow> ms = ns \<and> t = t'"
proof (induction j and js and ms arbitrary: k r r' and ks s s' and ns t t'
    rule: emit_emit_items_emit_members.induct)
  case 1
  from emit_kind_eq [OF 1(3)] 1 show ?case by (cases k) (simp_all add: json_kind_def)
next
  case (2 b)
  from emit_kind_eq [OF 2(3)] 2 show ?case
    by (cases k) (auto simp: json_kind_def split: if_splits)
next
  case (3 i)
  from emit_kind_eq [OF 3(3)] 3 show ?case
    by (cases k) (auto simp: json_kind_def dest!: int_repr_append_eq value_end_no_digit)
next
  case (4 x)
  from emit_kind_eq [OF 4(3)] 4 show ?case
    using quote_append_eq [of x r _ r'] by (cases k) (simp_all add: json_kind_def)
next
  case (5 xs)
  from emit_kind_eq [OF 5(4)] obtain ys where k: "k = JList ys"
    by (cases k) (simp_all add: json_kind_def)
  with 5(4) have "emit_items xs @ CHR '']'' # r = emit_items ys @ CHR '']'' # r'" by simp
  from 5(1) [OF this] k show ?case by simp
next
  case (6 kvs)
  from emit_kind_eq [OF 6(4)] obtain ns where k: "k = JObj ns"
    by (cases k) (simp_all add: json_kind_def)
  with 6(4) have "emit_members kvs @ CHR ''}'' # r = emit_members ns @ CHR ''}'' # r'" by simp
  from 6(1) [OF this] k show ?case by simp
next
  case 7
  then show ?case
    by (cases ks) (simp_all add: emit_not_bracket')
next
  case (8 x xs)
  show ?case
  proof (cases ks)
    case Nil
    with 8 show ?thesis by (auto simp: emit_not_bracket split: if_splits)
  next
    case (Cons y ys)
    let ?tail = "\<lambda>zs u. (if zs = [] then [] else CHR '','' # emit_items zs) @ CHR '']'' # u"
    from 8(3) Cons have "emit x @ ?tail xs s = emit y @ ?tail ys s'" by simp
    from 8(1) [OF _ _ this] have x: "x = y" and tail: "?tail xs s = ?tail ys s'" by auto
    have "xs = ys \<and> s = s'"
    proof (cases "xs = [] \<or> ys = []")
      case True
      with tail show ?thesis by (auto split: if_splits)
    next
      case False
      with tail have "emit_items xs @ CHR '']'' # s = emit_items ys @ CHR '']'' # s'" by simp
      from 8(2) [OF _ this] False show ?thesis by blast
    qed
    with x Cons show ?thesis by simp
  qed
next
  case 9
  then show ?case
    by (cases ns) (simp_all add: quote_def)
next
  case (10 m ms)
  show ?case
  proof (cases ns)
    case Nil
    with 10 show ?thesis by (auto simp: quote_not_brace split: if_splits)
  next
    case (Cons n ns')
    let ?tail = "\<lambda>zs u. (if zs = [] then [] else CHR '','' # emit_members zs) @ CHR ''}'' # u"
    from 10(3) Cons have
      "quote (fst m) @ CHR '':'' # emit (snd m) @ ?tail ms t =
       quote (fst n) @ CHR '':'' # emit (snd n) @ ?tail ns' t'" by simp
    then have key: "fst m = fst n"
      and val: "emit (snd m) @ ?tail ms t = emit (snd n) @ ?tail ns' t'"
      by (auto dest!: quote_append_eq)
    from 10(1) [OF _ _ val] have snd: "snd m = snd n" and tail: "?tail ms t = ?tail ns' t'" by auto
    have "ms = ns' \<and> t = t'"
    proof (cases "ms = [] \<or> ns' = []")
      case True
      with tail show ?thesis by (auto split: if_splits)
    next
      case False
      with tail have "emit_members ms @ CHR ''}'' # t = emit_members ns' @ CHR ''}'' # t'" by simp
      from 10(2) [OF _ this] False show ?thesis by blast
    qed
    with snd key Cons show ?thesis by (simp add: prod_eq_iff)
  qed
qed

lemma emit_inj: "emit j = emit k \<Longrightarrow> j = k"
  using emit_append_eq(1) [of "[]" "[]" j k] by (simp add: value_end_def)

fun utf8_decode :: "byte list \<Rightarrow> string" where
  "utf8_decode [] = []"
| "utf8_decode [b] = [char_of (unat b)]"
| "utf8_decode (b # c # bs) =
     (if unat b < 128 then char_of (unat b) # utf8_decode (c # bs)
      else char_of ((unat b - 192) * 64 + (unat c - 128)) # utf8_decode bs)"

lemma unat_byte: "n < 256 \<Longrightarrow> unat (word_of_nat n :: byte) = n"
  by (simp add: unat_of_nat)

lemma utf8_decode_char: "utf8_decode (utf8_char c @ bs) = c # utf8_decode bs"
proof (cases "(of_char c :: nat) < 128")
  case True
  then have "unat (word_of_nat (of_char c) :: byte) = of_char c" by (simp add: unat_byte)
  with True show ?thesis by (cases bs) (simp_all add: utf8_char_def)
next
  case False
  have b: "(of_char c :: nat) < 256" by simp
  let ?n = "of_char c :: nat"
  have "unat (word_of_nat (192 + ?n div 64) :: byte) = 192 + ?n div 64"
    by (rule unat_byte) (use b in arith)
  moreover have "unat (word_of_nat (128 + ?n mod 64) :: byte) = 128 + ?n mod 64"
    by (rule unat_byte) simp
  ultimately
  show ?thesis using False by (simp add: utf8_char_def Let_def del: of_nat_add)
qed

lemma utf8_roundtrip: "utf8_decode (utf8 s) = s"
proof (induction s)
  case Nil
  then show ?case by (simp add: utf8_def)
next
  case (Cons c s)
  then show ?case using utf8_decode_char [of c "utf8 s"] by (simp add: utf8_def)
qed

lemma utf8_inj: "utf8 s = utf8 t \<Longrightarrow> s = t"
  by (metis utf8_roundtrip)

text \<open>Equal bytes mean equal values, up to the order of the members of objects.\<close>

lemma canonical_bytes_eq_iff: "canonical_json_bytes j = canonical_json_bytes k \<longleftrightarrow> canon j = canon k"
  by (auto simp: canonical_json_bytes_def dumps_def dest: utf8_inj emit_inj)

lemma canon_obj_fields:
  assumes "canon (JObj as) = canon (JObj bs)"
    and "distinct (map fst as)" and "distinct (map fst bs)"
    and "map_of as k = Some v" and "map_of bs k = Some w"
  shows "canon v = canon w"
proof -
  let ?c = "map (\<lambda>kv. (fst kv, canon (snd kv)))"
  have keys: "map fst (?c xs) = map fst xs" for xs by simp
  have look: "map_of (sort_key fst (?c xs)) k = map_option canon (map_of xs k)"
    if "distinct (map fst xs)" for xs
  proof -
    have d: "distinct (map fst (?c xs))" using that keys by metis
    then have "distinct (map fst (sort_key fst (?c xs)))"
      by (simp only: distinct_map distinct_sort set_sort)
    then have "map_of (sort_key fst (?c xs)) = map_of (?c xs)"
      using d by (simp only: map_of_inject_set set_sort)
    moreover have "map_of (?c xs) k = map_option canon (map_of xs k)"
      by (induction xs) auto
    ultimately show ?thesis by simp
  qed
  from assms(1) have "sort_key fst (?c as) = sort_key fst (?c bs)" by simp
  with look [OF assms(2)] look [OF assms(3)] assms(4,5) show ?thesis by simp
qed

subsection \<open>What normalization computes\<close>

text \<open>
  \<open>encodes h v j\<close>: in the heap \<open>h\<close>, the value \<open>v\<close> is the finite tree \<open>j\<close>.  A value on
  a cycle encodes nothing.
\<close>

inductive encodes :: "heap \<Rightarrow> pyval \<Rightarrow> json \<Rightarrow> bool" for h where
  enc_none: "encodes h PNone JNull"
| enc_bool: "encodes h (PBool b) (JBool b)"
| enc_int: "encodes h (PInt i) (JInt i)"
| enc_str: "encodes h (PStr s) (JStr s)"
| enc_list: "map_of h a = Some (CList vs) \<Longrightarrow> list_all2 (encodes h) vs js \<Longrightarrow>
     encodes h (PRef a) (JList js)"
| enc_dict: "map_of h a = Some (CDict kvs) \<Longrightarrow>
     list_all2 (\<lambda>kv kj. fst kv = PStr (fst kj) \<and> encodes h (snd kv) (snd kj)) kvs kjs \<Longrightarrow>
     encodes h (PRef a) (JObj kjs)"

inductive_cases encodes_scalarE [elim!]:
  "encodes h PNone j" "encodes h (PBool b) j" "encodes h (PInt i) j" "encodes h (PStr s) j"
  "encodes h PFloat j" "encodes h (POther t) j"
inductive_cases encodes_refE: "encodes h (PRef a) j"

lemma encodes_functional: "encodes h v j \<Longrightarrow> encodes h v k \<Longrightarrow> j = k"
proof (induction arbitrary: k rule: encodes.induct)
  case (enc_list a vs js)
  from enc_list.prems enc_list.hyps obtain ks where
    k: "k = JList ks" and ks: "list_all2 (encodes h) vs ks"
    by (auto elim!: encodes_refE)
  have "js = ks"
    using enc_list.IH ks
    by (auto simp: list_all2_conv_all_nth intro!: nth_equalityI)
  with k show ?case by simp
next
  case (enc_dict a kvs kjs)
  from enc_dict.prems enc_dict.hyps obtain ks where
    k: "k = JObj ks"
    and ks: "list_all2 (\<lambda>kv kj. fst kv = PStr (fst kj) \<and> encodes h (snd kv) (snd kj)) kvs ks"
    by (auto elim!: encodes_refE)
  have "kjs = ks"
    using enc_dict.IH ks
    by (auto simp: list_all2_conv_all_nth prod_eq_iff intro!: nth_equalityI)
  with k show ?case by simp
qed auto

text \<open>The values a container encodes are smaller than the container.\<close>

lemma size_list_mem: "j \<in> set js \<Longrightarrow> size j < size (JList js)"
  by (induction js) auto

lemma size_obj_mem: "kj \<in> set kjs \<Longrightarrow> size (snd kj) < size (JObj kjs)"
  by (induction kjs) (auto simp: size_prod_simp)

text \<open>Soundness: a successful run returns the tree of the value, with distinct keys.\<close>

lemma normalize_sound:
  "normalize nf h act path v = Inr j \<Longrightarrow> (\<And>s. nf s = s) \<Longrightarrow> encodes h v j \<and> json_wf j"
  "normalize_items nf h act path i vs = Inr js \<Longrightarrow> (\<And>s. nf s = s) \<Longrightarrow>
     list_all2 (encodes h) vs js \<and> list_all json_wf js"
  "normalize_entries nf h act path dn kvs = Inr es \<Longrightarrow> (\<And>s. nf s = s) \<Longrightarrow>
     \<exists>new. es = dn @ new \<and>
       list_all2 (\<lambda>kv kj. fst kv = PStr (fst kj) \<and> encodes h (snd kv) (snd kj)) kvs new \<and>
       list_all (\<lambda>kj. json_wf (snd kj)) new \<and>
       (distinct (map fst dn) \<longrightarrow> distinct (map fst es))"
proof (induction nf h act path v and nf h act path i vs and nf h act path dn kvs
    arbitrary: j and js and es rule: normalize_normalize_items_normalize_entries.induct)
  case (6 nf h act path a)
  from "6.prems"(1) obtain c where c: "map_of h a = Some c" "a \<notin> set act"
    by (auto split: option.splits if_splits)
  show ?case
  proof (cases c)
    case (CList vs)
    with "6.prems"(1) c obtain js where
      "normalize_items nf h (a # act) path 0 vs = Inr js" and j: "j = JList js"
      by (auto simp: res_simps)
    from "6.IH"(1) [OF c CList this(1) "6.prems"(2)] c CList j show ?thesis
      by (auto intro: enc_list)
  next
    case (CDict kvs)
    with "6.prems"(1) c obtain es where
      "normalize_entries nf h (a # act) path [] kvs = Inr es" and j: "j = JObj es"
      by (auto simp: res_simps)
    from "6.IH"(2) [OF c CDict this(1) "6.prems"(2)] c CDict j show ?thesis
      by (auto intro: enc_dict)
  qed
next
  case (11 nf h act path dn k v kvs)
  from "11.prems"(1) obtain s j where
    k: "k = PStr s" and new: "nf s \<notin> set (map fst dn)"
    and j: "normalize nf h act (path @ ''.'' @ nf s) v = Inr j"
    and rest: "normalize_entries nf h act path (dn @ [(nf s, j)]) kvs = Inr es"
    by (auto simp: res_simps split: pyval.splits if_splits)
  from "11.IH"(1) [OF k new j "11.prems"(2)] have "encodes h v j \<and> json_wf j" .
  moreover from "11.IH"(2) [OF k new rest "11.prems"(2)] obtain rest' where
    "es = (dn @ [(nf s, j)]) @ rest'"
    "list_all2 (\<lambda>kv kj. fst kv = PStr (fst kj) \<and> encodes h (snd kv) (snd kj)) kvs rest'"
    "list_all (\<lambda>kj. json_wf (snd kj)) rest'"
    "distinct (map fst (dn @ [(nf s, j)])) \<longrightarrow> distinct (map fst es)"
    by blast
  ultimately show ?case using k new "11.prems"(2) [of s]
    by (intro exI [of _ "(s, j) # rest'"]) auto
qed (auto simp: res_simps intro: encodes.intros)


text \<open>Completeness: a finite tree with distinct keys normalizes to itself.\<close>

lemma normalize_items_all2:
  "list_all2 (\<lambda>v j. \<forall>path. normalize nf h act path v = Inr j) vs js \<Longrightarrow>
   normalize_items nf h act path i vs = Inr js"
  by (induction arbitrary: i rule: list_all2_induct) simp_all

lemma normalize_entries_all2:
  "list_all2 (\<lambda>kv kj. fst kv = PStr (fst kj) \<and>
       (\<forall>path. normalize nf h act path (snd kv) = Inr (snd kj))) kvs kjs \<Longrightarrow>
   nf = (\<lambda>s. s) \<Longrightarrow> distinct (map fst (dn @ kjs)) \<Longrightarrow>
   normalize_entries nf h act path dn kvs = Inr (dn @ kjs)"
proof (induction arbitrary: dn rule: list_all2_induct)
  case Nil
  then show ?case by simp
next
  case (Cons kv kvs kj kjs)
  from Cons.prems have "distinct (map fst ((dn @ [kj]) @ kjs))" by simp
  from Cons.IH [OF Cons.prems(1) this] Cons.hyps Cons.prems show ?case
    by (cases kv; cases kj) auto
qed

lemma active_smaller:
  assumes "encodes h (PRef a) big" and "size j < size big"
    and "\<forall>b \<in> set act. \<forall>k. encodes h (PRef b) k \<longrightarrow> size big < size k"
  shows "\<forall>b \<in> set (a # act). \<forall>k. encodes h (PRef b) k \<longrightarrow> size j < size k"
  using assms by (auto dest: encodes_functional [OF assms(1)] intro: less_trans)

lemma normalize_complete:
  assumes nf: "\<And>s. nf s = s"
  shows "encodes h v j \<Longrightarrow> json_wf j \<Longrightarrow>
    \<forall>b \<in> set act. \<forall>k. encodes h (PRef b) k \<longrightarrow> size j < size k \<Longrightarrow>
    normalize nf h act path v = Inr j"
proof (induction arbitrary: act path rule: encodes.induct)
  case (enc_list a vs js)
  have enc: "encodes h (PRef a) (JList js)"
    using enc_list.hyps enc_list.IH by (auto intro!: encodes.enc_list elim: list_all2_mono)
  have fresh: "a \<notin> set act" using enc enc_list.prems(2) by (metis less_irrefl)
  have "list_all2 (\<lambda>v j. \<forall>path. normalize nf h (a # act) path v = Inr j) vs js"
  proof (rule list_all2_all_nthI)
    fix n assume n: "n < length vs"
    then have mem: "js ! n \<in> set js" using enc_list.IH by (auto dest: list_all2_lengthD)
    from list_all2_nthD [OF enc_list.IH n] enc_list.prems(1) mem
      active_smaller [OF enc size_list_mem [OF mem] enc_list.prems(2)]
    show "\<forall>path. normalize nf h (a # act) path (vs ! n) = Inr (js ! n)"
      by (auto simp: list_all_iff)
  qed (use enc_list.IH in \<open>rule list_all2_lengthD\<close>)
  from normalize_items_all2 [OF this] enc_list.hyps fresh show ?case by simp
next
  case (enc_dict a kvs kjs)
  have enc: "encodes h (PRef a) (JObj kjs)"
    using enc_dict.hyps enc_dict.IH by (auto intro!: encodes.enc_dict elim: list_all2_mono)
  have fresh: "a \<notin> set act" using enc enc_dict.prems(2) by (metis less_irrefl)
  have "list_all2 (\<lambda>kv kj. fst kv = PStr (fst kj) \<and>
      (\<forall>path. normalize nf h (a # act) path (snd kv) = Inr (snd kj))) kvs kjs"
  proof (rule list_all2_all_nthI)
    fix n assume n: "n < length kvs"
    then have mem: "kjs ! n \<in> set kjs" using enc_dict.IH by (auto dest: list_all2_lengthD)
    from list_all2_nthD [OF enc_dict.IH n] enc_dict.prems(1) mem
      active_smaller [OF enc size_obj_mem [OF mem] enc_dict.prems(2)]
    show "fst (kvs ! n) = PStr (fst (kjs ! n)) \<and>
      (\<forall>path. normalize nf h (a # act) path (snd (kvs ! n)) = Inr (snd (kjs ! n)))"
      by (auto simp: list_all_iff)
  qed (use enc_dict.IH in \<open>rule list_all2_lengthD\<close>)
  from normalize_entries_all2 [OF this ext [of nf, OF nf], of "[]"] enc_dict.hyps enc_dict.prems(1) fresh
  show ?case by simp
qed (simp_all add: nf)

theorem normalize_iff:
  assumes "\<And>s. nf s = s"
  shows "normalize nf h [] path v = Inr j \<longleftrightarrow> encodes h v j \<and> json_wf j"
  using normalize_sound(1) normalize_complete assms by (metis empty_iff empty_set)

text \<open>Every container on the path stays refused: a list that holds itself.\<close>

lemma self_containing_list:
  "map_of h a = Some (CList [PRef a]) \<Longrightarrow>
   normalize nf h [] path (PRef a) =
     Inl (CanonicalizationError (''cyclic container reference at '' @ path @ ''[0]''))"
  by (simp add: nat_repr.simps [of 0] digits09_def)

subsection \<open>Payload building blocks\<close>

text \<open>A nullable string field.\<close>

definition json_opt :: "string option \<Rightarrow> json" where
  "json_opt v = (case v of None \<Rightarrow> JNull | Some s \<Rightarrow> JStr s)"

text \<open>A tuple of strings.\<close>

definition json_strs :: "string list \<Rightarrow> json" where
  "json_strs xs = JList (map JStr xs)"

lemma map_canon_eqD:
  assumes "map (\<lambda>x. canon (f x)) xs = map (\<lambda>x. canon (f x)) ys"
    and "\<And>x y. canon (f x) = canon (f y) \<Longrightarrow> x = y"
  shows "xs = ys"
  using assms(1) by (rule list.inj_map_strong [rotated]) (rule assms(2))

lemma map_JStr_eq [simp]: "map JStr xs = map JStr ys \<longleftrightarrow> xs = ys"
  by (rule inj_map_eq_map) (simp add: inj_def)

lemma json_opt_eq [simp]: "canon (json_opt a) = canon (json_opt b) \<longleftrightarrow> a = b"
  by (cases a; cases b) (simp_all add: json_opt_def)

subsection \<open>Content addressing\<close>

text \<open>
  Two byte strings that collide under SHA-256.  Statements about hashes say that two
  contents are equal or exhibit a collision; nothing is assumed of SHA-256.
\<close>

definition sha_collision :: "byte list \<Rightarrow> byte list \<Rightarrow> bool" where
  "sha_collision x y \<longleftrightarrow> x \<noteq> y \<and> sha256_hex x = sha256_hex y"

text \<open>
  The interface of a content-addressed artifact: the payload it hashes, and the view of
  the artifact that the payload determines.  A component provides the law that the
  canonical payload is faithful to the view; its clients get identity of hashes as
  identity of views.
\<close>

locale content_addressed =
  fixes payload :: "'v \<Rightarrow> json"
    and view :: "'v \<Rightarrow> 'k"
  assumes payload_faithful: "canon (payload v) = canon (payload w) \<Longrightarrow> view v = view w"
begin

lemma hash_eq_view:
  assumes "canonical_sha256_hex (payload v) = canonical_sha256_hex (payload w)"
  shows "view v = view w \<or>
    sha_collision (canonical_json_bytes (payload v)) (canonical_json_bytes (payload w))"
proof (cases "canonical_json_bytes (payload v) = canonical_json_bytes (payload w)")
  case True
  then show ?thesis using payload_faithful canonical_bytes_eq_iff by blast
next
  case False
  with assms show ?thesis by (simp add: sha_collision_def canonical_sha256_hex_def)
qed

lemma hash_eq_iff_view:
  assumes "view v = view w \<Longrightarrow> payload v = payload w"
    and "\<not> sha_collision (canonical_json_bytes (payload v)) (canonical_json_bytes (payload w))"
  shows "canonical_sha256_hex (payload v) = canonical_sha256_hex (payload w) \<longleftrightarrow> view v = view w"
  using assms hash_eq_view by metis

end

text \<open>JSON values themselves are content-addressed by their sorted form.\<close>

interpretation json_addr: content_addressed "\<lambda>j. j" canon
  by unfold_locales

lemma sha256_hex_format: "matches_hex 64 (sha256_hex b)"
  by (simp add: sha256_hex_def sha256_hexdigest_format)

lemma canonical_sha256_hex_format [simp]: "matches_hex 64 (canonical_sha256_hex j)"
  by (simp add: canonical_sha256_hex_def sha256_hex_format)

lemma matches_hex_take: "matches_hex n s \<Longrightarrow> k \<le> n \<Longrightarrow> matches_hex k (take k s)"
  by (auto simp: matches_hex_def list_all_iff dest: in_set_takeD)

lemma canonical_content_id_format:
  "matches_prefixed_hex (p @ ''_'') 32 (canonical_content_id p j)"
  using matches_hex_take [OF sha256_hex_format, of 32 "canonical_json_bytes j"]
  by (simp add: canonical_content_id_def matches_prefixed_hex_def has_prefix_def)

text \<open>
  The same with the literal prefix written as the field patterns write it.
\<close>

lemma canonical_content_id_matches:
  "q = p @ ''_'' \<Longrightarrow> matches_prefixed_hex q 32 (canonical_content_id p j)"
  by (simp add: canonical_content_id_format)

lemma canonical_json_bytes_cong: "canon j = canon k \<Longrightarrow> canonical_json_bytes j = canonical_json_bytes k"
  by (simp add: canonical_bytes_eq_iff)

subsection \<open>Properties\<close>

text \<open>
  C32. The canonical encoding is injective: two JSON values have the same canonical bytes
  exactly when they are equal up to the order of the members of their objects.
\<close>

theorem canonical_encoding_injective:
  "canonical_json_bytes j = canonical_json_bytes k \<longleftrightarrow> canon j = canon k"
  by (rule canonical_bytes_eq_iff)

text \<open>
  C37. On NFC text the entry point accepts exactly the acyclic values that unfold to a
  finite tree with distinct keys at every level and printable integers, whatever
  containers they share, and returns the bytes of that tree.
\<close>

theorem canonical_entry_point:
  assumes "\<And>s. nf s = s"
  shows "py_canonical_json_bytes nf h v = Inr b \<longleftrightarrow>
    (\<exists>j. encodes h v j \<and> json_wf j \<and> ints_printable j \<and> b = canonical_json_bytes j)"
proof -
  have "py_canonical_json_bytes nf h v = Inr b \<longleftrightarrow>
      (\<exists>j. normalize nf h [] ''$'' v = Inr j \<and> ints_printable j \<and> b = canonical_json_bytes j)"
    by (auto simp: py_canonical_json_bytes_def res_simps)
  then show ?thesis using normalize_iff [OF assms] by auto
qed

theorem canonical_entry_point_witness:
  "\<exists>j. encodes [(7, CList [PBool True, PRef 8]), (8, CDict [(PStr ''k'', PNone)])] (PRef 7) j \<and>
     json_wf j \<and> ints_printable j \<and>
     canonical_json_bytes (JList [JBool True, JObj [(''k'', JNull)]]) = canonical_json_bytes j"
  by (rule canonical_entry_point [where nf = "\<lambda>s. s", THEN iffD1])
    (simp_all add: py_canonical_json_bytes_def)

text \<open>
  Content identifiers have the documented shape: for every valid prefix the identifier
  is the prefix, an underscore, and the first 32 hexadecimal digits of the SHA-256 of the
  payload; for every other prefix the helper refuses.
\<close>

theorem content_id_shape:
  "(\<exists>s. content_id p payload = Inr s \<and> matches_prefixed_hex (p @ ''_'') 32 s \<and> valid_prefix p)
   \<or> (\<exists>m. content_id p payload = Inl (InvalidIdentifierPrefixError m) \<and> \<not> valid_prefix p)"
proof (cases "valid_prefix p")
  case True
  have "matches_hex 32 (take 32 (sha256_hex payload))"
    by (rule matches_hex_take [OF sha256_hex_format]) simp
  then have "matches_prefixed_hex (p @ ''_'') 32 (p @ ''_'' @ take 32 (sha256_hex payload))"
    using matches_prefixed_hex_append [of "p @ ''_''"] by simp
  with True show ?thesis by (simp add: content_id_def validate_prefix_def)
next
  case False
  then show ?thesis by (simp add: content_id_def validate_prefix_def)
qed

end
