(* ===== verification/Access.thy ===== *)
theory Access
  imports Canonical
begin

text \<open>
  The access boundary of \<open>src/dithyramba/access\<close>: the frozen contracts of
  \<open>models.py\<close> (policy snapshot, request scope, candidates, manifest, token) with the
  validation of their constructors, and the policy compiler and token verification of
  \<open>compiler.py\<close>.  Constructors return a result: every raise of \<open>__post_init__\<close> is a
  branch.  Checks of the dynamic type of a field have no counterpart, since the model's
  fields are typed.
\<close>

subsection \<open>Field validators\<close>

text \<open>\<open>_ID_PATTERN\<close>: \<open>[a-z][a-z0-9_]*\<close>.\<close>

definition id_pattern :: "string \<Rightarrow> bool" where
  "id_pattern s \<longleftrightarrow>
     (case s of [] \<Rightarrow> False
      | c # cs \<Rightarrow> c \<in> set lower_az \<and> list_all (\<lambda>x. x \<in> set (lower_az @ digits09 @ ''_'')) cs)"

text \<open>\<open>_PURPOSE_PATTERN\<close>: \<open>[a-z][a-z0-9_-]{0,63}\<close>.\<close>

definition purpose_pattern :: "string \<Rightarrow> bool" where
  "purpose_pattern s = matches_head_rest lower_az (lower_az @ digits09 @ ''_-'') 0 63 s"

definition require_id :: "string \<Rightarrow> string \<Rightarrow> string res" where
  "require_id value pre =
     (let expected = pre @ ''_''
      in if \<not> has_prefix expected value \<or> length value \<le> length expected
         then Inl (InvalidAccessScopeError (''identifier must have prefix '' @ expected))
         else if \<not> id_pattern value
         then Inl (InvalidAccessScopeError
           ''identifiers must contain lowercase ASCII letters/digits/_'')
         else Inr value)"

definition require_hash :: "string \<Rightarrow> string \<Rightarrow> (string \<Rightarrow> error) \<Rightarrow> string res" where
  "require_hash value name error_type =
     (if \<not> matches_hex 64 value
      then Inl (error_type (name @ '' must be a lowercase 64-character SHA-256 hex digest''))
      else Inr value)"

definition sorted_unique_strings ::
  "string list \<Rightarrow> string \<Rightarrow> (string \<Rightarrow> bool) \<Rightarrow> string list res" where
  "sorted_unique_strings result label pattern =
     (if list_ex (\<lambda>v. \<not> pattern v) result
      then Inl (InvalidAccessPolicyError (label @ '' contain an invalid value''))
      else if has_duplicates result
      then Inl (InvalidAccessPolicyError (label @ '' must be unique''))
      else Inr (sort result))"

definition sorted_unique_ids :: "string list \<Rightarrow> string \<Rightarrow> string \<Rightarrow> string list res" where
  "sorted_unique_ids result pre label =
     res_bind (map_res (\<lambda>v. require_id v pre) result)
       (\<lambda>_. if has_duplicates result
             then Inl (InvalidAccessScopeError (label @ '' must be unique''))
             else Inr (sort result))"

subsection \<open>Policy\<close>

datatype policy_effect = ALLOW | DENY

definition effect_value :: "policy_effect \<Rightarrow> string" where
  "effect_value e = (case e of ALLOW \<Rightarrow> ''allow'' | DENY \<Rightarrow> ''deny'')"

datatype membership_state = ACTIVE | EXCLUDED | HOLDOUT

definition membership_state_value :: "membership_state \<Rightarrow> string" where
  "membership_state_value s =
     (case s of ACTIVE \<Rightarrow> ''active'' | EXCLUDED \<Rightarrow> ''excluded'' | HOLDOUT \<Rightarrow> ''holdout'')"

record collection_rule =
  cr_collection_id :: string
  cr_effect :: policy_effect

definition make_collection_rule :: "string \<Rightarrow> policy_effect \<Rightarrow> collection_rule res" where
  "make_collection_rule cid eff =
     res_bind (require_id cid ''collection'')
       (\<lambda>_. Inr \<lparr>cr_collection_id = cid, cr_effect = eff\<rparr>)"

record source_rule =
  sr_source_id :: string
  sr_effect :: policy_effect

definition make_source_rule :: "string \<Rightarrow> policy_effect \<Rightarrow> source_rule res" where
  "make_source_rule sid eff =
     res_bind (require_id sid ''source'') (\<lambda>_. Inr \<lparr>sr_source_id = sid, sr_effect = eff\<rparr>)"

definition canonical_rules :: "'r list \<Rightarrow> ('r \<Rightarrow> string) \<Rightarrow> string \<Rightarrow> 'r list res" where
  "canonical_rules rules key label =
     (if has_duplicates (map key rules)
      then Inl (InvalidAccessPolicyError (label @ '' may contain only one rule per identifier''))
      else Inr (sort_key key rules))"

record access_policy =
  access_policy_id :: string
  ap_library_id :: string
  allowed_purposes :: "string list"
  collection_rules :: "collection_rule list"
  source_rules :: "source_rule list"
  allow_export :: bool
  allow_external_provider :: bool
  policy_hash :: string

definition collection_rule_payload :: "collection_rule \<Rightarrow> json" where
  "collection_rule_payload r =
     JObj [(''collection_id'', JStr (cr_collection_id r)),
           (''effect'', JStr (effect_value (cr_effect r)))]"

definition source_rule_payload :: "source_rule \<Rightarrow> json" where
  "source_rule_payload r =
     JObj [(''source_id'', JStr (sr_source_id r)),
           (''effect'', JStr (effect_value (sr_effect r)))]"

definition policy_payload :: "access_policy \<Rightarrow> json" where
  "policy_payload p =
     JObj
       [(''schema'', JStr ''dithyramba.access_policy_snapshot/1.0''),
        (''library_id'', JStr (ap_library_id p)),
        (''allowed_purposes'', JList (map JStr (allowed_purposes p))),
        (''collection_rules'', JList (map collection_rule_payload (collection_rules p))),
        (''source_rules'', JList (map source_rule_payload (source_rules p))),
        (''allow_export'', JBool (allow_export p)),
        (''allow_external_provider'', JBool (allow_external_provider p))]"

definition make_policy ::
  "string \<Rightarrow> string \<Rightarrow> string list \<Rightarrow> collection_rule list \<Rightarrow> source_rule list \<Rightarrow>
     bool \<Rightarrow> bool \<Rightarrow> access_policy res" where
  "make_policy pid lib purposes crules srules export external =
     res_bind (require_id pid ''policy'') (\<lambda>_.
     res_bind (require_id lib ''library'') (\<lambda>_.
     res_bind (sorted_unique_strings purposes ''allowed purposes'' purpose_pattern) (\<lambda>ps.
     if ps = []
     then Inl (InvalidAccessPolicyError ''an access policy must allow at least one purpose'')
     else
       res_bind (canonical_rules crules cr_collection_id ''collection rules'') (\<lambda>crs.
       res_bind (canonical_rules srules sr_source_id ''source rules'') (\<lambda>srs.
         let p = \<lparr>access_policy_id = pid, ap_library_id = lib, allowed_purposes = ps,
               collection_rules = crs, source_rules = srs, allow_export = export,
               allow_external_provider = external, policy_hash = []\<rparr>
         in Inr (p\<lparr>policy_hash := canonical_sha256_hex (policy_payload p)\<rparr>))))))"

subsection \<open>Request scope\<close>

record query_exclusions =
  ex_source_ids :: "string list"
  ex_source_family_ids :: "string list"
  ex_source_fragment_ids :: "string list"

definition make_exclusions ::
  "string list \<Rightarrow> string list \<Rightarrow> string list \<Rightarrow> query_exclusions res" where
  "make_exclusions sources families fragments =
     res_bind (sorted_unique_ids sources ''source'' ''excluded Source IDs'') (\<lambda>ss.
     res_bind (sorted_unique_ids families ''family'' ''excluded SourceFamily IDs'') (\<lambda>fs.
     res_bind (sorted_unique_ids fragments ''fragment'' ''excluded SourceFragment IDs'') (\<lambda>gs.
       Inr \<lparr>ex_source_ids = ss, ex_source_family_ids = fs, ex_source_fragment_ids = gs\<rparr>)))"

definition exclusions_payload :: "query_exclusions \<Rightarrow> json" where
  "exclusions_payload x =
     JObj
       [(''source_ids'', JList (map JStr (ex_source_ids x))),
        (''source_family_ids'', JList (map JStr (ex_source_family_ids x))),
        (''source_fragment_ids'', JList (map JStr (ex_source_fragment_ids x)))]"

record request_scope =
  sc_library_id :: string
  sc_snapshot_hash :: string
  sc_purpose :: string
  sc_collection_ids :: "string list"
  sc_exclusions :: query_exclusions

definition make_scope ::
  "string \<Rightarrow> string \<Rightarrow> string \<Rightarrow> string list \<Rightarrow> query_exclusions \<Rightarrow> request_scope res" where
  "make_scope lib snap purpose cids excl =
     res_bind (require_id lib ''library'') (\<lambda>_.
     res_bind (require_hash snap ''snapshot_hash'' InvalidAccessScopeError) (\<lambda>_.
     if \<not> purpose_pattern purpose
     then Inl (InvalidAccessScopeError ''purpose must match [a-z][a-z0-9_-]{0,63}'')
     else
       res_bind (sorted_unique_ids cids ''collection'' ''requested Collection IDs'') (\<lambda>cs.
       if cs = []
       then Inl (InvalidAccessScopeError ''a request must select at least one Collection'')
       else if length cs > 16
       then Inl (InvalidAccessScopeError ''a request may select at most 16 Collections'')
       else Inr \<lparr>sc_library_id = lib, sc_snapshot_hash = snap, sc_purpose = purpose,
                 sc_collection_ids = cs, sc_exclusions = excl\<rparr>)))"

definition exclusion_payload :: "request_scope \<Rightarrow> json" where
  "exclusion_payload s =
     JObj
       [(''schema'', JStr ''dithyramba.query_access_scope/1.0''),
        (''purpose'', JStr (sc_purpose s)),
        (''collection_ids'', JList (map JStr (sc_collection_ids s))),
        (''exclusions'', exclusions_payload (sc_exclusions s))]"

definition exclusion_hash :: "request_scope \<Rightarrow> string" where
  "exclusion_hash s = canonical_sha256_hex (exclusion_payload s)"

subsection \<open>Candidates\<close>

record membership =
  mem_collection_id :: string
  mem_state :: membership_state

definition make_membership :: "string \<Rightarrow> membership_state \<Rightarrow> membership res" where
  "make_membership cid st =
     res_bind (require_id cid ''collection'')
       (\<lambda>_. Inr \<lparr>mem_collection_id = cid, mem_state = st\<rparr>)"

record snapshot_candidate =
  cand_fragment_id :: string
  cand_version_id :: string
  cand_source_id :: string
  cand_family_id :: "string option"
  cand_memberships :: "membership list"

definition require_optional_id :: "string option \<Rightarrow> string \<Rightarrow> unit res" where
  "require_optional_id value pre =
     (case value of None \<Rightarrow> Inr () | Some v \<Rightarrow> res_bind (require_id v pre) (\<lambda>_. Inr ()))"

definition canonical_memberships :: "membership list \<Rightarrow> membership list res" where
  "canonical_memberships ms =
     (if has_duplicates (map mem_collection_id ms)
      then Inl (InvalidAccessScopeError ''a candidate may have one state per Collection'')
      else Inr (sort_key mem_collection_id ms))"

definition make_candidate ::
  "string \<Rightarrow> string \<Rightarrow> string \<Rightarrow> string option \<Rightarrow> membership list \<Rightarrow> snapshot_candidate res" where
  "make_candidate fragment version source family ms =
     res_bind (require_id fragment ''fragment'') (\<lambda>_.
     res_bind (require_id version ''source_version'') (\<lambda>_.
     res_bind (require_id source ''source'') (\<lambda>_.
     res_bind (require_optional_id family ''family'') (\<lambda>_.
     res_bind (canonical_memberships ms) (\<lambda>cms.
       if cms = []
       then Inl (InvalidAccessScopeError ''a snapshot candidate must have a membership'')
       else Inr \<lparr>cand_fragment_id = fragment, cand_version_id = version,
                 cand_source_id = source, cand_family_id = family,
                 cand_memberships = cms\<rparr>)))))"

subsection \<open>Manifest and token\<close>

record manifest_item =
  it_fragment_id :: string
  it_version_id :: string
  it_source_id :: string
  it_family_id :: "string option"
  it_collection_ids :: "string list"

definition make_manifest_item ::
  "string \<Rightarrow> string \<Rightarrow> string \<Rightarrow> string option \<Rightarrow> string list \<Rightarrow> manifest_item res" where
  "make_manifest_item fragment version source family cids =
     res_bind (require_id fragment ''fragment'') (\<lambda>_.
     res_bind (require_id version ''source_version'') (\<lambda>_.
     res_bind (require_id source ''source'') (\<lambda>_.
     res_bind (require_optional_id family ''family'') (\<lambda>_.
     res_bind (sorted_unique_ids cids ''collection'' ''permitted Collection IDs'') (\<lambda>cs.
       if cs = []
       then Inl (InvalidAccessScopeError ''a permitted item must retain an allowed Collection'')
       else Inr \<lparr>it_fragment_id = fragment, it_version_id = version, it_source_id = source,
                 it_family_id = family, it_collection_ids = cs\<rparr>)))))"

definition item_payload :: "manifest_item \<Rightarrow> json" where
  "item_payload i =
     JObj
       [(''source_fragment_id'', JStr (it_fragment_id i)),
        (''source_version_id'', JStr (it_version_id i)),
        (''source_id'', JStr (it_source_id i)),
        (''source_family_id'', json_opt (it_family_id i)),
        (''collection_ids'', JList (map JStr (it_collection_ids i)))]"

record permitted_manifest =
  mf_library_id :: string
  mf_snapshot_hash :: string
  mf_items :: "manifest_item list"
  mf_permitted_set_hash :: string

definition canonical_manifest_items :: "manifest_item list \<Rightarrow> manifest_item list res" where
  "canonical_manifest_items items =
     (if has_duplicates (map it_fragment_id items)
      then Inl (InvalidAccessScopeError ''permitted manifest fragment IDs must be unique'')
      else Inr (sort_key it_fragment_id items))"

definition manifest_payload :: "permitted_manifest \<Rightarrow> json" where
  "manifest_payload m =
     JObj
       [(''schema'', JStr ''dithyramba.permitted_manifest/1.0''),
        (''library_id'', JStr (mf_library_id m)),
        (''snapshot_hash'', JStr (mf_snapshot_hash m)),
        (''items'', JList (map item_payload (mf_items m)))]"

definition make_manifest ::
  "string \<Rightarrow> string \<Rightarrow> manifest_item list \<Rightarrow> permitted_manifest res" where
  "make_manifest lib snap items =
     res_bind (require_id lib ''library'') (\<lambda>_.
     res_bind (require_hash snap ''snapshot_hash'' InvalidAccessScopeError) (\<lambda>_.
     res_bind (canonical_manifest_items items) (\<lambda>its.
       let m = \<lparr>mf_library_id = lib, mf_snapshot_hash = snap, mf_items = its,
                mf_permitted_set_hash = []\<rparr>
       in Inr (m\<lparr>mf_permitted_set_hash := canonical_sha256_hex (manifest_payload m)\<rparr>))))"

record permitted_token =
  tok_library_id :: string
  tok_snapshot_hash :: string
  tok_policy_hash :: string
  tok_exclusion_hash :: string
  tok_permitted_set_hash :: string
  tok_token_hash :: string

definition binding_payload :: "permitted_token \<Rightarrow> json" where
  "binding_payload t =
     JObj
       [(''schema'', JStr ''dithyramba.permitted_token/1.0''),
        (''library_id'', JStr (tok_library_id t)),
        (''snapshot_hash'', JStr (tok_snapshot_hash t)),
        (''policy_hash'', JStr (tok_policy_hash t)),
        (''exclusion_hash'', JStr (tok_exclusion_hash t)),
        (''permitted_set_hash'', JStr (tok_permitted_set_hash t))]"

definition make_token ::
  "string \<Rightarrow> string \<Rightarrow> string \<Rightarrow> string \<Rightarrow> string \<Rightarrow> permitted_token res" where
  "make_token lib snap pol excl perm =
     res_bind (require_id lib ''library'') (\<lambda>_.
     res_bind (require_hash snap ''snapshot_hash'' PermittedTokenError) (\<lambda>_.
     res_bind (require_hash pol ''policy_hash'' PermittedTokenError) (\<lambda>_.
     res_bind (require_hash excl ''exclusion_hash'' PermittedTokenError) (\<lambda>_.
     res_bind (require_hash perm ''permitted_set_hash'' PermittedTokenError) (\<lambda>_.
       let t = \<lparr>tok_library_id = lib, tok_snapshot_hash = snap, tok_policy_hash = pol,
                tok_exclusion_hash = excl, tok_permitted_set_hash = perm,
                tok_token_hash = []\<rparr>
       in Inr (t\<lparr>tok_token_hash := canonical_sha256_hex (binding_payload t)\<rparr>))))))"

definition token_public_payload :: "permitted_token \<Rightarrow> json" where
  "token_public_payload t =
     (case binding_payload t of
        JObj kvs \<Rightarrow> JObj (kvs @ [(''token_hash'', JStr (tok_token_hash t))])
      | j \<Rightarrow> j)"

record compiled_access =
  ca_manifest :: permitted_manifest
  ca_token :: permitted_token
  ca_policy_omission_present :: bool

definition make_compiled_access ::
  "permitted_manifest \<Rightarrow> permitted_token \<Rightarrow> bool \<Rightarrow> compiled_access res" where
  "make_compiled_access m t omission =
     (if mf_library_id m \<noteq> tok_library_id t
      then Inl (PermittedTokenError ''manifest and token Library do not match'')
      else if mf_snapshot_hash m \<noteq> tok_snapshot_hash t
      then Inl (PermittedTokenError ''manifest and token snapshot do not match'')
      else if mf_permitted_set_hash m \<noteq> tok_permitted_set_hash t
      then Inl (PermittedTokenError ''manifest and token permitted set do not match'')
      else Inr \<lparr>ca_manifest = m, ca_token = t, ca_policy_omission_present = omission\<rparr>)"

definition public_access_payload :: "compiled_access \<Rightarrow> json" where
  "public_access_payload ca =
     JObj [(''policy_omission_present'', JBool (ca_policy_omission_present ca))]"

subsection \<open>Policy compilation\<close>

text \<open>
  A dict comprehension keeps the last value of a repeated key.  The loop state is the
  insertion-ordered dict of permitted items and the omission flag.
\<close>

definition dict_of :: "('k \<times> 'v) list \<Rightarrow> 'k \<Rightarrow> 'v option" where
  "dict_of kvs = map_of (rev kvs)"

definition collection_effects :: "access_policy \<Rightarrow> string \<Rightarrow> policy_effect option" where
  "collection_effects p =
     dict_of (map (\<lambda>r. (cr_collection_id r, cr_effect r)) (collection_rules p))"

definition source_effects :: "access_policy \<Rightarrow> string \<Rightarrow> policy_effect option" where
  "source_effects p = dict_of (map (\<lambda>r. (sr_source_id r, sr_effect r)) (source_rules p))"

definition relevant_memberships :: "request_scope \<Rightarrow> snapshot_candidate \<Rightarrow> membership list" where
  "relevant_memberships s c =
     filter (\<lambda>m. mem_collection_id m \<in> set (sc_collection_ids s)) (cand_memberships c)"

record compile_state =
  permitted_by_fragment :: "(string \<times> manifest_item) list"
  omission_present :: bool

definition candidate_item :: "request_scope \<Rightarrow> snapshot_candidate \<Rightarrow> manifest_item res" where
  "candidate_item s c =
     make_manifest_item (cand_fragment_id c) (cand_version_id c) (cand_source_id c)
       (cand_family_id c) (map mem_collection_id (relevant_memberships s c))"

definition setdefault_item :: "compile_state \<Rightarrow> manifest_item \<Rightarrow> compile_state res" where
  "setdefault_item st item =
     (case map_of (permitted_by_fragment st) (it_fragment_id item) of
        None \<Rightarrow> Inr (st\<lparr>permitted_by_fragment :=
                   permitted_by_fragment st @ [(it_fragment_id item, item)]\<rparr>)
      | Some previous \<Rightarrow>
          if previous \<noteq> item
          then Inl (InvalidAccessScopeError
                 ''one fragment ID has conflicting snapshot candidate metadata'')
          else Inr st)"

definition compile_step ::
  "access_policy \<Rightarrow> request_scope \<Rightarrow> compile_state \<Rightarrow> snapshot_candidate \<Rightarrow> compile_state res" where
  "compile_step p s st c =
     (let relevant = relevant_memberships s c
      in if relevant = [] then Inr st
         else if list_ex (\<lambda>m. mem_state m \<noteq> ACTIVE) relevant then Inr st
         else if cand_source_id c \<in> set (ex_source_ids (sc_exclusions s)) then Inr st
         else if (case cand_family_id c of None \<Rightarrow> False
                  | Some f \<Rightarrow> f \<in> set (ex_source_family_ids (sc_exclusions s))) then Inr st
         else if cand_fragment_id c \<in> set (ex_source_fragment_ids (sc_exclusions s)) then Inr st
         else if list_ex (\<lambda>e. e \<noteq> Some ALLOW)
                   (map (\<lambda>m. collection_effects p (mem_collection_id m)) relevant)
         then Inr (st\<lparr>omission_present := True\<rparr>)
         else if source_effects p (cand_source_id c) = Some DENY
         then Inr (st\<lparr>omission_present := True\<rparr>)
         else res_bind (candidate_item s c) (setdefault_item st))"

fun compile_loop ::
  "access_policy \<Rightarrow> request_scope \<Rightarrow> compile_state \<Rightarrow> snapshot_candidate list \<Rightarrow>
     compile_state res" where
  "compile_loop p s st [] = Inr st"
| "compile_loop p s st (c # cs) =
     res_bind (compile_step p s st c) (\<lambda>st'. compile_loop p s st' cs)"

definition compile_access ::
  "access_policy \<Rightarrow> request_scope \<Rightarrow> snapshot_candidate list \<Rightarrow> compiled_access res" where
  "compile_access p s candidates =
     (if ap_library_id p \<noteq> sc_library_id s
      then Inl (InvalidAccessScopeError ''policy and request belong to different Libraries'')
      else if sc_purpose s \<notin> set (allowed_purposes p)
      then Inl (PurposeNotAllowedError ''request purpose is not authorized by the policy'')
      else
        res_bind (compile_loop p s \<lparr>permitted_by_fragment = [], omission_present = False\<rparr>
                    candidates) (\<lambda>st.
        res_bind (make_manifest (sc_library_id s) (sc_snapshot_hash s)
                    (map snd (permitted_by_fragment st))) (\<lambda>m.
        res_bind (make_token (sc_library_id s) (sc_snapshot_hash s) (policy_hash p)
                    (exclusion_hash s) (mf_permitted_set_hash m)) (\<lambda>t.
          make_compiled_access m t (omission_present st)))))"

subsection \<open>Token verification\<close>

definition token_mismatches ::
  "permitted_token \<Rightarrow> string \<Rightarrow> string \<Rightarrow> string \<Rightarrow> string \<Rightarrow> string \<Rightarrow> string list" where
  "token_mismatches t lib snap pol excl perm =
     map fst (filter (\<lambda>nv. fst (snd nv) \<noteq> snd (snd nv))
       [(''library_id'', tok_library_id t, lib),
        (''snapshot_hash'', tok_snapshot_hash t, snap),
        (''policy_hash'', tok_policy_hash t, pol),
        (''exclusion_hash'', tok_exclusion_hash t, excl),
        (''permitted_set_hash'', tok_permitted_set_hash t, perm)])"

definition verify_permitted_token ::
  "permitted_token \<Rightarrow> string \<Rightarrow> string \<Rightarrow> string \<Rightarrow> string \<Rightarrow> string \<Rightarrow> unit res" where
  "verify_permitted_token t lib snap pol excl perm =
     (let mismatches = token_mismatches t lib snap pol excl perm
      in if mismatches \<noteq> []
         then Inl (PermittedTokenMismatchError
           (''permitted token tuple mismatch: '' @ join '', '' mismatches))
         else if tok_token_hash t \<noteq> canonical_sha256_hex (binding_payload t)
         then Inl (PermittedTokenError ''permitted token integrity check failed'')
         else Inr ())"

end
