(* ===== verification/AccessProps.thy ===== *)
theory AccessProps
  imports Access
begin

text \<open>
  What the access compiler and the token check promise.  The compiler is compared with
  a declarative specification: which candidates a policy permits for a request, which
  ones it withholds, and the set of manifest items that results.  The payloads of
  policy, scope, manifest and token are shown faithful, so a token pins the exact scope
  it was compiled for.
\<close>

subsection \<open>Specification\<close>

text \<open>Reached by the request: in a requested Collection, active in all of them, not excluded.\<close>

definition requested :: "request_scope \<Rightarrow> snapshot_candidate \<Rightarrow> bool" where
  "requested s c \<longleftrightarrow>
     (\<exists>m \<in> set (cand_memberships c). mem_collection_id m \<in> set (sc_collection_ids s)) \<and>
     (\<forall>m \<in> set (cand_memberships c).
        mem_collection_id m \<in> set (sc_collection_ids s) \<longrightarrow> mem_state m = ACTIVE) \<and>
     cand_source_id c \<notin> set (ex_source_ids (sc_exclusions s)) \<and>
     (\<forall>f. cand_family_id c = Some f \<longrightarrow> f \<notin> set (ex_source_family_ids (sc_exclusions s))) \<and>
     cand_fragment_id c \<notin> set (ex_source_fragment_ids (sc_exclusions s))"

text \<open>
  Allowed by the policy: every requested Collection the candidate belongs to is
  explicitly allowed (an unlisted one is not), and its Source is not denied.
\<close>

definition policy_allows :: "access_policy \<Rightarrow> request_scope \<Rightarrow> snapshot_candidate \<Rightarrow> bool" where
  "policy_allows p s c \<longleftrightarrow>
     (\<forall>m \<in> set (cand_memberships c).
        mem_collection_id m \<in> set (sc_collection_ids s) \<longrightarrow>
        collection_effects p (mem_collection_id m) = Some ALLOW) \<and>
     source_effects p (cand_source_id c) \<noteq> Some DENY"

lemma compile_step_eq:
  "compile_step p s st c =
     (if \<not> requested s c then Inr st
      else if \<not> policy_allows p s c then Inr (st\<lparr>omission_present := True\<rparr>)
      else res_bind (candidate_item s c) (setdefault_item st))"
proof -
  have "relevant_memberships s c = [] \<longleftrightarrow>
      \<not> (\<exists>m \<in> set (cand_memberships c). mem_collection_id m \<in> set (sc_collection_ids s))"
    by (auto simp: relevant_memberships_def filter_empty_conv)
  moreover have "list_ex (\<lambda>m. mem_state m \<noteq> ACTIVE) (relevant_memberships s c) \<longleftrightarrow>
      \<not> (\<forall>m \<in> set (cand_memberships c).
        mem_collection_id m \<in> set (sc_collection_ids s) \<longrightarrow> mem_state m = ACTIVE)"
    by (auto simp: relevant_memberships_def list_ex_iff)
  moreover have "list_ex (\<lambda>e. e \<noteq> Some ALLOW)
        (map (\<lambda>m. collection_effects p (mem_collection_id m)) (relevant_memberships s c)) \<longleftrightarrow>
      \<not> (\<forall>m \<in> set (cand_memberships c). mem_collection_id m \<in> set (sc_collection_ids s) \<longrightarrow>
        collection_effects p (mem_collection_id m) = Some ALLOW)"
    by (auto simp: relevant_memberships_def list_ex_iff)
  ultimately show ?thesis
    unfolding compile_step_def Let_def requested_def policy_allows_def
    by (cases "cand_family_id c") auto
qed

lemma require_id_Inr: "require_id v pre = Inr x \<Longrightarrow> x = v"
  by (auto simp: require_id_def Let_def split: if_splits)

lemma candidate_item_fields:
  assumes "candidate_item s c = Inr i"
  shows "it_fragment_id i = cand_fragment_id c \<and> it_version_id i = cand_version_id c \<and>
    it_source_id i = cand_source_id c \<and> it_family_id i = cand_family_id c \<and>
    it_collection_ids i = sort (map mem_collection_id (relevant_memberships s c))"
  using assms
  by (auto simp: candidate_item_def make_manifest_item_def sorted_unique_ids_def res_simps
      split: if_splits)

subsection \<open>The loop\<close>

definition state_items :: "compile_state \<Rightarrow> manifest_item set" where
  "state_items st = snd ` set (permitted_by_fragment st)"

definition state_inv :: "compile_state \<Rightarrow> bool" where
  "state_inv st \<longleftrightarrow> distinct (map fst (permitted_by_fragment st)) \<and>
     (\<forall>ki \<in> set (permitted_by_fragment st). fst ki = it_fragment_id (snd ki))"

lemma state_omission [simp]:
  "state_inv (st\<lparr>omission_present := b\<rparr>) = state_inv st"
  "state_items (st\<lparr>omission_present := b\<rparr>) = state_items st"
  by (simp_all add: state_inv_def state_items_def)

lemma state_inv_inj: "state_inv st \<Longrightarrow> inj_on it_fragment_id (state_items st)"
  unfolding state_inv_def state_items_def inj_on_def
  by (auto simp: distinct_map inj_on_def) (metis snd_conv)

lemma setdefault_item_iff:
  assumes "state_inv st"
  shows "setdefault_item st i = Inr st' \<longleftrightarrow>
    inj_on it_fragment_id (insert i (state_items st)) \<and>
    st' = (if i \<in> state_items st then st
           else st\<lparr>permitted_by_fragment := permitted_by_fragment st @ [(it_fragment_id i, i)]\<rparr>)"
proof (cases "map_of (permitted_by_fragment st) (it_fragment_id i)")
  case None
  then have "it_fragment_id i \<notin> fst ` set (permitted_by_fragment st)"
    by (simp add: map_of_eq_None_iff)
  then have "it_fragment_id i \<notin> it_fragment_id ` state_items st"
    using assms by (force simp: state_inv_def state_items_def)
  then have "inj_on it_fragment_id (insert i (state_items st))" "i \<notin> state_items st"
    using state_inv_inj [OF assms] by auto
  with None show ?thesis by (auto simp: setdefault_item_def)
next
  case (Some prev)
  then have "(it_fragment_id i, prev) \<in> set (permitted_by_fragment st)"
    by (rule map_of_SomeD)
  then have prev: "prev \<in> state_items st" "it_fragment_id prev = it_fragment_id i"
    using assms by (force simp: state_inv_def state_items_def)+
  then have "inj_on it_fragment_id (insert i (state_items st)) \<longleftrightarrow> prev = i"
    using state_inv_inj [OF assms] by (auto simp: inj_on_def insert_absorb)
  with Some prev show ?thesis by (auto simp: setdefault_item_def)
qed

lemma setdefault_item_inv:
  "state_inv st \<Longrightarrow> setdefault_item st i = Inr st' \<Longrightarrow>
   state_inv st' \<and> state_items st' = insert i (state_items st) \<and>
   omission_present st' = omission_present st"
  by (cases "i \<in> state_items st")
    (auto simp: setdefault_item_iff state_inv_def state_items_def inj_on_def image_iff
      split: if_splits)

text \<open>The items a list of candidates contributes.\<close>

definition permitted_items ::
  "access_policy \<Rightarrow> request_scope \<Rightarrow> snapshot_candidate set \<Rightarrow> manifest_item set" where
  "permitted_items p s C =
     {i. \<exists>c \<in> C. requested s c \<and> policy_allows p s c \<and> candidate_item s c = Inr i}"

definition items_valid :: "access_policy \<Rightarrow> request_scope \<Rightarrow> snapshot_candidate set \<Rightarrow> bool" where
  "items_valid p s C \<longleftrightarrow>
     (\<forall>c \<in> C. requested s c \<and> policy_allows p s c \<longrightarrow> (\<exists>i. candidate_item s c = Inr i))"

definition some_withheld :: "access_policy \<Rightarrow> request_scope \<Rightarrow> snapshot_candidate set \<Rightarrow> bool" where
  "some_withheld p s C \<longleftrightarrow> (\<exists>c \<in> C. requested s c \<and> \<not> policy_allows p s c)"

lemma permitted_items_insert:
  "permitted_items p s (insert c C) =
     (if requested s c \<and> policy_allows p s c
      then {i. candidate_item s c = Inr i} else {}) \<union> permitted_items p s C"
  by (auto simp: permitted_items_def)

lemma compile_loop_success:
  assumes "state_inv st"
  shows "(\<exists>st'. compile_loop p s st cs = Inr st') \<longleftrightarrow>
    items_valid p s (set cs) \<and>
    inj_on it_fragment_id (state_items st \<union> permitted_items p s (set cs))"
  using assms
proof (induction cs arbitrary: st)
  case Nil
  then show ?case by (simp add: items_valid_def permitted_items_def state_inv_inj)
next
  case (Cons c cs)
  consider (skip) "\<not> (requested s c \<and> policy_allows p s c)"
    | (bad) e where "requested s c" "policy_allows p s c" "candidate_item s c = Inl e"
    | (item) i where "requested s c" "policy_allows p s c" "candidate_item s c = Inr i"
    by (cases "candidate_item s c") auto
  then show ?case
  proof cases
    case skip
    with Cons show ?thesis
      by (auto simp: compile_step_eq permitted_items_insert items_valid_def)
  next
    case bad
    then show ?thesis by (auto simp: compile_step_eq items_valid_def)
  next
    case item
    have split: "state_items st \<union> permitted_items p s (set (c # cs)) =
        insert i (state_items st) \<union> permitted_items p s (set cs)"
      using item by (auto simp: permitted_items_insert)
    show ?thesis
    proof (cases "setdefault_item st i")
      case (Inl e)
      then have "\<not> inj_on it_fragment_id (insert i (state_items st))"
        using setdefault_item_iff [OF Cons.prems, of i] by auto
      then have "\<not> inj_on it_fragment_id (state_items st \<union> permitted_items p s (set (c # cs)))"
        unfolding split by (meson inj_on_subset Un_upper1)
      with Inl item show ?thesis by (simp add: compile_step_eq)
    next
      case (Inr st1)
      note inv = setdefault_item_inv [OF Cons.prems Inr]
      with Cons.IH [of st1] Inr item split show ?thesis
        by (auto simp: compile_step_eq items_valid_def)
    qed
  qed
qed

lemma compile_loop_result:
  "state_inv st \<Longrightarrow> compile_loop p s st cs = Inr st' \<Longrightarrow>
   state_inv st' \<and> state_items st' = state_items st \<union> permitted_items p s (set cs) \<and>
   omission_present st' = (omission_present st \<or> some_withheld p s (set cs))"
proof (induction cs arbitrary: st)
  case Nil
  then show ?case by (simp add: permitted_items_def some_withheld_def)
next
  case (Cons c cs)
  then obtain st1 where st1: "compile_step p s st c = Inr st1"
    and rest: "compile_loop p s st1 cs = Inr st'"
    by (auto simp: res_simps)
  have "state_inv st1 \<and>
      state_items st1 = state_items st \<union> permitted_items p s {c} \<and>
      omission_present st1 = (omission_present st \<or> some_withheld p s {c})"
    using st1 Cons.prems(1)
    by (auto simp: compile_step_eq res_simps permitted_items_def some_withheld_def
        dest: setdefault_item_inv split: if_splits)
  with Cons.IH [OF _ rest] show ?case
    by (auto simp: permitted_items_def some_withheld_def)
qed


subsection \<open>The compiled capability\<close>

abbreviation empty_state :: compile_state where
  "empty_state \<equiv> \<lparr>permitted_by_fragment = [], omission_present = False\<rparr>"

lemma empty_state_inv [simp]: "state_inv empty_state" "state_items empty_state = {}"
  by (simp_all add: state_inv_def state_items_def)

lemma compile_access_parts:
  assumes "compile_access p s cs = Inr r"
  obtains st where
    "ap_library_id p = sc_library_id s" "sc_purpose s \<in> set (allowed_purposes p)"
    "compile_loop p s empty_state cs = Inr st"
    "mf_library_id (ca_manifest r) = sc_library_id s"
    "mf_snapshot_hash (ca_manifest r) = sc_snapshot_hash s"
    "mf_items (ca_manifest r) = sort_key it_fragment_id (map snd (permitted_by_fragment st))"
    "mf_permitted_set_hash (ca_manifest r) = canonical_sha256_hex (manifest_payload (ca_manifest r))"
    "tok_library_id (ca_token r) = sc_library_id s"
    "tok_snapshot_hash (ca_token r) = sc_snapshot_hash s"
    "tok_policy_hash (ca_token r) = policy_hash p"
    "tok_exclusion_hash (ca_token r) = exclusion_hash s"
    "tok_permitted_set_hash (ca_token r) = mf_permitted_set_hash (ca_manifest r)"
    "tok_token_hash (ca_token r) = canonical_sha256_hex (binding_payload (ca_token r))"
    "ca_policy_omission_present r = omission_present st"
  using assms
  by (auto simp: compile_access_def make_manifest_def make_token_def make_compiled_access_def
      canonical_manifest_items_def manifest_payload_def binding_payload_def Let_def res_simps
      split: if_splits)

lemma compile_access_items:
  assumes "compile_access p s cs = Inr r"
  shows "set (mf_items (ca_manifest r)) = permitted_items p s (set cs)"
proof -
  from compile_access_parts [OF assms] obtain st where
    st: "compile_loop p s empty_state cs = Inr st"
    and items: "mf_items (ca_manifest r) = sort_key it_fragment_id (map snd (permitted_by_fragment st))"
    by metis
  from compile_loop_result [OF empty_state_inv(1) st] items show ?thesis
    by (simp add: state_items_def)
qed

text \<open>
  The outcome depends on the candidates only through the items they contribute, their
  validity and the presence of a withheld one.
\<close>

lemma compile_access_cong:
  assumes ok: "compile_access p s cs = Inr r"
    and items: "permitted_items p s (set cs') = permitted_items p s (set cs)"
    and valid: "items_valid p s (set cs) \<Longrightarrow> items_valid p s (set cs')"
  shows "compile_access p s cs' =
    Inr (r\<lparr>ca_policy_omission_present := some_withheld p s (set cs')\<rparr>)"
proof -
  from ok obtain st where pre: "ap_library_id p = sc_library_id s" "sc_purpose s \<in> set (allowed_purposes p)"
    and st: "compile_loop p s empty_state cs = Inr st"
    by (rule compile_access_parts) blast
  have "\<exists>st'. compile_loop p s empty_state cs' = Inr st'"
    using st items valid compile_loop_success [OF empty_state_inv(1)] by (metis empty_state_inv(2))
  then obtain st' where st': "compile_loop p s empty_state cs' = Inr st'" by blast
  note res = compile_loop_result [OF empty_state_inv(1) st]
    and res' = compile_loop_result [OF empty_state_inv(1) st']
  have keys: "map it_fragment_id (map snd (permitted_by_fragment x)) = map fst (permitted_by_fragment x)"
    if "state_inv x" for x
    using that by (auto simp: state_inv_def)
  have d: "distinct (map it_fragment_id (map snd (permitted_by_fragment st)))"
      "distinct (map it_fragment_id (map snd (permitted_by_fragment st')))"
    using res res' keys [of st] keys [of st'] by (metis state_inv_def)+
  have same: "sort_key it_fragment_id (map snd (permitted_by_fragment st')) =
      sort_key it_fragment_id (map snd (permitted_by_fragment st))"
    using d res res' items by (intro sort_key_unique) (auto simp: state_items_def)
  have bit: "omission_present st' = some_withheld p s (set cs')" using res' by simp
  show ?thesis
    using ok st st' pre d bit
    by (auto simp: compile_access_def make_manifest_def make_compiled_access_def
        canonical_manifest_items_def Let_def same res_simps split: if_splits)
qed

subsection \<open>Faithful payloads\<close>

lemma effect_value_eq [simp]: "effect_value a = effect_value b \<longleftrightarrow> a = b"
  by (cases a; cases b) (simp_all add: effect_value_def)

lemma collection_rule_payload_eq: "canon (collection_rule_payload a) = canon (collection_rule_payload b) \<Longrightarrow> a = b"
  by (auto simp: collection_rule_payload_def)

lemma source_rule_payload_eq: "canon (source_rule_payload a) = canon (source_rule_payload b) \<Longrightarrow> a = b"
  by (auto simp: source_rule_payload_def)

lemma item_payload_eq: "canon (item_payload a) = canon (item_payload b) \<Longrightarrow> a = b"
  by (auto simp: item_payload_def comp_def)

lemma exclusions_payload_eq: "canon (exclusions_payload a) = canon (exclusions_payload b) \<Longrightarrow> a = b"
  by (auto simp: exclusions_payload_def comp_def)

text \<open>What each hash covers.\<close>

definition policy_view :: "access_policy \<Rightarrow> access_policy" where
  "policy_view p = p\<lparr>access_policy_id := [], policy_hash := []\<rparr>"

definition scope_view :: "request_scope \<Rightarrow> string \<times> string list \<times> query_exclusions" where
  "scope_view s = (sc_purpose s, sc_collection_ids s, sc_exclusions s)"

interpretation policy_addr: content_addressed policy_payload policy_view
proof unfold_locales
  fix v w assume "canon (policy_payload v) = canon (policy_payload w)"
  then show "policy_view v = policy_view w"
    by (auto simp: policy_payload_def policy_view_def comp_def
        dest!: map_canon_eqD [OF _ collection_rule_payload_eq]
          map_canon_eqD [OF _ source_rule_payload_eq])
qed

interpretation scope_addr: content_addressed exclusion_payload scope_view
proof unfold_locales
  fix v w assume "canon (exclusion_payload v) = canon (exclusion_payload w)"
  then show "scope_view v = scope_view w"
    by (auto simp: exclusion_payload_def scope_view_def comp_def dest: exclusions_payload_eq)
qed

interpretation manifest_addr: content_addressed manifest_payload
  "\<lambda>m. (mf_library_id m, mf_snapshot_hash m, mf_items m)"
proof unfold_locales
  fix v w assume "canon (manifest_payload v) = canon (manifest_payload w)"
  then show "(mf_library_id v, mf_snapshot_hash v, mf_items v) =
      (mf_library_id w, mf_snapshot_hash w, mf_items w)"
    by (auto simp: manifest_payload_def comp_def dest!: map_canon_eqD [OF _ item_payload_eq])
qed

interpretation token_addr: content_addressed binding_payload
  "\<lambda>t. (tok_library_id t, tok_snapshot_hash t, tok_policy_hash t, tok_exclusion_hash t,
       tok_permitted_set_hash t)"
proof unfold_locales
  fix v w assume "canon (binding_payload v) = canon (binding_payload w)"
  then show "(tok_library_id v, tok_snapshot_hash v, tok_policy_hash v, tok_exclusion_hash v,
        tok_permitted_set_hash v) =
      (tok_library_id w, tok_snapshot_hash w, tok_policy_hash w, tok_exclusion_hash w,
        tok_permitted_set_hash w)"
    by (auto simp: binding_payload_def)
qed

subsection \<open>Success of the compiler\<close>

text \<open>A candidate as the constructors build it.\<close>

definition candidate_ok :: "snapshot_candidate \<Rightarrow> bool" where
  "candidate_ok c \<longleftrightarrow>
     make_candidate (cand_fragment_id c) (cand_version_id c) (cand_source_id c)
       (cand_family_id c) (cand_memberships c) = Inr c \<and>
     (\<forall>m \<in> set (cand_memberships c).
        make_membership (mem_collection_id m) (mem_state m) = Inr m)"

lemma candidate_item_ok:
  assumes "candidate_ok c" and "requested s c"
  shows "\<exists>i. candidate_item s c = Inr i"
proof -
  let ?ids = "map mem_collection_id (relevant_memberships s c)"
  have "\<exists>ys. map_res (\<lambda>v. require_id v ''collection'') ?ids = Inr ys"
    using assms(1)
    by (intro map_res_ok) (auto simp: candidate_ok_def relevant_memberships_def make_membership_def res_simps)
  moreover have "distinct ?ids"
    using assms(1)
    by (auto simp: candidate_ok_def make_candidate_def canonical_memberships_def
        relevant_memberships_def res_simps distinct_map_filter split: if_splits)
  moreover have "?ids \<noteq> []"
    using assms(2) by (auto simp: requested_def relevant_memberships_def filter_empty_conv)
  then have "sort ?ids \<noteq> []" by (metis set_empty set_sort)
  ultimately show ?thesis
    using assms(1)
    by (auto simp: candidate_item_def make_manifest_item_def sorted_unique_ids_def candidate_ok_def
        make_candidate_def res_simps split: if_splits)
qed

lemma compile_access_success:
  assumes p: "make_policy pid lib purposes crules srules export external = Inr p"
    and s: "make_scope slib snap purpose cids excl = Inr s"
    and ok: "\<forall>c \<in> set cs. candidate_ok c"
    and pre: "ap_library_id p = sc_library_id s" "sc_purpose s \<in> set (allowed_purposes p)"
    and inj: "inj_on it_fragment_id (permitted_items p s (set cs))"
  shows "\<exists>r. compile_access p s cs = Inr r"
proof -
  have "items_valid p s (set cs)"
    using ok candidate_item_ok by (auto simp: items_valid_def)
  with inj obtain st where st: "compile_loop p s empty_state cs = Inr st"
    using compile_loop_success [OF empty_state_inv(1), of p s cs] by auto
  note res = compile_loop_result [OF empty_state_inv(1) st]
  have "map it_fragment_id (map snd (permitted_by_fragment st)) = map fst (permitted_by_fragment st)"
    using res by (auto simp: state_inv_def)
  then have d: "distinct (map it_fragment_id (map snd (permitted_by_fragment st)))"
    using res by (metis state_inv_def)
  have hash: "matches_hex 64 (policy_hash p)"
    using p by (auto simp: make_policy_def Let_def res_simps split: if_splits)
  have scope: "\<exists>x. require_id (sc_library_id s) ''library'' = Inr x" "matches_hex 64 (sc_snapshot_hash s)"
    using s by (auto simp: make_scope_def require_hash_def res_simps split: if_splits)
  then show ?thesis
    using st pre d hash
    by (auto simp: compile_access_def make_manifest_def make_token_def make_compiled_access_def
        canonical_manifest_items_def require_hash_def exclusion_hash_def Let_def)
qed

subsection \<open>A concrete request\<close>

text \<open>
  One allowed and one unlisted Collection, two candidates: the first is in the allowed
  Collection only, the second also in the unlisted one.
\<close>

definition demo_policy :: access_policy where
  "demo_policy =
     (let p = \<lparr>access_policy_id = ''policy_a'', ap_library_id = ''library_a'',
        allowed_purposes = [''research''],
        collection_rules = [\<lparr>cr_collection_id = ''collection_a'', cr_effect = ALLOW\<rparr>],
        source_rules = [], allow_export = False, allow_external_provider = False,
        policy_hash = []\<rparr>
      in p\<lparr>policy_hash := canonical_sha256_hex (policy_payload p)\<rparr>)"

definition demo_scope :: request_scope where
  "demo_scope = \<lparr>sc_library_id = ''library_a'', sc_snapshot_hash = replicate 64 CHR ''0'',
     sc_purpose = ''research'', sc_collection_ids = [''collection_a'', ''collection_b''],
     sc_exclusions = \<lparr>ex_source_ids = [], ex_source_family_ids = [],
       ex_source_fragment_ids = []\<rparr>\<rparr>"

definition demo_candidates :: "snapshot_candidate list" where
  "demo_candidates =
     [\<lparr>cand_fragment_id = ''fragment_a'', cand_version_id = ''source_version_a'',
       cand_source_id = ''source_a'', cand_family_id = None,
       cand_memberships = [\<lparr>mem_collection_id = ''collection_a'', mem_state = ACTIVE\<rparr>]\<rparr>,
      \<lparr>cand_fragment_id = ''fragment_b'', cand_version_id = ''source_version_b'',
       cand_source_id = ''source_b'', cand_family_id = Some ''family_b'',
       cand_memberships = [\<lparr>mem_collection_id = ''collection_a'', mem_state = ACTIVE\<rparr>,
         \<lparr>mem_collection_id = ''collection_b'', mem_state = ACTIVE\<rparr>]\<rparr>]"

definition demo_manifest :: permitted_manifest where
  "demo_manifest =
     (let m = \<lparr>mf_library_id = ''library_a'', mf_snapshot_hash = replicate 64 CHR ''0'',
        mf_items = [\<lparr>it_fragment_id = ''fragment_a'', it_version_id = ''source_version_a'',
          it_source_id = ''source_a'', it_family_id = None,
          it_collection_ids = [''collection_a'']\<rparr>],
        mf_permitted_set_hash = []\<rparr>
      in m\<lparr>mf_permitted_set_hash := canonical_sha256_hex (manifest_payload m)\<rparr>)"

definition demo_token :: permitted_token where
  "demo_token =
     (let t = \<lparr>tok_library_id = ''library_a'', tok_snapshot_hash = replicate 64 CHR ''0'',
        tok_policy_hash = policy_hash demo_policy, tok_exclusion_hash = exclusion_hash demo_scope,
        tok_permitted_set_hash = mf_permitted_set_hash demo_manifest, tok_token_hash = []\<rparr>
      in t\<lparr>tok_token_hash := canonical_sha256_hex (binding_payload t)\<rparr>)"

lemmas validator_simps =
  require_id_def id_pattern_def purpose_pattern_def matches_head_rest_def has_prefix_def
  lower_az_def digits09_def require_hash_def sorted_unique_ids_def sorted_unique_strings_def
  require_optional_id_def canonical_rules_def

lemma hex_zeros [simp]: "matches_hex 64 (replicate 64 CHR ''0'')"
  by (simp add: matches_hex_def hexdigits_def list_all_iff)

lemma demo_policy_made:
  "make_policy ''policy_a'' ''library_a'' [''research'']
     [\<lparr>cr_collection_id = ''collection_a'', cr_effect = ALLOW\<rparr>] [] False False = Inr demo_policy"
  by (simp add: make_policy_def demo_policy_def validator_simps Let_def)

lemma demo_scope_made:
  "make_scope ''library_a'' (replicate 64 CHR ''0'') ''research'' [''collection_b'', ''collection_a'']
     \<lparr>ex_source_ids = [], ex_source_family_ids = [], ex_source_fragment_ids = []\<rparr> = Inr demo_scope"
  by (simp add: make_scope_def demo_scope_def validator_simps Let_def)

lemma demo_loop:
  "compile_loop demo_policy demo_scope empty_state demo_candidates =
     Inr \<lparr>permitted_by_fragment = [(''fragment_a'', hd (mf_items demo_manifest))],
          omission_present = True\<rparr>"
  by (simp add: demo_candidates_def compile_step_def relevant_memberships_def demo_scope_def
      demo_policy_def demo_manifest_def collection_effects_def source_effects_def dict_of_def
      candidate_item_def make_manifest_item_def setdefault_item_def validator_simps Let_def)

lemma demo_compiled:
  "compile_access demo_policy demo_scope demo_candidates =
     Inr \<lparr>ca_manifest = demo_manifest, ca_token = demo_token, ca_policy_omission_present = True\<rparr>"
proof -
  have "compile_access demo_policy demo_scope demo_candidates =
    res_bind (make_manifest ''library_a'' (replicate 64 CHR ''0'') (mf_items demo_manifest)) (\<lambda>m.
    res_bind (make_token ''library_a'' (replicate 64 CHR ''0'') (policy_hash demo_policy)
      (exclusion_hash demo_scope) (mf_permitted_set_hash m)) (\<lambda>t. make_compiled_access m t True))"
    by (simp only: compile_access_def demo_loop)
      (simp add: demo_policy_def demo_scope_def demo_manifest_def Let_def)
  also have "\<dots> = Inr \<lparr>ca_manifest = demo_manifest, ca_token = demo_token,
      ca_policy_omission_present = True\<rparr>"
    by (simp add: make_manifest_def make_token_def make_compiled_access_def
        canonical_manifest_items_def demo_manifest_def demo_token_def demo_policy_def
        exclusion_hash_def validator_simps Let_def)
  finally show ?thesis .
qed

lemma compile_access_result:
  assumes "compile_access p s cs = Inr r"
  shows "set (mf_items (ca_manifest r)) =
      {i. \<exists>c \<in> set cs. requested s c \<and> policy_allows p s c \<and> candidate_item s c = Inr i}"
    and "sorted (map it_fragment_id (mf_items (ca_manifest r)))"
    and "distinct (map it_fragment_id (mf_items (ca_manifest r)))"
    and "ca_policy_omission_present r \<longleftrightarrow> (\<exists>c \<in> set cs. requested s c \<and> \<not> policy_allows p s c)"
proof -
  from compile_access_parts [OF assms] obtain st where
    st: "compile_loop p s empty_state cs = Inr st"
    and items: "mf_items (ca_manifest r) = sort_key it_fragment_id (map snd (permitted_by_fragment st))"
    and bit: "ca_policy_omission_present r = omission_present st" by metis
  note res = compile_loop_result [OF empty_state_inv(1) st]
  show "set (mf_items (ca_manifest r)) =
      {i. \<exists>c \<in> set cs. requested s c \<and> policy_allows p s c \<and> candidate_item s c = Inr i}"
    using compile_access_items [OF assms] by (simp add: permitted_items_def)
  show "sorted (map it_fragment_id (mf_items (ca_manifest r)))"
    unfolding items by simp
  have "map it_fragment_id (map snd (permitted_by_fragment st)) = map fst (permitted_by_fragment st)"
    using res by (auto simp: state_inv_def)
  then have "distinct (map it_fragment_id (map snd (permitted_by_fragment st)))"
    using res by (metis state_inv_def)
  then show "distinct (map it_fragment_id (mf_items (ca_manifest r)))"
    unfolding items by (simp only: distinct_map distinct_sort set_sort)
  show "ca_policy_omission_present r \<longleftrightarrow> (\<exists>c \<in> set cs. requested s c \<and> \<not> policy_allows p s c)"
    using res bit by (simp add: some_withheld_def)
qed

subsection \<open>Properties\<close>

text \<open>
  C8. The compiler computes exactly its specification: the manifest lists, in increasing
  order of fragment identifier and without repetition, the items of the candidates that
  the request reaches and the policy allows, and the public omission bit is set exactly
  when some reached candidate is withheld by the policy.
\<close>

theorem compile_access_exact:
  assumes "compile_access p s cs = Inr r"
  shows "set (mf_items (ca_manifest r)) =
      {i. \<exists>c \<in> set cs. requested s c \<and> policy_allows p s c \<and> candidate_item s c = Inr i} \<and>
    sorted (map it_fragment_id (mf_items (ca_manifest r))) \<and>
    distinct (map it_fragment_id (mf_items (ca_manifest r))) \<and>
    (ca_policy_omission_present r \<longleftrightarrow> (\<exists>c \<in> set cs. requested s c \<and> \<not> policy_allows p s c))"
  using compile_access_result [OF assms] by blast

theorem compile_access_exact_witness:
  "\<exists>c \<in> set demo_candidates. requested demo_scope c \<and> \<not> policy_allows demo_policy demo_scope c"
  using compile_access_exact [OF demo_compiled] by simp

text \<open>
  Default deny: every fragment in a compiled manifest comes from a candidate whose
  requested Collections are all active in the snapshot and explicitly allowed by the
  policy, whose Source is not denied, and none of whose identifiers is excluded; the item
  names only requested Collections.
\<close>

theorem compile_access_default_deny:
  assumes "compile_access p s cs = Inr r" and "i \<in> set (mf_items (ca_manifest r))"
  shows "\<exists>c \<in> set cs. it_fragment_id i = cand_fragment_id c \<and> it_source_id i = cand_source_id c \<and>
    (\<forall>m \<in> set (cand_memberships c). mem_collection_id m \<in> set (sc_collection_ids s) \<longrightarrow>
       mem_state m = ACTIVE \<and> collection_effects p (mem_collection_id m) = Some ALLOW) \<and>
    source_effects p (it_source_id i) \<noteq> Some DENY \<and>
    it_source_id i \<notin> set (ex_source_ids (sc_exclusions s)) \<and>
    it_fragment_id i \<notin> set (ex_source_fragment_ids (sc_exclusions s)) \<and>
    it_collection_ids i \<noteq> [] \<and> set (it_collection_ids i) \<subseteq> set (sc_collection_ids s)"
proof -
  from assms(2) compile_access_items [OF assms(1)] obtain c where
    c: "c \<in> set cs" "requested s c" "policy_allows p s c" "candidate_item s c = Inr i"
    by (auto simp: permitted_items_def)
  note fields = candidate_item_fields [OF c(4)]
  then have ids: "set (it_collection_ids i) = mem_collection_id ` set (relevant_memberships s c)"
    by simp
  have "relevant_memberships s c \<noteq> []"
    using c(2) by (auto simp: requested_def relevant_memberships_def filter_empty_conv)
  with ids have "it_collection_ids i \<noteq> []" by auto
  moreover have "set (it_collection_ids i) \<subseteq> set (sc_collection_ids s)"
    using ids by (auto simp: relevant_memberships_def)
  ultimately show ?thesis
    using c fields by (intro bexI [of _ c]) (auto simp: requested_def policy_allows_def)
qed

theorem compile_access_default_deny_witness:
  "\<exists>c \<in> set demo_candidates. ''fragment_a'' = cand_fragment_id c \<and>
     source_effects demo_policy ''source_a'' \<noteq> Some DENY"
  using compile_access_default_deny [OF demo_compiled, of "hd (mf_items demo_manifest)"]
  by (auto simp: demo_manifest_def Let_def)

text \<open>
  C25. Non-interference: neither the order nor the repetition of candidates, nor any
  candidate that the request does not reach or the policy withholds, changes the manifest
  or the token; the withheld ones show only in the one public bit.
\<close>

theorem compile_access_noninterference:
  assumes "compile_access p s cs = Inr r"
    and "{c \<in> set cs'. requested s c \<and> policy_allows p s c} =
         {c \<in> set cs. requested s c \<and> policy_allows p s c}"
  shows "compile_access p s cs' =
    Inr (r\<lparr>ca_policy_omission_present :=
       (\<exists>c \<in> set cs'. requested s c \<and> \<not> policy_allows p s c)\<rparr>)"
proof -
  have "permitted_items p s (set cs') = permitted_items p s (set cs)"
    using assms(2) unfolding permitted_items_def by blast
  moreover have "items_valid p s (set cs) \<Longrightarrow> items_valid p s (set cs')"
    using assms(2) unfolding items_valid_def by blast
  ultimately show ?thesis
    using compile_access_cong [OF assms(1)] by (simp add: some_withheld_def)
qed

theorem compile_access_noninterference_witness:
  "compile_access demo_policy demo_scope [hd demo_candidates, hd demo_candidates] =
     Inr \<lparr>ca_manifest = demo_manifest, ca_token = demo_token, ca_policy_omission_present = False\<rparr>"
proof -
  have "requested demo_scope (hd demo_candidates)"
    "policy_allows demo_policy demo_scope (hd demo_candidates)"
    "\<not> policy_allows demo_policy demo_scope (last demo_candidates)"
    by (simp_all add: requested_def policy_allows_def demo_candidates_def demo_scope_def
        demo_policy_def collection_effects_def source_effects_def dict_of_def Let_def)
  then show ?thesis
    using compile_access_noninterference [OF demo_compiled, of "[hd demo_candidates, hd demo_candidates]"]
    by (auto simp: demo_candidates_def)
qed

text \<open>
  The check of a freshly compiled token succeeds for exactly one tuple of expected
  components: the Library and snapshot of the request, the hash of the policy, the scope
  hash of the request and the hash of the compiled manifest.
\<close>

theorem verify_compiled_token:
  assumes "compile_access p s cs = Inr r"
  shows "verify_permitted_token (ca_token r) lib snap pol excl perm = Inr () \<longleftrightarrow>
    lib = sc_library_id s \<and> snap = sc_snapshot_hash s \<and> pol = policy_hash p \<and>
    excl = exclusion_hash s \<and> perm = mf_permitted_set_hash (ca_manifest r)"
proof -
  have "verify_permitted_token t lib snap pol excl perm = Inr () \<longleftrightarrow>
      tok_library_id t = lib \<and> tok_snapshot_hash t = snap \<and> tok_policy_hash t = pol \<and>
      tok_exclusion_hash t = excl \<and> tok_permitted_set_hash t = perm \<and>
      tok_token_hash t = canonical_sha256_hex (binding_payload t)" for t
    by (auto simp: verify_permitted_token_def token_mismatches_def Let_def)
  then show ?thesis using compile_access_parts [OF assms] by metis
qed

theorem verify_compiled_token_witness:
  "verify_permitted_token demo_token ''library_a'' (replicate 64 CHR ''0'')
     (policy_hash demo_policy) (exclusion_hash demo_scope) (mf_permitted_set_hash demo_manifest) = Inr ()"
  using verify_compiled_token [OF demo_compiled] by (simp add: demo_scope_def)



text \<open>
  The compiler refuses a well-formed request for three reasons only: the policy belongs
  to another Library, the purpose is not allowed, or two permitted candidates carry one
  fragment identifier with different metadata.  Otherwise it returns a capability.
\<close>

theorem compile_access_succeeds_iff:
  assumes "make_policy pid lib purposes crules srules export external = Inr p"
    and "make_scope slib snap purpose cids excl = Inr s"
    and "\<forall>c \<in> set cs. candidate_ok c"
  shows "(\<exists>r. compile_access p s cs = Inr r) \<longleftrightarrow>
    ap_library_id p = sc_library_id s \<and> sc_purpose s \<in> set (allowed_purposes p) \<and>
    inj_on it_fragment_id (permitted_items p s (set cs))"
proof
  assume "\<exists>r. compile_access p s cs = Inr r"
  then obtain r where "compile_access p s cs = Inr r" by blast
  then show "ap_library_id p = sc_library_id s \<and> sc_purpose s \<in> set (allowed_purposes p) \<and>
      inj_on it_fragment_id (permitted_items p s (set cs))"
    by (rule compile_access_parts)
      (use compile_loop_success [OF empty_state_inv(1), of p s cs] in auto)
next
  assume "ap_library_id p = sc_library_id s \<and> sc_purpose s \<in> set (allowed_purposes p) \<and>
    inj_on it_fragment_id (permitted_items p s (set cs))"
  then show "\<exists>r. compile_access p s cs = Inr r"
    using compile_access_success [OF assms] by blast
qed

theorem compile_access_succeeds_iff_witness:
  "inj_on it_fragment_id (permitted_items demo_policy demo_scope (set demo_candidates))"
proof -
  have "\<forall>c \<in> set demo_candidates. candidate_ok c"
    by (simp add: demo_candidates_def candidate_ok_def make_candidate_def make_membership_def
        canonical_memberships_def validator_simps)
  from compile_access_succeeds_iff [OF demo_policy_made demo_scope_made this] demo_compiled
  show ?thesis by blast
qed

end
