(* ===== verification/Model_Fields.thy ===== *)
theory Model_Fields
  imports Canonical
begin

text \<open>
  The declared field constraints of the package's pydantic models, as pydantic documents
  them: with \<open>str_strip_whitespace\<close> every string of a model, also inside tuples, loses
  its leading and trailing white space before any other check; \<open>min_length\<close>,
  \<open>max_length\<close>, \<open>ge\<close>, \<open>le\<close> bound lengths and integers; \<open>pattern\<close> must match the whole
  string.  A violated constraint is an \<open>Inl (FieldConstraint field rule)\<close>, wrapped as a
  \<open>ValidationError\<close> by the model.  pydantic reports all violations; the models here
  report the first in field order, and run the model validators only when there is none,
  as pydantic does.
\<close>

definition model_space :: "char \<Rightarrow> bool" where
  "model_space c \<longleftrightarrow> (of_char c :: nat) \<in> {9, 10, 11, 12, 13, 32, 133, 160}"

definition model_strip :: "string \<Rightarrow> string" where
  "model_strip s = rev (dropWhile model_space (rev (dropWhile model_space s)))"

definition field :: "string \<Rightarrow> string \<Rightarrow> bool \<Rightarrow> unit res" where
  "field name rule c = guard_res c (FieldConstraint name rule)"

definition text_field :: "string \<Rightarrow> nat \<Rightarrow> nat \<Rightarrow> string \<Rightarrow> unit res" where
  "text_field name lo hi s = field name ''length'' (lo \<le> length s \<and> length s \<le> hi)"

definition list_field :: "string \<Rightarrow> nat \<Rightarrow> nat \<Rightarrow> 'a list \<Rightarrow> unit res" where
  "list_field name lo hi xs = field name ''length'' (lo \<le> length xs \<and> length xs \<le> hi)"

definition int_field :: "string \<Rightarrow> int \<Rightarrow> int \<Rightarrow> int \<Rightarrow> unit res" where
  "int_field name lo hi i = field name ''range'' (lo \<le> i \<and> i \<le> hi)"

definition pattern_field :: "string \<Rightarrow> bool \<Rightarrow> unit res" where
  "pattern_field name c = field name ''pattern'' c"

text \<open>All constraints in order, then the model validator.\<close>

fun all_fields :: "unit res list \<Rightarrow> unit res" where
  "all_fields [] = Inr ()"
| "all_fields (c # cs) = res_bind c (\<lambda>_. all_fields cs)"

definition validated :: "unit res list \<Rightarrow> 'a res \<Rightarrow> 'a res" where
  "validated fields check = wrap_validation (res_bind (all_fields fields) (\<lambda>_. check))"

lemma all_fields_eq_Inr [res_simps]: "all_fields cs = Inr u \<longleftrightarrow> list_all (\<lambda>c. c = Inr ()) cs"
  by (induction cs) (auto simp: res_simps)

lemma validated_eq_Inr [res_simps]:
  "validated fields check = Inr x \<longleftrightarrow> list_all (\<lambda>c. c = Inr ()) fields \<and> check = Inr x"
  by (simp add: validated_def res_simps)

lemma field_eq_Inr [res_simps]: "field name rule c = Inr u \<longleftrightarrow> c"
  by (simp add: field_def res_simps)

lemma text_field_eq_Inr [res_simps]:
  "text_field name lo hi s = Inr u \<longleftrightarrow> lo \<le> length s \<and> length s \<le> hi"
  by (simp add: text_field_def res_simps)

lemma list_field_eq_Inr [res_simps]:
  "list_field name lo hi xs = Inr u \<longleftrightarrow> lo \<le> length xs \<and> length xs \<le> hi"
  by (simp add: list_field_def res_simps)

lemma int_field_eq_Inr [res_simps]: "int_field name lo hi i = Inr u \<longleftrightarrow> lo \<le> i \<and> i \<le> hi"
  by (simp add: int_field_def res_simps)

lemma pattern_field_eq_Inr [res_simps]: "pattern_field name c = Inr u \<longleftrightarrow> c"
  by (simp add: pattern_field_def res_simps)

subsection \<open>Stripping\<close>

definition unpadded :: "string \<Rightarrow> bool" where
  "unpadded s \<longleftrightarrow> s = [] \<or> \<not> model_space (hd s) \<and> \<not> model_space (last s)"

lemma dropWhile_hd: "dropWhile P xs = [] \<or> \<not> P (hd (dropWhile P xs))"
  by (induction xs) auto

lemma unpadded_model_strip [simp]: "unpadded (model_strip s)"
proof -
  let ?t = "dropWhile model_space s"
  let ?u = "dropWhile model_space (rev ?t)"
  have "?u = [] \<or> \<not> model_space (hd ?u)" by (rule dropWhile_hd)
  moreover have "?u \<noteq> [] \<Longrightarrow> \<not> model_space (last ?u)"
  proof -
    assume ne: "?u \<noteq> []"
    obtain pre where "rev ?t = pre @ ?u" by (metis takeWhile_dropWhile_id)
    with ne have "last ?u = last (rev ?t)" "?t \<noteq> []" by (metis last_appendR, force)
    then have "last ?u = hd ?t" by (simp add: last_rev)
    with \<open>?t \<noteq> []\<close> dropWhile_hd [of model_space s] show ?thesis by auto
  qed
  ultimately show ?thesis
    by (auto simp: unpadded_def model_strip_def hd_rev last_rev)
qed

lemma model_strip_unpadded [simp]: "unpadded s \<Longrightarrow> model_strip s = s"
proof -
  assume u: "unpadded s"
  then have "dropWhile model_space s = s" by (auto simp: unpadded_def dropWhile_eq_self_iff)
  moreover have "dropWhile model_space (rev s) = rev s"
    using u by (auto simp: unpadded_def dropWhile_eq_self_iff hd_rev)
  ultimately show ?thesis by (simp add: model_strip_def)
qed

lemma model_strip_eq_iff: "model_strip s = s \<longleftrightarrow> unpadded s"
  by (metis model_strip_unpadded unpadded_model_strip)

lemma matches_hex_unpadded [simp]: "matches_hex n s \<Longrightarrow> unpadded s"
proof -
  have "c \<in> set hexdigits \<Longrightarrow> \<not> model_space c" for c
    by (auto simp: hexdigits_def model_space_def)
  then show "matches_hex n s \<Longrightarrow> unpadded s"
    by (auto simp: matches_hex_def unpadded_def list_all_iff)
qed

lemma matches_prefixed_hex_unpadded:
  assumes "matches_prefixed_hex p n s" and "p \<noteq> []" and "\<not> model_space (hd p)" and "0 < n"
  shows "unpadded s"
proof -
  obtain t where s: "s = p @ t" and t: "matches_hex n t"
    using assms(1) by (auto simp: matches_prefixed_hex_def has_prefix_iff)
  from t assms(4) have "t \<noteq> []" by (auto simp: matches_hex_def)
  moreover from t have "unpadded t" by simp
  ultimately show ?thesis using s assms(2,3) by (simp add: unpadded_def)
qed

lemma model_strip_sha256 [simp]: "model_strip (canonical_sha256_hex j) = canonical_sha256_hex j"
  by (rule model_strip_unpadded, rule matches_hex_unpadded, rule canonical_sha256_hex_format)

lemma model_strip_content_id [simp]:
  "p \<noteq> [] \<Longrightarrow> \<not> model_space (hd p) \<Longrightarrow>
     model_strip (canonical_content_id p j) = canonical_content_id p j"
  by (intro model_strip_unpadded
      matches_prefixed_hex_unpadded [OF canonical_content_id_format]) simp_all

text \<open>Stripping a literal.\<close>

lemmas model_strip_literal = model_strip_def model_space_def

subsection \<open>Shared patterns\<close>

text \<open>\<open>[a-z][a-z0-9_-]{1,95}\<close> and \<open>[A-Za-z][A-Za-z0-9_-]{1,95}\<close>.\<close>

definition model_id_pattern :: "string \<Rightarrow> bool" where
  "model_id_pattern s = matches_head_rest lower_az (lower_az @ digits09 @ ''_-'') 1 95 s"

definition task_id_pattern :: "string \<Rightarrow> bool" where
  "task_id_pattern s =
     matches_head_rest (upper_az @ lower_az) (upper_az @ lower_az @ digits09 @ ''_-'') 1 95 s"

text \<open>
  \<open>[0-9]{4}-[0-9]{2}-[0-9]{2}T[0-9]{2}:[0-9]{2}:[0-9]{2}\.[0-9]{6}Z\<close>: in the template,
  \<open>d\<close> stands for a digit and every other character for itself.
\<close>

definition timestamp_template :: string where
  "timestamp_template = ''dddd-dd-ddTdd:dd:dd.ddddddZ''"

definition timestamp_pattern :: "string \<Rightarrow> bool" where
  "timestamp_pattern s =
     list_all2 (\<lambda>t c. if t = CHR ''d'' then c \<in> set digits09 else c = t) timestamp_template s"

end
