(* ===== verification/Sessions.thy ===== *)
theory Sessions
  imports Model_Fields Access
begin

text \<open>
  Research sessions (\<open>src/dithyramba/sessions\<close>): the immutable brief and session, the
  typed, content-addressed events of the append-only journal, the compact state derived
  from it (\<open>models.py\<close>), and the coordinator that appends and replays (\<open>service.py\<close>).

  Each \<open>validate_x\<close> is the construction of the pydantic model from given field values:
  stripping, field constraints, model validator.  Each \<open>create_x\<close> is the class method
  that computes the identifiers from the unstripped arguments and then constructs.
\<close>

definition genesis_event_hash :: string where
  "genesis_event_hash = replicate 64 CHR ''0''"

subsection \<open>Enumerations\<close>

datatype session_actor_kind = HUMAN | MODEL | DETERMINISTIC

definition actor_kind_value :: "session_actor_kind \<Rightarrow> string" where
  "actor_kind_value k =
     (case k of HUMAN \<Rightarrow> ''human'' | MODEL \<Rightarrow> ''model'' | DETERMINISTIC \<Rightarrow> ''deterministic'')"

datatype session_status = OPEN | CLOSED

definition status_value :: "session_status \<Rightarrow> string" where
  "status_value s = (case s of OPEN \<Rightarrow> ''open'' | CLOSED \<Rightarrow> ''closed'')"

datatype session_event_kind =
    QUESTION_ASKED
  | EVIDENCE_ATTACHED
  | ANSWER_DRAFTED
  | CANDIDATE_LINKED
  | GAP_RECORDED
  | PATH_REJECTED
  | DECISION_RECORDED
  | SESSION_CLOSED

definition event_kind_value :: "session_event_kind \<Rightarrow> string" where
  "event_kind_value k =
     (case k of QUESTION_ASKED \<Rightarrow> ''question_asked'' | EVIDENCE_ATTACHED \<Rightarrow> ''evidence_attached''
      | ANSWER_DRAFTED \<Rightarrow> ''answer_drafted'' | CANDIDATE_LINKED \<Rightarrow> ''candidate_linked''
      | GAP_RECORDED \<Rightarrow> ''gap_recorded'' | PATH_REJECTED \<Rightarrow> ''path_rejected''
      | DECISION_RECORDED \<Rightarrow> ''decision_recorded'' | SESSION_CLOSED \<Rightarrow> ''session_closed'')"

datatype session_artifact_kind =
    SOURCE_FRAGMENT
  | EVIDENCE_PACKET
  | EVIDENCE_LINK
  | STATEMENT
  | CONCEPT
  | ENTITY

definition artifact_kind_value :: "session_artifact_kind \<Rightarrow> string" where
  "artifact_kind_value k =
     (case k of SOURCE_FRAGMENT \<Rightarrow> ''source_fragment'' | EVIDENCE_PACKET \<Rightarrow> ''evidence_packet''
      | EVIDENCE_LINK \<Rightarrow> ''evidence_link'' | STATEMENT \<Rightarrow> ''statement''
      | CONCEPT \<Rightarrow> ''concept'' | ENTITY \<Rightarrow> ''entity'')"

text \<open>\<open>_ACTOR_ID_PATTERN\<close>: \<open>[A-Za-z][A-Za-z0-9_.:@/-]{0,127}\<close>.\<close>

definition actor_id_pattern :: "string \<Rightarrow> bool" where
  "actor_id_pattern s =
     matches_head_rest (upper_az @ lower_az) (upper_az @ lower_az @ digits09 @ ''_.:@/-'') 0 127 s"

definition lower_id_pattern :: "string \<Rightarrow> string \<Rightarrow> bool" where
  "lower_id_pattern pre s \<longleftrightarrow>
     has_prefix pre s \<and> drop (length pre) s \<noteq> [] \<and>
     list_all (\<lambda>c. c \<in> set (lower_az @ digits09 @ ''_'')) (drop (length pre) s)"

subsection \<open>Brief\<close>

record session_brief =
  sb_schema_id :: string
  sb_brief_id :: string
  sb_brief_hash :: string
  sb_question :: string
  sb_intended_use :: string
  sb_success_criteria :: "string list"
  sb_boundaries :: "string list"

definition brief_schema :: string where
  "brief_schema = ''dithyramba.research_session_brief/1.0''"

definition brief_payload :: "session_brief \<Rightarrow> json" where
  "brief_payload b =
     JObj
       [(''schema_id'', JStr (sb_schema_id b)),
        (''question'', JStr (sb_question b)),
        (''intended_use'', JStr (sb_intended_use b)),
        (''success_criteria'', JList (map JStr (sb_success_criteria b))),
        (''boundaries'', JList (map JStr (sb_boundaries b)))]"

definition strip_brief :: "session_brief \<Rightarrow> session_brief" where
  "strip_brief b =
     \<lparr>sb_schema_id = model_strip (sb_schema_id b), sb_brief_id = model_strip (sb_brief_id b),
      sb_brief_hash = model_strip (sb_brief_hash b), sb_question = model_strip (sb_question b),
      sb_intended_use = model_strip (sb_intended_use b),
      sb_success_criteria = map model_strip (sb_success_criteria b),
      sb_boundaries = map model_strip (sb_boundaries b)\<rparr>"

definition brief_validator :: "session_brief \<Rightarrow> session_brief res" where
  "brief_validator b =
     (if sb_schema_id b \<noteq> brief_schema
      then Inl (ValueError (''schema_id must be '' @ brief_schema))
      else if has_duplicates (sb_success_criteria b)
      then Inl (ValueError ''success_criteria must be unique'')
      else if has_duplicates (sb_boundaries b)
      then Inl (ValueError ''boundaries must be unique'')
      else if sb_brief_id b \<noteq> canonical_content_id ''session_brief'' (brief_payload b)
      then Inl (ValueError ''brief_id does not match the canonical brief content'')
      else if sb_brief_hash b \<noteq> canonical_sha256_hex (brief_payload b)
      then Inl (ValueError ''brief_hash does not match the canonical brief content'')
      else Inr b)"

definition validate_brief :: "session_brief \<Rightarrow> session_brief res" where
  "validate_brief raw =
     (let b = strip_brief raw
      in validated
           [pattern_field ''brief_id'' (matches_prefixed_hex ''session_brief_'' 32 (sb_brief_id b)),
            pattern_field ''brief_hash'' (matches_hex 64 (sb_brief_hash b)),
            text_field ''question'' 1 4000 (sb_question b),
            text_field ''intended_use'' 1 1000 (sb_intended_use b),
            list_field ''success_criteria'' 1 16 (sb_success_criteria b),
            list_field ''boundaries'' 0 16 (sb_boundaries b)]
           (brief_validator b))"

definition create_brief ::
  "string \<Rightarrow> string \<Rightarrow> string list \<Rightarrow> string list \<Rightarrow> session_brief res" where
  "create_brief question intended_use criteria boundaries =
     (let b = \<lparr>sb_schema_id = brief_schema, sb_brief_id = [], sb_brief_hash = [],
               sb_question = question, sb_intended_use = intended_use,
               sb_success_criteria = criteria, sb_boundaries = boundaries\<rparr>;
          payload = brief_payload b
      in validate_brief (b\<lparr>sb_brief_id := canonical_content_id ''session_brief'' payload,
                           sb_brief_hash := canonical_sha256_hex payload\<rparr>))"

definition brief_dump :: "session_brief \<Rightarrow> json" where
  "brief_dump b =
     JObj
       [(''schema_id'', JStr (sb_schema_id b)),
        (''brief_id'', JStr (sb_brief_id b)),
        (''brief_hash'', JStr (sb_brief_hash b)),
        (''question'', JStr (sb_question b)),
        (''intended_use'', JStr (sb_intended_use b)),
        (''success_criteria'', JList (map JStr (sb_success_criteria b))),
        (''boundaries'', JList (map JStr (sb_boundaries b)))]"

subsection \<open>Session\<close>

record research_session =
  rs_schema_id :: string
  rs_session_id :: string
  rs_session_hash :: string
  rs_brief :: session_brief
  rs_corpus_snapshot_id :: string
  rs_access_policy_id :: string
  rs_scope :: request_scope
  rs_created_by_kind :: session_actor_kind
  rs_created_by_id :: string
  rs_created_at :: string

definition session_schema :: string where
  "session_schema = ''dithyramba.research_session/1.0''"

definition scope_payload :: "request_scope \<Rightarrow> json" where
  "scope_payload s =
     JObj
       [(''library_id'', JStr (sc_library_id s)),
        (''snapshot_hash'', JStr (sc_snapshot_hash s)),
        (''purpose'', JStr (sc_purpose s)),
        (''collection_ids'', JList (map JStr (sc_collection_ids s))),
        (''exclusions'', exclusions_payload (sc_exclusions s))]"

definition session_payload :: "research_session \<Rightarrow> json" where
  "session_payload s =
     JObj
       [(''schema_id'', JStr (rs_schema_id s)),
        (''brief'', brief_dump (rs_brief s)),
        (''corpus_snapshot_id'', JStr (rs_corpus_snapshot_id s)),
        (''access_policy_id'', JStr (rs_access_policy_id s)),
        (''scope'', scope_payload (rs_scope s)),
        (''created_by_kind'', JStr (actor_kind_value (rs_created_by_kind s))),
        (''created_by_id'', JStr (rs_created_by_id s)),
        (''created_at'', JStr (rs_created_at s))]"

definition strip_session :: "research_session \<Rightarrow> research_session" where
  "strip_session s =
     s\<lparr>rs_schema_id := model_strip (rs_schema_id s), rs_session_id := model_strip (rs_session_id s),
       rs_session_hash := model_strip (rs_session_hash s),
       rs_corpus_snapshot_id := model_strip (rs_corpus_snapshot_id s),
       rs_access_policy_id := model_strip (rs_access_policy_id s),
       rs_created_by_id := model_strip (rs_created_by_id s),
       rs_created_at := model_strip (rs_created_at s)\<rparr>"

definition session_validator :: "research_session \<Rightarrow> research_session res" where
  "session_validator s =
     (if rs_schema_id s \<noteq> session_schema
      then Inl (ValueError (''schema_id must be '' @ session_schema))
      else if rs_created_by_kind s = DETERMINISTIC
      then Inl (ValueError ''a research session must be opened by a human or model actor'')
      else if rs_session_id s \<noteq> canonical_content_id ''research_session'' (session_payload s)
      then Inl (ValueError ''session_id does not match the canonical session content'')
      else if rs_session_hash s \<noteq> canonical_sha256_hex (session_payload s)
      then Inl (ValueError ''session_hash does not match the canonical session content'')
      else Inr s)"

definition validate_session :: "research_session \<Rightarrow> research_session res" where
  "validate_session raw =
     (let s = strip_session raw
      in validated
           [pattern_field ''session_id''
              (matches_prefixed_hex ''research_session_'' 32 (rs_session_id s)),
            pattern_field ''session_hash'' (matches_hex 64 (rs_session_hash s)),
            pattern_field ''corpus_snapshot_id'' (lower_id_pattern ''snapshot_'' (rs_corpus_snapshot_id s)),
            pattern_field ''access_policy_id'' (lower_id_pattern ''policy_'' (rs_access_policy_id s)),
            pattern_field ''created_by_id'' (actor_id_pattern (rs_created_by_id s)),
            pattern_field ''created_at'' (timestamp_pattern (rs_created_at s))]
           (session_validator s))"

definition create_session ::
  "session_brief \<Rightarrow> string \<Rightarrow> string \<Rightarrow> string \<Rightarrow> string \<Rightarrow> string \<Rightarrow> string list \<Rightarrow>
     query_exclusions option \<Rightarrow> session_actor_kind \<Rightarrow> string \<Rightarrow> string \<Rightarrow> research_session res" where
  "create_session brief lib snapshot_id snapshot_hash policy_id purpose cids exclusions kind who at =
     res_bind (make_scope lib snapshot_hash purpose cids
         (case exclusions of
            None \<Rightarrow> \<lparr>ex_source_ids = [], ex_source_family_ids = [], ex_source_fragment_ids = []\<rparr>
          | Some x \<Rightarrow> x))
       (\<lambda>scope.
         let s = \<lparr>rs_schema_id = session_schema, rs_session_id = [], rs_session_hash = [],
                  rs_brief = brief, rs_corpus_snapshot_id = snapshot_id,
                  rs_access_policy_id = policy_id, rs_scope = scope, rs_created_by_kind = kind,
                  rs_created_by_id = who, rs_created_at = at\<rparr>;
             payload = session_payload s
         in validate_session
              (s\<lparr>rs_session_id := canonical_content_id ''research_session'' payload,
                 rs_session_hash := canonical_sha256_hex payload\<rparr>))"

definition session_scope_hash :: "research_session \<Rightarrow> string" where
  "session_scope_hash s =
     canonical_sha256_hex
       (case scope_payload (rs_scope s) of
          JObj kvs \<Rightarrow> JObj ((''schema'', JStr ''dithyramba.research_session_scope/1.0'') # kvs)
        | j \<Rightarrow> j)"

subsection \<open>Artifact references\<close>

record artifact_reference =
  ar_kind :: session_artifact_kind
  ar_id :: string
  ar_hash :: string
  ar_role :: string

definition artifact_prefix :: "session_artifact_kind \<Rightarrow> string" where
  "artifact_prefix k =
     (case k of SOURCE_FRAGMENT \<Rightarrow> ''fragment_'' | EVIDENCE_PACKET \<Rightarrow> ''packet_''
      | EVIDENCE_LINK \<Rightarrow> ''evidence_'' | STATEMENT \<Rightarrow> ''statement_''
      | CONCEPT \<Rightarrow> ''concept_'' | ENTITY \<Rightarrow> ''entity_'')"

definition validate_reference :: "artifact_reference \<Rightarrow> artifact_reference res" where
  "validate_reference raw =
     (let r = raw\<lparr>ar_id := model_strip (ar_id raw), ar_hash := model_strip (ar_hash raw),
                  ar_role := model_strip (ar_role raw)\<rparr>
      in validated
           [pattern_field ''artifact_id'' (model_id_pattern (ar_id r)),
            pattern_field ''artifact_hash'' (matches_hex 64 (ar_hash r)),
            pattern_field ''role'' (purpose_pattern (ar_role r))]
           (if \<not> has_prefix (artifact_prefix (ar_kind r)) (ar_id r)
            then Inl (ValueError (artifact_kind_value (ar_kind r) @
              '' artifact_id must start with '' @ artifact_prefix (ar_kind r)))
            else Inr r))"

definition reference_payload :: "artifact_reference \<Rightarrow> json" where
  "reference_payload r =
     JObj
       [(''artifact_kind'', JStr (artifact_kind_value (ar_kind r))),
        (''artifact_id'', JStr (ar_id r)),
        (''artifact_hash'', JStr (ar_hash r)),
        (''role'', JStr (ar_role r))]"

subsection \<open>Events\<close>

record session_event =
  se_schema_id :: string
  se_event_id :: string
  se_event_hash :: string
  se_session_id :: string
  se_session_hash :: string
  se_sequence :: int
  se_previous_event_hash :: string
  se_kind :: session_event_kind
  se_actor_kind :: session_actor_kind
  se_actor_id :: string
  se_summary :: string
  se_artifact_refs :: "artifact_reference list"
  se_occurred_at :: string

definition event_schema :: string where
  "event_schema = ''dithyramba.session_event/1.0''"

definition event_payload :: "session_event \<Rightarrow> json" where
  "event_payload e =
     JObj
       [(''schema_id'', JStr (se_schema_id e)),
        (''session_id'', JStr (se_session_id e)),
        (''session_hash'', JStr (se_session_hash e)),
        (''sequence'', JInt (se_sequence e)),
        (''previous_event_hash'', JStr (se_previous_event_hash e)),
        (''kind'', JStr (event_kind_value (se_kind e))),
        (''actor_kind'', JStr (actor_kind_value (se_actor_kind e))),
        (''actor_id'', JStr (se_actor_id e)),
        (''summary'', JStr (se_summary e)),
        (''artifact_refs'', JList (map reference_payload (se_artifact_refs e))),
        (''occurred_at'', JStr (se_occurred_at e))]"

definition strip_event :: "session_event \<Rightarrow> session_event" where
  "strip_event e =
     e\<lparr>se_schema_id := model_strip (se_schema_id e), se_event_id := model_strip (se_event_id e),
       se_event_hash := model_strip (se_event_hash e),
       se_session_id := model_strip (se_session_id e),
       se_session_hash := model_strip (se_session_hash e),
       se_previous_event_hash := model_strip (se_previous_event_hash e),
       se_actor_id := model_strip (se_actor_id e), se_summary := model_strip (se_summary e),
       se_occurred_at := model_strip (se_occurred_at e)\<rparr>"

definition require_artifacts ::
  "artifact_reference list \<Rightarrow> session_artifact_kind list \<Rightarrow> string \<Rightarrow> unit res" where
  "require_artifacts refs allowed label =
     (if refs = []
      then Inl (ValueError (label @ '' requires at least one artifact reference''))
      else
        let disallowed = filter (\<lambda>k. k \<notin> set allowed) (map ar_kind refs)
        in if disallowed \<noteq> []
           then Inl (ValueError (label @ '' contains disallowed artifact kinds: '' @
             join '', '' (sorted_set (map artifact_kind_value disallowed))))
           else Inr ())"

definition event_validator :: "session_event \<Rightarrow> session_event res" where
  "event_validator e =
     (if se_schema_id e \<noteq> event_schema
      then Inl (ValueError (''schema_id must be '' @ event_schema))
      else if has_duplicates (map (\<lambda>r. (ar_kind r, ar_id r, ar_hash r, ar_role r)) (se_artifact_refs e))
      then Inl (ValueError ''artifact_refs must be unique'')
      else if se_kind e \<in> {DECISION_RECORDED, SESSION_CLOSED} \<and> se_actor_kind e \<noteq> HUMAN
      then Inl (ValueError (event_kind_value (se_kind e) @ '' requires a human actor''))
      else
        res_bind
          (if se_kind e = EVIDENCE_ATTACHED
           then require_artifacts (se_artifact_refs e)
                  [SOURCE_FRAGMENT, EVIDENCE_PACKET, EVIDENCE_LINK] ''evidence_attached''
           else Inr ()) (\<lambda>_.
        res_bind
          (if se_kind e = CANDIDATE_LINKED
           then require_artifacts (se_artifact_refs e) [STATEMENT, CONCEPT, ENTITY] ''candidate_linked''
           else Inr ()) (\<lambda>_.
        if se_kind e = SESSION_CLOSED \<and> se_artifact_refs e \<noteq> []
        then Inl (ValueError ''session_closed cannot attach artifacts'')
        else if se_event_id e \<noteq> canonical_content_id ''session_event'' (event_payload e)
        then Inl (ValueError ''event_id does not match the canonical event content'')
        else if se_event_hash e \<noteq> canonical_sha256_hex (event_payload e)
        then Inl (ValueError ''event_hash does not match the canonical event content'')
        else Inr e)))"

definition validate_event :: "session_event \<Rightarrow> session_event res" where
  "validate_event raw =
     (let e = strip_event raw
      in validated
           [pattern_field ''event_id'' (matches_prefixed_hex ''session_event_'' 32 (se_event_id e)),
            pattern_field ''event_hash'' (matches_hex 64 (se_event_hash e)),
            pattern_field ''session_id''
              (matches_prefixed_hex ''research_session_'' 32 (se_session_id e)),
            pattern_field ''session_hash'' (matches_hex 64 (se_session_hash e)),
            int_field ''sequence'' 1 1000000 (se_sequence e),
            pattern_field ''previous_event_hash'' (matches_hex 64 (se_previous_event_hash e)),
            pattern_field ''actor_id'' (actor_id_pattern (se_actor_id e)),
            text_field ''summary'' 1 8000 (se_summary e),
            list_field ''artifact_refs'' 0 32 (se_artifact_refs e),
            pattern_field ''occurred_at'' (timestamp_pattern (se_occurred_at e))]
           (event_validator e))"

definition create_event ::
  "research_session \<Rightarrow> int \<Rightarrow> string \<Rightarrow> session_event_kind \<Rightarrow> session_actor_kind \<Rightarrow> string \<Rightarrow>
     string \<Rightarrow> artifact_reference list \<Rightarrow> string \<Rightarrow> session_event res" where
  "create_event session sequence previous kind actor_kind actor_id summary refs at =
     (let e = \<lparr>se_schema_id = event_schema, se_event_id = [], se_event_hash = [],
               se_session_id = rs_session_id session, se_session_hash = rs_session_hash session,
               se_sequence = sequence, se_previous_event_hash = previous, se_kind = kind,
               se_actor_kind = actor_kind, se_actor_id = actor_id, se_summary = summary,
               se_artifact_refs = refs, se_occurred_at = at\<rparr>;
          payload = event_payload e
      in validate_event (e\<lparr>se_event_id := canonical_content_id ''session_event'' payload,
                           se_event_hash := canonical_sha256_hex payload\<rparr>))"

subsection \<open>State\<close>

record text_entry =
  te_event_id :: string
  te_text :: string

definition validate_text_entry :: "text_entry \<Rightarrow> text_entry res" where
  "validate_text_entry raw =
     (let t = \<lparr>te_event_id = model_strip (te_event_id raw), te_text = model_strip (te_text raw)\<rparr>
      in validated
           [pattern_field ''event_id'' (matches_prefixed_hex ''session_event_'' 32 (te_event_id t)),
            text_field ''text'' 1 8000 (te_text t)]
           (Inr t))"

definition text_entry_dump :: "text_entry \<Rightarrow> json" where
  "text_entry_dump t = JObj [(''event_id'', JStr (te_event_id t)), (''text'', JStr (te_text t))]"

record session_state =
  ss_schema_id :: string
  ss_state_id :: string
  ss_state_hash :: string
  ss_session_id :: string
  ss_session_hash :: string
  ss_status :: session_status
  ss_event_count :: int
  ss_latest_event_hash :: string
  ss_questions :: "text_entry list"
  ss_answer_drafts :: "text_entry list"
  ss_gaps :: "text_entry list"
  ss_rejected_paths :: "text_entry list"
  ss_decisions :: "text_entry list"
  ss_evidence_refs :: "artifact_reference list"
  ss_candidate_refs :: "artifact_reference list"

definition state_schema :: string where
  "state_schema = ''dithyramba.research_session_state/1.0''"

definition state_payload :: "session_state \<Rightarrow> json" where
  "state_payload s =
     JObj
       [(''schema_id'', JStr (ss_schema_id s)),
        (''session_id'', JStr (ss_session_id s)),
        (''session_hash'', JStr (ss_session_hash s)),
        (''status'', JStr (status_value (ss_status s))),
        (''event_count'', JInt (ss_event_count s)),
        (''latest_event_hash'', JStr (ss_latest_event_hash s)),
        (''questions'', JList (map text_entry_dump (ss_questions s))),
        (''answer_drafts'', JList (map text_entry_dump (ss_answer_drafts s))),
        (''gaps'', JList (map text_entry_dump (ss_gaps s))),
        (''rejected_paths'', JList (map text_entry_dump (ss_rejected_paths s))),
        (''decisions'', JList (map text_entry_dump (ss_decisions s))),
        (''evidence_refs'', JList (map reference_payload (ss_evidence_refs s))),
        (''candidate_refs'', JList (map reference_payload (ss_candidate_refs s)))]"

definition strip_state :: "session_state \<Rightarrow> session_state" where
  "strip_state s =
     s\<lparr>ss_schema_id := model_strip (ss_schema_id s), ss_state_id := model_strip (ss_state_id s),
       ss_state_hash := model_strip (ss_state_hash s),
       ss_session_id := model_strip (ss_session_id s),
       ss_session_hash := model_strip (ss_session_hash s),
       ss_latest_event_hash := model_strip (ss_latest_event_hash s)\<rparr>"

definition state_validator :: "session_state \<Rightarrow> session_state res" where
  "state_validator s =
     (if ss_schema_id s \<noteq> state_schema
      then Inl (ValueError (''schema_id must be '' @ state_schema))
      else if ss_event_count s = 0 \<and> ss_latest_event_hash s \<noteq> genesis_event_hash
      then Inl (ValueError ''an empty session state must retain the genesis event hash'')
      else if ss_event_count s > 0 \<and> ss_latest_event_hash s = genesis_event_hash
      then Inl (ValueError ''a non-empty session state requires a real latest event hash'')
      else if ss_state_id s \<noteq> canonical_content_id ''session_state'' (state_payload s)
      then Inl (ValueError ''state_id does not match the canonical state content'')
      else if ss_state_hash s \<noteq> canonical_sha256_hex (state_payload s)
      then Inl (ValueError ''state_hash does not match the canonical state content'')
      else Inr s)"

definition validate_state :: "session_state \<Rightarrow> session_state res" where
  "validate_state raw =
     (let s = strip_state raw
      in validated
           [pattern_field ''state_id'' (matches_prefixed_hex ''session_state_'' 32 (ss_state_id s)),
            pattern_field ''state_hash'' (matches_hex 64 (ss_state_hash s)),
            pattern_field ''session_id''
              (matches_prefixed_hex ''research_session_'' 32 (ss_session_id s)),
            pattern_field ''session_hash'' (matches_hex 64 (ss_session_hash s)),
            int_field ''event_count'' 0 1000000 (ss_event_count s),
            pattern_field ''latest_event_hash'' (matches_hex 64 (ss_latest_event_hash s))]
           (state_validator s))"

text \<open>
  \<open>create\<close> takes the derived tuples as one record whose identifiers it fills in.
\<close>

definition create_state :: "session_state \<Rightarrow> session_state res" where
  "create_state s =
     (let payload = state_payload s
      in validate_state (s\<lparr>ss_state_id := canonical_content_id ''session_state'' payload,
                           ss_state_hash := canonical_sha256_hex payload\<rparr>))"

subsection \<open>Coordinator\<close>

definition reference_key :: "artifact_reference \<Rightarrow> session_artifact_kind \<times> string \<times> string \<times> string" where
  "reference_key r = (ar_kind r, ar_id r, ar_hash r, ar_role r)"

text \<open>\<open>_extend_unique\<close>: \<open>known\<close> starts as the keys of the target and grows with it.\<close>

fun extend_unique_loop ::
  "artifact_reference list \<Rightarrow> (session_artifact_kind \<times> string \<times> string \<times> string) set \<Rightarrow>
     artifact_reference list \<Rightarrow> artifact_reference list" where
  "extend_unique_loop target known [] = target"
| "extend_unique_loop target known (r # rs) =
     (if reference_key r \<notin> known
      then extend_unique_loop (target @ [r]) (insert (reference_key r) known) rs
      else extend_unique_loop target known rs)"

definition extend_unique ::
  "artifact_reference list \<Rightarrow> artifact_reference list \<Rightarrow> artifact_reference list" where
  "extend_unique target vals = extend_unique_loop target (set (map reference_key target)) vals"

text \<open>The local variables of the replay loop.\<close>

record replay_state =
  rp_questions :: "text_entry list"
  rp_answer_drafts :: "text_entry list"
  rp_gaps :: "text_entry list"
  rp_rejected_paths :: "text_entry list"
  rp_decisions :: "text_entry list"
  rp_evidence_refs :: "artifact_reference list"
  rp_candidate_refs :: "artifact_reference list"
  rp_previous_hash :: string
  rp_closed :: bool

definition replay_init :: replay_state where
  "replay_init =
     \<lparr>rp_questions = [], rp_answer_drafts = [], rp_gaps = [], rp_rejected_paths = [],
      rp_decisions = [], rp_evidence_refs = [], rp_candidate_refs = [],
      rp_previous_hash = genesis_event_hash, rp_closed = False\<rparr>"

definition replay_apply :: "replay_state \<Rightarrow> text_entry \<Rightarrow> session_event \<Rightarrow> replay_state" where
  "replay_apply st entry e =
     (case se_kind e of
        QUESTION_ASKED \<Rightarrow> st\<lparr>rp_questions := rp_questions st @ [entry]\<rparr>
      | EVIDENCE_ATTACHED \<Rightarrow>
          st\<lparr>rp_evidence_refs := extend_unique (rp_evidence_refs st) (se_artifact_refs e)\<rparr>
      | ANSWER_DRAFTED \<Rightarrow> st\<lparr>rp_answer_drafts := rp_answer_drafts st @ [entry]\<rparr>
      | CANDIDATE_LINKED \<Rightarrow>
          st\<lparr>rp_candidate_refs := extend_unique (rp_candidate_refs st) (se_artifact_refs e)\<rparr>
      | GAP_RECORDED \<Rightarrow> st\<lparr>rp_gaps := rp_gaps st @ [entry]\<rparr>
      | PATH_REJECTED \<Rightarrow> st\<lparr>rp_rejected_paths := rp_rejected_paths st @ [entry]\<rparr>
      | DECISION_RECORDED \<Rightarrow> st\<lparr>rp_decisions := rp_decisions st @ [entry]\<rparr>
      | SESSION_CLOSED \<Rightarrow> st\<lparr>rp_closed := True\<rparr>)"

definition replay_step ::
  "research_session \<Rightarrow> int \<Rightarrow> replay_state \<Rightarrow> session_event \<Rightarrow> replay_state res" where
  "replay_step session expected st e =
     (if se_session_id e \<noteq> rs_session_id session \<or> se_session_hash e \<noteq> rs_session_hash session
      then Inl (ResearchSessionReplayError ''session event is bound to another session'')
      else if se_sequence e \<noteq> expected
      then Inl (ResearchSessionReplayError ''session event sequence is not contiguous'')
      else if se_previous_event_hash e \<noteq> rp_previous_hash st
      then Inl (ResearchSessionReplayError ''session event previous hash does not close'')
      else if rp_closed st
      then Inl (ResearchSessionReplayError ''session event appears after closure'')
      else res_bind (validate_text_entry \<lparr>te_event_id = se_event_id e, te_text = se_summary e\<rparr>)
        (\<lambda>entry. Inr ((replay_apply st entry e)\<lparr>rp_previous_hash := se_event_hash e\<rparr>)))"

fun replay_loop ::
  "research_session \<Rightarrow> int \<Rightarrow> replay_state \<Rightarrow> session_event list \<Rightarrow> replay_state res" where
  "replay_loop session n st [] = Inr st"
| "replay_loop session n st (e # es) =
     res_bind (replay_step session n st e) (\<lambda>st'. replay_loop session (n + 1) st' es)"

definition replay_result :: "research_session \<Rightarrow> int \<Rightarrow> replay_state \<Rightarrow> session_state" where
  "replay_result session n st =
     \<lparr>ss_schema_id = state_schema, ss_state_id = [], ss_state_hash = [],
      ss_session_id = rs_session_id session, ss_session_hash = rs_session_hash session,
      ss_status = (if rp_closed st then CLOSED else OPEN), ss_event_count = n,
      ss_latest_event_hash = rp_previous_hash st, ss_questions = rp_questions st,
      ss_answer_drafts = rp_answer_drafts st, ss_gaps = rp_gaps st,
      ss_rejected_paths = rp_rejected_paths st, ss_decisions = rp_decisions st,
      ss_evidence_refs = rp_evidence_refs st, ss_candidate_refs = rp_candidate_refs st\<rparr>"

definition replay :: "research_session \<Rightarrow> session_event list \<Rightarrow> session_state res" where
  "replay session events =
     res_bind (replay_loop session 1 replay_init events)
       (\<lambda>st. create_state (replay_result session (int (length events)) st))"

definition append_event ::
  "research_session \<Rightarrow> session_event list \<Rightarrow> session_event_kind \<Rightarrow> session_actor_kind \<Rightarrow>
     string \<Rightarrow> string \<Rightarrow> artifact_reference list \<Rightarrow> string \<Rightarrow> session_event list res" where
  "append_event session events kind actor_kind actor_id summary refs at =
     res_bind (replay session events) (\<lambda>state.
       if ss_status state = CLOSED
       then Inl (ResearchSessionReplayError ''a closed research session cannot accept events'')
       else
         let previous = (if events \<noteq> [] then se_event_hash (last events) else genesis_event_hash)
         in res_bind
              (create_event session (int (length events) + 1) previous kind actor_kind actor_id
                 summary refs at)
              (\<lambda>event. let updated = events @ [event]
                in res_bind (replay session updated) (\<lambda>_. Inr updated)))"

end
