(* ===== verification/SessionsProps.thy ===== *)
theory SessionsProps
  imports Sessions
begin

text \<open>
  The research journal: what replay computes, what append guarantees, the invariant of
  every journal that appending can produce, and the evidence a journal leaves when it is
  altered.
\<close>

subsection \<open>Valid values\<close>

definition valid_event :: "session_event \<Rightarrow> bool" where
  "valid_event e \<longleftrightarrow> validate_event e = Inr e"

definition valid_session :: "research_session \<Rightarrow> bool" where
  "valid_session s \<longleftrightarrow> validate_session s = Inr s"

lemma strip_event_idem [simp]: "strip_event (strip_event e) = strip_event e"
  by (simp add: strip_event_def)

lemma event_validator_id: "event_validator x = Inr e \<Longrightarrow> e = x"
  by (simp add: event_validator_def res_simps)

lemma event_fields_checked:
  "validated
     [pattern_field ''event_id'' (matches_prefixed_hex ''session_event_'' 32 (se_event_id e)),
      pattern_field ''event_hash'' (matches_hex 64 (se_event_hash e)),
      pattern_field ''session_id'' (matches_prefixed_hex ''research_session_'' 32 (se_session_id e)),
      pattern_field ''session_hash'' (matches_hex 64 (se_session_hash e)),
      int_field ''sequence'' 1 1000000 (se_sequence e),
      pattern_field ''previous_event_hash'' (matches_hex 64 (se_previous_event_hash e)),
      pattern_field ''actor_id'' (actor_id_pattern (se_actor_id e)),
      text_field ''summary'' 1 8000 (se_summary e),
      list_field ''artifact_refs'' 0 32 (se_artifact_refs e),
      pattern_field ''occurred_at'' (timestamp_pattern (se_occurred_at e))] check = Inr x \<Longrightarrow>
   check = Inr x \<and>
     matches_prefixed_hex ''session_event_'' 32 (se_event_id e) \<and>
     matches_prefixed_hex ''research_session_'' 32 (se_session_id e) \<and>
     matches_hex 64 (se_session_hash e) \<and> matches_hex 64 (se_event_hash e) \<and>
     1 \<le> se_sequence e \<and> se_sequence e \<le> 1000000 \<and>
     1 \<le> length (se_summary e) \<and> length (se_summary e) \<le> 8000"
  by (simp add: validated_eq_Inr pattern_field_eq_Inr int_field_eq_Inr text_field_eq_Inr
      list_field_eq_Inr)

lemma validate_event_Inr:
  assumes "validate_event raw = Inr e"
  shows "e = strip_event raw \<and> strip_event e = e \<and> event_validator e = Inr e \<and>
     matches_prefixed_hex ''session_event_'' 32 (se_event_id e) \<and>
     matches_prefixed_hex ''research_session_'' 32 (se_session_id e) \<and>
     matches_hex 64 (se_session_hash e) \<and> matches_hex 64 (se_event_hash e) \<and>
     1 \<le> se_sequence e \<and> se_sequence e \<le> 1000000 \<and>
     1 \<le> length (se_summary e) \<and> length (se_summary e) \<le> 8000"
proof -
  note f = event_fields_checked [OF assms [unfolded validate_event_def Let_def]]
  then have "e = strip_event raw" using event_validator_id by blast
  with f show ?thesis by (metis strip_event_idem)
qed

lemma validate_event_valid: "validate_event raw = Inr e \<Longrightarrow> valid_event e"
  unfolding valid_event_def using validate_event_Inr [of raw e] by (metis validate_event_def)

lemma event_validator_Inr:
  "event_validator e = Inr e \<Longrightarrow>
     se_schema_id e = event_schema \<and>
     distinct (map (\<lambda>r. (ar_kind r, ar_id r, ar_hash r, ar_role r)) (se_artifact_refs e)) \<and>
     (se_kind e \<in> {DECISION_RECORDED, SESSION_CLOSED} \<longrightarrow> se_actor_kind e = HUMAN) \<and>
     (se_kind e = SESSION_CLOSED \<longrightarrow> se_artifact_refs e = []) \<and>
     se_event_id e = canonical_content_id ''session_event'' (event_payload e) \<and>
     se_event_hash e = canonical_sha256_hex (event_payload e)"
  by (simp add: event_validator_def res_simps) blast

lemmas valid_eventD = validate_event_Inr [OF valid_event_def [THEN iffD1]]

lemma valid_event_identity:
  assumes "valid_event e"
  shows "se_event_id e = canonical_content_id ''session_event'' (event_payload e)"
    and "se_event_hash e = canonical_sha256_hex (event_payload e)"
  using valid_eventD [OF assms] event_validator_Inr by blast+

lemma valid_event_human:
  "valid_event e \<Longrightarrow> se_kind e \<in> {DECISION_RECORDED, SESSION_CLOSED} \<Longrightarrow> se_actor_kind e = HUMAN"
  using valid_eventD event_validator_Inr by blast

definition entry_of :: "session_event \<Rightarrow> text_entry" where
  "entry_of e = \<lparr>te_event_id = se_event_id e, te_text = se_summary e\<rparr>"

lemma valid_event_entry:
  assumes "valid_event e"
  shows "validate_text_entry \<lparr>te_event_id = se_event_id e, te_text = se_summary e\<rparr> = Inr (entry_of e)"
proof -
  have "strip_event e = e" using valid_eventD [OF assms] by blast
  then have "model_strip (se_event_id e) = se_event_id e" "model_strip (se_summary e) = se_summary e"
    by (auto simp: strip_event_def dest: arg_cong [of _ _ se_event_id] arg_cong [of _ _ se_summary])
  with valid_eventD [OF assms] show ?thesis
    by (simp add: validate_text_entry_def entry_of_def Let_def validated_eq_Inr
        pattern_field_eq_Inr text_field_eq_Inr)
qed

subsection \<open>Journals as hash chains\<close>

text \<open>
  A journal is linked when each entry carries its position and the digest of the entry
  before it.
\<close>

definition linked :: "('e \<Rightarrow> string) \<Rightarrow> ('e \<Rightarrow> string) \<Rightarrow> ('e \<Rightarrow> int) \<Rightarrow> string \<Rightarrow> 'e list \<Rightarrow> bool" where
  "linked digest previous index genesis es \<longleftrightarrow>
     (\<forall>i < length es. index (es ! i) = int i + 1 \<and>
        previous (es ! i) = (if i = 0 then genesis else digest (es ! (i - 1))))"

lemma linked_Nil [simp]: "linked d p ix g []"
  by (simp add: linked_def)

lemma linked_snoc:
  "linked d p ix g (es @ [e]) \<longleftrightarrow>
     linked d p ix g es \<and> ix e = int (length es) + 1 \<and>
     p e = (if es = [] then g else d (last es))"
  by (simp add: linked_def All_less_Suc nth_append last_conv_nth less_imp_diff_less) blast

locale hash_journal =
  fixes digest :: "'e \<Rightarrow> string"
    and previous :: "'e \<Rightarrow> string"
    and index :: "'e \<Rightarrow> int"
    and valid :: "'e \<Rightarrow> bool"
    and collide :: "'e \<Rightarrow> 'e \<Rightarrow> bool"
  assumes digest_faithful:
    "valid a \<Longrightarrow> valid b \<Longrightarrow> digest a = digest b \<Longrightarrow> a = b \<or> collide a b"
begin

lemma head_determines_history:
  assumes "linked digest previous index g es" and "linked digest previous index g fs"
    and "list_all valid es" and "list_all valid fs"
    and "es \<noteq> []" and "fs \<noteq> []" and "digest (last es) = digest (last fs)"
  shows "es = fs \<or> (\<exists>a \<in> set es. \<exists>b \<in> set fs. collide a b)"
  using assms
proof (induction es arbitrary: fs rule: rev_induct)
  case Nil
  then show ?case by simp
next
  case (snoc e es)
  obtain f gs where fs: "fs = gs @ [f]" using snoc.prems(6) by (metis rev_exhaust)
  from snoc.prems(3,4) fs have valid: "valid e" "valid f" "list_all valid es" "list_all valid gs"
    by simp_all
  from snoc.prems(7) fs have "digest e = digest f" by simp
  with valid consider "e = f" | "collide e f" using digest_faithful by blast
  then show ?case
  proof cases
    case 1
    with snoc.prems(1,2) fs have links: "linked digest previous index g es"
        "linked digest previous index g gs" "length es = length gs"
        "(if es = [] then g else digest (last es)) = (if gs = [] then g else digest (last gs))"
      by (auto simp: linked_snoc)
    show ?thesis
    proof (cases "es = []")
      case True
      with links(3) fs 1 show ?thesis by simp
    next
      case False
      with links(3) have ne: "gs \<noteq> []" by auto
      from snoc.IH [OF links(1,2) valid(3,4) False ne] links(4) False ne fs 1 show ?thesis by auto
    qed
  next
    case 2
    with fs show ?thesis by auto
  qed
qed

end


subsection \<open>What replay computes\<close>

definition entries_of :: "session_event_kind \<Rightarrow> session_event list \<Rightarrow> text_entry list" where
  "entries_of k es = map entry_of (filter (\<lambda>e. se_kind e = k) es)"

definition refs_of :: "session_event_kind \<Rightarrow> session_event list \<Rightarrow> artifact_reference list" where
  "refs_of k es = first_occurrences (concat (map se_artifact_refs (filter (\<lambda>e. se_kind e = k) es)))"

definition journal_head :: "session_event list \<Rightarrow> string" where
  "journal_head es = (if es = [] then genesis_event_hash else se_event_hash (last es))"

definition journal_closed :: "session_event list \<Rightarrow> bool" where
  "journal_closed es \<longleftrightarrow> (\<exists>e \<in> set es. se_kind e = SESSION_CLOSED)"

definition journal_ok :: "research_session \<Rightarrow> session_event list \<Rightarrow> bool" where
  "journal_ok session es \<longleftrightarrow>
     (\<forall>e \<in> set es. se_session_id e = rs_session_id session \<and>
        se_session_hash e = rs_session_hash session) \<and>
     linked se_event_hash se_previous_event_hash se_sequence genesis_event_hash es \<and>
     \<not> journal_closed (butlast es)"

definition journal_view :: "session_event list \<Rightarrow> replay_state" where
  "journal_view es =
     \<lparr>rp_questions = entries_of QUESTION_ASKED es, rp_answer_drafts = entries_of ANSWER_DRAFTED es,
      rp_gaps = entries_of GAP_RECORDED es, rp_rejected_paths = entries_of PATH_REJECTED es,
      rp_decisions = entries_of DECISION_RECORDED es,
      rp_evidence_refs = refs_of EVIDENCE_ATTACHED es,
      rp_candidate_refs = refs_of CANDIDATE_LINKED es,
      rp_previous_hash = journal_head es, rp_closed = journal_closed es\<rparr>"

lemma reference_key_eq [simp]: "reference_key a = reference_key b \<longleftrightarrow> a = (b :: artifact_reference)"
  by (cases a; cases b) (simp add: reference_key_def)

lemma extend_unique_loop_eq:
  "known = reference_key ` set xs \<Longrightarrow>
   extend_unique_loop (first_occurrences xs) known rs = first_occurrences (xs @ rs)"
proof (induction rs arbitrary: xs known)
  case Nil
  then show ?case by simp
next
  case (Cons r rs)
  have "reference_key r \<in> known \<longleftrightarrow> r \<in> set xs" using Cons.prems by force
  with Cons.IH [of "insert (reference_key r) known" "xs @ [r]"] Cons.IH [of known "xs @ [r]"] Cons.prems
  show ?case by (auto simp: insert_absorb)
qed

lemma extend_unique_eq: "extend_unique (first_occurrences xs) rs = first_occurrences (xs @ rs)"
  by (simp add: extend_unique_def extend_unique_loop_eq)

lemma replay_loop_snoc:
  "replay_loop s n st (es @ [e]) =
     res_bind (replay_loop s n st es) (\<lambda>st'. replay_step s (n + int (length es)) st' e)"
proof (induction es arbitrary: n st)
  case Nil
  show ?case by (cases "replay_step s n st e") simp_all
next
  case (Cons x xs)
  then show ?case by (simp add: res_bind_assoc algebra_simps)
qed

lemma journal_view_Nil: "journal_view [] = replay_init"
  by (simp add: journal_view_def replay_init_def entries_of_def refs_of_def journal_head_def
      journal_closed_def)

lemma replay_apply_view:
  "(replay_apply (journal_view es) (entry_of e) e)\<lparr>rp_previous_hash := se_event_hash e\<rparr> =
     journal_view (es @ [e])"
  by (cases "se_kind e")
    (auto simp: replay_apply_def journal_view_def entries_of_def refs_of_def journal_head_def
      journal_closed_def extend_unique_eq)

lemma journal_ok_snoc:
  "journal_ok session (es @ [e]) \<longleftrightarrow> journal_ok session es \<and>
     se_session_id e = rs_session_id session \<and> se_session_hash e = rs_session_hash session \<and>
     se_sequence e = int (length es) + 1 \<and> se_previous_event_hash e = journal_head es \<and>
     \<not> journal_closed es"
  by (auto simp: journal_ok_def linked_snoc journal_head_def journal_closed_def
      dest: in_set_butlastD)

lemma replay_step_view:
  assumes "valid_event e"
  shows "replay_step session (1 + int (length es)) (journal_view es) e = Inr st \<longleftrightarrow>
    se_session_id e = rs_session_id session \<and> se_session_hash e = rs_session_hash session \<and>
    se_sequence e = int (length es) + 1 \<and> se_previous_event_hash e = journal_head es \<and>
    \<not> journal_closed es \<and> st = journal_view (es @ [e])"
  using valid_event_entry [OF assms]
  by (auto simp: replay_step_def replay_apply_view journal_view_def [of es, THEN arg_cong, of rp_closed]
      journal_view_def [of es, THEN arg_cong, of rp_previous_hash])

lemma replay_loop_exact:
  "list_all valid_event es \<Longrightarrow>
   replay_loop session 1 replay_init es = Inr st \<longleftrightarrow> journal_ok session es \<and> st = journal_view es"
proof (induction es arbitrary: st rule: rev_induct)
  case Nil
  then show ?case
    by (auto simp: journal_view_Nil journal_ok_def journal_closed_def)
next
  case (snoc e es)
  then show ?case
    by (auto simp: replay_loop_snoc res_bind_eq_Inr replay_step_view journal_ok_snoc)
qed


lemma valid_session_ids:
  assumes "valid_session s"
  shows "matches_prefixed_hex ''research_session_'' 32 (rs_session_id s)"
    and "matches_hex 64 (rs_session_hash s)"
proof -
  have v: "session_validator (strip_session s) = Inr s" and
    f: "matches_prefixed_hex ''research_session_'' 32 (rs_session_id (strip_session s))"
      "matches_hex 64 (rs_session_hash (strip_session s))"
    using assms
    by (simp_all add: valid_session_def validate_session_def Let_def validated_eq_Inr
        pattern_field_eq_Inr)
  from v have "strip_session s = s" by (simp add: session_validator_def res_simps)
  with f show "matches_prefixed_hex ''research_session_'' 32 (rs_session_id s)"
    and "matches_hex 64 (rs_session_hash s)" by simp_all
qed

lemma genesis_hex [simp]: "matches_hex 64 genesis_event_hash"
  by (simp add: matches_hex_def genesis_event_hash_def hexdigits_def list_all_iff)

lemma model_strip_genesis [simp]: "model_strip genesis_event_hash = genesis_event_hash"
  by (rule model_strip_unpadded, rule matches_hex_unpadded, rule genesis_hex)

lemma journal_head_hex: "list_all valid_event es \<Longrightarrow> matches_hex 64 (journal_head es)"
proof (cases "es = []")
  case False
  moreover assume "list_all valid_event es"
  ultimately have "valid_event (last es)" by (simp add: list_all_iff)
  then show ?thesis using valid_eventD False by (simp add: journal_head_def)
qed (simp add: journal_head_def)

lemma journal_ok_length:
  assumes "list_all valid_event es" and "journal_ok session es"
  shows "int (length es) \<le> 1000000"
proof (cases es rule: rev_cases)
  case (snoc xs x)
  with assms have "se_sequence x = int (length es)" "valid_event x"
    by (simp_all add: journal_ok_snoc)
  then show ?thesis using valid_eventD by fastforce
qed simp

definition journal_state :: "research_session \<Rightarrow> session_event list \<Rightarrow> session_state" where
  "journal_state session es =
     (let s = replay_result session (int (length es)) (journal_view es);
          payload = state_payload s
      in s\<lparr>ss_state_id := canonical_content_id ''session_state'' payload,
           ss_state_hash := canonical_sha256_hex payload\<rparr>)"

lemma state_payload_ids [simp]:
  "state_payload (s\<lparr>ss_state_id := i, ss_state_hash := h\<rparr>) = state_payload s"
  by (simp add: state_payload_def)

lemma strip_state_id:
  assumes "matches_prefixed_hex ''session_state_'' 32 (ss_state_id s)"
    and "matches_hex 64 (ss_state_hash s)" and "ss_schema_id s = state_schema"
    and "matches_prefixed_hex ''research_session_'' 32 (ss_session_id s)"
    and "matches_hex 64 (ss_session_hash s)" and "matches_hex 64 (ss_latest_event_hash s)"
  shows "strip_state s = s"
proof -
  have "unpadded state_schema" by (simp add: unpadded_def state_schema_def model_space_def)
  moreover have "unpadded (ss_state_id s)"
    by (rule matches_prefixed_hex_unpadded [OF assms(1)]) (simp_all add: model_space_def)
  moreover have "unpadded (ss_session_id s)"
    by (rule matches_prefixed_hex_unpadded [OF assms(4)]) (simp_all add: model_space_def)
  ultimately show ?thesis using assms by (simp add: strip_state_def)
qed

lemma create_state_exact:
  assumes s: "s = replay_result session (int n) st"
    and ids: "matches_prefixed_hex ''research_session_'' 32 (rs_session_id session)"
      "matches_hex 64 (rs_session_hash session)"
    and head: "matches_hex 64 (rp_previous_hash st)" and n: "int n \<le> 1000000"
  shows "create_state s = Inr t \<longleftrightarrow>
    (n = 0 \<longleftrightarrow> rp_previous_hash st = genesis_event_hash) \<and>
    t = s\<lparr>ss_state_id := canonical_content_id ''session_state'' (state_payload s),
          ss_state_hash := canonical_sha256_hex (state_payload s)\<rparr>"
proof -
  let ?t = "s\<lparr>ss_state_id := canonical_content_id ''session_state'' (state_payload s),
          ss_state_hash := canonical_sha256_hex (state_payload s)\<rparr>"
  have f: "ss_schema_id s = state_schema" "ss_event_count s = int n"
      "ss_latest_event_hash s = rp_previous_hash st" "ss_session_id s = rs_session_id session"
      "ss_session_hash s = rs_session_hash session"
    by (simp_all add: s replay_result_def)
  have id: "matches_prefixed_hex ''session_state_'' 32 (ss_state_id ?t)"
    by (simp add: canonical_content_id_matches)
  have strip: "strip_state ?t = ?t"
    by (rule strip_state_id [OF id]) (use ids head f in simp_all)
  have "create_state s = Inr t \<longleftrightarrow> state_validator ?t = Inr t"
    using id ids head n
    by (simp add: create_state_def validate_state_def Let_def strip validated_eq_Inr f
        pattern_field_eq_Inr int_field_eq_Inr)
  also have "\<dots> \<longleftrightarrow> (n = 0 \<longleftrightarrow> rp_previous_hash st = genesis_event_hash) \<and> t = ?t"
    by (auto simp: state_validator_def f)
  finally show ?thesis .
qed

lemma replay_iff:
  assumes "valid_session session" and "list_all valid_event es"
  shows "replay session es = Inr s \<longleftrightarrow>
    journal_ok session es \<and> (es = [] \<longleftrightarrow> journal_head es = genesis_event_hash) \<and>
    s = journal_state session es"
proof (cases "journal_ok session es")
  case True
  have hex: "matches_hex 64 (rp_previous_hash (journal_view es))"
    using journal_head_hex [OF assms(2)] by (simp add: journal_view_def)
  have "replay session es = Inr s \<longleftrightarrow>
      create_state (replay_result session (int (length es)) (journal_view es)) = Inr s"
    using True by (simp add: replay_def res_bind_eq_Inr replay_loop_exact [OF assms(2)])
  also have "\<dots> \<longleftrightarrow> (es = [] \<longleftrightarrow> journal_head es = genesis_event_hash) \<and> s = journal_state session es"
    using create_state_exact [OF refl valid_session_ids [OF assms(1)] hex
        journal_ok_length [OF assms(2) True]]
    by (simp add: journal_state_def Let_def journal_view_def)
  finally show ?thesis using True by simp
next
  case False
  then show ?thesis by (simp add: replay_def res_bind_eq_Inr replay_loop_exact [OF assms(2)])
qed


subsection \<open>Content addresses of briefs and events\<close>

lemma actor_kind_value_eq [simp]: "actor_kind_value a = actor_kind_value b \<longleftrightarrow> a = b"
  by (cases a; cases b) (simp_all add: actor_kind_value_def)

lemma event_kind_value_eq [simp]: "event_kind_value a = event_kind_value b \<longleftrightarrow> a = b"
  by (cases a; cases b) (simp_all add: event_kind_value_def)

lemma artifact_kind_value_eq [simp]: "artifact_kind_value a = artifact_kind_value b \<longleftrightarrow> a = b"
  by (cases a; cases b) (simp_all add: artifact_kind_value_def)

lemma reference_payload_eq: "canon (reference_payload a) = canon (reference_payload b) \<Longrightarrow> a = b"
  by (cases a; cases b) (auto simp: reference_payload_def)

definition event_content :: "session_event \<Rightarrow> session_event" where
  "event_content e = e\<lparr>se_event_id := [], se_event_hash := []\<rparr>"

definition brief_content :: "session_brief \<Rightarrow> session_brief" where
  "brief_content b = b\<lparr>sb_brief_id := [], sb_brief_hash := []\<rparr>"

interpretation event_addr: content_addressed event_payload event_content
proof unfold_locales
  fix v w assume "canon (event_payload v) = canon (event_payload w)"
  then show "event_content v = event_content w"
    by (cases v; cases w)
      (auto simp: event_payload_def event_content_def comp_def
        dest!: map_canon_eqD [OF _ reference_payload_eq])
qed

interpretation brief_addr: content_addressed brief_payload brief_content
proof unfold_locales
  fix v w assume "canon (brief_payload v) = canon (brief_payload w)"
  then show "brief_content v = brief_content w"
    by (cases v; cases w) (auto simp: brief_payload_def brief_content_def comp_def)
qed

definition event_collision :: "session_event \<Rightarrow> session_event \<Rightarrow> bool" where
  "event_collision a b \<longleftrightarrow>
     sha_collision (canonical_json_bytes (event_payload a)) (canonical_json_bytes (event_payload b))"

lemma valid_event_content_eq:
  assumes "valid_event a" and "valid_event b" and "event_content a = event_content b"
  shows "a = b"
proof -
  have p: "event_payload x = event_payload (event_content x)" for x
    by (simp add: event_payload_def event_content_def)
  then have "se_event_id a = se_event_id b" "se_event_hash a = se_event_hash b"
    using assms by (metis valid_event_identity)+
  with assms(3) show ?thesis by (cases a; cases b) (simp add: event_content_def)
qed

interpretation event_journal:
  hash_journal se_event_hash se_previous_event_hash se_sequence valid_event event_collision
proof unfold_locales
  fix a b assume v: "valid_event a" "valid_event b" and "se_event_hash a = se_event_hash b"
  then have "canonical_sha256_hex (event_payload a) = canonical_sha256_hex (event_payload b)"
    by (simp add: valid_event_identity)
  from event_addr.hash_eq_view [OF this] show "a = b \<or> event_collision a b"
    using valid_event_content_eq [OF v] by (auto simp: event_collision_def)
qed

subsection \<open>Appending\<close>

lemma create_event_Inr:
  assumes "valid_session session" and "matches_hex 64 prev"
    and "create_event session n prev k ak who summ refs at = Inr e"
  shows "valid_event e \<and> se_session_id e = rs_session_id session \<and>
    se_session_hash e = rs_session_hash session \<and> se_sequence e = n \<and>
    se_previous_event_hash e = prev \<and> se_kind e = k \<and> se_actor_kind e = ak \<and>
    se_actor_id e = model_strip who \<and> se_summary e = model_strip summ \<and>
    se_artifact_refs e = refs \<and> se_occurred_at e = model_strip at"
proof -
  note v = assms(3) [unfolded create_event_def Let_def]
  have "unpadded (rs_session_id session)"
    by (rule matches_prefixed_hex_unpadded [OF valid_session_ids(1) [OF assms(1)]])
      (simp_all add: model_space_def)
  moreover have "unpadded (rs_session_hash session)" "unpadded prev"
    using valid_session_ids(2) [OF assms(1)] assms(2) by simp_all
  ultimately show ?thesis
    using validate_event_valid [OF v] validate_event_Inr [OF v, THEN conjunct1]
    by (simp add: strip_event_def)
qed

lemma append_event_iff:
  assumes "valid_session session" and "list_all valid_event es"
  shows "append_event session es k ak who summ refs at = Inr es' \<longleftrightarrow>
    (\<exists>s. replay session es = Inr s) \<and> \<not> journal_closed es \<and>
    (\<exists>e. create_event session (int (length es) + 1) (journal_head es) k ak who summ refs at = Inr e \<and>
       se_event_hash e \<noteq> genesis_event_hash \<and> es' = es @ [e])"
proof -
  let ?create = "create_event session (int (length es) + 1) (journal_head es) k ak who summ refs at"
  have status: "ss_status (journal_state session es) = CLOSED \<longleftrightarrow> journal_closed es"
    by (simp add: journal_state_def Let_def replay_result_def journal_view_def)
  have again: "(\<exists>s. replay session (es @ [e]) = Inr s) \<longleftrightarrow> se_event_hash e \<noteq> genesis_event_hash"
    if "?create = Inr e" and "journal_ok session es" and "\<not> journal_closed es" for e
  proof -
    note e = create_event_Inr [OF assms(1) journal_head_hex [OF assms(2)] that(1)]
    with that assms(2) have "list_all valid_event (es @ [e])" "journal_ok session (es @ [e])"
      by (simp_all add: journal_ok_snoc)
    then show ?thesis by (simp add: replay_iff [OF assms(1)] journal_head_def)
  qed
  have head: "(if es \<noteq> [] then se_event_hash (last es) else genesis_event_hash) = journal_head es"
    by (simp add: journal_head_def)
  show ?thesis
    unfolding append_event_def Let_def res_bind_eq_Inr head if_res_eq_Inr
    using again by (auto simp: replay_iff [OF assms] status)
qed


subsection \<open>Reachable journals\<close>

text \<open>
  The journals of one session: the empty one, and every result of an append.
\<close>

inductive journal :: "research_session \<Rightarrow> session_event list \<Rightarrow> bool" for session where
  start: "valid_session session \<Longrightarrow> journal session []"
| append: "journal session es \<Longrightarrow>
    append_event session es k ak who summ refs at = Inr es' \<Longrightarrow> journal session es'"

lemma journal_reachable:
  assumes "journal session es"
  shows "valid_session session \<and> list_all valid_event es \<and> journal_ok session es \<and>
    (\<forall>e \<in> set es. se_event_hash e \<noteq> genesis_event_hash)"
  using assms
proof induction
  case start
  then show ?case by (simp add: journal_ok_def journal_closed_def)
next
  case (append es k ak who summ refs at es')
  note v = append.IH [THEN conjunct1] and l = append.IH [THEN conjunct2, THEN conjunct1]
  from append.hyps(2) [unfolded append_event_iff [OF v l]] obtain e where
    e: "create_event session (int (length es) + 1) (journal_head es) k ak who summ refs at = Inr e"
      "se_event_hash e \<noteq> genesis_event_hash" "es' = es @ [e]" "\<not> journal_closed es" by blast
  from create_event_Inr [OF v journal_head_hex [OF l] e(1)] e append.IH show ?case
    by (auto simp: journal_ok_snoc)
qed

lemma journal_replays:
  "journal session es \<Longrightarrow> replay session es = Inr (journal_state session es)"
  using journal_reachable [of session es]
  by (auto simp: replay_iff journal_head_def)

lemma journal_prefix:
  "journal session es \<Longrightarrow> journal session (take n es)"
proof (induction arbitrary: n rule: journal.induct)
  case start
  then show ?case by (simp add: journal.start)
next
  case (append es k ak who summ refs at es')
  from append_event_iff append.hyps journal_reachable [OF append.hyps(1)] obtain e where
    es': "es' = es @ [e]" by metis
  show ?case
  proof (cases "n \<le> length es")
    case True
    with append.IH es' show ?thesis by simp
  next
    case False
    with es' append.hyps show ?thesis by (auto intro: journal.append)
  qed
qed

lemma require_artifacts_ok:
  "require_artifacts refs allowed label = Inr () \<longleftrightarrow> refs \<noteq> [] \<and> ar_kind ` set refs \<subseteq> set allowed"
  by (auto simp: require_artifacts_def Let_def filter_empty_conv)

lemma valid_event_artifacts:
  assumes "valid_event e"
  shows "se_kind e = EVIDENCE_ATTACHED \<Longrightarrow>
      ar_kind ` set (se_artifact_refs e) \<subseteq> {SOURCE_FRAGMENT, EVIDENCE_PACKET, EVIDENCE_LINK}"
    and "se_kind e = CANDIDATE_LINKED \<Longrightarrow>
      ar_kind ` set (se_artifact_refs e) \<subseteq> {STATEMENT, CONCEPT, ENTITY}"
  using valid_eventD [OF assms]
  by (simp_all add: event_validator_def res_simps require_artifacts_ok)

subsection \<open>Sample values\<close>

definition sample_session :: research_session where
  "sample_session =
     (let b = \<lparr>sb_schema_id = brief_schema, sb_brief_id = [], sb_brief_hash = [],
               sb_question = ''Which?'', sb_intended_use = ''review'', sb_success_criteria = [''cited''],
               sb_boundaries = []\<rparr>;
          s = \<lparr>rs_schema_id = session_schema, rs_session_id = [], rs_session_hash = [],
               rs_brief = b\<lparr>sb_brief_id := canonical_content_id ''session_brief'' (brief_payload b),
                            sb_brief_hash := canonical_sha256_hex (brief_payload b)\<rparr>,
               rs_corpus_snapshot_id = ''snapshot_1'', rs_access_policy_id = ''policy_1'',
               rs_scope = \<lparr>sc_library_id = ''library_a'', sc_snapshot_hash = genesis_event_hash,
                 sc_purpose = ''research'', sc_collection_ids = [''collection_a''],
                 sc_exclusions = \<lparr>ex_source_ids = [], ex_source_family_ids = [],
                   ex_source_fragment_ids = []\<rparr>\<rparr>,
               rs_created_by_kind = HUMAN, rs_created_by_id = ''ana'',
               rs_created_at = ''2026-01-01T00:00:00.000000Z''\<rparr>
      in s\<lparr>rs_session_id := canonical_content_id ''research_session'' (session_payload s),
           rs_session_hash := canonical_sha256_hex (session_payload s)\<rparr>)"

definition sample_event :: session_event where
  "sample_event =
     (let e = \<lparr>se_schema_id = event_schema, se_event_id = [], se_event_hash = [],
               se_session_id = rs_session_id sample_session,
               se_session_hash = rs_session_hash sample_session,
               se_sequence = 1, se_previous_event_hash = genesis_event_hash,
               se_kind = DECISION_RECORDED, se_actor_kind = HUMAN, se_actor_id = ''ana'',
               se_summary = ''keep'', se_artifact_refs = [],
               se_occurred_at = ''2026-01-01T00:00:00.000000Z''\<rparr>
      in e\<lparr>se_event_id := canonical_content_id ''session_event'' (event_payload e),
           se_event_hash := canonical_sha256_hex (event_payload e)\<rparr>)"

lemma sample_session_valid: "valid_session sample_session"
proof -
  have strip: "strip_session sample_session = sample_session"
    by (simp add: strip_session_def sample_session_def Let_def session_schema_def model_space_def)
      (simp add: model_strip_literal)
  have pay: "session_payload sample_session =
      session_payload (sample_session\<lparr>rs_session_id := [], rs_session_hash := []\<rparr>)"
    by (simp add: session_payload_def)
  have "rs_session_id sample_session =
      canonical_content_id ''research_session'' (session_payload sample_session)"
    "rs_session_hash sample_session = canonical_sha256_hex (session_payload sample_session)"
    unfolding pay by (simp_all add: sample_session_def Let_def)
  then show ?thesis
    unfolding valid_session_def validate_session_def Let_def strip
    by (simp add: validated_eq_Inr pattern_field_eq_Inr session_validator_def
        canonical_content_id_matches)
      (simp add: sample_session_def Let_def lower_id_pattern_def actor_id_pattern_def
        matches_head_rest_def timestamp_pattern_def timestamp_template_def has_prefix_def
        lower_az_def upper_az_def digits09_def)
qed

lemma sample_event_valid: "valid_event sample_event"
proof -
  have strip: "strip_event sample_event = sample_event"
  proof -
    have "unpadded (rs_session_id sample_session)"
      by (rule matches_prefixed_hex_unpadded [OF valid_session_ids(1) [OF sample_session_valid]])
        (simp_all add: model_space_def)
    with valid_session_ids(2) [OF sample_session_valid] show ?thesis
      by (simp add: strip_event_def sample_event_def Let_def event_schema_def model_space_def)
        (simp add: model_strip_literal)
  qed
  have pay: "event_payload sample_event =
      event_payload (sample_event\<lparr>se_event_id := [], se_event_hash := []\<rparr>)"
    by (simp add: event_payload_def)
  have ids: "se_event_id sample_event = canonical_content_id ''session_event'' (event_payload sample_event)"
    "se_event_hash sample_event = canonical_sha256_hex (event_payload sample_event)"
    unfolding pay by (simp_all add: sample_event_def Let_def)
  show ?thesis
    unfolding valid_event_def validate_event_def Let_def strip
    by (simp add: validated_eq_Inr pattern_field_eq_Inr event_validator_def ids
        canonical_content_id_matches int_field_eq_Inr text_field_eq_Inr list_field_eq_Inr)
      (simp add: sample_event_def Let_def valid_session_ids [OF sample_session_valid]
        actor_id_pattern_def
        matches_head_rest_def timestamp_pattern_def timestamp_template_def has_prefix_def
        lower_az_def upper_az_def digits09_def)
qed

lemma sample_event_fields:
  "se_session_id sample_event = rs_session_id sample_session"
  "se_session_hash sample_event = rs_session_hash sample_session"
  "se_sequence sample_event = 1" "se_previous_event_hash sample_event = genesis_event_hash"
  "se_kind sample_event = DECISION_RECORDED"
  by (simp_all add: sample_event_def Let_def)

lemma sample_journal: "journal sample_session []"
  by (rule journal.start [OF sample_session_valid])

subsection \<open>Properties\<close>

text \<open>
  C13. Replay is exact.  On validated events it succeeds exactly when every event is bound
  to the session, the sequence numbers count from 1, every event carries the hash of the
  one before it (the first one the genesis hash), nothing follows a closure, and no
  nonempty journal ends in the genesis hash; the state it returns is the declarative
  summary of the journal: the texts of each kind in order, the references of each kind in
  order of first occurrence, the last hash, the number of events and whether it is closed.
\<close>

theorem replay_exact:
  assumes "valid_session session" and "list_all valid_event es"
  shows "replay session es = Inr s \<longleftrightarrow>
    (\<forall>e \<in> set es. se_session_id e = rs_session_id session \<and>
       se_session_hash e = rs_session_hash session) \<and>
    (\<forall>i < length es. se_sequence (es ! i) = int i + 1 \<and>
       se_previous_event_hash (es ! i) =
         (if i = 0 then genesis_event_hash else se_event_hash (es ! (i - 1)))) \<and>
    (\<forall>e \<in> set (butlast es). se_kind e \<noteq> SESSION_CLOSED) \<and>
    (es \<noteq> [] \<longrightarrow> se_event_hash (last es) \<noteq> genesis_event_hash) \<and>
    s = journal_state session es"
proof -
  have "(es = [] \<longleftrightarrow> journal_head es = genesis_event_hash) \<longleftrightarrow>
      (es \<noteq> [] \<longrightarrow> se_event_hash (last es) \<noteq> genesis_event_hash)"
    by (simp add: journal_head_def)
  then show ?thesis
    unfolding replay_iff [OF assms] journal_ok_def linked_def journal_closed_def by blast
qed

theorem replay_exact_witness:
  "replay sample_session [sample_event] = Inr (journal_state sample_session [sample_event]) \<longleftrightarrow>
     se_event_hash sample_event \<noteq> genesis_event_hash"
  using replay_exact [OF sample_session_valid, of "[sample_event]"
      "journal_state sample_session [sample_event]"] sample_event_valid
  by (simp add: sample_event_fields)

text \<open>
  C28. Append is exact.  It succeeds exactly when the journal replays and is open, the new
  event validates, bound to the session, numbered next and linked to the last hash, and
  its own hash is not the genesis hash; the result is the old journal followed by that
  event, which carries the given kind, actor and references and the stripped summary.
\<close>

theorem append_event_exact:
  assumes "valid_session session" and "list_all valid_event es"
  shows "append_event session es k ak who summ refs at = Inr es' \<longleftrightarrow>
    (\<exists>s. replay session es = Inr s) \<and> (\<forall>e \<in> set es. se_kind e \<noteq> SESSION_CLOSED) \<and>
    (\<exists>e. create_event session (int (length es) + 1)
            (if es = [] then genesis_event_hash else se_event_hash (last es)) k ak who summ refs at = Inr e \<and>
       se_event_hash e \<noteq> genesis_event_hash \<and> es' = es @ [e] \<and> valid_event e \<and>
       se_session_id e = rs_session_id session \<and> se_sequence e = int (length es) + 1 \<and>
       se_kind e = k \<and> se_actor_kind e = ak \<and> se_summary e = model_strip summ \<and>
       se_artifact_refs e = refs)"
  unfolding append_event_iff [OF assms] journal_head_def [symmetric] journal_closed_def
  using create_event_Inr [OF assms(1) journal_head_hex [OF assms(2)]] by blast

theorem append_event_exact_witness:
  "\<nexists>es'. append_event sample_session
      [sample_event, sample_event] GAP_RECORDED MODEL
      ''m'' ''gap'' [] ''2026-01-01T00:00:00.000000Z'' = Inr es'"
proof -
  have v: "list_all valid_event [sample_event, sample_event]" using sample_event_valid by simp
  have "replay sample_session [sample_event, sample_event] \<noteq> Inr s" for s
    using replay_iff [OF sample_session_valid v, of s]
      journal_ok_snoc [of sample_session "[sample_event]" sample_event]
    by (simp add: sample_event_fields)
  then show ?thesis
    using append_event_exact [OF sample_session_valid v] by simp
qed





text \<open>
  Candidates never become evidence: in the state of a replayed journal the evidence
  references are fragments, packets and links, the candidate references are statements,
  concepts and entities, each list without duplicates, and every reference was attached
  by an event of the journal.
\<close>

theorem replay_separates_candidates:
  assumes "valid_session session" and "list_all valid_event es" and "replay session es = Inr s"
  shows "ar_kind ` set (ss_evidence_refs s) \<subseteq> {SOURCE_FRAGMENT, EVIDENCE_PACKET, EVIDENCE_LINK} \<and>
    ar_kind ` set (ss_candidate_refs s) \<subseteq> {STATEMENT, CONCEPT, ENTITY} \<and>
    distinct (ss_evidence_refs s) \<and> distinct (ss_candidate_refs s) \<and>
    (\<forall>r \<in> set (ss_evidence_refs s). \<exists>e \<in> set es. se_kind e = EVIDENCE_ATTACHED \<and> r \<in> set (se_artifact_refs e))"
proof -
  have s: "ss_evidence_refs s = refs_of EVIDENCE_ATTACHED es"
    "ss_candidate_refs s = refs_of CANDIDATE_LINKED es"
    using assms(3)
    by (simp_all add: replay_iff [OF assms(1,2)] journal_state_def Let_def replay_result_def
        journal_view_def)
  have "ar_kind ` set (refs_of EVIDENCE_ATTACHED es) \<subseteq> {SOURCE_FRAGMENT, EVIDENCE_PACKET, EVIDENCE_LINK}"
    "ar_kind ` set (refs_of CANDIDATE_LINKED es) \<subseteq> {STATEMENT, CONCEPT, ENTITY}"
    using assms(2) valid_event_artifacts by (auto simp: refs_of_def list_all_iff) blast+
  then show ?thesis unfolding s by (auto simp: refs_of_def)
qed

theorem replay_separates_candidates_witness:
  "\<exists>s. replay sample_session [] = Inr s \<and> set (ss_evidence_refs s) = {} \<and> distinct (ss_candidate_refs s)"
proof -
  have r: "replay sample_session [] = Inr (journal_state sample_session [])"
    by (rule journal_replays [OF sample_journal])
  from replay_separates_candidates [OF sample_session_valid _ r] r show ?thesis by auto
qed

text \<open>
  A created brief holds exactly the given texts: creation hashes its arguments before
  the model strips them, so padded arguments are refused, unless two different payloads
  collide under SHA-256.
\<close>

theorem create_brief_exact:
  assumes "create_brief question intended_use criteria boundaries = Inr b"
  shows "(sb_question b = question \<and> sb_intended_use b = intended_use \<and>
      sb_success_criteria b = criteria \<and> sb_boundaries b = boundaries \<and>
      distinct criteria \<and> distinct boundaries \<and>
      list_all unpadded (question # intended_use # criteria @ boundaries)) \<or>
    (\<exists>c. sb_brief_hash b = canonical_sha256_hex (brief_payload c) \<and>
       sha_collision (canonical_json_bytes (brief_payload b)) (canonical_json_bytes (brief_payload c)))"
proof -
  define raw where "raw = \<lparr>sb_schema_id = brief_schema, sb_brief_id = [], sb_brief_hash = [],
    sb_question = question, sb_intended_use = intended_use,
    sb_success_criteria = criteria, sb_boundaries = boundaries\<rparr>"
  define full where "full = raw\<lparr>sb_brief_id := canonical_content_id ''session_brief'' (brief_payload raw),
    sb_brief_hash := canonical_sha256_hex (brief_payload raw)\<rparr>"
  have v: "brief_validator (strip_brief full) = Inr b"
    using assms by (simp add: create_brief_def Let_def validate_brief_def validated_eq_Inr
        raw_def full_def)
  then have b: "b = strip_brief full" and "distinct (sb_success_criteria b)" "distinct (sb_boundaries b)"
    and hash: "sb_brief_hash b = canonical_sha256_hex (brief_payload b)"
    by (auto simp: brief_validator_def split: if_splits)
  have raw: "sb_brief_hash b = canonical_sha256_hex (brief_payload raw)"
    by (simp add: b strip_brief_def full_def)
  from brief_addr.hash_eq_view [of b raw] hash raw consider
    "brief_content b = brief_content raw" |
    "sha_collision (canonical_json_bytes (brief_payload b)) (canonical_json_bytes (brief_payload raw))"
    by auto
  then show ?thesis
  proof cases
    case 1
    then have same: "sb_question b = question" "sb_intended_use b = intended_use"
      "sb_success_criteria b = criteria" "sb_boundaries b = boundaries"
      by (cases b, simp add: brief_content_def raw_def)+
    moreover have "unpadded (sb_question b)" "unpadded (sb_intended_use b)"
      "list_all unpadded (sb_success_criteria b)" "list_all unpadded (sb_boundaries b)"
      by (auto simp: b strip_brief_def list_all_iff)
    ultimately show ?thesis
      using \<open>distinct (sb_success_criteria b)\<close> \<open>distinct (sb_boundaries b)\<close> by simp
  next
    case 2
    with raw show ?thesis by blast
  qed
qed

theorem create_brief_exact_witness:
  "\<exists>b. create_brief ''Which?'' ''review'' [''cited''] [] = Inr b \<and>
     (sb_question b = ''Which?'' \<or>
      (\<exists>c. sha_collision (canonical_json_bytes (brief_payload b)) (canonical_json_bytes (brief_payload c))))"
proof -
  have "\<exists>b. create_brief ''Which?'' ''review'' [''cited''] [] = Inr b"
    by (simp add: create_brief_def Let_def validate_brief_def validated_eq_Inr strip_brief_def
        model_space_def canonical_content_id_matches pattern_field_eq_Inr text_field_eq_Inr
        list_field_eq_Inr brief_validator_def brief_payload_def)
      (simp add: model_strip_literal brief_schema_def)
  then obtain b where b: "create_brief ''Which?'' ''review'' [''cited''] [] = Inr b" by blast
  then show ?thesis using create_brief_exact [OF b] by blast
qed

end
