(* ===== verification/Snapshots.thy ===== *)
theory Snapshots
  imports AccessProps "HOL-Library.Multiset"
begin

text \<open>
  CorpusSnapshots (\<open>src/dithyramba/snapshots\<close>): members with root lineage, the
  canonical manifest, and its content address.
\<close>

subsection \<open>Members\<close>

datatype family_role = ROOT | DERIVATIVE | DUPLICATE

definition family_role_value :: "family_role \<Rightarrow> string" where
  "family_role_value r =
     (case r of ROOT \<Rightarrow> ''root'' | DERIVATIVE \<Rightarrow> ''derivative'' | DUPLICATE \<Rightarrow> ''duplicate'')"

definition snapshot_require_id :: "string \<Rightarrow> string \<Rightarrow> string res" where
  "snapshot_require_id value pre =
     (if \<not> has_prefix (pre @ ''_'') value
      then Inl (SnapshotContractError (''identifier must use the '' @ pre @ ''_ prefix''))
      else if \<not> words_underscore (drop (length pre + 1) value) False
      then Inl (SnapshotContractError
        (''identifier must use the '' @ pre @ ''_ prefix with a canonical non-empty suffix''))
      else Inr value)"

definition snapshot_require_hash :: "string \<Rightarrow> string \<Rightarrow> string res" where
  "snapshot_require_hash value label =
     (if \<not> matches_hex 64 value
      then Inl (SnapshotContractError (label @ '' must be lowercase SHA-256 hex''))
      else Inr value)"

record snapshot_member =
  sm_collection_id :: string
  sm_source_id :: string
  sm_source_version_id :: string
  sm_content_sha256 :: string
  sm_membership_state :: membership_state
  sm_source_family_id :: string
  sm_root_source_id :: string
  sm_family_role :: family_role

text \<open>
  Errors raised by the validators of a pydantic model reach the caller as its
  \<open>ValidationError\<close>; pydantic reports every failing field, the model the first one in
  field order.
\<close>

definition validate_member :: "snapshot_member \<Rightarrow> snapshot_member res" where
  "validate_member m = wrap_validation
     (res_bind (snapshot_require_id (sm_collection_id m) ''collection'') (\<lambda>_.
      res_bind (snapshot_require_id (sm_source_id m) ''source'') (\<lambda>_.
      res_bind (snapshot_require_id (sm_source_version_id m) ''source_version'') (\<lambda>_.
      res_bind (snapshot_require_hash (sm_content_sha256 m) ''content_sha256'') (\<lambda>_.
      res_bind (snapshot_require_id (sm_source_family_id m) ''family'') (\<lambda>_.
      res_bind (snapshot_require_id (sm_root_source_id m) ''source'') (\<lambda>_.
      if sm_family_role m = ROOT \<and> sm_root_source_id m \<noteq> sm_source_id m
      then Inl (SnapshotContractError ''root lineage must point to the member Source'')
      else if sm_family_role m \<noteq> ROOT \<and> sm_root_source_id m = sm_source_id m
      then Inl (SnapshotContractError ''non-root lineage must point to another root Source'')
      else Inr m)))))))"

definition member_payload :: "snapshot_member \<Rightarrow> json" where
  "member_payload m =
     JObj
       [(''collection_id'', JStr (sm_collection_id m)),
        (''source_id'', JStr (sm_source_id m)),
        (''source_version_id'', JStr (sm_source_version_id m)),
        (''content_sha256'', JStr (sm_content_sha256 m)),
        (''membership_state'', JStr (membership_state_value (sm_membership_state m))),
        (''source_family_id'', JStr (sm_source_family_id m)),
        (''root_source_id'', JStr (sm_root_source_id m)),
        (''family_role'', JStr (family_role_value (sm_family_role m)))]"

subsection \<open>Snapshots\<close>

record corpus_snapshot =
  cs_library_id :: string
  cs_collection_ids :: "string list"
  cs_members :: "snapshot_member list"

definition snapshot_collection_ids :: "string list \<Rightarrow> string list res" where
  "snapshot_collection_ids value =
     (if value = []
      then Inl (SnapshotContractError ''snapshot scope requires at least one Collection'')
      else if length value > 16
      then Inl (SnapshotContractError ''snapshot scope permits at most 16 Collections'')
      else res_bind (map_res (\<lambda>c. snapshot_require_id c ''collection'') value) (\<lambda>_.
        if has_duplicates value
        then Inl (SnapshotContractError ''snapshot Collection IDs must be unique'')
        else Inr (sort value)))"

definition member_key :: "snapshot_member \<Rightarrow> string \<times> string" where
  "member_key m = (sm_collection_id m, sm_source_version_id m)"

definition snapshot_members :: "snapshot_member list \<Rightarrow> snapshot_member list res" where
  "snapshot_members value =
     (if has_duplicates (map member_key value)
      then Inl (SnapshotContractError ''snapshot member keys must be unique'')
      else Inr (sort_key member_key value))"

definition member_lineage :: "snapshot_member \<Rightarrow> string \<times> string \<times> string \<times> string \<times> family_role" where
  "member_lineage m =
     (sm_source_id m, sm_content_sha256 m, sm_source_family_id m, sm_root_source_id m,
      sm_family_role m)"

definition manifest_in_scope :: "corpus_snapshot \<Rightarrow> corpus_snapshot res" where
  "manifest_in_scope s =
     (if list_ex (\<lambda>m. sm_collection_id m \<notin> set (cs_collection_ids s)) (cs_members s)
      then Inl (SnapshotContractError
        ''snapshot member belongs to a Collection outside scope'')
      else if \<not> setdefault_loop []
                (map (\<lambda>m. (sm_source_version_id m, member_lineage m)) (cs_members s))
      then Inl (SnapshotContractError
        ''one SourceVersion has inconsistent content or lineage across Collections'')
      else Inr s)"

definition build_corpus_snapshot ::
  "string \<Rightarrow> string list \<Rightarrow> snapshot_member list \<Rightarrow> corpus_snapshot res" where
  "build_corpus_snapshot lib cids ms = wrap_validation
     (res_bind (snapshot_require_id lib ''library'') (\<lambda>_.
      res_bind (snapshot_collection_ids cids) (\<lambda>cs.
      res_bind (snapshot_members ms) (\<lambda>sms.
        manifest_in_scope
          \<lparr>cs_library_id = lib, cs_collection_ids = cs, cs_members = sms\<rparr>))))"

definition snapshot_payload :: "corpus_snapshot \<Rightarrow> json" where
  "snapshot_payload s =
     JObj
       [(''schema'', JStr ''dithyramba.corpus_snapshot_manifest/1.0''),
        (''scope'', JObj
          [(''schema'', JStr ''dithyramba.corpus_snapshot_scope/1.0''),
           (''library_id'', JStr (cs_library_id s)),
           (''collection_ids'', JList (map JStr (cs_collection_ids s)))]),
        (''members'', JList (map member_payload (cs_members s)))]"

definition snapshot_canonical_bytes :: "corpus_snapshot \<Rightarrow> byte list" where
  "snapshot_canonical_bytes s = canonical_json_bytes (snapshot_payload s)"

definition manifest_hash :: "corpus_snapshot \<Rightarrow> string" where
  "manifest_hash s = canonical_sha256_hex (snapshot_payload s)"

definition corpus_snapshot_id :: "corpus_snapshot \<Rightarrow> string" where
  "corpus_snapshot_id s = canonical_content_id ''snapshot'' (snapshot_payload s)"

subsection \<open>Faithful manifest\<close>

lemma family_role_value_eq [simp]: "family_role_value a = family_role_value b \<longleftrightarrow> a = b"
  by (cases a; cases b) (simp_all add: family_role_value_def)

lemma membership_state_value_eq [simp]:
  "membership_state_value a = membership_state_value b \<longleftrightarrow> a = b"
  by (cases a; cases b) (simp_all add: membership_state_value_def)

lemma member_payload_eq: "canon (member_payload a) = canon (member_payload b) \<Longrightarrow> a = b"
  by (auto simp: member_payload_def)

interpretation snapshot_addr: content_addressed snapshot_payload "\<lambda>s. s"
proof unfold_locales
  fix v w assume "canon (snapshot_payload v) = canon (snapshot_payload w)"
  then show "v = w"
    by (auto simp: snapshot_payload_def comp_def dest!: map_canon_eqD [OF _ member_payload_eq])
qed

subsection \<open>Canonical construction\<close>

definition lineage_functional :: "snapshot_member set \<Rightarrow> bool" where
  "lineage_functional M \<longleftrightarrow>
     (\<forall>m \<in> M. \<forall>n \<in> M. sm_source_version_id m = sm_source_version_id n \<longrightarrow>
        member_lineage m = member_lineage n)"

lemma manifest_in_scope_Inr:
  "manifest_in_scope s = Inr t \<longleftrightarrow> t = s \<and>
     (\<forall>m \<in> set (cs_members s). sm_collection_id m \<in> set (cs_collection_ids s)) \<and>
     lineage_functional (set (cs_members s))"
  unfolding manifest_in_scope_def setdefault_loop_map list_ex_iff lineage_functional_def [symmetric]
  by auto

lemma build_corpus_snapshot_Inr:
  "build_corpus_snapshot lib cids ms = Inr s \<longleftrightarrow>
     (\<exists>x. snapshot_require_id lib ''library'' = Inr x) \<and>
     cids \<noteq> [] \<and> length cids \<le> 16 \<and> distinct cids \<and>
     (\<exists>xs. map_res (\<lambda>c. snapshot_require_id c ''collection'') cids = Inr xs) \<and>
     distinct (map member_key ms) \<and>
     s = \<lparr>cs_library_id = lib, cs_collection_ids = sort cids,
          cs_members = sort_key member_key ms\<rparr> \<and>
     (\<forall>m \<in> set ms. sm_collection_id m \<in> set cids) \<and>
     lineage_functional (set ms)"
proof -
  have cs: "snapshot_collection_ids cids = Inr cs \<longleftrightarrow> cids \<noteq> [] \<and> length cids \<le> 16 \<and>
      distinct cids \<and> (\<exists>xs. map_res (\<lambda>c. snapshot_require_id c ''collection'') cids = Inr xs) \<and>
      cs = sort cids" for cs
    unfolding snapshot_collection_ids_def if_res_eq_Inr res_bind_eq_Inr has_duplicates_iff
    by auto
  have sms: "snapshot_members ms = Inr sms \<longleftrightarrow>
      distinct (map member_key ms) \<and> sms = sort_key member_key ms" for sms
    unfolding snapshot_members_def by auto
  show ?thesis
    unfolding build_corpus_snapshot_def wrap_validation_eq_Inr res_bind_eq_Inr cs sms
      manifest_in_scope_Inr
    by auto
qed

subsection \<open>Properties\<close>

text \<open>
  A snapshot does not depend on the order in which Collections and members are
  supplied, and its manifest hash identifies it: two snapshots with the same manifest hash
  are equal, member by member, or exhibit a SHA-256 collision.
\<close>

theorem snapshot_identity:
  "(build_corpus_snapshot lib cids ms = Inr s \<and> mset cids' = mset cids \<and> mset ms' = mset ms \<longrightarrow>
     build_corpus_snapshot lib cids' ms' = Inr s) \<and>
   (manifest_hash s = manifest_hash t \<longrightarrow>
     s = t \<or> sha_collision (snapshot_canonical_bytes s) (snapshot_canonical_bytes t))"
proof (intro conjI impI)
  assume a: "build_corpus_snapshot lib cids ms = Inr s \<and> mset cids' = mset cids \<and> mset ms' = mset ms"
  then have b: "build_corpus_snapshot lib cids ms = Inr s" by blast
  note c = b [unfolded build_corpus_snapshot_Inr]
  have sets: "set cids' = set cids" "set ms' = set ms" "length cids' = length cids"
    using a by (blast dest: mset_eq_setD mset_eq_length)+
  have d: "distinct cids' = distinct cids" "distinct (map member_key ms') = distinct (map member_key ms)"
    using a by (metis mset_eq_imp_distinct_iff mset_map)+
  have so: "sort cids' = sort cids" using a by (metis sorted_list_of_multiset_mset)
  have sm: "sort_key member_key ms' = sort_key member_key ms"
    using c d(2) sets(2) by (intro sort_key_unique) blast+
  have "cids' \<noteq> []" using sets(3) c by (metis length_0_conv)
  moreover have "\<exists>xs. map_res (\<lambda>c. snapshot_require_id c ''collection'') cids' = Inr xs"
    using c map_res_perm [OF _ sets(1)] by blast
  ultimately show "build_corpus_snapshot lib cids' ms' = Inr s"
    unfolding build_corpus_snapshot_Inr so sm d sets using c by blast
next
  assume "manifest_hash s = manifest_hash t"
  then show "s = t \<or> sha_collision (snapshot_canonical_bytes s) (snapshot_canonical_bytes t)"
    unfolding manifest_hash_def snapshot_canonical_bytes_def by (rule snapshot_addr.hash_eq_view)
qed

theorem snapshot_identity_witness:
  "build_corpus_snapshot ''library_a'' [''collection_b'', ''collection_a''] [] =
     Inr \<lparr>cs_library_id = ''library_a'', cs_collection_ids = [''collection_a'', ''collection_b''],
          cs_members = []\<rparr>"
proof -
  have "build_corpus_snapshot ''library_a'' [''collection_a'', ''collection_b''] [] =
     Inr \<lparr>cs_library_id = ''library_a'', cs_collection_ids = [''collection_a'', ''collection_b''],
          cs_members = []\<rparr>"
    by (simp add: build_corpus_snapshot_Inr lineage_functional_def snapshot_require_id_def has_prefix_def lower_az_def
        digits09_def)
  then show ?thesis
    using snapshot_identity [of "''library_a''" "[''collection_a'', ''collection_b'']" "[]"
        _ "[''collection_b'', ''collection_a'']" "[]"] by (simp add: add_mset_commute)
qed

text \<open>
  Every snapshot that is built lists each Collection once in increasing order, each
  member once in increasing order of Collection and version, only members of its own
  Collections, and gives each SourceVersion one content and one lineage.
\<close>

theorem snapshot_invariant:
  assumes "build_corpus_snapshot lib cids ms = Inr s"
  shows "sorted (cs_collection_ids s) \<and> distinct (cs_collection_ids s) \<and>
    cs_collection_ids s \<noteq> [] \<and> length (cs_collection_ids s) \<le> 16 \<and>
    sorted (map member_key (cs_members s)) \<and> distinct (map member_key (cs_members s)) \<and>
    set (cs_members s) = set ms \<and>
    (\<forall>m \<in> set (cs_members s). sm_collection_id m \<in> set (cs_collection_ids s)) \<and>
    (\<forall>m \<in> set (cs_members s). \<forall>n \<in> set (cs_members s).
       sm_source_version_id m = sm_source_version_id n \<longrightarrow> member_lineage m = member_lineage n)"
proof -
  note b = assms [unfolded build_corpus_snapshot_Inr]
  then have "sort cids \<noteq> []" by (metis set_empty set_sort)
  moreover have "distinct (map member_key (sort_key member_key ms))"
    using b by (simp only: distinct_map distinct_sort set_sort)
  moreover have "\<forall>m \<in> set ms. \<forall>n \<in> set ms.
      sm_source_version_id m = sm_source_version_id n \<longrightarrow> member_lineage m = member_lineage n"
    using b unfolding lineage_functional_def by blast
  moreover have "s = \<lparr>cs_library_id = lib, cs_collection_ids = sort cids,
      cs_members = sort_key member_key ms\<rparr>"
    using b by blast
  ultimately show ?thesis
    using b by (simp only: corpus_snapshot.simps set_sort sorted_sort sorted_sort_key length_sort
        distinct_sort simp_thms) blast
qed

theorem snapshot_invariant_witness:
  "sorted [''collection_a'', ''collection_b''] \<and> length [''collection_a'', ''collection_b''] \<le> 16"
  using snapshot_invariant [of "''library_a''" "[''collection_b'', ''collection_a'']" "[]"
      "\<lparr>cs_library_id = ''library_a'', cs_collection_ids = [''collection_a'', ''collection_b''],
        cs_members = []\<rparr>"]
  by (simp add: build_corpus_snapshot_Inr lineage_functional_def snapshot_require_id_def has_prefix_def lower_az_def
      digits09_def)

end
