(* ===== verification/Ingest_Models.thy ===== *)
theory Ingest_Models
  imports Canonical
begin

text \<open>
  The contracts shared by readers and parsers (\<open>src/dithyramba/ingest/models.py\<close>):
  exact source addresses, parsed fragments and parse results.  A constructor
  \<open>make_x\<close> is the dataclass with its \<open>__post_init__\<close>; the type tests of the
  source hold by typing.
\<close>

subsection \<open>Source addresses\<close>

definition source_address_schema :: string where
  "source_address_schema = ''dithyramba.source_address/1.0''"

record markdown_address =
  ma_heading_path :: "string list"
  ma_line_start :: int
  ma_line_end :: int
  ma_char_start :: int
  ma_char_end :: int

record pdf_address =
  pa_page :: int
  pa_bbox :: "string list"
  pa_char_start :: int
  pa_char_end :: int

datatype source_address = Markdown markdown_address | Pdf pdf_address

definition validate_offsets :: "int \<Rightarrow> int \<Rightarrow> unit res" where
  "validate_offsets char_start char_end =
     (if char_start < 0
      then Inl (ValueError ''char_start must be a non-negative integer'')
      else if char_end \<le> char_start
      then Inl (ValueError ''char_end must be greater than char_start'')
      else Inr ())"

definition make_markdown_address ::
  "string list \<Rightarrow> int \<Rightarrow> int \<Rightarrow> int \<Rightarrow> int \<Rightarrow> markdown_address res" where
  "make_markdown_address path line_start line_end char_start char_end =
     (let normalized = map nfc path
      in if list_ex (\<lambda>part. strip part = []) normalized
         then Inl (ValueError ''heading_path entries must be non-empty'')
         else if line_start < 1
         then Inl (ValueError ''line_start must be a positive integer'')
         else if line_end < line_start
         then Inl (ValueError ''line_end must be at least line_start'')
         else res_bind (validate_offsets char_start char_end) (\<lambda>_.
           Inr \<lparr>ma_heading_path = normalized, ma_line_start = line_start, ma_line_end = line_end,
                ma_char_start = char_start, ma_char_end = char_end\<rparr>))"

text \<open>
  \<open>_POINT_PATTERN\<close>, \<open>-?(?:0|[1-9][0-9]*)\.[0-9]{3}\<close>, and the value of a matching
  string in thousandths: \<open>Decimal\<close> represents such a string exactly.
\<close>

definition point_digit :: "char \<Rightarrow> bool" where
  "point_digit c \<longleftrightarrow> c \<in> set digits09"

definition point_body :: "string \<Rightarrow> string" where
  "point_body s = (if has_prefix ''-'' s then drop 1 s else s)"

definition point_pattern :: "string \<Rightarrow> bool" where
  "point_pattern s \<longleftrightarrow>
     (let whole = takeWhile point_digit (point_body s); rest = dropWhile point_digit (point_body s)
      in whole \<noteq> [] \<and> (whole = ''0'' \<or> hd whole \<noteq> CHR ''0'') \<and>
         length rest = 4 \<and> hd rest = CHR ''.'' \<and> list_all point_digit (tl rest))"

definition point_value :: "string \<Rightarrow> int" where
  "point_value s = foldl (\<lambda>n c. 10 * n + (of_char c - 48)) 0 s"

definition point_millis :: "string \<Rightarrow> int" where
  "point_millis s =
     (let whole = takeWhile point_digit (point_body s); rest = dropWhile point_digit (point_body s);
          v = 1000 * point_value whole + point_value (tl rest)
      in if has_prefix ''-'' s then - v else v)"

definition make_pdf_address :: "int \<Rightarrow> string list \<Rightarrow> int \<Rightarrow> int \<Rightarrow> pdf_address res" where
  "make_pdf_address page bbox char_start char_end =
     (if page < 1
      then Inl (ValueError ''page must be a positive integer'')
      else if length bbox \<noteq> 4
      then Inl (ValueError ''bbox must contain exactly four canonical point strings'')
      else if list_ex (\<lambda>p. \<not> point_pattern p) bbox
      then Inl (ValueError ''bbox points must use fixed-point strings with three decimals'')
      else if list_ex (\<lambda>p. p = ''-0.000'') bbox \<or>
              list_ex (\<lambda>p. \<bar>point_millis p\<bar> > 1000000000 * 1000) bbox
      then Inl (ValueError ''bbox points must be canonical and within the supported range'')
      else if point_millis (bbox ! 0) \<ge> point_millis (bbox ! 2) \<or>
              point_millis (bbox ! 1) \<ge> point_millis (bbox ! 3)
      then Inl (ValueError ''bbox must satisfy x0 < x1 and top < bottom'')
      else res_bind (validate_offsets char_start char_end) (\<lambda>_.
        Inr \<lparr>pa_page = page, pa_bbox = bbox, pa_char_start = char_start, pa_char_end = char_end\<rparr>))"

fun address_payload :: "source_address \<Rightarrow> json" where
  "address_payload (Markdown a) =
     JObj
       [(''schema'', JStr source_address_schema),
        (''kind'', JStr ''markdown''),
        (''heading_path'', JList (map JStr (ma_heading_path a))),
        (''line_start'', JInt (ma_line_start a)),
        (''line_end'', JInt (ma_line_end a)),
        (''char_start'', JInt (ma_char_start a)),
        (''char_end'', JInt (ma_char_end a))]"
| "address_payload (Pdf a) =
     JObj
       [(''schema'', JStr source_address_schema),
        (''kind'', JStr ''pdf''),
        (''page'', JInt (pa_page a)),
        (''bbox'', JList (map JStr (pa_bbox a))),
        (''char_start'', JInt (pa_char_start a)),
        (''char_end'', JInt (pa_char_end a))]"

fun address_char_start :: "source_address \<Rightarrow> int" where
  "address_char_start (Markdown a) = ma_char_start a"
| "address_char_start (Pdf a) = pa_char_start a"

fun address_char_end :: "source_address \<Rightarrow> int" where
  "address_char_end (Markdown a) = ma_char_end a"
| "address_char_end (Pdf a) = pa_char_end a"

subsection \<open>Fragments\<close>

datatype fragment_kind = HEADING | PARAGRAPH | PAGE_TEXT

record parsed_fragment =
  pf_ordinal :: int
  pf_kind :: fragment_kind
  pf_text :: string
  pf_address :: source_address

definition make_parsed_fragment ::
  "int \<Rightarrow> fragment_kind \<Rightarrow> string \<Rightarrow> source_address \<Rightarrow> parsed_fragment res" where
  "make_parsed_fragment ordinal kind txt address =
     (let normalized = nfc txt
      in if ordinal < 0
         then Inl (ValueError ''ordinal must be a non-negative integer'')
         else if strip normalized = [] \<or> char_of (0::nat) \<in> set normalized
         then Inl (ValueError ''fragment text must be non-empty and contain no NUL'')
         else if kind \<in> {HEADING, PARAGRAPH} \<and> (case address of Pdf _ \<Rightarrow> True | _ \<Rightarrow> False)
         then Inl (ValueError ''Markdown fragment kinds require MarkdownSourceAddress'')
         else if kind = PAGE_TEXT \<and> (case address of Markdown _ \<Rightarrow> True | _ \<Rightarrow> False)
         then Inl (ValueError ''page_text requires PdfSourceAddress'')
         else if address_char_end address - address_char_start address \<noteq> int (length normalized)
         then Inl (ValueError ''address character span must equal fragment text length'')
         else Inr \<lparr>pf_ordinal = ordinal, pf_kind = kind, pf_text = normalized, pf_address = address\<rparr>)"

definition text_sha256 :: "parsed_fragment \<Rightarrow> string" where
  "text_sha256 f = sha256_hex (utf8 (pf_text f))"

definition address_hash :: "parsed_fragment \<Rightarrow> string" where
  "address_hash f = canonical_sha256_hex (address_payload (pf_address f))"

subsection \<open>Parse results\<close>

datatype parse_status = PROCESSED | SKIPPED | FAILED

record parse_result =
  pr_status :: parse_status
  pr_fragments :: "parsed_fragment list"
  pr_parser_revision :: string
  pr_normalized_codepoints :: int
  pr_failure_code :: "string option"
  pr_parser_profile :: string

text \<open>\<open>_FAILURE_CODE_PATTERN\<close>: \<open>[a-z][a-z0-9_]{1,63}\<close>.\<close>

definition failure_code_pattern :: "string \<Rightarrow> bool" where
  "failure_code_pattern s = matches_head_rest lower_az (lower_az @ digits09 @ ''_'') 1 63 s"

definition make_parse_result ::
  "parse_status \<Rightarrow> parsed_fragment list \<Rightarrow> string \<Rightarrow> int \<Rightarrow> string option \<Rightarrow> string \<Rightarrow>
     parse_result res" where
  "make_parse_result status fragments revision codepoints code profile =
     (if strip revision = [] \<or> strip profile = []
      then Inl (ValueError ''parser revision/profile must be non-empty'')
      else if codepoints < 0
      then Inl (ValueError ''normalized_codepoints must be a non-negative integer'')
      else
        let result = \<lparr>pr_status = status, pr_fragments = fragments, pr_parser_revision = revision,
                      pr_normalized_codepoints = codepoints, pr_failure_code = code,
                      pr_parser_profile = profile\<rparr>
        in if status = PROCESSED
           then if fragments = [] \<or> code \<noteq> None
                then Inl (ValueError ''processed result requires fragments and no failure code'')
                else if map pf_ordinal fragments \<noteq> map int [0..<length fragments]
                then Inl (ValueError ''fragment ordinals must be contiguous from zero'')
                else Inr result
           else (case code of
                   None \<Rightarrow> Inl (ValueError
                     ''skipped/failed result requires no fragments and a failure code'')
                 | Some c \<Rightarrow>
                     if fragments \<noteq> []
                     then Inl (ValueError
                       ''skipped/failed result requires no fragments and a failure code'')
                     else if \<not> failure_code_pattern c
                     then Inl (ValueError ''failure_code must use stable snake_case grammar'')
                     else Inr result))"

definition index_parser_profile :: string where
  "index_parser_profile = ''index/1.1''"

definition processed_result :: "parsed_fragment list \<Rightarrow> string \<Rightarrow> int \<Rightarrow> parse_result res" where
  "processed_result fragments revision codepoints =
     make_parse_result PROCESSED fragments revision codepoints None index_parser_profile"

definition skipped_result :: "string \<Rightarrow> string \<Rightarrow> parse_result res" where
  "skipped_result code revision =
     make_parse_result SKIPPED [] revision 0 (Some code) index_parser_profile"

definition failed_result :: "string \<Rightarrow> string \<Rightarrow> parse_result res" where
  "failed_result code revision =
     make_parse_result FAILED [] revision 0 (Some code) index_parser_profile"

subsection \<open>Parser limits\<close>

record parser_limits =
  max_file_bytes :: int
  max_pdf_pages :: int
  max_extracted_codepoints :: int
  timeout_seconds :: int
  max_rss_mib :: int

definition make_parser_limits :: "int \<Rightarrow> int \<Rightarrow> int \<Rightarrow> int \<Rightarrow> int \<Rightarrow> parser_limits res" where
  "make_parser_limits file_bytes pages codepoints timeout rss =
     (let positive = (\<lambda>name v. guard_res (0 < v) (ValueError (name @ '' must be a positive integer'')))
      in res_bind (positive ''max_file_bytes'' file_bytes) (\<lambda>_.
         res_bind (positive ''max_pdf_pages'' pages) (\<lambda>_.
         res_bind (positive ''max_extracted_codepoints'' codepoints) (\<lambda>_.
         res_bind (positive ''timeout_seconds'' timeout) (\<lambda>_.
         res_bind (positive ''max_rss_mib'' rss) (\<lambda>_.
           Inr \<lparr>max_file_bytes = file_bytes, max_pdf_pages = pages,
                max_extracted_codepoints = codepoints, timeout_seconds = timeout,
                max_rss_mib = rss\<rparr>))))))"

definition parser_profile :: "string \<Rightarrow> (string \<times> parser_limits) res" where
  "parser_profile name =
     (if name = ''default''
      then res_bind (make_parser_limits (25 * 1024 * 1024) 500 2000000 30 512)
             (\<lambda>l. Inr (index_parser_profile, l))
      else if name = ''large-document''
      then res_bind (make_parser_limits (512 * 1024 * 1024) 2000 20000000 180 2560)
             (\<lambda>l. Inr (''index/large-document/1.3'', l))
      else Inl (ValueError ''unknown parser profile; expected default or large-document''))"

subsection \<open>Basic facts\<close>

lemma map_nfc [simp]: "map nfc xs = xs"
  by (induction xs) (simp_all add: nfc_def)

lemma make_markdown_address_Inr [res_simps]:
  "make_markdown_address path ls le cs ce = Inr a \<longleftrightarrow>
     list_all (\<lambda>p. strip p \<noteq> []) path \<and> 1 \<le> ls \<and> ls \<le> le \<and> 0 \<le> cs \<and> cs < ce \<and>
     a = \<lparr>ma_heading_path = path, ma_line_start = ls, ma_line_end = le, ma_char_start = cs,
          ma_char_end = ce\<rparr>"
  by (auto simp: make_markdown_address_def Let_def validate_offsets_def nfc_def list_ex_iff list_all_iff)

lemma make_parsed_fragment_Markdown [res_simps]:
  "make_parsed_fragment n k t (Markdown a) = Inr f \<longleftrightarrow>
     0 \<le> n \<and> strip t \<noteq> [] \<and> char_of (0::nat) \<notin> set t \<and> k \<noteq> PAGE_TEXT \<and>
     ma_char_end a - ma_char_start a = int (length t) \<and>
     f = \<lparr>pf_ordinal = n, pf_kind = k, pf_text = t, pf_address = Markdown a\<rparr>"
  by (auto simp: make_parsed_fragment_def Let_def nfc_def)

lemma processed_result_Inr [res_simps]:
  "processed_result fs revn n = Inr r \<longleftrightarrow>
     strip revn \<noteq> [] \<and> 0 \<le> n \<and> fs \<noteq> [] \<and> map pf_ordinal fs = map int [0..<length fs] \<and>
     r = \<lparr>pr_status = PROCESSED, pr_fragments = fs, pr_parser_revision = revn,
          pr_normalized_codepoints = n, pr_failure_code = None,
          pr_parser_profile = index_parser_profile\<rparr>"
proof -
  have "strip index_parser_profile \<noteq> []"
    by (simp add: index_parser_profile_def strip_def is_space_def)
  then show ?thesis by (auto simp: processed_result_def make_parse_result_def Let_def)
qed

end
