(* ===== verification/Markdown_Parser.thy ===== *)
theory Markdown_Parser
  imports Ingest_Models
begin

text \<open>
  The Markdown and plain-text parser (\<open>src/dithyramba/ingest/parsers.py\<close>) from the
  decoded text on: line splitting, ATX headings, code fences, paragraphs and the
  fragments with their exact addresses.  Strict UTF-8 decoding and the PDF worker are
  not modelled.
\<close>

definition char_code :: "char \<Rightarrow> nat" where
  "char_code c = of_char c"

definition newline :: char where
  "newline = char_of (10::nat)"

definition text_slice :: "string \<Rightarrow> nat \<Rightarrow> nat \<Rightarrow> string" where
  "text_slice s a b = take (b - a) (drop a s)"

text \<open>\<open>decoded.replace("\r\n", "\n").replace("\r", "\n")\<close>.\<close>

fun normalize_newlines :: "string \<Rightarrow> string" where
  "normalize_newlines [] = []"
| "normalize_newlines [c] = [if char_code c = 13 then newline else c]"
| "normalize_newlines (c # d # cs) =
     (if char_code c = 13
      then if char_code d = 10 then newline # normalize_newlines cs
           else newline # normalize_newlines (d # cs)
      else c # normalize_newlines (d # cs))"

text \<open>
  \<open>str.splitlines(keepends=True)\<close> on text without carriage returns: the boundaries
  below U+0100 are line feed, vertical tab, form feed, the separators U+001C to U+001E
  and U+0085.
\<close>

definition line_break :: "char \<Rightarrow> bool" where
  "line_break c \<longleftrightarrow> char_code c \<in> {10, 11, 12, 13, 28, 29, 30, 133}"

fun split_lines :: "string \<Rightarrow> string list" where
  "split_lines [] = []"
| "split_lines (c # cs) =
     (if line_break c then [c] # split_lines cs
      else case split_lines cs of
             [] \<Rightarrow> [[c]]
           | l # ls \<Rightarrow> (c # l) # ls)"

record text_line =
  ln_number :: nat
  ln_start :: nat
  ln_end :: nat
  ln_content :: string

fun lines_from :: "nat \<Rightarrow> nat \<Rightarrow> string list \<Rightarrow> text_line list" where
  "lines_from number offset [] = []"
| "lines_from number offset (raw # raws) =
     (let content = (if raw \<noteq> [] \<and> last raw = newline then butlast raw else raw)
      in \<lparr>ln_number = number, ln_start = offset, ln_end = offset + length content,
          ln_content = content\<rparr>
         # lines_from (number + 1) (offset + length raw) raws)"

definition lines_of :: "string \<Rightarrow> text_line list" where
  "lines_of txt = lines_from 1 0 (split_lines txt)"

subsection \<open>ATX headings\<close>

definition blank_char :: "char \<Rightarrow> bool" where
  "blank_char c \<longleftrightarrow> c = CHR '' '' \<or> char_code c = 9"

definition count_prefix :: "(char \<Rightarrow> bool) \<Rightarrow> string \<Rightarrow> nat" where
  "count_prefix P s = length (takeWhile P s)"

definition rstrip_blank :: "string \<Rightarrow> string" where
  "rstrip_blank s = rev (dropWhile blank_char (rev s))"

text \<open>
  \<open>_CLOSING_MARKS.search(s)\<close>, \<open>[ \t]+#+$\<close>: the start of the blanks before a
  trailing run of number signs, if there are both.
\<close>

definition closing_marks :: "string \<Rightarrow> nat option" where
  "closing_marks s =
     (let head = rev (dropWhile (\<lambda>c. c = CHR ''#'') (rev s))
      in if length head < length s \<and> head \<noteq> [] \<and> blank_char (last head)
         then Some (length (rstrip_blank head)) else None)"

record atx_heading =
  hd_level :: nat
  hd_text :: string
  hd_start :: nat
  hd_end :: nat

text \<open>
  \<open>_ATX_HEADING\<close>, \<open>^ {0,3}#{1,6}(?:[ \t]+(?P<body>.*)|[ \t]*)$\<close>: the number of
  marks, and the start of the body where the first alternative matches.  With no blank
  after the marks only the second alternative matches, and the body is \<open>None\<close>.
\<close>

definition atx_match :: "string \<Rightarrow> (nat \<times> nat) option" where
  "atx_match s =
     (let indent = count_prefix (\<lambda>c. c = CHR '' '') s;
          marks = count_prefix (\<lambda>c. c = CHR ''#'') (drop indent s);
          blanks = count_prefix blank_char (drop (indent + marks) s)
      in if indent \<le> 3 \<and> 1 \<le> marks \<and> marks \<le> 6 \<and> 1 \<le> blanks
         then Some (marks, indent + marks + blanks) else None)"

definition parse_atx_heading :: "text_line \<Rightarrow> atx_heading option" where
  "parse_atx_heading line =
     (let content = ln_content line
      in case atx_match content of
           None \<Rightarrow> None
         | Some (marks, body_start) \<Rightarrow>
             let end1 = length (rstrip_blank content);
                 content_end = (case closing_marks (text_slice content body_start end1) of
                                  None \<Rightarrow> end1
                                | Some k \<Rightarrow> body_start + k)
             in if content_end \<le> body_start then None
                else
                  let title = text_slice content body_start content_end
                  in if strip title = [] then None
                     else Some \<lparr>hd_level = marks, hd_text = title,
                                hd_start = ln_start line + body_start,
                                hd_end = ln_start line + content_end\<rparr>)"

subsection \<open>Fences\<close>

text \<open>
  \<open>_OPEN_FENCE\<close>, \<open>^ {0,3}(?P<fence>`{3,}|~{3,})(?:[^`]*)$\<close>: the greedy run of
  fence characters, and no backtick after it.
\<close>

definition opening_fence :: "string \<Rightarrow> (char \<times> nat) option" where
  "opening_fence s =
     (let indent = count_prefix (\<lambda>c. c = CHR '' '') s;
          body = drop indent s;
          run = (\<lambda>m. count_prefix (\<lambda>c. c = m) body)
      in if indent > 3 then None
         else if 3 \<le> run (CHR ''`'') \<and> CHR ''`'' \<notin> set (drop (run (CHR ''`'')) body)
         then Some (CHR ''`'', run (CHR ''`''))
         else if 3 \<le> run (CHR ''~'') \<and> CHR ''`'' \<notin> set body
         then Some (CHR ''~'', run (CHR ''~''))
         else None)"

definition is_closing_fence :: "string \<Rightarrow> char \<times> nat \<Rightarrow> bool" where
  "is_closing_fence s opening \<longleftrightarrow>
     (let indent = count_prefix (\<lambda>c. c = CHR '' '') s;
          marks = count_prefix (\<lambda>c. c = fst opening) (drop indent s)
      in indent \<le> 3 \<and> snd opening \<le> marks \<and>
         list_all blank_char (drop (indent + marks) s))"

subsection \<open>The parser loop\<close>

record parse_state =
  ps_fragments :: "parsed_fragment list"
  ps_stack :: "(nat \<times> string) list"
  ps_paragraph :: "text_line list"
  ps_fence :: "(char \<times> nat) option"

definition heading_path :: "(nat \<times> string) list \<Rightarrow> string list" where
  "heading_path stack = map snd stack"

definition add_fragment ::
  "fragment_kind \<Rightarrow> string \<Rightarrow> string list \<Rightarrow> nat \<Rightarrow> nat \<Rightarrow> nat \<Rightarrow> nat \<Rightarrow> parse_state \<Rightarrow> parse_state res"
where
  "add_fragment kind txt path first_line last_line cs ce st =
     res_bind (make_markdown_address path (int first_line) (int last_line) (int cs) (int ce)) (\<lambda>a.
     res_bind (make_parsed_fragment (int (length (ps_fragments st))) kind txt (Markdown a)) (\<lambda>f.
       Inr (st\<lparr>ps_fragments := ps_fragments st @ [f]\<rparr>)))"

definition flush_paragraph :: "string \<Rightarrow> parse_state \<Rightarrow> parse_state res" where
  "flush_paragraph txt st =
     (case ps_paragraph st of
        [] \<Rightarrow> Inr st
      | l # ls \<Rightarrow>
          let final = last (l # ls); body = text_slice txt (ln_start l) (ln_end final)
          in if strip body = [] then Inr (st\<lparr>ps_paragraph := []\<rparr>)
             else res_bind
                    (add_fragment PARAGRAPH body (heading_path (ps_stack st)) (ln_number l)
                       (ln_number final) (ln_start l) (ln_end final) st)
                    (\<lambda>st'. Inr (st'\<lparr>ps_paragraph := []\<rparr>)))"

definition pop_stack :: "nat \<Rightarrow> (nat \<times> string) list \<Rightarrow> (nat \<times> string) list" where
  "pop_stack level stack = rev (dropWhile (\<lambda>e. fst e \<ge> level) (rev stack))"

definition parse_line :: "string \<Rightarrow> parse_state \<Rightarrow> text_line \<Rightarrow> parse_state res" where
  "parse_line txt st line =
     (case ps_fence st of
        Some opening \<Rightarrow>
          let st' = st\<lparr>ps_paragraph := ps_paragraph st @ [line]\<rparr>
          in Inr (if is_closing_fence (ln_content line) opening
                  then st'\<lparr>ps_fence := None\<rparr> else st')
      | None \<Rightarrow>
          (case parse_atx_heading line of
             Some h \<Rightarrow>
               res_bind (flush_paragraph txt st) (\<lambda>st1.
                 let stack = pop_stack (hd_level h) (ps_stack st1) @ [(hd_level h, hd_text h)];
                     st2 = st1\<lparr>ps_stack := stack\<rparr>
                 in add_fragment HEADING (hd_text h) (heading_path stack) (ln_number line)
                      (ln_number line) (hd_start h) (hd_end h) st2)
           | None \<Rightarrow>
               if strip (ln_content line) = [] then flush_paragraph txt st
               else
                 let st1 = st\<lparr>ps_paragraph := ps_paragraph st @ [line]\<rparr>
                 in Inr (case opening_fence (ln_content line) of
                           None \<Rightarrow> st1
                         | Some opening \<Rightarrow> st1\<lparr>ps_fence := Some opening\<rparr>)))"

fun parse_lines :: "string \<Rightarrow> parse_state \<Rightarrow> text_line list \<Rightarrow> parse_state res" where
  "parse_lines txt st [] = Inr st"
| "parse_lines txt st (l # ls) = res_bind (parse_line txt st l) (\<lambda>st'. parse_lines txt st' ls)"

definition parse_fragments :: "string \<Rightarrow> parsed_fragment list res" where
  "parse_fragments txt =
     res_bind (parse_lines txt
         \<lparr>ps_fragments = [], ps_stack = [], ps_paragraph = [], ps_fence = None\<rparr> (lines_of txt))
       (\<lambda>st. res_bind (flush_paragraph txt st) (\<lambda>st'. Inr (ps_fragments st')))"

definition parse_text :: "string option \<Rightarrow> parser_limits \<Rightarrow> string \<Rightarrow> parse_result res" where
  "parse_text decoded limits revision =
     (case decoded of
        None \<Rightarrow> Inl (InvalidUtf8Error ''source is not strict UTF-8'')
      | Some raw \<Rightarrow>
          let normalized = nfc (normalize_newlines raw)
          in if char_of (0::nat) \<in> set normalized
             then Inl (ParserOutputInvalidError ''text source contains NUL'')
             else if int (length normalized) > max_extracted_codepoints limits
             then Inl (ExtractedTextLimitExceededError (''normalized text exceeds '' @
               int_repr (max_extracted_codepoints limits) @ '' code points''))
             else res_bind (parse_fragments normalized) (\<lambda>fragments.
               if fragments = []
               then Inl (NoExtractableTextError ''source contains no extractable text'')
               else processed_result fragments revision (int (length normalized))))"

text \<open>
  \<open>parse_source\<close> for the two text formats: content failures become outcomes with the
  code of the error class, skipped for text without content and failed otherwise; any
  other exception would escape.  The argument is the strictly decoded source, \<open>None\<close>
  where the bytes are not strict UTF-8.
\<close>

datatype media_type = MARKDOWN | PLAIN_TEXT

definition text_revision :: "media_type \<Rightarrow> string" where
  "text_revision m =
     (case m of MARKDOWN \<Rightarrow> ''markdown_atx/1.0'' | PLAIN_TEXT \<Rightarrow> ''plain_text_atx/1.0'')"

definition parse_source_text :: "media_type \<Rightarrow> string option \<Rightarrow> parser_limits \<Rightarrow> parse_result res" where
  "parse_source_text media decoded limits =
     (let revision = text_revision media
      in case parse_text decoded limits revision of
           Inr r \<Rightarrow> Inr r
         | Inl (NoExtractableTextError _) \<Rightarrow> skipped_result ''no_extractable_text'' revision
         | Inl (InvalidUtf8Error _) \<Rightarrow> failed_result ''invalid_utf8'' revision
         | Inl (ParserOutputInvalidError _) \<Rightarrow> failed_result ''parser_output_invalid'' revision
         | Inl (ExtractedTextLimitExceededError _) \<Rightarrow>
             failed_result ''extracted_text_limit_exceeded'' revision
         | Inl e \<Rightarrow> Inl e)"

subsection \<open>Lines\<close>

lemma concat_split_lines: "concat (split_lines s) = s"
  by (induction s rule: split_lines.induct) (auto split: list.splits)

definition line_ok :: "string \<Rightarrow> text_line \<Rightarrow> bool" where
  "line_ok txt l \<longleftrightarrow>
     ln_start l \<le> ln_end l \<and> ln_end l \<le> length txt \<and> 1 \<le> ln_number l \<and>
     ln_content l = text_slice txt (ln_start l) (ln_end l)"

definition line_before :: "text_line \<Rightarrow> text_line \<Rightarrow> bool" where
  "line_before k l \<longleftrightarrow> ln_number k < ln_number l \<and> ln_end k \<le> ln_start l"

lemma slice_append_prefix: "length pre \<le> a \<Longrightarrow> text_slice (pre @ s) a b = text_slice s (a - length pre) (b - length pre)"
  by (simp add: text_slice_def)

lemma lines_from_bounds:
  "l \<in> set (lines_from n off raws) \<Longrightarrow> n \<le> ln_number l \<and> off \<le> ln_start l"
proof (induction n off raws rule: lines_from.induct)
  case (2 n off raw raws)
  then consider "ln_number l = n \<and> ln_start l = off"
    | "l \<in> set (lines_from (n + 1) (off + length raw) raws)"
    by (auto simp: Let_def)
  then show ?case by cases (use "2.IH" [OF refl] in force)+
qed simp

lemma lines_from_ok:
  "txt = pre @ concat raws \<Longrightarrow> off = length pre \<Longrightarrow> 1 \<le> n \<Longrightarrow> l \<in> set (lines_from n off raws) \<Longrightarrow>
   line_ok txt l"
proof (induction n off raws arbitrary: pre rule: lines_from.induct)
  case (1 n off)
  then show ?case by simp
next
  case (2 n off raw raws)
  let ?c = "if raw \<noteq> [] \<and> last raw = newline then butlast raw else raw"
  have c: "length ?c \<le> length raw" "?c = take (length ?c) raw"
    by (auto simp: butlast_conv_take)
  from 2(5) consider "l = \<lparr>ln_number = n, ln_start = off, ln_end = off + length ?c, ln_content = ?c\<rparr>"
    | "l \<in> set (lines_from (n + 1) (off + length raw) raws)"
    by (auto simp: Let_def)
  then show ?case
  proof cases
    case 1
    then show ?thesis using 2(2,3,4) c by (simp add: line_ok_def text_slice_def)
  next
    case 2
    then show ?thesis using "2.IH" [OF refl, of "pre @ raw"] "2.prems" by simp
  qed
qed

lemma lines_from_sorted: "sorted_wrt line_before (lines_from n off raws)"
proof (induction n off raws rule: lines_from.induct)
  case (2 n off raw raws)
  let ?c = "if raw \<noteq> [] \<and> last raw = newline then butlast raw else raw"
  have "line_before \<lparr>ln_number = n, ln_start = off, ln_end = off + length ?c, ln_content = ?c\<rparr> l"
    if "l \<in> set (lines_from (n + 1) (off + length raw) raws)" for l
    using lines_from_bounds [OF that] by (auto simp: line_before_def)
  with "2.IH" [OF refl] show ?case by (simp only: lines_from.simps Let_def sorted_wrt.simps) blast
qed simp

lemma lines_of_ok: "l \<in> set (lines_of txt) \<Longrightarrow> line_ok txt l"
  unfolding lines_of_def
  by (rule lines_from_ok [of "txt" "[]"]) (simp_all add: concat_split_lines)

lemma lines_of_sorted: "sorted_wrt line_before (lines_of txt)"
  unfolding lines_of_def by (rule lines_from_sorted)

end
