(* ===== verification/Markdown_Props.thy ===== *)
theory Markdown_Props
  imports Markdown_Parser
begin

text \<open>
  What the text parser guarantees: it never fails an internal contract, every fragment
  is the exact slice of the text at its address, fragments are ordered and disjoint,
  every line with text is covered, and heading paths follow the nesting of levels.
\<close>

subsection \<open>Slices\<close>

lemma set_text_slice: "set (text_slice s a b) \<subseteq> set s"
  unfolding text_slice_def by (meson order_trans set_drop_subset set_take_subset)

lemma length_slice: "b \<le> length s \<Longrightarrow> length (text_slice s a b) = b - a"
  by (simp add: text_slice_def)

lemma slice_slice:
  "j \<le> b - a \<Longrightarrow> text_slice (text_slice s a b) i j = text_slice s (a + i) (a + j)"
  by (simp add: text_slice_def drop_take min_def add.commute)

lemma dropWhile_Nil_iff: "dropWhile P xs = [] \<longleftrightarrow> list_all P xs"
  by (simp add: dropWhile_eq_Nil_conv list_all_iff)

lemma strip_Nil_iff: "strip s = [] \<longleftrightarrow> list_all is_space s"
proof -
  have "strip s = [] \<longleftrightarrow> list_all is_space (dropWhile is_space s)"
    unfolding strip_def rev_is_Nil_conv dropWhile_Nil_iff by simp
  also have "\<dots> \<longleftrightarrow> list_all is_space s" by (induction s) auto
  finally show ?thesis .
qed

lemma slice_superset:
  "a \<le> a' \<Longrightarrow> b' \<le> b \<Longrightarrow> set (text_slice s a' b') \<subseteq> set (text_slice s a b)"
proof -
  assume le: "a \<le> a'" "b' \<le> b"
  have "text_slice s a' b' = take (b' - a') (drop (a' - a) (drop a s))" using le by (simp add: text_slice_def)
  moreover have "drop (a' - a) (take (b - a) (drop a s)) = take (b - a') (drop (a' - a) (drop a s))"
    using le by (simp add: drop_take)
  moreover have "set (take (b' - a') (drop (a' - a) (drop a s))) \<subseteq>
      set (take (b - a') (drop (a' - a) (drop a s)))"
    using le by (intro set_take_subset_set_take) simp
  ultimately show ?thesis
    unfolding text_slice_def by (metis order_trans set_drop_subset)
qed

lemma strip_slice_mono:
  "strip (text_slice s a' b') \<noteq> [] \<Longrightarrow> a \<le> a' \<Longrightarrow> b' \<le> b \<Longrightarrow> strip (text_slice s a b) \<noteq> []"
  using slice_superset [of a a' b' b s] by (auto simp: strip_Nil_iff list_all_iff)

subsection \<open>Headings\<close>

lemma length_dropWhile_rev_le: "length (rev (dropWhile P (rev s))) \<le> length s"
  using length_dropWhile_le [of P "rev s"] by simp

lemma closing_marks_le: "closing_marks s = Some k \<Longrightarrow> k \<le> length s"
proof -
  assume "closing_marks s = Some k"
  then have "k = length (rstrip_blank (rev (dropWhile (\<lambda>c. c = CHR ''#'') (rev s))))"
    by (simp add: closing_marks_def Let_def split: if_splits)
  then show "k \<le> length s"
    unfolding rstrip_blank_def using length_dropWhile_rev_le order_trans by metis
qed

lemma parse_atx_heading_ok:
  assumes "line_ok s l" and "parse_atx_heading l = Some h"
  shows "1 \<le> hd_level h \<and> hd_level h \<le> 6 \<and> ln_start l \<le> hd_start h \<and> hd_start h < hd_end h \<and>
    hd_end h \<le> ln_end l \<and> hd_text h = text_slice s (hd_start h) (hd_end h) \<and> strip (hd_text h) \<noteq> []"
proof -
  let ?c = "ln_content l"
  obtain marks bs where m: "atx_match ?c = Some (marks, bs)"
    using assms(2) by (auto simp: parse_atx_heading_def Let_def split: option.splits)
  define e1 where "e1 = length (rstrip_blank ?c)"
  define ce where "ce = (case closing_marks (text_slice ?c bs e1) of None \<Rightarrow> e1 | Some k \<Rightarrow> bs + k)"
  have h: "\<not> ce \<le> bs" "strip (text_slice ?c bs ce) \<noteq> []"
    "h = \<lparr>hd_level = marks, hd_text = text_slice ?c bs ce, hd_start = ln_start l + bs,
          hd_end = ln_start l + ce\<rparr>"
    using assms(2) by (simp_all add: parse_atx_heading_def Let_def m e1_def [symmetric] ce_def [symmetric]
        split: if_splits)
  have len: "length ?c = ln_end l - ln_start l" "ln_end l \<le> length s" "ln_start l \<le> ln_end l"
    "?c = text_slice s (ln_start l) (ln_end l)"
    using assms(1) by (simp_all add: line_ok_def length_slice)
  have e1: "e1 \<le> length ?c" unfolding e1_def rstrip_blank_def by (rule length_dropWhile_rev_le)
  have "ce \<le> length ?c"
  proof (cases "closing_marks (text_slice ?c bs e1)")
    case None
    then show ?thesis using e1 by (simp add: ce_def)
  next
    case (Some k)
    then have "k \<le> e1 - bs" using closing_marks_le [OF Some] e1 by (simp add: length_slice)
    with Some h(1) e1 show ?thesis by (auto simp: ce_def)
  qed
  moreover have "1 \<le> marks" "marks \<le> 6"
    using m by (simp_all add: atx_match_def Let_def split: if_splits)
  ultimately show ?thesis
    using h len by (simp add: slice_slice)
qed

subsection \<open>Fragments with exact addresses\<close>

definition markdown_of :: "parsed_fragment \<Rightarrow> markdown_address" where
  "markdown_of f = (case pf_address f of Markdown a \<Rightarrow> a)"

definition frag_exact :: "string \<Rightarrow> parsed_fragment \<Rightarrow> bool" where
  "frag_exact s f \<longleftrightarrow> pf_address f = Markdown (markdown_of f) \<and>
     pf_kind f \<noteq> PAGE_TEXT \<and> strip (pf_text f) \<noteq> [] \<and>
     (let a = markdown_of f in
        0 \<le> ma_char_start a \<and> ma_char_start a < ma_char_end a \<and> ma_char_end a \<le> int (length s) \<and>
        pf_text f = text_slice s (nat (ma_char_start a)) (nat (ma_char_end a)) \<and>
        1 \<le> ma_line_start a \<and> ma_line_start a \<le> ma_line_end a \<and>
        length (ma_heading_path a) \<le> 6 \<and> list_all (\<lambda>p. strip p \<noteq> []) (ma_heading_path a) \<and>
        (pf_kind f = HEADING \<longrightarrow> ma_heading_path a \<noteq> [] \<and> last (ma_heading_path a) = pf_text f))"

definition frag_before :: "parsed_fragment \<Rightarrow> parsed_fragment \<Rightarrow> bool" where
  "frag_before f g \<longleftrightarrow> ma_char_end (markdown_of f) \<le> ma_char_start (markdown_of g)"

definition frag_covers :: "parsed_fragment \<Rightarrow> text_line \<Rightarrow> bool" where
  "frag_covers f l \<longleftrightarrow>
     ma_line_start (markdown_of f) \<le> int (ln_number l) \<and>
     int (ln_number l) \<le> ma_line_end (markdown_of f)"

definition stack_ok :: "(nat \<times> string) list \<Rightarrow> bool" where
  "stack_ok stack \<longleftrightarrow> sorted_wrt (<) (map fst stack) \<and>
     (\<forall>e \<in> set stack. 1 \<le> fst e \<and> fst e \<le> 6 \<and> strip (snd e) \<noteq> [])"

lemma stack_ok_length: "stack_ok stack \<Longrightarrow> length stack \<le> 6"
proof -
  assume s: "stack_ok stack"
  then have "distinct (map fst stack)"
    by (simp add: stack_ok_def strict_sorted_iff)
  then have "length stack = card (set (map fst stack))"
    by (metis distinct_card length_map)
  also have "\<dots> \<le> card {1..6::nat}"
    using s by (intro card_mono) (auto simp: stack_ok_def)
  finally show ?thesis by simp
qed

lemma stack_ok_path: "stack_ok stack \<Longrightarrow> list_all (\<lambda>p. strip p \<noteq> []) (heading_path stack)"
  by (auto simp: stack_ok_def heading_path_def list_all_iff)

lemma pop_stack_prefix: "\<exists>post. stack = pop_stack n stack @ post"
proof -
  have "rev stack = takeWhile (\<lambda>e. n \<le> fst e) (rev stack) @ dropWhile (\<lambda>e. n \<le> fst e) (rev stack)"
    by simp
  then have "stack = rev (dropWhile (\<lambda>e. n \<le> fst e) (rev stack)) @
      rev (takeWhile (\<lambda>e. n \<le> fst e) (rev stack))"
    by (metis rev_append rev_rev_ident)
  then show ?thesis unfolding pop_stack_def by blast
qed

lemma pop_stack_lower:
  assumes "sorted_wrt (<) (map fst stack)" and "e \<in> set (pop_stack n stack)"
  shows "fst e < n"
proof (cases "dropWhile (\<lambda>e. n \<le> fst e) (rev stack)")
  case Nil
  with assms(2) show ?thesis by (simp add: pop_stack_def)
next
  case (Cons x xs)
  then have x: "fst x < n" using hd_dropWhile [of "\<lambda>e. n \<le> fst e" "rev stack"] by fastforce
  have p: "pop_stack n stack = rev xs @ [x]" using Cons by (simp add: pop_stack_def)
  obtain post where "stack = (rev xs @ [x]) @ post" using pop_stack_prefix [of stack n] p by auto
  with assms(1) have "\<forall>y \<in> set xs. fst y < fst x" by (simp add: sorted_wrt_append)
  with x assms(2) p show ?thesis by auto
qed

lemma stack_ok_push:
  assumes "stack_ok stack" and "1 \<le> n" and "n \<le> 6" and "strip t \<noteq> []"
  shows "stack_ok (pop_stack n stack @ [(n, t)])"
proof -
  obtain post where post: "stack = pop_stack n stack @ post" using pop_stack_prefix by blast
  have "sorted_wrt (<) (map fst (pop_stack n stack))"
    using assms(1) post by (metis map_append sorted_wrt_append stack_ok_def)
  moreover have "set (pop_stack n stack) \<subseteq> set stack" using post by (metis set_append sup_ge1)
  ultimately show ?thesis
    using assms pop_stack_lower [of stack _ n]
    by (auto simp: stack_ok_def sorted_wrt_append)
qed

subsection \<open>The loop invariant\<close>

definition parse_inv :: "string \<Rightarrow> parse_state \<Rightarrow> text_line list \<Rightarrow> bool" where
  "parse_inv s st rest \<longleftrightarrow>
     (\<forall>f \<in> set (ps_fragments st). frag_exact s f) \<and>
     sorted_wrt frag_before (ps_fragments st) \<and>
     (\<forall>f \<in> set (ps_fragments st). \<forall>l \<in> set (ps_paragraph st @ rest).
        ma_char_end (markdown_of f) \<le> int (ln_start l)) \<and>
     map pf_ordinal (ps_fragments st) = map int [0..<length (ps_fragments st)] \<and>
     sorted_wrt line_before (ps_paragraph st @ rest) \<and>
     (\<forall>l \<in> set (ps_paragraph st @ rest). line_ok s l) \<and>
     (ps_paragraph st \<noteq> [] \<longrightarrow> strip (ln_content (hd (ps_paragraph st))) \<noteq> []) \<and>
     stack_ok (ps_stack st)"

lemma parse_inv_fence [simp]: "parse_inv s (st\<lparr>ps_fence := x\<rparr>) rest = parse_inv s st rest"
  by (simp add: parse_inv_def)

definition extends :: "parse_state \<Rightarrow> parse_state \<Rightarrow> bool" where
  "extends st st' \<longleftrightarrow> set (ps_fragments st) \<subseteq> set (ps_fragments st')"

definition covered :: "parse_state \<Rightarrow> text_line \<Rightarrow> bool" where
  "covered st l \<longleftrightarrow> (\<exists>f \<in> set (ps_fragments st). frag_covers f l)"

lemma covered_extends: "extends st st' \<Longrightarrow> covered st l \<Longrightarrow> covered st' l"
  by (auto simp: extends_def covered_def)

lemma add_fragment_ok:
  assumes "char_of (0::nat) \<notin> set s" and "k \<noteq> PAGE_TEXT" and "t = text_slice s cs ce"
    and "cs < ce" and "ce \<le> length s" and "1 \<le> first" and "first \<le> final" and "strip t \<noteq> []"
    and "list_all (\<lambda>p. strip p \<noteq> []) path" and "length path \<le> 6"
    and "k = HEADING \<longrightarrow> path \<noteq> [] \<and> last path = t"
  obtains f where "add_fragment k t path first final cs ce st =
      Inr (st\<lparr>ps_fragments := ps_fragments st @ [f]\<rparr>)"
    and "frag_exact s f" and "pf_ordinal f = int (length (ps_fragments st))" and "pf_kind f = k"
    and "markdown_of f = \<lparr>ma_heading_path = path, ma_line_start = int first,
      ma_line_end = int final, ma_char_start = int cs, ma_char_end = int ce\<rparr>"
proof -
  let ?a = "\<lparr>ma_heading_path = path, ma_line_start = int first, ma_line_end = int final,
      ma_char_start = int cs, ma_char_end = int ce\<rparr>"
  let ?f = "\<lparr>pf_ordinal = int (length (ps_fragments st)), pf_kind = k, pf_text = t,
      pf_address = Markdown ?a\<rparr>"
  have a: "make_markdown_address path (int first) (int final) (int cs) (int ce) = Inr ?a"
    using assms by (simp add: make_markdown_address_Inr)
  have "char_of (0::nat) \<notin> set t" using assms(1,3) set_text_slice by blast
  then have f: "make_parsed_fragment (int (length (ps_fragments st))) k t (Markdown ?a) = Inr ?f"
    using assms by (simp add: make_parsed_fragment_Markdown length_slice)
  have "add_fragment k t path first final cs ce st = Inr (st\<lparr>ps_fragments := ps_fragments st @ [?f]\<rparr>)"
    by (simp add: add_fragment_def a f)
  moreover have "frag_exact s ?f"
    using assms by (simp add: frag_exact_def markdown_of_def)
  ultimately show thesis by (rule that) (simp_all add: markdown_of_def)
qed

lemma parse_inv_add:
  assumes "parse_inv s st rest" and "frag_exact s f"
    and "pf_ordinal f = int (length (ps_fragments st))"
    and "\<forall>g \<in> set (ps_fragments st). frag_before g f"
    and "\<forall>l \<in> set rest'. ma_char_end (markdown_of f) \<le> int (ln_start l)"
    and "set rest' \<subseteq> set (ps_paragraph st @ rest)" and "sorted_wrt line_before rest'"
    and "stack_ok stack"
  shows "parse_inv s (st\<lparr>ps_stack := stack, ps_fragments := ps_fragments st @ [f], ps_paragraph := []\<rparr>) rest'"
  using assms by (auto simp: parse_inv_def sorted_wrt_append)

lemma flush_paragraph_inv:
  assumes nul: "char_of (0::nat) \<notin> set s" and inv: "parse_inv s st rest"
  shows "\<exists>st'. flush_paragraph s st = Inr st' \<and> parse_inv s st' rest \<and> ps_paragraph st' = [] \<and>
    ps_stack st' = ps_stack st \<and> ps_fence st' = ps_fence st \<and> extends st st' \<and>
    (\<forall>l \<in> set (ps_paragraph st). covered st' l)"
proof (cases "ps_paragraph st")
  case Nil
  then show ?thesis using inv by (simp add: flush_paragraph_def extends_def)
next
  case (Cons l ls)
  define final where "final = last (l # ls)"
  let ?t = "text_slice s (ln_start l) (ln_end final)"
  have mem: "final \<in> set (l # ls)" by (simp only: final_def last_in_set list.distinct simp_thms)
  have ok: "line_ok s l" "line_ok s final" "strip (ln_content l) \<noteq> []"
    and sorted: "sorted_wrt line_before ((l # ls) @ rest)"
    using inv Cons mem by (auto simp: parse_inv_def)
  have before: "ln_number k \<le> ln_number final \<and> ln_end k \<le> ln_end final \<and>
      ln_number l \<le> ln_number k \<and> ln_end l \<le> ln_end k" if "k \<in> set (l # ls)" for k
  proof -
    have okk: "line_ok s j" if "j \<in> set (l # ls)" for j
      using inv Cons that by (auto simp: parse_inv_def)
    have s: "sorted_wrt line_before (l # ls)" using sorted by (simp add: sorted_wrt_append)
    have "k = l \<or> line_before l k" using s that by auto
    moreover have "k = final \<or> line_before k final"
    proof -
      have "l # ls = butlast (l # ls) @ [final]" unfolding final_def by simp
      with s have "\<forall>j \<in> set (butlast (l # ls)). line_before j final"
        by (metis list.set_intros(1) sorted_wrt_append)
      moreover have "k = final \<or> k \<in> set (butlast (l # ls))"
        using that \<open>l # ls = butlast (l # ls) @ [final]\<close> by (metis Un_iff empty_iff insert_iff list.set set_append)
      ultimately show ?thesis by blast
    qed
    ultimately show ?thesis
      using okk [OF that] okk [OF mem] by (auto simp: line_before_def line_ok_def)
  qed
  have nonblank: "strip ?t \<noteq> []"
    by (rule strip_slice_mono [where a' = "ln_start l" and b' = "ln_end l"])
      (use ok before [of l] in \<open>simp_all add: line_ok_def\<close>)
  have "ln_start l < ln_end final"
  proof (rule ccontr)
    assume "\<not> ln_start l < ln_end final"
    then have "?t = []" by (simp add: text_slice_def)
    with nonblank show False by (simp add: strip_Nil_iff)
  qed
  then have lt: "ln_start l < ln_end final" .
  have stack: "stack_ok (ps_stack st)" using inv by (simp add: parse_inv_def)
  have bounds: "ln_end final \<le> length s" "1 \<le> ln_number l" "ln_number l \<le> ln_number final"
    using ok(1,2) before [of l] by (simp_all add: line_ok_def)
  have path: "length (heading_path (ps_stack st)) \<le> 6"
    using stack_ok_length [OF stack] by (simp add: heading_path_def)
  have kinds: "PARAGRAPH \<noteq> PAGE_TEXT"
    "PARAGRAPH = HEADING \<longrightarrow> heading_path (ps_stack st) \<noteq> [] \<and> last (heading_path (ps_stack st)) = ?t"
    by simp_all
  obtain f where f: "add_fragment PARAGRAPH ?t (heading_path (ps_stack st)) (ln_number l)
      (ln_number final) (ln_start l) (ln_end final) st =
        Inr (st\<lparr>ps_fragments := ps_fragments st @ [f]\<rparr>)"
    "frag_exact s f" "pf_ordinal f = int (length (ps_fragments st))"
    "markdown_of f = \<lparr>ma_heading_path = heading_path (ps_stack st), ma_line_start = int (ln_number l),
       ma_line_end = int (ln_number final), ma_char_start = int (ln_start l),
       ma_char_end = int (ln_end final)\<rparr>"
    using add_fragment_ok [OF nul kinds(1) refl lt bounds nonblank stack_ok_path [OF stack] path kinds(2)]
    by blast
  let ?st' = "st\<lparr>ps_fragments := ps_fragments st @ [f], ps_paragraph := []\<rparr>"
  have flush: "flush_paragraph s st = Inr ?st'"
    using nonblank f(1) by (simp add: flush_paragraph_def Cons Let_def final_def [symmetric] del: last.simps)
  have "\<forall>g \<in> set (ps_fragments st). frag_before g f"
    using inv Cons f(4) by (auto simp: parse_inv_def frag_before_def)
  moreover have "\<forall>k \<in> set rest. ma_char_end (markdown_of f) \<le> int (ln_start k)"
  proof
    fix k assume "k \<in> set rest"
    then have "line_before final k" using sorted mem unfolding sorted_wrt_append by blast
    with f(4) show "ma_char_end (markdown_of f) \<le> int (ln_start k)" by (simp add: line_before_def)
  qed
  ultimately have "parse_inv s (st\<lparr>ps_stack := ps_stack st, ps_fragments := ps_fragments st @ [f],
      ps_paragraph := []\<rparr>) rest"
    using parse_inv_add [OF inv f(2,3), of rest "ps_stack st"] sorted stack
    by (simp add: sorted_wrt_append)
  moreover have "\<forall>k \<in> set (ps_paragraph st). covered ?st' k"
    using before f(4) Cons by (auto simp: covered_def frag_covers_def)
  ultimately show ?thesis using flush by (auto simp: extends_def)
qed

lemma parse_line_inv:
  assumes nul: "char_of (0::nat) \<notin> set s" and inv: "parse_inv s st (l # rest)"
    and fence: "ps_fence st \<noteq> None \<Longrightarrow> ps_paragraph st \<noteq> []"
  shows "\<exists>st'. parse_line s st l = Inr st' \<and> parse_inv s st' rest \<and> extends st st' \<and>
    (ps_fence st' \<noteq> None \<longrightarrow> ps_paragraph st' \<noteq> []) \<and>
    (\<forall>k \<in> set (ps_paragraph st @ [l]). strip (ln_content k) \<noteq> [] \<longrightarrow>
       k \<in> set (ps_paragraph st') \<or> covered st' k)"
proof -
  have keep: "parse_inv s (st\<lparr>ps_paragraph := ps_paragraph st @ [l]\<rparr>) rest"
    if "ps_paragraph st = [] \<longrightarrow> strip (ln_content l) \<noteq> []"
    using inv that by (auto simp: parse_inv_def hd_append)
  show ?thesis
  proof (cases "ps_fence st")
    case (Some fen)
    then have "ps_paragraph st \<noteq> []" using fence by simp
    then show ?thesis
      using keep Some
      by (auto simp: parse_line_def Let_def extends_def)
  next
    case None
    show ?thesis
    proof (cases "parse_atx_heading l")
      case heading: (Some h)
      have lok: "line_ok s l" using inv by (simp add: parse_inv_def)
      note h = parse_atx_heading_ok [OF lok heading]
      obtain st1 where st1: "flush_paragraph s st = Inr st1" "parse_inv s st1 (l # rest)"
        "ps_paragraph st1 = []" "ps_stack st1 = ps_stack st" "ps_fence st1 = ps_fence st"
        "extends st st1" "\<forall>k \<in> set (ps_paragraph st). covered st1 k"
        using flush_paragraph_inv [OF nul inv] by blast
      define stack where "stack = pop_stack (hd_level h) (ps_stack st1) @ [(hd_level h, hd_text h)]"
      have stack: "stack_ok stack"
      proof -
        have "stack_ok (ps_stack st1)" using st1(2) by (simp add: parse_inv_def)
        then show ?thesis unfolding stack_def using h by (intro stack_ok_push) blast+
      qed
      have path: "heading_path stack \<noteq> []" "last (heading_path stack) = hd_text h"
        "length (heading_path stack) \<le> 6"
        using stack_ok_length [OF stack] by (simp_all add: heading_path_def stack_def)
      have bounds: "hd_start h < hd_end h" "hd_end h \<le> length s" "1 \<le> ln_number l"
        using h lok by (simp_all add: line_ok_def)
      obtain f where f: "add_fragment HEADING (hd_text h) (heading_path stack) (ln_number l)
          (ln_number l) (hd_start h) (hd_end h) (st1\<lparr>ps_stack := stack\<rparr>) =
            Inr (st1\<lparr>ps_stack := stack, ps_fragments := ps_fragments st1 @ [f]\<rparr>)"
        "frag_exact s f" "pf_ordinal f = int (length (ps_fragments st1))"
        "markdown_of f = \<lparr>ma_heading_path = heading_path stack, ma_line_start = int (ln_number l),
           ma_line_end = int (ln_number l), ma_char_start = int (hd_start h),
           ma_char_end = int (hd_end h)\<rparr>"
      proof -
        have k: "HEADING \<noteq> PAGE_TEXT" and t: "hd_text h = text_slice s (hd_start h) (hd_end h)"
          and nb: "strip (hd_text h) \<noteq> []" and p: "HEADING = HEADING \<longrightarrow>
            heading_path stack \<noteq> [] \<and> last (heading_path stack) = hd_text h"
          using h path by blast+
        show thesis
          by (rule add_fragment_ok [OF nul k t bounds order_refl nb stack_ok_path [OF stack] path(3) p,
                where st = "st1\<lparr>ps_stack := stack\<rparr>"]) (rule that, simp_all)
      qed
      let ?st' = "st1\<lparr>ps_stack := stack, ps_fragments := ps_fragments st1 @ [f]\<rparr>"
      have step: "parse_line s st l = Inr ?st'"
        using f(1) st1(1) by (simp add: parse_line_def None heading Let_def stack_def)
      have "\<forall>g \<in> set (ps_fragments st1). frag_before g f"
      proof
        fix g assume "g \<in> set (ps_fragments st1)"
        then have "ma_char_end (markdown_of g) \<le> int (ln_start l)"
          using st1(2) by (auto simp: parse_inv_def)
        with f(4) h show "frag_before g f" by (simp add: frag_before_def)
      qed
      moreover have "\<forall>k \<in> set rest. ma_char_end (markdown_of f) \<le> int (ln_start k)"
      proof
        fix k assume "k \<in> set rest"
        then have "line_before l k" using st1(2) by (simp add: parse_inv_def sorted_wrt_append)
        with f(4) h show "ma_char_end (markdown_of f) \<le> int (ln_start k)"
          by (simp add: line_before_def)
      qed
      moreover have "sorted_wrt line_before rest"
        using st1(2) by (simp add: parse_inv_def sorted_wrt_append)
      ultimately have "parse_inv s (st1\<lparr>ps_stack := stack, ps_fragments := ps_fragments st1 @ [f],
          ps_paragraph := []\<rparr>) rest"
        by (intro parse_inv_add [OF st1(2) f(2,3)]) (use stack in auto)
      then have "parse_inv s ?st' rest"
        using st1(3) by (simp add: parse_inv_def)
      moreover have "covered ?st' l"
        using f(4) by (auto simp: covered_def frag_covers_def)
      moreover have "extends st1 ?st'" by (auto simp: extends_def)
      ultimately show ?thesis
        using step st1 None covered_extends
        by (intro exI [of _ ?st']) (auto simp: extends_def)
    next
      case no_heading: None
      show ?thesis
      proof (cases "strip (ln_content l) = []")
        case True
        have drop: "parse_inv s st' rest" if "parse_inv s st' (l # rest)" "ps_paragraph st' = []" for st'
          using that by (auto simp: parse_inv_def)
        show ?thesis
          using flush_paragraph_inv [OF nul inv] True drop None
          by (auto simp: parse_line_def no_heading)
      next
        case False
        let ?st' = "st\<lparr>ps_paragraph := ps_paragraph st @ [l], ps_fence := opening_fence (ln_content l)\<rparr>"
        have "parse_line s st l = Inr ?st'"
          using False None by (simp add: parse_line_def no_heading Let_def split: option.split)
        then show ?thesis
          using keep False
          by (auto simp: extends_def)
      qed
    qed
  qed
qed

lemma parse_lines_inv:
  assumes nul: "char_of (0::nat) \<notin> set s"
  shows "parse_inv s st ls \<Longrightarrow> (ps_fence st \<noteq> None \<longrightarrow> ps_paragraph st \<noteq> []) \<Longrightarrow>
    \<exists>st'. parse_lines s st ls = Inr st' \<and> parse_inv s st' [] \<and> extends st st' \<and>
      (\<forall>k \<in> set (ps_paragraph st @ ls). strip (ln_content k) \<noteq> [] \<longrightarrow>
         k \<in> set (ps_paragraph st') \<or> covered st' k)"
proof (induction ls arbitrary: st)
  case Nil
  then show ?case by (simp add: extends_def)
next
  case (Cons l ls)
  from Cons.prems(2) have fence: "ps_fence st \<noteq> None \<Longrightarrow> ps_paragraph st \<noteq> []" by blast
  obtain st1 where st1: "parse_line s st l = Inr st1" "parse_inv s st1 ls" "extends st st1"
    "ps_fence st1 \<noteq> None \<longrightarrow> ps_paragraph st1 \<noteq> []"
    "\<forall>k \<in> set (ps_paragraph st @ [l]). strip (ln_content k) \<noteq> [] \<longrightarrow>
       k \<in> set (ps_paragraph st1) \<or> covered st1 k"
    using parse_line_inv [OF nul Cons.prems(1) fence] by blast
  obtain st2 where st2: "parse_lines s st1 ls = Inr st2" "parse_inv s st2 []" "extends st1 st2"
    "\<forall>k \<in> set (ps_paragraph st1 @ ls). strip (ln_content k) \<noteq> [] \<longrightarrow>
       k \<in> set (ps_paragraph st2) \<or> covered st2 k"
    using Cons.IH [OF st1(2,4)] by blast
  have "extends st st2" using st1(3) st2(3) by (auto simp: extends_def)
  moreover have "\<forall>k \<in> set (ps_paragraph st @ l # ls). strip (ln_content k) \<noteq> [] \<longrightarrow>
      k \<in> set (ps_paragraph st2) \<or> covered st2 k"
    using st1(5) st2(4) covered_extends [OF st2(3)] by auto
  ultimately show ?case using st1(1) st2(1,2) by auto
qed

definition fragments_exact :: "string \<Rightarrow> parsed_fragment list \<Rightarrow> bool" where
  "fragments_exact s fs \<longleftrightarrow> list_all (frag_exact s) fs \<and> sorted_wrt frag_before fs \<and>
     map pf_ordinal fs = map int [0..<length fs]"

lemma parse_fragments_spec:
  assumes "char_of (0::nat) \<notin> set s"
  obtains fs where "parse_fragments s = Inr fs" and "fragments_exact s fs"
    and "\<forall>l \<in> set (lines_of s). strip (ln_content l) \<noteq> [] \<longrightarrow> (\<exists>f \<in> set fs. frag_covers f l)"
proof -
  let ?st = "\<lparr>ps_fragments = [], ps_stack = [], ps_paragraph = [], ps_fence = None\<rparr>"
  have "parse_inv s ?st (lines_of s)"
    using lines_of_ok lines_of_sorted by (simp add: parse_inv_def stack_ok_def)
  then obtain st where st: "parse_lines s ?st (lines_of s) = Inr st" "parse_inv s st []"
    "\<forall>k \<in> set (lines_of s). strip (ln_content k) \<noteq> [] \<longrightarrow> k \<in> set (ps_paragraph st) \<or> covered st k"
    using parse_lines_inv [OF assms, of ?st "lines_of s"] by auto
  obtain st' where st': "flush_paragraph s st = Inr st'" "parse_inv s st' []" "extends st st'"
    "\<forall>l \<in> set (ps_paragraph st). covered st' l"
    using flush_paragraph_inv [OF assms st(2)] by blast
  show thesis
  proof (rule that)
    show "parse_fragments s = Inr (ps_fragments st')"
      by (simp add: parse_fragments_def st(1) st'(1))
    show "fragments_exact s (ps_fragments st')"
      using st'(2) by (auto simp: fragments_exact_def parse_inv_def list_all_iff)
    show "\<forall>l \<in> set (lines_of s). strip (ln_content l) \<noteq> [] \<longrightarrow>
        (\<exists>f \<in> set (ps_fragments st'). frag_covers f l)"
    proof (intro ballI impI)
      fix l assume "l \<in> set (lines_of s)" and "strip (ln_content l) \<noteq> []"
      then have "covered st' l" using st(3) st'(4) covered_extends [OF st'(3)] by blast
      then show "\<exists>f \<in> set (ps_fragments st'). frag_covers f l" by (simp add: covered_def)
    qed
  qed
qed

lemma lines_from_chars:
  "c \<in> set (concat raws) \<Longrightarrow> \<not> is_space c \<Longrightarrow>
     \<exists>l \<in> set (lines_from n off raws). c \<in> set (ln_content l)"
proof (induction n off raws rule: lines_from.induct)
  case (1 n off)
  then show ?case by simp
next
  case (2 n off raw raws)
  let ?c = "if raw \<noteq> [] \<and> last raw = newline then butlast raw else raw"
  have "is_space newline" by (simp add: is_space_def newline_def)
  have "c \<in> set ?c" if "c \<in> set raw"
  proof (cases "raw \<noteq> [] \<and> last raw = newline")
    case True
    then have "raw = butlast raw @ [newline]" by (metis append_butlast_last_id)
    then have "c \<in> set (butlast raw) \<or> c = newline" using that by (metis Un_iff empty_iff insert_iff list.set set_append)
    with \<open>is_space newline\<close> 2(3) True show ?thesis by auto
  qed (use that in auto)
  moreover have "c \<in> set raw \<or> c \<in> set (concat raws)" using 2(2) by auto
  moreover have "lines_from n off (raw # raws) =
      \<lparr>ln_number = n, ln_start = off, ln_end = off + length ?c, ln_content = ?c\<rparr>
      # lines_from (n + 1) (off + length raw) raws"
    by (simp only: lines_from.simps Let_def)
  ultimately show ?case using "2.IH" [OF refl _ 2(3)] by (metis list.set_intros text_line.select_convs(4))
qed

lemma blank_text_iff:
  "strip s = [] \<longleftrightarrow> (\<forall>l \<in> set (lines_of s). strip (ln_content l) = [])"
proof
  assume "strip s = []"
  then have "list_all is_space s" by (simp add: strip_Nil_iff)
  then show "\<forall>l \<in> set (lines_of s). strip (ln_content l) = []"
    using lines_of_ok [of _ s] set_text_slice [of s]
    by (auto simp: strip_Nil_iff list_all_iff line_ok_def) blast
next
  assume a: "\<forall>l \<in> set (lines_of s). strip (ln_content l) = []"
  show "strip s = []"
  proof (rule ccontr)
    assume "strip s \<noteq> []"
    then obtain c where "c \<in> set (concat (split_lines s))" "\<not> is_space c"
      by (auto simp: strip_Nil_iff list_all_iff concat_split_lines)
    from lines_from_chars [OF this, of 1 0] obtain l where
      "l \<in> set (lines_of s)" "c \<in> set (ln_content l)" unfolding lines_of_def by blast
    with a \<open>\<not> is_space c\<close> show False by (auto simp: strip_Nil_iff list_all_iff)
  qed
qed

lemma parse_fragments_Nil_iff:
  assumes "char_of (0::nat) \<notin> set s" and "parse_fragments s = Inr fs"
  shows "fs = [] \<longleftrightarrow> strip s = []"
proof -
  obtain gs where g: "parse_fragments s = Inr gs" "fragments_exact s gs"
    "\<forall>l \<in> set (lines_of s). strip (ln_content l) \<noteq> [] \<longrightarrow> (\<exists>f \<in> set gs. frag_covers f l)"
    using parse_fragments_spec [OF assms(1)] .
  with assms(2) have fs: "fs = gs" by simp
  show ?thesis
  proof
    assume "fs = []"
    with g(3) fs show "strip s = []" by (auto simp: blank_text_iff [of s])
  next
    assume "strip s = []"
    then have "list_all is_space s" by (simp add: strip_Nil_iff)
    then have "strip (text_slice s a b) = []" for a b
      using set_text_slice [of s a b] by (auto simp: strip_Nil_iff list_all_iff)
    with g(2) fs show "fs = []" by (cases fs) (auto simp: fragments_exact_def frag_exact_def Let_def)
  qed
qed

subsection \<open>Properties\<close>

definition parsed_text :: "string \<Rightarrow> string" where
  "parsed_text raw = nfc (normalize_newlines raw)"

lemma text_revision_nonblank: "strip (text_revision m) \<noteq> []"
  by (cases m) (simp_all add: text_revision_def strip_def is_space_def)

lemma outcome_results:
  "code = ''no_extractable_text'' \<Longrightarrow>
     \<exists>r. skipped_result code (text_revision m) = Inr r \<and> pr_status r = SKIPPED \<and>
       pr_failure_code r = Some code \<and> pr_fragments r = []"
  "code \<in> {''invalid_utf8'', ''parser_output_invalid'', ''extracted_text_limit_exceeded''} \<Longrightarrow>
     \<exists>r. failed_result code (text_revision m) = Inr r \<and> pr_status r = FAILED \<and>
       pr_failure_code r = Some code \<and> pr_fragments r = []"
  using text_revision_nonblank [of m]
  by (auto simp: skipped_result_def failed_result_def make_parse_result_def Let_def
      index_parser_profile_def strip_Nil_iff is_space_def failure_code_pattern_def
      matches_head_rest_def lower_az_def digits09_def)

lemma parse_source_cases:
  fixes raw :: string
  defines "s \<equiv> parsed_text raw"
  shows "if char_of (0::nat) \<in> set s
    then parse_source_text m (Some raw) limits = failed_result ''parser_output_invalid'' (text_revision m)
    else if int (length s) > max_extracted_codepoints limits
    then parse_source_text m (Some raw) limits =
      failed_result ''extracted_text_limit_exceeded'' (text_revision m)
    else if strip s = []
    then parse_source_text m (Some raw) limits = skipped_result ''no_extractable_text'' (text_revision m)
    else \<exists>fs r. parse_fragments s = Inr fs \<and> parse_source_text m (Some raw) limits = Inr r \<and>
      pr_status r = PROCESSED \<and> pr_fragments r = fs \<and> pr_failure_code r = None \<and>
      pr_normalized_codepoints r = int (length s)"
proof (cases "char_of (0::nat) \<in> set s \<or> int (length s) > max_extracted_codepoints limits")
  case True
  then show ?thesis by (auto simp: parse_source_text_def parse_text_def s_def parsed_text_def Let_def)
next
  case False
  then have nul: "char_of (0::nat) \<notin> set s" and len: "int (length s) \<le> max_extracted_codepoints limits"
    by auto
  obtain fs where fs: "parse_fragments s = Inr fs" "fragments_exact s fs"
    using parse_fragments_spec [OF nul] by blast
  have parse: "parse_text (Some raw) limits (text_revision m) =
      (if fs = [] then Inl (NoExtractableTextError ''source contains no extractable text'')
       else processed_result fs (text_revision m) (int (length s)))"
    using nul len fs(1) by (simp add: parse_text_def Let_def s_def parsed_text_def)
  show ?thesis
  proof (cases "strip s = []")
    case True
    then show ?thesis
      using nul len parse parse_fragments_Nil_iff [OF nul fs(1)]
      by (simp add: parse_source_text_def Let_def)
  next
    case False
    then have ne: "fs \<noteq> []" using parse_fragments_Nil_iff [OF nul fs(1)] by simp
    then obtain r where r: "processed_result fs (text_revision m) (int (length s)) = Inr r"
      "pr_status r = PROCESSED" "pr_fragments r = fs" "pr_failure_code r = None"
      "pr_normalized_codepoints r = int (length s)"
      using fs(2) text_revision_nonblank [of m]
      by (auto simp: processed_result_Inr fragments_exact_def)
    then have "parse_source_text m (Some raw) limits = Inr r"
      using parse ne by (simp add: parse_source_text_def Let_def)
    with r fs nul len False show ?thesis by simp
  qed
qed

text \<open>
  C39. The text parser is total and its outcome is determined by the text: no input makes
  an internal contract fail.  Undecodable bytes, NUL and text over the limit give a failed
  result with the code of that failure, text of white space only gives a skipped result,
  and every other text gives a processed result.
\<close>

theorem parse_source_total:
  "\<exists>r. parse_source_text m decoded limits = Inr r \<and>
    (case decoded of
       None \<Rightarrow> pr_status r = FAILED \<and> pr_failure_code r = Some ''invalid_utf8''
     | Some raw \<Rightarrow>
         if char_of (0::nat) \<in> set (parsed_text raw)
         then pr_status r = FAILED \<and> pr_failure_code r = Some ''parser_output_invalid''
         else if int (length (parsed_text raw)) > max_extracted_codepoints limits
         then pr_status r = FAILED \<and> pr_failure_code r = Some ''extracted_text_limit_exceeded''
         else if strip (parsed_text raw) = []
         then pr_status r = SKIPPED \<and> pr_failure_code r = Some ''no_extractable_text''
         else pr_status r = PROCESSED \<and> pr_failure_code r = None)"
proof (cases decoded)
  case None
  then show ?thesis
    using outcome_results(2) [of "''invalid_utf8''" m] by (auto simp: parse_source_text_def parse_text_def)
next
  case (Some raw)
  with parse_source_cases [of raw m limits] outcome_results(1) [OF refl, of m]
    outcome_results(2) [of "''parser_output_invalid''" m]
    outcome_results(2) [of "''extracted_text_limit_exceeded''" m]
  show ?thesis by (auto split: if_splits)
qed

text \<open>
  C26. Addresses are exact: every fragment of a processed text is the slice of the
  normalized text between its character offsets, which lie in the text; it is not blank
  and free of NUL; its line range is ordered; its heading path has at most six nonblank
  entries, and a heading ends its own path.  The fragments are numbered from zero, in
  text order, and never overlap.
\<close>

theorem parsed_fragments_exact:
  assumes "parse_source_text m (Some raw) limits = Inr r" and "pr_status r = PROCESSED"
  shows "(\<forall>f \<in> set (pr_fragments r). \<exists>a. pf_address f = Markdown a \<and>
      0 \<le> ma_char_start a \<and> ma_char_start a < ma_char_end a \<and>
      ma_char_end a \<le> int (length (parsed_text raw)) \<and>
      pf_text f = text_slice (parsed_text raw) (nat (ma_char_start a)) (nat (ma_char_end a)) \<and>
      strip (pf_text f) \<noteq> [] \<and> 1 \<le> ma_line_start a \<and> ma_line_start a \<le> ma_line_end a \<and>
      length (ma_heading_path a) \<le> 6 \<and> list_all (\<lambda>p. strip p \<noteq> []) (ma_heading_path a) \<and>
      (pf_kind f = HEADING \<longrightarrow> ma_heading_path a \<noteq> [] \<and> last (ma_heading_path a) = pf_text f)) \<and>
    map pf_ordinal (pr_fragments r) = map int [0..<length (pr_fragments r)] \<and>
    sorted_wrt (\<lambda>f g. address_char_end (pf_address f) \<le> address_char_start (pf_address g)) (pr_fragments r)"
proof -
  have nul: "char_of (0::nat) \<notin> set (parsed_text raw)" and f: "parse_fragments (parsed_text raw) = Inr (pr_fragments r)"
    using assms parse_source_cases [of raw m limits] outcome_results(1) [OF refl, of m]
      outcome_results(2) [of "''parser_output_invalid''" m]
      outcome_results(2) [of "''extracted_text_limit_exceeded''" m]
    by (auto split: if_splits)
  obtain fs where fs: "parse_fragments (parsed_text raw) = Inr fs" "fragments_exact (parsed_text raw) fs"
    using parse_fragments_spec [OF nul] by blast
  then have e: "\<forall>f \<in> set fs. frag_exact (parsed_text raw) f"
    and s: "sorted_wrt frag_before fs" "map pf_ordinal fs = map int [0..<length fs]"
    by (simp_all add: fragments_exact_def list_all_iff)
  have "sorted_wrt (\<lambda>f g. address_char_end (pf_address f) \<le> address_char_start (pf_address g)) fs"
  proof (rule sorted_wrt_mono_rel [OF _ s(1)])
    fix f g assume "f \<in> set fs" "g \<in> set fs" "frag_before f g"
    then show "address_char_end (pf_address f) \<le> address_char_start (pf_address g)"
      using e by (metis address_char_end.simps(1) address_char_start.simps(1) frag_before_def frag_exact_def)
  qed
  moreover have "fs = pr_fragments r" using f fs(1) by simp
  ultimately show ?thesis
    using e s(2) by (auto simp: frag_exact_def Let_def)
qed

text \<open>
  C34. Nothing is lost: every line of a processed text that is not blank lies in the line
  range of some fragment.
\<close>

theorem parsed_lines_covered:
  assumes "parse_source_text m (Some raw) limits = Inr r" and "pr_status r = PROCESSED"
    and "l \<in> set (lines_of (parsed_text raw))" and "strip (ln_content l) \<noteq> []"
  shows "\<exists>f \<in> set (pr_fragments r). \<exists>a. pf_address f = Markdown a \<and>
    ma_line_start a \<le> int (ln_number l) \<and> int (ln_number l) \<le> ma_line_end a"
proof -
  have nul: "char_of (0::nat) \<notin> set (parsed_text raw)" and f: "parse_fragments (parsed_text raw) = Inr (pr_fragments r)"
    using assms(1,2) parse_source_cases [of raw m limits] outcome_results(1) [OF refl, of m]
      outcome_results(2) [of "''parser_output_invalid''" m]
      outcome_results(2) [of "''extracted_text_limit_exceeded''" m]
    by (auto split: if_splits)
  obtain fs where fs: "parse_fragments (parsed_text raw) = Inr fs" "fragments_exact (parsed_text raw) fs"
    "\<forall>l \<in> set (lines_of (parsed_text raw)). strip (ln_content l) \<noteq> [] \<longrightarrow> (\<exists>f \<in> set fs. frag_covers f l)"
    using parse_fragments_spec [OF nul] by blast
  with assms(3,4) obtain g where "g \<in> set fs" "frag_covers g l" "frag_exact (parsed_text raw) g"
    by (auto simp: fragments_exact_def list_all_iff)
  moreover have "fs = pr_fragments r" using f fs(1) by simp
  ultimately show ?thesis by (auto simp: frag_covers_def frag_exact_def)
qed

definition sample_limits :: parser_limits where
  "sample_limits = \<lparr>max_file_bytes = 1000, max_pdf_pages = 1, max_extracted_codepoints = 1000,
     timeout_seconds = 1, max_rss_mib = 1\<rparr>"

definition sample_text :: string where
  "sample_text = ''# Top ##'' @ [newline] @ ''one'' @ [newline] @ ''two'' @ [newline, newline] @ ''  ## Sub''"

lemma sample_parse:
  "\<exists>r. parse_source_text MARKDOWN (Some sample_text) sample_limits = Inr r \<and>
     pr_status r = PROCESSED \<and>
     map pf_text (pr_fragments r) = [''Top'', ''one'' @ [newline] @ ''two'', ''Sub'']"
proof -
  have "case parse_source_text MARKDOWN (Some sample_text) sample_limits of
      Inl e \<Rightarrow> False
    | Inr r \<Rightarrow> pr_status r = PROCESSED \<and>
        map pf_text (pr_fragments r) = [''Top'', ''one'' @ [newline] @ ''two'', ''Sub'']"
    by code_simp
  then show ?thesis by (auto split: sum.splits)
qed

theorem parsed_fragments_exact_witness:
  "\<exists>r. parse_source_text MARKDOWN (Some sample_text) sample_limits = Inr r \<and>
     map pf_text (pr_fragments r) = [''Top'', ''one'' @ [newline] @ ''two'', ''Sub''] \<and>
     map pf_ordinal (pr_fragments r) = map int [0..<3] \<and>
     (\<forall>f \<in> set (pr_fragments r). \<exists>a. pf_address f = Markdown a \<and>
        pf_text f = text_slice (parsed_text sample_text) (nat (ma_char_start a)) (nat (ma_char_end a)))"
proof -
  obtain r where r: "parse_source_text MARKDOWN (Some sample_text) sample_limits = Inr r"
    "pr_status r = PROCESSED" "map pf_text (pr_fragments r) = [''Top'', ''one'' @ [newline] @ ''two'', ''Sub'']"
    using sample_parse by (elim exE conjE)
  from arg_cong [OF r(3), of length] have "length (pr_fragments r) = 3" by simp
  moreover note e = parsed_fragments_exact [OF r(1,2)]
  have "\<forall>f \<in> set (pr_fragments r). \<exists>a. pf_address f = Markdown a \<and>
      pf_text f = text_slice (parsed_text sample_text) (nat (ma_char_start a)) (nat (ma_char_end a))"
    using e by blast
  moreover have "map pf_ordinal (pr_fragments r) = map int [0..<length (pr_fragments r)]"
    using e by blast
  ultimately show ?thesis using r by (intro exI [of _ r]) simp
qed

theorem parsed_lines_covered_witness:
  "\<exists>r. parse_source_text MARKDOWN (Some sample_text) sample_limits = Inr r \<and>
     (\<exists>f \<in> set (pr_fragments r). \<exists>a. pf_address f = Markdown a \<and>
        ma_line_start a \<le> 3 \<and> 3 \<le> ma_line_end a)"
proof -
  obtain r where r: "parse_source_text MARKDOWN (Some sample_text) sample_limits = Inr r"
    "pr_status r = PROCESSED" using sample_parse by (elim exE conjE)
  let ?l = "\<lparr>ln_number = 3, ln_start = 13, ln_end = 16, ln_content = ''two''\<rparr>"
  have "?l \<in> set (lines_of (parsed_text sample_text))" by code_simp
  moreover have "strip (ln_content ?l) \<noteq> []" by code_simp
  ultimately show ?thesis using parsed_lines_covered [OF r, of ?l] r(1) by auto
qed

end
