(* ===== verification/Lexical.thy ===== *)
theory Lexical
  imports Prelude
begin

text \<open>
  Folding and literal matching of \<open>src/dithyramba/lexical.py\<close>.  Inputs are the texts
  of the development, code points below U+0100; their compatibility forms leave that
  range, so folded texts are lists of code points.  On such inputs the normal forms of
  the standard library act character by character: the tables below give the
  decompositions of the Unicode Character Database for U+00A0 to U+00FF, every
  expansion starts with a base character, and no expansion composes with a neighbour.
\<close>

type_synonym codes = "nat list"

definition codes :: "string \<Rightarrow> codes" where
  "codes s = map of_char s"

text \<open>Compatibility decompositions; composed normal forms keep them.\<close>

definition compat_table :: "(nat \<times> nat list) list" where
  "compat_table =
     [(0xA0, [0x20]), (0xA8, [0x20, 0x308]), (0xAA, [0x61]), (0xAF, [0x20, 0x304]),
      (0xB2, [0x32]), (0xB3, [0x33]), (0xB4, [0x20, 0x301]), (0xB5, [0x3BC]),
      (0xB8, [0x20, 0x327]), (0xB9, [0x31]), (0xBA, [0x6F]),
      (0xBC, [0x31, 0x2044, 0x34]), (0xBD, [0x31, 0x2044, 0x32]), (0xBE, [0x33, 0x2044, 0x34])]"

text \<open>Canonical decompositions of the capital letters; a small letter is 32 higher.\<close>

definition accent_table :: "(nat \<times> nat \<times> nat) list" where
  "accent_table =
     [(0xC0, 0x41, 0x300), (0xC1, 0x41, 0x301), (0xC2, 0x41, 0x302), (0xC3, 0x41, 0x303),
      (0xC4, 0x41, 0x308), (0xC5, 0x41, 0x30A), (0xC7, 0x43, 0x327), (0xC8, 0x45, 0x300),
      (0xC9, 0x45, 0x301), (0xCA, 0x45, 0x302), (0xCB, 0x45, 0x308), (0xCC, 0x49, 0x300),
      (0xCD, 0x49, 0x301), (0xCE, 0x49, 0x302), (0xCF, 0x49, 0x308), (0xD1, 0x4E, 0x303),
      (0xD2, 0x4F, 0x300), (0xD3, 0x4F, 0x301), (0xD4, 0x4F, 0x302), (0xD5, 0x4F, 0x303),
      (0xD6, 0x4F, 0x308), (0xD9, 0x55, 0x300), (0xDA, 0x55, 0x301), (0xDB, 0x55, 0x302),
      (0xDC, 0x55, 0x308), (0xDD, 0x59, 0x301)]"

definition nfkc_code :: "nat \<Rightarrow> nat list" where
  "nfkc_code n = (case map_of compat_table n of Some d \<Rightarrow> d | None \<Rightarrow> [n])"

definition nfkd_code :: "nat \<Rightarrow> nat list" where
  "nfkd_code n =
     (case map_of compat_table n of
        Some d \<Rightarrow> d
      | None \<Rightarrow>
          if n = 0xFF then [0x79, 0x308]
          else case map_of accent_table n of
                 Some (b, m) \<Rightarrow> [b, m]
               | None \<Rightarrow>
                   (if n < 0xE0 then [n]
                    else case map_of accent_table (n - 32) of
                           Some (b, m) \<Rightarrow> [b + 32, m]
                         | None \<Rightarrow> [n]))"

definition upper_code :: "nat \<Rightarrow> bool" where
  "upper_code n \<longleftrightarrow> 0x41 \<le> n \<and> n \<le> 0x5A \<or> 0xC0 \<le> n \<and> n \<le> 0xDE \<and> n \<noteq> 0xD7"

definition lower_code :: "nat \<Rightarrow> nat" where
  "lower_code n = (if upper_code n then n + 32 else n)"

definition casefold_code :: "nat \<Rightarrow> nat list" where
  "casefold_code n =
     (if n = 0xDF then [0x73, 0x73] else if n = 0xB5 then [0x3BC] else [lower_code n])"

text \<open>\<open>.replace("\u00ad", "")\<close>: soft hyphens are dropped.\<close>

definition drop_soft_hyphens :: "codes \<Rightarrow> codes" where
  "drop_soft_hyphens xs = filter (\<lambda>n. n \<noteq> 0xAD) xs"

definition space_code :: "nat \<Rightarrow> bool" where
  "space_code n \<longleftrightarrow> n \<in> {9, 10, 11, 12, 13, 28, 29, 30, 31, 32, 133, 160}"

text \<open>\<open>_SPACE_PATTERN.sub(" ", s)\<close>; the flag says that the last character was a space.\<close>

fun collapse_spaces :: "bool \<Rightarrow> codes \<Rightarrow> codes" where
  "collapse_spaces after [] = []"
| "collapse_spaces after (c # cs) =
     (if space_code c
      then if after then collapse_spaces True cs else 32 # collapse_spaces True cs
      else c # collapse_spaces False cs)"

definition strip_codes :: "codes \<Rightarrow> codes" where
  "strip_codes xs = rev (dropWhile space_code (rev (dropWhile space_code xs)))"

definition squeeze :: "codes \<Rightarrow> codes" where
  "squeeze xs = strip_codes (collapse_spaces False xs)"

subsection \<open>Character classes\<close>

definition mark_code :: "nat \<Rightarrow> bool" where
  "mark_code n \<longleftrightarrow> 0x300 \<le> n \<and> n \<le> 0x36F"

definition latin_letter :: "nat \<Rightarrow> bool" where
  "latin_letter n \<longleftrightarrow>
     0x41 \<le> n \<and> n \<le> 0x5A \<or> 0x61 \<le> n \<and> n \<le> 0x7A \<or>
     0xC0 \<le> n \<and> n \<le> 0xFF \<and> n \<noteq> 0xD7 \<and> n \<noteq> 0xF7"

definition letter_or_number :: "nat \<Rightarrow> bool" where
  "letter_or_number n \<longleftrightarrow>
     0x30 \<le> n \<and> n \<le> 0x39 \<or> latin_letter n \<or>
     n \<in> {0xAA, 0xB2, 0xB3, 0xB5, 0xB9, 0xBA, 0xBC, 0xBD, 0xBE, 0x3BC}"

definition word_character :: "nat \<Rightarrow> bool" where
  "word_character n \<longleftrightarrow> n = 0x5F \<or> letter_or_number n"

definition strict_word_character :: "nat \<Rightarrow> bool" where
  "strict_word_character n \<longleftrightarrow> n = 0x5F \<or> letter_or_number n \<or> mark_code n"

subsection \<open>Folding\<close>

fun fold_marks :: "bool \<Rightarrow> codes \<Rightarrow> codes" where
  "fold_marks latin_cluster [] = []"
| "fold_marks latin_cluster (c # cs) =
     (if mark_code c
      then if latin_cluster then fold_marks latin_cluster cs
           else c # fold_marks latin_cluster cs
      else c # fold_marks (latin_letter c) cs)"

definition fold_lexical_text :: "string \<Rightarrow> codes" where
  "fold_lexical_text s =
     (let decomposed = drop_soft_hyphens
            (concat (map casefold_code (concat (map nfkd_code (codes s)))))
      in squeeze (fold_marks False decomposed))"

definition normalize_strict_literal_text :: "string \<Rightarrow> codes" where
  "normalize_strict_literal_text s = squeeze (drop_soft_hyphens (map lower_code (codes (nfc s))))"

text \<open>\<open>_match_text\<close> of \<open>src/dithyramba/evidence/coverage.py\<close>.\<close>

definition match_text :: "string \<Rightarrow> codes" where
  "match_text s =
     squeeze (drop_soft_hyphens (concat (map casefold_code (concat (map nfkc_code (codes s))))))"

subsection \<open>Literal search\<close>

text \<open>\<open>haystack.find(needle, start)\<close>.\<close>

definition find_from :: "codes \<Rightarrow> codes \<Rightarrow> nat \<Rightarrow> nat option" where
  "find_from hay needle start =
     find (\<lambda>i. take (length needle) (drop i hay) = needle) [start..<Suc (length hay)]"

lemma find_from_Some:
  "find_from hay needle start = Some i \<Longrightarrow>
     start \<le> i \<and> i \<le> length hay \<and> take (length needle) (drop i hay) = needle \<and>
     (\<forall>j. start \<le> j \<and> j < i \<longrightarrow> take (length needle) (drop j hay) \<noteq> needle)"
proof -
  assume "find_from hay needle start = Some i"
  then obtain k where k: "k < length [start..<Suc (length hay)]" "i = [start..<Suc (length hay)] ! k"
    "take (length needle) (drop i hay) = needle"
    "\<forall>j<k. take (length needle) (drop ([start..<Suc (length hay)] ! j) hay) \<noteq> needle"
    unfolding find_from_def find_Some_iff by blast
  then have i: "i = start + k" "i \<le> length hay" by (auto simp del: upt_Suc)
  moreover have "take (length needle) (drop j hay) \<noteq> needle" if "start \<le> j" "j < i" for j
    using k(4) [rule_format, of "j - start"] k(1) i that by (auto simp del: upt_Suc)
  ultimately show ?thesis using k(3) by auto
qed

lemma find_from_None:
  "find_from hay needle start = None \<longleftrightarrow>
     (\<forall>i. start \<le> i \<and> i \<le> length hay \<longrightarrow> take (length needle) (drop i hay) \<noteq> needle)"
  by (auto simp: find_from_def find_None_iff simp del: upt_Suc)

text \<open>
  The search loop: an occurrence counts when the literal does not start or end inside a
  word.
\<close>

function literal_loop :: "(nat \<Rightarrow> bool) \<Rightarrow> codes \<Rightarrow> codes \<Rightarrow> nat \<Rightarrow> bool" where
  "literal_loop is_word hay needle start =
     (case find_from hay needle start of
        None \<Rightarrow> False
      | Some index \<Rightarrow>
          let end_index = index + length needle;
              before_is_word = (index > 0 \<and> is_word (hay ! (index - 1)));
              after_is_word = (end_index < length hay \<and> is_word (hay ! end_index));
              literal_starts_word = is_word (hd needle);
              literal_ends_word = is_word (last needle)
          in if \<not> (literal_starts_word \<and> before_is_word) \<and> \<not> (literal_ends_word \<and> after_is_word)
             then True
             else literal_loop is_word hay needle (index + 1))"
  by pat_completeness auto
termination
  by (relation "measure (\<lambda>(is_word, hay, needle, start). Suc (length hay) - start)")
    (auto dest: find_from_Some)

declare literal_loop.simps [simp del]

definition folded_literal_present_in_folded_text :: "codes \<Rightarrow> string \<Rightarrow> bool" where
  "folded_literal_present_in_folded_text folded literal =
     (let needle = fold_lexical_text literal
      in if needle = [] then False else literal_loop word_character folded needle 0)"

definition folded_literal_present :: "string \<Rightarrow> string \<Rightarrow> bool" where
  "folded_literal_present s literal =
     folded_literal_present_in_folded_text (fold_lexical_text s) literal"

definition strict_literal_present_in_normalized_text :: "codes \<Rightarrow> string \<Rightarrow> bool" where
  "strict_literal_present_in_normalized_text normalized literal =
     (let needle = normalize_strict_literal_text literal
      in if needle = [] then False else literal_loop strict_word_character normalized needle 0)"

subsection \<open>What the search decides\<close>

definition whole_occurrence :: "(nat \<Rightarrow> bool) \<Rightarrow> codes \<Rightarrow> codes \<Rightarrow> bool" where
  "whole_occurrence is_word hay needle \<longleftrightarrow>
     (\<exists>pre post. hay = pre @ needle @ post \<and>
        \<not> (is_word (hd needle) \<and> pre \<noteq> [] \<and> is_word (last pre)) \<and>
        \<not> (is_word (last needle) \<and> post \<noteq> [] \<and> is_word (hd post)))"

definition occurs_whole_at :: "(nat \<Rightarrow> bool) \<Rightarrow> codes \<Rightarrow> codes \<Rightarrow> nat \<Rightarrow> bool" where
  "occurs_whole_at is_word hay needle i \<longleftrightarrow>
     i \<le> length hay \<and> take (length needle) (drop i hay) = needle \<and>
     \<not> (is_word (hd needle) \<and> i > 0 \<and> is_word (hay ! (i - 1))) \<and>
     \<not> (is_word (last needle) \<and> i + length needle < length hay \<and> is_word (hay ! (i + length needle)))"

lemma literal_loop_at:
  "literal_loop w hay needle start \<longleftrightarrow> (\<exists>i \<ge> start. occurs_whole_at w hay needle i)"
proof (induction w hay needle start rule: literal_loop.induct)
  case (1 w hay needle start)
  show ?case
  proof (cases "find_from hay needle start")
    case None
    then have "\<not> occurs_whole_at w hay needle i" if "start \<le> i" for i
      using that by (auto simp: find_from_None occurs_whole_at_def)
    with None show ?thesis by (subst literal_loop.simps) auto
  next
    case (Some index)
    note f = find_from_Some [OF Some]
    have none: "\<not> occurs_whole_at w hay needle i" if "start \<le> i" "i < index" for i
      using that f by (auto simp: occurs_whole_at_def)
    show ?thesis
    proof (cases "occurs_whole_at w hay needle index")
      case True
      then have "literal_loop w hay needle start"
        by (subst literal_loop.simps) (auto simp: Some Let_def occurs_whole_at_def)
      with True f show ?thesis by auto
    next
      case False
      then have bad: "\<not> (\<not> (w (hd needle) \<and> 0 < index \<and> w (hay ! (index - 1))) \<and>
          \<not> (w (last needle) \<and> index + length needle < length hay \<and> w (hay ! (index + length needle))))"
        using f by (auto simp: occurs_whole_at_def)
      then have "literal_loop w hay needle start = literal_loop w hay needle (index + 1)"
        by (subst literal_loop.simps) (simp only: Some option.case Let_def if_False)
      also have "\<dots> \<longleftrightarrow> (\<exists>i \<ge> index + 1. occurs_whole_at w hay needle i)"
        using "1.IH" [OF Some refl refl refl refl refl bad] by simp
      also have "\<dots> \<longleftrightarrow> (\<exists>i \<ge> start. occurs_whole_at w hay needle i)"
      proof
        assume "\<exists>i \<ge> start. occurs_whole_at w hay needle i"
        then obtain i where "start \<le> i" "occurs_whole_at w hay needle i" by blast
        moreover then have "i \<noteq> index" "\<not> i < index" using False none by auto
        ultimately show "\<exists>i \<ge> index + 1. occurs_whole_at w hay needle i"
          by (intro exI [of _ i]) auto
      qed (use f in auto)
      finally show ?thesis .
    qed
  qed
qed

lemma occurs_whole_at_iff:
  "(\<exists>i. occurs_whole_at w hay needle i) \<longleftrightarrow> whole_occurrence w hay needle"
proof
  assume "\<exists>i. occurs_whole_at w hay needle i"
  then obtain i where i: "occurs_whole_at w hay needle i" by blast
  let ?pre = "take i hay" and ?post = "drop (i + length needle) hay"
  have split: "hay = ?pre @ needle @ ?post"
    using i unfolding occurs_whole_at_def
    by (metis add.commute append_take_drop_id drop_drop)
  have "last ?pre = hay ! (i - 1)" if "?pre \<noteq> []"
    using that i by (simp add: occurs_whole_at_def last_conv_nth)
  moreover have "hd ?post = hay ! (i + length needle)" if "?post \<noteq> []"
    using that by (simp add: hd_drop_conv_nth)
  ultimately show "whole_occurrence w hay needle"
    unfolding whole_occurrence_def using split i
    by (intro exI [of _ ?pre] exI [of _ ?post]) (auto simp: occurs_whole_at_def)
next
  assume "whole_occurrence w hay needle"
  then obtain pre post where h: "hay = pre @ needle @ post"
    "\<not> (w (hd needle) \<and> pre \<noteq> [] \<and> w (last pre))"
    "\<not> (w (last needle) \<and> post \<noteq> [] \<and> w (hd post))"
    by (auto simp: whole_occurrence_def)
  have "pre \<noteq> [] \<Longrightarrow> hay ! (length pre - 1) = last pre"
    by (simp add: h(1) nth_append last_conv_nth)
  moreover have "post \<noteq> [] \<Longrightarrow> hay ! (length pre + length needle) = hd post"
    by (simp add: h(1) nth_append hd_conv_nth)
  ultimately have "occurs_whole_at w hay needle (length pre)"
    using h by (auto simp: occurs_whole_at_def)
  then show "\<exists>i. occurs_whole_at w hay needle i" by blast
qed

lemma literal_loop_iff: "literal_loop w hay needle 0 \<longleftrightarrow> whole_occurrence w hay needle"
  by (simp add: literal_loop_at occurs_whole_at_iff)

end
