(* ===== verification/Evidence_Gate.thy ===== *)
theory Evidence_Gate
  imports Lexical Ingest_Models Model_Fields
begin

text \<open>
  The evidence coverage gate (\<open>src/dithyramba/evidence/coverage.py\<close>): candidates,
  requirements, the frozen gate specification, the assessment of every candidate against
  every requirement, and the gate decision.  The deterministic check between retrieval
  and an answer.
\<close>

definition has_nul :: "string \<Rightarrow> bool" where
  "has_nul s \<longleftrightarrow> char_of (0::nat) \<in> set s"

subsection \<open>Enumerations\<close>

datatype answerability = ANSWERABLE | NOT_IN_CORPUS

definition answerability_value :: "answerability \<Rightarrow> string" where
  "answerability_value a = (case a of ANSWERABLE \<Rightarrow> ''answerable'' | NOT_IN_CORPUS \<Rightarrow> ''not_in_corpus'')"

datatype requirement_status = COVERED | MISSING

definition requirement_status_value :: "requirement_status \<Rightarrow> string" where
  "requirement_status_value s = (case s of COVERED \<Rightarrow> ''covered'' | MISSING \<Rightarrow> ''missing'')"

datatype gate_decision = READY | PARTIAL | INSUFFICIENT | GAP_PRESERVED | GAP_CHALLENGED

definition gate_decision_value :: "gate_decision \<Rightarrow> string" where
  "gate_decision_value d =
     (case d of READY \<Rightarrow> ''ready'' | PARTIAL \<Rightarrow> ''partial'' | INSUFFICIENT \<Rightarrow> ''insufficient''
      | GAP_PRESERVED \<Rightarrow> ''gap_preserved'' | GAP_CHALLENGED \<Rightarrow> ''gap_challenged'')"

datatype matching_profile = V1 | V2 | V3

definition profile_value :: "matching_profile \<Rightarrow> string" where
  "profile_value p =
     (case p of V1 \<Rightarrow> ''exact_fragment_unicode_v1'' | V2 \<Rightarrow> ''exact_fragment_unicode_v2''
      | V3 \<Rightarrow> ''exact_fragment_unicode_v3'')"

subsection \<open>Field rules\<close>

text \<open>\<open>_KEY_PATTERN\<close> and \<open>_REFERENCE_PATTERN\<close>, \<open>[a-z][a-z0-9]+(?:_[a-z0-9]+)*\<close>.\<close>

definition key_pattern :: "string \<Rightarrow> bool" where
  "key_pattern s = matches_head_rest lower_az (lower_az @ digits09 @ ''_'') 0 127 s"

definition reference_pattern :: "string \<Rightarrow> bool" where
  "reference_pattern s \<longleftrightarrow>
     (case s of
        c # d # rest \<Rightarrow> c \<in> set lower_az \<and> d \<in> set (lower_az @ digits09) \<and> words_underscore rest True
      | _ \<Rightarrow> False)"

definition gate_reference :: "string \<Rightarrow> string \<Rightarrow> string res" where
  "gate_reference value label =
     (if \<not> reference_pattern value
      then Inl (EvidenceGateContractError (label @ '' must be a stable lowercase reference''))
      else Inr value)"

definition gate_text :: "string \<Rightarrow> string \<Rightarrow> string res" where
  "gate_text value label =
     (let normalized = nfc value
      in if strip normalized = [] \<or> normalized \<noteq> strip normalized \<or> has_nul normalized
         then Inl (EvidenceGateContractError (label @ '' must be nonblank, unpadded NFC text''))
         else Inr normalized)"

text \<open>
  \<open>_unicode_sort_key\<close> orders by UTF-8 bytes, which is the order of the code points.
\<close>

definition unique_sorted :: "string list \<Rightarrow> string \<Rightarrow> string list res" where
  "unique_sorted value label =
     (if length (remdups (map match_text value)) \<noteq> length value
      then Inl (EvidenceGateContractError (label @ '' values must be unique''))
      else Inr (sort value))"

definition normalized_selector_tuple :: "string list \<Rightarrow> string \<Rightarrow> string list res" where
  "normalized_selector_tuple value label =
     res_bind (map_res (\<lambda>item. gate_text item label) value) (\<lambda>normalized.
       unique_sorted normalized label)"

subsection \<open>Source addresses\<close>

definition error_text :: "error \<Rightarrow> string" where
  "error_text e =
     (case e of ValueError m \<Rightarrow> m | TypeError m \<Rightarrow> m | EvidenceGateContractError m \<Rightarrow> m | _ \<Rightarrow> [])"

definition json_integer :: "json option \<Rightarrow> string \<Rightarrow> int res" where
  "json_integer value label =
     (case value of Some (JInt i) \<Rightarrow> Inr i
      | _ \<Rightarrow> Inl (EvidenceGateContractError (label @ '' must be an integer'')))"

fun json_strings :: "json list \<Rightarrow> string list option" where
  "json_strings [] = Some []"
| "json_strings (JStr s # js) = map_option ((#) s) (json_strings js)"
| "json_strings (_ # js) = None"

definition json_string_list :: "json option \<Rightarrow> string \<Rightarrow> string list res" where
  "json_string_list value label =
     (case value of
        Some (JList js) \<Rightarrow>
          (case json_strings js of
             Some ss \<Rightarrow> Inr ss
           | None \<Rightarrow> Inl (EvidenceGateContractError (label @ '' must be a string array'')))
      | _ \<Rightarrow> Inl (EvidenceGateContractError (label @ '' must be a string array'')))"

definition parse_address :: "(string \<times> json) list \<Rightarrow> source_address res" where
  "parse_address kvs =
     (let get = map_of kvs
      in if get ''kind'' = Some (JStr ''markdown'')
         then
           res_bind (json_string_list (get ''heading_path'') ''heading_path'') (\<lambda>path.
           res_bind (json_integer (get ''line_start'') ''line_start'') (\<lambda>ls.
           res_bind (json_integer (get ''line_end'') ''line_end'') (\<lambda>le.
           res_bind (json_integer (get ''char_start'') ''char_start'') (\<lambda>cs.
           res_bind (json_integer (get ''char_end'') ''char_end'') (\<lambda>ce.
           res_bind (make_markdown_address path ls le cs ce) (\<lambda>a. Inr (Markdown a)))))))
         else if get ''kind'' = Some (JStr ''pdf'')
         then
           res_bind (json_integer (get ''page'') ''page'') (\<lambda>page.
           res_bind (json_string_list (get ''bbox'') ''bbox'') (\<lambda>bbox.
           res_bind (json_integer (get ''char_start'') ''char_start'') (\<lambda>cs.
           res_bind (json_integer (get ''char_end'') ''char_end'') (\<lambda>ce.
           res_bind (make_pdf_address page bbox cs ce) (\<lambda>a. Inr (Pdf a))))))
         else Inl (EvidenceGateContractError ''source_address kind is invalid''))"

definition validated_source_address :: "json \<Rightarrow> json res" where
  "validated_source_address value =
     (case value of
        JObj kvs \<Rightarrow>
          if map_of kvs ''schema'' \<noteq> Some (JStr source_address_schema)
          then Inl (EvidenceGateContractError ''source_address schema is invalid'')
          else
            (case parse_address kvs of
               Inl e \<Rightarrow> Inl (EvidenceGateContractError (''source_address is invalid: '' @ error_text e))
             | Inr a \<Rightarrow>
                 (case address_payload a of
                    JObj canonical \<Rightarrow>
                      if fst ` set kvs \<noteq> fst ` set canonical
                      then Inl (EvidenceGateContractError
                        ''source_address keys must match its schema exactly'')
                      else Inr (JObj canonical)
                  | j \<Rightarrow> Inr j))
      | _ \<Rightarrow> Inl (EvidenceGateContractError ''source_address must be a canonical object''))"

subsection \<open>Candidates\<close>

record evidence_candidate =
  ec_rank :: int
  ec_source_fragment_id :: string
  ec_source_id :: string
  ec_text :: string
  ec_source_address :: json
  ec_source_kind :: string
  ec_source_family :: string
  ec_authority :: string
  ec_independence_group :: string
  ec_evidence_tags :: "string list"

definition fragment_id_checked :: "string \<Rightarrow> string res" where
  "fragment_id_checked value =
     (if \<not> words_id ''fragment'' value
      then Inl (EvidenceGateContractError ''source_fragment_id must use fragment_<key>'')
      else Inr value)"

definition candidate_text :: "string \<Rightarrow> string res" where
  "candidate_text value =
     (let normalized = nfc value
      in if strip normalized = [] \<or> has_nul normalized
         then Inl (EvidenceGateContractError ''candidate text must be nonblank NFC text'')
         else Inr normalized)"

text \<open>The construction from raw field values; \<open>ec_source_address\<close> holds the raw object.\<close>

definition validate_candidate :: "evidence_candidate \<Rightarrow> evidence_candidate res" where
  "validate_candidate raw = wrap_validation
     (res_bind (int_field ''rank'' 1 10000 (ec_rank raw)) (\<lambda>_.
      res_bind (fragment_id_checked (ec_source_fragment_id raw)) (\<lambda>fid.
      res_bind (gate_reference (ec_source_id raw) ''source_id'') (\<lambda>sid.
      res_bind (candidate_text (ec_text raw)) (\<lambda>body.
      res_bind (validated_source_address (ec_source_address raw)) (\<lambda>address.
      res_bind (gate_text (ec_source_kind raw) ''source_kind'') (\<lambda>kind.
      res_bind (gate_text (ec_source_family raw) ''source_family'') (\<lambda>family.
      res_bind (gate_text (ec_authority raw) ''authority'') (\<lambda>authority.
      res_bind (gate_text (ec_independence_group raw) ''independence_group'') (\<lambda>grp.
      res_bind (normalized_selector_tuple (ec_evidence_tags raw) ''evidence_tags'') (\<lambda>tags.
        Inr \<lparr>ec_rank = ec_rank raw, ec_source_fragment_id = fid, ec_source_id = sid,
             ec_text = body, ec_source_address = address, ec_source_kind = kind,
             ec_source_family = family, ec_authority = authority,
             ec_independence_group = grp, ec_evidence_tags = tags\<rparr>)))))))))))"

definition candidate_payload :: "evidence_candidate \<Rightarrow> json" where
  "candidate_payload c =
     JObj
       [(''rank'', JInt (ec_rank c)),
        (''source_fragment_id'', JStr (ec_source_fragment_id c)),
        (''source_id'', JStr (ec_source_id c)),
        (''text'', JStr (ec_text c)),
        (''source_address'', ec_source_address c),
        (''source_kind'', JStr (ec_source_kind c)),
        (''source_family'', JStr (ec_source_family c)),
        (''authority'', JStr (ec_authority c)),
        (''independence_group'', JStr (ec_independence_group c)),
        (''evidence_tags'', JList (map JStr (ec_evidence_tags c)))]"

subsection \<open>Requirements\<close>

record evidence_requirement =
  er_key :: string
  er_label :: string
  er_allowed_source_ids :: "string list"
  er_source_kinds_any :: "string list"
  er_source_families_any :: "string list"
  er_authorities_any :: "string list"
  er_anchor_groups :: "string list list"
  er_required_tags :: "string list"
  er_forbidden_anchors :: "string list"
  er_min_independent_groups :: int

definition anchor_groups_checked :: "string list list \<Rightarrow> string list list res" where
  "anchor_groups_checked value =
     res_bind (map_res (\<lambda>grp. res_bind (normalized_selector_tuple grp ''anchor_groups'') (\<lambda>normalized.
         if normalized = [] then Inl (EvidenceGateContractError ''anchor groups cannot be empty'')
         else Inr normalized)) value) (\<lambda>groups.
       if has_duplicates groups
       then Inl (EvidenceGateContractError ''anchor groups must be unique'')
       else Inr (sort_key (\<lambda>g. canonical_json_bytes (JList (map JStr g))) groups))"

definition has_positive_condition :: "evidence_requirement \<Rightarrow> bool" where
  "has_positive_condition r \<longleftrightarrow>
     er_allowed_source_ids r \<noteq> [] \<or> er_source_kinds_any r \<noteq> [] \<or> er_source_families_any r \<noteq> [] \<or>
     er_authorities_any r \<noteq> [] \<or> er_anchor_groups r \<noteq> [] \<or> er_required_tags r \<noteq> []"

definition validate_requirement :: "evidence_requirement \<Rightarrow> evidence_requirement res" where
  "validate_requirement raw = wrap_validation
     (res_bind (if \<not> key_pattern (er_key raw)
        then Inl (EvidenceGateContractError ''requirement key must be stable snake_case'')
        else Inr (er_key raw)) (\<lambda>key.
      res_bind (gate_text (er_label raw) ''label'') (\<lambda>label.
      res_bind (map_res (\<lambda>s. gate_reference s ''allowed_source_ids'') (er_allowed_source_ids raw)) (\<lambda>_.
      res_bind (unique_sorted (er_allowed_source_ids raw) ''allowed_source_ids'') (\<lambda>sources.
      res_bind (normalized_selector_tuple (er_source_kinds_any raw) ''source_kinds_any'') (\<lambda>kinds.
      res_bind (normalized_selector_tuple (er_source_families_any raw) ''source_families_any'') (\<lambda>families.
      res_bind (normalized_selector_tuple (er_authorities_any raw) ''authorities_any'') (\<lambda>authorities.
      res_bind (anchor_groups_checked (er_anchor_groups raw)) (\<lambda>anchors.
      res_bind (normalized_selector_tuple (er_required_tags raw) ''required_tags'') (\<lambda>tags.
      res_bind (normalized_selector_tuple (er_forbidden_anchors raw) ''forbidden_anchors'') (\<lambda>forbidden.
      res_bind (int_field ''min_independent_groups'' 1 20 (er_min_independent_groups raw)) (\<lambda>_.
        let r = \<lparr>er_key = key, er_label = label, er_allowed_source_ids = sources,
                 er_source_kinds_any = kinds, er_source_families_any = families,
                 er_authorities_any = authorities, er_anchor_groups = anchors,
                 er_required_tags = tags, er_forbidden_anchors = forbidden,
                 er_min_independent_groups = er_min_independent_groups raw\<rparr>
        in if has_positive_condition r \<or> er_forbidden_anchors r \<noteq> [] then Inr r
           else Inl (EvidenceGateContractError
             ''EvidenceRequirement must declare at least one exact condition'')))))))))))))"

definition requirement_payload :: "evidence_requirement \<Rightarrow> json" where
  "requirement_payload r =
     JObj
       [(''schema'', JStr ''dithyramba.evidence_requirement/1.0''),
        (''key'', JStr (er_key r)),
        (''label'', JStr (er_label r)),
        (''allowed_source_ids'', JList (map JStr (er_allowed_source_ids r))),
        (''source_kinds_any'', JList (map JStr (er_source_kinds_any r))),
        (''source_families_any'', JList (map JStr (er_source_families_any r))),
        (''authorities_any'', JList (map JStr (er_authorities_any r))),
        (''anchor_groups'', JList (map (\<lambda>g. JList (map JStr g)) (er_anchor_groups r))),
        (''required_tags'', JList (map JStr (er_required_tags r))),
        (''forbidden_anchors'', JList (map JStr (er_forbidden_anchors r))),
        (''min_independent_groups'', JInt (er_min_independent_groups r))]"

definition evidence_requirement_id :: "evidence_requirement \<Rightarrow> string" where
  "evidence_requirement_id r = canonical_content_id ''evidence_requirement'' (requirement_payload r)"

definition requirement_hash :: "evidence_requirement \<Rightarrow> string" where
  "requirement_hash r = canonical_sha256_hex (requirement_payload r)"

subsection \<open>The gate specification\<close>

record gate_spec =
  gs_query_key :: string
  gs_question :: string
  gs_expected_answerability :: answerability
  gs_requirements :: "evidence_requirement list"
  gs_min_total_independent_groups :: int
  gs_matching_profile :: matching_profile

definition spec_requirements :: "evidence_requirement list \<Rightarrow> evidence_requirement list res" where
  "spec_requirements value =
     (if value = []
      then Inl (EvidenceGateContractError ''gate spec requires at least one requirement'')
      else let ordered = sort_key er_key value
           in if has_duplicates (map er_key ordered)
              then Inl (EvidenceGateContractError ''requirement keys must be unique'')
              else Inr ordered)"

definition profile_contract :: "gate_spec \<Rightarrow> gate_spec res" where
  "profile_contract s =
     (if gs_matching_profile s \<in> {V2, V3}
      then
        let negative_only = map er_key (filter (\<lambda>r. \<not> has_positive_condition r) (gs_requirements s))
        in if negative_only \<noteq> []
           then Inl (EvidenceGateContractError
             (profile_value (gs_matching_profile s) @
              '' requires a positive condition in every requirement: '' @ join '', '' negative_only))
           else Inr s
      else Inr s)"

definition validate_spec :: "gate_spec \<Rightarrow> gate_spec res" where
  "validate_spec raw = wrap_validation
     (res_bind (if \<not> key_pattern (gs_query_key raw)
        then Inl (EvidenceGateContractError ''query_key must be stable snake_case'')
        else Inr (gs_query_key raw)) (\<lambda>key.
      res_bind (gate_text (gs_question raw) ''question'') (\<lambda>question.
      res_bind (spec_requirements (gs_requirements raw)) (\<lambda>requirements.
      res_bind (int_field ''min_total_independent_groups'' 1 50
                  (gs_min_total_independent_groups raw)) (\<lambda>_.
        profile_contract
          (raw\<lparr>gs_query_key := key, gs_question := question, gs_requirements := requirements\<rparr>))))))"

definition spec_payload :: "gate_spec \<Rightarrow> json" where
  "spec_payload s =
     JObj
       [(''schema'', JStr ''dithyramba.evidence_gate_spec/1.0''),
        (''query_key'', JStr (gs_query_key s)),
        (''question'', JStr (gs_question s)),
        (''expected_answerability'', JStr (answerability_value (gs_expected_answerability s))),
        (''requirements'', JList (map requirement_payload (gs_requirements s))),
        (''min_total_independent_groups'', JInt (gs_min_total_independent_groups s)),
        (''matching_profile'', JStr (profile_value (gs_matching_profile s)))]"

definition spec_hash :: "gate_spec \<Rightarrow> string" where
  "spec_hash s = canonical_sha256_hex (spec_payload s)"

definition spec_id :: "gate_spec \<Rightarrow> string" where
  "spec_id s = canonical_content_id ''evidence_gate_spec'' (spec_payload s)"

subsection \<open>Assessment\<close>

record candidate_assessment =
  as_source_fragment_id :: string
  as_source_id :: string
  as_rank :: int
  as_rejection_codes :: "string list"

definition assessment_payload :: "candidate_assessment \<Rightarrow> json" where
  "assessment_payload a =
     JObj
       [(''source_fragment_id'', JStr (as_source_fragment_id a)),
        (''source_id'', JStr (as_source_id a)),
        (''rank'', JInt (as_rank a)),
        (''rejection_codes'', JList (map JStr (as_rejection_codes a)))]"

definition matches_selector :: "string \<Rightarrow> string list \<Rightarrow> bool" where
  "matches_selector value choices \<longleftrightarrow> list_ex (\<lambda>choice. match_text value = match_text choice) choices"

definition fold_literal_text :: "string \<Rightarrow> matching_profile \<Rightarrow> codes" where
  "fold_literal_text value profile =
     (case profile of V1 \<Rightarrow> match_text value | V3 \<Rightarrow> normalize_strict_literal_text value
      | V2 \<Rightarrow> fold_lexical_text value)"

definition literal_present :: "codes \<Rightarrow> string \<Rightarrow> matching_profile \<Rightarrow> bool" where
  "literal_present folded literal profile =
     (case profile of
        V1 \<Rightarrow> find_from folded (match_text literal) 0 \<noteq> None
      | V3 \<Rightarrow> strict_literal_present_in_normalized_text folded literal
      | V2 \<Rightarrow> folded_literal_present_in_folded_text folded literal)"

fun missing_anchor_codes :: "codes \<Rightarrow> matching_profile \<Rightarrow> nat \<Rightarrow> string list list \<Rightarrow> string list" where
  "missing_anchor_codes txt profile i [] = []"
| "missing_anchor_codes txt profile i (grp # groups) =
     (if \<not> list_ex (\<lambda>anchor. literal_present txt anchor profile) grp
      then [''missing_anchor_group_'' @ nat_repr i] else [])
     @ missing_anchor_codes txt profile (i + 1) groups"

definition rejection_codes :: "matching_profile \<Rightarrow> evidence_requirement \<Rightarrow> evidence_candidate \<Rightarrow> string list" where
  "rejection_codes profile r c =
     (let normalized = fold_literal_text (ec_text c) profile;
          tags = map match_text (ec_evidence_tags c)
      in (if er_allowed_source_ids r \<noteq> [] \<and> ec_source_id c \<notin> set (er_allowed_source_ids r)
          then [''wrong_source''] else [])
       @ (if er_source_kinds_any r \<noteq> [] \<and> \<not> matches_selector (ec_source_kind c) (er_source_kinds_any r)
          then [''wrong_source_kind''] else [])
       @ (if er_source_families_any r \<noteq> [] \<and>
             \<not> matches_selector (ec_source_family c) (er_source_families_any r)
          then [''wrong_source_family''] else [])
       @ (if er_authorities_any r \<noteq> [] \<and> \<not> matches_selector (ec_authority c) (er_authorities_any r)
          then [''wrong_authority''] else [])
       @ missing_anchor_codes normalized profile 1 (er_anchor_groups r)
       @ map (\<lambda>tag. ''missing_tag_'' @ tag)
           (filter (\<lambda>tag. match_text tag \<notin> set tags) (er_required_tags r))
       @ (if list_ex (\<lambda>anchor. literal_present normalized anchor profile) (er_forbidden_anchors r)
          then [''forbidden_anchor_present''] else []))"

definition assess_candidate ::
  "matching_profile \<Rightarrow> evidence_requirement \<Rightarrow> evidence_candidate \<Rightarrow> candidate_assessment" where
  "assess_candidate profile r c =
     \<lparr>as_source_fragment_id = ec_source_fragment_id c, as_source_id = ec_source_id c,
      as_rank = ec_rank c, as_rejection_codes = rejection_codes profile r c\<rparr>"

subsection \<open>Requirement coverage\<close>

record requirement_coverage =
  rc_evidence_requirement_id :: string
  rc_requirement_key :: string
  rc_label :: string
  rc_status :: requirement_status
  rc_matched_fragment_ids :: "string list"
  rc_matched_source_ids :: "string list"
  rc_matched_independence_groups :: "string list"
  rc_missing_conditions :: "string list"
  rc_closest_candidates :: "candidate_assessment list"

definition coverage_payload :: "requirement_coverage \<Rightarrow> json" where
  "coverage_payload c =
     JObj
       [(''evidence_requirement_id'', JStr (rc_evidence_requirement_id c)),
        (''requirement_key'', JStr (rc_requirement_key c)),
        (''label'', JStr (rc_label c)),
        (''status'', JStr (requirement_status_value (rc_status c))),
        (''matched_fragment_ids'', JList (map JStr (rc_matched_fragment_ids c))),
        (''matched_source_ids'', JList (map JStr (rc_matched_source_ids c))),
        (''matched_independence_groups'', JList (map JStr (rc_matched_independence_groups c))),
        (''missing_conditions'', JList (map JStr (rc_missing_conditions c))),
        (''closest_candidates'', JList (map assessment_payload (rc_closest_candidates c)))]"

definition closest_limit :: nat where
  "closest_limit = 3"

definition evaluate_requirement ::
  "matching_profile \<Rightarrow> evidence_requirement \<Rightarrow> evidence_candidate list \<Rightarrow> requirement_coverage" where
  "evaluate_requirement profile r candidates =
     (let assessments = map (assess_candidate profile r) candidates;
          matched = map fst (filter (\<lambda>ca. as_rejection_codes (snd ca) = []) (zip candidates assessments));
          groups = sorted_set (map ec_independence_group matched);
          covered = int (length groups) \<ge> er_min_independent_groups r
      in \<lparr>rc_evidence_requirement_id = evidence_requirement_id r, rc_requirement_key = er_key r,
          rc_label = er_label r, rc_status = (if covered then COVERED else MISSING),
          rc_matched_fragment_ids = map ec_source_fragment_id matched,
          rc_matched_source_ids = sorted_set (map ec_source_id matched),
          rc_matched_independence_groups = groups,
          rc_missing_conditions =
            (if matched = [] then [''no_candidate_satisfies_all_conditions'']
             else if \<not> covered then [''insufficient_independent_groups''] else []),
          rc_closest_candidates =
            take closest_limit
              (sort_key (\<lambda>a. (length (as_rejection_codes a), as_rank a, as_source_fragment_id a))
                 (filter (\<lambda>a. as_rejection_codes a \<noteq> []) assessments))\<rparr>)"

subsection \<open>The gate\<close>

fun lineage_loop ::
  "(string \<times> string \<times> string) list \<Rightarrow> (string \<times> string) list \<Rightarrow> evidence_candidate list \<Rightarrow> unit res" where
  "lineage_loop by_source by_family [] = Inr ()"
| "lineage_loop by_source by_family (c # cs) =
     (let lineage = (ec_source_family c, ec_independence_group c);
          by_source' = (case map_of by_source (ec_source_id c) of
                          None \<Rightarrow> (ec_source_id c, lineage) # by_source | Some _ \<Rightarrow> by_source);
          by_family' = (case map_of by_family (ec_source_family c) of
                          None \<Rightarrow> (ec_source_family c, ec_independence_group c) # by_family
                        | Some _ \<Rightarrow> by_family)
      in if map_of by_source' (ec_source_id c) \<noteq> Some lineage
         then Inl (EvidenceGateContractError
           ''one source_id cannot declare conflicting source family or independence groups'')
         else if map_of by_family' (ec_source_family c) \<noteq> Some (ec_independence_group c)
         then Inl (EvidenceGateContractError
           ''one source_family cannot declare multiple independence groups'')
         else lineage_loop by_source' by_family' cs)"

definition validate_candidate_lineage :: "evidence_candidate list \<Rightarrow> unit res" where
  "validate_candidate_lineage cs = lineage_loop [] [] cs"

definition gate_decide :: "answerability \<Rightarrow> nat \<Rightarrow> bool \<Rightarrow> gate_decision" where
  "gate_decide expected covered_count all_covered =
     (if expected = NOT_IN_CORPUS then if all_covered then GAP_CHALLENGED else GAP_PRESERVED
      else if all_covered then READY
      else if covered_count \<noteq> 0 then PARTIAL
      else INSUFFICIENT)"

record coverage_result =
  cr_query_key :: string
  cr_spec_id :: string
  cr_spec_hash :: string
  cr_candidate_set_hash :: string
  cr_expected_answerability :: answerability
  cr_decision :: gate_decision
  cr_covered_requirement_ids :: "string list"
  cr_missing_requirement_ids :: "string list"
  cr_matched_independence_groups :: "string list"
  cr_gate_conditions :: "string list"
  cr_requirements :: "requirement_coverage list"

definition result_payload :: "coverage_result \<Rightarrow> json" where
  "result_payload r =
     JObj
       [(''schema'', JStr ''dithyramba.evidence_coverage_result/1.0''),
        (''query_key'', JStr (cr_query_key r)),
        (''spec_id'', JStr (cr_spec_id r)),
        (''spec_hash'', JStr (cr_spec_hash r)),
        (''candidate_set_hash'', JStr (cr_candidate_set_hash r)),
        (''expected_answerability'', JStr (answerability_value (cr_expected_answerability r))),
        (''decision'', JStr (gate_decision_value (cr_decision r))),
        (''covered_requirement_ids'', JList (map JStr (cr_covered_requirement_ids r))),
        (''missing_requirement_ids'', JList (map JStr (cr_missing_requirement_ids r))),
        (''matched_independence_groups'', JList (map JStr (cr_matched_independence_groups r))),
        (''gate_conditions'', JList (map JStr (cr_gate_conditions r))),
        (''requirements'', JList (map coverage_payload (cr_requirements r)))]"

definition result_hash :: "coverage_result \<Rightarrow> string" where
  "result_hash r = canonical_sha256_hex (result_payload r)"

definition result_id :: "coverage_result \<Rightarrow> string" where
  "result_id r = canonical_content_id ''evidence_coverage'' (result_payload r)"

definition candidate_order :: "evidence_candidate \<Rightarrow> int \<times> string" where
  "candidate_order c = (ec_rank c, ec_source_fragment_id c)"

definition candidate_set_payload :: "evidence_candidate list \<Rightarrow> json" where
  "candidate_set_payload cs =
     JObj [(''schema'', JStr ''dithyramba.evidence_candidate_set/1.0''),
           (''items'', JList (map candidate_payload cs))]"

definition gate_result :: "gate_spec \<Rightarrow> evidence_candidate list \<Rightarrow> coverage_result" where
  "gate_result spec ordered =
     (let coverages = map (\<lambda>r. evaluate_requirement (gs_matching_profile spec) r ordered)
                        (gs_requirements spec);
          covered = filter (\<lambda>c. rc_status c = COVERED) coverages;
          covered_ids = map rc_evidence_requirement_id covered;
          missing_ids = map rc_evidence_requirement_id
                          (filter (\<lambda>c. rc_status c = MISSING) coverages);
          groups = sorted_set (concat (map rc_matched_independence_groups covered));
          short = int (length groups) < gs_min_total_independent_groups spec;
          all_covered = (missing_ids = [] \<and> \<not> short)
      in \<lparr>cr_query_key = gs_query_key spec, cr_spec_id = spec_id spec,
          cr_spec_hash = spec_hash spec,
          cr_candidate_set_hash = canonical_sha256_hex (candidate_set_payload ordered),
          cr_expected_answerability = gs_expected_answerability spec,
          cr_decision = gate_decide (gs_expected_answerability spec) (length covered_ids) all_covered,
          cr_covered_requirement_ids = covered_ids,
          cr_missing_requirement_ids = missing_ids,
          cr_matched_independence_groups = groups,
          cr_gate_conditions = (if short then [''insufficient_total_independent_groups''] else []),
          cr_requirements = coverages\<rparr>)"

definition evaluate_gate :: "gate_spec \<Rightarrow> evidence_candidate list \<Rightarrow> coverage_result res" where
  "evaluate_gate spec candidates =
     (if has_duplicates (map ec_source_fragment_id candidates)
      then Inl (EvidenceGateContractError ''candidate fragment IDs must be unique'')
      else
        res_bind
          (if gs_matching_profile spec \<in> {V2, V3} then validate_candidate_lineage candidates else Inr ())
          (\<lambda>_. Inr (gate_result spec (sort_key candidate_order candidates))))"

end
