(* ===== verification/Evidence_Props.thy ===== *)
theory Evidence_Props
  imports Evidence_Gate "HOL-Library.Multiset"
begin

text \<open>
  What the evidence gate decides, stated without its loops: when a candidate satisfies a
  requirement, when a requirement is covered, when the gate is ready, that the decision
  does not depend on the presentation of the candidates and grows with them, and that
  source addresses are accepted exactly in their canonical form.
\<close>

subsection \<open>Satisfying a requirement\<close>

definition literal_in :: "matching_profile \<Rightarrow> string \<Rightarrow> string \<Rightarrow> bool" where
  "literal_in profile s literal \<longleftrightarrow>
     (case profile of
        V1 \<Rightarrow> (\<exists>pre post. match_text s = pre @ match_text literal @ post)
      | V2 \<Rightarrow> fold_lexical_text literal \<noteq> [] \<and>
               whole_occurrence word_character (fold_lexical_text s) (fold_lexical_text literal)
      | V3 \<Rightarrow> normalize_strict_literal_text literal \<noteq> [] \<and>
               whole_occurrence strict_word_character (normalize_strict_literal_text s)
                 (normalize_strict_literal_text literal))"

definition selected :: "string \<Rightarrow> string list \<Rightarrow> bool" where
  "selected value choices \<longleftrightarrow> choices = [] \<or> (\<exists>c \<in> set choices. match_text c = match_text value)"

definition satisfies :: "matching_profile \<Rightarrow> evidence_requirement \<Rightarrow> evidence_candidate \<Rightarrow> bool" where
  "satisfies profile r c \<longleftrightarrow>
     (er_allowed_source_ids r = [] \<or> ec_source_id c \<in> set (er_allowed_source_ids r)) \<and>
     selected (ec_source_kind c) (er_source_kinds_any r) \<and>
     selected (ec_source_family c) (er_source_families_any r) \<and>
     selected (ec_authority c) (er_authorities_any r) \<and>
     (\<forall>grp \<in> set (er_anchor_groups r). \<exists>a \<in> set grp. literal_in profile (ec_text c) a) \<and>
     (\<forall>t \<in> set (er_required_tags r). \<exists>u \<in> set (ec_evidence_tags c). match_text u = match_text t) \<and>
     (\<forall>a \<in> set (er_forbidden_anchors r). \<not> literal_in profile (ec_text c) a)"

lemma find_from_0: "find_from hay needle 0 \<noteq> None \<longleftrightarrow> (\<exists>pre post. hay = pre @ needle @ post)"
proof
  assume "find_from hay needle 0 \<noteq> None"
  then obtain i where "take (length needle) (drop i hay) = needle"
    using find_from_Some by blast
  then have "hay = take i hay @ needle @ drop (length needle) (drop i hay)"
    by (metis append_take_drop_id)
  then show "\<exists>pre post. hay = pre @ needle @ post" by blast
next
  assume "\<exists>pre post. hay = pre @ needle @ post"
  then obtain pre post where "hay = pre @ needle @ post" by blast
  then have "length pre \<le> length hay \<and> take (length needle) (drop (length pre) hay) = needle" by simp
  then show "find_from hay needle 0 \<noteq> None"
    using find_from_None [of hay needle 0] by blast
qed

lemma literal_present_iff:
  "literal_present (fold_literal_text s profile) a profile \<longleftrightarrow> literal_in profile s a"
  by (cases profile)
    (simp_all add: literal_present_def literal_in_def fold_literal_text_def find_from_0
      strict_literal_present_in_normalized_text_def folded_literal_present_in_folded_text_def
      Let_def literal_loop_iff del: not_None_eq)

lemma matches_selector_iff:
  "\<not> (choices \<noteq> [] \<and> \<not> matches_selector v choices) \<longleftrightarrow> selected v choices"
  unfolding matches_selector_def selected_def list_ex_iff by metis

lemma missing_anchor_codes_Nil:
  "missing_anchor_codes f profile i groups = [] \<longleftrightarrow>
     (\<forall>grp \<in> set groups. \<exists>a \<in> set grp. literal_present f a profile)"
  by (induction groups arbitrary: i) (auto simp: list_ex_iff)

lemma rejection_codes_Nil: "rejection_codes profile r c = [] \<longleftrightarrow> satisfies profile r c"
proof -
  have if_Nil: "(if b then [x] else []) = [] \<longleftrightarrow> \<not> b" for b and x :: string by simp
  have tags: "filter (\<lambda>t. match_text t \<notin> set (map match_text (ec_evidence_tags c))) (er_required_tags r) = []
      \<longleftrightarrow> (\<forall>t \<in> set (er_required_tags r). \<exists>u \<in> set (ec_evidence_tags c). match_text u = match_text t)"
    unfolding filter_empty_conv set_map image_iff by metis
  have forbidden: "\<not> list_ex (\<lambda>a. literal_present (fold_literal_text (ec_text c) profile) a profile)
      (er_forbidden_anchors r) \<longleftrightarrow>
      (\<forall>a \<in> set (er_forbidden_anchors r). \<not> literal_in profile (ec_text c) a)"
    unfolding list_ex_iff literal_present_iff by blast
  show ?thesis
    unfolding rejection_codes_def Let_def append_is_Nil_conv if_Nil map_is_Nil_conv tags forbidden
      missing_anchor_codes_Nil literal_present_iff [symmetric] matches_selector_iff satisfies_def
    using forbidden unfolding literal_present_iff by blast
qed

subsection \<open>Requirement coverage\<close>

definition support :: "matching_profile \<Rightarrow> evidence_requirement \<Rightarrow> evidence_candidate set \<Rightarrow> evidence_candidate set"
where
  "support profile r C = {c \<in> C. satisfies profile r c}"

definition support_groups :: "matching_profile \<Rightarrow> evidence_requirement \<Rightarrow> evidence_candidate set \<Rightarrow> string set"
where
  "support_groups profile r C = ec_independence_group ` support profile r C"

definition requirement_covered :: "matching_profile \<Rightarrow> evidence_requirement \<Rightarrow> evidence_candidate set \<Rightarrow> bool"
where
  "requirement_covered profile r C \<longleftrightarrow>
     int (card (support_groups profile r C)) \<ge> er_min_independent_groups r"

lemma matched_eq:
  "map fst (filter (\<lambda>ca. as_rejection_codes (snd ca) = []) (zip cs (map (assess_candidate p r) cs))) =
     filter (satisfies p r) cs"
  by (induction cs) (simp_all add: assess_candidate_def rejection_codes_Nil)

lemma evaluate_requirement_fields:
  "rc_status (evaluate_requirement p r cs) = (if requirement_covered p r (set cs) then COVERED else MISSING)"
  "set (rc_matched_independence_groups (evaluate_requirement p r cs)) = support_groups p r (set cs)"
  "rc_evidence_requirement_id (evaluate_requirement p r cs) = evidence_requirement_id r"
  "rc_matched_independence_groups (evaluate_requirement p r cs) =
     sorted_set (map ec_independence_group (filter (satisfies p r) cs))"
  "rc_matched_source_ids (evaluate_requirement p r cs) =
     sorted_set (map ec_source_id (filter (satisfies p r) cs))"
proof -
  have sup: "set (filter (satisfies p r) cs) = support p r (set cs)" by (auto simp: support_def)
  then have grp: "ec_independence_group ` set (filter (satisfies p r) cs) = support_groups p r (set cs)"
    by (simp only: support_groups_def)
  show "rc_status (evaluate_requirement p r cs) =
      (if requirement_covered p r (set cs) then COVERED else MISSING)"
    unfolding evaluate_requirement_def Let_def matched_eq requirement_covered_def grp [symmetric]
    by (simp only: requirement_coverage.simps length_sorted_set set_map)
  show "set (rc_matched_independence_groups (evaluate_requirement p r cs)) = support_groups p r (set cs)"
    unfolding evaluate_requirement_def Let_def matched_eq grp [symmetric]
    by (simp only: requirement_coverage.simps set_sorted_set set_map)
qed (simp_all only: evaluate_requirement_def Let_def matched_eq requirement_coverage.simps)

definition total_groups :: "gate_spec \<Rightarrow> evidence_candidate set \<Rightarrow> string set" where
  "total_groups spec C =
     (\<Union>r \<in> {r \<in> set (gs_requirements spec). requirement_covered (gs_matching_profile spec) r C}.
        support_groups (gs_matching_profile spec) r C)"

definition gate_satisfied :: "gate_spec \<Rightarrow> evidence_candidate set \<Rightarrow> bool" where
  "gate_satisfied spec C \<longleftrightarrow>
     (\<forall>r \<in> set (gs_requirements spec). requirement_covered (gs_matching_profile spec) r C) \<and>
     int (card (total_groups spec C)) \<ge> gs_min_total_independent_groups spec"

definition gate_outcome :: "gate_spec \<Rightarrow> evidence_candidate set \<Rightarrow> gate_decision" where
  "gate_outcome spec C =
     (if gs_expected_answerability spec = NOT_IN_CORPUS
      then if gate_satisfied spec C then GAP_CHALLENGED else GAP_PRESERVED
      else if gate_satisfied spec C then READY
      else if \<exists>r \<in> set (gs_requirements spec). requirement_covered (gs_matching_profile spec) r C
      then PARTIAL else INSUFFICIENT)"

subsection \<open>Lineage\<close>

definition lineage_consistent :: "evidence_candidate set \<Rightarrow> bool" where
  "lineage_consistent C \<longleftrightarrow>
     (\<forall>c \<in> C. \<forall>d \<in> C.
        (ec_source_id c = ec_source_id d \<longrightarrow> ec_source_family c = ec_source_family d \<and>
           ec_independence_group c = ec_independence_group d) \<and>
        (ec_source_family c = ec_source_family d \<longrightarrow>
           ec_independence_group c = ec_independence_group d))"

text \<open>An association list that indexes a set by a key and a value of its elements.\<close>

definition indexed :: "('k \<times> 'v) list \<Rightarrow> ('c \<Rightarrow> 'k) \<Rightarrow> ('c \<Rightarrow> 'v) \<Rightarrow> 'c set \<Rightarrow> bool" where
  "indexed S key val C \<longleftrightarrow> (\<forall>k v. map_of S k = Some v \<longleftrightarrow> (\<exists>c \<in> C. key c = k \<and> val c = v))"

definition setdefault :: "('k \<times> 'v) list \<Rightarrow> 'k \<Rightarrow> 'v \<Rightarrow> ('k \<times> 'v) list" where
  "setdefault S k v = (case map_of S k of None \<Rightarrow> (k, v) # S | Some _ \<Rightarrow> S)"

lemma indexed_empty: "indexed [] key val {}"
  by (simp add: indexed_def)

lemma indexed_functional:
  "indexed S key val C \<Longrightarrow> c \<in> C \<Longrightarrow> d \<in> C \<Longrightarrow> key c = key d \<Longrightarrow> val c = val d"
  unfolding indexed_def by (metis option.inject)

lemma indexed_setdefault:
  assumes "indexed S key val C" and "map_of (setdefault S (key c) (val c)) (key c) = Some (val c)"
  shows "indexed (setdefault S (key c) (val c)) key val (insert c C)"
proof (cases "map_of S (key c)")
  case None
  then have "\<forall>d \<in> C. key d \<noteq> key c" using assms(1) unfolding indexed_def by (metis option.distinct(1))
  with assms(1) None show ?thesis by (auto simp: indexed_def setdefault_def)
next
  case (Some w)
  with assms(2) have "map_of S (key c) = Some (val c)" by (simp add: setdefault_def)
  then have "\<exists>d \<in> C. key d = key c \<and> val d = val c" using assms(1) by (simp add: indexed_def)
  then have "indexed S key val (insert c C)" using assms(1) unfolding indexed_def by (metis insert_iff)
  with Some show ?thesis by (simp add: setdefault_def)
qed

lemma indexed_conflict:
  assumes "indexed S key val C" and "map_of (setdefault S (key c) (val c)) (key c) \<noteq> Some (val c)"
  shows "\<exists>d \<in> C. key d = key c \<and> val d \<noteq> val c"
proof (cases "map_of S (key c)")
  case None
  with assms(2) show ?thesis by (simp add: setdefault_def)
next
  case (Some w)
  with assms show ?thesis unfolding indexed_def setdefault_def by (metis option.case(2))
qed

definition source_lineage :: "evidence_candidate \<Rightarrow> string \<times> string" where
  "source_lineage c = (ec_source_family c, ec_independence_group c)"

lemma lineage_consistent_iff:
  "lineage_consistent C \<longleftrightarrow> (\<forall>c \<in> C. \<forall>d \<in> C.
     (ec_source_id c = ec_source_id d \<longrightarrow> source_lineage c = source_lineage d) \<and>
     (ec_source_family c = ec_source_family d \<longrightarrow> ec_independence_group c = ec_independence_group d))"
  by (simp add: lineage_consistent_def source_lineage_def)

lemma lineage_loop_Cons:
  "lineage_loop S F (c # cs) =
     (let S' = setdefault S (ec_source_id c) (source_lineage c);
          F' = setdefault F (ec_source_family c) (ec_independence_group c)
      in if map_of S' (ec_source_id c) \<noteq> Some (source_lineage c)
         then Inl (EvidenceGateContractError
           ''one source_id cannot declare conflicting source family or independence groups'')
         else if map_of F' (ec_source_family c) \<noteq> Some (ec_independence_group c)
         then Inl (EvidenceGateContractError
           ''one source_family cannot declare multiple independence groups'')
         else lineage_loop S' F' cs)"
  by (simp add: setdefault_def source_lineage_def Let_def)

lemma lineage_loop_iff:
  "indexed S ec_source_id source_lineage C \<Longrightarrow> indexed F ec_source_family ec_independence_group C \<Longrightarrow>
   lineage_loop S F cs = Inr () \<longleftrightarrow> lineage_consistent (C \<union> set cs)"
proof (induction cs arbitrary: S F C)
  case Nil
  then have "lineage_consistent C"
    unfolding lineage_consistent_iff by (metis indexed_functional)
  then show ?case by simp
next
  case (Cons c cs)
  let ?S = "setdefault S (ec_source_id c) (source_lineage c)"
  let ?F = "setdefault F (ec_source_family c) (ec_independence_group c)"
  show ?case
  proof (cases "map_of ?S (ec_source_id c) = Some (source_lineage c) \<and>
      map_of ?F (ec_source_family c) = Some (ec_independence_group c)")
    case True
    have "lineage_loop ?S ?F cs = Inr () \<longleftrightarrow> lineage_consistent (insert c C \<union> set cs)"
      using True Cons.prems by (intro Cons.IH indexed_setdefault) auto
    with True show ?thesis unfolding lineage_loop_Cons Let_def by simp
  next
    case False
    then have "\<exists>d \<in> C. ec_source_id d = ec_source_id c \<and> source_lineage d \<noteq> source_lineage c \<or>
        ec_source_family d = ec_source_family c \<and> ec_independence_group d \<noteq> ec_independence_group c"
      using indexed_conflict [OF Cons.prems(1)] indexed_conflict [OF Cons.prems(2)] by blast
    then have "\<not> lineage_consistent (C \<union> set (c # cs))"
      unfolding lineage_consistent_iff by auto
    with False show ?thesis unfolding lineage_loop_Cons Let_def by auto
  qed
qed

lemma validate_lineage_iff: "validate_candidate_lineage cs = Inr () \<longleftrightarrow> lineage_consistent (set cs)"
  using lineage_loop_iff [OF indexed_empty indexed_empty, of cs]
  by (simp add: validate_candidate_lineage_def)

subsection \<open>The gate\<close>

lemma evaluate_gate_Inr:
  "evaluate_gate spec cs = Inr res \<longleftrightarrow>
     distinct (map ec_source_fragment_id cs) \<and>
     (gs_matching_profile spec = V1 \<or> lineage_consistent (set cs)) \<and>
     res = gate_result spec (sort_key candidate_order cs)"
proof -
  have "gs_matching_profile spec \<in> {V2, V3} \<longleftrightarrow> gs_matching_profile spec \<noteq> V1"
    by (cases "gs_matching_profile spec") simp_all
  then show ?thesis
    unfolding evaluate_gate_def if_res_eq_Inr has_duplicates_iff res_bind_eq_Inr
    by (auto simp: validate_lineage_iff)
qed

lemma gate_result_decision: "cr_decision (gate_result spec cs) = gate_outcome spec (set cs)"
proof -
  let ?p = "gs_matching_profile spec" and ?rs = "gs_requirements spec"
  let ?covs = "map (\<lambda>r. evaluate_requirement ?p r cs) ?rs"
  let ?covered = "filter (\<lambda>c. rc_status c = COVERED) ?covs"
  let ?groups = "sorted_set (concat (map rc_matched_independence_groups ?covered))"
  have covered: "?covered = map (\<lambda>r. evaluate_requirement ?p r cs)
      (filter (\<lambda>r. requirement_covered ?p r (set cs)) ?rs)"
    by (simp add: filter_map comp_def evaluate_requirement_fields(1) cong: filter_cong)
  have missing: "map rc_evidence_requirement_id (filter (\<lambda>c. rc_status c = MISSING) ?covs) = [] \<longleftrightarrow>
      (\<forall>r \<in> set ?rs. requirement_covered ?p r (set cs))"
    by (auto simp: filter_empty_conv evaluate_requirement_fields(1))
  have "set ?groups = total_groups spec (set cs)"
    unfolding covered by (auto simp: evaluate_requirement_fields(2) total_groups_def)
  then have groups: "length ?groups = card (total_groups spec (set cs))"
    by (metis distinct_card distinct_sorted_set)
  have count: "length (map rc_evidence_requirement_id ?covered) \<noteq> 0 \<longleftrightarrow>
      (\<exists>r \<in> set ?rs. requirement_covered ?p r (set cs))"
    unfolding covered by (auto simp: filter_empty_conv)
  show ?thesis
    unfolding gate_result_def Let_def coverage_result.simps gate_decide_def missing groups count
      gate_outcome_def gate_satisfied_def not_less
    by (rule refl)
qed

lemma gate_outcome_mono:
  assumes "C \<subseteq> D" and "finite D" and "gate_satisfied spec C"
  shows "gate_satisfied spec D"
proof -
  have sup: "support_groups p r C \<subseteq> support_groups p r D" for p r
    using assms(1) by (auto simp: support_groups_def support_def)
  have fin: "finite (support_groups p r D)" for p r
    using assms(2) by (simp add: support_groups_def support_def)
  have cov: "requirement_covered p r C \<Longrightarrow> requirement_covered p r D" for p r
    using card_mono [OF fin sup] unfolding requirement_covered_def by (meson of_nat_mono order_trans)
  have "total_groups spec C \<subseteq> total_groups spec D"
    unfolding total_groups_def using sup cov by (intro UN_mono) blast+
  moreover have "finite (total_groups spec D)" using fin by (simp add: total_groups_def)
  ultimately have "card (total_groups spec C) \<le> card (total_groups spec D)" by (rule card_mono [rotated])
  with assms(3) cov show ?thesis by (auto simp: gate_satisfied_def)
qed

subsection \<open>Sample values\<close>

definition sample_requirement :: evidence_requirement where
  "sample_requirement =
     \<lparr>er_key = ''date'', er_label = ''Date'', er_allowed_source_ids = [], er_source_kinds_any = [''letter''],
      er_source_families_any = [], er_authorities_any = [], er_anchor_groups = [[''1911'']],
      er_required_tags = [], er_forbidden_anchors = [''draft''], er_min_independent_groups = 1\<rparr>"

definition sample_spec :: gate_spec where
  "sample_spec =
     \<lparr>gs_query_key = ''when'', gs_question = ''When?'', gs_expected_answerability = ANSWERABLE,
      gs_requirements = [sample_requirement], gs_min_total_independent_groups = 1,
      gs_matching_profile = V3\<rparr>"

definition sample_candidate :: "string \<Rightarrow> string \<Rightarrow> evidence_candidate" where
  "sample_candidate fid s =
     \<lparr>ec_rank = 1, ec_source_fragment_id = fid, ec_source_id = ''source_a'', ec_text = s,
      ec_source_address = JNull, ec_source_kind = ''Letter'', ec_source_family = ''family_a'',
      ec_authority = ''primary'', ec_independence_group = ''group_a'', ec_evidence_tags = []\<rparr>"

lemmas fold_eval = squeeze_def strip_codes_def drop_soft_hyphens_def codes_def space_code_def
  nfc_def lower_code_def upper_code_def

lemma sample_satisfies: "satisfies V3 sample_requirement (sample_candidate f ''In 1911.'')"
proof -
  have "normalize_strict_literal_text ''In 1911.'' = [105, 110, 32, 49, 57, 49, 49, 46]"
    "normalize_strict_literal_text ''1911'' = [49, 57, 49, 49]"
    "normalize_strict_literal_text ''draft'' = [100, 114, 97, 102, 116]"
    by (simp_all add: normalize_strict_literal_text_def fold_eval)
  moreover have "whole_occurrence strict_word_character [105, 110, 32, 49, 57, 49, 49, 46] [49, 57, 49, 49]"
    unfolding whole_occurrence_def
    by (rule exI [of _ "[105, 110, 32]"], rule exI [of _ "[46]"])
      (simp add: strict_word_character_def letter_or_number_def latin_letter_def mark_code_def)
  moreover have "\<not> whole_occurrence strict_word_character [105, 110, 32, 49, 57, 49, 49, 46] [100, 114, 97, 102, 116]"
    by (auto simp: whole_occurrence_def Cons_eq_append_conv)
  moreover have "match_text ''Letter'' = match_text ''letter''"
    by (simp add: match_text_def fold_eval nfkc_code_def compat_table_def casefold_code_def)
  ultimately show ?thesis
    by (simp add: satisfies_def selected_def sample_requirement_def sample_candidate_def literal_in_def)
qed

lemma sample_accepted:
  "\<exists>res. evaluate_gate sample_spec [sample_candidate ''fragment_a'' ''In 1911.'', sample_candidate ''fragment_b'' ''Nothing''] = Inr res"
  by (simp add: evaluate_gate_Inr sample_candidate_def lineage_consistent_def)

lemma sample_outcome:
  assumes "sample_candidate ''fragment_a'' ''In 1911.'' \<in> C" and "finite C"
  shows "gate_outcome sample_spec C = READY"
proof -
  have "gate_satisfied sample_spec {sample_candidate ''fragment_a'' ''In 1911.''}"
  proof -
    have "support_groups V3 sample_requirement {sample_candidate ''fragment_a'' ''In 1911.''} = {''group_a''}"
      using sample_satisfies by (auto simp: support_groups_def support_def sample_candidate_def)
    then show ?thesis
      by (simp add: gate_satisfied_def requirement_covered_def total_groups_def sample_spec_def
          sample_requirement_def cong: conj_cong)
  qed
  from gate_outcome_mono [OF _ assms(2) this] assms(1) show ?thesis
    by (simp add: gate_outcome_def sample_spec_def)
qed

subsection \<open>Properties\<close>

text \<open>
  C23. The assessment of a candidate is exact: it has no rejection codes exactly when the
  candidate comes from an allowed Source, its kind, family and authority are selected, its
  text holds a literal of every anchor group under the matching profile, it has every
  required tag, and it holds no forbidden literal.
\<close>

theorem assessment_exact:
  "as_rejection_codes (assess_candidate profile r c) = [] \<longleftrightarrow>
     (er_allowed_source_ids r = [] \<or> ec_source_id c \<in> set (er_allowed_source_ids r)) \<and>
     selected (ec_source_kind c) (er_source_kinds_any r) \<and>
     selected (ec_source_family c) (er_source_families_any r) \<and>
     selected (ec_authority c) (er_authorities_any r) \<and>
     (\<forall>grp \<in> set (er_anchor_groups r). \<exists>a \<in> set grp. literal_in profile (ec_text c) a) \<and>
     (\<forall>t \<in> set (er_required_tags r). \<exists>u \<in> set (ec_evidence_tags c). match_text u = match_text t) \<and>
     (\<forall>a \<in> set (er_forbidden_anchors r). \<not> literal_in profile (ec_text c) a)"
  by (simp only: assess_candidate_def candidate_assessment.simps rejection_codes_Nil satisfies_def)

theorem assessment_exact_witness:
  "as_rejection_codes (assess_candidate V3 sample_requirement (sample_candidate ''fragment_a'' ''In 1911.'')) = []"
  using sample_satisfies [of "''fragment_a''", unfolded satisfies_def]
  unfolding assessment_exact by blast

text \<open>
  The gate accepts exactly the candidate lists with distinct fragment identifiers
  whose lineage, under the second and third profile, is consistent: one Source has one
  family and one independence group, and one family has one independence group.
\<close>

theorem gate_accepts_iff:
  "(\<exists>res. evaluate_gate spec cs = Inr res) \<longleftrightarrow>
     distinct (map ec_source_fragment_id cs) \<and>
     (gs_matching_profile spec = V1 \<or>
      (\<forall>c \<in> set cs. \<forall>d \<in> set cs.
         (ec_source_id c = ec_source_id d \<longrightarrow> ec_source_family c = ec_source_family d \<and>
            ec_independence_group c = ec_independence_group d) \<and>
         (ec_source_family c = ec_source_family d \<longrightarrow>
            ec_independence_group c = ec_independence_group d)))"
  unfolding evaluate_gate_Inr lineage_consistent_def by blast

theorem gate_accepts_iff_witness:
  "\<nexists>res. evaluate_gate sample_spec
      [sample_candidate ''fragment_a'' ''x'', (sample_candidate ''fragment_b'' ''y'')\<lparr>ec_source_family := ''family_b''\<rparr>]
      = Inr res"
  unfolding gate_accepts_iff by (simp add: sample_spec_def sample_candidate_def)

text \<open>
  C22. The decision is the declared one.  A requirement is covered when the candidates that
  satisfy it have enough distinct independence groups; the gate is satisfied when every
  requirement is covered and the covered requirements together have enough groups.  An
  answerable question is then ready, else partial if some requirement is covered, else
  insufficient; a question expected to be unanswerable is challenged exactly when the gate
  is satisfied, and its gap is preserved otherwise.
\<close>

theorem gate_decision_exact:
  assumes "evaluate_gate spec cs = Inr res"
  shows "cr_decision res =
    (if gs_expected_answerability spec = NOT_IN_CORPUS
     then if gate_satisfied spec (set cs) then GAP_CHALLENGED else GAP_PRESERVED
     else if gate_satisfied spec (set cs) then READY
     else if \<exists>r \<in> set (gs_requirements spec).
       int (card (ec_independence_group ` {c \<in> set cs. satisfies (gs_matching_profile spec) r c}))
         \<ge> er_min_independent_groups r
     then PARTIAL else INSUFFICIENT)"
  using assms
  by (simp only: evaluate_gate_Inr gate_result_decision set_sort gate_outcome_def
      requirement_covered_def support_groups_def support_def)

theorem gate_decision_exact_witness:
  "\<exists>res. evaluate_gate sample_spec [sample_candidate ''fragment_a'' ''In 1911.'', sample_candidate ''fragment_b'' ''Nothing''] = Inr res \<and>
     cr_decision res = READY"
proof -
  let ?cs = "[sample_candidate ''fragment_a'' ''In 1911.'', sample_candidate ''fragment_b'' ''Nothing'']"
  obtain res where res: "evaluate_gate sample_spec ?cs = Inr res"
    using sample_accepted by blast
  have "gate_outcome sample_spec (set ?cs) = READY" by (rule sample_outcome) simp_all
  then have "gate_satisfied sample_spec (set ?cs)"
    unfolding gate_outcome_def by (simp add: sample_spec_def split: if_splits)
  with gate_decision_exact [OF res] res show ?thesis by (simp add: sample_spec_def)
qed

text \<open>
  The result does not depend on the order in which candidates are supplied: every
  permutation gives the same result, hashes included.
\<close>

theorem gate_order_independent:
  assumes "evaluate_gate spec cs = Inr res" and "mset cs' = mset cs"
  shows "evaluate_gate spec cs' = Inr res"
proof -
  have sets: "set cs' = set cs" using assms(2) by (rule mset_eq_setD)
  have ids: "distinct (map ec_source_fragment_id cs')" "distinct (map ec_source_fragment_id cs)"
    using assms by (metis evaluate_gate_Inr mset_eq_imp_distinct_iff mset_map)+
  have "distinct (map candidate_order xs)" if "distinct (map ec_source_fragment_id xs)" for xs
    using that by (auto simp: distinct_map candidate_order_def inj_on_def)
  with ids sets have "sort_key candidate_order cs' = sort_key candidate_order cs"
    by (intro sort_key_unique) blast+
  with assms(1) ids sets show ?thesis unfolding evaluate_gate_Inr by metis
qed

theorem gate_order_independent_witness:
  "\<exists>res. evaluate_gate sample_spec [sample_candidate ''fragment_b'' ''Nothing'', sample_candidate ''fragment_a'' ''In 1911.''] = Inr res"
proof -
  obtain res where res: "evaluate_gate sample_spec
      [sample_candidate ''fragment_a'' ''In 1911.'', sample_candidate ''fragment_b'' ''Nothing''] = Inr res"
    using sample_accepted by blast
  show ?thesis
    by (rule exI, rule gate_order_independent [OF res]) (simp add: add_mset_commute)
qed

text \<open>
  Evidence is monotone: more candidates, accepted by the gate, never turn a ready
  question into one that is not, and never preserve a gap that was challenged.
\<close>

theorem gate_monotone:
  assumes "evaluate_gate spec cs = Inr res" and "evaluate_gate spec ds = Inr res'"
    and "set cs \<subseteq> set ds" and "cr_decision res \<in> {READY, GAP_CHALLENGED}"
  shows "cr_decision res' = cr_decision res"
proof -
  have out: "cr_decision res = gate_outcome spec (set cs)" "cr_decision res' = gate_outcome spec (set ds)"
    using assms(1,2) by (simp_all only: evaluate_gate_Inr gate_result_decision set_sort)
  then have "gate_satisfied spec (set cs)"
    using assms(4) by (auto simp: gate_outcome_def split: if_splits)
  then have "gate_satisfied spec (set ds)"
    using gate_outcome_mono [OF assms(3)] by simp
  with \<open>gate_satisfied spec (set cs)\<close> show ?thesis unfolding out gate_outcome_def by simp
qed

theorem gate_monotone_witness:
  "\<exists>res'. evaluate_gate sample_spec [sample_candidate ''fragment_a'' ''In 1911.'', sample_candidate ''fragment_b'' ''Nothing''] = Inr res' \<and>
     cr_decision res' = READY"
proof -
  obtain res' where res': "evaluate_gate sample_spec
      [sample_candidate ''fragment_a'' ''In 1911.'', sample_candidate ''fragment_b'' ''Nothing''] = Inr res'"
    using sample_accepted by blast
  have one: "evaluate_gate sample_spec [sample_candidate ''fragment_a'' ''In 1911.''] =
      Inr (gate_result sample_spec (sort_key candidate_order [sample_candidate ''fragment_a'' ''In 1911.'']))"
    unfolding evaluate_gate_Inr by (simp add: lineage_consistent_def)
  have dec: "cr_decision (gate_result sample_spec (sort_key candidate_order [sample_candidate ''fragment_a'' ''In 1911.''])) = READY"
    unfolding gate_result_decision set_sort by (rule sample_outcome) simp_all
  from gate_monotone [OF one res'] dec res' show ?thesis by simp
qed

text \<open>
  C38. Independence cannot be inflated: under the second and third profile, no requirement
  has more matched independence groups than matched Sources.
\<close>

theorem independence_needs_sources:
  assumes "evaluate_gate spec cs = Inr res" and "gs_matching_profile spec \<noteq> V1"
    and "rc \<in> set (cr_requirements res)"
  shows "length (rc_matched_independence_groups rc) \<le> length (rc_matched_source_ids rc)"
proof -
  let ?p = "gs_matching_profile spec" and ?cs = "sort_key candidate_order cs"
  have res: "res = gate_result spec ?cs" and lin: "lineage_consistent (set cs)"
    using assms(1,2) by (simp_all add: evaluate_gate_Inr)
  then obtain r where rc: "rc = evaluate_requirement ?p r ?cs"
    using assms(3) by (auto simp: gate_result_def Let_def)
  let ?M = "set (filter (satisfies ?p r) ?cs)"
  have "\<forall>c \<in> ?M. \<forall>d \<in> ?M. ec_source_id c = ec_source_id d \<longrightarrow>
      ec_independence_group c = ec_independence_group d"
    using lin by (auto simp: lineage_consistent_def)
  then obtain f where "\<forall>c \<in> ?M. ec_independence_group c = f (ec_source_id c)"
    using that [of "\<lambda>s. ec_independence_group (SOME c. c \<in> ?M \<and> ec_source_id c = s)"]
    by (metis (mono_tags, lifting) someI_ex)
  then have "ec_independence_group ` ?M = f ` ec_source_id ` ?M" by (auto simp: image_image)
  then have "card (ec_independence_group ` ?M) \<le> card (ec_source_id ` ?M)"
    by (metis List.finite_set card_image_le finite_imageI)
  then show ?thesis
    unfolding rc evaluate_requirement_fields(4,5) length_sorted_set set_map .
qed

theorem independence_needs_sources_witness:
  "length (rc_matched_independence_groups (evaluate_requirement V3 sample_requirement [sample_candidate ''fragment_a'' ''In 1911.''])) \<le>
   length (rc_matched_source_ids (evaluate_requirement V3 sample_requirement [sample_candidate ''fragment_a'' ''In 1911.'']))"
proof -
  have one: "evaluate_gate sample_spec [sample_candidate ''fragment_a'' ''In 1911.''] =
      Inr (gate_result sample_spec (sort_key candidate_order [sample_candidate ''fragment_a'' ''In 1911.'']))"
    unfolding evaluate_gate_Inr by (simp add: lineage_consistent_def)
  show ?thesis
    by (rule independence_needs_sources [OF one])
      (simp_all add: gate_result_def Let_def sample_spec_def)
qed

end
