(* ===== verification/Address_Props.thy ===== *)
theory Address_Props
  imports Evidence_Gate
begin

text \<open>
  Source addresses as raw JSON: the validator of the evidence gate accepts exactly the
  canonical objects of valid Markdown and PDF addresses.
\<close>

fun address_valid :: "source_address \<Rightarrow> bool" where
  "address_valid (Markdown a) \<longleftrightarrow>
     make_markdown_address (ma_heading_path a) (ma_line_start a) (ma_line_end a) (ma_char_start a)
       (ma_char_end a) = Inr a"
| "address_valid (Pdf a) \<longleftrightarrow>
     make_pdf_address (pa_page a) (pa_bbox a) (pa_char_start a) (pa_char_end a) = Inr a"

subsection \<open>Reading values\<close>

lemma json_strings_map: "json_strings (map JStr ss) = Some ss"
  by (induction ss) simp_all

lemma json_strings_Some: "json_strings js = Some ss \<Longrightarrow> js = map JStr ss"
  by (induction js arbitrary: ss rule: json_strings.induct) auto

lemma json_string_list_Inr:
  "json_string_list v label = Inr ss \<longleftrightarrow> v = Some (JList (map JStr ss))"
  by (auto simp: json_string_list_def json_strings_map split: option.splits json.splits
      dest: json_strings_Some)

lemma json_integer_Inr: "json_integer v label = Inr i \<longleftrightarrow> v = Some (JInt i)"
  by (auto simp: json_integer_def split: option.splits json.splits)

lemma make_markdown_address_valid:
  "make_markdown_address path ls le cs ce = Inr a \<Longrightarrow>
     address_valid (Markdown a) \<and> ma_heading_path a = path \<and> ma_line_start a = ls \<and>
     ma_line_end a = le \<and> ma_char_start a = cs \<and> ma_char_end a = ce"
  by (auto simp: make_markdown_address_Inr)

lemma make_pdf_address_fields:
  "make_pdf_address page bbox cs ce = Inr a \<Longrightarrow>
     a = \<lparr>pa_page = page, pa_bbox = bbox, pa_char_start = cs, pa_char_end = ce\<rparr>"
  by (auto simp: make_pdf_address_def validate_offsets_def split: if_splits)

lemma make_pdf_address_valid:
  "make_pdf_address page bbox cs ce = Inr a \<Longrightarrow>
     address_valid (Pdf a) \<and> pa_page a = page \<and> pa_bbox a = bbox \<and>
     pa_char_start a = cs \<and> pa_char_end a = ce"
  using make_pdf_address_fields by fastforce

text \<open>The members of an address payload besides its schema.\<close>

fun address_members :: "source_address \<Rightarrow> (string \<times> json) list" where
  "address_members (Markdown a) =
     [(''kind'', JStr ''markdown''),
      (''heading_path'', JList (map JStr (ma_heading_path a))),
      (''line_start'', JInt (ma_line_start a)), (''line_end'', JInt (ma_line_end a)),
      (''char_start'', JInt (ma_char_start a)), (''char_end'', JInt (ma_char_end a))]"
| "address_members (Pdf a) =
     [(''kind'', JStr ''pdf''), (''page'', JInt (pa_page a)),
      (''bbox'', JList (map JStr (pa_bbox a))),
      (''char_start'', JInt (pa_char_start a)), (''char_end'', JInt (pa_char_end a))]"

lemma address_payload_members:
  "address_payload a = JObj ((''schema'', JStr source_address_schema) # address_members a)"
  by (cases a) simp_all

lemma distinct_address_keys: "distinct (map fst ((''schema'', JStr source_address_schema) # address_members a))"
  by (cases a) simp_all

lemma parse_address_Inr:
  "parse_address kvs = Inr a \<longleftrightarrow>
     address_valid a \<and> (\<forall>kv \<in> set (address_members a). map_of kvs (fst kv) = Some (snd kv))"
proof
  assume "parse_address kvs = Inr a"
  then show "address_valid a \<and> (\<forall>kv \<in> set (address_members a). map_of kvs (fst kv) = Some (snd kv))"
    unfolding parse_address_def Let_def
    by (auto simp: res_bind_eq_Inr json_string_list_Inr json_integer_Inr split: if_splits
        dest!: make_markdown_address_valid make_pdf_address_valid
        simp del: address_valid.simps)
next
  assume "address_valid a \<and> (\<forall>kv \<in> set (address_members a). map_of kvs (fst kv) = Some (snd kv))"
  then show "parse_address kvs = Inr a"
    by (cases a) (simp_all add: parse_address_def Let_def json_string_list_def json_strings_map
        json_integer_def)
qed

subsection \<open>Objects up to the order of their members\<close>

lemma canon_obj_set_eq:
  assumes "distinct (map fst kvs)" and "distinct (map fst ms)" and "set kvs = set ms"
  shows "canon (JObj kvs) = canon (JObj ms)"
proof -
  let ?c = "\<lambda>kv. (fst kv, canon (snd kv))"
  have "map fst (map ?c xs) = map fst xs" for xs by (simp add: comp_def)
  then have "distinct (map fst (map ?c kvs))" "distinct (map fst (map ?c ms))"
    using assms(1,2) by metis+
  moreover have "set (map ?c kvs) = set (map ?c ms)" using assms(3) by (simp only: set_map)
  ultimately have "sort_key fst (map ?c kvs) = sort_key fst (map ?c ms)"
    by (rule sort_key_unique)
  then show ?thesis by simp
qed

lemma set_eq_of_lookup:
  assumes "distinct (map fst kvs)" and "fst ` set kvs = fst ` set ms"
    and "\<forall>kv \<in> set ms. map_of kvs (fst kv) = Some (snd kv)" and "distinct (map fst ms)"
  shows "set kvs = set ms"
proof
  show "set ms \<subseteq> set kvs" using assms(3) map_of_SomeD [of kvs] by (metis prod.collapse subsetI)
  show "set kvs \<subseteq> set ms"
  proof
    fix kv assume kv: "kv \<in> set kvs"
    then obtain kw where kw: "kw \<in> set ms" "fst kw = fst kv" using assms(2) by (metis image_iff)
    have "map_of kvs (fst kv) = Some (snd kv)" using kv assms(1) by (simp add: map_of_is_SomeI)
    with kw assms(3) have "kw = kv" by (metis option.inject prod.expand)
    with kw show "kv \<in> set ms" by simp
  qed
qed

lemma canon_JStr [simp]: "canon v = JStr s \<longleftrightarrow> v = JStr s"
  by (cases v) auto

lemma canon_JInt [simp]: "canon v = JInt i \<longleftrightarrow> v = JInt i"
  by (cases v) auto

lemma canon_JStr_list: "canon v = JList (map JStr ss) \<longleftrightarrow> v = JList (map JStr ss)"
proof
  assume "canon v = JList (map JStr ss)"
  then obtain js where v: "v = JList js" and "map canon js = map JStr ss" by (cases v) auto
  then have "js = map JStr ss"
    by (auto simp: list_eq_iff_nth_eq)
  with v show "v = JList (map JStr ss)" by simp
qed (simp add: comp_def)

lemma address_member_canon:
  "kv \<in> set ((''schema'', JStr source_address_schema) # address_members a) \<Longrightarrow>
     canon w = canon (snd kv) \<Longrightarrow> w = snd kv"
  by (cases a) (auto simp: comp_def canon_JStr_list)

lemma sort_key_eq_setD: "sort_key f xs = sort_key f ys \<Longrightarrow> set xs = set ys"
  by (metis set_sort)

lemma canon_obj_keys:
  assumes "canon (JObj kvs) = canon (JObj ms)"
  shows "fst ` set kvs = fst ` set ms"
proof -
  let ?c = "\<lambda>kv. (fst kv, canon (snd kv))"
  have "sort_key fst (map ?c kvs) = sort_key fst (map ?c ms)" using assms by simp
  then have "set (map ?c kvs) = set (map ?c ms)" by (rule sort_key_eq_setD)
  then have "fst ` set (map ?c kvs) = fst ` set (map ?c ms)" by (rule arg_cong)
  then show ?thesis by (simp only: set_map image_image fst_conv)
qed

subsection \<open>Property\<close>

text \<open>
  Source addresses are accepted exactly in canonical form: the validator accepts a
  well-formed JSON value when it is, up to the order of members, the payload of a valid
  Markdown or PDF address, and returns that payload; so validation is idempotent and
  encoding followed by validation gives the address back.
\<close>

theorem source_address_exact:
  assumes "json_wf j"
  shows "validated_source_address j = Inr c \<longleftrightarrow>
    (\<exists>a. address_valid a \<and> c = address_payload a \<and> canon j = canon c)"
proof
  assume v: "validated_source_address j = Inr c"
  then obtain kvs where j: "j = JObj kvs"
    by (cases j) (simp_all add: validated_source_address_def)
  from v j obtain a where a: "parse_address kvs = Inr a"
    "map_of kvs ''schema'' = Some (JStr source_address_schema)"
    "fst ` set kvs = fst ` set ((''schema'', JStr source_address_schema) # address_members a)"
    "c = address_payload a"
    by (auto simp: validated_source_address_def address_payload_members split: if_splits sum.splits)
  let ?ms = "(''schema'', JStr source_address_schema) # address_members a"
  have "\<forall>kv \<in> set ?ms. map_of kvs (fst kv) = Some (snd kv)"
    using a(1,2) by (auto simp: parse_address_Inr)
  moreover have d: "distinct (map fst kvs)" using assms j by simp
  ultimately have "set kvs = set ?ms"
    using a(3) distinct_address_keys by (intro set_eq_of_lookup)
  then have "canon j = canon c"
    unfolding j a(4) address_payload_members by (rule canon_obj_set_eq [OF d distinct_address_keys])
  with a show "\<exists>a. address_valid a \<and> c = address_payload a \<and> canon j = canon c"
    by (auto simp: parse_address_Inr)
next
  assume "\<exists>a. address_valid a \<and> c = address_payload a \<and> canon j = canon c"
  then obtain a where a: "address_valid a" "c = address_payload a" "canon j = canon c" by blast
  let ?ms = "(''schema'', JStr source_address_schema) # address_members a"
  have c: "c = JObj ?ms" using a(2) by (simp add: address_payload_members)
  with a(3) obtain kvs where j: "j = JObj kvs" by (cases j) auto
  have d: "distinct (map fst kvs)" using assms j by simp
  have eq: "canon (JObj kvs) = canon (JObj ?ms)" using a(3) c j by simp
  have "map_of kvs (fst kv) = Some (snd kv)" if "kv \<in> set ?ms" for kv
  proof -
    have "fst kv \<in> fst ` set kvs" using canon_obj_keys [OF eq] that by blast
    then obtain w where w: "map_of kvs (fst kv) = Some w"
      by (metis domIff dom_map_of_conv_image_fst not_None_eq)
    have "map_of ?ms (fst kv) = Some (snd kv)"
      using that distinct_address_keys [of a] by (metis map_of_is_SomeI prod.collapse)
    from canon_obj_fields [OF eq d distinct_address_keys w this] address_member_canon [OF that] w
    show ?thesis by simp
  qed
  then have "parse_address kvs = Inr a" "map_of kvs ''schema'' = Some (JStr source_address_schema)"
    using a(1) by (auto simp: parse_address_Inr)
  then show "validated_source_address j = Inr c"
    using canon_obj_keys [OF eq] c
    by (simp add: j validated_source_address_def address_payload_members)
qed

theorem source_address_exact_witness:
  "validated_source_address
     (JObj [(''kind'', JStr ''pdf''), (''page'', JInt 2), (''char_end'', JInt 9), (''char_start'', JInt 4),
            (''bbox'', JList [JStr ''0.000'', JStr ''-1.500'', JStr ''10.000'', JStr ''7.250'']),
            (''schema'', JStr source_address_schema)]) =
   Inr (address_payload (Pdf \<lparr>pa_page = 2, pa_bbox = [''0.000'', ''-1.500'', ''10.000'', ''7.250''],
          pa_char_start = 4, pa_char_end = 9\<rparr>))"
proof (rule source_address_exact [THEN iffD2])
  let ?a = "Pdf \<lparr>pa_page = 2, pa_bbox = [''0.000'', ''-1.500'', ''10.000'', ''7.250''],
      pa_char_start = 4, pa_char_end = 9\<rparr>"
  have "address_valid ?a" by code_simp
  moreover have "canon (JObj [(''kind'', JStr ''pdf''), (''page'', JInt 2), (''char_end'', JInt 9), (''char_start'', JInt 4),
            (''bbox'', JList [JStr ''0.000'', JStr ''-1.500'', JStr ''10.000'', JStr ''7.250'']),
            (''schema'', JStr source_address_schema)]) = canon (address_payload ?a)"
    unfolding address_payload_members by (rule canon_obj_set_eq) auto
  ultimately show "\<exists>a. address_valid a \<and> address_payload ?a = address_payload a \<and>
      canon (JObj [(''kind'', JStr ''pdf''), (''page'', JInt 2), (''char_end'', JInt 9), (''char_start'', JInt 4),
            (''bbox'', JList [JStr ''0.000'', JStr ''-1.500'', JStr ''10.000'', JStr ''7.250'']),
            (''schema'', JStr source_address_schema)]) = canon (address_payload ?a)"
    by blast
qed simp

end
