(* ===== verification/Atlas_Models.thy ===== *)
theory Atlas_Models
  imports Model_Fields
begin

text \<open>
  The interchange contract of a Research Atlas (\<open>src/dithyramba/atlas/models.py\<close>): its
  enumerations, the records of the graph (sources, evidence, questions, hypotheses,
  relations, timeline events, gaps), their JSON dumps and model validators, and the
  validator of the manifest that holds the graph.

  The construction of \<open>AtlasSource\<close> is not modelled (it parses a URL); a source is a
  record here.  \<open>generated_at\<close> is the text that its JSON dump has.
\<close>

subsection \<open>Enumerations\<close>

datatype source_kind =
    LETTER | DIARY | CONTRACT | PATENT | ARCHIVAL_RECORD | ARTWORK | PHOTOGRAPH | NEWSPAPER
  | SCHOLARLY_ARTICLE | BOOK | DATASET | INSTITUTIONAL_RECORD | OTHER

definition source_kind_value :: "source_kind \<Rightarrow> string" where
  "source_kind_value k =
     (case k of LETTER \<Rightarrow> ''letter'' | DIARY \<Rightarrow> ''diary'' | CONTRACT \<Rightarrow> ''contract''
      | PATENT \<Rightarrow> ''patent'' | ARCHIVAL_RECORD \<Rightarrow> ''archival_record'' | ARTWORK \<Rightarrow> ''artwork''
      | PHOTOGRAPH \<Rightarrow> ''photograph'' | NEWSPAPER \<Rightarrow> ''newspaper''
      | SCHOLARLY_ARTICLE \<Rightarrow> ''scholarly_article'' | BOOK \<Rightarrow> ''book'' | DATASET \<Rightarrow> ''dataset''
      | INSTITUTIONAL_RECORD \<Rightarrow> ''institutional_record'' | OTHER \<Rightarrow> ''other'')"

datatype voice_kind =
    FIRST_PERSON | WITNESS | INSTITUTIONAL | SCHOLARLY | JOURNALISTIC | CURATORIAL | UNKNOWN

definition voice_kind_value :: "voice_kind \<Rightarrow> string" where
  "voice_kind_value k =
     (case k of FIRST_PERSON \<Rightarrow> ''first_person'' | WITNESS \<Rightarrow> ''witness''
      | INSTITUTIONAL \<Rightarrow> ''institutional'' | SCHOLARLY \<Rightarrow> ''scholarly''
      | JOURNALISTIC \<Rightarrow> ''journalistic'' | CURATORIAL \<Rightarrow> ''curatorial'' | UNKNOWN \<Rightarrow> ''unknown'')"

datatype verification_state = VERIFIED | PARTIAL | UNVERIFIED

definition verification_state_value :: "verification_state \<Rightarrow> string" where
  "verification_state_value s =
     (case s of VERIFIED \<Rightarrow> ''verified'' | PARTIAL \<Rightarrow> ''partial'' | UNVERIFIED \<Rightarrow> ''unverified'')"

datatype evidence_role = SUPPORTS | QUALIFIES | REFUTES | CONTEXT

definition evidence_role_value :: "evidence_role \<Rightarrow> string" where
  "evidence_role_value r =
     (case r of SUPPORTS \<Rightarrow> ''supports'' | QUALIFIES \<Rightarrow> ''qualifies'' | REFUTES \<Rightarrow> ''refutes''
      | CONTEXT \<Rightarrow> ''context'')"

datatype finding_state = CONFIRMED | QUALIFIED | CONTESTED | REFUTED | OPEN

definition finding_state_value :: "finding_state \<Rightarrow> string" where
  "finding_state_value s =
     (case s of CONFIRMED \<Rightarrow> ''confirmed'' | QUALIFIED \<Rightarrow> ''qualified'' | CONTESTED \<Rightarrow> ''contested''
      | REFUTED \<Rightarrow> ''refuted'' | OPEN \<Rightarrow> ''open'')"

datatype hypothesis_state = ESTABLISHED | WORKING | CONTESTED | REFUTED | OPEN

definition hypothesis_state_value :: "hypothesis_state \<Rightarrow> string" where
  "hypothesis_state_value s =
     (case s of ESTABLISHED \<Rightarrow> ''established'' | WORKING \<Rightarrow> ''working''
      | hypothesis_state.CONTESTED \<Rightarrow> ''contested''
      | hypothesis_state.REFUTED \<Rightarrow> ''refuted'' | hypothesis_state.OPEN \<Rightarrow> ''open'')"

datatype relation_kind = SUPPORTS | QUALIFIES | REFUTES | PRECEDES | INFLUENCES | PARALLELS

definition relation_kind_value :: "relation_kind \<Rightarrow> string" where
  "relation_kind_value k =
     (case k of relation_kind.SUPPORTS \<Rightarrow> ''supports'' | relation_kind.QUALIFIES \<Rightarrow> ''qualifies''
      | relation_kind.REFUTES \<Rightarrow> ''refutes'' | PRECEDES \<Rightarrow> ''precedes''
      | INFLUENCES \<Rightarrow> ''influences'' | PARALLELS \<Rightarrow> ''parallels'')"

datatype trace_span_kind = FACT | SYNTHESIS | HYPOTHESIS | QUESTION

definition trace_span_kind_value :: "trace_span_kind \<Rightarrow> string" where
  "trace_span_kind_value k =
     (case k of FACT \<Rightarrow> ''fact'' | SYNTHESIS \<Rightarrow> ''synthesis'' | HYPOTHESIS \<Rightarrow> ''hypothesis''
      | QUESTION \<Rightarrow> ''question'')"

subsection \<open>Shared checks\<close>

text \<open>\<open>set(values).difference(valid)\<close>, sorted.\<close>

definition missing_ids :: "string list \<Rightarrow> string list \<Rightarrow> string list" where
  "missing_ids vals valid = sorted_set (filter (\<lambda>v. v \<notin> set valid) vals)"

definition require_subset :: "string list \<Rightarrow> string list \<Rightarrow> string \<Rightarrow> unit res" where
  "require_subset vals valid label =
     (let missing = missing_ids vals valid
      in if missing \<noteq> []
         then Inl (ValueError (label @ '' references missing IDs: '' @ join '', '' missing))
         else Inr ())"

definition unique_ids :: "string list \<Rightarrow> string list res" where
  "unique_ids vals =
     (if has_duplicates vals
      then Inl (ValueError ''Atlas identifiers must be unique within their object type'')
      else Inr vals)"

fun for_each :: "('a \<Rightarrow> unit res) \<Rightarrow> 'a list \<Rightarrow> unit res" where
  "for_each f [] = Inr ()"
| "for_each f (x # xs) = res_bind (f x) (\<lambda>_. for_each f xs)"

lemma missing_ids_Nil [simp]: "missing_ids vals valid = [] \<longleftrightarrow> set vals \<subseteq> set valid"
proof -
  have "missing_ids vals valid = [] \<longleftrightarrow> set (missing_ids vals valid) = {}" by simp
  also have "\<dots> \<longleftrightarrow> set vals \<subseteq> set valid"
    unfolding missing_ids_def set_sorted_set by auto
  finally show ?thesis .
qed

lemma require_subset_Inr [res_simps]:
  "require_subset vals valid label = Inr u \<longleftrightarrow> set vals \<subseteq> set valid"
  by (simp add: require_subset_def Let_def)

lemma unique_ids_Inr [res_simps]: "unique_ids vals = Inr ys \<longleftrightarrow> distinct vals \<and> ys = vals"
  by (auto simp: unique_ids_def)

lemma for_each_Inr [res_simps]: "for_each f xs = Inr u \<longleftrightarrow> (\<forall>x \<in> set xs. f x = Inr ())"
  by (induction xs) (simp_all add: res_simps)

subsection \<open>Trace spans\<close>

record atlas_trace_span =
  tsp_span_id :: string
  tsp_start :: int
  tsp_end :: int
  tsp_text :: string
  tsp_kind :: trace_span_kind
  tsp_evidence_ids :: "string list"

definition trace_span_id_pattern :: "string \<Rightarrow> bool" where
  "trace_span_id_pattern s \<longleftrightarrow>
     has_prefix ''trace_'' s \<and> drop 6 s \<noteq> [] \<and>
     list_all (\<lambda>c. c \<in> set (lower_az @ digits09 @ ''_'')) (drop 6 s)"

definition trace_span_validator :: "atlas_trace_span \<Rightarrow> atlas_trace_span res" where
  "trace_span_validator s =
     (if tsp_end s \<le> tsp_start s
      then Inl (ValueError ''Atlas trace span must have start < end'')
      else if tsp_end s - tsp_start s \<noteq> int (length (tsp_text s))
      then Inl (ValueError ''Atlas trace span offsets must match its exact text length'')
      else if has_duplicates (tsp_evidence_ids s)
      then Inl (ValueError ''Atlas trace span evidence_ids must be unique'')
      else Inr s)"

definition validate_trace_span :: "atlas_trace_span \<Rightarrow> atlas_trace_span res" where
  "validate_trace_span s =
     validated
       [pattern_field ''span_id'' (trace_span_id_pattern (tsp_span_id s)),
        int_field ''start'' 0 8000 (tsp_start s),
        int_field ''end'' 1 8000 (tsp_end s),
        text_field ''text'' 1 8000 (tsp_text s),
        list_field ''evidence_ids'' 1 32 (tsp_evidence_ids s)]
       (trace_span_validator s)"

definition trace_span_dump :: "atlas_trace_span \<Rightarrow> json" where
  "trace_span_dump s =
     JObj
       [(''span_id'', JStr (tsp_span_id s)), (''start'', JInt (tsp_start s)),
        (''end'', JInt (tsp_end s)), (''text'', JStr (tsp_text s)),
        (''kind'', JStr (trace_span_kind_value (tsp_kind s))),
        (''evidence_ids'', json_strs (tsp_evidence_ids s))]"

text \<open>
  \<open>_validate_trace_spans\<close>: the loop with the identifiers seen so far and the end of the
  previous span.  \<open>text[start:end]\<close> of nonnegative offsets.
\<close>

definition int_slice :: "int \<Rightarrow> int \<Rightarrow> string \<Rightarrow> string" where
  "int_slice i j s = drop (nat i) (take (nat j) s)"

fun trace_spans_loop ::
  "string \<Rightarrow> string list \<Rightarrow> string \<Rightarrow> string set \<Rightarrow> int \<Rightarrow> atlas_trace_span list \<Rightarrow> unit res" where
  "trace_spans_loop txt allowed label seen prev [] = Inr ()"
| "trace_spans_loop txt allowed label seen prev (s # ss) =
     (if tsp_span_id s \<in> seen
      then Inl (ValueError (label @ '' trace span IDs must be unique''))
      else if tsp_start s < prev
      then Inl (ValueError (label @ '' trace spans must be ordered and non-overlapping''))
      else if tsp_end s > int (length txt) \<or> int_slice (tsp_start s) (tsp_end s) txt \<noteq> tsp_text s
      then Inl (ValueError (label @ '' trace span must match the exact displayed text''))
      else res_bind (require_subset (tsp_evidence_ids s) allowed (label @ '' trace evidence''))
        (\<lambda>_. trace_spans_loop txt allowed label (insert (tsp_span_id s) seen) (tsp_end s) ss))"

definition validate_trace_spans ::
  "string \<Rightarrow> atlas_trace_span list \<Rightarrow> string list \<Rightarrow> string \<Rightarrow> unit res" where
  "validate_trace_spans txt spans allowed label = trace_spans_loop txt allowed label {} 0 spans"

subsection \<open>Graph records\<close>

record atlas_source =
  aso_source_id :: string
  aso_title :: string
  aso_creator :: string
  aso_source_kind :: source_kind
  aso_voice_kind :: voice_kind
  aso_date_label :: "string option"
  aso_publisher_or_archive :: "string option"
  aso_independence_group :: string
  aso_verification_state :: verification_state
  aso_original_url :: "string option"
  aso_artifact_path :: "string option"
  aso_rights_note :: string

definition source_dump :: "atlas_source \<Rightarrow> json" where
  "source_dump s =
     JObj
       [(''source_id'', JStr (aso_source_id s)), (''title'', JStr (aso_title s)),
        (''creator'', JStr (aso_creator s)),
        (''source_kind'', JStr (source_kind_value (aso_source_kind s))),
        (''voice_kind'', JStr (voice_kind_value (aso_voice_kind s))),
        (''date_label'', json_opt (aso_date_label s)),
        (''publisher_or_archive'', json_opt (aso_publisher_or_archive s)),
        (''independence_group'', JStr (aso_independence_group s)),
        (''verification_state'', JStr (verification_state_value (aso_verification_state s))),
        (''original_url'', json_opt (aso_original_url s)),
        (''artifact_path'', json_opt (aso_artifact_path s)),
        (''rights_note'', JStr (aso_rights_note s))]"

record atlas_source_address =
  asa_kind :: string
  asa_heading_path :: "string list"
  asa_line_start :: int
  asa_line_end :: int
  asa_char_start :: int
  asa_char_end :: int

definition atlas_address_validator :: "atlas_source_address \<Rightarrow> atlas_source_address res" where
  "atlas_address_validator a =
     (if asa_line_end a < asa_line_start a
      then Inl (ValueError ''source address line range is reversed'')
      else if asa_char_end a < asa_char_start a
      then Inl (ValueError ''source address character range is reversed'')
      else Inr a)"

definition at_least :: "string \<Rightarrow> int \<Rightarrow> int \<Rightarrow> unit res" where
  "at_least name lo i = field name ''range'' (lo \<le> i)"

definition validate_atlas_address :: "atlas_source_address \<Rightarrow> atlas_source_address res" where
  "validate_atlas_address raw =
     (let a = raw\<lparr>asa_kind := model_strip (asa_kind raw),
                  asa_heading_path := map model_strip (asa_heading_path raw)\<rparr>
      in validated
           [text_field ''kind'' 1 80 (asa_kind a),
            list_field ''heading_path'' 0 32 (asa_heading_path a),
            at_least ''line_start'' 1 (asa_line_start a),
            at_least ''line_end'' 1 (asa_line_end a),
            at_least ''char_start'' 0 (asa_char_start a),
            at_least ''char_end'' 0 (asa_char_end a)]
           (atlas_address_validator a))"

definition atlas_address_dump :: "atlas_source_address \<Rightarrow> json" where
  "atlas_address_dump a =
     JObj
       [(''kind'', JStr (asa_kind a)), (''heading_path'', json_strs (asa_heading_path a)),
        (''line_start'', JInt (asa_line_start a)), (''line_end'', JInt (asa_line_end a)),
        (''char_start'', JInt (asa_char_start a)), (''char_end'', JInt (asa_char_end a))]"

record atlas_evidence =
  aev_evidence_id :: string
  aev_source_id :: string
  aev_locator :: string
  aev_excerpt :: "string option"
  aev_role :: evidence_role
  aev_asserting_voice :: string
  aev_limitation :: "string option"
  aev_source_fragment_id :: "string option"
  aev_fragment_text_sha256 :: "string option"
  aev_source_address :: "atlas_source_address option"

definition strip_evidence :: "atlas_evidence \<Rightarrow> atlas_evidence" where
  "strip_evidence e =
     e\<lparr>aev_evidence_id := model_strip (aev_evidence_id e),
       aev_source_id := model_strip (aev_source_id e), aev_locator := model_strip (aev_locator e),
       aev_excerpt := map_option model_strip (aev_excerpt e),
       aev_asserting_voice := model_strip (aev_asserting_voice e),
       aev_limitation := map_option model_strip (aev_limitation e),
       aev_source_fragment_id := map_option model_strip (aev_source_fragment_id e),
       aev_fragment_text_sha256 := map_option model_strip (aev_fragment_text_sha256 e)\<rparr>"

text \<open>A constraint on a field that may be null.\<close>

definition opt_field :: "('a \<Rightarrow> unit res) \<Rightarrow> 'a option \<Rightarrow> unit res" where
  "opt_field f v = (case v of None \<Rightarrow> Inr () | Some x \<Rightarrow> f x)"

definition fragment_id_pattern :: "string \<Rightarrow> bool" where
  "fragment_id_pattern s \<longleftrightarrow>
     has_prefix ''fragment_'' s \<and> drop 9 s \<noteq> [] \<and>
     list_all (\<lambda>c. c \<in> set (lower_az @ digits09 @ ''_'')) (drop 9 s)"

definition evidence_validator :: "atlas_evidence \<Rightarrow> atlas_evidence res" where
  "evidence_validator e =
     (let present =
        [aev_source_fragment_id e \<noteq> None, aev_fragment_text_sha256 e \<noteq> None,
         aev_source_address e \<noteq> None]
      in if True \<in> set present \<and> False \<in> set present
         then Inl (ValueError ''exact evidence binding must be complete'')
         else Inr e)"

definition validate_evidence :: "atlas_evidence \<Rightarrow> atlas_evidence res" where
  "validate_evidence raw =
     (let e = strip_evidence raw
      in validated
           [pattern_field ''evidence_id'' (model_id_pattern (aev_evidence_id e)),
            pattern_field ''source_id'' (model_id_pattern (aev_source_id e)),
            text_field ''locator'' 1 500 (aev_locator e),
            opt_field (text_field ''excerpt'' 0 1000) (aev_excerpt e),
            text_field ''asserting_voice'' 1 300 (aev_asserting_voice e),
            opt_field (text_field ''limitation'' 0 2000) (aev_limitation e),
            opt_field (pattern_field ''source_fragment_id'' \<circ> fragment_id_pattern)
              (aev_source_fragment_id e),
            opt_field (pattern_field ''fragment_text_sha256'' \<circ> matches_hex 64)
              (aev_fragment_text_sha256 e)]
           (evidence_validator e))"

definition evidence_dump :: "atlas_evidence \<Rightarrow> json" where
  "evidence_dump e =
     JObj
       [(''evidence_id'', JStr (aev_evidence_id e)), (''source_id'', JStr (aev_source_id e)),
        (''locator'', JStr (aev_locator e)), (''excerpt'', json_opt (aev_excerpt e)),
        (''role'', JStr (evidence_role_value (aev_role e))),
        (''asserting_voice'', JStr (aev_asserting_voice e)),
        (''limitation'', json_opt (aev_limitation e)),
        (''source_fragment_id'', json_opt (aev_source_fragment_id e)),
        (''fragment_text_sha256'', json_opt (aev_fragment_text_sha256 e)),
        (''source_address'',
           (case aev_source_address e of None \<Rightarrow> JNull | Some a \<Rightarrow> atlas_address_dump a))]"

record atlas_question =
  aq_question_id :: string
  aq_prompt :: string
  aq_short_answer :: string
  aq_state :: finding_state
  aq_evidence_ids :: "string list"
  aq_trace_spans :: "atlas_trace_span list"
  aq_gap :: "string option"
  aq_tags :: "string list"

definition strip_question :: "atlas_question \<Rightarrow> atlas_question" where
  "strip_question q =
     q\<lparr>aq_question_id := model_strip (aq_question_id q), aq_prompt := model_strip (aq_prompt q),
       aq_short_answer := model_strip (aq_short_answer q),
       aq_evidence_ids := map model_strip (aq_evidence_ids q),
       aq_gap := map_option model_strip (aq_gap q), aq_tags := map model_strip (aq_tags q)\<rparr>"

definition question_validator :: "atlas_question \<Rightarrow> atlas_question res" where
  "question_validator q =
     (if aq_state q \<noteq> finding_state.OPEN \<and> aq_evidence_ids q = []
      then Inl (ValueError ''non-open question requires evidence'')
      else res_bind
        (validate_trace_spans (aq_short_answer q) (aq_trace_spans q) (aq_evidence_ids q) ''question'')
        (\<lambda>_. Inr q))"

definition validate_question :: "atlas_question \<Rightarrow> atlas_question res" where
  "validate_question raw =
     (let q = strip_question raw
      in validated
           [pattern_field ''question_id'' (model_id_pattern (aq_question_id q)),
            text_field ''prompt'' 1 2000 (aq_prompt q),
            text_field ''short_answer'' 1 8000 (aq_short_answer q),
            list_field ''evidence_ids'' 0 32 (aq_evidence_ids q),
            list_field ''trace_spans'' 0 128 (aq_trace_spans q),
            opt_field (text_field ''gap'' 0 2000) (aq_gap q),
            list_field ''tags'' 0 16 (aq_tags q)]
           (question_validator q))"

text \<open>The dump leaves an empty tuple of trace spans out.\<close>

definition spans_entry :: "atlas_trace_span list \<Rightarrow> (string \<times> json) list" where
  "spans_entry spans =
     (if spans = [] then [] else [(''trace_spans'', JList (map trace_span_dump spans))])"

definition question_dump :: "atlas_question \<Rightarrow> json" where
  "question_dump q =
     JObj
       ([(''question_id'', JStr (aq_question_id q)), (''prompt'', JStr (aq_prompt q)),
         (''short_answer'', JStr (aq_short_answer q)),
         (''state'', JStr (finding_state_value (aq_state q))),
         (''evidence_ids'', json_strs (aq_evidence_ids q))] @
        spans_entry (aq_trace_spans q) @
        [(''gap'', json_opt (aq_gap q)), (''tags'', json_strs (aq_tags q))])"

record atlas_hypothesis =
  ah_hypothesis_id :: string
  ah_title :: string
  ah_synthesis :: string
  ah_state :: hypothesis_state
  ah_evidence_ids :: "string list"
  ah_counterevidence_ids :: "string list"
  ah_trace_spans :: "atlas_trace_span list"
  ah_gap :: "string option"
  ah_question_ids :: "string list"

definition strip_hypothesis :: "atlas_hypothesis \<Rightarrow> atlas_hypothesis" where
  "strip_hypothesis h =
     h\<lparr>ah_hypothesis_id := model_strip (ah_hypothesis_id h), ah_title := model_strip (ah_title h),
       ah_synthesis := model_strip (ah_synthesis h),
       ah_evidence_ids := map model_strip (ah_evidence_ids h),
       ah_counterevidence_ids := map model_strip (ah_counterevidence_ids h),
       ah_gap := map_option model_strip (ah_gap h),
       ah_question_ids := map model_strip (ah_question_ids h)\<rparr>"

definition hypothesis_validator :: "atlas_hypothesis \<Rightarrow> atlas_hypothesis res" where
  "hypothesis_validator h =
     (if ah_state h = ESTABLISHED \<and> ah_evidence_ids h = []
      then Inl (ValueError ''established hypothesis requires evidence'')
      else if list_ex (\<lambda>e. e \<in> set (ah_counterevidence_ids h)) (ah_evidence_ids h)
      then Inl (ValueError ''one evidence item cannot support and counter the same hypothesis'')
      else res_bind
        (validate_trace_spans (ah_synthesis h) (ah_trace_spans h)
           (ah_evidence_ids h @ ah_counterevidence_ids h) ''hypothesis'')
        (\<lambda>_. Inr h))"

definition validate_hypothesis :: "atlas_hypothesis \<Rightarrow> atlas_hypothesis res" where
  "validate_hypothesis raw =
     (let h = strip_hypothesis raw
      in validated
           [pattern_field ''hypothesis_id'' (model_id_pattern (ah_hypothesis_id h)),
            text_field ''title'' 1 500 (ah_title h),
            text_field ''synthesis'' 1 8000 (ah_synthesis h),
            list_field ''evidence_ids'' 0 48 (ah_evidence_ids h),
            list_field ''counterevidence_ids'' 0 24 (ah_counterevidence_ids h),
            list_field ''trace_spans'' 0 128 (ah_trace_spans h),
            opt_field (text_field ''gap'' 0 2000) (ah_gap h),
            list_field ''question_ids'' 0 24 (ah_question_ids h)]
           (hypothesis_validator h))"

definition hypothesis_dump :: "atlas_hypothesis \<Rightarrow> json" where
  "hypothesis_dump h =
     JObj
       ([(''hypothesis_id'', JStr (ah_hypothesis_id h)), (''title'', JStr (ah_title h)),
         (''synthesis'', JStr (ah_synthesis h)),
         (''state'', JStr (hypothesis_state_value (ah_state h))),
         (''evidence_ids'', json_strs (ah_evidence_ids h)),
         (''counterevidence_ids'', json_strs (ah_counterevidence_ids h))] @
        spans_entry (ah_trace_spans h) @
        [(''gap'', json_opt (ah_gap h)), (''question_ids'', json_strs (ah_question_ids h))])"

record atlas_relation =
  arl_relation_id :: string
  arl_source_hypothesis_id :: string
  arl_target_hypothesis_id :: string
  arl_kind :: relation_kind
  arl_evidence_ids :: "string list"
  arl_explanation :: string

definition relation_validator :: "atlas_relation \<Rightarrow> atlas_relation res" where
  "relation_validator r =
     (if arl_source_hypothesis_id r = arl_target_hypothesis_id r
      then Inl (ValueError ''hypothesis relation cannot target itself'')
      else Inr r)"

definition validate_relation :: "atlas_relation \<Rightarrow> atlas_relation res" where
  "validate_relation raw =
     (let r = raw\<lparr>arl_relation_id := model_strip (arl_relation_id raw),
                  arl_source_hypothesis_id := model_strip (arl_source_hypothesis_id raw),
                  arl_target_hypothesis_id := model_strip (arl_target_hypothesis_id raw),
                  arl_evidence_ids := map model_strip (arl_evidence_ids raw),
                  arl_explanation := model_strip (arl_explanation raw)\<rparr>
      in validated
           [pattern_field ''relation_id'' (model_id_pattern (arl_relation_id r)),
            pattern_field ''source_hypothesis_id'' (model_id_pattern (arl_source_hypothesis_id r)),
            pattern_field ''target_hypothesis_id'' (model_id_pattern (arl_target_hypothesis_id r)),
            list_field ''evidence_ids'' 0 24 (arl_evidence_ids r),
            text_field ''explanation'' 1 2000 (arl_explanation r)]
           (relation_validator r))"

definition relation_dump :: "atlas_relation \<Rightarrow> json" where
  "relation_dump r =
     JObj
       [(''relation_id'', JStr (arl_relation_id r)),
        (''source_hypothesis_id'', JStr (arl_source_hypothesis_id r)),
        (''target_hypothesis_id'', JStr (arl_target_hypothesis_id r)),
        (''kind'', JStr (relation_kind_value (arl_kind r))),
        (''evidence_ids'', json_strs (arl_evidence_ids r)),
        (''explanation'', JStr (arl_explanation r))]"

record atlas_timeline_event =
  ate_event_id :: string
  ate_date_start :: string
  ate_date_end :: "string option"
  ate_date_label :: string
  ate_title :: string
  ate_summary :: string
  ate_state :: finding_state
  ate_evidence_ids :: "string list"
  ate_question_ids :: "string list"
  ate_hypothesis_ids :: "string list"

text \<open>\<open>[0-9?]{4}(?:-[0-9?]{2})?(?:-[0-9?]{2})?\<close>; in the templates \<open>d\<close> stands for a digit or
  a question mark.\<close>

definition date_pattern :: "string \<Rightarrow> bool" where
  "date_pattern s \<longleftrightarrow>
     list_ex (\<lambda>tmpl. list_all2 (\<lambda>t c. if t = CHR ''d'' then c \<in> set (digits09 @ ''?'') else c = t) tmpl s)
       [''dddd'', ''dddd-dd'', ''dddd-dd-dd'']"

definition event_boundary :: "atlas_timeline_event \<Rightarrow> atlas_timeline_event res" where
  "event_boundary e =
     (if ate_state e \<noteq> finding_state.OPEN \<and> ate_evidence_ids e = []
      then Inl (ValueError ''non-open timeline event requires evidence'')
      else Inr e)"

definition validate_timeline_event :: "atlas_timeline_event \<Rightarrow> atlas_timeline_event res" where
  "validate_timeline_event raw =
     (let e = raw\<lparr>ate_event_id := model_strip (ate_event_id raw),
                  ate_date_start := model_strip (ate_date_start raw),
                  ate_date_end := map_option model_strip (ate_date_end raw),
                  ate_date_label := model_strip (ate_date_label raw),
                  ate_title := model_strip (ate_title raw),
                  ate_summary := model_strip (ate_summary raw),
                  ate_evidence_ids := map model_strip (ate_evidence_ids raw),
                  ate_question_ids := map model_strip (ate_question_ids raw),
                  ate_hypothesis_ids := map model_strip (ate_hypothesis_ids raw)\<rparr>
      in validated
           [pattern_field ''event_id'' (model_id_pattern (ate_event_id e)),
            pattern_field ''date_start'' (date_pattern (ate_date_start e)),
            opt_field (pattern_field ''date_end'' \<circ> date_pattern) (ate_date_end e),
            text_field ''date_label'' 1 160 (ate_date_label e),
            text_field ''title'' 1 500 (ate_title e),
            text_field ''summary'' 1 4000 (ate_summary e),
            list_field ''evidence_ids'' 0 32 (ate_evidence_ids e),
            list_field ''question_ids'' 0 16 (ate_question_ids e),
            list_field ''hypothesis_ids'' 0 16 (ate_hypothesis_ids e)]
           (event_boundary e))"

definition timeline_event_dump :: "atlas_timeline_event \<Rightarrow> json" where
  "timeline_event_dump e =
     JObj
       [(''event_id'', JStr (ate_event_id e)), (''date_start'', JStr (ate_date_start e)),
        (''date_end'', json_opt (ate_date_end e)), (''date_label'', JStr (ate_date_label e)),
        (''title'', JStr (ate_title e)), (''summary'', JStr (ate_summary e)),
        (''state'', JStr (finding_state_value (ate_state e))),
        (''evidence_ids'', json_strs (ate_evidence_ids e)),
        (''question_ids'', json_strs (ate_question_ids e)),
        (''hypothesis_ids'', json_strs (ate_hypothesis_ids e))]"

record atlas_gap =
  agp_gap_id :: string
  agp_label :: string
  agp_why_it_matters :: string
  agp_next_evidence :: string
  agp_related_question_ids :: "string list"
  agp_related_hypothesis_ids :: "string list"

definition validate_gap :: "atlas_gap \<Rightarrow> atlas_gap res" where
  "validate_gap raw =
     (let g = raw\<lparr>agp_gap_id := model_strip (agp_gap_id raw),
                  agp_label := model_strip (agp_label raw),
                  agp_why_it_matters := model_strip (agp_why_it_matters raw),
                  agp_next_evidence := model_strip (agp_next_evidence raw),
                  agp_related_question_ids := map model_strip (agp_related_question_ids raw),
                  agp_related_hypothesis_ids := map model_strip (agp_related_hypothesis_ids raw)\<rparr>
      in validated
           [pattern_field ''gap_id'' (model_id_pattern (agp_gap_id g)),
            text_field ''label'' 1 500 (agp_label g),
            text_field ''why_it_matters'' 1 2000 (agp_why_it_matters g),
            text_field ''next_evidence'' 1 2000 (agp_next_evidence g),
            list_field ''related_question_ids'' 0 24 (agp_related_question_ids g),
            list_field ''related_hypothesis_ids'' 0 24 (agp_related_hypothesis_ids g)]
           (Inr g))"

definition gap_dump :: "atlas_gap \<Rightarrow> json" where
  "gap_dump g =
     JObj
       [(''gap_id'', JStr (agp_gap_id g)), (''label'', JStr (agp_label g)),
        (''why_it_matters'', JStr (agp_why_it_matters g)),
        (''next_evidence'', JStr (agp_next_evidence g)),
        (''related_question_ids'', json_strs (agp_related_question_ids g)),
        (''related_hypothesis_ids'', json_strs (agp_related_hypothesis_ids g))]"

subsection \<open>Manifest\<close>

record atlas_corpus =
  aco_label :: string
  aco_source_count :: int
  aco_source_family_count :: int
  aco_scope_note :: string
  aco_cutoff_note :: string

definition corpus_dump :: "atlas_corpus \<Rightarrow> json" where
  "corpus_dump c =
     JObj
       [(''label'', JStr (aco_label c)), (''source_count'', JInt (aco_source_count c)),
        (''source_family_count'', JInt (aco_source_family_count c)),
        (''scope_note'', JStr (aco_scope_note c)), (''cutoff_note'', JStr (aco_cutoff_note c))]"

record research_atlas_manifest =
  am_schema_id :: string
  am_atlas_id :: string
  am_case_id :: string
  am_title :: string
  am_subject :: string
  am_subtitle :: string
  am_generated_at :: string
  am_language :: string
  am_read_only :: bool
  am_corpus :: atlas_corpus
  am_sources :: "atlas_source list"
  am_evidence :: "atlas_evidence list"
  am_questions :: "atlas_question list"
  am_hypotheses :: "atlas_hypothesis list"
  am_relations :: "atlas_relation list"
  am_timeline :: "atlas_timeline_event list"
  am_gaps :: "atlas_gap list"
  am_methodology_note :: string

definition manifest_schema :: string where
  "manifest_schema = ''dithyramba.research_atlas/1.0''"

definition manifest_dump :: "research_atlas_manifest \<Rightarrow> json" where
  "manifest_dump m =
     JObj
       [(''schema_id'', JStr (am_schema_id m)), (''atlas_id'', JStr (am_atlas_id m)),
        (''case_id'', JStr (am_case_id m)), (''title'', JStr (am_title m)),
        (''subject'', JStr (am_subject m)), (''subtitle'', JStr (am_subtitle m)),
        (''generated_at'', JStr (am_generated_at m)), (''language'', JStr (am_language m)),
        (''read_only'', JBool (am_read_only m)), (''corpus'', corpus_dump (am_corpus m)),
        (''sources'', JList (map source_dump (am_sources m))),
        (''evidence'', JList (map evidence_dump (am_evidence m))),
        (''questions'', JList (map question_dump (am_questions m))),
        (''hypotheses'', JList (map hypothesis_dump (am_hypotheses m))),
        (''relations'', JList (map relation_dump (am_relations m))),
        (''timeline'', JList (map timeline_event_dump (am_timeline m))),
        (''gaps'', JList (map gap_dump (am_gaps m))),
        (''methodology_note'', JStr (am_methodology_note m))]"

text \<open>The reference checks of each record, against the identifiers of the graph.\<close>

definition question_refs :: "string list \<Rightarrow> atlas_question \<Rightarrow> unit res" where
  "question_refs evidence_ids q =
     res_bind (require_subset (aq_evidence_ids q) evidence_ids ''question evidence'') (\<lambda>_.
       for_each (\<lambda>s. require_subset (tsp_evidence_ids s) evidence_ids ''question trace evidence'')
         (aq_trace_spans q))"

definition hypothesis_refs :: "string list \<Rightarrow> string list \<Rightarrow> atlas_hypothesis \<Rightarrow> unit res" where
  "hypothesis_refs evidence_ids question_ids h =
     res_bind (require_subset (ah_evidence_ids h) evidence_ids ''hypothesis evidence'') (\<lambda>_.
     res_bind (require_subset (ah_counterevidence_ids h) evidence_ids ''hypothesis counterevidence'') (\<lambda>_.
     res_bind
       (for_each (\<lambda>s. require_subset (tsp_evidence_ids s) evidence_ids ''hypothesis trace evidence'')
          (ah_trace_spans h)) (\<lambda>_.
     require_subset (ah_question_ids h) question_ids ''hypothesis question'')))"

definition relation_refs :: "string list \<Rightarrow> string list \<Rightarrow> atlas_relation \<Rightarrow> unit res" where
  "relation_refs evidence_ids hypothesis_ids r =
     res_bind
       (require_subset [arl_source_hypothesis_id r, arl_target_hypothesis_id r] hypothesis_ids
          ''relation hypothesis'') (\<lambda>_.
     require_subset (arl_evidence_ids r) evidence_ids ''relation evidence'')"

definition event_refs ::
  "string list \<Rightarrow> string list \<Rightarrow> string list \<Rightarrow> atlas_timeline_event \<Rightarrow> unit res" where
  "event_refs evidence_ids question_ids hypothesis_ids e =
     res_bind (require_subset (ate_evidence_ids e) evidence_ids ''timeline evidence'') (\<lambda>_.
     res_bind (require_subset (ate_question_ids e) question_ids ''timeline question'') (\<lambda>_.
     require_subset (ate_hypothesis_ids e) hypothesis_ids ''timeline hypothesis''))"

definition gap_refs :: "string list \<Rightarrow> string list \<Rightarrow> atlas_gap \<Rightarrow> unit res" where
  "gap_refs question_ids hypothesis_ids g =
     res_bind (require_subset (agp_related_question_ids g) question_ids ''gap question'') (\<lambda>_.
     require_subset (agp_related_hypothesis_ids g) hypothesis_ids ''gap hypothesis'')"

definition validate_graph :: "research_atlas_manifest \<Rightarrow> research_atlas_manifest res" where
  "validate_graph m =
     (if am_schema_id m \<noteq> manifest_schema
      then Inl (ValueError (''schema_id must be '' @ manifest_schema))
      else if \<not> am_read_only m
      then Inl (ValueError ''Research Atlas manifests are read-only'')
      else
        res_bind (unique_ids (map aso_source_id (am_sources m))) (\<lambda>source_ids.
        res_bind (unique_ids (map aev_evidence_id (am_evidence m))) (\<lambda>evidence_ids.
        res_bind (unique_ids (map aq_question_id (am_questions m))) (\<lambda>question_ids.
        res_bind (unique_ids (map ah_hypothesis_id (am_hypotheses m))) (\<lambda>hypothesis_ids.
        res_bind (unique_ids (map arl_relation_id (am_relations m))) (\<lambda>_.
        res_bind (unique_ids (map ate_event_id (am_timeline m))) (\<lambda>_.
        res_bind (unique_ids (map agp_gap_id (am_gaps m))) (\<lambda>_.
        res_bind (for_each (\<lambda>e. require_subset [aev_source_id e] source_ids ''evidence source'')
          (am_evidence m)) (\<lambda>_.
        res_bind (for_each (question_refs evidence_ids) (am_questions m)) (\<lambda>_.
        res_bind (for_each (hypothesis_refs evidence_ids question_ids) (am_hypotheses m)) (\<lambda>_.
        res_bind (for_each (relation_refs evidence_ids hypothesis_ids) (am_relations m)) (\<lambda>_.
        res_bind (for_each (event_refs evidence_ids question_ids hypothesis_ids) (am_timeline m)) (\<lambda>_.
        res_bind (for_each (gap_refs question_ids hypothesis_ids) (am_gaps m)) (\<lambda>_.
        if aco_source_count (am_corpus m) \<noteq> int (length (am_sources m))
        then Inl (ValueError ''corpus.source_count must equal the manifest source count'')
        else if aco_source_family_count (am_corpus m) \<noteq>
          int (length (remdups (map aso_independence_group (am_sources m))))
        then Inl (ValueError ''corpus.source_family_count must equal the distinct independence groups'')
        else Inr m))))))))))))))"

text \<open>
  Construction: the field constraints, then the graph validator.  The timestamp
  \<open>generated_at\<close> is parsed by pydantic and is taken as it is.
\<close>

definition strip_corpus :: "atlas_corpus \<Rightarrow> atlas_corpus" where
  "strip_corpus c =
     c\<lparr>aco_label := model_strip (aco_label c), aco_scope_note := model_strip (aco_scope_note c),
       aco_cutoff_note := model_strip (aco_cutoff_note c)\<rparr>"

definition validate_corpus :: "atlas_corpus \<Rightarrow> atlas_corpus res" where
  "validate_corpus raw =
     (let c = strip_corpus raw
      in validated
           [text_field ''label'' 1 300 (aco_label c),
            at_least ''source_count'' 0 (aco_source_count c),
            at_least ''source_family_count'' 0 (aco_source_family_count c),
            text_field ''scope_note'' 1 2000 (aco_scope_note c),
            text_field ''cutoff_note'' 1 2000 (aco_cutoff_note c)]
           (Inr c))"

text \<open>\<open>[a-z]{2}(?:-[A-Z]{2})?\<close>; \<open>l\<close> and \<open>U\<close> stand for letters.\<close>

definition language_pattern :: "string \<Rightarrow> bool" where
  "language_pattern s =
     list_ex (\<lambda>tmpl. list_all2 (\<lambda>t c. if t = CHR ''l'' then c \<in> set lower_az
         else if t = CHR ''U'' then c \<in> set upper_az else c = t) tmpl s) [''ll'', ''ll-UU'']"

definition strip_manifest :: "research_atlas_manifest \<Rightarrow> research_atlas_manifest" where
  "strip_manifest m =
     m\<lparr>am_schema_id := model_strip (am_schema_id m), am_atlas_id := model_strip (am_atlas_id m),
       am_case_id := model_strip (am_case_id m), am_title := model_strip (am_title m),
       am_subject := model_strip (am_subject m), am_subtitle := model_strip (am_subtitle m),
       am_language := model_strip (am_language m),
       am_methodology_note := model_strip (am_methodology_note m)\<rparr>"

definition validate_manifest :: "research_atlas_manifest \<Rightarrow> research_atlas_manifest res" where
  "validate_manifest raw =
     (let m = strip_manifest raw
      in validated
           [pattern_field ''atlas_id'' (model_id_pattern (am_atlas_id m)),
            pattern_field ''case_id'' (model_id_pattern (am_case_id m)),
            text_field ''title'' 1 500 (am_title m), text_field ''subject'' 1 300 (am_subject m),
            text_field ''subtitle'' 1 1000 (am_subtitle m),
            pattern_field ''language'' (language_pattern (am_language m)),
            list_field ''sources'' 0 10000 (am_sources m),
            list_field ''evidence'' 0 10000 (am_evidence m),
            list_field ''questions'' 0 1000 (am_questions m),
            list_field ''hypotheses'' 0 1000 (am_hypotheses m),
            list_field ''relations'' 0 4000 (am_relations m),
            list_field ''timeline'' 0 4000 (am_timeline m),
            list_field ''gaps'' 0 1000 (am_gaps m),
            text_field ''methodology_note'' 1 4000 (am_methodology_note m)]
           (validate_graph m))"

text \<open>The graph a manifest holds, as the validator leaves it.\<close>

definition graph_closed :: "research_atlas_manifest \<Rightarrow> bool" where
  "graph_closed m \<longleftrightarrow>
     distinct (map aso_source_id (am_sources m)) \<and>
     distinct (map aev_evidence_id (am_evidence m)) \<and>
     distinct (map aq_question_id (am_questions m)) \<and>
     distinct (map ah_hypothesis_id (am_hypotheses m)) \<and>
     distinct (map arl_relation_id (am_relations m)) \<and>
     distinct (map ate_event_id (am_timeline m)) \<and>
     distinct (map agp_gap_id (am_gaps m)) \<and>
     (\<forall>e \<in> set (am_evidence m). aev_source_id e \<in> aso_source_id ` set (am_sources m)) \<and>
     (\<forall>q \<in> set (am_questions m). set (aq_evidence_ids q) \<subseteq> aev_evidence_id ` set (am_evidence m)) \<and>
     (\<forall>h \<in> set (am_hypotheses m).
        set (ah_evidence_ids h) \<union> set (ah_counterevidence_ids h) \<subseteq> aev_evidence_id ` set (am_evidence m) \<and>
        set (ah_question_ids h) \<subseteq> aq_question_id ` set (am_questions m)) \<and>
     (\<forall>r \<in> set (am_relations m).
        {arl_source_hypothesis_id r, arl_target_hypothesis_id r}
          \<subseteq> ah_hypothesis_id ` set (am_hypotheses m) \<and>
        set (arl_evidence_ids r) \<subseteq> aev_evidence_id ` set (am_evidence m)) \<and>
     (\<forall>e \<in> set (am_timeline m).
        set (ate_evidence_ids e) \<subseteq> aev_evidence_id ` set (am_evidence m) \<and>
        set (ate_question_ids e) \<subseteq> aq_question_id ` set (am_questions m) \<and>
        set (ate_hypothesis_ids e) \<subseteq> ah_hypothesis_id ` set (am_hypotheses m)) \<and>
     (\<forall>g \<in> set (am_gaps m).
        set (agp_related_question_ids g) \<subseteq> aq_question_id ` set (am_questions m) \<and>
        set (agp_related_hypothesis_ids g) \<subseteq> ah_hypothesis_id ` set (am_hypotheses m))"

lemma validate_graph_closed: "validate_graph m = Inr m' \<Longrightarrow> m' = m \<and> graph_closed m"
  by (auto simp: validate_graph_def graph_closed_def res_simps question_refs_def hypothesis_refs_def
      relation_refs_def event_refs_def gap_refs_def)

text \<open>A manifest that was constructed with its parts.\<close>

definition constructed_manifest :: "research_atlas_manifest \<Rightarrow> bool" where
  "constructed_manifest m \<longleftrightarrow>
     validate_manifest m = Inr m \<and>
     (\<forall>q \<in> set (am_questions m). validate_question q = Inr q) \<and>
     (\<forall>h \<in> set (am_hypotheses m). validate_hypothesis h = Inr h) \<and>
     (\<forall>r \<in> set (am_relations m). validate_relation r = Inr r) \<and>
     (\<forall>e \<in> set (am_timeline m). validate_timeline_event e = Inr e) \<and>
     (\<forall>g \<in> set (am_gaps m). validate_gap g = Inr g)"

lemma constructed_graph: "constructed_manifest m \<Longrightarrow> graph_closed m"
  unfolding constructed_manifest_def validate_manifest_def Let_def
  by (auto simp: res_simps dest: validate_graph_closed)

end
