(* ===== verification/Memory_Packet.thy ===== *)
theory Memory_Packet
  imports Atlas_Models
begin

text \<open>
  Compact memory packets (\<open>src/dithyramba/atlas/memory_packet.py\<close>, models): the route
  budgets, matches, traces and omissions, the content-addressed packet of schema 1.0 and
  its extension to schema 1.1, each with its payload and its validator.  The router that
  builds packets is in \<open>Task_Router\<close>.
\<close>

datatype route_status = ROUTED | NO_MATCH | BUDGET_EXCEEDED

definition route_status_value :: "route_status \<Rightarrow> string" where
  "route_status_value s =
     (case s of ROUTED \<Rightarrow> ''routed'' | NO_MATCH \<Rightarrow> ''no_match''
      | BUDGET_EXCEEDED \<Rightarrow> ''budget_exceeded'')"

datatype route_object_kind = QUESTION | HYPOTHESIS | RELATION | TIMELINE | GAP

definition route_object_kind_value :: "route_object_kind \<Rightarrow> string" where
  "route_object_kind_value k =
     (case k of route_object_kind.QUESTION \<Rightarrow> ''question''
      | route_object_kind.HYPOTHESIS \<Rightarrow> ''hypothesis'' | RELATION \<Rightarrow> ''relation''
      | TIMELINE \<Rightarrow> ''timeline'' | GAP \<Rightarrow> ''gap'')"

datatype route_candidate_channel = SEMANTIC | LEXICAL

definition channel_value :: "route_candidate_channel \<Rightarrow> string" where
  "channel_value c = (case c of SEMANTIC \<Rightarrow> ''semantic'' | LEXICAL \<Rightarrow> ''lexical'')"

datatype route_trace_stage = SEED | GRAPH_EXPANSION

definition trace_stage_value :: "route_trace_stage \<Rightarrow> string" where
  "trace_stage_value s = (case s of SEED \<Rightarrow> ''seed'' | GRAPH_EXPANSION \<Rightarrow> ''graph_expansion'')"

datatype route_omission_reason =
    QUESTION_BUDGET | HYPOTHESIS_BUDGET | RELATION_BUDGET | TIMELINE_BUDGET | GAP_BUDGET
  | EVIDENCE_BUDGET | SOURCE_BUDGET | REFERENCE_BUDGET

definition omission_reason_value :: "route_omission_reason \<Rightarrow> string" where
  "omission_reason_value r =
     (case r of QUESTION_BUDGET \<Rightarrow> ''question_budget'' | HYPOTHESIS_BUDGET \<Rightarrow> ''hypothesis_budget''
      | RELATION_BUDGET \<Rightarrow> ''relation_budget'' | TIMELINE_BUDGET \<Rightarrow> ''timeline_budget''
      | GAP_BUDGET \<Rightarrow> ''gap_budget'' | EVIDENCE_BUDGET \<Rightarrow> ''evidence_budget''
      | SOURCE_BUDGET \<Rightarrow> ''source_budget'' | REFERENCE_BUDGET \<Rightarrow> ''reference_budget'')"

subsection \<open>Canonical \<open>float.hex\<close> texts\<close>

text \<open>
  \<open>float.hex\<close> writes a finite binary64 number as a sign, \<open>0x1.\<close> and 13 hexadecimal digits
  for a normal number with exponent between -1022 and 1023, \<open>0x0.\<close> and 13 digits with
  exponent -1022 for a subnormal one, and \<open>0x0.0p+0\<close> for zero.  A text passes
  \<open>_require_float_hex\<close> exactly when \<open>float.hex\<close> can have written it.  The value is in
  units of the smallest subnormal, two to the power -1074, so it is an integer.
\<close>

definition hex_digit_value :: "char \<Rightarrow> nat" where
  "hex_digit_value c = length (takeWhile (\<lambda>d. d \<noteq> c) hexdigits)"

definition hex_text_value :: "string \<Rightarrow> nat" where
  "hex_text_value s = foldl (\<lambda>n c. 16 * n + hex_digit_value c) 0 s"

definition decimal_value :: "string \<Rightarrow> nat" where
  "decimal_value s = foldl (\<lambda>n c. 10 * n + hex_digit_value c) 0 s"

definition exponent_value :: "string \<Rightarrow> int option" where
  "exponent_value s =
     (case s of
        sg # ds \<Rightarrow>
          let v = decimal_value ds
          in if sg \<in> {CHR ''+'', CHR ''-''} \<and> length ds \<le> 4 \<and> nat_repr v = ds \<and>
                \<not> (sg = CHR ''-'' \<and> v = 0)
             then Some (if sg = CHR ''-'' then - int v else int v) else None
      | [] \<Rightarrow> None)"

definition unsigned_float_hex :: "string \<Rightarrow> int option" where
  "unsigned_float_hex s =
     (if s = ''0x0.0p+0'' then Some 0
      else
        let lead = take 4 s; mant = take 13 (drop 4 s); rest = drop 17 s
        in if \<not> matches_hex 13 mant \<or> take 1 rest \<noteq> ''p'' then None
           else
             (case exponent_value (drop 1 rest) of
                None \<Rightarrow> None
              | Some e \<Rightarrow>
                  if lead = ''0x1.'' \<and> -1022 \<le> e \<and> e \<le> 1023
                  then Some ((2 ^ 52 + int (hex_text_value mant)) * 2 ^ nat (e + 1022))
                  else if lead = ''0x0.'' \<and> e = -1022 \<and> hex_text_value mant \<noteq> 0
                  then Some (int (hex_text_value mant))
                  else None))"

definition float_hex_value :: "string \<Rightarrow> int option" where
  "float_hex_value s =
     (case s of
        c # cs \<Rightarrow> if c = CHR ''-'' then map_option uminus (unsigned_float_hex cs) else unsigned_float_hex s
      | [] \<Rightarrow> None)"

text \<open>
  The three failures of the parse (syntax, infinity, non-canonical spelling) are one
  error value here; each of them refuses the text.
\<close>

definition require_float_hex :: "string \<Rightarrow> string \<Rightarrow> int res" where
  "require_float_hex value label =
     (case float_hex_value value of
        None \<Rightarrow> Inl (ValueError (label @ '' must use the exact canonical float.hex representation''))
      | Some v \<Rightarrow> Inr v)"

subsection \<open>Route records\<close>

record route_limits =
  rl_max_questions :: int
  rl_max_hypotheses :: int
  rl_max_timeline_events :: int
  rl_max_gaps :: int

definition validate_limits :: "route_limits \<Rightarrow> route_limits res" where
  "validate_limits l =
     validated
       [int_field ''max_questions'' 1 20 (rl_max_questions l),
        int_field ''max_hypotheses'' 0 12 (rl_max_hypotheses l),
        int_field ''max_timeline_events'' 0 20 (rl_max_timeline_events l),
        int_field ''max_gaps'' 0 12 (rl_max_gaps l)]
       (Inr l)"

definition default_limits :: route_limits where
  "default_limits =
     \<lparr>rl_max_questions = 4, rl_max_hypotheses = 3, rl_max_timeline_events = 4, rl_max_gaps = 3\<rparr>"

record route_match =
  rm_object_kind :: route_object_kind
  rm_object_id :: string
  rm_score :: int
  rm_matched_terms :: "string list"

definition validate_route_match :: "route_match \<Rightarrow> route_match res" where
  "validate_route_match raw =
     (let m = raw\<lparr>rm_object_id := model_strip (rm_object_id raw),
                  rm_matched_terms := map model_strip (rm_matched_terms raw)\<rparr>
      in validated
           [pattern_field ''object_id'' (model_id_pattern (rm_object_id m)),
            at_least ''score'' 1 (rm_score m),
            list_field ''matched_terms'' 1 64 (rm_matched_terms m)]
           (Inr m))"

definition route_match_dump :: "route_match \<Rightarrow> json" where
  "route_match_dump m =
     JObj
       [(''object_kind'', JStr (route_object_kind_value (rm_object_kind m))),
        (''object_id'', JStr (rm_object_id m)), (''score'', JInt (rm_score m)),
        (''matched_terms'', json_strs (rm_matched_terms m))]"

record route_budget =
  rb_max_questions :: int
  rb_max_linked_hypotheses :: int
  rb_max_relations :: int
  rb_max_timeline_events :: int
  rb_max_gaps :: int
  rb_max_evidence :: int
  rb_max_sources :: int

definition validate_budget :: "route_budget \<Rightarrow> route_budget res" where
  "validate_budget b =
     validated
       [int_field ''max_questions'' 0 100 (rb_max_questions b),
        int_field ''max_linked_hypotheses'' 0 100 (rb_max_linked_hypotheses b),
        int_field ''max_relations'' 0 200 (rb_max_relations b),
        int_field ''max_timeline_events'' 0 200 (rb_max_timeline_events b),
        int_field ''max_gaps'' 0 100 (rb_max_gaps b),
        int_field ''max_evidence'' 0 1000 (rb_max_evidence b),
        int_field ''max_sources'' 0 200 (rb_max_sources b)]
       (Inr b)"

definition budget_dump :: "route_budget \<Rightarrow> json" where
  "budget_dump b =
     JObj
       [(''max_questions'', JInt (rb_max_questions b)),
        (''max_linked_hypotheses'', JInt (rb_max_linked_hypotheses b)),
        (''max_relations'', JInt (rb_max_relations b)),
        (''max_timeline_events'', JInt (rb_max_timeline_events b)),
        (''max_gaps'', JInt (rb_max_gaps b)), (''max_evidence'', JInt (rb_max_evidence b)),
        (''max_sources'', JInt (rb_max_sources b))]"

record route_trace_entry =
  rt_stage :: route_trace_stage
  rt_object_kind :: route_object_kind
  rt_object_id :: string
  rt_channel :: "route_candidate_channel option"
  rt_channel_rank :: "int option"
  rt_semantic_score_hex :: "string option"
  rt_lexical_score :: "int option"
  rt_parent_object_kind :: "route_object_kind option"
  rt_parent_object_id :: "string option"

definition seed_channel_check :: "route_trace_entry \<Rightarrow> unit res" where
  "seed_channel_check e =
     (if rt_channel e = Some SEMANTIC
      then
        (case rt_semantic_score_hex e of
           Some h \<Rightarrow>
             if rt_lexical_score e \<noteq> None
             then Inl (ValueError ''semantic seeds require only an exact semantic score'')
             else res_bind (require_float_hex h ''semantic score'') (\<lambda>_. Inr ())
         | None \<Rightarrow> Inl (ValueError ''semantic seeds require only an exact semantic score''))
      else if rt_lexical_score e = None \<or> rt_semantic_score_hex e \<noteq> None
      then Inl (ValueError ''lexical seeds require only an integer lexical score'')
      else Inr ())"

definition trace_entry_validator :: "route_trace_entry \<Rightarrow> route_trace_entry res" where
  "trace_entry_validator e =
     (if rt_stage e = SEED
      then
        if rt_object_kind e \<noteq> route_object_kind.QUESTION
        then Inl (ValueError ''route seeds must be questions'')
        else if rt_channel e = None \<or> rt_channel_rank e = None
        then Inl (ValueError ''route seeds require explicit channel lineage and rank'')
        else if rt_parent_object_kind e \<noteq> None \<or> rt_parent_object_id e \<noteq> None
        then Inl (ValueError ''route seeds cannot declare a graph-expansion parent'')
        else res_bind (seed_channel_check e) (\<lambda>_. Inr e)
      else if rt_channel e \<noteq> None \<or> rt_channel_rank e \<noteq> None \<or> rt_semantic_score_hex e \<noteq> None \<or>
        rt_lexical_score e \<noteq> None
      then Inl (ValueError ''graph expansion cannot carry a seed channel score'')
      else if rt_parent_object_kind e = None \<or> rt_parent_object_id e = None
      then Inl (ValueError ''graph expansion requires an explicit parent object'')
      else Inr e)"

definition validate_trace_entry :: "route_trace_entry \<Rightarrow> route_trace_entry res" where
  "validate_trace_entry raw =
     (let e = raw\<lparr>rt_object_id := model_strip (rt_object_id raw),
                  rt_semantic_score_hex := map_option model_strip (rt_semantic_score_hex raw),
                  rt_parent_object_id := map_option model_strip (rt_parent_object_id raw)\<rparr>
      in validated
           [pattern_field ''object_id'' (model_id_pattern (rt_object_id e)),
            opt_field (int_field ''channel_rank'' 1 1000) (rt_channel_rank e),
            opt_field (text_field ''semantic_score_hex'' 1 32) (rt_semantic_score_hex e),
            opt_field (int_field ''lexical_score'' 1 1000000) (rt_lexical_score e),
            opt_field (pattern_field ''parent_object_id'' \<circ> model_id_pattern) (rt_parent_object_id e)]
           (trace_entry_validator e))"

definition json_opt_int :: "int option \<Rightarrow> json" where
  "json_opt_int v = (case v of None \<Rightarrow> JNull | Some i \<Rightarrow> JInt i)"

definition trace_entry_dump :: "route_trace_entry \<Rightarrow> json" where
  "trace_entry_dump e =
     JObj
       [(''stage'', JStr (trace_stage_value (rt_stage e))),
        (''object_kind'', JStr (route_object_kind_value (rt_object_kind e))),
        (''object_id'', JStr (rt_object_id e)),
        (''channel'', json_opt (map_option channel_value (rt_channel e))),
        (''channel_rank'', json_opt_int (rt_channel_rank e)),
        (''semantic_score_hex'', json_opt (rt_semantic_score_hex e)),
        (''lexical_score'', json_opt_int (rt_lexical_score e)),
        (''parent_object_kind'', json_opt (map_option route_object_kind_value (rt_parent_object_kind e))),
        (''parent_object_id'', json_opt (rt_parent_object_id e))]"

record route_omission =
  ro_object_kind :: route_object_kind
  ro_object_id :: string
  ro_reason :: route_omission_reason

definition validate_omission :: "route_omission \<Rightarrow> route_omission res" where
  "validate_omission raw =
     (let r = raw\<lparr>ro_object_id := model_strip (ro_object_id raw)\<rparr>
      in validated [pattern_field ''object_id'' (model_id_pattern (ro_object_id r))] (Inr r))"

definition omission_dump :: "route_omission \<Rightarrow> json" where
  "omission_dump r =
     JObj
       [(''object_kind'', JStr (route_object_kind_value (ro_object_kind r))),
        (''object_id'', JStr (ro_object_id r)),
        (''reason'', JStr (omission_reason_value (ro_reason r)))]"

subsection \<open>Packet, schema 1.0\<close>

record compact_memory_packet =
  cmp_schema_id :: string
  cmp_packet_id :: string
  cmp_packet_hash :: string
  cmp_router_profile :: string
  cmp_route_status :: route_status
  cmp_query :: string
  cmp_query_terms :: "string list"
  cmp_atlas_id :: string
  cmp_case_id :: string
  cmp_manifest_hash :: string
  cmp_route_matches :: "route_match list"
  cmp_sources :: "atlas_source list"
  cmp_evidence :: "atlas_evidence list"
  cmp_questions :: "atlas_question list"
  cmp_hypotheses :: "atlas_hypothesis list"
  cmp_relations :: "atlas_relation list"
  cmp_timeline :: "atlas_timeline_event list"
  cmp_gaps :: "atlas_gap list"

definition packet_schema :: string where
  "packet_schema = ''dithyramba.compact_memory_packet/1.0''"

text \<open>Questions and hypotheses are dumped without their trace spans.\<close>

definition packet_fields :: "'x compact_memory_packet_scheme \<Rightarrow> (string \<times> json) list" where
  "packet_fields p =
     [(''schema_id'', JStr (cmp_schema_id p)),
      (''router_profile'', JStr (cmp_router_profile p)),
      (''route_status'', JStr (route_status_value (cmp_route_status p))),
      (''query'', JStr (cmp_query p)), (''query_terms'', json_strs (cmp_query_terms p)),
      (''atlas_id'', JStr (cmp_atlas_id p)), (''case_id'', JStr (cmp_case_id p)),
      (''manifest_hash'', JStr (cmp_manifest_hash p)),
      (''route_matches'', JList (map route_match_dump (cmp_route_matches p))),
      (''sources'', JList (map source_dump (cmp_sources p))),
      (''evidence'', JList (map evidence_dump (cmp_evidence p))),
      (''questions'',
         JList (map (\<lambda>q. question_dump (q\<lparr>aq_trace_spans := []\<rparr>)) (cmp_questions p))),
      (''hypotheses'',
         JList (map (\<lambda>h. hypothesis_dump (h\<lparr>ah_trace_spans := []\<rparr>)) (cmp_hypotheses p))),
      (''relations'', JList (map relation_dump (cmp_relations p))),
      (''timeline'', JList (map timeline_event_dump (cmp_timeline p))),
      (''gaps'', JList (map gap_dump (cmp_gaps p)))]"

definition packet_payload :: "compact_memory_packet \<Rightarrow> json" where
  "packet_payload p = JObj (packet_fields p)"

definition packet_ids :: "string list \<Rightarrow> string \<Rightarrow> string list res" where
  "packet_ids vals label =
     (if has_duplicates vals
      then Inl (ValueError (''compact packet '' @ label @ '' identifiers must be unique''))
      else Inr vals)"

definition require_refs :: "string list \<Rightarrow> string list \<Rightarrow> string \<Rightarrow> unit res" where
  "require_refs vals valid label =
     (let missing = missing_ids vals valid
      in if missing \<noteq> []
         then Inl (ValueError (''compact packet '' @ label @ '' references missing IDs: '' @
                join '', '' missing))
         else Inr ())"

lemma packet_ids_Inr [res_simps]: "packet_ids vals label = Inr ys \<longleftrightarrow> distinct vals \<and> ys = vals"
  by (auto simp: packet_ids_def)

lemma require_refs_Inr [res_simps]: "require_refs vals valid label = Inr u \<longleftrightarrow> set vals \<subseteq> set valid"
  by (simp add: require_refs_def Let_def)

definition packet_references :: "'x compact_memory_packet_scheme \<Rightarrow> unit res" where
  "packet_references p =
     res_bind (packet_ids (map aso_source_id (cmp_sources p)) ''source'') (\<lambda>sids.
     res_bind (packet_ids (map aev_evidence_id (cmp_evidence p)) ''evidence'') (\<lambda>eids.
     res_bind (packet_ids (map aq_question_id (cmp_questions p)) ''question'') (\<lambda>qids.
     res_bind (packet_ids (map ah_hypothesis_id (cmp_hypotheses p)) ''hypothesis'') (\<lambda>hids.
     res_bind (for_each (\<lambda>e. require_refs [aev_source_id e] sids ''evidence source'')
       (cmp_evidence p)) (\<lambda>_.
     res_bind (for_each (\<lambda>q. require_refs (aq_evidence_ids q) eids ''question evidence'')
       (cmp_questions p)) (\<lambda>_.
     res_bind (for_each (\<lambda>h.
       res_bind (require_refs (ah_evidence_ids h) eids ''hypothesis evidence'') (\<lambda>_.
       res_bind (require_refs (ah_counterevidence_ids h) eids ''hypothesis counterevidence'') (\<lambda>_.
       require_refs (ah_question_ids h) qids ''hypothesis question''))) (cmp_hypotheses p)) (\<lambda>_.
     res_bind (for_each (\<lambda>r.
       res_bind (require_refs [arl_source_hypothesis_id r, arl_target_hypothesis_id r] hids
         ''relation hypothesis'') (\<lambda>_.
       require_refs (arl_evidence_ids r) eids ''relation evidence'')) (cmp_relations p)) (\<lambda>_.
     res_bind (for_each (\<lambda>e.
       res_bind (require_refs (ate_evidence_ids e) eids ''timeline evidence'') (\<lambda>_.
       res_bind (require_refs (ate_question_ids e) qids ''timeline question'') (\<lambda>_.
       require_refs (ate_hypothesis_ids e) hids ''timeline hypothesis''))) (cmp_timeline p)) (\<lambda>_.
     for_each (\<lambda>g.
       res_bind (require_refs (agp_related_question_ids g) qids ''gap question'') (\<lambda>_.
       require_refs (agp_related_hypothesis_ids g) hids ''gap hypothesis'')) (cmp_gaps p))))))))))"

definition packet_empty :: "'x compact_memory_packet_scheme \<Rightarrow> bool" where
  "packet_empty p \<longleftrightarrow>
     cmp_sources p = [] \<and> cmp_evidence p = [] \<and> cmp_questions p = [] \<and> cmp_hypotheses p = [] \<and>
     cmp_timeline p = [] \<and> cmp_gaps p = []"

definition packet_v10_status :: "'x compact_memory_packet_scheme \<Rightarrow> unit res" where
  "packet_v10_status p =
     (if cmp_schema_id p \<noteq> packet_schema then Inr ()
      else if cmp_route_status p = BUDGET_EXCEEDED
      then Inl (ValueError ''budget_exceeded is not valid in compact packet schema 1.0'')
      else if list_ex (\<lambda>m. rm_object_kind m = RELATION) (cmp_route_matches p)
      then Inl (ValueError ''relation route matches are not valid in compact packet schema 1.0'')
      else if cmp_route_status p = NO_MATCH \<and> \<not> packet_empty p
      then Inl (ValueError ''no_match packets must not contain routed memory'')
      else if cmp_route_status p = ROUTED \<and> (packet_empty p \<or> cmp_route_matches p = [])
      then Inl (ValueError ''routed packets require memory and route matches'')
      else Inr ())"

text \<open>\<open>validate_packet\<close>, with the \<open>SCHEMA\<close> and the \<open>semantic_payload\<close> of the class it runs in.\<close>

definition packet_validator :: "string \<Rightarrow> json \<Rightarrow> 'x compact_memory_packet_scheme \<Rightarrow> unit res" where
  "packet_validator schema payload p =
     (if cmp_schema_id p \<noteq> schema then Inl (ValueError (''schema_id must be '' @ schema))
      else if list_ex (\<lambda>q. aq_trace_spans q \<noteq> []) (cmp_questions p) \<or>
        list_ex (\<lambda>h. ah_trace_spans h \<noteq> []) (cmp_hypotheses p)
      then Inl (ValueError ''compact packet schemas 1.0 and 1.1 cannot carry Atlas trace spans'')
      else if cmp_packet_id p \<noteq> canonical_content_id ''memory_packet'' payload
      then Inl (ValueError ''packet_id does not match the canonical packet content'')
      else if cmp_packet_hash p \<noteq> canonical_sha256_hex payload
      then Inl (ValueError ''packet_hash does not match the canonical packet content'')
      else res_bind (packet_references p) (\<lambda>_. packet_v10_status p))"

definition packet_field_checks :: "'x compact_memory_packet_scheme \<Rightarrow> unit res list" where
  "packet_field_checks p =
     [pattern_field ''packet_id'' (matches_prefixed_hex ''memory_packet_'' 32 (cmp_packet_id p)),
      pattern_field ''packet_hash'' (matches_hex 64 (cmp_packet_hash p)),
      text_field ''query'' 1 4000 (cmp_query p),
      list_field ''query_terms'' 0 128 (cmp_query_terms p),
      pattern_field ''atlas_id'' (model_id_pattern (cmp_atlas_id p)),
      pattern_field ''case_id'' (model_id_pattern (cmp_case_id p)),
      pattern_field ''manifest_hash'' (matches_hex 64 (cmp_manifest_hash p)),
      list_field ''route_matches'' 0 100 (cmp_route_matches p),
      list_field ''sources'' 0 200 (cmp_sources p),
      list_field ''evidence'' 0 1000 (cmp_evidence p),
      list_field ''questions'' 0 100 (cmp_questions p),
      list_field ''hypotheses'' 0 100 (cmp_hypotheses p),
      list_field ''relations'' 0 200 (cmp_relations p),
      list_field ''timeline'' 0 200 (cmp_timeline p),
      list_field ''gaps'' 0 100 (cmp_gaps p)]"

definition strip_packet :: "'x compact_memory_packet_scheme \<Rightarrow> 'x compact_memory_packet_scheme" where
  "strip_packet p =
     p\<lparr>cmp_schema_id := model_strip (cmp_schema_id p), cmp_packet_id := model_strip (cmp_packet_id p),
       cmp_packet_hash := model_strip (cmp_packet_hash p),
       cmp_router_profile := model_strip (cmp_router_profile p),
       cmp_query := model_strip (cmp_query p),
       cmp_query_terms := map model_strip (cmp_query_terms p),
       cmp_atlas_id := model_strip (cmp_atlas_id p), cmp_case_id := model_strip (cmp_case_id p),
       cmp_manifest_hash := model_strip (cmp_manifest_hash p)\<rparr>"

definition validate_packet :: "compact_memory_packet \<Rightarrow> compact_memory_packet res" where
  "validate_packet raw =
     (let p = strip_packet raw
      in validated (packet_field_checks p)
           (res_bind (packet_validator packet_schema (packet_payload p) p) (\<lambda>_. Inr p)))"

subsection \<open>Packet, schema 1.1\<close>

record compact_memory_packet_v1_1 = compact_memory_packet +
  cmp_route_receipt_id :: string
  cmp_route_receipt_hash :: string
  cmp_route_budget :: route_budget
  cmp_route_trace :: "route_trace_entry list"
  cmp_omissions :: "route_omission list"

definition packet_v1_1_schema :: string where
  "packet_v1_1_schema = ''dithyramba.compact_memory_packet/1.1''"

definition packet_v1_1_payload :: "compact_memory_packet_v1_1 \<Rightarrow> json" where
  "packet_v1_1_payload p =
     JObj
       (packet_fields p @
        [(''route_receipt_id'', JStr (cmp_route_receipt_id p)),
         (''route_receipt_hash'', JStr (cmp_route_receipt_hash p)),
         (''route_budget'', budget_dump (cmp_route_budget p)),
         (''route_trace'', JList (map trace_entry_dump (cmp_route_trace p))),
         (''omissions'', JList (map omission_dump (cmp_omissions p)))])"

definition trace_key :: "route_trace_entry \<Rightarrow> route_object_kind \<times> string" where
  "trace_key e = (rt_object_kind e, rt_object_id e)"

definition omission_key :: "route_omission \<Rightarrow> route_object_kind \<times> string" where
  "omission_key r = (ro_object_kind r, ro_object_id r)"

definition expected_trace_keys :: "'x compact_memory_packet_scheme \<Rightarrow> (route_object_kind \<times> string) list" where
  "expected_trace_keys p =
     map (\<lambda>q. (route_object_kind.QUESTION, aq_question_id q)) (cmp_questions p) @
     map (\<lambda>h. (route_object_kind.HYPOTHESIS, ah_hypothesis_id h)) (cmp_hypotheses p) @
     map (\<lambda>r. (RELATION, arl_relation_id r)) (cmp_relations p) @
     map (\<lambda>e. (TIMELINE, ate_event_id e)) (cmp_timeline p) @
     map (\<lambda>g. (GAP, agp_gap_id g)) (cmp_gaps p)"

text \<open>The loop over the trace with the set of admitted keys.\<close>

definition trace_parent :: "route_trace_entry \<Rightarrow> (route_object_kind \<times> string) option" where
  "trace_parent e =
     (case (rt_parent_object_kind e, rt_parent_object_id e) of
        (Some k, Some i) \<Rightarrow> Some (k, i) | _ \<Rightarrow> None)"

fun trace_parents_loop ::
  "(route_object_kind \<times> string) set \<Rightarrow> route_trace_entry list \<Rightarrow> unit res" where
  "trace_parents_loop admitted [] = Inr ()"
| "trace_parents_loop admitted (e # es) =
     (if rt_stage e = GRAPH_EXPANSION \<and>
        (case trace_parent e of None \<Rightarrow> True | Some k \<Rightarrow> k \<notin> admitted)
      then Inl (ValueError ''graph-expansion trace parents must precede their admitted children'')
      else trace_parents_loop (insert (trace_key e) admitted) es)"

definition budget_counts :: "compact_memory_packet_v1_1 \<Rightarrow> (int \<times> int \<times> string) list" where
  "budget_counts p =
     (let b = cmp_route_budget p
      in [(int (length (cmp_questions p)), rb_max_questions b, ''question''),
          (int (length (cmp_hypotheses p)), rb_max_linked_hypotheses b, ''hypothesis''),
          (int (length (cmp_relations p)), rb_max_relations b, ''relation''),
          (int (length (cmp_timeline p)), rb_max_timeline_events b, ''timeline''),
          (int (length (cmp_gaps p)), rb_max_gaps b, ''gap''),
          (int (length (cmp_evidence p)), rb_max_evidence b, ''evidence''),
          (int (length (cmp_sources p)), rb_max_sources b, ''source'')])"

definition packet_v1_1_empty :: "'x compact_memory_packet_scheme \<Rightarrow> bool" where
  "packet_v1_1_empty p \<longleftrightarrow> packet_empty p \<and> cmp_relations p = []"

definition packet_v1_1_status :: "compact_memory_packet_v1_1 \<Rightarrow> unit res" where
  "packet_v1_1_status p =
     (let seeds = filter (\<lambda>e. rt_stage e = SEED) (cmp_route_trace p)
      in case cmp_route_status p of
           ROUTED \<Rightarrow>
             if packet_v1_1_empty p \<or> seeds = []
             then Inl (ValueError ''routed schema 1.1 packets require an admitted seed'')
             else Inr ()
         | NO_MATCH \<Rightarrow>
             if \<not> packet_v1_1_empty p \<or> cmp_route_trace p \<noteq> [] \<or> cmp_omissions p \<noteq> []
             then Inl (ValueError ''no_match schema 1.1 packets must be empty without omissions'')
             else Inr ()
         | BUDGET_EXCEEDED \<Rightarrow>
             if \<not> packet_v1_1_empty p \<or> cmp_route_trace p \<noteq> [] \<or> cmp_omissions p = []
             then Inl (ValueError
               ''budget_exceeded schema 1.1 packets must be empty with explicit omissions'')
             else Inr ())"

definition packet_v1_1_validator :: "compact_memory_packet_v1_1 \<Rightarrow> unit res" where
  "packet_v1_1_validator p =
     (let trace_keys = map trace_key (cmp_route_trace p);
          omission_keys = map omission_key (cmp_omissions p)
      in if cmp_schema_id p \<noteq> packet_v1_1_schema
         then Inl (ValueError (''schema_id must be '' @ packet_v1_1_schema))
         else if cmp_route_receipt_id p \<noteq> ''route_candidate_receipt_'' @ take 32 (cmp_route_receipt_hash p)
         then Inl (ValueError ''route receipt ID/hash binding is inconsistent'')
         else if cmp_route_matches p \<noteq> []
         then Inl (ValueError ''schema 1.1 uses route_trace instead of legacy route_matches'')
         else if has_duplicates trace_keys
         then Inl (ValueError ''route_trace object entries must be unique'')
         else if has_duplicates omission_keys
         then Inl (ValueError ''route omissions must be unique'')
         else if list_ex (\<lambda>k. k \<in> set omission_keys) trace_keys
         then Inl (ValueError ''one route object cannot be both admitted and omitted'')
         else if set trace_keys \<noteq> set (expected_trace_keys p)
         then Inl (ValueError ''route_trace must exactly cover every admitted graph object'')
         else res_bind (trace_parents_loop {} (cmp_route_trace p)) (\<lambda>_.
           res_bind (for_each (\<lambda>(actual, maximum, label).
             guard_res (actual \<le> maximum)
               (ValueError (''schema 1.1 '' @ label @ '' closure exceeds its route budget'')))
             (budget_counts p)) (\<lambda>_.
           packet_v1_1_status p)))"

definition strip_packet_v1_1 :: "compact_memory_packet_v1_1 \<Rightarrow> compact_memory_packet_v1_1" where
  "strip_packet_v1_1 p =
     (strip_packet p)\<lparr>cmp_route_receipt_id := model_strip (cmp_route_receipt_id p),
       cmp_route_receipt_hash := model_strip (cmp_route_receipt_hash p)\<rparr>"

definition validate_packet_v1_1 :: "compact_memory_packet_v1_1 \<Rightarrow> compact_memory_packet_v1_1 res" where
  "validate_packet_v1_1 raw =
     (let p = strip_packet_v1_1 raw
      in validated
           (packet_field_checks p @
            [pattern_field ''route_receipt_id''
               (matches_prefixed_hex ''route_candidate_receipt_'' 32 (cmp_route_receipt_id p)),
             pattern_field ''route_receipt_hash'' (matches_hex 64 (cmp_route_receipt_hash p)),
             list_field ''route_trace'' 0 700 (cmp_route_trace p),
             list_field ''omissions'' 0 11000 (cmp_omissions p)])
           (res_bind (packet_validator packet_v1_1_schema (packet_v1_1_payload p) p) (\<lambda>_.
            res_bind (packet_v1_1_validator p) (\<lambda>_. Inr p))))"

end
