(* ===== verification/Answers.thy ===== *)
theory Answers
  imports Memory_Packet Markdown_Parser
begin

text \<open>
  Research answers (\<open>src/dithyramba/answers\<close>): the answer schema and the proof-binding gate
  (\<open>contracts.py\<close>) and the required-facet coverage gate (\<open>coverage.py\<close>).
\<close>

subsection \<open>Answer schema\<close>

datatype answer_status = SUPPORTED | QUALIFIED | INSUFFICIENT

definition answer_status_value :: "answer_status \<Rightarrow> string" where
  "answer_status_value s =
     (case s of answer_status.SUPPORTED \<Rightarrow> ''supported'' | answer_status.QUALIFIED \<Rightarrow> ''qualified''
      | INSUFFICIENT \<Rightarrow> ''insufficient'')"

datatype claim_state = SUPPORTED | QUALIFIED | INFERENCE

definition claim_state_value :: "claim_state \<Rightarrow> string" where
  "claim_state_value s =
     (case s of claim_state.SUPPORTED \<Rightarrow> ''supported'' | claim_state.QUALIFIED \<Rightarrow> ''qualified''
      | INFERENCE \<Rightarrow> ''inference'')"

record answer_route_receipt =
  arr_packet_id :: string
  arr_packet_hash :: string

definition validate_route_receipt :: "answer_route_receipt \<Rightarrow> answer_route_receipt res" where
  "validate_route_receipt raw =
     (let r = \<lparr>arr_packet_id = model_strip (arr_packet_id raw),
               arr_packet_hash = model_strip (arr_packet_hash raw)\<rparr>
      in validated
           [pattern_field ''packet_id'' (matches_prefixed_hex ''memory_packet_'' 32 (arr_packet_id r)),
            pattern_field ''packet_hash'' (matches_hex 64 (arr_packet_hash r))]
           (Inr r))"

record answer_citation =
  act_evidence_id :: string
  act_source_id :: string
  act_exact_quote :: string

definition validate_answer_citation :: "answer_citation \<Rightarrow> answer_citation res" where
  "validate_answer_citation raw =
     (let c = \<lparr>act_evidence_id = model_strip (act_evidence_id raw),
               act_source_id = model_strip (act_source_id raw),
               act_exact_quote = model_strip (act_exact_quote raw)\<rparr>
      in validated
           [pattern_field ''evidence_id'' (model_id_pattern (act_evidence_id c)),
            pattern_field ''source_id'' (model_id_pattern (act_source_id c)),
            text_field ''exact_quote'' 1 1000 (act_exact_quote c)]
           (Inr c))"

record answer_claim =
  acl_claim_id :: string
  acl_text :: string
  acl_status :: claim_state
  acl_evidence_ids :: "string list"

definition validate_answer_claim :: "answer_claim \<Rightarrow> answer_claim res" where
  "validate_answer_claim raw =
     (let c = raw\<lparr>acl_claim_id := model_strip (acl_claim_id raw), acl_text := model_strip (acl_text raw),
                  acl_evidence_ids := map model_strip (acl_evidence_ids raw)\<rparr>
      in validated
           [pattern_field ''claim_id'' (model_id_pattern (acl_claim_id c)),
            text_field ''text'' 1 4000 (acl_text c),
            list_field ''evidence_ids'' 1 24 (acl_evidence_ids c)]
           (Inr c))"

record answer_gap =
  ag_question :: string
  ag_why_it_matters :: string
  ag_next_evidence :: string

definition validate_answer_gap :: "answer_gap \<Rightarrow> answer_gap res" where
  "validate_answer_gap raw =
     (let g = \<lparr>ag_question = model_strip (ag_question raw),
               ag_why_it_matters = model_strip (ag_why_it_matters raw),
               ag_next_evidence = model_strip (ag_next_evidence raw)\<rparr>
      in validated
           [text_field ''question'' 1 2000 (ag_question g),
            text_field ''why_it_matters'' 1 2000 (ag_why_it_matters g),
            text_field ''next_evidence'' 1 2000 (ag_next_evidence g)]
           (Inr g))"

definition answer_gap_dump :: "answer_gap \<Rightarrow> json" where
  "answer_gap_dump g =
     JObj
       [(''question'', JStr (ag_question g)), (''why_it_matters'', JStr (ag_why_it_matters g)),
        (''next_evidence'', JStr (ag_next_evidence g))]"

record research_answer =
  ran_schema_id :: string
  ran_task_id :: string
  ran_route_receipt :: answer_route_receipt
  ran_status :: answer_status
  ran_short_answer :: string
  ran_claims :: "answer_claim list"
  ran_citations :: "answer_citation list"
  ran_limitations :: "string list"
  ran_open_gap :: "answer_gap option"

definition answer_schema :: string where
  "answer_schema = ''dithyramba.research_answer/1.0''"

text \<open>The loop over the claims: the identifiers used so far, or the first violation.\<close>

fun claims_loop :: "string list \<Rightarrow> string list \<Rightarrow> answer_claim list \<Rightarrow> string list res" where
  "claims_loop cited used [] = Inr used"
| "claims_loop cited used (c # cs) =
     (if has_duplicates (acl_evidence_ids c)
      then Inl (ValueError ''claim evidence_ids must be unique'')
      else
        let missing = missing_ids (acl_evidence_ids c) cited
        in if missing \<noteq> []
           then Inl (ValueError (''claim references uncited evidence: '' @ join '', '' missing))
           else claims_loop cited (used @ acl_evidence_ids c) cs)"

definition answer_shape :: "research_answer \<Rightarrow> research_answer res" where
  "answer_shape a =
     (let cited = map act_evidence_id (ran_citations a)
      in if ran_schema_id a \<noteq> answer_schema
         then Inl (ValueError (''schema_id must be '' @ answer_schema))
         else if has_duplicates (map acl_claim_id (ran_claims a))
         then Inl (ValueError ''claim_id values must be unique'')
         else if has_duplicates cited
         then Inl (ValueError ''one evidence_id may appear only once in citations'')
         else res_bind (claims_loop cited [] (ran_claims a)) (\<lambda>used.
           let unused = missing_ids cited used
           in if unused \<noteq> []
              then Inl (ValueError (''citations must support a claim: '' @ join '', '' unused))
              else if has_duplicates (ran_limitations a)
              then Inl (ValueError ''limitations must be unique'')
              else if (case ran_open_gap a of None \<Rightarrow> False
                       | Some g \<Rightarrow> ag_question g \<in> set (ran_limitations a))
              then Inl (ValueError ''open_gap.question must not duplicate a limitation'')
              else if ran_status a = INSUFFICIENT \<and> ran_open_gap a = None
              then Inl (ValueError ''insufficient answers require an explicit open_gap'')
              else if ran_status a \<noteq> INSUFFICIENT \<and> (ran_claims a = [] \<or> ran_citations a = [])
              then Inl (ValueError ''supported and qualified answers require claims and citations'')
              else if ran_status a = answer_status.SUPPORTED \<and>
                \<not> list_ex (\<lambda>c. acl_status c = claim_state.SUPPORTED) (ran_claims a)
              then Inl (ValueError ''supported answer requires at least one supported claim'')
              else Inr a))"

definition validate_answer :: "research_answer \<Rightarrow> research_answer res" where
  "validate_answer raw =
     (let a = raw\<lparr>ran_schema_id := model_strip (ran_schema_id raw),
                  ran_task_id := model_strip (ran_task_id raw),
                  ran_short_answer := model_strip (ran_short_answer raw),
                  ran_limitations := map model_strip (ran_limitations raw)\<rparr>
      in validated
           [pattern_field ''task_id'' (task_id_pattern (ran_task_id a)),
            text_field ''short_answer'' 1 8000 (ran_short_answer a),
            list_field ''claims'' 0 64 (ran_claims a),
            list_field ''citations'' 0 64 (ran_citations a),
            list_field ''limitations'' 0 24 (ran_limitations a)]
           (answer_shape a))"

definition answer_payload :: "research_answer \<Rightarrow> json" where
  "answer_payload a =
     JObj
       [(''schema_id'', JStr (ran_schema_id a)), (''task_id'', JStr (ran_task_id a)),
        (''route_receipt'',
           JObj [(''packet_id'', JStr (arr_packet_id (ran_route_receipt a))),
                 (''packet_hash'', JStr (arr_packet_hash (ran_route_receipt a)))]),
        (''status'', JStr (answer_status_value (ran_status a))),
        (''short_answer'', JStr (ran_short_answer a)),
        (''claims'', JList (map (\<lambda>c.
           JObj [(''claim_id'', JStr (acl_claim_id c)), (''text'', JStr (acl_text c)),
                 (''status'', JStr (claim_state_value (acl_status c))),
                 (''evidence_ids'', json_strs (acl_evidence_ids c))]) (ran_claims a))),
        (''citations'', JList (map (\<lambda>c.
           JObj [(''evidence_id'', JStr (act_evidence_id c)), (''source_id'', JStr (act_source_id c)),
                 (''exact_quote'', JStr (act_exact_quote c))]) (ran_citations a))),
        (''limitations'', json_strs (ran_limitations a)),
        (''open_gap'', (case ran_open_gap a of None \<Rightarrow> JNull | Some g \<Rightarrow> answer_gap_dump g))]"

definition answer_id :: "research_answer \<Rightarrow> string" where
  "answer_id a = canonical_content_id ''research_answer'' (answer_payload a)"

definition answer_hash :: "research_answer \<Rightarrow> string" where
  "answer_hash a = canonical_sha256_hex (answer_payload a)"

subsection \<open>Proof-binding gate\<close>

datatype check_status = PASSED | FAILED | SKIPPED

record gate_check =
  gc_name :: string
  gc_status :: check_status
  gc_detail :: string

definition gate_check_name :: "string \<Rightarrow> bool" where
  "gate_check_name s = matches_head_rest lower_az (lower_az @ digits09 @ ''_'') 1 95 s"

definition make_gate_check :: "string \<Rightarrow> check_status \<Rightarrow> string \<Rightarrow> gate_check res" where
  "make_gate_check name status detail =
     (let c = \<lparr>gc_name = model_strip name, gc_status = status, gc_detail = model_strip detail\<rparr>
      in validated
           [pattern_field ''name'' (gate_check_name (gc_name c)),
            text_field ''detail'' 1 2000 (gc_detail c)]
           (Inr c))"

definition boolean_check :: "string \<Rightarrow> bool \<Rightarrow> string \<Rightarrow> string \<Rightarrow> gate_check res" where
  "boolean_check name condition passed failed =
     make_gate_check name (if condition then PASSED else FAILED) (if condition then passed else failed)"

definition errors_check :: "string \<Rightarrow> string list \<Rightarrow> string \<Rightarrow> gate_check res" where
  "errors_check name errors passed =
     make_gate_check name (if errors \<noteq> [] then FAILED else PASSED)
       (if errors \<noteq> [] then join ''; '' errors else passed)"

datatype answer_decision = ACCEPTED | REJECTED

record answer_contract_result =
  acr_decision :: answer_decision
  acr_answer_id :: "string option"
  acr_answer_hash :: "string option"
  acr_checks :: "gate_check list"
  acr_violations :: "string list"

definition validate_contract_result :: "answer_contract_result \<Rightarrow> answer_contract_result res" where
  "validate_contract_result raw =
     (let r = raw\<lparr>acr_answer_id := map_option model_strip (acr_answer_id raw),
                  acr_answer_hash := map_option model_strip (acr_answer_hash raw),
                  acr_violations := map model_strip (acr_violations raw)\<rparr>
      in validated
           [opt_field (pattern_field ''answer_id'' \<circ> matches_prefixed_hex ''research_answer_'' 32)
              (acr_answer_id r),
            opt_field (pattern_field ''answer_hash'' \<circ> matches_hex 64) (acr_answer_hash r),
            field ''checks'' ''length'' (acr_checks r \<noteq> [])]
           (Inr r))"

definition contract_result :: "gate_check list \<Rightarrow> research_answer option \<Rightarrow> answer_contract_result res" where
  "contract_result checks answer =
     (let violations = map gc_detail (filter (\<lambda>c. gc_status c = FAILED) checks);
          accepted = (violations = [])
      in validate_contract_result
           \<lparr>acr_decision = (if accepted then ACCEPTED else REJECTED),
            acr_answer_id = (if accepted then map_option answer_id answer else None),
            acr_answer_hash = (if accepted then map_option answer_hash answer else None),
            acr_checks = checks, acr_violations = violations\<rparr>)"

text \<open>
  The file system under the artifact root, as the gate sees the path of a source: it
  resolves outside the root, it is no regular file, its bytes are not UTF-8, or it has
  this text (after universal newlines).
\<close>

datatype artifact = ESCAPES | MISSING | UNDECODABLE | TEXT string

definition split_text_lines :: "string \<Rightarrow> string list" where
  "split_text_lines txt =
     map (\<lambda>l. if l \<noteq> [] \<and> line_break (last l) then butlast l else l) (split_lines txt)"

definition membership_error ::
  "'x compact_memory_packet_scheme \<Rightarrow> answer_citation \<Rightarrow> string list" where
  "membership_error packet c =
     (case dict_by aev_evidence_id (cmp_evidence packet) (act_evidence_id c) of
        None \<Rightarrow> [''unknown evidence '' @ act_evidence_id c]
      | Some e \<Rightarrow>
          if aev_source_id e \<noteq> act_source_id c
          then [act_evidence_id c @ '' belongs to '' @ aev_source_id e @ '', not '' @ act_source_id c]
          else [])"

text \<open>The checks of one citation against the text of its artifact.\<close>

definition fragment_errors ::
  "answer_citation \<Rightarrow> string \<Rightarrow> string \<Rightarrow> atlas_source_address \<Rightarrow> string \<Rightarrow> string list" where
  "fragment_errors c excerpt text_hash addr txt =
     (let file_lines = split_text_lines txt
      in if asa_line_end addr > int (length file_lines)
         then [act_evidence_id c @ '': bound source range is unavailable'']
         else
           let bound = join [newline]
             (drop (nat (asa_line_start addr - 1)) (take (nat (asa_line_end addr)) file_lines))
           in if sha256_hex (utf8 bound) \<noteq> text_hash
              then [act_evidence_id c @ '': bound source fragment has drifted'']
              else if \<not> contains bound excerpt
              then [act_evidence_id c @ '': accepted excerpt is outside its bound fragment'']
              else [])"

definition artifact_error ::
  "(string \<Rightarrow> artifact) \<Rightarrow> 'x compact_memory_packet_scheme \<Rightarrow> answer_citation \<Rightarrow> string list res" where
  "artifact_error root packet c =
     (case (dict_by aev_evidence_id (cmp_evidence packet) (act_evidence_id c),
            dict_by aso_source_id (cmp_sources packet) (act_source_id c)) of
        (Some e, Some s) \<Rightarrow>
          (case aev_excerpt e of
             None \<Rightarrow> Inr [act_evidence_id c @ '': quotation is not inside the accepted excerpt'']
           | Some excerpt \<Rightarrow>
               if \<not> contains excerpt (act_exact_quote c)
               then Inr [act_evidence_id c @ '': quotation is not inside the accepted excerpt'']
               else
                 (case (aev_fragment_text_sha256 e, aev_source_address e) of
                    (Some text_hash, Some addr) \<Rightarrow>
                      (case aso_artifact_path s of
                         None \<Rightarrow> Inr [act_source_id c @ '': local artifact path is absent'']
                       | Some path \<Rightarrow>
                           (case root path of
                              ESCAPES \<Rightarrow> Inr [act_source_id c @ '': artifact escapes the configured root'']
                            | MISSING \<Rightarrow> Inr [act_source_id c @ '': local artifact is missing'']
                            | UNDECODABLE \<Rightarrow> Inl (UnicodeDecodeError ''invalid utf-8'')
                            | TEXT txt \<Rightarrow> Inr (fragment_errors c excerpt text_hash addr txt)))
                  | _ \<Rightarrow> Inr [act_evidence_id c @ '': exact fragment binding is absent'']))
      | _ \<Rightarrow> Inr [])"

definition evaluate_answer ::
  "(string \<Rightarrow> artifact) \<Rightarrow> research_answer \<Rightarrow> string \<Rightarrow> 'x compact_memory_packet_scheme \<Rightarrow>
     answer_contract_result res" where
  "evaluate_answer root answer task_id packet =
     res_bind (make_gate_check ''schema'' PASSED ''Strict answer schema is valid.'') (\<lambda>schema.
     res_bind (boolean_check ''task_identity'' (ran_task_id answer = task_id)
       ''Answer task_id matches the frozen task.''
       ''Answer task_id does not match the frozen task.'') (\<lambda>task.
     res_bind (boolean_check ''route_receipt''
       (arr_packet_id (ran_route_receipt answer) = cmp_packet_id packet \<and>
        arr_packet_hash (ran_route_receipt answer) = cmp_packet_hash packet)
       ''Answer points to the exact compact packet.''
       ''Answer route receipt does not match the compact packet.'') (\<lambda>route.
     res_bind (errors_check ''packet_membership''
       (concat (map (membership_error packet) (ran_citations answer)))
       ''Every citation belongs to accepted evidence in the compact packet.'') (\<lambda>membership.
     res_bind (map_res (artifact_error root packet) (ran_citations answer)) (\<lambda>artifact_errors.
     res_bind (errors_check ''exact_local_evidence'' (concat artifact_errors)
       ''Every quotation and bound fragment is exact in its local source artifact.'') (\<lambda>local_evidence.
     contract_result [schema, task, route, membership, local_evidence] (Some answer)))))))"

text \<open>
  \<open>evaluate_payload\<close>; its first argument is the outcome of \<open>ResearchAnswer.model_validate\<close>:
  the answer, or the joined messages of the validation errors.
\<close>

definition evaluate_payload ::
  "(string \<Rightarrow> artifact) \<Rightarrow> string + research_answer \<Rightarrow> string \<Rightarrow> 'x compact_memory_packet_scheme \<Rightarrow>
     answer_contract_result res" where
  "evaluate_payload root parsed task_id packet =
     (case parsed of
        Inl detail \<Rightarrow>
          res_bind (make_gate_check ''schema'' FAILED detail) (\<lambda>c. contract_result [c] None)
      | Inr answer \<Rightarrow> evaluate_answer root answer task_id packet)"

end
