(* ===== verification/Answer_Coverage.thy ===== *)
theory Answer_Coverage
  imports Answers
begin

text \<open>
  Required-facet coverage of an answer (\<open>src/dithyramba/answers/coverage.py\<close>): the frozen
  specification of a task and the gate that counts the facets whose evidence the claims of
  the answer use.
\<close>

datatype facet_status = COVERED | MISSING

definition facet_status_value :: "facet_status \<Rightarrow> string" where
  "facet_status_value s = (case s of COVERED \<Rightarrow> ''covered'' | facet_status.MISSING \<Rightarrow> ''missing'')"

datatype coverage_decision = COMPLETE | INCOMPLETE

definition coverage_decision_value :: "coverage_decision \<Rightarrow> string" where
  "coverage_decision_value d = (case d of COMPLETE \<Rightarrow> ''complete'' | INCOMPLETE \<Rightarrow> ''incomplete'')"

subsection \<open>Specification\<close>

record required_facet =
  rf_facet_id :: string
  rf_label :: string
  rf_evidence_ids_any :: "string list"
  rf_min_evidence :: int

definition normalize_evidence_ids :: "string list \<Rightarrow> string list res" where
  "normalize_evidence_ids value =
     (if [] \<in> set value then Inl (ValueError ''facet evidence IDs must not be blank'')
      else if has_duplicates (sort value)
      then Inl (ValueError ''facet evidence IDs must be unique'')
      else Inr (sort value))"

definition facet_minimum :: "required_facet \<Rightarrow> required_facet res" where
  "facet_minimum f =
     (if rf_min_evidence f > int (length (rf_evidence_ids_any f))
      then Inl (ValueError ''min_evidence cannot exceed the facet evidence set'')
      else Inr f)"

definition validate_facet :: "required_facet \<Rightarrow> required_facet res" where
  "validate_facet raw =
     (let f = raw\<lparr>rf_facet_id := model_strip (rf_facet_id raw), rf_label := model_strip (rf_label raw),
                  rf_evidence_ids_any := map model_strip (rf_evidence_ids_any raw)\<rparr>
      in validated
           [pattern_field ''facet_id'' (model_id_pattern (rf_facet_id f)),
            text_field ''label'' 1 500 (rf_label f),
            list_field ''evidence_ids_any'' 1 24 (rf_evidence_ids_any f),
            int_field ''min_evidence'' 1 24 (rf_min_evidence f)]
           (res_bind (normalize_evidence_ids (rf_evidence_ids_any f)) (\<lambda>ids.
              facet_minimum (f\<lparr>rf_evidence_ids_any := ids\<rparr>))))"

record answer_coverage_spec =
  acs_schema_id :: string
  acs_task_id :: string
  acs_packet_id :: string
  acs_packet_hash :: string
  acs_allowed_statuses :: "answer_status list"
  acs_required_facets :: "required_facet list"
  acs_require_open_gap :: bool
  acs_min_cited_sources :: int

definition coverage_spec_schema :: string where
  "coverage_spec_schema = ''dithyramba.answer_coverage_spec/1.0''"

definition normalize_statuses :: "answer_status list \<Rightarrow> answer_status list res" where
  "normalize_statuses value =
     (let normalized = sort_key answer_status_value value
      in if has_duplicates normalized
         then Inl (ValueError ''allowed_statuses must be unique'') else Inr normalized)"

definition coverage_spec_validator :: "answer_coverage_spec \<Rightarrow> answer_coverage_spec res" where
  "coverage_spec_validator s =
     (if acs_schema_id s \<noteq> coverage_spec_schema
      then Inl (ValueError (''schema_id must be '' @ coverage_spec_schema))
      else if has_duplicates (map rf_facet_id (acs_required_facets s))
      then Inl (ValueError ''facet_id values must be unique'')
      else Inr s)"

definition validate_coverage_spec :: "answer_coverage_spec \<Rightarrow> answer_coverage_spec res" where
  "validate_coverage_spec raw =
     (let s = raw\<lparr>acs_schema_id := model_strip (acs_schema_id raw),
                  acs_task_id := model_strip (acs_task_id raw),
                  acs_packet_id := model_strip (acs_packet_id raw),
                  acs_packet_hash := model_strip (acs_packet_hash raw)\<rparr>
      in validated
           [pattern_field ''task_id'' (task_id_pattern (acs_task_id s)),
            pattern_field ''packet_id'' (matches_prefixed_hex ''memory_packet_'' 32 (acs_packet_id s)),
            pattern_field ''packet_hash'' (matches_hex 64 (acs_packet_hash s)),
            list_field ''allowed_statuses'' 1 3 (acs_allowed_statuses s),
            list_field ''required_facets'' 1 64 (acs_required_facets s),
            int_field ''min_cited_sources'' 1 64 (acs_min_cited_sources s)]
           (res_bind (normalize_statuses (acs_allowed_statuses s)) (\<lambda>statuses.
              coverage_spec_validator (s\<lparr>acs_allowed_statuses := statuses\<rparr>))))"

definition coverage_spec_payload :: "answer_coverage_spec \<Rightarrow> json" where
  "coverage_spec_payload s =
     JObj
       [(''schema_id'', JStr (acs_schema_id s)), (''task_id'', JStr (acs_task_id s)),
        (''packet_id'', JStr (acs_packet_id s)), (''packet_hash'', JStr (acs_packet_hash s)),
        (''allowed_statuses'', json_strs (map answer_status_value (acs_allowed_statuses s))),
        (''required_facets'', JList (map (\<lambda>f.
           JObj [(''facet_id'', JStr (rf_facet_id f)), (''label'', JStr (rf_label f)),
                 (''evidence_ids_any'', json_strs (rf_evidence_ids_any f)),
                 (''min_evidence'', JInt (rf_min_evidence f))]) (acs_required_facets s))),
        (''require_open_gap'', JBool (acs_require_open_gap s)),
        (''min_cited_sources'', JInt (acs_min_cited_sources s))]"

definition coverage_spec_id :: "answer_coverage_spec \<Rightarrow> string" where
  "coverage_spec_id s = canonical_content_id ''answer_coverage_spec'' (coverage_spec_payload s)"

definition coverage_spec_hash :: "answer_coverage_spec \<Rightarrow> string" where
  "coverage_spec_hash s = canonical_sha256_hex (coverage_spec_payload s)"

subsection \<open>Results\<close>

record facet_coverage =
  fc_facet_id :: string
  fc_label :: string
  fc_status :: facet_status
  fc_min_evidence :: int
  fc_matched_evidence_ids :: "string list"
  fc_accepted_evidence_ids :: "string list"

definition validate_facet_coverage :: "facet_coverage \<Rightarrow> facet_coverage res" where
  "validate_facet_coverage raw =
     (let f = raw\<lparr>fc_facet_id := model_strip (fc_facet_id raw), fc_label := model_strip (fc_label raw),
                  fc_matched_evidence_ids := map model_strip (fc_matched_evidence_ids raw),
                  fc_accepted_evidence_ids := map model_strip (fc_accepted_evidence_ids raw)\<rparr>
      in validated
           [pattern_field ''facet_id'' (model_id_pattern (fc_facet_id f)),
            text_field ''label'' 1 500 (fc_label f),
            int_field ''min_evidence'' 1 24 (fc_min_evidence f),
            list_field ''matched_evidence_ids'' 0 24 (fc_matched_evidence_ids f),
            list_field ''accepted_evidence_ids'' 1 24 (fc_accepted_evidence_ids f)]
           (Inr f))"

record answer_coverage_result =
  acv_decision :: coverage_decision
  acv_spec_id :: string
  acv_spec_hash :: string
  acv_answer_id :: string
  acv_answer_hash :: string
  acv_covered_facets :: int
  acv_required_facets :: int
  acv_coverage_basis_points :: int
  acv_status_allowed :: bool
  acv_open_gap_present :: bool
  acv_unique_cited_sources :: int
  acv_facets :: "facet_coverage list"
  acv_violations :: "string list"

definition validate_coverage_result :: "answer_coverage_result \<Rightarrow> answer_coverage_result res" where
  "validate_coverage_result raw =
     (let r = raw\<lparr>acv_spec_id := model_strip (acv_spec_id raw),
                  acv_spec_hash := model_strip (acv_spec_hash raw),
                  acv_answer_id := model_strip (acv_answer_id raw),
                  acv_answer_hash := model_strip (acv_answer_hash raw),
                  acv_violations := map model_strip (acv_violations raw)\<rparr>
      in validated
           [pattern_field ''spec_id'' (matches_prefixed_hex ''answer_coverage_spec_'' 32 (acv_spec_id r)),
            pattern_field ''spec_hash'' (matches_hex 64 (acv_spec_hash r)),
            pattern_field ''answer_id'' (matches_prefixed_hex ''research_answer_'' 32 (acv_answer_id r)),
            pattern_field ''answer_hash'' (matches_hex 64 (acv_answer_hash r)),
            int_field ''covered_facets'' 0 64 (acv_covered_facets r),
            int_field ''required_facets'' 1 64 (acv_required_facets r),
            int_field ''coverage_basis_points'' 0 10000 (acv_coverage_basis_points r),
            int_field ''unique_cited_sources'' 0 64 (acv_unique_cited_sources r),
            list_field ''facets'' 1 64 (acv_facets r)]
           (Inr r))"

subsection \<open>Gate\<close>

definition binding_violations ::
  "research_answer \<Rightarrow> answer_coverage_spec \<Rightarrow> 'x compact_memory_packet_scheme \<Rightarrow> string list" where
  "binding_violations answer spec packet =
     (if ran_task_id answer \<noteq> acs_task_id spec
      then [''answer task_id does not match the coverage specification''] else []) @
     (if cmp_packet_id packet \<noteq> acs_packet_id spec \<or> cmp_packet_hash packet \<noteq> acs_packet_hash spec \<or>
         arr_packet_id (ran_route_receipt answer) \<noteq> acs_packet_id spec \<or>
         arr_packet_hash (ran_route_receipt answer) \<noteq> acs_packet_hash spec
      then [''answer, packet, and coverage specification are not bound''] else [])"

definition used_evidence_ids :: "research_answer \<Rightarrow> string list" where
  "used_evidence_ids answer = concat (map acl_evidence_ids (ran_claims answer))"

definition facet_outcome ::
  "string list \<Rightarrow> string list \<Rightarrow> required_facet \<Rightarrow> facet_coverage \<times> string list" where
  "facet_outcome known used f =
     (let unknown = missing_ids (rf_evidence_ids_any f) known;
          matched = sorted_set (filter (\<lambda>e. e \<in> set used) (rf_evidence_ids_any f));
          status = (if int (length matched) \<ge> rf_min_evidence f \<and> unknown = [] then COVERED
                    else facet_status.MISSING)
      in (\<lparr>fc_facet_id = rf_facet_id f, fc_label = rf_label f, fc_status = status,
           fc_min_evidence = rf_min_evidence f, fc_matched_evidence_ids = matched,
           fc_accepted_evidence_ids = rf_evidence_ids_any f\<rparr>,
          (if unknown \<noteq> []
           then [''facet '' @ rf_facet_id f @ '' references evidence outside the packet: '' @
                 join '', '' unknown] else []) @
          (if status = facet_status.MISSING
           then [''required facet '' @ rf_facet_id f @ '' is not covered''] else [])))"

definition task_violations :: "research_answer \<Rightarrow> answer_coverage_spec \<Rightarrow> int \<Rightarrow> string list" where
  "task_violations answer spec unique_sources =
     (if ran_status answer \<notin> set (acs_allowed_statuses spec)
      then [''answer status '' @ answer_status_value (ran_status answer) @ '' is not allowed for this task'']
      else []) @
     (if acs_require_open_gap spec \<and> ran_open_gap answer = None
      then [''the task requires an explicit open_gap''] else []) @
     (if unique_sources < acs_min_cited_sources spec
      then [''answer cites '' @ int_repr unique_sources @ '' unique sources; '' @
            int_repr (acs_min_cited_sources spec) @ '' required''] else [])"

definition coverage_of ::
  "research_answer \<Rightarrow> answer_coverage_spec \<Rightarrow> string list \<Rightarrow> int \<Rightarrow> facet_coverage list \<Rightarrow> answer_coverage_result" where
  "coverage_of answer spec violations unique_sources facets =
     (let covered = int (length (filter (\<lambda>f. fc_status f = COVERED) facets));
          required = int (length facets)
      in \<lparr>acv_decision = (if violations = [] then COMPLETE else INCOMPLETE),
          acv_spec_id = coverage_spec_id spec, acv_spec_hash = coverage_spec_hash spec,
          acv_answer_id = answer_id answer, acv_answer_hash = answer_hash answer,
          acv_covered_facets = covered, acv_required_facets = required,
          acv_coverage_basis_points = covered * 10000 div required,
          acv_status_allowed = (ran_status answer \<in> set (acs_allowed_statuses spec)),
          acv_open_gap_present = (ran_open_gap answer \<noteq> None),
          acv_unique_cited_sources = unique_sources, acv_facets = facets,
          acv_violations = violations\<rparr>)"

definition evaluate_coverage ::
  "research_answer \<Rightarrow> answer_coverage_spec \<Rightarrow> 'x compact_memory_packet_scheme \<Rightarrow>
     answer_coverage_result res" where
  "evaluate_coverage answer spec packet =
     (let known = map aev_evidence_id (cmp_evidence packet);
          outcomes = map (facet_outcome known (used_evidence_ids answer)) (acs_required_facets spec);
          unique_sources = int (length (remdups (map act_source_id (ran_citations answer))))
      in res_bind (map_res (\<lambda>oc. validate_facet_coverage (fst oc)) outcomes) (\<lambda>facets.
           validate_coverage_result
             (coverage_of answer spec
                (binding_violations answer spec packet @ concat (map snd outcomes) @
                 task_violations answer spec unique_sources)
                unique_sources facets)))"

end
