(* ===== verification/Entailment.thy ===== *)
theory Entailment
  imports Answer_Coverage Lexical
begin

text \<open>
  Receipt-bound semantic review (\<open>src/dithyramba/answers/entailment.py\<close>): the review cases
  of an answer, the judgment receipt, and the gate that applies the frozen policy to the
  judgments.
\<close>

datatype judge_kind = HUMAN | MODEL

definition judge_kind_value :: "judge_kind \<Rightarrow> string" where
  "judge_kind_value k = (case k of HUMAN \<Rightarrow> ''human'' | MODEL \<Rightarrow> ''model'')"

datatype verdict =
    DIRECTLY_SUPPORTED | SUPPORTED_INFERENCE | PARTIAL | UNSUPPORTED | CONTRADICTED | UNCERTAIN

definition verdict_value :: "verdict \<Rightarrow> string" where
  "verdict_value v =
     (case v of DIRECTLY_SUPPORTED \<Rightarrow> ''directly_supported''
      | SUPPORTED_INFERENCE \<Rightarrow> ''supported_inference'' | PARTIAL \<Rightarrow> ''partial''
      | UNSUPPORTED \<Rightarrow> ''unsupported'' | CONTRADICTED \<Rightarrow> ''contradicted'' | UNCERTAIN \<Rightarrow> ''uncertain'')"

datatype entailment_decision = PASSED | FAILED | REVIEW_REQUIRED | UNCHECKED

definition entailment_decision_value :: "entailment_decision \<Rightarrow> string" where
  "entailment_decision_value d =
     (case d of PASSED \<Rightarrow> ''passed'' | FAILED \<Rightarrow> ''failed''
      | REVIEW_REQUIRED \<Rightarrow> ''review_required'' | UNCHECKED \<Rightarrow> ''unchecked'')"

subsection \<open>Numeric literals\<close>

text \<open>
  \<open>(?<!\w)[+-]?[0-9]+(?:[.,:/-][0-9]+)*(?:[%])?(?!\w)\<close> (the per mille sign of the source
  pattern is beyond U+00FF).  The longest reading is tried first; where a word character
  follows it, the engine gives up the percent sign, or the last group, whose separator is
  then what follows, and otherwise fails.
\<close>

definition word_char :: "char \<Rightarrow> bool" where
  "word_char c = word_character (char_code c)"

definition digit_run :: "string \<Rightarrow> nat" where
  "digit_run s = length (takeWhile (\<lambda>c. c \<in> set digits09) s)"

text \<open>The lengths of the groups that follow the leading digits.\<close>

function numeric_groups :: "string \<Rightarrow> nat list" where
  "numeric_groups [] = []"
| "numeric_groups (c # cs) =
     (if c \<in> set ''.,:/-'' \<and> digit_run cs \<noteq> 0
      then (1 + digit_run cs) # numeric_groups (drop (digit_run cs) cs)
      else [])"
  by pat_completeness auto
termination by (relation "measure length") auto

definition next_is_word :: "string \<Rightarrow> bool" where
  "next_is_word s = (case s of [] \<Rightarrow> False | c # _ \<Rightarrow> word_char c)"

definition match_number :: "char option \<Rightarrow> string \<Rightarrow> nat option" where
  "match_number prev s =
     (let signed = (if s \<noteq> [] \<and> hd s \<in> set ''+-'' then 1 else 0);
          lead = signed + digit_run (drop signed s);
          groups = numeric_groups (drop lead s);
          full = lead + sum_list groups;
          rest = drop full s
      in if (case prev of None \<Rightarrow> False | Some c \<Rightarrow> word_char c) \<or> lead = signed then None
         else if take 1 rest = ''%'' then Some (if next_is_word (drop 1 rest) then full else full + 1)
         else if \<not> next_is_word rest then Some full
         else if groups \<noteq> [] then Some (full - last groups)
         else None)"

text \<open>
  \<open>finditer\<close>: the matches from left to right, each search going on where the last match
  ended (\<open>skip\<close> counts the characters that still belong to it).
\<close>

fun find_numbers :: "char option \<Rightarrow> nat \<Rightarrow> string \<Rightarrow> string list" where
  "find_numbers prev skip [] = []"
| "find_numbers prev skip (c # cs) =
     (if skip > 0 then find_numbers (Some c) (skip - 1) cs
      else case match_number prev (c # cs) of
             None \<Rightarrow> find_numbers (Some c) 0 cs
           | Some n \<Rightarrow> take n (c # cs) # find_numbers (Some c) (n - 1) cs)"

definition numeric_literals :: "string \<Rightarrow> string list" where
  "numeric_literals s = find_numbers None 0 s"

fun unquoted_loop :: "string list \<Rightarrow> string list \<Rightarrow> string list \<Rightarrow> string list" where
  "unquoted_loop quoted res [] = res"
| "unquoted_loop quoted res (l # ls) =
     (if l \<notin> set quoted \<and> l \<notin> set res then unquoted_loop quoted (res @ [l]) ls
      else unquoted_loop quoted res ls)"

definition unquoted_numeric_literals :: "string \<Rightarrow> string list \<Rightarrow> string list" where
  "unquoted_numeric_literals claim_text quotes =
     unquoted_loop (concat (map numeric_literals quotes)) [] (numeric_literals claim_text)"

subsection \<open>Cases\<close>

record evidence_citation =
  ecn_evidence_id :: string
  ecn_source_id :: string
  ecn_source_title :: string
  ecn_source_creator :: string
  ecn_source_kind :: source_kind
  ecn_voice_kind :: voice_kind
  ecn_asserting_voice :: string
  ecn_evidence_role :: evidence_role
  ecn_limitation :: "string option"
  ecn_exact_quote :: string

definition validate_evidence_citation :: "evidence_citation \<Rightarrow> evidence_citation res" where
  "validate_evidence_citation raw =
     (let c = raw\<lparr>ecn_evidence_id := model_strip (ecn_evidence_id raw),
                  ecn_source_id := model_strip (ecn_source_id raw),
                  ecn_source_title := model_strip (ecn_source_title raw),
                  ecn_source_creator := model_strip (ecn_source_creator raw),
                  ecn_asserting_voice := model_strip (ecn_asserting_voice raw),
                  ecn_limitation := map_option model_strip (ecn_limitation raw),
                  ecn_exact_quote := model_strip (ecn_exact_quote raw)\<rparr>
      in validated
           [pattern_field ''evidence_id'' (model_id_pattern (ecn_evidence_id c)),
            pattern_field ''source_id'' (model_id_pattern (ecn_source_id c)),
            text_field ''source_title'' 1 500 (ecn_source_title c),
            text_field ''source_creator'' 1 300 (ecn_source_creator c),
            text_field ''asserting_voice'' 1 300 (ecn_asserting_voice c),
            opt_field (text_field ''limitation'' 0 2000) (ecn_limitation c),
            text_field ''exact_quote'' 1 1000 (ecn_exact_quote c)]
           (Inr c))"

definition evidence_citation_dump :: "evidence_citation \<Rightarrow> json" where
  "evidence_citation_dump c =
     JObj
       [(''evidence_id'', JStr (ecn_evidence_id c)), (''source_id'', JStr (ecn_source_id c)),
        (''source_title'', JStr (ecn_source_title c)),
        (''source_creator'', JStr (ecn_source_creator c)),
        (''source_kind'', JStr (source_kind_value (ecn_source_kind c))),
        (''voice_kind'', JStr (voice_kind_value (ecn_voice_kind c))),
        (''asserting_voice'', JStr (ecn_asserting_voice c)),
        (''evidence_role'', JStr (evidence_role_value (ecn_evidence_role c))),
        (''limitation'', json_opt (ecn_limitation c)),
        (''exact_quote'', JStr (ecn_exact_quote c))]"

record evidence_case =
  eca_case_id :: string
  eca_claim_id :: string
  eca_claim_text :: string
  eca_claim_state :: claim_state
  eca_citations :: "evidence_citation list"
  eca_unquoted :: "string list"

definition case_fields :: "evidence_case \<Rightarrow> (string \<times> json) list" where
  "case_fields c =
     [(''claim_id'', JStr (eca_claim_id c)), (''claim_text'', JStr (eca_claim_text c)),
      (''claim_state'', JStr (claim_state_value (eca_claim_state c))),
      (''citations'', JList (map evidence_citation_dump (eca_citations c))),
      (''unquoted_numeric_literals'', json_strs (eca_unquoted c))]"

definition case_payload :: "evidence_case \<Rightarrow> json" where
  "case_payload c = JObj (case_fields c)"

definition case_validator :: "evidence_case \<Rightarrow> evidence_case res" where
  "case_validator c =
     (if has_duplicates (map ecn_evidence_id (eca_citations c))
      then Inl (ValueError ''claim-evidence citations must have unique evidence IDs'')
      else if has_duplicates (eca_unquoted c)
      then Inl (ValueError ''unquoted numeric literals must be unique'')
      else if eca_case_id c \<noteq> canonical_content_id ''claim_evidence_case'' (case_payload c)
      then Inl (ValueError ''case_id does not match the canonical case content'')
      else Inr c)"

definition validate_case :: "evidence_case \<Rightarrow> evidence_case res" where
  "validate_case raw =
     (let c = raw\<lparr>eca_case_id := model_strip (eca_case_id raw),
                  eca_claim_id := model_strip (eca_claim_id raw),
                  eca_claim_text := model_strip (eca_claim_text raw),
                  eca_unquoted := map model_strip (eca_unquoted raw)\<rparr>
      in validated
           [pattern_field ''case_id'' (matches_prefixed_hex ''claim_evidence_case_'' 32 (eca_case_id c)),
            pattern_field ''claim_id'' (model_id_pattern (eca_claim_id c)),
            text_field ''claim_text'' 1 4000 (eca_claim_text c),
            list_field ''citations'' 1 24 (eca_citations c),
            list_field ''unquoted_numeric_literals'' 0 128 (eca_unquoted c)]
           (case_validator c))"

definition create_case ::
  "string \<Rightarrow> string \<Rightarrow> claim_state \<Rightarrow> evidence_citation list \<Rightarrow> string list \<Rightarrow> evidence_case res" where
  "create_case claim_id claim_text state citations unquoted =
     (let c = \<lparr>eca_case_id = [], eca_claim_id = claim_id, eca_claim_text = claim_text,
               eca_claim_state = state, eca_citations = citations, eca_unquoted = unquoted\<rparr>
      in validate_case
           (c\<lparr>eca_case_id := canonical_content_id ''claim_evidence_case'' (case_payload c)\<rparr>))"

record evidence_case_set =
  ecs_schema_id :: string
  ecs_case_set_id :: string
  ecs_case_set_hash :: string
  ecs_task_id :: string
  ecs_answer_id :: string
  ecs_answer_hash :: string
  ecs_packet_id :: string
  ecs_packet_hash :: string
  ecs_coverage_spec_id :: string
  ecs_coverage_spec_hash :: string
  ecs_cases :: "evidence_case list"

definition case_set_schema :: string where
  "case_set_schema = ''dithyramba.claim_evidence_case_set/1.0''"

definition case_set_payload :: "evidence_case_set \<Rightarrow> json" where
  "case_set_payload s =
     JObj
       [(''schema_id'', JStr (ecs_schema_id s)), (''task_id'', JStr (ecs_task_id s)),
        (''answer_id'', JStr (ecs_answer_id s)), (''answer_hash'', JStr (ecs_answer_hash s)),
        (''packet_id'', JStr (ecs_packet_id s)), (''packet_hash'', JStr (ecs_packet_hash s)),
        (''coverage_spec_id'', JStr (ecs_coverage_spec_id s)),
        (''coverage_spec_hash'', JStr (ecs_coverage_spec_hash s)),
        (''cases'', JList (map (\<lambda>c. JObj ((''case_id'', JStr (eca_case_id c)) # case_fields c))
           (ecs_cases s)))]"

definition case_set_validator :: "evidence_case_set \<Rightarrow> evidence_case_set res" where
  "case_set_validator s =
     (if ecs_schema_id s \<noteq> case_set_schema
      then Inl (ValueError (''schema_id must be '' @ case_set_schema))
      else if has_duplicates (map eca_case_id (ecs_cases s))
      then Inl (ValueError ''case_id values must be unique'')
      else if has_duplicates (map eca_claim_id (ecs_cases s))
      then Inl (ValueError ''one semantic-review case is required per unique claim'')
      else if ecs_case_set_id s \<noteq> canonical_content_id ''claim_evidence_case_set'' (case_set_payload s)
      then Inl (ValueError ''case_set_id does not match the canonical case-set content'')
      else if ecs_case_set_hash s \<noteq> canonical_sha256_hex (case_set_payload s)
      then Inl (ValueError ''case_set_hash does not match the canonical case-set content'')
      else Inr s)"

definition strip_case_set :: "evidence_case_set \<Rightarrow> evidence_case_set" where
  "strip_case_set s =
     s\<lparr>ecs_schema_id := model_strip (ecs_schema_id s), ecs_case_set_id := model_strip (ecs_case_set_id s),
       ecs_case_set_hash := model_strip (ecs_case_set_hash s), ecs_task_id := model_strip (ecs_task_id s),
       ecs_answer_id := model_strip (ecs_answer_id s), ecs_answer_hash := model_strip (ecs_answer_hash s),
       ecs_packet_id := model_strip (ecs_packet_id s), ecs_packet_hash := model_strip (ecs_packet_hash s),
       ecs_coverage_spec_id := model_strip (ecs_coverage_spec_id s),
       ecs_coverage_spec_hash := model_strip (ecs_coverage_spec_hash s)\<rparr>"

definition validate_case_set :: "evidence_case_set \<Rightarrow> evidence_case_set res" where
  "validate_case_set raw =
     (let s = strip_case_set raw
      in validated
           [pattern_field ''case_set_id''
              (matches_prefixed_hex ''claim_evidence_case_set_'' 32 (ecs_case_set_id s)),
            pattern_field ''case_set_hash'' (matches_hex 64 (ecs_case_set_hash s)),
            pattern_field ''task_id'' (task_id_pattern (ecs_task_id s)),
            pattern_field ''answer_id'' (matches_prefixed_hex ''research_answer_'' 32 (ecs_answer_id s)),
            pattern_field ''answer_hash'' (matches_hex 64 (ecs_answer_hash s)),
            pattern_field ''packet_id'' (matches_prefixed_hex ''memory_packet_'' 32 (ecs_packet_id s)),
            pattern_field ''packet_hash'' (matches_hex 64 (ecs_packet_hash s)),
            pattern_field ''coverage_spec_id''
              (matches_prefixed_hex ''answer_coverage_spec_'' 32 (ecs_coverage_spec_id s)),
            pattern_field ''coverage_spec_hash'' (matches_hex 64 (ecs_coverage_spec_hash s)),
            list_field ''cases'' 0 64 (ecs_cases s)]
           (case_set_validator s))"

subsection \<open>Builder\<close>

definition validate_bindings ::
  "research_answer \<Rightarrow> string \<Rightarrow> 'x compact_memory_packet_scheme \<Rightarrow> answer_coverage_spec \<Rightarrow> unit res" where
  "validate_bindings answer task_id packet spec =
     (let expected = (cmp_packet_id packet, cmp_packet_hash packet);
          r = ran_route_receipt answer
      in if ran_task_id answer \<noteq> task_id \<or> acs_task_id spec \<noteq> task_id
         then Inl (ClaimEvidenceContractError ''answer and coverage specification must match task_id'')
         else if (arr_packet_id r, arr_packet_hash r) \<noteq> expected \<or>
           (acs_packet_id spec, acs_packet_hash spec) \<noteq> expected
         then Inl (ClaimEvidenceContractError
           ''answer, packet, and coverage specification must be exactly bound'')
         else Inr ())"

definition build_display ::
  "research_answer \<Rightarrow> 'x compact_memory_packet_scheme \<Rightarrow> string \<Rightarrow> string \<Rightarrow> evidence_citation res" where
  "build_display answer packet claim_id eid =
     (case (dict_by act_evidence_id (ran_citations answer) eid,
            dict_by aev_evidence_id (cmp_evidence packet) eid) of
        (Some c, Some e) \<Rightarrow>
          if act_source_id c \<noteq> aev_source_id e
          then Inl (ClaimEvidenceContractError
            (''citation '' @ eid @ '' does not match its packet source''))
          else
            (case dict_by aso_source_id (cmp_sources packet) (act_source_id c) of
               None \<Rightarrow> Inl (ClaimEvidenceContractError
                 (''citation '' @ eid @ '' references a source outside the packet''))
             | Some s \<Rightarrow>
                 validate_evidence_citation
                   \<lparr>ecn_evidence_id = eid, ecn_source_id = aso_source_id s,
                    ecn_source_title = aso_title s, ecn_source_creator = aso_creator s,
                    ecn_source_kind = aso_source_kind s, ecn_voice_kind = aso_voice_kind s,
                    ecn_asserting_voice = aev_asserting_voice e, ecn_evidence_role = aev_role e,
                    ecn_limitation = aev_limitation e, ecn_exact_quote = act_exact_quote c\<rparr>)
      | _ \<Rightarrow> Inl (ClaimEvidenceContractError
          (''claim '' @ claim_id @ '' is not joined to packet evidence '' @ eid)))"

definition build_case ::
  "research_answer \<Rightarrow> 'x compact_memory_packet_scheme \<Rightarrow> answer_claim \<Rightarrow> evidence_case res" where
  "build_case answer packet claim =
     res_bind (map_res (build_display answer packet (acl_claim_id claim)) (acl_evidence_ids claim))
       (\<lambda>displays. create_case (acl_claim_id claim) (acl_text claim) (acl_status claim) displays
          (unquoted_numeric_literals (acl_text claim) (map ecn_exact_quote displays)))"

definition build_case_set ::
  "research_answer \<Rightarrow> 'x compact_memory_packet_scheme \<Rightarrow> answer_coverage_spec \<Rightarrow> string option \<Rightarrow>
     evidence_case_set res" where
  "build_case_set answer packet spec task =
     (let task_id = (case task of None \<Rightarrow> ran_task_id answer | Some t \<Rightarrow> t)
      in res_bind (validate_bindings answer task_id packet spec) (\<lambda>_.
         res_bind (map_res (build_case answer packet) (ran_claims answer)) (\<lambda>built.
           let s = \<lparr>ecs_schema_id = case_set_schema, ecs_case_set_id = [], ecs_case_set_hash = [],
                    ecs_task_id = task_id, ecs_answer_id = answer_id answer,
                    ecs_answer_hash = answer_hash answer, ecs_packet_id = cmp_packet_id packet,
                    ecs_packet_hash = cmp_packet_hash packet,
                    ecs_coverage_spec_id = coverage_spec_id spec,
                    ecs_coverage_spec_hash = coverage_spec_hash spec, ecs_cases = built\<rparr>;
               payload = case_set_payload s
           in validate_case_set
                (s\<lparr>ecs_case_set_id := canonical_content_id ''claim_evidence_case_set'' payload,
                   ecs_case_set_hash := canonical_sha256_hex payload\<rparr>))))"

subsection \<open>Judgments\<close>

record claim_span =
  csp_start :: int
  csp_end :: int
  csp_text :: string

definition span_order :: "claim_span \<Rightarrow> claim_span res" where
  "span_order s =
     (if csp_end s \<le> csp_start s
      then Inl (ValueError ''unsupported claim span must have start < end'')
      else Inr s)"

definition validate_span :: "claim_span \<Rightarrow> claim_span res" where
  "validate_span raw =
     (let s = raw\<lparr>csp_text := model_strip (csp_text raw)\<rparr>
      in validated
           [int_field ''start'' 0 4000 (csp_start s), int_field ''end'' 1 4000 (csp_end s),
            text_field ''text'' 1 4000 (csp_text s)]
           (span_order s))"

definition span_dump :: "claim_span \<Rightarrow> json" where
  "span_dump s =
     JObj [(''start'', JInt (csp_start s)), (''end'', JInt (csp_end s)), (''text'', JStr (csp_text s))]"

record claim_judgment =
  jd_case_id :: string
  jd_claim_id :: string
  jd_verdict :: verdict
  jd_spans :: "claim_span list"
  jd_reason :: string

text \<open>\<open>positions == sorted(positions)\<close>, pairs in lexicographic order, then the overlap loop.\<close>

definition span_before :: "claim_span \<Rightarrow> claim_span \<Rightarrow> bool" where
  "span_before a b \<longleftrightarrow> csp_start a < csp_start b \<or> csp_start a = csp_start b \<and> csp_end a \<le> csp_end b"

fun spans_overlap :: "claim_span list \<Rightarrow> bool" where
  "spans_overlap (a # b # ss) = (csp_start b < csp_end a \<or> spans_overlap (b # ss))"
| "spans_overlap _ = False"

definition judgment_validator :: "claim_judgment \<Rightarrow> claim_judgment res" where
  "judgment_validator j =
     (if \<not> sorted_wrt span_before (jd_spans j)
      then Inl (ValueError ''unsupported claim spans must be in claim order'')
      else if spans_overlap (jd_spans j)
      then Inl (ValueError ''unsupported claim spans must not overlap'')
      else Inr j)"

definition validate_judgment :: "claim_judgment \<Rightarrow> claim_judgment res" where
  "validate_judgment raw =
     (let j = raw\<lparr>jd_case_id := model_strip (jd_case_id raw), jd_claim_id := model_strip (jd_claim_id raw),
                  jd_reason := model_strip (jd_reason raw)\<rparr>
      in validated
           [pattern_field ''case_id'' (matches_prefixed_hex ''claim_evidence_case_'' 32 (jd_case_id j)),
            pattern_field ''claim_id'' (model_id_pattern (jd_claim_id j)),
            list_field ''unsupported_claim_spans'' 0 64 (jd_spans j),
            text_field ''reason'' 1 4000 (jd_reason j)]
           (judgment_validator j))"

definition judgment_dump :: "claim_judgment \<Rightarrow> json" where
  "judgment_dump j =
     JObj
       [(''case_id'', JStr (jd_case_id j)), (''claim_id'', JStr (jd_claim_id j)),
        (''verdict'', JStr (verdict_value (jd_verdict j))),
        (''unsupported_claim_spans'', JList (map span_dump (jd_spans j))),
        (''reason'', JStr (jd_reason j))]"

record judgment_receipt =
  jr_schema_id :: string
  jr_receipt_id :: string
  jr_receipt_hash :: string
  jr_case_set_id :: string
  jr_case_set_hash :: string
  jr_judge_kind :: judge_kind
  jr_judge_profile_id :: string
  jr_judge_profile_hash :: string
  jr_prompt_hash :: string
  jr_raw_response_hash :: string
  jr_judgments :: "claim_judgment list"

definition receipt_schema :: string where
  "receipt_schema = ''dithyramba.claim_evidence_judgment_receipt/1.0''"

definition receipt_payload :: "judgment_receipt \<Rightarrow> json" where
  "receipt_payload r =
     JObj
       [(''schema_id'', JStr (jr_schema_id r)), (''case_set_id'', JStr (jr_case_set_id r)),
        (''case_set_hash'', JStr (jr_case_set_hash r)),
        (''judge_kind'', JStr (judge_kind_value (jr_judge_kind r))),
        (''judge_profile_id'', JStr (jr_judge_profile_id r)),
        (''judge_profile_hash'', JStr (jr_judge_profile_hash r)),
        (''prompt_hash'', JStr (jr_prompt_hash r)),
        (''raw_response_hash'', JStr (jr_raw_response_hash r)),
        (''judgments'', JList (map judgment_dump (jr_judgments r)))]"

definition receipt_validator :: "judgment_receipt \<Rightarrow> judgment_receipt res" where
  "receipt_validator r =
     (if jr_schema_id r \<noteq> receipt_schema
      then Inl (ValueError (''schema_id must be '' @ receipt_schema))
      else if jr_receipt_id r \<noteq> canonical_content_id ''claim_evidence_judgment_receipt'' (receipt_payload r)
      then Inl (ValueError ''receipt_id does not match the canonical judgment content'')
      else if jr_receipt_hash r \<noteq> canonical_sha256_hex (receipt_payload r)
      then Inl (ValueError ''receipt_hash does not match the canonical judgment content'')
      else Inr r)"

definition strip_receipt :: "judgment_receipt \<Rightarrow> judgment_receipt" where
  "strip_receipt r =
     r\<lparr>jr_schema_id := model_strip (jr_schema_id r), jr_receipt_id := model_strip (jr_receipt_id r),
       jr_receipt_hash := model_strip (jr_receipt_hash r),
       jr_case_set_id := model_strip (jr_case_set_id r),
       jr_case_set_hash := model_strip (jr_case_set_hash r),
       jr_judge_profile_id := model_strip (jr_judge_profile_id r),
       jr_judge_profile_hash := model_strip (jr_judge_profile_hash r),
       jr_prompt_hash := model_strip (jr_prompt_hash r),
       jr_raw_response_hash := model_strip (jr_raw_response_hash r)\<rparr>"

definition validate_receipt :: "judgment_receipt \<Rightarrow> judgment_receipt res" where
  "validate_receipt raw =
     (let r = strip_receipt raw
      in validated
           [pattern_field ''receipt_id''
              (matches_prefixed_hex ''claim_evidence_judgment_receipt_'' 32 (jr_receipt_id r)),
            pattern_field ''receipt_hash'' (matches_hex 64 (jr_receipt_hash r)),
            pattern_field ''case_set_id''
              (matches_prefixed_hex ''claim_evidence_case_set_'' 32 (jr_case_set_id r)),
            pattern_field ''case_set_hash'' (matches_hex 64 (jr_case_set_hash r)),
            pattern_field ''judge_profile_id'' (model_id_pattern (jr_judge_profile_id r)),
            pattern_field ''judge_profile_hash'' (matches_hex 64 (jr_judge_profile_hash r)),
            pattern_field ''prompt_hash'' (matches_hex 64 (jr_prompt_hash r)),
            pattern_field ''raw_response_hash'' (matches_hex 64 (jr_raw_response_hash r)),
            list_field ''judgments'' 0 64 (jr_judgments r)]
           (receipt_validator r))"

definition create_receipt ::
  "evidence_case_set \<Rightarrow> judge_kind \<Rightarrow> string \<Rightarrow> string \<Rightarrow> string \<Rightarrow> string \<Rightarrow> claim_judgment list \<Rightarrow>
     judgment_receipt res" where
  "create_receipt case_set kind profile_id profile_hash prompt_hash raw_hash judgments =
     (let r = \<lparr>jr_schema_id = receipt_schema, jr_receipt_id = [], jr_receipt_hash = [],
               jr_case_set_id = ecs_case_set_id case_set, jr_case_set_hash = ecs_case_set_hash case_set,
               jr_judge_kind = kind, jr_judge_profile_id = profile_id,
               jr_judge_profile_hash = profile_hash, jr_prompt_hash = prompt_hash,
               jr_raw_response_hash = raw_hash, jr_judgments = judgments\<rparr>;
          payload = receipt_payload r
      in validate_receipt
           (r\<lparr>jr_receipt_id := canonical_content_id ''claim_evidence_judgment_receipt'' payload,
              jr_receipt_hash := canonical_sha256_hex payload\<rparr>))"

subsection \<open>Gate\<close>

record case_result =
  crs_case_id :: string
  crs_claim_id :: string
  crs_claim_state :: claim_state
  crs_verdict :: "verdict option"
  crs_decision :: entailment_decision
  crs_spans :: "claim_span list"
  crs_reason :: string

definition validate_case_result :: "case_result \<Rightarrow> case_result res" where
  "validate_case_result raw =
     (let r = raw\<lparr>crs_case_id := model_strip (crs_case_id raw),
                  crs_claim_id := model_strip (crs_claim_id raw),
                  crs_reason := model_strip (crs_reason raw)\<rparr>
      in validated
           [pattern_field ''case_id'' (matches_prefixed_hex ''claim_evidence_case_'' 32 (crs_case_id r)),
            pattern_field ''claim_id'' (model_id_pattern (crs_claim_id r)),
            list_field ''unsupported_claim_spans'' 0 64 (crs_spans r),
            text_field ''reason'' 1 4000 (crs_reason r)]
           (Inr r))"

record entailment_result =
  enr_decision :: entailment_decision
  enr_case_set_id :: "string option"
  enr_case_set_hash :: "string option"
  enr_receipt_id :: "string option"
  enr_receipt_hash :: "string option"
  enr_cases :: "case_result list"
  enr_violations :: "string list"
  enr_review_reasons :: "string list"
  enr_skipped_reason :: "string option"
  enr_promotion_eligible :: bool

definition result_validator :: "entailment_result \<Rightarrow> entailment_result res" where
  "result_validator r =
     (if enr_promotion_eligible r \<noteq> (enr_decision r = PASSED)
      then Inl (ValueError ''only a passed semantic gate is promotion-eligible'')
      else if enr_decision r = UNCHECKED \<and> enr_skipped_reason r = None
      then Inl (ValueError ''unchecked semantic results require a skipped_reason'')
      else if enr_decision r \<noteq> UNCHECKED \<and> enr_skipped_reason r \<noteq> None
      then Inl (ValueError ''checked semantic results cannot have a skipped_reason'')
      else Inr r)"

definition validate_entailment_result :: "entailment_result \<Rightarrow> entailment_result res" where
  "validate_entailment_result raw =
     (let r = raw\<lparr>enr_case_set_id := map_option model_strip (enr_case_set_id raw),
                  enr_case_set_hash := map_option model_strip (enr_case_set_hash raw),
                  enr_receipt_id := map_option model_strip (enr_receipt_id raw),
                  enr_receipt_hash := map_option model_strip (enr_receipt_hash raw),
                  enr_violations := map model_strip (enr_violations raw),
                  enr_review_reasons := map model_strip (enr_review_reasons raw),
                  enr_skipped_reason := map_option model_strip (enr_skipped_reason raw)\<rparr>
      in validated
           [opt_field (pattern_field ''case_set_id'' \<circ> matches_prefixed_hex ''claim_evidence_case_set_'' 32)
              (enr_case_set_id r),
            opt_field (pattern_field ''case_set_hash'' \<circ> matches_hex 64) (enr_case_set_hash r),
            opt_field (pattern_field ''receipt_id'' \<circ>
              matches_prefixed_hex ''claim_evidence_judgment_receipt_'' 32) (enr_receipt_id r),
            opt_field (pattern_field ''receipt_hash'' \<circ> matches_hex 64) (enr_receipt_hash r),
            list_field ''cases'' 0 64 (enr_cases r),
            opt_field (text_field ''skipped_reason'' 1 2000) (enr_skipped_reason r)]
           (result_validator r))"

definition prerequisite_error ::
  "evidence_case_set \<Rightarrow> answer_contract_result \<Rightarrow> answer_coverage_result \<Rightarrow> string option" where
  "prerequisite_error s contract coverage =
     (if acr_decision contract \<noteq> ACCEPTED
      then Some ''exact answer contract was not accepted; semantic review was skipped''
      else if acv_decision coverage \<noteq> COMPLETE
      then Some ''required-facet coverage was not complete; semantic review was skipped''
      else if acr_answer_id contract \<noteq> Some (ecs_answer_id s) \<or>
        acr_answer_hash contract \<noteq> Some (ecs_answer_hash s)
      then Some ''exact answer-contract result is not bound to the case-set answer''
      else if acv_answer_id coverage \<noteq> ecs_answer_id s \<or> acv_answer_hash coverage \<noteq> ecs_answer_hash s \<or>
        acv_spec_id coverage \<noteq> ecs_coverage_spec_id s \<or>
        acv_spec_hash coverage \<noteq> ecs_coverage_spec_hash s
      then Some ''coverage result is not bound to the case set''
      else None)"

text \<open>The expected bindings a caller may require of a receipt.\<close>

record expected_judge =
  ej_judge_kind :: "judge_kind option"
  ej_judge_profile_id :: "string option"
  ej_judge_profile_hash :: "string option"
  ej_prompt_hash :: "string option"
  ej_raw_response_hash :: "string option"

definition unexpected :: "'a option \<Rightarrow> 'a \<Rightarrow> bool" where
  "unexpected expected value = (case expected of None \<Rightarrow> False | Some x \<Rightarrow> value \<noteq> x)"

definition error_if :: "bool \<Rightarrow> string \<Rightarrow> string list" where
  "error_if c message = (if c then [message] else [])"

definition receipt_integrity_errors ::
  "evidence_case_set \<Rightarrow> judgment_receipt \<Rightarrow> expected_judge \<Rightarrow> string list" where
  "receipt_integrity_errors s r ej =
     error_if (jr_schema_id r \<noteq> receipt_schema) ''judgment receipt schema is unsupported'' @
     error_if (jr_receipt_id r \<noteq>
         canonical_content_id ''claim_evidence_judgment_receipt'' (receipt_payload r))
       ''judgment receipt ID does not match its content'' @
     error_if (jr_receipt_hash r \<noteq> canonical_sha256_hex (receipt_payload r))
       ''judgment receipt hash does not match its content'' @
     error_if (jr_case_set_id r \<noteq> ecs_case_set_id s \<or> jr_case_set_hash r \<noteq> ecs_case_set_hash s)
       ''judgment receipt is stale or bound to a different case set'' @
     error_if (unexpected (ej_judge_kind ej) (jr_judge_kind r))
       ''judgment receipt uses the wrong judge kind'' @
     error_if (unexpected (ej_judge_profile_id ej) (jr_judge_profile_id r))
       ''judgment receipt uses the wrong judge profile ID'' @
     error_if (unexpected (ej_judge_profile_hash ej) (jr_judge_profile_hash r))
       ''judgment receipt uses the wrong judge profile hash'' @
     error_if (unexpected (ej_prompt_hash ej) (jr_prompt_hash r))
       ''judgment receipt uses the wrong prompt hash'' @
     error_if (unexpected (ej_raw_response_hash ej) (jr_raw_response_hash r))
       ''judgment receipt uses the wrong raw response hash''"

fun duplicates_loop :: "string list \<Rightarrow> string list \<Rightarrow> string list \<Rightarrow> string list" where
  "duplicates_loop seen dups [] = dups"
| "duplicates_loop seen dups (v # vs) =
     (if v \<in> set seen then duplicates_loop seen (v # dups) vs
      else duplicates_loop (v # seen) dups vs)"

definition duplicates :: "string list \<Rightarrow> string list" where
  "duplicates vals = sorted_set (duplicates_loop [] [] vals)"

definition span_error :: "string \<Rightarrow> claim_judgment \<Rightarrow> string option" where
  "span_error claim_text j =
     (if jd_verdict j \<in> {DIRECTLY_SUPPORTED, SUPPORTED_INFERENCE} \<and> jd_spans j \<noteq> []
      then Some ''a supporting verdict cannot contain unsupported claim spans''
      else
        (case find (\<lambda>s. csp_end s > int (length claim_text) \<or>
                        int_slice (csp_start s) (csp_end s) claim_text \<noteq> csp_text s) (jd_spans j) of
           None \<Rightarrow> None
         | Some s \<Rightarrow>
             if csp_end s > int (length claim_text)
             then Some ''unsupported claim span is outside the exact claim text''
             else Some ''unsupported claim span text does not match the exact claim text''))"

definition claim_decision :: "claim_state \<Rightarrow> verdict \<Rightarrow> entailment_decision" where
  "claim_decision state v =
     (if v = UNCERTAIN then REVIEW_REQUIRED
      else if v \<in> {PARTIAL, UNSUPPORTED, CONTRADICTED} then FAILED
      else if state \<in> {claim_state.SUPPORTED, claim_state.QUALIFIED}
      then if v = DIRECTLY_SUPPORTED then PASSED else FAILED
      else if v \<in> {DIRECTLY_SUPPORTED, SUPPORTED_INFERENCE} then PASSED else FAILED)"

text \<open>\<open>setdefault\<close> over the judgments: the first judgment of a case is the one that counts.\<close>

definition judgment_of :: "claim_judgment list \<Rightarrow> string \<Rightarrow> claim_judgment option" where
  "judgment_of js cid = find (\<lambda>j. jd_case_id j = cid) js"

definition case_outcome :: "claim_judgment list \<Rightarrow> evidence_case \<Rightarrow> case_result \<times> string list" where
  "case_outcome js c =
     (case judgment_of js (eca_case_id c) of
        None \<Rightarrow>
          (\<lparr>crs_case_id = eca_case_id c, crs_claim_id = eca_claim_id c,
            crs_claim_state = eca_claim_state c, crs_verdict = None, crs_decision = REVIEW_REQUIRED,
            crs_spans = [], crs_reason = ''semantic judgment is missing''\<rparr>, [])
      | Some j \<Rightarrow>
          (\<lparr>crs_case_id = eca_case_id c, crs_claim_id = eca_claim_id c,
            crs_claim_state = eca_claim_state c, crs_verdict = Some (jd_verdict j),
            crs_decision = claim_decision (eca_claim_state c) (jd_verdict j),
            crs_spans = jd_spans j, crs_reason = jd_reason j\<rparr>,
           error_if (jd_claim_id j \<noteq> eca_claim_id c)
             (''case '' @ eca_case_id c @ '' judgment names claim '' @ jd_claim_id j @ '', not '' @
              eca_claim_id c) @
           (case span_error (eca_claim_text c) j of None \<Rightarrow> []
            | Some e \<Rightarrow> [''case '' @ eca_case_id c @ '': '' @ e])))"

definition closure_errors :: "evidence_case list \<Rightarrow> claim_judgment list \<Rightarrow> string list" where
  "closure_errors cs js =
     (let case_ids = map jd_case_id js; claim_ids = map jd_claim_id js;
          dup_cases = duplicates case_ids; dup_claims = duplicates claim_ids;
          missing = missing_ids (map eca_case_id cs) case_ids;
          extra_cases = missing_ids case_ids (map eca_case_id cs);
          extra_claims = missing_ids claim_ids (map eca_claim_id cs)
      in error_if (dup_cases \<noteq> []) (''duplicate case judgments: '' @ join '', '' dup_cases) @
         error_if (dup_claims \<noteq> []) (''duplicate claim judgments: '' @ join '', '' dup_claims) @
         error_if (missing \<noteq> []) (''missing case judgments: '' @ join '', '' missing) @
         error_if (extra_cases \<noteq> []) (''extra case judgments: '' @ join '', '' extra_cases) @
         error_if (extra_claims \<noteq> []) (''extra claim judgments: '' @ join '', '' extra_claims))"

definition evaluate_judgments ::
  "evidence_case_set \<Rightarrow> judgment_receipt \<Rightarrow> (case_result list \<times> string list) res" where
  "evaluate_judgments s r =
     (let outcomes = map (case_outcome (jr_judgments r)) (ecs_cases s)
      in res_bind (map_res (\<lambda>oc. validate_case_result (fst oc)) outcomes) (\<lambda>results.
           Inr (results,
                closure_errors (ecs_cases s) (jr_judgments r) @ concat (map snd outcomes))))"

definition semantic_result ::
  "entailment_decision \<Rightarrow> evidence_case_set \<Rightarrow> judgment_receipt option \<Rightarrow> case_result list \<Rightarrow>
     string list \<Rightarrow> string list \<Rightarrow> entailment_result res" where
  "semantic_result decision s receipt results violations reasons =
     validate_entailment_result
       \<lparr>enr_decision = decision, enr_case_set_id = Some (ecs_case_set_id s),
        enr_case_set_hash = Some (ecs_case_set_hash s),
        enr_receipt_id = map_option jr_receipt_id receipt,
        enr_receipt_hash = map_option jr_receipt_hash receipt, enr_cases = results,
        enr_violations = violations, enr_review_reasons = reasons, enr_skipped_reason = None,
        enr_promotion_eligible = (decision = PASSED)\<rparr>"

definition unchecked_result :: "evidence_case_set option \<Rightarrow> string \<Rightarrow> entailment_result res" where
  "unchecked_result s reason =
     validate_entailment_result
       \<lparr>enr_decision = UNCHECKED, enr_case_set_id = map_option ecs_case_set_id s,
        enr_case_set_hash = map_option ecs_case_set_hash s, enr_receipt_id = None,
        enr_receipt_hash = None, enr_cases = [], enr_violations = [], enr_review_reasons = [],
        enr_skipped_reason = Some reason, enr_promotion_eligible = False\<rparr>"

definition labelled :: "entailment_decision \<Rightarrow> case_result list \<Rightarrow> string list" where
  "labelled d results =
     map (\<lambda>r. crs_claim_id r @ '': '' @ crs_reason r) (filter (\<lambda>r. crs_decision r = d) results)"

definition evaluate_entailment ::
  "evidence_case_set \<Rightarrow> answer_contract_result \<Rightarrow> answer_coverage_result \<Rightarrow>
     judgment_receipt option \<Rightarrow> expected_judge \<Rightarrow> entailment_result res" where
  "evaluate_entailment s contract coverage receipt ej =
     (case prerequisite_error s contract coverage of
        Some e \<Rightarrow> unchecked_result (Some s) e
      | None \<Rightarrow>
          (case receipt of
             None \<Rightarrow> semantic_result REVIEW_REQUIRED s None [] []
               [''semantic judgment receipt is missing'']
           | Some r \<Rightarrow>
               res_bind (evaluate_judgments s r) (\<lambda>(results, judgment_errors).
                 let errors = receipt_integrity_errors s r ej @ judgment_errors;
                     violations = labelled FAILED results;
                     uncertain = labelled REVIEW_REQUIRED results
                 in if errors \<noteq> [] then semantic_result REVIEW_REQUIRED s (Some r) results [] errors
                    else semantic_result
                      (if violations \<noteq> [] then FAILED else if uncertain \<noteq> [] then REVIEW_REQUIRED
                       else PASSED)
                      s (Some r) results violations uncertain)))"

end
