(* ===== verification/Reasoning.thy ===== *)
theory Reasoning
  imports Entailment
begin

text \<open>
  Public idea traces (\<open>src/dithyramba/reasoning\<close>): the steps, the content-addressed trace
  with its derivation topology, the closure result (\<open>models.py\<close>), and the closure gate that
  binds a trace to its review cases and its entailment result (\<open>closure.py\<close>).
\<close>

datatype author_kind = HUMAN | MODEL | DETERMINISTIC

definition author_kind_value :: "author_kind \<Rightarrow> string" where
  "author_kind_value k =
     (case k of author_kind.HUMAN \<Rightarrow> ''human'' | author_kind.MODEL \<Rightarrow> ''model''
      | DETERMINISTIC \<Rightarrow> ''deterministic'')"

datatype reasoning_operation = EXTRACT | COMPARE | CONNECT | INFER

definition operation_value :: "reasoning_operation \<Rightarrow> string" where
  "operation_value k =
     (case k of EXTRACT \<Rightarrow> ''extract'' | COMPARE \<Rightarrow> ''compare'' | CONNECT \<Rightarrow> ''connect''
      | INFER \<Rightarrow> ''infer'')"

datatype reasoning_qualifier = DIRECT | BOUNDED | CONTESTED

definition qualifier_value :: "reasoning_qualifier \<Rightarrow> string" where
  "qualifier_value k =
     (case k of DIRECT \<Rightarrow> ''direct'' | BOUNDED \<Rightarrow> ''bounded''
      | reasoning_qualifier.CONTESTED \<Rightarrow> ''contested'')"

datatype closure_decision = PASSED | FAILED | REVIEW_REQUIRED

definition closure_decision_value :: "closure_decision \<Rightarrow> string" where
  "closure_decision_value d =
     (case d of closure_decision.PASSED \<Rightarrow> ''passed'' | closure_decision.FAILED \<Rightarrow> ''failed''
      | closure_decision.REVIEW_REQUIRED \<Rightarrow> ''review_required'')"

subsection \<open>Gaps\<close>

record reasoning_gap =
  rg_question :: string
  rg_why_it_matters :: string
  rg_next_evidence :: string

definition validate_reasoning_gap :: "reasoning_gap \<Rightarrow> reasoning_gap res" where
  "validate_reasoning_gap raw =
     (let g = \<lparr>rg_question = model_strip (rg_question raw),
               rg_why_it_matters = model_strip (rg_why_it_matters raw),
               rg_next_evidence = model_strip (rg_next_evidence raw)\<rparr>
      in validated
           [text_field ''question'' 1 2000 (rg_question g),
            text_field ''why_it_matters'' 1 2000 (rg_why_it_matters g),
            text_field ''next_evidence'' 1 2000 (rg_next_evidence g)]
           (Inr g))"

definition reasoning_gap_dump :: "reasoning_gap \<Rightarrow> json" where
  "reasoning_gap_dump g =
     JObj
       [(''question'', JStr (rg_question g)), (''why_it_matters'', JStr (rg_why_it_matters g)),
        (''next_evidence'', JStr (rg_next_evidence g))]"

subsection \<open>Steps\<close>

record trace_step =
  its_step_id :: string
  its_claim_id :: string
  its_case_id :: string
  its_statement :: string
  its_operation :: reasoning_operation
  its_premise_step_ids :: "string list"
  its_warrant :: "string option"
  its_qualifier :: reasoning_qualifier
  its_counterevidence_ids :: "string list"

definition step_fields :: "trace_step \<Rightarrow> (string \<times> json) list" where
  "step_fields s =
     [(''claim_id'', JStr (its_claim_id s)), (''case_id'', JStr (its_case_id s)),
      (''statement'', JStr (its_statement s)),
      (''operation'', JStr (operation_value (its_operation s))),
      (''premise_step_ids'', json_strs (its_premise_step_ids s)),
      (''warrant'', json_opt (its_warrant s)),
      (''qualifier'', JStr (qualifier_value (its_qualifier s))),
      (''counterevidence_ids'', json_strs (its_counterevidence_ids s))]"

definition step_payload :: "trace_step \<Rightarrow> json" where
  "step_payload s = JObj (step_fields s)"

definition step_id_of :: "trace_step \<Rightarrow> string" where
  "step_id_of s = canonical_content_id ''idea_trace_step'' (step_payload s)"

definition derivation_check :: "trace_step \<Rightarrow> unit res" where
  "derivation_check s =
     (if its_operation s = EXTRACT
      then
        if its_premise_step_ids s \<noteq> []
        then Inl (ValueError ''extract steps cannot have premise steps'')
        else if its_warrant s \<noteq> None
        then Inl (ValueError ''extract steps do not carry a derivation warrant'')
        else if its_qualifier s \<notin> {DIRECT, reasoning_qualifier.CONTESTED}
        then Inl (ValueError ''extract steps must be direct or contested'')
        else Inr ()
      else
        let minimum = (if its_operation s \<in> {COMPARE, CONNECT} then 2 else 1 :: nat)
        in if length (its_premise_step_ids s) < minimum
           then Inl (ValueError (operation_value (its_operation s) @ '' steps require at least '' @
             nat_repr minimum @ '' premises''))
           else if its_warrant s = None
           then Inl (ValueError ''derived steps require a concise public warrant'')
           else if its_qualifier s = DIRECT
           then Inl (ValueError ''derived steps cannot be labelled direct'')
           else Inr ())"

definition step_validator :: "trace_step \<Rightarrow> trace_step res" where
  "step_validator s =
     (if has_duplicates (its_premise_step_ids s)
      then Inl (ValueError ''premise_step_ids must be unique'')
      else if its_step_id s \<in> set (its_premise_step_ids s)
      then Inl (ValueError ''an IdeaTrace step cannot cite itself as a premise'')
      else if has_duplicates (its_counterevidence_ids s)
      then Inl (ValueError ''counterevidence_ids must be unique'')
      else res_bind (derivation_check s) (\<lambda>_.
        if its_qualifier s = reasoning_qualifier.CONTESTED \<and> its_counterevidence_ids s = []
        then Inl (ValueError ''contested steps require explicit counterevidence_ids'')
        else if its_qualifier s \<noteq> reasoning_qualifier.CONTESTED \<and> its_counterevidence_ids s \<noteq> []
        then Inl (ValueError ''counterevidence_ids are reserved for contested steps'')
        else if its_step_id s \<noteq> step_id_of s
        then Inl (ValueError ''step_id does not match the canonical IdeaTrace step content'')
        else Inr s))"

definition strip_step :: "trace_step \<Rightarrow> trace_step" where
  "strip_step s =
     s\<lparr>its_step_id := model_strip (its_step_id s), its_claim_id := model_strip (its_claim_id s),
       its_case_id := model_strip (its_case_id s), its_statement := model_strip (its_statement s),
       its_premise_step_ids := map model_strip (its_premise_step_ids s),
       its_warrant := map_option model_strip (its_warrant s),
       its_counterevidence_ids := map model_strip (its_counterevidence_ids s)\<rparr>"

definition validate_step :: "trace_step \<Rightarrow> trace_step res" where
  "validate_step raw =
     (let s = strip_step raw
      in validated
           [pattern_field ''step_id'' (matches_prefixed_hex ''idea_trace_step_'' 32 (its_step_id s)),
            pattern_field ''claim_id'' (model_id_pattern (its_claim_id s)),
            pattern_field ''case_id'' (matches_prefixed_hex ''claim_evidence_case_'' 32 (its_case_id s)),
            text_field ''statement'' 1 4000 (its_statement s),
            list_field ''premise_step_ids'' 0 8 (its_premise_step_ids s),
            opt_field (text_field ''warrant'' 1 2000) (its_warrant s),
            list_field ''counterevidence_ids'' 0 24 (its_counterevidence_ids s)]
           (step_validator s))"

definition create_step ::
  "string \<Rightarrow> string \<Rightarrow> string \<Rightarrow> reasoning_operation \<Rightarrow> string list \<Rightarrow> string option \<Rightarrow>
     reasoning_qualifier \<Rightarrow> string list \<Rightarrow> trace_step res" where
  "create_step claim_id case_id statement operation premises warrant qualifier counterevidence =
     (let s = \<lparr>its_step_id = [], its_claim_id = claim_id, its_case_id = case_id,
               its_statement = statement, its_operation = operation,
               its_premise_step_ids = premises, its_warrant = warrant, its_qualifier = qualifier,
               its_counterevidence_ids = counterevidence\<rparr>
      in validate_step (s\<lparr>its_step_id := step_id_of s\<rparr>))"

subsection \<open>Traces\<close>

record idea_trace =
  itr_schema_id :: string
  itr_trace_id :: string
  itr_trace_hash :: string
  itr_task_id :: string
  itr_answer_id :: string
  itr_answer_hash :: string
  itr_packet_id :: string
  itr_packet_hash :: string
  itr_case_set_id :: string
  itr_case_set_hash :: string
  itr_receipt_id :: string
  itr_receipt_hash :: string
  itr_question :: string
  itr_author_kind :: author_kind
  itr_author_profile_id :: string
  itr_author_profile_hash :: string
  itr_instruction_hash :: string
  itr_raw_response_hash :: string
  itr_steps :: "trace_step list"
  itr_final_step_id :: string
  itr_gaps :: "reasoning_gap list"

definition trace_schema :: string where
  "trace_schema = ''dithyramba.idea_trace/1.0''"

definition trace_payload :: "idea_trace \<Rightarrow> json" where
  "trace_payload t =
     JObj
       [(''schema_id'', JStr (itr_schema_id t)), (''task_id'', JStr (itr_task_id t)),
        (''answer_id'', JStr (itr_answer_id t)), (''answer_hash'', JStr (itr_answer_hash t)),
        (''packet_id'', JStr (itr_packet_id t)), (''packet_hash'', JStr (itr_packet_hash t)),
        (''case_set_id'', JStr (itr_case_set_id t)),
        (''case_set_hash'', JStr (itr_case_set_hash t)),
        (''receipt_id'', JStr (itr_receipt_id t)), (''receipt_hash'', JStr (itr_receipt_hash t)),
        (''question'', JStr (itr_question t)),
        (''author_kind'', JStr (author_kind_value (itr_author_kind t))),
        (''author_profile_id'', JStr (itr_author_profile_id t)),
        (''author_profile_hash'', JStr (itr_author_profile_hash t)),
        (''instruction_hash'', JStr (itr_instruction_hash t)),
        (''raw_response_hash'', JStr (itr_raw_response_hash t)),
        (''steps'', JList (map (\<lambda>s. JObj ((''step_id'', JStr (its_step_id s)) # step_fields s))
           (itr_steps t))),
        (''final_step_id'', JStr (itr_final_step_id t)),
        (''gaps'', JList (map reasoning_gap_dump (itr_gaps t)))]"

text \<open>The loop that requires the premises of every step among the steps before it.\<close>

fun premises_loop :: "string list \<Rightarrow> trace_step list \<Rightarrow> unit res" where
  "premises_loop prior [] = Inr ()"
| "premises_loop prior (s # ss) =
     (let missing = missing_ids (its_premise_step_ids s) prior
      in if missing \<noteq> []
         then Inl (ValueError (''premise steps must exist earlier in the trace: '' @ join '', '' missing))
         else premises_loop (its_step_id s # prior) ss)"

text \<open>
  \<open>_ancestor_ids\<close>: the pending identifiers are a stack whose top is the end of the list; an
  identifier that no step has is a \<open>KeyError\<close>.  Every round removes a pending identifier
  or adds an ancestor, and only identifiers of steps are added and expanded.
\<close>

function ancestor_loop :: "trace_step list \<Rightarrow> string list \<Rightarrow> string list \<Rightarrow> string list res" where
  "ancestor_loop steps pending ancestors =
     (if pending = [] then Inr ancestors
      else
        let current = last pending; rest = butlast pending
        in if current \<in> set ancestors then ancestor_loop steps rest ancestors
           else
             (case dict_by its_step_id steps current of
                None \<Rightarrow> Inl (KeyError current)
              | Some s \<Rightarrow> ancestor_loop steps (rest @ its_premise_step_ids s) (current # ancestors)))"
  by pat_completeness auto
termination
proof (relation "measures
    [\<lambda>(steps, pending, ancestors). card (its_step_id ` set steps - set ancestors),
     \<lambda>(steps, pending, ancestors). length pending]", goal_cases)
  case 1
  then show ?case by simp
next
  case (2 steps pending ancestors current rest)
  then show ?case by simp
next
  case (3 steps pending ancestors current rest s)
  then have "current \<in> its_step_id ` set steps"
    by (metis dict_by_None option.distinct(1))
  with 3 have "its_step_id ` set steps - set (current # ancestors) \<subset> its_step_id ` set steps - set ancestors"
    by auto
  then show ?case by (simp add: psubset_card_mono)
qed

declare ancestor_loop.simps [simp del]

definition ancestor_ids :: "trace_step list \<Rightarrow> string \<Rightarrow> string list res" where
  "ancestor_ids steps final =
     (case dict_by its_step_id steps final of
        None \<Rightarrow> Inl (KeyError final)
      | Some s \<Rightarrow> ancestor_loop steps (its_premise_step_ids s) [])"

definition trace_validator :: "idea_trace \<Rightarrow> idea_trace res" where
  "trace_validator t =
     (let step_ids = map its_step_id (itr_steps t)
      in if itr_schema_id t \<noteq> trace_schema
         then Inl (ValueError (''schema_id must be '' @ trace_schema))
         else if has_duplicates step_ids
         then Inl (ValueError ''IdeaTrace step_id values must be unique'')
         else if has_duplicates (map its_claim_id (itr_steps t))
         then Inl (ValueError ''one answer claim may appear only once in an IdeaTrace'')
         else if has_duplicates (map its_case_id (itr_steps t))
         then Inl (ValueError ''one claim-evidence case may appear only once in an IdeaTrace'')
         else if itr_final_step_id t \<noteq> last step_ids
         then Inl (ValueError ''the final IdeaTrace step must be the last step'')
         else
           res_bind (premises_loop [] (itr_steps t)) (\<lambda>_.
           res_bind (ancestor_ids (itr_steps t) (itr_final_step_id t)) (\<lambda>ancestors.
             let orphaned = missing_ids step_ids (itr_final_step_id t # ancestors)
             in if orphaned \<noteq> []
                then Inl (ValueError (''every IdeaTrace step must contribute to the final step: '' @
                  join '', '' orphaned))
                else if has_duplicates
                  (map (\<lambda>g. (rg_question g, rg_why_it_matters g, rg_next_evidence g)) (itr_gaps t))
                then Inl (ValueError ''IdeaTrace gaps must be unique'')
                else if itr_trace_id t \<noteq> canonical_content_id ''idea_trace'' (trace_payload t)
                then Inl (ValueError ''trace_id does not match the canonical IdeaTrace content'')
                else if itr_trace_hash t \<noteq> canonical_sha256_hex (trace_payload t)
                then Inl (ValueError ''trace_hash does not match the canonical IdeaTrace content'')
                else Inr t)))"

definition strip_trace :: "idea_trace \<Rightarrow> idea_trace" where
  "strip_trace t =
     t\<lparr>itr_schema_id := model_strip (itr_schema_id t), itr_trace_id := model_strip (itr_trace_id t),
       itr_trace_hash := model_strip (itr_trace_hash t), itr_task_id := model_strip (itr_task_id t),
       itr_answer_id := model_strip (itr_answer_id t),
       itr_answer_hash := model_strip (itr_answer_hash t),
       itr_packet_id := model_strip (itr_packet_id t),
       itr_packet_hash := model_strip (itr_packet_hash t),
       itr_case_set_id := model_strip (itr_case_set_id t),
       itr_case_set_hash := model_strip (itr_case_set_hash t),
       itr_receipt_id := model_strip (itr_receipt_id t),
       itr_receipt_hash := model_strip (itr_receipt_hash t),
       itr_question := model_strip (itr_question t),
       itr_author_profile_id := model_strip (itr_author_profile_id t),
       itr_author_profile_hash := model_strip (itr_author_profile_hash t),
       itr_instruction_hash := model_strip (itr_instruction_hash t),
       itr_raw_response_hash := model_strip (itr_raw_response_hash t),
       itr_final_step_id := model_strip (itr_final_step_id t)\<rparr>"

definition validate_trace :: "idea_trace \<Rightarrow> idea_trace res" where
  "validate_trace raw =
     (let t = strip_trace raw
      in validated
           [pattern_field ''trace_id'' (matches_prefixed_hex ''idea_trace_'' 32 (itr_trace_id t)),
            pattern_field ''trace_hash'' (matches_hex 64 (itr_trace_hash t)),
            pattern_field ''task_id'' (task_id_pattern (itr_task_id t)),
            pattern_field ''answer_id'' (matches_prefixed_hex ''research_answer_'' 32 (itr_answer_id t)),
            pattern_field ''answer_hash'' (matches_hex 64 (itr_answer_hash t)),
            pattern_field ''packet_id'' (matches_prefixed_hex ''memory_packet_'' 32 (itr_packet_id t)),
            pattern_field ''packet_hash'' (matches_hex 64 (itr_packet_hash t)),
            pattern_field ''case_set_id''
              (matches_prefixed_hex ''claim_evidence_case_set_'' 32 (itr_case_set_id t)),
            pattern_field ''case_set_hash'' (matches_hex 64 (itr_case_set_hash t)),
            pattern_field ''receipt_id''
              (matches_prefixed_hex ''claim_evidence_judgment_receipt_'' 32 (itr_receipt_id t)),
            pattern_field ''receipt_hash'' (matches_hex 64 (itr_receipt_hash t)),
            text_field ''question'' 1 4000 (itr_question t),
            pattern_field ''author_profile_id'' (model_id_pattern (itr_author_profile_id t)),
            pattern_field ''author_profile_hash'' (matches_hex 64 (itr_author_profile_hash t)),
            pattern_field ''instruction_hash'' (matches_hex 64 (itr_instruction_hash t)),
            pattern_field ''raw_response_hash'' (matches_hex 64 (itr_raw_response_hash t)),
            list_field ''steps'' 1 32 (itr_steps t),
            pattern_field ''final_step_id''
              (matches_prefixed_hex ''idea_trace_step_'' 32 (itr_final_step_id t)),
            list_field ''gaps'' 0 16 (itr_gaps t)]
           (trace_validator t))"

text \<open>\<open>create\<close> takes its arguments as a trace whose identifiers it fills in.\<close>

definition create_trace :: "idea_trace \<Rightarrow> idea_trace res" where
  "create_trace args =
     (let t = args\<lparr>itr_schema_id := trace_schema\<rparr>;
          payload = trace_payload t
      in validate_trace (t\<lparr>itr_trace_id := canonical_content_id ''idea_trace'' payload,
                           itr_trace_hash := canonical_sha256_hex payload\<rparr>))"

subsection \<open>Closure results\<close>

record step_closure =
  rsc_step_id :: string
  rsc_claim_id :: string
  rsc_case_id :: string
  rsc_verdict :: "verdict option"
  rsc_semantic_decision :: entailment_decision
  rsc_closed :: bool
  rsc_reason :: string

definition validate_step_closure :: "step_closure \<Rightarrow> step_closure res" where
  "validate_step_closure raw =
     (let c = raw\<lparr>rsc_step_id := model_strip (rsc_step_id raw),
                  rsc_claim_id := model_strip (rsc_claim_id raw),
                  rsc_case_id := model_strip (rsc_case_id raw),
                  rsc_reason := model_strip (rsc_reason raw)\<rparr>
      in validated
           [pattern_field ''step_id'' (matches_prefixed_hex ''idea_trace_step_'' 32 (rsc_step_id c)),
            pattern_field ''claim_id'' (model_id_pattern (rsc_claim_id c)),
            pattern_field ''case_id'' (matches_prefixed_hex ''claim_evidence_case_'' 32 (rsc_case_id c)),
            text_field ''reason'' 1 4000 (rsc_reason c)]
           (Inr c))"

definition step_closure_dump :: "step_closure \<Rightarrow> json" where
  "step_closure_dump c =
     JObj
       [(''step_id'', JStr (rsc_step_id c)), (''claim_id'', JStr (rsc_claim_id c)),
        (''case_id'', JStr (rsc_case_id c)),
        (''verdict'', json_opt (map_option verdict_value (rsc_verdict c))),
        (''semantic_decision'', JStr (entailment_decision_value (rsc_semantic_decision c))),
        (''closed'', JBool (rsc_closed c)), (''reason'', JStr (rsc_reason c))]"

record closure_result =
  clr_schema_id :: string
  clr_closure_id :: string
  clr_closure_hash :: string
  clr_trace_id :: string
  clr_trace_hash :: string
  clr_case_set_id :: string
  clr_case_set_hash :: string
  clr_receipt_id :: string
  clr_receipt_hash :: string
  clr_decision :: closure_decision
  clr_steps :: "step_closure list"
  clr_violations :: "string list"
  clr_review_reasons :: "string list"
  clr_review_eligible :: bool

definition closure_schema :: string where
  "closure_schema = ''dithyramba.reasoning_closure/1.0''"

definition closure_payload :: "closure_result \<Rightarrow> json" where
  "closure_payload c =
     JObj
       [(''schema_id'', JStr (clr_schema_id c)), (''trace_id'', JStr (clr_trace_id c)),
        (''trace_hash'', JStr (clr_trace_hash c)), (''case_set_id'', JStr (clr_case_set_id c)),
        (''case_set_hash'', JStr (clr_case_set_hash c)), (''receipt_id'', JStr (clr_receipt_id c)),
        (''receipt_hash'', JStr (clr_receipt_hash c)),
        (''decision'', JStr (closure_decision_value (clr_decision c))),
        (''steps'', JList (map step_closure_dump (clr_steps c))),
        (''violations'', json_strs (clr_violations c)),
        (''review_reasons'', json_strs (clr_review_reasons c)),
        (''review_eligible'', JBool (clr_review_eligible c))]"

definition closure_validator :: "closure_result \<Rightarrow> closure_result res" where
  "closure_validator c =
     (if clr_schema_id c \<noteq> closure_schema
      then Inl (ValueError (''schema_id must be '' @ closure_schema))
      else if clr_review_eligible c \<noteq> (clr_decision c = closure_decision.PASSED)
      then Inl (ValueError ''only a passed closure result is review-eligible'')
      else if clr_decision c = closure_decision.PASSED \<and>
        (clr_violations c \<noteq> [] \<or> clr_review_reasons c \<noteq> [] \<or> \<not> list_all rsc_closed (clr_steps c))
      then Inl (ValueError ''passed closure requires every step to close without findings'')
      else if clr_closure_id c \<noteq> canonical_content_id ''reasoning_closure'' (closure_payload c)
      then Inl (ValueError ''closure_id does not match the canonical closure content'')
      else if clr_closure_hash c \<noteq> canonical_sha256_hex (closure_payload c)
      then Inl (ValueError ''closure_hash does not match the canonical closure content'')
      else Inr c)"

definition strip_closure :: "closure_result \<Rightarrow> closure_result" where
  "strip_closure c =
     c\<lparr>clr_schema_id := model_strip (clr_schema_id c), clr_closure_id := model_strip (clr_closure_id c),
       clr_closure_hash := model_strip (clr_closure_hash c),
       clr_trace_id := model_strip (clr_trace_id c), clr_trace_hash := model_strip (clr_trace_hash c),
       clr_case_set_id := model_strip (clr_case_set_id c),
       clr_case_set_hash := model_strip (clr_case_set_hash c),
       clr_receipt_id := model_strip (clr_receipt_id c),
       clr_receipt_hash := model_strip (clr_receipt_hash c),
       clr_violations := map model_strip (clr_violations c),
       clr_review_reasons := map model_strip (clr_review_reasons c)\<rparr>"

definition validate_closure :: "closure_result \<Rightarrow> closure_result res" where
  "validate_closure raw =
     (let c = strip_closure raw
      in validated
           [pattern_field ''closure_id'' (matches_prefixed_hex ''reasoning_closure_'' 32 (clr_closure_id c)),
            pattern_field ''closure_hash'' (matches_hex 64 (clr_closure_hash c)),
            pattern_field ''trace_id'' (matches_prefixed_hex ''idea_trace_'' 32 (clr_trace_id c)),
            pattern_field ''trace_hash'' (matches_hex 64 (clr_trace_hash c)),
            pattern_field ''case_set_id''
              (matches_prefixed_hex ''claim_evidence_case_set_'' 32 (clr_case_set_id c)),
            pattern_field ''case_set_hash'' (matches_hex 64 (clr_case_set_hash c)),
            pattern_field ''receipt_id''
              (matches_prefixed_hex ''claim_evidence_judgment_receipt_'' 32 (clr_receipt_id c)),
            pattern_field ''receipt_hash'' (matches_hex 64 (clr_receipt_hash c)),
            list_field ''steps'' 1 32 (clr_steps c)]
           (closure_validator c))"

definition create_closure ::
  "idea_trace \<Rightarrow> closure_decision \<Rightarrow> step_closure list \<Rightarrow> string list \<Rightarrow> string list \<Rightarrow> closure_result res" where
  "create_closure t decision steps violations reasons =
     (let c = \<lparr>clr_schema_id = closure_schema, clr_closure_id = [], clr_closure_hash = [],
               clr_trace_id = itr_trace_id t, clr_trace_hash = itr_trace_hash t,
               clr_case_set_id = itr_case_set_id t, clr_case_set_hash = itr_case_set_hash t,
               clr_receipt_id = itr_receipt_id t, clr_receipt_hash = itr_receipt_hash t,
               clr_decision = decision, clr_steps = steps, clr_violations = violations,
               clr_review_reasons = reasons,
               clr_review_eligible = (decision = closure_decision.PASSED)\<rparr>;
          payload = closure_payload c
      in validate_closure (c\<lparr>clr_closure_id := canonical_content_id ''reasoning_closure'' payload,
                             clr_closure_hash := canonical_sha256_hex payload\<rparr>))"

subsection \<open>Closure gate\<close>

definition binding_findings :: "idea_trace \<Rightarrow> evidence_case_set \<Rightarrow> entailment_result \<Rightarrow> string list" where
  "binding_findings t s r =
     error_if
       (itr_trace_id t \<noteq> canonical_content_id ''idea_trace'' (trace_payload t) \<or>
        itr_trace_hash t \<noteq> canonical_sha256_hex (trace_payload t) \<or>
        list_ex (\<lambda>st. its_step_id st \<noteq> step_id_of st) (itr_steps t))
       ''IdeaTrace content identity is invalid or was modified after validation'' @
     error_if
       (itr_task_id t \<noteq> ecs_task_id s \<or> itr_answer_id t \<noteq> ecs_answer_id s \<or>
        itr_answer_hash t \<noteq> ecs_answer_hash s \<or> itr_packet_id t \<noteq> ecs_packet_id s \<or>
        itr_packet_hash t \<noteq> ecs_packet_hash s \<or> itr_case_set_id t \<noteq> ecs_case_set_id s \<or>
        itr_case_set_hash t \<noteq> ecs_case_set_hash s)
       ''IdeaTrace is stale or bound to a different answer/case set'' @
     error_if
       (enr_case_set_id r \<noteq> Some (ecs_case_set_id s) \<or> enr_case_set_hash r \<noteq> Some (ecs_case_set_hash s))
       ''claim-evidence result is bound to a different case set'' @
     error_if
       (enr_receipt_id r \<noteq> Some (itr_receipt_id t) \<or> enr_receipt_hash r \<noteq> Some (itr_receipt_hash t))
       ''IdeaTrace is bound to a different semantic judgment receipt''"

definition operation_findings ::
  "reasoning_operation \<Rightarrow> reasoning_qualifier \<Rightarrow> claim_state \<Rightarrow> verdict option \<Rightarrow> string list" where
  "operation_findings operation qualifier state v =
     (if operation = EXTRACT
      then
        error_if (qualifier = DIRECT \<and> (state \<noteq> claim_state.SUPPORTED \<or> v \<noteq> Some DIRECTLY_SUPPORTED))
          ''direct extraction requires a directly supported claim'' @
        error_if (qualifier = reasoning_qualifier.CONTESTED \<and>
            (state \<noteq> claim_state.QUALIFIED \<or> v \<noteq> Some DIRECTLY_SUPPORTED))
          ''contested extraction requires a qualified supported claim''
      else
        error_if (qualifier = BOUNDED \<and>
            (state \<noteq> INFERENCE \<or> v \<notin> {Some DIRECTLY_SUPPORTED, Some SUPPORTED_INFERENCE}))
          ''bounded derivation requires an inference claim with support'' @
        error_if (qualifier = reasoning_qualifier.CONTESTED \<and>
            (state \<notin> {claim_state.QUALIFIED, INFERENCE} \<or>
             v \<notin> {Some DIRECTLY_SUPPORTED, Some SUPPORTED_INFERENCE}))
          ''contested derivation requires a qualified or inference claim'')"

definition unclosed_step :: "trace_step \<Rightarrow> string \<Rightarrow> step_closure res" where
  "unclosed_step s reason =
     validate_step_closure
       \<lparr>rsc_step_id = its_step_id s, rsc_claim_id = its_claim_id s, rsc_case_id = its_case_id s,
        rsc_verdict = None, rsc_semantic_decision = entailment_decision.REVIEW_REQUIRED,
        rsc_closed = False, rsc_reason = reason\<rparr>"

text \<open>The findings of one step: its violations and its review reasons.\<close>

definition local_violations ::
  "trace_step \<Rightarrow> evidence_case option \<Rightarrow> case_result option \<Rightarrow> string list" where
  "local_violations s c oc =
     (case oc of
        None \<Rightarrow> []
      | Some r \<Rightarrow>
          error_if (crs_claim_id r = its_claim_id s \<and> crs_decision r = entailment_decision.FAILED)
            (''semantic evidence gate failed: '' @ crs_reason r) @
          (case c of None \<Rightarrow> []
           | Some ec \<Rightarrow> operation_findings (its_operation s) (its_qualifier s) (eca_claim_state ec)
               (crs_verdict r)))"

definition local_review ::
  "string list \<Rightarrow> trace_step \<Rightarrow> evidence_case option \<Rightarrow> case_result option \<Rightarrow> string list" where
  "local_review known s c oc =
     (case c of
        None \<Rightarrow> [''claim-evidence case is absent'']
      | Some ec \<Rightarrow> error_if (eca_claim_id ec \<noteq> its_claim_id s \<or> eca_claim_text ec \<noteq> its_statement s)
          ''step statement is stale or bound to a different claim'') @
     (case oc of
        None \<Rightarrow> [''semantic case result is absent'']
      | Some r \<Rightarrow>
          if crs_claim_id r \<noteq> its_claim_id s
          then [''semantic case result names a different claim'']
          else error_if (crs_decision r \<notin> {entailment_decision.FAILED, entailment_decision.PASSED})
            (''semantic evidence gate is '' @ entailment_decision_value (crs_decision r))) @
     error_if (missing_ids (its_counterevidence_ids s) known \<noteq> [])
       (''counterevidence is outside the exact case set: '' @
        join '', '' (missing_ids (its_counterevidence_ids s) known))"

definition step_outcome ::
  "evidence_case_set \<Rightarrow> entailment_result \<Rightarrow> trace_step \<Rightarrow> (step_closure res \<times> string list \<times> string list)" where
  "step_outcome cs r s =
     (let c = dict_by eca_case_id (ecs_cases cs) (its_case_id s);
          oc = dict_by crs_case_id (enr_cases r) (its_case_id s);
          known = concat (map (\<lambda>ec. map ecn_evidence_id (eca_citations ec)) (ecs_cases cs));
          lv = local_violations s c oc;
          lr = local_review known s c oc;
          closed = (lv = [] \<and> lr = [])
      in (validate_step_closure
            \<lparr>rsc_step_id = its_step_id s, rsc_claim_id = its_claim_id s, rsc_case_id = its_case_id s,
             rsc_verdict = (case oc of None \<Rightarrow> None | Some x \<Rightarrow> crs_verdict x),
             rsc_semantic_decision =
               (case oc of None \<Rightarrow> entailment_decision.REVIEW_REQUIRED | Some x \<Rightarrow> crs_decision x),
             rsc_closed = closed,
             rsc_reason =
               (if closed then ''exact claim and semantic receipt close this public step''
                else join ''; '' (lv @ lr))\<rparr>,
          map (\<lambda>x. its_step_id s @ '': '' @ x) lv, map (\<lambda>x. its_step_id s @ '': '' @ x) lr))"

definition evaluate_closure ::
  "idea_trace \<Rightarrow> evidence_case_set \<Rightarrow> entailment_result \<Rightarrow> closure_result res" where
  "evaluate_closure t cs r =
     (let findings = binding_findings t cs r
      in if findings \<noteq> []
         then res_bind
           (map_res (\<lambda>s. unclosed_step s ''trace dependencies are not exactly bound'') (itr_steps t))
           (\<lambda>steps. create_closure t closure_decision.REVIEW_REQUIRED steps [] findings)
         else
           let outcomes = map (step_outcome cs r) (itr_steps t);
               violations = concat (map (fst \<circ> snd) outcomes) @
                 error_if (enr_decision r = entailment_decision.FAILED)
                   ''the bound claim-evidence result failed'';
               pending = concat (map (snd \<circ> snd) outcomes) @
                 error_if (enr_decision r \<notin> {entailment_decision.FAILED, entailment_decision.PASSED})
                   (''the bound claim-evidence result is '' @ entailment_decision_value (enr_decision r))
           in res_bind (map_res fst outcomes) (\<lambda>steps.
                create_closure t
                  (if violations \<noteq> [] then closure_decision.FAILED
                   else if pending \<noteq> [] then closure_decision.REVIEW_REQUIRED
                   else closure_decision.PASSED)
                  steps violations pending))"

end
