(* ===== verification/Entailment_Props.thy ===== *)
theory Entailment_Props
  imports Entailment
begin

text \<open>
  The semantic review gate: what a passed result means, that the gate always returns, and
  what the builder of review cases exposes.
\<close>

subsection \<open>Field results\<close>

lemma opt_field_Inr [res_simps]: "opt_field f v = Inr u \<longleftrightarrow> (\<forall>x. v = Some x \<longrightarrow> f x = Inr ())"
  by (cases v) (simp_all add: opt_field_def)

lemma error_if_Nil [simp]: "error_if c m = [] \<longleftrightarrow> \<not> c"
  by (simp add: error_if_def)

lemma unexpected_iff [simp]: "unexpected e v \<longleftrightarrow> e \<noteq> None \<and> e \<noteq> Some v"
  by (cases e) (auto simp: unexpected_def)

lemma validate_case_result_decision:
  "validate_case_result x = Inr y \<Longrightarrow> crs_decision y = crs_decision x"
  by (auto simp: validate_case_result_def Let_def res_simps)

lemma semantic_result_decision: "semantic_result d s r cs vs us = Inr res \<Longrightarrow> enr_decision res = d"
  by (auto simp: semantic_result_def validate_entailment_result_def Let_def res_simps
      result_validator_def)

lemma result_choice:
  "(if a then semantic_result d s r cs vs us else semantic_result d' s r cs vs' us') = Inr res \<Longrightarrow>
     enr_decision res = (if a then d else d')"
  by (cases a) (auto dest: semantic_result_decision)

lemma unchecked_result_decision: "unchecked_result s e = Inr res \<Longrightarrow> enr_decision res = UNCHECKED"
  by (auto simp: unchecked_result_def validate_entailment_result_def Let_def res_simps
      result_validator_def)

subsection \<open>Duplicates and closure\<close>

lemma duplicates_loop_Nil:
  "duplicates_loop seen dups vs = [] \<longleftrightarrow> dups = [] \<and> distinct vs \<and> set vs \<inter> set seen = {}"
  by (induction vs arbitrary: seen dups) auto

lemma duplicates_Nil [simp]: "duplicates vs = [] \<longleftrightarrow> distinct vs"
proof -
  have "duplicates vs = [] \<longleftrightarrow> set (duplicates vs) = {}" by simp
  then show ?thesis by (simp add: duplicates_def duplicates_loop_Nil)
qed

text \<open>The judgments close over the cases: one for every case, none for anything else.\<close>

definition judgments_close :: "evidence_case list \<Rightarrow> claim_judgment list \<Rightarrow> bool" where
  "judgments_close cs js \<longleftrightarrow>
     distinct (map jd_case_id js) \<and> distinct (map jd_claim_id js) \<and>
     jd_case_id ` set js = eca_case_id ` set cs \<and> jd_claim_id ` set js \<subseteq> eca_claim_id ` set cs"

lemma closure_errors_Nil: "closure_errors cs js = [] \<longleftrightarrow> judgments_close cs js"
  by (auto simp: closure_errors_def judgments_close_def Let_def)

lemma judgment_of_Some: "judgment_of js cid = Some j \<Longrightarrow> j \<in> set js \<and> jd_case_id j = cid"
  by (auto simp: judgment_of_def find_Some_iff)

lemma judgment_of_None: "judgment_of js cid = None \<longleftrightarrow> cid \<notin> jd_case_id ` set js"
  by (auto simp: judgment_of_def find_None_iff)

lemma judgment_of_unique:
  assumes "distinct (map jd_case_id js)" and "j \<in> set js"
  shows "judgment_of js (jd_case_id j) = Some j"
proof -
  obtain k where k: "judgment_of js (jd_case_id j) = Some k"
    using assms(2) judgment_of_None [of js "jd_case_id j"] by fastforce
  then have "k \<in> set js" "jd_case_id k = jd_case_id j" by (auto dest: judgment_of_Some)
  with assms have "k = j" by (auto simp: distinct_map dest: inj_onD)
  with k show ?thesis by simp
qed

subsection \<open>Policy\<close>

definition supports_claim :: "claim_state \<Rightarrow> verdict \<Rightarrow> bool" where
  "supports_claim state v \<longleftrightarrow>
     v = DIRECTLY_SUPPORTED \<or> v = SUPPORTED_INFERENCE \<and> state = INFERENCE"

lemma claim_decision_PASSED: "claim_decision state v = PASSED \<longleftrightarrow> supports_claim state v"
  by (cases v; cases state) (simp_all add: claim_decision_def supports_claim_def)

lemma claim_decision_checked: "claim_decision state v \<noteq> UNCHECKED"
  by (cases v; cases state) (simp_all add: claim_decision_def)

lemma span_error_supported: "supports_claim state (jd_verdict j) \<Longrightarrow> span_error txt j = None \<longleftrightarrow> jd_spans j = []"
  by (auto simp: span_error_def supports_claim_def)

lemma case_outcome_checked: "crs_decision (fst (case_outcome js c)) \<noteq> UNCHECKED"
  using claim_decision_checked by (auto simp: case_outcome_def split: option.splits)

text \<open>The judgment that admits a case.\<close>

definition admits :: "evidence_case \<Rightarrow> claim_judgment \<Rightarrow> bool" where
  "admits c j \<longleftrightarrow>
     jd_case_id j = eca_case_id c \<and> jd_claim_id j = eca_claim_id c \<and>
     supports_claim (eca_claim_state c) (jd_verdict j) \<and> jd_spans j = []"

lemma case_outcome_admits:
  "crs_decision (fst (case_outcome js c)) = PASSED \<and> snd (case_outcome js c) = [] \<longleftrightarrow>
     (\<exists>j. judgment_of js (eca_case_id c) = Some j \<and> admits c j)"
proof (cases "judgment_of js (eca_case_id c)")
  case None
  then show ?thesis by (simp add: case_outcome_def)
next
  case (Some j)
  then have "jd_case_id j = eca_case_id c" by (auto dest: judgment_of_Some)
  with Some show ?thesis
    using span_error_supported [of "eca_claim_state c" j "eca_claim_text c"]
    by (cases "span_error (eca_claim_text c) j")
      (auto simp: case_outcome_def admits_def claim_decision_PASSED)
qed

subsection \<open>The gate\<close>

definition receipt_intact :: "evidence_case_set \<Rightarrow> judgment_receipt \<Rightarrow> expected_judge \<Rightarrow> bool" where
  "receipt_intact s r ej \<longleftrightarrow>
     jr_schema_id r = receipt_schema \<and>
     jr_receipt_id r = canonical_content_id ''claim_evidence_judgment_receipt'' (receipt_payload r) \<and>
     jr_receipt_hash r = canonical_sha256_hex (receipt_payload r) \<and>
     jr_case_set_id r = ecs_case_set_id s \<and> jr_case_set_hash r = ecs_case_set_hash s \<and>
     ej_judge_kind ej \<in> {None, Some (jr_judge_kind r)} \<and>
     ej_judge_profile_id ej \<in> {None, Some (jr_judge_profile_id r)} \<and>
     ej_judge_profile_hash ej \<in> {None, Some (jr_judge_profile_hash r)} \<and>
     ej_prompt_hash ej \<in> {None, Some (jr_prompt_hash r)} \<and>
     ej_raw_response_hash ej \<in> {None, Some (jr_raw_response_hash r)}"

lemma receipt_integrity_errors_Nil: "receipt_integrity_errors s r ej = [] \<longleftrightarrow> receipt_intact s r ej"
  by (auto simp: receipt_integrity_errors_def receipt_intact_def)

lemma evaluate_judgments_Inr:
  "evaluate_judgments s r = Inr (results, errs) \<longleftrightarrow>
     list_all2 (\<lambda>c x. validate_case_result (fst (case_outcome (jr_judgments r) c)) = Inr x)
       (ecs_cases s) results \<and>
     errs = closure_errors (ecs_cases s) (jr_judgments r) @
       concat (map (\<lambda>c. snd (case_outcome (jr_judgments r) c)) (ecs_cases s))"
  by (auto simp: evaluate_judgments_def Let_def res_simps map_res_eq_Inr list_all2_map1 comp_def)

lemma labelled_Nil: "labelled d results = [] \<longleftrightarrow> (\<forall>x \<in> set results. crs_decision x \<noteq> d)"
  by (auto simp: labelled_def filter_empty_conv)

lemma outcome_decisions:
  assumes "list_all2 (\<lambda>c x. validate_case_result (fst (case_outcome js c)) = Inr x) cs results"
  shows "(\<forall>x \<in> set results. crs_decision x \<noteq> d) \<longleftrightarrow> (\<forall>c \<in> set cs. crs_decision (fst (case_outcome js c)) \<noteq> d)"
  using assms
  by (induction rule: list_all2_induct) (auto dest: validate_case_result_decision)

text \<open>What the gate admits, over the artifacts alone.\<close>

definition review_passes ::
  "evidence_case_set \<Rightarrow> answer_contract_result \<Rightarrow> answer_coverage_result \<Rightarrow> judgment_receipt \<Rightarrow>
     expected_judge \<Rightarrow> bool" where
  "review_passes s contract coverage r ej \<longleftrightarrow>
     acr_decision contract = ACCEPTED \<and> acv_decision coverage = COMPLETE \<and>
     acr_answer_id contract = Some (ecs_answer_id s) \<and>
     acr_answer_hash contract = Some (ecs_answer_hash s) \<and>
     acv_answer_id coverage = ecs_answer_id s \<and> acv_answer_hash coverage = ecs_answer_hash s \<and>
     acv_spec_id coverage = ecs_coverage_spec_id s \<and>
     acv_spec_hash coverage = ecs_coverage_spec_hash s \<and>
     receipt_intact s r ej \<and> judgments_close (ecs_cases s) (jr_judgments r) \<and>
     (\<forall>c \<in> set (ecs_cases s). \<exists>j \<in> set (jr_judgments r). admits c j)"

lemma prerequisite_error_None:
  "prerequisite_error s contract coverage = None \<longleftrightarrow>
     acr_decision contract = ACCEPTED \<and> acv_decision coverage = COMPLETE \<and>
     acr_answer_id contract = Some (ecs_answer_id s) \<and>
     acr_answer_hash contract = Some (ecs_answer_hash s) \<and>
     acv_answer_id coverage = ecs_answer_id s \<and> acv_answer_hash coverage = ecs_answer_hash s \<and>
     acv_spec_id coverage = ecs_coverage_spec_id s \<and>
     acv_spec_hash coverage = ecs_coverage_spec_hash s"
  by (auto simp: prerequisite_error_def)

lemma all_cases_admitted:
  assumes "judgments_close cs js"
  shows "(\<forall>c \<in> set cs. crs_decision (fst (case_outcome js c)) = PASSED \<and> snd (case_outcome js c) = []) \<longleftrightarrow>
    (\<forall>c \<in> set cs. \<exists>j \<in> set js. admits c j)"
proof -
  have "(\<exists>j. judgment_of js (eca_case_id c) = Some j \<and> admits c j) \<longleftrightarrow> (\<exists>j \<in> set js. admits c j)" for c
  proof
    assume "\<exists>j \<in> set js. admits c j"
    then obtain j where "j \<in> set js" "admits c j" by blast
    moreover from this have "judgment_of js (eca_case_id c) = Some j"
      using judgment_of_unique [of js j] assms by (auto simp: judgments_close_def admits_def)
    ultimately show "\<exists>j. judgment_of js (eca_case_id c) = Some j \<and> admits c j" by blast
  qed (auto dest: judgment_of_Some)
  then show ?thesis by (simp add: case_outcome_admits)
qed

lemma gate_decision_cases:
  assumes "evaluate_entailment s contract coverage (Some r) ej = Inr res"
    and "prerequisite_error s contract coverage = None"
  shows "enr_decision res = PASSED \<longleftrightarrow>
    receipt_intact s r ej \<and> judgments_close (ecs_cases s) (jr_judgments r) \<and>
    (\<forall>c \<in> set (ecs_cases s). snd (case_outcome (jr_judgments r) c) = [] \<and>
       crs_decision (fst (case_outcome (jr_judgments r) c)) = PASSED)"
proof -
  let ?o = "case_outcome (jr_judgments r)"
  obtain results errs where j: "evaluate_judgments s r = Inr (results, errs)"
    using assms by (auto simp: evaluate_entailment_def res_simps)
  then have all2: "list_all2 (\<lambda>c x. validate_case_result (fst (?o c)) = Inr x) (ecs_cases s) results"
    and errs: "errs = closure_errors (ecs_cases s) (jr_judgments r) @ concat (map (snd \<circ> ?o) (ecs_cases s))"
    by (auto simp: evaluate_judgments_Inr comp_def)
  let ?errors = "receipt_integrity_errors s r ej @ errs"
  have none: "?errors = [] \<longleftrightarrow> receipt_intact s r ej \<and> judgments_close (ecs_cases s) (jr_judgments r) \<and>
      (\<forall>c \<in> set (ecs_cases s). snd (?o c) = [])"
    by (auto simp: errs receipt_integrity_errors_Nil closure_errors_Nil)
  have dec: "enr_decision res = (if ?errors \<noteq> [] then REVIEW_REQUIRED
      else if labelled FAILED results \<noteq> [] then FAILED
      else if labelled REVIEW_REQUIRED results \<noteq> [] then REVIEW_REQUIRED else PASSED)"
  proof -
    let ?d = "if labelled FAILED results \<noteq> [] then FAILED
      else if labelled REVIEW_REQUIRED results \<noteq> [] then REVIEW_REQUIRED else PASSED"
    have "evaluate_entailment s contract coverage (Some r) ej =
        (if ?errors \<noteq> [] then semantic_result REVIEW_REQUIRED s (Some r) results [] ?errors
         else semantic_result ?d s (Some r) results (labelled FAILED results)
           (labelled REVIEW_REQUIRED results))"
      by (simp only: evaluate_entailment_def assms(2) j option.case res_bind_Inr prod.case Let_def)
    then have "(if ?errors \<noteq> [] then semantic_result REVIEW_REQUIRED s (Some r) results [] ?errors
         else semantic_result ?d s (Some r) results (labelled FAILED results)
           (labelled REVIEW_REQUIRED results)) = Inr res" using assms(1) by (rule subst)
    then show ?thesis by (rule result_choice)
  qed
  have "labelled FAILED results = [] \<and> labelled REVIEW_REQUIRED results = [] \<longleftrightarrow>
      (\<forall>c \<in> set (ecs_cases s). crs_decision (fst (?o c)) = PASSED)"
  proof -
    have "d \<noteq> UNCHECKED \<Longrightarrow> d \<noteq> FAILED \<and> d \<noteq> REVIEW_REQUIRED \<longleftrightarrow> d = PASSED" for d :: entailment_decision
      by (cases d) simp_all
    from this [OF case_outcome_checked] show ?thesis
      unfolding labelled_Nil outcome_decisions [OF all2] ball_conj_distrib [symmetric] by simp
  qed
  then have "enr_decision res = PASSED \<longleftrightarrow>
      ?errors = [] \<and> (\<forall>c \<in> set (ecs_cases s). crs_decision (fst (?o c)) = PASSED)"
    unfolding dec by (simp del: append_is_Nil_conv, blast)
  then show ?thesis unfolding none by blast
qed

lemma evaluate_entailment_checked:
  assumes "prerequisite_error s contract coverage = None"
    and "evaluate_judgments s r = Inr (results, errs)"
  shows "\<exists>d vs us. d \<noteq> UNCHECKED \<and>
    evaluate_entailment s contract coverage (Some r) ej = semantic_result d s (Some r) results vs us"
proof -
  have lift: "(if a then semantic_result d s r cs v u else semantic_result d' s r cs v' u') =
      semantic_result (if a then d else d') s r cs (if a then v else v') (if a then u else u')"
    for a d d' r cs v v' u u' by simp
  show ?thesis
    unfolding evaluate_entailment_def assms option.case res_bind_Inr prod.case Let_def lift
    by (intro exI conjI, rule_tac [2] refl) simp
qed

subsection \<open>The gate returns\<close>

text \<open>Case sets, receipts and their parts as the package constructs them.\<close>

definition valid_case_set :: "evidence_case_set \<Rightarrow> bool" where
  "valid_case_set s \<longleftrightarrow> validate_case_set s = Inr s \<and> (\<forall>c \<in> set (ecs_cases s). validate_case c = Inr c)"

definition valid_receipt :: "judgment_receipt \<Rightarrow> bool" where
  "valid_receipt r \<longleftrightarrow>
     validate_receipt r = Inr r \<and> (\<forall>j \<in> set (jr_judgments r). validate_judgment j = Inr j)"

lemma valid_case_fields:
  "validate_case c = Inr c \<Longrightarrow>
     matches_prefixed_hex ''claim_evidence_case_'' 32 (model_strip (eca_case_id c)) \<and>
     model_id_pattern (model_strip (eca_claim_id c))"
  by (auto simp: validate_case_def Let_def res_simps)

lemma valid_judgment_fields:
  "validate_judgment j = Inr j \<Longrightarrow>
     length (jd_spans j) \<le> 64 \<and> 1 \<le> length (model_strip (jd_reason j)) \<and>
     length (model_strip (jd_reason j)) \<le> 4000"
  by (auto simp: validate_judgment_def Let_def res_simps)

lemma valid_case_set_fields:
  "valid_case_set s \<Longrightarrow>
     matches_prefixed_hex ''claim_evidence_case_set_'' 32 (model_strip (ecs_case_set_id s)) \<and>
     matches_hex 64 (model_strip (ecs_case_set_hash s)) \<and> length (ecs_cases s) \<le> 64"
  by (auto simp: valid_case_set_def validate_case_set_def strip_case_set_def Let_def res_simps)

lemma valid_receipt_fields:
  "valid_receipt r \<Longrightarrow>
     matches_prefixed_hex ''claim_evidence_judgment_receipt_'' 32 (model_strip (jr_receipt_id r)) \<and>
     matches_hex 64 (model_strip (jr_receipt_hash r))"
  by (auto simp: valid_receipt_def validate_receipt_def strip_receipt_def Let_def res_simps)

lemma missing_reason_length:
  "1 \<le> length (model_strip ''semantic judgment is missing'') \<and>
   length (model_strip ''semantic judgment is missing'') \<le> 4000"
  by (simp add: model_strip_literal)

lemma case_outcome_valid:
  assumes "validate_case c = Inr c" and "\<forall>j \<in> set js. validate_judgment j = Inr j"
  shows "\<exists>x. validate_case_result (fst (case_outcome js c)) = Inr x"
proof (cases "judgment_of js (eca_case_id c)")
  case None
  then show ?thesis
    using valid_case_fields [OF assms(1)] missing_reason_length
    by (simp add: case_outcome_def validate_case_result_def Let_def res_simps)
next
  case (Some j)
  then have "validate_judgment j = Inr j" using assms(2) by (auto dest: judgment_of_Some)
  with Some show ?thesis
    using valid_case_fields [OF assms(1)] valid_judgment_fields [of j]
    by (simp add: case_outcome_def validate_case_result_def Let_def res_simps)
qed

lemma evaluate_judgments_total:
  assumes "valid_case_set s" and "valid_receipt r"
  shows "\<exists>results errs. evaluate_judgments s r = Inr (results, errs) \<and> length results = length (ecs_cases s)"
proof -
  have "\<exists>results. map_res (\<lambda>c. validate_case_result (fst (case_outcome (jr_judgments r) c))) (ecs_cases s) = Inr results"
    using assms by (intro map_res_ok case_outcome_valid) (auto simp: valid_case_set_def valid_receipt_def)
  then obtain results where
    "list_all2 (\<lambda>c x. validate_case_result (fst (case_outcome (jr_judgments r) c)) = Inr x) (ecs_cases s) results"
    by (auto simp: map_res_eq_Inr)
  then show ?thesis unfolding evaluate_judgments_Inr using list_all2_lengthD by metis
qed

lemma semantic_result_total:
  assumes "valid_case_set s" and "\<And>r. receipt = Some r \<Longrightarrow> valid_receipt r"
    and "length results \<le> 64" and "d \<noteq> UNCHECKED"
  shows "\<exists>res. semantic_result d s receipt results vs us = Inr res"
  using valid_case_set_fields [OF assms(1)] valid_receipt_fields [OF assms(2)] assms(3,4)
  by (auto simp: semantic_result_def validate_entailment_result_def result_validator_def Let_def res_simps)

lemma prerequisite_error_length:
  "prerequisite_error s contract coverage = Some e \<Longrightarrow>
     1 \<le> length (model_strip e) \<and> length (model_strip e) \<le> 2000"
  by (auto simp: prerequisite_error_def model_strip_literal split: if_splits)

lemma unchecked_result_total:
  assumes "valid_case_set s" and "1 \<le> length (model_strip e)" and "length (model_strip e) \<le> 2000"
  shows "\<exists>res. unchecked_result (Some s) e = Inr res"
  using valid_case_set_fields [OF assms(1)] assms(2,3)
  by (auto simp: unchecked_result_def validate_entailment_result_def result_validator_def Let_def res_simps)

lemma evaluate_entailment_total:
  assumes s: "valid_case_set s" and r: "\<And>r. receipt = Some r \<Longrightarrow> valid_receipt r"
  shows "\<exists>res. evaluate_entailment s contract coverage receipt ej = Inr res"
proof (cases "prerequisite_error s contract coverage")
  case (Some e)
  then show ?thesis
    using unchecked_result_total [OF s] prerequisite_error_length by (simp add: evaluate_entailment_def)
next
  case none: None
  show ?thesis
  proof (cases receipt)
    case None
    have "\<exists>res. semantic_result REVIEW_REQUIRED s None [] [] [''semantic judgment receipt is missing''] = Inr res"
      by (rule semantic_result_total [OF s]) simp_all
    with none None show ?thesis by (simp add: evaluate_entailment_def)
  next
    case (Some rc)
    obtain results errs where j: "evaluate_judgments s rc = Inr (results, errs)"
      and len: "length results = length (ecs_cases s)"
      using evaluate_judgments_total [OF s r [OF Some]] by blast
    have len64: "length results \<le> 64" using valid_case_set_fields [OF s] len by simp
    obtain d vs us where "d \<noteq> UNCHECKED" and
      "evaluate_entailment s contract coverage (Some rc) ej = semantic_result d s (Some rc) results vs us"
      using evaluate_entailment_checked [OF none j] by blast
    moreover have "\<exists>res. semantic_result d s (Some rc) results vs us = Inr res" if "d \<noteq> UNCHECKED" for d vs us
      by (rule semantic_result_total [OF s _ len64 that]) (use r [OF Some] in simp)
    ultimately show ?thesis by (simp add: Some)
  qed
qed

lemma entailment_unchecked_iff:
  assumes "evaluate_entailment s contract coverage receipt ej = Inr res"
  shows "enr_decision res = UNCHECKED \<longleftrightarrow> prerequisite_error s contract coverage \<noteq> None"
proof (cases "prerequisite_error s contract coverage")
  case (Some e)
  then show ?thesis
    using assms by (auto simp: evaluate_entailment_def dest: unchecked_result_decision)
next
  case none: None
  show ?thesis
  proof (cases receipt)
    case None
    with assms none show ?thesis
      by (auto simp: evaluate_entailment_def dest: semantic_result_decision)
  next
    case (Some r)
    obtain results errs where j: "evaluate_judgments s r = Inr (results, errs)"
      using assms none Some by (auto simp: evaluate_entailment_def res_simps)
    then obtain d vs us where "d \<noteq> UNCHECKED" and
      "semantic_result d s (Some r) results vs us = Inr res"
      using evaluate_entailment_checked [OF none j, of ej] assms Some by metis
    then show ?thesis using none by (auto dest: semantic_result_decision)
  qed
qed

subsection \<open>A sample review\<close>

definition zeros64 :: string where
  "zeros64 = replicate 64 CHR ''0''"

definition sample_case0 :: evidence_case where
  "sample_case0 =
     \<lparr>eca_case_id = [], eca_claim_id = ''claim_a'', eca_claim_text = ''Built in 1911'',
               eca_claim_state = claim_state.SUPPORTED,
               eca_citations = [\<lparr>ecn_evidence_id = ''evidence_a'', ecn_source_id = ''source_a'',
                 ecn_source_title = ''Letter'', ecn_source_creator = ''A'', ecn_source_kind = LETTER,
                 ecn_voice_kind = FIRST_PERSON, ecn_asserting_voice = ''A'',
                 ecn_evidence_role = evidence_role.SUPPORTS, ecn_limitation = None,
                 ecn_exact_quote = ''in 1911''\<rparr>],
               eca_unquoted = []\<rparr>"

definition sample_case :: evidence_case where
  "sample_case =
     sample_case0\<lparr>eca_case_id := canonical_content_id ''claim_evidence_case'' (case_payload sample_case0)\<rparr>"

definition sample_case_set0 :: evidence_case_set where
  "sample_case_set0 =
     \<lparr>ecs_schema_id = case_set_schema, ecs_case_set_id = [], ecs_case_set_hash = [],
               ecs_task_id = ''task_a'', ecs_answer_id = ''research_answer_'' @ replicate 32 CHR ''0'',
               ecs_answer_hash = zeros64, ecs_packet_id = ''memory_packet_'' @ replicate 32 CHR ''0'',
               ecs_packet_hash = zeros64,
               ecs_coverage_spec_id = ''answer_coverage_spec_'' @ replicate 32 CHR ''0'',
               ecs_coverage_spec_hash = zeros64, ecs_cases = [sample_case]\<rparr>"

definition sample_case_set :: evidence_case_set where
  "sample_case_set =
     sample_case_set0\<lparr>ecs_case_set_id := canonical_content_id ''claim_evidence_case_set'' (case_set_payload sample_case_set0),
           ecs_case_set_hash := canonical_sha256_hex (case_set_payload sample_case_set0)\<rparr>"

definition sample_judgment :: claim_judgment where
  "sample_judgment =
     \<lparr>jd_case_id = eca_case_id sample_case, jd_claim_id = ''claim_a'', jd_verdict = DIRECTLY_SUPPORTED,
      jd_spans = [], jd_reason = ''the letter says so''\<rparr>"

definition sample_receipt0 :: judgment_receipt where
  "sample_receipt0 =
     \<lparr>jr_schema_id = receipt_schema, jr_receipt_id = [], jr_receipt_hash = [],
               jr_case_set_id = ecs_case_set_id sample_case_set,
               jr_case_set_hash = ecs_case_set_hash sample_case_set, jr_judge_kind = MODEL,
               jr_judge_profile_id = ''judge_a'', jr_judge_profile_hash = zeros64,
               jr_prompt_hash = zeros64, jr_raw_response_hash = zeros64,
               jr_judgments = [sample_judgment]\<rparr>"

definition sample_receipt :: judgment_receipt where
  "sample_receipt =
     sample_receipt0\<lparr>jr_receipt_id := canonical_content_id ''claim_evidence_judgment_receipt'' (receipt_payload sample_receipt0),
           jr_receipt_hash := canonical_sha256_hex (receipt_payload sample_receipt0)\<rparr>"

definition sample_contract :: answer_contract_result where
  "sample_contract =
     \<lparr>acr_decision = ACCEPTED, acr_answer_id = Some (ecs_answer_id sample_case_set),
      acr_answer_hash = Some zeros64, acr_checks = [], acr_violations = []\<rparr>"

definition sample_coverage :: answer_coverage_result where
  "sample_coverage =
     \<lparr>acv_decision = COMPLETE, acv_spec_id = ecs_coverage_spec_id sample_case_set,
      acv_spec_hash = zeros64, acv_answer_id = ecs_answer_id sample_case_set,
      acv_answer_hash = zeros64, acv_covered_facets = 1, acv_required_facets = 1,
      acv_coverage_basis_points = 10000, acv_status_allowed = True, acv_open_gap_present = False,
      acv_unique_cited_sources = 1, acv_facets = [], acv_violations = []\<rparr>"

definition no_expectation :: expected_judge where
  "no_expectation =
     \<lparr>ej_judge_kind = None, ej_judge_profile_id = None, ej_judge_profile_hash = None,
      ej_prompt_hash = None, ej_raw_response_hash = None\<rparr>"

lemma hex_zeros64: "matches_hex 64 zeros64"
  by (simp add: zeros64_def matches_hex_def hexdigits_def list_all_iff)

lemma hex_replicate: "matches_hex n (replicate n CHR ''0'')"
  by (simp add: matches_hex_def hexdigits_def list_all_iff)

lemma valid_hex_strip: "matches_hex n s \<Longrightarrow> model_strip s = s"
  by simp

lemma sample_id_strip:
  "model_strip (''research_answer_'' @ replicate 32 CHR ''0'') = ''research_answer_'' @ replicate 32 CHR ''0''"
  "model_strip (''memory_packet_'' @ replicate 32 CHR ''0'') = ''memory_packet_'' @ replicate 32 CHR ''0''"
  "model_strip (''answer_coverage_spec_'' @ replicate 32 CHR ''0'') =
     ''answer_coverage_spec_'' @ replicate 32 CHR ''0''"
  by (simp_all add: model_strip_literal)

lemma sample_literals:
  "model_strip ''claim_a'' = ''claim_a''" "model_strip ''task_a'' = ''task_a''"
  "model_strip ''judge_a'' = ''judge_a''" "model_strip ''Built in 1911'' = ''Built in 1911''"
  "model_strip ''the letter says so'' = ''the letter says so''"
  "model_strip case_set_schema = case_set_schema" "model_strip receipt_schema = receipt_schema"
  by (simp_all add: model_strip_literal case_set_schema_def receipt_schema_def)

lemma sample_patterns:
  "model_id_pattern ''claim_a''" "task_id_pattern ''task_a''" "model_id_pattern ''judge_a''"
  by (simp_all add: model_id_pattern_def task_id_pattern_def matches_head_rest_def lower_az_def
      upper_az_def digits09_def)

lemma case_payload_id [simp]: "case_payload (c\<lparr>eca_case_id := x\<rparr>) = case_payload c"
  by (simp add: case_payload_def case_fields_def)

lemma case_set_payload_ids [simp]:
  "case_set_payload (s\<lparr>ecs_case_set_id := x, ecs_case_set_hash := y\<rparr>) = case_set_payload s"
  by (simp add: case_set_payload_def)

lemma receipt_payload_ids [simp]:
  "receipt_payload (r\<lparr>jr_receipt_id := x, jr_receipt_hash := y\<rparr>) = receipt_payload r"
  by (simp add: receipt_payload_def)

lemma sample_case_id:
  "eca_case_id sample_case = canonical_content_id ''claim_evidence_case'' (case_payload sample_case)"
  unfolding sample_case_def by simp

lemma sample_case_fields:
  "eca_claim_id sample_case = ''claim_a''" "eca_claim_text sample_case = ''Built in 1911''"
  "eca_claim_state sample_case = claim_state.SUPPORTED" "eca_unquoted sample_case = []"
  "map ecn_evidence_id (eca_citations sample_case) = [''evidence_a'']"
  "length (eca_citations sample_case) = 1"
  by (simp_all add: sample_case_def sample_case0_def)

lemma sample_case_valid: "validate_case sample_case = Inr sample_case"
proof -
  have strip: "sample_case\<lparr>eca_case_id := model_strip (eca_case_id sample_case),
      eca_claim_id := model_strip (eca_claim_id sample_case),
      eca_claim_text := model_strip (eca_claim_text sample_case),
      eca_unquoted := map model_strip (eca_unquoted sample_case)\<rparr> = sample_case"
    by (simp add: sample_case_fields sample_literals sample_case_id model_space_def)
  show ?thesis
    unfolding validate_case_def strip Let_def
    by (simp add: res_simps sample_case_fields sample_patterns case_validator_def sample_case_id
        canonical_content_id_matches)
qed

lemma sample_case_set_ids:
  "ecs_case_set_id sample_case_set =
     canonical_content_id ''claim_evidence_case_set'' (case_set_payload sample_case_set)"
  "ecs_case_set_hash sample_case_set = canonical_sha256_hex (case_set_payload sample_case_set)"
  unfolding sample_case_set_def by simp_all

lemma sample_case_set_fields:
  "ecs_schema_id sample_case_set = case_set_schema" "ecs_task_id sample_case_set = ''task_a''"
  "ecs_answer_id sample_case_set = ''research_answer_'' @ replicate 32 CHR ''0''"
  "ecs_answer_hash sample_case_set = zeros64"
  "ecs_packet_id sample_case_set = ''memory_packet_'' @ replicate 32 CHR ''0''"
  "ecs_packet_hash sample_case_set = zeros64"
  "ecs_coverage_spec_id sample_case_set = ''answer_coverage_spec_'' @ replicate 32 CHR ''0''"
  "ecs_coverage_spec_hash sample_case_set = zeros64" "ecs_cases sample_case_set = [sample_case]"
  by (simp_all add: sample_case_set_def sample_case_set0_def)

lemma strip_zeros64: "model_strip zeros64 = zeros64"
  by (rule valid_hex_strip [OF hex_zeros64])

lemma sample_case_set_strip: "strip_case_set sample_case_set = sample_case_set"
  unfolding strip_case_set_def sample_case_set_fields sample_id_strip sample_literals strip_zeros64
  by (simp add: sample_case_set_ids model_space_def sample_case_set_fields)

lemma sample_id_matches:
  "matches_prefixed_hex ''research_answer_'' 32 (''research_answer_'' @ replicate 32 CHR ''0'')"
  "matches_prefixed_hex ''memory_packet_'' 32 (''memory_packet_'' @ replicate 32 CHR ''0'')"
  "matches_prefixed_hex ''answer_coverage_spec_'' 32 (''answer_coverage_spec_'' @ replicate 32 CHR ''0'')"
  unfolding matches_prefixed_hex_append by (rule hex_replicate)+

lemma valid_sample_case_set: "valid_case_set sample_case_set"
proof -
  have "case_set_validator sample_case_set = Inr sample_case_set"
    unfolding case_set_validator_def
    by (simp add: sample_case_set_ids sample_case_set_fields(1,9))
  moreover have "matches_prefixed_hex ''claim_evidence_case_set_'' 32 (ecs_case_set_id sample_case_set)"
    "matches_hex 64 (ecs_case_set_hash sample_case_set)"
    by (simp_all add: sample_case_set_ids canonical_content_id_matches canonical_sha256_hex_format)
  ultimately show ?thesis
    unfolding valid_case_set_def validate_case_set_def Let_def sample_case_set_strip
      validated_eq_Inr list.pred_inject pattern_field_eq_Inr list_field_eq_Inr
    using sample_id_matches sample_patterns(2) hex_zeros64 sample_case_valid
    unfolding sample_case_set_fields [symmetric]
    by (simp add: sample_case_set_fields(4,6,8,9))
qed

lemma sample_receipt_fields:
  "jr_receipt_id sample_receipt =
     canonical_content_id ''claim_evidence_judgment_receipt'' (receipt_payload sample_receipt)"
  "jr_receipt_hash sample_receipt = canonical_sha256_hex (receipt_payload sample_receipt)"
  "jr_schema_id sample_receipt = receipt_schema"
  "jr_case_set_id sample_receipt = ecs_case_set_id sample_case_set"
  "jr_case_set_hash sample_receipt = ecs_case_set_hash sample_case_set"
  "jr_judge_kind sample_receipt = MODEL" "jr_judge_profile_id sample_receipt = ''judge_a''"
  "jr_judge_profile_hash sample_receipt = zeros64" "jr_prompt_hash sample_receipt = zeros64"
  "jr_raw_response_hash sample_receipt = zeros64"
  "jr_judgments sample_receipt = [sample_judgment]"
  by (simp add: sample_receipt_def, simp add: sample_receipt_def,
      simp_all add: sample_receipt_def sample_receipt0_def)

lemma sample_judgment_valid: "validate_judgment sample_judgment = Inr sample_judgment"
proof -
  have case_id: "model_strip (eca_case_id sample_case) = eca_case_id sample_case"
    "matches_prefixed_hex ''claim_evidence_case_'' 32 (eca_case_id sample_case)"
    by (simp_all add: sample_case_id model_space_def canonical_content_id_matches)
  show ?thesis
    by (simp add: validate_judgment_def sample_judgment_def case_id sample_literals res_simps
        sample_patterns judgment_validator_def)
qed

lemma valid_sample_receipt: "valid_receipt sample_receipt"
proof -
  have strip: "strip_receipt sample_receipt = sample_receipt"
    unfolding strip_receipt_def sample_receipt_fields sample_literals strip_zeros64 sample_case_set_ids
    by (simp add: model_space_def sample_receipt_fields sample_case_set_ids)
  show ?thesis
    unfolding valid_receipt_def validate_receipt_def Let_def strip
    by (simp add: res_simps sample_receipt_fields sample_judgment_valid sample_patterns hex_zeros64
        sample_case_set_ids receipt_validator_def canonical_content_id_matches
        canonical_sha256_hex_format)
qed

lemma sample_review_passes:
  "review_passes sample_case_set sample_contract sample_coverage sample_receipt no_expectation"
  by (simp add: review_passes_def receipt_intact_def judgments_close_def admits_def
      supports_claim_def sample_contract_def sample_coverage_def sample_receipt_fields
      sample_case_set_fields sample_case_fields sample_judgment_def no_expectation_def
     )

lemma review_gate_iff:
  assumes "evaluate_entailment s contract coverage receipt ej = Inr res"
  shows "enr_decision res = PASSED \<longleftrightarrow>
    (\<exists>r. receipt = Some r \<and> review_passes s contract coverage r ej)"
proof (cases "prerequisite_error s contract coverage")
  case (Some e)
  then have "enr_decision res = UNCHECKED"
    using assms by (auto simp: evaluate_entailment_def dest: unchecked_result_decision)
  then show ?thesis using Some prerequisite_error_None [of s contract coverage]
    by (auto simp: review_passes_def)
next
  case None
  show ?thesis
  proof (cases receipt)
    case no: None
    with assms None have "enr_decision res = REVIEW_REQUIRED"
      by (auto simp: evaluate_entailment_def dest: semantic_result_decision)
    then show ?thesis by (simp add: no)
  next
    case (Some r)
    have "enr_decision res = PASSED \<longleftrightarrow>
        receipt_intact s r ej \<and> judgments_close (ecs_cases s) (jr_judgments r) \<and>
        (\<forall>c \<in> set (ecs_cases s). \<exists>j \<in> set (jr_judgments r). admits c j)"
      using gate_decision_cases [OF assms [unfolded Some] None] all_cases_admitted by blast
    then show ?thesis
      using None prerequisite_error_None [of s contract coverage] Some
      unfolding review_passes_def by blast
  qed
qed

text \<open>
  C7. The semantic review gate passes exactly when the answer was accepted and covered and
  is bound to the case set, the receipt is intact, of this case set and as expected, its
  judgments close over the cases one to one, and every case has a judgment that names its
  claim, supports its state by the frozen policy and marks no unsupported span.
\<close>

theorem review_gate_exact:
  assumes "evaluate_entailment s contract coverage receipt ej = Inr res"
  shows "enr_decision res = PASSED \<longleftrightarrow>
    (\<exists>r. receipt = Some r \<and> review_passes s contract coverage r ej)"
  by (rule review_gate_iff [OF assms])

text \<open>
  C31. The gate returns: on every constructed case set and every constructed receipt, or
  none, it produces a result and raises nothing, whatever the judge wrote.
\<close>

theorem review_gate_returns:
  assumes "valid_case_set s" and "receipt = None \<or> (\<exists>r. receipt = Some r \<and> valid_receipt r)"
  shows "\<exists>res. evaluate_entailment s contract coverage receipt ej = Inr res \<and>
    (enr_decision res = UNCHECKED \<longleftrightarrow> prerequisite_error s contract coverage \<noteq> None)"
proof -
  obtain res where res: "evaluate_entailment s contract coverage receipt ej = Inr res"
    using evaluate_entailment_total [OF assms(1)] assms(2) by blast
  then show ?thesis using entailment_unchecked_iff [OF res] by blast
qed

theorem review_gate_exact_witness:
  "\<exists>res. evaluate_entailment sample_case_set sample_contract sample_coverage (Some sample_receipt)
       no_expectation = Inr res \<and> enr_decision res = PASSED"
proof -
  obtain res where res: "evaluate_entailment sample_case_set sample_contract sample_coverage
      (Some sample_receipt) no_expectation = Inr res"
    using evaluate_entailment_total [OF valid_sample_case_set] valid_sample_receipt by blast
  then show ?thesis using review_gate_exact [OF res] sample_review_passes by blast
qed

theorem review_gate_returns_witness:
  "\<exists>res. evaluate_entailment sample_case_set sample_contract
       (sample_coverage\<lparr>acv_decision := INCOMPLETE\<rparr>) (Some sample_receipt) no_expectation = Inr res \<and>
     enr_decision res = UNCHECKED"
  using review_gate_returns [OF valid_sample_case_set, of "Some sample_receipt" sample_contract
      "sample_coverage\<lparr>acv_decision := INCOMPLETE\<rparr>" no_expectation] valid_sample_receipt
  by (auto simp: prerequisite_error_None)

end
