(* ===== verification/Reasoning_Props.thy ===== *)
theory Reasoning_Props
  imports Reasoning Entailment_Props
begin

text \<open>
  Idea traces: the ancestor search against the transitive closure of the premise relation,
  the topology of a validated trace, what a passed closure means, and the composition of
  the closure gate with the semantic review gate.
\<close>

subsection \<open>The premise relation\<close>

definition premise_of :: "trace_step list \<Rightarrow> (string \<times> string) set" where
  "premise_of steps = {(p, its_step_id s) |p s. s \<in> set steps \<and> p \<in> set (its_premise_step_ids s)}"

lemma premise_ofI: "s \<in> set steps \<Longrightarrow> p \<in> set (its_premise_step_ids s) \<Longrightarrow> (p, its_step_id s) \<in> premise_of steps"
  by (auto simp: premise_of_def)

text \<open>The steps of a trace are a dictionary, and their premises are among them.\<close>

definition steps_closed :: "trace_step list \<Rightarrow> bool" where
  "steps_closed steps \<longleftrightarrow>
     distinct (map its_step_id steps) \<and>
     (\<forall>s \<in> set steps. set (its_premise_step_ids s) \<subseteq> its_step_id ` set steps)"

lemma premises_by_id:
  assumes "steps_closed steps" and "s \<in> set steps"
  shows "(p, its_step_id s) \<in> premise_of steps \<longleftrightarrow> p \<in> set (its_premise_step_ids s)"
proof
  assume "(p, its_step_id s) \<in> premise_of steps"
  then obtain s' where "s' \<in> set steps" "its_step_id s' = its_step_id s" "p \<in> set (its_premise_step_ids s')"
    by (auto simp: premise_of_def)
  moreover from this assms have "s' = s"
    by (auto simp: steps_closed_def distinct_map dest: inj_onD)
  ultimately show "p \<in> set (its_premise_step_ids s)" by simp
qed (rule premise_ofI [OF assms(2)])

lemma steps_closed_lookup:
  assumes "steps_closed steps" and "k \<in> its_step_id ` set steps"
  shows "\<exists>s \<in> set steps. its_step_id s = k \<and> dict_by its_step_id steps k = Some s"
  using assms dict_by_unique by (fastforce simp: steps_closed_def)

lemma trancl_backward_closed:
  assumes "(p, x) \<in> r\<^sup>+" and "\<And>q. (q, x) \<in> r \<Longrightarrow> q \<in> A" and "\<And>a q. a \<in> A \<Longrightarrow> (q, a) \<in> r \<Longrightarrow> q \<in> A"
  shows "p \<in> A"
  using assms(1)
proof (induction rule: converse_trancl_induct)
  case (base y)
  then show ?case by (rule assms(2))
next
  case (step y z)
  then show ?case using assms(3) by blast
qed

lemma ancestor_loop_spec:
  assumes "steps_closed steps"
    and "set pending \<subseteq> its_step_id ` set steps"
    and "set pending \<union> set anc \<subseteq> {p. (p, final) \<in> (premise_of steps)\<^sup>+}"
    and "\<And>q. (q, final) \<in> premise_of steps \<Longrightarrow> q \<in> set pending \<union> set anc"
    and "\<And>a q. a \<in> set anc \<Longrightarrow> (q, a) \<in> premise_of steps \<Longrightarrow> q \<in> set pending \<union> set anc"
  shows "\<exists>as. ancestor_loop steps pending anc = Inr as \<and> set as = {p. (p, final) \<in> (premise_of steps)\<^sup>+}"
  using assms
proof (induction steps pending anc rule: ancestor_loop.induct)
  case (1 steps pending anc)
  show ?case
  proof (cases "pending = []")
    case True
    have "p \<in> set anc" if "(p, final) \<in> (premise_of steps)\<^sup>+" for p
      using that by (rule trancl_backward_closed) (use "1.prems"(4,5) True in auto)
    with True "1.prems"(3) show ?thesis by (subst ancestor_loop.simps) auto
  next
    case False
    then obtain rest current where p: "pending = rest @ [current]" by (metis rev_exhaust)
    show ?thesis
    proof (cases "current \<in> set anc")
      case True
      have "\<exists>as. ancestor_loop steps rest anc = Inr as \<and> set as = {p. (p, final) \<in> (premise_of steps)\<^sup>+}"
        by (rule "1.IH"(1) [OF False, of current rest])
          (use p True "1.prems" in \<open>auto simp: insert_absorb\<close>)
      with p True show ?thesis by (subst ancestor_loop.simps) simp
    next
      case new: False
      obtain s where s: "s \<in> set steps" "its_step_id s = current" "dict_by its_step_id steps current = Some s"
        using steps_closed_lookup [OF "1.prems"(1), of current] "1.prems"(2) p by auto
      have prem: "(q, current) \<in> premise_of steps \<longleftrightarrow> q \<in> set (its_premise_step_ids s)" for q
        using premises_by_id [OF "1.prems"(1) s(1)] s(2) by simp
      have reach: "(current, final) \<in> (premise_of steps)\<^sup>+" using "1.prems"(3) p by auto
      have "\<exists>as. ancestor_loop steps (rest @ its_premise_step_ids s) (current # anc) = Inr as \<and>
          set as = {p. (p, final) \<in> (premise_of steps)\<^sup>+}"
      proof (rule "1.IH"(2) [OF False _ _ new s(3)])
        show "set (rest @ its_premise_step_ids s) \<subseteq> its_step_id ` set steps"
          using "1.prems"(1,2) p s(1) by (auto simp: steps_closed_def)
        show "set (rest @ its_premise_step_ids s) \<union> set (current # anc) \<subseteq> {p. (p, final) \<in> (premise_of steps)\<^sup>+}"
          using "1.prems"(3) p reach prem by (auto intro: trancl_into_trancl2)
      qed (use p prem "1.prems" in auto)
      with p new s(3) show ?thesis by (subst ancestor_loop.simps) simp
    qed
  qed
qed

lemma ancestor_ids_spec:
  assumes "steps_closed steps" and "s \<in> set steps" and "its_step_id s = final"
  shows "\<exists>as. ancestor_ids steps final = Inr as \<and> set as = {p. (p, final) \<in> (premise_of steps)\<^sup>+}"
proof -
  have d: "dict_by its_step_id steps final = Some s"
    using steps_closed_lookup [OF assms(1), of final] dict_by_unique [of its_step_id steps s] assms
    by (auto simp: steps_closed_def)
  have "\<exists>as. ancestor_loop steps (its_premise_step_ids s) [] = Inr as \<and>
      set as = {p. (p, final) \<in> (premise_of steps)\<^sup>+}"
    by (rule ancestor_loop_spec [OF assms(1)])
      (use assms premises_by_id [OF assms(1,2)] in \<open>auto simp: steps_closed_def\<close>)
  then show ?thesis by (simp add: ancestor_ids_def d)
qed

subsection \<open>Validated traces\<close>

definition premises_precede :: "trace_step list \<Rightarrow> bool" where
  "premises_precede steps \<longleftrightarrow>
     (\<forall>i < length steps. set (its_premise_step_ids (steps ! i)) \<subseteq> set (map its_step_id (take i steps)))"

lemma premises_loop_Inr:
  "premises_loop prior steps = Inr u \<longleftrightarrow>
     (\<forall>i < length steps. set (its_premise_step_ids (steps ! i)) \<subseteq> set prior \<union> set (map its_step_id (take i steps)))"
proof (induction steps arbitrary: prior)
  case Nil
  then show ?case by simp
next
  case (Cons s ss)
  show ?case
    using Cons.IH [of "its_step_id s # prior"]
    by (auto simp: Let_def All_less_Suc2 subset_iff)
qed

lemma premises_precede_loop: "premises_loop [] steps = Inr u \<longleftrightarrow> premises_precede steps"
  by (simp add: premises_loop_Inr premises_precede_def)

lemma precede_closed:
  assumes "distinct (map its_step_id steps)" and "premises_precede steps"
  shows "steps_closed steps"
proof -
  have "set (its_premise_step_ids s) \<subseteq> its_step_id ` set steps" if s: "s \<in> set steps" for s
  proof -
    obtain i where "i < length steps" "steps ! i = s" using s by (auto simp: in_set_conv_nth)
    then have "set (its_premise_step_ids s) \<subseteq> set (map its_step_id (take i steps))"
      using assms(2) by (auto simp: premises_precede_def)
    then show ?thesis using set_take_subset [of i steps] by auto
  qed
  with assms(1) show ?thesis by (simp add: steps_closed_def)
qed

text \<open>The position of an identifier, which every premise decreases.\<close>

lemma premise_position:
  assumes "distinct (map its_step_id steps)" and "premises_precede steps"
    and "(its_step_id (steps ! j), its_step_id (steps ! i)) \<in> premise_of steps"
    and "i < length steps" and "j < length steps"
  shows "j < i"
proof -
  have "its_step_id (steps ! j) \<in> set (its_premise_step_ids (steps ! i))"
    using assms(3) premises_by_id [OF precede_closed [OF assms(1,2)], of "steps ! i"] assms(4) by simp
  then have "its_step_id (steps ! j) \<in> set (map its_step_id (take i steps))"
    using assms(2,4) by (auto simp: premises_precede_def)
  then obtain k where "k < i" "k < length steps" "its_step_id (steps ! k) = its_step_id (steps ! j)"
    by (auto simp: in_set_conv_nth)
  moreover from this have "k = j"
    using assms(1,5) by (metis length_map nth_eq_iff_index_eq nth_map)
  ultimately show ?thesis by simp
qed

lemma premise_acyclic:
  assumes "distinct (map its_step_id steps)" and "premises_precede steps"
  shows "acyclic (premise_of steps)"
proof -
  let ?pos = "\<lambda>x. THE i. i < length steps \<and> its_step_id (steps ! i) = x"
  have pos: "?pos (its_step_id (steps ! i)) = i" if "i < length steps" for i
    by (rule the_equality) (use that assms(1) in \<open>auto simp: distinct_conv_nth\<close>)
  have "(a, b) \<in> premise_of steps \<Longrightarrow> ?pos a < ?pos b" for a b
  proof -
    assume ab: "(a, b) \<in> premise_of steps"
    obtain i where i: "i < length steps" "its_step_id (steps ! i) = b"
      using ab by (auto simp: premise_of_def in_set_conv_nth)
    have "a \<in> its_step_id ` set steps"
      using ab precede_closed [OF assms] by (auto simp: premise_of_def steps_closed_def)
    then obtain j where j: "j < length steps" "its_step_id (steps ! j) = a" by (auto simp: in_set_conv_nth)
    have "j < i" by (rule premise_position [OF assms]) (use ab i j in auto)
    then show "?pos a < ?pos b" unfolding i(2) [symmetric] j(2) [symmetric] pos [OF i(1)] pos [OF j(1)] .
  qed
  then have "acyclic ((premise_of steps)\<inverse>)" by (intro acyclicI_order [of _ ?pos]) blast
  then show ?thesis by (simp only: acyclic_converse)
qed

lemma grounded_from:
  assumes d: "distinct (map its_step_id steps)" and p: "premises_precede steps"
    and ops: "\<forall>s \<in> set steps. its_operation s = EXTRACT \<or> its_premise_step_ids s \<noteq> []"
    and i: "i < length steps"
  shows "\<exists>e \<in> set steps. its_operation e = EXTRACT \<and>
    (its_step_id e, its_step_id (steps ! i)) \<in> (premise_of steps)\<^sup>*"
  using i
proof (induction i rule: less_induct)
  case (less i)
  show ?case
  proof (cases "its_operation (steps ! i) = EXTRACT")
    case True
    with less.prems show ?thesis by (intro bexI [of _ "steps ! i"]) auto
  next
    case False
    then obtain q where q: "q \<in> set (its_premise_step_ids (steps ! i))"
      using ops less.prems by (metis nth_mem list.set_intros(1) neq_Nil_conv)
    then have "q \<in> set (map its_step_id (take i steps))"
      using p less.prems by (auto simp: premises_precede_def)
    then obtain k where k: "k < i" "its_step_id (steps ! k) = q"
      by (auto simp: in_set_conv_nth)
    have edge: "(q, its_step_id (steps ! i)) \<in> premise_of steps"
      using q less.prems by (auto intro: premise_ofI)
    have "k < length steps" using k less.prems by simp
    from less.IH [OF k(1) this] obtain e where "e \<in> set steps" "its_operation e = EXTRACT"
      "(its_step_id e, q) \<in> (premise_of steps)\<^sup>*" using k(2) by auto
    with edge show ?thesis by (meson rtrancl.rtrancl_into_rtrancl)
  qed
qed

lemma validate_trace_fields:
  assumes "validate_trace raw = Inr t"
  shows "itr_steps t \<noteq> []" "distinct (map its_step_id (itr_steps t))" "premises_precede (itr_steps t)"
    "itr_final_step_id t = its_step_id (last (itr_steps t))"
    "its_step_id ` set (itr_steps t) \<subseteq>
       {p. (p, itr_final_step_id t) \<in> (premise_of (itr_steps t))\<^sup>*}"
    "itr_trace_hash t = canonical_sha256_hex (trace_payload t)"
proof -
  have v: "trace_validator t = Inr t" and ne: "itr_steps t \<noteq> []"
    using assms by (auto simp: validate_trace_def Let_def res_simps trace_validator_def)
  have d: "distinct (map its_step_id (itr_steps t))"
    and fin: "itr_final_step_id t = last (map its_step_id (itr_steps t))"
    and prem: "premises_loop [] (itr_steps t) = Inr ()"
    and hash: "itr_trace_hash t = canonical_sha256_hex (trace_payload t)"
    using v by (auto simp: trace_validator_def Let_def res_simps)
  obtain as where as: "ancestor_ids (itr_steps t) (itr_final_step_id t) = Inr as"
    "set (map its_step_id (itr_steps t)) \<subseteq> set (itr_final_step_id t # as)"
    using v by (auto simp: trace_validator_def Let_def res_simps)
  have pp: "premises_precede (itr_steps t)" using prem by (simp add: premises_precede_loop)
  have final: "itr_final_step_id t = its_step_id (last (itr_steps t))" using fin ne by (simp add: last_map)
  have "set as = {p. (p, itr_final_step_id t) \<in> (premise_of (itr_steps t))\<^sup>+}"
    using ancestor_ids_spec [OF precede_closed [OF d pp], of "last (itr_steps t)" "itr_final_step_id t"]
      ne final as(1) by auto
  then have "its_step_id ` set (itr_steps t) \<subseteq> {p. (p, itr_final_step_id t) \<in> (premise_of (itr_steps t))\<^sup>*}"
    using as(2) by (auto simp: rtrancl_eq_or_trancl)
  then show "itr_steps t \<noteq> []" "distinct (map its_step_id (itr_steps t))" "premises_precede (itr_steps t)"
    "itr_final_step_id t = its_step_id (last (itr_steps t))"
    "its_step_id ` set (itr_steps t) \<subseteq> {p. (p, itr_final_step_id t) \<in> (premise_of (itr_steps t))\<^sup>*}"
    "itr_trace_hash t = canonical_sha256_hex (trace_payload t)"
    using ne d pp final hash by blast+
qed

lemma valid_step_shape:
  "validate_step s = Inr s \<Longrightarrow> its_operation s = EXTRACT \<or> its_premise_step_ids s \<noteq> []"
  by (auto simp: validate_step_def Let_def res_simps step_validator_def derivation_check_def
      split: if_splits)

subsection \<open>The closure gate\<close>

definition operation_allowed ::
  "reasoning_operation \<Rightarrow> reasoning_qualifier \<Rightarrow> claim_state \<Rightarrow> verdict option \<Rightarrow> bool" where
  "operation_allowed operation qualifier state v \<longleftrightarrow>
     (case (operation = EXTRACT, qualifier) of
        (True, DIRECT) \<Rightarrow> state = claim_state.SUPPORTED \<and> v = Some DIRECTLY_SUPPORTED
      | (True, reasoning_qualifier.CONTESTED) \<Rightarrow> state = claim_state.QUALIFIED \<and> v = Some DIRECTLY_SUPPORTED
      | (False, BOUNDED) \<Rightarrow> state = INFERENCE \<and> v \<in> {Some DIRECTLY_SUPPORTED, Some SUPPORTED_INFERENCE}
      | (False, reasoning_qualifier.CONTESTED) \<Rightarrow>
          state \<noteq> claim_state.SUPPORTED \<and> v \<in> {Some DIRECTLY_SUPPORTED, Some SUPPORTED_INFERENCE}
      | _ \<Rightarrow> True)"

lemma operation_findings_Nil:
  "operation_findings operation qualifier state v = [] \<longleftrightarrow> operation_allowed operation qualifier state v"
  by (cases qualifier; cases state)
    (auto simp: operation_findings_def operation_allowed_def)

definition step_closes :: "evidence_case_set \<Rightarrow> entailment_result \<Rightarrow> trace_step \<Rightarrow> bool" where
  "step_closes cs r s \<longleftrightarrow>
     (\<exists>c oc. dict_by eca_case_id (ecs_cases cs) (its_case_id s) = Some c \<and>
        dict_by crs_case_id (enr_cases r) (its_case_id s) = Some oc \<and>
        eca_claim_id c = its_claim_id s \<and> eca_claim_text c = its_statement s \<and>
        crs_claim_id oc = its_claim_id s \<and> crs_decision oc = entailment_decision.PASSED \<and>
        operation_allowed (its_operation s) (its_qualifier s) (eca_claim_state c) (crs_verdict oc)) \<and>
     set (its_counterevidence_ids s) \<subseteq>
       (\<Union>c \<in> set (ecs_cases cs). ecn_evidence_id ` set (eca_citations c))"

lemma local_findings_Nil:
  "local_violations s c oc = [] \<and> local_review known s c oc = [] \<longleftrightarrow>
     (\<exists>ec r. c = Some ec \<and> oc = Some r \<and> eca_claim_id ec = its_claim_id s \<and>
        eca_claim_text ec = its_statement s \<and> crs_claim_id r = its_claim_id s \<and>
        crs_decision r = entailment_decision.PASSED \<and>
        operation_allowed (its_operation s) (its_qualifier s) (eca_claim_state ec) (crs_verdict r)) \<and>
     set (its_counterevidence_ids s) \<subseteq> set known"
proof (cases c)
  case None
  then show ?thesis by (simp add: local_review_def)
next
  case c: (Some ec)
  show ?thesis
  proof (cases oc)
    case None
    then show ?thesis by (simp add: local_review_def)
  next
    case (Some r)
    with c show ?thesis
      by (cases "crs_claim_id r = its_claim_id s"; cases "crs_decision r")
        (auto simp: local_violations_def local_review_def operation_findings_Nil)
  qed
qed

lemma step_outcome_parts:
  fixes cs r s
  defines "known \<equiv> concat (map (\<lambda>ec. map ecn_evidence_id (eca_citations ec)) (ecs_cases cs))"
  defines "c \<equiv> dict_by eca_case_id (ecs_cases cs) (its_case_id s)"
  defines "oc \<equiv> dict_by crs_case_id (enr_cases r) (its_case_id s)"
  shows "fst (snd (step_outcome cs r s)) = [] \<longleftrightarrow> local_violations s c oc = []"
    and "snd (snd (step_outcome cs r s)) = [] \<longleftrightarrow> local_review known s c oc = []"
    and "fst (step_outcome cs r s) = Inr x \<Longrightarrow> rsc_closed x \<longleftrightarrow>
      local_violations s c oc = [] \<and> local_review known s c oc = []"
  unfolding known_def c_def oc_def
  by (auto simp: step_outcome_def Let_def validate_step_closure_def res_simps)

lemma step_outcome_closes:
  "fst (snd (step_outcome cs r s)) = [] \<and> snd (snd (step_outcome cs r s)) = [] \<longleftrightarrow> step_closes cs r s"
  unfolding step_outcome_parts local_findings_Nil step_closes_def by simp

lemma step_outcome_closed:
  "fst (step_outcome cs r s) = Inr x \<Longrightarrow> rsc_closed x \<longleftrightarrow> step_closes cs r s"
  unfolding step_outcome_closes [symmetric] step_outcome_parts(1,2) by (rule step_outcome_parts(3))

definition trace_bound :: "idea_trace \<Rightarrow> evidence_case_set \<Rightarrow> entailment_result \<Rightarrow> bool" where
  "trace_bound t cs r \<longleftrightarrow>
     itr_trace_id t = canonical_content_id ''idea_trace'' (trace_payload t) \<and>
     itr_trace_hash t = canonical_sha256_hex (trace_payload t) \<and>
     (\<forall>s \<in> set (itr_steps t). its_step_id s = step_id_of s) \<and>
     itr_task_id t = ecs_task_id cs \<and> itr_answer_id t = ecs_answer_id cs \<and>
     itr_answer_hash t = ecs_answer_hash cs \<and> itr_packet_id t = ecs_packet_id cs \<and>
     itr_packet_hash t = ecs_packet_hash cs \<and> itr_case_set_id t = ecs_case_set_id cs \<and>
     itr_case_set_hash t = ecs_case_set_hash cs \<and>
     enr_case_set_id r = Some (ecs_case_set_id cs) \<and> enr_case_set_hash r = Some (ecs_case_set_hash cs) \<and>
     enr_receipt_id r = Some (itr_receipt_id t) \<and> enr_receipt_hash r = Some (itr_receipt_hash t)"

lemma binding_findings_Nil: "binding_findings t cs r = [] \<longleftrightarrow> trace_bound t cs r"
  by (auto simp: binding_findings_def trace_bound_def list_ex_iff)

lemma create_closure_Inr:
  "create_closure t d steps vs rs = Inr res \<Longrightarrow>
     clr_decision res = d \<and> clr_steps res = steps \<and>
     clr_review_eligible res = (d = closure_decision.PASSED)"
  by (auto simp: create_closure_def validate_closure_def strip_closure_def closure_validator_def
      Let_def res_simps)

definition closure_choice :: "string list \<Rightarrow> string list \<Rightarrow> closure_decision" where
  "closure_choice violations pending =
     (if violations \<noteq> [] then closure_decision.FAILED
      else if pending \<noteq> [] then closure_decision.REVIEW_REQUIRED else closure_decision.PASSED)"

lemma closure_choice_PASSED [simp]:
  "closure_choice vs ps = closure_decision.PASSED \<longleftrightarrow> vs = [] \<and> ps = []"
  by (simp add: closure_choice_def)

lemma evaluate_closure_bound:
  assumes "evaluate_closure t cs r = Inr res" and "trace_bound t cs r"
  shows "clr_decision res = closure_decision.PASSED \<longleftrightarrow>
      enr_decision r = entailment_decision.PASSED \<and> (\<forall>s \<in> set (itr_steps t). step_closes cs r s)"
    and "list_all2 (\<lambda>s x. rsc_closed x \<longleftrightarrow> step_closes cs r s) (itr_steps t) (clr_steps res)"
proof -
  let ?o = "step_outcome cs r"
  let ?vs = "concat (map (fst \<circ> snd) (map ?o (itr_steps t))) @
    error_if (enr_decision r = entailment_decision.FAILED) ''the bound claim-evidence result failed''"
  let ?ps = "concat (map (snd \<circ> snd) (map ?o (itr_steps t))) @
    error_if (enr_decision r \<notin> {entailment_decision.FAILED, entailment_decision.PASSED})
      (''the bound claim-evidence result is '' @ entailment_decision_value (enr_decision r))"
  obtain steps where steps: "map_res fst (map ?o (itr_steps t)) = Inr steps"
    and c: "create_closure t (closure_choice ?vs ?ps) steps ?vs ?ps = Inr res"
    using assms(1) assms(2) [folded binding_findings_Nil]
    unfolding evaluate_closure_def Let_def closure_choice_def by (auto simp only: res_bind_eq_Inr simp_thms if_False if_True split: if_splits)
  have "?vs = [] \<and> ?ps = [] \<longleftrightarrow>
      (\<forall>s \<in> set (itr_steps t). fst (snd (?o s)) = [] \<and> snd (snd (?o s)) = []) \<and>
      enr_decision r = entailment_decision.PASSED"
    by auto
  then show "clr_decision res = closure_decision.PASSED \<longleftrightarrow>
      enr_decision r = entailment_decision.PASSED \<and> (\<forall>s \<in> set (itr_steps t). step_closes cs r s)"
    using create_closure_Inr [OF c] unfolding step_outcome_closes by auto
  have "list_all2 (\<lambda>s x. fst (?o s) = Inr x) (itr_steps t) steps"
    using steps unfolding map_res_eq_Inr list_all2_map1 .
  then have "list_all2 (\<lambda>s x. rsc_closed x \<longleftrightarrow> step_closes cs r s) (itr_steps t) steps"
    by (rule list_all2_mono) (rule step_outcome_closed)
  then show "list_all2 (\<lambda>s x. rsc_closed x \<longleftrightarrow> step_closes cs r s) (itr_steps t) (clr_steps res)"
    using create_closure_Inr [OF c] by simp
qed

lemma evaluate_closure_unbound:
  assumes "evaluate_closure t cs r = Inr res" and "\<not> trace_bound t cs r"
  shows "clr_decision res = closure_decision.REVIEW_REQUIRED \<and> list_all (\<lambda>x. \<not> rsc_closed x) (clr_steps res)"
proof -
  obtain steps where steps: "map_res (\<lambda>s. unclosed_step s ''trace dependencies are not exactly bound'')
      (itr_steps t) = Inr steps"
    and c: "create_closure t closure_decision.REVIEW_REQUIRED steps [] (binding_findings t cs r) = Inr res"
    using assms(1) assms(2) [folded binding_findings_Nil]
    unfolding evaluate_closure_def Let_def by (auto simp only: res_bind_eq_Inr simp_thms if_True if_False)
  have "list_all2 (\<lambda>s x. \<not> rsc_closed x) (itr_steps t) steps"
    using steps unfolding map_res_eq_Inr
    by (rule list_all2_mono)
      (auto simp: unclosed_step_def validate_step_closure_def Let_def res_simps)
  then have "list_all (\<lambda>x. \<not> rsc_closed x) steps"
    by (induction rule: list_all2_induct) simp_all
  then show ?thesis using create_closure_Inr [OF c] by simp
qed

lemma evaluate_closure_eligible:
  assumes "evaluate_closure t cs r = Inr res"
  shows "clr_review_eligible res = (clr_decision res = closure_decision.PASSED)"
proof -
  have "\<exists>d steps vs rs. create_closure t d steps vs rs = Inr res"
    using assms unfolding evaluate_closure_def Let_def
    by (auto simp only: res_bind_eq_Inr split: if_splits)
  then show ?thesis by (auto dest: create_closure_Inr)
qed

text \<open>
  C27. The ancestor search is reachability: on steps with distinct identifiers and premises
  among them it terminates without a missing key, and the set it returns is exactly the
  set of steps from which the final step is derived, the transitive closure of the
  premise relation.
\<close>

theorem ancestor_search_exact:
  assumes "distinct (map its_step_id steps)"
    and "\<forall>s \<in> set steps. set (its_premise_step_ids s) \<subseteq> its_step_id ` set steps"
    and "final \<in> its_step_id ` set steps"
  shows "\<exists>as. ancestor_ids steps final = Inr as \<and> set as = {p. (p, final) \<in> (premise_of steps)\<^sup>+}"
  using ancestor_ids_spec [of steps] assms by (auto simp: steps_closed_def)

text \<open>
  C19. A validated trace is a grounded derivation: its steps are distinct and the last is
  the final one, the premises of every step come before it, so no step supports itself
  through others; every step contributes to the final one, and every step rests on an
  extraction from evidence.
\<close>

theorem trace_is_grounded_derivation:
  assumes "validate_trace raw = Inr t" and "\<forall>s \<in> set (itr_steps t). validate_step s = Inr s"
  shows "distinct (map its_step_id (itr_steps t)) \<and>
    itr_final_step_id t = its_step_id (last (itr_steps t)) \<and>
    premises_precede (itr_steps t) \<and> acyclic (premise_of (itr_steps t)) \<and>
    (\<forall>s \<in> set (itr_steps t).
       (its_step_id s, itr_final_step_id t) \<in> (premise_of (itr_steps t))\<^sup>* \<and>
       (\<exists>e \<in> set (itr_steps t). its_operation e = EXTRACT \<and>
          (its_step_id e, its_step_id s) \<in> (premise_of (itr_steps t))\<^sup>*))"
proof -
  note f = validate_trace_fields [OF assms(1)]
  have "\<exists>e \<in> set (itr_steps t). its_operation e = EXTRACT \<and>
      (its_step_id e, its_step_id s) \<in> (premise_of (itr_steps t))\<^sup>*" if "s \<in> set (itr_steps t)" for s
    using grounded_from [OF f(2,3)] assms(2) valid_step_shape that by (metis in_set_conv_nth)
  then show ?thesis using f premise_acyclic [OF f(2,3)] by blast
qed

text \<open>
  C14. A passed closure is exactly a bound trace whose every step closes: the trace is
  intact and bound to the case set and the receipt, the semantic review passed, and every
  step states the exact text of its claim's case, whose review passed with a verdict that
  the operation and the qualifier of the step allow, citing no counterevidence outside the
  case set; each reported step is marked closed exactly then, and only a passed closure is
  eligible for review.
\<close>

theorem closure_gate_exact:
  assumes "evaluate_closure t cs r = Inr res"
  shows "clr_review_eligible res = (clr_decision res = closure_decision.PASSED) \<and>
    (clr_decision res = closure_decision.PASSED \<longleftrightarrow>
      trace_bound t cs r \<and> enr_decision r = entailment_decision.PASSED \<and>
      (\<forall>s \<in> set (itr_steps t). step_closes cs r s)) \<and>
    (trace_bound t cs r \<longrightarrow>
      list_all2 (\<lambda>s x. rsc_closed x \<longleftrightarrow> step_closes cs r s) (itr_steps t) (clr_steps res))"
proof (cases "trace_bound t cs r")
  case True
  show ?thesis
    using evaluate_closure_bound [OF assms True] evaluate_closure_eligible [OF assms] True by blast
next
  case False
  show ?thesis
    using evaluate_closure_unbound [OF assms False] evaluate_closure_eligible [OF assms] False by auto
qed

end
