(* ===== verification/Answer_Props.thy ===== *)
theory Answer_Props
  imports Answer_Coverage
begin

text \<open>
  The answer gates: an accepted answer is exact evidence of its packet and of the local
  artifacts, a complete answer uses every facet of its task, and where the gates raise.
\<close>

subsection \<open>Packets\<close>

definition packet_closed :: "'x compact_memory_packet_scheme \<Rightarrow> bool" where
  "packet_closed p \<longleftrightarrow>
     distinct (map aso_source_id (cmp_sources p)) \<and> distinct (map aev_evidence_id (cmp_evidence p)) \<and>
     (\<forall>e \<in> set (cmp_evidence p). aev_source_id e \<in> aso_source_id ` set (cmp_sources p))"

lemma packet_references_closed: "packet_references p = Inr u \<Longrightarrow> packet_closed p"
  by (auto simp: packet_references_def packet_closed_def res_simps)

lemma validate_packet_closed: "validate_packet raw = Inr p \<Longrightarrow> packet_closed p"
  by (auto simp: validate_packet_def packet_validator_def Let_def res_simps
      dest: packet_references_closed)

subsection \<open>Checks\<close>

lemma make_gate_check_Inr:
  "make_gate_check name st detail = Inr c \<Longrightarrow> gc_status c = st"
  by (auto simp: make_gate_check_def Let_def res_simps)

lemma boolean_check_Inr: "boolean_check name b p f = Inr c \<Longrightarrow> gc_status c = FAILED \<longleftrightarrow> \<not> b"
  by (auto simp: boolean_check_def dest: make_gate_check_Inr split: if_splits)

lemma errors_check_Inr: "errors_check name es p = Inr c \<Longrightarrow> gc_status c = FAILED \<longleftrightarrow> es \<noteq> []"
  by (auto simp: errors_check_def dest: make_gate_check_Inr split: if_splits)

lemma contract_result_Inr:
  assumes "contract_result checks answer = Inr r"
  shows "acr_decision r = ACCEPTED \<longleftrightarrow> (\<forall>c \<in> set checks. gc_status c \<noteq> FAILED)"
  using assms
  by (auto simp: contract_result_def validate_contract_result_def Let_def res_simps filter_empty_conv
      split: if_splits)

lemma contract_result_accepted:
  assumes "contract_result checks (Some a) = Inr r" and "acr_decision r = ACCEPTED"
  shows "acr_answer_id r = Some (answer_id a) \<and> acr_answer_hash r = Some (answer_hash a)"
  using assms
  by (auto simp: contract_result_def validate_contract_result_def Let_def res_simps
      answer_id_def answer_hash_def model_space_def split: if_splits)

lemma membership_error_Nil:
  "membership_error packet c = [] \<longleftrightarrow>
     (\<exists>e. dict_by aev_evidence_id (cmp_evidence packet) (act_evidence_id c) = Some e \<and>
          aev_source_id e = act_source_id c)"
  by (cases "dict_by aev_evidence_id (cmp_evidence packet) (act_evidence_id c)")
    (auto simp: membership_error_def)

text \<open>The fragment of a file that an address names.\<close>

definition bound_fragment :: "string \<Rightarrow> atlas_source_address \<Rightarrow> string" where
  "bound_fragment txt a =
     join [newline] (drop (nat (asa_line_start a - 1)) (take (nat (asa_line_end a)) (split_text_lines txt)))"

definition fragment_exact :: "string \<Rightarrow> string \<Rightarrow> atlas_source_address \<Rightarrow> string \<Rightarrow> bool" where
  "fragment_exact excerpt h a txt \<longleftrightarrow>
     asa_line_end a \<le> int (length (split_text_lines txt)) \<and>
     sha256_hex (utf8 (bound_fragment txt a)) = h \<and> contains (bound_fragment txt a) excerpt"

lemma fragment_errors_Nil: "fragment_errors c excerpt h a txt = [] \<longleftrightarrow> fragment_exact excerpt h a txt"
  by (auto simp: fragment_errors_def fragment_exact_def bound_fragment_def Let_def)

definition evidence_exact ::
  "(string \<Rightarrow> artifact) \<Rightarrow> string \<Rightarrow> atlas_evidence \<Rightarrow> atlas_source \<Rightarrow> bool" where
  "evidence_exact root quoted e s \<longleftrightarrow>
     (\<exists>excerpt h a path txt.
        aev_excerpt e = Some excerpt \<and> contains excerpt quoted \<and>
        aev_fragment_text_sha256 e = Some h \<and> aev_source_address e = Some a \<and>
        aso_artifact_path s = Some path \<and> root path = TEXT txt \<and> fragment_exact excerpt h a txt)"

lemma artifact_error_Nil:
  assumes "dict_by aev_evidence_id (cmp_evidence packet) (act_evidence_id c) = Some e"
    and "dict_by aso_source_id (cmp_sources packet) (act_source_id c) = Some s"
  shows "artifact_error root packet c = Inr [] \<longleftrightarrow> evidence_exact root (act_exact_quote c) e s"
  using assms
  by (auto simp: artifact_error_def evidence_exact_def fragment_errors_Nil split: option.splits artifact.splits)

text \<open>A citation of accepted evidence that is verbatim in its local artifact.\<close>

definition citation_exact ::
  "(string \<Rightarrow> artifact) \<Rightarrow> 'x compact_memory_packet_scheme \<Rightarrow> answer_citation \<Rightarrow> bool" where
  "citation_exact root packet c \<longleftrightarrow>
     (\<exists>e \<in> set (cmp_evidence packet). \<exists>s \<in> set (cmp_sources packet).
        aev_evidence_id e = act_evidence_id c \<and> aev_source_id e = act_source_id c \<and>
        aso_source_id s = act_source_id c \<and> evidence_exact root (act_exact_quote c) e s)"

lemma citation_exact_iff:
  assumes "packet_closed packet"
  shows "membership_error packet c = [] \<and> artifact_error root packet c = Inr [] \<longleftrightarrow>
    citation_exact root packet c"
proof
  assume l: "membership_error packet c = [] \<and> artifact_error root packet c = Inr []"
  then obtain e where e: "dict_by aev_evidence_id (cmp_evidence packet) (act_evidence_id c) = Some e"
      "aev_source_id e = act_source_id c" by (auto simp: membership_error_Nil)
  then have em: "e \<in> set (cmp_evidence packet)" "aev_evidence_id e = act_evidence_id c"
    by (auto dest: dict_by_SomeD)
  then obtain s where s: "dict_by aso_source_id (cmp_sources packet) (act_source_id c) = Some s"
    using assms e(2) unfolding packet_closed_def
    by (metis dict_by_None not_Some_eq)
  then have "s \<in> set (cmp_sources packet)" "aso_source_id s = act_source_id c" by (auto dest: dict_by_SomeD)
  moreover have "evidence_exact root (act_exact_quote c) e s"
    using artifact_error_Nil [OF e(1) s] l by blast
  ultimately show "citation_exact root packet c" using em e(2) unfolding citation_exact_def by blast
next
  assume "citation_exact root packet c"
  then obtain e s where m: "e \<in> set (cmp_evidence packet)" "s \<in> set (cmp_sources packet)"
      "aev_evidence_id e = act_evidence_id c" "aev_source_id e = act_source_id c"
      "aso_source_id s = act_source_id c" "evidence_exact root (act_exact_quote c) e s"
    unfolding citation_exact_def by blast
  have e: "dict_by aev_evidence_id (cmp_evidence packet) (act_evidence_id c) = Some e"
    using dict_by_unique [of aev_evidence_id "cmp_evidence packet" e] assms m(1,3)
    by (simp add: packet_closed_def)
  have s: "dict_by aso_source_id (cmp_sources packet) (act_source_id c) = Some s"
    using dict_by_unique [of aso_source_id "cmp_sources packet" s] assms m(2,5)
    by (simp add: packet_closed_def)
  show "membership_error packet c = [] \<and> artifact_error root packet c = Inr []"
    using artifact_error_Nil [OF e s] m(4,6) e by (simp add: membership_error_Nil)
qed

lemma evaluate_answer_decision:
  assumes "evaluate_answer root answer task packet = Inr res"
  shows "acr_decision res = ACCEPTED \<longleftrightarrow>
    ran_task_id answer = task \<and> arr_packet_id (ran_route_receipt answer) = cmp_packet_id packet \<and>
    arr_packet_hash (ran_route_receipt answer) = cmp_packet_hash packet \<and>
    (\<forall>c \<in> set (ran_citations answer). membership_error packet c = [] \<and> artifact_error root packet c = Inr [])"
proof -
  obtain c1 c2 c3 c4 c5 es where
      c1: "make_gate_check ''schema'' PASSED ''Strict answer schema is valid.'' = Inr c1"
    and c2: "boolean_check ''task_identity'' (ran_task_id answer = task)
       ''Answer task_id matches the frozen task.''
       ''Answer task_id does not match the frozen task.'' = Inr c2"
    and c3: "boolean_check ''route_receipt''
       (arr_packet_id (ran_route_receipt answer) = cmp_packet_id packet \<and>
        arr_packet_hash (ran_route_receipt answer) = cmp_packet_hash packet)
       ''Answer points to the exact compact packet.''
       ''Answer route receipt does not match the compact packet.'' = Inr c3"
    and c4: "errors_check ''packet_membership''
       (concat (map (membership_error packet) (ran_citations answer)))
       ''Every citation belongs to accepted evidence in the compact packet.'' = Inr c4"
    and es: "map_res (artifact_error root packet) (ran_citations answer) = Inr es"
    and c5: "errors_check ''exact_local_evidence'' (concat es)
       ''Every quotation and bound fragment is exact in its local source artifact.'' = Inr c5"
    and r: "contract_result [c1, c2, c3, c4, c5] (Some answer) = Inr res"
    using assms unfolding evaluate_answer_def res_bind_eq_Inr by blast
  have "concat es = [] \<longleftrightarrow> (\<forall>c \<in> set (ran_citations answer). artifact_error root packet c = Inr [])"
    using es unfolding map_res_eq_Inr by (induction rule: list_all2_induct) auto
  then show ?thesis
    using make_gate_check_Inr [OF c1] boolean_check_Inr [OF c2] boolean_check_Inr [OF c3]
      errors_check_Inr [OF c4] errors_check_Inr [OF c5] contract_result_Inr [OF r]
    by auto
qed

lemma evaluate_answer_result:
  assumes "evaluate_answer root answer task packet = Inr res" and "acr_decision res = ACCEPTED"
  shows "acr_answer_id res = Some (answer_id answer) \<and> acr_answer_hash res = Some (answer_hash answer)"
  using assms(1) contract_result_accepted [OF _ assms(2)]
  unfolding evaluate_answer_def res_bind_eq_Inr by blast

lemma contains_trans: "contains a b \<Longrightarrow> contains b c \<Longrightarrow> contains a c"
proof -
  assume "contains a b" "contains b c"
  then obtain p q u v where "a = p @ b @ q" "b = u @ c @ v" by (auto simp: contains_iff)
  then have "a = (p @ u) @ c @ (v @ q)" by simp
  then show "contains a c" by (simp only: contains_iff) blast
qed

subsection \<open>When the gate returns\<close>

lemma gate_check_ok:
  "gate_check_name (model_strip name) \<Longrightarrow> 1 \<le> length (model_strip detail) \<Longrightarrow>
     length (model_strip detail) \<le> 2000 \<Longrightarrow> \<exists>c. make_gate_check name st detail = Inr c"
  by (simp add: make_gate_check_def Let_def res_simps)

lemma gate_check_names:
  "gate_check_name (model_strip ''schema'')" "gate_check_name (model_strip ''task_identity'')"
  "gate_check_name (model_strip ''route_receipt'')" "gate_check_name (model_strip ''packet_membership'')"
  "gate_check_name (model_strip ''exact_local_evidence'')"
  by code_simp+

lemma schema_check_ok:
  "\<exists>c. make_gate_check ''schema'' PASSED ''Strict answer schema is valid.'' = Inr c"
  by (rule gate_check_ok [OF gate_check_names(1)]) code_simp+

lemma task_check_ok:
  "\<exists>c. boolean_check ''task_identity'' b ''Answer task_id matches the frozen task.''
     ''Answer task_id does not match the frozen task.'' = Inr c"
  unfolding boolean_check_def
  by (rule gate_check_ok [OF gate_check_names(2)]; cases b; simp only: if_True if_False; code_simp)

lemma route_check_ok:
  "\<exists>c. boolean_check ''route_receipt'' b ''Answer points to the exact compact packet.''
     ''Answer route receipt does not match the compact packet.'' = Inr c"
  unfolding boolean_check_def
  by (rule gate_check_ok [OF gate_check_names(3)]; cases b; simp only: if_True if_False; code_simp)

lemma no_errors_check_ok:
  "\<exists>c. errors_check ''packet_membership'' []
     ''Every citation belongs to accepted evidence in the compact packet.'' = Inr c"
  "\<exists>c. errors_check ''exact_local_evidence'' []
     ''Every quotation and bound fragment is exact in its local source artifact.'' = Inr c"
  unfolding errors_check_def
  by (simp_all only: not_True_eq_False if_False HOL.simp_thms;
      rule gate_check_ok [OF gate_check_names(4)] gate_check_ok [OF gate_check_names(5)]; code_simp)+

lemma contract_result_total: "checks \<noteq> [] \<Longrightarrow> \<exists>r. contract_result checks (Some a) = Inr r"
  by (simp add: contract_result_def validate_contract_result_def Let_def res_simps opt_field_def
      answer_id_def answer_hash_def model_space_def canonical_content_id_matches
      canonical_sha256_hex_format)

lemma evaluate_answer_returns:
  assumes "\<forall>c \<in> set (ran_citations answer). membership_error packet c = [] \<and> artifact_error root packet c = Inr []"
  shows "\<exists>res. evaluate_answer root answer task packet = Inr res"
proof -
  have m: "concat (map (membership_error packet) (ran_citations answer)) = []"
    using assms by simp
  have a: "map_res (artifact_error root packet) (ran_citations answer) = Inr (map (\<lambda>_. []) (ran_citations answer))"
    using assms by (intro map_res_Inr_total) simp
  have e: "concat (map (\<lambda>_. []) (ran_citations answer)) = []" by simp
  obtain c1 where c1: "make_gate_check ''schema'' PASSED ''Strict answer schema is valid.'' = Inr c1"
    using schema_check_ok by blast
  obtain c2 where c2: "boolean_check ''task_identity'' (ran_task_id answer = task)
      ''Answer task_id matches the frozen task.'' ''Answer task_id does not match the frozen task.'' = Inr c2"
    using task_check_ok by blast
  obtain c3 where c3: "boolean_check ''route_receipt''
      (arr_packet_id (ran_route_receipt answer) = cmp_packet_id packet \<and>
       arr_packet_hash (ran_route_receipt answer) = cmp_packet_hash packet)
      ''Answer points to the exact compact packet.''
      ''Answer route receipt does not match the compact packet.'' = Inr c3"
    using route_check_ok by blast
  obtain c4 c5 where c4: "errors_check ''packet_membership'' []
      ''Every citation belongs to accepted evidence in the compact packet.'' = Inr c4"
    and c5: "errors_check ''exact_local_evidence'' []
      ''Every quotation and bound fragment is exact in its local source artifact.'' = Inr c5"
    using no_errors_check_ok by blast
  show ?thesis
    unfolding evaluate_answer_def m a e res_bind_Inr c1 c2 c3 c4 c5
    by (rule contract_result_total) simp
qed

lemma detail_overflow:
  "gate_check_name (model_strip name) \<Longrightarrow> 2000 < length (model_strip detail) \<Longrightarrow>
     make_gate_check name st detail = Inl (ValidationError (FieldConstraint ''detail'' ''length''))"
  by (simp add: make_gate_check_def Let_def validated_def pattern_field_def text_field_def field_def)

subsection \<open>Facets\<close>

definition facet_covered ::
  "'x compact_memory_packet_scheme \<Rightarrow> research_answer \<Rightarrow> required_facet \<Rightarrow> bool" where
  "facet_covered packet answer f \<longleftrightarrow>
     set (rf_evidence_ids_any f) \<subseteq> aev_evidence_id ` set (cmp_evidence packet) \<and>
     rf_min_evidence f \<le>
       int (card (set (rf_evidence_ids_any f) \<inter> \<Union> (set ` acl_evidence_ids ` set (ran_claims answer))))"

lemma facet_outcome_covered:
  fixes packet :: "'x compact_memory_packet_scheme"
  shows "fc_status (fst (facet_outcome (map aev_evidence_id (cmp_evidence packet))
      (used_evidence_ids answer) f)) = COVERED \<longleftrightarrow> facet_covered packet answer f" (is ?status)
    and "snd (facet_outcome (map aev_evidence_id (cmp_evidence packet)) (used_evidence_ids answer) f) = []
      \<longleftrightarrow> facet_covered packet answer f" (is ?messages)
proof -
  let ?m = "sorted_set (filter (\<lambda>e. e \<in> set (used_evidence_ids answer)) (rf_evidence_ids_any f))"
  have "set (rf_evidence_ids_any f) \<inter> \<Union> (set ` acl_evidence_ids ` set (ran_claims answer)) =
      {e \<in> set (rf_evidence_ids_any f). e \<in> set (used_evidence_ids answer)}"
    by (auto simp: used_evidence_ids_def)
  then have len: "length ?m = card (set (rf_evidence_ids_any f) \<inter>
      \<Union> (set ` acl_evidence_ids ` set (ran_claims answer)))"
    by (simp add: length_sorted_set)
  show ?status ?messages
    unfolding facet_outcome_def facet_covered_def len [symmetric] Let_def by auto
qed

lemma validate_facet_coverage_status:
  "validate_facet_coverage x = Inr y \<Longrightarrow> fc_status y = fc_status x"
  by (auto simp: validate_facet_coverage_def Let_def res_simps)

lemma coverage_result_fields:
  assumes "validate_coverage_result raw = Inr res"
  shows "acv_decision res = acv_decision raw" "acv_covered_facets res = acv_covered_facets raw"
    "acv_required_facets res = acv_required_facets raw"
    "acv_coverage_basis_points res = acv_coverage_basis_points raw"
    "1 \<le> acv_required_facets raw"
  using assms by (auto simp: validate_coverage_result_def Let_def res_simps)

lemma task_violations_Nil:
  "task_violations answer spec n = [] \<longleftrightarrow>
     ran_status answer \<in> set (acs_allowed_statuses spec) \<and>
     (acs_require_open_gap spec \<longrightarrow> ran_open_gap answer \<noteq> None) \<and> acs_min_cited_sources spec \<le> n"
  by (auto simp: task_violations_def)

lemma binding_violations_Nil:
  "binding_violations answer spec packet = [] \<longleftrightarrow>
     ran_task_id answer = acs_task_id spec \<and> cmp_packet_id packet = acs_packet_id spec \<and>
     cmp_packet_hash packet = acs_packet_hash spec \<and>
     arr_packet_id (ran_route_receipt answer) = acs_packet_id spec \<and>
     arr_packet_hash (ran_route_receipt answer) = acs_packet_hash spec"
  by (auto simp: binding_violations_def)

lemma filter_length_iff: "length (filter P xs) = length xs \<longleftrightarrow> (\<forall>x \<in> set xs. P x)"
proof (induction xs)
  case (Cons a xs)
  have "length (filter P xs) \<noteq> Suc (length xs)" using length_filter_le [of P xs] by linarith
  with Cons show ?case by (cases "P a") auto
qed simp

lemma basis_points_full:
  fixes c n :: int
  assumes "0 < n" and "c \<le> n"
  shows "c * 10000 div n = 10000 \<longleftrightarrow> c = n"
proof
  assume eq: "c * 10000 div n = 10000"
  have "n * (c * 10000 div n) + c * 10000 mod n = c * 10000" by (rule mult_div_mod_eq)
  moreover have "0 \<le> c * 10000 mod n" using assms(1) by simp
  ultimately show "c = n" using assms unfolding eq by linarith
qed (use assms in simp)

subsection \<open>A sample answer\<close>

definition sample_address :: atlas_source_address where
  "sample_address =
     \<lparr>asa_kind = ''markdown'', asa_heading_path = [], asa_line_start = 2, asa_line_end = 2,
      asa_char_start = 0, asa_char_end = 14\<rparr>"

definition sample_file :: string where
  "sample_file = ''Letter'' @ [newline] @ ''Built in 1911.'' @ [newline] @ ''End''"

definition sample_packet :: compact_memory_packet where
  "sample_packet =
     \<lparr>cmp_schema_id = packet_schema, cmp_packet_id = ''memory_packet_'' @ replicate 32 CHR ''0'',
      cmp_packet_hash = replicate 64 CHR ''0'', cmp_router_profile = ''lexical_graph_closure_v1'',
      cmp_route_status = ROUTED, cmp_query = ''When?'', cmp_query_terms = [''when''],
      cmp_atlas_id = ''atlas_a'', cmp_case_id = ''case_a'', cmp_manifest_hash = replicate 64 CHR ''0'',
      cmp_route_matches = [],
      cmp_sources = [\<lparr>aso_source_id = ''source_a'', aso_title = ''Letter'', aso_creator = ''A'',
        aso_source_kind = LETTER, aso_voice_kind = FIRST_PERSON, aso_date_label = None,
        aso_publisher_or_archive = None, aso_independence_group = ''group_a'',
        aso_verification_state = VERIFIED, aso_original_url = None,
        aso_artifact_path = Some ''letter.md'', aso_rights_note = ''public''\<rparr>],
      cmp_evidence = [\<lparr>aev_evidence_id = ''evidence_a'', aev_source_id = ''source_a'',
        aev_locator = ''line 2'', aev_excerpt = Some ''Built in 1911.'', aev_role = evidence_role.SUPPORTS,
        aev_asserting_voice = ''A'', aev_limitation = None,
        aev_source_fragment_id = Some ''fragment_a'',
        aev_fragment_text_sha256 = Some (sha256_hex (utf8 ''Built in 1911.'')),
        aev_source_address = Some sample_address\<rparr>],
      cmp_questions = [], cmp_hypotheses = [], cmp_relations = [], cmp_timeline = [], cmp_gaps = []\<rparr>"

definition sample_answer :: research_answer where
  "sample_answer =
     \<lparr>ran_schema_id = answer_schema, ran_task_id = ''task_a'',
      ran_route_receipt = \<lparr>arr_packet_id = ''memory_packet_'' @ replicate 32 CHR ''0'',
        arr_packet_hash = replicate 64 CHR ''0''\<rparr>,
      ran_status = answer_status.SUPPORTED, ran_short_answer = ''In 1911.'',
      ran_claims = [\<lparr>acl_claim_id = ''claim_a'', acl_text = ''Built in 1911'',
        acl_status = claim_state.SUPPORTED, acl_evidence_ids = [''evidence_a'']\<rparr>],
      ran_citations = [\<lparr>act_evidence_id = ''evidence_a'', act_source_id = ''source_a'',
        act_exact_quote = ''in 1911''\<rparr>],
      ran_limitations = [], ran_open_gap = None\<rparr>"

definition sample_facet :: required_facet where
  "sample_facet =
     \<lparr>rf_facet_id = ''facet_a'', rf_label = ''Year'', rf_evidence_ids_any = [''evidence_a''],
      rf_min_evidence = 1\<rparr>"

definition sample_spec :: answer_coverage_spec where
  "sample_spec =
     \<lparr>acs_schema_id = coverage_spec_schema, acs_task_id = ''task_a'',
      acs_packet_id = ''memory_packet_'' @ replicate 32 CHR ''0'',
      acs_packet_hash = replicate 64 CHR ''0'', acs_allowed_statuses = [answer_status.SUPPORTED],
      acs_required_facets = [sample_facet],
      acs_require_open_gap = False, acs_min_cited_sources = 1\<rparr>"

definition sample_root :: "string \<Rightarrow> artifact" where
  "sample_root path = (if path = ''letter.md'' then TEXT sample_file else artifact.MISSING)"

lemma sample_lines: "split_text_lines sample_file = [''Letter'', ''Built in 1911.'', ''End'']"
  by code_simp

lemma sample_fragment: "bound_fragment sample_file sample_address = ''Built in 1911.''"
  unfolding bound_fragment_def sample_lines by (simp add: sample_address_def)

lemma sample_contains: "contains ''Built in 1911.'' ''in 1911''" "contains ''Built in 1911.'' ''Built in 1911.''"
  by code_simp+

lemma sample_fragment_exact:
  "fragment_exact ''Built in 1911.'' (sha256_hex (utf8 ''Built in 1911.'')) sample_address sample_file"
  unfolding fragment_exact_def sample_fragment sample_lines
  using sample_contains by (simp add: sample_address_def)

lemma sample_references: "packet_references sample_packet = Inr ()"
  by (simp add: packet_references_def res_simps sample_packet_def)

lemma sample_citation_exact: "citation_exact sample_root sample_packet (hd (ran_citations sample_answer))"
proof -
  have "evidence_exact sample_root ''in 1911'' (hd (cmp_evidence sample_packet)) (hd (cmp_sources sample_packet))"
    unfolding evidence_exact_def
    using sample_contains sample_fragment_exact
    by (simp add: sample_packet_def sample_root_def)
  then show ?thesis unfolding citation_exact_def
    by (simp add: sample_packet_def sample_answer_def)
qed

lemma sample_coverage_returns: "\<exists>res. evaluate_coverage sample_answer sample_spec sample_packet = Inr res"
proof -
  let ?o = "facet_outcome [''evidence_a''] [''evidence_a''] sample_facet"
  have o: "?o = (\<lparr>fc_facet_id = ''facet_a'', fc_label = ''Year'', fc_status = COVERED,
      fc_min_evidence = 1, fc_matched_evidence_ids = [''evidence_a''],
      fc_accepted_evidence_ids = [''evidence_a'']\<rparr>, [])"
    by (simp add: sample_facet_def facet_outcome_def sorted_set_def missing_ids_def Let_def)
  have v: "validate_facet_coverage (fst ?o) = Inr (fst ?o)"
    unfolding o by code_simp
  have args: "map aev_evidence_id (cmp_evidence sample_packet) = [''evidence_a'']"
    "used_evidence_ids sample_answer = [''evidence_a'']" "acs_required_facets sample_spec = [sample_facet]"
    by (simp_all add: sample_packet_def sample_answer_def sample_spec_def used_evidence_ids_def)
  show ?thesis
    unfolding evaluate_coverage_def Let_def args list.map map_res.simps v res_bind_Inr
    by (simp add: validate_coverage_result_def coverage_of_def Let_def res_simps o model_space_def
        coverage_spec_id_def coverage_spec_hash_def answer_id_def answer_hash_def
        canonical_content_id_matches canonical_sha256_hex_format)
      (simp add: sample_answer_def)
qed

lemma sample_citations_exact:
  "\<forall>c \<in> set (ran_citations sample_answer). citation_exact sample_root sample_packet c"
proof -
  have c: "ran_citations sample_answer = [hd (ran_citations sample_answer)]"
    by (simp add: sample_answer_def)
  show ?thesis by (subst c) (simp add: sample_citation_exact)
qed

lemma sample_answer_returns: "\<exists>res. evaluate_answer sample_root sample_answer ''task_a'' sample_packet = Inr res"
  using evaluate_answer_returns [of sample_answer sample_packet sample_root "''task_a''"]
    citation_exact_iff [OF packet_references_closed [OF sample_references]] sample_citations_exact by blast

lemma sample_bindings:
  "ran_task_id sample_answer = ''task_a''"
  "arr_packet_id (ran_route_receipt sample_answer) = cmp_packet_id sample_packet"
  "arr_packet_hash (ran_route_receipt sample_answer) = cmp_packet_hash sample_packet"
  by (simp_all add: sample_answer_def sample_packet_def)

lemma sample_answer_accepted:
  "\<exists>res. evaluate_answer sample_root sample_answer ''task_a'' sample_packet = Inr res \<and>
     acr_decision res = ACCEPTED"
  using sample_answer_returns evaluate_answer_decision sample_bindings sample_citations_exact
    citation_exact_iff [OF packet_references_closed [OF sample_references]] by blast

lemma sample_facets_covered:
  "\<forall>f \<in> set (acs_required_facets sample_spec). facet_covered sample_packet sample_answer f"
  by (simp add: facet_covered_def sample_packet_def sample_answer_def sample_facet_def sample_spec_def)

text \<open>An answer that cites 24 unknown evidence identifiers of 70 to 93 characters.\<close>

definition long_ids :: "string list" where
  "long_ids = map (\<lambda>n. CHR ''e'' # replicate (69 + n) CHR ''a'') [0..<24]"

definition long_answer :: research_answer where
  "long_answer =
     sample_answer\<lparr>ran_claims := [\<lparr>acl_claim_id = ''claim_a'', acl_text = ''Built in 1911'',
         acl_status = claim_state.SUPPORTED, acl_evidence_ids = long_ids\<rparr>],
       ran_citations := map (\<lambda>i. \<lparr>act_evidence_id = i, act_source_id = ''source_a'',
         act_exact_quote = ''in 1911''\<rparr>) long_ids\<rparr>"

lemma long_membership_errors:
  "concat (map (membership_error sample_packet) (ran_citations long_answer)) =
     map (\<lambda>i. ''unknown evidence '' @ i) long_ids"
proof -
  have "i \<in> set long_ids \<Longrightarrow> length i \<ge> 70" for i
    by (auto simp: long_ids_def)
  then have "i \<in> set long_ids \<Longrightarrow> i \<noteq> ''evidence_a''" for i
    by fastforce
  then have unknown: "i \<in> set long_ids \<Longrightarrow>
      membership_error sample_packet \<lparr>act_evidence_id = i, act_source_id = ''source_a'', act_exact_quote = q\<rparr> =
        [''unknown evidence '' @ i]" for i q
    by (auto simp: membership_error_def sample_packet_def dict_by_def)
  have "concat (map (membership_error sample_packet) (map (\<lambda>i. \<lparr>act_evidence_id = i,
      act_source_id = ''source_a'', act_exact_quote = ''in 1911''\<rparr>) ids)) =
      map (\<lambda>i. ''unknown evidence '' @ i) ids" if "set ids \<subseteq> set long_ids" for ids
    using that by (induction ids) (simp_all add: unknown)
  then show ?thesis by (simp add: long_answer_def)
qed

lemma length_join: "xs \<noteq> [] \<Longrightarrow> length (join sep xs) = sum_list (map length xs) + length sep * (length xs - 1)"
  by (induction sep xs rule: join.induct) auto

lemma join_hd_last:
  "(\<And>x. x \<in> set xs \<Longrightarrow> x \<noteq> []) \<Longrightarrow> xs \<noteq> [] \<Longrightarrow>
     join sep xs \<noteq> [] \<and> hd (join sep xs) = hd (hd xs) \<and> last (join sep xs) = last (last xs)"
  by (induction sep xs rule: join.induct) auto

lemma long_report: "2000 < length (model_strip (join ''; '' (map (\<lambda>i. ''unknown evidence '' @ i) long_ids)))"
proof -
  let ?xs = "map (\<lambda>i. ''unknown evidence '' @ i) long_ids"
  have "?xs \<noteq> []" by (simp add: long_ids_def)
  moreover have ends: "hd (hd ?xs) = CHR ''u''" "last (last ?xs) = CHR ''a''"
    by (simp_all add: long_ids_def hd_map last_map comp_def del: upt_Suc)
  have "hd (join ''; '' ?xs) = hd (hd ?xs)" "last (join ''; '' ?xs) = last (last ?xs)"
    using join_hd_last [of ?xs "''; ''"] calculation by auto
  then have "unpadded (join ''; '' ?xs)"
    unfolding unpadded_def ends by (simp only: ends) (simp add: model_space_def)
  moreover have "length (join ''; '' ?xs) = 2410"
    using \<open>?xs \<noteq> []\<close> by (subst length_join) (simp_all add: long_ids_def comp_def upt_rec numeral_eq_Suc)
  ultimately show ?thesis by simp
qed

text \<open>
  C3. The answer gate accepts exactly the answers that are bound to the task and the
  packet and whose every citation names accepted evidence of that packet, from the source
  it names, with a quotation inside the accepted excerpt, where the excerpt lies in the
  lines its address binds in the local artifact and those lines have the recorded SHA-256;
  an accepted result carries the answer's content identity.
\<close>

theorem answer_gate_exact:
  assumes "packet_references packet = Inr ()"
    and "evaluate_answer root answer task packet = Inr res"
  shows "(acr_decision res = ACCEPTED \<longleftrightarrow>
      ran_task_id answer = task \<and> arr_packet_id (ran_route_receipt answer) = cmp_packet_id packet \<and>
      arr_packet_hash (ran_route_receipt answer) = cmp_packet_hash packet \<and>
      (\<forall>c \<in> set (ran_citations answer). citation_exact root packet c)) \<and>
    (acr_decision res = ACCEPTED \<longrightarrow>
      acr_answer_id res = Some (answer_id answer) \<and> acr_answer_hash res = Some (answer_hash answer))"
  using evaluate_answer_decision [OF assms(2)] evaluate_answer_result [OF assms(2)]
    citation_exact_iff [OF packet_references_closed [OF assms(1)]] by blast

lemma coverage_gate_iff:
  assumes "evaluate_coverage answer spec packet = Inr res"
  shows "(acv_decision res = COMPLETE \<longleftrightarrow>
      ran_task_id answer = acs_task_id spec \<and> cmp_packet_id packet = acs_packet_id spec \<and>
      cmp_packet_hash packet = acs_packet_hash spec \<and>
      arr_packet_id (ran_route_receipt answer) = acs_packet_id spec \<and>
      arr_packet_hash (ran_route_receipt answer) = acs_packet_hash spec \<and>
      (\<forall>f \<in> set (acs_required_facets spec). facet_covered packet answer f) \<and>
      ran_status answer \<in> set (acs_allowed_statuses spec) \<and>
      (acs_require_open_gap spec \<longrightarrow> ran_open_gap answer \<noteq> None) \<and>
      acs_min_cited_sources spec \<le> int (card (act_source_id ` set (ran_citations answer)))) \<and>
    (acv_coverage_basis_points res = 10000 \<longleftrightarrow>
      (\<forall>f \<in> set (acs_required_facets spec). facet_covered packet answer f))"
proof -
  let ?oc = "facet_outcome (map aev_evidence_id (cmp_evidence packet)) (used_evidence_ids answer)"
  let ?n = "int (length (remdups (map act_source_id (ran_citations answer))))"
  let ?v = "binding_violations answer spec packet @ concat (map snd (map ?oc (acs_required_facets spec))) @
    task_violations answer spec ?n"
  obtain facets where f: "map_res (\<lambda>oc. validate_facet_coverage (fst oc)) (map ?oc (acs_required_facets spec)) = Inr facets"
    and r: "validate_coverage_result (coverage_of answer spec ?v ?n facets) = Inr res"
    using assms by (auto simp: evaluate_coverage_def Let_def res_simps)
  have "list_all2 (\<lambda>x y. fc_status y = COVERED \<longleftrightarrow> facet_covered packet answer x) (acs_required_facets spec) facets"
    using f unfolding map_res_eq_Inr list_all2_map1
    by (rule list_all2_mono) (simp add: validate_facet_coverage_status facet_outcome_covered(1))
  then have all: "(\<forall>y \<in> set facets. fc_status y = COVERED) \<longleftrightarrow>
      (\<forall>x \<in> set (acs_required_facets spec). facet_covered packet answer x)"
    by (induction rule: list_all2_induct) auto
  have n: "?n = int (card (act_source_id ` set (ran_citations answer)))"
    by (simp add: length_remdups_card_conv)
  have dec: "acv_decision res = COMPLETE \<longleftrightarrow> ?v = []"
    using coverage_result_fields(1) [OF r] by (simp add: coverage_of_def Let_def)
  have v: "?v = [] \<longleftrightarrow> binding_violations answer spec packet = [] \<and>
      (\<forall>x \<in> set (acs_required_facets spec). facet_covered packet answer x) \<and>
      task_violations answer spec ?n = []"
    by (auto simp: facet_outcome_covered(2))
  let ?c = "length (filter (\<lambda>y. fc_status y = COVERED) facets)"
  have "1 \<le> int (length facets)"
    using coverage_result_fields(5) [OF r] by (simp add: coverage_of_def Let_def)
  then have "0 < int (length facets)" by linarith
  then have "int ?c * 10000 div int (length facets) = 10000 \<longleftrightarrow> ?c = length facets"
    by (subst basis_points_full) auto
  also have "\<dots> \<longleftrightarrow> (\<forall>y \<in> set facets. fc_status y = COVERED)"
    by (rule filter_length_iff)
  finally have points: "acv_coverage_basis_points res = 10000 \<longleftrightarrow>
      (\<forall>x \<in> set (acs_required_facets spec). facet_covered packet answer x)"
    using coverage_result_fields(4) [OF r] all by (simp add: coverage_of_def Let_def)
  have "acv_decision res = COMPLETE \<longleftrightarrow> binding_violations answer spec packet = [] \<and>
      (\<forall>x \<in> set (acs_required_facets spec). facet_covered packet answer x) \<and>
      task_violations answer spec ?n = []"
    unfolding dec by (rule v)
  then show ?thesis
    unfolding binding_violations_Nil task_violations_Nil n using points by blast
qed

lemma sample_coverage_complete:
  "\<exists>res. evaluate_coverage sample_answer sample_spec sample_packet = Inr res \<and>
     acv_decision res = COMPLETE"
proof -
  obtain res where res: "evaluate_coverage sample_answer sample_spec sample_packet = Inr res"
    using sample_coverage_returns by blast
  then show ?thesis
    using coverage_gate_iff [OF res] sample_facets_covered
    by (simp add: sample_packet_def sample_answer_def sample_spec_def)
qed

text \<open>
  C20. A complete answer uses every facet of its task: the coverage gate decides complete
  exactly when answer, packet and specification are bound to one task and packet, every
  required facet lies in the packet and the claims use its minimum of distinct evidence,
  the status is allowed, a required gap is present and enough distinct sources are cited;
  the coverage is 10000 basis points exactly when every facet is covered.
\<close>

theorem coverage_gate_exact:
  assumes "evaluate_coverage answer spec packet = Inr res"
  shows "(acv_decision res = COMPLETE \<longleftrightarrow>
      ran_task_id answer = acs_task_id spec \<and> cmp_packet_id packet = acs_packet_id spec \<and>
      cmp_packet_hash packet = acs_packet_hash spec \<and>
      arr_packet_id (ran_route_receipt answer) = acs_packet_id spec \<and>
      arr_packet_hash (ran_route_receipt answer) = acs_packet_hash spec \<and>
      (\<forall>f \<in> set (acs_required_facets spec). facet_covered packet answer f) \<and>
      ran_status answer \<in> set (acs_allowed_statuses spec) \<and>
      (acs_require_open_gap spec \<longrightarrow> ran_open_gap answer \<noteq> None) \<and>
      acs_min_cited_sources spec \<le> int (card (act_source_id ` set (ran_citations answer)))) \<and>
    (acv_coverage_basis_points res = 10000 \<longleftrightarrow>
      (\<forall>f \<in> set (acs_required_facets spec). facet_covered packet answer f))"
  by (rule coverage_gate_iff [OF assms])

text \<open>
  C35. The gate raises where it should reject: when the joined membership errors of an
  answer are longer than the 2000 characters a check may hold, evaluate does not return a
  rejected result, it raises the validation error of its own report.
\<close>

theorem membership_report_overflow:
  assumes "2000 < length (model_strip (join ''; '' (concat (map (membership_error packet) (ran_citations answer)))))"
  shows "evaluate_answer root answer task packet = Inl (ValidationError (FieldConstraint ''detail'' ''length''))"
proof -
  let ?es = "concat (map (membership_error packet) (ran_citations answer))"
  have "?es \<noteq> []"
  proof
    assume "?es = []"
    then have "length (model_strip (join ''; '' ?es)) = 0" by (simp only: join.simps) (simp add: model_strip_def)
    with assms show False by simp
  qed
  then have c4: "errors_check ''packet_membership'' ?es
      ''Every citation belongs to accepted evidence in the compact packet.'' =
      Inl (ValidationError (FieldConstraint ''detail'' ''length''))"
    unfolding errors_check_def by (simp only: if_True not_False_eq_True)
      (rule detail_overflow [OF gate_check_names(4) assms])
  show ?thesis
    using schema_check_ok task_check_ok [of "ran_task_id answer = task"]
      route_check_ok [of "arr_packet_id (ran_route_receipt answer) = cmp_packet_id packet \<and>
        arr_packet_hash (ran_route_receipt answer) = cmp_packet_hash packet"]
    unfolding evaluate_answer_def by (elim exE) (simp only: res_bind_Inr c4 res_bind_Inl)
qed

theorem answer_gate_exact_witness:
  "\<exists>res. evaluate_answer sample_root sample_answer ''task_a'' sample_packet = Inr res \<and>
     acr_decision res = ACCEPTED \<and> acr_answer_id res = Some (answer_id sample_answer)"
proof -
  obtain res where res: "evaluate_answer sample_root sample_answer ''task_a'' sample_packet = Inr res"
    using sample_answer_returns by blast
  then show ?thesis
    using answer_gate_exact [OF sample_references res] sample_bindings sample_citations_exact by blast
qed

theorem coverage_gate_exact_witness:
  "\<exists>res. evaluate_coverage sample_answer sample_spec sample_packet = Inr res \<and>
     acv_decision res = COMPLETE \<and> acv_coverage_basis_points res = 10000"
proof -
  obtain res where res: "evaluate_coverage sample_answer sample_spec sample_packet = Inr res"
    using sample_coverage_returns by blast
  then show ?thesis
    using coverage_gate_exact [OF res] sample_facets_covered
    by (simp add: sample_packet_def sample_answer_def sample_spec_def)
qed

theorem membership_report_overflow_witness:
  "evaluate_answer sample_root long_answer ''task_a'' sample_packet =
     Inl (ValidationError (FieldConstraint ''detail'' ''length''))"
  by (rule membership_report_overflow) (simp only: long_membership_errors long_report)

end
