(* ===== verification/Case_Props.thy ===== *)
theory Case_Props
  imports Entailment_Props Answer_Props
begin

text \<open>
  What the builder of review cases shows to a judge, and the numeric literals it singles
  out.
\<close>

text \<open>The display \<open>d\<close> of the evidence identifier \<open>eid\<close>: joined through the answer and the packet.\<close>

definition display_of ::
  "research_answer \<Rightarrow> 'x compact_memory_packet_scheme \<Rightarrow> string \<Rightarrow> evidence_citation \<Rightarrow> bool" where
  "display_of answer packet eid d \<longleftrightarrow>
     (\<exists>c \<in> set (ran_citations answer). \<exists>e \<in> set (cmp_evidence packet). \<exists>s \<in> set (cmp_sources packet).
        act_evidence_id c = eid \<and> aev_evidence_id e = eid \<and>
        act_source_id c = aev_source_id e \<and> aso_source_id s = aev_source_id e \<and>
        ecn_evidence_id d = model_strip eid \<and> ecn_source_id d = model_strip (aso_source_id s) \<and>
        ecn_source_title d = model_strip (aso_title s) \<and>
        ecn_source_creator d = model_strip (aso_creator s) \<and>
        ecn_source_kind d = aso_source_kind s \<and> ecn_voice_kind d = aso_voice_kind s \<and>
        ecn_asserting_voice d = model_strip (aev_asserting_voice e) \<and>
        ecn_evidence_role d = aev_role e \<and>
        ecn_limitation d = map_option model_strip (aev_limitation e) \<and>
        ecn_exact_quote d = model_strip (act_exact_quote c))"

lemma build_display_Inr: "build_display answer packet cid eid = Inr d \<Longrightarrow> display_of answer packet eid d"
proof -
  assume "build_display answer packet cid eid = Inr d"
  then obtain c e s where look: "dict_by act_evidence_id (ran_citations answer) eid = Some c"
      "dict_by aev_evidence_id (cmp_evidence packet) eid = Some e"
      "dict_by aso_source_id (cmp_sources packet) (act_source_id c) = Some s"
    and src: "act_source_id c = aev_source_id e"
    and d: "validate_evidence_citation
       \<lparr>ecn_evidence_id = eid, ecn_source_id = aso_source_id s,
        ecn_source_title = aso_title s, ecn_source_creator = aso_creator s,
        ecn_source_kind = aso_source_kind s, ecn_voice_kind = aso_voice_kind s,
        ecn_asserting_voice = aev_asserting_voice e, ecn_evidence_role = aev_role e,
        ecn_limitation = aev_limitation e, ecn_exact_quote = act_exact_quote c\<rparr> = Inr d"
    unfolding build_display_def by (auto split: option.splits if_splits)
  have "c \<in> set (ran_citations answer)" "act_evidence_id c = eid" "e \<in> set (cmp_evidence packet)"
    "aev_evidence_id e = eid" "s \<in> set (cmp_sources packet)" "aso_source_id s = aev_source_id e"
    using look [THEN dict_by_SomeD] src by auto
  moreover have "ecn_evidence_id d = model_strip eid" "ecn_source_id d = model_strip (aso_source_id s)"
    "ecn_source_title d = model_strip (aso_title s)" "ecn_source_creator d = model_strip (aso_creator s)"
    "ecn_source_kind d = aso_source_kind s" "ecn_voice_kind d = aso_voice_kind s"
    "ecn_asserting_voice d = model_strip (aev_asserting_voice e)" "ecn_evidence_role d = aev_role e"
    "ecn_limitation d = map_option model_strip (aev_limitation e)"
    "ecn_exact_quote d = model_strip (act_exact_quote c)"
    using d by (auto simp: validate_evidence_citation_def Let_def res_simps)
  ultimately show ?thesis using src unfolding display_of_def by metis
qed

lemma unquoted_loop_eq:
  "unquoted_loop quoted res ls =
     res @ filter (\<lambda>l. l \<notin> set quoted \<and> l \<notin> set res) (first_occurrences ls)"
proof (induction ls arbitrary: res rule: rev_induct)
  case Nil
  then show ?case by simp
next
  case (snoc l ls)
  have step: "unquoted_loop quoted res (xs @ [x]) =
      (let r = unquoted_loop quoted res xs
       in if x \<notin> set quoted \<and> x \<notin> set r then r @ [x] else r)" for res xs x
    by (induction xs arbitrary: res) (auto simp: Let_def)
  show ?case unfolding step snoc.IH by (auto simp: Let_def)
qed

definition case_of ::
  "research_answer \<Rightarrow> 'x compact_memory_packet_scheme \<Rightarrow> answer_claim \<Rightarrow> evidence_case \<Rightarrow> bool" where
  "case_of answer packet cl c \<longleftrightarrow>
     eca_claim_id c = model_strip (acl_claim_id cl) \<and> eca_claim_text c = model_strip (acl_text cl) \<and>
     eca_claim_state c = acl_status cl \<and>
     list_all2 (display_of answer packet) (acl_evidence_ids cl) (eca_citations c) \<and>
     eca_unquoted c = map model_strip
       (filter (\<lambda>l. l \<notin> set (concat (map numeric_literals (map ecn_exact_quote (eca_citations c)))))
          (first_occurrences (numeric_literals (acl_text cl)))) \<and>
     eca_case_id c = canonical_content_id ''claim_evidence_case'' (case_payload c)"

lemma build_case_Inr: "build_case answer packet cl = Inr c \<Longrightarrow> case_of answer packet cl c"
proof -
  assume "build_case answer packet cl = Inr c"
  then obtain ds where ds: "map_res (build_display answer packet (acl_claim_id cl)) (acl_evidence_ids cl) = Inr ds"
    and c: "create_case (acl_claim_id cl) (acl_text cl) (acl_status cl) ds
      (unquoted_numeric_literals (acl_text cl) (map ecn_exact_quote ds)) = Inr c"
    by (auto simp: build_case_def res_simps)
  have fields: "eca_claim_id c = model_strip (acl_claim_id cl)" "eca_claim_text c = model_strip (acl_text cl)"
    "eca_claim_state c = acl_status cl" "eca_citations c = ds"
    "eca_unquoted c = map model_strip (unquoted_numeric_literals (acl_text cl) (map ecn_exact_quote ds))"
    "eca_case_id c = canonical_content_id ''claim_evidence_case'' (case_payload c)"
    using c by (auto simp: create_case_def validate_case_def Let_def res_simps case_validator_def)
  have "list_all2 (display_of answer packet) (acl_evidence_ids cl) ds"
    using ds unfolding map_res_eq_Inr by (rule list_all2_mono) (rule build_display_Inr)
  then show ?thesis
    by (simp add: case_of_def fields unquoted_numeric_literals_def unquoted_loop_eq)
qed

subsection \<open>The sample answer's case\<close>

lemma sample_display:
  "build_display sample_answer sample_packet ''claim_a'' ''evidence_a'' = Inr (hd (eca_citations sample_case))"
proof -
  have look: "dict_by act_evidence_id (ran_citations sample_answer) ''evidence_a'' = Some (hd (ran_citations sample_answer))"
    "dict_by aev_evidence_id (cmp_evidence sample_packet) ''evidence_a'' = Some (hd (cmp_evidence sample_packet))"
    "dict_by aso_source_id (cmp_sources sample_packet) ''source_a'' = Some (hd (cmp_sources sample_packet))"
    by (simp_all add: dict_by_def sample_answer_def sample_packet_def)
  have "validate_evidence_citation (hd (eca_citations sample_case0)) = Inr (hd (eca_citations sample_case0))"
    by code_simp
  then have "validate_evidence_citation (hd (eca_citations sample_case)) = Inr (hd (eca_citations sample_case))"
    by (simp add: sample_case_def)
  moreover have "\<lparr>ecn_evidence_id = ''evidence_a'', ecn_source_id = aso_source_id (hd (cmp_sources sample_packet)),
      ecn_source_title = aso_title (hd (cmp_sources sample_packet)),
      ecn_source_creator = aso_creator (hd (cmp_sources sample_packet)),
      ecn_source_kind = aso_source_kind (hd (cmp_sources sample_packet)),
      ecn_voice_kind = aso_voice_kind (hd (cmp_sources sample_packet)),
      ecn_asserting_voice = aev_asserting_voice (hd (cmp_evidence sample_packet)),
      ecn_evidence_role = aev_role (hd (cmp_evidence sample_packet)),
      ecn_limitation = aev_limitation (hd (cmp_evidence sample_packet)),
      ecn_exact_quote = act_exact_quote (hd (ran_citations sample_answer))\<rparr> = hd (eca_citations sample_case)"
    by (simp add: sample_answer_def sample_packet_def sample_case_def sample_case0_def)
  moreover have "act_source_id (hd (ran_citations sample_answer)) = ''source_a''"
    "aev_source_id (hd (cmp_evidence sample_packet)) = ''source_a''"
    by (simp_all add: sample_answer_def sample_packet_def)
  ultimately show ?thesis
    unfolding build_display_def look(1,2) option.case prod.case by (simp only: look(3) option.case if_False simp_thms)
qed

lemma sample_unquoted: "unquoted_numeric_literals ''Built in 1911'' [''in 1911''] = []"
  by code_simp

lemma sample_build_case:
  "build_case sample_answer sample_packet (hd (ran_claims sample_answer)) = Inr sample_case"
proof -
  have c: "eca_citations sample_case = [hd (eca_citations sample_case)]"
    "map ecn_exact_quote [hd (eca_citations sample_case)] = [''in 1911'']"
    by (simp_all add: sample_case_def sample_case0_def)
  have claim: "acl_claim_id (hd (ran_claims sample_answer)) = ''claim_a''"
    "acl_text (hd (ran_claims sample_answer)) = ''Built in 1911''"
    "acl_status (hd (ran_claims sample_answer)) = claim_state.SUPPORTED"
    "acl_evidence_ids (hd (ran_claims sample_answer)) = [''evidence_a'']"
    by (simp_all add: sample_answer_def)
  have create: "create_case ''claim_a'' ''Built in 1911'' claim_state.SUPPORTED [hd (eca_citations sample_case)] [] =
      validate_case sample_case"
    by (simp add: create_case_def Let_def sample_case_def sample_case0_def)
  show ?thesis
    unfolding build_case_def claim map_res.simps sample_display res_bind_Inr c(2) sample_unquoted create
    by (rule sample_case_valid)
qed

lemma sample_build: "\<exists>s. build_case_set sample_answer sample_packet sample_spec None = Inr s"
proof -
  have bind: "validate_bindings sample_answer (ran_task_id sample_answer) sample_packet sample_spec = Inr ()"
    by (simp add: validate_bindings_def sample_answer_def sample_packet_def sample_spec_def)
  have claims: "ran_claims sample_answer = [hd (ran_claims sample_answer)]"
    by (simp add: sample_answer_def)
  have built: "map_res (build_case sample_answer sample_packet) (ran_claims sample_answer) = Inr [sample_case]"
    by (subst claims) (simp add: sample_build_case)
  have ids: "ran_task_id sample_answer = ''task_a''" "cmp_packet_hash sample_packet = zeros64"
    by (simp_all add: sample_answer_def sample_packet_def zeros64_def)
  have pid: "cmp_packet_id sample_packet = ''memory_packet_'' @ replicate 32 CHR ''0''"
    unfolding sample_packet_def by (simp only: compact_memory_packet.simps)
  have packet: "model_strip (cmp_packet_id sample_packet) = cmp_packet_id sample_packet"
    "matches_prefixed_hex ''memory_packet_'' 32 (cmp_packet_id sample_packet)"
    unfolding pid by (rule sample_id_strip sample_id_matches)+
  have strip: "model_strip (answer_id sample_answer) = answer_id sample_answer"
    "model_strip (answer_hash sample_answer) = answer_hash sample_answer"
    "model_strip (coverage_spec_id sample_spec) = coverage_spec_id sample_spec"
    "model_strip (coverage_spec_hash sample_spec) = coverage_spec_hash sample_spec"
    by (simp_all add: answer_id_def answer_hash_def coverage_spec_id_def coverage_spec_hash_def model_space_def)
  have match: "matches_prefixed_hex ''research_answer_'' 32 (answer_id sample_answer)"
    "matches_hex 64 (answer_hash sample_answer)"
    "matches_prefixed_hex ''answer_coverage_spec_'' 32 (coverage_spec_id sample_spec)"
    "matches_hex 64 (coverage_spec_hash sample_spec)"
    by (simp_all add: answer_id_def answer_hash_def coverage_spec_id_def coverage_spec_hash_def
        canonical_content_id_matches canonical_sha256_hex_format)
  show ?thesis
    unfolding build_case_set_def Let_def option.case ids bind [unfolded ids] res_bind_Inr built
      validate_case_set_def
      strip_case_set_def
    by (simp add: res_simps packet sample_literals strip_zeros64 strip match
        canonical_content_id_matches canonical_sha256_hex_format sample_patterns hex_zeros64
        case_set_validator_def model_space_def case_set_payload_def)
qed

lemma build_case_set_spec:
  assumes "build_case_set answer packet spec task = Inr s"
  shows "list_all2 (case_of answer packet) (ran_claims answer) (ecs_cases s) \<and>
    ecs_answer_id s = answer_id answer \<and> ecs_answer_hash s = answer_hash answer \<and>
    ecs_packet_id s = model_strip (cmp_packet_id packet) \<and>
    arr_packet_id (ran_route_receipt answer) = cmp_packet_id packet \<and>
    arr_packet_hash (ran_route_receipt answer) = cmp_packet_hash packet \<and>
    acs_packet_id spec = cmp_packet_id packet \<and> acs_task_id spec = ran_task_id answer \<and>
    ecs_coverage_spec_id s = coverage_spec_id spec \<and>
    ecs_case_set_hash s = canonical_sha256_hex (case_set_payload s)"
proof -
  obtain built s0 where b: "map_res (build_case answer packet) (ran_claims answer) = Inr built"
    and bind: "validate_bindings answer (case task of None \<Rightarrow> ran_task_id answer | Some t \<Rightarrow> t) packet spec = Inr ()"
    and s0: "validate_case_set s0 = Inr s" "ecs_cases s0 = built" "ecs_answer_id s0 = answer_id answer"
      "ecs_answer_hash s0 = answer_hash answer" "ecs_packet_id s0 = cmp_packet_id packet"
      "ecs_coverage_spec_id s0 = coverage_spec_id spec"
    using assms by (auto simp: build_case_set_def Let_def res_simps)
  have "list_all2 (case_of answer packet) (ran_claims answer) built"
    using b unfolding map_res_eq_Inr by (rule list_all2_mono) (rule build_case_Inr)
  moreover have "ecs_cases s = built" "ecs_answer_id s = answer_id answer" "ecs_answer_hash s = answer_hash answer"
    "ecs_packet_id s = model_strip (cmp_packet_id packet)" "ecs_coverage_spec_id s = coverage_spec_id spec"
    "ecs_case_set_hash s = canonical_sha256_hex (case_set_payload s)"
    using s0 by (auto simp: validate_case_set_def strip_case_set_def Let_def res_simps
        case_set_validator_def answer_id_def answer_hash_def coverage_spec_id_def model_space_def)
  ultimately show ?thesis
    using bind by (auto simp: validate_bindings_def Let_def split: if_splits)
qed

text \<open>
  C24. The review cases are exactly the answer: a built case set is bound to the answer, the
  packet and the coverage specification, all three of the same task and packet, and holds
  one content-addressed case per claim, in order, with the claim's text and state and, for
  each of its evidence identifiers in order, the quotation of the answer beside the voice,
  role and limitation of the packet's evidence and the name of its source, and nothing
  else; the unquoted numbers are those of the claim that no shown quotation has.
\<close>

theorem case_set_exact:
  assumes "build_case_set answer packet spec task = Inr s"
  shows "list_all2 (case_of answer packet) (ran_claims answer) (ecs_cases s) \<and>
    ecs_answer_id s = answer_id answer \<and> ecs_answer_hash s = answer_hash answer \<and>
    ecs_packet_id s = model_strip (cmp_packet_id packet) \<and>
    arr_packet_id (ran_route_receipt answer) = cmp_packet_id packet \<and>
    arr_packet_hash (ran_route_receipt answer) = cmp_packet_hash packet \<and>
    acs_packet_id spec = cmp_packet_id packet \<and> acs_task_id spec = ran_task_id answer \<and>
    ecs_coverage_spec_id s = coverage_spec_id spec \<and>
    ecs_case_set_hash s = canonical_sha256_hex (case_set_payload s)"
  by (rule build_case_set_spec [OF assms])

theorem case_set_exact_witness:
  "\<exists>s. build_case_set sample_answer sample_packet sample_spec None = Inr s \<and>
     length (ecs_cases s) = 1 \<and> ecs_answer_id s = answer_id sample_answer"
proof -
  obtain s where s: "build_case_set sample_answer sample_packet sample_spec None = Inr s"
    using sample_build by blast
  from case_set_exact [OF s] have "list_all2 (case_of sample_answer sample_packet) (ran_claims sample_answer) (ecs_cases s)"
    "ecs_answer_id s = answer_id sample_answer" by auto
  moreover have "length (ran_claims sample_answer) = 1" by (simp add: sample_answer_def)
  ultimately show ?thesis using s by (auto dest: list_all2_lengthD)
qed

end
