(* ===== verification/Evidence_Chain.thy ===== *)
theory Evidence_Chain
  imports Reasoning_Props Case_Props
begin

text \<open>
  The evidence chain across the answer gate, the coverage gate, the builder of review
  cases, the semantic review gate and the closure gate: what a passed closure says about
  the answer and the local artifacts.
\<close>

subsection \<open>Results of the review gate\<close>

lemma semantic_result_cases:
  "semantic_result d s r cs vs us = Inr res \<Longrightarrow> enr_cases res = cs"
  by (auto simp: semantic_result_def validate_entailment_result_def Let_def res_simps result_validator_def)

lemma semantic_result_receipt:
  "semantic_result d s (Some r) cs vs us = Inr res \<Longrightarrow>
     enr_receipt_hash res = Some (model_strip (jr_receipt_hash r))"
  by (auto simp: semantic_result_def validate_entailment_result_def Let_def res_simps result_validator_def)

lemma evaluate_entailment_cases:
  assumes "evaluate_entailment s contract coverage (Some r) ej = Inr res"
    and "prerequisite_error s contract coverage = None"
  shows "list_all2 (\<lambda>c x. validate_case_result (fst (case_outcome (jr_judgments r) c)) = Inr x)
      (ecs_cases s) (enr_cases res)"
    and "enr_receipt_hash res = Some (model_strip (jr_receipt_hash r))"
proof -
  obtain results errs where j: "evaluate_judgments s r = Inr (results, errs)"
    using assms by (auto simp: evaluate_entailment_def res_simps)
  obtain d vs us where sr: "semantic_result d s (Some r) results vs us = Inr res"
    using evaluate_entailment_checked [OF assms(2) j, of ej] assms(1) by metis
  have "enr_cases res = results" by (rule semantic_result_cases [OF sr])
  then show "list_all2 (\<lambda>c x. validate_case_result (fst (case_outcome (jr_judgments r) c)) = Inr x)
      (ecs_cases s) (enr_cases res)"
    using j by (simp add: evaluate_judgments_Inr)
  show "enr_receipt_hash res = Some (model_strip (jr_receipt_hash r))"
    by (rule semantic_result_receipt [OF sr])
qed

lemma case_result_verdict:
  assumes "validate_case_result (fst (case_outcome js c)) = Inr x"
  shows "crs_verdict x = map_option jd_verdict (judgment_of js (eca_case_id c))"
    and "crs_case_id x = model_strip (eca_case_id c)"
  using assms
  by (auto simp: validate_case_result_def Let_def res_simps case_outcome_def split: option.splits)

lemma list_all2_right_member:
  "list_all2 P xs ys \<Longrightarrow> y \<in> set ys \<Longrightarrow> \<exists>x \<in> set xs. P x y"
  by (induction rule: list_all2_induct) auto

lemma list_all2_left_member:
  "list_all2 P xs ys \<Longrightarrow> x \<in> set xs \<Longrightarrow> \<exists>y \<in> set ys. P x y"
  by (induction rule: list_all2_induct) auto

subsection \<open>Built case sets\<close>

lemma built_cases:
  "build_case_set answer packet spec task = Inr s \<Longrightarrow>
     list_all2 (case_of answer packet) (ran_claims answer) (ecs_cases s)"
  by (drule build_case_set_spec) (elim conjE)

lemma built_case_ids:
  assumes "build_case_set answer packet spec task = Inr s"
  shows "distinct (map eca_case_id (ecs_cases s))"
    and "c \<in> set (ecs_cases s) \<Longrightarrow> model_strip (eca_case_id c) = eca_case_id c"
proof -
  obtain s0 where "validate_case_set s0 = Inr s"
    using assms by (auto simp: build_case_set_def Let_def res_simps)
  then show "distinct (map eca_case_id (ecs_cases s))"
    by (auto simp: validate_case_set_def Let_def res_simps case_set_validator_def)
  assume c: "c \<in> set (ecs_cases s)"
  obtain cl where "case_of answer packet cl c"
    using list_all2_right_member [OF built_cases [OF assms] c] by blast
  then have "eca_case_id c = canonical_content_id ''claim_evidence_case'' (case_payload c)"
    by (simp add: case_of_def)
  then show "model_strip (eca_case_id c) = eca_case_id c"
    by (simp add: model_space_def)
qed

text \<open>
  The review of a passed closure: the step's case, its claim in the answer and the judgment
  that supports it.
\<close>

lemma closed_step_reviewed:
  assumes built: "build_case_set answer packet spec task = Inr cs"
    and rev: "evaluate_entailment cs contract coverage (Some rc) ej = Inr r"
    and passed: "review_passes cs contract coverage rc ej"
    and step: "step_closes cs r s"
  shows "\<exists>cl \<in> set (ran_claims answer). \<exists>c \<in> set (ecs_cases cs). \<exists>j \<in> set (jr_judgments rc).
    case_of answer packet cl c \<and> eca_case_id c = its_case_id s \<and>
    eca_claim_id c = its_claim_id s \<and> eca_claim_text c = its_statement s \<and> admits c j \<and>
    operation_allowed (its_operation s) (its_qualifier s) (eca_claim_state c) (Some (jd_verdict j))"
proof -
  obtain c x where c: "dict_by eca_case_id (ecs_cases cs) (its_case_id s) = Some c"
    and x: "dict_by crs_case_id (enr_cases r) (its_case_id s) = Some x"
    and cs: "eca_claim_id c = its_claim_id s" "eca_claim_text c = its_statement s"
    and op: "operation_allowed (its_operation s) (its_qualifier s) (eca_claim_state c) (crs_verdict x)"
    using step unfolding step_closes_def by blast
  have cm: "c \<in> set (ecs_cases cs)" "eca_case_id c = its_case_id s" using c by (auto dest: dict_by_SomeD)
  have xm: "x \<in> set (enr_cases r)" "crs_case_id x = its_case_id s" using x by (auto dest: dict_by_SomeD)
  have pre: "prerequisite_error cs contract coverage = None"
    using passed by (simp add: review_passes_def prerequisite_error_None)
  obtain c' where c': "c' \<in> set (ecs_cases cs)"
    "validate_case_result (fst (case_outcome (jr_judgments rc) c')) = Inr x"
    using list_all2_right_member [OF evaluate_entailment_cases(1) [OF rev pre] xm(1)] by blast
  have "eca_case_id c' = its_case_id s"
    using case_result_verdict(2) [OF c'(2)] built_case_ids(2) [OF built c'(1)] xm(2) by simp
  then have same: "c' = c"
    using built_case_ids(1) [OF built] cm c'(1) unfolding distinct_map by (metis inj_onD)
  obtain j where j: "j \<in> set (jr_judgments rc)" "admits c j"
    using passed cm(1) unfolding review_passes_def by blast
  have "judgment_of (jr_judgments rc) (eca_case_id c) = Some j"
    using judgment_of_unique [of "jr_judgments rc" j] passed j
    by (auto simp: review_passes_def judgments_close_def admits_def)
  then have "crs_verdict x = Some (jd_verdict j)"
    using case_result_verdict(1) [OF c'(2)] same by simp
  moreover obtain cl where "cl \<in> set (ran_claims answer)" "case_of answer packet cl c"
    using list_all2_right_member [OF built_cases [OF built] cm(1)] by blast
  ultimately show ?thesis using cm cs op j by metis
qed

text \<open>
  C1. A passed closure rests on exact local evidence: when the answer gate, the coverage
  gate, the case builder, the review gate and the closure gate ran on one answer and one
  packet and the closure passed, every step of the trace states the exact text of a claim
  of that answer, supported in the receipt by a judgment the step's operation allows, and
  every evidence identifier of that claim is cited by the answer with a quotation that is
  verbatim in the bound lines of its local artifact, whose SHA-256 is the recorded one.
\<close>

theorem closed_trace_rests_on_exact_evidence:
  assumes "packet_references packet = Inr ()"
    and "evaluate_answer root answer task packet = Inr contract"
    and "build_case_set answer packet spec None = Inr cs"
    and "evaluate_entailment cs contract coverage receipt ej = Inr r"
    and "evaluate_closure t cs r = Inr res" and "clr_decision res = closure_decision.PASSED"
  shows "\<forall>s \<in> set (itr_steps t). \<exists>cl \<in> set (ran_claims answer). \<exists>rc j.
    its_claim_id s = model_strip (acl_claim_id cl) \<and> its_statement s = model_strip (acl_text cl) \<and>
    receipt = Some rc \<and> j \<in> set (jr_judgments rc) \<and> jd_claim_id j = its_claim_id s \<and>
    operation_allowed (its_operation s) (its_qualifier s) (acl_status cl) (Some (jd_verdict j)) \<and>
    (\<forall>eid \<in> set (acl_evidence_ids cl). \<exists>c \<in> set (ran_citations answer).
       act_evidence_id c = eid \<and> citation_exact root packet c)"
proof
  fix s assume s: "s \<in> set (itr_steps t)"
  have bound: "trace_bound t cs r"
    using evaluate_closure_unbound [OF assms(5)] assms(6) by fastforce
  have closed: "enr_decision r = entailment_decision.PASSED" "step_closes cs r s"
    using evaluate_closure_bound(1) [OF assms(5) bound] assms(6) s by auto
  obtain rc where rc: "receipt = Some rc" "review_passes cs contract coverage rc ej"
    using review_gate_iff [OF assms(4)] closed(1) by blast
  then have accepted: "acr_decision contract = ACCEPTED" by (simp add: review_passes_def)
  obtain cl c j where m: "cl \<in> set (ran_claims answer)" "c \<in> set (ecs_cases cs)" "j \<in> set (jr_judgments rc)"
    and co: "case_of answer packet cl c" and st: "eca_claim_id c = its_claim_id s" "eca_claim_text c = its_statement s"
    and ad: "admits c j"
    and op: "operation_allowed (its_operation s) (its_qualifier s) (eca_claim_state c) (Some (jd_verdict j))"
    using closed_step_reviewed [OF assms(3) assms(4) [unfolded rc(1)] rc(2) closed(2)] by blast
  have cited: "\<exists>ct \<in> set (ran_citations answer). act_evidence_id ct = eid \<and> citation_exact root packet ct"
    if eid: "eid \<in> set (acl_evidence_ids cl)" for eid
  proof -
    have "list_all2 (display_of answer packet) (acl_evidence_ids cl) (eca_citations c)"
      using co by (simp add: case_of_def)
    then obtain d where "display_of answer packet eid d"
      using list_all2_left_member eid by metis
    then obtain ct where "ct \<in> set (ran_citations answer)" "act_evidence_id ct = eid"
      unfolding display_of_def by blast
    then show ?thesis
      using evaluate_answer_decision [OF assms(2)] accepted
        citation_exact_iff [OF packet_references_closed [OF assms(1)]] by blast
  qed
  then have cited_all: "\<forall>eid \<in> set (acl_evidence_ids cl). \<exists>c \<in> set (ran_citations answer).
      act_evidence_id c = eid \<and> citation_exact root packet c" by blast
  have facts: "its_claim_id s = model_strip (acl_claim_id cl)" "its_statement s = model_strip (acl_text cl)"
    "eca_claim_state c = acl_status cl" "jd_claim_id j = its_claim_id s"
    using co st ad by (simp_all add: case_of_def admits_def)
  show "\<exists>cl \<in> set (ran_claims answer). \<exists>rc j.
    its_claim_id s = model_strip (acl_claim_id cl) \<and> its_statement s = model_strip (acl_text cl) \<and>
    receipt = Some rc \<and> j \<in> set (jr_judgments rc) \<and> jd_claim_id j = its_claim_id s \<and>
    operation_allowed (its_operation s) (its_qualifier s) (acl_status cl) (Some (jd_verdict j)) \<and>
    (\<forall>eid \<in> set (acl_evidence_ids cl). \<exists>c \<in> set (ran_citations answer).
       act_evidence_id c = eid \<and> citation_exact root packet c)"
    by (rule bexI [OF _ m(1)], rule exI [of _ rc], rule exI [of _ j], intro conjI)
      (fact facts(1) facts(2) rc(1) m(3) facts(4) op [unfolded facts(3)] cited_all)+
qed

end
