(* ===== verification/Chain_Sample.thy ===== *)
theory Chain_Sample
  imports Evidence_Chain
begin

text \<open>
  One run of the whole evidence chain, from an answer with one cited claim to a passed
  closure of a one-step trace.  The identities are the symbolic digests of the payloads.
\<close>

subsection \<open>Case set\<close>

lemma model_strip_idem [simp]: "model_strip (model_strip s) = model_strip s"
  by (rule model_strip_unpadded) simp

lemma strip_case_set_idem: "strip_case_set (strip_case_set s) = strip_case_set s"
  by (simp add: strip_case_set_def)

lemma validate_case_set_idem: "validate_case_set s0 = Inr s \<Longrightarrow> validate_case_set s = Inr s"
  by (auto simp: validate_case_set_def Let_def res_simps case_set_validator_def strip_case_set_idem
      split: if_splits)

lemma chain_case_set:
  obtains cs where "build_case_set sample_answer sample_packet sample_spec None = Inr cs"
    and "valid_case_set cs" and "ecs_cases cs = [sample_case]"
proof -
  obtain cs where cs: "build_case_set sample_answer sample_packet sample_spec None = Inr cs"
    using sample_build by blast
  have claims: "ran_claims sample_answer = [hd (ran_claims sample_answer)]"
    by (simp add: sample_answer_def)
  have built: "map_res (build_case sample_answer sample_packet) (ran_claims sample_answer) = Inr [sample_case]"
    by (subst claims) (simp add: sample_build_case)
  obtain s0 where s0: "validate_case_set s0 = Inr cs" "ecs_cases s0 = [sample_case]"
    using cs built by (auto simp: build_case_set_def Let_def res_simps)
  have "ecs_cases cs = [sample_case]"
    using s0 by (auto simp: validate_case_set_def strip_case_set_def Let_def res_simps case_set_validator_def
        split: if_splits)
  then show ?thesis
    using that [OF cs] validate_case_set_idem [OF s0(1)] sample_case_valid
    by (simp add: valid_case_set_def)
qed

subsection \<open>Receipt\<close>

definition chain_receipt0 :: "evidence_case_set \<Rightarrow> judgment_receipt" where
  "chain_receipt0 cs =
     sample_receipt\<lparr>jr_case_set_id := ecs_case_set_id cs, jr_case_set_hash := ecs_case_set_hash cs\<rparr>"

definition chain_receipt :: "evidence_case_set \<Rightarrow> judgment_receipt" where
  "chain_receipt cs =
     (chain_receipt0 cs)\<lparr>jr_receipt_id :=
        canonical_content_id ''claim_evidence_judgment_receipt'' (receipt_payload (chain_receipt0 cs)),
        jr_receipt_hash := canonical_sha256_hex (receipt_payload (chain_receipt0 cs))\<rparr>"

lemma chain_receipt_fields:
  "jr_receipt_id (chain_receipt cs) =
     canonical_content_id ''claim_evidence_judgment_receipt'' (receipt_payload (chain_receipt cs))"
  "jr_receipt_hash (chain_receipt cs) = canonical_sha256_hex (receipt_payload (chain_receipt cs))"
  "jr_schema_id (chain_receipt cs) = receipt_schema"
  "jr_case_set_id (chain_receipt cs) = ecs_case_set_id cs"
  "jr_case_set_hash (chain_receipt cs) = ecs_case_set_hash cs"
  "jr_judge_kind (chain_receipt cs) = judge_kind.MODEL" "jr_judge_profile_id (chain_receipt cs) = ''judge_a''"
  "jr_judge_profile_hash (chain_receipt cs) = zeros64" "jr_prompt_hash (chain_receipt cs) = zeros64"
  "jr_raw_response_hash (chain_receipt cs) = zeros64"
  "jr_judgments (chain_receipt cs) = [sample_judgment]"
  by (simp add: chain_receipt_def, simp add: chain_receipt_def,
      simp_all add: chain_receipt_def chain_receipt0_def sample_receipt_fields)

lemma valid_case_set_ids:
  assumes "valid_case_set cs"
  shows "model_strip (ecs_case_set_id cs) = ecs_case_set_id cs"
    and "model_strip (ecs_case_set_hash cs) = ecs_case_set_hash cs"
    and "matches_prefixed_hex ''claim_evidence_case_set_'' 32 (ecs_case_set_id cs)"
    and "matches_hex 64 (ecs_case_set_hash cs)"
proof -
  have v: "case_set_validator cs = Inr cs"
    using assms by (auto simp: valid_case_set_def validate_case_set_def Let_def res_simps case_set_validator_def
        split: if_splits)
  then have ids: "ecs_case_set_id cs = canonical_content_id ''claim_evidence_case_set'' (case_set_payload cs)"
    "ecs_case_set_hash cs = canonical_sha256_hex (case_set_payload cs)"
    by (auto simp: case_set_validator_def split: if_splits)
  show "model_strip (ecs_case_set_id cs) = ecs_case_set_id cs"
    "model_strip (ecs_case_set_hash cs) = ecs_case_set_hash cs"
    "matches_prefixed_hex ''claim_evidence_case_set_'' 32 (ecs_case_set_id cs)"
    "matches_hex 64 (ecs_case_set_hash cs)"
    unfolding ids by (simp_all add: model_space_def canonical_content_id_matches canonical_sha256_hex_format)
qed

lemma valid_chain_receipt:
  assumes "valid_case_set cs"
  shows "valid_receipt (chain_receipt cs)"
proof -
  note ids = valid_case_set_ids [OF assms]
  have strip: "strip_receipt (chain_receipt cs) = chain_receipt cs"
    unfolding strip_receipt_def chain_receipt_fields sample_literals strip_zeros64 ids(1,2)
    by (simp add: model_space_def chain_receipt_fields)
  show ?thesis
    unfolding valid_receipt_def validate_receipt_def Let_def strip
    by (simp add: res_simps chain_receipt_fields sample_judgment_valid sample_patterns hex_zeros64 ids
        receipt_validator_def canonical_content_id_matches canonical_sha256_hex_format)
qed

subsection \<open>Review\<close>

lemma coverage_ids:
  assumes "evaluate_coverage answer spec packet = Inr res"
  shows "acv_answer_id res = answer_id answer" "acv_answer_hash res = answer_hash answer"
    "acv_spec_id res = coverage_spec_id spec" "acv_spec_hash res = coverage_spec_hash spec"
  using assms
  by (auto simp: evaluate_coverage_def Let_def res_simps validate_coverage_result_def coverage_of_def
      answer_id_def answer_hash_def coverage_spec_id_def coverage_spec_hash_def model_space_def)

lemma built_ids:
  assumes "build_case_set answer packet spec task = Inr s"
  shows "ecs_answer_id s = answer_id answer" "ecs_answer_hash s = answer_hash answer"
    "ecs_coverage_spec_id s = coverage_spec_id spec" "ecs_coverage_spec_hash s = coverage_spec_hash spec"
proof -
  obtain s0 where "validate_case_set s0 = Inr s" "ecs_answer_id s0 = answer_id answer"
    "ecs_answer_hash s0 = answer_hash answer" "ecs_coverage_spec_id s0 = coverage_spec_id spec"
    "ecs_coverage_spec_hash s0 = coverage_spec_hash spec"
    using assms by (auto simp: build_case_set_def Let_def res_simps)
  then show "ecs_answer_id s = answer_id answer" "ecs_answer_hash s = answer_hash answer"
    "ecs_coverage_spec_id s = coverage_spec_id spec" "ecs_coverage_spec_hash s = coverage_spec_hash spec"
    by (auto simp: validate_case_set_def strip_case_set_def Let_def res_simps case_set_validator_def
        answer_id_def answer_hash_def coverage_spec_id_def coverage_spec_hash_def model_space_def
        split: if_splits)
qed

lemma chain_review_passes:
  assumes b: "build_case_set sample_answer sample_packet sample_spec None = Inr cs"
    and cases: "ecs_cases cs = [sample_case]"
    and a: "evaluate_answer sample_root sample_answer ''task_a'' sample_packet = Inr contract"
      "acr_decision contract = ACCEPTED"
    and c: "evaluate_coverage sample_answer sample_spec sample_packet = Inr coverage"
      "acv_decision coverage = COMPLETE"
  shows "review_passes cs contract coverage (chain_receipt cs) no_expectation"
  using built_ids [OF b] evaluate_answer_result [OF a] coverage_ids [OF c(1)] a(2) c(2) cases
  by (simp add: review_passes_def receipt_intact_def judgments_close_def admits_def supports_claim_def
      chain_receipt_fields sample_case_fields sample_judgment_def no_expectation_def)

subsection \<open>Trace and closure\<close>

definition chain_step0 :: trace_step where
  "chain_step0 =
     \<lparr>its_step_id = [], its_claim_id = ''claim_a'', its_case_id = eca_case_id sample_case,
      its_statement = ''Built in 1911'', its_operation = EXTRACT, its_premise_step_ids = [],
      its_warrant = None, its_qualifier = DIRECT, its_counterevidence_ids = []\<rparr>"

definition chain_step :: trace_step where
  "chain_step = chain_step0\<lparr>its_step_id := step_id_of chain_step0\<rparr>"

definition chain_trace0 :: "evidence_case_set \<Rightarrow> judgment_receipt \<Rightarrow> idea_trace" where
  "chain_trace0 cs rc =
     \<lparr>itr_schema_id = trace_schema, itr_trace_id = [], itr_trace_hash = [],
      itr_task_id = ecs_task_id cs, itr_answer_id = ecs_answer_id cs,
      itr_answer_hash = ecs_answer_hash cs, itr_packet_id = ecs_packet_id cs,
      itr_packet_hash = ecs_packet_hash cs, itr_case_set_id = ecs_case_set_id cs,
      itr_case_set_hash = ecs_case_set_hash cs, itr_receipt_id = jr_receipt_id rc,
      itr_receipt_hash = jr_receipt_hash rc, itr_question = ''When?'',
      itr_author_kind = author_kind.HUMAN, itr_author_profile_id = ''author_a'',
      itr_author_profile_hash = zeros64, itr_instruction_hash = zeros64,
      itr_raw_response_hash = zeros64, itr_steps = [chain_step],
      itr_final_step_id = its_step_id chain_step, itr_gaps = []\<rparr>"

definition chain_trace :: "evidence_case_set \<Rightarrow> judgment_receipt \<Rightarrow> idea_trace" where
  "chain_trace cs rc =
     (chain_trace0 cs rc)\<lparr>itr_trace_id := canonical_content_id ''idea_trace'' (trace_payload (chain_trace0 cs rc)),
        itr_trace_hash := canonical_sha256_hex (trace_payload (chain_trace0 cs rc))\<rparr>"

lemma chain_step_fields:
  "its_step_id chain_step = step_id_of chain_step" "its_claim_id chain_step = ''claim_a''"
  "its_case_id chain_step = eca_case_id sample_case" "its_statement chain_step = ''Built in 1911''"
  "its_operation chain_step = EXTRACT" "its_qualifier chain_step = DIRECT"
  "its_counterevidence_ids chain_step = []" "its_premise_step_ids chain_step = []"
  by (simp_all add: chain_step_def chain_step0_def step_id_of_def step_payload_def step_fields_def)

lemma chain_trace_bound:
  assumes "enr_case_set_id r = Some (ecs_case_set_id cs)" "enr_case_set_hash r = Some (ecs_case_set_hash cs)"
    and "enr_receipt_id r = Some (jr_receipt_id rc)" "enr_receipt_hash r = Some (jr_receipt_hash rc)"
  shows "trace_bound (chain_trace cs rc) cs r"
proof -
  have payload: "trace_payload (chain_trace cs rc) = trace_payload (chain_trace0 cs rc)"
    by (simp add: chain_trace_def trace_payload_def)
  show ?thesis
    unfolding trace_bound_def payload
    using assms by (simp add: chain_trace_def chain_trace0_def chain_step_fields(1))
qed

lemma semantic_result_ids:
  assumes "semantic_result d cs (Some rc) results vs us = Inr r" and "valid_case_set cs" "rc = chain_receipt cs"
  shows "enr_case_set_id r = Some (ecs_case_set_id cs)" "enr_case_set_hash r = Some (ecs_case_set_hash cs)"
    "enr_receipt_id r = Some (jr_receipt_id rc)" "enr_receipt_hash r = Some (jr_receipt_hash rc)"
  using assms(1) valid_case_set_ids [OF assms(2)]
  by (auto simp: assms(3) chain_receipt_fields(1,2) semantic_result_def validate_entailment_result_def
      Let_def res_simps result_validator_def model_space_def)

lemma chain_step_closes:
  assumes cases: "ecs_cases cs = [sample_case]"
    and r: "list_all2 (\<lambda>c x. validate_case_result (fst (case_outcome [sample_judgment] c)) = Inr x)
      (ecs_cases cs) (enr_cases r)"
  shows "step_closes cs r chain_step"
proof -
  obtain x where x: "enr_cases r = [x]"
    "validate_case_result (fst (case_outcome [sample_judgment] sample_case)) = Inr x"
    using r unfolding cases by (auto simp: list_all2_Cons1)
  have id: "model_strip (eca_case_id sample_case) = eca_case_id sample_case"
    by (simp add: sample_case_id model_space_def)
  have "crs_case_id x = eca_case_id sample_case" "crs_claim_id x = ''claim_a''"
    "crs_decision x = entailment_decision.PASSED" "crs_verdict x = Some DIRECTLY_SUPPORTED"
    using x(2) by (auto simp: validate_case_result_def Let_def res_simps case_outcome_def
        judgment_of_def sample_judgment_def sample_case_fields id sample_literals claim_decision_def)
  then show ?thesis
    by (simp add: step_closes_def cases x(1) dict_by_def chain_step_fields sample_case_fields
        operation_allowed_def)
qed

lemma create_closure_returns:
  assumes "steps \<noteq> []" "length steps \<le> 32" "list_all rsc_closed steps" "valid_case_set cs"
  shows "\<exists>res. create_closure (chain_trace cs (chain_receipt cs)) closure_decision.PASSED steps [] [] = Inr res"
proof -
  note ids = valid_case_set_ids [OF assms(4)]
  have schema: "model_strip closure_schema = closure_schema"
    by (simp add: closure_schema_def model_strip_literal)
  have "1 \<le> length steps" using assms(1) by (cases steps) simp_all
  then show ?thesis using assms(2,3)
    by (simp add: create_closure_def validate_closure_def strip_closure_def Let_def res_simps schema
        chain_trace_def chain_trace0_def ids chain_receipt_fields(1,2) model_space_def
        canonical_content_id_matches canonical_sha256_hex_format closure_validator_def closure_payload_def)
qed

lemma chain_closure:
  assumes "valid_case_set cs" and "ecs_cases cs = [sample_case]"
    and "trace_bound (chain_trace cs (chain_receipt cs)) cs r"
    and "enr_decision r = entailment_decision.PASSED" and "step_closes cs r chain_step"
  shows "\<exists>res. evaluate_closure (chain_trace cs (chain_receipt cs)) cs r = Inr res"
proof -
  let ?t = "chain_trace cs (chain_receipt cs)"
  have steps: "itr_steps ?t = [chain_step]" by (simp add: chain_trace_def chain_trace0_def)
  have id: "model_strip (eca_case_id sample_case) = eca_case_id sample_case"
    "matches_prefixed_hex ''claim_evidence_case_'' 32 (eca_case_id sample_case)"
    "matches_prefixed_hex ''idea_trace_step_'' 32 (model_strip (step_id_of chain_step))"
    by (simp_all add: sample_case_id model_space_def canonical_content_id_matches step_id_of_def)
  have reason: "1 \<le> length (model_strip ''exact claim and semantic receipt close this public step'')"
    "length (model_strip ''exact claim and semantic receipt close this public step'') \<le> 4000"
    by (simp_all add: model_strip_literal)
  let ?o = "step_outcome cs r chain_step"
  have none: "fst (snd ?o) = []" "snd (snd ?o) = []"
    using assms(5) by (simp_all add: step_outcome_closes [symmetric])
  then have "local_violations chain_step (dict_by eca_case_id (ecs_cases cs) (its_case_id chain_step))
        (dict_by crs_case_id (enr_cases r) (its_case_id chain_step)) = []"
      "local_review (concat (map (\<lambda>ec. map ecn_evidence_id (eca_citations ec)) (ecs_cases cs))) chain_step
        (dict_by eca_case_id (ecs_cases cs) (its_case_id chain_step))
        (dict_by crs_case_id (enr_cases r) (its_case_id chain_step)) = []"
    by (simp_all only: step_outcome_parts)
  then obtain x where x: "fst ?o = Inr x"
    using id reason
    by (simp add: step_outcome_def Let_def validate_step_closure_def res_simps chain_step_fields
        sample_literals sample_patterns)
  then have closed: "rsc_closed x" using step_outcome_closed assms(5) by blast
  have "create_closure ?t closure_decision.PASSED [x] [] [] = evaluate_closure ?t cs r"
    unfolding evaluate_closure_def Let_def steps
    using assms(3,4) none x by (simp add: binding_findings_Nil [symmetric] error_if_def)
  then show ?thesis
    using create_closure_returns [of "[x]" cs] closed assms(1) by simp
qed

lemma valid_case_set_strip:
  assumes "valid_case_set cs"
  shows "strip_case_set cs = cs"
  using assms by (auto simp: valid_case_set_def validate_case_set_def Let_def res_simps case_set_validator_def
      split: if_splits)

lemma valid_case_set_parts:
  assumes "valid_case_set cs"
  shows "model_strip (ecs_task_id cs) = ecs_task_id cs" "model_strip (ecs_answer_id cs) = ecs_answer_id cs"
    "model_strip (ecs_answer_hash cs) = ecs_answer_hash cs" "model_strip (ecs_packet_id cs) = ecs_packet_id cs"
    "model_strip (ecs_packet_hash cs) = ecs_packet_hash cs"
    "task_id_pattern (ecs_task_id cs)"
    "matches_prefixed_hex ''research_answer_'' 32 (ecs_answer_id cs)" "matches_hex 64 (ecs_answer_hash cs)"
    "matches_prefixed_hex ''memory_packet_'' 32 (ecs_packet_id cs)" "matches_hex 64 (ecs_packet_hash cs)"
proof -
  note st = valid_case_set_strip [OF assms]
  show strips: "model_strip (ecs_task_id cs) = ecs_task_id cs" "model_strip (ecs_answer_id cs) = ecs_answer_id cs"
    "model_strip (ecs_answer_hash cs) = ecs_answer_hash cs" "model_strip (ecs_packet_id cs) = ecs_packet_id cs"
    "model_strip (ecs_packet_hash cs) = ecs_packet_hash cs"
    using arg_cong [OF st, of ecs_task_id] arg_cong [OF st, of ecs_answer_id]
      arg_cong [OF st, of ecs_answer_hash] arg_cong [OF st, of ecs_packet_id]
      arg_cong [OF st, of ecs_packet_hash] by (simp_all add: strip_case_set_def)
  show "task_id_pattern (ecs_task_id cs)"
    "matches_prefixed_hex ''research_answer_'' 32 (ecs_answer_id cs)" "matches_hex 64 (ecs_answer_hash cs)"
    "matches_prefixed_hex ''memory_packet_'' 32 (ecs_packet_id cs)" "matches_hex 64 (ecs_packet_hash cs)"
    using assms by (simp_all add: valid_case_set_def validate_case_set_def Let_def res_simps st)
qed

lemma chain_step_valid: "validate_step chain_step = Inr chain_step"
proof -
  have id: "model_strip (eca_case_id sample_case) = eca_case_id sample_case"
    "matches_prefixed_hex ''claim_evidence_case_'' 32 (eca_case_id sample_case)"
    by (simp_all add: sample_case_id model_space_def canonical_content_id_matches)
  have warrant: "its_warrant chain_step = None" by (simp add: chain_step_def chain_step0_def)
  have sid: "model_strip (step_id_of chain_step) = step_id_of chain_step"
    "matches_prefixed_hex ''idea_trace_step_'' 32 (step_id_of chain_step)"
    by (simp_all add: step_id_of_def model_space_def canonical_content_id_matches)
  have strip: "strip_step chain_step = chain_step"
    unfolding strip_step_def chain_step_fields sid(1) sample_literals id(1) warrant
    by (simp add: chain_step_fields warrant)
  show ?thesis
    unfolding validate_step_def Let_def strip
    by (simp add: res_simps chain_step_fields sid id sample_patterns step_validator_def
        derivation_check_def warrant)
qed

lemma chain_trace_valid:
  assumes "valid_case_set cs"
  shows "validate_trace (chain_trace cs (chain_receipt cs)) = Inr (chain_trace cs (chain_receipt cs))"
proof -
  let ?t = "chain_trace cs (chain_receipt cs)"
  note ids = valid_case_set_ids [OF assms] valid_case_set_parts [OF assms]
  have payload: "trace_payload ?t = trace_payload (chain_trace0 cs (chain_receipt cs))"
    by (simp add: chain_trace_def trace_payload_def)
  have tid: "itr_trace_id ?t = canonical_content_id ''idea_trace'' (trace_payload ?t)"
    "itr_trace_hash ?t = canonical_sha256_hex (trace_payload ?t)"
    unfolding payload by (simp_all add: chain_trace_def)
  have rid: "model_strip (jr_receipt_id (chain_receipt cs)) = jr_receipt_id (chain_receipt cs)"
    "model_strip (jr_receipt_hash (chain_receipt cs)) = jr_receipt_hash (chain_receipt cs)"
    "matches_prefixed_hex ''claim_evidence_judgment_receipt_'' 32 (jr_receipt_id (chain_receipt cs))"
    "matches_hex 64 (jr_receipt_hash (chain_receipt cs))"
    by (simp_all add: chain_receipt_fields(1,2) model_space_def canonical_content_id_matches
        canonical_sha256_hex_format)
  have sid: "model_strip (step_id_of chain_step) = step_id_of chain_step"
    "matches_prefixed_hex ''idea_trace_step_'' 32 (step_id_of chain_step)"
    by (simp_all add: step_id_of_def model_space_def canonical_content_id_matches)
  have lits: "model_strip trace_schema = trace_schema" "model_strip ''When?'' = ''When?''"
    "model_strip ''author_a'' = ''author_a''" "model_id_pattern ''author_a''"
    by (simp_all add: trace_schema_def model_strip_literal model_id_pattern_def matches_head_rest_def
        lower_az_def digits09_def)
  have f: "itr_schema_id ?t = trace_schema" "itr_task_id ?t = ecs_task_id cs" "itr_answer_id ?t = ecs_answer_id cs"
    "itr_answer_hash ?t = ecs_answer_hash cs" "itr_packet_id ?t = ecs_packet_id cs"
    "itr_packet_hash ?t = ecs_packet_hash cs" "itr_case_set_id ?t = ecs_case_set_id cs"
    "itr_case_set_hash ?t = ecs_case_set_hash cs" "itr_receipt_id ?t = jr_receipt_id (chain_receipt cs)"
    "itr_receipt_hash ?t = jr_receipt_hash (chain_receipt cs)" "itr_question ?t = ''When?''"
    "itr_author_profile_id ?t = ''author_a''" "itr_author_profile_hash ?t = zeros64"
    "itr_instruction_hash ?t = zeros64" "itr_raw_response_hash ?t = zeros64"
    "itr_steps ?t = [chain_step]" "itr_final_step_id ?t = step_id_of chain_step" "itr_gaps ?t = []"
    by (simp_all add: chain_trace_def chain_trace0_def chain_step_fields(1))
  have strip: "strip_trace ?t = ?t"
    by (rule idea_trace.equality)
      (simp_all add: strip_trace_def f ids rid sid lits strip_zeros64 tid model_space_def)
  have anc: "ancestor_ids [chain_step] (step_id_of chain_step) = Inr []"
    by (simp add: ancestor_ids_def dict_by_def chain_step_fields ancestor_loop.simps)
  have "trace_validator ?t = Inr ?t"
    by (simp add: trace_validator_def Let_def f tid chain_step_fields anc missing_ids_def sorted_set_def)
  then show ?thesis
    unfolding validate_trace_def Let_def strip
    by (simp add: res_simps f ids rid sid lits hex_zeros64 tid canonical_content_id_matches
        canonical_sha256_hex_format)
qed

subsection \<open>Witnesses\<close>

definition walk_step :: "string \<Rightarrow> string list \<Rightarrow> trace_step" where
  "walk_step i ps = chain_step\<lparr>its_step_id := i, its_premise_step_ids := ps\<rparr>"

definition walk_steps :: "trace_step list" where
  "walk_steps = [walk_step ''a'' [], walk_step ''b'' [''a''], walk_step ''c'' [''a'', ''b''], walk_step ''d'' [''c'']]"

theorem ancestor_search_exact_witness:
  "ancestor_ids walk_steps ''c'' = Inr [''a'', ''b''] \<and>
   {p. (p, ''c'') \<in> (premise_of walk_steps)\<^sup>+} = {''a'', ''b''}"
proof -
  have run: "ancestor_ids walk_steps ''c'' = Inr [''a'', ''b'']"
    by (simp add: ancestor_ids_def walk_steps_def walk_step_def dict_by_def ancestor_loop.simps)
  have "\<exists>as. ancestor_ids walk_steps ''c'' = Inr as \<and> set as = {p. (p, ''c'') \<in> (premise_of walk_steps)\<^sup>+}"
    by (rule ancestor_search_exact) (simp_all add: walk_steps_def walk_step_def)
  with run show ?thesis by auto
qed

theorem trace_is_grounded_derivation_witness:
  "\<exists>t. validate_trace t = Inr t \<and> acyclic (premise_of (itr_steps t)) \<and> itr_steps t = [chain_step]"
proof -
  obtain cs where "valid_case_set cs" by (rule chain_case_set)
  then have v: "validate_trace (chain_trace cs (chain_receipt cs)) = Inr (chain_trace cs (chain_receipt cs))"
    by (rule chain_trace_valid)
  have steps: "itr_steps (chain_trace cs (chain_receipt cs)) = [chain_step]"
    by (simp add: chain_trace_def chain_trace0_def)
  show ?thesis
    using trace_is_grounded_derivation [OF v] v by (auto simp: steps chain_step_valid)
qed

lemma chain_run:
  obtains contract coverage cs r res where
    "evaluate_answer sample_root sample_answer ''task_a'' sample_packet = Inr contract"
    "evaluate_coverage sample_answer sample_spec sample_packet = Inr coverage"
    "build_case_set sample_answer sample_packet sample_spec None = Inr cs"
    "evaluate_entailment cs contract coverage (Some (chain_receipt cs)) no_expectation = Inr r"
    "evaluate_closure (chain_trace cs (chain_receipt cs)) cs r = Inr res"
    "clr_decision res = closure_decision.PASSED"
proof -
  obtain cs where cs: "build_case_set sample_answer sample_packet sample_spec None = Inr cs"
    "valid_case_set cs" "ecs_cases cs = [sample_case]" by (rule chain_case_set)
  obtain contract where a: "evaluate_answer sample_root sample_answer ''task_a'' sample_packet = Inr contract"
    "acr_decision contract = ACCEPTED" using sample_answer_accepted by blast
  obtain coverage where c: "evaluate_coverage sample_answer sample_spec sample_packet = Inr coverage"
    "acv_decision coverage = COMPLETE" using sample_coverage_complete by blast
  let ?rc = "chain_receipt cs"
  have passes: "review_passes cs contract coverage ?rc no_expectation"
    by (rule chain_review_passes [OF cs(1,3) a c])
  obtain r where r: "evaluate_entailment cs contract coverage (Some ?rc) no_expectation = Inr r"
    using evaluate_entailment_total [OF cs(2)] valid_chain_receipt [OF cs(2)] by blast
  have dec: "enr_decision r = entailment_decision.PASSED" using review_gate_iff [OF r] passes by blast
  have pre: "prerequisite_error cs contract coverage = None"
    using passes by (simp add: review_passes_def prerequisite_error_None)
  obtain results errs where j: "evaluate_judgments cs ?rc = Inr (results, errs)"
    using evaluate_judgments_total [OF cs(2) valid_chain_receipt [OF cs(2)]] by blast
  obtain d vs us where sr: "semantic_result d cs (Some ?rc) results vs us = Inr r"
    using evaluate_entailment_checked [OF pre j, of no_expectation] r by metis
  have bound: "trace_bound (chain_trace cs ?rc) cs r"
    by (rule chain_trace_bound) (rule semantic_result_ids [OF sr cs(2) refl])+
  have closes: "step_closes cs r chain_step"
    using chain_step_closes [OF cs(3)] evaluate_entailment_cases(1) [OF r pre]
    by (simp add: chain_receipt_fields(11))
  obtain res where res: "evaluate_closure (chain_trace cs ?rc) cs r = Inr res"
    using chain_closure [OF cs(2,3) bound dec closes] by blast
  have "clr_decision res = closure_decision.PASSED"
    using evaluate_closure_bound(1) [OF res bound] dec closes
    by (simp add: chain_trace_def chain_trace0_def)
  with that a(1) c(1) cs(1) r res show ?thesis by blast
qed

theorem closure_gate_exact_witness:
  "\<exists>cs r res. evaluate_closure (chain_trace cs (chain_receipt cs)) cs r = Inr res \<and>
     clr_review_eligible res \<and> step_closes cs r chain_step"
proof -
  obtain contract coverage cs r res where
    res: "evaluate_closure (chain_trace cs (chain_receipt cs)) cs r = Inr res"
      "clr_decision res = closure_decision.PASSED" by (rule chain_run)
  have "itr_steps (chain_trace cs (chain_receipt cs)) = [chain_step]"
    by (simp add: chain_trace_def chain_trace0_def)
  then show ?thesis using closure_gate_exact [OF res(1)] res by auto
qed

theorem closed_trace_rests_on_exact_evidence_witness:
  "citation_exact sample_root sample_packet (hd (ran_citations sample_answer))"
proof -
  obtain contract coverage cs r res where
      a: "evaluate_answer sample_root sample_answer ''task_a'' sample_packet = Inr contract"
    and b: "build_case_set sample_answer sample_packet sample_spec None = Inr cs"
    and r: "evaluate_entailment cs contract coverage (Some (chain_receipt cs)) no_expectation = Inr r"
    and res: "evaluate_closure (chain_trace cs (chain_receipt cs)) cs r = Inr res"
      "clr_decision res = closure_decision.PASSED" by (rule chain_run)
  have steps: "itr_steps (chain_trace cs (chain_receipt cs)) = [chain_step]"
    by (simp add: chain_trace_def chain_trace0_def)
  have one: "set (ran_claims sample_answer) = {hd (ran_claims sample_answer)}"
    "acl_evidence_ids (hd (ran_claims sample_answer)) = [''evidence_a'']"
    "set (ran_citations sample_answer) = {hd (ran_citations sample_answer)}"
    by (simp_all add: sample_answer_def)
  show ?thesis
    using closed_trace_rests_on_exact_evidence [OF sample_references a b r res]
    unfolding steps one by (auto simp: one)
qed

end
