(* ===== verification/Semantic_Route.thy ===== *)
theory Semantic_Route
  imports Memory_Packet
begin

text \<open>
  Route-candidate receipts (\<open>src/dithyramba/atlas/semantic_route.py\<close>): the semantic and
  lexical question candidates, the content-addressed receipt with its validator, the check
  against a manifest, and the builder.

  A finite binary64 score is its canonical \<open>float.hex\<close> text, compared through the integer
  \<open>float_hex_value\<close> gives it; a text that is not canonical stands for a float that is not
  finite, which the builder refuses.  Scores come as a list of pairs, the items of the
  mapping or the elements of the iterable.
\<close>

datatype route_decision = ROUTED | ABSTAINED

definition route_decision_value :: "route_decision \<Rightarrow> string" where
  "route_decision_value d = (case d of ROUTED \<Rightarrow> ''routed'' | ABSTAINED \<Rightarrow> ''abstained'')"

subsection \<open>Candidates\<close>

record semantic_candidate =
  sqc_channel :: route_candidate_channel
  sqc_question_id :: string
  sqc_score_hex :: string
  sqc_rank :: int

definition semantic_validator :: "semantic_candidate \<Rightarrow> semantic_candidate res" where
  "semantic_validator c =
     (if sqc_channel c \<noteq> SEMANTIC
      then Inl (ValueError ''semantic candidates must declare semantic channel lineage'')
      else res_bind (require_float_hex (sqc_score_hex c) ''semantic score'') (\<lambda>_. Inr c))"

definition validate_semantic_candidate :: "semantic_candidate \<Rightarrow> semantic_candidate res" where
  "validate_semantic_candidate c =
     validated
       [pattern_field ''question_id'' (model_id_pattern (sqc_question_id c)),
        text_field ''score_hex'' 1 32 (sqc_score_hex c),
        int_field ''rank'' 1 1000 (sqc_rank c)]
       (semantic_validator c)"

definition score_of :: "string \<Rightarrow> int" where
  "score_of h = (case float_hex_value h of None \<Rightarrow> 0 | Some v \<Rightarrow> v)"

definition semantic_dump :: "semantic_candidate \<Rightarrow> json" where
  "semantic_dump c =
     JObj
       [(''channel'', JStr (channel_value (sqc_channel c))),
        (''question_id'', JStr (sqc_question_id c)), (''score_hex'', JStr (sqc_score_hex c)),
        (''rank'', JInt (sqc_rank c))]"

record lexical_candidate =
  lqc_channel :: route_candidate_channel
  lqc_question_id :: string
  lqc_score :: int
  lqc_rank :: int

definition lexical_validator :: "lexical_candidate \<Rightarrow> lexical_candidate res" where
  "lexical_validator c =
     (if lqc_channel c \<noteq> LEXICAL
      then Inl (ValueError ''lexical candidates must declare lexical channel lineage'')
      else Inr c)"

definition validate_lexical_candidate :: "lexical_candidate \<Rightarrow> lexical_candidate res" where
  "validate_lexical_candidate c =
     validated
       [pattern_field ''question_id'' (model_id_pattern (lqc_question_id c)),
        int_field ''score'' 1 1000000 (lqc_score c),
        int_field ''rank'' 1 1000 (lqc_rank c)]
       (lexical_validator c)"

definition lexical_dump :: "lexical_candidate \<Rightarrow> json" where
  "lexical_dump c =
     JObj
       [(''channel'', JStr (channel_value (lqc_channel c))),
        (''question_id'', JStr (lqc_question_id c)), (''score'', JInt (lqc_score c)),
        (''rank'', JInt (lqc_rank c))]"

text \<open>The elements of \<open>ordered_candidates\<close>.\<close>

datatype question_candidate = Semantic semantic_candidate | Lexical lexical_candidate

definition candidate_question_id :: "question_candidate \<Rightarrow> string" where
  "candidate_question_id c =
     (case c of Semantic s \<Rightarrow> sqc_question_id s | Lexical l \<Rightarrow> lqc_question_id l)"

subsection \<open>Order of the candidates\<close>

definition semantic_key :: "semantic_candidate \<Rightarrow> int \<times> string" where
  "semantic_key c = (- score_of (sqc_score_hex c), sqc_question_id c)"

definition lexical_key :: "lexical_candidate \<Rightarrow> int \<times> string" where
  "lexical_key c = (- lqc_score c, lqc_question_id c)"

text \<open>\<open>range(1, n + 1)\<close>.\<close>

definition ranks_to :: "nat \<Rightarrow> int list" where
  "ranks_to n = map int [1..<Suc n]"

definition validate_semantic_order :: "semantic_candidate list \<Rightarrow> int \<Rightarrow> unit res" where
  "validate_semantic_order cs threshold =
     (if cs \<noteq> sort_key semantic_key cs
      then Inl (ValueError ''semantic candidates must be ordered by score then question_id'')
      else if map sqc_rank cs \<noteq> ranks_to (length cs)
      then Inl (ValueError ''semantic candidate ranks must be contiguous from one'')
      else if list_ex (\<lambda>c. score_of (sqc_score_hex c) < threshold) cs
      then Inl (ValueError ''semantic candidate score is below the receipt threshold'')
      else Inr ())"

definition validate_lexical_order :: "lexical_candidate list \<Rightarrow> unit res" where
  "validate_lexical_order cs =
     (if cs \<noteq> sort_key lexical_key cs
      then Inl (ValueError ''lexical candidates must be ordered by score then question_id'')
      else if map lqc_rank cs \<noteq> ranks_to (length cs)
      then Inl (ValueError ''lexical candidate ranks must be contiguous from one'')
      else Inr ())"

subsection \<open>Receipt\<close>

record route_receipt =
  rcr_schema_id :: string
  rcr_receipt_id :: string
  rcr_receipt_hash :: string
  rcr_query :: string
  rcr_query_hash :: string
  rcr_atlas_id :: string
  rcr_case_id :: string
  rcr_manifest_hash :: string
  rcr_model_profile_hash :: string
  rcr_runtime_profile_hash :: string
  rcr_index_hash :: string
  rcr_threshold_hex :: string
  rcr_semantic :: "semantic_candidate list"
  rcr_lexical :: "lexical_candidate list"
  rcr_decision :: route_decision

definition route_receipt_schema :: string where
  "route_receipt_schema = ''dithyramba.route_candidate_receipt/1.0''"

definition route_receipt_payload :: "route_receipt \<Rightarrow> json" where
  "route_receipt_payload r =
     JObj
       [(''schema_id'', JStr (rcr_schema_id r)), (''query'', JStr (rcr_query r)),
        (''query_hash'', JStr (rcr_query_hash r)), (''atlas_id'', JStr (rcr_atlas_id r)),
        (''case_id'', JStr (rcr_case_id r)), (''manifest_hash'', JStr (rcr_manifest_hash r)),
        (''model_profile_hash'', JStr (rcr_model_profile_hash r)),
        (''runtime_profile_hash'', JStr (rcr_runtime_profile_hash r)),
        (''index_hash'', JStr (rcr_index_hash r)),
        (''semantic_threshold_hex'', JStr (rcr_threshold_hex r)),
        (''semantic_candidates'', JList (map semantic_dump (rcr_semantic r))),
        (''lexical_candidates'', JList (map lexical_dump (rcr_lexical r))),
        (''decision'', JStr (route_decision_value (rcr_decision r)))]"

definition ordered_candidates :: "route_receipt \<Rightarrow> question_candidate list" where
  "ordered_candidates r = map Semantic (rcr_semantic r) @ map Lexical (rcr_lexical r)"

definition route_receipt_validator :: "route_receipt \<Rightarrow> route_receipt res" where
  "route_receipt_validator r =
     (if rcr_schema_id r \<noteq> route_receipt_schema
      then Inl (ValueError (''schema_id must be '' @ route_receipt_schema))
      else
        res_bind (require_float_hex (rcr_threshold_hex r) ''semantic threshold'') (\<lambda>threshold.
        res_bind (validate_semantic_order (rcr_semantic r) threshold) (\<lambda>_.
        res_bind (validate_lexical_order (rcr_lexical r)) (\<lambda>_.
          let candidate_ids = map candidate_question_id (ordered_candidates r);
              payload = route_receipt_payload r
          in if has_duplicates candidate_ids
             then Inl (ValueError ''question candidates must be unique across route channels'')
             else if rcr_decision r = ROUTED \<and> candidate_ids = []
             then Inl (ValueError ''routed receipts require at least one question candidate'')
             else if rcr_query_hash r \<noteq> sha256_hex (utf8 (rcr_query r))
             then Inl (ValueError ''query_hash does not match the normalized query'')
             else if rcr_receipt_id r \<noteq> canonical_content_id ''route_candidate_receipt'' payload
             then Inl (ValueError ''receipt_id does not match the canonical receipt content'')
             else if rcr_receipt_hash r \<noteq> canonical_sha256_hex payload
             then Inl (ValueError ''receipt_hash does not match the canonical receipt content'')
             else Inr r))))"

definition normalized_query :: "string \<Rightarrow> unit res" where
  "normalized_query q =
     guard_res (q = strip (nfc q)) (ValueError ''receipt query must be stripped and NFC-normalized'')"

text \<open>The model: its candidates are models of their own and are validated first.\<close>

definition validate_route_receipt_model :: "route_receipt \<Rightarrow> route_receipt res" where
  "validate_route_receipt_model r =
     res_bind (map_res validate_semantic_candidate (rcr_semantic r)) (\<lambda>_.
     res_bind (map_res validate_lexical_candidate (rcr_lexical r)) (\<lambda>_.
     validated
       [pattern_field ''receipt_id''
          (matches_prefixed_hex ''route_candidate_receipt_'' 32 (rcr_receipt_id r)),
        pattern_field ''receipt_hash'' (matches_hex 64 (rcr_receipt_hash r)),
        text_field ''query'' 1 4000 (rcr_query r), normalized_query (rcr_query r),
        pattern_field ''query_hash'' (matches_hex 64 (rcr_query_hash r)),
        pattern_field ''atlas_id'' (model_id_pattern (rcr_atlas_id r)),
        pattern_field ''case_id'' (model_id_pattern (rcr_case_id r)),
        pattern_field ''manifest_hash'' (matches_hex 64 (rcr_manifest_hash r)),
        pattern_field ''model_profile_hash'' (matches_hex 64 (rcr_model_profile_hash r)),
        pattern_field ''runtime_profile_hash'' (matches_hex 64 (rcr_runtime_profile_hash r)),
        pattern_field ''index_hash'' (matches_hex 64 (rcr_index_hash r)),
        text_field ''semantic_threshold_hex'' 1 32 (rcr_threshold_hex r),
        list_field ''semantic_candidates'' 0 1000 (rcr_semantic r),
        list_field ''lexical_candidates'' 0 1000 (rcr_lexical r)]
       (route_receipt_validator r)))"

definition normalize_route_query :: "string \<Rightarrow> string res" where
  "normalize_route_query query =
     (let normalized = strip (nfc query)
      in if normalized = [] then Inl (ValueError ''query must not be blank'')
         else if length normalized > 4000
         then Inl (ValueError ''query must be at most 4000 characters'')
         else Inr normalized)"

definition validate_for :: "route_receipt \<Rightarrow> research_atlas_manifest \<Rightarrow> string \<Rightarrow> string \<Rightarrow> unit res" where
  "validate_for r m manifest_hash query =
     res_bind (normalize_route_query query) (\<lambda>normalized.
       if manifest_hash \<noteq> canonical_sha256_hex (manifest_dump m)
       then Inl (ValueError ''router manifest_hash is stale for the current manifest'')
       else if rcr_query r \<noteq> normalized \<or> rcr_query_hash r \<noteq> sha256_hex (utf8 normalized)
       then Inl (ValueError ''route receipt is stale for the normalized query'')
       else if rcr_atlas_id r \<noteq> am_atlas_id m \<or> rcr_case_id r \<noteq> am_case_id m \<or>
         rcr_manifest_hash r \<noteq> manifest_hash
       then Inl (ValueError ''route receipt is stale for the Atlas manifest'')
       else
         let unknown = missing_ids (map candidate_question_id (ordered_candidates r))
               (map aq_question_id (am_questions m))
         in if unknown \<noteq> []
            then Inl (ValueError (''route receipt references unknown question IDs: '' @
              join '', '' unknown))
            else Inr ())"

subsection \<open>Builder\<close>

fun semantic_pairs_loop :: "(string \<times> string) list \<Rightarrow> unit res" where
  "semantic_pairs_loop [] = Inr ()"
| "semantic_pairs_loop ((q, score) # ps) =
     (if \<not> model_id_pattern q
      then Inl (ValueError ''semantic score question IDs must be canonical Atlas IDs'')
      else if float_hex_value score = None
      then Inl (ValueError ''semantic scores must be finite floats'')
      else semantic_pairs_loop ps)"

definition semantic_pairs :: "(string \<times> string) list \<Rightarrow> (string \<times> string) list res" where
  "semantic_pairs ps =
     res_bind (semantic_pairs_loop ps) (\<lambda>_.
       if has_duplicates (map fst ps)
       then Inl (ValueError ''semantic score question IDs must be unique'')
       else Inr ps)"

fun lexical_pairs_loop :: "(string \<times> int) list \<Rightarrow> unit res" where
  "lexical_pairs_loop [] = Inr ()"
| "lexical_pairs_loop ((q, score) # ps) =
     (if \<not> model_id_pattern q
      then Inl (ValueError ''lexical score question IDs must be canonical Atlas IDs'')
      else if score < 1 \<or> score > 1000000
      then Inl (ValueError ''lexical scores must be positive bounded integers'')
      else lexical_pairs_loop ps)"

definition lexical_pairs :: "(string \<times> int) list \<Rightarrow> (string \<times> int) list res" where
  "lexical_pairs ps =
     res_bind (lexical_pairs_loop ps) (\<lambda>_.
       if has_duplicates (map fst ps)
       then Inl (ValueError ''lexical score question IDs must be unique'')
       else Inr ps)"

text \<open>\<open>enumerate(xs, start=1)\<close>.\<close>

definition enumerate_from_one :: "'a list \<Rightarrow> (int \<times> 'a) list" where
  "enumerate_from_one xs = zip (ranks_to (length xs)) xs"

definition qualified_candidates :: "int \<Rightarrow> (string \<times> string) list \<Rightarrow> semantic_candidate list" where
  "qualified_candidates threshold ps =
     map (\<lambda>(rank, q, h). \<lparr>sqc_channel = SEMANTIC, sqc_question_id = q, sqc_score_hex = h, sqc_rank = rank\<rparr>)
       (enumerate_from_one
          (sort_key (\<lambda>(q, h). (- score_of h, q)) (filter (\<lambda>(q, h). score_of h \<ge> threshold) ps)))"

definition lexical_candidates :: "(string \<times> int) list \<Rightarrow> lexical_candidate list" where
  "lexical_candidates ps =
     map (\<lambda>(rank, q, n). \<lparr>lqc_channel = LEXICAL, lqc_question_id = q, lqc_score = n, lqc_rank = rank\<rparr>)
       (enumerate_from_one (sort_key (\<lambda>(q, n). (- n, q)) ps))"

definition require_profile_hash :: "string \<Rightarrow> string \<Rightarrow> unit res" where
  "require_profile_hash label value =
     (if \<not> matches_hex 64 value
      then Inl (ValueError (label @ '' must be 64 lowercase hexadecimal characters''))
      else Inr ())"

definition create_route_receipt :: "route_receipt \<Rightarrow> route_receipt res" where
  "create_route_receipt raw =
     (let payload = route_receipt_payload raw
      in validate_route_receipt_model
           (raw\<lparr>rcr_receipt_id := canonical_content_id ''route_candidate_receipt'' payload,
                rcr_receipt_hash := canonical_sha256_hex payload\<rparr>))"

definition build_route_receipt ::
  "research_atlas_manifest \<Rightarrow> string \<Rightarrow> string \<Rightarrow> string \<Rightarrow> string \<Rightarrow> string \<Rightarrow> string \<Rightarrow>
     (string \<times> string) list \<Rightarrow> (string \<times> int) list \<Rightarrow> route_decision option \<Rightarrow> route_receipt res" where
  "build_route_receipt m manifest_hash query profile_hash runtime_hash index_hash threshold
       semantic_scores lexical_scores decision =
     res_bind (normalize_route_query query) (\<lambda>normalized.
     if manifest_hash \<noteq> canonical_sha256_hex (manifest_dump m)
     then Inl (ValueError ''manifest_hash is stale for the supplied manifest'')
     else
       res_bind (require_profile_hash ''model_profile_hash'' profile_hash) (\<lambda>_.
       res_bind (require_profile_hash ''runtime_profile_hash'' runtime_hash) (\<lambda>_.
       res_bind (require_profile_hash ''index_hash'' index_hash) (\<lambda>_.
       if float_hex_value threshold = None
       then Inl (ValueError ''semantic_threshold must be a finite float'')
       else
         res_bind (semantic_pairs semantic_scores) (\<lambda>sp.
         res_bind (lexical_pairs lexical_scores) (\<lambda>lp.
           let supplied = map fst sp @ map fst lp;
               unknown = missing_ids supplied (map aq_question_id (am_questions m))
           in if has_duplicates supplied
              then Inl (ValueError ''question candidates must be unique across route channels'')
              else if unknown \<noteq> []
              then Inl (ValueError (''unknown question IDs: '' @ join '', '' unknown))
              else
                let semantic = qualified_candidates (score_of threshold) sp;
                    lexical = lexical_candidates lp
                in res_bind (map_res validate_semantic_candidate semantic) (\<lambda>_.
                   res_bind (map_res validate_lexical_candidate lexical) (\<lambda>_.
                   create_route_receipt
                     \<lparr>rcr_schema_id = route_receipt_schema, rcr_receipt_id = [], rcr_receipt_hash = [],
                      rcr_query = normalized, rcr_query_hash = sha256_hex (utf8 normalized),
                      rcr_atlas_id = am_atlas_id m, rcr_case_id = am_case_id m,
                      rcr_manifest_hash = manifest_hash, rcr_model_profile_hash = profile_hash,
                      rcr_runtime_profile_hash = runtime_hash, rcr_index_hash = index_hash,
                      rcr_threshold_hex = threshold, rcr_semantic = semantic, rcr_lexical = lexical,
                      rcr_decision =
                        (case decision of
                           Some d \<Rightarrow> d
                         | None \<Rightarrow> if semantic \<noteq> [] \<or> lexical \<noteq> [] then ROUTED else ABSTAINED)\<rparr>))))))))"

end
