(* ===== verification/Task_Router.thy ===== *)
theory Task_Router
  imports Semantic_Route Lexical
begin

text \<open>
  The task router (\<open>src/dithyramba/atlas/memory_packet.py\<close>, \<open>TaskRouter\<close>,
  \<open>_BudgetedRouteSelection\<close> and their helpers): the lexical route of schema 1.0 and the
  receipt-bound, budgeted route of schema 1.1.  The manifest is the argument \<open>m\<close>.

  Case folding keeps a text within the model except for the micro sign U+00B5, which it
  sends to U+03BC: texts with a micro sign are outside the model.  Of the stop words, the
  Cyrillic ones cannot occur in a text of the model.
\<close>

subsection \<open>Terms\<close>

definition fold_char :: "char \<Rightarrow> string" where
  "fold_char c =
     (if (of_char c :: nat) = 0xDF then ''ss'' else [char_of (lower_code (of_char c))])"

definition casefold :: "string \<Rightarrow> string" where
  "casefold s = concat (map fold_char s)"

text \<open>\<open>[^\W_]+\<close> under \<open>findall\<close>: the maximal runs of letters and numbers.\<close>

definition token_char :: "char \<Rightarrow> bool" where
  "token_char c = letter_or_number (of_char c)"

function tokens :: "string \<Rightarrow> string list" where
  "tokens s =
     (let rest = dropWhile (\<lambda>c. \<not> token_char c) s
      in if rest = [] then [] else takeWhile token_char rest # tokens (dropWhile token_char rest))"
  by pat_completeness auto
termination
proof (relation "measure length", simp)
  fix s :: string and rest
  assume rest: "rest = dropWhile (\<lambda>c. \<not> token_char c) s" "rest \<noteq> []"
  then have "token_char (hd rest)" using hd_dropWhile [of "\<lambda>c. \<not> token_char c" s] by auto
  with rest(2) obtain c cs where "rest = c # cs" "token_char c" by (cases rest) auto
  then have "length (dropWhile token_char rest) < length rest"
    by (simp add: le_imp_less_Suc length_dropWhile_le)
  also have "length rest \<le> length s" unfolding rest(1) by (rule length_dropWhile_le)
  finally show "(dropWhile token_char rest, s) \<in> measure length" by simp
qed

declare tokens.simps [simp del]

definition stop_words :: "string list" where
  "stop_words =
     [''the'', ''and'', ''for'', ''from'', ''how'', ''what'', ''when'', ''where'', ''which'', ''with'']"

text \<open>\<open>str.isdigit\<close> of a token: digits and superscript digits.\<close>

definition is_digit_token :: "string \<Rightarrow> bool" where
  "is_digit_token t \<longleftrightarrow>
     t \<noteq> [] \<and> list_all (\<lambda>c. c \<in> set digits09 \<or> (of_char c :: nat) \<in> {0xB2, 0xB3, 0xB9}) t"

definition route_terms :: "string \<Rightarrow> string list" where
  "route_terms s =
     sorted_set (filter (\<lambda>t. t \<notin> set stop_words \<and> (3 \<le> length t \<or> is_digit_token t))
       (tokens (casefold (nfc s))))"

subsection \<open>Ranking\<close>

type_synonym ranked = "int \<times> string \<times> string list"

definition overlap :: "string list \<Rightarrow> string \<Rightarrow> string list" where
  "overlap query_terms s = filter (\<lambda>t. t \<in> set query_terms) (route_terms s)"

definition rank_record :: "string list \<Rightarrow> string \<times> (string \<times> int) list \<Rightarrow> ranked" where
  "rank_record query_terms r =
     (sum_list (map (\<lambda>(v, weight). int (length (overlap query_terms v)) * weight) (snd r)), fst r,
      sorted_set (concat (map (\<lambda>(v, weight). overlap query_terms v) (snd r))))"

definition rank :: "(string \<times> (string \<times> int) list) list \<Rightarrow> string list \<Rightarrow> ranked list" where
  "rank records query_terms =
     sort_key (\<lambda>(score, i, ts). (- score, i))
       (filter (\<lambda>(score, i, ts). score \<noteq> 0) (map (rank_record query_terms) records))"

definition or_empty :: "string option \<Rightarrow> string" where
  "or_empty v = (case v of None \<Rightarrow> [] | Some s \<Rightarrow> s)"

definition rank_questions :: "research_atlas_manifest \<Rightarrow> string list \<Rightarrow> ranked list" where
  "rank_questions m ts =
     rank (map (\<lambda>q. (aq_question_id q,
       [(aq_prompt q, 6), (join '' '' (aq_tags q), 5), (aq_short_answer q, 2), (or_empty (aq_gap q), 1)]))
       (am_questions m)) ts"

definition rank_hypotheses :: "research_atlas_manifest \<Rightarrow> string list \<Rightarrow> ranked list" where
  "rank_hypotheses m ts =
     rank (map (\<lambda>h. (ah_hypothesis_id h,
       [(ah_title h, 5), (ah_synthesis h, 2), (or_empty (ah_gap h), 1)])) (am_hypotheses m)) ts"

definition rank_timeline :: "research_atlas_manifest \<Rightarrow> string list \<Rightarrow> ranked list" where
  "rank_timeline m ts =
     rank (map (\<lambda>e. (ate_event_id e,
       [(ate_title e, 5), (ate_summary e, 2), (ate_date_label e, 4)])) (am_timeline m)) ts"

definition rank_gaps :: "research_atlas_manifest \<Rightarrow> string list \<Rightarrow> ranked list" where
  "rank_gaps m ts =
     rank (map (\<lambda>g. (agp_gap_id g,
       [(agp_label g, 5), (agp_why_it_matters g, 2), (agp_next_evidence g, 2)])) (am_gaps m)) ts"

definition kind_matches :: "route_object_kind \<Rightarrow> ranked list \<Rightarrow> route_match list res" where
  "kind_matches kind rs =
     map_res (\<lambda>(score, i, ts). validate_route_match
       \<lparr>rm_object_kind = kind, rm_object_id = i, rm_score = score, rm_matched_terms = ts\<rparr>) rs"

definition match_order :: "route_match \<Rightarrow> int \<times> string \<times> string" where
  "match_order r = (- rm_score r, route_object_kind_value (rm_object_kind r), rm_object_id r)"

definition route_matches ::
  "ranked list \<Rightarrow> ranked list \<Rightarrow> ranked list \<Rightarrow> ranked list \<Rightarrow> route_match list res" where
  "route_matches qs hs es gs =
     res_bind (kind_matches route_object_kind.QUESTION qs) (\<lambda>mq.
     res_bind (kind_matches route_object_kind.HYPOTHESIS hs) (\<lambda>mh.
     res_bind (kind_matches TIMELINE es) (\<lambda>me.
     res_bind (kind_matches GAP gs) (\<lambda>mg.
       Inr (sort_key match_order (mq @ mh @ me @ mg))))))"

definition selected_scores :: "ranked list \<Rightarrow> string set \<Rightarrow> ranked list" where
  "selected_scores rs ids = filter (\<lambda>(score, i, ts). i \<in> ids) rs"

text \<open>The second loop of \<open>_capped_ids\<close>, with the selection so far.\<close>

fun cap_linked :: "nat \<Rightarrow> string list \<Rightarrow> string list \<Rightarrow> string list" where
  "cap_linked limit selected [] = selected"
| "cap_linked limit selected (i # is) =
     cap_linked limit
       (if i \<notin> set selected \<and> length selected < limit then selected @ [i] else selected) is"

definition capped_ids :: "string list \<Rightarrow> string list \<Rightarrow> int \<Rightarrow> string set" where
  "capped_ids primary linked limit =
     (if limit = 0 then {}
      else set (cap_linked (nat limit) (take (nat limit) (first_occurrences primary)) linked))"

subsection \<open>Reference closure\<close>

text \<open>One round of \<open>_close_object_references\<close>: the three loops in their order.\<close>

definition close_round ::
  "research_atlas_manifest \<Rightarrow> string set \<Rightarrow> string set \<Rightarrow> string set \<times> string set \<Rightarrow> string set \<times> string set" where
  "close_round m event_ids gap_ids qh =
     (let q1 = fold (\<lambda>h q. if ah_hypothesis_id h \<in> snd qh then q \<union> set (ah_question_ids h) else q)
            (am_hypotheses m) (fst qh);
          qh1 = fold (\<lambda>e (q, h).
              if ate_event_id e \<in> event_ids
              then (q \<union> set (ate_question_ids e), h \<union> set (ate_hypothesis_ids e)) else (q, h))
            (am_timeline m) (q1, snd qh)
      in fold (\<lambda>g (q, h).
              if agp_gap_id g \<in> gap_ids
              then (q \<union> set (agp_related_question_ids g), h \<union> set (agp_related_hypothesis_ids g))
              else (q, h))
            (am_gaps m) qh1)"

lemma fold_union:
  "fold (\<lambda>x s. if P x then s \<union> f x else s) xs s = s \<union> (\<Union>x \<in> {x \<in> set xs. P x}. f x)"
proof (induction xs arbitrary: s)
  case (Cons x xs)
  have "{y \<in> set (x # xs). P y} = (if P x then insert x {y \<in> set xs. P y} else {y \<in> set xs. P y})" by auto
  with Cons show ?case by (simp add: Un_assoc)
qed simp

lemma fold_union_pair:
  "fold (\<lambda>x (q, h). if P x then (q \<union> f x, h \<union> g x) else (q, h)) xs (q, h) =
     (q \<union> (\<Union>x \<in> {x \<in> set xs. P x}. f x), h \<union> (\<Union>x \<in> {x \<in> set xs. P x}. g x))"
proof (induction xs arbitrary: q h)
  case (Cons x xs)
  have "{y \<in> set (x # xs). P y} = (if P x then insert x {y \<in> set xs. P y} else {y \<in> set xs. P y})" by auto
  with Cons show ?case by (simp add: Un_assoc)
qed simp

text \<open>What the selected events and gaps name.\<close>

definition named_questions :: "research_atlas_manifest \<Rightarrow> string set \<Rightarrow> string set \<Rightarrow> string set" where
  "named_questions m event_ids gap_ids =
     (\<Union>e \<in> {e \<in> set (am_timeline m). ate_event_id e \<in> event_ids}. set (ate_question_ids e)) \<union>
     (\<Union>g \<in> {g \<in> set (am_gaps m). agp_gap_id g \<in> gap_ids}. set (agp_related_question_ids g))"

definition named_hypotheses :: "research_atlas_manifest \<Rightarrow> string set \<Rightarrow> string set \<Rightarrow> string set" where
  "named_hypotheses m event_ids gap_ids =
     (\<Union>e \<in> {e \<in> set (am_timeline m). ate_event_id e \<in> event_ids}. set (ate_hypothesis_ids e)) \<union>
     (\<Union>g \<in> {g \<in> set (am_gaps m). agp_gap_id g \<in> gap_ids}. set (agp_related_hypothesis_ids g))"

definition hypothesis_questions :: "research_atlas_manifest \<Rightarrow> string set \<Rightarrow> string set" where
  "hypothesis_questions m hs =
     (\<Union>h \<in> {h \<in> set (am_hypotheses m). ah_hypothesis_id h \<in> hs}. set (ah_question_ids h))"

lemma close_round_eq:
  "close_round m E G (Q, H) =
     (Q \<union> hypothesis_questions m H \<union> named_questions m E G, H \<union> named_hypotheses m E G)"
  by (auto simp: close_round_def fold_union fold_union_pair Let_def named_questions_def
      named_hypotheses_def hypothesis_questions_def)

definition named_ids :: "research_atlas_manifest \<Rightarrow> string set" where
  "named_ids m =
     (\<Union>h \<in> set (am_hypotheses m). set (ah_question_ids h)) \<union>
     (\<Union>e \<in> set (am_timeline m). set (ate_question_ids e) \<union> set (ate_hypothesis_ids e)) \<union>
     (\<Union>g \<in> set (am_gaps m). set (agp_related_question_ids g) \<union> set (agp_related_hypothesis_ids g))"

lemma finite_named_ids: "finite (named_ids m)"
  by (simp add: named_ids_def)

lemma close_round_named:
  "close_round m E G (Q, H) = (Q', H') \<Longrightarrow>
     Q \<subseteq> Q' \<and> H \<subseteq> H' \<and> Q' \<subseteq> Q \<union> named_ids m \<and> H' \<subseteq> H \<union> named_ids m"
  unfolding close_round_eq named_ids_def hypothesis_questions_def named_questions_def
    named_hypotheses_def by auto

lemma grow_within:
  assumes "A \<subseteq> B" and "B \<subseteq> A \<union> U" and "finite U"
  shows "card (U - B) \<le> card (U - A)" and "card A \<noteq> card B \<Longrightarrow> card (U - B) < card (U - A)"
proof -
  show "card (U - B) \<le> card (U - A)" using assms by (auto intro: card_mono)
  assume "card A \<noteq> card B"
  then have "A \<noteq> B" by auto
  with assms(1) obtain x where "x \<in> B" "x \<notin> A" by blast
  with assms have "U - B \<subset> U - A" by blast
  with assms(3) show "card (U - B) < card (U - A)" by (simp add: psubset_card_mono)
qed

function close_loop ::
  "research_atlas_manifest \<Rightarrow> string set \<Rightarrow> string set \<Rightarrow> string set \<times> string set \<Rightarrow> string set \<times> string set" where
  "close_loop m event_ids gap_ids qh =
     (let qh' = close_round m event_ids gap_ids qh
      in if (card (fst qh), card (snd qh)) \<noteq> (card (fst qh'), card (snd qh'))
         then close_loop m event_ids gap_ids qh' else qh')"
  by pat_completeness auto
termination
proof (relation "measure (\<lambda>(m, E, G, qh). card (named_ids m - fst qh) + card (named_ids m - snd qh))", simp)
  fix m E G qh qh'
  assume qh': "qh' = close_round m E G qh"
    and diff: "(card (fst qh), card (snd qh)) \<noteq> (card (fst qh'), card (snd qh'))"
  have "fst qh \<subseteq> fst qh'" "snd qh \<subseteq> snd qh'" "fst qh' \<subseteq> fst qh \<union> named_ids m"
    "snd qh' \<subseteq> snd qh \<union> named_ids m"
    using close_round_named [of m E G "fst qh" "snd qh" "fst qh'" "snd qh'"] qh' by simp_all
  note q = grow_within [OF this(1,3) finite_named_ids] and h = grow_within [OF this(2,4) finite_named_ids]
  show "((m, E, G, qh'), m, E, G, qh) \<in>
      measure (\<lambda>(m, E, G, qh). card (named_ids m - fst qh) + card (named_ids m - snd qh))"
    using diff q h by (cases "card (fst qh) = card (fst qh')") fastforce+
qed

declare close_loop.simps [simp del]

definition close_object_references ::
  "research_atlas_manifest \<Rightarrow> string set \<Rightarrow> string set \<Rightarrow> string set \<Rightarrow> string set \<Rightarrow> string set \<times> string set" where
  "close_object_references m question_ids hypothesis_ids event_ids gap_ids =
     close_loop m event_ids gap_ids (question_ids, hypothesis_ids)"

subsection \<open>Route, schema 1.0\<close>

definition router_profile :: string where
  "router_profile = ''lexical_graph_closure_v1''"

definition router_profile_v2 :: string where
  "router_profile_v2 = ''semantic_receipt_graph_closure_v2''"

definition without_question_spans :: "atlas_question \<Rightarrow> atlas_question" where
  "without_question_spans q = q\<lparr>aq_trace_spans := []\<rparr>"

definition without_hypothesis_spans :: "atlas_hypothesis \<Rightarrow> atlas_hypothesis" where
  "without_hypothesis_spans h = h\<lparr>ah_trace_spans := []\<rparr>"

definition create_packet :: "compact_memory_packet \<Rightarrow> compact_memory_packet res" where
  "create_packet raw =
     (let payload = packet_payload raw
      in validate_packet
           (raw\<lparr>cmp_packet_id := canonical_content_id ''memory_packet'' payload,
                cmp_packet_hash := canonical_sha256_hex payload\<rparr>))"

definition packet_evidence_ids ::
  "atlas_question list \<Rightarrow> atlas_hypothesis list \<Rightarrow> atlas_timeline_event list \<Rightarrow> atlas_relation list \<Rightarrow> string set" where
  "packet_evidence_ids qs hs es rs =
     set (concat (map aq_evidence_ids qs)) \<union>
     set (concat (map (\<lambda>h. ah_evidence_ids h @ ah_counterevidence_ids h) hs)) \<union>
     set (concat (map ate_evidence_ids es)) \<union> set (concat (map arl_evidence_ids rs))"

definition build_packet ::
  "research_atlas_manifest \<Rightarrow> string \<Rightarrow> string \<Rightarrow> string list \<Rightarrow> route_match list \<Rightarrow>
     atlas_question list \<Rightarrow> atlas_hypothesis list \<Rightarrow> atlas_timeline_event list \<Rightarrow> atlas_gap list \<Rightarrow>
     atlas_relation list \<Rightarrow> compact_memory_packet res" where
  "build_packet m manifest_hash query query_terms matches qs hs es gs rs =
     (let questions = map without_question_spans qs;
          hypotheses = map without_hypothesis_spans hs;
          evidence_ids = packet_evidence_ids questions hypotheses es rs;
          evidence = filter (\<lambda>e. aev_evidence_id e \<in> evidence_ids) (am_evidence m);
          source_ids = set (map aev_source_id evidence);
          sources = filter (\<lambda>s. aso_source_id s \<in> source_ids) (am_sources m)
      in create_packet
           \<lparr>cmp_schema_id = packet_schema, cmp_packet_id = [], cmp_packet_hash = [],
            cmp_router_profile = router_profile,
            cmp_route_status = (if matches \<noteq> [] then route_status.ROUTED else NO_MATCH),
            cmp_query = query, cmp_query_terms = query_terms, cmp_atlas_id = am_atlas_id m,
            cmp_case_id = am_case_id m, cmp_manifest_hash = manifest_hash,
            cmp_route_matches = matches, cmp_sources = sources, cmp_evidence = evidence,
            cmp_questions = questions, cmp_hypotheses = hypotheses, cmp_relations = rs,
            cmp_timeline = es, cmp_gaps = gs\<rparr>)"

text \<open>\<open>if ids.intersection(xs)\<close>.\<close>

definition meets :: "string set \<Rightarrow> string list \<Rightarrow> bool" where
  "meets ids xs \<longleftrightarrow> list_ex (\<lambda>x. x \<in> ids) xs"

definition make_router :: "string \<Rightarrow> unit res" where
  "make_router manifest_hash =
     (if \<not> matches_hex 64 manifest_hash
      then Inl (ValueError ''manifest_hash must be 64 lowercase hexadecimal characters'')
      else Inr ())"

text \<open>
  The selection of \<open>route\<close>: the chosen questions, hypotheses, events and gaps, before the
  closure.  The scored objects are those of the rankings, best first.
\<close>

definition route_selection ::
  "research_atlas_manifest \<Rightarrow> route_limits \<Rightarrow> string list \<Rightarrow> string list \<Rightarrow> string list \<Rightarrow> string list \<Rightarrow>
     string set \<times> string set \<times> string set \<times> string set" where
  "route_selection m limits scored_q scored_h scored_e scored_g =
     (let question_ids = set (take (nat (rl_max_questions limits)) scored_q);
          linked_h = map ah_hypothesis_id
            (filter (\<lambda>h. meets question_ids (ah_question_ids h)) (am_hypotheses m));
          hypothesis_ids = capped_ids
            (filter (\<lambda>i. question_ids = {} \<or> i \<in> set linked_h) scored_h) linked_h
            (rl_max_hypotheses limits);
          free = (question_ids = {} \<and> hypothesis_ids = {});
          linked_e = map ate_event_id
            (filter (\<lambda>e. meets question_ids (ate_question_ids e) \<or>
                         meets hypothesis_ids (ate_hypothesis_ids e)) (am_timeline m));
          event_ids = capped_ids (filter (\<lambda>i. free \<or> i \<in> set linked_e) scored_e) linked_e
            (rl_max_timeline_events limits);
          linked_g = map agp_gap_id
            (filter (\<lambda>g. meets question_ids (agp_related_question_ids g) \<or>
                         meets hypothesis_ids (agp_related_hypothesis_ids g)) (am_gaps m));
          gap_ids = capped_ids (filter (\<lambda>i. free \<or> i \<in> set linked_g) scored_g) linked_g
            (rl_max_gaps limits)
      in (question_ids, hypothesis_ids, event_ids, gap_ids))"

definition ranked_ids :: "ranked list \<Rightarrow> string list" where
  "ranked_ids rs = map (\<lambda>(score, i, ts). i) rs"

definition route ::
  "research_atlas_manifest \<Rightarrow> string \<Rightarrow> string \<Rightarrow> route_limits option \<Rightarrow> compact_memory_packet res" where
  "route m manifest_hash query limits =
     res_bind (normalize_route_query query) (\<lambda>normalized.
       let selected = (case limits of None \<Rightarrow> default_limits | Some l \<Rightarrow> l);
           query_terms = route_terms normalized
       in if query_terms = []
          then build_packet m manifest_hash normalized [] [] [] [] [] [] []
          else
            let q_scores = rank_questions m query_terms;
                h_scores = rank_hypotheses m query_terms;
                e_scores = rank_timeline m query_terms;
                g_scores = rank_gaps m query_terms
            in if q_scores = [] \<and> h_scores = [] \<and> e_scores = [] \<and> g_scores = []
               then build_packet m manifest_hash normalized query_terms [] [] [] [] [] []
               else
                 let (q0, h0, event_ids, gap_ids) =
                       route_selection m selected (ranked_ids q_scores) (ranked_ids h_scores)
                         (ranked_ids e_scores) (ranked_ids g_scores);
                     (question_ids, hypothesis_ids) = close_object_references m q0 h0 event_ids gap_ids
                 in res_bind
                      (route_matches (selected_scores q_scores question_ids)
                         (selected_scores h_scores hypothesis_ids)
                         (selected_scores e_scores event_ids) (selected_scores g_scores gap_ids))
                      (\<lambda>matches.
                         build_packet m manifest_hash normalized query_terms matches
                           (filter (\<lambda>q. aq_question_id q \<in> question_ids) (am_questions m))
                           (filter (\<lambda>h. ah_hypothesis_id h \<in> hypothesis_ids) (am_hypotheses m))
                           (filter (\<lambda>e. ate_event_id e \<in> event_ids) (am_timeline m))
                           (filter (\<lambda>g. agp_gap_id g \<in> gap_ids) (am_gaps m))
                           (filter (\<lambda>r. arl_source_hypothesis_id r \<in> hypothesis_ids \<and>
                                        arl_target_hypothesis_id r \<in> hypothesis_ids) (am_relations m))))"

end
