(* ===== verification/Budgeted_Route.thy ===== *)
theory Budgeted_Route
  imports Task_Router
begin

text \<open>
  The receipt-bound route of schema 1.1 (\<open>src/dithyramba/atlas/memory_packet.py\<close>,
  \<open>_BudgetedRouteSelection\<close> and \<open>TaskRouter.route_v2\<close>): seeds in receipt order, then one
  declared expansion layer, each object admitted with everything it names or omitted with
  the budget it would exceed.  The selection is a record that every operation returns
  updated; a raised exception is an \<open>Inl\<close>.
\<close>

record selection =
  sel_seed_question_ids :: "string set"
  sel_question_ids :: "string set"
  sel_hypothesis_ids :: "string set"
  sel_relation_ids :: "string set"
  sel_event_ids :: "string set"
  sel_gap_ids :: "string set"
  sel_evidence_ids :: "string set"
  sel_source_ids :: "string set"
  sel_seed_question_order :: "string list"
  sel_question_order :: "string list"
  sel_hypothesis_order :: "string list"
  sel_relation_order :: "string list"
  sel_event_order :: "string list"
  sel_gap_order :: "string list"
  sel_trace :: "route_trace_entry list"
  sel_omissions :: "route_omission list"

definition empty_selection :: selection where
  "empty_selection =
     \<lparr>sel_seed_question_ids = {}, sel_question_ids = {}, sel_hypothesis_ids = {},
      sel_relation_ids = {}, sel_event_ids = {}, sel_gap_ids = {}, sel_evidence_ids = {},
      sel_source_ids = {}, sel_seed_question_order = [], sel_question_order = [],
      sel_hypothesis_order = [], sel_relation_order = [], sel_event_order = [],
      sel_gap_order = [], sel_trace = [], sel_omissions = []\<rparr>"

subsection \<open>Resources and capacity\<close>

definition resource_closure ::
  "research_atlas_manifest \<Rightarrow> string list \<Rightarrow> string list \<Rightarrow> string list \<Rightarrow> (string set \<times> string set) res" where
  "resource_closure m question_ids hypothesis_ids extra =
     res_bind (map_res (require_key aq_question_id (am_questions m)) question_ids) (\<lambda>qs.
     res_bind (map_res (require_key ah_hypothesis_id (am_hypotheses m)) hypothesis_ids) (\<lambda>hs.
       let evidence_ids = extra @ concat (map aq_evidence_ids qs) @
             concat (map (\<lambda>h. ah_evidence_ids h @ ah_counterevidence_ids h) hs)
       in res_bind (map_res (require_key aev_evidence_id (am_evidence m)) evidence_ids) (\<lambda>es.
            Inr (set evidence_ids, set (map aev_source_id es)))))"

text \<open>What an object would add to each of the seven budgets.\<close>

record demand =
  dm_questions :: "string set"
  dm_hypotheses :: "string set"
  dm_relations :: "string set"
  dm_events :: "string set"
  dm_gaps :: "string set"
  dm_evidence :: "string set"
  dm_sources :: "string set"

definition no_demand :: demand where
  "no_demand =
     \<lparr>dm_questions = {}, dm_hypotheses = {}, dm_relations = {}, dm_events = {}, dm_gaps = {},
      dm_evidence = {}, dm_sources = {}\<rparr>"

definition exceeds :: "string set \<Rightarrow> string set \<Rightarrow> int \<Rightarrow> bool" where
  "exceeds held wanted maximum \<longleftrightarrow> int (card (held \<union> wanted)) > maximum"

definition capacity_reason :: "route_budget \<Rightarrow> selection \<Rightarrow> demand \<Rightarrow> route_omission_reason option" where
  "capacity_reason b s d =
     (if exceeds (sel_question_ids s) (dm_questions d) (rb_max_questions b) then Some QUESTION_BUDGET
      else if exceeds (sel_hypothesis_ids s) (dm_hypotheses d) (rb_max_linked_hypotheses b)
      then Some HYPOTHESIS_BUDGET
      else if exceeds (sel_relation_ids s) (dm_relations d) (rb_max_relations b) then Some RELATION_BUDGET
      else if exceeds (sel_event_ids s) (dm_events d) (rb_max_timeline_events b) then Some TIMELINE_BUDGET
      else if exceeds (sel_gap_ids s) (dm_gaps d) (rb_max_gaps b) then Some GAP_BUDGET
      else if exceeds (sel_evidence_ids s) (dm_evidence d) (rb_max_evidence b) then Some EVIDENCE_BUDGET
      else if exceeds (sel_source_ids s) (dm_sources d) (rb_max_sources b) then Some SOURCE_BUDGET
      else None)"

subsection \<open>Trace and omissions\<close>

definition omit :: "route_object_kind \<Rightarrow> string \<Rightarrow> route_omission_reason \<Rightarrow> selection \<Rightarrow> selection res" where
  "omit kind i reason s =
     (if list_ex (\<lambda>x. omission_key x = (kind, i)) (sel_omissions s) then Inr s
      else res_bind (validate_omission \<lparr>ro_object_kind = kind, ro_object_id = i, ro_reason = reason\<rparr>)
        (\<lambda>x. Inr (s\<lparr>sel_omissions := sel_omissions s @ [x]\<rparr>)))"

definition clear_omission :: "route_object_kind \<Rightarrow> string \<Rightarrow> selection \<Rightarrow> selection" where
  "clear_omission kind i s =
     s\<lparr>sel_omissions := filter (\<lambda>x. omission_key x \<noteq> (kind, i)) (sel_omissions s)\<rparr>"

definition expansion_trace ::
  "route_object_kind \<Rightarrow> string \<Rightarrow> route_object_kind \<times> string \<Rightarrow> route_trace_entry res" where
  "expansion_trace kind i parent =
     validate_trace_entry
       \<lparr>rt_stage = GRAPH_EXPANSION, rt_object_kind = kind, rt_object_id = i, rt_channel = None,
        rt_channel_rank = None, rt_semantic_score_hex = None, rt_lexical_score = None,
        rt_parent_object_kind = Some (fst parent), rt_parent_object_id = Some (snd parent)\<rparr>"

definition push_trace :: "route_trace_entry \<Rightarrow> selection \<Rightarrow> selection" where
  "push_trace e s = s\<lparr>sel_trace := sel_trace s @ [e]\<rparr>"

definition seed_trace :: "question_candidate \<Rightarrow> route_trace_entry res" where
  "seed_trace c =
     validate_trace_entry
       (case c of
          Semantic x \<Rightarrow>
            \<lparr>rt_stage = SEED, rt_object_kind = route_object_kind.QUESTION,
             rt_object_id = sqc_question_id x, rt_channel = Some SEMANTIC,
             rt_channel_rank = Some (sqc_rank x), rt_semantic_score_hex = Some (sqc_score_hex x),
             rt_lexical_score = None, rt_parent_object_kind = None, rt_parent_object_id = None\<rparr>
        | Lexical x \<Rightarrow>
            \<lparr>rt_stage = SEED, rt_object_kind = route_object_kind.QUESTION,
             rt_object_id = lqc_question_id x, rt_channel = Some LEXICAL,
             rt_channel_rank = Some (lqc_rank x), rt_semantic_score_hex = None,
             rt_lexical_score = Some (lqc_score x), rt_parent_object_kind = None,
             rt_parent_object_id = None\<rparr>)"

definition add_resources :: "string set \<Rightarrow> string set \<Rightarrow> selection \<Rightarrow> selection" where
  "add_resources evidence_ids source_ids s =
     s\<lparr>sel_evidence_ids := sel_evidence_ids s \<union> evidence_ids,
       sel_source_ids := sel_source_ids s \<union> source_ids\<rparr>"

subsection \<open>Seeds\<close>

definition add_seed :: "string \<Rightarrow> selection \<Rightarrow> selection" where
  "add_seed i s =
     s\<lparr>sel_question_ids := insert i (sel_question_ids s),
       sel_question_order := sel_question_order s @ [i],
       sel_seed_question_ids := insert i (sel_seed_question_ids s),
       sel_seed_question_order := sel_seed_question_order s @ [i]\<rparr>"

definition admit_seed ::
  "research_atlas_manifest \<Rightarrow> route_budget \<Rightarrow> question_candidate \<Rightarrow> selection \<Rightarrow> selection res" where
  "admit_seed m b c s =
     (let i = candidate_question_id c
      in res_bind (resource_closure m [i] [] []) (\<lambda>(evidence_ids, source_ids).
           case capacity_reason b s
             (no_demand\<lparr>dm_questions := {i}, dm_evidence := evidence_ids, dm_sources := source_ids\<rparr>) of
             Some reason \<Rightarrow> omit route_object_kind.QUESTION i reason s
           | None \<Rightarrow> res_bind (seed_trace c) (\<lambda>e.
               Inr (push_trace e (add_resources evidence_ids source_ids (add_seed i s))))))"

subsection \<open>Commits\<close>

definition add_question :: "string \<Rightarrow> selection \<Rightarrow> selection" where
  "add_question i s =
     s\<lparr>sel_question_ids := insert i (sel_question_ids s),
       sel_question_order := sel_question_order s @ [i]\<rparr>"

definition add_hypothesis :: "string \<Rightarrow> selection \<Rightarrow> selection" where
  "add_hypothesis i s =
     s\<lparr>sel_hypothesis_ids := insert i (sel_hypothesis_ids s),
       sel_hypothesis_order := sel_hypothesis_order s @ [i]\<rparr>"

definition commit_question ::
  "route_object_kind \<times> string \<Rightarrow> string \<Rightarrow> selection \<Rightarrow> selection res" where
  "commit_question parent i s =
     (if i \<in> sel_question_ids s then Inr s
      else res_bind (expansion_trace route_object_kind.QUESTION i parent) (\<lambda>e.
        Inr (push_trace e (clear_omission route_object_kind.QUESTION i (add_question i s)))))"

definition commit_hypothesis ::
  "route_object_kind \<times> string \<Rightarrow> string \<Rightarrow> selection \<Rightarrow> selection res" where
  "commit_hypothesis parent i s =
     (if i \<in> sel_hypothesis_ids s then Inr s
      else res_bind (expansion_trace route_object_kind.HYPOTHESIS i parent) (\<lambda>e.
        Inr (push_trace e (clear_omission route_object_kind.HYPOTHESIS i (add_hypothesis i s)))))"

definition commit_questions ::
  "route_object_kind \<times> string \<Rightarrow> string list \<Rightarrow> selection \<Rightarrow> selection res" where
  "commit_questions parent is s = fold_res (commit_question parent) is s"

definition commit_hypotheses ::
  "route_object_kind \<times> string \<Rightarrow> string list \<Rightarrow> selection \<Rightarrow> selection res" where
  "commit_hypotheses parent is s = fold_res (commit_hypothesis parent) is s"

definition linked_parent ::
  "string list \<Rightarrow> string list \<Rightarrow> string set \<Rightarrow> selection \<Rightarrow> (route_object_kind \<times> string) res" where
  "linked_parent question_ids hypothesis_ids linked s =
     (case find (\<lambda>i. i \<in> set question_ids) (sel_seed_question_order s) of
        Some i \<Rightarrow> Inr (route_object_kind.QUESTION, i)
      | None \<Rightarrow>
          (case find (\<lambda>i. i \<in> set hypothesis_ids \<and> i \<in> linked) (sel_hypothesis_order s) of
             Some i \<Rightarrow> Inr (route_object_kind.HYPOTHESIS, i)
           | None \<Rightarrow> Inl (ValueError ''graph expansion lacks an admitted seed-linked parent'')))"

subsection \<open>Admissions\<close>

definition admit_hypothesis ::
  "research_atlas_manifest \<Rightarrow> route_budget \<Rightarrow> string \<Rightarrow> selection \<Rightarrow> selection res" where
  "admit_hypothesis m b i s =
     (if i \<in> sel_hypothesis_ids s then Inr s
      else
        res_bind (require_key ah_hypothesis_id (am_hypotheses m) i) (\<lambda>h.
        res_bind (resource_closure m (ah_question_ids h) [i] []) (\<lambda>(evidence_ids, source_ids).
          case capacity_reason b s
            (no_demand\<lparr>dm_questions := set (ah_question_ids h), dm_hypotheses := {i},
               dm_evidence := evidence_ids, dm_sources := source_ids\<rparr>) of
            Some reason \<Rightarrow> omit route_object_kind.HYPOTHESIS i reason s
          | None \<Rightarrow>
              (case find (\<lambda>q. q \<in> set (ah_question_ids h)) (sel_seed_question_order s) of
                 None \<Rightarrow> Inl (StopIteration [])
               | Some parent_id \<Rightarrow>
                   let parent = (route_object_kind.QUESTION, parent_id)
                   in res_bind (commit_questions parent (ah_question_ids h) s) (\<lambda>s1.
                      res_bind (expansion_trace route_object_kind.HYPOTHESIS i parent) (\<lambda>e.
                        Inr (add_resources evidence_ids source_ids (push_trace e
                          (clear_omission route_object_kind.HYPOTHESIS i (add_hypothesis i s1))))))))))"

text \<open>The questions an event or a gap requires: its own, then those of its hypotheses.\<close>

definition required_questions ::
  "research_atlas_manifest \<Rightarrow> string list \<Rightarrow> string list \<Rightarrow> string list res" where
  "required_questions m question_ids hypothesis_ids =
     res_bind (map_res (require_key ah_hypothesis_id (am_hypotheses m)) hypothesis_ids) (\<lambda>hs.
       Inr (first_occurrences (question_ids @ concat (map ah_question_ids hs))))"

text \<open>
  The common course of \<open>_admit_event\<close> and \<open>_admit_gap\<close> once the resources are known:
  capacity, parent, commits, then the object itself.
\<close>

definition admit_linked ::
  "route_budget \<Rightarrow> route_object_kind \<Rightarrow> string \<Rightarrow> string list \<Rightarrow> string list \<Rightarrow> string list \<Rightarrow> demand \<Rightarrow>
     (selection \<Rightarrow> selection) \<Rightarrow> string set \<Rightarrow> selection \<Rightarrow> selection res" where
  "admit_linked b kind i question_ids hypothesis_ids required d add linked s =
     (case capacity_reason b s d of
        Some reason \<Rightarrow> omit kind i reason s
      | None \<Rightarrow>
          res_bind (linked_parent question_ids hypothesis_ids linked s) (\<lambda>parent.
          res_bind (commit_questions parent required s) (\<lambda>s1.
          res_bind (commit_hypotheses parent hypothesis_ids s1) (\<lambda>s2.
          res_bind (expansion_trace kind i parent) (\<lambda>e.
            Inr (add_resources (dm_evidence d) (dm_sources d) (push_trace e
              (clear_omission kind i (add s2)))))))))"

definition add_event :: "string \<Rightarrow> selection \<Rightarrow> selection" where
  "add_event i s = s\<lparr>sel_event_ids := insert i (sel_event_ids s), sel_event_order := sel_event_order s @ [i]\<rparr>"

definition add_gap :: "string \<Rightarrow> selection \<Rightarrow> selection" where
  "add_gap i s = s\<lparr>sel_gap_ids := insert i (sel_gap_ids s), sel_gap_order := sel_gap_order s @ [i]\<rparr>"

definition admit_event ::
  "research_atlas_manifest \<Rightarrow> route_budget \<Rightarrow> string set \<Rightarrow> string \<Rightarrow> selection \<Rightarrow> selection res" where
  "admit_event m b linked i s =
     res_bind (require_key ate_event_id (am_timeline m) i) (\<lambda>ev.
     res_bind (required_questions m (ate_question_ids ev) (ate_hypothesis_ids ev)) (\<lambda>required.
     res_bind (resource_closure m required (ate_hypothesis_ids ev) (ate_evidence_ids ev))
       (\<lambda>(evidence_ids, source_ids).
         admit_linked b TIMELINE i (ate_question_ids ev) (ate_hypothesis_ids ev) required
           (no_demand\<lparr>dm_questions := set required, dm_hypotheses := set (ate_hypothesis_ids ev),
              dm_events := {i}, dm_evidence := evidence_ids, dm_sources := source_ids\<rparr>)
           (add_event i) linked s)))"

definition admit_gap ::
  "research_atlas_manifest \<Rightarrow> route_budget \<Rightarrow> string set \<Rightarrow> string \<Rightarrow> selection \<Rightarrow> selection res" where
  "admit_gap m b linked i s =
     res_bind (require_key agp_gap_id (am_gaps m) i) (\<lambda>g.
     res_bind (required_questions m (agp_related_question_ids g) (agp_related_hypothesis_ids g)) (\<lambda>required.
     res_bind (resource_closure m required (agp_related_hypothesis_ids g) [])
       (\<lambda>(evidence_ids, source_ids).
         admit_linked b GAP i (agp_related_question_ids g) (agp_related_hypothesis_ids g) required
           (no_demand\<lparr>dm_questions := set required, dm_hypotheses := set (agp_related_hypothesis_ids g),
              dm_gaps := {i}, dm_evidence := evidence_ids, dm_sources := source_ids\<rparr>)
           (add_gap i) linked s)))"

definition add_relation :: "string \<Rightarrow> selection \<Rightarrow> selection" where
  "add_relation i s =
     s\<lparr>sel_relation_ids := insert i (sel_relation_ids s), sel_relation_order := sel_relation_order s @ [i]\<rparr>"

definition admit_relation ::
  "research_atlas_manifest \<Rightarrow> route_budget \<Rightarrow> string \<Rightarrow> selection \<Rightarrow> selection res" where
  "admit_relation m b i s =
     res_bind (require_key arl_relation_id (am_relations m) i) (\<lambda>r.
     res_bind (resource_closure m [] [] (arl_evidence_ids r)) (\<lambda>(evidence_ids, source_ids).
       case capacity_reason b s
         (no_demand\<lparr>dm_relations := {i}, dm_evidence := evidence_ids, dm_sources := source_ids\<rparr>) of
         Some reason \<Rightarrow> omit RELATION i reason s
       | None \<Rightarrow>
           res_bind (expansion_trace RELATION i (route_object_kind.HYPOTHESIS, arl_source_hypothesis_id r))
             (\<lambda>e. Inr (add_resources evidence_ids source_ids (push_trace e (add_relation i s))))))"

subsection \<open>Expansion\<close>

definition expand_hypothesis ::
  "research_atlas_manifest \<Rightarrow> route_budget \<Rightarrow> atlas_hypothesis \<Rightarrow> selection \<Rightarrow> selection res" where
  "expand_hypothesis m b h s =
     (if meets (sel_seed_question_ids s) (ah_question_ids h)
      then admit_hypothesis m b (ah_hypothesis_id h) s else Inr s)"

definition expand_event ::
  "research_atlas_manifest \<Rightarrow> route_budget \<Rightarrow> string set \<Rightarrow> atlas_timeline_event \<Rightarrow> selection \<Rightarrow> selection res" where
  "expand_event m b linked ev s =
     (if meets (sel_seed_question_ids s) (ate_question_ids ev) \<or> meets linked (ate_hypothesis_ids ev)
      then admit_event m b linked (ate_event_id ev) s else Inr s)"

definition expand_gap ::
  "research_atlas_manifest \<Rightarrow> route_budget \<Rightarrow> string set \<Rightarrow> atlas_gap \<Rightarrow> selection \<Rightarrow> selection res" where
  "expand_gap m b linked g s =
     (if meets (sel_seed_question_ids s) (agp_related_question_ids g) \<or>
         meets linked (agp_related_hypothesis_ids g)
      then admit_gap m b linked (agp_gap_id g) s else Inr s)"

definition expand_relation ::
  "research_atlas_manifest \<Rightarrow> route_budget \<Rightarrow> atlas_relation \<Rightarrow> selection \<Rightarrow> selection res" where
  "expand_relation m b r s =
     (let endpoints = {arl_source_hypothesis_id r, arl_target_hypothesis_id r}
      in if endpoints \<inter> sel_hypothesis_ids s = {} then Inr s
         else if \<not> endpoints \<subseteq> sel_hypothesis_ids s
         then omit RELATION (arl_relation_id r) REFERENCE_BUDGET s
         else admit_relation m b (arl_relation_id r) s)"

definition expand_graph :: "research_atlas_manifest \<Rightarrow> route_budget \<Rightarrow> selection \<Rightarrow> selection res" where
  "expand_graph m b s =
     res_bind (fold_res (expand_hypothesis m b) (am_hypotheses m) s) (\<lambda>s1.
       let linked = sel_hypothesis_ids s1
       in res_bind (fold_res (expand_event m b linked) (am_timeline m) s1) (\<lambda>s2.
          res_bind (fold_res (expand_gap m b linked) (am_gaps m) s2) (\<lambda>s3.
          fold_res (expand_relation m b) (am_relations m) s3)))"

subsection \<open>Packet and route, schema 1.1\<close>

definition create_packet_v1_1 :: "compact_memory_packet_v1_1 \<Rightarrow> compact_memory_packet_v1_1 res" where
  "create_packet_v1_1 raw =
     (let payload = packet_v1_1_payload raw
      in validate_packet_v1_1
           (raw\<lparr>cmp_packet_id := canonical_content_id ''memory_packet'' payload,
                cmp_packet_hash := canonical_sha256_hex payload\<rparr>))"

definition selected_packet ::
  "research_atlas_manifest \<Rightarrow> string \<Rightarrow> string \<Rightarrow> string list \<Rightarrow> route_receipt \<Rightarrow> route_budget \<Rightarrow> route_status \<Rightarrow>
     selection \<Rightarrow> atlas_question list \<Rightarrow> atlas_hypothesis list \<Rightarrow> atlas_relation list \<Rightarrow>
     atlas_timeline_event list \<Rightarrow> atlas_gap list \<Rightarrow> compact_memory_packet_v1_1" where
  "selected_packet m manifest_hash query query_terms receipt b status s qs hs rs es gs =
     \<lparr>cmp_schema_id = packet_v1_1_schema, cmp_packet_id = [], cmp_packet_hash = [],
      cmp_router_profile = router_profile_v2, cmp_route_status = status, cmp_query = query,
      cmp_query_terms = query_terms, cmp_atlas_id = am_atlas_id m, cmp_case_id = am_case_id m,
      cmp_manifest_hash = manifest_hash, cmp_route_matches = [],
      cmp_sources = filter (\<lambda>x. aso_source_id x \<in> sel_source_ids s) (am_sources m),
      cmp_evidence = filter (\<lambda>x. aev_evidence_id x \<in> sel_evidence_ids s) (am_evidence m),
      cmp_questions = map without_question_spans qs,
      cmp_hypotheses = map without_hypothesis_spans hs, cmp_relations = rs, cmp_timeline = es,
      cmp_gaps = gs, cmp_route_receipt_id = rcr_receipt_id receipt,
      cmp_route_receipt_hash = rcr_receipt_hash receipt, cmp_route_budget = b,
      cmp_route_trace = sel_trace s, cmp_omissions = sel_omissions s\<rparr>"

definition build_packet_v2 ::
  "research_atlas_manifest \<Rightarrow> string \<Rightarrow> string \<Rightarrow> string list \<Rightarrow> route_receipt \<Rightarrow> route_budget \<Rightarrow> route_status \<Rightarrow>
     selection \<Rightarrow> compact_memory_packet_v1_1 res" where
  "build_packet_v2 m manifest_hash query query_terms receipt b status s =
     res_bind (map_res (require_key aq_question_id (am_questions m)) (sel_question_order s)) (\<lambda>qs.
     res_bind (map_res (require_key ah_hypothesis_id (am_hypotheses m)) (sel_hypothesis_order s)) (\<lambda>hs.
     res_bind (map_res (require_key arl_relation_id (am_relations m)) (sel_relation_order s)) (\<lambda>rs.
     res_bind (map_res (require_key ate_event_id (am_timeline m)) (sel_event_order s)) (\<lambda>es.
     res_bind (map_res (require_key agp_gap_id (am_gaps m)) (sel_gap_order s)) (\<lambda>gs.
       create_packet_v1_1
         (selected_packet m manifest_hash query query_terms receipt b status s qs hs rs es gs))))))"

definition route_v2 ::
  "research_atlas_manifest \<Rightarrow> string \<Rightarrow> string \<Rightarrow> route_receipt \<Rightarrow> route_budget \<Rightarrow>
     compact_memory_packet_v1_1 res" where
  "route_v2 m manifest_hash query receipt0 budget0 =
     res_bind (normalize_route_query query) (\<lambda>normalized.
     res_bind (validate_route_receipt_model receipt0) (\<lambda>receipt.
     res_bind (validate_budget budget0) (\<lambda>b.
     res_bind (validate_for receipt m manifest_hash normalized) (\<lambda>_.
       let query_terms = route_terms normalized
       in if rcr_decision receipt = ABSTAINED \<or> ordered_candidates receipt = []
          then build_packet_v2 m manifest_hash normalized query_terms receipt b NO_MATCH empty_selection
          else
            res_bind (fold_res (admit_seed m b) (ordered_candidates receipt) empty_selection) (\<lambda>s.
              if sel_seed_question_ids s = {}
              then build_packet_v2 m manifest_hash normalized query_terms receipt b BUDGET_EXCEEDED s
              else
                res_bind (expand_graph m b s) (\<lambda>s'.
                  build_packet_v2 m manifest_hash normalized query_terms receipt b
                    route_status.ROUTED s'))))))"

end
