(* ===== verification/Selection_Props.thy ===== *)
theory Selection_Props
  imports Budgeted_Route
begin

text \<open>
  The selection of the budgeted route: its invariant (orders, identifier sets, trace and
  omissions agree; what is held names only what is held; no budget is exceeded), and the
  effect of every admission on it.
\<close>

subsection \<open>Uniform view of the five kinds\<close>

definition held :: "selection \<Rightarrow> route_object_kind \<Rightarrow> string set" where
  "held s k =
     (case k of
        route_object_kind.QUESTION \<Rightarrow> sel_question_ids s
      | route_object_kind.HYPOTHESIS \<Rightarrow> sel_hypothesis_ids s
      | RELATION \<Rightarrow> sel_relation_ids s | TIMELINE \<Rightarrow> sel_event_ids s | GAP \<Rightarrow> sel_gap_ids s)"

definition order_of :: "selection \<Rightarrow> route_object_kind \<Rightarrow> string list" where
  "order_of s k =
     (case k of
        route_object_kind.QUESTION \<Rightarrow> sel_question_order s
      | route_object_kind.HYPOTHESIS \<Rightarrow> sel_hypothesis_order s
      | RELATION \<Rightarrow> sel_relation_order s | TIMELINE \<Rightarrow> sel_event_order s | GAP \<Rightarrow> sel_gap_order s)"

definition manifest_ids :: "research_atlas_manifest \<Rightarrow> route_object_kind \<Rightarrow> string list" where
  "manifest_ids m k =
     (case k of
        route_object_kind.QUESTION \<Rightarrow> map aq_question_id (am_questions m)
      | route_object_kind.HYPOTHESIS \<Rightarrow> map ah_hypothesis_id (am_hypotheses m)
      | RELATION \<Rightarrow> map arl_relation_id (am_relations m)
      | TIMELINE \<Rightarrow> map ate_event_id (am_timeline m) | GAP \<Rightarrow> map agp_gap_id (am_gaps m))"

definition budget_of :: "route_budget \<Rightarrow> route_object_kind \<Rightarrow> int" where
  "budget_of b k =
     (case k of
        route_object_kind.QUESTION \<Rightarrow> rb_max_questions b
      | route_object_kind.HYPOTHESIS \<Rightarrow> rb_max_linked_hypotheses b
      | RELATION \<Rightarrow> rb_max_relations b | TIMELINE \<Rightarrow> rb_max_timeline_events b | GAP \<Rightarrow> rb_max_gaps b)"

definition wants :: "demand \<Rightarrow> route_object_kind \<Rightarrow> string set" where
  "wants d k =
     (case k of
        route_object_kind.QUESTION \<Rightarrow> dm_questions d
      | route_object_kind.HYPOTHESIS \<Rightarrow> dm_hypotheses d
      | RELATION \<Rightarrow> dm_relations d | TIMELINE \<Rightarrow> dm_events d | GAP \<Rightarrow> dm_gaps d)"

definition sel_keys :: "selection \<Rightarrow> (route_object_kind \<times> string) set" where
  "sel_keys s = {(k, i). i \<in> held s k}"

definition omitted :: "selection \<Rightarrow> (route_object_kind \<times> string) set" where
  "omitted s = omission_key ` set (sel_omissions s)"

text \<open>Admitted or omitted.\<close>

definition accounted :: "selection \<Rightarrow> (route_object_kind \<times> string) set" where
  "accounted s = sel_keys s \<union> omitted s"

lemma sel_keys_iff [simp]: "(k, i) \<in> sel_keys s \<longleftrightarrow> i \<in> held s k"
  by (simp add: sel_keys_def)

lemma all_kinds:
  "(\<forall>k. P k) \<longleftrightarrow>
     P route_object_kind.QUESTION \<and> P route_object_kind.HYPOTHESIS \<and> P RELATION \<and> P TIMELINE \<and> P GAP"
  by (metis route_object_kind.exhaust)

lemma capacity_reason_None:
  "capacity_reason b s d = None \<longleftrightarrow>
     (\<forall>k. int (card (held s k \<union> wants d k)) \<le> budget_of b k) \<and>
     int (card (sel_evidence_ids s \<union> dm_evidence d)) \<le> rb_max_evidence b \<and>
     int (card (sel_source_ids s \<union> dm_sources d)) \<le> rb_max_sources b"
  by (simp add: capacity_reason_def exceeds_def all_kinds held_def wants_def budget_of_def not_less)

subsection \<open>Core invariant\<close>

definition core_inv :: "research_atlas_manifest \<Rightarrow> selection \<Rightarrow> bool" where
  "core_inv m s \<longleftrightarrow>
     (\<forall>k. distinct (order_of s k) \<and> set (order_of s k) = held s k \<and> held s k \<subseteq> set (manifest_ids m k)) \<and>
     distinct (map trace_key (sel_trace s)) \<and> trace_key ` set (sel_trace s) = sel_keys s \<and>
     trace_parents_loop {} (sel_trace s) = Inr () \<and>
     distinct (map omission_key (sel_omissions s)) \<and> omitted s \<inter> sel_keys s = {} \<and>
     (\<forall>(k, i) \<in> omitted s. i \<in> set (manifest_ids m k)) \<and>
     distinct (sel_seed_question_order s) \<and>
     set (sel_seed_question_order s) = sel_seed_question_ids s \<and>
     sel_seed_question_ids s \<subseteq> sel_question_ids s \<and>
     rt_object_id ` {e \<in> set (sel_trace s). rt_stage e = SEED} = sel_seed_question_ids s"

lemma trace_parents_loop_snoc:
  "trace_parents_loop A (es @ [e]) = Inr () \<longleftrightarrow>
     trace_parents_loop A es = Inr () \<and>
     (rt_stage e = GRAPH_EXPANSION \<longrightarrow>
        (case trace_parent e of None \<Rightarrow> False | Some k \<Rightarrow> k \<in> A \<union> trace_key ` set es))"
  by (induction es arbitrary: A) (auto split: option.splits)

lemma core_empty [simp]: "core_inv m empty_selection"
  by (simp add: core_inv_def empty_selection_def held_def order_of_def sel_keys_def omitted_def
      split: route_object_kind.splits)

text \<open>
  Adding one key with its trace entry and clearing its omission: \<open>t\<close> holds one identifier
  more than \<open>s\<close>, at the end of its order, and is otherwise \<open>s\<close>.
\<close>

definition adds_key :: "route_object_kind \<Rightarrow> string \<Rightarrow> selection \<Rightarrow> selection \<Rightarrow> bool" where
  "adds_key k i s t \<longleftrightarrow>
     held t = (held s)(k := insert i (held s k)) \<and>
     order_of t = (order_of s)(k := order_of s k @ [i]) \<and>
     sel_trace t = sel_trace s \<and> sel_omissions t = sel_omissions s \<and>
     sel_evidence_ids t = sel_evidence_ids s \<and> sel_source_ids t = sel_source_ids s \<and>
     sel_seed_question_ids t = sel_seed_question_ids s \<and>
     sel_seed_question_order t = sel_seed_question_order s"

lemma adds_key_ops:
  "adds_key route_object_kind.QUESTION i s (add_question i s)"
  "adds_key route_object_kind.HYPOTHESIS i s (add_hypothesis i s)"
  "adds_key TIMELINE i s (add_event i s)" "adds_key GAP i s (add_gap i s)"
  "adds_key RELATION i s (add_relation i s)"
  by (auto simp: adds_key_def add_question_def add_hypothesis_def add_event_def add_gap_def
      add_relation_def held_def order_of_def fun_eq_iff split: route_object_kind.splits)

lemma push_trace_fields [simp]:
  "held (push_trace e s) = held s" "order_of (push_trace e s) = order_of s"
  "sel_trace (push_trace e s) = sel_trace s @ [e]" "sel_omissions (push_trace e s) = sel_omissions s"
  "sel_evidence_ids (push_trace e s) = sel_evidence_ids s" "sel_source_ids (push_trace e s) = sel_source_ids s"
  "sel_seed_question_ids (push_trace e s) = sel_seed_question_ids s"
  "sel_seed_question_order (push_trace e s) = sel_seed_question_order s"
  by (auto simp: push_trace_def held_def order_of_def fun_eq_iff split: route_object_kind.splits)

lemma clear_omission_fields [simp]:
  "held (clear_omission k i s) = held s" "order_of (clear_omission k i s) = order_of s"
  "sel_trace (clear_omission k i s) = sel_trace s"
  "sel_omissions (clear_omission k i s) = filter (\<lambda>x. omission_key x \<noteq> (k, i)) (sel_omissions s)"
  "sel_evidence_ids (clear_omission k i s) = sel_evidence_ids s"
  "sel_source_ids (clear_omission k i s) = sel_source_ids s"
  "sel_seed_question_ids (clear_omission k i s) = sel_seed_question_ids s"
  "sel_seed_question_order (clear_omission k i s) = sel_seed_question_order s"
  by (auto simp: clear_omission_def held_def order_of_def fun_eq_iff split: route_object_kind.splits)

lemma add_resources_fields [simp]:
  "held (add_resources E S s) = held s" "order_of (add_resources E S s) = order_of s"
  "sel_trace (add_resources E S s) = sel_trace s" "sel_omissions (add_resources E S s) = sel_omissions s"
  "sel_evidence_ids (add_resources E S s) = sel_evidence_ids s \<union> E"
  "sel_source_ids (add_resources E S s) = sel_source_ids s \<union> S"
  "sel_seed_question_ids (add_resources E S s) = sel_seed_question_ids s"
  "sel_seed_question_order (add_resources E S s) = sel_seed_question_order s"
  by (auto simp: add_resources_def held_def order_of_def fun_eq_iff split: route_object_kind.splits)

lemma sel_keys_cong: "held t = held s \<Longrightarrow> sel_keys t = sel_keys s"
  by (simp add: sel_keys_def)

lemma omitted_clear: "omitted (clear_omission k i s) = omitted s - {(k, i)}"
  by (auto simp: omitted_def)

lemma core_add_resources [simp]: "core_inv m (add_resources E S s) = core_inv m s"
proof -
  have "sel_keys (add_resources E S s) = sel_keys s" "omitted (add_resources E S s) = omitted s"
    "sel_question_ids (add_resources E S s) = sel_question_ids s"
    by (simp_all add: sel_keys_def omitted_def) (simp add: add_resources_def)
  then show ?thesis by (simp add: core_inv_def)
qed

lemma held_question: "held s route_object_kind.QUESTION = sel_question_ids s"
  and held_hypothesis: "held s route_object_kind.HYPOTHESIS = sel_hypothesis_ids s"
  by (simp_all add: held_def)

text \<open>Expansion entries.\<close>

definition expansion_entry :: "route_object_kind \<Rightarrow> string \<Rightarrow> route_object_kind \<times> string \<Rightarrow> route_trace_entry" where
  "expansion_entry kind i parent =
     \<lparr>rt_stage = GRAPH_EXPANSION, rt_object_kind = kind, rt_object_id = i, rt_channel = None,
      rt_channel_rank = None, rt_semantic_score_hex = None, rt_lexical_score = None,
      rt_parent_object_kind = Some (fst parent), rt_parent_object_id = Some (snd parent)\<rparr>"

lemma expansion_entry_simps [simp]:
  "trace_key (expansion_entry kind i parent) = (kind, i)" "rt_stage (expansion_entry kind i parent) = GRAPH_EXPANSION"
  "trace_parent (expansion_entry kind i parent) = Some parent"
  by (simp_all add: expansion_entry_def trace_key_def trace_parent_def)

lemma model_id_unpadded: "model_id_pattern s \<Longrightarrow> unpadded s"
proof -
  assume p: "model_id_pattern s"
  have "c \<in> set (lower_az @ digits09 @ ''_-'') \<Longrightarrow> \<not> model_space c" for c
    by (auto simp: lower_az_def digits09_def model_space_def)
  moreover have "c \<in> set s \<Longrightarrow> c \<in> set (lower_az @ digits09 @ ''_-'')" for c
    using p by (cases s) (auto simp: model_id_pattern_def matches_head_rest_def list_all_iff)
  ultimately have "\<forall>c \<in> set s. \<not> model_space c" by blast
  then show ?thesis by (cases "s = []") (simp_all add: unpadded_def)
qed

lemma model_id_strip [simp]: "model_id_pattern s \<Longrightarrow> model_strip s = s"
  by (simp add: model_id_unpadded)

lemma expansion_trace_Inr:
  assumes "model_id_pattern i" and "model_id_pattern (snd parent)"
  shows "expansion_trace kind i parent = Inr (expansion_entry kind i parent)"
proof -
  have strip: "model_strip i = i" "model_strip (snd parent) = snd parent" using assms by simp_all
  have "trace_entry_validator (expansion_entry kind i parent) = Inr (expansion_entry kind i parent)"
    by (simp add: trace_entry_validator_def expansion_entry_def)
  with assms show ?thesis
    unfolding expansion_trace_def validate_trace_entry_def Let_def
    by (simp add: strip res_simps opt_field_def expansion_entry_def)
qed

lemma core_add_key:
  assumes core: "core_inv m s" and add: "adds_key k i s t" and fresh: "i \<notin> held s k"
    and known: "i \<in> set (manifest_ids m k)" and parent: "parent \<in> sel_keys s"
  shows "core_inv m (push_trace (expansion_entry k i parent) (clear_omission k i t))"
proof -
  let ?u = "push_trace (expansion_entry k i parent) (clear_omission k i t)"
  have t: "held t = (held s)(k := insert i (held s k))" "order_of t = (order_of s)(k := order_of s k @ [i])"
    "sel_trace t = sel_trace s" "sel_omissions t = sel_omissions s"
    "sel_seed_question_ids t = sel_seed_question_ids s" "sel_seed_question_order t = sel_seed_question_order s"
    using add by (simp_all add: adds_key_def)
  have keys: "sel_keys ?u = insert (k, i) (sel_keys s)" by (auto simp: sel_keys_def t split: if_splits)
  have omitted: "omitted ?u = omitted s - {(k, i)}" by (auto simp: omitted_def t)
  have trace: "sel_trace ?u = sel_trace s @ [expansion_entry k i parent]" by (simp add: t)
  have seeds: "sel_seed_question_ids ?u = sel_seed_question_ids s"
    "sel_seed_question_order ?u = sel_seed_question_order s" by (simp_all add: t)
  have q: "sel_question_ids s \<subseteq> sel_question_ids ?u"
    unfolding held_question [symmetric] by (auto simp: t)
  have c: "\<And>k. distinct (order_of s k)" "\<And>k. set (order_of s k) = held s k"
    "\<And>k. held s k \<subseteq> set (manifest_ids m k)" "distinct (map trace_key (sel_trace s))"
    "trace_key ` set (sel_trace s) = sel_keys s" "trace_parents_loop {} (sel_trace s) = Inr ()"
    "distinct (map omission_key (sel_omissions s))" "omitted s \<inter> sel_keys s = {}"
    "\<forall>(k, i) \<in> omitted s. i \<in> set (manifest_ids m k)" "distinct (sel_seed_question_order s)"
    "set (sel_seed_question_order s) = sel_seed_question_ids s"
    "sel_seed_question_ids s \<subseteq> sel_question_ids s"
    "rt_object_id ` {e \<in> set (sel_trace s). rt_stage e = SEED} = sel_seed_question_ids s"
    using core by (simp_all add: core_inv_def)
  have "distinct (map omission_key (sel_omissions ?u))"
    using c(7) by (simp add: t distinct_map_filter)
  moreover have "(k, i) \<notin> trace_key ` set (sel_trace s)" using c(5) fresh by simp
  moreover have "distinct (order_of ?u x) \<and> set (order_of ?u x) = held ?u x \<and>
      held ?u x \<subseteq> set (manifest_ids m x)" for x
    using c(1,2,3) [of x] fresh known by (cases "x = k") (simp_all add: t)
  moreover have "trace_parents_loop {} (sel_trace ?u) = Inr ()"
    unfolding trace using c(5,6) parent by (simp add: trace_parents_loop_snoc)
  moreover have "distinct (map trace_key (sel_trace ?u))" "trace_key ` set (sel_trace ?u) = sel_keys ?u"
    unfolding trace keys using c(4,5) fresh by simp_all
  moreover have "omitted ?u \<inter> sel_keys ?u = {}" "\<forall>(k, i) \<in> omitted ?u. i \<in> set (manifest_ids m k)"
    unfolding omitted keys using c(8,9) by auto
  moreover have "{e \<in> set (sel_trace ?u). rt_stage e = SEED} = {e \<in> set (sel_trace s). rt_stage e = SEED}"
    unfolding trace by auto
  then have "rt_object_id ` {e \<in> set (sel_trace ?u). rt_stage e = SEED} = sel_seed_question_ids ?u"
    unfolding seeds using c(13) by simp
  moreover have "distinct (sel_seed_question_order ?u)"
    "set (sel_seed_question_order ?u) = sel_seed_question_ids ?u" "sel_seed_question_ids ?u \<subseteq> sel_question_ids ?u"
    unfolding seeds using c(10,11,12) q by auto
  ultimately show ?thesis unfolding core_inv_def by simp
qed

subsection \<open>Growth\<close>

text \<open>What every operation of the expansion keeps: nothing held is given up, the seeds stay,
  and what is accounted for stays accounted for.\<close>

definition sel_grows :: "selection \<Rightarrow> selection \<Rightarrow> bool" where
  "sel_grows s t \<longleftrightarrow>
     (\<forall>k. held s k \<subseteq> held t k) \<and> accounted s \<subseteq> accounted t \<and>
     sel_seed_question_ids t = sel_seed_question_ids s \<and>
     sel_seed_question_order t = sel_seed_question_order s"

lemma sel_grows_refl [simp]: "sel_grows s s"
  by (simp add: sel_grows_def)

lemma sel_grows_trans [trans]: "sel_grows s t \<Longrightarrow> sel_grows t u \<Longrightarrow> sel_grows s u"
  by (simp add: sel_grows_def) blast

lemma sel_grows_add_resources [simp]: "sel_grows s (add_resources E S t) = sel_grows s t"
  by (simp add: sel_grows_def accounted_def omitted_def sel_keys_def)

lemma sel_grows_add_key:
  assumes "adds_key k i s t"
  shows "sel_grows s (push_trace e (clear_omission k i t))"
proof -
  have h: "held t = (held s)(k := insert i (held s k))" "sel_omissions t = sel_omissions s"
    "sel_seed_question_ids t = sel_seed_question_ids s"
    "sel_seed_question_order t = sel_seed_question_order s"
    using assms by (simp_all add: adds_key_def)
  show ?thesis by (auto simp: sel_grows_def accounted_def omitted_def sel_keys_def h)
qed

lemma sel_grows_push_add_key:
  assumes "adds_key k i s t"
  shows "sel_grows s (push_trace e t)"
proof -
  have h: "held t = (held s)(k := insert i (held s k))" "sel_omissions t = sel_omissions s"
    "sel_seed_question_ids t = sel_seed_question_ids s"
    "sel_seed_question_order t = sel_seed_question_order s"
    using assms by (simp_all add: adds_key_def)
  show ?thesis by (auto simp: sel_grows_def accounted_def omitted_def sel_keys_def h)
qed

subsection \<open>Identifiers of a constructed manifest\<close>

lemma constructed_id_pattern:
  assumes "constructed_manifest m" and "i \<in> set (manifest_ids m k)"
  shows "model_id_pattern i"
proof -
  have q: "model_id_pattern (aq_question_id q)" if "validate_question q = Inr q" for q
    using that unfolding validate_question_def Let_def
    by (auto simp: res_simps question_validator_def strip_question_def dest!: arg_cong [where f = aq_question_id])
  have h: "model_id_pattern (ah_hypothesis_id h)" if "validate_hypothesis h = Inr h" for h
    using that unfolding validate_hypothesis_def Let_def
    by (auto simp: res_simps hypothesis_validator_def strip_hypothesis_def dest!: arg_cong [where f = ah_hypothesis_id])
  have r: "model_id_pattern (arl_relation_id r)" if "validate_relation r = Inr r" for r
    using that unfolding validate_relation_def Let_def
    by (auto simp: res_simps relation_validator_def dest!: arg_cong [where f = arl_relation_id])
  have e: "model_id_pattern (ate_event_id e)" if "validate_timeline_event e = Inr e" for e
    using that unfolding validate_timeline_event_def Let_def
    by (auto simp: res_simps event_boundary_def dest!: arg_cong [where f = ate_event_id])
  have g: "model_id_pattern (agp_gap_id g)" if "validate_gap g = Inr g" for g
    using that unfolding validate_gap_def Let_def
    by (auto simp: res_simps dest!: arg_cong [where f = agp_gap_id])
  show ?thesis
    using assms q h r e g by (cases k) (auto simp: manifest_ids_def constructed_manifest_def)
qed

lemma core_held_known: "core_inv m s \<Longrightarrow> i \<in> held s k \<Longrightarrow> i \<in> set (manifest_ids m k)"
  by (auto simp: core_inv_def)

subsection \<open>Commits\<close>

text \<open>
  Questions and hypotheses are committed by the same loop: an identifier that is held is
  passed over, any other is added at the end with its trace entry, and its omission is
  cleared.
\<close>

locale committing =
  fixes kind :: route_object_kind
    and commit :: "route_object_kind \<times> string \<Rightarrow> string \<Rightarrow> selection \<Rightarrow> selection res"
    and add :: "string \<Rightarrow> selection \<Rightarrow> selection"
  assumes commit_eq: "commit parent i s =
      (if i \<in> held s kind then Inr s
       else res_bind (expansion_trace kind i parent) (\<lambda>e.
         Inr (push_trace e (clear_omission kind i (add i s)))))"
    and add_key: "adds_key kind i s (add i s)"
begin

lemma commit_one:
  assumes "constructed_manifest m" and "core_inv m s" and "parent \<in> sel_keys s"
    and "i \<in> set (manifest_ids m kind)"
  shows "\<exists>t. commit parent i s = Inr t \<and> core_inv m t \<and> sel_grows s t \<and>
    held t = (held s)(kind := insert i (held s kind)) \<and>
    sel_evidence_ids t = sel_evidence_ids s \<and> sel_source_ids t = sel_source_ids s \<and>
    omitted t \<subseteq> omitted s"
proof (cases "i \<in> held s kind")
  case True
  then show ?thesis using assms(2) by (auto simp: commit_eq insert_absorb)
next
  case False
  let ?t = "push_trace (expansion_entry kind i parent) (clear_omission kind i (add i s))"
  have "snd parent \<in> held s (fst parent)" using assms(3) by (cases parent) simp
  then have "model_id_pattern i" "model_id_pattern (snd parent)"
    using constructed_id_pattern [OF assms(1)] assms(2,4) core_held_known by blast+
  then have "commit parent i s = Inr ?t" using False by (simp add: commit_eq expansion_trace_Inr)
  moreover have "core_inv m ?t" by (rule core_add_key [OF assms(2) add_key False assms(4,3)])
  moreover have "sel_grows s ?t" by (rule sel_grows_add_key [OF add_key])
  moreover have "omitted ?t \<subseteq> omitted s" using add_key [of i s] by (auto simp: omitted_def adds_key_def)
  ultimately show ?thesis using add_key [of i s] by (simp add: adds_key_def)
qed

lemma commit_all:
  assumes "constructed_manifest m" and "core_inv m s" and "parent \<in> sel_keys s"
    and "set is \<subseteq> set (manifest_ids m kind)"
  shows "\<exists>t. fold_res (commit parent) is s = Inr t \<and> core_inv m t \<and> sel_grows s t \<and>
    held t = (held s)(kind := held s kind \<union> set is) \<and>
    sel_evidence_ids t = sel_evidence_ids s \<and> sel_source_ids t = sel_source_ids s \<and>
    omitted t \<subseteq> omitted s"
  using assms(2-)
proof (induction "is" arbitrary: s)
  case Nil
  then show ?case by simp
next
  case (Cons i "is")
  obtain t where t: "commit parent i s = Inr t" "core_inv m t" "sel_grows s t"
    "held t = (held s)(kind := insert i (held s kind))"
    "sel_evidence_ids t = sel_evidence_ids s" "sel_source_ids t = sel_source_ids s" "omitted t \<subseteq> omitted s"
    using commit_one [OF assms(1) Cons.prems(1,2)] Cons.prems(3) by force
  have parent: "parent \<in> sel_keys t"
    using t(3) Cons.prems(2) by (cases parent) (auto simp: sel_grows_def)
  have sub: "set is \<subseteq> set (manifest_ids m kind)" using Cons.prems(3) by simp
  obtain u where
    u: "fold_res (commit parent) is t = Inr u" "core_inv m u" "sel_grows t u"
      "held u = (held t)(kind := held t kind \<union> set is)"
      "sel_evidence_ids u = sel_evidence_ids t" "sel_source_ids u = sel_source_ids t"
      "omitted u \<subseteq> omitted t"
    using Cons.IH [OF t(2) parent sub] by blast
  then show ?case using t by (auto intro: sel_grows_trans)
qed

end

interpretation questions: committing route_object_kind.QUESTION commit_question add_question
  by unfold_locales (simp_all add: commit_question_def held_question adds_key_ops)

interpretation hypotheses: committing route_object_kind.HYPOTHESIS commit_hypothesis add_hypothesis
  by unfold_locales (simp_all add: commit_hypothesis_def held_hypothesis adds_key_ops)

subsection \<open>Omissions\<close>

lemma omit_ok:
  assumes "constructed_manifest m" and "core_inv m s" and "i \<in> set (manifest_ids m k)" and "i \<notin> held s k"
  shows "\<exists>t. omit k i reason s = Inr t \<and> core_inv m t \<and> sel_grows s t \<and> (k, i) \<in> accounted t \<and>
    held t = held s \<and> omitted t = insert (k, i) (omitted s) \<and>
    sel_evidence_ids t = sel_evidence_ids s \<and> sel_source_ids t = sel_source_ids s"
proof (cases "(k, i) \<in> omitted s")
  case True
  then have "omit k i reason s = Inr s" by (auto simp: omit_def omitted_def list_ex_iff)
  with True assms(2) show ?thesis by (auto simp: accounted_def)
next
  case False
  define x where "x = \<lparr>ro_object_kind = k, ro_object_id = i, ro_reason = reason\<rparr>"
  let ?t = "s\<lparr>sel_omissions := sel_omissions s @ [x]\<rparr>"
  have "model_id_pattern i" by (rule constructed_id_pattern [OF assms(1,3)])
  then have "validate_omission x = Inr x"
    by (simp add: validate_omission_def x_def Let_def res_simps)
  moreover have "\<not> list_ex (\<lambda>y. omission_key y = (k, i)) (sel_omissions s)"
    using False by (force simp: omitted_def list_ex_iff)
  ultimately have run: "omit k i reason s = Inr ?t" by (simp add: omit_def x_def)
  have same: "held ?t = held s" "order_of ?t = order_of s"
    by (auto simp: held_def order_of_def fun_eq_iff split: route_object_kind.splits)
  then have keys: "sel_keys ?t = sel_keys s" by (simp add: sel_keys_def)
  have x: "omission_key x = (k, i)" by (simp add: omission_key_def x_def)
  then have om: "omitted ?t = insert (k, i) (omitted s)" by (simp add: omitted_def)
  have "core_inv m ?t"
    using assms(2-) False x unfolding core_inv_def keys om same by (auto simp: omitted_def)
  with run same om keys show ?thesis by (auto simp: sel_grows_def accounted_def)
qed

end
