(* ===== verification/Route_Inv.thy ===== *)
theory Route_Inv
  imports Selection_Props
begin

text \<open>
  The full invariant of the budgeted selection, closed under references and within its
  budgets, and its preservation by every admission and by the whole expansion.
\<close>

subsection \<open>The invariant\<close>

text \<open>
  What is in \<open>w\<close> names only what is in \<open>w\<close>, in the evidence \<open>ev\<close> and the sources \<open>src\<close>; the
  end points of a relation are in \<open>ends\<close>.
\<close>

definition closed_on ::
  "research_atlas_manifest \<Rightarrow> (route_object_kind \<Rightarrow> string set) \<Rightarrow> string set \<Rightarrow> string set \<Rightarrow> string set \<Rightarrow> bool" where
  "closed_on m w ends ev src \<longleftrightarrow>
     (\<forall>q \<in> set (am_questions m). aq_question_id q \<in> w route_object_kind.QUESTION \<longrightarrow>
        set (aq_evidence_ids q) \<subseteq> ev) \<and>
     (\<forall>h \<in> set (am_hypotheses m). ah_hypothesis_id h \<in> w route_object_kind.HYPOTHESIS \<longrightarrow>
        set (ah_evidence_ids h) \<union> set (ah_counterevidence_ids h) \<subseteq> ev \<and>
        set (ah_question_ids h) \<subseteq> w route_object_kind.QUESTION) \<and>
     (\<forall>r \<in> set (am_relations m). arl_relation_id r \<in> w RELATION \<longrightarrow>
        {arl_source_hypothesis_id r, arl_target_hypothesis_id r} \<subseteq> ends \<and> set (arl_evidence_ids r) \<subseteq> ev) \<and>
     (\<forall>e \<in> set (am_timeline m). ate_event_id e \<in> w TIMELINE \<longrightarrow>
        set (ate_evidence_ids e) \<subseteq> ev \<and> set (ate_question_ids e) \<subseteq> w route_object_kind.QUESTION \<and>
        set (ate_hypothesis_ids e) \<subseteq> w route_object_kind.HYPOTHESIS) \<and>
     (\<forall>g \<in> set (am_gaps m). agp_gap_id g \<in> w GAP \<longrightarrow>
        set (agp_related_question_ids g) \<subseteq> w route_object_kind.QUESTION \<and>
        set (agp_related_hypothesis_ids g) \<subseteq> w route_object_kind.HYPOTHESIS) \<and>
     (\<forall>e \<in> set (am_evidence m). aev_evidence_id e \<in> ev \<longrightarrow> aev_source_id e \<in> src)"

lemma closed_on_union:
  assumes "closed_on m w ends ev src" and "closed_on m w' ends' ev' src'" and "ends \<union> ends' \<subseteq> ends''"
  shows "closed_on m (\<lambda>k. w k \<union> w' k) ends'' (ev \<union> ev') (src \<union> src')"
proof -
  note c = assms(1) [unfolded closed_on_def] and d = assms(2) [unfolded closed_on_def]
  note c = c [THEN conjunct1] c [THEN conjunct2, THEN conjunct1] c [THEN conjunct2, THEN conjunct2, THEN conjunct1]
    c [THEN conjunct2, THEN conjunct2, THEN conjunct2, THEN conjunct1]
    c [THEN conjunct2, THEN conjunct2, THEN conjunct2, THEN conjunct2, THEN conjunct1]
    c [THEN conjunct2, THEN conjunct2, THEN conjunct2, THEN conjunct2, THEN conjunct2]
  note d = d [THEN conjunct1] d [THEN conjunct2, THEN conjunct1] d [THEN conjunct2, THEN conjunct2, THEN conjunct1]
    d [THEN conjunct2, THEN conjunct2, THEN conjunct2, THEN conjunct1]
    d [THEN conjunct2, THEN conjunct2, THEN conjunct2, THEN conjunct2, THEN conjunct1]
    d [THEN conjunct2, THEN conjunct2, THEN conjunct2, THEN conjunct2, THEN conjunct2]
  show ?thesis
    unfolding closed_on_def
  proof (intro conjI)
    show "\<forall>q \<in> set (am_questions m). aq_question_id q \<in> w route_object_kind.QUESTION \<union> w' route_object_kind.QUESTION \<longrightarrow>
        set (aq_evidence_ids q) \<subseteq> ev \<union> ev'" using c(1) d(1) by blast
    show "\<forall>h \<in> set (am_hypotheses m).
        ah_hypothesis_id h \<in> w route_object_kind.HYPOTHESIS \<union> w' route_object_kind.HYPOTHESIS \<longrightarrow>
        set (ah_evidence_ids h) \<union> set (ah_counterevidence_ids h) \<subseteq> ev \<union> ev' \<and>
        set (ah_question_ids h) \<subseteq> w route_object_kind.QUESTION \<union> w' route_object_kind.QUESTION"
      using c(2) d(2) by blast
    show "\<forall>r \<in> set (am_relations m). arl_relation_id r \<in> w RELATION \<union> w' RELATION \<longrightarrow>
        {arl_source_hypothesis_id r, arl_target_hypothesis_id r} \<subseteq> ends'' \<and>
        set (arl_evidence_ids r) \<subseteq> ev \<union> ev'" using c(3) d(3) assms(3) by blast
    show "\<forall>e \<in> set (am_timeline m). ate_event_id e \<in> w TIMELINE \<union> w' TIMELINE \<longrightarrow>
        set (ate_evidence_ids e) \<subseteq> ev \<union> ev' \<and>
        set (ate_question_ids e) \<subseteq> w route_object_kind.QUESTION \<union> w' route_object_kind.QUESTION \<and>
        set (ate_hypothesis_ids e) \<subseteq> w route_object_kind.HYPOTHESIS \<union> w' route_object_kind.HYPOTHESIS"
      using c(4) d(4) by blast
    show "\<forall>g \<in> set (am_gaps m). agp_gap_id g \<in> w GAP \<union> w' GAP \<longrightarrow>
        set (agp_related_question_ids g) \<subseteq> w route_object_kind.QUESTION \<union> w' route_object_kind.QUESTION \<and>
        set (agp_related_hypothesis_ids g) \<subseteq> w route_object_kind.HYPOTHESIS \<union> w' route_object_kind.HYPOTHESIS"
      using c(5) d(5) by blast
    show "\<forall>e \<in> set (am_evidence m). aev_evidence_id e \<in> ev \<union> ev' \<longrightarrow> aev_source_id e \<in> src \<union> src'"
      using c(6) d(6) by blast
  qed
qed

definition closed_inv :: "research_atlas_manifest \<Rightarrow> selection \<Rightarrow> bool" where
  "closed_inv m s \<longleftrightarrow>
     closed_on m (held s) (held s route_object_kind.HYPOTHESIS) (sel_evidence_ids s) (sel_source_ids s)"

definition budget_inv :: "route_budget \<Rightarrow> selection \<Rightarrow> bool" where
  "budget_inv b s \<longleftrightarrow>
     (\<forall>k. int (card (held s k)) \<le> budget_of b k) \<and>
     finite (sel_evidence_ids s) \<and> int (card (sel_evidence_ids s)) \<le> rb_max_evidence b \<and>
     finite (sel_source_ids s) \<and> int (card (sel_source_ids s)) \<le> rb_max_sources b"

definition route_inv :: "research_atlas_manifest \<Rightarrow> route_budget \<Rightarrow> selection \<Rightarrow> bool" where
  "route_inv m b s \<longleftrightarrow> core_inv m s \<and> closed_inv m s \<and> budget_inv b s"

text \<open>A demand that names only what it brings along, or what is already held.\<close>

definition demand_closed :: "research_atlas_manifest \<Rightarrow> selection \<Rightarrow> demand \<Rightarrow> bool" where
  "demand_closed m s d \<longleftrightarrow>
     closed_on m (wants d) (held s route_object_kind.HYPOTHESIS) (dm_evidence d) (dm_sources d) \<and>
     finite (dm_evidence d) \<and> finite (dm_sources d)"

lemma wants_kinds [simp]:
  "wants d route_object_kind.QUESTION = dm_questions d"
  "wants d route_object_kind.HYPOTHESIS = dm_hypotheses d" "wants d RELATION = dm_relations d"
  "wants d TIMELINE = dm_events d" "wants d GAP = dm_gaps d"
  by (simp_all add: wants_def)

lemma route_inv_extends:
  assumes "route_inv m b s" and "demand_closed m s d" and "capacity_reason b s d = None"
    and "core_inv m t" and "\<And>k. held t k = held s k \<union> wants d k"
    and "sel_evidence_ids t = sel_evidence_ids s \<union> dm_evidence d"
    and "sel_source_ids t = sel_source_ids s \<union> dm_sources d"
  shows "route_inv m b t"
proof -
  have closed: "closed_inv m s" and budget: "budget_inv b s" using assms(1) by (auto simp: route_inv_def)
  have held: "held t = (\<lambda>k. held s k \<union> wants d k)" using assms(5) by blast
  have "closed_on m (wants d) (held s route_object_kind.HYPOTHESIS) (dm_evidence d) (dm_sources d)"
    using assms(2) by (simp add: demand_closed_def)
  then have "closed_on m (\<lambda>k. held s k \<union> wants d k) (held t route_object_kind.HYPOTHESIS)
      (sel_evidence_ids s \<union> dm_evidence d) (sel_source_ids s \<union> dm_sources d)"
    by (rule closed_on_union [OF closed [unfolded closed_inv_def]]) (simp add: held)
  then have "closed_inv m t" by (simp only: closed_inv_def held assms(6,7))
  moreover have "budget_inv b t"
    using budget assms(2,3) unfolding budget_inv_def capacity_reason_None demand_closed_def
    by (simp add: assms(5-7))
  ultimately show ?thesis using assms(4) by (simp add: route_inv_def)
qed

lemma route_inv_omits:
  assumes "route_inv m b s" and "core_inv m t" and "held t = held s"
    and "sel_evidence_ids t = sel_evidence_ids s" and "sel_source_ids t = sel_source_ids s"
  shows "route_inv m b t"
  using assms unfolding route_inv_def closed_inv_def budget_inv_def by simp

subsection \<open>Resources\<close>

lemma lookup_all:
  assumes "distinct (map key xs)" and "set is \<subseteq> key ` set xs"
  shows "\<exists>ys. map_res (require_key key xs) is = Inr ys \<and> map key ys = is \<and>
    set ys = {x \<in> set xs. key x \<in> set is}"
  using assms(2)
proof (induction "is")
  case Nil
  then show ?case by simp
next
  case (Cons i "is")
  then obtain x where x: "x \<in> set xs" "key x = i" by auto
  with assms(1) have "require_key key xs i = Inr x" by (simp add: require_key_Inr)
  moreover obtain ys where "map_res (require_key key xs) is = Inr ys" "map key ys = is"
    "set ys = {x \<in> set xs. key x \<in> set is}" using Cons by auto
  moreover have "{x \<in> set xs. key x \<in> set (i # is)} = insert x {x \<in> set xs. key x \<in> set is}"
    using x assms(1) by (auto simp: distinct_map dest: inj_onD)
  ultimately show ?case using x by auto
qed

lemma resource_closure_ok:
  assumes graph: "graph_closed m"
    and "set qids \<subseteq> set (manifest_ids m route_object_kind.QUESTION)"
    and "set hids \<subseteq> set (manifest_ids m route_object_kind.HYPOTHESIS)"
    and "set extra \<subseteq> aev_evidence_id ` set (am_evidence m)"
  obtains E S where "resource_closure m qids hids extra = Inr (E, S)" and "finite E" and "finite S"
    and "set extra \<subseteq> E"
    and "\<forall>q \<in> set (am_questions m). aq_question_id q \<in> set qids \<longrightarrow> set (aq_evidence_ids q) \<subseteq> E"
    and "\<forall>h \<in> set (am_hypotheses m). ah_hypothesis_id h \<in> set hids \<longrightarrow>
      set (ah_evidence_ids h) \<union> set (ah_counterevidence_ids h) \<subseteq> E"
    and "\<forall>e \<in> set (am_evidence m). aev_evidence_id e \<in> E \<longrightarrow> aev_source_id e \<in> S"
proof -
  have g: "distinct (map aq_question_id (am_questions m))" "distinct (map ah_hypothesis_id (am_hypotheses m))"
    "distinct (map aev_evidence_id (am_evidence m))"
    "\<forall>q \<in> set (am_questions m). set (aq_evidence_ids q) \<subseteq> aev_evidence_id ` set (am_evidence m)"
    "\<forall>h \<in> set (am_hypotheses m).
       set (ah_evidence_ids h) \<union> set (ah_counterevidence_ids h) \<subseteq> aev_evidence_id ` set (am_evidence m)"
    using graph by (simp_all add: graph_closed_def)
  obtain qs where qs: "map_res (require_key aq_question_id (am_questions m)) qids = Inr qs"
    "set qs = {q \<in> set (am_questions m). aq_question_id q \<in> set qids}"
    using lookup_all [OF g(1), of qids] assms(2) by (auto simp: manifest_ids_def)
  obtain hs where hs: "map_res (require_key ah_hypothesis_id (am_hypotheses m)) hids = Inr hs"
    "set hs = {h \<in> set (am_hypotheses m). ah_hypothesis_id h \<in> set hids}"
    using lookup_all [OF g(2), of hids] assms(3) by (auto simp: manifest_ids_def)
  define ids where "ids = extra @ concat (map aq_evidence_ids qs) @
      concat (map (\<lambda>h. ah_evidence_ids h @ ah_counterevidence_ids h) hs)"
  have "set ids \<subseteq> aev_evidence_id ` set (am_evidence m)"
    by (simp add: ids_def UN_subset_iff assms(4) qs(2) hs(2) g(4) g(5) [simplified])
  then obtain es where es: "map_res (require_key aev_evidence_id (am_evidence m)) ids = Inr es"
    "set es = {e \<in> set (am_evidence m). aev_evidence_id e \<in> set ids}"
    using lookup_all [OF g(3), of ids] by auto
  have "resource_closure m qids hids extra = Inr (set ids, set (map aev_source_id es))"
    unfolding resource_closure_def qs(1) hs(1) res_bind_Inr Let_def ids_def [symmetric] es(1) by (rule refl)
  then show thesis
  proof (rule that)
    show "set extra \<subseteq> set ids" by (simp add: ids_def)
    show "\<forall>q \<in> set (am_questions m). aq_question_id q \<in> set qids \<longrightarrow> set (aq_evidence_ids q) \<subseteq> set ids"
      using qs(2) by (auto simp: ids_def)
    show "\<forall>h \<in> set (am_hypotheses m). ah_hypothesis_id h \<in> set hids \<longrightarrow>
      set (ah_evidence_ids h) \<union> set (ah_counterevidence_ids h) \<subseteq> set ids"
      using hs(2) by (auto simp: ids_def)
    show "\<forall>e \<in> set (am_evidence m). aev_evidence_id e \<in> set ids \<longrightarrow> aev_source_id e \<in> set (map aev_source_id es)"
      using es(2) by auto
  qed simp_all
qed

subsection \<open>Admissions\<close>

text \<open>
  What an admission of \<open>i\<close> of kind \<open>K\<close> leaves: the invariant holds, nothing was given up, \<open>i\<close>
  is admitted or omitted, and outside questions and hypotheses only \<open>i\<close> is new.
\<close>

definition touches_only :: "route_object_kind \<Rightarrow> string \<Rightarrow> selection \<Rightarrow> selection \<Rightarrow> bool" where
  "touches_only K i s t \<longleftrightarrow>
     (\<forall>k j. (k, j) \<in> accounted t \<longrightarrow> k \<notin> {route_object_kind.QUESTION, route_object_kind.HYPOTHESIS} \<longrightarrow>
        (k, j) \<in> accounted s \<or> (k, j) = (K, i))"

definition settled ::
  "research_atlas_manifest \<Rightarrow> route_budget \<Rightarrow> route_object_kind \<Rightarrow> string \<Rightarrow> selection \<Rightarrow> selection \<Rightarrow> bool" where
  "settled m b K i s t \<longleftrightarrow>
     route_inv m b t \<and> sel_grows s t \<and> (K, i) \<in> accounted t \<and> touches_only K i s t"

lemma settled_omit:
  assumes "constructed_manifest m" and "route_inv m b s" and "i \<in> set (manifest_ids m K)" and "i \<notin> held s K"
  shows "\<exists>t. omit K i reason s = Inr t \<and> settled m b K i s t \<and> held t = held s"
proof -
  have core: "core_inv m s" using assms(2) by (simp add: route_inv_def)
  obtain t where t: "omit K i reason s = Inr t" "core_inv m t" "sel_grows s t" "(K, i) \<in> accounted t"
    "held t = held s" "omitted t = insert (K, i) (omitted s)"
    "sel_evidence_ids t = sel_evidence_ids s" "sel_source_ids t = sel_source_ids s"
    using omit_ok [OF assms(1) core assms(3,4), of reason] by blast
  have "route_inv m b t" by (rule route_inv_omits [OF assms(2) t(2,5,7,8)])
  moreover have "touches_only K i s t"
    using t(5,6) by (auto simp: touches_only_def accounted_def sel_keys_def)
  ultimately show ?thesis using t by (auto simp: settled_def)
qed

text \<open>
  Adding the object itself after its commits, with the resources of its demand.
\<close>

lemma settled_add:
  assumes inv: "route_inv m b s" and d: "demand_closed m s d" "capacity_reason b s d = None"
    and mid: "core_inv m s2" "sel_grows s s2" "omitted s2 \<subseteq> omitted s"
      "sel_evidence_ids s2 = sel_evidence_ids s" "sel_source_ids s2 = sel_source_ids s"
    and add: "adds_key K i s2 s3" "i \<notin> held s2 K" "i \<in> set (manifest_ids m K)" "parent \<in> sel_keys s2"
    and held: "\<And>k. ((held s2)(K := insert i (held s2 K))) k = held s k \<union> wants d k"
    and only: "\<And>k. k \<notin> {route_object_kind.QUESTION, route_object_kind.HYPOTHESIS} \<Longrightarrow>
      wants d k \<subseteq> (if k = K then {i} else {})"
  shows "settled m b K i s (add_resources (dm_evidence d) (dm_sources d)
    (push_trace (expansion_entry K i parent) (clear_omission K i s3)))"
    (is "settled m b K i s ?t")
proof -
  have a: "held s3 = (held s2)(K := insert i (held s2 K))" "sel_omissions s3 = sel_omissions s2"
    "sel_evidence_ids s3 = sel_evidence_ids s2" "sel_source_ids s3 = sel_source_ids s2"
    using add(1) by (simp_all add: adds_key_def)
  have ht: "held ?t k = held s k \<union> wants d k" for k using held [of k] by (simp add: a(1))
  have core: "core_inv m ?t" by (simp add: core_add_key [OF mid(1) add])
  have "route_inv m b ?t"
    by (rule route_inv_extends [OF inv d core ht]) (simp_all add: a mid)
  moreover have "sel_grows s ?t"
    using sel_grows_trans [OF mid(2) sel_grows_add_key [OF add(1)]] by simp
  moreover have om: "omitted ?t \<subseteq> omitted s" using mid(3) by (auto simp: omitted_def a)
  moreover have "i \<in> held ?t K" by (simp add: a(1))
  moreover have "touches_only K i s ?t"
    unfolding touches_only_def
  proof (intro allI impI)
    fix k j
    assume "(k, j) \<in> accounted ?t" and k: "k \<notin> {route_object_kind.QUESTION, route_object_kind.HYPOTHESIS}"
    then consider "j \<in> held s k" | "j \<in> wants d k" | "(k, j) \<in> omitted s"
      using om ht [of k] by (auto simp: accounted_def)
    then show "(k, j) \<in> accounted s \<or> (k, j) = (K, i)"
      using only [OF k] by cases (auto simp: accounted_def split: if_splits)
  qed
  ultimately show ?thesis by (auto simp: settled_def accounted_def)
qed

lemma distinct_key_unique:
  "distinct (map key xs) \<Longrightarrow> x \<in> set xs \<Longrightarrow> y \<in> set xs \<Longrightarrow> key x = key y \<Longrightarrow> x = y"
  by (auto simp: distinct_map dest: inj_onD)

lemma seed_held: "core_inv m s \<Longrightarrow> i \<in> set (sel_seed_question_order s) \<Longrightarrow> i \<in> held s route_object_kind.QUESTION"
  by (auto simp: core_inv_def held_question)

lemma admit_hypothesis_ok:
  assumes con: "constructed_manifest m" and inv: "route_inv m b s"
    and h: "h \<in> set (am_hypotheses m)" and seeds: "meets (sel_seed_question_ids s) (ah_question_ids h)"
  shows "\<exists>t. admit_hypothesis m b (ah_hypothesis_id h) s = Inr t \<and>
    settled m b route_object_kind.HYPOTHESIS (ah_hypothesis_id h) s t"
proof (cases "ah_hypothesis_id h \<in> sel_hypothesis_ids s")
  case True
  then show ?thesis
    using inv by (auto simp: admit_hypothesis_def settled_def accounted_def touches_only_def held_hypothesis)
next
  case False
  let ?i = "ah_hypothesis_id h" and ?H = route_object_kind.HYPOTHESIS and ?Q = route_object_kind.QUESTION
  note graph = constructed_graph [OF con]
  have core: "core_inv m s" using inv by (simp add: route_inv_def)
  have known: "?i \<in> set (manifest_ids m ?H)" using h by (simp add: manifest_ids_def)
  have fresh: "?i \<notin> held s ?H" using False by (simp add: held_hypothesis)
  have dist: "distinct (map ah_hypothesis_id (am_hypotheses m))" using graph by (simp add: graph_closed_def)
  have key: "require_key ah_hypothesis_id (am_hypotheses m) ?i = Inr h" by (simp add: require_key_Inr [OF dist] h)
  have same: "\<forall>x \<in> set (am_hypotheses m). ah_hypothesis_id x = ?i \<longrightarrow>
      set (ah_question_ids x) \<subseteq> set (ah_question_ids h)"
    using distinct_key_unique [OF dist _ h] by blast
  have qids: "set (ah_question_ids h) \<subseteq> set (manifest_ids m ?Q)"
    using graph h by (auto simp: graph_closed_def manifest_ids_def)
  obtain E S where res: "resource_closure m (ah_question_ids h) [?i] [] = Inr (E, S)"
    and fin: "finite E" "finite S"
    and ev: "\<forall>q \<in> set (am_questions m). aq_question_id q \<in> set (ah_question_ids h) \<longrightarrow> set (aq_evidence_ids q) \<subseteq> E"
      "\<forall>x \<in> set (am_hypotheses m). ah_hypothesis_id x \<in> set [?i] \<longrightarrow>
         set (ah_evidence_ids x) \<union> set (ah_counterevidence_ids x) \<subseteq> E"
      "\<forall>e \<in> set (am_evidence m). aev_evidence_id e \<in> E \<longrightarrow> aev_source_id e \<in> S"
    by (rule resource_closure_ok [OF graph qids, of "[?i]" "[]"]) (use known in auto)
  define d where "d = no_demand\<lparr>dm_questions := set (ah_question_ids h), dm_hypotheses := {?i},
    dm_evidence := E, dm_sources := S\<rparr>"
  have d: "dm_questions d = set (ah_question_ids h)" "dm_hypotheses d = {?i}" "dm_relations d = {}"
    "dm_events d = {}" "dm_gaps d = {}" "dm_evidence d = E" "dm_sources d = S"
    by (simp_all add: d_def no_demand_def)
  have closed: "demand_closed m s d"
    using ev fin same by (simp add: demand_closed_def closed_on_def d)
  show ?thesis
  proof (cases "capacity_reason b s d")
    case (Some reason)
    then have "admit_hypothesis m b ?i s = omit ?H ?i reason s"
      using False by (simp add: admit_hypothesis_def key res d_def)
    then show ?thesis using settled_omit [OF con inv known fresh, of reason] by auto
  next
    case None
    obtain p where p: "find (\<lambda>q. q \<in> set (ah_question_ids h)) (sel_seed_question_order s) = Some p"
      using seeds core by (cases "find (\<lambda>q. q \<in> set (ah_question_ids h)) (sel_seed_question_order s)")
        (auto simp: meets_def list_ex_iff find_None_iff core_inv_def)
    then have "p \<in> set (sel_seed_question_order s)" by (auto simp: find_Some_iff)
    then have parent: "(?Q, p) \<in> sel_keys s" using seed_held [OF core] by simp
    obtain s1 where s1: "commit_questions (?Q, p) (ah_question_ids h) s = Inr s1" "core_inv m s1"
      "sel_grows s s1" "held s1 = (held s)(?Q := held s ?Q \<union> set (ah_question_ids h))"
      "sel_evidence_ids s1 = sel_evidence_ids s" "sel_source_ids s1 = sel_source_ids s"
      "omitted s1 \<subseteq> omitted s"
      using questions.commit_all [OF con core parent qids] unfolding commit_questions_def by blast
    let ?t = "add_resources (dm_evidence d) (dm_sources d)
        (push_trace (expansion_entry ?H ?i (?Q, p)) (clear_omission ?H ?i (add_hypothesis ?i s1)))"
    have "model_id_pattern ?i" "model_id_pattern p"
      using constructed_id_pattern [OF con] known core_held_known [OF core] parent by auto
    then have "admit_hypothesis m b ?i s = Inr ?t"
      using False None p s1(1)
      by (simp add: admit_hypothesis_def key res d_def [symmetric] expansion_trace_Inr d(6,7))
    moreover have "settled m b ?H ?i s ?t"
    proof (rule settled_add [OF inv closed None s1(2,3,7,5,6) adds_key_ops(2) _ known])
      show "?i \<notin> held s1 ?H" "(?Q, p) \<in> sel_keys s1" using fresh parent by (simp_all add: s1(4))
      show "((held s1)(?H := insert ?i (held s1 ?H))) k = held s k \<union> wants d k" for k
        by (cases k) (simp_all add: s1(4) d)
      show "wants d k \<subseteq> (if k = ?H then {?i} else {})" if "k \<notin> {?Q, ?H}" for k
        using that by (cases k) (simp_all add: d)
    qed
    ultimately show ?thesis by blast
  qed
qed

text \<open>The parent of a linked object: a seed it names, or a linked hypothesis it names.\<close>

lemma linked_parent_ok:
  assumes core: "core_inv m s" and linked: "linked \<subseteq> held s route_object_kind.HYPOTHESIS"
    and "meets (sel_seed_question_ids s) qids \<or> meets linked hids"
  shows "\<exists>p. linked_parent qids hids linked s = Inr p \<and> p \<in> sel_keys s"
proof (cases "find (\<lambda>i. i \<in> set qids) (sel_seed_question_order s)")
  case (Some i)
  then have "i \<in> set (sel_seed_question_order s)" by (auto simp: find_Some_iff)
  with Some show ?thesis using seed_held [OF core] by (auto simp: linked_parent_def)
next
  case None
  have "set (sel_seed_question_order s) = sel_seed_question_ids s" using core by (simp add: core_inv_def)
  with None assms(3) have "meets linked hids" by (auto simp: meets_def list_ex_iff find_None_iff)
  then obtain j where j: "j \<in> set hids" "j \<in> linked" by (auto simp: meets_def list_ex_iff)
  have order: "set (sel_hypothesis_order s) = held s route_object_kind.HYPOTHESIS"
    using core by (auto simp: core_inv_def order_of_def dest: spec [of _ route_object_kind.HYPOTHESIS])
  with j linked have "find (\<lambda>i. i \<in> set hids \<and> i \<in> linked) (sel_hypothesis_order s) \<noteq> None"
    by (auto simp: find_None_iff)
  then obtain i where i: "find (\<lambda>i. i \<in> set hids \<and> i \<in> linked) (sel_hypothesis_order s) = Some i" by blast
  then have "i \<in> held s route_object_kind.HYPOTHESIS" unfolding order [symmetric] by (auto simp: find_Some_iff)
  with None i show ?thesis by (simp add: linked_parent_def)
qed

text \<open>Events and gaps.\<close>

lemma admit_linked_ok:
  assumes con: "constructed_manifest m" and inv: "route_inv m b s"
    and K: "K \<noteq> route_object_kind.QUESTION" "K \<noteq> route_object_kind.HYPOTHESIS"
    and known: "i \<in> set (manifest_ids m K)" and fresh: "i \<notin> held s K"
    and add: "\<And>u. adds_key K i u (add u)"
    and closed: "demand_closed m s d"
    and wants: "\<And>k. wants d k = (if k = route_object_kind.QUESTION then set required
      else if k = route_object_kind.HYPOTHESIS then set hids else if k = K then {i} else {})"
    and ids: "set required \<subseteq> set (manifest_ids m route_object_kind.QUESTION)"
      "set hids \<subseteq> set (manifest_ids m route_object_kind.HYPOTHESIS)"
    and linked: "linked \<subseteq> held s route_object_kind.HYPOTHESIS"
      "meets (sel_seed_question_ids s) qids \<or> meets linked hids"
  shows "\<exists>t. admit_linked b K i qids hids required d add linked s = Inr t \<and> settled m b K i s t"
proof (cases "capacity_reason b s d")
  case (Some reason)
  then show ?thesis using settled_omit [OF con inv known fresh, of reason] by (auto simp: admit_linked_def)
next
  case None
  let ?H = route_object_kind.HYPOTHESIS and ?Q = route_object_kind.QUESTION
  have core: "core_inv m s" using inv by (simp add: route_inv_def)
  obtain p where p: "linked_parent qids hids linked s = Inr p" "p \<in> sel_keys s"
    using linked_parent_ok [OF core linked] by blast
  obtain s1 where s1: "commit_questions p required s = Inr s1" "core_inv m s1"
    "sel_grows s s1" "held s1 = (held s)(?Q := held s ?Q \<union> set required)"
    "sel_evidence_ids s1 = sel_evidence_ids s" "sel_source_ids s1 = sel_source_ids s" "omitted s1 \<subseteq> omitted s"
    using questions.commit_all [OF con core p(2) ids(1)] unfolding commit_questions_def by blast
  have p1: "p \<in> sel_keys s1" using p(2) s1(3) by (cases p) (auto simp: sel_grows_def)
  obtain s2 where s2: "commit_hypotheses p hids s1 = Inr s2" "core_inv m s2"
    "sel_grows s1 s2" "held s2 = (held s1)(?H := held s1 ?H \<union> set hids)"
    "sel_evidence_ids s2 = sel_evidence_ids s1" "sel_source_ids s2 = sel_source_ids s1" "omitted s2 \<subseteq> omitted s1"
    using hypotheses.commit_all [OF con s1(2) p1 ids(2)] unfolding commit_hypotheses_def by blast
  have p2: "p \<in> sel_keys s2" using p1 s2(3) by (cases p) (auto simp: sel_grows_def)
  have "model_id_pattern i" by (rule constructed_id_pattern [OF con known])
  moreover have "model_id_pattern (snd p)"
    using constructed_id_pattern [OF con core_held_known [OF core]] p(2) by (cases p) auto
  ultimately have "admit_linked b K i qids hids required d add linked s =
      Inr (add_resources (dm_evidence d) (dm_sources d)
        (push_trace (expansion_entry K i p) (clear_omission K i (add s2))))"
    by (simp add: admit_linked_def None p(1) s1(1) s2(1) expansion_trace_Inr)
  moreover have "settled m b K i s (add_resources (dm_evidence d) (dm_sources d)
        (push_trace (expansion_entry K i p) (clear_omission K i (add s2))))"
  proof (rule settled_add [OF inv closed None s2(2) sel_grows_trans [OF s1(3) s2(3)] _ _ _ add _ known p2])
    show "omitted s2 \<subseteq> omitted s" using s1(7) s2(7) by blast
    show "sel_evidence_ids s2 = sel_evidence_ids s" "sel_source_ids s2 = sel_source_ids s"
      using s1 s2 by simp_all
    show "i \<notin> held s2 K" using fresh K by (simp add: s1(4) s2(4))
    show "((held s2)(K := insert i (held s2 K))) k = held s k \<union> wants d k" for k
      using K unfolding wants by (simp add: s1(4) s2(4))
    show "wants d k \<subseteq> (if k = K then {i} else {})" if "k \<notin> {?Q, ?H}" for k
      using that unfolding wants by simp
  qed
  ultimately show ?thesis by blast
qed

lemma required_questions_ok:
  assumes graph: "graph_closed m"
    and ids: "set qids \<subseteq> set (manifest_ids m route_object_kind.QUESTION)"
      "set hids \<subseteq> set (manifest_ids m route_object_kind.HYPOTHESIS)"
  obtains required where "required_questions m qids hids = Inr required"
    and "set qids \<subseteq> set required"
    and "\<forall>h \<in> set (am_hypotheses m). ah_hypothesis_id h \<in> set hids \<longrightarrow>
      set (ah_question_ids h) \<subseteq> set required"
    and "set required \<subseteq> set (manifest_ids m route_object_kind.QUESTION)"
proof -
  have d: "distinct (map ah_hypothesis_id (am_hypotheses m))"
    and q: "\<forall>h \<in> set (am_hypotheses m). set (ah_question_ids h) \<subseteq> set (manifest_ids m route_object_kind.QUESTION)"
    using graph by (simp_all add: graph_closed_def manifest_ids_def)
  obtain hs where hs: "map_res (require_key ah_hypothesis_id (am_hypotheses m)) hids = Inr hs"
    "set hs = {h \<in> set (am_hypotheses m). ah_hypothesis_id h \<in> set hids}"
    using lookup_all [OF d, of hids] ids(2) by (auto simp: manifest_ids_def)
  show thesis
  proof (rule that)
    show "required_questions m qids hids = Inr (first_occurrences (qids @ concat (map ah_question_ids hs)))"
      by (simp add: required_questions_def hs(1))
    show "\<forall>h \<in> set (am_hypotheses m). ah_hypothesis_id h \<in> set hids \<longrightarrow>
      set (ah_question_ids h) \<subseteq> set (first_occurrences (qids @ concat (map ah_question_ids hs)))"
      using hs(2) by auto
    show "set (first_occurrences (qids @ concat (map ah_question_ids hs)))
      \<subseteq> set (manifest_ids m route_object_kind.QUESTION)"
      using ids(1) q hs(2) by (simp add: UN_subset_iff)
  qed simp
qed

end
