(* ===== verification/Route_Expansion.thy ===== *)
theory Route_Expansion
  imports Route_Inv
begin

text \<open>
  The steps and loops of the budgeted route: events, gaps and relations are settled, the
  seeds of a receipt are settled in order, and the expansion of the graph keeps the
  invariant and accounts for every linked object.
\<close>

subsection \<open>Events, gaps and relations\<close>

lemma admit_event_ok:
  assumes con: "constructed_manifest m" and inv: "route_inv m b s"
    and e: "e \<in> set (am_timeline m)" and fresh: "ate_event_id e \<notin> held s TIMELINE"
    and linked: "linked \<subseteq> held s route_object_kind.HYPOTHESIS"
      "meets (sel_seed_question_ids s) (ate_question_ids e) \<or> meets linked (ate_hypothesis_ids e)"
  shows "\<exists>t. admit_event m b linked (ate_event_id e) s = Inr t \<and>
    settled m b TIMELINE (ate_event_id e) s t"
proof -
  note graph = constructed_graph [OF con]
  have dist: "distinct (map ate_event_id (am_timeline m))"
    and refs: "set (ate_evidence_ids e) \<subseteq> aev_evidence_id ` set (am_evidence m)"
      "set (ate_question_ids e) \<subseteq> set (manifest_ids m route_object_kind.QUESTION)"
      "set (ate_hypothesis_ids e) \<subseteq> set (manifest_ids m route_object_kind.HYPOTHESIS)"
    using graph e by (simp_all add: graph_closed_def manifest_ids_def)
  have key: "require_key ate_event_id (am_timeline m) (ate_event_id e) = Inr e"
    by (simp add: require_key_Inr [OF dist] e)
  have same: "\<forall>x \<in> set (am_timeline m). ate_event_id x = ate_event_id e \<longrightarrow> x = e"
    using distinct_key_unique [OF dist _ e] by blast
  obtain required where req: "required_questions m (ate_question_ids e) (ate_hypothesis_ids e) = Inr required"
    "set (ate_question_ids e) \<subseteq> set required"
    "\<forall>h \<in> set (am_hypotheses m). ah_hypothesis_id h \<in> set (ate_hypothesis_ids e) \<longrightarrow>
      set (ah_question_ids h) \<subseteq> set required"
    "set required \<subseteq> set (manifest_ids m route_object_kind.QUESTION)"
    by (rule required_questions_ok [OF graph refs(2,3)])
  obtain E S where res: "resource_closure m required (ate_hypothesis_ids e) (ate_evidence_ids e) = Inr (E, S)"
    "finite E" "finite S" "set (ate_evidence_ids e) \<subseteq> E"
    "\<forall>q \<in> set (am_questions m). aq_question_id q \<in> set required \<longrightarrow> set (aq_evidence_ids q) \<subseteq> E"
    "\<forall>h \<in> set (am_hypotheses m). ah_hypothesis_id h \<in> set (ate_hypothesis_ids e) \<longrightarrow>
       set (ah_evidence_ids h) \<union> set (ah_counterevidence_ids h) \<subseteq> E"
    "\<forall>x \<in> set (am_evidence m). aev_evidence_id x \<in> E \<longrightarrow> aev_source_id x \<in> S"
    by (rule resource_closure_ok [OF graph req(4) refs(3,1)])
  define d where "d = no_demand\<lparr>dm_questions := set required, dm_hypotheses := set (ate_hypothesis_ids e),
    dm_events := {ate_event_id e}, dm_evidence := E, dm_sources := S\<rparr>"
  have d: "dm_questions d = set required" "dm_hypotheses d = set (ate_hypothesis_ids e)" "dm_relations d = {}"
    "dm_events d = {ate_event_id e}" "dm_gaps d = {}" "dm_evidence d = E" "dm_sources d = S"
    by (simp_all add: d_def no_demand_def)
  have "\<forall>x \<in> set (am_timeline m). ate_event_id x = ate_event_id e \<longrightarrow> set (ate_evidence_ids x) \<subseteq> E \<and>
      set (ate_question_ids x) \<subseteq> set required \<and> set (ate_hypothesis_ids x) \<subseteq> set (ate_hypothesis_ids e)"
    using same res(4) req(2) by (metis subset_refl)
  then have closed: "demand_closed m s d"
    using res req by (simp add: demand_closed_def closed_on_def d)
  have "admit_event m b linked (ate_event_id e) s =
      admit_linked b TIMELINE (ate_event_id e) (ate_question_ids e) (ate_hypothesis_ids e) required d
        (add_event (ate_event_id e)) linked s"
    by (simp add: admit_event_def key req(1) res(1) d_def)
  moreover have "wants d k = (if k = route_object_kind.QUESTION then set required
      else if k = route_object_kind.HYPOTHESIS then set (ate_hypothesis_ids e)
      else if k = TIMELINE then {ate_event_id e} else {})" for k
    by (cases k) (simp_all add: d)
  ultimately show ?thesis
    using admit_linked_ok [OF con inv _ _ _ fresh adds_key_ops(3) closed _ req(4) refs(3) linked] e
    by (simp add: manifest_ids_def)
qed

lemma admit_gap_ok:
  assumes con: "constructed_manifest m" and inv: "route_inv m b s"
    and g: "g \<in> set (am_gaps m)" and fresh: "agp_gap_id g \<notin> held s GAP"
    and linked: "linked \<subseteq> held s route_object_kind.HYPOTHESIS"
      "meets (sel_seed_question_ids s) (agp_related_question_ids g) \<or> meets linked (agp_related_hypothesis_ids g)"
  shows "\<exists>t. admit_gap m b linked (agp_gap_id g) s = Inr t \<and> settled m b GAP (agp_gap_id g) s t"
proof -
  note graph = constructed_graph [OF con]
  have dist: "distinct (map agp_gap_id (am_gaps m))"
    and refs: "set (agp_related_question_ids g) \<subseteq> set (manifest_ids m route_object_kind.QUESTION)"
      "set (agp_related_hypothesis_ids g) \<subseteq> set (manifest_ids m route_object_kind.HYPOTHESIS)"
    using graph g by (simp_all add: graph_closed_def manifest_ids_def)
  have key: "require_key agp_gap_id (am_gaps m) (agp_gap_id g) = Inr g"
    by (simp add: require_key_Inr [OF dist] g)
  have same: "\<forall>x \<in> set (am_gaps m). agp_gap_id x = agp_gap_id g \<longrightarrow> x = g"
    using distinct_key_unique [OF dist _ g] by blast
  obtain required where
    req: "required_questions m (agp_related_question_ids g) (agp_related_hypothesis_ids g) = Inr required"
    "set (agp_related_question_ids g) \<subseteq> set required"
    "\<forall>h \<in> set (am_hypotheses m). ah_hypothesis_id h \<in> set (agp_related_hypothesis_ids g) \<longrightarrow>
      set (ah_question_ids h) \<subseteq> set required"
    "set required \<subseteq> set (manifest_ids m route_object_kind.QUESTION)"
    by (rule required_questions_ok [OF graph refs])
  obtain E S where res: "resource_closure m required (agp_related_hypothesis_ids g) [] = Inr (E, S)"
    "finite E" "finite S" "set [] \<subseteq> E"
    "\<forall>q \<in> set (am_questions m). aq_question_id q \<in> set required \<longrightarrow> set (aq_evidence_ids q) \<subseteq> E"
    "\<forall>h \<in> set (am_hypotheses m). ah_hypothesis_id h \<in> set (agp_related_hypothesis_ids g) \<longrightarrow>
       set (ah_evidence_ids h) \<union> set (ah_counterevidence_ids h) \<subseteq> E"
    "\<forall>x \<in> set (am_evidence m). aev_evidence_id x \<in> E \<longrightarrow> aev_source_id x \<in> S"
    by (rule resource_closure_ok [OF graph req(4) refs(2), of "[]"]) simp_all
  define d where "d = no_demand\<lparr>dm_questions := set required, dm_hypotheses := set (agp_related_hypothesis_ids g),
    dm_gaps := {agp_gap_id g}, dm_evidence := E, dm_sources := S\<rparr>"
  have d: "dm_questions d = set required" "dm_hypotheses d = set (agp_related_hypothesis_ids g)"
    "dm_relations d = {}" "dm_events d = {}" "dm_gaps d = {agp_gap_id g}" "dm_evidence d = E" "dm_sources d = S"
    by (simp_all add: d_def no_demand_def)
  have "\<forall>x \<in> set (am_gaps m). agp_gap_id x = agp_gap_id g \<longrightarrow>
      set (agp_related_question_ids x) \<subseteq> set required \<and>
      set (agp_related_hypothesis_ids x) \<subseteq> set (agp_related_hypothesis_ids g)"
    using same req(2) by (metis subset_refl)
  then have closed: "demand_closed m s d"
    using res req by (simp add: demand_closed_def closed_on_def d)
  have "admit_gap m b linked (agp_gap_id g) s =
      admit_linked b GAP (agp_gap_id g) (agp_related_question_ids g) (agp_related_hypothesis_ids g) required d
        (add_gap (agp_gap_id g)) linked s"
    by (simp add: admit_gap_def key req(1) res(1) d_def)
  moreover have "wants d k = (if k = route_object_kind.QUESTION then set required
      else if k = route_object_kind.HYPOTHESIS then set (agp_related_hypothesis_ids g)
      else if k = GAP then {agp_gap_id g} else {})" for k
    by (cases k) (simp_all add: d)
  ultimately show ?thesis
    using admit_linked_ok [OF con inv _ _ _ fresh adds_key_ops(4) closed _ req(4) refs(2) linked] g
    by (simp add: manifest_ids_def)
qed

lemma admit_relation_ok:
  assumes con: "constructed_manifest m" and inv: "route_inv m b s"
    and r: "r \<in> set (am_relations m)" and fresh: "(RELATION, arl_relation_id r) \<notin> accounted s"
    and ends: "{arl_source_hypothesis_id r, arl_target_hypothesis_id r} \<subseteq> held s route_object_kind.HYPOTHESIS"
  shows "\<exists>t. admit_relation m b (arl_relation_id r) s = Inr t \<and> settled m b RELATION (arl_relation_id r) s t \<and>
    held t route_object_kind.HYPOTHESIS = held s route_object_kind.HYPOTHESIS"
proof -
  let ?i = "arl_relation_id r" and ?H = route_object_kind.HYPOTHESIS
  note graph = constructed_graph [OF con]
  have core: "core_inv m s" using inv by (simp add: route_inv_def)
  have known: "?i \<in> set (manifest_ids m RELATION)" using r by (simp add: manifest_ids_def)
  have free: "?i \<notin> held s RELATION" "(RELATION, ?i) \<notin> omitted s" using fresh by (auto simp: accounted_def)
  have dist: "distinct (map arl_relation_id (am_relations m))"
    and refs: "set (arl_evidence_ids r) \<subseteq> aev_evidence_id ` set (am_evidence m)"
    using graph r by (simp_all add: graph_closed_def)
  have key: "require_key arl_relation_id (am_relations m) ?i = Inr r"
    by (simp add: require_key_Inr [OF dist] r)
  have same: "\<forall>x \<in> set (am_relations m). arl_relation_id x = ?i \<longrightarrow> x = r"
    using distinct_key_unique [OF dist _ r] by blast
  obtain E S where res: "resource_closure m [] [] (arl_evidence_ids r) = Inr (E, S)"
    "finite E" "finite S" "set (arl_evidence_ids r) \<subseteq> E"
    "\<forall>q \<in> set (am_questions m). aq_question_id q \<in> set [] \<longrightarrow> set (aq_evidence_ids q) \<subseteq> E"
    "\<forall>h \<in> set (am_hypotheses m). ah_hypothesis_id h \<in> set [] \<longrightarrow>
       set (ah_evidence_ids h) \<union> set (ah_counterevidence_ids h) \<subseteq> E"
    "\<forall>x \<in> set (am_evidence m). aev_evidence_id x \<in> E \<longrightarrow> aev_source_id x \<in> S"
    by (rule resource_closure_ok [OF graph _ _ refs, of "[]" "[]"]) simp_all
  define d where "d = no_demand\<lparr>dm_relations := {?i}, dm_evidence := E, dm_sources := S\<rparr>"
  have d: "dm_questions d = {}" "dm_hypotheses d = {}" "dm_relations d = {?i}" "dm_events d = {}"
    "dm_gaps d = {}" "dm_evidence d = E" "dm_sources d = S"
    by (simp_all add: d_def no_demand_def)
  have "\<forall>x \<in> set (am_relations m). arl_relation_id x = ?i \<longrightarrow>
      {arl_source_hypothesis_id x, arl_target_hypothesis_id x} \<subseteq> held s ?H \<and> set (arl_evidence_ids x) \<subseteq> E"
    using same res(4) ends by metis
  then have closed: "demand_closed m s d"
    using res by (simp add: demand_closed_def closed_on_def d)
  show ?thesis
  proof (cases "capacity_reason b s d")
    case (Some reason)
    then show ?thesis
      using settled_omit [OF con inv known free(1), of reason] by (auto simp: admit_relation_def key res(1) d_def)
  next
    case None
    let ?p = "(?H, arl_source_hypothesis_id r)"
    have p: "?p \<in> sel_keys s" using ends by simp
    have "model_id_pattern ?i" "model_id_pattern (arl_source_hypothesis_id r)"
      using constructed_id_pattern [OF con] known core_held_known [OF core] ends by auto
    then have "admit_relation m b ?i s =
        Inr (add_resources E S (push_trace (expansion_entry RELATION ?i ?p) (add_relation ?i s)))"
      using None by (simp add: admit_relation_def key res(1) d_def [symmetric] expansion_trace_Inr)
    moreover have "clear_omission RELATION ?i (add_relation ?i s) = add_relation ?i s"
    proof -
      have "filter (\<lambda>x. omission_key x \<noteq> (RELATION, ?i)) (sel_omissions s) = sel_omissions s"
        using free(2) by (intro filter_True) (force simp: omitted_def)
      then show ?thesis by (simp add: clear_omission_def add_relation_def)
    qed
    moreover have "settled m b RELATION ?i s (add_resources (dm_evidence d) (dm_sources d)
        (push_trace (expansion_entry RELATION ?i ?p) (clear_omission RELATION ?i (add_relation ?i s))))"
    proof (rule settled_add [OF inv closed None core sel_grows_refl _ _ _ adds_key_ops(5) free(1) known p])
      show "((held s)(RELATION := insert ?i (held s RELATION))) k = held s k \<union> wants d k" for k
        by (cases k) (simp_all add: d)
      show "wants d k \<subseteq> (if k = RELATION then {?i} else {})"
        if "k \<notin> {route_object_kind.QUESTION, ?H}" for k
        using that by (cases k) (simp_all add: d)
    qed simp_all
    ultimately show ?thesis using adds_key_ops(5) [of ?i s] by (simp add: d(6,7) adds_key_def)
  qed
qed

subsection \<open>Seeds\<close>

definition valid_candidate :: "question_candidate \<Rightarrow> bool" where
  "valid_candidate c =
     (case c of Semantic x \<Rightarrow> validate_semantic_candidate x = Inr x
      | Lexical x \<Rightarrow> validate_lexical_candidate x = Inr x)"

lemma score_hex_unpadded:
  assumes "float_hex_value h = Some v"
  shows "model_strip h = h"
proof -
  have digits: "is_digit c \<Longrightarrow> \<not> model_space c" for c
    by (auto simp: is_digit_def digits09_def model_space_def)
  have zero: "unpadded ''0x0.0p+0''" by (simp add: unpadded_def model_space_def)
  have body: "unpadded u \<and> u \<noteq> []" if "unsigned_float_hex u = Some w" for u w
  proof (cases "u = ''0x0.0p+0''")
    case True
    with zero show ?thesis by simp
  next
    case False
    with that obtain e where e: "exponent_value (drop 1 (drop 17 u)) = Some e"
      and lead: "take 4 u = ''0x1.'' \<or> take 4 u = ''0x0.''"
      by (auto simp: unsigned_float_hex_def Let_def split: if_splits option.splits)
    from lead have "u \<noteq> []" "hd u = CHR ''0''" by (cases u; auto)+
    moreover from e obtain g ds where gd: "drop 18 u = g # ds" "nat_repr (decimal_value ds) = ds"
      by (auto simp: exponent_value_def Let_def split: list.splits if_splits)
    have "ds \<noteq> []" "list_all is_digit ds"
      using gd(2) nat_repr_digits [of "decimal_value ds"] nat_repr_nonempty [of "decimal_value ds"] by simp_all
    then have "is_digit (last ds)" by (simp add: list_all_iff)
    then have "is_digit (last u)"
      using gd(1) \<open>ds \<noteq> []\<close> by (metis last_ConsR last_drop drop_all list.distinct(1) not_less)
    ultimately show ?thesis using digits [of "last u"] by (simp add: unpadded_def model_space_def)
  qed
  obtain c cs where h: "h = c # cs" using assms by (cases h) (auto simp: float_hex_value_def)
  have "unpadded h"
  proof (cases "c = CHR ''-''")
    case True
    with assms h obtain w where "unsigned_float_hex cs = Some w" by (auto simp: float_hex_value_def)
    then have "unpadded cs" "cs \<noteq> []" using body by blast+
    moreover have "\<not> model_space CHR ''-''" by (simp add: model_space_def)
    ultimately show ?thesis by (simp add: unpadded_def h True)
  next
    case False
    with assms h have "unsigned_float_hex h = Some v" by (simp add: float_hex_value_def)
    then show ?thesis using body by blast
  qed
  then show ?thesis by simp
qed

definition seed_entry :: "question_candidate \<Rightarrow> route_trace_entry" where
  "seed_entry c =
     (case c of
        Semantic x \<Rightarrow>
          \<lparr>rt_stage = SEED, rt_object_kind = route_object_kind.QUESTION,
           rt_object_id = sqc_question_id x, rt_channel = Some SEMANTIC,
           rt_channel_rank = Some (sqc_rank x), rt_semantic_score_hex = Some (sqc_score_hex x),
           rt_lexical_score = None, rt_parent_object_kind = None, rt_parent_object_id = None\<rparr>
      | Lexical x \<Rightarrow>
          \<lparr>rt_stage = SEED, rt_object_kind = route_object_kind.QUESTION,
           rt_object_id = lqc_question_id x, rt_channel = Some LEXICAL,
           rt_channel_rank = Some (lqc_rank x), rt_semantic_score_hex = None,
           rt_lexical_score = Some (lqc_score x), rt_parent_object_kind = None,
           rt_parent_object_id = None\<rparr>)"

lemma seed_entry_simps [simp]:
  "trace_key (seed_entry c) = (route_object_kind.QUESTION, candidate_question_id c)"
  "rt_stage (seed_entry c) = SEED"
  by (simp_all add: seed_entry_def trace_key_def candidate_question_id_def split: question_candidate.split)

lemma seed_trace_Inr:
  assumes "valid_candidate c"
  shows "seed_trace c = Inr (seed_entry c)"
proof (cases c)
  case (Semantic x)
  with assms have "model_id_pattern (sqc_question_id x)" "1 \<le> length (sqc_score_hex x)"
    "length (sqc_score_hex x) \<le> 32" "1 \<le> sqc_rank x" "sqc_rank x \<le> 1000"
    and v: "\<exists>v. float_hex_value (sqc_score_hex x) = Some v"
    by (auto simp: valid_candidate_def validate_semantic_candidate_def semantic_validator_def
        require_float_hex_def res_simps split: option.splits if_splits)
  moreover from v have "model_strip (sqc_score_hex x) = sqc_score_hex x" using score_hex_unpadded by blast
  ultimately show ?thesis
    using v by (auto simp: Semantic seed_trace_def seed_entry_def validate_trace_entry_def Let_def res_simps
        opt_field_def trace_entry_validator_def seed_channel_check_def require_float_hex_def)
next
  case (Lexical x)
  with assms have "model_id_pattern (lqc_question_id x)" "1 \<le> lqc_score x" "lqc_score x \<le> 1000000"
    "1 \<le> lqc_rank x" "lqc_rank x \<le> 1000"
    by (auto simp: valid_candidate_def validate_lexical_candidate_def lexical_validator_def res_simps
        split: if_splits)
  then show ?thesis
    by (simp add: Lexical seed_trace_def seed_entry_def validate_trace_entry_def Let_def res_simps
        opt_field_def trace_entry_validator_def seed_channel_check_def)
qed

lemma add_seed_fields [simp]:
  "held (add_seed i s) = (held s)(route_object_kind.QUESTION := insert i (held s route_object_kind.QUESTION))"
  "order_of (add_seed i s) = (order_of s)(route_object_kind.QUESTION := order_of s route_object_kind.QUESTION @ [i])"
  "sel_trace (add_seed i s) = sel_trace s" "sel_omissions (add_seed i s) = sel_omissions s"
  "sel_evidence_ids (add_seed i s) = sel_evidence_ids s" "sel_source_ids (add_seed i s) = sel_source_ids s"
  "sel_seed_question_ids (add_seed i s) = insert i (sel_seed_question_ids s)"
  "sel_seed_question_order (add_seed i s) = sel_seed_question_order s @ [i]"
  by (auto simp: add_seed_def held_def order_of_def fun_eq_iff split: route_object_kind.splits)

lemma core_add_seed:
  assumes core: "core_inv m s" and fresh: "(route_object_kind.QUESTION, i) \<notin> accounted s"
    and known: "i \<in> set (manifest_ids m route_object_kind.QUESTION)"
    and e: "trace_key e = (route_object_kind.QUESTION, i)" "rt_stage e = SEED"
  shows "core_inv m (push_trace e (add_seed i s))"
proof -
  let ?Q = route_object_kind.QUESTION and ?u = "push_trace e (add_seed i s)"
  have c: "\<And>k. distinct (order_of s k)" "\<And>k. set (order_of s k) = held s k"
    "\<And>k. held s k \<subseteq> set (manifest_ids m k)" "distinct (map trace_key (sel_trace s))"
    "trace_key ` set (sel_trace s) = sel_keys s" "trace_parents_loop {} (sel_trace s) = Inr ()"
    "distinct (map omission_key (sel_omissions s))" "omitted s \<inter> sel_keys s = {}"
    "\<forall>(k, i) \<in> omitted s. i \<in> set (manifest_ids m k)" "distinct (sel_seed_question_order s)"
    "set (sel_seed_question_order s) = sel_seed_question_ids s"
    "sel_seed_question_ids s \<subseteq> sel_question_ids s"
    using core by (simp_all add: core_inv_def)
  have free: "i \<notin> held s ?Q" "(?Q, i) \<notin> omitted s" using fresh by (auto simp: accounted_def)
  have keys: "sel_keys ?u = insert (?Q, i) (sel_keys s)" by (auto simp: sel_keys_def split: if_splits)
  have omitted: "omitted ?u = omitted s" by (simp add: omitted_def)
  have q: "sel_question_ids ?u = insert i (sel_question_ids s)"
    unfolding held_question [symmetric] by simp
  have "distinct (order_of ?u x) \<and> set (order_of ?u x) = held ?u x \<and>
      held ?u x \<subseteq> set (manifest_ids m x)" for x
    using c(1,2,3) [of x] free(1) known by (cases "x = ?Q") simp_all
  moreover have "trace_parents_loop {} (sel_trace ?u) = Inr ()"
    using c(6) e(2) by (simp add: trace_parents_loop_snoc)
  moreover have "distinct (map trace_key (sel_trace ?u))" "trace_key ` set (sel_trace ?u) = sel_keys ?u"
    unfolding keys using c(4,5) free(1) e(1) by simp_all
  moreover have "distinct (map omission_key (sel_omissions ?u))" using c(7) by simp
  moreover have "omitted ?u \<inter> sel_keys ?u = {}" "\<forall>(k, i) \<in> omitted ?u. i \<in> set (manifest_ids m k)"
    unfolding omitted keys using c(8,9) free(2) by auto
  moreover have "{x \<in> set (sel_trace ?u). rt_stage x = SEED} = insert e {x \<in> set (sel_trace s). rt_stage x = SEED}"
    using e(2) by auto
  then have "rt_object_id ` {x \<in> set (sel_trace ?u). rt_stage x = SEED} = sel_seed_question_ids ?u"
    using core e(1) by (simp add: core_inv_def trace_key_def)
  moreover have "i \<notin> sel_seed_question_ids s" using c(12) free(1) by (auto simp: held_question)
  then have "distinct (sel_seed_question_order ?u)"
    "set (sel_seed_question_order ?u) = sel_seed_question_ids ?u" "sel_seed_question_ids ?u \<subseteq> sel_question_ids ?u"
    unfolding q using c(10,11,12) by auto
  ultimately show ?thesis unfolding core_inv_def by simp
qed

text \<open>Before the expansion only seeds are held.\<close>

definition seed_inv ::
  "research_atlas_manifest \<Rightarrow> route_budget \<Rightarrow> string set \<Rightarrow> selection \<Rightarrow> bool" where
  "seed_inv m b seen s \<longleftrightarrow>
     constructed_manifest m \<and> route_inv m b s \<and> sel_question_ids s = sel_seed_question_ids s \<and>
     (\<forall>k. k \<noteq> route_object_kind.QUESTION \<longrightarrow> held s k = {}) \<and>
     (sel_seed_question_ids s = {} \<longrightarrow> sel_evidence_ids s = {} \<and> sel_source_ids s = {}) \<and>
     accounted s \<subseteq> {route_object_kind.QUESTION} \<times> seen"

definition seeds_grow :: "selection \<Rightarrow> selection \<Rightarrow> bool" where
  "seeds_grow s t \<longleftrightarrow> accounted s \<subseteq> accounted t"

definition seed_settled :: "question_candidate \<Rightarrow> selection \<Rightarrow> bool" where
  "seed_settled c s \<longleftrightarrow> (route_object_kind.QUESTION, candidate_question_id c) \<in> accounted s"

lemma admit_seed_ok:
  assumes inv: "seed_inv m b seen s" and c: "valid_candidate c"
    and known: "candidate_question_id c \<in> set (manifest_ids m route_object_kind.QUESTION)"
    and fresh: "candidate_question_id c \<notin> seen"
  shows "\<exists>t. admit_seed m b c s = Inr t \<and> seed_inv m b (insert (candidate_question_id c) seen) t \<and>
    seeds_grow s t \<and> seed_settled c t"
proof -
  let ?i = "candidate_question_id c" and ?Q = route_object_kind.QUESTION
  have con: "constructed_manifest m" and route: "route_inv m b s" and core: "core_inv m s"
    and only: "\<And>k. k \<noteq> ?Q \<Longrightarrow> held s k = {}" and acc: "accounted s \<subseteq> {?Q} \<times> seen"
    and seeds: "sel_question_ids s = sel_seed_question_ids s"
    "sel_seed_question_ids s = {} \<longrightarrow> sel_evidence_ids s = {} \<and> sel_source_ids s = {}"
    using inv by (auto simp: seed_inv_def route_inv_def)
  have new: "(?Q, ?i) \<notin> accounted s" using acc fresh by auto
  then have free: "?i \<notin> held s ?Q" by (auto simp: accounted_def)
  obtain E S where res: "resource_closure m [?i] [] [] = Inr (E, S)" "finite E" "finite S" "set [] \<subseteq> E"
    "\<forall>q \<in> set (am_questions m). aq_question_id q \<in> set [?i] \<longrightarrow> set (aq_evidence_ids q) \<subseteq> E"
    "\<forall>h \<in> set (am_hypotheses m). ah_hypothesis_id h \<in> set [] \<longrightarrow>
       set (ah_evidence_ids h) \<union> set (ah_counterevidence_ids h) \<subseteq> E"
    "\<forall>x \<in> set (am_evidence m). aev_evidence_id x \<in> E \<longrightarrow> aev_source_id x \<in> S"
    by (rule resource_closure_ok [OF constructed_graph [OF con], of "[?i]" "[]" "[]"]) (use known in simp_all)
  define d where "d = no_demand\<lparr>dm_questions := {?i}, dm_evidence := E, dm_sources := S\<rparr>"
  have d: "dm_questions d = {?i}" "dm_hypotheses d = {}" "dm_relations d = {}" "dm_events d = {}"
    "dm_gaps d = {}" "dm_evidence d = E" "dm_sources d = S"
    by (simp_all add: d_def no_demand_def)
  have closed: "demand_closed m s d" using res by (simp add: demand_closed_def closed_on_def d)
  show ?thesis
  proof (cases "capacity_reason b s d")
    case (Some reason)
    obtain t where t: "omit ?Q ?i reason s = Inr t" "core_inv m t" "(?Q, ?i) \<in> accounted t" "sel_grows s t"
      "held t = held s" "omitted t = insert (?Q, ?i) (omitted s)"
      "sel_evidence_ids t = sel_evidence_ids s" "sel_source_ids t = sel_source_ids s"
      using omit_ok [OF con core known free, of reason] by blast
    have "route_inv m b t" by (rule route_inv_omits [OF route t(2,5,7,8)])
    moreover have "sel_question_ids t = sel_question_ids s"
      using arg_cong [OF t(5), of "\<lambda>f. f ?Q"] by (simp add: held_question)
    moreover have "accounted t = insert (?Q, ?i) (accounted s)"
      using t(5,6) by (auto simp: accounted_def sel_keys_def)
    ultimately have "seed_inv m b (insert ?i seen) t"
      using con seeds only acc t(4,5,7,8) by (auto simp: seed_inv_def sel_grows_def)
    moreover have "admit_seed m b c s = Inr t"
      using Some t(1) by (simp add: admit_seed_def Let_def res(1) d_def)
    ultimately show ?thesis using t(3,4) by (auto simp: seeds_grow_def seed_settled_def sel_grows_def)
  next
    case None
    let ?t = "push_trace (seed_entry c) (add_resources E S (add_seed ?i s))"
    have swap: "?t = add_resources E S (push_trace (seed_entry c) (add_seed ?i s))"
      by (simp add: push_trace_def add_resources_def)
    have core': "core_inv m ?t" unfolding swap by (simp add: core_add_seed [OF core new known])
    have route': "route_inv m b ?t"
      by (rule route_inv_extends [OF route closed None core'])
        (simp_all add: d wants_def split: route_object_kind.split)
    have acc': "accounted ?t = insert (?Q, ?i) (accounted s)"
      by (auto simp: accounted_def sel_keys_def omitted_def split: if_splits)
    have "sel_question_ids ?t = insert ?i (sel_question_ids s)"
      unfolding held_question [symmetric] by simp
    then have "seed_inv m b (insert ?i seen) ?t"
      using con route' seeds(1) only acc by (auto simp: seed_inv_def acc')
    moreover have "admit_seed m b c s = Inr ?t"
      using None by (simp add: admit_seed_def Let_def res(1) d_def [symmetric] seed_trace_Inr [OF c] d(6,7))
    ultimately show ?thesis by (auto simp: seeds_grow_def seed_settled_def acc')
  qed
qed

interpretation seeds: visit_loop "admit_seed m b" candidate_question_id "seed_inv m b"
    "\<lambda>c. valid_candidate c \<and> candidate_question_id c \<in> set (manifest_ids m route_object_kind.QUESTION)"
    seeds_grow seed_settled
  for m b
proof unfold_locales
  fix seen s c
  assume "seed_inv m b seen s"
    and "valid_candidate c \<and> candidate_question_id c \<in> set (manifest_ids m route_object_kind.QUESTION)"
    and "candidate_question_id c \<notin> seen"
  then show "\<exists>t. admit_seed m b c s = Inr t \<and> seed_inv m b (insert (candidate_question_id c) seen) t \<and>
      seeds_grow s t \<and> seed_settled c t"
    using admit_seed_ok by blast
qed (auto simp: seeds_grow_def seed_settled_def)

subsection \<open>Expansion\<close>

definition unaccounted :: "route_object_kind set \<Rightarrow> selection \<Rightarrow> bool" where
  "unaccounted ks s \<longleftrightarrow> (\<forall>k \<in> ks. \<forall>i. (k, i) \<notin> accounted s)"

lemma unaccounted_settled:
  assumes "settled m b K i s t" and "unaccounted ks s"
    and "ks \<inter> {route_object_kind.QUESTION, route_object_kind.HYPOTHESIS, K} = {}"
  shows "unaccounted ks t"
  using assms unfolding unaccounted_def settled_def touches_only_def by fastforce

definition hypothesis_inv :: "research_atlas_manifest \<Rightarrow> route_budget \<Rightarrow> string set \<Rightarrow> selection \<Rightarrow> bool" where
  "hypothesis_inv m b seen s \<longleftrightarrow>
     constructed_manifest m \<and> route_inv m b s \<and> unaccounted {TIMELINE, GAP, RELATION} s"

text \<open>A phase that visits the objects of kind \<open>K\<close> and leaves the kinds \<open>later\<close> alone.\<close>

definition phase_inv ::
  "research_atlas_manifest \<Rightarrow> route_budget \<Rightarrow> string set \<Rightarrow> route_object_kind \<Rightarrow> route_object_kind set \<Rightarrow>
     string set \<Rightarrow> selection \<Rightarrow> bool" where
  "phase_inv m b linked K later seen s \<longleftrightarrow>
     constructed_manifest m \<and> route_inv m b s \<and> linked \<subseteq> held s route_object_kind.HYPOTHESIS \<and>
     (\<forall>i. (K, i) \<in> accounted s \<longrightarrow> i \<in> seen) \<and> unaccounted later s"

lemma phase_inv_settled:
  assumes "phase_inv m b linked K later seen s" and "settled m b K i s t"
    and "K \<notin> {route_object_kind.QUESTION, route_object_kind.HYPOTHESIS}"
    and "later \<inter> {route_object_kind.QUESTION, route_object_kind.HYPOTHESIS, K} = {}"
  shows "phase_inv m b linked K later (insert i seen) t"
proof -
  have "linked \<subseteq> held t route_object_kind.HYPOTHESIS"
    using assms(1,2) by (auto simp: phase_inv_def settled_def sel_grows_def)
  moreover have "\<forall>j. (K, j) \<in> accounted t \<longrightarrow> j \<in> insert i seen"
    using assms(1-3) unfolding phase_inv_def settled_def touches_only_def by blast
  ultimately show ?thesis
    using assms(1,2) unaccounted_settled [OF assms(2) _ assms(4)] by (simp add: phase_inv_def settled_def)
qed

lemma phase_inv_skip:
  "phase_inv m b linked K later seen s \<Longrightarrow> phase_inv m b linked K later (insert i seen) s"
  by (auto simp: phase_inv_def)

definition accounts ::
  "('a \<Rightarrow> selection \<Rightarrow> bool) \<Rightarrow> route_object_kind \<Rightarrow> ('a \<Rightarrow> string) \<Rightarrow> 'a \<Rightarrow> selection \<Rightarrow> bool" where
  "accounts concerned K key x s \<longleftrightarrow> concerned x s \<longrightarrow> (K, key x) \<in> accounted s"

definition concerned_hypothesis :: "atlas_hypothesis \<Rightarrow> selection \<Rightarrow> bool" where
  "concerned_hypothesis h s \<longleftrightarrow> meets (sel_seed_question_ids s) (ah_question_ids h)"

definition concerned_event :: "string set \<Rightarrow> atlas_timeline_event \<Rightarrow> selection \<Rightarrow> bool" where
  "concerned_event linked e s \<longleftrightarrow>
     meets (sel_seed_question_ids s) (ate_question_ids e) \<or> meets linked (ate_hypothesis_ids e)"

definition concerned_gap :: "string set \<Rightarrow> atlas_gap \<Rightarrow> selection \<Rightarrow> bool" where
  "concerned_gap linked g s \<longleftrightarrow>
     meets (sel_seed_question_ids s) (agp_related_question_ids g) \<or> meets linked (agp_related_hypothesis_ids g)"

definition concerned_relation :: "atlas_relation \<Rightarrow> selection \<Rightarrow> bool" where
  "concerned_relation r s \<longleftrightarrow>
     {arl_source_hypothesis_id r, arl_target_hypothesis_id r} \<inter> held s route_object_kind.HYPOTHESIS \<noteq> {}"

definition relations_grow :: "selection \<Rightarrow> selection \<Rightarrow> bool" where
  "relations_grow s t \<longleftrightarrow>
     sel_grows s t \<and> held t route_object_kind.HYPOTHESIS = held s route_object_kind.HYPOTHESIS"

interpretation hypothesis_loop: visit_loop "expand_hypothesis m b" ah_hypothesis_id "hypothesis_inv m b"
    "\<lambda>h. h \<in> set (am_hypotheses m)" sel_grows
    "accounts concerned_hypothesis route_object_kind.HYPOTHESIS ah_hypothesis_id"
  for m b
proof unfold_locales
  fix seen s h
  assume inv: "hypothesis_inv m b seen s" and h: "h \<in> set (am_hypotheses m)"
  show "\<exists>t. expand_hypothesis m b h s = Inr t \<and> hypothesis_inv m b (insert (ah_hypothesis_id h) seen) t \<and>
      sel_grows s t \<and> accounts concerned_hypothesis route_object_kind.HYPOTHESIS ah_hypothesis_id h t"
  proof (cases "meets (sel_seed_question_ids s) (ah_question_ids h)")
    case True
    then obtain t where t: "admit_hypothesis m b (ah_hypothesis_id h) s = Inr t"
      "settled m b route_object_kind.HYPOTHESIS (ah_hypothesis_id h) s t"
      using admit_hypothesis_ok [OF _ _ h] inv by (auto simp: hypothesis_inv_def)
    then have "hypothesis_inv m b (insert (ah_hypothesis_id h) seen) t"
      using inv unaccounted_settled [OF t(2)] by (simp add: hypothesis_inv_def settled_def)
    with True t show ?thesis by (auto simp: expand_hypothesis_def settled_def accounts_def)
  next
    case False
    with inv show ?thesis
      by (auto simp: expand_hypothesis_def accounts_def concerned_hypothesis_def hypothesis_inv_def)
  qed
qed (auto intro: sel_grows_trans simp: accounts_def concerned_hypothesis_def sel_grows_def)

interpretation event_loop: visit_loop "expand_event m b linked" ate_event_id
    "phase_inv m b linked TIMELINE {GAP, RELATION}" "\<lambda>e. e \<in> set (am_timeline m)" sel_grows
    "accounts (concerned_event linked) TIMELINE ate_event_id"
  for m b linked
proof unfold_locales
  fix seen s e
  assume inv: "phase_inv m b linked TIMELINE {GAP, RELATION} seen s" and e: "e \<in> set (am_timeline m)"
    and new: "ate_event_id e \<notin> seen"
  show "\<exists>t. expand_event m b linked e s = Inr t \<and>
      phase_inv m b linked TIMELINE {GAP, RELATION} (insert (ate_event_id e) seen) t \<and> sel_grows s t \<and>
      accounts (concerned_event linked) TIMELINE ate_event_id e t"
  proof (cases "concerned_event linked e s")
    case True
    have "ate_event_id e \<notin> held s TIMELINE" using inv new by (auto simp: phase_inv_def accounted_def)
    then obtain t where t: "admit_event m b linked (ate_event_id e) s = Inr t"
      "settled m b TIMELINE (ate_event_id e) s t"
      using admit_event_ok [OF _ _ e] inv True unfolding phase_inv_def concerned_event_def by blast
    then have "phase_inv m b linked TIMELINE {GAP, RELATION} (insert (ate_event_id e) seen) t"
      using phase_inv_settled [OF inv t(2)] by simp
    with True t show ?thesis by (auto simp: expand_event_def concerned_event_def settled_def accounts_def)
  next
    case False
    with phase_inv_skip [OF inv] show ?thesis by (auto simp: expand_event_def accounts_def concerned_event_def)
  qed
qed (auto intro: sel_grows_trans simp: accounts_def concerned_event_def sel_grows_def)

interpretation gap_loop: visit_loop "expand_gap m b linked" agp_gap_id
    "phase_inv m b linked GAP {RELATION}" "\<lambda>g. g \<in> set (am_gaps m)" sel_grows
    "accounts (concerned_gap linked) GAP agp_gap_id"
  for m b linked
proof unfold_locales
  fix seen s g
  assume inv: "phase_inv m b linked GAP {RELATION} seen s" and g: "g \<in> set (am_gaps m)"
    and new: "agp_gap_id g \<notin> seen"
  show "\<exists>t. expand_gap m b linked g s = Inr t \<and>
      phase_inv m b linked GAP {RELATION} (insert (agp_gap_id g) seen) t \<and> sel_grows s t \<and>
      accounts (concerned_gap linked) GAP agp_gap_id g t"
  proof (cases "concerned_gap linked g s")
    case True
    have "agp_gap_id g \<notin> held s GAP" using inv new by (auto simp: phase_inv_def accounted_def)
    then obtain t where t: "admit_gap m b linked (agp_gap_id g) s = Inr t"
      "settled m b GAP (agp_gap_id g) s t"
      using admit_gap_ok [OF _ _ g] inv True unfolding phase_inv_def concerned_gap_def by blast
    then have "phase_inv m b linked GAP {RELATION} (insert (agp_gap_id g) seen) t"
      using phase_inv_settled [OF inv t(2)] by simp
    with True t show ?thesis by (auto simp: expand_gap_def concerned_gap_def settled_def accounts_def)
  next
    case False
    with phase_inv_skip [OF inv] show ?thesis by (auto simp: expand_gap_def accounts_def concerned_gap_def)
  qed
qed (auto intro: sel_grows_trans simp: accounts_def concerned_gap_def sel_grows_def)

interpretation relation_loop: visit_loop "expand_relation m b" arl_relation_id
    "phase_inv m b {} RELATION {}" "\<lambda>r. r \<in> set (am_relations m)" relations_grow
    "accounts concerned_relation RELATION arl_relation_id"
  for m b
proof unfold_locales
  fix seen s r
  assume inv: "phase_inv m b {} RELATION {} seen s" and r: "r \<in> set (am_relations m)"
    and new: "arl_relation_id r \<notin> seen"
  let ?ends = "{arl_source_hypothesis_id r, arl_target_hypothesis_id r}"
  have con: "constructed_manifest m" and route: "route_inv m b s" using inv by (simp_all add: phase_inv_def)
  have fresh: "(RELATION, arl_relation_id r) \<notin> accounted s" using inv new by (auto simp: phase_inv_def)
  have known: "arl_relation_id r \<in> set (manifest_ids m RELATION)" using r by (simp add: manifest_ids_def)
  have finish: "\<exists>t. step = Inr t \<and> phase_inv m b {} RELATION {} (insert (arl_relation_id r) seen) t \<and>
      relations_grow s t \<and> accounts concerned_relation RELATION arl_relation_id r t"
    if "\<exists>t. step = Inr t \<and> settled m b RELATION (arl_relation_id r) s t \<and>
      held t route_object_kind.HYPOTHESIS = held s route_object_kind.HYPOTHESIS" for step :: "selection res"
    using that phase_inv_settled [OF inv] by (fastforce simp: settled_def relations_grow_def accounts_def)
  show "\<exists>t. expand_relation m b r s = Inr t \<and>
      phase_inv m b {} RELATION {} (insert (arl_relation_id r) seen) t \<and> relations_grow s t \<and>
      accounts concerned_relation RELATION arl_relation_id r t"
  proof (cases "?ends \<inter> sel_hypothesis_ids s = {}")
    case True
    then show ?thesis
      using phase_inv_skip [OF inv]
      by (auto simp: expand_relation_def accounts_def concerned_relation_def held_hypothesis relations_grow_def)
  next
    case some: False
    show ?thesis
    proof (cases "?ends \<subseteq> sel_hypothesis_ids s")
      case True
      then have "expand_relation m b r s = admit_relation m b (arl_relation_id r) s"
        using some by (simp add: expand_relation_def Let_def)
      with admit_relation_ok [OF con route r fresh] True finish show ?thesis by (simp add: held_hypothesis)
    next
      case False
      have "arl_relation_id r \<notin> held s RELATION" using fresh by (simp add: accounted_def)
      then have "\<exists>t. omit RELATION (arl_relation_id r) REFERENCE_BUDGET s = Inr t \<and>
          settled m b RELATION (arl_relation_id r) s t \<and>
          held t route_object_kind.HYPOTHESIS = held s route_object_kind.HYPOTHESIS"
        using settled_omit [OF con route known] by metis
      moreover have "expand_relation m b r s = omit RELATION (arl_relation_id r) REFERENCE_BUDGET s"
        using some False by (simp only: expand_relation_def Let_def if_False if_True not_False_eq_True)
      ultimately show ?thesis using finish by simp
    qed
  qed
qed (auto intro: sel_grows_trans
    simp: accounts_def concerned_relation_def relations_grow_def sel_grows_def)

text \<open>
  The whole expansion from the seeds: it returns, keeps the invariant and the seeds, and
  accounts for every hypothesis, event and gap that names a seed and every relation with an
  end that is held.
\<close>

lemma meets_empty [simp]: "\<not> meets {} xs"
  by (simp add: meets_def list_ex_iff)

lemma expand_graph_ok:
  assumes inv: "seed_inv m b seen s"
  shows "\<exists>t. expand_graph m b s = Inr t \<and> route_inv m b t \<and> sel_grows s t \<and>
    (\<forall>h \<in> set (am_hypotheses m). concerned_hypothesis h t \<longrightarrow>
       (route_object_kind.HYPOTHESIS, ah_hypothesis_id h) \<in> accounted t) \<and>
    (\<forall>e \<in> set (am_timeline m). concerned_event {} e t \<longrightarrow> (TIMELINE, ate_event_id e) \<in> accounted t) \<and>
    (\<forall>g \<in> set (am_gaps m). concerned_gap {} g t \<longrightarrow> (GAP, agp_gap_id g) \<in> accounted t) \<and>
    (\<forall>r \<in> set (am_relations m). concerned_relation r t \<longrightarrow> (RELATION, arl_relation_id r) \<in> accounted t)"
proof -
  have con: "constructed_manifest m" and route: "route_inv m b s"
    and acc: "accounted s \<subseteq> {route_object_kind.QUESTION} \<times> seen"
    using inv by (auto simp: seed_inv_def)
  note graph = constructed_graph [OF con]
  have dist: "distinct (map ah_hypothesis_id (am_hypotheses m))" "distinct (map ate_event_id (am_timeline m))"
    "distinct (map agp_gap_id (am_gaps m))" "distinct (map arl_relation_id (am_relations m))"
    using graph by (simp_all add: graph_closed_def)
  have "hypothesis_inv m b {} s" using con route acc by (auto simp: hypothesis_inv_def unaccounted_def)
  then obtain s1 where s1: "fold_res (expand_hypothesis m b) (am_hypotheses m) s = Inr s1"
    "hypothesis_inv m b (ah_hypothesis_id ` set (am_hypotheses m)) s1" "sel_grows s s1"
    "\<forall>h \<in> set (am_hypotheses m).
       accounts concerned_hypothesis route_object_kind.HYPOTHESIS ah_hypothesis_id h s1"
    using hypothesis_loop.visits_ok [of m b "{}" s "am_hypotheses m"] dist(1) by auto
  let ?l = "sel_hypothesis_ids s1"
  have "phase_inv m b ?l TIMELINE {GAP, RELATION} {} s1"
    using s1(2) by (auto simp: phase_inv_def hypothesis_inv_def unaccounted_def held_hypothesis)
  then obtain s2 where s2: "fold_res (expand_event m b ?l) (am_timeline m) s1 = Inr s2"
    "phase_inv m b ?l TIMELINE {GAP, RELATION} (ate_event_id ` set (am_timeline m)) s2" "sel_grows s1 s2"
    "\<forall>e \<in> set (am_timeline m). accounts (concerned_event ?l) TIMELINE ate_event_id e s2"
    using event_loop.visits_ok [of m b ?l "{}" s1 "am_timeline m"] dist(2) by auto
  have "phase_inv m b ?l GAP {RELATION} {} s2"
    using s2(2) by (auto simp: phase_inv_def unaccounted_def)
  then obtain s3 where s3: "fold_res (expand_gap m b ?l) (am_gaps m) s2 = Inr s3"
    "phase_inv m b ?l GAP {RELATION} (agp_gap_id ` set (am_gaps m)) s3" "sel_grows s2 s3"
    "\<forall>g \<in> set (am_gaps m). accounts (concerned_gap ?l) GAP agp_gap_id g s3"
    using gap_loop.visits_ok [of m b ?l "{}" s2 "am_gaps m"] dist(3) by auto
  have "phase_inv m b {} RELATION {} {} s3"
    using s3(2) by (auto simp: phase_inv_def unaccounted_def)
  then obtain t where t: "fold_res (expand_relation m b) (am_relations m) s3 = Inr t"
    "phase_inv m b {} RELATION {} (arl_relation_id ` set (am_relations m)) t" "relations_grow s3 t"
    "\<forall>r \<in> set (am_relations m). accounts concerned_relation RELATION arl_relation_id r t"
    using relation_loop.visits_ok [of m b "{}" s3 "am_relations m"] dist(4) by auto
  have g3: "sel_grows s3 t" using t(3) by (simp add: relations_grow_def)
  have g2: "sel_grows s2 t" by (rule sel_grows_trans [OF s3(3) g3])
  have g1: "sel_grows s1 t" by (rule sel_grows_trans [OF s2(3) g2])
  have g0: "sel_grows s t" by (rule sel_grows_trans [OF s1(3) g1])
  have seeds: "sel_seed_question_ids s1 = sel_seed_question_ids t"
    "sel_seed_question_ids s2 = sel_seed_question_ids t" "sel_seed_question_ids s3 = sel_seed_question_ids t"
    using g1 g2 g3 by (simp_all add: sel_grows_def)
  have sub: "accounted s1 \<subseteq> accounted t" "accounted s2 \<subseteq> accounted t" "accounted s3 \<subseteq> accounted t"
    using g1 g2 g3 by (simp_all add: sel_grows_def)
  have "expand_graph m b s = Inr t"
    by (simp add: expand_graph_def s1(1) s2(1) s3(1) t(1) Let_def)
  moreover have "route_inv m b t" using t(2) by (simp add: phase_inv_def)
  moreover have "(route_object_kind.HYPOTHESIS, ah_hypothesis_id h) \<in> accounted t"
    if "h \<in> set (am_hypotheses m)" "concerned_hypothesis h t" for h
    using that s1(4) seeds(1) sub(1) by (auto simp: accounts_def concerned_hypothesis_def)
  moreover have "(TIMELINE, ate_event_id e) \<in> accounted t"
    if "e \<in> set (am_timeline m)" "concerned_event {} e t" for e
    using that s2(4) seeds(2) sub(2) by (auto simp: accounts_def concerned_event_def)
  moreover have "(GAP, agp_gap_id g) \<in> accounted t" if "g \<in> set (am_gaps m)" "concerned_gap {} g t" for g
    using that s3(4) seeds(3) sub(3) by (auto simp: accounts_def concerned_gap_def)
  moreover have "(RELATION, arl_relation_id r) \<in> accounted t"
    if "r \<in> set (am_relations m)" "concerned_relation r t" for r
    using that t(4) by (auto simp: accounts_def)
  ultimately show ?thesis using g0 by blast
qed

end
