(* ===== verification/Route_Props.thy ===== *)
theory Route_Props
  imports Route_Expansion
begin

text \<open>
  The packet of the budgeted route: a selection that satisfies the invariant always makes a
  packet that the validators of schema 1.1 accept, and the route from a receipt always ends
  in such a packet, which accounts for every object it was asked about.
\<close>

subsection \<open>Terms\<close>

lemma tokens_chars: "t \<in> set (tokens s) \<Longrightarrow> t \<noteq> [] \<and> list_all token_char t"
proof (induction s rule: tokens.induct)
  case (1 s)
  let ?rest = "dropWhile (\<lambda>c. \<not> token_char c) s"
  show ?case
  proof (cases "?rest = []")
    case True
    with "1.prems" show ?thesis by (subst (asm) tokens.simps) simp
  next
    case False
    have hd: "token_char (hd ?rest)" using hd_dropWhile [OF False] by simp
    have "tokens s = takeWhile token_char ?rest # tokens (dropWhile token_char ?rest)"
      using False by (simp add: tokens.simps [of s] Let_def)
    with "1.prems" consider "t = takeWhile token_char ?rest" | "t \<in> set (tokens (dropWhile token_char ?rest))"
      by auto
    then show ?thesis
    proof cases
      case 1
      with hd False show ?thesis by (cases ?rest) (auto simp: list_all_iff dest: set_takeWhileD)
    next
      case 2
      with "1.IH" [OF refl False] show ?thesis by blast
    qed
  qed
qed

lemma token_char_space: "token_char c \<Longrightarrow> \<not> model_space c"
  by (auto simp: token_char_def letter_or_number_def latin_letter_def model_space_def)

lemma route_terms_strip: "map model_strip (route_terms s) = route_terms s"
proof (rule map_idI)
  fix t assume "t \<in> set (route_terms s)"
  then have "t \<in> set (tokens (casefold (nfc s)))" by (auto simp: route_terms_def)
  then have "t \<noteq> []" "list_all token_char t" using tokens_chars by blast+
  then have "unpadded t" using token_char_space by (auto simp: unpadded_def list_all_iff)
  then show "model_strip t = t" by simp
qed

lemma strip_idem: "strip (strip s) = strip s"
proof -
  let ?t = "dropWhile is_space s"
  let ?u = "rev (dropWhile is_space (rev ?t))"
  have last: "?u \<noteq> [] \<Longrightarrow> \<not> is_space (last ?u)"
    using dropWhile_hd [of is_space "rev ?t"] by (auto simp: last_rev)
  have "?u \<noteq> [] \<Longrightarrow> \<not> is_space (hd ?u)"
  proof -
    assume ne: "?u \<noteq> []"
    obtain post where t: "?t = ?u @ post"
      by (metis rev_append rev_rev_ident takeWhile_dropWhile_id)
    with ne have "hd ?t = hd ?u" "?t \<noteq> []" by (metis hd_append2, metis append_is_Nil_conv)
    then show ?thesis using dropWhile_hd [of is_space s] by auto
  qed
  with last show ?thesis using strip_eq_self_iff [of ?u] by (auto simp: strip_def)
qed

lemma strip_unpadded: "unpadded (strip s)"
proof -
  have "strip s = [] \<or> \<not> is_space (hd (strip s)) \<and> \<not> is_space (last (strip s))"
    using strip_idem [of s] by (simp add: strip_eq_self_iff)
  moreover have "model_space c \<Longrightarrow> is_space c" for c by (auto simp: model_space_def is_space_def)
  ultimately show ?thesis by (auto simp: unpadded_def)
qed

lemma normalize_route_query_Inr:
  "normalize_route_query q = Inr n \<Longrightarrow>
     model_strip n = n \<and> 1 \<le> length n \<and> length n \<le> 4000 \<and> normalize_route_query n = Inr n"
proof -
  assume q: "normalize_route_query q = Inr n"
  then have n: "n = strip (nfc q)" "n \<noteq> []" "length n \<le> 4000"
    by (auto simp: normalize_route_query_def Let_def split: if_splits)
  then have "unpadded n" using strip_unpadded by simp
  moreover have "strip n = n" unfolding n(1) by (rule strip_idem)
  ultimately show ?thesis using n by (simp add: normalize_route_query_def Let_def nfc_def Suc_le_eq)
qed

subsection \<open>Sizes\<close>

definition keyed :: "(route_object_kind \<Rightarrow> 'a list) \<Rightarrow> (route_object_kind \<times> 'a) list" where
  "keyed f =
     map (Pair route_object_kind.QUESTION) (f route_object_kind.QUESTION) @
     map (Pair route_object_kind.HYPOTHESIS) (f route_object_kind.HYPOTHESIS) @
     map (Pair RELATION) (f RELATION) @ map (Pair TIMELINE) (f TIMELINE) @ map (Pair GAP) (f GAP)"

lemma set_keyed: "set (keyed f) = {(k, i). i \<in> set (f k)}"
proof -
  have "(k, i) \<in> set (keyed f) \<longleftrightarrow> i \<in> set (f k)" for k i by (cases k) (auto simp: keyed_def)
  then show ?thesis by auto
qed

lemma length_keyed:
  "length (keyed f) = length (f route_object_kind.QUESTION) + length (f route_object_kind.HYPOTHESIS) +
     length (f RELATION) + length (f TIMELINE) + length (f GAP)"
  by (simp add: keyed_def)

lemma core_parts:
  assumes "core_inv m s"
  shows "distinct (order_of s k)" "set (order_of s k) = held s k" "held s k \<subseteq> set (manifest_ids m k)"
    "distinct (map trace_key (sel_trace s))" "set (map trace_key (sel_trace s)) = sel_keys s"
    "trace_parents_loop {} (sel_trace s) = Inr ()" "distinct (map omission_key (sel_omissions s))"
    "set (map omission_key (sel_omissions s)) = omitted s"
    "omitted s \<inter> sel_keys s = {}" "\<forall>(k, i) \<in> omitted s. i \<in> set (manifest_ids m k)"
    "rt_object_id ` {e \<in> set (sel_trace s). rt_stage e = SEED} = sel_seed_question_ids s"
    "sel_seed_question_ids s \<subseteq> sel_question_ids s"
  using assms by (simp_all add: core_inv_def omitted_def)

lemma length_order: "core_inv m s \<Longrightarrow> length (order_of s k) = card (held s k)"
  using core_parts(1,2) distinct_card by metis

lemma trace_length:
  assumes "core_inv m s" and "budget_inv b s" and "validate_budget b = Inr b"
  shows "length (sel_trace s) \<le> 700"
proof -
  have le: "int (length (order_of s k)) \<le> budget_of b k" for k
    using assms(2) length_order [OF assms(1)] by (simp add: budget_inv_def)
  have "set (map trace_key (sel_trace s)) = set (keyed (order_of s))"
    unfolding core_parts(5) [OF assms(1)] set_keyed core_parts(2) [OF assms(1)] by (simp add: sel_keys_def)
  then have "length (sel_trace s) \<le> length (keyed (order_of s))"
    using distinct_card [OF core_parts(4) [OF assms(1)]] card_length [of "keyed (order_of s)"] by simp
  also have "\<dots> \<le> 700"
    using le [of route_object_kind.QUESTION] le [of route_object_kind.HYPOTHESIS] le [of RELATION]
      le [of TIMELINE] le [of GAP] assms(3)
    by (simp add: length_keyed budget_of_def validate_budget_def res_simps)
  finally show ?thesis .
qed

lemma manifest_sizes:
  assumes "constructed_manifest m"
  shows "length (am_questions m) \<le> 1000" "length (am_hypotheses m) \<le> 1000"
    "length (am_relations m) \<le> 4000" "length (am_timeline m) \<le> 4000" "length (am_gaps m) \<le> 1000"
    "model_id_pattern (am_atlas_id m)" "model_id_pattern (am_case_id m)"
proof -
  have v: "validate_manifest m = Inr m" using assms by (simp add: constructed_manifest_def)
  then have strip: "strip_manifest m = m"
    by (auto simp: validate_manifest_def Let_def res_simps dest: validate_graph_closed)
  have "list_all (\<lambda>c. c = Inr ())
      [pattern_field ''atlas_id'' (model_id_pattern (am_atlas_id m)),
       pattern_field ''case_id'' (model_id_pattern (am_case_id m)),
       list_field ''questions'' 0 1000 (am_questions m), list_field ''hypotheses'' 0 1000 (am_hypotheses m),
       list_field ''relations'' 0 4000 (am_relations m), list_field ''timeline'' 0 4000 (am_timeline m),
       list_field ''gaps'' 0 1000 (am_gaps m)]"
    using v unfolding validate_manifest_def Let_def strip by (simp add: res_simps)
  then show "length (am_questions m) \<le> 1000" "length (am_hypotheses m) \<le> 1000"
    "length (am_relations m) \<le> 4000" "length (am_timeline m) \<le> 4000" "length (am_gaps m) \<le> 1000"
    "model_id_pattern (am_atlas_id m)" "model_id_pattern (am_case_id m)"
    by (simp_all add: res_simps)
qed

lemma omissions_length:
  assumes "core_inv m s" and "constructed_manifest m"
  shows "length (sel_omissions s) \<le> 11000"
proof -
  have "set (map omission_key (sel_omissions s)) \<subseteq> set (keyed (manifest_ids m))"
    unfolding core_parts(8) [OF assms(1)] set_keyed using core_parts(10) [OF assms(1)] by auto
  then have "card (set (map omission_key (sel_omissions s))) \<le> length (keyed (manifest_ids m))"
    using card_mono [of "set (keyed (manifest_ids m))"] card_length [of "keyed (manifest_ids m)"]
    by (meson List.finite_set le_trans)
  also have "\<dots> \<le> 11000"
    using manifest_sizes [OF assms(2)] by (simp add: length_keyed manifest_ids_def)
  finally show ?thesis using distinct_card [OF core_parts(7) [OF assms(1)]] by simp
qed

lemma filter_length:
  assumes "distinct (map key xs)" and "finite A"
  shows "length (filter (\<lambda>x. key x \<in> A) xs) \<le> card A"
proof -
  have "length (filter (\<lambda>x. key x \<in> A) xs) = card (key ` set (filter (\<lambda>x. key x \<in> A) xs))"
    using distinct_card [OF distinct_map_filter [OF assms(1)]] by simp
  also have "\<dots> \<le> card A" using assms(2) by (auto intro: card_mono)
  finally show ?thesis .
qed

subsection \<open>The packet of a selection\<close>

lemma without_spans [simp]:
  "aq_question_id (without_question_spans q) = aq_question_id q"
  "aq_evidence_ids (without_question_spans q) = aq_evidence_ids q"
  "aq_trace_spans (without_question_spans q) = []"
  "ah_hypothesis_id (without_hypothesis_spans h) = ah_hypothesis_id h"
  "ah_evidence_ids (without_hypothesis_spans h) = ah_evidence_ids h"
  "ah_counterevidence_ids (without_hypothesis_spans h) = ah_counterevidence_ids h"
  "ah_question_ids (without_hypothesis_spans h) = ah_question_ids h"
  "ah_trace_spans (without_hypothesis_spans h) = []"
  by (simp_all add: without_question_spans_def without_hypothesis_spans_def)

text \<open>The objects of a selection, in its orders.\<close>

definition selected_objects ::
  "research_atlas_manifest \<Rightarrow> selection \<Rightarrow> atlas_question list \<Rightarrow> atlas_hypothesis list \<Rightarrow> atlas_relation list \<Rightarrow>
     atlas_timeline_event list \<Rightarrow> atlas_gap list \<Rightarrow> bool" where
  "selected_objects m s qs hs rs es gs \<longleftrightarrow>
     map aq_question_id qs = sel_question_order s \<and> set qs \<subseteq> set (am_questions m) \<and>
     map ah_hypothesis_id hs = sel_hypothesis_order s \<and> set hs \<subseteq> set (am_hypotheses m) \<and>
     map arl_relation_id rs = sel_relation_order s \<and> set rs \<subseteq> set (am_relations m) \<and>
     map ate_event_id es = sel_event_order s \<and> set es \<subseteq> set (am_timeline m) \<and>
     map agp_gap_id gs = sel_gap_order s \<and> set gs \<subseteq> set (am_gaps m)"

lemma selected_objects_ex:
  assumes "graph_closed m" and core: "core_inv m s"
  obtains qs hs rs es gs where
    "map_res (require_key aq_question_id (am_questions m)) (sel_question_order s) = Inr qs"
    "map_res (require_key ah_hypothesis_id (am_hypotheses m)) (sel_hypothesis_order s) = Inr hs"
    "map_res (require_key arl_relation_id (am_relations m)) (sel_relation_order s) = Inr rs"
    "map_res (require_key ate_event_id (am_timeline m)) (sel_event_order s) = Inr es"
    "map_res (require_key agp_gap_id (am_gaps m)) (sel_gap_order s) = Inr gs"
    "selected_objects m s qs hs rs es gs"
proof -
  have d: "distinct (map aq_question_id (am_questions m))" "distinct (map ah_hypothesis_id (am_hypotheses m))"
    "distinct (map arl_relation_id (am_relations m))" "distinct (map ate_event_id (am_timeline m))"
    "distinct (map agp_gap_id (am_gaps m))"
    using assms(1) by (simp_all add: graph_closed_def)
  have o: "set (order_of s k) \<subseteq> set (manifest_ids m k)" for k
    using core_parts(2,3) [OF core] by simp
  obtain qs where q: "map_res (require_key aq_question_id (am_questions m)) (sel_question_order s) = Inr qs"
    "map aq_question_id qs = sel_question_order s" "set qs \<subseteq> set (am_questions m)"
    using lookup_all [OF d(1), of "sel_question_order s"] o [of route_object_kind.QUESTION]
    by (auto simp: order_of_def manifest_ids_def)
  obtain hs where h: "map_res (require_key ah_hypothesis_id (am_hypotheses m)) (sel_hypothesis_order s) = Inr hs"
    "map ah_hypothesis_id hs = sel_hypothesis_order s" "set hs \<subseteq> set (am_hypotheses m)"
    using lookup_all [OF d(2), of "sel_hypothesis_order s"] o [of route_object_kind.HYPOTHESIS]
    by (auto simp: order_of_def manifest_ids_def)
  obtain rs where r: "map_res (require_key arl_relation_id (am_relations m)) (sel_relation_order s) = Inr rs"
    "map arl_relation_id rs = sel_relation_order s" "set rs \<subseteq> set (am_relations m)"
    using lookup_all [OF d(3), of "sel_relation_order s"] o [of RELATION]
    by (auto simp: order_of_def manifest_ids_def)
  obtain es where e: "map_res (require_key ate_event_id (am_timeline m)) (sel_event_order s) = Inr es"
    "map ate_event_id es = sel_event_order s" "set es \<subseteq> set (am_timeline m)"
    using lookup_all [OF d(4), of "sel_event_order s"] o [of TIMELINE]
    by (auto simp: order_of_def manifest_ids_def)
  obtain gs where g: "map_res (require_key agp_gap_id (am_gaps m)) (sel_gap_order s) = Inr gs"
    "map agp_gap_id gs = sel_gap_order s" "set gs \<subseteq> set (am_gaps m)"
    using lookup_all [OF d(5), of "sel_gap_order s"] o [of GAP]
    by (auto simp: order_of_def manifest_ids_def)
  show thesis
    by (rule that [OF q(1) h(1) r(1) e(1) g(1)])
      (simp add: selected_objects_def q(2,3) h(2,3) r(2,3) e(2,3) g(2,3))
qed

end
