(* ===== verification/Route_Packet.thy ===== *)
theory Route_Packet
  imports Route_Props
begin

text \<open>
  The packet of a selection passes the validators of schema 1.1, and the budgeted route
  always ends in such a packet.
\<close>

subsection \<open>References of the packet\<close>

lemma closed_onD:
  assumes "closed_on m w ends ev src"
  shows "q \<in> set (am_questions m) \<Longrightarrow> aq_question_id q \<in> w route_object_kind.QUESTION \<Longrightarrow>
      set (aq_evidence_ids q) \<subseteq> ev"
    "h \<in> set (am_hypotheses m) \<Longrightarrow> ah_hypothesis_id h \<in> w route_object_kind.HYPOTHESIS \<Longrightarrow>
      set (ah_evidence_ids h) \<union> set (ah_counterevidence_ids h) \<subseteq> ev \<and>
      set (ah_question_ids h) \<subseteq> w route_object_kind.QUESTION"
    "r \<in> set (am_relations m) \<Longrightarrow> arl_relation_id r \<in> w RELATION \<Longrightarrow>
      {arl_source_hypothesis_id r, arl_target_hypothesis_id r} \<subseteq> ends \<and> set (arl_evidence_ids r) \<subseteq> ev"
    "e \<in> set (am_timeline m) \<Longrightarrow> ate_event_id e \<in> w TIMELINE \<Longrightarrow>
      set (ate_evidence_ids e) \<subseteq> ev \<and> set (ate_question_ids e) \<subseteq> w route_object_kind.QUESTION \<and>
      set (ate_hypothesis_ids e) \<subseteq> w route_object_kind.HYPOTHESIS"
    "g \<in> set (am_gaps m) \<Longrightarrow> agp_gap_id g \<in> w GAP \<Longrightarrow>
      set (agp_related_question_ids g) \<subseteq> w route_object_kind.QUESTION \<and>
      set (agp_related_hypothesis_ids g) \<subseteq> w route_object_kind.HYPOTHESIS"
    "x \<in> set (am_evidence m) \<Longrightarrow> aev_evidence_id x \<in> ev \<Longrightarrow> aev_source_id x \<in> src"
  using assms by (simp_all add: closed_on_def)

lemma graph_closedD:
  assumes "graph_closed m"
  shows "distinct (map aso_source_id (am_sources m))" "distinct (map aev_evidence_id (am_evidence m))"
    "x \<in> set (am_evidence m) \<Longrightarrow> aev_source_id x \<in> aso_source_id ` set (am_sources m)"
    "q \<in> set (am_questions m) \<Longrightarrow> set (aq_evidence_ids q) \<subseteq> aev_evidence_id ` set (am_evidence m)"
    "h \<in> set (am_hypotheses m) \<Longrightarrow>
      set (ah_evidence_ids h) \<union> set (ah_counterevidence_ids h) \<subseteq> aev_evidence_id ` set (am_evidence m)"
    "r \<in> set (am_relations m) \<Longrightarrow> set (arl_evidence_ids r) \<subseteq> aev_evidence_id ` set (am_evidence m)"
    "e \<in> set (am_timeline m) \<Longrightarrow> set (ate_evidence_ids e) \<subseteq> aev_evidence_id ` set (am_evidence m)"
  using assms by (simp_all add: graph_closed_def)

lemma packet_references_ok:
  assumes graph: "graph_closed m" and core: "core_inv m s" and closed: "closed_inv m s"
    and objects: "selected_objects m s qs hs rs es gs"
    and p: "cmp_sources p = filter (\<lambda>x. aso_source_id x \<in> sel_source_ids s) (am_sources m)"
      "cmp_evidence p = filter (\<lambda>x. aev_evidence_id x \<in> sel_evidence_ids s) (am_evidence m)"
      "cmp_questions p = map without_question_spans qs"
      "cmp_hypotheses p = map without_hypothesis_spans hs"
      "cmp_relations p = rs" "cmp_timeline p = es" "cmp_gaps p = gs"
  shows "packet_references p = Inr ()"
proof -
  let ?Q = route_object_kind.QUESTION and ?H = route_object_kind.HYPOTHESIS
  define ev where "ev = set (map aev_evidence_id (cmp_evidence p))"
  define src where "src = set (map aso_source_id (cmp_sources p))"
  have held: "set (sel_question_order s) = held s ?Q" "set (sel_hypothesis_order s) = held s ?H"
    "set (sel_relation_order s) = held s RELATION" "set (sel_event_order s) = held s TIMELINE"
    "set (sel_gap_order s) = held s GAP"
    using core_parts(2) [OF core, of ?Q] core_parts(2) [OF core, of ?H] core_parts(2) [OF core, of RELATION]
      core_parts(2) [OF core, of TIMELINE] core_parts(2) [OF core, of GAP]
    by (simp_all add: order_of_def)
  have dist: "distinct (sel_question_order s)" "distinct (sel_hypothesis_order s)"
    using core_parts(1) [OF core, of ?Q] core_parts(1) [OF core, of ?H] by (simp_all add: order_of_def)
  have names: "map aq_question_id (cmp_questions p) = sel_question_order s"
    "map ah_hypothesis_id (cmp_hypotheses p) = sel_hypothesis_order s"
    using objects by (simp_all add: p selected_objects_def o_def)
  have ev: "ev = aev_evidence_id ` set (am_evidence m) \<inter> sel_evidence_ids s"
    and src: "src = aso_source_id ` set (am_sources m) \<inter> sel_source_ids s"
    by (auto simp: ev_def src_def p)
  note g = graph_closedD [OF graph] and c = closed_onD [OF closed [unfolded closed_inv_def]]
  have ids: "aq_question_id ` set qs = held s ?Q" "ah_hypothesis_id ` set hs = held s ?H"
    "arl_relation_id ` set rs = held s RELATION" "ate_event_id ` set es = held s TIMELINE"
    "agp_gap_id ` set gs = held s GAP"
    using objects held unfolding selected_objects_def by (metis set_map)+
  have subsets: "set qs \<subseteq> set (am_questions m)" "set hs \<subseteq> set (am_hypotheses m)"
    "set rs \<subseteq> set (am_relations m)" "set es \<subseteq> set (am_timeline m)" "set gs \<subseteq> set (am_gaps m)"
    using objects by (simp_all add: selected_objects_def)
  have q_in: "q \<in> set (am_questions m)" "aq_question_id q \<in> held s ?Q" if "q \<in> set qs" for q
    using that ids(1) subsets(1) by blast+
  have h_in: "h \<in> set (am_hypotheses m)" "ah_hypothesis_id h \<in> held s ?H" if "h \<in> set hs" for h
    using that ids(2) subsets(2) by blast+
  have r_in: "r \<in> set (am_relations m)" "arl_relation_id r \<in> held s RELATION" if "r \<in> set rs" for r
    using that ids(3) subsets(3) by blast+
  have e_in: "e \<in> set (am_timeline m)" "ate_event_id e \<in> held s TIMELINE" if "e \<in> set es" for e
    using that ids(4) subsets(4) by blast+
  have g_in: "g \<in> set (am_gaps m)" "agp_gap_id g \<in> held s GAP" if "g \<in> set gs" for g
    using that ids(5) subsets(5) by blast+
  have evidence: "aev_source_id e \<in> src" if "e \<in> set (cmp_evidence p)" for e
    using that g(3) [of e] c(6) [of e] by (simp add: src p(2))
  have question: "set (aq_evidence_ids q) \<subseteq> ev" if "q \<in> set qs" for q
    using g(4) [OF q_in(1) [OF that]] c(1) [OF q_in [OF that]] by (simp add: ev)
  have hypothesis: "set (ah_evidence_ids h) \<subseteq> ev" "set (ah_counterevidence_ids h) \<subseteq> ev"
    "set (ah_question_ids h) \<subseteq> held s ?Q" if "h \<in> set hs" for h
    using g(5) [OF h_in(1) [OF that]] c(2) [OF h_in [OF that]] by (simp_all add: ev)
  have relation: "arl_source_hypothesis_id r \<in> held s ?H" "arl_target_hypothesis_id r \<in> held s ?H"
    "set (arl_evidence_ids r) \<subseteq> ev" if "r \<in> set rs" for r
    using g(6) [OF r_in(1) [OF that]] c(3) [OF r_in [OF that]] by (simp_all add: ev)
  have event: "set (ate_evidence_ids e) \<subseteq> ev" "set (ate_question_ids e) \<subseteq> held s ?Q"
    "set (ate_hypothesis_ids e) \<subseteq> held s ?H" if "e \<in> set es" for e
    using g(7) [OF e_in(1) [OF that]] c(4) [OF e_in [OF that]] by (simp_all add: ev)
  have gap: "set (agp_related_question_ids x) \<subseteq> held s ?Q" "set (agp_related_hypothesis_ids x) \<subseteq> held s ?H"
    if "x \<in> set gs" for x
    using c(5) [OF g_in [OF that]] by simp_all
  have "distinct (map aso_source_id (cmp_sources p))" "distinct (map aev_evidence_id (cmp_evidence p))"
    using g(1,2) by (simp_all add: p distinct_map_filter)
  moreover have "aev_evidence_id ` set (cmp_evidence p) = ev" "aso_source_id ` set (cmp_sources p) = src"
    by (simp_all add: ev_def src_def)
  ultimately show ?thesis
    using evidence question hypothesis relation event gap
    unfolding packet_references_def names
    by (simp add: res_simps dist held p(3-7))
qed

subsection \<open>Receipts\<close>

lemma validated_candidates:
  "validate_semantic_candidate x = Inr y \<Longrightarrow> y = x" "validate_lexical_candidate z = Inr w \<Longrightarrow> w = z"
  by (auto simp: validate_semantic_candidate_def semantic_validator_def validate_lexical_candidate_def
      lexical_validator_def res_simps split: if_splits)

lemma validate_receipt_Inr:
  assumes "validate_route_receipt_model r = Inr r'"
  shows "r' = r" "rcr_receipt_id r = ''route_candidate_receipt_'' @ take 32 (rcr_receipt_hash r)"
    "matches_hex 64 (rcr_receipt_hash r)" "\<forall>c \<in> set (ordered_candidates r). valid_candidate c"
    "distinct (map candidate_question_id (ordered_candidates r))"
    "rcr_decision r = ROUTED \<Longrightarrow> ordered_candidates r \<noteq> []"
proof -
  obtain ss ls where s: "map_res validate_semantic_candidate (rcr_semantic r) = Inr ss"
    and l: "map_res validate_lexical_candidate (rcr_lexical r) = Inr ls"
    and v: "route_receipt_validator r = Inr r'" and h: "matches_hex 64 (rcr_receipt_hash r)"
    using assms unfolding validate_route_receipt_model_def by (auto simp: res_simps)
  have "r' = r \<and> distinct (map candidate_question_id (ordered_candidates r)) \<and>
      (rcr_decision r = ROUTED \<longrightarrow> map candidate_question_id (ordered_candidates r) \<noteq> []) \<and>
      rcr_receipt_id r = canonical_content_id ''route_candidate_receipt'' (route_receipt_payload r) \<and>
      rcr_receipt_hash r = canonical_sha256_hex (route_receipt_payload r)"
    using v unfolding route_receipt_validator_def Let_def by (auto simp: res_simps)
  then show "r' = r" "rcr_receipt_id r = ''route_candidate_receipt_'' @ take 32 (rcr_receipt_hash r)"
    "distinct (map candidate_question_id (ordered_candidates r))"
    "rcr_decision r = ROUTED \<Longrightarrow> ordered_candidates r \<noteq> []"
    by (auto simp: canonical_content_id_def canonical_sha256_hex_def)
  show "matches_hex 64 (rcr_receipt_hash r)" by (rule h)
  have "validate_semantic_candidate x = Inr x" if "x \<in> set (rcr_semantic r)" for x
    using s that validated_candidates(1) by (metis map_res_InrD)
  moreover have "validate_lexical_candidate x = Inr x" if "x \<in> set (rcr_lexical r)" for x
    using l that validated_candidates(2) by (metis map_res_InrD)
  ultimately show "\<forall>c \<in> set (ordered_candidates r). valid_candidate c"
    by (auto simp: ordered_candidates_def valid_candidate_def)
qed

subsection \<open>The packet of a selection\<close>

definition status_fits :: "route_status \<Rightarrow> selection \<Rightarrow> bool" where
  "status_fits st s \<longleftrightarrow>
     (case st of
        route_status.ROUTED \<Rightarrow> sel_seed_question_ids s \<noteq> {}
      | NO_MATCH \<Rightarrow> s = empty_selection
      | BUDGET_EXCEEDED \<Rightarrow>
          (\<forall>k. held s k = {}) \<and> sel_evidence_ids s = {} \<and> sel_source_ids s = {} \<and> sel_omissions s \<noteq> [])"

text \<open>The packet under its own identity.\<close>

definition sealed :: "compact_memory_packet_v1_1 \<Rightarrow> compact_memory_packet_v1_1" where
  "sealed raw =
     raw\<lparr>cmp_packet_id := canonical_content_id ''memory_packet'' (packet_v1_1_payload raw),
         cmp_packet_hash := canonical_sha256_hex (packet_v1_1_payload raw)\<rparr>"

lemma create_packet_sealed: "create_packet_v1_1 raw = validate_packet_v1_1 (sealed raw)"
  by (simp add: create_packet_v1_1_def sealed_def Let_def)

lemma payload_sealed: "packet_v1_1_payload (sealed raw) = packet_v1_1_payload raw"
  by (simp add: sealed_def packet_v1_1_payload_def packet_fields_def)

lemma sealed_fields [simp]:
  "cmp_schema_id (sealed r) = cmp_schema_id r" "cmp_router_profile (sealed r) = cmp_router_profile r"
  "cmp_route_status (sealed r) = cmp_route_status r" "cmp_query (sealed r) = cmp_query r"
  "cmp_query_terms (sealed r) = cmp_query_terms r" "cmp_atlas_id (sealed r) = cmp_atlas_id r"
  "cmp_case_id (sealed r) = cmp_case_id r" "cmp_manifest_hash (sealed r) = cmp_manifest_hash r"
  "cmp_route_matches (sealed r) = cmp_route_matches r" "cmp_sources (sealed r) = cmp_sources r"
  "cmp_evidence (sealed r) = cmp_evidence r" "cmp_questions (sealed r) = cmp_questions r"
  "cmp_hypotheses (sealed r) = cmp_hypotheses r" "cmp_relations (sealed r) = cmp_relations r"
  "cmp_timeline (sealed r) = cmp_timeline r" "cmp_gaps (sealed r) = cmp_gaps r"
  "cmp_route_receipt_id (sealed r) = cmp_route_receipt_id r"
  "cmp_route_receipt_hash (sealed r) = cmp_route_receipt_hash r"
  "cmp_route_budget (sealed r) = cmp_route_budget r" "cmp_route_trace (sealed r) = cmp_route_trace r"
  "cmp_omissions (sealed r) = cmp_omissions r"
  "cmp_packet_id (sealed r) = canonical_content_id ''memory_packet'' (packet_v1_1_payload r)"
  "cmp_packet_hash (sealed r) = canonical_sha256_hex (packet_v1_1_payload r)"
  by (simp_all add: sealed_def)

lemma strip_sealed:
  assumes "model_strip (cmp_schema_id r) = cmp_schema_id r"
    "model_strip (cmp_router_profile r) = cmp_router_profile r" "model_strip (cmp_query r) = cmp_query r"
    "map model_strip (cmp_query_terms r) = cmp_query_terms r" "model_id_pattern (cmp_atlas_id r)"
    "model_id_pattern (cmp_case_id r)" "matches_hex 64 (cmp_manifest_hash r)"
    "model_strip (cmp_route_receipt_id r) = cmp_route_receipt_id r"
    "matches_hex 64 (cmp_route_receipt_hash r)"
  shows "strip_packet_v1_1 (sealed r) = sealed r"
  by (rule compact_memory_packet_v1_1.equality)
    (use assms in \<open>simp_all add: strip_packet_v1_1_def strip_packet_def model_space_def\<close>)

lemma selected_counts:
  assumes "graph_closed m" and inv: "route_inv m b s" and objects: "selected_objects m s qs hs rs es gs"
  shows "int (length qs) \<le> rb_max_questions b" "int (length hs) \<le> rb_max_linked_hypotheses b"
    "int (length rs) \<le> rb_max_relations b" "int (length es) \<le> rb_max_timeline_events b"
    "int (length gs) \<le> rb_max_gaps b"
    "int (length (filter (\<lambda>x. aev_evidence_id x \<in> sel_evidence_ids s) (am_evidence m))) \<le> rb_max_evidence b"
    "int (length (filter (\<lambda>x. aso_source_id x \<in> sel_source_ids s) (am_sources m))) \<le> rb_max_sources b"
proof -
  have core: "core_inv m s" and budget: "budget_inv b s" using inv by (simp_all add: route_inv_def)
  have le: "int (length (order_of s k)) \<le> budget_of b k" for k
    using budget length_order [OF core] by (simp add: budget_inv_def)
  have "length qs = length (sel_question_order s)" "length hs = length (sel_hypothesis_order s)"
    "length rs = length (sel_relation_order s)" "length es = length (sel_event_order s)"
    "length gs = length (sel_gap_order s)"
    using objects unfolding selected_objects_def by (metis length_map)+
  then show "int (length qs) \<le> rb_max_questions b" "int (length hs) \<le> rb_max_linked_hypotheses b"
    "int (length rs) \<le> rb_max_relations b" "int (length es) \<le> rb_max_timeline_events b"
    "int (length gs) \<le> rb_max_gaps b"
    using le [of route_object_kind.QUESTION] le [of route_object_kind.HYPOTHESIS] le [of RELATION]
      le [of TIMELINE] le [of GAP]
    by (simp_all add: order_of_def budget_of_def)
  have d: "distinct (map aev_evidence_id (am_evidence m))" "distinct (map aso_source_id (am_sources m))"
    using graph_closedD(1,2) [OF assms(1)] by simp_all
  have "finite (sel_evidence_ids s)" "int (card (sel_evidence_ids s)) \<le> rb_max_evidence b"
    "finite (sel_source_ids s)" "int (card (sel_source_ids s)) \<le> rb_max_sources b"
    using budget by (simp_all add: budget_inv_def)
  then show
    "int (length (filter (\<lambda>x. aev_evidence_id x \<in> sel_evidence_ids s) (am_evidence m))) \<le> rb_max_evidence b"
    "int (length (filter (\<lambda>x. aso_source_id x \<in> sel_source_ids s) (am_sources m))) \<le> rb_max_sources b"
    using filter_length [OF d(1), of "sel_evidence_ids s"] filter_length [OF d(2), of "sel_source_ids s"]
    by linarith+
qed

lemma selected_trace_keys:
  assumes core: "core_inv m s" and objects: "selected_objects m s qs hs rs es gs"
    and p: "cmp_questions p = map without_question_spans qs"
      "cmp_hypotheses p = map without_hypothesis_spans hs"
      "cmp_relations p = rs" "cmp_timeline p = es" "cmp_gaps p = gs"
  shows "set (expected_trace_keys p) = sel_keys s"
proof -
  have orders: "order_of s route_object_kind.QUESTION = map aq_question_id qs"
    "order_of s route_object_kind.HYPOTHESIS = map ah_hypothesis_id hs"
    "order_of s RELATION = map arl_relation_id rs" "order_of s TIMELINE = map ate_event_id es"
    "order_of s GAP = map agp_gap_id gs"
    using objects by (simp_all add: selected_objects_def order_of_def)
  have keys: "expected_trace_keys p = keyed (order_of s)"
    by (simp add: expected_trace_keys_def p keyed_def orders o_def)
  show ?thesis unfolding keys set_keyed core_parts(2) [OF core] by (simp add: sel_keys_def)
qed

lemma selected_status:
  assumes core: "core_inv m s" and objects: "selected_objects m s qs hs rs es gs"
    and status: "status_fits st s"
    and p: "cmp_route_status p = st" "cmp_route_trace p = sel_trace s" "cmp_omissions p = sel_omissions s"
      "cmp_sources p = filter (\<lambda>x. aso_source_id x \<in> sel_source_ids s) (am_sources m)"
      "cmp_evidence p = filter (\<lambda>x. aev_evidence_id x \<in> sel_evidence_ids s) (am_evidence m)"
      "cmp_questions p = map without_question_spans qs"
      "cmp_hypotheses p = map without_hypothesis_spans hs"
      "cmp_relations p = rs" "cmp_timeline p = es" "cmp_gaps p = gs"
  shows "packet_v1_1_status p = Inr ()"
proof -
  have orders: "map aq_question_id qs = order_of s route_object_kind.QUESTION"
    "map ah_hypothesis_id hs = order_of s route_object_kind.HYPOTHESIS"
    "map arl_relation_id rs = order_of s RELATION" "map ate_event_id es = order_of s TIMELINE"
    "map agp_gap_id gs = order_of s GAP"
    using objects by (simp_all add: selected_objects_def order_of_def)
  have empty: "packet_v1_1_empty p \<and> sel_trace s = []"
    if "\<forall>k. held s k = {}" "sel_evidence_ids s = {}" "sel_source_ids s = {}"
  proof -
    have "order_of s k = []" for k using that(1) core_parts(2) [OF core, of k] by simp
    moreover have "set (map trace_key (sel_trace s)) = {}"
      using core_parts(5) [OF core] that(1) by (simp add: sel_keys_def)
    ultimately show ?thesis
      using orders that(2,3) by (simp add: packet_v1_1_empty_def packet_empty_def p)
  qed
  show ?thesis
  proof (cases st)
    case ROUTED
    with status have seeds: "sel_seed_question_ids s \<noteq> {}" by (simp add: status_fits_def)
    then have "{e \<in> set (sel_trace s). rt_stage e = SEED} \<noteq> {}"
      using core_parts(11) [OF core] by auto
    then have "filter (\<lambda>e. rt_stage e = SEED) (sel_trace s) \<noteq> []" by (auto simp: filter_empty_conv)
    moreover have "held s route_object_kind.QUESTION \<noteq> {}"
      using seeds core_parts(12) [OF core] by (auto simp: held_question)
    then have "qs \<noteq> []" using orders(1) core_parts(2) [OF core, of route_object_kind.QUESTION] by force
    ultimately show ?thesis
      using ROUTED by (simp add: packet_v1_1_status_def p packet_v1_1_empty_def packet_empty_def)
  next
    case NO_MATCH
    with status have s: "s = empty_selection" by (simp add: status_fits_def)
    then have "\<forall>k. held s k = {}" "sel_evidence_ids s = {}" "sel_source_ids s = {}" "sel_omissions s = []"
      by (simp_all add: empty_selection_def held_def split: route_object_kind.split)
    with empty NO_MATCH show ?thesis by (simp add: packet_v1_1_status_def p)
  next
    case BUDGET_EXCEEDED
    with status empty show ?thesis by (simp add: packet_v1_1_status_def p status_fits_def)
  qed
qed

lemma selected_packet_ok:
  assumes con: "constructed_manifest m" and inv: "route_inv m b s" and bud: "validate_budget b = Inr b"
    and rec: "validate_route_receipt_model receipt = Inr receipt" and hash: "matches_hex 64 mh"
    and query: "model_strip n = n" "1 \<le> length n" "length n \<le> 4000" "length (route_terms n) \<le> 128"
    and objects: "selected_objects m s qs hs rs es gs" and status: "status_fits st s"
    and raw: "raw = selected_packet m mh n (route_terms n) receipt b st s qs hs rs es gs"
  shows "validate_packet_v1_1 (sealed raw) = Inr (sealed raw)"
proof -
  have core: "core_inv m s" and closed: "closed_inv m s" and budget: "budget_inv b s"
    using inv by (simp_all add: route_inv_def)
  note graph = constructed_graph [OF con] and sizes = manifest_sizes [OF con]
  note counts = selected_counts [OF graph inv objects] and receipt = validate_receipt_Inr [OF rec]
  note fields = raw [unfolded selected_packet_def]
  have rid: "matches_prefixed_hex ''route_candidate_receipt_'' 32 (rcr_receipt_id receipt)"
    unfolding receipt(2) matches_prefixed_hex_append using matches_hex_take [OF receipt(3), of 32] by simp
  have strip_id: "model_strip (rcr_receipt_id receipt) = rcr_receipt_id receipt"
    by (intro model_strip_unpadded matches_prefixed_hex_unpadded [OF rid]) (simp_all add: model_space_def)
  have literals: "model_strip packet_v1_1_schema = packet_v1_1_schema"
    "model_strip router_profile_v2 = router_profile_v2"
    by (simp_all add: packet_v1_1_schema_def router_profile_v2_def model_strip_literal)
  have strip: "strip_packet_v1_1 (sealed raw) = sealed raw"
    by (rule strip_sealed)
      (simp_all add: fields literals query route_terms_strip sizes strip_id receipt(3) hash)
  have b: "rb_max_questions b \<le> 100" "rb_max_linked_hypotheses b \<le> 100" "rb_max_relations b \<le> 200"
    "rb_max_timeline_events b \<le> 200" "rb_max_gaps b \<le> 100" "rb_max_evidence b \<le> 1000"
    "rb_max_sources b \<le> 200"
    using bud by (simp_all add: validate_budget_def res_simps)
  have "list_all (\<lambda>c. c = Inr ()) (packet_field_checks (sealed raw))"
    using counts b query sizes hash
    by (simp add: packet_field_checks_def res_simps fields canonical_content_id_matches)
  moreover have "length (sel_trace s) \<le> 700" "length (sel_omissions s) \<le> 11000"
    using trace_length [OF core budget bud] omissions_length [OF core con] by simp_all
  ultimately have checks: "list_all (\<lambda>c. c = Inr ()) (packet_field_checks (sealed raw) @
      [pattern_field ''route_receipt_id''
         (matches_prefixed_hex ''route_candidate_receipt_'' 32 (cmp_route_receipt_id (sealed raw))),
       pattern_field ''route_receipt_hash'' (matches_hex 64 (cmp_route_receipt_hash (sealed raw))),
       list_field ''route_trace'' 0 700 (cmp_route_trace (sealed raw)),
       list_field ''omissions'' 0 11000 (cmp_omissions (sealed raw))])"
    using rid receipt(3) by (simp add: res_simps fields)
  have "packet_references (sealed raw) = Inr ()"
    by (rule packet_references_ok [OF graph core closed objects]) (simp_all add: fields)
  moreover have "packet_v10_status (sealed raw) = Inr ()"
    by (simp add: packet_v10_status_def fields packet_v1_1_schema_def packet_schema_def)
  ultimately have validator: "packet_validator packet_v1_1_schema (packet_v1_1_payload (sealed raw)) (sealed raw) = Inr ()"
    by (simp add: packet_validator_def payload_sealed list_ex_iff fields)
  have keys: "set (expected_trace_keys (sealed raw)) = sel_keys s"
    by (rule selected_trace_keys [OF core objects]) (simp_all add: fields)
  have "packet_v1_1_status (sealed raw) = Inr ()"
    by (rule selected_status [OF core objects status]) (simp_all add: fields)
  moreover have "\<not> list_ex (\<lambda>k. k \<in> set (map omission_key (sel_omissions s))) (map trace_key (sel_trace s))"
    using core_parts(5,8,9) [OF core] unfolding list_ex_iff by blast
  moreover have "for_each (\<lambda>(actual, maximum, label). guard_res (actual \<le> maximum)
      (ValueError (''schema 1.1 '' @ label @ '' closure exceeds its route budget'')))
      (budget_counts (sealed raw)) = Inr ()"
    using counts by (simp add: budget_counts_def Let_def res_simps fields)
  ultimately have v11: "packet_v1_1_validator (sealed raw) = Inr ()"
    using core_parts(4,5,6,7) [OF core] keys receipt(2)
    by (simp add: packet_v1_1_validator_def Let_def fields)
  show ?thesis
    unfolding validate_packet_v1_1_def Let_def strip
    using checks validator v11 by (simp add: res_simps)
qed

lemma build_packet_v2_ok:
  assumes con: "constructed_manifest m" and inv: "route_inv m b s" and bud: "validate_budget b = Inr b"
    and rec: "validate_route_receipt_model receipt = Inr receipt" and hash: "matches_hex 64 mh"
    and query: "model_strip n = n" "1 \<le> length n" "length n \<le> 4000" "length (route_terms n) \<le> 128"
    and status: "status_fits st s"
  shows "\<exists>p. build_packet_v2 m mh n (route_terms n) receipt b st s = Inr p \<and>
    validate_packet_v1_1 p = Inr p \<and> cmp_route_status p = st \<and> cmp_route_trace p = sel_trace s \<and>
    cmp_omissions p = sel_omissions s"
proof -
  have core: "core_inv m s" using inv by (simp add: route_inv_def)
  obtain qs hs rs es gs where o:
    "map_res (require_key aq_question_id (am_questions m)) (sel_question_order s) = Inr qs"
    "map_res (require_key ah_hypothesis_id (am_hypotheses m)) (sel_hypothesis_order s) = Inr hs"
    "map_res (require_key arl_relation_id (am_relations m)) (sel_relation_order s) = Inr rs"
    "map_res (require_key ate_event_id (am_timeline m)) (sel_event_order s) = Inr es"
    "map_res (require_key agp_gap_id (am_gaps m)) (sel_gap_order s) = Inr gs"
    "selected_objects m s qs hs rs es gs"
    using selected_objects_ex [OF constructed_graph [OF con] core] by blast
  let ?raw = "selected_packet m mh n (route_terms n) receipt b st s qs hs rs es gs"
  have "validate_packet_v1_1 (sealed ?raw) = Inr (sealed ?raw)"
    by (rule selected_packet_ok [OF con inv bud rec hash query o(6) status refl])
  moreover have "build_packet_v2 m mh n (route_terms n) receipt b st s = validate_packet_v1_1 (sealed ?raw)"
    by (simp add: build_packet_v2_def o(1-5) create_packet_sealed)
  ultimately show ?thesis by (simp add: selected_packet_def)
qed

subsection \<open>The route\<close>

text \<open>What a packet says of the objects it was asked about.\<close>

definition packet_accounts :: "compact_memory_packet_v1_1 \<Rightarrow> (route_object_kind \<times> string) set" where
  "packet_accounts p = set (map trace_key (cmp_route_trace p)) \<union> set (map omission_key (cmp_omissions p))"

definition packet_seeds :: "compact_memory_packet_v1_1 \<Rightarrow> string set" where
  "packet_seeds p = rt_object_id ` {e \<in> set (cmp_route_trace p). rt_stage e = SEED}"

definition packet_admits :: "compact_memory_packet_v1_1 \<Rightarrow> route_object_kind \<Rightarrow> string \<Rightarrow> bool" where
  "packet_admits p k i \<longleftrightarrow> (k, i) \<in> set (map trace_key (cmp_route_trace p))"

definition accounts_for_graph :: "research_atlas_manifest \<Rightarrow> compact_memory_packet_v1_1 \<Rightarrow> bool" where
  "accounts_for_graph m p \<longleftrightarrow>
     (\<forall>h \<in> set (am_hypotheses m). meets (packet_seeds p) (ah_question_ids h) \<longrightarrow>
        (route_object_kind.HYPOTHESIS, ah_hypothesis_id h) \<in> packet_accounts p) \<and>
     (\<forall>e \<in> set (am_timeline m). meets (packet_seeds p) (ate_question_ids e) \<longrightarrow>
        (TIMELINE, ate_event_id e) \<in> packet_accounts p) \<and>
     (\<forall>g \<in> set (am_gaps m). meets (packet_seeds p) (agp_related_question_ids g) \<longrightarrow>
        (GAP, agp_gap_id g) \<in> packet_accounts p) \<and>
     (\<forall>r \<in> set (am_relations m).
        packet_admits p route_object_kind.HYPOTHESIS (arl_source_hypothesis_id r) \<or>
        packet_admits p route_object_kind.HYPOTHESIS (arl_target_hypothesis_id r) \<longrightarrow>
        (RELATION, arl_relation_id r) \<in> packet_accounts p)"

lemma route_inv_empty:
  assumes "validate_budget b = Inr b"
  shows "route_inv m b empty_selection"
proof -
  have held: "held empty_selection k = {}" for k
    by (cases k) (simp_all add: held_def empty_selection_def)
  have "0 \<le> budget_of b k" for k
    using assms by (cases k) (simp_all add: budget_of_def validate_budget_def res_simps)
  then have "budget_inv b empty_selection"
    using assms by (simp add: budget_inv_def held validate_budget_def res_simps) (simp add: empty_selection_def)
  then show ?thesis
    by (simp add: route_inv_def closed_inv_def closed_on_def held) (simp add: empty_selection_def)
qed

lemma seed_inv_empty:
  assumes "constructed_manifest m" and "validate_budget b = Inr b"
  shows "seed_inv m b {} empty_selection"
  using assms route_inv_empty [of b m]
  by (simp add: seed_inv_def accounted_def sel_keys_def omitted_def)
    (simp add: empty_selection_def held_def split: route_object_kind.splits)

lemma validate_for_Inr:
  assumes "validate_for r m mh q = Inr u"
  shows "mh = canonical_sha256_hex (manifest_dump m)"
    "set (map candidate_question_id (ordered_candidates r)) \<subseteq> set (map aq_question_id (am_questions m))"
  using assms by (auto simp: validate_for_def Let_def res_simps)

lemma accounts_of_selection:
  assumes "core_inv m s" and "cmp_route_trace p = sel_trace s" and "cmp_omissions p = sel_omissions s"
  shows "packet_accounts p = accounted s" "packet_seeds p = sel_seed_question_ids s"
    "packet_admits p k i \<longleftrightarrow> i \<in> held s k"
  using core_parts(5,8,11) [OF assms(1)]
  by (simp_all add: packet_accounts_def packet_seeds_def packet_admits_def assms(2,3) accounted_def)

lemma admit_seeds_ok:
  assumes con: "constructed_manifest m" and rec: "validate_route_receipt_model r = Inr r"
    and bud: "validate_budget b = Inr b" and valid: "validate_for r m mh n = Inr ()"
  shows "\<exists>s. fold_res (admit_seed m b) (ordered_candidates r) empty_selection = Inr s \<and>
    seed_inv m b (candidate_question_id ` set (ordered_candidates r)) s \<and>
    (\<forall>c \<in> set (ordered_candidates r). seed_settled c s)"
proof -
  note receipt = validate_receipt_Inr [OF rec]
  have "\<forall>c \<in> set (ordered_candidates r).
      valid_candidate c \<and> candidate_question_id c \<in> set (manifest_ids m route_object_kind.QUESTION)"
    using receipt(4) validate_for_Inr(2) [OF valid] by (auto simp: manifest_ids_def)
  from seeds.visits_ok [OF seed_inv_empty [OF con bud] this receipt(5)] show ?thesis by auto
qed

lemma route_v2_spec:
  assumes con: "constructed_manifest m" and rec: "validate_route_receipt_model r = Inr r"
    and bud: "validate_budget b = Inr b" and n: "normalize_route_query q = Inr n"
    and valid: "validate_for r m mh n = Inr ()" and terms: "length (route_terms n) \<le> 128"
  shows "\<exists>p. route_v2 m mh q r b = Inr p \<and> validate_packet_v1_1 p = Inr p \<and>
    (if rcr_decision r = ABSTAINED then cmp_route_status p = NO_MATCH
     else cmp_route_status p = (if packet_seeds p = {} then BUDGET_EXCEEDED else route_status.ROUTED) \<and>
       (\<forall>c \<in> set (ordered_candidates r).
          (route_object_kind.QUESTION, candidate_question_id c) \<in> packet_accounts p) \<and>
       accounts_for_graph m p)"
proof -
  have hash: "matches_hex 64 mh" using validate_for_Inr(1) [OF valid] by simp
  have query: "model_strip n = n" "1 \<le> length n" "length n \<le> 4000"
    using normalize_route_query_Inr [OF n] by simp_all
  note built = build_packet_v2_ok [OF con _ bud rec hash query terms]
  note start = n rec bud valid route_v2_def Let_def
  show ?thesis
  proof (cases "rcr_decision r = ABSTAINED")
    case True
    have "status_fits NO_MATCH empty_selection" by (simp add: status_fits_def)
    from built [OF route_inv_empty [OF bud] this] True show ?thesis by (auto simp: start)
  next
    case False
    then have "rcr_decision r = ROUTED" by (cases "rcr_decision r") simp_all
    then have some: "ordered_candidates r \<noteq> []" by (rule validate_receipt_Inr(6) [OF rec])
    obtain s where s: "fold_res (admit_seed m b) (ordered_candidates r) empty_selection = Inr s"
      "seed_inv m b (candidate_question_id ` set (ordered_candidates r)) s"
      "\<forall>c \<in> set (ordered_candidates r). seed_settled c s"
      using admit_seeds_ok [OF con rec bud valid] by blast
    have route: "route_inv m b s" and core: "core_inv m s" using s(2) by (auto simp: seed_inv_def route_inv_def)
    show ?thesis
    proof (cases "sel_seed_question_ids s = {}")
      case True
      then have none: "\<forall>k. held s k = {}" "sel_evidence_ids s = {}" "sel_source_ids s = {}"
        using s(2) unfolding seed_inv_def by (metis held_question)+
      then have omitted: "accounted s = omitted s" by (auto simp: accounted_def sel_keys_def)
      have "omitted s \<noteq> {}" using some s(3) omitted by (cases "ordered_candidates r") (auto simp: seed_settled_def)
      with none have "status_fits BUDGET_EXCEEDED s" by (auto simp: status_fits_def omitted_def)
      from built [OF route this] obtain p where
        p: "build_packet_v2 m mh n (route_terms n) r b BUDGET_EXCEEDED s = Inr p"
        "validate_packet_v1_1 p = Inr p" "cmp_route_status p = BUDGET_EXCEEDED"
        "cmp_route_trace p = sel_trace s" "cmp_omissions p = sel_omissions s" by blast
      note acc = accounts_of_selection [OF core p(4,5)]
      have "accounts_for_graph m p" by (simp add: accounts_for_graph_def acc True none(1))
      moreover have "route_v2 m mh q r b = Inr p" using False some True s(1) p(1) by (simp add: start)
      ultimately show ?thesis using False p(2,3) s(3) acc(1,2) True by (auto simp: seed_settled_def)
    next
      case seeds: False
      obtain t where t: "expand_graph m b s = Inr t" "route_inv m b t" "sel_grows s t"
        "\<forall>h \<in> set (am_hypotheses m). concerned_hypothesis h t \<longrightarrow>
           (route_object_kind.HYPOTHESIS, ah_hypothesis_id h) \<in> accounted t"
        "\<forall>e \<in> set (am_timeline m). concerned_event {} e t \<longrightarrow> (TIMELINE, ate_event_id e) \<in> accounted t"
        "\<forall>g \<in> set (am_gaps m). concerned_gap {} g t \<longrightarrow> (GAP, agp_gap_id g) \<in> accounted t"
        "\<forall>x \<in> set (am_relations m). concerned_relation x t \<longrightarrow> (RELATION, arl_relation_id x) \<in> accounted t"
        using expand_graph_ok [OF s(2)] by blast
      have core': "core_inv m t" using t(2) by (simp add: route_inv_def)
      have grown: "sel_seed_question_ids t = sel_seed_question_ids s" "accounted s \<subseteq> accounted t"
        using t(3) by (simp_all add: sel_grows_def)
      have "status_fits route_status.ROUTED t" using seeds grown(1) by (simp add: status_fits_def)
      from built [OF t(2) this] obtain p where
        p: "build_packet_v2 m mh n (route_terms n) r b route_status.ROUTED t = Inr p"
        "validate_packet_v1_1 p = Inr p" "cmp_route_status p = route_status.ROUTED"
        "cmp_route_trace p = sel_trace t" "cmp_omissions p = sel_omissions t" by blast
      note acc = accounts_of_selection [OF core' p(4,5)]
      have "accounts_for_graph m p"
        using t(4-7) by (auto simp: accounts_for_graph_def acc concerned_hypothesis_def concerned_event_def
            concerned_gap_def concerned_relation_def)
      moreover have "route_v2 m mh q r b = Inr p" using False some seeds s(1) t(1) p(1) by (simp add: start)
      ultimately show ?thesis
        using False p(2,3) s(3) acc(1,2) seeds grown by (auto simp: seed_settled_def)
    qed
  qed
qed

text \<open>A packet is made only of a query with at most 128 terms.\<close>

lemma build_packet_v2_terms:
  assumes "build_packet_v2 m mh n ts receipt b st s = Inr p"
  shows "length ts \<le> 128"
proof -
  obtain qs hs rs es gs where
    "create_packet_v1_1 (selected_packet m mh n ts receipt b st s qs hs rs es gs) = Inr p"
    using assms by (auto simp: build_packet_v2_def res_simps)
  then have "list_all (\<lambda>c. c = Inr ()) (packet_field_checks
      (strip_packet_v1_1 (sealed (selected_packet m mh n ts receipt b st s qs hs rs es gs))))"
    unfolding create_packet_sealed validate_packet_v1_1_def Let_def validated_eq_Inr list_all_append
    by blast
  then show ?thesis
    by (simp add: packet_field_checks_def res_simps strip_packet_v1_1_def strip_packet_def selected_packet_def)
qed

lemma route_v2_InrD:
  assumes "route_v2 m mh q r b = Inr p"
  obtains n where "normalize_route_query q = Inr n" "validate_route_receipt_model r = Inr r"
    "validate_budget b = Inr b" "validate_for r m mh n = Inr ()" "length (route_terms n) \<le> 128"
proof -
  obtain n r' b' u where n: "normalize_route_query q = Inr n" "validate_route_receipt_model r = Inr r'"
    "validate_budget b = Inr b'" "validate_for r' m mh n = Inr u"
    and rest: "(if rcr_decision r' = ABSTAINED \<or> ordered_candidates r' = []
      then build_packet_v2 m mh n (route_terms n) r' b' NO_MATCH empty_selection
      else res_bind (fold_res (admit_seed m b') (ordered_candidates r') empty_selection) (\<lambda>s.
        if sel_seed_question_ids s = {}
        then build_packet_v2 m mh n (route_terms n) r' b' BUDGET_EXCEEDED s
        else res_bind (expand_graph m b' s) (\<lambda>s'.
          build_packet_v2 m mh n (route_terms n) r' b' route_status.ROUTED s'))) = Inr p"
    using assms unfolding route_v2_def Let_def by (auto simp: res_bind_eq_Inr)
  have "r' = r" "b' = b"
    using validate_receipt_Inr(1) [OF n(2)] n(3) by (simp_all add: validate_budget_def res_simps)
  moreover have "length (route_terms n) \<le> 128"
    using rest build_packet_v2_terms by (auto simp: res_bind_eq_Inr split: if_splits)
  ultimately show thesis using n that by simp
qed

end
