(* ===== verification/Route_Receipts.thy ===== *)
theory Route_Receipts
  imports Route_Packet
begin

text \<open>
  The builder of route receipts: on well-formed scores it returns a receipt that passes its
  own validator and is fresh for the manifest and the query it was built from.
\<close>

subsection \<open>Float texts\<close>

lemma float_hex_length:
  assumes "float_hex_value h = Some v"
  shows "1 \<le> length h \<and> length h \<le> 32"
proof -
  have exponent: "length x \<le> 5" if "exponent_value x = Some e" for x e
    using that by (auto simp: exponent_value_def Let_def split: list.splits if_splits)
  have body: "1 \<le> length u \<and> length u \<le> 23" if "unsigned_float_hex u = Some w" for u w
  proof (cases "u = ''0x0.0p+0''")
    case False
    with that obtain e where e: "exponent_value (drop 18 u) = Some e"
      by (auto simp: unsigned_float_hex_def Let_def split: if_splits option.splits)
    have "drop 18 u \<noteq> []" using e by (auto simp: exponent_value_def)
    then show ?thesis using exponent [OF e] by simp
  qed simp
  obtain c cs where h: "h = c # cs" using assms by (cases h) (auto simp: float_hex_value_def)
  show ?thesis
  proof (cases "c = CHR ''-''")
    case True
    with assms h obtain w where "unsigned_float_hex cs = Some w" by (auto simp: float_hex_value_def)
    with body [of cs w] show ?thesis by (simp add: h)
  next
    case False
    with assms h have "unsigned_float_hex h = Some v" by (simp add: float_hex_value_def)
    with body [of h v] show ?thesis by simp
  qed
qed

subsection \<open>Order of the built candidates\<close>

lemma length_ranks [simp]: "length (ranks_to n) = n"
  by (simp add: ranks_to_def del: upt_Suc)

lemma ranks_zip:
  "map fst (enumerate_from_one xs) = ranks_to (length xs)" "map snd (enumerate_from_one xs) = xs"
  by (simp_all add: enumerate_from_one_def)

lemma length_enumerate [simp]: "length (enumerate_from_one xs) = length xs"
  by (simp add: enumerate_from_one_def)

lemma qualified_fields:
  "map sqc_rank (qualified_candidates t ps) = ranks_to (length (qualified_candidates t ps))"
  "map (\<lambda>c. (sqc_question_id c, sqc_score_hex c)) (qualified_candidates t ps) =
     sort_key (\<lambda>(q, h). (- score_of h, q)) (filter (\<lambda>(q, h). score_of h \<ge> t) ps)"
proof -
  let ?s = "sort_key (\<lambda>(q, h). (- score_of h, q)) (filter (\<lambda>(q, h). score_of h \<ge> t) ps)"
  have l: "length (qualified_candidates t ps) = length ?s" by (simp add: qualified_candidates_def)
  have "map sqc_rank (qualified_candidates t ps) = map fst (enumerate_from_one ?s)"
    by (simp add: qualified_candidates_def o_def case_prod_beta)
  then show "map sqc_rank (qualified_candidates t ps) = ranks_to (length (qualified_candidates t ps))"
    unfolding l ranks_zip(1) .
  have "map (\<lambda>c. (sqc_question_id c, sqc_score_hex c)) (qualified_candidates t ps) =
      map snd (enumerate_from_one ?s)"
    by (simp add: qualified_candidates_def o_def case_prod_beta)
  then show "map (\<lambda>c. (sqc_question_id c, sqc_score_hex c)) (qualified_candidates t ps) = ?s"
    unfolding ranks_zip(2) .
qed

lemma lexical_fields:
  "map lqc_rank (lexical_candidates ps) = ranks_to (length (lexical_candidates ps))"
  "map (\<lambda>c. (lqc_question_id c, lqc_score c)) (lexical_candidates ps) = sort_key (\<lambda>(q, n). (- n, q)) ps"
proof -
  let ?s = "sort_key (\<lambda>(q, n). (- n :: int, q)) ps"
  have l: "length (lexical_candidates ps) = length ?s" by (simp add: lexical_candidates_def)
  have "map lqc_rank (lexical_candidates ps) = map fst (enumerate_from_one ?s)"
    by (simp add: lexical_candidates_def o_def case_prod_beta)
  then show "map lqc_rank (lexical_candidates ps) = ranks_to (length (lexical_candidates ps))"
    unfolding l ranks_zip(1) .
  have "map (\<lambda>c. (lqc_question_id c, lqc_score c)) (lexical_candidates ps) = map snd (enumerate_from_one ?s)"
    by (simp add: lexical_candidates_def o_def case_prod_beta)
  then show "map (\<lambda>c. (lqc_question_id c, lqc_score c)) (lexical_candidates ps) = ?s"
    unfolding ranks_zip(2) .
qed

lemma qualified_order:
  "validate_semantic_order (qualified_candidates t ps) t = Inr ()"
proof -
  let ?cs = "qualified_candidates t ps"
  let ?key = "\<lambda>(q, h). (- score_of h, q :: string)"
  have "map semantic_key ?cs = map ?key (map (\<lambda>c. (sqc_question_id c, sqc_score_hex c)) ?cs)"
    by (simp add: semantic_key_def o_def)
  then have "sorted (map semantic_key ?cs)" by (simp add: qualified_fields(2))
  then have "sort_key semantic_key ?cs = ?cs" by (rule sort_key_id_if_sorted)
  moreover have "score_of (sqc_score_hex c) \<ge> t" if "c \<in> set ?cs" for c
  proof -
    have "(sqc_question_id c, sqc_score_hex c) \<in> set (map (\<lambda>c. (sqc_question_id c, sqc_score_hex c)) ?cs)"
      using that by auto
    then show ?thesis unfolding qualified_fields(2) by auto
  qed
  then have "\<not> list_ex (\<lambda>c. score_of (sqc_score_hex c) < t) ?cs" by (auto simp: list_ex_iff not_less)
  ultimately show ?thesis by (simp add: validate_semantic_order_def qualified_fields(1))
qed

lemma lexical_order: "validate_lexical_order (lexical_candidates ps) = Inr ()"
proof -
  let ?cs = "lexical_candidates ps" and ?key = "\<lambda>(q, n). (- n :: int, q :: string)"
  have "map lexical_key ?cs = map ?key (map (\<lambda>c. (lqc_question_id c, lqc_score c)) ?cs)"
    by (simp add: lexical_key_def o_def)
  then have "sorted (map lexical_key ?cs)" by (simp add: lexical_fields(2))
  then have "sort_key lexical_key ?cs = ?cs" by (rule sort_key_id_if_sorted)
  then show ?thesis by (simp add: validate_lexical_order_def lexical_fields(1))
qed

subsection \<open>Built receipts\<close>

lemma semantic_pairs_Inr:
  "semantic_pairs ps = Inr qs \<longleftrightarrow>
     qs = ps \<and> distinct (map fst ps) \<and>
     (\<forall>(q, h) \<in> set ps. model_id_pattern q \<and> float_hex_value h \<noteq> None)"
proof -
  have "semantic_pairs_loop ps = Inr u \<longleftrightarrow> (\<forall>(q, h) \<in> set ps. model_id_pattern q \<and> float_hex_value h \<noteq> None)"
    for u by (induction ps) (auto simp: res_simps split: if_splits)
  then show ?thesis by (auto simp: semantic_pairs_def res_simps)
qed

lemma lexical_pairs_Inr:
  "lexical_pairs ps = Inr qs \<longleftrightarrow>
     qs = ps \<and> distinct (map fst ps) \<and>
     (\<forall>(q, n) \<in> set ps. model_id_pattern q \<and> 1 \<le> n \<and> n \<le> 1000000)"
proof -
  have "lexical_pairs_loop ps = Inr u \<longleftrightarrow> (\<forall>(q, n) \<in> set ps. model_id_pattern q \<and> 1 \<le> n \<and> n \<le> 1000000)"
    for u by (induction ps) (auto simp: res_simps split: if_splits)
  then show ?thesis by (auto simp: lexical_pairs_def res_simps)
qed

lemma qualified_ids:
  "set (map sqc_question_id (qualified_candidates t ps)) = fst ` {p \<in> set ps. score_of (snd p) \<ge> t}"
  "distinct (map fst ps) \<Longrightarrow> distinct (map sqc_question_id (qualified_candidates t ps))"
  "length (qualified_candidates t ps) \<le> length ps"
proof -
  let ?key = "\<lambda>(q, h). (- score_of h, q :: string)" and ?P = "\<lambda>(q :: string, h). score_of h \<ge> t"
  have ids: "map sqc_question_id (qualified_candidates t ps) = map fst (sort_key ?key (filter ?P ps))"
    unfolding qualified_fields(2) [symmetric] by (simp add: o_def)
  show "set (map sqc_question_id (qualified_candidates t ps)) = fst ` {p \<in> set ps. score_of (snd p) \<ge> t}"
    unfolding ids by (auto simp: image_def)
  show "length (qualified_candidates t ps) \<le> length ps"
    using arg_cong [OF ids, of length] by simp
  assume d: "distinct (map fst ps)"
  then have "distinct (map fst (sort_key ?key (filter ?P ps)))"
    using distinct_map_filter [OF d, of ?P] by (simp add: distinct_map)
  then show "distinct (map sqc_question_id (qualified_candidates t ps))" unfolding ids .
qed

lemma lexical_ids:
  "set (map lqc_question_id (lexical_candidates ps)) = fst ` set ps"
  "distinct (map fst ps) \<Longrightarrow> distinct (map lqc_question_id (lexical_candidates ps))"
  "length (lexical_candidates ps) = length ps"
proof -
  let ?key = "\<lambda>(q, n). (- n :: int, q :: string)"
  have ids: "map lqc_question_id (lexical_candidates ps) = map fst (sort_key ?key ps)"
    unfolding lexical_fields(2) [symmetric] by (simp add: o_def)
  show "set (map lqc_question_id (lexical_candidates ps)) = fst ` set ps" unfolding ids by simp
  show "length (lexical_candidates ps) = length ps" using arg_cong [OF ids, of length] by simp
  assume d: "distinct (map fst ps)"
  then show "distinct (map lqc_question_id (lexical_candidates ps))"
    unfolding ids by (simp add: distinct_map)
qed

lemma map_res_self:
  "(\<And>x. x \<in> set xs \<Longrightarrow> f x = Inr x) \<Longrightarrow> map_res f xs = Inr xs"
  by (induction xs) simp_all

lemma built_candidates_valid:
  assumes "\<forall>(q, h) \<in> set sp. model_id_pattern q \<and> float_hex_value h \<noteq> None" and "length sp \<le> 1000"
    and "\<forall>(q, n) \<in> set lp. model_id_pattern q \<and> 1 \<le> n \<and> n \<le> 1000000" and "length lp \<le> 1000"
  shows "map_res validate_semantic_candidate (qualified_candidates t sp) = Inr (qualified_candidates t sp)"
    "map_res validate_lexical_candidate (lexical_candidates lp) = Inr (lexical_candidates lp)"
proof -
  have rank: "1 \<le> r \<and> r \<le> 1000" if "r \<in> set (ranks_to n)" "n \<le> 1000" for r n
    using that by (auto simp: ranks_to_def)
  let ?cs = "qualified_candidates t sp" and ?ls = "lexical_candidates lp"
  show "map_res validate_semantic_candidate ?cs = Inr ?cs"
  proof (rule map_res_self)
    fix c assume c: "c \<in> set ?cs"
    have "(sqc_question_id c, sqc_score_hex c) \<in> set (map (\<lambda>c. (sqc_question_id c, sqc_score_hex c)) ?cs)"
      using c by auto
    then have "(sqc_question_id c, sqc_score_hex c) \<in> set sp" unfolding qualified_fields(2) by auto
    with assms(1) obtain v where v: "model_id_pattern (sqc_question_id c)" "float_hex_value (sqc_score_hex c) = Some v"
      by fastforce
    have "sqc_rank c \<in> set (map sqc_rank ?cs)" using c by auto
    then have "1 \<le> sqc_rank c \<and> sqc_rank c \<le> 1000"
      using rank assms(2) qualified_ids(3) [of t sp] unfolding qualified_fields(1) by force
    moreover have "sqc_channel c = SEMANTIC" using c by (auto simp: qualified_candidates_def)
    ultimately show "validate_semantic_candidate c = Inr c"
      using v float_hex_length [OF v(2)]
      by (simp add: validate_semantic_candidate_def semantic_validator_def require_float_hex_def res_simps)
  qed
  show "map_res validate_lexical_candidate ?ls = Inr ?ls"
  proof (rule map_res_self)
    fix c assume c: "c \<in> set ?ls"
    have "(lqc_question_id c, lqc_score c) \<in> set (map (\<lambda>c. (lqc_question_id c, lqc_score c)) ?ls)"
      using c by auto
    then have "(lqc_question_id c, lqc_score c) \<in> set lp" unfolding lexical_fields(2) by auto
    with assms(3) have v: "model_id_pattern (lqc_question_id c)" "1 \<le> lqc_score c" "lqc_score c \<le> 1000000"
      by fastforce+
    have "lqc_rank c \<in> set (map lqc_rank ?ls)" using c by auto
    then have "1 \<le> lqc_rank c \<and> lqc_rank c \<le> 1000"
      using rank assms(4) lexical_ids(3) [of lp] unfolding lexical_fields(1) by force
    moreover have "lqc_channel c = LEXICAL" using c by (auto simp: lexical_candidates_def)
    ultimately show "validate_lexical_candidate c = Inr c"
      using v by (simp add: validate_lexical_candidate_def lexical_validator_def res_simps)
  qed
qed

text \<open>Inputs of the builder that name known questions, each once, with finite scores.\<close>

definition scores_ok :: "research_atlas_manifest \<Rightarrow> (string \<times> string) list \<Rightarrow> (string \<times> int) list \<Rightarrow> bool" where
  "scores_ok m sp lp \<longleftrightarrow>
     (\<forall>(q, h) \<in> set sp. model_id_pattern q \<and> float_hex_value h \<noteq> None) \<and>
     (\<forall>(q, n) \<in> set lp. model_id_pattern q \<and> 1 \<le> n \<and> n \<le> 1000000) \<and>
     distinct (map fst sp @ map fst lp) \<and>
     set (map fst sp @ map fst lp) \<subseteq> set (map aq_question_id (am_questions m))"

definition receipt_decision :: "int \<Rightarrow> (string \<times> string) list \<Rightarrow> (string \<times> int) list \<Rightarrow> route_decision option \<Rightarrow> route_decision" where
  "receipt_decision t sp lp d =
     (case d of Some x \<Rightarrow> x
      | None \<Rightarrow> if (\<exists>p \<in> set sp. score_of (snd p) \<ge> t) \<or> lp \<noteq> [] then ROUTED else ABSTAINED)"

lemma candidates_empty:
  "qualified_candidates t sp = [] \<longleftrightarrow> \<not> (\<exists>p \<in> set sp. score_of (snd p) \<ge> t)"
  "lexical_candidates lp = [] \<longleftrightarrow> lp = []"
proof -
  have "qualified_candidates t sp = [] \<longleftrightarrow> set (map sqc_question_id (qualified_candidates t sp)) = {}" by simp
  then show "qualified_candidates t sp = [] \<longleftrightarrow> \<not> (\<exists>p \<in> set sp. score_of (snd p) \<ge> t)"
    unfolding qualified_ids(1) by auto
  show "lexical_candidates lp = [] \<longleftrightarrow> lp = []" using lexical_ids(3) [of lp] by (metis length_0_conv)
qed

lemma scores_bounded:
  assumes "constructed_manifest m" and "scores_ok m sp lp"
  shows "length sp \<le> 1000" "length lp \<le> 1000"
proof -
  have "length (map fst sp @ map fst lp) = card (set (map fst sp @ map fst lp))"
    using assms(2) distinct_card by (metis scores_ok_def)
  also have "\<dots> \<le> card (set (map aq_question_id (am_questions m)))"
    using assms(2) by (intro card_mono) (simp_all add: scores_ok_def)
  also have "\<dots> \<le> length (am_questions m)" using card_length [of "map aq_question_id (am_questions m)"] by simp
  finally show "length sp \<le> 1000" "length lp \<le> 1000"
    using manifest_sizes(1) [OF assms(1)] by simp_all
qed

definition raw_receipt ::
  "research_atlas_manifest \<Rightarrow> string \<Rightarrow> string \<Rightarrow> string \<Rightarrow> string \<Rightarrow> string \<Rightarrow> string \<Rightarrow>
     (string \<times> string) list \<Rightarrow> (string \<times> int) list \<Rightarrow> route_decision option \<Rightarrow> route_receipt" where
  "raw_receipt m mh n ph rh ih th sp lp d =
     \<lparr>rcr_schema_id = route_receipt_schema, rcr_receipt_id = [], rcr_receipt_hash = [],
      rcr_query = n, rcr_query_hash = sha256_hex (utf8 n),
      rcr_atlas_id = am_atlas_id m, rcr_case_id = am_case_id m,
      rcr_manifest_hash = mh, rcr_model_profile_hash = ph,
      rcr_runtime_profile_hash = rh, rcr_index_hash = ih,
      rcr_threshold_hex = th, rcr_semantic = qualified_candidates (score_of th) sp,
      rcr_lexical = lexical_candidates lp, rcr_decision = receipt_decision (score_of th) sp lp d\<rparr>"

lemma build_route_receipt_eq:
  assumes "normalize_route_query q = Inr n" and "mh = canonical_sha256_hex (manifest_dump m)"
    and "matches_hex 64 ph" "matches_hex 64 rh" "matches_hex 64 ih" and "float_hex_value th \<noteq> None"
    and con: "constructed_manifest m" and scores: "scores_ok m sp lp"
  shows "build_route_receipt m mh q ph rh ih th sp lp d = create_route_receipt (raw_receipt m mh n ph rh ih th sp lp d)"
proof -
  note bounds = scores_bounded [OF con scores]
  note valid = built_candidates_valid [OF _ bounds(1) _ bounds(2)]
  have "semantic_pairs sp = Inr sp" "lexical_pairs lp = Inr lp"
    "\<not> has_duplicates (map fst sp @ map fst lp)"
    "missing_ids (map fst sp @ map fst lp) (map aq_question_id (am_questions m)) = []"
    using scores by (simp_all add: scores_ok_def semantic_pairs_Inr lexical_pairs_Inr)
  moreover have "map_res validate_semantic_candidate (qualified_candidates (score_of th) sp) =
      Inr (qualified_candidates (score_of th) sp)"
    "map_res validate_lexical_candidate (lexical_candidates lp) = Inr (lexical_candidates lp)"
    using valid scores by (simp_all add: scores_ok_def)
  ultimately show ?thesis
    using assms(1-6)
    by (auto simp: build_route_receipt_def require_profile_hash_def Let_def raw_receipt_def receipt_decision_def
        candidates_empty split: option.split)
qed

definition sealed_receipt :: "route_receipt \<Rightarrow> route_receipt" where
  "sealed_receipt raw =
     raw\<lparr>rcr_receipt_id := canonical_content_id ''route_candidate_receipt'' (route_receipt_payload raw),
         rcr_receipt_hash := canonical_sha256_hex (route_receipt_payload raw)\<rparr>"

lemma sealed_receipt_fields [simp]:
  "rcr_schema_id (sealed_receipt r) = rcr_schema_id r" "rcr_query (sealed_receipt r) = rcr_query r"
  "rcr_query_hash (sealed_receipt r) = rcr_query_hash r" "rcr_atlas_id (sealed_receipt r) = rcr_atlas_id r"
  "rcr_case_id (sealed_receipt r) = rcr_case_id r" "rcr_manifest_hash (sealed_receipt r) = rcr_manifest_hash r"
  "rcr_model_profile_hash (sealed_receipt r) = rcr_model_profile_hash r"
  "rcr_runtime_profile_hash (sealed_receipt r) = rcr_runtime_profile_hash r"
  "rcr_index_hash (sealed_receipt r) = rcr_index_hash r"
  "rcr_threshold_hex (sealed_receipt r) = rcr_threshold_hex r"
  "rcr_semantic (sealed_receipt r) = rcr_semantic r" "rcr_lexical (sealed_receipt r) = rcr_lexical r"
  "rcr_decision (sealed_receipt r) = rcr_decision r"
  "rcr_receipt_id (sealed_receipt r) = canonical_content_id ''route_candidate_receipt'' (route_receipt_payload r)"
  "rcr_receipt_hash (sealed_receipt r) = canonical_sha256_hex (route_receipt_payload r)"
  "ordered_candidates (sealed_receipt r) = ordered_candidates r"
  "route_receipt_payload (sealed_receipt r) = route_receipt_payload r"
  by (simp_all add: sealed_receipt_def ordered_candidates_def route_receipt_payload_def)

lemma raw_receipt_candidates:
  "map candidate_question_id (ordered_candidates (raw_receipt m mh n ph rh ih th sp lp d)) =
     map sqc_question_id (qualified_candidates (score_of th) sp) @ map lqc_question_id (lexical_candidates lp)"
  by (simp add: ordered_candidates_def raw_receipt_def candidate_question_id_def)

lemma built_receipt_ok:
  assumes n: "normalize_route_query q = Inr n" and mh: "mh = canonical_sha256_hex (manifest_dump m)"
    and hashes: "matches_hex 64 ph" "matches_hex 64 rh" "matches_hex 64 ih"
    and th: "float_hex_value th = Some v"
    and con: "constructed_manifest m" and scores: "scores_ok m sp lp"
    and d: "receipt_decision (score_of th) sp lp d = ROUTED \<Longrightarrow>
      (\<exists>p \<in> set sp. score_of (snd p) \<ge> score_of th) \<or> lp \<noteq> []"
    and r: "r = sealed_receipt (raw_receipt m mh n ph rh ih th sp lp d)"
  shows "build_route_receipt m mh q ph rh ih th sp lp d = Inr r" "validate_route_receipt_model r = Inr r"
    "validate_for r m mh n = Inr ()"
proof -
  let ?raw = "raw_receipt m mh n ph rh ih th sp lp d"
  let ?cs = "qualified_candidates (score_of th) sp" and ?ls = "lexical_candidates lp"
  note bounds = scores_bounded [OF con scores] and sizes = manifest_sizes [OF con]
  have sp: "\<forall>(q, h) \<in> set sp. model_id_pattern q \<and> float_hex_value h \<noteq> None"
    and lp: "\<forall>(q, n) \<in> set lp. model_id_pattern q \<and> 1 \<le> n \<and> n \<le> 1000000"
    and dist: "distinct (map fst sp)" "distinct (map fst lp)" "fst ` set sp \<inter> fst ` set lp = {}"
    and known: "fst ` set sp \<union> fst ` set lp \<subseteq> set (map aq_question_id (am_questions m))"
    using scores by (simp_all add: scores_ok_def)
  have ids: "map candidate_question_id (ordered_candidates r) =
      map sqc_question_id ?cs @ map lqc_question_id ?ls"
    by (simp add: r raw_receipt_candidates)
  have some: "rcr_decision r = ROUTED \<Longrightarrow> map candidate_question_id (ordered_candidates r) \<noteq> []"
    unfolding ids using d candidates_empty by (simp add: r raw_receipt_def)
  have distinct: "distinct (map candidate_question_id (ordered_candidates r))"
    unfolding ids using qualified_ids(1) [of "score_of th" sp] qualified_ids(2) [OF dist(1)]
      lexical_ids(1) [of lp] lexical_ids(2) [OF dist(2)] dist(3) by auto
  have subset: "set (map candidate_question_id (ordered_candidates r)) \<subseteq> set (map aq_question_id (am_questions m))"
    unfolding ids set_append qualified_ids(1) lexical_ids(1) using known by blast
  note query = normalize_route_query_Inr [OF n]
  have normal: "n = strip (nfc n)"
    using query by (auto simp: normalize_route_query_def Let_def split: if_splits)
  have threshold: "require_float_hex (rcr_threshold_hex r) ''semantic threshold'' = Inr (score_of th)"
    by (simp add: r raw_receipt_def require_float_hex_def th score_of_def)
  have orders: "validate_semantic_order (rcr_semantic r) (score_of th) = Inr ()"
    "validate_lexical_order (rcr_lexical r) = Inr ()"
    by (simp_all add: r raw_receipt_def qualified_order lexical_order)
  have head: "rcr_schema_id r = route_receipt_schema" "rcr_query_hash r = sha256_hex (utf8 (rcr_query r))"
    "rcr_receipt_id r = canonical_content_id ''route_candidate_receipt'' (route_receipt_payload r)"
    "rcr_receipt_hash r = canonical_sha256_hex (route_receipt_payload r)"
    by (simp_all add: r raw_receipt_def)
  have validator: "route_receipt_validator r = Inr r"
    unfolding route_receipt_validator_def Let_def threshold res_bind_Inr orders
    using distinct some head by auto
  have candidates: "map_res validate_semantic_candidate (rcr_semantic r) = Inr (rcr_semantic r)"
    "map_res validate_lexical_candidate (rcr_lexical r) = Inr (rcr_lexical r)"
    using built_candidates_valid [OF sp bounds(1) lp bounds(2)] by (simp_all add: r raw_receipt_def)
  have "length ?cs \<le> 1000" "length ?ls \<le> 1000"
    using bounds qualified_ids(3) [of "score_of th" sp] lexical_ids(3) [of lp] by simp_all
  then show model: "validate_route_receipt_model r = Inr r"
    unfolding validate_route_receipt_model_def candidates res_bind_Inr validated_eq_Inr
    using hashes sizes query normal float_hex_length [OF th] validator
    by (simp add: res_simps r raw_receipt_def canonical_content_id_matches sha256_hex_format mh
        normalized_query_def)
  show "build_route_receipt m mh q ph rh ih th sp lp d = Inr r"
    using model build_route_receipt_eq [OF n mh hashes _ con scores] th
    by (simp add: create_route_receipt_def Let_def r sealed_receipt_def)
  have "missing_ids (map candidate_question_id (ordered_candidates r)) (map aq_question_id (am_questions m)) = []"
    using subset by simp
  then show "validate_for r m mh n = Inr ()"
    using query by (simp add: validate_for_def mh) (simp add: r raw_receipt_def mh)
qed

end
