(* ===== verification/Route_Theorems.thy ===== *)
theory Route_Theorems
  imports Route_Receipts
begin

text \<open>
  The properties of the budgeted route, and a small Atlas on which their hypotheses hold: one
  open question, a hypothesis and a gap about it, a receipt with one lexical candidate, and a
  budget that has room for the hypothesis but not for the gap.
\<close>

subsection \<open>A sample Atlas\<close>

definition sample_question :: atlas_question where
  "sample_question =
     \<lparr>aq_question_id = ''q_light'', aq_prompt = ''Who paid?'', aq_short_answer = ''Unknown.'',
      aq_state = finding_state.OPEN, aq_evidence_ids = [], aq_trace_spans = [], aq_gap = None,
      aq_tags = []\<rparr>"

definition sample_hypothesis :: atlas_hypothesis where
  "sample_hypothesis =
     \<lparr>ah_hypothesis_id = ''h_patron'', ah_title = ''A patron'', ah_synthesis = ''A patron paid.'',
      ah_state = WORKING, ah_evidence_ids = [], ah_counterevidence_ids = [], ah_trace_spans = [],
      ah_gap = None, ah_question_ids = [''q_light'']\<rparr>"

definition sample_gap :: atlas_gap where
  "sample_gap =
     \<lparr>agp_gap_id = ''g_ledger'', agp_label = ''Ledger'', agp_why_it_matters = ''Payments'',
      agp_next_evidence = ''Archive'', agp_related_question_ids = [''q_light''],
      agp_related_hypothesis_ids = []\<rparr>"

definition sample_manifest :: research_atlas_manifest where
  "sample_manifest =
     \<lparr>am_schema_id = manifest_schema, am_atlas_id = ''atlas_one'', am_case_id = ''case_one'',
      am_title = ''Title'', am_subject = ''Subject'', am_subtitle = ''Subtitle'',
      am_generated_at = ''2026-01-01T00:00:00Z'', am_language = ''en'', am_read_only = True,
      am_corpus = \<lparr>aco_label = ''Corpus'', aco_source_count = 0, aco_source_family_count = 0,
        aco_scope_note = ''Scope'', aco_cutoff_note = ''Cutoff''\<rparr>,
      am_sources = [], am_evidence = [], am_questions = [sample_question],
      am_hypotheses = [sample_hypothesis], am_relations = [], am_timeline = [],
      am_gaps = [sample_gap], am_methodology_note = ''Method''\<rparr>"

lemma sample_manifest_constructed: "constructed_manifest sample_manifest"
proof -
  have q: "validate_question sample_question = Inr sample_question"
    by code_simp
  have h: "validate_hypothesis sample_hypothesis = Inr sample_hypothesis"
    by code_simp
  have g: "validate_gap sample_gap = Inr sample_gap"
    by code_simp
  have m: "validate_manifest sample_manifest = Inr sample_manifest"
    by code_simp
  show ?thesis using q h g m by (simp add: constructed_manifest_def) (simp add: sample_manifest_def)
qed

definition sample_budget :: route_budget where
  "sample_budget =
     \<lparr>rb_max_questions = 1, rb_max_linked_hypotheses = 1, rb_max_relations = 0,
      rb_max_timeline_events = 0, rb_max_gaps = 0, rb_max_evidence = 0, rb_max_sources = 0\<rparr>"

lemma sample_budget_valid: "validate_budget sample_budget = Inr sample_budget"
  by (simp add: sample_budget_def validate_budget_def res_simps)

definition sample_manifest_hash :: string where
  "sample_manifest_hash = canonical_sha256_hex (manifest_dump sample_manifest)"

definition sample_route_receipt :: route_receipt where
  "sample_route_receipt =
     sealed_receipt (raw_receipt sample_manifest sample_manifest_hash ''patron light''
       (replicate 64 CHR ''0'') (replicate 64 CHR ''1'') (replicate 64 CHR ''2'') ''0x0.0p+0''
       [] [(''q_light'', 7)] None)"

lemma sample_query: "normalize_route_query '' patron light'' = Inr ''patron light''"
  by code_simp

lemma sample_terms: "length (route_terms ''patron light'') \<le> 128"
  by code_simp

lemma sample_hex:
  "matches_hex 64 (replicate 64 CHR ''0'')" "matches_hex 64 (replicate 64 CHR ''1'')"
  "matches_hex 64 (replicate 64 CHR ''2'')"
  by (simp_all add: matches_hex_def hexdigits_def list_all_iff)

lemma sample_scores: "scores_ok sample_manifest [] [(''q_light'', 7)]"
  by code_simp

lemma sample_threshold: "float_hex_value ''0x0.0p+0'' = Some 0"
  by code_simp

lemma sample_receipt_ok:
  "validate_route_receipt_model sample_route_receipt = Inr sample_route_receipt"
  "validate_for sample_route_receipt sample_manifest sample_manifest_hash ''patron light'' = Inr ()"
  "rcr_decision sample_route_receipt = ROUTED"
proof -
  note ok = built_receipt_ok [OF sample_query sample_manifest_hash_def sample_hex sample_threshold
      sample_manifest_constructed sample_scores _ sample_route_receipt_def]
  show "validate_route_receipt_model sample_route_receipt = Inr sample_route_receipt"
    "validate_for sample_route_receipt sample_manifest sample_manifest_hash ''patron light'' = Inr ()"
    by (rule ok(2), simp, rule ok(3), simp)
  show "rcr_decision sample_route_receipt = ROUTED"
    by (simp add: sample_route_receipt_def raw_receipt_def receipt_decision_def)
qed

subsection \<open>Properties\<close>

text \<open>
  C29. A receipt built from finite scores of known questions, each named once, passes its own
  validator, is fresh for the manifest and the query it was built from, and names exactly the
  questions whose semantic score reaches the threshold and those with a lexical score.
\<close>

theorem built_receipt_fresh:
  assumes "constructed_manifest m" and "normalize_route_query q = Inr n" and "scores_ok m sp lp"
    and "matches_hex 64 ph" and "matches_hex 64 rh" and "matches_hex 64 ih"
    and "float_hex_value th = Some v" and "mh = canonical_sha256_hex (manifest_dump m)"
  shows "\<exists>r. build_route_receipt m mh q ph rh ih th sp lp None = Inr r \<and>
    validate_route_receipt_model r = Inr r \<and> validate_for r m mh n = Inr () \<and>
    set (map candidate_question_id (ordered_candidates r)) =
      {i. \<exists>h. (i, h) \<in> set sp \<and> score_of h \<ge> v} \<union> fst ` set lp"
proof -
  have v: "score_of th = v" by (simp add: score_of_def assms(7))
  note ok = built_receipt_ok [OF assms(2,8,4,5,6,7,1,3), of None, OF _ refl]
  have d: "receipt_decision (score_of th) sp lp None = ROUTED \<Longrightarrow>
      (\<exists>p \<in> set sp. score_of (snd p) \<ge> score_of th) \<or> lp \<noteq> []"
    by (auto simp: receipt_decision_def split: if_splits)
  have "fst ` {p \<in> set sp. v \<le> score_of (snd p)} = {i. \<exists>h. (i, h) \<in> set sp \<and> v \<le> score_of h}"
    by force
  then have "set (map candidate_question_id (ordered_candidates
      (sealed_receipt (raw_receipt m mh n ph rh ih th sp lp None)))) =
      {i. \<exists>h. (i, h) \<in> set sp \<and> score_of h \<ge> v} \<union> fst ` set lp"
    unfolding sealed_receipt_fields raw_receipt_candidates set_append qualified_ids(1) lexical_ids(1) v by simp
  with ok [OF d] show ?thesis by blast
qed

text \<open>
  C16. On a constructed manifest, a valid receipt that is fresh for it and a valid budget, the
  budgeted route returns a packet exactly when the query has at most 128 terms; a longer query
  ends in the refusal of the packet that was built for it.
\<close>

theorem route_v2_returns:
  assumes "constructed_manifest m" and "validate_route_receipt_model r = Inr r" and "validate_budget b = Inr b"
    and "normalize_route_query q = Inr n" and "validate_for r m mh n = Inr ()"
  shows "(\<exists>p. route_v2 m mh q r b = Inr p) \<longleftrightarrow> length (route_terms n) \<le> 128"
proof
  assume "\<exists>p. route_v2 m mh q r b = Inr p"
  then obtain p where "route_v2 m mh q r b = Inr p" by blast
  then show "length (route_terms n) \<le> 128" using assms(4) by (auto elim: route_v2_InrD)
qed (use route_v2_spec [OF assms] in blast)

text \<open>
  C12. A packet of the budgeted route passes the validators of its schema.  It is empty when
  the receipt abstained; otherwise it is routed exactly when a seed was admitted, and it
  accounts, by an admission or an omission, for every candidate of the receipt, every
  hypothesis, event and gap that names a seed and every relation with an admitted end.
\<close>

theorem route_v2_accounts:
  assumes "constructed_manifest m" and "route_v2 m mh q r b = Inr p"
  shows "validate_packet_v1_1 p = Inr p \<and>
    (if rcr_decision r = ABSTAINED then cmp_route_status p = NO_MATCH
     else cmp_route_status p = (if packet_seeds p = {} then BUDGET_EXCEEDED else route_status.ROUTED) \<and>
       (\<forall>c \<in> set (ordered_candidates r).
          (route_object_kind.QUESTION, candidate_question_id c) \<in> packet_accounts p) \<and>
       accounts_for_graph m p)"
proof -
  obtain n where n: "normalize_route_query q = Inr n" "validate_route_receipt_model r = Inr r"
    "validate_budget b = Inr b" "validate_for r m mh n = Inr ()" "length (route_terms n) \<le> 128"
    using route_v2_InrD [OF assms(2)] by blast
  show ?thesis using route_v2_spec [OF assms(1) n(2,3,1,4,5)] assms(2) by auto
qed

text \<open>
  C30. The reference closure of the lexical route adds exactly the hypotheses the selected
  events and gaps name, and the questions that those, the events, the gaps and the selected
  hypotheses name.
\<close>

theorem reference_closure_exact:
  assumes "finite Q" and "finite H"
  shows "close_object_references m Q H E G =
    (Q \<union> named_questions m E G \<union> hypothesis_questions m (H \<union> named_hypotheses m E G),
     H \<union> named_hypotheses m E G)"
proof -
  have "finite (fst qh) \<Longrightarrow> finite (snd qh) \<Longrightarrow> close_loop m E G qh =
    (fst qh \<union> named_questions m E G \<union> hypothesis_questions m (snd qh \<union> named_hypotheses m E G),
     snd qh \<union> named_hypotheses m E G)" for qh
  proof (induction m E G qh rule: close_loop.induct)
    case (1 m E G qh)
    obtain Q H where qh: "qh = (Q, H)" by (cases qh)
    let ?Q = "Q \<union> hypothesis_questions m H \<union> named_questions m E G" and ?H = "H \<union> named_hypotheses m E G"
    have round: "close_round m E G qh = (?Q, ?H)" by (simp add: qh close_round_eq)
    have fin: "finite ?Q" "finite ?H"
      using "1.prems" by (simp_all add: qh hypothesis_questions_def named_questions_def named_hypotheses_def)
    have mono: "hypothesis_questions m H \<subseteq> hypothesis_questions m ?H" by (auto simp: hypothesis_questions_def)
    show ?case
    proof (cases "(card Q, card H) = (card ?Q, card ?H)")
      case True
      then have Q: "Q = ?Q" by (intro card_subset_eq fin(1)) auto
      from True have H: "H = ?H" by (intro card_subset_eq fin(2)) auto
      have "close_round m E G (Q, H) = (Q, H)" using round unfolding qh using Q H by simp
      then have "close_loop m E G qh = (Q, H)" unfolding qh by (subst close_loop.simps) simp
      with Q H show ?thesis unfolding qh fst_conv snd_conv by (metis Un_assoc Un_commute)
    next
      case False
      then have diff: "(card (fst qh), card (snd qh)) \<noteq> (card (fst (?Q, ?H)), card (snd (?Q, ?H)))"
        by (simp add: qh)
      have "close_loop m E G qh = close_loop m E G (?Q, ?H)"
        unfolding close_loop.simps [of m E G qh] Let_def round using diff by (rule if_P)
      with "1.IH" [OF refl, unfolded round, OF diff] fin have "close_loop m E G qh =
          (?Q \<union> named_questions m E G \<union> hypothesis_questions m (?H \<union> named_hypotheses m E G),
           ?H \<union> named_hypotheses m E G)"
        by simp
      with mono show ?thesis by (auto simp: qh)
    qed
  qed
  from this [of "(Q, H)"] assms show ?thesis by (simp add: close_object_references_def)
qed

subsection \<open>Witnesses\<close>

theorem built_receipt_fresh_witness:
  "\<exists>r. build_route_receipt sample_manifest sample_manifest_hash '' patron light'' (replicate 64 CHR ''0'')
      (replicate 64 CHR ''1'') (replicate 64 CHR ''2'') ''0x0.0p+0'' [] [(''q_light'', 7)] None = Inr r \<and>
    validate_for r sample_manifest sample_manifest_hash ''patron light'' = Inr () \<and>
    set (map candidate_question_id (ordered_candidates r)) = {''q_light''}"
  using built_receipt_fresh [OF sample_manifest_constructed sample_query sample_scores sample_hex
      sample_threshold sample_manifest_hash_def] by auto

theorem route_v2_returns_witness:
  "\<exists>p. route_v2 sample_manifest sample_manifest_hash '' patron light'' sample_route_receipt sample_budget = Inr p"
  using route_v2_returns [OF sample_manifest_constructed sample_receipt_ok(1) sample_budget_valid sample_query
      sample_receipt_ok(2)] sample_terms by blast

theorem route_v2_accounts_witness:
  "\<exists>p. route_v2 sample_manifest sample_manifest_hash '' patron light'' sample_route_receipt sample_budget = Inr p \<and>
    validate_packet_v1_1 p = Inr p \<and> accounts_for_graph sample_manifest p"
proof -
  obtain p where p:
    "route_v2 sample_manifest sample_manifest_hash '' patron light'' sample_route_receipt sample_budget = Inr p"
    using route_v2_spec [OF sample_manifest_constructed sample_receipt_ok(1) sample_budget_valid sample_query
        sample_receipt_ok(2) sample_terms] by blast
  from p route_v2_accounts [OF sample_manifest_constructed p] sample_receipt_ok(3) show ?thesis by auto
qed

theorem reference_closure_exact_witness:
  "close_object_references sample_manifest {} {} {} {''g_ledger''} = ({''q_light''}, {})"
  using reference_closure_exact [of "{}" "{}" sample_manifest "{}" "{''g_ledger''}"]
  by (simp add: named_questions_def named_hypotheses_def hypothesis_questions_def sample_manifest_def
      sample_gap_def sample_hypothesis_def)

end
