(* ===== verification/Relation_Models.thy ===== *)
theory Relation_Models
  imports Access
begin

text \<open>
  Typed Relations (\<open>src/dithyramba/relations/models.py\<close>): node references, proposals and
  relations with their content hashes, import receipts, and the contracts of paths of one to
  three hops.  Every constructor returns the canonical value or the raised error.
\<close>

subsection \<open>Field checks\<close>

text \<open>\<open>_ID\<close>: \<open>[a-z][a-z0-9_]+\<close>.\<close>

definition relation_id_pattern :: "string \<Rightarrow> bool" where
  "relation_id_pattern s \<longleftrightarrow>
     (case s of [] \<Rightarrow> False
      | c # cs \<Rightarrow> c \<in> set lower_az \<and> cs \<noteq> [] \<and> list_all (\<lambda>x. x \<in> set (lower_az @ digits09 @ ''_'')) cs)"

definition relation_prefixed :: "string \<Rightarrow> string \<Rightarrow> string \<Rightarrow> string res" where
  "relation_prefixed value pre label =
     (if \<not> has_prefix pre value \<or> \<not> relation_id_pattern value
      then Inl (RelationContractError (label @ '' must use the '' @ pre @ '' prefix''))
      else Inr value)"

definition relation_hash :: "string \<Rightarrow> string \<Rightarrow> string res" where
  "relation_hash value label =
     (if \<not> matches_hex 64 value
      then Inl (RelationContractError (label @ '' must be lowercase SHA-256'')) else Inr value)"

definition relation_text :: "string \<Rightarrow> string \<Rightarrow> nat \<Rightarrow> string res" where
  "relation_text value label maximum =
     (if value \<noteq> strip value \<or> value = [] \<or> length value > maximum \<or> CHR 0x00 \<in> set value
      then Inl (RelationContractError (label @ '' must be non-empty trimmed text''))
      else Inr value)"

definition relation_integer :: "int \<Rightarrow> int \<Rightarrow> int \<Rightarrow> string \<Rightarrow> int res" where
  "relation_integer value minimum maximum label =
     (if \<not> (minimum \<le> value \<and> value \<le> maximum)
      then Inl (RelationContractError (label @ '' must be between '' @ int_repr minimum @ '' and '' @
        int_repr maximum))
      else Inr value)"

definition relation_sorted_ids :: "string list \<Rightarrow> string \<Rightarrow> string \<Rightarrow> nat \<Rightarrow> string list res" where
  "relation_sorted_ids vals pre label maximum =
     (if length vals > maximum
      then Inl (RelationContractError (label @ '' must be a tuple of at most '' @
        nat_repr maximum @ '' IDs''))
      else res_bind (map_res (\<lambda>v. relation_prefixed v pre label) vals) (\<lambda>_.
        if has_duplicates vals then Inl (RelationContractError (label @ '' must be unique''))
        else Inr (sort vals)))"

subsection \<open>Vocabulary\<close>

datatype relation_type =
    SUPPORTS | CONTRADICTS | CONTEXTUALIZES | LIMITS | DEFINES | NARROWS | BROADENS
  | ANALOGOUS_TO | DISTINGUISHES_FROM | PRECEDES | OVERLAPS | SUPERSEDES | ENABLES | INHIBITS
  | POSSIBLY_CAUSES | DERIVED_FROM | QUOTES | DEPENDS_ON | TRANSFERS_METHOD_TO | OPENS_GAP
  | SUGGESTS_SCENE

definition relation_type_value :: "relation_type \<Rightarrow> string" where
  "relation_type_value t =
     (case t of SUPPORTS \<Rightarrow> ''supports'' | CONTRADICTS \<Rightarrow> ''contradicts''
      | CONTEXTUALIZES \<Rightarrow> ''contextualizes'' | LIMITS \<Rightarrow> ''limits'' | DEFINES \<Rightarrow> ''defines''
      | NARROWS \<Rightarrow> ''narrows'' | BROADENS \<Rightarrow> ''broadens'' | ANALOGOUS_TO \<Rightarrow> ''analogous_to''
      | DISTINGUISHES_FROM \<Rightarrow> ''distinguishes_from'' | PRECEDES \<Rightarrow> ''precedes''
      | OVERLAPS \<Rightarrow> ''overlaps'' | SUPERSEDES \<Rightarrow> ''supersedes'' | ENABLES \<Rightarrow> ''enables''
      | INHIBITS \<Rightarrow> ''inhibits'' | POSSIBLY_CAUSES \<Rightarrow> ''possibly_causes''
      | DERIVED_FROM \<Rightarrow> ''derived_from'' | QUOTES \<Rightarrow> ''quotes'' | DEPENDS_ON \<Rightarrow> ''depends_on''
      | TRANSFERS_METHOD_TO \<Rightarrow> ''transfers_method_to'' | OPENS_GAP \<Rightarrow> ''opens_gap''
      | SUGGESTS_SCENE \<Rightarrow> ''suggests_scene'')"

datatype relation_node_type =
    STATEMENT | CONCEPT | CONCEPT_MEANING | ENTITY | VOICE | TIME_CONTEXT | STRUCTURE_UNIT

definition node_type_value :: "relation_node_type \<Rightarrow> string" where
  "node_type_value t =
     (case t of STATEMENT \<Rightarrow> ''statement'' | CONCEPT \<Rightarrow> ''concept''
      | CONCEPT_MEANING \<Rightarrow> ''concept_meaning'' | ENTITY \<Rightarrow> ''entity'' | VOICE \<Rightarrow> ''voice''
      | TIME_CONTEXT \<Rightarrow> ''time_context'' | STRUCTURE_UNIT \<Rightarrow> ''structure_unit'')"

definition node_id_prefix :: "relation_node_type \<Rightarrow> string" where
  "node_id_prefix t = node_type_value t @ ''_''"

datatype relation_direction = OUTGOING | INCOMING | BOTH

definition direction_value :: "relation_direction \<Rightarrow> string" where
  "direction_value d =
     (case d of OUTGOING \<Rightarrow> ''outgoing'' | INCOMING \<Rightarrow> ''incoming'' | BOTH \<Rightarrow> ''both'')"

record relation_node =
  rn_type :: relation_node_type
  rn_id :: string

definition make_node :: "relation_node_type \<Rightarrow> string \<Rightarrow> relation_node res" where
  "make_node t i =
     res_bind (relation_prefixed i (node_id_prefix t) ''node_id'') (\<lambda>_. Inr \<lparr>rn_type = t, rn_id = i\<rparr>)"

definition node_payload :: "relation_node \<Rightarrow> json" where
  "node_payload n =
     JObj [(''node_type'', JStr (node_type_value (rn_type n))), (''node_id'', JStr (rn_id n))]"

text \<open>The order of the dataclass: the type's value, then the identifier.\<close>

definition node_key :: "relation_node \<Rightarrow> string \<times> string" where
  "node_key n = (node_type_value (rn_type n), rn_id n)"

record node_grounding =
  ng_node :: relation_node
  ng_fragment_ids :: "string list"

definition make_grounding :: "relation_node \<Rightarrow> string list \<Rightarrow> node_grounding res" where
  "make_grounding n fragments =
     res_bind (relation_sorted_ids fragments ''fragment_'' ''source_fragment_ids'' 2000) (\<lambda>fs.
       if fs = [] then Inl (RelationContractError ''Relation node grounding cannot be empty'')
       else Inr \<lparr>ng_node = n, ng_fragment_ids = fs\<rparr>)"

definition grounding_payload :: "node_grounding \<Rightarrow> json" where
  "grounding_payload g =
     JObj [(''node'', node_payload (ng_node g)),
           (''source_fragment_ids'', json_strs (ng_fragment_ids g))]"

definition relation_scope_payload :: "request_scope \<Rightarrow> json" where
  "relation_scope_payload s =
     JObj
       [(''library_id'', JStr (sc_library_id s)), (''snapshot_hash'', JStr (sc_snapshot_hash s)),
        (''purpose'', JStr (sc_purpose s)), (''collection_ids'', json_strs (sc_collection_ids s)),
        (''exclusions'', exclusions_payload (sc_exclusions s))]"

subsection \<open>Import\<close>

record relation_import_request =
  riq_snapshot_id :: string
  riq_policy_id :: string
  riq_scope :: request_scope
  riq_code_version :: string
  riq_profile_version :: string
  riq_max_relations :: int

definition validate_import_request :: "relation_import_request \<Rightarrow> relation_import_request res" where
  "validate_import_request r =
     res_bind (relation_prefixed (riq_snapshot_id r) ''snapshot_'' ''corpus_snapshot_id'') (\<lambda>_.
     res_bind (relation_prefixed (riq_policy_id r) ''policy_'' ''access_policy_id'') (\<lambda>_.
     res_bind (relation_text (riq_code_version r) ''code_version'' 128) (\<lambda>_.
     res_bind (relation_text (riq_profile_version r) ''profile_version'' 128) (\<lambda>_.
     res_bind (relation_integer (riq_max_relations r) 1 400 ''max_relations'') (\<lambda>_. Inr r)))))"

definition import_request_payload :: "relation_import_request \<Rightarrow> json" where
  "import_request_payload r =
     JObj
       [(''schema'', JStr ''dithyramba.relation_import_request/1.0''),
        (''corpus_snapshot_id'', JStr (riq_snapshot_id r)),
        (''access_policy_id'', JStr (riq_policy_id r)), (''scope'', relation_scope_payload (riq_scope r)),
        (''code_version'', JStr (riq_code_version r)),
        (''profile_version'', JStr (riq_profile_version r)),
        (''max_relations'', JInt (riq_max_relations r))]"

text \<open>The claim shared by proposals, relations and grounding projections.\<close>

record relation_proposal =
  rp_type :: relation_type
  rp_subject :: relation_node
  rp_object :: relation_node
  rp_evidence_ids :: "string list"
  rp_reason :: string
  rp_method :: string
  rp_valid_start :: "string option"
  rp_valid_end :: "string option"

definition optional_text :: "string option \<Rightarrow> string \<Rightarrow> unit res" where
  "optional_text value label =
     (case value of None \<Rightarrow> Inr () | Some v \<Rightarrow> res_bind (relation_text v label 128) (\<lambda>_. Inr ()))"

definition validate_proposal :: "relation_proposal \<Rightarrow> relation_proposal res" where
  "validate_proposal p =
     (if rp_subject p = rp_object p
      then Inl (RelationContractError ''a Relation cannot connect a node to itself'')
      else
        res_bind (relation_sorted_ids (rp_evidence_ids p) ''evidence_'' ''evidence_link_ids'' 16) (\<lambda>es.
        if es = [] then Inl (RelationContractError ''a Relation requires at least one EvidenceLink'')
        else
          res_bind (relation_text (rp_reason p) ''reason_text'' 4000) (\<lambda>_.
          res_bind (relation_text (rp_method p) ''extraction_method'' 128) (\<lambda>_.
          res_bind (optional_text (rp_valid_start p) ''valid_start'') (\<lambda>_.
          res_bind (optional_text (rp_valid_end p) ''valid_end'') (\<lambda>_.
            Inr (p\<lparr>rp_evidence_ids := es\<rparr>)))))))"

definition proposal_fields :: "relation_proposal \<Rightarrow> (string \<times> json) list" where
  "proposal_fields p =
     [(''schema'', JStr ''dithyramba.relation/1.0''),
      (''relation_type'', JStr (relation_type_value (rp_type p))),
      (''subject'', node_payload (rp_subject p)), (''object'', node_payload (rp_object p)),
      (''evidence_link_ids'', json_strs (rp_evidence_ids p)),
      (''reason_text'', JStr (rp_reason p)), (''extraction_method'', JStr (rp_method p)),
      (''valid_start'', json_opt (rp_valid_start p)), (''valid_end'', json_opt (rp_valid_end p)),
      (''status'', JStr ''candidate'')]"

definition proposal_payload :: "relation_proposal \<Rightarrow> json" where
  "proposal_payload p = JObj (proposal_fields p)"

definition proposal_hash :: "relation_proposal \<Rightarrow> string" where
  "proposal_hash p = canonical_sha256_hex (proposal_payload p)"

record grounding_projection =
  gp_type :: relation_type
  gp_subject :: relation_node
  gp_object :: relation_node
  gp_evidence_ids :: "string list"
  gp_valid_start :: "string option"
  gp_valid_end :: "string option"

definition validate_projection :: "grounding_projection \<Rightarrow> grounding_projection res" where
  "validate_projection p =
     (if gp_subject p = gp_object p
      then Inl (RelationContractError ''a Relation cannot connect a node to itself'')
      else
        res_bind (relation_sorted_ids (gp_evidence_ids p) ''evidence_'' ''evidence_link_ids'' 16) (\<lambda>es.
        if es = [] then Inl (RelationContractError ''a Relation requires at least one EvidenceLink'')
        else
          res_bind (optional_text (gp_valid_start p) ''valid_start'') (\<lambda>_.
          res_bind (optional_text (gp_valid_end p) ''valid_end'') (\<lambda>_.
            Inr (p\<lparr>gp_evidence_ids := es\<rparr>)))))"

definition projection_payload :: "grounding_projection \<Rightarrow> json" where
  "projection_payload p =
     JObj
       [(''schema'', JStr ''dithyramba.relation_grounding_projection/1.0''),
        (''relation_type'', JStr (relation_type_value (gp_type p))),
        (''subject'', node_payload (gp_subject p)), (''object'', node_payload (gp_object p)),
        (''evidence_link_ids'', json_strs (gp_evidence_ids p)),
        (''valid_start'', json_opt (gp_valid_start p)), (''valid_end'', json_opt (gp_valid_end p))]"

definition projection_hash :: "grounding_projection \<Rightarrow> string" where
  "projection_hash p = canonical_sha256_hex (projection_payload p)"

definition grounding_projection_of :: "relation_proposal \<Rightarrow> grounding_projection res" where
  "grounding_projection_of p =
     validate_projection
       \<lparr>gp_type = rp_type p, gp_subject = rp_subject p, gp_object = rp_object p,
        gp_evidence_ids = rp_evidence_ids p, gp_valid_start = rp_valid_start p,
        gp_valid_end = rp_valid_end p\<rparr>"

record relation =
  rel_id :: string
  rel_run_id :: string
  rel_library_id :: string
  rel_claim :: relation_proposal
  rel_content_hash :: string

text \<open>
  The fields of a relation that it shares with its proposal are the record \<open>rel_claim\<close>;
  \<open>as_proposal\<close> builds the proposal anew.
\<close>

definition as_proposal :: "relation \<Rightarrow> relation_proposal res" where
  "as_proposal r = validate_proposal (rel_claim r)"

definition validate_relation_record :: "relation \<Rightarrow> relation res" where
  "validate_relation_record r =
     res_bind (relation_prefixed (rel_id r) ''relation_'' ''relation_id'') (\<lambda>_.
     res_bind (relation_prefixed (rel_run_id r) ''relation_run_'' ''import_run_id'') (\<lambda>_.
     res_bind (relation_prefixed (rel_library_id r) ''library_'' ''library_id'') (\<lambda>_.
     res_bind (as_proposal r) (\<lambda>p.
     res_bind (relation_hash (rel_content_hash r) ''content_hash'') (\<lambda>_.
       if proposal_hash p \<noteq> rel_content_hash r
       then Inl (RelationContractError ''Relation content_hash does not match its payload'')
       else Inr r)))))"

definition relation_record_payload :: "relation \<Rightarrow> relation_proposal \<Rightarrow> json" where
  "relation_record_payload r p =
     JObj (proposal_fields p @
       [(''relation_id'', JStr (rel_id r)), (''import_run_id'', JStr (rel_run_id r)),
        (''library_id'', JStr (rel_library_id r)), (''content_hash'', JStr (rel_content_hash r))])"

record relation_import_receipt =
  rir_run_id :: string
  rir_library_id :: string
  rir_snapshot_id :: string
  rir_policy_id :: string
  rir_policy_hash :: string
  rir_scope_hash :: string
  rir_permitted_hash :: string
  rir_code_version :: string
  rir_profile_version :: string
  rir_input_hash :: string
  rir_output_hash :: string
  rir_relation_ids :: "string list"
  rir_receipt_hash :: string

definition import_receipt_payload :: "relation_import_receipt \<Rightarrow> json" where
  "import_receipt_payload r =
     JObj
       [(''schema'', JStr ''dithyramba.relation_import_receipt/1.0''),
        (''import_run_id'', JStr (rir_run_id r)), (''library_id'', JStr (rir_library_id r)),
        (''corpus_snapshot_id'', JStr (rir_snapshot_id r)),
        (''access_policy_id'', JStr (rir_policy_id r)), (''policy_hash'', JStr (rir_policy_hash r)),
        (''scope_hash'', JStr (rir_scope_hash r)),
        (''permitted_set_hash'', JStr (rir_permitted_hash r)),
        (''code_version'', JStr (rir_code_version r)),
        (''profile_version'', JStr (rir_profile_version r)),
        (''input_hash'', JStr (rir_input_hash r)), (''output_hash'', JStr (rir_output_hash r)),
        (''relation_ids'', json_strs (rir_relation_ids r))]"

definition make_import_receipt :: "relation_import_receipt \<Rightarrow> relation_import_receipt res" where
  "make_import_receipt raw =
     res_bind (relation_prefixed (rir_run_id raw) ''relation_run_'' ''import_run_id'') (\<lambda>_.
     res_bind (relation_prefixed (rir_library_id raw) ''library_'' ''library_id'') (\<lambda>_.
     res_bind (relation_prefixed (rir_snapshot_id raw) ''snapshot_'' ''corpus_snapshot_id'') (\<lambda>_.
     res_bind (relation_prefixed (rir_policy_id raw) ''policy_'' ''access_policy_id'') (\<lambda>_.
     res_bind (relation_hash (rir_policy_hash raw) ''policy_hash'') (\<lambda>_.
     res_bind (relation_hash (rir_scope_hash raw) ''scope_hash'') (\<lambda>_.
     res_bind (relation_hash (rir_permitted_hash raw) ''permitted_set_hash'') (\<lambda>_.
     res_bind (relation_hash (rir_input_hash raw) ''input_hash'') (\<lambda>_.
     res_bind (relation_hash (rir_output_hash raw) ''output_hash'') (\<lambda>_.
     res_bind (relation_text (rir_code_version raw) ''code_version'' 128) (\<lambda>_.
     res_bind (relation_text (rir_profile_version raw) ''profile_version'' 128) (\<lambda>_.
     res_bind (relation_sorted_ids (rir_relation_ids raw) ''relation_'' ''relation_ids'' 400) (\<lambda>rs.
       if rs = [] then Inl (RelationContractError ''Relation import receipt cannot be empty'')
       else
         let r = raw\<lparr>rir_relation_ids := rs\<rparr>
         in Inr (r\<lparr>rir_receipt_hash := canonical_sha256_hex (import_receipt_payload r)\<rparr>)))))))))))))"

definition make_import_result ::
  "relation list \<Rightarrow> relation_import_receipt \<Rightarrow> (relation list \<times> relation_import_receipt) res" where
  "make_import_result rs receipt =
     (if rs = [] then Inl (RelationContractError ''Relation import result cannot be empty'')
      else if map rel_id rs \<noteq> rir_relation_ids receipt
      then Inl (RelationContractError ''Relation import output differs from its receipt'')
      else Inr (rs, receipt))"

subsection \<open>Paths\<close>

record relation_path_request =
  rpq_snapshot_id :: string
  rpq_policy_id :: string
  rpq_scope :: request_scope
  rpq_seeds :: "relation_node list"
  rpq_types :: "relation_type list"
  rpq_direction :: relation_direction
  rpq_max_hops :: int
  rpq_max_paths :: int

definition make_path_request :: "relation_path_request \<Rightarrow> relation_path_request res" where
  "make_path_request raw =
     res_bind (relation_prefixed (rpq_snapshot_id raw) ''snapshot_'' ''corpus_snapshot_id'') (\<lambda>_.
     res_bind (relation_prefixed (rpq_policy_id raw) ''policy_'' ''access_policy_id'') (\<lambda>_.
     if \<not> (1 \<le> length (rpq_seeds raw) \<and> length (rpq_seeds raw) \<le> 32)
     then Inl (RelationContractError ''seeds must contain between 1 and 32 nodes'')
     else if rpq_types raw = []
     then Inl (RelationContractError ''relation_types must be a non-empty tuple'')
     else
       res_bind (relation_integer (rpq_max_hops raw) 1 3 ''max_hops'') (\<lambda>_.
       res_bind (relation_integer (rpq_max_paths raw) 1 100 ''max_paths'') (\<lambda>_.
         Inr (raw\<lparr>rpq_seeds := sort_key node_key (remdups (rpq_seeds raw)),
                  rpq_types := sort_key relation_type_value (remdups (rpq_types raw))\<rparr>)))))"

definition path_request_payload :: "relation_path_request \<Rightarrow> json" where
  "path_request_payload r =
     JObj
       [(''schema'', JStr ''dithyramba.relation_path_request/1.0''),
        (''corpus_snapshot_id'', JStr (rpq_snapshot_id r)),
        (''access_policy_id'', JStr (rpq_policy_id r)), (''scope'', relation_scope_payload (rpq_scope r)),
        (''seeds'', JList (map node_payload (rpq_seeds r))),
        (''relation_types'', json_strs (map relation_type_value (rpq_types r))),
        (''direction'', JStr (direction_value (rpq_direction r))),
        (''max_hops'', JInt (rpq_max_hops r)), (''max_paths'', JInt (rpq_max_paths r))]"

record path_step =
  ps_relation_id :: string
  ps_type :: relation_type
  ps_from :: relation_node
  ps_to :: relation_node
  ps_evidence_ids :: "string list"

definition make_step :: "path_step \<Rightarrow> path_step res" where
  "make_step s =
     res_bind (relation_prefixed (ps_relation_id s) ''relation_'' ''relation_id'') (\<lambda>_.
     if ps_from s = ps_to s then Inl (RelationContractError ''path step cannot be a self-loop'')
     else
       res_bind (relation_sorted_ids (ps_evidence_ids s) ''evidence_'' ''evidence_link_ids'' 16) (\<lambda>es.
       if es = [] then Inl (RelationContractError ''path step requires exact EvidenceLinks'')
       else Inr (s\<lparr>ps_evidence_ids := es\<rparr>)))"

definition step_record_payload :: "path_step \<Rightarrow> json" where
  "step_record_payload s =
     JObj
       [(''relation_id'', JStr (ps_relation_id s)),
        (''relation_type'', JStr (relation_type_value (ps_type s))),
        (''from'', node_payload (ps_from s)), (''to'', node_payload (ps_to s)),
        (''evidence_link_ids'', json_strs (ps_evidence_ids s))]"

record relation_path =
  rpa_seed_order :: int
  rpa_seed :: relation_node
  rpa_steps :: "path_step list"
  rpa_hash :: string

definition path_payload_fields :: "relation_path \<Rightarrow> (string \<times> json) list" where
  "path_payload_fields p =
     [(''schema'', JStr ''dithyramba.relation_path/1.0''), (''seed_order'', JInt (rpa_seed_order p)),
      (''seed'', node_payload (rpa_seed p)),
      (''steps'', JList (map step_record_payload (rpa_steps p)))]"

text \<open>The loop over the steps with the current node, the nodes seen and the relations used.\<close>

fun path_loop :: "relation_node \<Rightarrow> relation_node set \<Rightarrow> string set \<Rightarrow> path_step list \<Rightarrow> unit res" where
  "path_loop current seen used [] = Inr ()"
| "path_loop current seen used (s # ss) =
     (if ps_from s \<noteq> current then Inl (RelationContractError ''RelationPath steps are not contiguous'')
      else if ps_to s \<in> seen \<or> ps_relation_id s \<in> used
      then Inl (RelationContractError ''RelationPath contains a cycle'')
      else path_loop (ps_to s) (insert (ps_to s) seen) (insert (ps_relation_id s) used) ss)"

definition make_path :: "int \<Rightarrow> relation_node \<Rightarrow> path_step list \<Rightarrow> relation_path res" where
  "make_path seed_order seed steps =
     res_bind (relation_integer seed_order 0 31 ''seed_order'') (\<lambda>_.
     if \<not> (1 \<le> length steps \<and> length steps \<le> 3)
     then Inl (RelationContractError ''RelationPath must contain 1 to 3 steps'')
     else
       res_bind (path_loop seed {seed} {} steps) (\<lambda>_.
         let p = \<lparr>rpa_seed_order = seed_order, rpa_seed = seed, rpa_steps = steps, rpa_hash = []\<rparr>
         in Inr (p\<lparr>rpa_hash := canonical_sha256_hex (JObj (path_payload_fields p))\<rparr>)))"

definition path_terminal :: "relation_path \<Rightarrow> relation_node" where
  "path_terminal p = ps_to (last (rpa_steps p))"

record path_receipt =
  rpr_receipt_id :: string
  rpr_library_id :: string
  rpr_snapshot_id :: string
  rpr_policy_id :: string
  rpr_policy_hash :: string
  rpr_scope_hash :: string
  rpr_permitted_hash :: string
  rpr_request :: relation_path_request
  rpr_paths :: "relation_path list"
  rpr_receipt_hash :: string

definition path_receipt_payload :: "path_receipt \<Rightarrow> json" where
  "path_receipt_payload r =
     JObj
       [(''schema'', JStr ''dithyramba.relation_path_receipt/1.0''),
        (''library_id'', JStr (rpr_library_id r)),
        (''corpus_snapshot_id'', JStr (rpr_snapshot_id r)),
        (''access_policy_id'', JStr (rpr_policy_id r)), (''policy_hash'', JStr (rpr_policy_hash r)),
        (''scope_hash'', JStr (rpr_scope_hash r)),
        (''permitted_set_hash'', JStr (rpr_permitted_hash r)),
        (''request'', path_request_payload (rpr_request r)),
        (''paths'', JList (map (\<lambda>p. JObj (path_payload_fields p @ [(''path_hash'', JStr (rpa_hash p))]))
          (rpr_paths r)))]"

definition make_path_receipt :: "path_receipt \<Rightarrow> path_receipt res" where
  "make_path_receipt r =
     res_bind (relation_prefixed (rpr_receipt_id r) ''relation_path_'' ''receipt_id'') (\<lambda>_.
     res_bind (relation_prefixed (rpr_library_id r) ''library_'' ''library_id'') (\<lambda>_.
     res_bind (relation_prefixed (rpr_snapshot_id r) ''snapshot_'' ''corpus_snapshot_id'') (\<lambda>_.
     res_bind (relation_prefixed (rpr_policy_id r) ''policy_'' ''access_policy_id'') (\<lambda>_.
     res_bind (relation_hash (rpr_policy_hash r) ''policy_hash'') (\<lambda>_.
     res_bind (relation_hash (rpr_scope_hash r) ''scope_hash'') (\<lambda>_.
     res_bind (relation_hash (rpr_permitted_hash r) ''permitted_set_hash'') (\<lambda>_.
     if int (length (rpr_paths r)) > rpq_max_paths (rpr_request r)
     then Inl (RelationContractError ''paths exceed the request max_paths'')
     else if map rpa_hash (rpr_paths r) \<noteq> sort (map rpa_hash (rpr_paths r))
     then Inl (RelationContractError ''paths must use canonical hash order'')
     else Inr (r\<lparr>rpr_receipt_hash := canonical_sha256_hex (path_receipt_payload r)\<rparr>))))))))"

end
