(* ===== verification/Library_Tables.thy ===== *)
theory Library_Tables
  imports Snapshots Ingest_Models
begin

text \<open>
  The Library database as \<open>src/dithyramba/persistence/repository.py\<close> uses it: one list of rows
  per table, in insertion order, and one insertion per statement with the constraints of its
  table (keys, uniqueness, references, checks and triggers).  A violated constraint is
  \<open>sqlite3.IntegrityError\<close>; an operation that raises leaves the store as it was, since every
  write runs in one transaction.

  Columns with canonical JSON text hold the encoded value, whose canonical text is unique;
  creation times that no modelled operation reads are left out.
\<close>

subsection \<open>Rows\<close>

datatype collection_kind = CORPUS | CASE | BRANCH | HOLDOUT_KIND

datatype source_media_type = MARKDOWN | PLAIN_TEXT | PDF

definition source_media_type_value :: "source_media_type \<Rightarrow> string" where
  "source_media_type_value m =
     (case m of MARKDOWN \<Rightarrow> ''text/markdown'' | PLAIN_TEXT \<Rightarrow> ''text/plain''
      | PDF \<Rightarrow> ''application/pdf'')"

definition fragment_kind_value :: "fragment_kind \<Rightarrow> string" where
  "fragment_kind_value k =
     (case k of HEADING \<Rightarrow> ''heading'' | PARAGRAPH \<Rightarrow> ''paragraph'' | PAGE_TEXT \<Rightarrow> ''page_text'')"

record collection_row =
  co_id :: string
  co_library_id :: string
  co_name :: string
  co_kind :: collection_kind

record root_row =
  ro_id :: string
  ro_collection_id :: string
  ro_path :: string
  ro_include :: "string list"
  ro_exclude :: "string list"

record root_manifest_row =
  rm_root_id :: string
  rm_path :: string
  rm_sha256 :: string

record blob_row =
  bl_sha256 :: string
  bl_size :: int
  bl_path :: string

record source_row =
  so_id :: string
  so_library_id :: string
  so_uri :: string
  so_media_type :: source_media_type
  so_title :: string

record family_row =
  fa_id :: string
  fa_library_id :: string
  fa_label :: string

record family_member_row =
  fm_family_id :: string
  fm_source_id :: string
  fm_role :: family_role
  fm_root :: "string option"

record identity_row =
  fi_family_id :: string
  fi_library_id :: string
  fi_uri :: string

record version_row =
  ve_id :: string
  ve_source_id :: string
  ve_number :: int
  ve_sha256 :: string
  ve_size :: int
  ve_profile :: string

record fragment_row =
  fr_id :: string
  fr_version_id :: string
  fr_ordinal :: int
  fr_kind :: fragment_kind
  fr_text :: string
  fr_text_sha256 :: string
  fr_address :: json
  fr_address_hash :: string

record head_row =
  he_source_id :: string
  he_version_id :: string

text \<open>A declaration of \<open>collections/identity_manifest.py\<close>.\<close>

record identity_declaration =
  de_uri :: string
  de_connector :: string
  de_connector_revision :: string
  de_representation :: string
  de_part_number :: int
  de_part_metadata_hash :: string
  de_manifest_sha256 :: string

record binding_row =
  bi_id :: string
  bi_source_id :: string
  bi_version_id :: string
  bi_family_id :: string
  bi_connector :: string
  bi_connector_revision :: string
  bi_representation :: string
  bi_part_number :: int
  bi_part_metadata_hash :: string
  bi_sha256 :: string
  bi_manifest_sha256 :: string

record membership_row =
  me_collection_id :: string
  me_source_id :: string
  me_state :: membership_state

record policy_row =
  po_id :: string
  po_library_id :: string
  po_name :: string
  po_purposes :: "string list"
  po_export :: bool
  po_external :: bool
  po_hash :: string
  po_created_at :: string

record policy_collection_row =
  pcr_policy_id :: string
  pcr_collection_id :: string
  pcr_effect :: policy_effect

record policy_source_row =
  psr_policy_id :: string
  psr_source_id :: string
  psr_effect :: policy_effect

record snapshot_row =
  sn_id :: string
  sn_library_id :: string
  sn_scope :: json
  sn_hash :: string
  sn_created_at :: string

record snapshot_member_row =
  sb_snapshot_id :: string
  sb_collection_id :: string
  sb_version_id :: string
  sb_state :: membership_state

record event_row =
  ev_id :: string
  ev_type :: string
  ev_aggregate_type :: string
  ev_aggregate_id :: string
  ev_payload :: json
  ev_payload_hash :: string
  ev_occurred_at :: string
  ev_delivered_at :: "string option"

record library_store =
  st_library_id :: string
  st_collections :: "collection_row list"
  st_roots :: "root_row list"
  st_root_manifests :: "root_manifest_row list"
  st_blobs :: "blob_row list"
  st_sources :: "source_row list"
  st_families :: "family_row list"
  st_family_members :: "family_member_row list"
  st_identities :: "identity_row list"
  st_versions :: "version_row list"
  st_fragments :: "fragment_row list"
  st_heads :: "head_row list"
  st_bindings :: "binding_row list"
  st_memberships :: "membership_row list"
  st_policies :: "policy_row list"
  st_policy_collections :: "policy_collection_row list"
  st_policy_sources :: "policy_source_row list"
  st_snapshots :: "snapshot_row list"
  st_snapshot_members :: "snapshot_member_row list"
  st_events :: "event_row list"

subsection \<open>Field checks of the repository\<close>

text \<open>\<open>_validated_label\<close>, \<open>_validated_sha256\<close> and \<open>_validated_timestamp\<close>.\<close>

definition validated_label :: "string \<Rightarrow> string \<Rightarrow> string res" where
  "validated_label value label =
     (if value = [] \<or> value \<noteq> strip value \<or> length value > 200
      then Inl (PersistenceIntegrityError (label @ '' must be non-empty, unpadded short text''))
      else Inr value)"

definition validated_sha256 :: "string \<Rightarrow> string \<Rightarrow> string res" where
  "validated_sha256 value label =
     (if \<not> matches_hex 64 value
      then Inl (PersistenceIntegrityError (label @ '' must be lowercase SHA-256 hex'')) else Inr value)"

definition timestamp_shape :: string where
  "timestamp_shape = ''0000-00-00T00:00:00.000000Z''"

definition operational_pattern :: "string \<Rightarrow> bool" where
  "operational_pattern s \<longleftrightarrow>
     length s = length timestamp_shape \<and>
     list_all2 (\<lambda>c p. if p = CHR ''0'' then is_digit c else c = p) s timestamp_shape"

definition timestamp_field :: "string \<Rightarrow> nat \<Rightarrow> nat \<Rightarrow> nat" where
  "timestamp_field s i n = digits_value (take n (drop i s))"

definition days_in_month :: "nat \<Rightarrow> nat \<Rightarrow> nat" where
  "days_in_month year month =
     (if month = 2
      then if year mod 4 = 0 \<and> (year mod 100 \<noteq> 0 \<or> year mod 400 = 0) then 29 else 28
      else if month \<in> {4, 6, 9, 11} then 30 else 31)"

definition real_timestamp :: "string \<Rightarrow> bool" where
  "real_timestamp s \<longleftrightarrow>
     (let year = timestamp_field s 0 4; month = timestamp_field s 5 2; day = timestamp_field s 8 2
      in 1 \<le> year \<and> 1 \<le> month \<and> month \<le> 12 \<and> 1 \<le> day \<and> day \<le> days_in_month year month \<and>
         timestamp_field s 11 2 \<le> 23 \<and> timestamp_field s 14 2 \<le> 59 \<and> timestamp_field s 17 2 \<le> 59)"

definition validated_timestamp :: "string \<Rightarrow> string res" where
  "validated_timestamp value =
     (if \<not> operational_pattern value
      then Inl (PersistenceIntegrityError
        ''operational timestamp must be UTC RFC3339 with microseconds'')
      else if \<not> real_timestamp value
      then Inl (PersistenceIntegrityError ''operational timestamp is not a real date-time'')
      else Inr value)"

subsection \<open>Insertions\<close>

definition id_check :: "string \<Rightarrow> string \<Rightarrow> bool" where
  "id_check pre i \<longleftrightarrow> has_prefix pre i \<and> length i > length pre"

definition require_constraints :: "bool \<Rightarrow> string \<Rightarrow> library_store \<Rightarrow> library_store res" where
  "require_constraints c table st = (if c then Inr st else Inl (SqliteIntegrityError table))"

text \<open>The handler \<open>except sqlite3.IntegrityError\<close> of the repository.\<close>

definition on_integrity_error :: "error \<Rightarrow> 'a res \<Rightarrow> 'a res" where
  "on_integrity_error e r = (case r of Inl (SqliteIntegrityError _) \<Rightarrow> Inl e | _ \<Rightarrow> r)"

definition insert_collection :: "collection_row \<Rightarrow> library_store \<Rightarrow> library_store res" where
  "insert_collection r st =
     require_constraints
       (id_check ''collection_'' (co_id r) \<and> co_id r \<notin> co_id ` set (st_collections st) \<and>
        co_library_id r = st_library_id st \<and>
        (co_library_id r, co_name r) \<notin> (\<lambda>c. (co_library_id c, co_name c)) ` set (st_collections st))
       ''collections'' (st\<lparr>st_collections := st_collections st @ [r]\<rparr>)"

definition insert_root :: "root_row \<Rightarrow> library_store \<Rightarrow> library_store res" where
  "insert_root r st =
     require_constraints
       (id_check ''root_'' (ro_id r) \<and> ro_id r \<notin> ro_id ` set (st_roots st) \<and>
        ro_collection_id r \<in> co_id ` set (st_collections st) \<and>
        (ro_collection_id r, ro_path r) \<notin> (\<lambda>x. (ro_collection_id x, ro_path x)) ` set (st_roots st))
       ''collection_roots'' (st\<lparr>st_roots := st_roots st @ [r]\<rparr>)"

definition insert_root_manifest :: "root_manifest_row \<Rightarrow> library_store \<Rightarrow> library_store res" where
  "insert_root_manifest r st =
     require_constraints
       (rm_root_id r \<notin> rm_root_id ` set (st_root_manifests st) \<and>
        rm_root_id r \<in> ro_id ` set (st_roots st) \<and> matches_hex 64 (rm_sha256 r) \<and>
        has_prefix ''/'' (rm_path r))
       ''collection_root_identity_manifests''
       (st\<lparr>st_root_manifests := st_root_manifests st @ [r]\<rparr>)"

text \<open>\<open>INSERT OR IGNORE\<close>: a row that violates a uniqueness constraint or a check is skipped.\<close>

definition insert_blob_or_ignore :: "blob_row \<Rightarrow> library_store \<Rightarrow> library_store" where
  "insert_blob_or_ignore r st =
     (if matches_hex 64 (bl_sha256 r) \<and> 0 \<le> bl_size r \<and>
         bl_sha256 r \<notin> bl_sha256 ` set (st_blobs st) \<and> bl_path r \<notin> bl_path ` set (st_blobs st)
      then st\<lparr>st_blobs := st_blobs st @ [r]\<rparr> else st)"

definition insert_source :: "source_row \<Rightarrow> library_store \<Rightarrow> library_store res" where
  "insert_source r st =
     require_constraints
       (id_check ''source_'' (so_id r) \<and> so_id r \<notin> so_id ` set (st_sources st) \<and>
        so_library_id r = st_library_id st \<and>
        (so_library_id r, so_uri r) \<notin> (\<lambda>s. (so_library_id s, so_uri s)) ` set (st_sources st))
       ''sources'' (st\<lparr>st_sources := st_sources st @ [r]\<rparr>)"

definition insert_family :: "family_row \<Rightarrow> library_store \<Rightarrow> library_store res" where
  "insert_family r st =
     require_constraints
       (id_check ''family_'' (fa_id r) \<and> fa_id r \<notin> fa_id ` set (st_families st) \<and>
        fa_library_id r = st_library_id st)
       ''source_families'' (st\<lparr>st_families := st_families st @ [r]\<rparr>)"

definition insert_identity :: "identity_row \<Rightarrow> library_store \<Rightarrow> library_store res" where
  "insert_identity r st =
     require_constraints
       (fi_family_id r \<notin> fi_family_id ` set (st_identities st) \<and>
        (\<exists>f \<in> set (st_families st). fa_id f = fi_family_id r \<and> fa_library_id f = fi_library_id r) \<and>
        (fi_library_id r, fi_uri r) \<notin> (\<lambda>i. (fi_library_id i, fi_uri i)) ` set (st_identities st))
       ''source_family_identities'' (st\<lparr>st_identities := st_identities st @ [r]\<rparr>)"

definition insert_family_member :: "family_member_row \<Rightarrow> library_store \<Rightarrow> library_store res" where
  "insert_family_member r st =
     require_constraints
       (fm_family_id r \<in> fa_id ` set (st_families st) \<and>
        fm_source_id r \<in> so_id ` set (st_sources st) \<and>
        fm_source_id r \<notin> fm_source_id ` set (st_family_members st) \<and>
        (case fm_root r of
           None \<Rightarrow> fm_role r = family_role.ROOT
         | Some root \<Rightarrow> fm_role r \<noteq> family_role.ROOT \<and> root \<in> so_id ` set (st_sources st)))
       ''source_family_members'' (st\<lparr>st_family_members := st_family_members st @ [r]\<rparr>)"

definition insert_version :: "version_row \<Rightarrow> library_store \<Rightarrow> library_store res" where
  "insert_version r st =
     require_constraints
       (id_check ''source_version_'' (ve_id r) \<and> ve_id r \<notin> ve_id ` set (st_versions st) \<and>
        ve_source_id r \<in> so_id ` set (st_sources st) \<and> 0 < ve_number r \<and>
        ve_sha256 r \<in> bl_sha256 ` set (st_blobs st) \<and> 0 \<le> ve_size r \<and>
        (ve_source_id r, ve_number r) \<notin>
          (\<lambda>v. (ve_source_id v, ve_number v)) ` set (st_versions st) \<and>
        (ve_source_id r, ve_sha256 r, ve_profile r) \<notin>
          (\<lambda>v. (ve_source_id v, ve_sha256 v, ve_profile v)) ` set (st_versions st))
       ''source_versions'' (st\<lparr>st_versions := st_versions st @ [r]\<rparr>)"

definition insert_fragment :: "fragment_row \<Rightarrow> library_store \<Rightarrow> library_store res" where
  "insert_fragment r st =
     require_constraints
       (id_check ''fragment_'' (fr_id r) \<and> fr_id r \<notin> fr_id ` set (st_fragments st) \<and>
        fr_version_id r \<in> ve_id ` set (st_versions st) \<and> 0 \<le> fr_ordinal r \<and> fr_text r \<noteq> [] \<and>
        matches_hex 64 (fr_text_sha256 r) \<and> matches_hex 64 (fr_address_hash r) \<and>
        (fr_version_id r, fr_ordinal r) \<notin>
          (\<lambda>f. (fr_version_id f, fr_ordinal f)) ` set (st_fragments st) \<and>
        (fr_version_id r, fr_address_hash r) \<notin>
          (\<lambda>f. (fr_version_id f, fr_address_hash f)) ` set (st_fragments st))
       ''source_fragments'' (st\<lparr>st_fragments := st_fragments st @ [r]\<rparr>)"

definition version_of_source :: "library_store \<Rightarrow> string \<Rightarrow> string \<Rightarrow> bool" where
  "version_of_source st version source \<longleftrightarrow>
     (\<exists>v \<in> set (st_versions st). ve_id v = version \<and> ve_source_id v = source)"

definition insert_head :: "head_row \<Rightarrow> library_store \<Rightarrow> library_store res" where
  "insert_head r st =
     require_constraints
       (he_source_id r \<notin> he_source_id ` set (st_heads st) \<and>
        he_source_id r \<in> so_id ` set (st_sources st) \<and>
        he_version_id r \<notin> he_version_id ` set (st_heads st) \<and>
        version_of_source st (he_version_id r) (he_source_id r))
       ''source_heads'' (st\<lparr>st_heads := st_heads st @ [r]\<rparr>)"

text \<open>\<open>UPDATE source_heads SET source_version_id = ? WHERE source_id = ?\<close>, with its row count.\<close>

definition update_head :: "string \<Rightarrow> string \<Rightarrow> library_store \<Rightarrow> (nat \<times> library_store) res" where
  "update_head source version st =
     (let hit = (\<lambda>h. he_source_id h = source)
      in res_bind
           (require_constraints
             (\<forall>h \<in> set (st_heads st). hit h \<longrightarrow> version_of_source st version source \<and>
               version \<notin> he_version_id ` {g \<in> set (st_heads st). \<not> hit g})
             ''source_heads''
             (st\<lparr>st_heads := map (\<lambda>h. if hit h then h\<lparr>he_version_id := version\<rparr> else h) (st_heads st)\<rparr>))
           (\<lambda>st'. Inr (length (filter hit (st_heads st)), st')))"

definition insert_binding :: "binding_row \<Rightarrow> library_store \<Rightarrow> library_store res" where
  "insert_binding r st =
     require_constraints
       (id_check ''source_identity_'' (bi_id r) \<and> bi_id r \<notin> bi_id ` set (st_bindings st) \<and>
        0 \<le> bi_part_number r \<and> matches_hex 64 (bi_part_metadata_hash r) \<and>
        bi_sha256 r \<in> bl_sha256 ` set (st_blobs st) \<and> matches_hex 64 (bi_sha256 r) \<and>
        matches_hex 64 (bi_manifest_sha256 r) \<and>
        bi_version_id r \<notin> bi_version_id ` set (st_bindings st) \<and>
        bi_family_id r \<in> fi_family_id ` set (st_identities st) \<and>
        (\<exists>v \<in> set (st_versions st). ve_id v = bi_version_id r \<and> ve_source_id v = bi_source_id r \<and>
           ve_sha256 v = bi_sha256 r) \<and>
        (\<exists>m \<in> set (st_family_members st). fm_source_id m = bi_source_id r \<and>
           fm_family_id m = bi_family_id r))
       ''source_identity_bindings'' (st\<lparr>st_bindings := st_bindings st @ [r]\<rparr>)"

definition insert_membership :: "membership_row \<Rightarrow> library_store \<Rightarrow> library_store res" where
  "insert_membership r st =
     require_constraints
       (me_collection_id r \<in> co_id ` set (st_collections st) \<and>
        me_source_id r \<in> so_id ` set (st_sources st) \<and>
        (me_collection_id r, me_source_id r) \<notin>
          (\<lambda>m. (me_collection_id m, me_source_id m)) ` set (st_memberships st))
       ''collection_memberships'' (st\<lparr>st_memberships := st_memberships st @ [r]\<rparr>)"

definition insert_policy :: "policy_row \<Rightarrow> library_store \<Rightarrow> library_store res" where
  "insert_policy r st =
     require_constraints
       (id_check ''policy_'' (po_id r) \<and> po_id r \<notin> po_id ` set (st_policies st) \<and>
        po_library_id r = st_library_id st \<and> matches_hex 64 (po_hash r) \<and>
        (po_library_id r, po_name r) \<notin> (\<lambda>p. (po_library_id p, po_name p)) ` set (st_policies st) \<and>
        (po_library_id r, po_hash r) \<notin> (\<lambda>p. (po_library_id p, po_hash p)) ` set (st_policies st))
       ''access_policies'' (st\<lparr>st_policies := st_policies st @ [r]\<rparr>)"

definition insert_policy_collection ::
  "policy_collection_row \<Rightarrow> library_store \<Rightarrow> library_store res" where
  "insert_policy_collection r st =
     require_constraints
       (pcr_policy_id r \<in> po_id ` set (st_policies st) \<and>
        pcr_collection_id r \<in> co_id ` set (st_collections st) \<and>
        (pcr_policy_id r, pcr_collection_id r) \<notin>
          (\<lambda>x. (pcr_policy_id x, pcr_collection_id x)) ` set (st_policy_collections st))
       ''access_policy_collection_rules''
       (st\<lparr>st_policy_collections := st_policy_collections st @ [r]\<rparr>)"

definition insert_policy_source :: "policy_source_row \<Rightarrow> library_store \<Rightarrow> library_store res" where
  "insert_policy_source r st =
     require_constraints
       (psr_policy_id r \<in> po_id ` set (st_policies st) \<and> psr_source_id r \<in> so_id ` set (st_sources st) \<and>
        (psr_policy_id r, psr_source_id r) \<notin>
          (\<lambda>x. (psr_policy_id x, psr_source_id x)) ` set (st_policy_sources st))
       ''access_policy_source_rules'' (st\<lparr>st_policy_sources := st_policy_sources st @ [r]\<rparr>)"

definition insert_snapshot :: "snapshot_row \<Rightarrow> library_store \<Rightarrow> library_store res" where
  "insert_snapshot r st =
     require_constraints
       (id_check ''snapshot_'' (sn_id r) \<and> sn_id r \<notin> sn_id ` set (st_snapshots st) \<and>
        sn_library_id r = st_library_id st \<and> matches_hex 64 (sn_hash r) \<and>
        sn_hash r \<notin> sn_hash ` set (st_snapshots st))
       ''corpus_snapshots'' (st\<lparr>st_snapshots := st_snapshots st @ [r]\<rparr>)"

definition insert_snapshot_member :: "snapshot_member_row \<Rightarrow> library_store \<Rightarrow> library_store res" where
  "insert_snapshot_member r st =
     require_constraints
       (sb_snapshot_id r \<in> sn_id ` set (st_snapshots st) \<and>
        sb_collection_id r \<in> co_id ` set (st_collections st) \<and>
        sb_version_id r \<in> ve_id ` set (st_versions st) \<and>
        (sb_snapshot_id r, sb_collection_id r, sb_version_id r) \<notin>
          (\<lambda>m. (sb_snapshot_id m, sb_collection_id m, sb_version_id m)) ` set (st_snapshot_members st))
       ''snapshot_members'' (st\<lparr>st_snapshot_members := st_snapshot_members st @ [r]\<rparr>)"

text \<open>\<open>_insert_outbox_event\<close>: the arguments are checked before the row is inserted.\<close>

definition insert_outbox_event ::
  "string \<Rightarrow> string \<Rightarrow> string \<Rightarrow> string \<Rightarrow> json \<Rightarrow> string \<Rightarrow> library_store \<Rightarrow> library_store res" where
  "insert_outbox_event event_id event_type aggregate_type aggregate_id payload occurred_at st =
     res_bind (validated_label event_type ''event type'') (\<lambda>et.
     res_bind (validated_label aggregate_type ''aggregate type'') (\<lambda>at.
     res_bind (validated_label aggregate_id ''aggregate ID'') (\<lambda>ai.
     res_bind (validated_timestamp occurred_at) (\<lambda>oc.
       require_constraints
         (id_check ''event_'' event_id \<and> event_id \<notin> ev_id ` set (st_events st))
         ''event_outbox''
         (st\<lparr>st_events := st_events st @
            [\<lparr>ev_id = event_id, ev_type = et, ev_aggregate_type = at, ev_aggregate_id = ai,
              ev_payload = payload, ev_payload_hash = canonical_sha256_hex payload,
              ev_occurred_at = oc, ev_delivered_at = None\<rparr>]\<rparr>)))))"

text \<open>\<open>UPDATE event_outbox SET delivered_at\<close>: it must change exactly one row.\<close>

definition mark_delivered :: "string \<Rightarrow> string \<Rightarrow> library_store \<Rightarrow> library_store res" where
  "mark_delivered now i st =
     (let hit = (\<lambda>r. ev_id r = i \<and> ev_delivered_at r = None)
      in if length (filter hit (st_events st)) \<noteq> 1
         then Inl (OutboxExportError (''outbox row changed during delivery: '' @ i))
         else Inr (st\<lparr>st_events :=
           map (\<lambda>r. if hit r then r\<lparr>ev_delivered_at := Some now\<rparr> else r) (st_events st)\<rparr>))"

lemma require_constraints_Inr [res_simps]:
  "require_constraints c table st = Inr st' \<longleftrightarrow> c \<and> st' = st"
  by (auto simp: require_constraints_def)

lemma on_integrity_error_Inr [res_simps]: "on_integrity_error e r = Inr x \<longleftrightarrow> r = Inr x"
  by (auto simp: on_integrity_error_def split: sum.splits error.splits)

lemma on_integrity_error_Inr' [simp]: "on_integrity_error e (Inr x) = Inr x"
  by (simp add: on_integrity_error_def)

lemma validated_label_Inr [res_simps]:
  "validated_label v l = Inr x \<longleftrightarrow> x = v \<and> v \<noteq> [] \<and> v = strip v \<and> length v \<le> 200"
  by (auto simp: validated_label_def)

lemma validated_timestamp_Inr [res_simps]:
  "validated_timestamp v = Inr x \<longleftrightarrow> x = v \<and> operational_pattern v \<and> real_timestamp v"
  by (auto simp: validated_timestamp_def)

lemma validated_sha256_Inr [res_simps]: "validated_sha256 v l = Inr x \<longleftrightarrow> x = v \<and> matches_hex 64 v"
  by (auto simp: validated_sha256_def)

end
