(* ===== verification/Library_Ingest.thy ===== *)
theory Library_Ingest
  imports Library_Tables
begin

text \<open>
  Recording of one parsed source in the provenance graph (\<open>persistence/repository.py\<close>:
  \<open>record_processed_source\<close>, \<open>find_reusable_unchanged_source\<close>) with the lineage queries.
  Fresh identifiers (\<open>new_id\<close>), the clock and the physical verification of a blob are arguments.
\<close>

subsection \<open>Lineage\<close>

text \<open>\<open>_lineage_for_source\<close>: family, root Source and role.\<close>

definition in_library_family :: "library_store \<Rightarrow> string \<Rightarrow> bool" where
  "in_library_family st f \<longleftrightarrow>
     (\<exists>r \<in> set (st_families st). fa_id r = f \<and> fa_library_id r = st_library_id st)"

definition lineage_rows :: "library_store \<Rightarrow> string \<Rightarrow> family_member_row list" where
  "lineage_rows st source =
     filter (\<lambda>m. fm_source_id m = source \<and> in_library_family st (fm_family_id m)) (st_family_members st)"

definition is_root_member :: "library_store \<Rightarrow> string \<Rightarrow> string \<Rightarrow> bool" where
  "is_root_member st f source \<longleftrightarrow>
     (\<exists>m \<in> set (st_family_members st). fm_family_id m = f \<and> fm_source_id m = source \<and>
        fm_role m = family_role.ROOT \<and> fm_root m = None)"

definition lineage_for_source :: "library_store \<Rightarrow> string \<Rightarrow> (string \<times> string \<times> family_role) res" where
  "lineage_for_source st source =
     (case lineage_rows st source of
        [m] \<Rightarrow>
          (if fm_role m = family_role.ROOT
           then (case fm_root m of
                   Some _ \<Rightarrow> Inl (SourceLineageIntegrityError ''root Source has a root_source_id'')
                 | None \<Rightarrow> Inr (fm_family_id m, source, fm_role m))
           else (case fm_root m of
                   None \<Rightarrow> Inl (SourceLineageIntegrityError ''non-root Source lacks root_source_id'')
                 | Some root \<Rightarrow>
                     if \<not> is_root_member st (fm_family_id m) root
                     then Inl (SourceLineageIntegrityError
                       ''SourceFamily root_source_id does not resolve to its root member'')
                     else Inr (fm_family_id m, root, fm_role m)))
      | _ \<Rightarrow> Inl (SourceLineageIntegrityError
               ''every VS0 Source must belong to exactly one SourceFamily''))"

text \<open>\<open>_lineage_for_content\<close>: the one lineage of the Sources that hold the bytes.\<close>

definition sources_with_content :: "library_store \<Rightarrow> string \<Rightarrow> string option \<Rightarrow> string list" where
  "sources_with_content st sha excluding =
     sorted_set (map ve_source_id (filter (\<lambda>v. ve_sha256 v = sha \<and> excluding \<noteq> Some (ve_source_id v) \<and>
       (\<exists>s \<in> set (st_sources st). so_id s = ve_source_id v \<and> so_library_id s = st_library_id st))
       (st_versions st)))"

definition lineage_for_content ::
  "library_store \<Rightarrow> string \<Rightarrow> string option \<Rightarrow> (string \<times> string) option res" where
  "lineage_for_content st sha excluding =
     (let sources = sources_with_content st sha excluding
      in if sources = [] then Inr None
         else
           res_bind (map_res (lineage_for_source st) sources) (\<lambda>lineages.
             case remdups (map (\<lambda>l. (fst l, fst (snd l))) lineages) of
               [lineage] \<Rightarrow> Inr (Some lineage)
             | _ \<Rightarrow> Inl (SourceLineageIntegrityError
                      ''identical bytes resolve to incompatible SourceFamily roots'')))"

text \<open>Declared identities.\<close>

definition declared_lineage_for_new_source ::
  "library_store \<Rightarrow> identity_declaration \<Rightarrow> (string \<times> string) option res" where
  "declared_lineage_for_new_source st d =
     (case filter (\<lambda>i. fi_library_id i = st_library_id st \<and> fi_uri i = de_uri d) (st_identities st) of
        [] \<Rightarrow> Inr None
      | i # _ \<Rightarrow>
          (case filter (\<lambda>m. fm_family_id m = fi_family_id i \<and> fm_role m = family_role.ROOT \<and>
                    fm_root m = None) (st_family_members st) of
             [m] \<Rightarrow> Inr (Some (fi_family_id i, fm_source_id m))
           | _ \<Rightarrow> Inl (SourceLineageIntegrityError
                    ''declared SourceFamily must retain exactly one technical root Source'')))"

definition declared_content_exists :: "library_store \<Rightarrow> string \<Rightarrow> string \<Rightarrow> bool" where
  "declared_content_exists st f sha \<longleftrightarrow>
     (\<exists>b \<in> set (st_bindings st). bi_family_id b = f \<and> bi_sha256 b = sha)"

text \<open>The identity rows joined to the bindings of a Source.\<close>

definition bound_identities :: "library_store \<Rightarrow> binding_row \<Rightarrow> identity_row list" where
  "bound_identities st b =
     filter (\<lambda>i. fi_family_id i = bi_family_id b \<and> fi_library_id i = st_library_id st) (st_identities st)"

definition declared_lineage_for_existing_source ::
  "library_store \<Rightarrow> string \<Rightarrow> identity_declaration \<Rightarrow> (string \<times> string \<times> family_role) res" where
  "declared_lineage_for_existing_source st source d =
     (let rows = remdups (concat (map (\<lambda>b. map (\<lambda>i. (bi_family_id b, fi_uri i)) (bound_identities st b))
            (filter (\<lambda>b. bi_source_id b = source) (st_bindings st))))
      in case rows of
           [row] \<Rightarrow>
             (if snd row \<noteq> de_uri d
              then Inl (SourceLineageIntegrityError
                ''declared logical identity conflicts with existing physical Source; rebinding is forbidden'')
              else
                res_bind (lineage_for_source st source) (\<lambda>l.
                  if fst l \<noteq> fst row
                  then Inl (SourceLineageIntegrityError
                    ''declared Source identity binding disagrees with lineage'')
                  else Inr l))
         | _ \<Rightarrow> Inl (SourceLineageIntegrityError
                ''declared logical identity conflicts with existing physical Source; rebinding is forbidden''))"

definition binding_matches :: "binding_row \<Rightarrow> identity_declaration \<Rightarrow> bool" where
  "binding_matches b d \<longleftrightarrow>
     bi_connector b = de_connector d \<and> bi_connector_revision b = de_connector_revision d \<and>
     bi_representation b = de_representation d \<and> bi_part_number b = de_part_number d \<and>
     bi_part_metadata_hash b = de_part_metadata_hash d \<and> bi_manifest_sha256 b = de_manifest_sha256 d"

definition require_identity_binding :: "library_store \<Rightarrow> string \<Rightarrow> string \<Rightarrow> identity_declaration \<Rightarrow> unit res" where
  "require_identity_binding st source version d =
     (case concat (map (\<lambda>b. map (Pair b) (bound_identities st b))
             (filter (\<lambda>b. bi_source_id b = source \<and> bi_version_id b = version) (st_bindings st))) of
        [] \<Rightarrow> Inl (SourceLineageIntegrityError
                ''declared identity does not match the immutable SourceVersion binding'')
      | (b, i) # _ \<Rightarrow>
          if \<not> (binding_matches b d \<and> fi_uri i = de_uri d)
          then Inl (SourceLineageIntegrityError
            ''declared identity does not match the immutable SourceVersion binding'')
          else Inr ())"

subsection \<open>Inputs and outcomes\<close>

text \<open>The fields of \<open>SourceBytes\<close> and \<open>PromotedBlob\<close> that the repository reads.\<close>

record source_bytes =
  sby_relative_path :: string
  sby_uri :: string
  sby_media_type :: source_media_type
  sby_data :: "byte list"
  sby_sha256 :: string
  sby_modified_at :: string

definition byte_size :: "source_bytes \<Rightarrow> int" where
  "byte_size s = int (length (sby_data s))"

record promoted_blob =
  pb_sha256 :: string
  pb_size :: int
  pb_path :: string

datatype disposition = ADDED | CHANGED | UNCHANGED | REVERTED

definition disposition_value :: "disposition \<Rightarrow> string" where
  "disposition_value d =
     (case d of ADDED \<Rightarrow> ''added'' | CHANGED \<Rightarrow> ''changed'' | UNCHANGED \<Rightarrow> ''unchanged''
      | REVERTED \<Rightarrow> ''reverted'')"

record source_outcome =
  out_disposition :: disposition
  out_source_id :: string
  out_version_id :: string
  out_family_id :: string
  out_root_id :: string
  out_role :: family_role
  out_fragments :: int

text \<open>The identifiers one call draws from \<open>new_id\<close> and from the event factory.\<close>

record fresh_ids =
  new_source_id :: string
  new_family_id :: string
  new_version_id :: string
  new_binding_id :: string
  new_binding_event_id :: string
  new_event_id :: string

subsection \<open>Scope of an input\<close>

text \<open>\<open>Path.as_uri\<close>: the path bytes, percent-encoded outside the unreserved characters.\<close>

definition uri_safe :: string where
  "uri_safe = lower_az @ upper_az @ digits09 @ ''_.-~/''"

definition upper_hex :: "nat \<Rightarrow> char" where
  "upper_hex n = ''0123456789ABCDEF'' ! (n mod 16)"

definition quote_byte :: "byte \<Rightarrow> string" where
  "quote_byte b =
     (let c = char_of (unat b)
      in if c \<in> set uri_safe then [c] else [CHR ''%'', upper_hex (unat b div 16), upper_hex (unat b)])"

definition path_uri :: "string \<Rightarrow> string" where
  "path_uri p = ''file://'' @ concat (map quote_byte (utf8 p))"

fun path_parts_loop :: "string \<Rightarrow> string \<Rightarrow> string list" where
  "path_parts_loop acc [] = [rev acc]"
| "path_parts_loop acc (c # cs) =
     (if c = CHR ''/'' then rev acc # path_parts_loop [] cs else path_parts_loop (c # acc) cs)"

definition path_parts :: "string \<Rightarrow> string list" where
  "path_parts p = filter (\<lambda>x. x \<noteq> [] \<and> x \<noteq> ''.'') (path_parts_loop [] p)"

definition join_path :: "string \<Rightarrow> string list \<Rightarrow> string" where
  "join_path root parts =
     (if parts = [] then root
      else if root = ''/'' then root @ join ''/'' parts else root @ ''/'' @ join ''/'' parts)"

text \<open>
  The Collection row joined to its root, the URI check, and the membership state of the
  Collection's kind.
\<close>

definition ingest_scope ::
  "library_store \<Rightarrow> string \<Rightarrow> string \<Rightarrow> source_bytes \<Rightarrow> membership_state res" where
  "ingest_scope st collection root source =
     (case filter (\<lambda>c. co_id c = collection \<and> co_library_id c = st_library_id st) (st_collections st) of
        [] \<Rightarrow> Inl (CollectionNotFoundError (''Collection does not exist in Library '' @
                st_library_id st @ '': '' @ collection))
      | c # _ \<Rightarrow>
          (case filter (\<lambda>r. ro_collection_id r = co_id c \<and> ro_id r = root) (st_roots st) of
             [] \<Rightarrow> Inl (PersistenceIntegrityError
                     ''Collection root does not belong to the ingest Collection'')
           | r # _ \<Rightarrow>
               if \<not> has_prefix ''/'' (ro_path r)
               then Inl (PersistenceIntegrityError ''persisted Collection root is not absolute'')
               else if sby_uri source \<noteq>
                   path_uri (join_path (ro_path r) (path_parts (sby_relative_path source)))
               then Inl (PersistenceIntegrityError
                 ''captured Source URI does not match its exact Collection root and path'')
               else Inr (if co_kind c = HOLDOUT_KIND then HOLDOUT else ACTIVE)))"

definition ensure_blob_row :: "promoted_blob \<Rightarrow> library_store \<Rightarrow> library_store res" where
  "ensure_blob_row b st =
     (let st' = insert_blob_or_ignore
            \<lparr>bl_sha256 = pb_sha256 b, bl_size = pb_size b, bl_path = pb_path b\<rparr> st
      in case filter (\<lambda>r. bl_sha256 r = pb_sha256 b) (st_blobs st') of
           r # _ \<Rightarrow>
             (if bl_size r \<noteq> pb_size b \<or> bl_path r \<noteq> pb_path b
              then Inl (PersistenceIntegrityError ''Blob row conflicts with verified physical bytes'')
              else Inr st')
         | [] \<Rightarrow> Inl (PersistenceIntegrityError ''Blob row conflicts with verified physical bytes''))"

definition ensure_membership ::
  "string \<Rightarrow> string \<Rightarrow> membership_state \<Rightarrow> library_store \<Rightarrow> library_store res" where
  "ensure_membership collection source state st =
     (case filter (\<lambda>m. me_collection_id m = collection \<and> me_source_id m = source) (st_memberships st) of
        [] \<Rightarrow> insert_membership
                \<lparr>me_collection_id = collection, me_source_id = source, me_state = state\<rparr> st
      | m # _ \<Rightarrow>
          if me_state m \<noteq> state
          then Inl (PersistenceIntegrityError
            ''existing Collection membership state differs from ingest scope'')
          else Inr st)"

definition fragment_count :: "library_store \<Rightarrow> string \<Rightarrow> int" where
  "fragment_count st version =
     int (length (filter (\<lambda>f. fr_version_id f = version) (st_fragments st)))"

subsection \<open>A new Source\<close>

text \<open>
  The rows of a Source seen for the first time: the Source, its lineage, and a new family when
  no lineage applies.  The result is family, root Source and role.
\<close>

definition new_lineage ::
  "identity_declaration option \<Rightarrow> string \<Rightarrow> library_store \<Rightarrow> (string \<times> string) option res" where
  "new_lineage decl sha st =
     (case decl of
        None \<Rightarrow> lineage_for_content st sha None
      | Some d \<Rightarrow> declared_lineage_for_new_source st d)"

definition start_family ::
  "fresh_ids \<Rightarrow> identity_declaration option \<Rightarrow> library_store \<Rightarrow> library_store res" where
  "start_family ids decl st =
     res_bind (insert_family
         \<lparr>fa_id = new_family_id ids, fa_library_id = st_library_id st, fa_label = new_source_id ids\<rparr> st) (\<lambda>st1.
       case decl of
         None \<Rightarrow> Inr st1
       | Some d \<Rightarrow> insert_identity
           \<lparr>fi_family_id = new_family_id ids, fi_library_id = st_library_id st, fi_uri = de_uri d\<rparr> st1)"

definition join_role :: "identity_declaration option \<Rightarrow> string \<Rightarrow> string \<Rightarrow> library_store \<Rightarrow> family_role" where
  "join_role decl f sha st =
     (if decl = None \<or> declared_content_exists st f sha then DUPLICATE else DERIVATIVE)"

definition enroll_member ::
  "string \<Rightarrow> string \<Rightarrow> family_role \<Rightarrow> string option \<Rightarrow> library_store \<Rightarrow> library_store res" where
  "enroll_member f source role root st =
     insert_family_member \<lparr>fm_family_id = f, fm_source_id = source, fm_role = role, fm_root = root\<rparr> st"

definition enroll_source ::
  "fresh_ids \<Rightarrow> source_bytes \<Rightarrow> identity_declaration option \<Rightarrow> library_store \<Rightarrow>
     ((string \<times> string \<times> family_role) \<times> library_store) res" where
  "enroll_source ids source decl st =
     (let sid = new_source_id ids
      in res_bind (insert_source
           \<lparr>so_id = sid, so_library_id = st_library_id st, so_uri = sby_uri source,
            so_media_type = sby_media_type source,
            so_title = last ([] # path_parts (sby_relative_path source))\<rparr> st) (\<lambda>st1.
         res_bind (new_lineage decl (sby_sha256 source) st1) (\<lambda>lineage.
           case lineage of
             None \<Rightarrow>
               res_bind (start_family ids decl st1) (\<lambda>st2.
               res_bind (enroll_member (new_family_id ids) sid family_role.ROOT None st2) (\<lambda>st3.
                 Inr ((new_family_id ids, sid, family_role.ROOT), st3)))
           | Some (f, root) \<Rightarrow>
               (let role = join_role decl f (sby_sha256 source) st1
                in res_bind (enroll_member f sid role (Some root) st1) (\<lambda>st2.
                     Inr ((f, root, role), st2))))))"

subsection \<open>A known Source\<close>

definition known_lineage ::
  "identity_declaration option \<Rightarrow> string \<Rightarrow> library_store \<Rightarrow> (string \<times> string \<times> family_role) res" where
  "known_lineage decl source st =
     (case decl of
        None \<Rightarrow> lineage_for_source st source
      | Some d \<Rightarrow> declared_lineage_for_existing_source st source d)"

definition versions_of :: "library_store \<Rightarrow> string \<Rightarrow> version_row list" where
  "versions_of st source = sort_key ve_number (filter (\<lambda>v. ve_source_id v = source) (st_versions st))"

text \<open>The head row of a Source joined to its version.\<close>

definition head_version :: "library_store \<Rightarrow> string \<Rightarrow> version_row option" where
  "head_version st source =
     (case concat (map (\<lambda>h. filter (\<lambda>v. ve_id v = he_version_id h) (st_versions st))
             (filter (\<lambda>h. he_source_id h = source) (st_heads st))) of
        [] \<Rightarrow> None | v # _ \<Rightarrow> Some v)"

definition same_content :: "source_bytes \<Rightarrow> string \<Rightarrow> version_row \<Rightarrow> bool" where
  "same_content source profile v \<longleftrightarrow> ve_sha256 v = sby_sha256 source \<and> ve_profile v = profile"

definition check_binding ::
  "identity_declaration option \<Rightarrow> string \<Rightarrow> string \<Rightarrow> library_store \<Rightarrow> unit res" where
  "check_binding decl source version st =
     (case decl of None \<Rightarrow> Inr () | Some d \<Rightarrow> require_identity_binding st source version d)"

definition outcome_of ::
  "disposition \<Rightarrow> string \<Rightarrow> string \<Rightarrow> string \<times> string \<times> family_role \<Rightarrow> int \<Rightarrow> source_outcome" where
  "outcome_of d source version l n =
     \<lparr>out_disposition = d, out_source_id = source, out_version_id = version, out_family_id = fst l,
      out_root_id = fst (snd l), out_role = snd (snd l), out_fragments = n\<rparr>"

definition keep_head ::
  "string \<Rightarrow> membership_state \<Rightarrow> identity_declaration option \<Rightarrow> string \<Rightarrow> string \<times> string \<times> family_role \<Rightarrow>
     version_row \<Rightarrow> library_store \<Rightarrow> (source_outcome \<times> library_store) res" where
  "keep_head collection state decl source l head st =
     res_bind (check_binding decl source (ve_id head) st) (\<lambda>_.
     res_bind (ensure_membership collection source state st) (\<lambda>st1.
       Inr (outcome_of UNCHANGED source (ve_id head) l (fragment_count st1 (ve_id head)), st1)))"

definition reverted_payload ::
  "library_store \<Rightarrow> string \<Rightarrow> string \<Rightarrow> string \<Rightarrow> string \<Rightarrow> string \<Rightarrow> string \<Rightarrow> json" where
  "reverted_payload st collection root source previous version sha =
     JObj
       [(''schema'', JStr ''dithyramba.source_head_reverted/1.0''),
        (''library_id'', JStr (st_library_id st)), (''collection_id'', JStr collection),
        (''collection_root_id'', JStr root), (''source_id'', JStr source),
        (''previous_source_version_id'', JStr previous), (''source_version_id'', JStr version),
        (''content_sha256'', JStr sha), (''disposition'', JStr (disposition_value REVERTED))]"

definition revert_head ::
  "fresh_ids \<Rightarrow> string \<Rightarrow> string \<Rightarrow> string \<Rightarrow> membership_state \<Rightarrow> source_bytes \<Rightarrow> identity_declaration option \<Rightarrow>
     string \<Rightarrow> string \<times> string \<times> family_role \<Rightarrow> version_row \<Rightarrow> version_row \<Rightarrow> library_store \<Rightarrow>
     (source_outcome \<times> library_store) res" where
  "revert_head ids now collection root state source decl sid l head historical st =
     (let version = ve_id historical
      in res_bind (check_binding decl sid version st) (\<lambda>_.
         res_bind (update_head sid version st) (\<lambda>(_, st1).
         res_bind (ensure_membership collection sid state st1) (\<lambda>st2.
         res_bind (insert_outbox_event (new_event_id ids) ''source_head.reverted'' ''source'' sid
           (reverted_payload st2 collection root sid (ve_id head) version (sby_sha256 source)) now st2) (\<lambda>st3.
           Inr (outcome_of REVERTED sid version l (fragment_count st2 version), st3))))))"

text \<open>A changed Source may not take bytes that another family holds.\<close>

definition check_collision ::
  "identity_declaration option \<Rightarrow> string \<Rightarrow> string \<Rightarrow> string \<times> string \<times> family_role \<Rightarrow> library_store \<Rightarrow> unit res" where
  "check_collision decl sha source l st =
     (case decl of
        Some _ \<Rightarrow> Inr ()
      | None \<Rightarrow>
          res_bind (lineage_for_content st sha (Some source)) (\<lambda>found.
            if found \<noteq> None \<and> found \<noteq> Some (fst l, fst (snd l))
            then Inl (SourceLineageIntegrityError
              ''changed Source bytes collide with an incompatible SourceFamily'')
            else Inr ()))"

subsection \<open>A new version\<close>

definition fragment_identity :: "string \<Rightarrow> parsed_fragment \<Rightarrow> string" where
  "fragment_identity version f =
     canonical_content_id ''fragment''
       (JObj
         [(''schema'', JStr ''dithyramba.source_fragment_identity/1.0''),
          (''source_version_id'', JStr version), (''ordinal'', JInt (pf_ordinal f)),
          (''fragment_kind'', JStr (fragment_kind_value (pf_kind f))),
          (''text_sha256'', JStr (text_sha256 f)), (''address_hash'', JStr (address_hash f))])"

definition fragment_row_of :: "string \<Rightarrow> parsed_fragment \<Rightarrow> fragment_row" where
  "fragment_row_of version f =
     \<lparr>fr_id = fragment_identity version f, fr_version_id = version, fr_ordinal = pf_ordinal f,
      fr_kind = pf_kind f, fr_text = pf_text f, fr_text_sha256 = text_sha256 f,
      fr_address = address_payload (pf_address f), fr_address_hash = address_hash f\<rparr>"

definition insert_fragments :: "string \<Rightarrow> parsed_fragment list \<Rightarrow> library_store \<Rightarrow> library_store res" where
  "insert_fragments version = fold_res (\<lambda>f. insert_fragment (fragment_row_of version f))"

definition binding_event_payload ::
  "library_store \<Rightarrow> string \<Rightarrow> string \<Rightarrow> string \<Rightarrow> string \<Rightarrow> identity_declaration \<Rightarrow> string \<Rightarrow> json" where
  "binding_event_payload st binding source version f d sha =
     JObj
       [(''schema'', JStr ''dithyramba.source_identity_binding/1.0''),
        (''library_id'', JStr (st_library_id st)), (''source_identity_binding_id'', JStr binding),
        (''source_id'', JStr source), (''source_version_id'', JStr version),
        (''source_family_id'', JStr f), (''logical_source_uri'', JStr (de_uri d)),
        (''connector'', JStr (de_connector d)),
        (''connector_revision'', JStr (de_connector_revision d)),
        (''representation'', JStr (de_representation d)), (''part_number'', JInt (de_part_number d)),
        (''part_metadata_hash'', JStr (de_part_metadata_hash d)), (''content_sha256'', JStr sha),
        (''manifest_sha256'', JStr (de_manifest_sha256 d))]"

definition insert_identity_binding ::
  "string \<Rightarrow> string \<Rightarrow> string \<Rightarrow> string \<Rightarrow> identity_declaration \<Rightarrow> string \<Rightarrow> library_store \<Rightarrow> library_store res" where
  "insert_identity_binding binding source version f d sha =
     insert_binding
       \<lparr>bi_id = binding, bi_source_id = source, bi_version_id = version, bi_family_id = f,
        bi_connector = de_connector d, bi_connector_revision = de_connector_revision d,
        bi_representation = de_representation d, bi_part_number = de_part_number d,
        bi_part_metadata_hash = de_part_metadata_hash d, bi_sha256 = sha,
        bi_manifest_sha256 = de_manifest_sha256 d\<rparr>"

definition record_binding ::
  "fresh_ids \<Rightarrow> string \<Rightarrow> identity_declaration option \<Rightarrow> string \<Rightarrow> string \<Rightarrow> string \<Rightarrow> library_store \<Rightarrow>
     library_store res" where
  "record_binding ids now decl source f sha st =
     (case decl of
        None \<Rightarrow> Inr st
      | Some d \<Rightarrow>
          res_bind (insert_identity_binding (new_binding_id ids) source (new_version_id ids) f d sha st) (\<lambda>st1.
            insert_outbox_event (new_binding_event_id ids) ''source_identity.binding_recorded''
              ''source_identity_binding'' (new_binding_id ids)
              (binding_event_payload st1 (new_binding_id ids) source (new_version_id ids) f d sha) now st1))"

definition move_head :: "bool \<Rightarrow> string \<Rightarrow> string \<Rightarrow> library_store \<Rightarrow> library_store res" where
  "move_head created source version st =
     (if created then insert_head \<lparr>he_source_id = source, he_version_id = version\<rparr> st
      else res_bind (update_head source version st) (\<lambda>(n, st1).
        if n \<noteq> 1 then Inl (PersistenceIntegrityError ''Source head changed during ingest'')
        else Inr st1))"

definition version_payload ::
  "library_store \<Rightarrow> string \<Rightarrow> string \<Rightarrow> string \<Rightarrow> string \<Rightarrow> string \<times> string \<times> family_role \<Rightarrow> int \<Rightarrow>
     source_bytes \<Rightarrow> parse_result \<Rightarrow> disposition \<Rightarrow> json" where
  "version_payload st collection root source version l number src parsed d =
     JObj
       [(''schema'', JStr ''dithyramba.source_version_recorded/1.0''),
        (''library_id'', JStr (st_library_id st)), (''collection_id'', JStr collection),
        (''collection_root_id'', JStr root), (''source_id'', JStr source),
        (''source_version_id'', JStr version), (''source_family_id'', JStr (fst l)),
        (''root_source_id'', JStr (fst (snd l))),
        (''family_role'', JStr (family_role_value (snd (snd l)))), (''version_number'', JInt number),
        (''content_sha256'', JStr (sby_sha256 src)), (''byte_size'', JInt (byte_size src)),
        (''parser_profile'', JStr (pr_parser_profile parsed)),
        (''parser_revision'', JStr (pr_parser_revision parsed)),
        (''disposition'', JStr (disposition_value d)),
        (''source_fragment_ids'', json_strs (map (fragment_identity version) (pr_fragments parsed)))]"

definition record_version ::
  "fresh_ids \<Rightarrow> string \<Rightarrow> string \<Rightarrow> string \<Rightarrow> membership_state \<Rightarrow> source_bytes \<Rightarrow> parse_result \<Rightarrow>
     identity_declaration option \<Rightarrow> disposition \<Rightarrow> string \<Rightarrow> string \<times> string \<times> family_role \<Rightarrow> int \<Rightarrow> library_store \<Rightarrow>
     (source_outcome \<times> library_store) res" where
  "record_version ids now collection root state src parsed decl d sid l number st =
     (let version = new_version_id ids
      in res_bind (insert_version
           \<lparr>ve_id = version, ve_source_id = sid, ve_number = number, ve_sha256 = sby_sha256 src,
            ve_size = byte_size src, ve_profile = pr_parser_profile parsed\<rparr> st) (\<lambda>st1.
         res_bind (insert_fragments version (pr_fragments parsed) st1) (\<lambda>st2.
         res_bind (record_binding ids now decl sid (fst l) (sby_sha256 src) st2) (\<lambda>st3.
         res_bind (move_head (d = ADDED) sid version st3) (\<lambda>st4.
         res_bind (ensure_membership collection sid state st4) (\<lambda>st5.
         res_bind (insert_outbox_event (new_event_id ids) ''source_version.recorded'' ''source_version''
           version (version_payload st5 collection root sid version l number src parsed d) now st5) (\<lambda>st6.
           Inr (outcome_of d sid version l (int (length (pr_fragments parsed))), st6))))))))"

subsection \<open>Recording a processed source\<close>

definition known_source ::
  "fresh_ids \<Rightarrow> string \<Rightarrow> string \<Rightarrow> string \<Rightarrow> membership_state \<Rightarrow> source_bytes \<Rightarrow> parse_result \<Rightarrow>
     identity_declaration option \<Rightarrow> source_row \<Rightarrow> library_store \<Rightarrow> (source_outcome \<times> library_store) res" where
  "known_source ids now collection root state src parsed decl row st =
     (let sid = so_id row
      in if so_media_type row \<noteq> sby_media_type src
         then Inl (PersistenceIntegrityError
           ''persisted Source media type changed for the same canonical URI'')
         else
           res_bind (known_lineage decl sid st) (\<lambda>l.
             let versions = versions_of st sid
             in if versions = []
                then Inl (PersistenceIntegrityError ''persisted Source has no SourceVersion'')
                else case head_version st sid of
                  None \<Rightarrow> Inl (PersistenceIntegrityError ''persisted Source has no source_heads row'')
                | Some head \<Rightarrow>
                    if same_content src (pr_parser_profile parsed) head
                    then keep_head collection state decl sid l head st
                    else case find (same_content src (pr_parser_profile parsed)) versions of
                      Some historical \<Rightarrow>
                        revert_head ids now collection root state src decl sid l head historical st
                    | None \<Rightarrow>
                        res_bind (check_collision decl (sby_sha256 src) sid l st) (\<lambda>_.
                          record_version ids now collection root state src parsed decl CHANGED sid l
                            (Max (set (map ve_number versions)) + 1) st)))"

definition record_transaction ::
  "fresh_ids \<Rightarrow> string \<Rightarrow> string \<Rightarrow> string \<Rightarrow> source_bytes \<Rightarrow> parse_result \<Rightarrow> promoted_blob \<Rightarrow>
     identity_declaration option \<Rightarrow> library_store \<Rightarrow> (source_outcome \<times> library_store) res" where
  "record_transaction ids now collection root src parsed blob decl st =
     res_bind (ingest_scope st collection root src) (\<lambda>state.
     res_bind (ensure_blob_row blob st) (\<lambda>st1.
       case filter (\<lambda>s. so_library_id s = st_library_id st1 \<and> so_uri s = sby_uri src) (st_sources st1) of
         [] \<Rightarrow>
           res_bind (enroll_source ids src decl st1) (\<lambda>(l, st2).
             record_version ids now collection root state src parsed decl ADDED (new_source_id ids) l 1 st2)
       | row # _ \<Rightarrow> known_source ids now collection root state src parsed decl row st1))"

definition record_processed_source ::
  "(promoted_blob \<Rightarrow> unit res) \<Rightarrow> fresh_ids \<Rightarrow> string \<Rightarrow> string \<Rightarrow> string \<Rightarrow> source_bytes \<Rightarrow> parse_result \<Rightarrow>
     promoted_blob \<Rightarrow> identity_declaration option \<Rightarrow> library_store \<Rightarrow> (source_outcome \<times> library_store) res" where
  "record_processed_source verify ids now collection root src parsed blob decl st =
     (if pr_status parsed \<noteq> PROCESSED
      then Inl (ValueError ''only a processed ParseResult may create provenance rows'')
      else if pb_sha256 blob \<noteq> sby_sha256 src \<or> pb_size blob \<noteq> byte_size src
      then Inl (PersistenceIntegrityError ''promoted Blob differs from captured Source bytes'')
      else
        res_bind (validated_timestamp (sby_modified_at src)) (\<lambda>_.
        res_bind (validated_label (pr_parser_profile parsed) ''parser profile'') (\<lambda>_.
        res_bind (validated_label root ''Collection root ID'') (\<lambda>_.
        res_bind (verify blob) (\<lambda>_.
          on_integrity_error
            (PersistenceConflictError ''processed Source transaction conflicted with existing state'')
            (record_transaction ids now collection root src parsed blob decl st))))))"

subsection \<open>The read-only fast path\<close>

definition reusable_row ::
  "library_store \<Rightarrow> string \<Rightarrow> source_bytes \<Rightarrow> (source_row \<times> version_row \<times> membership_row option) list" where
  "reusable_row st collection src =
     concat (map (\<lambda>s. case head_version st (so_id s) of
         None \<Rightarrow> []
       | Some v \<Rightarrow> if ve_source_id v = so_id s
           then [(s, v, find (\<lambda>m. me_source_id m = so_id s \<and> me_collection_id m = collection)
                   (st_memberships st))]
           else [])
       (filter (\<lambda>s. so_library_id s = st_library_id st \<and> so_uri s = sby_uri src) (st_sources st)))"

definition get_blob :: "(promoted_blob \<Rightarrow> unit res) \<Rightarrow> string \<Rightarrow> library_store \<Rightarrow> promoted_blob res" where
  "get_blob verify sha st =
     res_bind (validated_sha256 sha ''Blob content hash'') (\<lambda>digest.
       case filter (\<lambda>r. bl_sha256 r = digest) (st_blobs st) of
         [] \<Rightarrow> Inl (SourceNotFoundError (''Blob does not exist: '' @ digest))
       | r # _ \<Rightarrow>
           if bl_path r \<noteq> take 2 (bl_sha256 r) @ ''/'' @ drop 2 (bl_sha256 r)
           then Inl (ValueError ''blob relative_path must be derived from content_sha256'')
           else
             (let b = \<lparr>pb_sha256 = bl_sha256 r, pb_size = bl_size r, pb_path = bl_path r\<rparr>
              in res_bind (verify b) (\<lambda>_. Inr b)))"

definition find_reusable_unchanged_source ::
  "(promoted_blob \<Rightarrow> unit res) \<Rightarrow> string \<Rightarrow> string \<Rightarrow> source_bytes \<Rightarrow> string \<Rightarrow> identity_declaration option \<Rightarrow>
     library_store \<Rightarrow> source_outcome option res" where
  "find_reusable_unchanged_source verify collection root src profile decl st =
     res_bind (validated_label profile ''parser profile'') (\<lambda>_.
     res_bind (validated_label root ''Collection root ID'') (\<lambda>_.
     res_bind (ingest_scope st collection root src) (\<lambda>state.
       case reusable_row st collection src of
         [] \<Rightarrow> Inr None
       | (s, v, m) # _ \<Rightarrow>
           if so_media_type s \<noteq> sby_media_type src
           then Inl (PersistenceIntegrityError
             ''persisted Source media type changed for the same canonical URI'')
           else if \<not> same_content src profile v then Inr None
           else case m of
             None \<Rightarrow> Inr None
           | Some mem \<Rightarrow>
               if me_state mem \<noteq> state
               then Inl (PersistenceIntegrityError
                 ''existing Collection membership state differs from ingest scope'')
               else
                 res_bind (known_lineage decl (so_id s) st) (\<lambda>l.
                 res_bind (check_binding decl (so_id s) (ve_id v) st) (\<lambda>_.
                   if fragment_count st (ve_id v) < 1
                   then Inl (PersistenceIntegrityError
                     ''processed SourceVersion has no SourceFragments'')
                   else
                     res_bind (get_blob verify (sby_sha256 src) st) (\<lambda>_.
                       Inr (Some (outcome_of UNCHANGED (so_id s) (ve_id v) l
                         (fragment_count st (ve_id v))))))))))"

end
