(* ===== verification/Library_Access.thy ===== *)
theory Library_Access
  imports Library_Ingest
begin

text \<open>
  Snapshots, policies and the authorized read boundary of
  \<open>src/dithyramba/persistence/repository.py\<close>: \<open>freeze_snapshot\<close>, \<open>get_corpus_snapshot\<close>,
  \<open>persist_access_policy\<close>, \<open>get_access_policy\<close>, \<open>_compile_db_access\<close>, \<open>authorize_read\<close>,
  \<open>revalidate_authorized_read\<close> and \<open>read_permitted_fragment_subset\<close>.
\<close>

subsection \<open>Errors caught as invalid state\<close>

text \<open>The subclasses of \<open>ValueError\<close> and \<open>TypeError\<close> among the modelled exceptions.\<close>

definition value_error :: "error \<Rightarrow> bool" where
  "value_error e =
     (case e of
        ValueError _ \<Rightarrow> True | TypeError _ \<Rightarrow> True | ValidationError _ \<Rightarrow> True
      | CanonicalizationError _ \<Rightarrow> True | InvalidIdentifierPrefixError _ \<Rightarrow> True
      | InvalidAccessPolicyError _ \<Rightarrow> True | InvalidAccessScopeError _ \<Rightarrow> True
      | SnapshotContractError _ \<Rightarrow> True | _ \<Rightarrow> False)"

definition lineage_error :: "error \<Rightarrow> bool" where
  "lineage_error e = (case e of SourceLineageIntegrityError _ \<Rightarrow> True | _ \<Rightarrow> value_error e)"

definition reraise :: "(error \<Rightarrow> bool) \<Rightarrow> error \<Rightarrow> 'a res \<Rightarrow> 'a res" where
  "reraise caught e r = (case r of Inl x \<Rightarrow> if caught x then Inl e else Inl x | Inr y \<Rightarrow> Inr y)"

lemma reraise_Inr [res_simps]: "reraise c e r = Inr x \<longleftrightarrow> r = Inr x"
  by (auto simp: reraise_def split: sum.splits)

lemma reraise_Inr' [simp]: "reraise c e (Inr x) = Inr x"
  by (simp add: reraise_def)

definition require_collections :: "library_store \<Rightarrow> string list \<Rightarrow> unit res" where
  "require_collections st ids =
     (if list_all (\<lambda>i. \<exists>c \<in> set (st_collections st). co_id c = i \<and> co_library_id c = st_library_id st) ids
      then Inr ()
      else Inl (CollectionNotFoundError ''one or more Collections are absent from this Library''))"

definition require_sources :: "library_store \<Rightarrow> string list \<Rightarrow> unit res" where
  "require_sources st ids =
     (if list_all (\<lambda>i. \<exists>s \<in> set (st_sources st). so_id s = i \<and> so_library_id s = st_library_id st) ids
      then Inr ()
      else Inl (PersistenceIntegrityError
        ''AccessPolicy Source rules must reference Sources in this Library''))"

definition library_collection :: "library_store \<Rightarrow> string \<Rightarrow> bool" where
  "library_collection st i \<longleftrightarrow>
     (\<exists>c \<in> set (st_collections st). co_id c = i \<and> co_library_id c = st_library_id st)"

definition library_source :: "library_store \<Rightarrow> string \<Rightarrow> bool" where
  "library_source st i \<longleftrightarrow>
     (\<exists>s \<in> set (st_sources st). so_id s = i \<and> so_library_id s = st_library_id st)"

subsection \<open>Members of a snapshot\<close>

text \<open>The two left joins: the head of the Source and its version row.\<close>

definition head_id :: "library_store \<Rightarrow> string \<Rightarrow> string option" where
  "head_id st source =
     (case filter (\<lambda>h. he_source_id h = source) (st_heads st) of
        [] \<Rightarrow> None | h # _ \<Rightarrow> Some (he_version_id h))"

definition version_row_of :: "library_store \<Rightarrow> string \<Rightarrow> version_row option" where
  "version_row_of st version =
     (case filter (\<lambda>v. ve_id v = version) (st_versions st) of [] \<Rightarrow> None | v # _ \<Rightarrow> Some v)"

definition lineage_member ::
  "library_store \<Rightarrow> string \<Rightarrow> version_row \<Rightarrow> membership_state \<Rightarrow> snapshot_member res" where
  "lineage_member st collection v state =
     res_bind (lineage_for_source st (ve_source_id v)) (\<lambda>l.
       validate_member
         \<lparr>sm_collection_id = collection, sm_source_id = ve_source_id v,
          sm_source_version_id = ve_id v, sm_content_sha256 = ve_sha256 v,
          sm_membership_state = state, sm_source_family_id = fst l,
          sm_root_source_id = fst (snd l), sm_family_role = snd (snd l)\<rparr>)"

definition current_member :: "library_store \<Rightarrow> membership_row \<Rightarrow> snapshot_member res" where
  "current_member st m =
     (case head_id st (me_source_id m) of
        None \<Rightarrow> Inl (PersistenceIntegrityError
                  ''Collection membership has no valid current SourceVersion head'')
      | Some h \<Rightarrow>
          (case version_row_of st h of
             None \<Rightarrow> Inl (PersistenceIntegrityError
                       ''Collection membership has no valid current SourceVersion head'')
           | Some v \<Rightarrow>
               if ve_source_id v \<noteq> me_source_id m
               then Inl (PersistenceIntegrityError
                 ''Collection membership has no valid current SourceVersion head'')
               else lineage_member st (me_collection_id m) v (me_state m)))"

definition membership_order :: "library_store \<Rightarrow> membership_row \<Rightarrow> string \<times> string \<times> string" where
  "membership_order st m =
     (me_collection_id m, (case head_id st (me_source_id m) of None \<Rightarrow> [] | Some h \<Rightarrow> h), me_source_id m)"

definition current_snapshot_members :: "library_store \<Rightarrow> string list \<Rightarrow> snapshot_member list res" where
  "current_snapshot_members st collections =
     (let raw = filter (\<lambda>m. me_collection_id m \<in> set collections) (st_memberships st);
          rows = filter (\<lambda>m. library_collection st (me_collection_id m) \<and> library_source st (me_source_id m)) raw
      in if length rows \<noteq> length raw
         then Inl (PersistenceIntegrityError
           ''Collection memberships cross the current Library boundary'')
         else
           reraise lineage_error
             (PersistenceIntegrityError ''current Collection state cannot form a valid CorpusSnapshot'')
             (map_res (current_member st) (sort_key (membership_order st) rows)))"

subsection \<open>Stored snapshots\<close>

definition scope_object :: "corpus_snapshot \<Rightarrow> json" where
  "scope_object s =
     JObj
       [(''schema'', JStr ''dithyramba.corpus_snapshot_scope/1.0''),
        (''library_id'', JStr (cs_library_id s)),
        (''collection_ids'', JList (map JStr (cs_collection_ids s)))]"

fun json_field :: "string \<Rightarrow> json \<Rightarrow> json option" where
  "json_field k (JObj kvs) = map_of kvs k"
| "json_field k _ = None"

fun json_string :: "json \<Rightarrow> string res" where
  "json_string (JStr s) = Inr s"
| "json_string _ = Inl (PersistenceIntegrityError ''persisted CorpusSnapshot scope is invalid'')"

text \<open>The Library and the Collections of a stored scope.\<close>

definition read_scope :: "json \<Rightarrow> (string \<times> string list) res" where
  "read_scope scope =
     (case (json_field ''library_id'' scope, json_field ''collection_ids'' scope) of
        (Some (JStr lib), Some (JList items)) \<Rightarrow>
          res_bind (map_res json_string items) (\<lambda>ids. Inr (lib, ids))
      | _ \<Rightarrow> Inl (PersistenceIntegrityError ''persisted CorpusSnapshot scope is invalid''))"

definition stored_member :: "library_store \<Rightarrow> snapshot_member_row \<Rightarrow> snapshot_member res" where
  "stored_member st r =
     (case version_row_of st (sb_version_id r) of
        None \<Rightarrow> Inl (PersistenceIntegrityError ''persisted CorpusSnapshot manifest is invalid'')
      | Some v \<Rightarrow> lineage_member st (sb_collection_id r) v (sb_state r))"

definition joined_member_row :: "library_store \<Rightarrow> snapshot_member_row \<Rightarrow> bool" where
  "joined_member_row st r \<longleftrightarrow>
     library_collection st (sb_collection_id r) \<and>
     (case version_row_of st (sb_version_id r) of
        None \<Rightarrow> False | Some v \<Rightarrow> library_source st (ve_source_id v))"

definition snapshot_row_for :: "library_store \<Rightarrow> string \<Rightarrow> snapshot_row option" where
  "snapshot_row_for st i =
     (case filter (\<lambda>r. sn_id r = i) (st_snapshots st) of [] \<Rightarrow> None | r # _ \<Rightarrow> Some r)"

definition rebuild_snapshot ::
  "library_store \<Rightarrow> string \<Rightarrow> string list \<Rightarrow> snapshot_member_row list \<Rightarrow> corpus_snapshot res" where
  "rebuild_snapshot st lib collections rows =
     reraise lineage_error (PersistenceIntegrityError ''persisted CorpusSnapshot manifest is invalid'')
       (res_bind (map_res (stored_member st)
           (sort_key (\<lambda>r. (sb_collection_id r, sb_version_id r)) rows)) (\<lambda>members.
         build_corpus_snapshot lib collections members))"

definition check_snapshot_row :: "snapshot_row \<Rightarrow> corpus_snapshot \<Rightarrow> corpus_snapshot res" where
  "check_snapshot_row row s =
     (if dumps (scope_object s) \<noteq> dumps (sn_scope row)
      then Inl (PersistenceIntegrityError
        ''persisted CorpusSnapshot scope differs from canonical reconstruction'')
      else if sn_id row \<noteq> corpus_snapshot_id s
      then Inl (PersistenceIntegrityError ''persisted CorpusSnapshot ID mismatch'')
      else
        res_bind (validated_sha256 (sn_hash row) ''CorpusSnapshot manifest hash'') (\<lambda>h.
        if h \<noteq> manifest_hash s
        then Inl (PersistenceIntegrityError ''persisted CorpusSnapshot manifest hash mismatch'')
        else res_bind (validated_timestamp (sn_created_at row)) (\<lambda>_. Inr s)))"

definition reconstruct_corpus_snapshot :: "library_store \<Rightarrow> string \<Rightarrow> corpus_snapshot res" where
  "reconstruct_corpus_snapshot st i =
     (case snapshot_row_for st i of
        None \<Rightarrow> Inl (CorpusSnapshotNotFoundError i)
      | Some row \<Rightarrow>
          if sn_library_id row \<noteq> st_library_id st then Inl (CorpusSnapshotNotFoundError i)
          else
            res_bind (read_scope (sn_scope row)) (\<lambda>(lib, collections).
            if lib \<noteq> st_library_id st
            then Inl (PersistenceIntegrityError
              ''persisted CorpusSnapshot scope crosses the Library boundary'')
            else
              res_bind (reraise (\<lambda>e. case e of CollectionNotFoundError _ \<Rightarrow> True | _ \<Rightarrow> False)
                  (PersistenceIntegrityError
                    ''persisted CorpusSnapshot scope references an absent Collection'')
                  (require_collections st collections)) (\<lambda>_.
              let raw = filter (\<lambda>r. sb_snapshot_id r = i) (st_snapshot_members st);
                  rows = filter (joined_member_row st) raw
              in if length rows \<noteq> length raw
                 then Inl (PersistenceIntegrityError
                   ''persisted CorpusSnapshot members cross the Library boundary'')
                 else res_bind (rebuild_snapshot st lib collections rows) (check_snapshot_row row))))"

subsection \<open>Freezing\<close>

definition member_row_of :: "string \<Rightarrow> snapshot_member \<Rightarrow> snapshot_member_row" where
  "member_row_of i m =
     \<lparr>sb_snapshot_id = i, sb_collection_id = sm_collection_id m,
      sb_version_id = sm_source_version_id m, sb_state = sm_membership_state m\<rparr>"

definition frozen_payload :: "corpus_snapshot \<Rightarrow> json" where
  "frozen_payload s =
     JObj
       [(''schema'', JStr ''dithyramba.corpus_snapshot_frozen/1.0''),
        (''library_id'', JStr (cs_library_id s)), (''corpus_snapshot_id'', JStr (corpus_snapshot_id s)),
        (''manifest_hash'', JStr (manifest_hash s)),
        (''collection_ids'', json_strs (cs_collection_ids s)),
        (''member_count'', JInt (int (length (cs_members s))))]"

definition store_snapshot ::
  "string \<Rightarrow> string \<Rightarrow> corpus_snapshot \<Rightarrow> library_store \<Rightarrow> library_store res" where
  "store_snapshot event_id now s st =
     res_bind (insert_snapshot
         \<lparr>sn_id = corpus_snapshot_id s, sn_library_id = st_library_id st, sn_scope = scope_object s,
          sn_hash = manifest_hash s, sn_created_at = now\<rparr> st) (\<lambda>st1.
     res_bind (fold_res (\<lambda>m. insert_snapshot_member (member_row_of (corpus_snapshot_id s) m))
         (cs_members s) st1) (\<lambda>st2.
       insert_outbox_event event_id ''corpus_snapshot.frozen'' ''corpus_snapshot''
         (corpus_snapshot_id s) (frozen_payload s) now st2))"

definition same_snapshot_rows :: "library_store \<Rightarrow> corpus_snapshot \<Rightarrow> string list" where
  "same_snapshot_rows st s =
     sort (map sn_id (filter (\<lambda>r. sn_id r = corpus_snapshot_id s \<or> sn_hash r = manifest_hash s)
       (st_snapshots st)))"

text \<open>The transaction: the snapshot that is already stored, or the one it stores.\<close>

definition freeze_transaction ::
  "string \<Rightarrow> string \<Rightarrow> string list \<Rightarrow> library_store \<Rightarrow>
     (corpus_snapshot + corpus_snapshot \<times> library_store) res" where
  "freeze_transaction event_id now collections st =
     res_bind (require_collections st collections) (\<lambda>_.
     res_bind (current_snapshot_members st collections) (\<lambda>members.
     res_bind (build_corpus_snapshot (st_library_id st) collections members) (\<lambda>s.
       case same_snapshot_rows st s of
         [] \<Rightarrow> res_bind (store_snapshot event_id now s st) (\<lambda>st'. Inr (Inr (s, st')))
       | [i] \<Rightarrow>
           res_bind (reconstruct_corpus_snapshot st i) (\<lambda>existing.
             if snapshot_canonical_bytes existing \<noteq> snapshot_canonical_bytes s
             then Inl (PersistenceIntegrityError
               ''persisted CorpusSnapshot conflicts with its content address'')
             else Inr (Inl existing))
       | _ \<Rightarrow> Inl (PersistenceIntegrityError
                ''CorpusSnapshot ID/hash resolve to conflicting persisted rows''))))"

definition freeze_snapshot ::
  "string \<Rightarrow> string \<Rightarrow> string list \<Rightarrow> library_store \<Rightarrow> (corpus_snapshot \<times> library_store) res" where
  "freeze_snapshot event_id now collections st =
     res_bind (reraise value_error (PersistenceIntegrityError ''CorpusSnapshot scope is invalid'')
         (build_corpus_snapshot (st_library_id st) collections [])) (\<lambda>scope.
     res_bind (on_integrity_error
         (PersistenceConflictError ''CorpusSnapshot transaction conflicted with existing state'')
         (freeze_transaction event_id now (cs_collection_ids scope) st)) (\<lambda>r.
       case r of
         Inl existing \<Rightarrow> Inr (existing, st)
       | Inr (s, st') \<Rightarrow>
           res_bind (reconstruct_corpus_snapshot st' (corpus_snapshot_id s)) (\<lambda>t. Inr (t, st'))))"

end
