(* ===== verification/Library_Reads.thy ===== *)
theory Library_Reads
  imports Library_Access
begin

text \<open>
  Policies and the authorized read boundary of \<open>src/dithyramba/persistence/repository.py\<close>:
  \<open>persist_access_policy\<close>, \<open>get_access_policy\<close>, \<open>_compile_db_access\<close>, \<open>authorize_read\<close>,
  \<open>_revalidate_authorized_read_context\<close> and \<open>read_permitted_fragment_subset\<close>.
\<close>

subsection \<open>Policies\<close>

definition policy_created_payload :: "string \<Rightarrow> access_policy \<Rightarrow> json" where
  "policy_created_payload name p =
     JObj
       [(''schema'', JStr ''dithyramba.access_policy_created/1.0''),
        (''access_policy_id'', JStr (access_policy_id p)), (''name'', JStr name),
        (''policy_hash'', JStr (policy_hash p)), (''policy'', policy_payload p)]"

definition policy_rows :: "string \<Rightarrow> string \<Rightarrow> access_policy \<Rightarrow> library_store \<Rightarrow> library_store res" where
  "policy_rows name now p st =
     res_bind (insert_policy
         \<lparr>po_id = access_policy_id p, po_library_id = st_library_id st, po_name = name,
          po_purposes = allowed_purposes p, po_export = allow_export p,
          po_external = allow_external_provider p, po_hash = policy_hash p, po_created_at = now\<rparr> st) (\<lambda>st1.
     res_bind (fold_res (\<lambda>r. insert_policy_collection
         \<lparr>pcr_policy_id = access_policy_id p, pcr_collection_id = cr_collection_id r,
          pcr_effect = cr_effect r\<rparr>) (collection_rules p) st1) (\<lambda>st2.
       fold_res (\<lambda>r. insert_policy_source
         \<lparr>psr_policy_id = access_policy_id p, psr_source_id = sr_source_id r,
          psr_effect = sr_effect r\<rparr>) (source_rules p) st2))"

definition collection_rule_rows :: "library_store \<Rightarrow> string \<Rightarrow> policy_collection_row list" where
  "collection_rule_rows st i =
     sort_key pcr_collection_id
       (filter (\<lambda>r. pcr_policy_id r = i \<and> library_collection st (pcr_collection_id r))
         (st_policy_collections st))"

definition source_rule_rows :: "library_store \<Rightarrow> string \<Rightarrow> policy_source_row list" where
  "source_rule_rows st i =
     sort_key psr_source_id
       (filter (\<lambda>r. psr_policy_id r = i \<and> library_source st (psr_source_id r)) (st_policy_sources st))"

definition load_policy :: "library_store \<Rightarrow> policy_row \<Rightarrow> access_policy res" where
  "load_policy st row =
     reraise value_error (PersistenceIntegrityError ''persisted AccessPolicy is invalid'')
       (res_bind (map_res (\<lambda>r. make_collection_rule (pcr_collection_id r) (pcr_effect r))
           (collection_rule_rows st (po_id row))) (\<lambda>crs.
        res_bind (map_res (\<lambda>r. make_source_rule (psr_source_id r) (psr_effect r))
           (source_rule_rows st (po_id row))) (\<lambda>srs.
          make_policy (po_id row) (po_library_id row) (po_purposes row) crs srs (po_export row)
            (po_external row))))"

definition get_access_policy :: "library_store \<Rightarrow> string \<Rightarrow> (string \<times> access_policy \<times> string) res" where
  "get_access_policy st i =
     (case filter (\<lambda>r. po_id r = i \<and> po_library_id r = st_library_id st) (st_policies st) of
        [] \<Rightarrow> Inl (AccessPolicyNotFoundError i)
      | row # _ \<Rightarrow>
          res_bind (load_policy st row) (\<lambda>p.
          if policy_hash p \<noteq> po_hash row
          then Inl (PersistenceIntegrityError ''persisted AccessPolicy hash mismatch'')
          else
            res_bind (validated_label (po_name row) ''AccessPolicy name'') (\<lambda>n.
            res_bind (validated_timestamp (po_created_at row)) (\<lambda>t. Inr (n, p, t)))))"

definition persist_access_policy ::
  "string \<Rightarrow> string \<Rightarrow> string \<Rightarrow> access_policy \<Rightarrow> library_store \<Rightarrow>
     ((string \<times> access_policy \<times> string) \<times> library_store) res" where
  "persist_access_policy event_id now name p st =
     res_bind (validated_label name ''AccessPolicy name'') (\<lambda>n.
     if ap_library_id p \<noteq> st_library_id st
     then Inl (PersistenceIntegrityError ''AccessPolicy belongs to a different Library'')
     else
       res_bind (on_integrity_error
           (PersistenceConflictError ''AccessPolicy insert conflicted with existing state'')
           (res_bind (require_collections st (map cr_collection_id (collection_rules p))) (\<lambda>_.
            res_bind (require_sources st (map sr_source_id (source_rules p))) (\<lambda>_.
            res_bind (policy_rows n now p st) (\<lambda>st1.
              insert_outbox_event event_id ''access_policy.created'' ''access_policy''
                (access_policy_id p) (policy_created_payload n p) now st1))))) (\<lambda>st'.
       res_bind (get_access_policy st' (access_policy_id p)) (\<lambda>r. Inr (r, st'))))"

subsection \<open>Candidates of a stored snapshot\<close>

record candidate_parts =
  cpa_version_id :: string
  cpa_source_id :: string
  cpa_memberships :: "membership list"

text \<open>The joined rows: fragment, Source and membership row of the snapshot.\<close>

definition candidate_rows :: "library_store \<Rightarrow> string \<Rightarrow> (fragment_row \<times> string \<times> snapshot_member_row) list" where
  "candidate_rows st snapshot =
     (if \<exists>r \<in> set (st_snapshots st). sn_id r = snapshot \<and> sn_library_id r = st_library_id st
      then concat (map (\<lambda>m.
             case version_row_of st (sb_version_id m) of
               None \<Rightarrow> []
             | Some v \<Rightarrow>
                 if library_source st (ve_source_id v)
                 then map (\<lambda>f. (f, ve_source_id v, m))
                   (filter (\<lambda>f. fr_version_id f = ve_id v) (st_fragments st))
                 else [])
           (filter (\<lambda>m. sb_snapshot_id m = snapshot \<and> library_collection st (sb_collection_id m))
             (st_snapshot_members st)))
      else [])"

definition add_part ::
  "string \<Rightarrow> candidate_parts \<Rightarrow> (string \<times> candidate_parts) list \<Rightarrow> (string \<times> candidate_parts) list" where
  "add_part i p ps = (if i \<in> fst ` set ps then map (\<lambda>q. if fst q = i then (i, p) else q) ps else ps @ [(i, p)])"

definition gather_row ::
  "fragment_row \<times> string \<times> snapshot_member_row \<Rightarrow> (string \<times> candidate_parts) list \<Rightarrow>
     (string \<times> candidate_parts) list res" where
  "gather_row row ps =
     (let f = fst row; source = fst (snd row); m = snd (snd row); i = fr_id f
      in res_bind (reraise value_error
           (PersistenceIntegrityError ''snapshot contains an invalid Collection membership'')
           (make_membership (sb_collection_id m) (sb_state m))) (\<lambda>mem.
         case map_of ps i of
           None \<Rightarrow> Inr (ps @ [(i, \<lparr>cpa_version_id = fr_version_id f, cpa_source_id = source,
                                  cpa_memberships = [mem]\<rparr>)])
         | Some p \<Rightarrow>
             if cpa_version_id p \<noteq> fr_version_id f \<or> cpa_source_id p \<noteq> source
             then Inl (PersistenceIntegrityError ''snapshot fragment lineage is inconsistent'')
             else Inr (add_part i (p\<lparr>cpa_memberships := cpa_memberships p @ [mem]\<rparr>) ps)))"

definition family_pairs :: "library_store \<Rightarrow> string list \<Rightarrow> (string \<times> string) list" where
  "family_pairs st sources =
     sort (map (\<lambda>m. (fm_source_id m, fm_family_id m))
       (filter (\<lambda>m. fm_source_id m \<in> set sources \<and> in_library_family st (fm_family_id m))
         (st_family_members st)))"

definition source_families :: "library_store \<Rightarrow> string list \<Rightarrow> (string \<Rightarrow> string option) res" where
  "source_families st sources =
     (if setdefault_loop [] (family_pairs st sources) then Inr (map_of (family_pairs st sources))
      else Inl (PersistenceIntegrityError
        ''VS0 authorization requires at most one SourceFamily per Source''))"

definition snapshot_candidates :: "library_store \<Rightarrow> string \<Rightarrow> snapshot_candidate list res" where
  "snapshot_candidates st snapshot =
     res_bind (fold_res gather_row (candidate_rows st snapshot) []) (\<lambda>ps.
     res_bind (source_families st (map (\<lambda>r. fst (snd r)) (candidate_rows st snapshot))) (\<lambda>family.
       map_res (\<lambda>(i, p). make_candidate i (cpa_version_id p) (cpa_source_id p)
           (family (cpa_source_id p)) (cpa_memberships p)) (sort_key fst ps)))"

definition compile_db_access :: "library_store \<Rightarrow> string \<Rightarrow> request_scope \<Rightarrow> compiled_access res" where
  "compile_db_access st policy_id scope =
     (if sc_library_id scope \<noteq> st_library_id st
      then Inl (AuthorizationError ''request scope belongs to a different Library'')
      else
        res_bind (require_collections st (sc_collection_ids scope)) (\<lambda>_.
        res_bind (get_access_policy st policy_id) (\<lambda>(_, policy, _).
        case filter (\<lambda>r. sn_library_id r = st_library_id st \<and> sn_hash r = sc_snapshot_hash scope)
               (st_snapshots st) of
          [] \<Rightarrow> Inl (AuthorizationError ''request snapshot is not present in this Library'')
        | row # _ \<Rightarrow>
            res_bind (reconstruct_corpus_snapshot st (sn_id row)) (\<lambda>snapshot.
            if \<not> set (sc_collection_ids scope) \<subseteq> set (cs_collection_ids snapshot)
            then Inl (AuthorizationError
              ''request references a Collection absent from the snapshot'')
            else
              res_bind (snapshot_candidates st (sn_id row)) (\<lambda>candidates.
                compile_access policy scope candidates)))))"

subsection \<open>Capabilities\<close>

text \<open>
  A capability is an object: \<open>ar_object\<close> is its identity, the other fields are its values at
  the time of the call.  The repository keeps the object, a copy of the fields and their
  fingerprint.
\<close>

record authorized_read =
  ar_object :: nat
  ar_id :: string
  ar_instance_id :: string
  ar_policy_id :: string
  ar_scope :: request_scope
  ar_compiled :: compiled_access

record issued_authorization =
  is_object :: nat
  is_policy_id :: string
  is_scope :: request_scope
  is_compiled :: compiled_access
  is_fingerprint :: string

record repository =
  re_store :: library_store
  re_open :: bool
  re_instance_id :: string
  re_authorizations :: "(string \<times> issued_authorization) list"

definition fingerprint_payload :: "authorized_read \<Rightarrow> json" where
  "fingerprint_payload a =
     JObj
       [(''schema'', JStr ''dithyramba.authorized_read_issuance/1.0''),
        (''authorization_id'', JStr (ar_id a)), (''repository_instance_id'', JStr (ar_instance_id a)),
        (''access_policy_id'', JStr (ar_policy_id a)),
        (''scope'', JObj
          [(''library_id'', JStr (sc_library_id (ar_scope a))),
           (''snapshot_hash'', JStr (sc_snapshot_hash (ar_scope a))),
           (''purpose'', JStr (sc_purpose (ar_scope a))),
           (''collection_ids'', json_strs (sc_collection_ids (ar_scope a))),
           (''exclusions'', exclusions_payload (sc_exclusions (ar_scope a))),
           (''exclusion_hash'', JStr (exclusion_hash (ar_scope a)))]),
        (''compiled'', JObj
          [(''manifest'', manifest_payload (ca_manifest (ar_compiled a))),
           (''permitted_set_hash'', JStr (mf_permitted_set_hash (ca_manifest (ar_compiled a)))),
           (''token'', token_public_payload (ca_token (ar_compiled a))),
           (''public_result'', public_access_payload (ar_compiled a))])]"

definition authorization_fingerprint :: "authorized_read \<Rightarrow> string" where
  "authorization_fingerprint a = canonical_sha256_hex (fingerprint_payload a)"

definition put_authorization ::
  "string \<Rightarrow> issued_authorization \<Rightarrow> repository \<Rightarrow> repository" where
  "put_authorization i x r =
     r\<lparr>re_authorizations := (i, x) # filter (\<lambda>e. fst e \<noteq> i) (re_authorizations r)\<rparr>"

text \<open>\<open>Store.connection\<close>: a closed store has none.\<close>

definition require_open :: "repository \<Rightarrow> unit res" where
  "require_open r = (if re_open r then Inr () else Inl (StoreClosedError ''SQLite store is closed''))"

lemma require_open_Inr [res_simps]: "require_open r = Inr u \<longleftrightarrow> re_open r"
  by (simp add: require_open_def)

definition authorize_read ::
  "nat \<Rightarrow> string \<Rightarrow> string \<Rightarrow> request_scope \<Rightarrow> repository \<Rightarrow> (authorized_read \<times> repository) res" where
  "authorize_read object authorization_id policy_id scope r =
     res_bind (require_open r) (\<lambda>_.
     res_bind (compile_db_access (re_store r) policy_id scope) (\<lambda>compiled.
       let a = \<lparr>ar_object = object, ar_id = authorization_id, ar_instance_id = re_instance_id r,
                ar_policy_id = policy_id, ar_scope = scope, ar_compiled = compiled\<rparr>
       in Inr (a, put_authorization authorization_id
            \<lparr>is_object = object, is_policy_id = policy_id, is_scope = scope, is_compiled = compiled,
             is_fingerprint = authorization_fingerprint a\<rparr> r)))"

text \<open>The fingerprint is taken again after the recompilation; nothing runs in between here.\<close>

definition revalidate_authorized_read :: "repository \<Rightarrow> authorized_read \<Rightarrow> compiled_access res" where
  "revalidate_authorized_read r a =
     res_bind (require_open r) (\<lambda>_.
     case map_of (re_authorizations r) (ar_id a) of
        None \<Rightarrow> Inl (AuthorizationError
                  ''AuthorizedRead was not issued by this repository instance'')
      | Some issued \<Rightarrow>
          if is_object issued \<noteq> ar_object a \<or> ar_instance_id a \<noteq> re_instance_id r
          then Inl (AuthorizationError
            ''AuthorizedRead was not issued by this repository instance'')
          else if authorization_fingerprint a \<noteq> is_fingerprint issued
          then Inl (AuthorizationError ''AuthorizedRead changed after issuance'')
          else
            res_bind (compile_db_access (re_store r) (is_policy_id issued) (is_scope issued)) (\<lambda>current.
            if current \<noteq> is_compiled issued
            then Inl (AuthorizationError ''authorized policy or snapshot metadata changed'')
            else if authorization_fingerprint a \<noteq> is_fingerprint issued
            then Inl (AuthorizationError ''AuthorizedRead changed during revalidation'')
            else Inr current))"

text \<open>\<open>close\<close>: the capabilities are forgotten and the connection is closed.\<close>

definition close_repository :: "repository \<Rightarrow> repository" where
  "close_repository r = r\<lparr>re_authorizations := [], re_open := False\<rparr>"

subsection \<open>Reading fragments\<close>

record fragment_text =
  ft_fragment_id :: string
  ft_version_id :: string
  ft_source_id :: string
  ft_ordinal :: int
  ft_kind :: fragment_kind
  ft_text :: string
  ft_text_sha256 :: string
  ft_address :: json

text \<open>The joined rows of the fragments with given identifiers.\<close>

definition read_rows :: "library_store \<Rightarrow> string list \<Rightarrow> (fragment_row \<times> version_row) list" where
  "read_rows st ids =
     concat (map (\<lambda>f.
         case version_row_of st (fr_version_id f) of
           None \<Rightarrow> []
         | Some v \<Rightarrow> if library_source st (ve_source_id v) then [(f, v)] else [])
       (filter (\<lambda>f. fr_id f \<in> set ids) (st_fragments st)))"

text \<open>
  The lineage check of a large read (\<open>_read_large_permitted_fragment_subset\<close>): every requested
  fragment resolves to one row whose version, Source and family are those of the manifest.
\<close>

definition large_lineage_ok :: "library_store \<Rightarrow> manifest_item \<Rightarrow> bool" where
  "large_lineage_ok st item \<longleftrightarrow>
     (case filter (\<lambda>f. fr_id f = it_fragment_id item) (st_fragments st) of
        [] \<Rightarrow> False
      | f # _ \<Rightarrow>
          fr_version_id f = it_version_id item \<and>
          (case version_row_of st (fr_version_id f) of
             None \<Rightarrow> False
           | Some v \<Rightarrow>
               ve_source_id v = it_source_id item \<and> library_source st (ve_source_id v) \<and>
               (case filter (\<lambda>m. fm_source_id m = ve_source_id v) (st_family_members st) of
                  [] \<Rightarrow> False
                | m # _ \<Rightarrow> Some (fm_family_id m) = it_family_id item \<and>
                           in_library_family st (fm_family_id m))))"

definition large_read_rows ::
  "library_store \<Rightarrow> manifest_item list \<Rightarrow> (fragment_row \<times> version_row) list res" where
  "large_read_rows st items =
     (if list_ex (\<lambda>i. it_family_id i = None) items
      then Inl (PersistenceIntegrityError ''permitted manifest fragment lacks SourceFamily lineage'')
      else if \<not> list_all (large_lineage_ok st) items
      then Inl (PersistenceIntegrityError
        ''permitted manifest lineage differs from persisted fragment lineage'')
      else Inr (read_rows st (map it_fragment_id items)))"

definition read_row ::
  "(string \<Rightarrow> manifest_item option) \<Rightarrow> fragment_row \<times> version_row \<Rightarrow> (string \<times> fragment_text) res" where
  "read_row expected row =
     (let f = fst row; v = snd row
      in case expected (fr_id f) of
           None \<Rightarrow> Inl (KeyError (fr_id f))
         | Some item \<Rightarrow>
             if fr_version_id f \<noteq> it_version_id item \<or> ve_source_id v \<noteq> it_source_id item
             then Inl (PersistenceIntegrityError
               ''permitted manifest lineage differs from persisted fragment lineage'')
             else if sha256_hex (utf8 (fr_text f)) \<noteq> fr_text_sha256 f
             then Inl (PersistenceIntegrityError ''persisted fragment text hash mismatch'')
             else Inr (fr_id f,
               \<lparr>ft_fragment_id = fr_id f, ft_version_id = fr_version_id f,
                ft_source_id = ve_source_id v, ft_ordinal = fr_ordinal f, ft_kind = fr_kind f,
                ft_text = fr_text f, ft_text_sha256 = fr_text_sha256 f, ft_address = fr_address f\<rparr>))"

definition require_text :: "(string \<times> fragment_text) list \<Rightarrow> string \<Rightarrow> fragment_text res" where
  "require_text rows i =
     (case dict_of rows i of None \<Rightarrow> Inl (KeyError i) | Some t \<Rightarrow> Inr t)"

definition read_fragments ::
  "library_store \<Rightarrow> permitted_manifest \<Rightarrow> string list \<Rightarrow> fragment_text list res" where
  "read_fragments st manifest ids =
     (let expected = dict_by it_fragment_id (mf_items manifest)
      in if \<not> set ids \<subseteq> it_fragment_id ` set (mf_items manifest)
         then Inl (AuthorizationError ''fragment subset contains an ID outside the permitted manifest'')
         else
           res_bind (if length ids > 300
               then res_bind (map_res (require_key it_fragment_id (mf_items manifest)) ids) (large_read_rows st)
               else Inr (read_rows st ids)) (\<lambda>rows.
           if set (map (\<lambda>r. fr_id (fst r)) rows) \<noteq> set ids
           then Inl (PersistenceIntegrityError
             ''permitted fragment subset does not resolve to the exact persisted fragment set'')
           else
             res_bind (map_res (read_row expected) rows) (\<lambda>texts.
               map_res (require_text texts) ids)))"

definition read_permitted_fragment_subset ::
  "repository \<Rightarrow> authorized_read \<Rightarrow> string list \<Rightarrow> fragment_text list res" where
  "read_permitted_fragment_subset r a ids =
     (if list_ex (\<lambda>i. \<not> has_prefix ''fragment_'' i) ids \<or> has_duplicates ids
      then Inl (AuthorizationError ''fragment subset must be a unique tuple of SourceFragment IDs'')
      else
        res_bind (revalidate_authorized_read r a) (\<lambda>current.
          if ids = [] then Inr [] else read_fragments (re_store r) (ca_manifest current) ids))"

definition read_permitted_fragments :: "repository \<Rightarrow> authorized_read \<Rightarrow> fragment_text list res" where
  "read_permitted_fragments r a =
     read_permitted_fragment_subset r a (map it_fragment_id (mf_items (ca_manifest (ar_compiled a))))"

end
