(* ===== verification/Library_Collections.thy ===== *)
theory Library_Collections
  imports Library_Access
begin

text \<open>
  Library and Collection configurations (\<open>library/models.py\<close>, \<open>collections/models.py\<close>) and the
  persistence of a Collection with its roots (\<open>create_collection\<close>, \<open>get_collection\<close>,
  \<open>list_collections\<close> of \<open>persistence/repository.py\<close>).  Resolving a root directory and reading
  its identity manifest touch the file system and are arguments.
\<close>

subsection \<open>Identifiers and names\<close>

text \<open>
  \<open>prefix_<uuid4 hex>\<close>: the version nibble is 4, the variant bits are RFC 4122.  The typed
  errors of these modules are subclasses of \<open>ValueError\<close>.
\<close>

definition uuid4_hex :: "string \<Rightarrow> bool" where
  "uuid4_hex s \<longleftrightarrow> matches_hex 32 s \<and> s ! 12 = CHR ''4'' \<and> s ! 16 \<in> set ''89ab''"

definition validate_uuid_id :: "string \<Rightarrow> string \<Rightarrow> string \<Rightarrow> string res" where
  "validate_uuid_id label pre value =
     (if \<not> matches_prefixed_hex pre 32 value
      then Inl (ValueError (label @ '' must match '' @ pre @ ''<uuid4 hex>''))
      else if \<not> uuid4_hex (drop (length pre) value)
      then Inl (ValueError (label @ '' must contain an RFC 4122 UUID4''))
      else Inr value)"

definition validate_library_id :: "string \<Rightarrow> string res" where
  "validate_library_id = validate_uuid_id ''library_id'' ''library_''"

definition validate_collection_id :: "string \<Rightarrow> string res" where
  "validate_collection_id = validate_uuid_id ''collection_id'' ''collection_''"

definition validate_name :: "string \<Rightarrow> string \<Rightarrow> string res" where
  "validate_name label value =
     (if value = [] \<or> value \<noteq> strip value
      then Inl (ValueError (label @ '' must be non-empty and unpadded''))
      else if length value > 200
      then Inl (ValueError (label @ '' must contain at most 200 code points''))
      else Inr value)"

record library_config =
  lc_library_id :: string
  lc_name :: string

definition make_library_config :: "string \<Rightarrow> string \<Rightarrow> library_config res" where
  "make_library_config i name = wrap_validation
     (res_bind (validate_library_id i) (\<lambda>_.
      res_bind (validate_name ''Library name'' name) (\<lambda>_. Inr \<lparr>lc_library_id = i, lc_name = name\<rparr>)))"

definition library_logical_identity_hash :: "library_config \<Rightarrow> string" where
  "library_logical_identity_hash c =
     canonical_sha256_hex (JObj
       [(''schema'', JStr ''dithyramba.library_identity/1.0''), (''library_id'', JStr (lc_library_id c))])"

subsection \<open>Collections\<close>

record collection_root =
  crt_path :: string
  crt_manifest_path :: "string option"
  crt_manifest_sha256 :: "string option"
  crt_include :: "string list"
  crt_exclude :: "string list"

definition unambiguous_path :: "string \<Rightarrow> bool" where
  "unambiguous_path p \<longleftrightarrow> has_prefix ''/'' p \<and> ''..'' \<notin> set (path_parts p)"

definition validate_globs :: "string list \<Rightarrow> string list res" where
  "validate_globs values =
     (if has_duplicates values then Inl (ValueError ''Collection globs must be unique'')
      else if list_ex (\<lambda>v. v = [] \<or> CHR 0x00 \<in> set v) values
      then Inl (ValueError ''Collection globs must be non-empty text'')
      else if list_ex (\<lambda>v. has_prefix ''/'' v \<or> ''..'' \<in> set (path_parts v)) values
      then Inl (ValueError ''Collection globs must stay relative to their root'')
      else Inr values)"

definition make_collection_root :: "collection_root \<Rightarrow> collection_root res" where
  "make_collection_root r = wrap_validation
     (if \<not> unambiguous_path (crt_path r)
      then Inl (ValueError ''CollectionRoot.path must be absolute'')
      else if \<not> pred_option unambiguous_path (crt_manifest_path r)
      then Inl (ValueError ''CollectionRoot.identity_manifest_path must be absolute'')
      else if \<not> pred_option (matches_hex 64) (crt_manifest_sha256 r)
      then Inl (ValueError ''CollectionRoot.identity_manifest_sha256 must be lowercase SHA-256 hex'')
      else
        res_bind (validate_globs (crt_include r)) (\<lambda>_.
        res_bind (validate_globs (crt_exclude r)) (\<lambda>_. Inr r)))"

record collection_config =
  cc_collection_id :: string
  cc_library_id :: string
  cc_name :: string
  cc_kind :: collection_kind
  cc_roots :: "collection_root list"

definition make_collection_config :: "collection_config \<Rightarrow> collection_config res" where
  "make_collection_config c = wrap_validation
     (res_bind (validate_collection_id (cc_collection_id c)) (\<lambda>_.
      res_bind (validate_library_id (cc_library_id c)) (\<lambda>_.
      res_bind (validate_name ''Collection name'' (cc_name c)) (\<lambda>_. Inr c))))"

definition collection_kind_value :: "collection_kind \<Rightarrow> string" where
  "collection_kind_value k =
     (case k of CORPUS \<Rightarrow> ''corpus'' | CASE \<Rightarrow> ''case'' | BRANCH \<Rightarrow> ''branch'' | HOLDOUT_KIND \<Rightarrow> ''holdout'')"

subsection \<open>Persistence\<close>

definition root_event_payload :: "string \<times> collection_root \<Rightarrow> json" where
  "root_event_payload x =
     JObj
       [(''collection_root_id'', JStr (fst x)), (''resolved_path'', JStr (crt_path (snd x))),
        (''include_globs'', json_strs (crt_include (snd x))),
        (''exclude_globs'', json_strs (crt_exclude (snd x))),
        (''identity_manifest_path'', json_opt (crt_manifest_path (snd x))),
        (''identity_manifest_sha256'', json_opt (crt_manifest_sha256 (snd x)))]"

definition collection_event_payload :: "collection_config \<Rightarrow> string list \<Rightarrow> json" where
  "collection_event_payload c root_ids =
     JObj
       [(''schema'', JStr ''dithyramba.collection_created/1.0''),
        (''collection_id'', JStr (cc_collection_id c)), (''library_id'', JStr (cc_library_id c)),
        (''name'', JStr (cc_name c)), (''kind'', JStr (collection_kind_value (cc_kind c))),
        (''roots'', JList (map root_event_payload (zip root_ids (cc_roots c))))]"

definition insert_collection_root ::
  "string \<Rightarrow> string \<times> collection_root \<Rightarrow> library_store \<Rightarrow> library_store res" where
  "insert_collection_root collection x st =
     (let i = fst x; r = snd x
      in res_bind (insert_root
           \<lparr>ro_id = i, ro_collection_id = collection, ro_path = crt_path r,
            ro_include = crt_include r, ro_exclude = crt_exclude r\<rparr> st) (\<lambda>st1.
         case crt_manifest_path r of
           None \<Rightarrow> Inr st1
         | Some p \<Rightarrow>
             (case crt_manifest_sha256 r of
                None \<Rightarrow> Inl (PersistenceIntegrityError ''identity manifest path has no pin'')
              | Some h \<Rightarrow> insert_root_manifest \<lparr>rm_root_id = i, rm_path = p, rm_sha256 = h\<rparr> st1)))"

definition load_root ::
  "(collection_root \<Rightarrow> collection_root res) \<Rightarrow> (collection_root \<Rightarrow> unit res) \<Rightarrow> library_store \<Rightarrow> root_row \<Rightarrow>
     collection_root res" where
  "load_root build_root load_manifest st row =
     (let manifest = find (\<lambda>m. rm_root_id m = ro_id row) (st_root_manifests st)
      in res_bind (reraise value_error
             (PersistenceIntegrityError ''persisted Collection root no longer satisfies its boundary'')
             (build_root \<lparr>crt_path = ro_path row, crt_manifest_path = map_option rm_path manifest,
                crt_manifest_sha256 = map_option rm_sha256 manifest, crt_include = ro_include row,
                crt_exclude = ro_exclude row\<rparr>)) (\<lambda>r.
         if crt_path r \<noteq> ro_path row
         then Inl (PersistenceIntegrityError ''persisted Collection root resolves to a different path'')
         else
           res_bind (reraise value_error
             (PersistenceIntegrityError ''persisted Collection identity manifest is invalid'')
             (load_manifest r)) (\<lambda>_. Inr r)))"

definition get_collection ::
  "(collection_root \<Rightarrow> collection_root res) \<Rightarrow> (collection_root \<Rightarrow> unit res) \<Rightarrow> library_store \<Rightarrow> string \<Rightarrow>
     (collection_config \<times> string list) res" where
  "get_collection build_root load_manifest st i =
     (case filter (\<lambda>c. co_id c = i \<and> co_library_id c = st_library_id st) (st_collections st) of
        [] \<Rightarrow> Inl (CollectionNotFoundError (''Collection does not exist in Library '' @
                st_library_id st @ '': '' @ i))
      | row # _ \<Rightarrow>
          (let rows = filter (\<lambda>r. ro_collection_id r = i) (st_roots st)
           in res_bind (map_res (load_root build_root load_manifest st) rows) (\<lambda>roots.
              res_bind (reraise value_error (PersistenceIntegrityError ''persisted Collection is invalid'')
                  (make_collection_config
                    \<lparr>cc_collection_id = co_id row, cc_library_id = co_library_id row,
                     cc_name = co_name row, cc_kind = co_kind row, cc_roots = roots\<rparr>)) (\<lambda>c.
                Inr (c, map ro_id rows)))))"

definition list_collections ::
  "(collection_root \<Rightarrow> collection_root res) \<Rightarrow> (collection_root \<Rightarrow> unit res) \<Rightarrow> library_store \<Rightarrow>
     (collection_config \<times> string list) list res" where
  "list_collections build_root load_manifest st =
     map_res (get_collection build_root load_manifest st)
       (sort (map co_id (filter (\<lambda>c. co_library_id c = st_library_id st) (st_collections st))))"

definition collection_transaction ::
  "string \<Rightarrow> string \<Rightarrow> string list \<Rightarrow> collection_config \<Rightarrow> library_store \<Rightarrow> library_store res" where
  "collection_transaction event_id now root_ids c st =
     res_bind (insert_collection
         \<lparr>co_id = cc_collection_id c, co_library_id = st_library_id st, co_name = cc_name c,
          co_kind = cc_kind c\<rparr> st) (\<lambda>st1.
     res_bind (fold_res (insert_collection_root (cc_collection_id c)) (zip root_ids (cc_roots c)) st1) (\<lambda>st2.
       insert_outbox_event event_id ''collection.created'' ''collection'' (cc_collection_id c)
         (collection_event_payload c root_ids) now st2))"

definition create_collection ::
  "(collection_root \<Rightarrow> collection_root res) \<Rightarrow> (collection_root \<Rightarrow> unit res) \<Rightarrow> string \<Rightarrow> string \<Rightarrow>
     string list \<Rightarrow> collection_config \<Rightarrow> library_store \<Rightarrow>
     ((collection_config \<times> string list) \<times> library_store) res" where
  "create_collection build_root load_manifest event_id now root_ids config st =
     (if cc_library_id config \<noteq> st_library_id st
      then Inl (PersistenceIntegrityError ''Collection belongs to a different Library'')
      else
        res_bind (map_res build_root (cc_roots config)) (\<lambda>roots.
        res_bind (map_res load_manifest roots) (\<lambda>_.
        let c = config\<lparr>cc_roots := roots\<rparr>
        in res_bind (on_integrity_error
               (PersistenceConflictError ''Collection insert conflicted with existing state'')
               (collection_transaction event_id now root_ids c st)) (\<lambda>st'.
             res_bind (get_collection build_root load_manifest st' (cc_collection_id c)) (\<lambda>r.
               Inr (r, st'))))))"

end
