(* ===== verification/Library_Growth.thy ===== *)
theory Library_Growth
  imports Library_Reads Library_Collections
begin

text \<open>
  The tables only grow: every operation of the repository appends rows with new keys and leaves
  the rows behind every existing key as they are.  What is read through an existing key is
  therefore read alike at every later time.
\<close>

subsection \<open>Growth of a table\<close>

definition grown :: "('a \<Rightarrow> 'k) \<Rightarrow> 'a list \<Rightarrow> 'a list \<Rightarrow> bool" where
  "grown key xs ys \<longleftrightarrow> (\<exists>zs. ys = xs @ zs \<and> (\<forall>z \<in> set zs. key z \<notin> key ` set xs))"

definition stable :: "('a \<Rightarrow> 'k) \<Rightarrow> 'k set \<Rightarrow> 'a list \<Rightarrow> 'a list \<Rightarrow> bool" where
  "stable key K xs ys \<longleftrightarrow> (\<forall>k \<in> K. filter (\<lambda>x. key x = k) ys = filter (\<lambda>x. key x = k) xs)"

lemma grown_refl [simp]: "grown key xs xs"
  by (auto simp: grown_def)

lemma grown_trans: "grown key xs ys \<Longrightarrow> grown key ys zs \<Longrightarrow> grown key xs zs"
  unfolding grown_def by (elim exE conjE) auto

lemma grown_snoc: "grown key xs ys \<Longrightarrow> key z \<notin> key ` set ys \<Longrightarrow> grown key xs (ys @ [z])"
  unfolding grown_def by auto

lemma grown_subset: "grown key xs ys \<Longrightarrow> x \<in> set xs \<Longrightarrow> x \<in> set ys"
  unfolding grown_def by auto

lemma grown_keys: "grown key xs ys \<Longrightarrow> k \<in> key ` set xs \<Longrightarrow> k \<in> key ` set ys"
  unfolding grown_def by auto

lemma grown_filter:
  "grown key xs ys \<Longrightarrow> k \<in> key ` set xs \<Longrightarrow> filter (\<lambda>x. key x = k) ys = filter (\<lambda>x. key x = k) xs"
  unfolding grown_def by (auto simp: filter_empty_conv image_iff)

lemma grown_filter_and:
  assumes "grown key xs ys" and "k \<in> key ` set xs"
  shows "filter (\<lambda>x. P x \<and> key x = k) ys = filter (\<lambda>x. P x \<and> key x = k) xs"
    and "filter (\<lambda>x. key x = k \<and> P x) ys = filter (\<lambda>x. key x = k \<and> P x) xs"
  using assms unfolding grown_def by (fastforce simp: filter_empty_conv)+

lemma grown_filter_set:
  assumes "grown key xs ys" and "K \<subseteq> key ` set xs"
  shows "filter (\<lambda>x. key x \<in> K \<and> P x) ys = filter (\<lambda>x. key x \<in> K \<and> P x) xs"
    and "filter (\<lambda>x. key x \<in> K) ys = filter (\<lambda>x. key x \<in> K) xs"
  using assms unfolding grown_def by (fastforce simp: filter_empty_conv)+

lemma grown_ex:
  "grown key xs ys \<Longrightarrow> k \<in> key ` set xs \<Longrightarrow> (\<exists>x \<in> set ys. key x = k \<and> P x) \<longleftrightarrow> (\<exists>x \<in> set xs. key x = k \<and> P x)"
  unfolding grown_def by (metis Un_iff image_eqI set_append)

lemma stable_refl [simp]: "stable key K xs xs"
  by (simp add: stable_def)

lemma stable_trans: "stable key K xs ys \<Longrightarrow> stable key L ys zs \<Longrightarrow> K \<subseteq> L \<Longrightarrow> stable key K xs zs"
  by (auto simp: stable_def)

lemma stable_snoc: "stable key K xs ys \<Longrightarrow> key z \<notin> K \<Longrightarrow> stable key K xs (ys @ [z])"
  by (auto simp: stable_def)

subsection \<open>Growth of the store\<close>

definition extends :: "library_store \<Rightarrow> library_store \<Rightarrow> bool" where
  "extends st st' \<longleftrightarrow>
     st_library_id st' = st_library_id st \<and>
     grown co_id (st_collections st) (st_collections st') \<and>
     grown so_id (st_sources st) (st_sources st') \<and>
     grown fa_id (st_families st) (st_families st') \<and>
     grown fm_source_id (st_family_members st) (st_family_members st') \<and>
     grown ve_id (st_versions st) (st_versions st') \<and>
     grown fr_id (st_fragments st) (st_fragments st') \<and>
     stable fr_version_id (ve_id ` set (st_versions st)) (st_fragments st) (st_fragments st') \<and>
     grown po_id (st_policies st) (st_policies st') \<and>
     stable pcr_policy_id (po_id ` set (st_policies st)) (st_policy_collections st) (st_policy_collections st') \<and>
     stable psr_policy_id (po_id ` set (st_policies st)) (st_policy_sources st) (st_policy_sources st') \<and>
     grown sn_id (st_snapshots st) (st_snapshots st') \<and>
     grown sn_hash (st_snapshots st) (st_snapshots st') \<and>
     stable sb_snapshot_id (sn_id ` set (st_snapshots st)) (st_snapshot_members st) (st_snapshot_members st')"

lemma extends_refl [simp]: "extends st st"
  by (simp add: extends_def)

lemma extends_trans: "extends a b \<Longrightarrow> extends b c \<Longrightarrow> extends a c"
  unfolding extends_def
  by (elim conjE, intro conjI) (blast intro: grown_trans stable_trans grown_keys | simp)+

text \<open>The tables that \<open>extends\<close> does not constrain.\<close>

lemma extends_other [simp]:
  "extends a (st\<lparr>st_roots := x1\<rparr>) = extends a st"
  "extends a (st\<lparr>st_root_manifests := x2\<rparr>) = extends a st"
  "extends a (st\<lparr>st_blobs := x3\<rparr>) = extends a st"
  "extends a (st\<lparr>st_identities := x4\<rparr>) = extends a st"
  "extends a (st\<lparr>st_heads := x5\<rparr>) = extends a st"
  "extends a (st\<lparr>st_bindings := x6\<rparr>) = extends a st"
  "extends a (st\<lparr>st_memberships := x7\<rparr>) = extends a st"
  "extends a (st\<lparr>st_events := x8\<rparr>) = extends a st"
  by (simp_all add: extends_def)

named_theorems insert_defs \<open>the insertions\<close>

lemmas [insert_defs] = insert_collection_def insert_root_def insert_root_manifest_def insert_source_def
  insert_family_def insert_identity_def insert_family_member_def insert_version_def insert_fragment_def
  insert_head_def insert_binding_def insert_membership_def insert_policy_def
  insert_policy_collection_def insert_policy_source_def insert_snapshot_def insert_snapshot_member_def

lemma insert_collection_extends:
  "insert_collection r st = Inr st' \<Longrightarrow> extends a st \<Longrightarrow> extends a st'"
  by (auto simp: insert_defs res_simps extends_def intro: grown_snoc)

lemma insert_source_extends: "insert_source r st = Inr st' \<Longrightarrow> extends a st \<Longrightarrow> extends a st'"
  by (auto simp: insert_defs res_simps extends_def intro: grown_snoc)

lemma insert_family_extends: "insert_family r st = Inr st' \<Longrightarrow> extends a st \<Longrightarrow> extends a st'"
  by (auto simp: insert_defs res_simps extends_def intro: grown_snoc)

lemma insert_family_member_extends:
  "insert_family_member r st = Inr st' \<Longrightarrow> extends a st \<Longrightarrow> extends a st'"
  by (auto simp: insert_defs res_simps extends_def intro: grown_snoc)

lemma insert_version_extends: "insert_version r st = Inr st' \<Longrightarrow> extends a st \<Longrightarrow> extends a st'"
  by (auto simp: insert_defs res_simps extends_def intro: grown_snoc)

lemma insert_policy_extends: "insert_policy r st = Inr st' \<Longrightarrow> extends a st \<Longrightarrow> extends a st'"
  by (auto simp: insert_defs res_simps extends_def intro: grown_snoc)

lemma insert_fragment_extends:
  "insert_fragment r st = Inr st' \<Longrightarrow> extends a st \<Longrightarrow> fr_version_id r \<notin> ve_id ` set (st_versions a) \<Longrightarrow>
   extends a st'"
  by (auto simp: insert_defs res_simps extends_def intro!: grown_snoc stable_snoc)

lemma insert_policy_collection_extends:
  "insert_policy_collection r st = Inr st' \<Longrightarrow> extends a st \<Longrightarrow> pcr_policy_id r \<notin> po_id ` set (st_policies a) \<Longrightarrow>
   extends a st'"
  by (auto simp: insert_defs res_simps extends_def intro!: stable_snoc)

lemma insert_policy_source_extends:
  "insert_policy_source r st = Inr st' \<Longrightarrow> extends a st \<Longrightarrow> psr_policy_id r \<notin> po_id ` set (st_policies a) \<Longrightarrow>
   extends a st'"
  by (auto simp: insert_defs res_simps extends_def intro!: stable_snoc)

lemma insert_snapshot_extends: "insert_snapshot r st = Inr st' \<Longrightarrow> extends a st \<Longrightarrow> extends a st'"
  by (auto simp: insert_defs res_simps extends_def intro!: grown_snoc)

lemma insert_snapshot_member_extends:
  "insert_snapshot_member r st = Inr st' \<Longrightarrow> extends a st \<Longrightarrow>
   sb_snapshot_id r \<notin> sn_id ` set (st_snapshots a) \<Longrightarrow> extends a st'"
  by (auto simp: insert_defs res_simps extends_def intro!: stable_snoc)

text \<open>Insertions into the other tables.\<close>

lemma insert_other_extends:
  "insert_root r1 st = Inr st' \<Longrightarrow> extends a st' = extends a st"
  "insert_root_manifest r2 st = Inr st' \<Longrightarrow> extends a st' = extends a st"
  "insert_identity r3 st = Inr st' \<Longrightarrow> extends a st' = extends a st"
  "insert_head r4 st = Inr st' \<Longrightarrow> extends a st' = extends a st"
  "insert_binding r5 st = Inr st' \<Longrightarrow> extends a st' = extends a st"
  "insert_membership r6 st = Inr st' \<Longrightarrow> extends a st' = extends a st"
  by (auto simp: insert_defs res_simps)

lemma insert_outbox_event_extends:
  "insert_outbox_event e t g i p n st = Inr st' \<Longrightarrow> extends a st' = extends a st"
  by (auto simp: insert_outbox_event_def res_simps)

lemma update_head_extends: "update_head s v st = Inr (n, st') \<Longrightarrow> extends a st' = extends a st"
  by (auto simp: update_head_def Let_def res_simps)

lemma fold_res_extends:
  assumes "\<And>x s s'. x \<in> set xs \<Longrightarrow> f x s = Inr s' \<Longrightarrow> extends a s \<Longrightarrow> extends a s'"
  shows "fold_res f xs s = Inr s' \<Longrightarrow> extends a s \<Longrightarrow> extends a s'"
  using assms by (induction xs arbitrary: s) (auto simp: res_simps)

subsection \<open>Every operation grows the store\<close>

lemma ensure_blob_row_extends: "ensure_blob_row b st = Inr st' \<Longrightarrow> extends a st' = extends a st"
  by (auto simp: ensure_blob_row_def Let_def insert_blob_or_ignore_def split: list.splits if_splits)

lemma ensure_membership_extends:
  "ensure_membership c s m st = Inr st' \<Longrightarrow> extends a st' = extends a st"
  by (auto simp: ensure_membership_def insert_other_extends split: list.splits if_splits)

lemma start_family_extends: "start_family ids d st = Inr st' \<Longrightarrow> extends a st \<Longrightarrow> extends a st'"
  by (cases d) (auto simp: start_family_def res_bind_eq_Inr dest: insert_family_extends insert_other_extends(3))

lemma enroll_source_extends:
  "enroll_source ids src d st = Inr (l, st') \<Longrightarrow> extends a st \<Longrightarrow> extends a st'"
  by (auto simp: enroll_source_def enroll_member_def Let_def res_simps split: option.splits
      dest!: insert_source_extends [where a = a] start_family_extends [where a = a]
        insert_family_member_extends [where a = a])

lemma insert_fragments_extends:
  "insert_fragments v fs st = Inr st' \<Longrightarrow> extends a st \<Longrightarrow> v \<notin> ve_id ` set (st_versions a) \<Longrightarrow> extends a st'"
  unfolding insert_fragments_def
  by (erule fold_res_extends [rotated]) (auto intro: insert_fragment_extends simp: fragment_row_of_def)

lemma record_binding_extends: "record_binding ids n d s f h st = Inr st' \<Longrightarrow> extends a st' = extends a st"
  by (auto simp: record_binding_def insert_identity_binding_def res_simps insert_other_extends
      insert_outbox_event_extends split: option.splits)

lemma move_head_extends: "move_head c s v st = Inr st' \<Longrightarrow> extends a st' = extends a st"
  by (auto simp: move_head_def res_simps insert_other_extends update_head_extends split: if_splits)

lemma record_version_extends:
  assumes "record_version ids now c r state src parsed d di sid l n st = Inr (out, st')"
    and "extends a st"
  shows "extends a st'"
proof -
  from assms(1) obtain st1 st2 st3 st4 st5 where s:
    "insert_version \<lparr>ve_id = new_version_id ids, ve_source_id = sid, ve_number = n,
        ve_sha256 = sby_sha256 src, ve_size = byte_size src, ve_profile = pr_parser_profile parsed\<rparr> st = Inr st1"
    "insert_fragments (new_version_id ids) (pr_fragments parsed) st1 = Inr st2"
    "record_binding ids now d sid (fst l) (sby_sha256 src) st2 = Inr st3"
    "move_head (di = ADDED) sid (new_version_id ids) st3 = Inr st4"
    "ensure_membership c sid state st4 = Inr st5"
    "insert_outbox_event (new_event_id ids) ''source_version.recorded'' ''source_version''
       (new_version_id ids) (version_payload st5 c r sid (new_version_id ids) l n src parsed di) now st5 = Inr st'"
    unfolding record_version_def Let_def by (auto simp: res_simps)
  have "new_version_id ids \<notin> ve_id ` set (st_versions st)"
    using s(1) by (auto simp: insert_defs res_simps)
  moreover have "ve_id ` set (st_versions a) \<subseteq> ve_id ` set (st_versions st)"
    using assms(2) by (auto simp: extends_def dest: grown_keys)
  ultimately have "new_version_id ids \<notin> ve_id ` set (st_versions a)" by blast
  then have "extends a st2"
    by (rule insert_fragments_extends [OF s(2) insert_version_extends [OF s(1) assms(2)]])
  then show ?thesis
    by (simp only: record_binding_extends [OF s(3)] move_head_extends [OF s(4)]
        ensure_membership_extends [OF s(5)] insert_outbox_event_extends [OF s(6)])
qed

lemma keep_head_extends:
  "keep_head c state d sid l h st = Inr (out, st') \<Longrightarrow> extends a st' = extends a st"
  by (auto simp: keep_head_def res_simps ensure_membership_extends)

lemma revert_head_extends:
  assumes "revert_head ids now c r state src d sid l h v st = Inr (out, st')"
  shows "extends a st' = extends a st"
proof -
  from assms obtain n st1 st2 where s: "update_head sid (ve_id v) st = Inr (n, st1)"
    "ensure_membership c sid state st1 = Inr st2"
    "insert_outbox_event (new_event_id ids) ''source_head.reverted'' ''source'' sid
       (reverted_payload st2 c r sid (ve_id h) (ve_id v) (sby_sha256 src)) now st2 = Inr st'"
    by (auto simp: revert_head_def Let_def res_simps)
  show ?thesis
    by (simp only: update_head_extends [OF s(1)] ensure_membership_extends [OF s(2)]
        insert_outbox_event_extends [OF s(3)])
qed

lemma known_source_extends:
  assumes "known_source ids now c r state src parsed d row st = Inr (out, st')" and "extends a st"
  shows "extends a st'"
  using assms
  by (auto simp: known_source_def Let_def res_bind_eq_Inr keep_head_extends revert_head_extends
      split: if_splits option.splits intro: record_version_extends)

lemma record_transaction_extends:
  assumes t: "record_transaction ids now c r src parsed b d st = Inr (out, st')" and e: "extends a st"
  shows "extends a st'"
proof -
  from t obtain state st1 where b: "ensure_blob_row b st = Inr st1"
    and cs: "(case filter (\<lambda>s. so_library_id s = st_library_id st1 \<and> so_uri s = sby_uri src) (st_sources st1) of
         [] \<Rightarrow>
           res_bind (enroll_source ids src d st1) (\<lambda>(l, st2).
             record_version ids now c r state src parsed d ADDED (new_source_id ids) l 1 st2)
       | row # _ \<Rightarrow> known_source ids now c r state src parsed d row st1) = Inr (out, st')"
    unfolding record_transaction_def res_bind_eq_Inr by blast
  have e1: "extends a st1" using e by (simp add: ensure_blob_row_extends [OF b])
  show ?thesis
  proof (cases "filter (\<lambda>s. so_library_id s = st_library_id st1 \<and> so_uri s = sby_uri src) (st_sources st1)")
    case Nil
    with cs obtain l st2 where "enroll_source ids src d st1 = Inr (l, st2)"
      "record_version ids now c r state src parsed d ADDED (new_source_id ids) l 1 st2 = Inr (out, st')"
      by (auto simp: res_bind_eq_Inr)
    with e1 show ?thesis by (blast intro: enroll_source_extends record_version_extends)
  next
    case (Cons row rows)
    with cs e1 show ?thesis by (auto intro: known_source_extends)
  qed
qed

lemma record_extends:
  "record_processed_source v ids now c r src parsed b d st = Inr (out, st') \<Longrightarrow> extends st st'"
  by (auto simp: record_processed_source_def res_simps split: if_splits intro: record_transaction_extends)

lemma store_snapshot_extends:
  assumes "store_snapshot e now s st = Inr st'" and "extends a st"
  shows "extends a st'"
proof -
  let ?row = "\<lparr>sn_id = corpus_snapshot_id s, sn_library_id = st_library_id st, sn_scope = scope_object s,
      sn_hash = manifest_hash s, sn_created_at = now\<rparr>"
  from assms(1) obtain st1 st2 where s: "insert_snapshot ?row st = Inr st1"
    "fold_res (\<lambda>m. insert_snapshot_member (member_row_of (corpus_snapshot_id s) m)) (cs_members s) st1 = Inr st2"
    "insert_outbox_event e ''corpus_snapshot.frozen'' ''corpus_snapshot'' (corpus_snapshot_id s)
      (frozen_payload s) now st2 = Inr st'"
    unfolding store_snapshot_def by (auto simp: res_simps)
  have "corpus_snapshot_id s \<notin> sn_id ` set (st_snapshots st)"
    using s(1) by (auto simp: insert_defs res_simps)
  moreover have "sn_id ` set (st_snapshots a) \<subseteq> sn_id ` set (st_snapshots st)"
    using assms(2) by (auto simp: extends_def dest: grown_keys)
  ultimately have "corpus_snapshot_id s \<notin> sn_id ` set (st_snapshots a)" by blast
  then have "extends a st2"
    by (intro fold_res_extends [OF _ s(2) insert_snapshot_extends [OF s(1) assms(2)]])
      (erule insert_snapshot_member_extends, simp_all add: member_row_of_def)
  with s(3) show ?thesis by (simp add: insert_outbox_event_extends)
qed

lemma freeze_transaction_extends:
  "freeze_transaction e now cs st = Inr (Inr (s, st')) \<Longrightarrow> extends st st'"
  unfolding freeze_transaction_def res_bind_eq_Inr
  by (elim exE conjE) (auto simp: res_bind_eq_Inr split: list.splits if_splits intro: store_snapshot_extends)

lemma freeze_extends:
  assumes f: "freeze_snapshot e now cs st = Inr (s, st')"
  shows "extends st st'"
proof -
  from f obtain scope :: corpus_snapshot and x where t: "freeze_transaction e now (cs_collection_ids scope) st = Inr x"
    and r: "(case x of
       Inl existing \<Rightarrow> Inr (existing, st)
     | Inr (s, st') \<Rightarrow>
         res_bind (reconstruct_corpus_snapshot st' (corpus_snapshot_id s)) (\<lambda>t. Inr (t, st'))) = Inr (s, st')"
    unfolding freeze_snapshot_def res_bind_eq_Inr on_integrity_error_Inr by (elim exE conjE) (rule that)
  show ?thesis
  proof (cases x)
    case (Inl existing)
    with r show ?thesis by simp
  next
    case (Inr p)
    with r t show ?thesis by (cases p) (auto simp: res_bind_eq_Inr dest: freeze_transaction_extends)
  qed
qed

lemma policy_rows_extends:
  assumes "policy_rows n now p st = Inr st'" and "extends a st"
  shows "extends a st'"
proof -
  from assms(1) obtain st1 st2 where s:
    "insert_policy \<lparr>po_id = access_policy_id p, po_library_id = st_library_id st, po_name = n,
       po_purposes = allowed_purposes p, po_export = allow_export p,
       po_external = allow_external_provider p, po_hash = policy_hash p, po_created_at = now\<rparr> st = Inr st1"
    "fold_res (\<lambda>r. insert_policy_collection \<lparr>pcr_policy_id = access_policy_id p,
       pcr_collection_id = cr_collection_id r, pcr_effect = cr_effect r\<rparr>) (collection_rules p) st1 = Inr st2"
    "fold_res (\<lambda>r. insert_policy_source \<lparr>psr_policy_id = access_policy_id p,
       psr_source_id = sr_source_id r, psr_effect = sr_effect r\<rparr>) (source_rules p) st2 = Inr st'"
    unfolding policy_rows_def by (auto simp: res_simps)
  have "access_policy_id p \<notin> po_id ` set (st_policies st)"
    using s(1) by (auto simp: insert_defs res_simps)
  moreover have "po_id ` set (st_policies a) \<subseteq> po_id ` set (st_policies st)"
    using assms(2) by (auto simp: extends_def dest: grown_keys)
  ultimately have n: "access_policy_id p \<notin> po_id ` set (st_policies a)" by blast
  have "extends a st2"
    by (intro fold_res_extends [OF _ s(2) insert_policy_extends [OF s(1) assms(2)]])
      (erule insert_policy_collection_extends, simp_all add: n)
  then show ?thesis
    by (intro fold_res_extends [OF _ s(3)]) (erule insert_policy_source_extends, simp_all add: n)
qed

lemma persist_policy_extends:
  "persist_access_policy e now n p st = Inr (r, st') \<Longrightarrow> extends st st'"
  by (auto simp: persist_access_policy_def res_simps insert_outbox_event_extends split: if_splits
      dest: policy_rows_extends [OF _ extends_refl])

lemma insert_collection_root_extends:
  "insert_collection_root c x st = Inr st' \<Longrightarrow> extends a st' = extends a st"
  by (cases "crt_manifest_path (snd x)"; cases "crt_manifest_sha256 (snd x)")
    (auto simp: insert_collection_root_def Let_def res_bind_eq_Inr insert_other_extends)

lemma create_collection_extends:
  assumes "create_collection b l e now ids c st = Inr (r, st')"
  shows "extends st st'"
proof -
  from assms obtain roots where "collection_transaction e now ids (c\<lparr>cc_roots := roots\<rparr>) st = Inr st'"
    by (auto simp: create_collection_def Let_def res_simps split: if_splits)
  then obtain st1 st2 where s: "insert_collection \<lparr>co_id = cc_collection_id c, co_library_id = st_library_id st,
        co_name = cc_name c, co_kind = cc_kind c\<rparr> st = Inr st1"
    "fold_res (insert_collection_root (cc_collection_id c)) (zip ids roots) st1 = Inr st2"
    "extends st st' = extends st st2"
    by (auto simp: collection_transaction_def res_simps insert_outbox_event_extends)
  have "extends st st1" using insert_collection_extends [OF s(1)] by simp
  then have "extends st st2"
    by (intro fold_res_extends [OF _ s(2)]) (simp_all add: insert_collection_root_extends)
  then show ?thesis using s(3) by simp
qed

end
