(* ===== verification/Library_Isolation.thy ===== *)
theory Library_Isolation
  imports Library_Growth
begin

text \<open>
  References between the rows (\<open>tables_ok\<close>, kept by every insertion) and what follows from
  them and from growth: a stored snapshot, a policy and the permitted set compiled from them are
  read alike at every later time.
\<close>

subsection \<open>Keys and references\<close>

definition keys_ok :: "library_store \<Rightarrow> bool" where
  "keys_ok st \<longleftrightarrow>
     distinct (map co_id (st_collections st)) \<and> distinct (map so_id (st_sources st)) \<and>
     distinct (map so_uri (st_sources st)) \<and>
     distinct (map fa_id (st_families st)) \<and> distinct (map fm_source_id (st_family_members st)) \<and>
     distinct (map ve_id (st_versions st)) \<and>
     distinct (map (\<lambda>v. (ve_source_id v, ve_sha256 v, ve_profile v)) (st_versions st)) \<and>
     distinct (map fr_id (st_fragments st)) \<and> distinct (map he_source_id (st_heads st)) \<and>
     distinct (map (\<lambda>m. (me_collection_id m, me_source_id m)) (st_memberships st)) \<and>
     distinct (map po_id (st_policies st)) \<and> distinct (map sn_id (st_snapshots st)) \<and>
     distinct (map sn_hash (st_snapshots st)) \<and> distinct (map ev_id (st_events st)) \<and>
     distinct (map bl_sha256 (st_blobs st)) \<and> distinct (map fi_family_id (st_identities st)) \<and>
     distinct (map fi_uri (st_identities st)) \<and> distinct (map bi_version_id (st_bindings st))"

definition refs_ok :: "library_store \<Rightarrow> bool" where
  "refs_ok st \<longleftrightarrow>
     (\<forall>c \<in> set (st_collections st). co_library_id c = st_library_id st) \<and>
     (\<forall>s \<in> set (st_sources st). so_library_id s = st_library_id st) \<and>
     (\<forall>f \<in> set (st_families st). fa_library_id f = st_library_id st) \<and>
     (\<forall>m \<in> set (st_family_members st). fm_family_id m \<in> fa_id ` set (st_families st) \<and>
        fm_source_id m \<in> so_id ` set (st_sources st)) \<and>
     (\<forall>v \<in> set (st_versions st). ve_source_id v \<in> so_id ` set (st_sources st)) \<and>
     (\<forall>f \<in> set (st_fragments st). fr_version_id f \<in> ve_id ` set (st_versions st)) \<and>
     (\<forall>h \<in> set (st_heads st). version_of_source st (he_version_id h) (he_source_id h)) \<and>
     (\<forall>m \<in> set (st_memberships st). me_collection_id m \<in> co_id ` set (st_collections st) \<and>
        me_source_id m \<in> so_id ` set (st_sources st)) \<and>
     (\<forall>p \<in> set (st_policies st). po_library_id p = st_library_id st) \<and>
     (\<forall>r \<in> set (st_policy_collections st). pcr_policy_id r \<in> po_id ` set (st_policies st) \<and>
        pcr_collection_id r \<in> co_id ` set (st_collections st)) \<and>
     (\<forall>r \<in> set (st_policy_sources st). psr_policy_id r \<in> po_id ` set (st_policies st) \<and>
        psr_source_id r \<in> so_id ` set (st_sources st)) \<and>
     (\<forall>s \<in> set (st_snapshots st). sn_library_id s = st_library_id st) \<and>
     (\<forall>m \<in> set (st_snapshot_members st). sb_snapshot_id m \<in> sn_id ` set (st_snapshots st) \<and>
        sb_collection_id m \<in> co_id ` set (st_collections st) \<and>
        sb_version_id m \<in> ve_id ` set (st_versions st)) \<and>
     (\<forall>i \<in> set (st_identities st). fi_family_id i \<in> fa_id ` set (st_families st) \<and>
        fi_library_id i = st_library_id st) \<and>
     (\<forall>b \<in> set (st_bindings st). bi_family_id b \<in> fi_family_id ` set (st_identities st) \<and>
        bi_version_id b \<in> ve_id ` set (st_versions st) \<and>
        version_of_source st (bi_version_id b) (bi_source_id b) \<and>
        (\<exists>m \<in> set (st_family_members st). fm_source_id m = bi_source_id b \<and> fm_family_id m = bi_family_id b))"

definition tables_ok :: "library_store \<Rightarrow> bool" where
  "tables_ok st \<longleftrightarrow> keys_ok st \<and> refs_ok st"

lemmas tables_defs = tables_ok_def keys_ok_def refs_ok_def version_of_source_def

lemma insert_collection_tables: "insert_collection r st = Inr st' \<Longrightarrow> tables_ok st \<Longrightarrow> tables_ok st'"
  by (auto simp: insert_defs res_simps tables_defs)

lemma insert_root_tables: "insert_root r st = Inr st' \<Longrightarrow> tables_ok st \<Longrightarrow> tables_ok st'"
  by (auto simp: insert_defs res_simps tables_defs)

lemma insert_root_manifest_tables: "insert_root_manifest r st = Inr st' \<Longrightarrow> tables_ok st \<Longrightarrow> tables_ok st'"
  by (auto simp: insert_defs res_simps tables_defs)

lemma insert_source_tables: "insert_source r st = Inr st' \<Longrightarrow> tables_ok st \<Longrightarrow> tables_ok st'"
  by (auto simp: insert_defs res_simps tables_defs)

lemma insert_family_tables: "insert_family r st = Inr st' \<Longrightarrow> tables_ok st \<Longrightarrow> tables_ok st'"
  by (auto simp: insert_defs res_simps tables_defs)

lemma insert_identity_tables: "insert_identity r st = Inr st' \<Longrightarrow> tables_ok st \<Longrightarrow> tables_ok st'"
  by (auto simp: insert_defs res_simps tables_defs intro: rev_image_eqI)

lemma insert_family_member_tables: "insert_family_member r st = Inr st' \<Longrightarrow> tables_ok st \<Longrightarrow> tables_ok st'"
  by (auto simp: insert_defs res_simps tables_defs)

lemma insert_version_tables: "insert_version r st = Inr st' \<Longrightarrow> tables_ok st \<Longrightarrow> tables_ok st'"
  by (auto simp: insert_defs res_simps tables_defs)

lemma insert_fragment_tables: "insert_fragment r st = Inr st' \<Longrightarrow> tables_ok st \<Longrightarrow> tables_ok st'"
  by (auto simp: insert_defs res_simps tables_defs)

lemma insert_head_tables: "insert_head r st = Inr st' \<Longrightarrow> tables_ok st \<Longrightarrow> tables_ok st'"
  by (auto simp: insert_defs res_simps tables_defs)

lemma insert_binding_tables: "insert_binding r st = Inr st' \<Longrightarrow> tables_ok st \<Longrightarrow> tables_ok st'"
  by (auto simp: insert_defs res_simps tables_defs intro: rev_image_eqI)

lemma insert_membership_tables: "insert_membership r st = Inr st' \<Longrightarrow> tables_ok st \<Longrightarrow> tables_ok st'"
  by (auto simp: insert_defs res_simps tables_defs)

lemma insert_policy_tables: "insert_policy r st = Inr st' \<Longrightarrow> tables_ok st \<Longrightarrow> tables_ok st'"
  by (auto simp: insert_defs res_simps tables_defs)

lemma insert_policy_collection_tables: "insert_policy_collection r st = Inr st' \<Longrightarrow> tables_ok st \<Longrightarrow> tables_ok st'"
  by (auto simp: insert_defs res_simps tables_defs)

lemma insert_policy_source_tables: "insert_policy_source r st = Inr st' \<Longrightarrow> tables_ok st \<Longrightarrow> tables_ok st'"
  by (auto simp: insert_defs res_simps tables_defs)

lemma insert_snapshot_tables: "insert_snapshot r st = Inr st' \<Longrightarrow> tables_ok st \<Longrightarrow> tables_ok st'"
  by (auto simp: insert_defs res_simps tables_defs)

lemma insert_snapshot_member_tables: "insert_snapshot_member r st = Inr st' \<Longrightarrow> tables_ok st \<Longrightarrow> tables_ok st'"
  by (auto simp: insert_defs res_simps tables_defs)

definition moved_heads :: "string \<Rightarrow> string \<Rightarrow> head_row list \<Rightarrow> head_row list" where
  "moved_heads source version heads =
     map (\<lambda>h. if he_source_id h = source then h\<lparr>he_version_id := version\<rparr> else h) heads"

lemma update_head_Inr:
  "update_head s v st = Inr (n, st') \<longleftrightarrow>
     (\<forall>h \<in> set (st_heads st). he_source_id h = s \<longrightarrow> version_of_source st v s \<and>
        v \<notin> he_version_id ` {g \<in> set (st_heads st). he_source_id g \<noteq> s}) \<and>
     st' = st\<lparr>st_heads := moved_heads s v (st_heads st)\<rparr> \<and>
     n = length (filter (\<lambda>h. he_source_id h = s) (st_heads st))"
  unfolding update_head_def Let_def res_bind_eq_Inr require_constraints_Inr moved_heads_def by auto

lemma moved_heads_sources [simp]: "map he_source_id (moved_heads s v hs) = map he_source_id hs"
  by (simp add: moved_heads_def)

lemma update_head_tables:
  assumes u: "update_head s v st = Inr (n, st')" and t: "tables_ok st"
  shows "tables_ok st'"
proof -
  note u [unfolded update_head_Inr]
  moreover have "version_of_source st (he_version_id h) (he_source_id h)"
    if "h \<in> set (moved_heads s v (st_heads st))" for h
    using that calculation t unfolding moved_heads_def tables_ok_def refs_ok_def by (auto split: if_splits)
  ultimately show ?thesis
    using t unfolding tables_ok_def keys_ok_def refs_ok_def version_of_source_def by simp
qed

lemma insert_blob_tables: "tables_ok st \<Longrightarrow> tables_ok (insert_blob_or_ignore b st)"
  by (auto simp: insert_blob_or_ignore_def tables_defs)

lemma insert_outbox_tables:
  "insert_outbox_event e t g i p n st = Inr st' \<Longrightarrow> tables_ok st \<Longrightarrow> tables_ok st'"
  by (auto simp: insert_outbox_event_def res_simps tables_defs)

subsection \<open>Event payloads\<close>

text \<open>Every event carries an object whose keys are distinct at every level: a dict literal.\<close>

definition payload_object :: "json \<Rightarrow> bool" where
  "payload_object j \<longleftrightarrow> json_wf j \<and> json_kind j = 5"

lemma json_strs_wf: "json_wf (json_strs xs)" and json_opt_wf: "json_wf (json_opt x)"
  by (auto simp: json_strs_def json_opt_def list_all_iff split: option.splits)

lemma payload_objects [simp]:
  "payload_object (version_payload st c r s v l n src parsed d)"
  "payload_object (binding_event_payload st b s v f de sha)"
  "payload_object (reverted_payload st c r s v w sha)"
  "payload_object (frozen_payload snap)"
  "payload_object (policy_created_payload name p)"
  "payload_object (collection_event_payload cc ids)"
  by (simp_all add: payload_object_def json_kind_def version_payload_def binding_event_payload_def
      reverted_payload_def frozen_payload_def policy_created_payload_def policy_payload_def
      collection_rule_payload_def source_rule_payload_def
      collection_event_payload_def root_event_payload_def json_strs_wf json_opt_wf list_all_iff)

subsection \<open>Invariants of the rows\<close>

text \<open>
  An invariant that every statement keeps is kept by every operation: the contract between the
  tables and the operations of the repository.
\<close>

locale row_invariant =
  fixes I :: "library_store \<Rightarrow> bool"
  assumes collection: "insert_collection r1 st = Inr st' \<Longrightarrow> I st \<Longrightarrow> I st'"
    and root: "insert_root r2 st = Inr st' \<Longrightarrow> I st \<Longrightarrow> I st'"
    and root_manifest: "insert_root_manifest r3 st = Inr st' \<Longrightarrow> I st \<Longrightarrow> I st'"
    and source: "insert_source r4 st = Inr st' \<Longrightarrow> I st \<Longrightarrow> I st'"
    and family: "insert_family r5 st = Inr st' \<Longrightarrow> I st \<Longrightarrow> I st'"
    and identity: "insert_identity r6 st = Inr st' \<Longrightarrow> I st \<Longrightarrow> I st'"
    and family_member: "insert_family_member r7 st = Inr st' \<Longrightarrow> I st \<Longrightarrow> I st'"
    and version: "insert_version r8 st = Inr st' \<Longrightarrow> I st \<Longrightarrow> I st'"
    and fragment: "insert_fragment (fragment_row_of v f) st = Inr st' \<Longrightarrow> I st \<Longrightarrow> I st'"
    and head: "insert_head r9 st = Inr st' \<Longrightarrow> I st \<Longrightarrow> I st'"
    and moved_head: "update_head s v st = Inr (n, st') \<Longrightarrow> I st \<Longrightarrow> I st'"
    and binding: "insert_binding r10 st = Inr st' \<Longrightarrow> I st \<Longrightarrow> I st'"
    and membership: "insert_membership r11 st = Inr st' \<Longrightarrow> I st \<Longrightarrow> I st'"
    and policy: "insert_policy r12 st = Inr st' \<Longrightarrow> I st \<Longrightarrow> I st'"
    and policy_collection: "insert_policy_collection r13 st = Inr st' \<Longrightarrow> I st \<Longrightarrow> I st'"
    and policy_source: "insert_policy_source r14 st = Inr st' \<Longrightarrow> I st \<Longrightarrow> I st'"
    and snapshot: "insert_snapshot r15 st = Inr st' \<Longrightarrow> I st \<Longrightarrow> I st'"
    and snapshot_member: "insert_snapshot_member r16 st = Inr st' \<Longrightarrow> I st \<Longrightarrow> I st'"
    and blob: "I st \<Longrightarrow> I (insert_blob_or_ignore b st)"
    and event: "insert_outbox_event e t g i p now st = Inr st' \<Longrightarrow> payload_object p \<Longrightarrow> I st \<Longrightarrow> I st'"
begin

lemma fold_keeps:
  assumes "\<And>x s s'. f x s = Inr s' \<Longrightarrow> I s \<Longrightarrow> I s'"
  shows "fold_res f xs s = Inr s' \<Longrightarrow> I s \<Longrightarrow> I s'"
  using assms by (induction xs arbitrary: s) (auto simp: res_simps)

lemma membership_keeps: "ensure_membership c s m st = Inr st' \<Longrightarrow> I st \<Longrightarrow> I st'"
  by (auto simp: ensure_membership_def split: list.splits if_splits intro: membership)

lemma blob_keeps: "ensure_blob_row b st = Inr st' \<Longrightarrow> I st \<Longrightarrow> I st'"
  by (auto simp: ensure_blob_row_def Let_def split: list.splits if_splits intro: blob)

lemma start_family_keeps: "start_family ids d st = Inr st' \<Longrightarrow> I st \<Longrightarrow> I st'"
  by (cases d) (auto simp: start_family_def res_bind_eq_Inr dest: family identity)

lemma enroll_keeps:
  assumes "enroll_source ids src d st = Inr (l, st')" and "I st"
  shows "I st'"
proof -
  from assms(1) obtain st1 lineage where s: "insert_source
        \<lparr>so_id = new_source_id ids, so_library_id = st_library_id st, so_uri = sby_uri src,
         so_media_type = sby_media_type src, so_title = last ([] # path_parts (sby_relative_path src))\<rparr> st = Inr st1"
    "new_lineage d (sby_sha256 src) st1 = Inr lineage"
    and r: "(case lineage of
             None \<Rightarrow>
               res_bind (start_family ids d st1) (\<lambda>st2.
               res_bind (enroll_member (new_family_id ids) (new_source_id ids) family_role.ROOT None st2) (\<lambda>st3.
                 Inr ((new_family_id ids, new_source_id ids, family_role.ROOT), st3)))
           | Some (f, root) \<Rightarrow>
               (let role = join_role d f (sby_sha256 src) st1
                in res_bind (enroll_member f (new_source_id ids) role (Some root) st1) (\<lambda>st2.
                     Inr ((f, root, role), st2)))) = Inr (l, st')"
    unfolding enroll_source_def Let_def res_bind_eq_Inr by blast
  have "I st1" using source [OF s(1) assms(2)] .
  then show ?thesis
    using r by (cases lineage)
      (auto simp: res_bind_eq_Inr enroll_member_def Let_def dest: start_family_keeps family_member)
qed

lemma record_version_keeps:
  assumes "record_version ids now c r state src parsed d di sid l n st = Inr (out, st')" and "I st"
  shows "I st'"
proof -
  from assms(1) obtain st1 st2 st3 st4 st5 where s:
    "insert_version \<lparr>ve_id = new_version_id ids, ve_source_id = sid, ve_number = n,
        ve_sha256 = sby_sha256 src, ve_size = byte_size src, ve_profile = pr_parser_profile parsed\<rparr> st = Inr st1"
    "insert_fragments (new_version_id ids) (pr_fragments parsed) st1 = Inr st2"
    "record_binding ids now d sid (fst l) (sby_sha256 src) st2 = Inr st3"
    "move_head (di = ADDED) sid (new_version_id ids) st3 = Inr st4"
    "ensure_membership c sid state st4 = Inr st5"
    "insert_outbox_event (new_event_id ids) ''source_version.recorded'' ''source_version''
       (new_version_id ids) (version_payload st5 c r sid (new_version_id ids) l n src parsed di) now st5 = Inr st'"
    unfolding record_version_def Let_def by (auto simp: res_simps)
  have "I st2"
    using fold_keeps [OF _ s(2) [unfolded insert_fragments_def] version [OF s(1) assms(2)]] fragment by blast
  then have "I st3"
    using s(3) by (cases d) (auto simp: record_binding_def insert_identity_binding_def res_bind_eq_Inr
        dest: binding event)
  then have "I st4"
    using s(4) by (auto simp: move_head_def res_bind_eq_Inr split: if_splits dest: head moved_head)
  then show ?thesis using membership_keeps [OF s(5)] event [OF s(6) payload_objects(1)] by blast
qed

lemma keep_head_keeps: "keep_head c state d sid l h st = Inr (out, st') \<Longrightarrow> I st \<Longrightarrow> I st'"
  by (auto simp: keep_head_def res_bind_eq_Inr intro: membership_keeps)

lemma revert_head_keeps:
  "revert_head ids now c r state src d sid l h v st = Inr (out, st') \<Longrightarrow> I st \<Longrightarrow> I st'"
  by (auto simp: revert_head_def Let_def res_bind_eq_Inr dest!: moved_head membership_keeps event)

lemma known_source_keeps:
  "known_source ids now c r state src parsed d row st = Inr (out, st') \<Longrightarrow> I st \<Longrightarrow> I st'"
  by (auto simp: known_source_def Let_def res_bind_eq_Inr split: if_splits option.splits
      intro: keep_head_keeps revert_head_keeps record_version_keeps)

lemma record_transaction_keeps:
  assumes t: "record_transaction ids now c r src parsed b d st = Inr (out, st')" and e: "I st"
  shows "I st'"
proof -
  from t obtain state st1 where b: "ensure_blob_row b st = Inr st1"
    and cs: "(case filter (\<lambda>s. so_library_id s = st_library_id st1 \<and> so_uri s = sby_uri src) (st_sources st1) of
         [] \<Rightarrow>
           res_bind (enroll_source ids src d st1) (\<lambda>(l, st2).
             record_version ids now c r state src parsed d ADDED (new_source_id ids) l 1 st2)
       | row # _ \<Rightarrow> known_source ids now c r state src parsed d row st1) = Inr (out, st')"
    unfolding record_transaction_def res_bind_eq_Inr by blast
  have e1: "I st1" using blob_keeps [OF b e] .
  show ?thesis
  proof (cases "filter (\<lambda>s. so_library_id s = st_library_id st1 \<and> so_uri s = sby_uri src) (st_sources st1)")
    case Nil
    with cs obtain l st2 where "enroll_source ids src d st1 = Inr (l, st2)"
      "record_version ids now c r state src parsed d ADDED (new_source_id ids) l 1 st2 = Inr (out, st')"
      by (auto simp: res_bind_eq_Inr)
    with e1 show ?thesis by (blast intro: enroll_keeps record_version_keeps)
  next
    case (Cons row rows)
    with cs e1 show ?thesis by (auto intro: known_source_keeps)
  qed
qed

lemma record_keeps:
  "record_processed_source v ids now c r src parsed b d st = Inr (out, st') \<Longrightarrow> I st \<Longrightarrow> I st'"
  by (auto simp: record_processed_source_def res_simps split: if_splits intro: record_transaction_keeps)

lemma store_snapshot_keeps:
  assumes "store_snapshot e now s st = Inr st'" and "I st"
  shows "I st'"
proof -
  from assms(1) obtain st1 st2 where s: "insert_snapshot
      \<lparr>sn_id = corpus_snapshot_id s, sn_library_id = st_library_id st, sn_scope = scope_object s,
       sn_hash = manifest_hash s, sn_created_at = now\<rparr> st = Inr st1"
    "fold_res (\<lambda>m. insert_snapshot_member (member_row_of (corpus_snapshot_id s) m)) (cs_members s) st1 = Inr st2"
    "insert_outbox_event e ''corpus_snapshot.frozen'' ''corpus_snapshot'' (corpus_snapshot_id s)
      (frozen_payload s) now st2 = Inr st'"
    unfolding store_snapshot_def by (auto simp: res_simps)
  have "I st2"
    using fold_keeps [OF _ s(2) snapshot [OF s(1) assms(2)]] snapshot_member by blast
  then show ?thesis by (rule event [OF s(3) payload_objects(4)])
qed

lemma freeze_transaction_keeps: "freeze_transaction e now cs st = Inr (Inr (s, st')) \<Longrightarrow> I st \<Longrightarrow> I st'"
  unfolding freeze_transaction_def res_bind_eq_Inr
  by (elim exE conjE) (auto simp: res_bind_eq_Inr split: list.splits if_splits intro: store_snapshot_keeps)

lemma freeze_keeps:
  assumes f: "freeze_snapshot e now cs st = Inr (s, st')" and i: "I st"
  shows "I st'"
proof -
  from f obtain scope :: corpus_snapshot and x where t: "freeze_transaction e now (cs_collection_ids scope) st = Inr x"
    and r: "(case x of
       Inl existing \<Rightarrow> Inr (existing, st)
     | Inr (s, st') \<Rightarrow>
         res_bind (reconstruct_corpus_snapshot st' (corpus_snapshot_id s)) (\<lambda>t. Inr (t, st'))) = Inr (s, st')"
    unfolding freeze_snapshot_def res_bind_eq_Inr on_integrity_error_Inr by (elim exE conjE) (rule that)
  show ?thesis
  proof (cases x)
    case (Inl existing)
    with r i show ?thesis by simp
  next
    case (Inr p)
    with r t i show ?thesis by (cases p) (auto simp: res_bind_eq_Inr dest: freeze_transaction_keeps)
  qed
qed

lemma persist_policy_keeps:
  assumes "persist_access_policy e now n p st = Inr (r, st')" and "I st"
  shows "I st'"
proof -
  from assms(1) obtain st1 where p: "policy_rows n now p st = Inr st1"
    and e: "insert_outbox_event e ''access_policy.created'' ''access_policy''
                (access_policy_id p) (policy_created_payload n p) now st1 = Inr st'"
    by (auto simp: persist_access_policy_def res_simps split: if_splits)
  from p obtain st2 st3 where s:
    "insert_policy \<lparr>po_id = access_policy_id p, po_library_id = st_library_id st, po_name = n,
       po_purposes = allowed_purposes p, po_export = allow_export p,
       po_external = allow_external_provider p, po_hash = policy_hash p, po_created_at = now\<rparr> st = Inr st2"
    "fold_res (\<lambda>r. insert_policy_collection \<lparr>pcr_policy_id = access_policy_id p,
       pcr_collection_id = cr_collection_id r, pcr_effect = cr_effect r\<rparr>) (collection_rules p) st2 = Inr st3"
    "fold_res (\<lambda>r. insert_policy_source \<lparr>psr_policy_id = access_policy_id p,
       psr_source_id = sr_source_id r, psr_effect = sr_effect r\<rparr>) (source_rules p) st3 = Inr st1"
    unfolding policy_rows_def by (auto simp: res_simps)
  have "I st3" using fold_keeps [OF _ s(2) policy [OF s(1) assms(2)]] policy_collection by blast
  then have "I st1" using fold_keeps [OF _ s(3)] policy_source by blast
  then show ?thesis by (rule event [OF e payload_objects(5)])
qed

lemma collection_root_keeps: "insert_collection_root c x st = Inr st' \<Longrightarrow> I st \<Longrightarrow> I st'"
  by (cases "crt_manifest_path (snd x)"; cases "crt_manifest_sha256 (snd x)")
    (auto simp: insert_collection_root_def Let_def res_bind_eq_Inr dest: root root_manifest)

lemma create_collection_keeps:
  assumes "create_collection b l e now ids c st = Inr (r, st')" and "I st"
  shows "I st'"
proof -
  from assms(1) obtain roots where "collection_transaction e now ids (c\<lparr>cc_roots := roots\<rparr>) st = Inr st'"
    by (auto simp: create_collection_def Let_def res_simps split: if_splits)
  then obtain st1 st2 where s: "insert_collection \<lparr>co_id = cc_collection_id c, co_library_id = st_library_id st,
        co_name = cc_name c, co_kind = cc_kind c\<rparr> st = Inr st1"
    "fold_res (insert_collection_root (cc_collection_id c)) (zip ids roots) st1 = Inr st2"
    "insert_outbox_event e ''collection.created'' ''collection'' (cc_collection_id c)
       (collection_event_payload (c\<lparr>cc_roots := roots\<rparr>) ids) now st2 = Inr st'"
    by (auto simp: collection_transaction_def res_simps)
  have "I st2"
    using fold_keeps [OF _ s(2) collection [OF s(1) assms(2)]] collection_root_keeps by blast
  then show ?thesis by (rule event [OF s(3) payload_objects(6)])
qed

end

interpretation tables: row_invariant tables_ok
  by unfold_locales (fact insert_collection_tables insert_root_tables insert_root_manifest_tables
      insert_source_tables insert_family_tables insert_identity_tables insert_family_member_tables
      insert_version_tables insert_fragment_tables insert_head_tables update_head_tables
      insert_binding_tables insert_membership_tables insert_policy_tables
      insert_policy_collection_tables insert_policy_source_tables insert_snapshot_tables
      insert_snapshot_member_tables insert_blob_tables | erule (1) insert_outbox_tables)+

end
