(* ===== verification/Library_Stability.thy ===== *)
theory Library_Stability
  imports Library_Isolation
begin

text \<open>
  Snapshot isolation: what is compiled and read from a stored snapshot under a stored policy is
  the same in every later store.
\<close>

definition texts_ok :: "library_store \<Rightarrow> bool" where
  "texts_ok st \<longleftrightarrow>
     (\<forall>f \<in> set (st_fragments st). fr_text_sha256 f = sha256_hex (utf8 (fr_text f)) \<and>
        fr_address_hash f = canonical_sha256_hex (fr_address f))"

interpretation texts: row_invariant texts_ok
  by unfold_locales (auto simp: insert_defs insert_outbox_event_def insert_blob_or_ignore_def res_simps
      texts_ok_def update_head_Inr fragment_row_of_def text_sha256_def address_hash_def)

subsection \<open>Lookups\<close>

lemma extendsD:
  assumes "extends st st'"
  shows extends_libraryD: "st_library_id st' = st_library_id st"
    and extends_collections: "grown co_id (st_collections st) (st_collections st')"
    and extends_sources: "grown so_id (st_sources st) (st_sources st')"
    and extends_families: "grown fa_id (st_families st) (st_families st')"
    and extends_members: "grown fm_source_id (st_family_members st) (st_family_members st')"
    and extends_versions: "grown ve_id (st_versions st) (st_versions st')"
    and extends_fragments: "grown fr_id (st_fragments st) (st_fragments st')"
    and extends_version_fragments:
      "stable fr_version_id (ve_id ` set (st_versions st)) (st_fragments st) (st_fragments st')"
    and extends_policies: "grown po_id (st_policies st) (st_policies st')"
    and extends_collection_rules:
      "stable pcr_policy_id (po_id ` set (st_policies st)) (st_policy_collections st) (st_policy_collections st')"
    and extends_source_rules:
      "stable psr_policy_id (po_id ` set (st_policies st)) (st_policy_sources st) (st_policy_sources st')"
    and extends_snapshots: "grown sn_id (st_snapshots st) (st_snapshots st')"
    and extends_hashes: "grown sn_hash (st_snapshots st) (st_snapshots st')"
    and extends_snapshot_members:
      "stable sb_snapshot_id (sn_id ` set (st_snapshots st)) (st_snapshot_members st) (st_snapshot_members st')"
  using assms unfolding extends_def by blast+

lemma version_row_of_stable:
  assumes "extends st st'" and "v \<in> ve_id ` set (st_versions st)"
  shows "version_row_of st' v = version_row_of st v"
  unfolding version_row_of_def grown_filter [OF extends_versions [OF assms(1)] assms(2)] ..

lemma version_row_ofD: "version_row_of st v = Some r \<Longrightarrow> r \<in> set (st_versions st) \<and> ve_id r = v"
  by (auto simp: version_row_of_def split: list.splits dest: filter_eq_ConsD)

lemma version_row_of_ex: "v \<in> ve_id ` set (st_versions st) \<Longrightarrow> \<exists>r. version_row_of st v = Some r"
  unfolding version_row_of_def by (cases "filter (\<lambda>x. ve_id x = v) (st_versions st)") (auto simp: filter_empty_conv)

lemma version_row_of_unique:
  "keys_ok st \<Longrightarrow> r \<in> set (st_versions st) \<Longrightarrow> version_row_of st (ve_id r) = Some r"
proof -
  assume k: "keys_ok st" and r: "r \<in> set (st_versions st)"
  have "x = r" if "x \<in> set (st_versions st)" "ve_id x = ve_id r" for x
    using k r that unfolding keys_ok_def distinct_map by (meson inj_onD)
  moreover have "filter (\<lambda>v. ve_id v = ve_id r) (st_versions st) \<noteq> []" using r by (auto simp: filter_empty_conv)
  ultimately show ?thesis
    unfolding version_row_of_def by (cases "filter (\<lambda>v. ve_id v = ve_id r) (st_versions st)")
      (auto dest!: filter_eq_ConsD)
qed

lemma library_collection_stable:
  assumes "extends st st'" and "c \<in> co_id ` set (st_collections st)"
  shows "library_collection st' c = library_collection st c"
  unfolding library_collection_def extends_libraryD [OF assms(1)]
  by (rule grown_ex [OF extends_collections [OF assms(1)] assms(2)])

lemma library_source_stable:
  assumes "extends st st'" and "s \<in> so_id ` set (st_sources st)"
  shows "library_source st' s = library_source st s"
  unfolding library_source_def extends_libraryD [OF assms(1)]
  by (rule grown_ex [OF extends_sources [OF assms(1)] assms(2)])

lemma in_library_family_stable:
  assumes "extends st st'" and "f \<in> fa_id ` set (st_families st)"
  shows "in_library_family st' f = in_library_family st f"
  unfolding in_library_family_def extends_libraryD [OF assms(1)]
  by (rule grown_ex [OF extends_families [OF assms(1)] assms(2)])

lemma require_collections_stable:
  assumes e: "extends st st'" and r: "require_collections st ids = Inr u"
  shows "require_collections st' ids = Inr u"
  using r grown_subset [OF extends_collections [OF e]] extends_libraryD [OF e]
  unfolding require_collections_def list_all_iff by (metis sum.distinct(1))

lemma library_collectionD: "library_collection st c \<Longrightarrow> c \<in> co_id ` set (st_collections st)"
  by (auto simp: library_collection_def)

subsection \<open>Lineage\<close>

lemma lineage_rows_stable:
  assumes e: "extends st st'" and t: "refs_ok st" and s: "s \<in> fm_source_id ` set (st_family_members st)"
  shows "lineage_rows st' s = lineage_rows st s"
proof -
  have "filter (\<lambda>m. fm_source_id m = s) (st_family_members st') = filter (\<lambda>m. fm_source_id m = s) (st_family_members st)"
    by (rule grown_filter [OF extends_members [OF e] s])
  moreover have "in_library_family st' (fm_family_id m) = in_library_family st (fm_family_id m)"
    if "m \<in> set (st_family_members st)" for m
    using e t that by (intro in_library_family_stable) (auto simp: refs_ok_def)
  then have "filter (\<lambda>m. in_library_family st' (fm_family_id m)) (filter (\<lambda>m. fm_source_id m = s) (st_family_members st)) =
      filter (\<lambda>m. in_library_family st (fm_family_id m)) (filter (\<lambda>m. fm_source_id m = s) (st_family_members st))"
    by (auto intro: filter_cong)
  ultimately show ?thesis unfolding lineage_rows_def by (metis (no_types, lifting) filter_filter conj_commute filter_cong)
qed

lemma lineage_rows_known: "lineage_rows st s \<noteq> [] \<Longrightarrow> s \<in> fm_source_id ` set (st_family_members st)"
  by (auto simp: lineage_rows_def filter_empty_conv)

lemma lineage_for_source_known:
  "lineage_for_source st s = Inr l \<Longrightarrow> s \<in> fm_source_id ` set (st_family_members st)"
  by (rule lineage_rows_known) (auto simp: lineage_for_source_def)

lemma is_root_member_mono: "extends st st' \<Longrightarrow> is_root_member st f s \<Longrightarrow> is_root_member st' f s"
  unfolding is_root_member_def by (blast dest: grown_subset [OF extends_members])

lemma lineage_for_source_stable:
  assumes "extends st st'" and "refs_ok st" and l: "lineage_for_source st s = Inr l"
  shows "lineage_for_source st' s = Inr l"
proof -
  note r = lineage_rows_stable [OF assms(1,2) lineage_for_source_known [OF l]]
  show ?thesis
    using l unfolding lineage_for_source_def r
    by (auto split: list.splits if_splits option.splits dest: is_root_member_mono [OF assms(1)])
qed

lemma lineage_member_stable:
  "extends st st' \<Longrightarrow> refs_ok st \<Longrightarrow> lineage_member st c v m = Inr x \<Longrightarrow> lineage_member st' c v m = Inr x"
  by (auto simp: lineage_member_def res_bind_eq_Inr dest: lineage_for_source_stable)

subsection \<open>Stored snapshots\<close>

lemma snapshot_row_for_stable:
  "extends st st' \<Longrightarrow> snapshot_row_for st i = Some r \<Longrightarrow> snapshot_row_for st' i = Some r"
proof -
  assume e: "extends st st'" and r: "snapshot_row_for st i = Some r"
  then have "i \<in> sn_id ` set (st_snapshots st)"
    by (auto simp: snapshot_row_for_def split: list.splits dest!: filter_eq_ConsD)
  then have "filter (\<lambda>r. sn_id r = i) (st_snapshots st') = filter (\<lambda>r. sn_id r = i) (st_snapshots st)"
    by (rule grown_filter [OF extends_snapshots [OF e]])
  with r show ?thesis by (simp add: snapshot_row_for_def)
qed

lemma snapshot_row_forD: "snapshot_row_for st i = Some r \<Longrightarrow> r \<in> set (st_snapshots st) \<and> sn_id r = i"
  by (auto simp: snapshot_row_for_def split: list.splits dest!: filter_eq_ConsD)

lemma snapshot_members_stable:
  "extends st st' \<Longrightarrow> i \<in> sn_id ` set (st_snapshots st) \<Longrightarrow>
   filter (\<lambda>m. sb_snapshot_id m = i) (st_snapshot_members st') = filter (\<lambda>m. sb_snapshot_id m = i) (st_snapshot_members st)"
  using extends_snapshot_members unfolding stable_def by blast

lemma joined_member_row_stable:
  assumes e: "extends st st'" and r: "refs_ok st" and m: "m \<in> set (st_snapshot_members st)"
  shows "joined_member_row st' m = joined_member_row st m"
proof -
  have "version_row_of st' (sb_version_id m) = version_row_of st (sb_version_id m)"
    using e r m by (intro version_row_of_stable) (auto simp: refs_ok_def)
  moreover have "library_collection st' (sb_collection_id m) = library_collection st (sb_collection_id m)"
    using e r m by (intro library_collection_stable) (auto simp: refs_ok_def)
  moreover have "library_source st' (ve_source_id v) = library_source st (ve_source_id v)"
    if "version_row_of st (sb_version_id m) = Some v" for v
    using e r version_row_ofD [OF that] by (intro library_source_stable) (auto simp: refs_ok_def)
  ultimately show ?thesis by (auto simp: joined_member_row_def split: option.splits)
qed

lemma stored_member_stable:
  assumes e: "extends st st'" and t: "refs_ok st" and m: "stored_member st m = Inr x"
  shows "stored_member st' m = Inr x"
proof -
  from m obtain v where v: "version_row_of st (sb_version_id m) = Some v"
    "lineage_member st (sb_collection_id m) v (sb_state m) = Inr x"
    by (auto simp: stored_member_def split: option.splits)
  then have "version_row_of st' (sb_version_id m) = Some v"
    using version_row_of_stable [OF e] version_row_ofD [OF v(1)] by (metis image_eqI)
  with lineage_member_stable [OF e t v(2)] show ?thesis by (simp add: stored_member_def)
qed

lemma map_res_mono:
  "(\<And>x y. x \<in> set xs \<Longrightarrow> f x = Inr y \<Longrightarrow> g x = Inr y) \<Longrightarrow> map_res f xs = Inr ys \<Longrightarrow> map_res g xs = Inr ys"
  by (induction xs arbitrary: ys) (auto simp: res_simps)

lemma reconstruct_stable:
  assumes e: "extends st st'" and t: "refs_ok st" and s: "reconstruct_corpus_snapshot st i = Inr s"
  shows "reconstruct_corpus_snapshot st' i = Inr s"
proof -
  from s obtain row lib cs where row: "snapshot_row_for st i = Some row" "sn_library_id row = st_library_id st"
    and sc: "read_scope (sn_scope row) = Inr (lib, cs)" "lib = st_library_id st"
    and co: "require_collections st cs = Inr ()"
    and ln: "length (filter (joined_member_row st) (filter (\<lambda>r. sb_snapshot_id r = i) (st_snapshot_members st))) =
        length (filter (\<lambda>r. sb_snapshot_id r = i) (st_snapshot_members st))"
    and rb: "res_bind (rebuild_snapshot st lib cs
        (filter (joined_member_row st) (filter (\<lambda>r. sb_snapshot_id r = i) (st_snapshot_members st))))
        (check_snapshot_row row) = Inr s"
    unfolding reconstruct_corpus_snapshot_def
    by (auto simp: res_bind_eq_Inr reraise_Inr Let_def split: option.splits if_splits)
  have i: "i \<in> sn_id ` set (st_snapshots st)" using snapshot_row_forD [OF row(1)] by auto
  have raw: "filter (\<lambda>r. sb_snapshot_id r = i) (st_snapshot_members st') =
      filter (\<lambda>r. sb_snapshot_id r = i) (st_snapshot_members st)" (is "_ = ?raw")
    by (rule snapshot_members_stable [OF e i])
  have rows: "filter (joined_member_row st') ?raw = filter (joined_member_row st) ?raw"
    by (rule filter_cong) (use joined_member_row_stable [OF e t] in auto)
  have rb': "res_bind (rebuild_snapshot st' lib cs (filter (joined_member_row st) ?raw)) (check_snapshot_row row) = Inr s"
    using rb map_res_mono [where f = "stored_member st" and g = "stored_member st'"] stored_member_stable [OF e t]
    unfolding rebuild_snapshot_def res_bind_eq_Inr reraise_Inr by blast
  show ?thesis
    unfolding reconstruct_corpus_snapshot_def snapshot_row_for_stable [OF e row(1)] raw rows Let_def
    using row(2) sc ln rb' require_collections_stable [OF e co]
    by (simp add: extends_libraryD [OF e])
qed

subsection \<open>Policies, candidates and compilation\<close>

lemma policy_collections_stable:
  assumes e: "extends st st'" and t: "refs_ok st" and i: "i \<in> po_id ` set (st_policies st)"
  shows "collection_rule_rows st' i = collection_rule_rows st i"
proof -
  have raw: "filter (\<lambda>r. pcr_policy_id r = i) (st_policy_collections st') =
      filter (\<lambda>r. pcr_policy_id r = i) (st_policy_collections st)"
    using extends_collection_rules [OF e] i unfolding stable_def by blast
  have "filter (\<lambda>r. library_collection st' (pcr_collection_id r)) (filter (\<lambda>r. pcr_policy_id r = i) (st_policy_collections st)) =
      filter (\<lambda>r. library_collection st (pcr_collection_id r)) (filter (\<lambda>r. pcr_policy_id r = i) (st_policy_collections st))"
    by (rule filter_cong) (use t library_collection_stable [OF e] in \<open>auto simp: refs_ok_def\<close>)
  with raw show ?thesis unfolding collection_rule_rows_def by (metis (no_types, lifting) filter_filter filter_cong)
qed

lemma policy_sources_stable:
  assumes e: "extends st st'" and t: "refs_ok st" and i: "i \<in> po_id ` set (st_policies st)"
  shows "source_rule_rows st' i = source_rule_rows st i"
proof -
  have raw: "filter (\<lambda>r. psr_policy_id r = i) (st_policy_sources st') =
      filter (\<lambda>r. psr_policy_id r = i) (st_policy_sources st)"
    using extends_source_rules [OF e] i unfolding stable_def by blast
  have "filter (\<lambda>r. library_source st' (psr_source_id r)) (filter (\<lambda>r. psr_policy_id r = i) (st_policy_sources st)) =
      filter (\<lambda>r. library_source st (psr_source_id r)) (filter (\<lambda>r. psr_policy_id r = i) (st_policy_sources st))"
    by (rule filter_cong) (use t library_source_stable [OF e] in \<open>auto simp: refs_ok_def\<close>)
  with raw show ?thesis unfolding source_rule_rows_def by (metis (no_types, lifting) filter_filter filter_cong)
qed

lemma get_access_policy_stable:
  assumes e: "extends st st'" and t: "refs_ok st" and g: "get_access_policy st i = Inr r"
  shows "get_access_policy st' i = Inr r"
proof -
  let ?P = "\<lambda>st r. po_id r = i \<and> po_library_id r = st_library_id st"
  from g obtain row rows where row: "filter (?P st) (st_policies st) = row # rows"
    by (auto simp: get_access_policy_def split: list.splits)
  then have i: "i \<in> po_id ` set (st_policies st)" by (auto dest!: filter_eq_ConsD)
  have f: "filter (?P st') (st_policies st') = filter (?P st) (st_policies st)"
    unfolding extends_libraryD [OF e] by (rule grown_filter_and [OF extends_policies [OF e] i])
  have "po_id row = i" using row by (auto dest!: filter_eq_ConsD)
  then have "load_policy st' row = load_policy st row"
    unfolding load_policy_def using policy_collections_stable [OF e t i] policy_sources_stable [OF e t i] by simp
  with g show ?thesis unfolding get_access_policy_def f row by simp
qed

lemma candidate_rows_stable:
  assumes e: "extends st st'" and t: "refs_ok st" and i: "i \<in> sn_id ` set (st_snapshots st)"
  shows "candidate_rows st' i = candidate_rows st i"
proof -
  have own: "(\<exists>r \<in> set (st_snapshots st'). sn_id r = i \<and> sn_library_id r = st_library_id st') =
      (\<exists>r \<in> set (st_snapshots st). sn_id r = i \<and> sn_library_id r = st_library_id st)"
    unfolding extends_libraryD [OF e] by (rule grown_ex [OF extends_snapshots [OF e] i])
  have raw: "filter (\<lambda>m. sb_snapshot_id m = i) (st_snapshot_members st') =
      filter (\<lambda>m. sb_snapshot_id m = i) (st_snapshot_members st)" (is "_ = ?raw")
    by (rule snapshot_members_stable [OF e i])
  have "filter (\<lambda>m. library_collection st' (sb_collection_id m)) ?raw =
      filter (\<lambda>m. library_collection st (sb_collection_id m)) ?raw"
    by (rule filter_cong) (use t library_collection_stable [OF e] in \<open>auto simp: refs_ok_def\<close>)
  then have ms: "filter (\<lambda>m. sb_snapshot_id m = i \<and> library_collection st' (sb_collection_id m)) (st_snapshot_members st') =
      filter (\<lambda>m. sb_snapshot_id m = i \<and> library_collection st (sb_collection_id m)) (st_snapshot_members st)"
    (is "?l = ?r")
    using raw by (metis (no_types, lifting) filter_filter filter_cong)
  have rowmap: "(case version_row_of st' (sb_version_id m) of None \<Rightarrow> []
       | Some v \<Rightarrow> if library_source st' (ve_source_id v)
           then map (\<lambda>f. (f, ve_source_id v, m)) (filter (\<lambda>f. fr_version_id f = ve_id v) (st_fragments st')) else []) =
     (case version_row_of st (sb_version_id m) of None \<Rightarrow> []
       | Some v \<Rightarrow> if library_source st (ve_source_id v)
           then map (\<lambda>f. (f, ve_source_id v, m)) (filter (\<lambda>f. fr_version_id f = ve_id v) (st_fragments st)) else [])"
    if "m \<in> set ?r" for m
  proof -
    have v: "sb_version_id m \<in> ve_id ` set (st_versions st)" using that t by (auto simp: refs_ok_def)
    then obtain v where v': "version_row_of st (sb_version_id m) = Some v"
      using version_row_of_ex by blast
    have "library_source st' (ve_source_id v) = library_source st (ve_source_id v)"
      using t version_row_ofD [OF v'] by (intro library_source_stable [OF e]) (auto simp: refs_ok_def)
    moreover have "filter (\<lambda>f. fr_version_id f = ve_id v) (st_fragments st') =
        filter (\<lambda>f. fr_version_id f = ve_id v) (st_fragments st)"
      using extends_version_fragments [OF e] version_row_ofD [OF v'] unfolding stable_def by blast
    ultimately show ?thesis unfolding version_row_of_stable [OF e v] v' by simp
  qed
  show ?thesis
    unfolding candidate_rows_def own ms by (intro if_cong refl arg_cong [where f = concat] map_cong rowmap)
qed

lemma family_pairs_stable:
  assumes e: "extends st st'" and t: "refs_ok st"
    and s: "set sources \<subseteq> fm_source_id ` set (st_family_members st)"
  shows "family_pairs st' sources = family_pairs st sources"
proof -
  have raw: "filter (\<lambda>m. fm_source_id m \<in> set sources) (st_family_members st') =
      filter (\<lambda>m. fm_source_id m \<in> set sources) (st_family_members st)" (is "_ = ?raw")
    by (rule grown_filter_set(2) [OF extends_members [OF e] s])
  have "filter (\<lambda>m. in_library_family st' (fm_family_id m)) ?raw =
      filter (\<lambda>m. in_library_family st (fm_family_id m)) ?raw"
    by (rule filter_cong) (use t in_library_family_stable [OF e] in \<open>auto simp: refs_ok_def\<close>)
  with raw have "filter (\<lambda>m. fm_source_id m \<in> set sources \<and> in_library_family st' (fm_family_id m)) (st_family_members st') =
      filter (\<lambda>m. fm_source_id m \<in> set sources \<and> in_library_family st (fm_family_id m)) (st_family_members st)"
    by (metis (no_types, lifting) filter_filter filter_cong)
  then show ?thesis unfolding family_pairs_def by simp
qed

text \<open>Every Source of a stored snapshot that can be read has a family.\<close>

lemma candidate_sources_known:
  assumes s: "reconstruct_corpus_snapshot st i = Inr s"
  shows "set (map (\<lambda>r. fst (snd r)) (candidate_rows st i)) \<subseteq> fm_source_id ` set (st_family_members st)"
proof -
  from s obtain lib cs members where
    ln: "length (filter (joined_member_row st) (filter (\<lambda>r. sb_snapshot_id r = i) (st_snapshot_members st))) =
        length (filter (\<lambda>r. sb_snapshot_id r = i) (st_snapshot_members st))"
    and mr: "map_res (stored_member st) (sort_key (\<lambda>r. (sb_collection_id r, sb_version_id r))
        (filter (joined_member_row st) (filter (\<lambda>r. sb_snapshot_id r = i) (st_snapshot_members st)))) = Inr members"
    unfolding reconstruct_corpus_snapshot_def rebuild_snapshot_def
    by (auto simp: res_bind_eq_Inr reraise_Inr Let_def split: option.splits if_splits)
  have all: "\<exists>x. stored_member st m = Inr x"
    if "m \<in> set (st_snapshot_members st)" "sb_snapshot_id m = i" for m
  proof -
    have "joined_member_row st m"
      using ln that by (metis (mono_tags, lifting) filter_True length_filter_less mem_Collect_eq nat_neq_iff set_filter)
    then show ?thesis using map_res_InrD [OF mr] that by simp
  qed
  show ?thesis
  proof
    fix x assume "x \<in> set (map (\<lambda>r. fst (snd r)) (candidate_rows st i))"
    then obtain m v where m: "m \<in> set (st_snapshot_members st)" "sb_snapshot_id m = i"
      "version_row_of st (sb_version_id m) = Some v" "x = ve_source_id v"
      by (auto simp: candidate_rows_def split: if_splits option.splits) metis
    then obtain l where "lineage_for_source st (ve_source_id v) = Inr l"
      using all [OF m(1,2)] by (auto simp: stored_member_def lineage_member_def res_bind_eq_Inr)
    then show "x \<in> fm_source_id ` set (st_family_members st)"
      using lineage_for_source_known m(4) by simp
  qed
qed

lemma snapshot_candidates_stable:
  assumes e: "extends st st'" and t: "refs_ok st" and s: "reconstruct_corpus_snapshot st i = Inr s"
  shows "snapshot_candidates st' i = snapshot_candidates st i"
proof -
  obtain row where row: "snapshot_row_for st i = Some row"
    using s by (auto simp: reconstruct_corpus_snapshot_def split: option.splits)
  then have i: "i \<in> sn_id ` set (st_snapshots st)" using snapshot_row_forD [OF row] by auto
  show ?thesis
    unfolding snapshot_candidates_def source_families_def candidate_rows_stable [OF e t i]
      family_pairs_stable [OF e t candidate_sources_known [OF s]] ..
qed

lemma compile_db_access_stable:
  assumes e: "extends st st'" and t: "refs_ok st" and c: "compile_db_access st p scope = Inr ca"
  shows "compile_db_access st' p scope = Inr ca"
proof -
  let ?P = "\<lambda>r. sn_library_id r = st_library_id st \<and> sn_hash r = sc_snapshot_hash scope"
  from c obtain n policy at where a: "sc_library_id scope = st_library_id st"
    "require_collections st (sc_collection_ids scope) = Inr ()"
    "get_access_policy st p = Inr (n, policy, at)"
    by (auto simp: compile_db_access_def res_bind_eq_Inr split: if_splits)
  with c obtain row rows where row: "filter ?P (st_snapshots st) = row # rows"
    by (auto simp: compile_db_access_def split: list.splits)
  with a c obtain snapshot candidates where b: "reconstruct_corpus_snapshot st (sn_id row) = Inr snapshot"
    "set (sc_collection_ids scope) \<subseteq> set (cs_collection_ids snapshot)"
    "snapshot_candidates st (sn_id row) = Inr candidates"
    "compile_access policy scope candidates = Inr ca"
    by (auto simp: compile_db_access_def res_bind_eq_Inr split: if_splits)
  have h: "sc_snapshot_hash scope \<in> sn_hash ` set (st_snapshots st)"
    using row by (auto dest!: filter_eq_ConsD)
  have f: "filter ?P (st_snapshots st') = row # rows"
    unfolding row [symmetric] by (rule grown_filter_and(1) [OF extends_hashes [OF e] h])
  show ?thesis
    unfolding compile_db_access_def extends_libraryD [OF e] f
    using a(1) b(2,4) require_collections_stable [OF e a(2)] get_access_policy_stable [OF e t a(3)]
      reconstruct_stable [OF e t b(1)] snapshot_candidates_stable [OF e t b(1)] b(3)
    by simp
qed

end
