(* ===== verification/Library_Read_Props.thy ===== *)
theory Library_Read_Props
  imports Library_Stability
begin

text \<open>
  What a capability reads: the candidates of a stored snapshot and the rows they come from.
\<close>

subsection \<open>Candidates\<close>

type_synonym candidate_row = "fragment_row \<times> string \<times> snapshot_member_row"

definition row_membership :: "candidate_row \<Rightarrow> membership" where
  "row_membership r = \<lparr>mem_collection_id = sb_collection_id (snd (snd r)), mem_state = sb_state (snd (snd r))\<rparr>"

definition part_of :: "candidate_row list \<Rightarrow> string \<Rightarrow> candidate_parts \<Rightarrow> bool" where
  "part_of rows i p \<longleftrightarrow>
     cpa_memberships p = map row_membership (filter (\<lambda>r. fr_id (fst r) = i) rows) \<and>
     (\<forall>r \<in> set rows. fr_id (fst r) = i \<longrightarrow>
        fr_version_id (fst r) = cpa_version_id p \<and> fst (snd r) = cpa_source_id p)"

text \<open>The parts gathered so far are the rows seen so far, grouped by fragment.\<close>

definition parts_inv :: "candidate_row list \<Rightarrow> (string \<times> candidate_parts) list \<Rightarrow> bool" where
  "parts_inv rows ps \<longleftrightarrow>
     distinct (map fst ps) \<and> fst ` set ps = (\<lambda>r. fr_id (fst r)) ` set rows \<and>
     (\<forall>(i, p) \<in> set ps. part_of rows i p)"

lemma part_of_other: "fr_id (fst r) \<noteq> i \<Longrightarrow> part_of (rows @ [r]) i p = part_of rows i p"
  by (auto simp: part_of_def)

lemma gather_row_parts:
  assumes g: "gather_row r ps = Inr ps'" and i: "parts_inv rows ps"
  shows "parts_inv (rows @ [r]) ps'"
proof -
  let ?i = "fr_id (fst r)" and ?m = "row_membership r"
  have mk: "make_membership (sb_collection_id (snd (snd r))) (sb_state (snd (snd r))) = Inr ?m"
    using g by (auto simp: gather_row_def Let_def res_bind_eq_Inr reraise_Inr make_membership_def row_membership_def)
  show ?thesis
  proof (cases "map_of ps ?i")
    case None
    have new: "?i \<notin> fst ` set ps" using None by (simp add: map_of_eq_None_iff)
    then have none: "filter (\<lambda>x. fr_id (fst x) = ?i) rows = []"
      using i unfolding parts_inv_def filter_empty_conv by (metis (no_types, lifting) imageI)
    have ps': "ps' = ps @ [(?i, \<lparr>cpa_version_id = fr_version_id (fst r), cpa_source_id = fst (snd r),
        cpa_memberships = [?m]\<rparr>)]"
      using g None mk by (auto simp: gather_row_def Let_def)
    have old: "part_of (rows @ [r]) k p" if "(k, p) \<in> set ps" for k p
    proof -
      have "k \<noteq> ?i" using that new by (metis fst_conv imageI)
      moreover have "part_of rows k p" using that i unfolding parts_inv_def by blast
      ultimately show ?thesis using part_of_other [of r k rows p] by simp
    qed
    have here: "part_of (rows @ [r]) ?i \<lparr>cpa_version_id = fr_version_id (fst r), cpa_source_id = fst (snd r),
        cpa_memberships = [?m]\<rparr>"
      using none by (auto simp: part_of_def filter_empty_conv)
    show ?thesis
      using i new old here unfolding parts_inv_def ps' by auto
  next
    case (Some p)
    have mem: "(?i, p) \<in> set ps" using Some by (rule map_of_SomeD)
    then have known: "?i \<in> fst ` set ps" by force
    let ?p = "p\<lparr>cpa_memberships := cpa_memberships p @ [?m]\<rparr>"
    have v: "cpa_version_id p = fr_version_id (fst r)" "cpa_source_id p = fst (snd r)"
      and ps': "ps' = map (\<lambda>q. if fst q = ?i then (?i, ?p) else q) ps"
      using g Some mk known by (auto simp: gather_row_def Let_def add_part_def split: if_splits)
    have p: "part_of rows ?i p" using i mem unfolding parts_inv_def by blast
    have here: "part_of (rows @ [r]) ?i ?p" using p v by (auto simp: part_of_def)
    have keys: "map fst ps' = map fst ps" unfolding ps' by (auto simp: comp_def intro: map_cong)
    have all: "part_of (rows @ [r]) k q" if "(k, q) \<in> set ps'" for k q
    proof -
      from that obtain x where x: "x \<in> set ps" "(k, q) = (if fst x = ?i then (?i, ?p) else x)"
        unfolding ps' by auto
      show ?thesis
      proof (cases "fst x = ?i")
        case True
        with x(2) here show ?thesis by simp
      next
        case False
        with x have "(k, q) \<in> set ps" "k \<noteq> ?i" by auto
        moreover from this i have "part_of rows k q" unfolding parts_inv_def by blast
        ultimately show ?thesis using part_of_other [of r k rows q] by simp
      qed
    qed
    have "fst ` set ps' = fst ` set ps" using arg_cong [OF keys, of set] by simp
    with i known all keys show ?thesis unfolding parts_inv_def by auto
  qed
qed

lemma gather_rows_parts:
  "fold_res gather_row rows ps = Inr ps' \<Longrightarrow> parts_inv done ps \<Longrightarrow> parts_inv (done @ rows) ps'"
proof (induction rows arbitrary: ps "done")
  case (Cons r rows)
  then obtain ps1 where g: "gather_row r ps = Inr ps1" "fold_res gather_row rows ps1 = Inr ps'"
    by (auto simp: res_bind_eq_Inr)
  from Cons.IH [OF g(2) gather_row_parts [OF g(1) Cons.prems(2)]] show ?case by simp
qed simp

lemma parts_inv_Nil [simp]: "parts_inv [] []"
  by (simp add: parts_inv_def)

text \<open>A candidate stands for the rows of one fragment.\<close>

definition candidate_of :: "library_store \<Rightarrow> candidate_row list \<Rightarrow> snapshot_candidate \<Rightarrow> bool" where
  "candidate_of st rows c \<longleftrightarrow>
     (let own = filter (\<lambda>r. fr_id (fst r) = cand_fragment_id c) rows
      in own \<noteq> [] \<and>
         (\<forall>r \<in> set own. fr_version_id (fst r) = cand_version_id c \<and> fst (snd r) = cand_source_id c) \<and>
         cand_family_id c = map_of (family_pairs st (map (\<lambda>r. fst (snd r)) rows)) (cand_source_id c) \<and>
         cand_memberships c = sort_key mem_collection_id (map row_membership own))"

lemma map_res_origin: "map_res f xs = Inr ys \<Longrightarrow> y \<in> set ys \<Longrightarrow> \<exists>x \<in> set xs. f x = Inr y"
  unfolding map_res_eq_Inr list_all2_conv_all_nth by (metis in_set_conv_nth)

lemma map_res_image: "map_res f xs = Inr ys \<Longrightarrow> x \<in> set xs \<Longrightarrow> \<exists>y \<in> set ys. f x = Inr y"
  unfolding map_res_eq_Inr list_all2_conv_all_nth by (metis in_set_conv_nth)

lemma part_candidate:
  assumes p: "part_of rows i p" and i: "i \<in> (\<lambda>r. fr_id (fst r)) ` set rows"
    and c: "make_candidate i (cpa_version_id p) (cpa_source_id p)
      (map_of (family_pairs st (map (\<lambda>r. fst (snd r)) rows)) (cpa_source_id p)) (cpa_memberships p) = Inr c"
  shows "cand_fragment_id c = i \<and> candidate_of st rows c"
proof -
  have "filter (\<lambda>r. fr_id (fst r) = i) rows \<noteq> []" using i by (auto simp: filter_empty_conv)
  with p c show ?thesis
    by (auto simp: make_candidate_def res_bind_eq_Inr canonical_memberships_def candidate_of_def part_of_def
        Let_def split: if_splits)
qed

lemma snapshot_candidates_of:
  assumes s: "snapshot_candidates st i = Inr cs"
  shows "\<forall>c \<in> set cs. candidate_of st (candidate_rows st i) c"
    and "(\<lambda>r. fr_id (fst r)) ` set (candidate_rows st i) = cand_fragment_id ` set cs"
proof -
  let ?rows = "candidate_rows st i"
  let ?family = "map_of (family_pairs st (map (\<lambda>r. fst (snd r)) ?rows))"
  let ?make = "\<lambda>(i, p). make_candidate i (cpa_version_id p) (cpa_source_id p)
           (?family (cpa_source_id p)) (cpa_memberships p)"
  from s obtain ps where g: "fold_res gather_row ?rows [] = Inr ps"
    and m: "map_res ?make (sort_key fst ps) = Inr cs"
    by (auto simp: snapshot_candidates_def source_families_def res_bind_eq_Inr split: if_splits)
  have inv: "parts_inv ?rows ps" using gather_rows_parts [OF g parts_inv_Nil] by simp
  have made: "cand_fragment_id c = k \<and> candidate_of st ?rows c"
    if "(k, p) \<in> set ps" "?make (k, p) = Inr c" for k p c
    using that inv part_candidate [of ?rows k p st c] unfolding parts_inv_def by force
  show "\<forall>c \<in> set cs. candidate_of st ?rows c"
    using map_res_origin [OF m] made by fastforce
  have "k \<in> cand_fragment_id ` set cs" if "(k, p) \<in> set ps" for k p
    using map_res_image [OF m, of "(k, p)"] made that by force
  moreover have "cand_fragment_id c \<in> fst ` set ps" if "c \<in> set cs" for c
    using map_res_origin [OF m that] made by force
  ultimately have "cand_fragment_id ` set cs = fst ` set ps" by force
  with inv show "(\<lambda>r. fr_id (fst r)) ` set ?rows = cand_fragment_id ` set cs"
    unfolding parts_inv_def by simp
qed

end
