(* ===== verification/Library_Reading.thy ===== *)
theory Library_Reading
  imports Library_Read_Props
begin

text \<open>
  Which fragments a compiled authorization permits, in terms of the rows, and that they can be
  read: the specification of the authorized read boundary.
\<close>

subsection \<open>Rows of a snapshot\<close>

lemma refs_library_collection: "refs_ok st \<Longrightarrow> library_collection st c \<longleftrightarrow> c \<in> co_id ` set (st_collections st)"
  by (auto simp: refs_ok_def library_collection_def)

lemma refs_library_source: "refs_ok st \<Longrightarrow> library_source st s \<longleftrightarrow> s \<in> so_id ` set (st_sources st)"
  by (auto simp: refs_ok_def library_source_def)

lemma refs_in_library_family: "refs_ok st \<Longrightarrow> in_library_family st f \<longleftrightarrow> f \<in> fa_id ` set (st_families st)"
  by (auto simp: refs_ok_def in_library_family_def)

lemma refs_version_source: "refs_ok st \<Longrightarrow> v \<in> set (st_versions st) \<Longrightarrow> library_source st (ve_source_id v)"
  by (auto simp: refs_library_source) (auto simp: refs_ok_def)

lemma candidate_row_iff:
  assumes r: "refs_ok st" and i: "i \<in> sn_id ` set (st_snapshots st)"
  shows "(f, s, m) \<in> set (candidate_rows st i) \<longleftrightarrow>
    f \<in> set (st_fragments st) \<and> m \<in> set (st_snapshot_members st) \<and> sb_snapshot_id m = i \<and>
    sb_version_id m = fr_version_id f \<and>
    (\<exists>v. version_row_of st (fr_version_id f) = Some v \<and> s = ve_source_id v)"
proof -
  have own: "\<exists>x \<in> set (st_snapshots st). sn_id x = i \<and> sn_library_id x = st_library_id st"
    using r i by (auto simp: refs_ok_def)
  have co: "library_collection st (sb_collection_id m)" if "m \<in> set (st_snapshot_members st)" for m
    using that r by (auto simp: refs_library_collection) (auto simp: refs_ok_def)
  have "(f, s, m) \<in> set (candidate_rows st i) \<longleftrightarrow>
      m \<in> set (st_snapshot_members st) \<and> sb_snapshot_id m = i \<and>
      (\<exists>v. version_row_of st (sb_version_id m) = Some v \<and> library_source st (ve_source_id v) \<and>
         f \<in> set (st_fragments st) \<and> fr_version_id f = ve_id v \<and> s = ve_source_id v)"
    using own co by (auto simp: candidate_rows_def split: option.splits if_splits) metis
  also have "\<dots> \<longleftrightarrow> f \<in> set (st_fragments st) \<and> m \<in> set (st_snapshot_members st) \<and> sb_snapshot_id m = i \<and>
      sb_version_id m = fr_version_id f \<and>
      (\<exists>v. version_row_of st (fr_version_id f) = Some v \<and> s = ve_source_id v)"
    using version_row_ofD refs_version_source [OF r] by (metis (no_types, lifting))
  finally show ?thesis .
qed

lemma family_pairs_iff:
  "(s, f) \<in> set (family_pairs st sources) \<longleftrightarrow> s \<in> set sources \<and>
     (\<exists>m \<in> set (st_family_members st). fm_source_id m = s \<and> fm_family_id m = f \<and> in_library_family st f)"
  by (auto simp: family_pairs_def)

lemma member_unique:
  assumes "keys_ok st" and "m \<in> set (st_family_members st)" and "n \<in> set (st_family_members st)"
    and "fm_source_id m = fm_source_id n"
  shows "m = n"
proof -
  have "inj_on fm_source_id (set (st_family_members st))"
    using assms(1) unfolding keys_ok_def distinct_map by blast
  then show ?thesis using assms(2-4) by (simp add: inj_on_def)
qed

lemma family_of_source:
  assumes t: "tables_ok st" and s: "s \<in> set sources" and m: "m \<in> set (st_family_members st)" "fm_source_id m = s"
  shows "map_of (family_pairs st sources) s = Some (fm_family_id m)"
proof -
  have "in_library_family st (fm_family_id m)"
    using t m by (auto simp: tables_ok_def refs_in_library_family) (auto simp: refs_ok_def)
  then have "(s, fm_family_id m) \<in> set (family_pairs st sources)" using s m by (auto simp: family_pairs_iff)
  then obtain f where f: "map_of (family_pairs st sources) s = Some f"
    by (metis map_of_eq_None_iff fst_conv imageI not_None_eq)
  then obtain m' where m': "m' \<in> set (st_family_members st)" "fm_source_id m' = s" "fm_family_id m' = f"
    by (auto dest!: map_of_SomeD simp: family_pairs_iff)
  have "m' = m" using t m m' by (intro member_unique [of st]) (auto simp: tables_ok_def)
  with f m' show ?thesis by simp
qed

lemma fragment_unique:
  "keys_ok st \<Longrightarrow> f \<in> set (st_fragments st) \<Longrightarrow> g \<in> set (st_fragments st) \<Longrightarrow> fr_id f = fr_id g \<Longrightarrow> f = g"
  unfolding keys_ok_def distinct_map by (blast intro: inj_onD)

subsection \<open>What may be read\<close>

text \<open>
  A fragment may be read under a policy and a scope: its version is a member of the snapshot in
  a requested Collection; in every requested Collection it is active and the policy allows the
  Collection; its Source is not denied; and neither its Source, its family nor itself is excluded.
\<close>

definition readable ::
  "library_store \<Rightarrow> access_policy \<Rightarrow> request_scope \<Rightarrow> string \<Rightarrow> fragment_row \<Rightarrow> bool" where
  "readable st p scope snapshot f \<longleftrightarrow>
     (case version_row_of st (fr_version_id f) of
        None \<Rightarrow> False
      | Some v \<Rightarrow>
          (let requested_in = filter (\<lambda>m. sb_snapshot_id m = snapshot \<and> sb_version_id m = fr_version_id f \<and>
                 sb_collection_id m \<in> set (sc_collection_ids scope)) (st_snapshot_members st)
           in requested_in \<noteq> [] \<and>
              (\<forall>m \<in> set requested_in. sb_state m = ACTIVE \<and>
                 collection_effects p (sb_collection_id m) = Some ALLOW) \<and>
              source_effects p (ve_source_id v) \<noteq> Some DENY \<and>
              ve_source_id v \<notin> set (ex_source_ids (sc_exclusions scope)) \<and>
              fr_id f \<notin> set (ex_source_fragment_ids (sc_exclusions scope)) \<and>
              (\<forall>m \<in> set (st_family_members st). fm_source_id m = ve_source_id v \<longrightarrow>
                 fm_family_id m \<notin> set (ex_source_family_ids (sc_exclusions scope)))))"

lemma candidate_readable:
  assumes t: "tables_ok st" and s: "reconstruct_corpus_snapshot st i = Inr s"
    and c: "candidate_of st (candidate_rows st i) c"
    and f: "f \<in> set (st_fragments st)" "fr_id f = cand_fragment_id c"
  shows "requested scope c \<and> policy_allows p scope c \<longleftrightarrow> readable st p scope i f"
    and "\<exists>v. version_row_of st (fr_version_id f) = Some v \<and> cand_version_id c = fr_version_id f \<and>
      cand_source_id c = ve_source_id v \<and>
      (\<exists>m \<in> set (st_family_members st). fm_source_id m = ve_source_id v \<and>
         cand_family_id c = Some (fm_family_id m) \<and> in_library_family st (fm_family_id m))"
proof -
  have k: "keys_ok st" and r: "refs_ok st" using t by (auto simp: tables_ok_def)
  obtain row where row: "snapshot_row_for st i = Some row"
    using s by (auto simp: reconstruct_corpus_snapshot_def split: option.splits)
  then have i: "i \<in> sn_id ` set (st_snapshots st)" using snapshot_row_forD by fastforce
  note iff = candidate_row_iff [OF r i]
  let ?rows = "candidate_rows st i"
  let ?own = "filter (\<lambda>x. fr_id (fst x) = cand_fragment_id c) ?rows"
  obtain g sg m where g: "(g, sg, m) \<in> set ?own" using c unfolding candidate_of_def Let_def
    by (metis list.set_intros(1) neq_Nil_conv prod_cases3)
  then have "g = f" using fragment_unique [OF k] f by (auto simp: iff)
  with g obtain v where v: "version_row_of st (fr_version_id f) = Some v" and sg: "sg = ve_source_id v"
    by (auto simp: iff)
  have own: "x \<in> set ?own \<longleftrightarrow> (\<exists>m \<in> set (st_snapshot_members st). sb_snapshot_id m = i \<and>
      sb_version_id m = fr_version_id f \<and> x = (f, ve_source_id v, m))" for x
  proof -
    obtain a b m where x: "x = (a, b, m)" by (cases x)
    have "x \<in> set ?own \<longleftrightarrow> (a, b, m) \<in> set ?rows \<and> fr_id a = fr_id f" unfolding x f(2) by simp
    also have "\<dots> \<longleftrightarrow> (a, b, m) \<in> set ?rows \<and> a = f" using fragment_unique [OF k f(1)] iff by metis
    finally show ?thesis using v f(1) unfolding x iff by auto
  qed
  have vs: "cand_version_id c = fr_version_id f" "cand_source_id c = ve_source_id v"
    using c g \<open>g = f\<close> sg unfolding candidate_of_def Let_def by fastforce+
  have ms: "set (cand_memberships c) = (\<lambda>m. \<lparr>mem_collection_id = sb_collection_id m, mem_state = sb_state m\<rparr>) `
      {m \<in> set (st_snapshot_members st). sb_snapshot_id m = i \<and> sb_version_id m = fr_version_id f}"
  proof -
    have "set (cand_memberships c) = row_membership ` set ?own"
      using c by (simp add: candidate_of_def Let_def)
    also have "set ?own = (\<lambda>m. (f, ve_source_id v, m)) `
      {m \<in> set (st_snapshot_members st). sb_snapshot_id m = i \<and> sb_version_id m = fr_version_id f}"
      using own by blast
    finally show ?thesis by (simp add: image_image row_membership_def)
  qed
  have src: "ve_source_id v \<in> set (map (\<lambda>r. fst (snd r)) ?rows)" using g sg by force
  have "ve_source_id v \<in> fm_source_id ` set (st_family_members st)"
    by (rule subsetD [OF candidate_sources_known [OF s] src])
  then obtain fm where fm: "fm \<in> set (st_family_members st)" "fm_source_id fm = ve_source_id v"
    unfolding image_iff by metis
  have fam: "cand_family_id c = Some (fm_family_id fm)"
    using c family_of_source [OF t src fm] vs(2) by (simp add: candidate_of_def Let_def)
  have only: "m = fm" if "m \<in> set (st_family_members st)" "fm_source_id m = ve_source_id v" for m
    using member_unique [OF k that(1) fm(1)] that(2) fm(2) by simp
  have inlib: "in_library_family st (fm_family_id fm)"
    using r fm by (auto simp: refs_in_library_family) (auto simp: refs_ok_def)
  show "\<exists>v. version_row_of st (fr_version_id f) = Some v \<and> cand_version_id c = fr_version_id f \<and>
      cand_source_id c = ve_source_id v \<and>
      (\<exists>m \<in> set (st_family_members st). fm_source_id m = ve_source_id v \<and>
         cand_family_id c = Some (fm_family_id m) \<and> in_library_family st (fm_family_id m))"
    using v vs fam fm inlib by blast
  have families: "(\<forall>m \<in> set (st_family_members st). fm_source_id m = ve_source_id v \<longrightarrow>
       fm_family_id m \<notin> set (ex_source_family_ids (sc_exclusions scope))) \<longleftrightarrow>
     (\<forall>x. cand_family_id c = Some x \<longrightarrow> x \<notin> set (ex_source_family_ids (sc_exclusions scope)))"
    unfolding fam option.inject using only fm by metis
  show "requested scope c \<and> policy_allows p scope c \<longleftrightarrow> readable st p scope i f"
    unfolding requested_def policy_allows_def readable_def v option.case Let_def families ms vs f(2) [symmetric]
    by (auto simp: filter_empty_conv)
qed


subsection \<open>The permitted manifest\<close>

lemma compile_db_accessE:
  assumes "compile_db_access st pid scope = Inr ca"
  obtains n policy at row snapshot candidates where
    "sc_library_id scope = st_library_id st" "get_access_policy st pid = Inr (n, policy, at)"
    "row \<in> set (st_snapshots st)" "sn_hash row = sc_snapshot_hash scope"
    "reconstruct_corpus_snapshot st (sn_id row) = Inr snapshot"
    "set (sc_collection_ids scope) \<subseteq> set (cs_collection_ids snapshot)"
    "snapshot_candidates st (sn_id row) = Inr candidates"
    "compile_access policy scope candidates = Inr ca"
proof -
  let ?P = "\<lambda>r. sn_library_id r = st_library_id st \<and> sn_hash r = sc_snapshot_hash scope"
  from assms obtain n policy at where a: "sc_library_id scope = st_library_id st"
    "require_collections st (sc_collection_ids scope) = Inr ()"
    "get_access_policy st pid = Inr (n, policy, at)"
    by (auto simp: compile_db_access_def res_bind_eq_Inr split: if_splits)
  with assms obtain row rows where row: "filter ?P (st_snapshots st) = row # rows"
    by (auto simp: compile_db_access_def split: list.splits)
  with a assms obtain snapshot candidates where b: "reconstruct_corpus_snapshot st (sn_id row) = Inr snapshot"
    "set (sc_collection_ids scope) \<subseteq> set (cs_collection_ids snapshot)"
    "snapshot_candidates st (sn_id row) = Inr candidates"
    "compile_access policy scope candidates = Inr ca"
    by (auto simp: compile_db_access_def res_bind_eq_Inr split: if_splits)
  have "row \<in> set (st_snapshots st)" "sn_hash row = sc_snapshot_hash scope"
    using row by (auto dest!: filter_eq_ConsD)
  with a b show ?thesis using that by blast
qed

definition item_row :: "library_store \<Rightarrow> manifest_item \<Rightarrow> fragment_row \<Rightarrow> version_row \<Rightarrow> bool" where
  "item_row st item f v \<longleftrightarrow>
     f \<in> set (st_fragments st) \<and> fr_id f = it_fragment_id item \<and> fr_version_id f = it_version_id item \<and>
     version_row_of st (fr_version_id f) = Some v \<and> ve_source_id v = it_source_id item \<and>
     library_source st (ve_source_id v) \<and>
     (\<exists>m \<in> set (st_family_members st). fm_source_id m = ve_source_id v \<and>
        it_family_id item = Some (fm_family_id m) \<and> in_library_family st (fm_family_id m))"

lemma manifest_rows:
  assumes t: "tables_ok st" and row: "row \<in> set (st_snapshots st)"
    and s: "reconstruct_corpus_snapshot st (sn_id row) = Inr snapshot"
    and c: "snapshot_candidates st (sn_id row) = Inr candidates"
    and a: "compile_access policy scope candidates = Inr ca"
  shows "\<forall>item \<in> set (mf_items (ca_manifest ca)). \<exists>f v. item_row st item f v"
    and "it_fragment_id ` set (mf_items (ca_manifest ca)) =
      fr_id ` {f \<in> set (st_fragments st). readable st policy scope (sn_id row) f}"
proof -
  let ?i = "sn_id row"
  have k: "keys_ok st" and r: "refs_ok st" using t by (auto simp: tables_ok_def)
  have i: "?i \<in> sn_id ` set (st_snapshots st)" using row by simp
  note of = snapshot_candidates_of [OF c]
  have source: "\<exists>f \<in> set (st_fragments st). fr_id f = cand_fragment_id x" if "x \<in> set candidates" for x
  proof -
    have "cand_fragment_id x \<in> (\<lambda>r. fr_id (fst r)) ` set (candidate_rows st ?i)" using that of(2) by blast
    then obtain f b m where "(f, b, m) \<in> set (candidate_rows st ?i)" "cand_fragment_id x = fr_id f" by auto
    then show ?thesis using candidate_row_iff [OF r i] by metis
  qed
  have row_of: "\<exists>f v. item_row st item f v \<and> readable st policy scope ?i f"
    if item: "item \<in> set (mf_items (ca_manifest ca))" for item
  proof -
    from item obtain x where x: "x \<in> set candidates" "requested scope x \<and> policy_allows policy scope x"
      "candidate_item scope x = Inr item"
      unfolding compile_access_result(1) [OF a] by blast
    note fields = candidate_item_fields [OF x(3)]
    obtain f where f: "f \<in> set (st_fragments st)" "fr_id f = cand_fragment_id x" using source [OF x(1)] by blast
    note cr = candidate_readable [OF t s bspec [OF of(1) x(1)] f]
    from cr(2) obtain v where v: "version_row_of st (fr_version_id f) = Some v"
      "cand_version_id x = fr_version_id f" "cand_source_id x = ve_source_id v"
      "\<exists>m \<in> set (st_family_members st). fm_source_id m = ve_source_id v \<and>
         cand_family_id x = Some (fm_family_id m) \<and> in_library_family st (fm_family_id m)" by blast
    have "item_row st item f v"
      unfolding item_row_def using f v fields refs_version_source [OF r] version_row_ofD [OF v(1)] by simp
    moreover have "readable st policy scope ?i f" using cr(1) x(2) by blast
    ultimately show ?thesis by blast
  qed
  then show "\<forall>item \<in> set (mf_items (ca_manifest ca)). \<exists>f v. item_row st item f v" by blast
  show "it_fragment_id ` set (mf_items (ca_manifest ca)) =
      fr_id ` {f \<in> set (st_fragments st). readable st policy scope ?i f}"
  proof (intro subset_antisym subsetI)
    fix y assume "y \<in> it_fragment_id ` set (mf_items (ca_manifest ca))"
    then obtain item where "item \<in> set (mf_items (ca_manifest ca))" "y = it_fragment_id item" by blast
    with row_of show "y \<in> fr_id ` {f \<in> set (st_fragments st). readable st policy scope ?i f}"
      unfolding item_row_def by (metis (mono_tags, lifting) image_eqI mem_Collect_eq)
  next
    fix y assume "y \<in> fr_id ` {f \<in> set (st_fragments st). readable st policy scope ?i f}"
    then obtain f where f: "f \<in> set (st_fragments st)" "readable st policy scope ?i f" "y = fr_id f" by blast
    then obtain v m where "version_row_of st (fr_version_id f) = Some v" "m \<in> set (st_snapshot_members st)"
      "sb_snapshot_id m = ?i" "sb_version_id m = fr_version_id f"
      unfolding readable_def by (auto simp: filter_empty_conv Let_def split: option.splits)
    then have "(f, ve_source_id v, m) \<in> set (candidate_rows st ?i)"
      using f(1) candidate_row_iff [OF r i] by blast
    then have "fr_id f \<in> cand_fragment_id ` set candidates" using of(2) by force
    then obtain x where x: "x \<in> set candidates" "fr_id f = cand_fragment_id x" by blast
    then have ok: "requested scope x \<and> policy_allows policy scope x"
      using candidate_readable(1) [OF t s bspec [OF of(1) x(1)] f(1) x(2)] f(2) by blast
    obtain stt where "compile_loop policy scope empty_state candidates = Inr stt"
      by (rule compile_access_parts [OF a])
    then have "items_valid policy scope (set candidates)"
      using compile_loop_success [OF empty_state_inv(1)] by blast
    then obtain item where item: "candidate_item scope x = Inr item"
      using ok x(1) unfolding items_valid_def by blast
    then have "item \<in> set (mf_items (ca_manifest ca))"
      unfolding compile_access_result(1) [OF a] using x(1) ok by blast
    then show "y \<in> it_fragment_id ` set (mf_items (ca_manifest ca))"
      using candidate_item_fields [OF item] f(3) x(2) by (metis imageI)
  qed
qed


subsection \<open>Reading the rows\<close>

definition text_of :: "fragment_row \<Rightarrow> version_row \<Rightarrow> fragment_text" where
  "text_of f v =
     \<lparr>ft_fragment_id = fr_id f, ft_version_id = fr_version_id f, ft_source_id = ve_source_id v,
      ft_ordinal = fr_ordinal f, ft_kind = fr_kind f, ft_text = fr_text f,
      ft_text_sha256 = fr_text_sha256 f, ft_address = fr_address f\<rparr>"

lemma read_rows_iff:
  "(f, v) \<in> set (read_rows st ids) \<longleftrightarrow>
     f \<in> set (st_fragments st) \<and> fr_id f \<in> set ids \<and> version_row_of st (fr_version_id f) = Some v \<and>
     library_source st (ve_source_id v)"
  by (auto simp: read_rows_def split: option.splits if_splits)

lemma item_row_large:
  assumes k: "keys_ok st" and i: "item_row st item f v"
  shows "large_lineage_ok st item"
proof -
  from i obtain m where m: "m \<in> set (st_family_members st)" "fm_source_id m = ve_source_id v"
    "it_family_id item = Some (fm_family_id m)" "in_library_family st (fm_family_id m)"
    and f: "f \<in> set (st_fragments st)" "fr_id f = it_fragment_id item" "fr_version_id f = it_version_id item"
      "version_row_of st (fr_version_id f) = Some v" "ve_source_id v = it_source_id item"
      "library_source st (ve_source_id v)"
    unfolding item_row_def by blast
  obtain fs where fs: "filter (\<lambda>g. fr_id g = it_fragment_id item) (st_fragments st) = f # fs"
  proof (cases "filter (\<lambda>g. fr_id g = it_fragment_id item) (st_fragments st)")
    case Nil
    with f show ?thesis by (auto simp: filter_empty_conv)
  next
    case (Cons g gs)
    then have "g \<in> set (st_fragments st)" "fr_id g = it_fragment_id item" by (auto dest!: filter_eq_ConsD)
    with f(1,2) have "g = f" by (intro fragment_unique [OF k]) auto
    with Cons that show ?thesis by blast
  qed
  obtain ms where ms: "filter (\<lambda>x. fm_source_id x = ve_source_id v) (st_family_members st) = m # ms"
  proof (cases "filter (\<lambda>x. fm_source_id x = ve_source_id v) (st_family_members st)")
    case Nil
    with m show ?thesis by (auto simp: filter_empty_conv)
  next
    case (Cons g gs)
    then have "g \<in> set (st_family_members st)" "fm_source_id g = ve_source_id v" by (auto dest!: filter_eq_ConsD)
    with m(1,2) have "g = m" by (intro member_unique [OF k]) auto
    with Cons that show ?thesis by blast
  qed
  show ?thesis unfolding large_lineage_ok_def fs using f ms m by simp
qed

lemma read_fragments_spec:
  assumes k: "keys_ok st" and t: "texts_ok st"
    and items: "\<forall>item \<in> set (mf_items manifest). \<exists>f v. item_row st item f v"
    and ids: "set ids \<subseteq> it_fragment_id ` set (mf_items manifest)"
  shows "\<exists>texts. read_fragments st manifest ids = Inr texts \<and> map ft_fragment_id texts = ids \<and>
    (\<forall>x \<in> set texts. \<exists>f v. f \<in> set (st_fragments st) \<and> version_row_of st (fr_version_id f) = Some v \<and>
       x = text_of f v)"
proof -
  let ?items = "mf_items manifest"
  let ?expected = "dict_by it_fragment_id ?items"
  let ?rows = "read_rows st ids"
  have large: "large_read_rows st sub = Inr (read_rows st (map it_fragment_id sub))" if sub: "set sub \<subseteq> set ?items" for sub
  proof -
    have "large_lineage_ok st i \<and> it_family_id i \<noteq> None" if i: "i \<in> set sub" for i
    proof -
      obtain f v where "item_row st i f v" using i sub items by blast
      then show ?thesis using item_row_large [OF k] unfolding item_row_def by blast
    qed
    then show ?thesis unfolding large_read_rows_def by (auto simp: list_ex_iff list_all_iff)
  qed
  have rows: "(if length ids > 300
      then res_bind (map_res (require_key it_fragment_id ?items) ids) (large_read_rows st)
      else Inr (read_rows st ids)) = Inr ?rows"
  proof -
    have "\<exists>x. require_key it_fragment_id ?items i = Inr x" if "i \<in> set ids" for i
      using that ids by (intro require_key_ex) blast
    then obtain sub where sub: "map_res (require_key it_fragment_id ?items) ids = Inr sub"
      using map_res_ok [of ids] by blast
    have "list_all2 (\<lambda>i x. x \<in> set ?items \<and> it_fragment_id x = i) ids sub"
      using sub unfolding map_res_eq_Inr by (rule list_all2_mono) (rule require_key_InrD)
    then have "set sub \<subseteq> set ?items \<and> map it_fragment_id sub = ids"
      by (induction rule: list_all2_induct) auto
    with sub large show ?thesis by simp
  qed
  have row: "\<exists>v. (f, v) \<in> set ?rows \<and> fr_id f = i" if "i \<in> set ids" "f \<in> set (st_fragments st)" "fr_id f = i" for i f
  proof -
    from that ids obtain item where "item \<in> set ?items" "i = it_fragment_id item" by blast
    with items obtain g v where g: "item_row st item g v" "i = it_fragment_id item" by blast
    then have "g = f" using that by (intro fragment_unique [OF k]) (auto simp: item_row_def)
    then have "(f, v) \<in> set ?rows" using g that unfolding read_rows_iff item_row_def by (metis (no_types))
    with that(3) show ?thesis by blast
  qed
  have cover: "\<exists>f v. (f, v) \<in> set ?rows \<and> fr_id f = i" if i: "i \<in> set ids" for i
  proof -
    from i ids obtain item where "item \<in> set ?items" "i = it_fragment_id item" by blast
    with items obtain g v where "item_row st item g v" "i = it_fragment_id item" by blast
    with row [OF i, of g] show ?thesis unfolding item_row_def by metis
  qed
  have setids: "set (map (\<lambda>r. fr_id (fst r)) ?rows) = set ids"
  proof
    show "set (map (\<lambda>r. fr_id (fst r)) ?rows) \<subseteq> set ids" by (auto simp: read_rows_iff)
    show "set ids \<subseteq> set (map (\<lambda>r. fr_id (fst r)) ?rows)" using cover by force
  qed
  have one: "read_row ?expected (f, v) = Inr (fr_id f, text_of f v)" if fv: "(f, v) \<in> set ?rows" for f v
  proof -
    from fv have f: "f \<in> set (st_fragments st)" "fr_id f \<in> set ids" "version_row_of st (fr_version_id f) = Some v"
      unfolding read_rows_iff by blast+
    with ids obtain item where item: "?expected (fr_id f) = Some item"
      using dict_by_None [of it_fragment_id ?items "fr_id f"] by auto
    then have "item \<in> set ?items" "it_fragment_id item = fr_id f" by (auto dest: dict_by_SomeD)
    with items obtain g w where g: "item_row st item g w" "it_fragment_id item = fr_id f" by blast
    then have "g = f" using f by (intro fragment_unique [OF k]) (auto simp: item_row_def)
    with g f(3) have "fr_version_id f = it_version_id item" "ve_source_id v = it_source_id item"
      unfolding item_row_def by auto
    moreover have "sha256_hex (utf8 (fr_text f)) = fr_text_sha256 f"
      using t f(1) by (simp add: texts_ok_def)
    ultimately show ?thesis unfolding read_row_def Let_def fst_conv snd_conv item by (simp add: text_of_def)
  qed
  let ?pairs = "map (\<lambda>(f, v). (fr_id f, text_of f v)) ?rows"
  have texts: "map_res (read_row ?expected) ?rows = Inr ?pairs"
    by (rule map_res_Inr_total) (use one in auto)
  have found: "\<exists>f v. require_text ?pairs i = Inr (text_of f v) \<and> fr_id f = i \<and> f \<in> set (st_fragments st) \<and>
      version_row_of st (fr_version_id f) = Some v" if i: "i \<in> set ids" for i
  proof -
    obtain f v where "(f, v) \<in> set ?rows" "fr_id f = i" using cover [OF i] by blast
    then have "(i, text_of f v) \<in> set ?pairs" by force
    then have "map_of (rev ?pairs) i \<noteq> None" unfolding map_of_eq_None_iff by force
    then obtain x where x: "map_of (rev ?pairs) i = Some x" by blast
    then have "(i, x) \<in> set (rev ?pairs)" by (rule map_of_SomeD)
    then obtain f v where fv: "(f, v) \<in> set ?rows" "fr_id f = i" "x = text_of f v" by auto
    have "require_text ?pairs i = Inr (text_of f v)"
      unfolding require_text_def dict_of_def x fv(3) by simp
    with fv show ?thesis unfolding read_rows_iff by blast
  qed
  then obtain out where out: "map_res (require_text ?pairs) ids = Inr out"
    using map_res_ok [of ids "require_text ?pairs"] by blast
  have each: "list_all2 (\<lambda>i x. ft_fragment_id x = i \<and> (\<exists>f v. f \<in> set (st_fragments st) \<and>
      version_row_of st (fr_version_id f) = Some v \<and> x = text_of f v)) ids out"
  proof (rule list.rel_mono_strong [OF out [unfolded map_res_eq_Inr]])
    fix i x assume "i \<in> set ids" and x: "require_text ?pairs i = Inr x"
    with found obtain f v where "require_text ?pairs i = Inr (text_of f v)" "fr_id f = i"
      "f \<in> set (st_fragments st)" "version_row_of st (fr_version_id f) = Some v" by blast
    with x show "ft_fragment_id x = i \<and> (\<exists>f v. f \<in> set (st_fragments st) \<and>
        version_row_of st (fr_version_id f) = Some v \<and> x = text_of f v)"
      by (auto simp: text_of_def)
  qed
  have "read_fragments st manifest ids = Inr out"
    unfolding read_fragments_def Let_def rows using ids setids texts out by simp
  moreover have "map ft_fragment_id out = ids"
    using each by (induction rule: list_all2_induct) auto
  moreover have "\<forall>x \<in> set out. \<exists>f v. f \<in> set (st_fragments st) \<and>
      version_row_of st (fr_version_id f) = Some v \<and> x = text_of f v"
    using each by (induction rule: list_all2_induct) auto
  ultimately show ?thesis by blast
qed

end
