(* ===== verification/Library_Effects.thy ===== *)
theory Library_Effects
  imports Library_Reading
begin

text \<open>
  The effect of recording one source on each table: which rows are added, and what stays.
\<close>

subsection \<open>Single rows\<close>

lemma ensure_blob_row_effect:
  assumes "ensure_blob_row b st = Inr st'"
  shows "\<exists>blobs. st' = st\<lparr>st_blobs := blobs\<rparr> \<and> set (st_blobs st) \<subseteq> set blobs \<and>
    (\<exists>r \<in> set blobs. bl_sha256 r = pb_sha256 b \<and> bl_size r = pb_size b \<and> bl_path r = pb_path b)"
proof -
  let ?row = "\<lparr>bl_sha256 = pb_sha256 b, bl_size = pb_size b, bl_path = pb_path b\<rparr>"
  obtain blobs where s: "insert_blob_or_ignore ?row st = st\<lparr>st_blobs := blobs\<rparr>" "set (st_blobs st) \<subseteq> set blobs"
  proof (cases "insert_blob_or_ignore ?row st = st")
    case True
    with that [of "st_blobs st"] show ?thesis by simp
  next
    case False
    then have "insert_blob_or_ignore ?row st = st\<lparr>st_blobs := st_blobs st @ [?row]\<rparr>"
      unfolding insert_blob_or_ignore_def by meson
    with that [of "st_blobs st @ [?row]"] show ?thesis by auto
  qed
  from assms obtain r rs where "filter (\<lambda>r. bl_sha256 r = pb_sha256 b) blobs = r # rs"
    "bl_size r = pb_size b" "bl_path r = pb_path b" "st' = st\<lparr>st_blobs := blobs\<rparr>"
    unfolding ensure_blob_row_def Let_def s by (auto split: list.splits if_splits)
  with s(2) show ?thesis by (auto dest!: filter_eq_ConsD)
qed

definition with_membership :: "string \<Rightarrow> string \<Rightarrow> membership_state \<Rightarrow> membership_row list \<Rightarrow> membership_row list" where
  "with_membership c s state ms =
     (if \<exists>m \<in> set ms. me_collection_id m = c \<and> me_source_id m = s then ms
      else ms @ [\<lparr>me_collection_id = c, me_source_id = s, me_state = state\<rparr>])"

lemma with_membership_found:
  "\<exists>m \<in> set (with_membership c s state ms). me_collection_id m = c \<and> me_source_id m = s"
  by (auto simp: with_membership_def)

lemma ensure_membership_effect:
  assumes "ensure_membership c s state st = Inr st'"
  shows "st' = st\<lparr>st_memberships := with_membership c s state (st_memberships st)\<rparr>"
proof (cases "filter (\<lambda>m. me_collection_id m = c \<and> me_source_id m = s) (st_memberships st)")
  case Nil
  then have "\<not> (\<exists>m \<in> set (st_memberships st). me_collection_id m = c \<and> me_source_id m = s)"
    by (auto simp: filter_empty_conv)
  with Nil assms show ?thesis
    by (simp add: ensure_membership_def insert_membership_def require_constraints_Inr with_membership_def)
next
  case (Cons m ms)
  then have "\<exists>m \<in> set (st_memberships st). me_collection_id m = c \<and> me_source_id m = s"
    by (auto dest!: filter_eq_ConsD)
  with Cons assms show ?thesis
    by (auto simp: ensure_membership_def with_membership_def split: if_splits)
qed

lemma ensure_membership_row:
  assumes "ensure_membership c s state st = Inr st'"
  shows "\<lparr>me_collection_id = c, me_source_id = s, me_state = state\<rparr> \<in> set (st_memberships st')"
proof (cases "filter (\<lambda>m. me_collection_id m = c \<and> me_source_id m = s) (st_memberships st)")
  case Nil
  with assms show ?thesis by (auto simp: ensure_membership_def insert_membership_def require_constraints_Inr)
next
  case (Cons m ms)
  then have "m \<in> set (st_memberships st)" "me_collection_id m = c" "me_source_id m = s"
    by (auto dest!: filter_eq_ConsD)
  with Cons assms show ?thesis by (cases m) (auto simp: ensure_membership_def split: if_splits)
qed

lemma insert_fragments_effect:
  "insert_fragments v fs st = Inr st' \<Longrightarrow>
     st' = st\<lparr>st_fragments := st_fragments st @ map (fragment_row_of v) fs\<rparr>"
  unfolding insert_fragments_def
proof (induction fs arbitrary: st)
  case (Cons f fs)
  then obtain st1 where s: "insert_fragment (fragment_row_of v f) st = Inr st1"
    "fold_res (\<lambda>f. insert_fragment (fragment_row_of v f)) fs st1 = Inr st'"
    by (auto simp: res_bind_eq_Inr)
  have "st1 = st\<lparr>st_fragments := st_fragments st @ [fragment_row_of v f]\<rparr>"
    using s(1) by (simp add: insert_fragment_def require_constraints_Inr)
  with Cons.IH [OF s(2)] show ?case by simp
qed simp

text \<open>The row of a new event.\<close>

definition event_for :: "string \<Rightarrow> string \<Rightarrow> string \<Rightarrow> string \<Rightarrow> json \<Rightarrow> string \<Rightarrow> event_row" where
  "event_for e t g i p now =
     \<lparr>ev_id = e, ev_type = t, ev_aggregate_type = g, ev_aggregate_id = i, ev_payload = p,
      ev_payload_hash = canonical_sha256_hex p, ev_occurred_at = now, ev_delivered_at = None\<rparr>"

lemma insert_outbox_event_effect:
  "insert_outbox_event e t g i p now st = Inr st' \<Longrightarrow>
     st' = st\<lparr>st_events := st_events st @ [event_for e t g i p now]\<rparr>"
  by (auto simp: insert_outbox_event_def event_for_def res_bind_eq_Inr validated_label_Inr validated_timestamp_Inr
      require_constraints_Inr)

subsection \<open>A new version\<close>

definition binding_row_of ::
  "fresh_ids \<Rightarrow> string \<Rightarrow> string \<Rightarrow> identity_declaration \<Rightarrow> string \<Rightarrow> binding_row" where
  "binding_row_of ids source f d sha =
     \<lparr>bi_id = new_binding_id ids, bi_source_id = source, bi_version_id = new_version_id ids, bi_family_id = f,
      bi_connector = de_connector d, bi_connector_revision = de_connector_revision d,
      bi_representation = de_representation d, bi_part_number = de_part_number d,
      bi_part_metadata_hash = de_part_metadata_hash d, bi_sha256 = sha,
      bi_manifest_sha256 = de_manifest_sha256 d\<rparr>"

definition binding_rows ::
  "fresh_ids \<Rightarrow> string \<Rightarrow> string \<Rightarrow> identity_declaration option \<Rightarrow> string \<Rightarrow> binding_row list" where
  "binding_rows ids source f decl sha =
     (case decl of None \<Rightarrow> [] | Some d \<Rightarrow> [binding_row_of ids source f d sha])"

definition binding_events ::
  "fresh_ids \<Rightarrow> string \<Rightarrow> library_store \<Rightarrow> string \<Rightarrow> string \<Rightarrow> identity_declaration option \<Rightarrow> string \<Rightarrow> event_row list" where
  "binding_events ids now st source f decl sha =
     (case decl of
        None \<Rightarrow> []
      | Some d \<Rightarrow>
          [event_for (new_binding_event_id ids) ''source_identity.binding_recorded'' ''source_identity_binding''
             (new_binding_id ids) (binding_event_payload st (new_binding_id ids) source (new_version_id ids) f d sha) now])"

text \<open>The payloads read only the Library of the store.\<close>

lemma payload_cong:
  assumes "st_library_id st' = st_library_id st"
  shows "version_payload st' = version_payload st" and "binding_event_payload st' = binding_event_payload st"
    and "reverted_payload st' = reverted_payload st"
  by (intro ext, simp add: version_payload_def binding_event_payload_def reverted_payload_def assms)+

lemma binding_events_cong:
  assumes "st_library_id st' = st_library_id st"
  shows "binding_events ids now st' = binding_events ids now st"
  by (intro ext) (simp add: binding_events_def payload_cong [OF assms] split: option.split)

lemma record_binding_effect:
  assumes "record_binding ids now decl source f sha st = Inr st'"
  shows "st' = st\<lparr>st_bindings := st_bindings st @ binding_rows ids source f decl sha,
      st_events := st_events st @ binding_events ids now st source f decl sha\<rparr>"
proof (cases decl)
  case None
  with assms show ?thesis by (simp add: record_binding_def binding_rows_def binding_events_def)
next
  case (Some d)
  with assms obtain st1 where s: "insert_identity_binding (new_binding_id ids) source (new_version_id ids) f d sha st = Inr st1"
    "insert_outbox_event (new_binding_event_id ids) ''source_identity.binding_recorded''
      ''source_identity_binding'' (new_binding_id ids)
      (binding_event_payload st1 (new_binding_id ids) source (new_version_id ids) f d sha) now st1 = Inr st'"
    by (auto simp: record_binding_def res_bind_eq_Inr)
  from s(1) have st1: "st1 = st\<lparr>st_bindings := st_bindings st @ [binding_row_of ids source f d sha]\<rparr>"
    by (auto simp: insert_identity_binding_def insert_binding_def require_constraints_Inr binding_row_of_def)
  then have lib: "st_library_id st1 = st_library_id st" by simp
  show ?thesis
    unfolding insert_outbox_event_effect [OF s(2)] payload_cong(2) [OF lib]
    unfolding st1 Some by (simp add: binding_rows_def binding_events_def)
qed

definition heads_after :: "bool \<Rightarrow> string \<Rightarrow> string \<Rightarrow> head_row list \<Rightarrow> head_row list" where
  "heads_after created source version hs =
     (if created then hs @ [\<lparr>he_source_id = source, he_version_id = version\<rparr>] else moved_heads source version hs)"

lemma move_head_effect:
  assumes "move_head created source version st = Inr st'"
  shows "st' = st\<lparr>st_heads := heads_after created source version (st_heads st)\<rparr> \<and>
    (if created then source \<notin> he_source_id ` set (st_heads st)
     else length (filter (\<lambda>h. he_source_id h = source) (st_heads st)) = 1)"
  using assms
  by (auto simp: move_head_def insert_head_def require_constraints_Inr res_bind_eq_Inr update_head_Inr heads_after_def
      split: if_splits)

lemma record_version_effect:
  assumes "record_version ids now c r state src parsed decl d sid l n st = Inr (out, st')"
  shows "st' = st\<lparr>
      st_versions := st_versions st @ [\<lparr>ve_id = new_version_id ids, ve_source_id = sid, ve_number = n,
        ve_sha256 = sby_sha256 src, ve_size = byte_size src, ve_profile = pr_parser_profile parsed\<rparr>],
      st_fragments := st_fragments st @ map (fragment_row_of (new_version_id ids)) (pr_fragments parsed),
      st_bindings := st_bindings st @ binding_rows ids sid (fst l) decl (sby_sha256 src),
      st_heads := heads_after (d = ADDED) sid (new_version_id ids) (st_heads st),
      st_memberships := with_membership c sid state (st_memberships st),
      st_events := st_events st @ binding_events ids now st sid (fst l) decl (sby_sha256 src) @
        [event_for (new_event_id ids) ''source_version.recorded'' ''source_version'' (new_version_id ids)
          (version_payload st c r sid (new_version_id ids) l n src parsed d) now]\<rparr>"
    and "new_version_id ids \<notin> ve_id ` set (st_versions st)"
    and "if d = ADDED then sid \<notin> he_source_id ` set (st_heads st)
      else length (filter (\<lambda>h. he_source_id h = sid) (st_heads st)) = 1"
    and "out = outcome_of d sid (new_version_id ids) l (int (length (pr_fragments parsed)))"
    and "\<lparr>me_collection_id = c, me_source_id = sid, me_state = state\<rparr> \<in> set (st_memberships st')"
proof -
  let ?v = "\<lparr>ve_id = new_version_id ids, ve_source_id = sid, ve_number = n,
        ve_sha256 = sby_sha256 src, ve_size = byte_size src, ve_profile = pr_parser_profile parsed\<rparr>"
  from assms obtain st1 st2 st3 st4 st5 where s:
    "insert_version ?v st = Inr st1"
    "insert_fragments (new_version_id ids) (pr_fragments parsed) st1 = Inr st2"
    "record_binding ids now decl sid (fst l) (sby_sha256 src) st2 = Inr st3"
    "move_head (d = ADDED) sid (new_version_id ids) st3 = Inr st4"
    "ensure_membership c sid state st4 = Inr st5"
    "insert_outbox_event (new_event_id ids) ''source_version.recorded'' ''source_version''
       (new_version_id ids) (version_payload st5 c r sid (new_version_id ids) l n src parsed d) now st5 = Inr st'"
    "out = outcome_of d sid (new_version_id ids) l (int (length (pr_fragments parsed)))"
    unfolding record_version_def Let_def by (auto simp: res_simps)
  have st1: "st1 = st\<lparr>st_versions := st_versions st @ [?v]\<rparr>" and new: "new_version_id ids \<notin> ve_id ` set (st_versions st)"
    using s(1) by (auto simp: insert_version_def require_constraints_Inr)
  note st2 = insert_fragments_effect [OF s(2)]
  note st3 = record_binding_effect [OF s(3)]
  note st4 = move_head_effect [OF s(4)]
  note st5 = ensure_membership_effect [OF s(5)]
  note st6 = insert_outbox_event_effect [OF s(6)]
  have lib: "st_library_id st5 = st_library_id st" "st_library_id st2 = st_library_id st"
    unfolding st5 st4 [THEN conjunct1] st3 st2 st1 by simp_all
  show "st' = st\<lparr>
      st_versions := st_versions st @ [?v],
      st_fragments := st_fragments st @ map (fragment_row_of (new_version_id ids)) (pr_fragments parsed),
      st_bindings := st_bindings st @ binding_rows ids sid (fst l) decl (sby_sha256 src),
      st_heads := heads_after (d = ADDED) sid (new_version_id ids) (st_heads st),
      st_memberships := with_membership c sid state (st_memberships st),
      st_events := st_events st @ binding_events ids now st sid (fst l) decl (sby_sha256 src) @
        [event_for (new_event_id ids) ''source_version.recorded'' ''source_version'' (new_version_id ids)
          (version_payload st c r sid (new_version_id ids) l n src parsed d) now]\<rparr>"
    unfolding st6 payload_cong(1) [OF lib(1)]
    unfolding st5 st4 [THEN conjunct1] st3 binding_events_cong [OF lib(2)]
    unfolding st2 st1 by simp
  show "\<lparr>me_collection_id = c, me_source_id = sid, me_state = state\<rparr> \<in> set (st_memberships st')"
    using ensure_membership_row [OF s(5)] unfolding st6 by simp
  show "new_version_id ids \<notin> ve_id ` set (st_versions st)" by (rule new)
  show "if d = ADDED then sid \<notin> he_source_id ` set (st_heads st)
      else length (filter (\<lambda>h. he_source_id h = sid) (st_heads st)) = 1"
    using st4 [THEN conjunct2] unfolding st3 st2 st1 by (simp split: if_splits)
  show "out = outcome_of d sid (new_version_id ids) l (int (length (pr_fragments parsed)))" by (rule s(7))
qed


subsection \<open>A new Source\<close>

lemma lineage_for_source_root: "lineage_for_source st s = Inr l \<Longrightarrow> is_root_member st (fst l) (fst (snd l))"
  by (auto simp: lineage_for_source_def is_root_member_def lineage_rows_def split: list.splits if_splits option.splits
      dest!: filter_eq_ConsD)

lemma new_lineage_root:
  assumes "new_lineage decl sha st = Inr (Some (f, root))"
  shows "is_root_member st f root"
proof (cases decl)
  case None
  with assms have "lineage_for_content st sha None = Inr (Some (f, root))" by (simp add: new_lineage_def)
  then obtain lineages where m: "map_res (lineage_for_source st) (sources_with_content st sha None) = Inr lineages"
    and c: "(case remdups (map (\<lambda>l. (fst l, fst (snd l))) lineages) of
               [lineage] \<Rightarrow> Inr (Some lineage)
             | _ \<Rightarrow> Inl (SourceLineageIntegrityError
                      ''identical bytes resolve to incompatible SourceFamily roots'')) = Inr (Some (f, root))"
    unfolding lineage_for_content_def Let_def by (cases "sources_with_content st sha None = []") (auto simp: res_bind_eq_Inr)
  from c have r: "remdups (map (\<lambda>l. (fst l, fst (snd l))) lineages) = [(f, root)]"
    by (auto split: list.splits)
  have "(\<lambda>l. (fst l, fst (snd l))) ` set lineages = {(f, root)}"
    using arg_cong [OF r, of set] by simp
  then have "(f, root) \<in> (\<lambda>l. (fst l, fst (snd l))) ` set lineages" by blast
  then obtain l where l: "l \<in> set lineages" "f = fst l" "root = fst (snd l)" by auto
  with m obtain s where "lineage_for_source st s = Inr l"
    unfolding map_res_eq_Inr list_all2_conv_all_nth by (metis in_set_conv_nth)
  from lineage_for_source_root [OF this] show ?thesis by (simp add: l)
next
  case (Some d)
  with assms show ?thesis
    by (auto simp: new_lineage_def declared_lineage_for_new_source_def is_root_member_def
        split: list.splits dest!: filter_eq_ConsD)
qed

lemma filter_one: "distinct xs \<Longrightarrow> m \<in> set xs \<Longrightarrow> filter (\<lambda>x. x = m) xs = [m]"
  by (induction xs) (auto simp: filter_empty_conv)

lemma lineage_of_new_member:
  assumes t: "tables_ok st" and m: "m \<in> set (st_family_members st)"
    and role: "fm_role m = family_role.ROOT \<longleftrightarrow> fm_root m = None"
    and root: "\<And>x. fm_root m = Some x \<Longrightarrow> is_root_member st (fm_family_id m) x"
  shows "lineage_for_source st (fm_source_id m) =
    Inr (fm_family_id m, case fm_root m of None \<Rightarrow> fm_source_id m | Some x \<Rightarrow> x, fm_role m)"
proof -
  have inj: "inj_on fm_source_id (set (st_family_members st))" "distinct (st_family_members st)"
    using t unfolding tables_ok_def keys_ok_def distinct_map by blast+
  have lib: "in_library_family st (fm_family_id m)"
    using t m by (auto simp: tables_ok_def refs_in_library_family) (auto simp: refs_ok_def)
  have "lineage_rows st (fm_source_id m) = filter (\<lambda>x. x = m) (st_family_members st)"
    unfolding lineage_rows_def by (rule filter_cong) (use inj(1) m lib in \<open>auto dest: inj_onD\<close>)
  also have "\<dots> = [m]" by (rule filter_one [OF inj(2) m])
  finally show ?thesis using role root by (auto simp: lineage_for_source_def split: option.splits)
qed


definition source_row_of :: "library_store \<Rightarrow> fresh_ids \<Rightarrow> source_bytes \<Rightarrow> source_row" where
  "source_row_of st ids src =
     \<lparr>so_id = new_source_id ids, so_library_id = st_library_id st, so_uri = sby_uri src,
      so_media_type = sby_media_type src, so_title = last ([] # path_parts (sby_relative_path src))\<rparr>"

text \<open>The identity that a declaration names belongs to the family.\<close>

definition declared_in :: "library_store \<Rightarrow> identity_declaration option \<Rightarrow> string \<Rightarrow> bool" where
  "declared_in st decl f \<longleftrightarrow>
     (\<forall>d. decl = Some d \<longrightarrow> (\<exists>i \<in> set (st_identities st). fi_family_id i = f \<and> fi_uri i = de_uri d))"

definition identity_rows :: "fresh_ids \<Rightarrow> library_store \<Rightarrow> identity_declaration option \<Rightarrow> identity_row list" where
  "identity_rows ids st decl =
     (case decl of
        None \<Rightarrow> []
      | Some d \<Rightarrow> [\<lparr>fi_family_id = new_family_id ids, fi_library_id = st_library_id st, fi_uri = de_uri d\<rparr>])"

lemma identity_rows_sources [simp]: "identity_rows ids (st\<lparr>st_sources := x\<rparr>) decl = identity_rows ids st decl"
  by (simp add: identity_rows_def split: option.split)

lemma start_family_effect:
  assumes "start_family ids decl st = Inr st'"
  shows "st' = st\<lparr>
      st_families := st_families st @
        [\<lparr>fa_id = new_family_id ids, fa_library_id = st_library_id st, fa_label = new_source_id ids\<rparr>],
      st_identities := st_identities st @ identity_rows ids st decl\<rparr>"
  using assms
  by (cases decl) (auto simp: start_family_def insert_family_def insert_identity_def require_constraints_Inr
      res_bind_eq_Inr identity_rows_def)

lemma declared_lineage_declared:
  assumes "declared_lineage_for_new_source st d = Inr (Some (f, root))"
  shows "\<exists>i \<in> set (st_identities st). fi_family_id i = f \<and> fi_uri i = de_uri d"
  using assms by (auto simp: declared_lineage_for_new_source_def split: list.splits dest!: filter_eq_ConsD)

text \<open>A new Source starts a family or joins one.\<close>

lemma enroll_source_cases:
  assumes e: "enroll_source ids src decl st = Inr (l, st')"
  obtains
    (started) "new_source_id ids \<notin> so_id ` set (st_sources st)"
      "new_lineage decl (sby_sha256 src) (st\<lparr>st_sources := st_sources st @ [source_row_of st ids src]\<rparr>) = Inr None"
      "l = (new_family_id ids, new_source_id ids, family_role.ROOT)"
      "st' = st\<lparr>
        st_sources := st_sources st @ [source_row_of st ids src],
        st_families := st_families st @
          [\<lparr>fa_id = new_family_id ids, fa_library_id = st_library_id st, fa_label = new_source_id ids\<rparr>],
        st_identities := st_identities st @ identity_rows ids st decl,
        st_family_members := st_family_members st @
          [\<lparr>fm_family_id = new_family_id ids, fm_source_id = new_source_id ids, fm_role = family_role.ROOT,
            fm_root = None\<rparr>]\<rparr>"
  | (joined) f root where "new_source_id ids \<notin> so_id ` set (st_sources st)"
      "new_lineage decl (sby_sha256 src) (st\<lparr>st_sources := st_sources st @ [source_row_of st ids src]\<rparr>) =
        Inr (Some (f, root))"
      "l = (f, root, join_role decl f (sby_sha256 src) st)"
      "st' = st\<lparr>
        st_sources := st_sources st @ [source_row_of st ids src],
        st_family_members := st_family_members st @
          [\<lparr>fm_family_id = f, fm_source_id = new_source_id ids,
            fm_role = join_role decl f (sby_sha256 src) st, fm_root = Some root\<rparr>]\<rparr>"
proof -
  let ?sid = "new_source_id ids"
  from e obtain st1 lineage where s: "insert_source (source_row_of st ids src) st = Inr st1"
    and n: "new_lineage decl (sby_sha256 src) st1 = Inr lineage"
    and c: "(case lineage of
             None \<Rightarrow>
               res_bind (start_family ids decl st1) (\<lambda>st2.
               res_bind (enroll_member (new_family_id ids) ?sid family_role.ROOT None st2) (\<lambda>st3.
                 Inr ((new_family_id ids, ?sid, family_role.ROOT), st3)))
           | Some (f, root) \<Rightarrow>
               (let role = join_role decl f (sby_sha256 src) st1
                in res_bind (enroll_member f ?sid role (Some root) st1) (\<lambda>st2.
                     Inr ((f, root, role), st2)))) = Inr (l, st')"
    unfolding enroll_source_def Let_def res_bind_eq_Inr source_row_of_def by blast
  have st1: "st1 = st\<lparr>st_sources := st_sources st @ [source_row_of st ids src]\<rparr>"
    and new: "?sid \<notin> so_id ` set (st_sources st)"
    using s by (auto simp: insert_source_def require_constraints_Inr source_row_of_def)
  show ?thesis
  proof (cases lineage)
    case None
    with c obtain st2 where f: "start_family ids decl st1 = Inr st2"
      and m: "enroll_member (new_family_id ids) ?sid family_role.ROOT None st2 = Inr st'"
      and l: "l = (new_family_id ids, ?sid, family_role.ROOT)"
      by (auto simp: res_bind_eq_Inr)
    have "st' = st2\<lparr>st_family_members := st_family_members st2 @
        [\<lparr>fm_family_id = new_family_id ids, fm_source_id = ?sid, fm_role = family_role.ROOT, fm_root = None\<rparr>]\<rparr>"
      using m by (auto simp: enroll_member_def insert_family_member_def require_constraints_Inr)
    then show ?thesis
      using started [OF new n [unfolded None st1] l] unfolding start_family_effect [OF f] st1
      by simp
  next
    case (Some fr)
    obtain f root where fr: "fr = (f, root)" by (cases fr)
    have role: "join_role decl f (sby_sha256 src) st1 = join_role decl f (sby_sha256 src) st"
      unfolding st1 by (simp add: join_role_def declared_content_exists_def)
    from c Some fr have m: "enroll_member f ?sid (join_role decl f (sby_sha256 src) st) (Some root) st1 = Inr st'"
      and l: "l = (f, root, join_role decl f (sby_sha256 src) st)"
      unfolding role [symmetric] by (auto simp: res_bind_eq_Inr Let_def)
    have "st' = st1\<lparr>st_family_members := st_family_members st1 @
        [\<lparr>fm_family_id = f, fm_source_id = ?sid, fm_role = join_role decl f (sby_sha256 src) st, fm_root = Some root\<rparr>]\<rparr>"
      using m by (auto simp: enroll_member_def insert_family_member_def require_constraints_Inr)
    then show ?thesis using joined [OF new n [unfolded Some fr st1] l] unfolding st1 by simp
  qed
qed

lemma enroll_source_effect:
  assumes e: "enroll_source ids src decl st = Inr (l, st')" and t: "tables_ok st"
  shows "\<exists>families identities role root. st' = st\<lparr>
      st_sources := st_sources st @ [source_row_of st ids src],
      st_families := st_families st @ families,
      st_identities := st_identities st @ identities,
      st_family_members := st_family_members st @
        [\<lparr>fm_family_id = fst l, fm_source_id = new_source_id ids, fm_role = role, fm_root = root\<rparr>]\<rparr>"
    and "new_source_id ids \<notin> so_id ` set (st_sources st)"
    and "lineage_for_source st' (new_source_id ids) = Inr l"
    and "declared_in st' decl (fst l)"
proof -
  let ?sid = "new_source_id ids"
  have t': "tables_ok st'" by (rule tables.enroll_keeps [OF e t])
  have "(\<exists>families identities role root. st' = st\<lparr>
      st_sources := st_sources st @ [source_row_of st ids src],
      st_families := st_families st @ families,
      st_identities := st_identities st @ identities,
      st_family_members := st_family_members st @
        [\<lparr>fm_family_id = fst l, fm_source_id = ?sid, fm_role = role, fm_root = root\<rparr>]\<rparr>) \<and>
    lineage_for_source st' ?sid = Inr l \<and> declared_in st' decl (fst l)"
    using e
  proof (cases rule: enroll_source_cases)
    case started
    let ?row = "\<lparr>fm_family_id = new_family_id ids, fm_source_id = ?sid, fm_role = family_role.ROOT, fm_root = None\<rparr>"
    have "lineage_for_source st' ?sid = Inr l"
      using lineage_of_new_member [OF t', of ?row] started(3,4) by simp
    moreover have "declared_in st' decl (fst l)"
      unfolding declared_in_def started(3,4) by (simp add: identity_rows_def split: option.splits)
    ultimately show ?thesis unfolding started(3,4) by auto
  next
    case (joined f root)
    let ?role = "join_role decl f (sby_sha256 src) st"
    let ?row = "\<lparr>fm_family_id = f, fm_source_id = ?sid, fm_role = ?role, fm_root = Some root\<rparr>"
    have "is_root_member st' f root"
      using new_lineage_root [OF joined(2)] joined(4) by (auto simp: is_root_member_def)
    then have "lineage_for_source st' ?sid = Inr l"
      using lineage_of_new_member [OF t', of ?row] joined(3,4) by (simp add: join_role_def)
    moreover have "declared_in st' decl (fst l)"
      using joined(2-4) by (force simp: declared_in_def new_lineage_def dest: declared_lineage_declared)
    moreover have "st' = st\<lparr>
      st_sources := st_sources st @ [source_row_of st ids src],
      st_families := st_families st @ [], st_identities := st_identities st @ [],
      st_family_members := st_family_members st @
        [\<lparr>fm_family_id = fst l, fm_source_id = ?sid, fm_role = ?role, fm_root = Some root\<rparr>]\<rparr>"
      unfolding joined(3,4) by simp
    ultimately show ?thesis by blast
  qed
  then show "\<exists>families identities role root. st' = st\<lparr>
      st_sources := st_sources st @ [source_row_of st ids src],
      st_families := st_families st @ families,
      st_identities := st_identities st @ identities,
      st_family_members := st_family_members st @
        [\<lparr>fm_family_id = fst l, fm_source_id = new_source_id ids, fm_role = role, fm_root = root\<rparr>]\<rparr>"
    and "lineage_for_source st' (new_source_id ids) = Inr l" and "declared_in st' decl (fst l)"
    by blast+
  show "new_source_id ids \<notin> so_id ` set (st_sources st)" using e by (cases rule: enroll_source_cases)
qed

end
