(* ===== verification/Library_History.thy ===== *)
theory Library_History
  imports Library_Reading Library_Collections
begin

text \<open>
  A Library from its creation (\<open>initialize_library\<close>) through any sequence of its operations, with
  the capabilities issued meanwhile: the invariants of every reachable store, and what a
  capability reads at any later time.
\<close>

subsection \<open>Creation\<close>

definition empty_store :: "string \<Rightarrow> library_store" where
  "empty_store i =
     \<lparr>st_library_id = i, st_collections = [], st_roots = [], st_root_manifests = [], st_blobs = [],
      st_sources = [], st_families = [], st_family_members = [], st_identities = [], st_versions = [],
      st_fragments = [], st_heads = [], st_bindings = [], st_memberships = [], st_policies = [],
      st_policy_collections = [], st_policy_sources = [], st_snapshots = [], st_snapshot_members = [],
      st_events = []\<rparr>"

definition library_created_payload :: "library_config \<Rightarrow> json" where
  "library_created_payload c =
     JObj
       [(''schema'', JStr ''dithyramba.library_created/1.0''), (''library_id'', JStr (lc_library_id c)),
        (''name'', JStr (lc_name c)),
        (''logical_identity_hash'', JStr (library_logical_identity_hash c))]"

definition initialize_library :: "string \<Rightarrow> string \<Rightarrow> library_config \<Rightarrow> library_store res" where
  "initialize_library event_id now c =
     insert_outbox_event event_id ''library.created'' ''library'' (lc_library_id c)
       (library_created_payload c) now (empty_store (lc_library_id c))"

definition open_repository :: "string \<Rightarrow> library_store \<Rightarrow> repository" where
  "open_repository instance_id st =
     \<lparr>re_store = st, re_open = True, re_instance_id = instance_id, re_authorizations = []\<rparr>"

subsection \<open>Histories\<close>

text \<open>
  One committed operation, or one event that an export marks delivered (each in a transaction of
  its own); an operation that raises leaves the store as it was.
\<close>

inductive library_operation :: "library_store \<Rightarrow> library_store \<Rightarrow> bool" where
  recorded: "record_processed_source verify ids now c r src parsed b d st = Inr (out, st') \<Longrightarrow> library_operation st st'"
| frozen: "freeze_snapshot e now cs st = Inr (s, st') \<Longrightarrow> library_operation st st'"
| policy_created: "persist_access_policy e now n p st = Inr (q, st') \<Longrightarrow> library_operation st st'"
| collection_created: "create_collection build load e now ids c st = Inr (q, st') \<Longrightarrow> library_operation st st'"

inductive library_step :: "library_store \<Rightarrow> library_store \<Rightarrow> bool" where
  operation: "library_operation st st' \<Longrightarrow> library_step st st'"
| delivered: "validated_timestamp now = Inr now \<Longrightarrow> mark_delivered now i st = Inr st' \<Longrightarrow> library_step st st'"

inductive library_history :: "library_store \<Rightarrow> library_store \<Rightarrow> bool" where
  history_refl: "library_history st st"
| history_step: "library_history st st' \<Longrightarrow> library_step st' st'' \<Longrightarrow> library_history st st''"

lemma library_history_trans: "library_history b c \<Longrightarrow> library_history a b \<Longrightarrow> library_history a c"
  by (induction rule: library_history.induct) (auto intro: library_history.intros)

lemma mark_delivered_Inr:
  "mark_delivered now i st = Inr st' \<longleftrightarrow>
     length (filter (\<lambda>e. ev_id e = i \<and> ev_delivered_at e = None) (st_events st)) = 1 \<and>
     st' = st\<lparr>st_events := map (\<lambda>e. if ev_id e = i \<and> ev_delivered_at e = None then e\<lparr>ev_delivered_at := Some now\<rparr> else e)
       (st_events st)\<rparr>"
  by (auto simp: mark_delivered_def Let_def)

lemma library_operation_extends: "library_operation st st' \<Longrightarrow> extends st st'"
  by (induction rule: library_operation.induct)
    (auto intro: record_extends freeze_extends persist_policy_extends create_collection_extends)

lemma library_step_extends: "library_step st st' \<Longrightarrow> extends st st'"
  by (induction rule: library_step.induct) (auto simp: mark_delivered_Inr intro: library_operation_extends)

lemma library_history_extends: "library_history st st' \<Longrightarrow> extends st st'"
  by (induction rule: library_history.induct) (auto intro: extends_trans library_step_extends)

context row_invariant begin

lemma library_operation_keeps: "library_operation st st' \<Longrightarrow> I st \<Longrightarrow> I st'"
  by (induction rule: library_operation.induct)
    (auto intro: record_keeps freeze_keeps persist_policy_keeps create_collection_keeps)

end

text \<open>An invariant that the delivery of an event keeps too.\<close>

locale delivery_invariant = row_invariant +
  assumes delivery: "validated_timestamp now = Inr now \<Longrightarrow> mark_delivered now i st = Inr st' \<Longrightarrow> I st \<Longrightarrow> I st'"
begin

lemma library_step_keeps: "library_step st st' \<Longrightarrow> I st \<Longrightarrow> I st'"
  by (induction rule: library_step.induct) (blast intro: library_operation_keeps delivery)+

lemma library_history_keeps: "library_history st st' \<Longrightarrow> I st \<Longrightarrow> I st'"
  by (induction rule: library_history.induct) (auto intro: library_step_keeps)

end

lemma map_if_id: "(\<And>x. f (g x) = f x) \<Longrightarrow> map f (map (\<lambda>x. if P x then g x else x) xs) = map f xs"
  by (induction xs) simp_all

lemma delivered_ids:
  "map ev_id (map (\<lambda>e. if P e then e\<lparr>ev_delivered_at := Some now\<rparr> else e) es) = map ev_id es"
  by (rule map_if_id) simp

interpretation tables_history: delivery_invariant tables_ok
  by unfold_locales
    (auto simp: mark_delivered_Inr delivered_ids tables_ok_def keys_ok_def refs_ok_def version_of_source_def simp del: map_map)

interpretation texts_history: delivery_invariant texts_ok
  by unfold_locales (auto simp: mark_delivered_Inr texts_ok_def)

definition store_ok :: "library_store \<Rightarrow> bool" where
  "store_ok st \<longleftrightarrow> tables_ok st \<and> texts_ok st"

lemma store_okD: "store_ok st \<Longrightarrow> tables_ok st" "store_ok st \<Longrightarrow> texts_ok st"
  "store_ok st \<Longrightarrow> keys_ok st" "store_ok st \<Longrightarrow> refs_ok st"
  by (simp_all add: store_ok_def tables_ok_def)

lemma history_ok: "library_history st st' \<Longrightarrow> store_ok st \<Longrightarrow> store_ok st'"
  unfolding store_ok_def by (blast intro: tables_history.library_history_keeps texts_history.library_history_keeps)

lemma empty_store_ok: "store_ok (empty_store i)"
  by (simp add: store_ok_def tables_defs texts_ok_def empty_store_def)

lemma library_payload_object [simp]: "payload_object (library_created_payload c)"
  by (simp add: payload_object_def json_kind_def library_created_payload_def)

lemma initialize_ok: "initialize_library e now c = Inr st \<Longrightarrow> store_ok st"
  unfolding initialize_library_def store_ok_def
  using tables.event texts.event library_payload_object empty_store_ok [unfolded store_ok_def] by blast

text \<open>A store that some history of operations reaches from the creation of its Library.\<close>

definition reachable_store :: "library_store \<Rightarrow> bool" where
  "reachable_store st \<longleftrightarrow> (\<exists>e now c st0. initialize_library e now c = Inr st0 \<and> library_history st0 st)"

lemma reachable_ok: "reachable_store st \<Longrightarrow> store_ok st"
  unfolding reachable_store_def by (blast intro: history_ok initialize_ok)

subsection \<open>Repositories\<close>

text \<open>
  An open repository: committed operations and capabilities.  Object identities and
  authorization identifiers are fresh (\<open>new_id\<close> draws random UUIDs).
\<close>

inductive repository_step :: "repository \<Rightarrow> repository \<Rightarrow> bool" where
  committed: "re_open r \<Longrightarrow> library_step (re_store r) st' \<Longrightarrow> repository_step r (r\<lparr>re_store := st'\<rparr>)"
| authorized: "authorize_read ob i p scope r = Inr (a, r') \<Longrightarrow> i \<notin> fst ` set (re_authorizations r) \<Longrightarrow>
     ob \<notin> is_object ` snd ` set (re_authorizations r) \<Longrightarrow> repository_step r r'"

inductive repository_history :: "repository \<Rightarrow> repository \<Rightarrow> bool" where
  repository_refl: "repository_history r r"
| repository_more: "repository_history r r' \<Longrightarrow> repository_step r' r'' \<Longrightarrow> repository_history r r''"

lemma authorize_read_Inr:
  "authorize_read ob i p scope r = Inr (a, r') \<longleftrightarrow>
     (\<exists>ca. re_open r \<and> compile_db_access (re_store r) p scope = Inr ca \<and>
        a = \<lparr>ar_object = ob, ar_id = i, ar_instance_id = re_instance_id r, ar_policy_id = p,
             ar_scope = scope, ar_compiled = ca\<rparr> \<and>
        r' = put_authorization i
          \<lparr>is_object = ob, is_policy_id = p, is_scope = scope, is_compiled = ca,
           is_fingerprint = authorization_fingerprint a\<rparr> r)"
  by (auto simp: authorize_read_def res_bind_eq_Inr require_open_Inr Let_def)

lemma repository_step_facts:
  assumes "repository_step r r'"
  shows "library_history (re_store r) (re_store r') \<and> re_instance_id r' = re_instance_id r \<and> re_open r' = re_open r \<and>
    (\<forall>i x. map_of (re_authorizations r) i = Some x \<longrightarrow> map_of (re_authorizations r') i = Some x)"
  using assms
proof induction
  case (committed r st')
  then show ?case by (auto intro: library_history.intros)
next
  case (authorized ob i p scope r a r')
  from authorized(2) have drop: "filter (\<lambda>e. fst e \<noteq> i) (re_authorizations r) = re_authorizations r"
    by (force simp: filter_id_conv)
  have new: "k \<noteq> i" if "map_of (re_authorizations r) k = Some x" for k x
    using that authorized(2) by (metis map_of_SomeD fst_conv imageI)
  from authorized(1) drop new show ?case
    by (auto simp: authorize_read_Inr put_authorization_def intro: history_refl)
qed

lemma repository_history_facts:
  "repository_history r r' \<Longrightarrow> library_history (re_store r) (re_store r') \<and>
     re_instance_id r' = re_instance_id r \<and> re_open r' = re_open r \<and>
     (\<forall>i x. map_of (re_authorizations r) i = Some x \<longrightarrow> map_of (re_authorizations r') i = Some x)"
proof (induction rule: repository_history.induct)
  case (repository_refl r)
  then show ?case by (simp add: history_refl)
next
  case (repository_more r r' r'')
  with repository_step_facts [OF repository_more(2)] show ?case
    by (metis library_history_trans)
qed

end
