(* ===== verification/Library_Ingest_Props.thy ===== *)
theory Library_Ingest_Props
  imports Library_Effects Library_History
begin

text \<open>
  What recording a source does: which of the four dispositions it has and what the store then
  says about the source; that recording it again changes nothing; and that the read-only fast
  path answers as the recording would.
\<close>

subsection \<open>Heads and versions\<close>

lemma head_version_Some:
  assumes t: "tables_ok st" and h: "h \<in> set (st_heads st)" "he_source_id h = s"
  shows "\<exists>v \<in> set (st_versions st). head_version st s = Some v \<and> ve_id v = he_version_id h \<and> ve_source_id v = s"
proof -
  have k: "keys_ok st" and r: "refs_ok st" using t by (auto simp: tables_ok_def)
  have inj: "inj_on he_source_id (set (st_heads st))" and d: "distinct (st_heads st)"
    using k unfolding keys_ok_def distinct_map by blast+
  have "filter (\<lambda>x. he_source_id x = s) (st_heads st) = filter (\<lambda>x. x = h) (st_heads st)"
    by (rule filter_cong) (use inj h in \<open>auto dest: inj_onD\<close>)
  also have "\<dots> = [h]" by (rule filter_one [OF d h(1)])
  finally have hs: "filter (\<lambda>x. he_source_id x = s) (st_heads st) = [h]" .
  obtain v where v: "v \<in> set (st_versions st)" "ve_id v = he_version_id h" "ve_source_id v = s"
    using r h unfolding refs_ok_def version_of_source_def by blast
  from version_row_of_unique [OF k v(1)] have "version_row_of st (he_version_id h) = Some v" by (simp add: v(2))
  then have "head_version st s = Some v"
    unfolding head_version_def hs by (auto simp: version_row_of_def split: list.splits)
  with v show ?thesis by blast
qed

lemma head_versionD:
  assumes "head_version st s = Some v"
  shows "v \<in> set (st_versions st)" and "\<exists>h \<in> set (st_heads st). he_source_id h = s \<and> he_version_id h = ve_id v"
proof -
  obtain vs where "concat (map (\<lambda>h. filter (\<lambda>v. ve_id v = he_version_id h) (st_versions st))
      (filter (\<lambda>h. he_source_id h = s) (st_heads st))) = v # vs"
    using assms by (auto simp: head_version_def split: list.splits)
  then have "v \<in> set (concat (map (\<lambda>h. filter (\<lambda>v. ve_id v = he_version_id h) (st_versions st))
      (filter (\<lambda>h. he_source_id h = s) (st_heads st))))" by simp
  then show "v \<in> set (st_versions st)" "\<exists>h \<in> set (st_heads st). he_source_id h = s \<and> he_version_id h = ve_id v"
    by auto
qed

lemma head_version_source:
  assumes t: "tables_ok st" and h: "head_version st s = Some v"
  shows "ve_source_id v = s"
proof -
  obtain x where "x \<in> set (st_heads st)" "he_source_id x = s" using head_versionD(2) [OF h] by blast
  from head_version_Some [OF t this] h show ?thesis by auto
qed

lemma versions_of_iff: "v \<in> set (versions_of st s) \<longleftrightarrow> v \<in> set (st_versions st) \<and> ve_source_id v = s"
  by (auto simp: versions_of_def)

lemma refs_versions:
  assumes "refs_ok st"
  shows "f \<in> set (st_fragments st) \<Longrightarrow> fr_version_id f \<in> ve_id ` set (st_versions st)"
    and "b \<in> set (st_bindings st) \<Longrightarrow> bi_version_id b \<in> ve_id ` set (st_versions st)"
    and "v \<in> set (st_versions st) \<Longrightarrow> ve_source_id v \<in> so_id ` set (st_sources st)"
  using assms unfolding refs_ok_def by blast+

subsection \<open>The four ways to record\<close>

definition sources_at :: "library_store \<Rightarrow> string \<Rightarrow> source_row list" where
  "sources_at st uri = filter (\<lambda>s. so_library_id s = st_library_id st \<and> so_uri s = uri) (st_sources st)"

definition record_guards ::
  "(promoted_blob \<Rightarrow> unit res) \<Rightarrow> string \<Rightarrow> source_bytes \<Rightarrow> parse_result \<Rightarrow> promoted_blob \<Rightarrow> bool" where
  "record_guards verify root src parsed b \<longleftrightarrow>
     pr_status parsed = PROCESSED \<and> pb_sha256 b = sby_sha256 src \<and> pb_size b = byte_size src \<and>
     validated_timestamp (sby_modified_at src) = Inr (sby_modified_at src) \<and>
     validated_label (pr_parser_profile parsed) ''parser profile'' = Inr (pr_parser_profile parsed) \<and>
     validated_label root ''Collection root ID'' = Inr root \<and> verify b = Inr ()"

lemma record_processed_source_iff:
  "record_processed_source verify ids now c root src parsed b decl st = Inr x \<longleftrightarrow>
     record_guards verify root src parsed b \<and> record_transaction ids now c root src parsed b decl st = Inr x"
  by (auto simp: record_processed_source_def record_guards_def res_bind_eq_Inr on_integrity_error_Inr
      validated_label_Inr validated_timestamp_Inr split: if_splits)

lemma record_cases:
  assumes "record_processed_source verify ids now c root src parsed b decl st = Inr (out, st')"
  obtains
    (added) state st1 l st2 where
      "record_guards verify root src parsed b" "ingest_scope st c root src = Inr state"
      "ensure_blob_row b st = Inr st1" "sources_at st1 (sby_uri src) = []"
      "enroll_source ids src decl st1 = Inr (l, st2)"
      "record_version ids now c root state src parsed decl ADDED (new_source_id ids) l 1 st2 = Inr (out, st')"
  | (known) state st1 s rest l v where
      "record_guards verify root src parsed b" "ingest_scope st c root src = Inr state"
      "ensure_blob_row b st = Inr st1" "sources_at st1 (sby_uri src) = s # rest"
      "so_media_type s = sby_media_type src" "known_lineage decl (so_id s) st1 = Inr l"
      "versions_of st1 (so_id s) \<noteq> []" "head_version st1 (so_id s) = Some v"
      "(if same_content src (pr_parser_profile parsed) v then keep_head c state decl (so_id s) l v st1
        else case find (same_content src (pr_parser_profile parsed)) (versions_of st1 (so_id s)) of
          Some h \<Rightarrow> revert_head ids now c root state src decl (so_id s) l v h st1
        | None \<Rightarrow> res_bind (check_collision decl (sby_sha256 src) (so_id s) l st1) (\<lambda>_.
            record_version ids now c root state src parsed decl CHANGED (so_id s) l
              (Max (set (map ve_number (versions_of st1 (so_id s)))) + 1) st1)) = Inr (out, st')"
proof -
  from assms obtain state st1 where a: "record_guards verify root src parsed b"
    "ingest_scope st c root src = Inr state" "ensure_blob_row b st = Inr st1"
    and r: "(case sources_at st1 (sby_uri src) of
         [] \<Rightarrow> res_bind (enroll_source ids src decl st1) (\<lambda>(l, st2).
             record_version ids now c root state src parsed decl ADDED (new_source_id ids) l 1 st2)
       | row # _ \<Rightarrow> known_source ids now c root state src parsed decl row st1) = Inr (out, st')"
    unfolding record_processed_source_iff record_transaction_def res_bind_eq_Inr sources_at_def by blast
  show ?thesis
  proof (cases "sources_at st1 (sby_uri src)")
    case Nil
    with r obtain l st2 where "enroll_source ids src decl st1 = Inr (l, st2)"
      "record_version ids now c root state src parsed decl ADDED (new_source_id ids) l 1 st2 = Inr (out, st')"
      by (auto simp: res_bind_eq_Inr)
    with added [OF a Nil] show ?thesis by blast
  next
    case (Cons s rest)
    with r have k: "known_source ids now c root state src parsed decl s st1 = Inr (out, st')" by simp
    then have m: "so_media_type s = sby_media_type src" by (auto simp: known_source_def Let_def split: if_splits)
    with k obtain l where l: "known_lineage decl (so_id s) st1 = Inr l"
      by (auto simp: known_source_def Let_def res_bind_eq_Inr)
    with k m have n: "versions_of st1 (so_id s) \<noteq> []" by (auto simp: known_source_def Let_def split: if_splits)
    with k m l obtain v where v: "head_version st1 (so_id s) = Some v"
      by (auto simp: known_source_def Let_def split: option.splits if_splits)
    show ?thesis
      by (rule known [OF a Cons m l n v]) (use k m l n v in \<open>simp add: known_source_def Let_def\<close>)
  qed
qed


subsection \<open>Lineage and bindings\<close>

lemma lineage_cong:
  assumes "st_library_id st' = st_library_id st" "st_families st' = st_families st"
    "st_family_members st' = st_family_members st"
  shows "lineage_for_source st' s = lineage_for_source st s"
proof -
  have "is_root_member st' = is_root_member st" by (intro ext) (simp add: is_root_member_def assms)
  moreover have "lineage_rows st' = lineage_rows st"
    by (intro ext) (simp add: lineage_rows_def in_library_family_def assms)
  ultimately show ?thesis by (simp only: lineage_for_source_def)
qed

lemma remdups_one:
  assumes "set xs = {x}"
  shows "remdups xs = [x]"
proof -
  have "length (remdups xs) = Suc 0" using assms by (simp add: length_remdups_card_conv)
  then obtain y where "remdups xs = [y]" by (auto simp: length_Suc_conv)
  with assms show ?thesis by (metis list.simps(15) list.set(1) set_remdups singleton_insert_inj_eq')
qed

lemma lineage_family:
  assumes "lineage_for_source st s = Inr l"
  shows "\<exists>m \<in> set (st_family_members st). fm_source_id m = s \<and> fm_family_id m = fst l"
  using assms by (auto simp: lineage_for_source_def lineage_rows_def split: list.splits if_splits option.splits
      dest!: filter_eq_ConsD)

lemma binding_identity:
  assumes "check_binding (Some d) s v st = Inr ()"
  shows "\<exists>b \<in> set (st_bindings st). bi_source_id b = s \<and> bi_version_id b = v \<and>
    (\<exists>i \<in> set (st_identities st). fi_family_id i = bi_family_id b \<and> fi_uri i = de_uri d)"
proof -
  let ?xs = "concat (map (\<lambda>b. map (Pair b) (bound_identities st b))
             (filter (\<lambda>b. bi_source_id b = s \<and> bi_version_id b = v) (st_bindings st)))"
  from assms obtain b i xs where x: "?xs = (b, i) # xs" "fi_uri i = de_uri d"
    by (auto simp: check_binding_def require_identity_binding_def split: list.splits if_splits)
  then have "(b, i) \<in> set ?xs" by simp
  with x(2) show ?thesis by (auto simp: bound_identities_def)
qed

lemma declared_lineage:
  assumes t: "tables_ok st" and b: "b \<in> set (st_bindings st)" "bi_source_id b = s"
    and i: "i \<in> set (st_identities st)" "fi_family_id i = bi_family_id b" "fi_uri i = de_uri d"
    and l: "lineage_for_source st s = Inr l"
  shows "declared_lineage_for_existing_source st s d = Inr l" and "fst l = bi_family_id b"
proof -
  have k: "keys_ok st" and r: "refs_ok st" using t by (auto simp: tables_ok_def)
  obtain m where m: "m \<in> set (st_family_members st)" "fm_source_id m = s" "fm_family_id m = fst l"
    using lineage_family [OF l] by blast
  have fam: "bi_family_id x = fst l" if x: "x \<in> set (st_bindings st)" "bi_source_id x = s" for x
  proof -
    obtain n where "n \<in> set (st_family_members st)" "fm_source_id n = s" "fm_family_id n = bi_family_id x"
      using r x unfolding refs_ok_def by blast
    with member_unique [OF k this(1) m(1)] m show ?thesis by simp
  qed
  show fl: "fst l = bi_family_id b" using fam [OF b] by simp
  have inj: "inj_on fi_family_id (set (st_identities st))" and d: "distinct (st_identities st)"
    using k unfolding keys_ok_def distinct_map by blast+
  have lib: "fi_library_id x = st_library_id st" if "x \<in> set (st_identities st)" for x
    using r that unfolding refs_ok_def by blast
  have bound: "bound_identities st x = [i]" if "x \<in> set (st_bindings st)" "bi_source_id x = s" for x
  proof -
    have "bound_identities st x = filter (\<lambda>y. y = i) (st_identities st)"
      unfolding bound_identities_def
      by (rule filter_cong) (use fam [OF that] fl i lib inj in \<open>auto simp: inj_on_def\<close>)
    also have "\<dots> = [i]" by (rule filter_one [OF d i(1)])
    finally show ?thesis .
  qed
  let ?rows = "concat (map (\<lambda>b. map (\<lambda>i. (bi_family_id b, fi_uri i)) (bound_identities st b))
            (filter (\<lambda>b. bi_source_id b = s) (st_bindings st)))"
  have "set ?rows = {(fst l, de_uri d)}"
  proof (intro subset_antisym subsetI)
    fix x assume "x \<in> set ?rows"
    then obtain y j where "y \<in> set (st_bindings st)" "bi_source_id y = s" "j \<in> set (bound_identities st y)"
      "x = (bi_family_id y, fi_uri j)" by auto
    with bound fam i(3) show "x \<in> {(fst l, de_uri d)}" by simp
  next
    fix x assume "x \<in> {(fst l, de_uri d)}"
    then have "x = (bi_family_id b, fi_uri i)" using fl i(3) by simp
    moreover have "i \<in> set (bound_identities st b)" using bound [OF b] by simp
    ultimately show "x \<in> set ?rows" using b by auto
  qed
  then have "remdups ?rows = [(fst l, de_uri d)]" by (rule remdups_one)
  with l show "declared_lineage_for_existing_source st s d = Inr l"
    by (simp add: declared_lineage_for_existing_source_def Let_def)
qed

lemma known_lineage_intro:
  assumes "tables_ok st" and "lineage_for_source st s = Inr l" and "check_binding decl s v st = Inr ()"
  shows "known_lineage decl s st = Inr l"
proof (cases decl)
  case None
  with assms(2) show ?thesis by (simp add: known_lineage_def)
next
  case (Some d)
  obtain b i where "b \<in> set (st_bindings st)" "bi_source_id b = s" "i \<in> set (st_identities st)"
    "fi_family_id i = bi_family_id b" "fi_uri i = de_uri d"
    using binding_identity [OF assms(3) [unfolded Some]] by blast
  from declared_lineage(1) [OF assms(1) this assms(2)] Some show ?thesis by (simp add: known_lineage_def)
qed

lemma known_lineage_source:
  assumes "known_lineage decl s st = Inr l"
  shows "lineage_for_source st s = Inr l" and "declared_in st decl (fst l)"
proof -
  have "lineage_for_source st s = Inr l \<and> declared_in st decl (fst l)"
  proof (cases decl)
    case None
    with assms show ?thesis by (simp add: known_lineage_def declared_in_def)
  next
    case (Some d)
    let ?rows = "concat (map (\<lambda>b. map (\<lambda>i. (bi_family_id b, fi_uri i)) (bound_identities st b))
              (filter (\<lambda>b. bi_source_id b = s) (st_bindings st)))"
    from Some assms have r: "declared_lineage_for_existing_source st s d = Inr l" by (simp add: known_lineage_def)
    then have rest: "(case remdups ?rows of [row] \<Rightarrow>
             (if snd row \<noteq> de_uri d
              then Inl (SourceLineageIntegrityError
                ''declared logical identity conflicts with existing physical Source; rebinding is forbidden'')
              else res_bind (lineage_for_source st s) (\<lambda>l. if fst l \<noteq> fst row
                  then Inl (SourceLineageIntegrityError
                    ''declared Source identity binding disagrees with lineage'')
                  else Inr l))
         | _ \<Rightarrow> Inl (SourceLineageIntegrityError
                ''declared logical identity conflicts with existing physical Source; rebinding is forbidden'')) = Inr l"
      unfolding declared_lineage_for_existing_source_def Let_def .
    obtain row where one: "remdups ?rows = [row]"
      using rest by (cases "remdups ?rows" rule: remdups_adj.cases) auto
    note rest [unfolded one list.case]
    then have row: "snd row = de_uri d" "lineage_for_source st s = Inr l" "fst l = fst row"
      by (auto simp: res_bind_eq_Inr split: if_splits)
    have "row \<in> set (remdups ?rows)" unfolding one by simp
    then have "row \<in> set ?rows" unfolding set_remdups .
    then obtain b i where "i \<in> set (bound_identities st b)" "row = (bi_family_id b, fi_uri i)" by auto
    with row Some show ?thesis by (auto simp: declared_in_def bound_identities_def)
  qed
  then show "lineage_for_source st s = Inr l" and "declared_in st decl (fst l)" by simp_all
qed


subsection \<open>What a recorded source leaves\<close>

text \<open>
  The Source at the URI, with its head, its version, its lineage, its membership and its blob,
  is the one the outcome names.
\<close>

definition recorded ::
  "library_store \<Rightarrow> string \<Rightarrow> membership_state \<Rightarrow> source_bytes \<Rightarrow> string \<Rightarrow> promoted_blob \<Rightarrow>
     identity_declaration option \<Rightarrow> source_outcome \<Rightarrow> bool" where
  "recorded st c state src profile b decl out \<longleftrightarrow>
     (\<exists>s \<in> set (st_sources st). so_id s = out_source_id out \<and> so_uri s = sby_uri src \<and>
        so_media_type s = sby_media_type src) \<and>
     (\<exists>v. head_version st (out_source_id out) = Some v \<and> ve_id v = out_version_id out \<and>
        same_content src profile v) \<and>
     lineage_for_source st (out_source_id out) = Inr (out_family_id out, out_root_id out, out_role out) \<and>
     check_binding decl (out_source_id out) (out_version_id out) st = Inr () \<and>
     (\<exists>m \<in> set (st_memberships st). me_collection_id m = c \<and> me_source_id m = out_source_id out \<and>
        me_state m = state) \<and>
     (\<exists>r \<in> set (st_blobs st). bl_sha256 r = pb_sha256 b \<and> bl_size r = pb_size b \<and> bl_path r = pb_path b) \<and>
     out_fragments out = fragment_count st (out_version_id out)"

lemma ensure_membership_state:
  assumes "ensure_membership c s state st = Inr st'"
  shows "\<exists>m \<in> set (st_memberships st'). me_collection_id m = c \<and> me_source_id m = s \<and> me_state m = state"
  using ensure_membership_row [OF assms] by force

lemma outcome_of_simps [simp]:
  "out_disposition (outcome_of d s v l n) = d" "out_source_id (outcome_of d s v l n) = s"
  "out_version_id (outcome_of d s v l n) = v" "out_family_id (outcome_of d s v l n) = fst l"
  "out_root_id (outcome_of d s v l n) = fst (snd l)" "out_role (outcome_of d s v l n) = snd (snd l)"
  "out_fragments (outcome_of d s v l n) = n"
  by (simp_all add: outcome_of_def)

lemma sources_at_Cons:
  "sources_at st uri = s # rest \<Longrightarrow> s \<in> set (st_sources st) \<and> so_uri s = uri"
  by (auto simp: sources_at_def dest!: filter_eq_ConsD)

lemma check_binding_cong:
  assumes "st_library_id st' = st_library_id st" "st_bindings st' = st_bindings st" "st_identities st' = st_identities st"
  shows "check_binding decl s v st' = check_binding decl s v st"
  using assms by (cases decl) (simp_all add: check_binding_def require_identity_binding_def bound_identities_def)

text \<open>A blob row changes nothing that the lookups read.\<close>

lemma blob_row_same:
  assumes "ensure_blob_row b st = Inr st1"
  shows "st_sources st1 = st_sources st" "st_heads st1 = st_heads st" "st_versions st1 = st_versions st"
    "st_library_id st1 = st_library_id st" "st_memberships st1 = st_memberships st" "st_fragments st1 = st_fragments st"
    "st_events st1 = st_events st" "st_collections st1 = st_collections st" "st_roots st1 = st_roots st"
  using ensure_blob_row_effect [OF assms] by auto

lemma keep_head_recorded:
  assumes b: "ensure_blob_row b st = Inr st1" and s: "sources_at st1 (sby_uri src) = s # rest"
    and m: "so_media_type s = sby_media_type src" and l: "known_lineage decl (so_id s) st1 = Inr l"
    and h: "head_version st1 (so_id s) = Some v" "same_content src profile v"
    and k: "keep_head c state decl (so_id s) l v st1 = Inr (out, st')"
  shows "recorded st' c state src profile b decl out"
    and "out = outcome_of UNCHANGED (so_id s) (ve_id v) l (fragment_count st1 (ve_id v))"
    and "st' = st1\<lparr>st_memberships := with_membership c (so_id s) state (st_memberships st1)\<rparr>"
proof -
  from k have x: "check_binding decl (so_id s) (ve_id v) st1 = Inr ()"
    "ensure_membership c (so_id s) state st1 = Inr st'"
    "out = outcome_of UNCHANGED (so_id s) (ve_id v) l (fragment_count st' (ve_id v))"
    by (auto simp: keep_head_def res_bind_eq_Inr)
  show st': "st' = st1\<lparr>st_memberships := with_membership c (so_id s) state (st_memberships st1)\<rparr>"
    by (rule ensure_membership_effect [OF x(2)])
  show "out = outcome_of UNCHANGED (so_id s) (ve_id v) l (fragment_count st1 (ve_id v))"
    using x(3) st' by (simp add: fragment_count_def)
  obtain r where r: "r \<in> set (st_blobs st1)" "bl_sha256 r = pb_sha256 b" "bl_size r = pb_size b" "bl_path r = pb_path b"
    using ensure_blob_row_effect [OF b] by auto
  have "lineage_for_source st' (so_id s) = Inr l"
    using known_lineage_source(1) [OF l] lineage_cong [of st' st1] st' by simp
  moreover have "check_binding decl (so_id s) (ve_id v) st' = Inr ()"
    using x(1) check_binding_cong [of st' st1] st' by simp
  moreover have "head_version st' (so_id s) = Some v" using h(1) st' by (simp add: head_version_def)
  ultimately show "recorded st' c state src profile b decl out"
    using sources_at_Cons [OF s] m h(2) r ensure_membership_state [OF x(2)] st'
    unfolding recorded_def x(3) by auto
qed

lemma new_binding_checked:
  assumes t: "tables_ok st" and bs: "st_bindings st = bs @ binding_rows ids s f decl sha"
    and new: "new_version_id ids \<notin> bi_version_id ` set bs" and d: "declared_in st decl f"
  shows "check_binding decl s (new_version_id ids) st = Inr ()"
proof (cases decl)
  case None
  then show ?thesis by (simp add: check_binding_def)
next
  case (Some d)
  let ?b = "binding_row_of ids s f d sha" and ?v = "new_version_id ids"
  have k: "keys_ok st" and r: "refs_ok st" using t by (auto simp: tables_ok_def)
  have "filter (\<lambda>b. bi_source_id b = s \<and> bi_version_id b = ?v) bs = []"
    using new unfolding filter_empty_conv by (metis imageI)
  then have one: "filter (\<lambda>b. bi_source_id b = s \<and> bi_version_id b = ?v) (st_bindings st) = [?b]"
    unfolding bs Some by (simp add: binding_rows_def binding_row_of_def)
  obtain i where i: "i \<in> set (st_identities st)" "fi_family_id i = f" "fi_uri i = de_uri d"
    using d Some unfolding declared_in_def by blast
  have inj: "inj_on fi_family_id (set (st_identities st))" and dis: "distinct (st_identities st)"
    using k unfolding keys_ok_def distinct_map by blast+
  have lib: "fi_library_id x = st_library_id st" if "x \<in> set (st_identities st)" for x
    using r that unfolding refs_ok_def by blast
  have "bound_identities st ?b = filter (\<lambda>y. y = i) (st_identities st)"
    unfolding bound_identities_def
    by (rule filter_cong) (use i inj lib in \<open>auto simp: binding_row_of_def inj_on_def\<close>)
  also have "\<dots> = [i]" by (rule filter_one [OF dis i(1)])
  finally show ?thesis
    unfolding check_binding_def Some option.case require_identity_binding_def one
    using i(3) by (simp add: binding_matches_def binding_row_of_def)
qed


lemma record_version_recorded:
  assumes rv: "record_version ids now c root state src parsed decl d sid l n st = Inr (out, st')"
    and t: "tables_ok st" and l: "lineage_for_source st sid = Inr l" "declared_in st decl (fst l)"
    and s: "\<exists>s \<in> set (st_sources st). so_id s = sid \<and> so_uri s = sby_uri src \<and> so_media_type s = sby_media_type src"
    and b: "\<exists>r \<in> set (st_blobs st). bl_sha256 r = pb_sha256 b \<and> bl_size r = pb_size b \<and> bl_path r = pb_path b"
  shows "recorded st' c state src (pr_parser_profile parsed) b decl out"
    and "filter (\<lambda>f. fr_version_id f = out_version_id out) (st_fragments st') =
      map (fragment_row_of (out_version_id out)) (pr_fragments parsed)"
proof -
  let ?ver = "new_version_id ids"
  let ?v = "\<lparr>ve_id = ?ver, ve_source_id = sid, ve_number = n, ve_sha256 = sby_sha256 src,
      ve_size = byte_size src, ve_profile = pr_parser_profile parsed\<rparr>"
  note eff = record_version_effect [OF rv]
  have t': "tables_ok st'" by (rule tables.record_version_keeps [OF rv t])
  obtain events where st': "st' = st\<lparr>
      st_versions := st_versions st @ [?v],
      st_fragments := st_fragments st @ map (fragment_row_of ?ver) (pr_fragments parsed),
      st_bindings := st_bindings st @ binding_rows ids sid (fst l) decl (sby_sha256 src),
      st_heads := heads_after (d = ADDED) sid ?ver (st_heads st),
      st_memberships := with_membership c sid state (st_memberships st),
      st_events := st_events st @ events\<rparr>" using eff(1) by blast
  have k: "keys_ok st" and r: "refs_ok st" using t by (auto simp: tables_ok_def)
  obtain h where h: "h \<in> set (st_heads st')" "he_source_id h = sid" "he_version_id h = ?ver"
  proof (cases "d = ADDED")
    case True
    then show ?thesis using that [of "\<lparr>he_source_id = sid, he_version_id = ?ver\<rparr>"] st' by (simp add: heads_after_def)
  next
    case False
    with eff(3) have "filter (\<lambda>h. he_source_id h = sid) (st_heads st) \<noteq> []" by auto
    then obtain g where "g \<in> set (st_heads st)" "he_source_id g = sid" by (auto simp: filter_empty_conv)
    then show ?thesis using False that [of "g\<lparr>he_version_id := ?ver\<rparr>"] st'
      by (force simp: heads_after_def moved_heads_def)
  qed
  obtain v where v: "v \<in> set (st_versions st')" "head_version st' sid = Some v" "ve_id v = ?ver"
    using head_version_Some [OF t' h(1,2)] h(3) by auto
  have inv: "?v \<in> set (st_versions st')" using st' by simp
  have inj: "inj_on ve_id (set (st_versions st'))"
    using t' unfolding tables_ok_def keys_ok_def distinct_map by blast
  have "v = ?v" by (rule inj_onD [OF inj _ v(1) inv]) (simp add: v(3))
  then have same: "same_content src (pr_parser_profile parsed) v" by (simp add: same_content_def)
  have frag: "filter (\<lambda>f. fr_version_id f = ?ver) (st_fragments st) = []"
    unfolding filter_empty_conv using eff(2) refs_versions(1) [OF r] by metis
  show frs: "filter (\<lambda>f. fr_version_id f = out_version_id out) (st_fragments st') =
      map (fragment_row_of (out_version_id out)) (pr_fragments parsed)"
    using frag st' unfolding eff(4) by (simp add: filter_map comp_def fragment_row_of_def)
  have cnt: "out_fragments out = fragment_count st' (out_version_id out)"
    unfolding fragment_count_def frs by (simp add: eff(4))
  have lin: "lineage_for_source st' sid = Inr l" using l(1) lineage_cong [of st' st] st' by simp
  have "?ver \<notin> bi_version_id ` set (st_bindings st)" using eff(2) refs_versions(2) [OF r] by auto
  moreover have "declared_in st' decl (fst l)" using l(2) st' by (simp add: declared_in_def)
  ultimately have chk: "check_binding decl sid ?ver st' = Inr ()"
    using new_binding_checked [OF t', of "st_bindings st"] st' by simp
  have mem: "\<exists>m \<in> set (st_memberships st'). me_collection_id m = c \<and> me_source_id m = sid \<and> me_state m = state"
    using eff(5) by force
  show "recorded st' c state src (pr_parser_profile parsed) b decl out"
    unfolding recorded_def using cnt lin chk mem v(2,3) same s b st' unfolding eff(4) by auto
qed

lemma revert_head_recorded:
  assumes rv: "revert_head ids now c root state src decl sid l v x st = Inr (out, st')"
    and t: "tables_ok st" and l: "lineage_for_source st sid = Inr l"
    and h: "head_version st sid = Some v"
    and x: "x \<in> set (st_versions st)" "ve_source_id x = sid" "same_content src profile x"
    and s: "\<exists>s \<in> set (st_sources st). so_id s = sid \<and> so_uri s = sby_uri src \<and> so_media_type s = sby_media_type src"
    and b: "\<exists>r \<in> set (st_blobs st). bl_sha256 r = pb_sha256 b \<and> bl_size r = pb_size b \<and> bl_path r = pb_path b"
  shows "recorded st' c state src profile b decl out"
    and "st' = st\<lparr>st_heads := moved_heads sid (ve_id x) (st_heads st),
      st_memberships := with_membership c sid state (st_memberships st),
      st_events := st_events st @ [event_for (new_event_id ids) ''source_head.reverted'' ''source'' sid
        (reverted_payload st c root sid (ve_id v) (ve_id x) (sby_sha256 src)) now]\<rparr>"
    and "out = outcome_of REVERTED sid (ve_id x) l (fragment_count st (ve_id x))"
    and "\<lparr>me_collection_id = c, me_source_id = sid, me_state = state\<rparr> \<in> set (st_memberships st')"
    and "check_binding decl sid (ve_id x) st = Inr ()"
proof -
  from rv obtain n st1 st2 where a: "check_binding decl sid (ve_id x) st = Inr ()"
    "update_head sid (ve_id x) st = Inr (n, st1)" "ensure_membership c sid state st1 = Inr st2"
    and e: "insert_outbox_event (new_event_id ids) ''source_head.reverted'' ''source'' sid
      (reverted_payload st2 c root sid (ve_id v) (ve_id x) (sby_sha256 src)) now st2 = Inr st'"
    and o: "out = outcome_of REVERTED sid (ve_id x) l (fragment_count st2 (ve_id x))"
    unfolding revert_head_def Let_def by (auto simp: res_bind_eq_Inr)
  have st1: "st1 = st\<lparr>st_heads := moved_heads sid (ve_id x) (st_heads st)\<rparr>"
    using a(2) unfolding update_head_Inr by blast
  note st2 = ensure_membership_effect [OF a(3)]
  note st3 = insert_outbox_event_effect [OF e]
  have lib: "st_library_id st2 = st_library_id st" unfolding st2 st1 by simp
  show st': "st' = st\<lparr>st_heads := moved_heads sid (ve_id x) (st_heads st),
      st_memberships := with_membership c sid state (st_memberships st),
      st_events := st_events st @ [event_for (new_event_id ids) ''source_head.reverted'' ''source'' sid
        (reverted_payload st c root sid (ve_id v) (ve_id x) (sby_sha256 src)) now]\<rparr>"
    unfolding st3 payload_cong(3) [OF lib] unfolding st2 st1 by simp
  show "check_binding decl sid (ve_id x) st = Inr ()" by (rule a(1))
  show "\<lparr>me_collection_id = c, me_source_id = sid, me_state = state\<rparr> \<in> set (st_memberships st')"
    using ensure_membership_row [OF a(3)] unfolding st3 by simp
  show out: "out = outcome_of REVERTED sid (ve_id x) l (fragment_count st (ve_id x))"
    unfolding o st2 st1 by (simp add: fragment_count_def)
  have t': "tables_ok st'" by (rule tables.revert_head_keeps [OF rv t])
  obtain g where "g \<in> set (st_heads st)" "he_source_id g = sid" using head_versionD(2) [OF h] by blast
  then have g: "g\<lparr>he_version_id := ve_id x\<rparr> \<in> set (st_heads st')" "he_source_id (g\<lparr>he_version_id := ve_id x\<rparr>) = sid"
    using st' by (force simp: moved_heads_def)+
  obtain y where y: "y \<in> set (st_versions st')" "head_version st' sid = Some y" "ve_id y = ve_id x"
    using head_version_Some [OF t' g] by auto
  have inj: "inj_on ve_id (set (st_versions st'))"
    using t' unfolding tables_ok_def keys_ok_def distinct_map by blast
  have "x \<in> set (st_versions st')" using x(1) st' by auto
  then have "y = x" by (rule inj_onD [OF inj y(3) y(1)])
  moreover have "lineage_for_source st' sid = Inr l" using l lineage_cong [of st' st] st' by auto
  moreover have "check_binding decl sid (ve_id x) st' = Inr ()" using a(1) check_binding_cong [of st' st] st' by auto
  moreover have "\<exists>m \<in> set (st_memberships st'). me_collection_id m = c \<and> me_source_id m = sid \<and> me_state m = state"
    using ensure_membership_state [OF a(3)] st3 by simp
  moreover have "out_fragments out = fragment_count st' (out_version_id out)"
    using st' unfolding out by (auto simp: fragment_count_def)
  ultimately show "recorded st' c state src profile b decl out"
    unfolding recorded_def using x(3) s b st' y(2) unfolding out by auto
qed


subsection \<open>Every recording\<close>

lemma blob_row_lookups:
  assumes "ensure_blob_row b st = Inr st1"
  shows "sources_at st1 uri = sources_at st uri" "head_version st1 s = head_version st s"
    "versions_of st1 s = versions_of st s"
  using blob_row_same [OF assms] by (simp_all add: sources_at_def head_version_def versions_of_def)

text \<open>The disposition that the earlier state calls for.\<close>

definition expected_disposition :: "library_store \<Rightarrow> source_bytes \<Rightarrow> string \<Rightarrow> disposition" where
  "expected_disposition st src profile =
     (case sources_at st (sby_uri src) of
        [] \<Rightarrow> ADDED
      | s # _ \<Rightarrow>
          if pred_option (same_content src profile) (head_version st (so_id s)) then UNCHANGED
          else if list_ex (same_content src profile) (versions_of st (so_id s)) then REVERTED
          else CHANGED)"

lemma record_all:
  assumes rec: "record_processed_source verify ids now c root src parsed b decl st = Inr (out, st')"
    and t: "tables_ok st"
  shows "\<exists>state. ingest_scope st c root src = Inr state \<and>
      recorded st' c state src (pr_parser_profile parsed) b decl out"
    and "out_disposition out = expected_disposition st src (pr_parser_profile parsed)"
    and "if out_disposition out \<in> {ADDED, CHANGED}
      then out_version_id out \<notin> ve_id ` set (st_versions st) \<and>
        filter (\<lambda>f. fr_version_id f = out_version_id out) (st_fragments st') =
          map (fragment_row_of (out_version_id out)) (pr_fragments parsed)
      else st_versions st' = st_versions st \<and> st_fragments st' = st_fragments st"
    and "st_library_id st' = st_library_id st \<and> st_collections st' = st_collections st \<and> st_roots st' = st_roots st"
proof -
  let ?profile = "pr_parser_profile parsed"
  have "(\<exists>state. ingest_scope st c root src = Inr state \<and> recorded st' c state src ?profile b decl out) \<and>
      out_disposition out = expected_disposition st src ?profile \<and>
      (if out_disposition out \<in> {ADDED, CHANGED}
      then out_version_id out \<notin> ve_id ` set (st_versions st) \<and>
        filter (\<lambda>f. fr_version_id f = out_version_id out) (st_fragments st') =
          map (fragment_row_of (out_version_id out)) (pr_fragments parsed)
      else st_versions st' = st_versions st \<and> st_fragments st' = st_fragments st) \<and>
      st_library_id st' = st_library_id st \<and> st_collections st' = st_collections st \<and> st_roots st' = st_roots st"
    using rec
  proof (cases rule: record_cases)
    case (added state st1 l st2)
    note same = blob_row_same [OF added(3)]
    have t1: "tables_ok st1" by (rule tables.blob_keeps [OF added(3) t])
    have t2: "tables_ok st2" by (rule tables.enroll_keeps [OF added(5) t1])
    note en = enroll_source_effect [OF added(5) t1]
    obtain families identities role rt where st2: "st2 = st1\<lparr>
      st_sources := st_sources st1 @ [source_row_of st1 ids src],
      st_families := st_families st1 @ families,
      st_identities := st_identities st1 @ identities,
      st_family_members := st_family_members st1 @
        [\<lparr>fm_family_id = fst l, fm_source_id = new_source_id ids, fm_role = role, fm_root = rt\<rparr>]\<rparr>"
      using en(1) by blast
    have src2: "\<exists>s \<in> set (st_sources st2). so_id s = new_source_id ids \<and> so_uri s = sby_uri src \<and>
        so_media_type s = sby_media_type src"
      unfolding st2 by (simp add: source_row_of_def)
    have blob2: "\<exists>r \<in> set (st_blobs st2). bl_sha256 r = pb_sha256 b \<and> bl_size r = pb_size b \<and> bl_path r = pb_path b"
      using ensure_blob_row_effect [OF added(3)] unfolding st2 by auto
    note rv = record_version_recorded [OF added(6) t2 en(3,4) src2 blob2]
    note eff = record_version_effect [OF added(6)]
    have d: "out_disposition out = ADDED" "out_version_id out = new_version_id ids" unfolding eff(4) by simp_all
    have "expected_disposition st src ?profile = ADDED"
      using added(4) unfolding expected_disposition_def blob_row_lookups [OF added(3)] by simp
    moreover have "new_version_id ids \<notin> ve_id ` set (st_versions st)" using eff(2) st2 same(3) by simp
    moreover have "st_library_id st' = st_library_id st" "st_collections st' = st_collections st" "st_roots st' = st_roots st"
      using eff(1) st2 same by auto
    ultimately show ?thesis using added(2) rv d by auto
  next
    case (known state st1 s rest l v)
    note same = blob_row_same [OF known(3)] and look = blob_row_lookups [OF known(3)]
    have t1: "tables_ok st1" by (rule tables.blob_keeps [OF known(3) t])
    have srcs: "\<exists>x \<in> set (st_sources st1). so_id x = so_id s \<and> so_uri x = sby_uri src \<and>
        so_media_type x = sby_media_type src"
      using sources_at_Cons [OF known(4)] known(5) by blast
    have blob: "\<exists>r \<in> set (st_blobs st1). bl_sha256 r = pb_sha256 b \<and> bl_size r = pb_size b \<and> bl_path r = pb_path b"
      using ensure_blob_row_effect [OF known(3)] by auto
    note lin = known_lineage_source [OF known(6)]
    have exp: "expected_disposition st src ?profile =
        (if same_content src ?profile v then UNCHANGED
         else if list_ex (same_content src ?profile) (versions_of st1 (so_id s)) then REVERTED else CHANGED)"
      using known(4,8) unfolding expected_disposition_def look by simp
    show ?thesis
    proof (cases "same_content src ?profile v")
      case True
      with known(9) have k: "keep_head c state decl (so_id s) l v st1 = Inr (out, st')" by simp
      note kr = keep_head_recorded [OF known(3-6,8) True k]
      show ?thesis using known(2) kr exp True same by simp
    next
      case False
      show ?thesis
      proof (cases "find (same_content src ?profile) (versions_of st1 (so_id s))")
        case None
        with known(9) False have rv: "record_version ids now c root state src parsed decl CHANGED (so_id s) l
              (Max (set (map ve_number (versions_of st1 (so_id s)))) + 1) st1 = Inr (out, st')"
          by (auto simp: res_bind_eq_Inr)
        note r = record_version_recorded [OF rv t1 lin srcs blob]
        note eff = record_version_effect [OF rv]
        have d: "out_disposition out = CHANGED" "out_version_id out = new_version_id ids" unfolding eff(4) by simp_all
        have "\<not> list_ex (same_content src ?profile) (versions_of st1 (so_id s))"
          using None unfolding find_None_iff list_ex_iff by blast
        moreover have "st_library_id st' = st_library_id st" "st_collections st' = st_collections st"
          "st_roots st' = st_roots st"
          using eff(1) same by auto
        ultimately show ?thesis using known(2) r d exp False eff(2) same(3) by simp
      next
        case (Some x)
        with known(9) False have rv: "revert_head ids now c root state src decl (so_id s) l v x st1 = Inr (out, st')"
          by simp
        from Some have x: "x \<in> set (versions_of st1 (so_id s))" "same_content src ?profile x"
          by (auto simp: find_Some_iff)
        then have x': "x \<in> set (st_versions st1)" "ve_source_id x = so_id s" by (auto simp: versions_of_iff)
        note r = revert_head_recorded [OF rv t1 lin(1) known(8) x' x(2) srcs blob]
        have "list_ex (same_content src ?profile) (versions_of st1 (so_id s))" using x unfolding list_ex_iff by blast
        moreover have "st_library_id st' = st_library_id st" "st_collections st' = st_collections st"
          "st_roots st' = st_roots st" "st_versions st' = st_versions st" "st_fragments st' = st_fragments st"
          using r(2) same by auto
        moreover have "out_disposition out = REVERTED" unfolding r(3) by simp
        ultimately show ?thesis using known(2) r(1) exp False by simp
      qed
    qed
  qed
  then show "\<exists>state. ingest_scope st c root src = Inr state \<and> recorded st' c state src ?profile b decl out"
    and "out_disposition out = expected_disposition st src ?profile"
    and "if out_disposition out \<in> {ADDED, CHANGED}
      then out_version_id out \<notin> ve_id ` set (st_versions st) \<and>
        filter (\<lambda>f. fr_version_id f = out_version_id out) (st_fragments st') =
          map (fragment_row_of (out_version_id out)) (pr_fragments parsed)
      else st_versions st' = st_versions st \<and> st_fragments st' = st_fragments st"
    and "st_library_id st' = st_library_id st \<and> st_collections st' = st_collections st \<and> st_roots st' = st_roots st"
    by blast+
qed


subsection \<open>Recording again\<close>

lemma filter_unique_Cons:
  assumes "x \<in> set xs" and "P x" and "\<And>y. y \<in> set xs \<Longrightarrow> P y \<Longrightarrow> y = x"
  shows "\<exists>rest. filter P xs = x # rest"
proof (cases "filter P xs")
  case Nil
  with assms(1,2) show ?thesis by (auto simp: filter_empty_conv)
next
  case (Cons y ys)
  then have "y \<in> set xs" "P y" by (auto dest!: filter_eq_ConsD)
  then have "y = x" by (rule assms(3))
  with Cons show ?thesis by blast
qed

lemma keys_inj:
  assumes "keys_ok st"
  shows "inj_on so_uri (set (st_sources st))" and "inj_on bl_sha256 (set (st_blobs st))"
    and "inj_on (\<lambda>m. (me_collection_id m, me_source_id m)) (set (st_memberships st))"
  using assms unfolding keys_ok_def distinct_map by blast+

lemma blob_row_present:
  assumes k: "keys_ok st" and r: "r \<in> set (st_blobs st)" "bl_sha256 r = pb_sha256 b" "bl_size r = pb_size b"
    "bl_path r = pb_path b"
  shows "ensure_blob_row b st = Inr st"
proof -
  have "insert_blob_or_ignore \<lparr>bl_sha256 = pb_sha256 b, bl_size = pb_size b, bl_path = pb_path b\<rparr> st = st"
    using r by (auto simp: insert_blob_or_ignore_def rev_image_eqI)
  moreover obtain rest where "filter (\<lambda>x. bl_sha256 x = pb_sha256 b) (st_blobs st) = r # rest"
    using filter_unique_Cons [of r "st_blobs st" "\<lambda>x. bl_sha256 x = pb_sha256 b", OF r(1,2)]
      inj_onD [OF keys_inj(2) [OF k]] r(1,2) by metis
  ultimately show ?thesis using r by (simp add: ensure_blob_row_def Let_def)
qed

lemma source_present:
  assumes t: "tables_ok st" and s: "s \<in> set (st_sources st)" "so_uri s = uri"
  shows "\<exists>rest. sources_at st uri = s # rest"
proof -
  have lib: "so_library_id s = st_library_id st" using t s(1) unfolding tables_ok_def refs_ok_def by blast
  have "inj_on so_uri (set (st_sources st))" using t keys_inj(1) unfolding tables_ok_def by blast
  then show ?thesis
    unfolding sources_at_def by (intro filter_unique_Cons) (use s lib in \<open>auto simp: inj_on_def\<close>)
qed

lemma membership_present:
  assumes k: "keys_ok st" and m: "m \<in> set (st_memberships st)" "me_collection_id m = c" "me_source_id m = s"
    "me_state m = state"
  shows "ensure_membership c s state st = Inr st"
proof -
  have "\<exists>rest. filter (\<lambda>x. me_collection_id x = c \<and> me_source_id x = s) (st_memberships st) = m # rest"
  proof (rule filter_unique_Cons)
    fix y assume y: "y \<in> set (st_memberships st)" "me_collection_id y = c \<and> me_source_id y = s"
    show "y = m" by (rule inj_onD [OF keys_inj(3) [OF k] _ y(1) m(1)]) (simp add: y(2) m)
  qed (use m in auto)
  with m(4) show ?thesis by (auto simp: ensure_membership_def)
qed

lemma recorded_again:
  assumes t: "tables_ok st" and r: "recorded st c state src (pr_parser_profile parsed) b decl out"
    and sc: "ingest_scope st c root src = Inr state" and g: "record_guards verify root src parsed b"
  shows "record_processed_source verify ids now c root src parsed b decl st =
    Inr (out\<lparr>out_disposition := UNCHANGED\<rparr>, st)"
proof -
  let ?profile = "pr_parser_profile parsed" and ?sid = "out_source_id out"
  let ?l = "(out_family_id out, out_root_id out, out_role out)"
  have k: "keys_ok st" using t by (simp add: tables_ok_def)
  from r obtain s v m x where s: "s \<in> set (st_sources st)" "so_id s = ?sid" "so_uri s = sby_uri src"
      "so_media_type s = sby_media_type src"
    and v: "head_version st ?sid = Some v" "ve_id v = out_version_id out" "same_content src ?profile v"
    and l: "lineage_for_source st ?sid = Inr ?l"
    and c: "check_binding decl ?sid (out_version_id out) st = Inr ()"
    and m: "m \<in> set (st_memberships st)" "me_collection_id m = c" "me_source_id m = ?sid" "me_state m = state"
    and x: "x \<in> set (st_blobs st)" "bl_sha256 x = pb_sha256 b" "bl_size x = pb_size b" "bl_path x = pb_path b"
    and n: "out_fragments out = fragment_count st (out_version_id out)"
    unfolding recorded_def by blast
  note blob = blob_row_present [OF k x]
  obtain rest where at: "sources_at st (sby_uri src) = s # rest" using source_present [OF t s(1,3)] by blast
  have kl: "known_lineage decl ?sid st = Inr ?l" by (rule known_lineage_intro [OF t l c])
  have "v \<in> set (versions_of st ?sid)"
    using head_versionD(1) [OF v(1)] head_version_source [OF t v(1)] by (simp add: versions_of_iff)
  then have vs: "versions_of st ?sid \<noteq> []" by auto
  have keep: "keep_head c state decl ?sid ?l v st = Inr (out\<lparr>out_disposition := UNCHANGED\<rparr>, st)"
    using c membership_present [OF k m] n unfolding keep_head_def v(2) by (simp add: outcome_of_def)
  have "record_transaction ids now c root src parsed b decl st = Inr (out\<lparr>out_disposition := UNCHANGED\<rparr>, st)"
    unfolding record_transaction_def sc blob sources_at_def [symmetric] res_bind_Inr at list.case
      known_source_def s(2,4) Let_def kl v(1)
    using vs v(3) keep s(4) by simp
  with g show ?thesis unfolding record_processed_source_iff by blast
qed

lemma scope_same:
  assumes "st_library_id st' = st_library_id st" "st_collections st' = st_collections st" "st_roots st' = st_roots st"
  shows "ingest_scope st' c root src = ingest_scope st c root src"
  unfolding ingest_scope_def assms ..


subsection \<open>The fast path\<close>

lemma get_blob_row:
  assumes "get_blob verify sha st = Inr b"
  shows "pb_sha256 b = sha \<and> (\<exists>r \<in> set (st_blobs st). bl_sha256 r = pb_sha256 b \<and> bl_size r = pb_size b \<and>
    bl_path r = pb_path b)"
proof -
  obtain r rs where r: "filter (\<lambda>r. bl_sha256 r = sha) (st_blobs st) = r # rs"
    using assms by (auto simp: get_blob_def res_bind_eq_Inr validated_sha256_Inr split: list.splits)
  with assms have "b = \<lparr>pb_sha256 = bl_sha256 r, pb_size = bl_size r, pb_path = bl_path r\<rparr>"
    by (auto simp: get_blob_def res_bind_eq_Inr validated_sha256_Inr Let_def split: if_splits)
  with r show ?thesis by (auto dest!: filter_eq_ConsD)
qed

lemma reusable_row_Cons:
  assumes t: "tables_ok st" and s: "sources_at st (sby_uri src) = s # rest" and v: "head_version st (so_id s) = Some v"
  shows "\<exists>more. reusable_row st c src =
    (s, v, find (\<lambda>m. me_source_id m = so_id s \<and> me_collection_id m = c) (st_memberships st)) # more"
  using s v head_version_source [OF t v] unfolding reusable_row_def sources_at_def by simp

lemma reusable_recorded:
  assumes t: "tables_ok st"
    and f: "find_reusable_unchanged_source verify c root src profile decl st = Inr (Some out)"
  shows "out_disposition out = UNCHANGED" and "1 \<le> out_fragments out"
    and "\<exists>state b. ingest_scope st c root src = Inr state \<and> get_blob verify (sby_sha256 src) st = Inr b \<and>
      recorded st c state src profile b decl out"
proof -
  from f obtain state where sc: "ingest_scope st c root src = Inr state"
    and body: "(case reusable_row st c src of
         [] \<Rightarrow> Inr None
       | (s, v, m) # _ \<Rightarrow>
           if so_media_type s \<noteq> sby_media_type src
           then Inl (PersistenceIntegrityError
             ''persisted Source media type changed for the same canonical URI'')
           else if \<not> same_content src profile v then Inr None
           else case m of
             None \<Rightarrow> Inr None
           | Some mem \<Rightarrow>
               if me_state mem \<noteq> state
               then Inl (PersistenceIntegrityError
                 ''existing Collection membership state differs from ingest scope'')
               else
                 res_bind (known_lineage decl (so_id s) st) (\<lambda>l.
                 res_bind (check_binding decl (so_id s) (ve_id v) st) (\<lambda>_.
                   if fragment_count st (ve_id v) < 1
                   then Inl (PersistenceIntegrityError
                     ''processed SourceVersion has no SourceFragments'')
                   else
                     res_bind (get_blob verify (sby_sha256 src) st) (\<lambda>_.
                       Inr (Some (outcome_of UNCHANGED (so_id s) (ve_id v) l
                         (fragment_count st (ve_id v)))))))) = Inr (Some out)"
    unfolding find_reusable_unchanged_source_def res_bind_eq_Inr by blast
  obtain s v m more where row: "reusable_row st c src = (s, v, m) # more"
    using body by (cases "reusable_row st c src") auto
  note body [unfolded row list.case prod.case]
  then have media: "so_media_type s = sby_media_type src" and same: "same_content src profile v"
    by (auto split: if_splits)
  with body [unfolded row list.case prod.case] obtain mem where mem: "m = Some mem" by (cases m) auto
  note body [unfolded row list.case prod.case mem option.case]
  with media same obtain l b where st: "me_state mem = state" and l: "known_lineage decl (so_id s) st = Inr l"
    and c: "check_binding decl (so_id s) (ve_id v) st = Inr ()"
    and n: "\<not> fragment_count st (ve_id v) < 1" and b: "get_blob verify (sby_sha256 src) st = Inr b"
    and out: "out = outcome_of UNCHANGED (so_id s) (ve_id v) l (fragment_count st (ve_id v))"
    by (auto simp: res_bind_eq_Inr split: if_splits)
  have "(s, v, m) \<in> set (reusable_row st c src)" unfolding row by simp
  then have s: "s \<in> set (st_sources st)" "so_uri s = sby_uri src" and v: "head_version st (so_id s) = Some v"
    and find: "find (\<lambda>m. me_source_id m = so_id s \<and> me_collection_id m = c) (st_memberships st) = Some mem"
    unfolding mem by (auto simp: reusable_row_def split: option.splits if_splits)
  have mm: "mem \<in> set (st_memberships st)" "me_source_id mem = so_id s" "me_collection_id mem = c"
    using find by (auto simp: find_Some_iff)
  have "recorded st c state src profile b decl out"
    unfolding recorded_def out using s v media same known_lineage_source(1) [OF l] c mm st get_blob_row [OF b]
    by auto
  with sc b show "\<exists>state b. ingest_scope st c root src = Inr state \<and> get_blob verify (sby_sha256 src) st = Inr b \<and>
      recorded st c state src profile b decl out" by blast
  show "out_disposition out = UNCHANGED" "1 \<le> out_fragments out" using n unfolding out by simp_all
qed

lemma recorded_reusable:
  assumes t: "tables_ok st" and sc: "ingest_scope st c root src = Inr state"
    and r: "recorded st c state src profile b decl out" and b: "get_blob verify (sby_sha256 src) st = Inr b"
    and lab: "validated_label profile ''parser profile'' = Inr profile" "validated_label root ''Collection root ID'' = Inr root"
    and d: "out_disposition out = UNCHANGED" and n: "1 \<le> out_fragments out"
  shows "find_reusable_unchanged_source verify c root src profile decl st = Inr (Some out)"
proof -
  let ?sid = "out_source_id out" and ?l = "(out_family_id out, out_root_id out, out_role out)"
  have k: "keys_ok st" using t by (simp add: tables_ok_def)
  from r obtain s v m where s: "s \<in> set (st_sources st)" "so_id s = ?sid" "so_uri s = sby_uri src"
      "so_media_type s = sby_media_type src"
    and v: "head_version st ?sid = Some v" "ve_id v = out_version_id out" "same_content src profile v"
    and l: "lineage_for_source st ?sid = Inr ?l"
    and c: "check_binding decl ?sid (out_version_id out) st = Inr ()"
    and m: "m \<in> set (st_memberships st)" "me_collection_id m = c" "me_source_id m = ?sid" "me_state m = state"
    and cnt: "out_fragments out = fragment_count st (out_version_id out)"
    unfolding recorded_def by blast
  obtain rest where at: "sources_at st (sby_uri src) = s # rest" using source_present [OF t s(1,3)] by blast
  obtain more where row: "reusable_row st c src =
      (s, v, find (\<lambda>m. me_source_id m = so_id s \<and> me_collection_id m = c) (st_memberships st)) # more"
    using reusable_row_Cons [OF t at] v(1) s(2) by auto
  obtain mem where find: "find (\<lambda>m. me_source_id m = so_id s \<and> me_collection_id m = c) (st_memberships st) = Some mem"
    using m s(2) by (cases "find (\<lambda>m. me_source_id m = so_id s \<and> me_collection_id m = c) (st_memberships st)")
      (auto simp: find_None_iff)
  then have mem: "mem \<in> set (st_memberships st)" "me_source_id mem = so_id s" "me_collection_id mem = c"
    by (auto simp: find_Some_iff)
  have "mem = m" by (rule inj_onD [OF keys_inj(3) [OF k] _ mem(1) m(1)]) (simp add: mem m s(2))
  then have state: "me_state mem = state" using m(4) by simp
  have kl: "known_lineage decl ?sid st = Inr ?l" by (rule known_lineage_intro [OF t l c])
  have out: "outcome_of UNCHANGED ?sid (ve_id v) ?l (fragment_count st (ve_id v)) = out"
    using d cnt v(2) by (simp add: outcome_of_def)
  show ?thesis
    unfolding find_reusable_unchanged_source_def lab sc res_bind_Inr row list.case prod.case s(2)
      find [unfolded s(2)] option.case kl state b
    using s(4) v(3) c n cnt out unfolding v(2) by simp
qed

lemma fast_path_equiv:
  assumes t: "tables_ok st" and g: "record_guards verify root src parsed b"
    and b: "get_blob verify (sby_sha256 src) st = Inr b"
  shows "find_reusable_unchanged_source verify c root src (pr_parser_profile parsed) decl st = Inr (Some out) \<longleftrightarrow>
    record_processed_source verify ids now c root src parsed b decl st = Inr (out, st) \<and>
    out_disposition out = UNCHANGED \<and> 1 \<le> out_fragments out"
proof
  assume f: "find_reusable_unchanged_source verify c root src (pr_parser_profile parsed) decl st = Inr (Some out)"
  note r = reusable_recorded [OF t f]
  from r(3) b obtain state where "ingest_scope st c root src = Inr state"
    "recorded st c state src (pr_parser_profile parsed) b decl out" by auto
  from recorded_again [OF t this(2,1) g] r(1,2)
  show "record_processed_source verify ids now c root src parsed b decl st = Inr (out, st) \<and>
    out_disposition out = UNCHANGED \<and> 1 \<le> out_fragments out" by simp
next
  assume r: "record_processed_source verify ids now c root src parsed b decl st = Inr (out, st) \<and>
    out_disposition out = UNCHANGED \<and> 1 \<le> out_fragments out"
  from record_all(1) [OF conjunct1 [OF r] t] obtain state where "ingest_scope st c root src = Inr state"
    "recorded st c state src (pr_parser_profile parsed) b decl out" by blast
  from recorded_reusable [OF t this b] r g
  show "find_reusable_unchanged_source verify c root src (pr_parser_profile parsed) decl st = Inr (Some out)"
    by (simp add: record_guards_def)
qed

lemma record_twice:
  assumes "tables_ok st" and r: "record_processed_source verify ids now c root src parsed b decl st = Inr (out, st')"
  shows "record_processed_source verify ids' now' c root src parsed b decl st' =
    Inr (out\<lparr>out_disposition := UNCHANGED\<rparr>, st')"
proof -
  note a = record_all [OF r assms(1)]
  from a(1) obtain state where s: "ingest_scope st c root src = Inr state"
    "recorded st' c state src (pr_parser_profile parsed) b decl out" by blast
  have "ingest_scope st' c root src = Inr state" using s(1) scope_same [of st' st] a(4) by simp
  moreover have "record_guards verify root src parsed b" using r unfolding record_processed_source_iff by blast
  moreover have "tables_ok st'" by (rule tables.record_keeps [OF r assms(1)])
  ultimately show ?thesis using recorded_again s(2) by blast
qed

end
