(* ===== verification/Library_Freeze.thy ===== *)
theory Library_Freeze
  imports Library_Ingest_Props
begin

text \<open>
  Freezing a snapshot: it holds the current heads of its Collections, it is read back exactly as
  it was built, and freezing again without a change finds it.
\<close>

lemma build_again:
  assumes b: "build_corpus_snapshot lib cids ms = Inr s"
  shows "build_corpus_snapshot lib (cs_collection_ids s) (cs_members s) = Inr s"
proof -
  note c = b [unfolded build_corpus_snapshot_Inr]
  then have s: "s = \<lparr>cs_library_id = lib, cs_collection_ids = sort cids, cs_members = sort_key member_key ms\<rparr>" by blast
  have "\<exists>xs. map_res (\<lambda>c. snapshot_require_id c ''collection'') (sort cids) = Inr xs"
    by (rule map_res_perm [OF conjunct1 [OF conjunct2 [OF conjunct2 [OF conjunct2 [OF conjunct2 [OF c]]]]]]) simp
  moreover have "distinct (map member_key (sort_key member_key ms))"
    using c by (simp only: distinct_map distinct_sort set_sort)
  moreover have "sort_key member_key (sort_key member_key ms) = sort_key member_key ms"
    by (rule sort_key_id_if_sorted) simp
  moreover have "sort cids \<noteq> []" using c by (metis set_empty set_sort)
  ultimately show ?thesis
    using c unfolding s build_corpus_snapshot_Inr by (simp add: sorted_sort_id)
qed

lemma snapshot_bytes_inj: "snapshot_canonical_bytes s = snapshot_canonical_bytes t \<Longrightarrow> s = t"
  unfolding snapshot_canonical_bytes_def canonical_bytes_eq_iff by (rule snapshot_addr.payload_faithful)

lemma read_scope_object: "read_scope (scope_object s) = Inr (cs_library_id s, cs_collection_ids s)"
proof -
  have "map_res json_string (map JStr xs) = Inr xs" for xs by (induction xs) simp_all
  then show ?thesis by (simp add: read_scope_def scope_object_def)
qed

text \<open>A member of a snapshot under construction.\<close>

lemma current_memberE:
  assumes "current_member st x = Inr m"
  obtains v where "version_row_of st (sm_source_version_id m) = Some v"
    "lineage_member st (sm_collection_id m) v (sm_membership_state m) = Inr m"
    "sm_collection_id m = me_collection_id x" "sm_source_id m = me_source_id x"
    "head_id st (me_source_id x) = Some (sm_source_version_id m)"
    "sm_membership_state m = me_state x"
proof -
  from assms obtain h v where h: "head_id st (me_source_id x) = Some h" "version_row_of st h = Some v"
    "ve_source_id v = me_source_id x" "lineage_member st (me_collection_id x) v (me_state x) = Inr m"
    by (auto simp: current_member_def split: option.splits if_splits)
  have m: "sm_collection_id m = me_collection_id x" "sm_source_version_id m = ve_id v"
    "sm_membership_state m = me_state x" "sm_source_id m = ve_source_id v"
    using h(4) by (auto simp: lineage_member_def res_bind_eq_Inr validate_member_def wrap_validation_eq_Inr
        split: if_splits)
  have "ve_id v = h" using version_row_ofD [OF h(2)] by blast
  with h m show ?thesis by (intro that [of v]) simp_all
qed

lemma filter_same_length: "length (filter P xs) = length xs \<Longrightarrow> filter P xs = xs"
proof (induction xs)
  case (Cons x xs)
  then show ?case using length_filter_le [of P xs] by (cases "P x") auto
qed simp

lemma current_snapshot_members_iff:
  assumes "current_snapshot_members st cs = Inr ms"
  shows "set ms = {m. \<exists>x \<in> set (st_memberships st). me_collection_id x \<in> set cs \<and> current_member st x = Inr m}"
proof -
  let ?raw = "filter (\<lambda>m. me_collection_id m \<in> set cs) (st_memberships st)"
  let ?rows = "filter (\<lambda>m. library_collection st (me_collection_id m) \<and> library_source st (me_source_id m)) ?raw"
  from assms have len: "length ?rows = length ?raw"
    and m: "map_res (current_member st) (sort_key (membership_order st) ?rows) = Inr ms"
    unfolding current_snapshot_members_def Let_def by (simp_all add: reraise_Inr split: if_splits)
  note same = filter_same_length [OF len]
  have rows: "set (sort_key (membership_order st) ?rows) = set ?raw" unfolding same by simp
  show ?thesis
  proof (intro set_eqI iffI)
    fix y assume "y \<in> set ms"
    from map_res_origin [OF m this] obtain x where "x \<in> set ?raw" "current_member st x = Inr y"
      unfolding rows by blast
    then show "y \<in> {m. \<exists>x \<in> set (st_memberships st). me_collection_id x \<in> set cs \<and> current_member st x = Inr m}"
      by auto
  next
    fix y assume "y \<in> {m. \<exists>x \<in> set (st_memberships st). me_collection_id x \<in> set cs \<and> current_member st x = Inr m}"
    then obtain x where x: "x \<in> set ?raw" "current_member st x = Inr y" by auto
    from map_res_image [OF m x(1) [folded rows]] x(2) show "y \<in> set ms" by auto
  qed
qed

subsection \<open>Stored rows\<close>

lemma insert_members_effect:
  "fold_res (\<lambda>m. insert_snapshot_member (member_row_of i m)) ms st = Inr st' \<Longrightarrow>
     st' = st\<lparr>st_snapshot_members := st_snapshot_members st @ map (member_row_of i) ms\<rparr>"
proof (induction ms arbitrary: st)
  case (Cons m ms)
  then obtain st1 where s: "insert_snapshot_member (member_row_of i m) st = Inr st1"
    "fold_res (\<lambda>m. insert_snapshot_member (member_row_of i m)) ms st1 = Inr st'"
    by (auto simp: res_bind_eq_Inr)
  have "st1 = st\<lparr>st_snapshot_members := st_snapshot_members st @ [member_row_of i m]\<rparr>"
    using s(1) by (simp add: insert_snapshot_member_def require_constraints_Inr)
  with Cons.IH [OF s(2)] show ?case by simp
qed simp

definition snapshot_row_of :: "string \<Rightarrow> corpus_snapshot \<Rightarrow> snapshot_row" where
  "snapshot_row_of now s =
     \<lparr>sn_id = corpus_snapshot_id s, sn_library_id = cs_library_id s, sn_scope = scope_object s,
      sn_hash = manifest_hash s, sn_created_at = now\<rparr>"

lemma store_snapshot_effect:
  assumes "store_snapshot e now s st = Inr st'" and "cs_library_id s = st_library_id st"
  shows "\<exists>event. st' = st\<lparr>st_snapshots := st_snapshots st @ [snapshot_row_of now s],
      st_snapshot_members := st_snapshot_members st @ map (member_row_of (corpus_snapshot_id s)) (cs_members s),
      st_events := st_events st @ [event]\<rparr>"
    and "corpus_snapshot_id s \<notin> sn_id ` set (st_snapshots st)"
    and "validated_timestamp now = Inr now"
proof -
  from assms obtain st1 st2 where s: "insert_snapshot (snapshot_row_of now s) st = Inr st1"
    "fold_res (\<lambda>m. insert_snapshot_member (member_row_of (corpus_snapshot_id s) m)) (cs_members s) st1 = Inr st2"
    and e: "insert_outbox_event e ''corpus_snapshot.frozen'' ''corpus_snapshot'' (corpus_snapshot_id s)
      (frozen_payload s) now st2 = Inr st'"
    unfolding store_snapshot_def snapshot_row_of_def by (auto simp: res_bind_eq_Inr)
  have st1: "st1 = st\<lparr>st_snapshots := st_snapshots st @ [snapshot_row_of now s]\<rparr>"
    and new: "corpus_snapshot_id s \<notin> sn_id ` set (st_snapshots st)"
    using s(1) by (auto simp: insert_snapshot_def require_constraints_Inr snapshot_row_of_def)
  show "\<exists>event. st' = st\<lparr>st_snapshots := st_snapshots st @ [snapshot_row_of now s],
      st_snapshot_members := st_snapshot_members st @ map (member_row_of (corpus_snapshot_id s)) (cs_members s),
      st_events := st_events st @ [event]\<rparr>"
    unfolding insert_outbox_event_effect [OF e] insert_members_effect [OF s(2)] st1 by auto
  show "corpus_snapshot_id s \<notin> sn_id ` set (st_snapshots st)" by (rule new)
  show "validated_timestamp now = Inr now"
    using e by (auto simp: insert_outbox_event_def res_bind_eq_Inr validated_timestamp_Inr)
qed


subsection \<open>Reading back\<close>

lemma stored_member_current:
  assumes m: "\<exists>x. current_member st x = Inr m"
    and same: "st_library_id st' = st_library_id st" "st_families st' = st_families st"
      "st_family_members st' = st_family_members st" "st_versions st' = st_versions st"
  shows "stored_member st' (member_row_of i m) = Inr m"
    and "\<exists>v. version_row_of st (sm_source_version_id m) = Some v"
proof -
  obtain x where x: "current_member st x = Inr m" using m by blast
  obtain v where v: "version_row_of st (sm_source_version_id m) = Some v"
    "lineage_member st (sm_collection_id m) v (sm_membership_state m) = Inr m"
    by (rule current_memberE [OF x]) blast
  then show "\<exists>v. version_row_of st (sm_source_version_id m) = Some v" by blast
  have "lineage_member st' (sm_collection_id m) v (sm_membership_state m) = Inr m"
    using v(2) lineage_cong [OF same(1-3)] by (simp add: lineage_member_def)
  moreover have "version_row_of st' (sm_source_version_id m) = Some v" using v(1) same(4) by (simp add: version_row_of_def)
  ultimately show "stored_member st' (member_row_of i m) = Inr m"
    by (simp add: stored_member_def member_row_of_def)
qed

lemma reconstruct_stored:
  assumes t: "tables_ok st" and c: "require_collections st cs = Inr ()"
    and ms: "\<forall>m \<in> set ms. \<exists>x. current_member st x = Inr m"
    and b: "build_corpus_snapshot (st_library_id st) cs ms = Inr s"
    and st: "store_snapshot e now s st = Inr st'"
  shows "reconstruct_corpus_snapshot st' (corpus_snapshot_id s) = Inr s"
proof -
  let ?i = "corpus_snapshot_id s"
  note bc = b [unfolded build_corpus_snapshot_Inr]
  then have s: "s = \<lparr>cs_library_id = st_library_id st, cs_collection_ids = sort cs, cs_members = sort_key member_key ms\<rparr>"
    by blast
  have lib: "cs_library_id s = st_library_id st" unfolding s by simp
  note eff = store_snapshot_effect [OF st lib]
  obtain event where st': "st' = st\<lparr>st_snapshots := st_snapshots st @ [snapshot_row_of now s],
      st_snapshot_members := st_snapshot_members st @ map (member_row_of ?i) (cs_members s),
      st_events := st_events st @ [event]\<rparr>" using eff(1) by blast
  have r: "refs_ok st" using t by (simp add: tables_ok_def)
  have row: "snapshot_row_for st' ?i = Some (snapshot_row_of now s)"
  proof -
    have "filter (\<lambda>r. sn_id r = ?i) (st_snapshots st) = []"
      using eff(2) unfolding filter_empty_conv by (metis imageI)
    then show ?thesis by (simp add: st' snapshot_row_for_def snapshot_row_of_def)
  qed
  have coll: "require_collections st' (cs_collection_ids s) = Inr ()"
    using c unfolding require_collections_def st' s by (simp add: list_all_iff split: if_splits)
  have raw: "filter (\<lambda>m. sb_snapshot_id m = ?i) (st_snapshot_members st') = map (member_row_of ?i) (cs_members s)"
  proof -
    have "sb_snapshot_id m \<in> sn_id ` set (st_snapshots st)" if "m \<in> set (st_snapshot_members st)" for m
      using r that unfolding refs_ok_def by blast
    with eff(2) have "filter (\<lambda>m. sb_snapshot_id m = ?i) (st_snapshot_members st) = []"
      unfolding filter_empty_conv by metis
    moreover have "filter (\<lambda>m. sb_snapshot_id m = ?i) (map (member_row_of ?i) xs) = map (member_row_of ?i) xs" for xs
      by (induction xs) (simp_all add: member_row_of_def)
    ultimately show ?thesis unfolding st' by simp
  qed
  have mem: "\<exists>x. current_member st x = Inr m" "sm_collection_id m \<in> set cs" if "m \<in> set (cs_members s)" for m
    using that ms bc unfolding s by auto
  have same: "st_library_id st' = st_library_id st" "st_families st' = st_families st"
      "st_family_members st' = st_family_members st" "st_versions st' = st_versions st"
    "st_collections st' = st_collections st" "st_sources st' = st_sources st"
    unfolding st' by simp_all
  note sm = stored_member_current [OF mem(1) same(1-4)]
  have joined: "filter (joined_member_row st') (map (member_row_of ?i) (cs_members s)) =
      map (member_row_of ?i) (cs_members s)"
  proof -
    have "joined_member_row st' (member_row_of ?i m)" if m: "m \<in> set (cs_members s)" for m
    proof -
      obtain v where v: "version_row_of st (sm_source_version_id m) = Some v" using sm(2) [OF m] by blast
      have "library_source st (ve_source_id v)"
        using refs_version_source [OF r] version_row_ofD [OF v] by blast
      moreover have "library_collection st (sm_collection_id m)"
        using c mem(2) [OF m] unfolding require_collections_def library_collection_def
        by (auto simp: list_all_iff split: if_splits)
      ultimately show ?thesis
        using v same by (simp add: joined_member_row_def member_row_of_def version_row_of_def library_source_def
            library_collection_def)
    qed
    then show ?thesis by (simp add: filter_id_conv)
  qed
  have sorted: "sort_key (\<lambda>r. (sb_collection_id r, sb_version_id r)) (map (member_row_of ?i) (cs_members s)) =
      map (member_row_of ?i) (cs_members s)"
  proof (rule sort_key_id_if_sorted)
    have "sorted (map member_key (cs_members s))" unfolding s by simp
    then show "sorted (map (\<lambda>r. (sb_collection_id r, sb_version_id r)) (map (member_row_of ?i) (cs_members s)))"
      by (simp add: comp_def member_row_of_def member_key_def [abs_def])
  qed
  have members: "map_res (stored_member st') (map (member_row_of ?i) (cs_members s)) = Inr (cs_members s)"
    unfolding map_res_eq_Inr list_all2_conv_all_nth using sm(1) by simp
  have rebuilt: "rebuild_snapshot st' (st_library_id st) (cs_collection_ids s) (map (member_row_of ?i) (cs_members s)) = Inr s"
    unfolding rebuild_snapshot_def sorted members reraise_Inr using build_again [OF b] by simp
  have check: "check_snapshot_row (snapshot_row_of now s) s = Inr s"
    using eff(3) unfolding check_snapshot_row_def snapshot_row_of_def
    by (simp add: validated_sha256_def manifest_hash_def)
  show ?thesis
    unfolding reconstruct_corpus_snapshot_def row option.case Let_def raw joined
    using lib same(1) coll rebuilt check by (simp add: snapshot_row_of_def read_scope_object reraise_def)
qed


subsection \<open>Freezing\<close>

lemma current_members_cong:
  assumes "st_library_id st' = st_library_id st" "st_families st' = st_families st"
    "st_family_members st' = st_family_members st" "st_versions st' = st_versions st"
    "st_collections st' = st_collections st" "st_sources st' = st_sources st" "st_heads st' = st_heads st"
    "st_memberships st' = st_memberships st"
  shows "current_snapshot_members st' cs = current_snapshot_members st cs"
proof -
  have "lineage_member st' = lineage_member st"
    by (intro ext) (simp add: lineage_member_def lineage_cong [OF assms(1-3)])
  moreover have "head_id st' = head_id st" "version_row_of st' = version_row_of st"
    by (intro ext, simp add: head_id_def version_row_of_def assms)+
  ultimately have "current_member st' = current_member st" by (intro ext) (simp only: current_member_def)
  moreover have "library_collection st' = library_collection st" "library_source st' = library_source st"
    by (intro ext, simp add: library_collection_def library_source_def assms)+
  moreover have "membership_order st' = membership_order st"
    by (intro ext) (simp add: membership_order_def \<open>head_id st' = head_id st\<close>)
  ultimately show ?thesis by (simp only: current_snapshot_members_def assms)
qed

lemma reconstruct_id:
  assumes "reconstruct_corpus_snapshot st i = Inr s"
  shows "corpus_snapshot_id s = i"
proof -
  from assms obtain row where row: "snapshot_row_for st i = Some row"
    by (auto simp: reconstruct_corpus_snapshot_def split: option.splits)
  with assms obtain x where "check_snapshot_row row x = Inr s"
    by (auto simp: reconstruct_corpus_snapshot_def res_bind_eq_Inr Let_def split: if_splits)
  then have "sn_id row = corpus_snapshot_id s" by (auto simp: check_snapshot_row_def res_bind_eq_Inr split: if_splits)
  with snapshot_row_forD [OF row] show ?thesis by simp
qed

lemma freeze_cases:
  assumes "freeze_snapshot e now cs st = Inr (s, st')"
  obtains scope ms t where
    "build_corpus_snapshot (st_library_id st) cs [] = Inr scope"
    "require_collections st (cs_collection_ids scope) = Inr ()"
    "current_snapshot_members st (cs_collection_ids scope) = Inr ms"
    "build_corpus_snapshot (st_library_id st) (cs_collection_ids scope) ms = Inr t"
    "same_snapshot_rows st t = [] \<and> store_snapshot e now t st = Inr st' \<and>
       reconstruct_corpus_snapshot st' (corpus_snapshot_id t) = Inr s \<or>
     (\<exists>i. same_snapshot_rows st t = [i] \<and> reconstruct_corpus_snapshot st i = Inr s \<and> s = t \<and> st' = st)"
proof -
  from assms obtain scope :: corpus_snapshot and x where sc: "build_corpus_snapshot (st_library_id st) cs [] = Inr scope"
    and tr: "freeze_transaction e now (cs_collection_ids scope) st = Inr x"
    and res: "(case x of
       Inl existing \<Rightarrow> Inr (existing, st)
     | Inr (s, st') \<Rightarrow>
         res_bind (reconstruct_corpus_snapshot st' (corpus_snapshot_id s)) (\<lambda>t. Inr (t, st'))) = Inr (s, st')"
    unfolding freeze_snapshot_def res_bind_eq_Inr on_integrity_error_Inr reraise_Inr by blast
  from tr obtain u ms t where a: "require_collections st (cs_collection_ids scope) = Inr u"
    "current_snapshot_members st (cs_collection_ids scope) = Inr ms"
    "build_corpus_snapshot (st_library_id st) (cs_collection_ids scope) ms = Inr t"
    and c: "(case same_snapshot_rows st t of
         [] \<Rightarrow> res_bind (store_snapshot e now t st) (\<lambda>st'. Inr (Inr (t, st')))
       | [i] \<Rightarrow>
           res_bind (reconstruct_corpus_snapshot st i) (\<lambda>existing.
             if snapshot_canonical_bytes existing \<noteq> snapshot_canonical_bytes t
             then Inl (PersistenceIntegrityError
               ''persisted CorpusSnapshot conflicts with its content address'')
             else Inr (Inl existing))
       | _ \<Rightarrow> Inl (PersistenceIntegrityError
                ''CorpusSnapshot ID/hash resolve to conflicting persisted rows'')) = Inr x"
    unfolding freeze_transaction_def res_bind_eq_Inr by blast
  have "same_snapshot_rows st t = [] \<and> store_snapshot e now t st = Inr st' \<and>
       reconstruct_corpus_snapshot st' (corpus_snapshot_id t) = Inr s \<or>
     (\<exists>i. same_snapshot_rows st t = [i] \<and> reconstruct_corpus_snapshot st i = Inr s \<and> s = t \<and> st' = st)"
  proof (cases "same_snapshot_rows st t")
    case Nil
    with c res show ?thesis by (auto simp: res_bind_eq_Inr)
  next
    case (Cons i rest)
    with c have one: "same_snapshot_rows st t = [i]" by (cases rest) auto
    with c obtain existing where ex: "reconstruct_corpus_snapshot st i = Inr existing"
      "snapshot_canonical_bytes existing = snapshot_canonical_bytes t" "x = Inl existing"
      by (auto simp: res_bind_eq_Inr split: if_splits)
    with snapshot_bytes_inj [OF ex(2)] res one show ?thesis by auto
  qed
  then show ?thesis using that [OF sc _ a(2,3)] a(1) by simp
qed

lemma freeze_facts:
  assumes f: "freeze_snapshot e now cs st = Inr (s, st')" and t: "tables_ok st"
  shows "cs_library_id s = st_library_id st" and "cs_collection_ids s = sort cs"
    and "set (cs_members s) = {m. \<exists>x \<in> set (st_memberships st). me_collection_id x \<in> set cs \<and> current_member st x = Inr m}"
    and "reconstruct_corpus_snapshot st' (corpus_snapshot_id s) = Inr s"
    and "freeze_snapshot e' now' cs st' = Inr (s, st')"
proof -
  obtain scope ms u where a: "build_corpus_snapshot (st_library_id st) cs [] = Inr scope"
    "require_collections st (cs_collection_ids scope) = Inr ()"
    "current_snapshot_members st (cs_collection_ids scope) = Inr ms"
    "build_corpus_snapshot (st_library_id st) (cs_collection_ids scope) ms = Inr u"
    and c: "same_snapshot_rows st u = [] \<and> store_snapshot e now u st = Inr st' \<and>
       reconstruct_corpus_snapshot st' (corpus_snapshot_id u) = Inr s \<or>
     (\<exists>i. same_snapshot_rows st u = [i] \<and> reconstruct_corpus_snapshot st i = Inr s \<and> s = u \<and> st' = st)"
    by (rule freeze_cases [OF f])
  have ids: "cs_collection_ids scope = sort cs" using a(1) unfolding build_corpus_snapshot_Inr by auto
  have u: "u = \<lparr>cs_library_id = st_library_id st, cs_collection_ids = sort cs, cs_members = sort_key member_key ms\<rparr>"
    using a(4) unfolding build_corpus_snapshot_Inr ids by (simp add: sorted_sort_id)
  note ms = current_snapshot_members_iff [OF a(3)]
  have each: "\<forall>m \<in> set ms. \<exists>x. current_member st x = Inr m" unfolding ms by blast
  have main: "s = u \<and> reconstruct_corpus_snapshot st' (corpus_snapshot_id s) = Inr s \<and>
      same_snapshot_rows st' s = [corpus_snapshot_id s] \<and>
      st_library_id st' = st_library_id st \<and> require_collections st' (cs_collection_ids scope) = Inr () \<and>
      current_snapshot_members st' (cs_collection_ids scope) = Inr ms"
    using c
  proof
    assume n: "same_snapshot_rows st u = [] \<and> store_snapshot e now u st = Inr st' \<and>
       reconstruct_corpus_snapshot st' (corpus_snapshot_id u) = Inr s"
    then have st: "store_snapshot e now u st = Inr st'" by blast
    have rc: "reconstruct_corpus_snapshot st' (corpus_snapshot_id u) = Inr u"
      by (rule reconstruct_stored [OF t a(2) each a(4) st])
    with n have s: "s = u" by simp
    have lib: "cs_library_id u = st_library_id st" unfolding u by simp
    obtain event where st': "st' = st\<lparr>st_snapshots := st_snapshots st @ [snapshot_row_of now u],
      st_snapshot_members := st_snapshot_members st @ map (member_row_of (corpus_snapshot_id u)) (cs_members u),
      st_events := st_events st @ [event]\<rparr>" using store_snapshot_effect(1) [OF st lib] by blast
    have none: "filter (\<lambda>r. sn_id r = corpus_snapshot_id u \<or> sn_hash r = manifest_hash u) (st_snapshots st) = []"
      using arg_cong [OF conjunct1 [OF n], of length] unfolding same_snapshot_rows_def by simp
    have "same_snapshot_rows st' s = [corpus_snapshot_id s]"
      unfolding same_snapshot_rows_def s st' using none by (simp add: snapshot_row_of_def)
    moreover have "current_snapshot_members st' (cs_collection_ids scope) = Inr ms"
      using a(3) current_members_cong [of st' st] unfolding st' by simp
    moreover have "require_collections st' (cs_collection_ids scope) = Inr ()"
      using a(2) unfolding require_collections_def st' by simp
    ultimately show ?thesis using s rc unfolding st' by simp
  next
    assume "\<exists>i. same_snapshot_rows st u = [i] \<and> reconstruct_corpus_snapshot st i = Inr s \<and> s = u \<and> st' = st"
    then obtain i where i: "same_snapshot_rows st u = [i]" "reconstruct_corpus_snapshot st i = Inr s" "s = u" "st' = st"
      by blast
    from reconstruct_id [OF i(2)] i a(2,3) show ?thesis by simp
  qed
  then have s: "s = u" and rc: "reconstruct_corpus_snapshot st' (corpus_snapshot_id s) = Inr s" by blast+
  show "cs_library_id s = st_library_id st" "cs_collection_ids s = sort cs" unfolding s u by simp_all
  show "set (cs_members s) = {m. \<exists>x \<in> set (st_memberships st). me_collection_id x \<in> set cs \<and> current_member st x = Inr m}"
    unfolding s u using ms ids by simp
  show "reconstruct_corpus_snapshot st' (corpus_snapshot_id s) = Inr s" by (rule rc)
  have "freeze_transaction e' now' (cs_collection_ids scope) st' = Inr (Inl s)"
    unfolding freeze_transaction_def using main a(4) s by simp
  then show "freeze_snapshot e' now' cs st' = Inr (s, st')"
    unfolding freeze_snapshot_def using a(1) main by simp
qed

end
