(* ===== verification/Library_Safety.thy ===== *)
theory Library_Safety
  imports Library_History
begin

text \<open>
  The authorized read boundary over time: what a capability reads at any later moment, who can
  present one, and what the compilation of a stored snapshot depends on.
\<close>

subsection \<open>Lemmas\<close>

lemma require_id_prefix: "require_id v pre = Inr x \<Longrightarrow> has_prefix (pre @ ''_'') v"
  by (auto simp: require_id_def Let_def split: if_splits)

lemma manifest_ids_fragments:
  assumes "compile_access p s cs = Inr ca" and "i \<in> set (mf_items (ca_manifest ca))"
  shows "has_prefix ''fragment_'' (it_fragment_id i)"
proof -
  from assms obtain c where "candidate_item s c = Inr i"
    unfolding compile_access_result(1) [OF assms(1)] by blast
  then obtain x where "require_id (it_fragment_id i) ''fragment'' = Inr x"
    by (auto simp: candidate_item_def make_manifest_item_def res_bind_eq_Inr split: if_splits)
  from require_id_prefix [OF this] show ?thesis by simp
qed

lemma revalidate_kept:
  assumes c: "compile_db_access (re_store r) p scope = Inr ca"
    and i: "map_of (re_authorizations r) (ar_id a) = Some \<lparr>is_object = ar_object a, is_policy_id = p,
      is_scope = scope, is_compiled = ca, is_fingerprint = authorization_fingerprint a\<rparr>"
    and n: "ar_instance_id a = re_instance_id r" and o: "re_open r"
  shows "revalidate_authorized_read r a = Inr ca"
  unfolding revalidate_authorized_read_def i using c n o by (simp add: require_open_def)

text \<open>Rows of an earlier store are the rows of a later one.\<close>

lemma later_row:
  assumes e: "extends st st'" and k: "keys_ok st'" and r: "refs_ok st"
    and f: "f \<in> set (st_fragments st)" "g \<in> set (st_fragments st')" "fr_id g = fr_id f"
  shows "g = f \<and> version_row_of st' (fr_version_id f) = version_row_of st (fr_version_id f)"
proof -
  have "f \<in> set (st_fragments st')" using grown_subset [OF extends_fragments [OF e] f(1)] .
  then have "g = f" using fragment_unique [OF k f(2)] f(3) by blast
  moreover have "fr_version_id f \<in> ve_id ` set (st_versions st)" using r f(1) by (auto simp: refs_ok_def)
  ultimately show ?thesis using version_row_of_stable [OF e] by blast
qed

lemma strict_sorted_ids: "sorted xs \<Longrightarrow> distinct xs \<Longrightarrow> sorted_wrt (<) (xs :: string list)"
  by (simp add: strict_sorted_iff)

subsection \<open>Reads under a capability\<close>

lemma read_permitted_later:
  assumes ok: "store_ok (re_store r)"
    and a: "authorize_read ob i pid scope r = Inr (a, r1)"
    and h: "repository_history r1 r2"
  shows "\<exists>n policy at snap texts.
    get_access_policy (re_store r) pid = Inr (n, policy, at) \<and>
    snap \<in> set (st_snapshots (re_store r)) \<and> sn_hash snap = sc_snapshot_hash scope \<and>
    read_permitted_fragments r2 a = Inr texts \<and>
    map ft_fragment_id texts = map it_fragment_id (mf_items (ca_manifest (ar_compiled a))) \<and>
    sorted_wrt (<) (map ft_fragment_id texts) \<and>
    set texts = {text_of f v | f v. f \<in> set (st_fragments (re_store r)) \<and>
      readable (re_store r) policy scope (sn_id snap) f \<and>
      version_row_of (re_store r) (fr_version_id f) = Some v}"
proof -
  let ?st = "re_store r" and ?st2 = "re_store r2"
  from a obtain ca where o: "re_open r" and ca: "compile_db_access ?st pid scope = Inr ca"
    and av: "a = \<lparr>ar_object = ob, ar_id = i, ar_instance_id = re_instance_id r, ar_policy_id = pid,
             ar_scope = scope, ar_compiled = ca\<rparr>"
    and r1: "r1 = put_authorization i \<lparr>is_object = ob, is_policy_id = pid, is_scope = scope, is_compiled = ca,
           is_fingerprint = authorization_fingerprint a\<rparr> r"
    unfolding authorize_read_Inr by blast
  have st1: "re_store r1 = ?st" "re_instance_id r1 = re_instance_id r" "re_open r1" using o unfolding r1 put_authorization_def by simp_all
  from repository_history_facts [OF h] have lh: "library_history ?st ?st2"
    and inst: "re_instance_id r2 = re_instance_id r" and op: "re_open r2"
    and auth: "map_of (re_authorizations r2) i = Some \<lparr>is_object = ob, is_policy_id = pid, is_scope = scope,
      is_compiled = ca, is_fingerprint = authorization_fingerprint a\<rparr>"
    unfolding st1 by (simp_all add: r1 put_authorization_def o)
  note e = library_history_extends [OF lh]
  note ok2 = history_ok [OF lh ok]
  note t = store_okD(1) [OF ok] and k2 = store_okD(3) [OF ok2] and rf = store_okD(4) [OF ok]
  have ca2: "compile_db_access ?st2 pid scope = Inr ca" by (rule compile_db_access_stable [OF e rf ca])
  have rv: "revalidate_authorized_read r2 a = Inr ca"
    by (rule revalidate_kept [OF ca2]) (simp_all add: av inst op auth [unfolded av])
  obtain n policy at snap snapshot candidates where c: "get_access_policy ?st pid = Inr (n, policy, at)"
    "snap \<in> set (st_snapshots ?st)" "sn_hash snap = sc_snapshot_hash scope"
    "reconstruct_corpus_snapshot ?st (sn_id snap) = Inr snapshot"
    "snapshot_candidates ?st (sn_id snap) = Inr candidates"
    "compile_access policy scope candidates = Inr ca"
    by (rule compile_db_accessE [OF ca]) blast
  note rows = manifest_rows [OF t c(2,4,5,6)]
  obtain policy2 snap2 snapshot2 candidates2 where c2: "snap2 \<in> set (st_snapshots ?st2)"
    "reconstruct_corpus_snapshot ?st2 (sn_id snap2) = Inr snapshot2"
    "snapshot_candidates ?st2 (sn_id snap2) = Inr candidates2"
    "compile_access policy2 scope candidates2 = Inr ca"
    by (rule compile_db_accessE [OF ca2]) blast
  note rows2 = manifest_rows(1) [OF store_okD(1) [OF ok2] c2]
  let ?ids = "map it_fragment_id (mf_items (ca_manifest ca))"
  obtain texts where x: "read_fragments ?st2 (ca_manifest ca) ?ids = Inr texts" "map ft_fragment_id texts = ?ids"
    "\<forall>x \<in> set texts. \<exists>f v. f \<in> set (st_fragments ?st2) \<and> version_row_of ?st2 (fr_version_id f) = Some v \<and> x = text_of f v"
    using read_fragments_spec [OF k2 store_okD(2) [OF ok2] rows2, of ?ids] by auto
  have ids: "\<not> list_ex (\<lambda>i. \<not> has_prefix ''fragment_'' i) ?ids" "\<not> has_duplicates ?ids"
    using manifest_ids_fragments [OF c(6)] compile_access_result(3) [OF c(6)] by (auto simp: list_ex_iff)
  have "read_permitted_fragments r2 a = Inr texts"
  proof (cases "?ids = []")
    case True
    with x(2) have "texts = []" by simp
    with True show ?thesis
      unfolding read_permitted_fragments_def read_permitted_fragment_subset_def
      by (simp add: av rv [unfolded av] has_duplicates_def)
  next
    case False
    then show ?thesis
      unfolding read_permitted_fragments_def read_permitted_fragment_subset_def
      using ids x(1) rv by (simp add: av)
  qed
  moreover have "set texts = {text_of f v | f v. f \<in> set (st_fragments ?st) \<and>
      readable ?st policy scope (sn_id snap) f \<and> version_row_of ?st (fr_version_id f) = Some v}"
    (is "_ = ?R")
  proof (intro subset_antisym subsetI)
    fix y assume y: "y \<in> set texts"
    with x(3) obtain g w where g: "g \<in> set (st_fragments ?st2)" "version_row_of ?st2 (fr_version_id g) = Some w"
      "y = text_of g w" by blast
    have "ft_fragment_id y \<in> set ?ids" using y x(2) by (metis in_set_conv_nth length_map nth_map)
    then have "fr_id g \<in> it_fragment_id ` set (mf_items (ca_manifest ca))" using g(3) by (simp add: text_of_def)
    then obtain f where f: "f \<in> set (st_fragments ?st)" "readable ?st policy scope (sn_id snap) f" "fr_id g = fr_id f"
      unfolding rows(2) by blast
    with later_row [OF e k2 rf f(1) g(1) f(3)] g show "y \<in> ?R" by auto
  next
    fix y assume "y \<in> ?R"
    then obtain f v where f: "f \<in> set (st_fragments ?st)" "readable ?st policy scope (sn_id snap) f"
      "version_row_of ?st (fr_version_id f) = Some v" "y = text_of f v" by blast
    then have "fr_id f \<in> it_fragment_id ` set (mf_items (ca_manifest ca))" unfolding rows(2) by blast
    then have "fr_id f \<in> ft_fragment_id ` set texts" using x(2) by (metis list.set_map)
    then obtain z where z: "z \<in> set texts" "ft_fragment_id z = fr_id f" by auto
    with x(3) obtain g w where g: "g \<in> set (st_fragments ?st2)" "version_row_of ?st2 (fr_version_id g) = Some w"
      "z = text_of g w" by blast
    with z(2) have "fr_id g = fr_id f" by (simp add: text_of_def)
    with later_row [OF e k2 rf f(1) g(1)] g f(3,4) z(1) show "y \<in> set texts" by auto
  qed
  moreover have "sorted_wrt (<) (map ft_fragment_id texts)"
    unfolding x(2) by (rule strict_sorted_ids [OF compile_access_result(2,3) [OF c(6)]])
  ultimately show ?thesis using c(1,2,3) x(2) unfolding av by auto
qed


subsection \<open>Capabilities\<close>

text \<open>The fingerprint covers every field of a capability, so only the object differs.\<close>

definition capability_fields :: "authorized_read \<Rightarrow> authorized_read" where
  "capability_fields a = a\<lparr>ar_object := 0\<rparr>"

lemma manifest_eqI:
  "mf_library_id m = mf_library_id n \<Longrightarrow> mf_snapshot_hash m = mf_snapshot_hash n \<Longrightarrow> mf_items m = mf_items n \<Longrightarrow>
   mf_permitted_set_hash m = mf_permitted_set_hash n \<Longrightarrow> m = (n :: permitted_manifest)"
  by (cases m; cases n) simp

lemma token_public_eq:
  assumes "canon (token_public_payload t) = canon (token_public_payload u)"
  shows "t = u"
  using assms by (cases t; cases u) (auto simp: token_public_payload_def binding_payload_def)

lemma scope_fields_eq:
  assumes "sc_library_id s = sc_library_id t" "sc_snapshot_hash s = sc_snapshot_hash t"
    "sc_purpose s = sc_purpose t" "sc_collection_ids s = sc_collection_ids t" "sc_exclusions s = sc_exclusions t"
  shows "s = (t :: request_scope)"
  using assms by (cases s; cases t) simp

interpretation capability_addr: content_addressed fingerprint_payload capability_fields
proof unfold_locales
  fix v w :: authorized_read
  assume a: "canon (fingerprint_payload v) = canon (fingerprint_payload w)"
  have scope: "ar_scope v = ar_scope w"
    using a by (intro scope_fields_eq) (auto simp: fingerprint_payload_def json_strs_def comp_def dest: exclusions_payload_eq)
  have m: "canon (manifest_payload (ca_manifest (ar_compiled v))) = canon (manifest_payload (ca_manifest (ar_compiled w)))"
    and h: "mf_permitted_set_hash (ca_manifest (ar_compiled v)) = mf_permitted_set_hash (ca_manifest (ar_compiled w))"
    and t: "canon (token_public_payload (ca_token (ar_compiled v))) = canon (token_public_payload (ca_token (ar_compiled w)))"
    and o: "ca_policy_omission_present (ar_compiled v) = ca_policy_omission_present (ar_compiled w)"
    and i: "ar_id v = ar_id w" "ar_instance_id v = ar_instance_id w" "ar_policy_id v = ar_policy_id w"
    using a by (simp_all add: fingerprint_payload_def public_access_payload_def)
  have "ca_manifest (ar_compiled v) = ca_manifest (ar_compiled w)"
    using manifest_addr.payload_faithful [OF m] h by (intro manifest_eqI) simp_all
  with token_public_eq [OF t] o have "ar_compiled v = ar_compiled w"
    by (cases "ar_compiled v"; cases "ar_compiled w") simp
  with i scope show "capability_fields v = capability_fields w"
    by (cases v; cases w) (simp add: capability_fields_def)
qed

definition issued_capability :: "repository \<Rightarrow> string \<Rightarrow> issued_authorization \<Rightarrow> authorized_read" where
  "issued_capability r i x =
     \<lparr>ar_object = is_object x, ar_id = i, ar_instance_id = re_instance_id r, ar_policy_id = is_policy_id x,
      ar_scope = is_scope x, ar_compiled = is_compiled x\<rparr>"

definition authorizations_ok :: "repository \<Rightarrow> bool" where
  "authorizations_ok r \<longleftrightarrow>
     (\<forall>(i, x) \<in> set (re_authorizations r).
        is_fingerprint x = authorization_fingerprint (issued_capability r i x))"

lemma repository_step_authorizations:
  assumes "repository_step r r'" and "authorizations_ok r"
  shows "authorizations_ok r'"
  using assms
proof induction
  case (committed r st')
  then show ?case by (simp add: authorizations_ok_def issued_capability_def)
next
  case (authorized ob i p scope r a r')
  then show ?case
    by (auto simp: authorize_read_Inr put_authorization_def authorizations_ok_def issued_capability_def)
qed

lemma repository_history_authorizations:
  "repository_history r r' \<Longrightarrow> authorizations_ok r \<Longrightarrow> authorizations_ok r'"
  by (induction rule: repository_history.induct) (auto intro: repository_step_authorizations)

lemma open_repository_authorizations: "authorizations_ok (open_repository i st)"
  by (simp add: authorizations_ok_def open_repository_def)

lemma revalidate_Inr:
  "revalidate_authorized_read r a = Inr ca \<longleftrightarrow>
     (\<exists>x. re_open r \<and> map_of (re_authorizations r) (ar_id a) = Some x \<and> is_object x = ar_object a \<and>
        ar_instance_id a = re_instance_id r \<and> authorization_fingerprint a = is_fingerprint x \<and>
        compile_db_access (re_store r) (is_policy_id x) (is_scope x) = Inr ca \<and> ca = is_compiled x)"
  by (auto simp: revalidate_authorized_read_def res_bind_eq_Inr require_open_Inr split: option.splits if_splits)

lemma revalidate_closed: "\<exists>e. revalidate_authorized_read (close_repository r) a = Inl e"
  by (simp add: revalidate_authorized_read_def close_repository_def require_open_def)

end
