(* ===== verification/Library_Sample.thy ===== *)
theory Library_Sample
  imports Library_Freeze Library_Safety
begin

text \<open>
  A small Library, built by its operations: one Collection with one root, one recorded source
  with one fragment, a frozen snapshot, a policy and a capability.  Hashes stay symbolic.
\<close>

abbreviation demo_library :: string where
  "demo_library \<equiv> ''library_00000000000040008000000000000000''"

abbreviation demo_collection :: string where
  "demo_collection \<equiv> ''collection_00000000000040008000000000000000''"

abbreviation demo_now :: string where
  "demo_now \<equiv> ''2026-01-01T00:00:00.000000Z''"

definition demo_event :: "string \<Rightarrow> string \<Rightarrow> string \<Rightarrow> string \<Rightarrow> json \<Rightarrow> event_row" where
  "demo_event e t g i p =
     \<lparr>ev_id = e, ev_type = t, ev_aggregate_type = g, ev_aggregate_id = i, ev_payload = p,
      ev_payload_hash = canonical_sha256_hex p, ev_occurred_at = demo_now, ev_delivered_at = None\<rparr>"

lemma demo_event_id [simp]: "ev_id (demo_event e t g i p) = e"
  by (simp add: demo_event_def)

lemma demo_timestamp: "validated_timestamp demo_now = Inr demo_now"
  by code_simp

lemma insert_demo_event:
  assumes "validated_label t ''event type'' = Inr t" "validated_label g ''aggregate type'' = Inr g"
    "validated_label i ''aggregate ID'' = Inr i" "id_check ''event_'' e" "e \<notin> ev_id ` set (st_events st)"
  shows "insert_outbox_event e t g i p demo_now st = Inr (st\<lparr>st_events := st_events st @ [demo_event e t g i p]\<rparr>)"
  unfolding insert_outbox_event_def assms(1-3) demo_timestamp res_bind_Inr
  using assms(4,5) by (simp add: require_constraints_def demo_event_def)

subsection \<open>Library and Collection\<close>

definition demo_config :: library_config where
  "demo_config = \<lparr>lc_library_id = demo_library, lc_name = ''Demo''\<rparr>"

definition demo0 :: library_store where
  "demo0 = (empty_store demo_library)\<lparr>st_events :=
     [demo_event ''event_0'' ''library.created'' ''library'' demo_library (library_created_payload demo_config)]\<rparr>"

lemma demo0: "initialize_library ''event_0'' demo_now demo_config = Inr demo0"
proof -
  have "validated_label ''library.created'' ''event type'' = Inr ''library.created''"
    "validated_label ''library'' ''aggregate type'' = Inr ''library''"
    "validated_label demo_library ''aggregate ID'' = Inr demo_library" by code_simp+
  then show ?thesis
    unfolding initialize_library_def by (subst insert_demo_event)
      (simp_all add: demo_config_def demo0_def empty_store_def id_check_def has_prefix_def)
qed

definition demo_root :: collection_root where
  "demo_root = \<lparr>crt_path = ''/d'', crt_manifest_path = None, crt_manifest_sha256 = None, crt_include = [''*''],
     crt_exclude = []\<rparr>"

definition demo_corpus :: collection_config where
  "demo_corpus = \<lparr>cc_collection_id = demo_collection, cc_library_id = demo_library, cc_name = ''Corpus'',
     cc_kind = CORPUS, cc_roots = [demo_root]\<rparr>"

definition demo1 :: library_store where
  "demo1 = demo0\<lparr>
     st_collections := [\<lparr>co_id = demo_collection, co_library_id = demo_library, co_name = ''Corpus'', co_kind = CORPUS\<rparr>],
     st_roots := [\<lparr>ro_id = ''root_1'', ro_collection_id = demo_collection, ro_path = ''/d'', ro_include = [''*''],
       ro_exclude = []\<rparr>],
     st_events := st_events demo0 @ [demo_event ''event_1'' ''collection.created'' ''collection'' demo_collection
       (collection_event_payload demo_corpus [''root_1''])]\<rparr>"

lemma demo1: "\<exists>q. create_collection Inr (\<lambda>_. Inr ()) ''event_1'' demo_now [''root_1''] demo_corpus demo0 = Inr (q, demo1)"
proof -
  have l: "validated_label ''collection.created'' ''event type'' = Inr ''collection.created''"
    "validated_label ''collection'' ''aggregate type'' = Inr ''collection''"
    "validated_label demo_collection ''aggregate ID'' = Inr demo_collection" by code_simp+
  have t: "collection_transaction ''event_1'' demo_now [''root_1''] demo_corpus demo0 = Inr demo1"
    unfolding collection_transaction_def
    by (simp add: insert_collection_def insert_root_def require_constraints_def insert_collection_root_def Let_def
        insert_demo_event demo_corpus_def demo_root_def demo0_def demo1_def empty_store_def id_check_def has_prefix_def l)
  have "make_collection_config demo_corpus = Inr demo_corpus" by code_simp
  then have "\<exists>q. get_collection Inr (\<lambda>_. Inr ()) demo1 demo_collection = Inr q"
    unfolding get_collection_def
    by (simp add: demo1_def demo0_def empty_store_def load_root_def Let_def demo_corpus_def demo_root_def)
  then show ?thesis
    using t unfolding create_collection_def
    by (auto simp: Let_def demo_corpus_def demo0_def empty_store_def)
qed


subsection \<open>A recorded source\<close>

definition demo_fragment :: parsed_fragment where
  "demo_fragment = \<lparr>pf_ordinal = 0, pf_kind = PARAGRAPH, pf_text = ''hi'',
     pf_address = Markdown \<lparr>ma_heading_path = [], ma_line_start = 1, ma_line_end = 1, ma_char_start = 0, ma_char_end = 2\<rparr>\<rparr>"

definition demo_parsed :: parse_result where
  "demo_parsed = \<lparr>pr_status = PROCESSED, pr_fragments = [demo_fragment], pr_parser_revision = ''rev'',
     pr_normalized_codepoints = 2, pr_failure_code = None, pr_parser_profile = ''profile''\<rparr>"

definition demo_sha :: string where
  "demo_sha = sha256_hex [104, 105]"

definition demo_bytes :: source_bytes where
  "demo_bytes = \<lparr>sby_relative_path = ''a.md'', sby_uri = ''file:///d/a.md'', sby_media_type = source_media_type.MARKDOWN,
     sby_data = [104, 105], sby_sha256 = demo_sha, sby_modified_at = demo_now\<rparr>"

definition demo_blob :: promoted_blob where
  "demo_blob = \<lparr>pb_sha256 = demo_sha, pb_size = 2, pb_path = take 2 demo_sha @ ''/'' @ drop 2 demo_sha\<rparr>"

definition demo_ids :: fresh_ids where
  "demo_ids = \<lparr>new_source_id = ''source_1'', new_family_id = ''family_1'', new_version_id = ''source_version_1'',
     new_binding_id = ''source_identity_1'', new_binding_event_id = ''event_x'', new_event_id = ''event_2''\<rparr>"

definition demo_fragment_row :: fragment_row where
  "demo_fragment_row = fragment_row_of ''source_version_1'' demo_fragment"

definition demo_version :: version_row where
  "demo_version = \<lparr>ve_id = ''source_version_1'', ve_source_id = ''source_1'', ve_number = 1, ve_sha256 = demo_sha,
     ve_size = 2, ve_profile = ''profile''\<rparr>"

definition demo_outcome :: source_outcome where
  "demo_outcome = outcome_of ADDED ''source_1'' ''source_version_1'' (''family_1'', ''source_1'', family_role.ROOT) 1"

definition demo2_tables :: library_store where
  "demo2_tables = demo1\<lparr>
     st_blobs := [\<lparr>bl_sha256 = demo_sha, bl_size = 2, bl_path = take 2 demo_sha @ ''/'' @ drop 2 demo_sha\<rparr>],
     st_sources := [\<lparr>so_id = ''source_1'', so_library_id = demo_library, so_uri = ''file:///d/a.md'',
       so_media_type = source_media_type.MARKDOWN, so_title = ''a.md''\<rparr>],
     st_families := [\<lparr>fa_id = ''family_1'', fa_library_id = demo_library, fa_label = ''source_1''\<rparr>],
     st_family_members := [\<lparr>fm_family_id = ''family_1'', fm_source_id = ''source_1'', fm_role = family_role.ROOT, fm_root = None\<rparr>],
     st_versions := [demo_version],
     st_fragments := [demo_fragment_row],
     st_heads := [\<lparr>he_source_id = ''source_1'', he_version_id = ''source_version_1''\<rparr>],
     st_memberships := [\<lparr>me_collection_id = demo_collection, me_source_id = ''source_1'', me_state = ACTIVE\<rparr>]\<rparr>"

definition demo2 :: library_store where
  "demo2 = demo2_tables\<lparr>st_events := st_events demo2_tables @ [demo_event ''event_2'' ''source_version.recorded''
     ''source_version'' ''source_version_1'' (version_payload demo2_tables demo_collection ''root_1'' ''source_1''
       ''source_version_1'' (''family_1'', ''source_1'', family_role.ROOT) 1 demo_bytes demo_parsed ADDED)]\<rparr>"

lemma demo_sha_format [simp]: "matches_hex 64 demo_sha"
  by (simp add: demo_sha_def sha256_hex_format)

lemma id_check_content: "pre = p @ ''_'' \<Longrightarrow> id_check pre (canonical_content_id p j)"
  by (simp add: id_check_def has_prefix_iff canonical_content_id_def canonical_sha256_hex_def sha256_hex_def
      sha256_hexdigest_format [unfolded matches_hex_def])

lemma demo_scope_at: "ingest_scope demo1 demo_collection ''root_1'' demo_bytes = Inr ACTIVE"
proof -
  have "path_uri (join_path ''/d'' (path_parts ''a.md'')) = ''file:///d/a.md''" by code_simp
  then show ?thesis
    by (simp add: ingest_scope_def demo1_def demo0_def empty_store_def demo_bytes_def has_prefix_def)
qed

lemma demo_guards: "record_guards (\<lambda>_. Inr ()) ''root_1'' demo_bytes demo_parsed demo_blob"
proof -
  have "validated_label ''profile'' ''parser profile'' = Inr ''profile''"
    "validated_label ''root_1'' ''Collection root ID'' = Inr ''root_1''" by code_simp+
  then show ?thesis
    by (simp add: record_guards_def demo_parsed_def demo_blob_def demo_bytes_def byte_size_def demo_timestamp)
qed

lemma demo2:
  "record_processed_source (\<lambda>_. Inr ()) demo_ids demo_now demo_collection ''root_1'' demo_bytes demo_parsed demo_blob None demo1 =
     Inr (demo_outcome, demo2)"
proof -
  let ?b = "\<lparr>bl_sha256 = demo_sha, bl_size = 2, bl_path = take 2 demo_sha @ ''/'' @ drop 2 demo_sha\<rparr>"
  let ?l = "(''family_1'', ''source_1'', family_role.ROOT)"
  let ?st1 = "demo1\<lparr>st_blobs := [?b]\<rparr>"
  have blob: "ensure_blob_row demo_blob demo1 = Inr ?st1"
    by (simp add: ensure_blob_row_def insert_blob_or_ignore_def Let_def demo_blob_def demo1_def demo0_def empty_store_def)
  have title: "last ([] # path_parts ''a.md'') = ''a.md''" by code_simp
  let ?st2 = "?st1\<lparr>st_sources := st_sources demo2, st_families := st_families demo2,
      st_family_members := st_family_members demo2\<rparr>"
  have enroll: "enroll_source demo_ids demo_bytes None ?st1 = Inr (?l, ?st2)"
    unfolding enroll_source_def Let_def using title
    by (simp add: demo_ids_def demo_bytes_def insert_source_def require_constraints_def id_check_def has_prefix_def
        new_lineage_def lineage_for_content_def sources_with_content_def start_family_def insert_family_def
        enroll_member_def insert_family_member_def demo1_def demo0_def empty_store_def demo2_def demo2_tables_def
        sorted_set_def)
  have frag: "insert_fragments ''source_version_1'' [demo_fragment] st = Inr (st\<lparr>st_fragments := [demo_fragment_row]\<rparr>)"
    if "st_fragments st = []" "st_versions st = [demo_version]" for st
    using that id_check_content [of "''fragment_''" "''fragment''"]
    by (simp add: insert_fragments_def insert_fragment_def require_constraints_def fragment_row_of_def demo_fragment_row_def
        fragment_identity_def demo_fragment_def demo_version_def text_sha256_def address_hash_def sha256_hex_format)
  have l: "validated_label ''source_version.recorded'' ''event type'' = Inr ''source_version.recorded''"
    "validated_label ''source_version'' ''aggregate type'' = Inr ''source_version''"
    "validated_label ''source_version_1'' ''aggregate ID'' = Inr ''source_version_1''" by code_simp+
  have version: "record_version demo_ids demo_now demo_collection ''root_1'' ACTIVE demo_bytes demo_parsed None ADDED
      ''source_1'' ?l 1 ?st2 = Inr (demo_outcome, demo2)"
    unfolding record_version_def Let_def
    by (simp add: demo_ids_def insert_version_def require_constraints_def id_check_def has_prefix_def
        demo_bytes_def byte_size_def demo_parsed_def demo1_def demo0_def empty_store_def demo2_def demo2_tables_def
        frag demo_version_def record_binding_def move_head_def insert_head_def version_of_source_def
        ensure_membership_def insert_membership_def insert_demo_event l demo_outcome_def)
  show ?thesis
    unfolding record_processed_source_iff record_transaction_def demo_scope_at blob res_bind_Inr
    using demo_guards enroll version by (simp add: demo1_def demo0_def empty_store_def demo_ids_def)
qed


subsection \<open>A frozen snapshot\<close>

definition demo_member :: snapshot_member where
  "demo_member = \<lparr>sm_collection_id = demo_collection, sm_source_id = ''source_1'',
     sm_source_version_id = ''source_version_1'', sm_content_sha256 = demo_sha, sm_membership_state = ACTIVE,
     sm_source_family_id = ''family_1'', sm_root_source_id = ''source_1'', sm_family_role = family_role.ROOT\<rparr>"

definition demo_snapshot :: corpus_snapshot where
  "demo_snapshot = \<lparr>cs_library_id = demo_library, cs_collection_ids = [demo_collection], cs_members = [demo_member]\<rparr>"

definition demo3 :: library_store where
  "demo3 = demo2\<lparr>st_snapshots := [snapshot_row_of demo_now demo_snapshot],
     st_snapshot_members := [member_row_of (corpus_snapshot_id demo_snapshot) demo_member],
     st_events := st_events demo2 @ [demo_event ''event_3'' ''corpus_snapshot.frozen'' ''corpus_snapshot''
       (corpus_snapshot_id demo_snapshot) (frozen_payload demo_snapshot)]\<rparr>"

lemma demo2_simps [simp]:
  "st_library_id demo2 = demo_library"
  "st_collections demo2 = [\<lparr>co_id = demo_collection, co_library_id = demo_library, co_name = ''Corpus'', co_kind = CORPUS\<rparr>]"
  "st_sources demo2 = [\<lparr>so_id = ''source_1'', so_library_id = demo_library, so_uri = ''file:///d/a.md'',
       so_media_type = source_media_type.MARKDOWN, so_title = ''a.md''\<rparr>]"
  "st_families demo2 = [\<lparr>fa_id = ''family_1'', fa_library_id = demo_library, fa_label = ''source_1''\<rparr>]"
  "st_family_members demo2 = [\<lparr>fm_family_id = ''family_1'', fm_source_id = ''source_1'', fm_role = family_role.ROOT, fm_root = None\<rparr>]"
  "st_versions demo2 = [demo_version]" "st_fragments demo2 = [demo_fragment_row]"
  "st_heads demo2 = [\<lparr>he_source_id = ''source_1'', he_version_id = ''source_version_1''\<rparr>]"
  "st_memberships demo2 = [\<lparr>me_collection_id = demo_collection, me_source_id = ''source_1'', me_state = ACTIVE\<rparr>]"
  "st_snapshots demo2 = []" "st_snapshot_members demo2 = []" "st_policies demo2 = []"
  "st_policy_collections demo2 = []" "st_policy_sources demo2 = []"
  by (simp_all add: demo2_def demo2_tables_def demo1_def demo0_def empty_store_def)

lemma demo_version_simps [simp]:
  "ve_id demo_version = ''source_version_1''" "ve_source_id demo_version = ''source_1''" "ve_sha256 demo_version = demo_sha"
  by (simp_all add: demo_version_def)

lemma strip_same:
  assumes "s \<noteq> []" "\<not> is_space (hd s)" "\<not> is_space (last s)"
  shows "strip s = s"
proof -
  have drop: "dropWhile is_space xs = xs" if "xs \<noteq> []" "\<not> is_space (hd xs)" for xs
    using that by (cases xs) auto
  have "dropWhile is_space (rev s) = rev s" using assms by (intro drop) (simp_all add: hd_rev)
  with drop [OF assms(1,2)] show ?thesis by (simp add: strip_def)
qed

lemma hex_not_space: "c \<in> set hexdigits \<Longrightarrow> \<not> is_space c"
proof -
  have "list_all (\<lambda>c. \<not> is_space c) hexdigits" by code_simp
  then show "c \<in> set hexdigits \<Longrightarrow> \<not> is_space c" by (simp add: list_all_iff)
qed

lemma content_label: "validated_label (canonical_content_id ''snapshot'' j) l = Inr (canonical_content_id ''snapshot'' j)"
proof -
  let ?h = "take 32 (canonical_sha256_hex j)"
  have hex: "matches_hex 32 ?h" by (rule matches_hex_take [of 64]) simp_all
  then have ne: "?h \<noteq> []" by (auto simp: matches_hex_def)
  moreover from hex last_in_set [OF ne] have "last ?h \<in> set hexdigits"
    unfolding matches_hex_def list_all_iff by blast
  moreover have id: "canonical_content_id ''snapshot'' j = ''snapshot_'' @ ?h"
    by (simp add: canonical_content_id_def canonical_sha256_hex_def)
  moreover have "\<not> is_space CHR ''s''" by code_simp
  ultimately have "strip (canonical_content_id ''snapshot'' j) = canonical_content_id ''snapshot'' j"
    by (intro strip_same) (simp_all add: hex_not_space)
  moreover have "length ?h = 32" using hex by (simp add: matches_hex_def)
  ultimately show ?thesis by (simp add: validated_label_def id)
qed

lemma demo1_reachable: "reachable_store demo1"
proof -
  have "library_step demo0 demo1" using demo1 library_operation.collection_created library_step.operation by blast
  then have "library_history demo0 demo1" by (blast intro: library_history.intros)
  with demo0 show ?thesis unfolding reachable_store_def by blast
qed

lemma demo2_reachable: "reachable_store demo2"
proof -
  have "library_step demo1 demo2" by (rule library_step.operation [OF library_operation.recorded [OF demo2]])
  with demo1_reachable show ?thesis unfolding reachable_store_def by (meson history_step)
qed

lemma demo3: "freeze_snapshot ''event_3'' demo_now [demo_collection] demo2 = Inr (demo_snapshot, demo3)"
proof -
  have ids: "snapshot_require_id demo_library ''library'' = Inr demo_library"
    "snapshot_require_id demo_collection ''collection'' = Inr demo_collection"
    "snapshot_require_id ''source_1'' ''source'' = Inr ''source_1''"
    "snapshot_require_id ''source_version_1'' ''source_version'' = Inr ''source_version_1''"
    "snapshot_require_id ''family_1'' ''family'' = Inr ''family_1''" by code_simp+
  have coll: "require_collections demo2 [demo_collection] = Inr ()" by (simp add: require_collections_def)
  have cur: "current_member demo2 \<lparr>me_collection_id = demo_collection, me_source_id = ''source_1'', me_state = ACTIVE\<rparr> =
      Inr demo_member"
    using ids by (simp add: current_member_def head_id_def version_row_of_def lineage_member_def lineage_for_source_def
        lineage_rows_def in_library_family_def validate_member_def demo_member_def snapshot_require_hash_def)
  have members: "current_snapshot_members demo2 [demo_collection] = Inr [demo_member]"
    by (simp add: current_snapshot_members_def library_collection_def library_source_def cur)
  have built: "build_corpus_snapshot demo_library [demo_collection] [demo_member] = Inr demo_snapshot"
    and scope: "build_corpus_snapshot demo_library [demo_collection] [] =
      Inr \<lparr>cs_library_id = demo_library, cs_collection_ids = [demo_collection], cs_members = []\<rparr>"
    using ids by (simp_all add: build_corpus_snapshot_Inr demo_snapshot_def demo_member_def lineage_functional_def)
  have l: "validated_label ''corpus_snapshot.frozen'' ''event type'' = Inr ''corpus_snapshot.frozen''"
    "validated_label ''corpus_snapshot'' ''aggregate type'' = Inr ''corpus_snapshot''"
    by code_simp+
  have l': "validated_label (corpus_snapshot_id demo_snapshot) ''aggregate ID'' = Inr (corpus_snapshot_id demo_snapshot)"
    by (simp add: corpus_snapshot_id_def content_label)
  have hash: "matches_hex 64 (manifest_hash demo_snapshot)" by (simp add: manifest_hash_def)
  have id: "id_check ''snapshot_'' (corpus_snapshot_id demo_snapshot)"
    by (simp add: corpus_snapshot_id_def id_check_content)
  have members': "cs_members demo_snapshot = [demo_member]" "cs_library_id demo_snapshot = demo_library"
    by (simp_all add: demo_snapshot_def)
  have new: "''event_3'' \<notin> ev_id ` set (st_events demo2)"
    by (simp add: demo2_def demo2_tables_def demo1_def demo0_def empty_store_def)
  have store: "store_snapshot ''event_3'' demo_now demo_snapshot demo2 = Inr demo3"
    unfolding store_snapshot_def using hash id new
    by (simp add: insert_snapshot_def require_constraints_def members' insert_snapshot_member_def member_row_of_def
        demo_member_def insert_demo_event l l' id_check_def has_prefix_def demo3_def snapshot_row_of_def)
  have t: "tables_ok demo2" by (rule store_okD(1) [OF reachable_ok [OF demo2_reachable]])
  have rec: "reconstruct_corpus_snapshot demo3 (corpus_snapshot_id demo_snapshot) = Inr demo_snapshot"
    by (rule reconstruct_stored [OF t coll _ built [folded demo2_simps(1)] store]) (use cur in auto)
  show ?thesis
    unfolding freeze_snapshot_def demo2_simps(1) scope reraise_Inr' res_bind_Inr
    using coll members built store rec
    by (simp add: freeze_transaction_def same_snapshot_rows_def)
qed


subsection \<open>A policy\<close>

definition demo_rules :: access_policy where
  "demo_rules = (let p = \<lparr>access_policy_id = ''policy_1'', ap_library_id = demo_library, allowed_purposes = [''research''],
       collection_rules = [\<lparr>cr_collection_id = demo_collection, cr_effect = ALLOW\<rparr>], source_rules = [],
       allow_export = False, allow_external_provider = False, policy_hash = []\<rparr>
     in p\<lparr>policy_hash := canonical_sha256_hex (policy_payload p)\<rparr>)"

definition demo4 :: library_store where
  "demo4 = demo3\<lparr>st_policies :=
       [\<lparr>po_id = ''policy_1'', po_library_id = demo_library, po_name = ''Reading'', po_purposes = [''research''],
         po_export = False, po_external = False, po_hash = policy_hash demo_rules, po_created_at = demo_now\<rparr>],
     st_policy_collections := [\<lparr>pcr_policy_id = ''policy_1'', pcr_collection_id = demo_collection, pcr_effect = ALLOW\<rparr>],
     st_events := st_events demo3 @ [demo_event ''event_4'' ''access_policy.created'' ''access_policy'' ''policy_1''
       (policy_created_payload ''Reading'' demo_rules)]\<rparr>"

lemma demo3_simps [simp]:
  "st_library_id demo3 = demo_library" "st_collections demo3 = st_collections demo2" "st_sources demo3 = st_sources demo2"
  "st_families demo3 = st_families demo2" "st_family_members demo3 = st_family_members demo2"
  "st_versions demo3 = st_versions demo2" "st_fragments demo3 = st_fragments demo2"
  "st_policies demo3 = []" "st_policy_collections demo3 = []" "st_policy_sources demo3 = []"
  "st_snapshots demo3 = [snapshot_row_of demo_now demo_snapshot]"
  "st_snapshot_members demo3 = [member_row_of (corpus_snapshot_id demo_snapshot) demo_member]"
  by (simp_all add: demo3_def)

lemma demo4_simps [simp]:
  "st_library_id demo4 = demo_library" "st_collections demo4 = st_collections demo2" "st_sources demo4 = st_sources demo2"
  "st_families demo4 = st_families demo2" "st_family_members demo4 = st_family_members demo2"
  "st_versions demo4 = st_versions demo2" "st_fragments demo4 = st_fragments demo2"
  "st_policy_sources demo4 = []"
  "st_snapshots demo4 = [snapshot_row_of demo_now demo_snapshot]"
  "st_snapshot_members demo4 = [member_row_of (corpus_snapshot_id demo_snapshot) demo_member]"
  "st_policies demo4 =
       [\<lparr>po_id = ''policy_1'', po_library_id = demo_library, po_name = ''Reading'', po_purposes = [''research''],
         po_export = False, po_external = False, po_hash = policy_hash demo_rules, po_created_at = demo_now\<rparr>]"
  "st_policy_collections demo4 = [\<lparr>pcr_policy_id = ''policy_1'', pcr_collection_id = demo_collection, pcr_effect = ALLOW\<rparr>]"
  by (simp_all add: demo4_def)

lemma demo_ids:
  "require_id ''policy_1'' ''policy'' = Inr ''policy_1''" "require_id demo_library ''library'' = Inr demo_library"
  "require_id demo_collection ''collection'' = Inr demo_collection" "require_id ''source_1'' ''source'' = Inr ''source_1''"
  "require_id ''source_version_1'' ''source_version'' = Inr ''source_version_1''"
  "require_id ''family_1'' ''family'' = Inr ''family_1''"
  by code_simp+

lemma demo_rules_made:
  "make_policy ''policy_1'' demo_library [''research''] [\<lparr>cr_collection_id = demo_collection, cr_effect = ALLOW\<rparr>] []
     False False = Inr demo_rules"
proof -
  have "sorted_unique_strings [''research''] ''allowed purposes'' purpose_pattern = Inr [''research'']" by code_simp
  then show ?thesis by (simp add: make_policy_def demo_ids canonical_rules_def demo_rules_def Let_def)
qed

lemma demo_policy_read: "get_access_policy demo4 ''policy_1'' = Inr (''Reading'', demo_rules, demo_now)"
proof -
  have "validated_label ''Reading'' ''AccessPolicy name'' = Inr ''Reading''" by code_simp
  moreover have "load_policy demo4 (hd (st_policies demo4)) = Inr demo_rules"
    using demo_rules_made by (simp add: load_policy_def collection_rule_rows_def source_rule_rows_def library_collection_def
        make_collection_rule_def demo_ids)
  ultimately show ?thesis
    by (simp add: get_access_policy_def demo_timestamp)
qed

lemma demo4: "\<exists>q. persist_access_policy ''event_4'' demo_now ''Reading'' demo_rules demo3 = Inr (q, demo4)"
proof -
  have l: "validated_label ''Reading'' ''AccessPolicy name'' = Inr ''Reading''"
    "validated_label ''access_policy.created'' ''event type'' = Inr ''access_policy.created''"
    "validated_label ''access_policy'' ''aggregate type'' = Inr ''access_policy''"
    "validated_label ''policy_1'' ''aggregate ID'' = Inr ''policy_1''" by code_simp+
  have r: "ap_library_id demo_rules = demo_library" "access_policy_id demo_rules = ''policy_1''"
    "collection_rules demo_rules = [\<lparr>cr_collection_id = demo_collection, cr_effect = ALLOW\<rparr>]"
    "source_rules demo_rules = []" "allowed_purposes demo_rules = [''research'']" "\<not> allow_export demo_rules"
    "\<not> allow_external_provider demo_rules" "matches_hex 64 (policy_hash demo_rules)"
    by (simp_all add: demo_rules_def Let_def)
  have new: "''event_4'' \<notin> ev_id ` set (st_events demo3)"
    by (simp add: demo3_def demo2_def demo2_tables_def demo1_def demo0_def empty_store_def)
  have rows: "policy_rows ''Reading'' demo_now demo_rules demo3 = Inr (demo4\<lparr>st_events := st_events demo3\<rparr>)"
    unfolding policy_rows_def using r
    by (simp add: insert_policy_def require_constraints_def insert_policy_collection_def id_check_def has_prefix_def
        demo4_def)
  have "insert_outbox_event ''event_4'' ''access_policy.created'' ''access_policy'' (access_policy_id demo_rules)
      (policy_created_payload ''Reading'' demo_rules) demo_now (demo4\<lparr>st_events := st_events demo3\<rparr>) = Inr demo4"
    using new by (simp add: insert_demo_event l r id_check_def has_prefix_def demo4_def)
  then show ?thesis
    unfolding persist_access_policy_def l res_bind_Inr
    using r rows demo_policy_read by (simp add: require_collections_def require_sources_def)
qed

lemma demo4_reachable: "reachable_store demo4"
proof -
  have "library_step demo2 demo3" by (rule library_step.operation [OF library_operation.frozen [OF demo3]])
  moreover have "library_step demo3 demo4" using demo4 library_operation.policy_created library_step.operation by blast
  moreover obtain e now c st0 where "initialize_library e now c = Inr st0" "library_history st0 demo2"
    using demo2_reachable unfolding reachable_store_def by blast
  ultimately show ?thesis unfolding reachable_store_def by (meson history_step)
qed


subsection \<open>A capability\<close>

definition demo_request :: request_scope where
  "demo_request = \<lparr>sc_library_id = demo_library, sc_snapshot_hash = manifest_hash demo_snapshot, sc_purpose = ''research'',
     sc_collection_ids = [demo_collection],
     sc_exclusions = \<lparr>ex_source_ids = [], ex_source_family_ids = [], ex_source_fragment_ids = []\<rparr>\<rparr>"

definition demo_repository :: repository where
  "demo_repository = open_repository ''repository_1'' demo4"

lemma demo_request_made:
  "make_scope demo_library (manifest_hash demo_snapshot) ''research'' [demo_collection]
     \<lparr>ex_source_ids = [], ex_source_family_ids = [], ex_source_fragment_ids = []\<rparr> = Inr demo_request"
proof -
  have "sorted_unique_ids [demo_collection] ''collection'' ''requested Collection IDs'' = Inr [demo_collection]"
    "purpose_pattern ''research''" by code_simp+
  then show ?thesis
    by (simp add: make_scope_def demo_ids demo_request_def require_hash_def manifest_hash_def)
qed

lemma hex_id_chars: "list_all (\<lambda>c. c \<in> set (lower_az @ digits09 @ ''_'')) hexdigits"
  by code_simp

lemma require_fragment_id: "require_id (canonical_content_id ''fragment'' j) ''fragment'' = Inr (canonical_content_id ''fragment'' j)"
proof -
  let ?h = "take 32 (canonical_sha256_hex j)"
  have hex: "matches_hex 32 ?h" by (rule matches_hex_take [of 64]) simp_all
  have id: "canonical_content_id ''fragment'' j = ''fragment_'' @ ?h"
    by (simp add: canonical_content_id_def canonical_sha256_hex_def)
  have "list_all (\<lambda>c. c \<in> set (lower_az @ digits09 @ ''_'')) ?h"
    using hex hex_id_chars unfolding matches_hex_def list_all_iff by blast
  moreover have "list_all (\<lambda>c. c \<in> set (lower_az @ digits09 @ ''_'')) ''ragment_''" "CHR ''f'' \<in> set lower_az" by code_simp+
  ultimately have "id_pattern (canonical_content_id ''fragment'' j)"
    unfolding id id_pattern_def by simp
  moreover have "length ?h = 32" using hex by (simp add: matches_hex_def)
  ultimately show ?thesis by (simp add: require_id_def Let_def id has_prefix_def)
qed

definition demo_candidate :: snapshot_candidate where
  "demo_candidate = \<lparr>cand_fragment_id = fr_id demo_fragment_row, cand_version_id = ''source_version_1'',
     cand_source_id = ''source_1'', cand_family_id = Some ''family_1'',
     cand_memberships = [\<lparr>mem_collection_id = demo_collection, mem_state = ACTIVE\<rparr>]\<rparr>"

lemma demo_fragment_row_simps [simp]:
  "fr_version_id demo_fragment_row = ''source_version_1''" "fr_text demo_fragment_row = ''hi''"
  by (simp_all add: demo_fragment_row_def fragment_row_of_def demo_fragment_def)

lemma demo_fragment_id: "require_id (fr_id demo_fragment_row) ''fragment'' = Inr (fr_id demo_fragment_row)"
  by (simp add: demo_fragment_row_def fragment_row_of_def fragment_identity_def require_fragment_id)

lemma demo_candidate_made:
  "make_candidate (fr_id demo_fragment_row) ''source_version_1'' ''source_1'' (Some ''family_1'')
     [\<lparr>mem_collection_id = demo_collection, mem_state = ACTIVE\<rparr>] = Inr demo_candidate"
  by (simp add: make_candidate_def demo_fragment_id demo_ids require_optional_id_def canonical_memberships_def demo_candidate_def)

lemma demo_candidates_found:
  "snapshot_candidates demo4 (corpus_snapshot_id demo_snapshot) = Inr [demo_candidate]"
proof -
  let ?m = "member_row_of (corpus_snapshot_id demo_snapshot) demo_member"
  have m: "sb_collection_id ?m = demo_collection" "sb_version_id ?m = ''source_version_1''" "sb_state ?m = ACTIVE"
    "sb_snapshot_id ?m = corpus_snapshot_id demo_snapshot"
    by (simp_all add: member_row_of_def demo_member_def)
  have rows: "candidate_rows demo4 (corpus_snapshot_id demo_snapshot) = [(demo_fragment_row, ''source_1'', ?m)]"
  proof -
    have "cs_library_id demo_snapshot = demo_library" by (simp add: demo_snapshot_def)
    then show ?thesis
      by (simp add: candidate_rows_def snapshot_row_of_def m library_collection_def version_row_of_def library_source_def)
  qed
  show ?thesis
    unfolding snapshot_candidates_def rows
    by (simp add: gather_row_def Let_def m make_membership_def demo_ids source_families_def family_pairs_def
        in_library_family_def demo_candidate_made)
qed

lemma demo_compiles: "\<exists>ca. compile_db_access demo4 ''policy_1'' demo_request = Inr ca"
proof -
  have rec: "reconstruct_corpus_snapshot demo4 (corpus_snapshot_id demo_snapshot) = Inr demo_snapshot"
  proof -
    have e: "extends demo3 demo4" using demo4 persist_policy_extends by blast
    have t3: "tables_ok demo3"
      by (rule tables.freeze_keeps [OF demo3 store_okD(1) [OF reachable_ok [OF demo2_reachable]]])
    have "reconstruct_corpus_snapshot demo3 (corpus_snapshot_id demo_snapshot) = Inr demo_snapshot"
      by (rule freeze_facts(4) [OF demo3 store_okD(1) [OF reachable_ok [OF demo2_reachable]]])
    then show ?thesis using reconstruct_stable [OF e] t3 by (simp add: tables_ok_def)
  qed
  have ok: "\<forall>c \<in> set [demo_candidate]. candidate_ok c"
    using demo_candidate_made by (simp add: candidate_ok_def make_membership_def demo_ids demo_candidate_def)
  have "inj_on it_fragment_id (permitted_items demo_rules demo_request (set [demo_candidate]))"
    unfolding permitted_items_def inj_on_def by auto
  moreover have "ap_library_id demo_rules = sc_library_id demo_request"
    "sc_purpose demo_request \<in> set (allowed_purposes demo_rules)"
    by (simp_all add: demo_rules_def demo_request_def Let_def)
  ultimately obtain ca where ca: "compile_access demo_rules demo_request [demo_candidate] = Inr ca"
    using compile_access_success [OF demo_rules_made demo_request_made ok] by blast
  have q: "sc_library_id demo_request = demo_library" "sc_collection_ids demo_request = [demo_collection]"
    "sc_snapshot_hash demo_request = manifest_hash demo_snapshot"
    by (simp_all add: demo_request_def)
  have row: "sn_library_id (snapshot_row_of demo_now demo_snapshot) = demo_library"
    "sn_hash (snapshot_row_of demo_now demo_snapshot) = manifest_hash demo_snapshot"
    "sn_id (snapshot_row_of demo_now demo_snapshot) = corpus_snapshot_id demo_snapshot"
    by (simp_all add: snapshot_row_of_def demo_snapshot_def)
  have cs: "cs_collection_ids demo_snapshot = [demo_collection]" by (simp add: demo_snapshot_def)
  have "compile_db_access demo4 ''policy_1'' demo_request = Inr ca"
    unfolding compile_db_access_def
    using ca rec demo_policy_read demo_candidates_found by (simp add: q row cs require_collections_def)
  then show ?thesis by blast
qed

lemma demo_authorized:
  "\<exists>a r. authorize_read 7 ''authorization_1'' ''policy_1'' demo_request demo_repository = Inr (a, r)"
proof -
  have st: "re_store demo_repository = demo4" "re_open demo_repository"
    by (simp_all add: demo_repository_def open_repository_def)
  obtain ca where "compile_db_access (re_store demo_repository) ''policy_1'' demo_request = Inr ca"
    using demo_compiles unfolding st by blast
  with st(2) show ?thesis unfolding authorize_read_Inr by blast
qed

lemma demo_readable: "readable demo4 demo_rules demo_request (corpus_snapshot_id demo_snapshot) demo_fragment_row"
  by (simp add: readable_def version_row_of_def member_row_of_def demo_member_def demo_request_def demo_rules_def Let_def
      collection_effects_def source_effects_def dict_of_def)

end
