(* ===== verification/Json_Reader.thy ===== *)
theory Json_Reader
  imports Model_Fields
begin

text \<open>
  Reading canonical JSON back: \<open>_load_canonical_object\<close> of \<open>persistence/repository.py\<close>, which
  decodes a text with \<open>json.loads\<close> and accepts it only when encoding the value again gives the
  same text.  The reader below decodes the texts the canonical encoder writes; any other JSON text
  that \<open>json.loads\<close> decodes (spaces, other escapes, fractions) differs from its encoding and is
  refused by the code as well.
\<close>

subsection \<open>The reader\<close>

lemma escape_length_pos: "0 < escape_length s"
  by (auto simp: escape_length_def split: list.splits)

function read_string :: "string \<Rightarrow> (string \<times> string) option" where
  "read_string [] = None"
| "read_string (c # s) =
     (if c = CHR 0x22 then Some ([], s)
      else
        (let k = escape_length (c # s)
         in map_option (\<lambda>(t, r). (unescape (take k (c # s)) # t, r)) (read_string (drop k (c # s)))))"
  by pat_completeness auto

termination
  by (relation "measure length") (use escape_length_pos in auto)

definition read_number :: "string \<Rightarrow> (json \<times> string) option" where
  "read_number s =
     (let neg = (s \<noteq> [] \<and> hd s = CHR ''-'');
          r = (if neg then tl s else s);
          ds = takeWhile is_digit r
      in if ds = [] then None
         else Some (JInt (if neg then - int (digits_value ds) else int (digits_value ds)), dropWhile is_digit r))"

definition read_word :: "string \<Rightarrow> json \<Rightarrow> string \<Rightarrow> (json \<times> string) option" where
  "read_word w j s = (if take (length w) s = w then Some (j, drop (length w) s) else None)"

text \<open>The first argument bounds the depth of the recursion; the length of the text is enough.\<close>

fun read_value :: "nat \<Rightarrow> string \<Rightarrow> (json \<times> string) option"
  and read_items :: "nat \<Rightarrow> string \<Rightarrow> (json list \<times> string) option"
  and read_members :: "nat \<Rightarrow> string \<Rightarrow> ((string \<times> json) list \<times> string) option"
where
  "read_value 0 s = None"
| "read_value (Suc n) s =
     (if s = [] then None
      else
        (let c = hd s; r = tl s
         in if c = CHR ''n'' then read_word ''null'' JNull s
            else if c = CHR ''t'' then read_word ''true'' (JBool True) s
            else if c = CHR ''f'' then read_word ''false'' (JBool False) s
            else if c = CHR 0x22 then map_option (\<lambda>(t, u). (JStr t, u)) (read_string r)
            else if c = CHR ''['' then
              (if r \<noteq> [] \<and> hd r = CHR '']'' then Some (JList [], tl r)
               else map_option (\<lambda>(js, u). (JList js, u)) (read_items n r))
            else if c = CHR ''{'' then
              (if r \<noteq> [] \<and> hd r = CHR ''}'' then Some (JObj [], tl r)
               else map_option (\<lambda>(ms, u). (JObj ms, u)) (read_members n r))
            else read_number s))"
| "read_items 0 s = None"
| "read_items (Suc n) s =
     (case read_value n s of
        None \<Rightarrow> None
      | Some (j, r) \<Rightarrow>
          if r = [] then None
          else if hd r = CHR '']'' then Some ([j], tl r)
          else if hd r = CHR '','' then map_option (\<lambda>(js, u). (j # js, u)) (read_items n (tl r))
          else None)"
| "read_members 0 s = None"
| "read_members (Suc n) s =
     (if s = [] \<or> hd s \<noteq> CHR 0x22 then None
      else
        (case read_string (tl s) of
           None \<Rightarrow> None
         | Some (k, r) \<Rightarrow>
             if r = [] \<or> hd r \<noteq> CHR '':'' then None
             else
               (case read_value n (tl r) of
                  None \<Rightarrow> None
                | Some (j, u) \<Rightarrow>
                    if u = [] then None
                    else if hd u = CHR ''}'' then Some ([(k, j)], tl u)
                    else if hd u = CHR '','' then map_option (\<lambda>(ms, v). ((k, j) # ms, v)) (read_members n (tl u))
                    else None)))"

definition load_canonical_object :: "string \<Rightarrow> string \<Rightarrow> json res" where
  "load_canonical_object text label =
     (case read_value (Suc (length text)) text of
        Some (j, []) \<Rightarrow>
          (case j of
             JObj members \<Rightarrow>
               if \<not> json_wf j \<or> dumps j \<noteq> text
               then Inl (PersistenceIntegrityError (label @ '' is not canonical JSON''))
               else Inr j
           | _ \<Rightarrow> Inl (PersistenceIntegrityError (label @ '' must be a JSON object'')))
      | _ \<Rightarrow> Inl (PersistenceIntegrityError (label @ '' is not valid JSON'')))"

subsection \<open>Reading what was written\<close>

lemma read_string_escapes: "read_string (concat (map escape_char s) @ CHR 0x22 # r) = Some (s, r)"
proof (induction s)
  case (Cons c s)
  let ?t = "concat (map escape_char s) @ CHR 0x22 # r"
  have k: "escape_length (escape_char c @ ?t) = length (escape_char c)" by (rule escape_length_eq)
  obtain x xs where x: "escape_char c @ ?t = x # xs" "x \<noteq> CHR 0x22"
    using escape_not_quote [of c ?t] by (cases "escape_char c @ ?t") (auto simp: escape_char_def)
  have "read_string (x # xs) = map_option (\<lambda>(t, r). (unescape (take (length (escape_char c)) (escape_char c @ ?t)) # t, r))
      (read_string (drop (length (escape_char c)) (escape_char c @ ?t)))"
    using x k by (simp add: Let_def)
  also have "\<dots> = Some (c # s, r)" using Cons by (simp add: unescape_escape)
  finally show ?case using x by simp
qed simp

lemma read_number_int: "no_digit_head r \<Longrightarrow> read_number (int_repr i @ r) = Some (JInt i, r)"
proof -
  assume r: "no_digit_head r"
  have nd: "nat_repr n \<noteq> [] \<and> hd (nat_repr n) \<noteq> CHR ''-''" for n
    using nat_repr_hd [of n] nat_repr_nonempty [of n] by (metis not_is_digit_minus)
  have t: "takeWhile is_digit (nat_repr n @ r) = nat_repr n" "dropWhile is_digit (nat_repr n @ r) = r" for n
    using r nat_repr_digits [of n] takeWhile_digits [of "nat_repr n" r]
    by (auto simp: no_digit_head_def list_all_iff) (cases r; auto simp: dropWhile_append)
  show ?thesis
    using nd t by (cases "i < 0") (simp_all add: int_repr_def read_number_def Let_def nat_repr_value)
qed

lemma emit_hd: "emit j @ r = c # s \<Longrightarrow> head_kind c = json_kind j"
  using head_kind_emit [of j] emit_nonempty [of j] by (cases "emit j") auto

lemma emit_items_hd: "js \<noteq> [] \<Longrightarrow> emit_items js @ r \<noteq> CHR '']'' # s"
  using emit_not_bracket by (cases js) auto

lemma emit_length: "0 < length (emit j)"
  using emit_nonempty [of j] by simp

lemma read_emit:
  "value_end r \<Longrightarrow> length (emit j) < n \<Longrightarrow> read_value n (emit j @ r) = Some (j, r)"
  "js \<noteq> [] \<Longrightarrow> Suc (length (emit_items js)) < n \<Longrightarrow>
    read_items n (emit_items js @ CHR '']'' # s) = Some (js, s)"
  "ms \<noteq> [] \<Longrightarrow> Suc (length (emit_members ms)) < n \<Longrightarrow>
    read_members n (emit_members ms @ CHR ''}'' # t) = Some (ms, t)"
proof (induction j and js and ms arbitrary: n r and n s and n t rule: emit_emit_items_emit_members.induct)
  case 1
  then show ?case by (cases n) (simp_all add: read_word_def)
next
  case (2 b)
  then show ?case by (cases n; cases b) (simp_all add: read_word_def)
next
  case (3 i)
  obtain c s where c: "int_repr i @ r = c # s" "head_kind c = 2"
    using emit_hd [of "JInt i" r] by (cases "int_repr i @ r") (auto simp: json_kind_def int_repr_def nat_repr_nonempty split: if_splits)
  then have k: "c \<noteq> CHR ''n''" "c \<noteq> CHR ''t''" "c \<noteq> CHR ''f''" "c \<noteq> CHR 0x22" "c \<noteq> CHR ''[''" "c \<noteq> CHR ''{''"
    by (auto simp: head_kind_def is_digit_def digits09_def)
  obtain m where "n = Suc m" using 3(2) by (cases n) auto
  then have "read_value n (c # s) = read_number (c # s)" using k by (simp add: Let_def)
  then show ?case using c(1) read_number_int [OF value_end_no_digit [OF 3(1)], of i] by simp
next
  case (4 x)
  then show ?case by (cases n) (simp_all add: quote_def read_string_escapes)
next
  case (5 xs)
  then obtain m where m: "n = Suc m" by (cases n) auto
  show ?case
  proof (cases "xs = []")
    case False
    have h: "\<not> (emit_items xs @ CHR '']'' # r \<noteq> [] \<and> hd (emit_items xs @ CHR '']'' # r) = CHR '']'')"
      using emit_items_hd [OF False, of "CHR '']'' # r"] by (metis list.collapse)
    have "Suc (length (emit_items xs)) < m" using 5(3) m by simp
    from 5(1) [OF False this, of r] h m show ?thesis by (simp add: Let_def)
  qed (simp add: m)
next
  case (6 kvs)
  then obtain m where m: "n = Suc m" by (cases n) auto
  show ?case
  proof (cases "kvs = []")
    case False
    have h: "hd (emit_members kvs @ CHR ''}'' # r) \<noteq> CHR ''}''"
      using False by (cases kvs) (simp_all add: quote_def)
    have "Suc (length (emit_members kvs)) < m" using 6(3) m by simp
    from 6(1) [OF False this, of r] h m show ?thesis by (simp add: Let_def)
  qed (simp add: m)
next
  case 7
  then show ?case by simp
next
  case (8 x xs)
  then obtain m where m: "n = Suc m" by (cases n) auto
  show ?case
  proof (cases "xs = []")
    case True
    have "read_value m (emit x @ CHR '']'' # s) = Some (x, CHR '']'' # s)"
      by (rule 8(1)) (use 8(4) m True in simp_all)
    then show ?thesis using True m by simp
  next
    case False
    have v: "read_value m (emit x @ CHR '','' # emit_items xs @ CHR '']'' # s) =
        Some (x, CHR '','' # emit_items xs @ CHR '']'' # s)"
      by (rule 8(1)) (use 8(4) m False in simp_all)
    have "read_items m (emit_items xs @ CHR '']'' # s) = Some (xs, s)"
      by (rule 8(2)) (use 8(4) m False emit_length [of x] in simp_all)
    with v show ?thesis using False m by simp
  qed
next
  case 9
  then show ?case by simp
next
  case (10 kv kvs)
  then obtain m where m: "n = Suc m" by (cases n) auto
  obtain k j where kv: "kv = (k, j)" by (cases kv)
  let ?rest = "(if kvs = [] then [] else CHR '','' # emit_members kvs) @ CHR ''}'' # t"
  have v: "read_value m (emit j @ ?rest) = Some (j, ?rest)"
    using 10(1) [of ?rest m] 10(4) m kv by (simp add: quote_def split: if_splits)
  have "read_members (Suc m) (CHR 0x22 # concat (map escape_char k) @ CHR 0x22 # CHR '':'' # emit j @ ?rest) =
      (if kvs = [] then Some ([kv], t) else map_option (\<lambda>(ms, v). (kv # ms, v)) (read_members m (emit_members kvs @ CHR ''}'' # t)))"
    using v by (simp add: read_string_escapes kv)
  moreover have "read_members m (emit_members kvs @ CHR ''}'' # t) = Some (kvs, t)" if "kvs \<noteq> []"
    using 10(2) [OF that that, of m t] 10(4) m that by (simp add: quote_def)
  ultimately show ?case using m kv by (auto simp: quote_def)
qed

lemma canon_kind [simp]: "json_kind (canon j) = json_kind j"
  by (cases j) (simp_all add: json_kind_def)

lemma sort_key_sorted_id: "sorted (map f xs) \<Longrightarrow> sort_key f xs = xs"
  by (induction xs) (simp_all add: insort_is_Cons)

lemma canon_canon [simp]: "canon (canon j) = canon j"
proof (induction j rule: canon.induct)
  case (2 kvs)
  let ?xs = "map (\<lambda>kv. (fst kv, canon (snd kv))) kvs"
  have "map (\<lambda>kv. (fst kv, canon (snd kv))) (sort_key fst ?xs) = sort_key fst ?xs"
    by (rule map_idI) (use 2 in auto)
  then show ?case by (simp add: sort_key_sorted_id)
qed simp_all

lemma canon_wf [simp]: "json_wf (canon j) = json_wf j"
proof (induction j rule: canon.induct)
  case (2 kvs)
  let ?xs = "map (\<lambda>kv. (fst kv, canon (snd kv))) kvs"
  have "distinct (map fst (sort_key fst ?xs)) = distinct (map fst ?xs)"
    by (simp only: distinct_map distinct_sort set_sort)
  then have "distinct (map fst (sort_key fst ?xs)) = distinct (map fst kvs)" by (simp add: comp_def)
  then show ?case using 2 by (auto simp: list_all_iff)
qed (simp_all add: list_all_iff)

theorem canonical_object_roundtrip:
  assumes "json_wf j" and "json_kind j = 5"
  shows "load_canonical_object (dumps j) label = Inr (canon j)"
proof -
  have "read_value (Suc (length (emit (canon j)))) (emit (canon j) @ []) = Some (canon j, [])"
    by (rule read_emit) (simp_all add: value_end_def)
  moreover obtain ms where "canon j = JObj ms" using assms(2) by (cases j) (simp_all add: json_kind_def)
  moreover have "json_wf (canon j)" "dumps (canon j) = emit (canon j)" using assms(1) by (simp_all add: dumps_def)
  ultimately show ?thesis by (simp add: load_canonical_object_def dumps_def)
qed

theorem canonical_object_roundtrip_sample: "load_canonical_object ''{}'' [] = Inr (JObj [])"
  using canonical_object_roundtrip [of "JObj []"] by (simp add: dumps_def json_kind_def)

lemma load_canonical_object_Inr:
  "load_canonical_object s label = Inr j \<Longrightarrow> json_wf j \<and> json_kind j = 5 \<and> dumps j = s"
  by (auto simp: load_canonical_object_def json_kind_def split: option.splits json.splits list.splits if_splits prod.splits)

end
