(* ===== verification/Outbox.thy ===== *)
theory Outbox
  imports Library_Sample Json_Reader
begin

text \<open>
  The outbox export of \<open>persistence/repository.py\<close> (\<open>pending_outbox_events\<close>, \<open>export_outbox\<close> and
  the event file helpers): committed events are appended to \<open>events.jsonl\<close>, one canonical line
  each, and then marked delivered.  An export may stop after any of its effects: a failed or torn
  write, a hook that raises, a clock that raises.  The file is its bytes; the file lock, which makes
  exports exclusive, and the verification of the database file are not modelled.
\<close>

subsection \<open>Events\<close>

definition envelope :: "event_row \<Rightarrow> json" where
  "envelope e =
     JObj
       [(''schema'', JStr ''dithyramba.event/1.0''), (''event_id'', JStr (ev_id e)),
        (''event_type'', JStr (ev_type e)), (''aggregate_type'', JStr (ev_aggregate_type e)),
        (''aggregate_id'', JStr (ev_aggregate_id e)), (''payload'', ev_payload e),
        (''payload_hash'', JStr (ev_payload_hash e)), (''occurred_at'', JStr (ev_occurred_at e))]"

text \<open>\<open>_outbox_event_from_row\<close>; the column \<open>payload_json\<close> holds the canonical text of the payload.\<close>

definition outbox_event_from_row :: "event_row \<Rightarrow> event_row res" where
  "outbox_event_from_row r =
     res_bind (load_canonical_object (dumps (ev_payload r)) ''outbox payload'') (\<lambda>payload.
     if canonical_sha256_hex payload \<noteq> ev_payload_hash r
     then Inl (PersistenceIntegrityError ''outbox payload hash mismatch'')
     else
       res_bind (case ev_delivered_at r of
           None \<Rightarrow> Inr None
         | Some t \<Rightarrow> res_bind (validated_timestamp t) (\<lambda>d. Inr (Some d))) (\<lambda>delivered.
       res_bind (validated_label (ev_type r) ''event type'') (\<lambda>et.
       res_bind (validated_label (ev_aggregate_type r) ''aggregate type'') (\<lambda>at.
       res_bind (validated_label (ev_aggregate_id r) ''aggregate ID'') (\<lambda>ai.
       res_bind (validated_timestamp (ev_occurred_at r)) (\<lambda>oc.
         Inr \<lparr>ev_id = ev_id r, ev_type = et, ev_aggregate_type = at, ev_aggregate_id = ai,
              ev_payload = payload, ev_payload_hash = canonical_sha256_hex payload,
              ev_occurred_at = oc, ev_delivered_at = delivered\<rparr>))))))"

definition pending_outbox_events :: "library_store \<Rightarrow> event_row list res" where
  "pending_outbox_events st =
     map_res outbox_event_from_row
       (sort_key (\<lambda>r. (ev_occurred_at r, ev_id r)) (filter (\<lambda>r. ev_delivered_at r = None) (st_events st)))"

definition event_line :: "event_row \<Rightarrow> byte list" where
  "event_line e = canonical_json_bytes (envelope e) @ [10]"

subsection \<open>The event file\<close>

text \<open>\<open>bytes.splitlines(keepends=True)\<close>: lines end at a newline, a carriage return or both.\<close>

fun byte_lines :: "byte list \<Rightarrow> byte list \<Rightarrow> byte list list" where
  "byte_lines acc [] = (if acc = [] then [] else [acc])"
| "byte_lines acc (b # bs) =
     (if b = 10 then (acc @ [b]) # byte_lines [] bs
      else if b = 13 then
        (case bs of
           c # cs \<Rightarrow> if c = 10 then (acc @ [b, c]) # byte_lines [] cs else (acc @ [b]) # byte_lines [] bs
         | [] \<Rightarrow> [acc @ [b]])
      else byte_lines (acc @ [b]) bs)"

text \<open>\<open>bytes.decode("utf-8")\<close> on code points below U+0100.\<close>

definition decode_strict :: "byte list \<Rightarrow> string option" where
  "decode_strict bs = (let s = utf8_decode bs in if utf8 s = bs then Some s else None)"

definition load_event_line :: "byte list \<Rightarrow> json res" where
  "load_event_line line =
     (case decode_strict (butlast line) of
        None \<Rightarrow> Inl (OutboxExportError ''events.jsonl contains an invalid canonical line'')
      | Some text \<Rightarrow>
          (case load_canonical_object text ''events.jsonl line'' of
             Inl _ \<Rightarrow> Inl (OutboxExportError ''events.jsonl contains an invalid canonical line'')
           | Inr event \<Rightarrow> Inr event))"

fun get_member :: "string \<Rightarrow> json \<Rightarrow> json option" where
  "get_member k (JObj members) = map_of members k"
| "get_member k _ = None"

definition add_event_line ::
  "byte list \<Rightarrow> (string \<times> byte list) list \<Rightarrow> (string \<times> byte list) list res" where
  "add_event_line line result =
     res_bind (load_event_line line) (\<lambda>event.
       case get_member ''event_id'' event of
         Some (JStr i) \<Rightarrow>
           if \<not> has_prefix ''event_'' i
           then Inl (OutboxExportError ''events.jsonl line has an invalid event_id'')
           else if i \<in> fst ` set result
           then Inl (OutboxExportError (''events.jsonl contains duplicate event ID: '' @ i))
           else Inr (result @ [(i, line)])
       | _ \<Rightarrow> Inl (OutboxExportError ''events.jsonl line has an invalid event_id''))"

definition read_event_descriptor :: "byte list \<Rightarrow> (string \<times> byte list) list res" where
  "read_event_descriptor payload =
     (if payload \<noteq> [] \<and> last payload \<noteq> 10
      then Inl (OutboxExportError ''events.jsonl ends with a partial line'')
      else fold_res add_event_line (byte_lines [] payload) [])"

subsection \<open>Delivery\<close>

text \<open>
  What the environment does to one event: \<open>at_written\<close> is the number of bytes on disk when the
  write or its sync fails (\<open>None\<close> when both succeed), \<open>at_hook\<close> the outcome of \<open>after_append\<close> and
  \<open>at_clock\<close> that of \<open>_timestamp\<close>.  A process that dies leaves what a raised error leaves.
\<close>

record attempt =
  at_written :: "nat option"
  at_hook :: "unit res"
  at_clock :: "string res"

record export_result =
  er_appended :: nat
  er_deduplicated :: nat
  er_delivered :: nat
  er_last :: "string option"

definition append_and_fsync :: "nat option \<Rightarrow> byte list \<Rightarrow> byte list \<Rightarrow> unit res \<times> byte list" where
  "append_and_fsync written payload f =
     (case written of
        Some k \<Rightarrow> (Inl (OutboxExportError ''event append/fsync failed''), f @ take k payload)
      | None \<Rightarrow> (Inr (), f @ payload))"

text \<open>The append of one event, unless its line is in the file: the lines known and the counts.\<close>

definition write_event ::
  "attempt \<Rightarrow> (string \<times> byte list) list \<Rightarrow> export_result \<Rightarrow> event_row \<Rightarrow> byte list \<Rightarrow>
     ((string \<times> byte list) list \<times> export_result) res \<times> byte list" where
  "write_event a existing c e f =
     (case map_of existing (ev_id e) of
        None \<Rightarrow>
          (case append_and_fsync (at_written a) (event_line e) f of
             (Inl x, f') \<Rightarrow> (Inl x, f')
           | (Inr _, f') \<Rightarrow>
               (res_bind (at_hook a) (\<lambda>_.
                  Inr ((ev_id e, event_line e) # existing, c\<lparr>er_appended := er_appended c + 1\<rparr>)), f'))
      | Some previous \<Rightarrow>
          if previous \<noteq> event_line e
          then (Inl (OutboxExportError (''events.jsonl contains conflicting event ID: '' @ ev_id e)), f)
          else (Inr (existing, c\<lparr>er_deduplicated := er_deduplicated c + 1\<rparr>), f))"

definition settle_event :: "attempt \<Rightarrow> event_row \<Rightarrow> library_store \<Rightarrow> library_store res" where
  "settle_event a e st = res_bind (at_clock a) (\<lambda>now. mark_delivered now (ev_id e) st)"

fun deliver ::
  "(string \<Rightarrow> attempt) \<Rightarrow> (string \<times> byte list) list \<Rightarrow> export_result \<Rightarrow> event_row list \<Rightarrow>
     library_store \<Rightarrow> byte list \<Rightarrow> export_result res \<times> library_store \<times> byte list" where
  "deliver env existing c [] st f = (Inr c, st, f)"
| "deliver env existing c (e # es) st f =
     (case write_event (env (ev_id e)) existing c e f of
        (Inl x, f') \<Rightarrow> (Inl x, st, f')
      | (Inr (existing', c'), f') \<Rightarrow>
          (case settle_event (env (ev_id e)) e st of
             Inl x \<Rightarrow> (Inl x, st, f')
           | Inr st' \<Rightarrow>
               deliver env existing'
                 (c'\<lparr>er_delivered := er_delivered c' + 1, er_last := Some (ev_id e)\<rparr>) es st' f'))"

definition export_outbox ::
  "(string \<Rightarrow> attempt) \<Rightarrow> library_store \<Rightarrow> byte list \<Rightarrow> export_result res \<times> library_store \<times> byte list" where
  "export_outbox env st f =
     (case read_event_descriptor f of
        Inl x \<Rightarrow> (Inl x, st, f)
      | Inr existing \<Rightarrow>
          (case pending_outbox_events st of
             Inl x \<Rightarrow> (Inl x, st, f)
           | Inr events \<Rightarrow>
               deliver env existing
                 \<lparr>er_appended = 0, er_deduplicated = 0, er_delivered = 0, er_last = None\<rparr> events st f))"

end
