(* ===== verification/Outbox_Props.thy ===== *)
theory Outbox_Props
  imports Outbox
begin

text \<open>
  The event file holds whole lines of distinct stored events, among them every delivered one:
  an invariant of committed operations and of exports that stop anywhere but inside a line.
\<close>

subsection \<open>Stored events\<close>

definition event_row_ok :: "event_row \<Rightarrow> bool" where
  "event_row_ok e \<longleftrightarrow>
     id_check ''event_'' (ev_id e) \<and> payload_object (ev_payload e) \<and>
     ev_payload_hash e = canonical_sha256_hex (ev_payload e) \<and>
     (\<forall>l. validated_label (ev_type e) l = Inr (ev_type e)) \<and>
     (\<forall>l. validated_label (ev_aggregate_type e) l = Inr (ev_aggregate_type e)) \<and>
     (\<forall>l. validated_label (ev_aggregate_id e) l = Inr (ev_aggregate_id e)) \<and>
     validated_timestamp (ev_occurred_at e) = Inr (ev_occurred_at e) \<and>
     pred_option (\<lambda>t. validated_timestamp t = Inr t) (ev_delivered_at e)"

definition events_ok :: "library_store \<Rightarrow> bool" where
  "events_ok st \<longleftrightarrow> distinct (map ev_id (st_events st)) \<and> (\<forall>e \<in> set (st_events st). event_row_ok e)"

interpretation events: row_invariant events_ok
proof unfold_locales
  fix e t g i p now st st'
  assume i: "insert_outbox_event e t g i p now st = Inr st'" and p: "payload_object p" and ok: "events_ok st"
  then show "events_ok st'"
    by (auto simp: insert_outbox_event_def res_simps events_ok_def event_row_ok_def)
qed (auto simp: insert_defs insert_blob_or_ignore_def res_simps events_ok_def update_head_Inr)

text \<open>A committed operation appends undelivered events and leaves the others.\<close>

definition events_since :: "event_row list \<Rightarrow> library_store \<Rightarrow> bool" where
  "events_since base st \<longleftrightarrow> (\<exists>new. st_events st = base @ new \<and> (\<forall>e \<in> set new. ev_delivered_at e = None))"

interpretation since: row_invariant "events_since base" for base
proof unfold_locales
  fix e t g i p now st st'
  assume "insert_outbox_event e t g i p now st = Inr st'" and "payload_object p" and "events_since base st"
  then show "events_since base st'"
    by (auto simp: insert_outbox_event_def res_simps events_since_def)
qed (auto simp: insert_defs insert_blob_or_ignore_def res_simps events_since_def update_head_Inr)

subsection \<open>The line of an event\<close>

definition loaded :: "event_row \<Rightarrow> event_row" where
  "loaded e = e\<lparr>ev_payload := canon (ev_payload e)\<rparr>"

definition undelivered :: "event_row \<Rightarrow> event_row" where
  "undelivered e = e\<lparr>ev_delivered_at := None\<rparr>"

lemma loaded_id [simp]: "ev_id (loaded e) = ev_id e"
  and undelivered_id [simp]: "ev_id (undelivered e) = ev_id e"
  by (simp_all add: loaded_def undelivered_def)

lemma canonical_hash_canon [simp]: "canonical_sha256_hex (canon j) = canonical_sha256_hex j"
  by (simp add: canonical_sha256_hex_def canonical_json_bytes_def dumps_def)

lemma event_from_row: "event_row_ok e \<Longrightarrow> outbox_event_from_row e = Inr (loaded e)"
  by (cases e; cases "ev_delivered_at e")
    (auto simp: event_row_ok_def outbox_event_from_row_def payload_object_def canonical_object_roundtrip
      loaded_def)

lemma event_line_loaded [simp]: "event_line (loaded e) = event_line e"
  by (simp add: event_line_def envelope_def loaded_def canonical_json_bytes_def dumps_def)

lemma event_line_undelivered [simp]: "event_line (undelivered e) = event_line e"
  and event_line_delivered [simp]: "event_line (e\<lparr>ev_delivered_at := d\<rparr>) = event_line e"
  by (simp_all add: event_line_def envelope_def undelivered_def)

lemma hexdigit_code: "c \<in> set hexdigits \<Longrightarrow> 32 \<le> (of_char c :: nat)"
proof -
  have "list_all (\<lambda>c. 32 \<le> (of_char c :: nat)) hexdigits" by code_simp
  then show "c \<in> set hexdigits \<Longrightarrow> 32 \<le> (of_char c :: nat)" by (simp add: list_all_iff)
qed

lemma hex_nibble_code: "32 \<le> (of_char (hex_nibble n) :: nat)"
proof -
  have "length hexdigits = 16" by code_simp
  then show ?thesis by (intro hexdigit_code) (simp add: hex_nibble_def)
qed

lemma escape_code: "c \<in> set (escape_char d) \<Longrightarrow> 32 \<le> (of_char c :: nat)"
  by (auto simp: escape_char_def hex_nibble_code split: if_splits)

lemma quote_code: "c \<in> set (quote s) \<Longrightarrow> 32 \<le> (of_char c :: nat)"
  by (auto simp: quote_def escape_code)

lemma digit_code: "is_digit c \<Longrightarrow> 32 \<le> (of_char c :: nat)"
  by (auto simp: is_digit_def digits09_def)

lemma int_code: "c \<in> set (int_repr i) \<Longrightarrow> 32 \<le> (of_char c :: nat)"
  using nat_repr_digits by (auto simp: int_repr_def list_all_iff intro: digit_code split: if_splits)

lemma emit_code:
  "c \<in> set (emit j) \<Longrightarrow> 32 \<le> (of_char c :: nat)"
  "c \<in> set (emit_items js) \<Longrightarrow> 32 \<le> (of_char c :: nat)"
  "c \<in> set (emit_members ms) \<Longrightarrow> 32 \<le> (of_char c :: nat)"
  by (induction j and js and ms rule: emit_emit_items_emit_members.induct)
    (auto simp: int_code quote_code split: if_splits)

lemma utf8_no_break:
  assumes "32 \<le> (of_char c :: nat)" and "b \<in> set (utf8_char c)"
  shows "b \<noteq> 10" and "b \<noteq> 13"
proof -
  have n: "(of_char c :: nat) < 256" by simp
  have "32 \<le> unat b"
  proof (cases "(of_char c :: nat) < 128")
    case True
    with assms n show ?thesis by (simp add: utf8_char_def Let_def unat_byte)
  next
    case False
    then have "b = word_of_nat (192 + of_char c div 64) \<or> b = word_of_nat (128 + of_char c mod 64)"
      using assms(2) by (simp add: utf8_char_def Let_def)
    moreover have "(of_char c :: nat) div 64 < 4" using n by (intro less_mult_imp_div_less) simp
    then have "192 + (of_char c :: nat) div 64 < 256" by simp
    moreover have "(of_char c :: nat) mod 64 < 64" by simp
    then have "128 + (of_char c :: nat) mod 64 < 256" by simp
    ultimately show ?thesis using unat_byte by (elim disjE) (simp_all del: of_nat_add)
  qed
  then show "b \<noteq> 10" and "b \<noteq> 13" by auto
qed

lemma bytes_no_break: "b \<in> set (canonical_json_bytes j) \<Longrightarrow> b \<noteq> 10 \<and> b \<noteq> 13"
  using utf8_no_break emit_code(1) unfolding canonical_json_bytes_def utf8_def dumps_def by fastforce

lemma byte_lines_line:
  "(\<forall>b \<in> set xs. b \<noteq> 10 \<and> b \<noteq> 13) \<Longrightarrow> byte_lines acc (xs @ 10 # rest) = (acc @ xs @ [10]) # byte_lines [] rest"
  by (induction xs arbitrary: acc) auto

abbreviation file_of :: "event_row list \<Rightarrow> byte list" where
  "file_of rs \<equiv> concat (map event_line rs)"

lemma byte_lines_events: "byte_lines [] (file_of rs) = map event_line rs"
proof (induction rs)
  case (Cons r rs)
  have "byte_lines [] (canonical_json_bytes (envelope r) @ 10 # file_of rs) =
      ([] @ canonical_json_bytes (envelope r) @ [10]) # byte_lines [] (file_of rs)"
    by (rule byte_lines_line) (simp add: bytes_no_break)
  moreover have "file_of (r # rs) = canonical_json_bytes (envelope r) @ 10 # file_of rs"
    by (simp add: event_line_def)
  moreover have "event_line r = [] @ canonical_json_bytes (envelope r) @ [10]" by (simp add: event_line_def)
  ultimately show ?case using Cons by (simp only: list.map)
qed simp

lemma envelope_wf: "payload_object (ev_payload e) \<Longrightarrow> json_wf (envelope e) \<and> json_kind (envelope e) = 5"
  by (simp add: envelope_def payload_object_def json_kind_def)

lemma load_event_line: "payload_object (ev_payload e) \<Longrightarrow> load_event_line (event_line e) = Inr (canon (envelope e))"
  by (simp add: load_event_line_def event_line_def decode_strict_def canonical_json_bytes_def utf8_roundtrip
      canonical_object_roundtrip envelope_wf)

lemma map_of_sort_key: "distinct (map fst xs) \<Longrightarrow> map_of (sort_key fst xs) = map_of xs"
  by (subst map_of_inject_set) (simp_all add: distinct_map)

lemma envelope_id: "get_member ''event_id'' (canon (envelope e)) = Some (JStr (ev_id e))"
  by (simp add: envelope_def map_of_sort_key del: sort_key_simps)

subsection \<open>Reading the file back\<close>

abbreviation lines_of :: "event_row list \<Rightarrow> (string \<times> byte list) list" where
  "lines_of rs \<equiv> map (\<lambda>r. (ev_id r, event_line r)) rs"

lemma read_lines:
  assumes "\<forall>r \<in> set rs. event_row_ok r" and "distinct (map ev_id rs)" and "\<forall>r \<in> set rs. ev_id r \<notin> fst ` set acc"
  shows "fold_res add_event_line (map event_line rs) acc = Inr (acc @ lines_of rs)"
  using assms
proof (induction rs arbitrary: acc)
  case (Cons r rs)
  have "add_event_line (event_line r) acc = Inr (acc @ [(ev_id r, event_line r)])"
    using Cons.prems by (simp add: add_event_line_def load_event_line event_row_ok_def envelope_id id_check_def)
  moreover have "fold_res add_event_line (map event_line rs) (acc @ [(ev_id r, event_line r)]) =
      Inr ((acc @ [(ev_id r, event_line r)]) @ lines_of rs)"
    by (rule Cons.IH) (use Cons.prems in \<open>auto simp: rev_image_eqI\<close>)
  ultimately show ?case by simp
qed simp

lemma last_file: "rs \<noteq> [] \<Longrightarrow> last (file_of rs) = 10"
  by (induction rs rule: rev_induct) (simp_all add: event_line_def)

lemma read_file:
  assumes "\<forall>r \<in> set rs. event_row_ok r" and "distinct (map ev_id rs)"
  shows "read_event_descriptor (file_of rs) = Inr (lines_of rs)"
  using read_lines [OF assms, of "[]"] last_file [of rs]
  by (cases "rs = []") (auto simp: read_event_descriptor_def byte_lines_events)

subsection \<open>The journal\<close>

text \<open>The file holds the lines of \<open>rs\<close>: distinct stored events, with every delivered one.\<close>

definition journal :: "library_store \<Rightarrow> byte list \<Rightarrow> event_row list \<Rightarrow> bool" where
  "journal st f rs \<longleftrightarrow>
     events_ok st \<and> f = file_of rs \<and> distinct (map ev_id rs) \<and>
     set rs \<subseteq> undelivered ` set (st_events st) \<and>
     (\<forall>x \<in> set (st_events st). ev_delivered_at x \<noteq> None \<longrightarrow> ev_id x \<in> ev_id ` set rs)"

lemma journalD:
  assumes "journal st f rs"
  shows "events_ok st" "f = file_of rs" "distinct (map ev_id rs)"
    "\<And>x. x \<in> set (st_events st) \<Longrightarrow> event_row_ok x"
    "\<And>r. r \<in> set rs \<Longrightarrow> \<exists>x \<in> set (st_events st). r = undelivered x"
    "\<And>x. x \<in> set (st_events st) \<Longrightarrow> ev_delivered_at x \<noteq> None \<Longrightarrow> ev_id x \<in> ev_id ` set rs"
  using assms unfolding journal_def events_ok_def by auto

lemma event_unique: "events_ok st \<Longrightarrow> x \<in> set (st_events st) \<Longrightarrow> y \<in> set (st_events st) \<Longrightarrow> ev_id x = ev_id y \<Longrightarrow> x = y"
  unfolding events_ok_def distinct_map by (blast dest: inj_onD)

lemma undelivered_ok: "event_row_ok x \<Longrightarrow> event_row_ok (undelivered x)"
  by (simp add: event_row_ok_def undelivered_def)

lemma journal_reads:
  assumes "journal st f rs"
  shows "read_event_descriptor f = Inr (lines_of rs)"
proof -
  have "\<forall>r \<in> set rs. event_row_ok r" using journalD(4,5) [OF assms] undelivered_ok by blast
  then show ?thesis using read_file journalD(2,3) [OF assms] by simp
qed

lemma lines_of_event:
  assumes "journal st f rs" and "x \<in> set (st_events st)"
  shows "map_of (lines_of rs) (ev_id x) = (if ev_id x \<in> ev_id ` set rs then Some (event_line x) else None)"
proof (cases "ev_id x \<in> ev_id ` set rs")
  case True
  then obtain r where r: "r \<in> set rs" "ev_id r = ev_id x" by auto
  then obtain y where y: "y \<in> set (st_events st)" "r = undelivered y" using journalD(5) [OF assms(1)] by blast
  with r have "y = x" using event_unique [OF journalD(1) [OF assms(1)] _ assms(2)] by simp
  then have "(ev_id x, event_line x) \<in> set (lines_of rs)" using r y by (auto simp: image_iff intro: bexI [of _ r])
  moreover have "distinct (map fst (lines_of rs))" using journalD(3) [OF assms(1)] by (simp add: comp_def)
  ultimately show ?thesis using True by (simp add: map_of_is_SomeI)
next
  case False
  then show ?thesis by (auto simp: map_of_eq_None_iff)
qed

lemma map_of_snoc: "k \<notin> fst ` set xs \<Longrightarrow> map_of (xs @ [(k, v)]) = (map_of xs)(k \<mapsto> v)"
  by (induction xs) (auto simp: fun_eq_iff)

lemma journal_add:
  assumes "journal st f rs" and "x \<in> set (st_events st)" and "ev_delivered_at x = None" and "ev_id x \<notin> ev_id ` set rs"
  shows "journal st (f @ event_line x) (rs @ [x])"
proof -
  have "undelivered x = x" using assms(3) by (simp add: undelivered_def)
  then have "x \<in> undelivered ` set (st_events st)" using assms(2) by (metis imageI)
  with assms show ?thesis unfolding journal_def by auto
qed

subsection \<open>One event\<close>

text \<open>A write that stops leaves the whole line or nothing of it.\<close>

definition whole_writes :: "(string \<Rightarrow> attempt) \<Rightarrow> library_store \<Rightarrow> bool" where
  "whole_writes env st \<longleftrightarrow>
     (\<forall>e \<in> set (st_events st). \<forall>k. at_written (env (ev_id e)) = Some k \<longrightarrow> k = 0 \<or> length (event_line e) \<le> k)"

definition clocks_ok :: "(string \<Rightarrow> attempt) \<Rightarrow> bool" where
  "clocks_ok env \<longleftrightarrow> (\<forall>i t. at_clock (env i) = Inr t \<longrightarrow> validated_timestamp t = Inr t)"

definition known_lines :: "(string \<times> byte list) list \<Rightarrow> event_row list \<Rightarrow> bool" where
  "known_lines existing rs \<longleftrightarrow> map_of existing = map_of (lines_of rs)"

definition with_event :: "event_row \<Rightarrow> event_row list \<Rightarrow> event_row list" where
  "with_event x rs = (if ev_id x \<in> ev_id ` set rs then rs else rs @ [x])"

text \<open>What one call of \<open>write_event\<close> leaves.\<close>

definition written ::
  "library_store \<Rightarrow> event_row list \<Rightarrow> event_row \<Rightarrow> export_result \<Rightarrow>
     ((string \<times> byte list) list \<times> export_result) res \<Rightarrow> byte list \<Rightarrow> event_row list \<Rightarrow> bool" where
  "written st rs x c r f' rs' \<longleftrightarrow>
     journal st f' rs' \<and> rs' \<in> {rs, with_event x rs} \<and>
     (case r of
        Inl _ \<Rightarrow> True
      | Inr (existing', c') \<Rightarrow>
          rs' = with_event x rs \<and> known_lines existing' rs' \<and>
          er_appended c' + er_deduplicated c' = Suc (er_appended c + er_deduplicated c) \<and>
          er_delivered c' = er_delivered c)"

lemma write_event_cases:
  assumes j: "journal st f rs" and k: "known_lines existing rs"
    and x: "x \<in> set (st_events st)" "ev_delivered_at x = None"
    and w: "write_event a existing c (loaded x) f = (r, f')"
    and whole: "\<forall>n. at_written a = Some n \<longrightarrow> n = 0 \<or> length (event_line x) \<le> n"
  shows "(\<exists>rs'. written st rs x c r f' rs') \<and>
    (at_written a = None \<longrightarrow> at_hook a = Inr () \<longrightarrow> (\<exists>z. r = Inr z))"
proof (cases "ev_id x \<in> ev_id ` set rs")
  have m: "map_of existing (ev_id x) = (if ev_id x \<in> ev_id ` set rs then Some (event_line x) else None)"
    using k lines_of_event [OF j x(1)] by (simp add: known_lines_def)
  {
    case True
    with w m have r: "r = Inr (existing, c\<lparr>er_deduplicated := er_deduplicated c + 1\<rparr>)" "f' = f"
      by (simp_all add: write_event_def)
    then have "written st rs x c r f' rs" using True j k by (simp add: written_def with_event_def)
    with r show ?thesis by blast
  next
    case False
    note add = journal_add [OF j x False]
    have lines: "known_lines ((ev_id x, event_line x) # existing) (rs @ [x])"
    proof -
      have "map_of (lines_of rs @ [(ev_id x, event_line x)]) = (map_of (lines_of rs))(ev_id x \<mapsto> event_line x)"
        using False by (intro map_of_snoc) (auto simp: image_iff)
      with k show ?thesis by (simp add: known_lines_def)
    qed
    show ?thesis
    proof (cases "at_written a")
      case None
      with w m False have f': "f' = f @ event_line x" and r: "r = res_bind (at_hook a) (\<lambda>_.
          Inr ((ev_id x, event_line x) # existing, c\<lparr>er_appended := er_appended c + 1\<rparr>))"
        by (simp_all add: write_event_def append_and_fsync_def)
      have "written st rs x c r f' (rs @ [x])"
        using add lines False unfolding f' r by (cases "at_hook a") (simp_all add: written_def with_event_def)
      with r show ?thesis by auto
    next
      case (Some n)
      with w m False have r: "f' = f @ take n (event_line x)" "\<exists>e. r = Inl e"
        by (auto simp: write_event_def append_and_fsync_def)
      then have "\<exists>rs'. written st rs x c r f' rs'"
        using whole Some j add False by (auto simp: written_def with_event_def)
      with Some show ?thesis by simp
    qed
  }
qed

text \<open>Marking an event delivered.\<close>

definition marked :: "string \<Rightarrow> string \<Rightarrow> event_row list \<Rightarrow> event_row list" where
  "marked now i = map (\<lambda>r. if ev_id r = i \<and> ev_delivered_at r = None then r\<lparr>ev_delivered_at := Some now\<rparr> else r)"

lemma mark_delivered_pending:
  assumes "events_ok st" and "x \<in> set (st_events st)" and "ev_delivered_at x = None"
  shows "mark_delivered now (ev_id x) st = Inr (st\<lparr>st_events := marked now (ev_id x) (st_events st)\<rparr>)"
proof -
  have "(ev_id r = ev_id x \<and> ev_delivered_at r = None) = (r = x)" if "r \<in> set (st_events st)" for r
    using that assms event_unique [OF assms(1)] by auto
  then have "filter (\<lambda>r. ev_id r = ev_id x \<and> ev_delivered_at r = None) (st_events st) = filter (\<lambda>r. r = x) (st_events st)"
    by (intro filter_cong) auto
  also have "\<dots> = [x]" using assms(1,2) by (intro filter_one) (auto simp: events_ok_def distinct_map)
  finally show ?thesis by (simp add: mark_delivered_def marked_def Let_def)
qed

lemma marked_undelivered: "map undelivered (marked now i es) = map undelivered es"
  by (simp add: marked_def undelivered_def)

lemma marked_ids: "map ev_id (marked now i es) = map ev_id es"
  by (simp add: marked_def)

lemma journal_marked:
  assumes "journal st f rs" and "i \<in> ev_id ` set rs" and "validated_timestamp now = Inr now"
  shows "journal (st\<lparr>st_events := marked now i (st_events st)\<rparr>) f rs"
proof -
  have "undelivered ` set (marked now i (st_events st)) = undelivered ` set (st_events st)"
    using marked_undelivered [of now i "st_events st"] by (metis list.set_map)
  moreover have "events_ok (st\<lparr>st_events := marked now i (st_events st)\<rparr>)"
    using assms(1,3) by (auto simp: journal_def events_ok_def marked_ids) (auto simp: marked_def event_row_ok_def)
  moreover have "ev_id x \<in> ev_id ` set rs"
    if "x \<in> set (marked now i (st_events st))" "ev_delivered_at x \<noteq> None" for x
    using that assms(1,2) unfolding journal_def by (auto simp: marked_def split: if_splits)
  ultimately show ?thesis
    using assms unfolding journal_def by simp
qed

end
