(* ===== verification/Outbox_Theorems.thy ===== *)
theory Outbox_Theorems
  imports Outbox_Props
begin

text \<open>
  Delivery as a whole: what an export leaves wherever it stops, and that an undisturbed export
  completes the file.
\<close>

subsection \<open>The loop\<close>

lemma marked_other: "x \<in> set es \<Longrightarrow> ev_id x \<noteq> i \<Longrightarrow> x \<in> set (marked now i es)"
  by (force simp: marked_def)

lemma marked_pending: "y \<in> set (marked now i es) \<Longrightarrow> ev_delivered_at y = None \<Longrightarrow> y \<in> set es \<and> ev_id y \<noteq> i"
  by (auto simp: marked_def split: if_splits)

lemma whole_writes_marked:
  assumes "whole_writes env st"
  shows "whole_writes env (st\<lparr>st_events := marked now i (st_events st)\<rparr>)"
  using assms unfolding whole_writes_def marked_def by (auto split: if_splits)

definition undisturbed :: "attempt \<Rightarrow> bool" where
  "undisturbed a \<longleftrightarrow> at_written a = None \<and> at_hook a = Inr () \<and> (\<exists>t. at_clock a = Inr t)"

definition delivered_all :: "library_store \<Rightarrow> event_row list \<Rightarrow> library_store \<Rightarrow> bool" where
  "delivered_all st xs st' \<longleftrightarrow>
     (\<forall>y \<in> set (st_events st'). ev_delivered_at y = None \<longrightarrow> y \<in> set (st_events st) \<and> ev_id y \<notin> ev_id ` set xs)"

lemma with_event_grows: "\<exists>more. with_event x rs = rs @ more"
  by (simp add: with_event_def)

lemma with_event_id: "ev_id x \<in> ev_id ` set (with_event x rs)"
  by (auto simp: with_event_def)

lemma deliver_leaves:
  assumes "journal st f rs" and "known_lines existing rs" and "distinct (map ev_id xs)"
    and "\<forall>x \<in> set xs. x \<in> set (st_events st) \<and> ev_delivered_at x = None"
    and "whole_writes env st" and "clocks_ok env"
    and "deliver env existing c (map loaded xs) st f = (r, st', f')"
  shows "(\<exists>more. journal st' f' (rs @ more)) \<and> map undelivered (st_events st') = map undelivered (st_events st) \<and>
    (\<forall>c'. r = Inr c' \<longrightarrow> delivered_all st xs st' \<and> er_delivered c' = er_delivered c + length xs \<and>
      er_appended c' + er_deduplicated c' = er_appended c + er_deduplicated c + length xs) \<and>
    ((\<forall>x \<in> set xs. undisturbed (env (ev_id x))) \<longrightarrow> (\<exists>c'. r = Inr c'))"
  using assms
proof (induction xs arbitrary: existing c st f rs)
  case Nil
  then show ?case by (auto simp: delivered_all_def intro: exI [of _ "[]"])
next
  case (Cons x xs)
  let ?a = "env (ev_id x)"
  have x: "x \<in> set (st_events st)" "ev_delivered_at x = None" using Cons.prems(4) by simp_all
  obtain w f1 where w: "write_event ?a existing c (loaded x) f = (w, f1)" by fastforce
  have whole: "\<forall>n. at_written ?a = Some n \<longrightarrow> n = 0 \<or> length (event_line x) \<le> n"
    using Cons.prems(5) x(1) unfolding whole_writes_def by blast
  from write_event_cases [OF Cons.prems(1,2) x w whole] obtain rs1 where rs1: "written st rs x c w f1 rs1"
    and good: "at_written ?a = None \<longrightarrow> at_hook ?a = Inr () \<longrightarrow> (\<exists>z. w = Inr z)" by (elim conjE exE) (rule that)
  have j1: "journal st f1 rs1" using rs1 by (simp add: written_def)
  have grow: "\<exists>more. rs1 = rs @ more" using rs1 with_event_grows [of x rs] by (auto simp: written_def)
  show ?case
  proof (cases w)
    case (Inl e)
    with Cons.prems(7) w have "r = Inl e" "st' = st" "f' = f1" by simp_all
    with j1 grow good Inl show ?thesis by (auto simp: undisturbed_def)
  next
    case (Inr z)
    obtain existing1 c1 where z: "z = (existing1, c1)" by (cases z)
    with rs1 Inr have k1: "rs1 = with_event x rs" "known_lines existing1 rs1"
      "er_appended c1 + er_deduplicated c1 = Suc (er_appended c + er_deduplicated c)" "er_delivered c1 = er_delivered c"
      by (auto simp: written_def)
    show ?thesis
    proof (cases "at_clock ?a")
      case (Inl e)
      with Cons.prems(7) w Inr z have "r = Inl e" "st' = st" "f' = f1" by (simp_all add: settle_event_def)
      with j1 grow Inl show ?thesis by (auto simp: undisturbed_def)
    next
      case (Inr now)
      let ?st1 = "st\<lparr>st_events := marked now (ev_id x) (st_events st)\<rparr>"
      let ?c1 = "c1\<lparr>er_delivered := er_delivered c1 + 1, er_last := Some (ev_id x)\<rparr>"
      have t: "validated_timestamp now = Inr now" using Cons.prems(6) Inr by (simp add: clocks_ok_def)
      have "settle_event ?a (loaded x) st = Inr ?st1"
        using mark_delivered_pending [OF journalD(1) [OF j1] x] Inr by (simp add: settle_event_def)
      with Cons.prems(7) w \<open>w = Inr z\<close> z have rest: "deliver env existing1 ?c1 (map loaded xs) ?st1 f1 = (r, st', f')"
        by simp
      have "journal ?st1 f1 rs1" by (rule journal_marked [OF j1 _ t]) (simp add: k1(1) with_event_id)
      moreover have "\<forall>y \<in> set xs. y \<in> set (st_events ?st1) \<and> ev_delivered_at y = None"
        using Cons.prems(3,4) by (auto simp: image_iff intro!: marked_other)
      moreover have "distinct (map ev_id xs)" using Cons.prems(3) by simp
      ultimately have ih: "(\<exists>more. journal st' f' (rs1 @ more)) \<and>
        map undelivered (st_events st') = map undelivered (st_events ?st1) \<and>
        (\<forall>c'. r = Inr c' \<longrightarrow> delivered_all ?st1 xs st' \<and> er_delivered c' = er_delivered ?c1 + length xs \<and>
          er_appended c' + er_deduplicated c' = er_appended ?c1 + er_deduplicated ?c1 + length xs) \<and>
        ((\<forall>x \<in> set xs. undisturbed (env (ev_id x))) \<longrightarrow> (\<exists>c'. r = Inr c'))"
        using Cons.IH [OF _ k1(2) _ _ whole_writes_marked [OF Cons.prems(5)] Cons.prems(6) rest] by blast
      moreover have "delivered_all st (x # xs) st'" if "delivered_all ?st1 xs st'"
        using that marked_pending by (fastforce simp: delivered_all_def)
      ultimately show ?thesis using grow k1(3,4) by (auto simp: marked_undelivered)
    qed
  qed
qed

subsection \<open>An export\<close>

definition pending_rows :: "library_store \<Rightarrow> event_row list" where
  "pending_rows st = sort_key (\<lambda>r. (ev_occurred_at r, ev_id r)) (filter (\<lambda>r. ev_delivered_at r = None) (st_events st))"

lemma pending_loaded:
  assumes "events_ok st"
  shows "pending_outbox_events st = Inr (map loaded (pending_rows st))"
  unfolding pending_outbox_events_def pending_rows_def
  by (rule map_res_Inr_total) (use assms in \<open>auto simp: events_ok_def intro: event_from_row\<close>)

lemma pending_rows_facts:
  "events_ok st \<Longrightarrow> distinct (map ev_id (pending_rows st))"
  "x \<in> set (pending_rows st) \<longleftrightarrow> x \<in> set (st_events st) \<and> ev_delivered_at x = None"
  by (auto simp: pending_rows_def events_ok_def distinct_map intro: inj_on_subset)

lemma export_leaves:
  assumes j: "journal st f rs" and "whole_writes env st" and "clocks_ok env"
    and e: "export_outbox env st f = (r, st', f')"
  shows "(\<exists>more. journal st' f' (rs @ more)) \<and> map undelivered (st_events st') = map undelivered (st_events st) \<and>
    (\<forall>c. r = Inr c \<longrightarrow> (\<forall>y \<in> set (st_events st'). ev_delivered_at y \<noteq> None) \<and>
       er_delivered c = length (pending_rows st) \<and> er_appended c + er_deduplicated c = er_delivered c) \<and>
    ((\<forall>x \<in> set (pending_rows st). undisturbed (env (ev_id x))) \<longrightarrow> (\<exists>c. r = Inr c))"
proof -
  note ok = journalD(1) [OF j]
  have "deliver env (lines_of rs) \<lparr>er_appended = 0, er_deduplicated = 0, er_delivered = 0, er_last = None\<rparr>
      (map loaded (pending_rows st)) st f = (r, st', f')"
    using e by (simp add: export_outbox_def journal_reads [OF j] pending_loaded [OF ok])
  from deliver_leaves [OF j _ pending_rows_facts(1) [OF ok] _ assms(2,3) this] pending_rows_facts(2) [of _ st]
  have all: "(\<exists>more. journal st' f' (rs @ more)) \<and> map undelivered (st_events st') = map undelivered (st_events st) \<and>
    (\<forall>c. r = Inr c \<longrightarrow> delivered_all st (pending_rows st) st' \<and> er_delivered c = length (pending_rows st) \<and>
       er_appended c + er_deduplicated c = length (pending_rows st)) \<and>
    ((\<forall>x \<in> set (pending_rows st). undisturbed (env (ev_id x))) \<longrightarrow> (\<exists>c. r = Inr c))"
    by (simp add: known_lines_def)
  moreover have "ev_delivered_at y \<noteq> None" if "delivered_all st (pending_rows st) st'" "y \<in> set (st_events st')" for y
    using that pending_rows_facts(2) [of y st] by (auto simp: delivered_all_def)
  ultimately show ?thesis by auto
qed

subsection \<open>Histories\<close>

text \<open>
  A Library is created with an empty file; operations commit and exports run, in any order, each
  export stopping anywhere but inside a line.
\<close>

inductive reachable_outbox :: "library_store \<Rightarrow> byte list \<Rightarrow> bool" where
  created: "initialize_library e now c = Inr st \<Longrightarrow> reachable_outbox st []"
| operated: "reachable_outbox st f \<Longrightarrow> library_operation st st' \<Longrightarrow> reachable_outbox st' f"
| exported: "reachable_outbox st f \<Longrightarrow> whole_writes env st \<Longrightarrow> clocks_ok env \<Longrightarrow>
    export_outbox env st f = (r, st', f') \<Longrightarrow> reachable_outbox st' f'"

text \<open>Its stores are reachable stores: an export only marks events delivered.\<close>

lemma deliver_history:
  assumes "clocks_ok env"
  shows "deliver env existing c es st f = (r, st', f') \<Longrightarrow> library_history st st'"
proof (induction es arbitrary: existing c st f)
  case Nil
  then show ?case by (simp add: history_refl)
next
  case (Cons e es)
  obtain w f1 where w: "write_event (env (ev_id e)) existing c e f = (w, f1)" by fastforce
  show ?case
  proof (cases w)
    case (Inl x)
    with Cons.prems w show ?thesis by (simp add: history_refl)
  next
    case (Inr z)
    obtain existing1 c1 where z: "z = (existing1, c1)" by (cases z)
    show ?thesis
    proof (cases "settle_event (env (ev_id e)) e st")
      case (Inl x)
      with Cons.prems w Inr z show ?thesis by (simp add: history_refl)
    next
      case s: (Inr st1)
      then obtain now where "at_clock (env (ev_id e)) = Inr now" "mark_delivered now (ev_id e) st = Inr st1"
        by (auto simp: settle_event_def res_bind_eq_Inr)
      with assms have "library_step st st1" by (auto simp: clocks_ok_def intro: library_step.delivered)
      moreover from Cons.prems w Inr z s have "library_history st1 st'" by (auto intro: Cons.IH)
      ultimately show ?thesis by (blast intro: library_history_trans library_history.intros)
    qed
  qed
qed

lemma export_history:
  assumes "clocks_ok env" and "export_outbox env st f = (r, st', f')"
  shows "library_history st st'"
  using assms(2) deliver_history [OF assms(1)]
  by (auto simp: export_outbox_def intro: history_refl split: sum.splits)

lemma reachable_outbox_store: "reachable_outbox st f \<Longrightarrow> reachable_store st"
proof (induction rule: reachable_outbox.induct)
  case (created e now c st)
  then show ?case unfolding reachable_store_def by (blast intro: history_refl)
next
  case (operated st f st')
  then show ?case unfolding reachable_store_def by (meson history_step library_step.operation)
next
  case (exported st f env r st' f')
  from export_history [OF exported.hyps(3,4)] exported.IH show ?case
    unfolding reachable_store_def by (meson library_history_trans)
qed

lemma journal_committed:
  assumes "journal st f rs" and "library_operation st st'"
  shows "journal st' f rs"
proof -
  have "events_since (st_events st) st" by (auto simp: events_since_def)
  then have "events_since (st_events st) st'" by (rule since.library_operation_keeps [OF assms(2)])
  moreover have "events_ok st'" by (rule events.library_operation_keeps [OF assms(2) journalD(1) [OF assms(1)]])
  ultimately show ?thesis using assms(1) unfolding journal_def events_since_def by auto
qed

lemma journal_created:
  assumes "initialize_library e now c = Inr st"
  shows "journal st [] []"
proof -
  have "events_ok (empty_store (lc_library_id c))" "events_since [] (empty_store (lc_library_id c))"
    by (simp_all add: events_ok_def events_since_def empty_store_def)
  then have "events_ok st" "events_since [] st"
    using assms events.event since.event library_payload_object unfolding initialize_library_def by blast+
  then show ?thesis by (auto simp: journal_def events_since_def)
qed

lemma reachable_outbox_journal: "reachable_outbox st f \<Longrightarrow> \<exists>rs. journal st f rs"
proof (induction rule: reachable_outbox.induct)
  case created
  then show ?case using journal_created by blast
next
  case operated
  then show ?case using journal_committed by blast
next
  case (exported st f env r st' f')
  then show ?case using export_leaves by blast
qed

subsection \<open>A sample\<close>

definition demo_attempt :: attempt where
  "demo_attempt = \<lparr>at_written = None, at_hook = Inr (), at_clock = Inr demo_now\<rparr>"

lemma demo_attempt_ok: "undisturbed (demo_attempt)" "clocks_ok (\<lambda>_. demo_attempt)"
  using demo_timestamp by (simp_all add: undisturbed_def clocks_ok_def demo_attempt_def)

lemma demo1_outbox: "reachable_outbox demo1 []"
  using demo0 demo1 reachable_outbox.created reachable_outbox.operated library_operation.collection_created by blast

text \<open>An export that is interrupted after the line of the first event, and the retry.\<close>

definition demo_interrupted :: "string \<Rightarrow> attempt" where
  "demo_interrupted i = demo_attempt\<lparr>at_hook := Inl (OutboxExportError ''interrupted'')\<rparr>"

lemma demo_interrupted_ok: "whole_writes demo_interrupted st" "clocks_ok demo_interrupted"
  using demo_timestamp by (simp_all add: whole_writes_def clocks_ok_def demo_interrupted_def demo_attempt_def)

lemma demo1_events: "\<exists>e0 e1. st_events demo1 = [e0, e1] \<and> ev_id e0 = ''event_0'' \<and> ev_id e1 = ''event_1'' \<and>
    ev_occurred_at e0 = demo_now \<and> ev_occurred_at e1 = demo_now \<and> ev_delivered_at e0 = None \<and> ev_delivered_at e1 = None"
  by (simp add: demo1_def demo0_def empty_store_def demo_event_def)

lemma demo_interrupted_export:
  "export_outbox demo_interrupted demo1 [] =
     (Inl (OutboxExportError ''interrupted''), demo1, event_line (hd (st_events demo1)))"
proof -
  obtain rs where j: "journal demo1 [] rs" using reachable_outbox_journal [OF demo1_outbox] by blast
  obtain e0 e1 where e: "st_events demo1 = [e0, e1]" "ev_id e0 = ''event_0''" "ev_id e1 = ''event_1''"
    "ev_occurred_at e0 = demo_now" "ev_occurred_at e1 = demo_now" "ev_delivered_at e0 = None" "ev_delivered_at e1 = None"
    using demo1_events by blast
  have "(demo_now, ''event_0'') \<le> (demo_now, ''event_1'')" by (simp add: less_eq_list_code)
  then have p: "pending_rows demo1 = [e0, e1]" unfolding pending_rows_def e(1) by (simp add: e(2-))
  have read: "read_event_descriptor [] = Inr []" by (simp add: read_event_descriptor_def)
  show ?thesis
    unfolding export_outbox_def read sum.case pending_loaded [OF journalD(1) [OF j]] p
    by (simp add: write_event_def demo_interrupted_def demo_attempt_def append_and_fsync_def e(1))
qed

lemma event_line_long: "1 < length (event_line e)"
  by (simp add: event_line_def canonical_json_bytes_def utf8_def dumps_def envelope_def utf8_char_def Let_def)

subsection \<open>Properties\<close>

text \<open>
  C11. At most once: whatever was committed and however many exports ran and stopped (anywhere but
  inside a line), the event file consists of whole canonical lines of distinct committed events,
  and it holds the line of every event marked delivered.
\<close>

theorem event_file_sound:
  assumes "reachable_outbox st f"
  shows "\<exists>rs. f = concat (map event_line rs) \<and> distinct (map ev_id rs) \<and>
    set rs \<subseteq> undelivered ` set (st_events st) \<and>
    (\<forall>x \<in> set (st_events st). ev_delivered_at x \<noteq> None \<longrightarrow> undelivered x \<in> set rs)"
proof -
  obtain rs where j: "journal st f rs" using reachable_outbox_journal [OF assms] by blast
  have "undelivered x \<in> set rs" if x: "x \<in> set (st_events st)" "ev_delivered_at x \<noteq> None" for x
  proof -
    obtain r where r: "r \<in> set rs" "ev_id r = ev_id x" using journalD(6) [OF j x] by auto
    then obtain y where "y \<in> set (st_events st)" "r = undelivered y" using journalD(5) [OF j] by blast
    with r event_unique [OF journalD(1) [OF j] _ x(1)] show ?thesis by auto
  qed
  with j show ?thesis unfolding journal_def by blast
qed

theorem event_file_sound_witness:
  "\<exists>f1 c st f rs. export_outbox demo_interrupted demo1 [] = (Inl (OutboxExportError ''interrupted''), demo1, f1) \<and>
     f1 = event_line (hd (st_events demo1)) \<and>
     export_outbox (\<lambda>_. demo_attempt) demo1 f1 = (Inr c, st, f) \<and>
     f = concat (map event_line rs) \<and> distinct (map ev_id rs) \<and> set rs = undelivered ` set (st_events st) \<and>
     length (st_events st) = 2"
proof -
  let ?f1 = "event_line (hd (st_events demo1))" and ?env = "\<lambda>_. demo_attempt"
  have r1: "reachable_outbox demo1 ?f1"
    by (rule reachable_outbox.exported [OF demo1_outbox demo_interrupted_ok demo_interrupted_export])
  then obtain qs where j: "journal demo1 ?f1 qs" using reachable_outbox_journal by blast
  have whole: "whole_writes ?env demo1" by (simp add: whole_writes_def demo_attempt_def)
  obtain r st f where e: "export_outbox ?env demo1 ?f1 = (r, st, f)" using prod_cases3 by blast
  note leaves = export_leaves [OF j whole demo_attempt_ok(2) e]
  then obtain c where c: "r = Inr c" "\<forall>y \<in> set (st_events st). ev_delivered_at y \<noteq> None"
    using demo_attempt_ok(1) by blast
  have "reachable_outbox st f" by (rule reachable_outbox.exported [OF r1 whole demo_attempt_ok(2) e])
  from event_file_sound [OF this] obtain rs where rs: "f = concat (map event_line rs)" "distinct (map ev_id rs)"
    "set rs \<subseteq> undelivered ` set (st_events st)"
    "\<forall>x \<in> set (st_events st). ev_delivered_at x \<noteq> None \<longrightarrow> undelivered x \<in> set rs" by blast
  then have "set rs = undelivered ` set (st_events st)" using c(2) by blast
  moreover have "length (st_events st) = 2"
  proof -
    have "map undelivered (st_events st) = map undelivered (st_events demo1)" using leaves by blast
    from arg_cong [OF this, of length] demo1_events show ?thesis by auto
  qed
  ultimately show ?thesis using demo_interrupted_export e c(1) rs(1,2) by blast
qed



text \<open>
  C40. A torn line blocks the export: when a write leaves a proper, nonempty part of a line,
  every later export is refused and changes neither the store nor the file.
\<close>

theorem torn_write_blocks:
  assumes "append_and_fsync (Some k) (event_line x) f = (r, f')" and "0 < k" and "k < length (event_line x)"
  shows "export_outbox env st f' = (Inl (OutboxExportError ''events.jsonl ends with a partial line''), st, f')"
proof -
  have f': "f' = f @ take k (canonical_json_bytes (envelope x))" and k: "k \<le> length (canonical_json_bytes (envelope x))"
    using assms by (auto simp: append_and_fsync_def event_line_def)
  let ?t = "take k (canonical_json_bytes (envelope x))"
  have ne: "?t \<noteq> []" using assms(2) k by auto
  then have "last ?t \<in> set (canonical_json_bytes (envelope x))" by (meson in_set_takeD last_in_set)
  then have "last ?t \<noteq> 10" using bytes_no_break by blast
  with ne show ?thesis by (simp add: export_outbox_def read_event_descriptor_def f')
qed

theorem torn_write_blocks_witness:
  "export_outbox (\<lambda>_. demo_attempt) demo1 (take 1 (event_line (hd (st_events demo1)))) =
     (Inl (OutboxExportError ''events.jsonl ends with a partial line''), demo1, take 1 (event_line (hd (st_events demo1))))"
proof -
  have "append_and_fsync (Some 1) (event_line (hd (st_events demo1))) [] =
      (Inl (OutboxExportError ''event append/fsync failed''), take 1 (event_line (hd (st_events demo1))))"
    by (simp add: append_and_fsync_def)
  from torn_write_blocks [OF this] event_line_long show ?thesis by simp
qed

end
