(* ===== verification/Library_Schema.thy ===== *)
theory Library_Schema
  imports Library_History
begin

text \<open>
  The constraints of \<open>store/sql/0001_v1.sql\<close> on the modelled tables, read off the schema and not
  off the insertions: every primary key and uniqueness constraint, every foreign key and the
  references its triggers require, and every check.  Each is an invariant of the rows.
\<close>

subsection \<open>Keys\<close>

definition schema_keys :: "library_store \<Rightarrow> bool" where
  "schema_keys st \<longleftrightarrow>
     distinct (map co_id (st_collections st)) \<and>
     distinct (map (\<lambda>c. (co_library_id c, co_name c)) (st_collections st)) \<and>
     distinct (map ro_id (st_roots st)) \<and>
     distinct (map (\<lambda>r. (ro_collection_id r, ro_path r)) (st_roots st)) \<and>
     distinct (map rm_root_id (st_root_manifests st)) \<and>
     distinct (map bl_sha256 (st_blobs st)) \<and> distinct (map bl_path (st_blobs st)) \<and>
     distinct (map so_id (st_sources st)) \<and>
     distinct (map (\<lambda>s. (so_library_id s, so_uri s)) (st_sources st)) \<and>
     distinct (map fa_id (st_families st)) \<and>
     distinct (map fm_source_id (st_family_members st)) \<and>
     distinct (map fi_family_id (st_identities st)) \<and>
     distinct (map (\<lambda>i. (fi_library_id i, fi_uri i)) (st_identities st)) \<and>
     distinct (map ve_id (st_versions st)) \<and>
     distinct (map (\<lambda>v. (ve_source_id v, ve_number v)) (st_versions st)) \<and>
     distinct (map (\<lambda>v. (ve_source_id v, ve_sha256 v, ve_profile v)) (st_versions st)) \<and>
     distinct (map fr_id (st_fragments st)) \<and>
     distinct (map (\<lambda>f. (fr_version_id f, fr_ordinal f)) (st_fragments st)) \<and>
     distinct (map (\<lambda>f. (fr_version_id f, fr_address_hash f)) (st_fragments st)) \<and>
     distinct (map he_source_id (st_heads st)) \<and> distinct (map he_version_id (st_heads st)) \<and>
     distinct (map bi_id (st_bindings st)) \<and> distinct (map bi_version_id (st_bindings st)) \<and>
     distinct (map (\<lambda>m. (me_collection_id m, me_source_id m)) (st_memberships st)) \<and>
     distinct (map po_id (st_policies st)) \<and>
     distinct (map (\<lambda>p. (po_library_id p, po_name p)) (st_policies st)) \<and>
     distinct (map (\<lambda>p. (po_library_id p, po_hash p)) (st_policies st)) \<and>
     distinct (map (\<lambda>r. (pcr_policy_id r, pcr_collection_id r)) (st_policy_collections st)) \<and>
     distinct (map (\<lambda>r. (psr_policy_id r, psr_source_id r)) (st_policy_sources st)) \<and>
     distinct (map sn_id (st_snapshots st)) \<and> distinct (map sn_hash (st_snapshots st)) \<and>
     distinct (map (\<lambda>m. (sb_snapshot_id m, sb_collection_id m, sb_version_id m)) (st_snapshot_members st)) \<and>
     distinct (map ev_id (st_events st))"

lemma moved_heads_versions:
  assumes "distinct (map he_source_id hs)" and "distinct (map he_version_id hs)"
    and "\<forall>h \<in> set hs. he_source_id h = s \<longrightarrow> v \<notin> he_version_id ` {g \<in> set hs. he_source_id g \<noteq> s}"
  shows "distinct (map he_version_id (moved_heads s v hs))"
proof (cases "s \<in> he_source_id ` set hs")
  case False
  then have "moved_heads s v hs = hs" by (auto simp: moved_heads_def intro!: map_idI)
  with assms(2) show ?thesis by simp
next
  case True
  then have v: "v \<notin> he_version_id ` {g \<in> set hs. he_source_id g \<noteq> s}" using assms(3) by blast
  have "inj_on he_source_id (set hs)" "inj_on he_version_id (set hs)" "distinct hs"
    using assms(1,2) by (simp_all add: distinct_map)
  moreover from this v have "inj_on (\<lambda>h. he_version_id (if he_source_id h = s then h\<lparr>he_version_id := v\<rparr> else h)) (set hs)"
    by (auto simp: inj_on_def image_iff)
  ultimately show ?thesis by (simp add: moved_heads_def distinct_map comp_def)
qed

interpretation schema_keys: delivery_invariant schema_keys
proof unfold_locales
  fix s v st n st'
  assume "update_head s v st = Inr (n, st')" and "schema_keys st"
  then show "schema_keys st'"
    using moved_heads_versions unfolding update_head_Inr schema_keys_def by auto
next
  fix now i st st'
  assume "mark_delivered now i st = Inr st'" and "schema_keys st"
  then show "schema_keys st'"
    unfolding mark_delivered_Inr schema_keys_def by (simp add: delivered_ids del: map_map)
next
  fix e t g i p now st st'
  assume "insert_outbox_event e t g i p now st = Inr st'" and "schema_keys st"
  then show "schema_keys st'"
    by (auto simp: insert_outbox_event_def res_simps schema_keys_def)
qed (auto simp: insert_defs insert_blob_or_ignore_def res_simps schema_keys_def)

subsection \<open>References\<close>

text \<open>
  Each reference resolves, in the Library: a column of one table into a key of another.  The
  pairs are those the triggers check together.
\<close>

definition schema_references :: "library_store \<Rightarrow> bool" where
  "schema_references st \<longleftrightarrow>
     co_library_id ` set (st_collections st) \<subseteq> {st_library_id st} \<and>
     ro_collection_id ` set (st_roots st) \<subseteq> co_id ` set (st_collections st) \<and>
     rm_root_id ` set (st_root_manifests st) \<subseteq> ro_id ` set (st_roots st) \<and>
     so_library_id ` set (st_sources st) \<subseteq> {st_library_id st} \<and>
     fa_library_id ` set (st_families st) \<subseteq> {st_library_id st} \<and>
     fm_family_id ` set (st_family_members st) \<subseteq> fa_id ` set (st_families st) \<and>
     fm_source_id ` set (st_family_members st) \<subseteq> so_id ` set (st_sources st) \<and>
     (\<Union>m \<in> set (st_family_members st). set_option (fm_root m)) \<subseteq> so_id ` set (st_sources st) \<and>
     (\<lambda>i. (fi_family_id i, fi_library_id i)) ` set (st_identities st) \<subseteq>
       (\<lambda>f. (fa_id f, fa_library_id f)) ` set (st_families st) \<and>
     ve_source_id ` set (st_versions st) \<subseteq> so_id ` set (st_sources st) \<and>
     ve_sha256 ` set (st_versions st) \<subseteq> bl_sha256 ` set (st_blobs st) \<and>
     fr_version_id ` set (st_fragments st) \<subseteq> ve_id ` set (st_versions st) \<and>
     he_source_id ` set (st_heads st) \<subseteq> so_id ` set (st_sources st) \<and>
     (\<lambda>h. (he_version_id h, he_source_id h)) ` set (st_heads st) \<subseteq>
       (\<lambda>v. (ve_id v, ve_source_id v)) ` set (st_versions st) \<and>
     (\<lambda>b. (bi_version_id b, bi_source_id b, bi_sha256 b)) ` set (st_bindings st) \<subseteq>
       (\<lambda>v. (ve_id v, ve_source_id v, ve_sha256 v)) ` set (st_versions st) \<and>
     bi_sha256 ` set (st_bindings st) \<subseteq> bl_sha256 ` set (st_blobs st) \<and>
     bi_family_id ` set (st_bindings st) \<subseteq> fi_family_id ` set (st_identities st) \<and>
     (\<lambda>b. (bi_source_id b, bi_family_id b)) ` set (st_bindings st) \<subseteq>
       (\<lambda>m. (fm_source_id m, fm_family_id m)) ` set (st_family_members st) \<and>
     me_collection_id ` set (st_memberships st) \<subseteq> co_id ` set (st_collections st) \<and>
     me_source_id ` set (st_memberships st) \<subseteq> so_id ` set (st_sources st) \<and>
     po_library_id ` set (st_policies st) \<subseteq> {st_library_id st} \<and>
     pcr_policy_id ` set (st_policy_collections st) \<subseteq> po_id ` set (st_policies st) \<and>
     pcr_collection_id ` set (st_policy_collections st) \<subseteq> co_id ` set (st_collections st) \<and>
     psr_policy_id ` set (st_policy_sources st) \<subseteq> po_id ` set (st_policies st) \<and>
     psr_source_id ` set (st_policy_sources st) \<subseteq> so_id ` set (st_sources st) \<and>
     sn_library_id ` set (st_snapshots st) \<subseteq> {st_library_id st} \<and>
     sb_snapshot_id ` set (st_snapshot_members st) \<subseteq> sn_id ` set (st_snapshots st) \<and>
     sb_collection_id ` set (st_snapshot_members st) \<subseteq> co_id ` set (st_collections st) \<and>
     sb_version_id ` set (st_snapshot_members st) \<subseteq> ve_id ` set (st_versions st)"

lemma moved_head_pairs:
  "(\<lambda>h. (he_version_id h, he_source_id h)) ` set (moved_heads s v hs) \<subseteq>
     (\<lambda>h. (he_version_id h, he_source_id h)) ` set hs \<union> {x. s \<in> he_source_id ` set hs \<and> x = (v, s)}"
  by (auto simp: moved_heads_def)

lemma schema_references_heads:
  assumes "schema_references st" and "he_source_id ` set hs \<subseteq> so_id ` set (st_sources st)"
    and "(\<lambda>h. (he_version_id h, he_source_id h)) ` set hs \<subseteq> (\<lambda>v. (ve_id v, ve_source_id v)) ` set (st_versions st)"
  shows "schema_references (st\<lparr>st_heads := hs\<rparr>)"
  using assms unfolding schema_references_def by simp

lemma pair_images:
  "(a, b) \<in> (\<lambda>x. (f x, g x)) ` A \<longleftrightarrow> (\<exists>x \<in> A. f x = a \<and> g x = b)"
  "(a, b, c) \<in> (\<lambda>x. (f x, g x, h x)) ` A \<longleftrightarrow> (\<exists>x \<in> A. f x = a \<and> g x = b \<and> h x = c)"
  by (auto simp: image_iff)

interpretation schema_references: delivery_invariant schema_references
proof unfold_locales
  fix s v st n st'
  assume u: "update_head s v st = Inr (n, st')" and r: "schema_references st"
  let ?hs = "moved_heads s v (st_heads st)"
  have "he_source_id ` set ?hs = he_source_id ` set (st_heads st)"
    using arg_cong [OF moved_heads_sources [of s v "st_heads st"], of set] unfolding set_map .
  then have a: "he_source_id ` set ?hs \<subseteq> so_id ` set (st_sources st)"
    using r unfolding schema_references_def by (elim conjE) (simp only:)
  let ?vs = "(\<lambda>v. (ve_id v, ve_source_id v)) ` set (st_versions st)"
  have "(v, s) \<in> ?vs" if "s \<in> he_source_id ` set (st_heads st)"
    using u that unfolding update_head_Inr version_of_source_def by force
  then have "{x. s \<in> he_source_id ` set (st_heads st) \<and> x = (v, s)} \<subseteq> ?vs" by blast
  moreover have "(\<lambda>h. (he_version_id h, he_source_id h)) ` set (st_heads st) \<subseteq> ?vs"
    using r unfolding schema_references_def by (elim conjE)
  ultimately have b: "(\<lambda>h. (he_version_id h, he_source_id h)) ` set ?hs \<subseteq> ?vs"
    by (intro order_trans [OF moved_head_pairs] Un_least)
  from u have "st' = st\<lparr>st_heads := ?hs\<rparr>" unfolding update_head_Inr by blast
  with schema_references_heads [OF r a b] show "schema_references st'" by (simp only:)
next
  fix now i st st'
  assume "mark_delivered now i st = Inr st'" and "schema_references st"
  then show "schema_references st'"
    unfolding mark_delivered_Inr schema_references_def by simp
next
  fix e t g i p now st st'
  assume "insert_outbox_event e t g i p now st = Inr st'" and "schema_references st"
  then show "schema_references st'"
    by (auto simp: insert_outbox_event_def res_simps schema_references_def)
qed (simp_all add: insert_defs insert_blob_or_ignore_def res_simps schema_references_def version_of_source_def
    pair_images subset_insertI2 split: option.splits)

subsection \<open>Checks\<close>

definition schema_checks :: "library_store \<Rightarrow> bool" where
  "schema_checks st \<longleftrightarrow>
     list_all (\<lambda>c. id_check ''collection_'' (co_id c)) (st_collections st) \<and>
     list_all (\<lambda>r. id_check ''root_'' (ro_id r)) (st_roots st) \<and>
     list_all (\<lambda>r. matches_hex 64 (rm_sha256 r)) (st_root_manifests st) \<and>
     list_all (\<lambda>b. matches_hex 64 (bl_sha256 b) \<and> 0 \<le> bl_size b) (st_blobs st) \<and>
     list_all (\<lambda>s. id_check ''source_'' (so_id s)) (st_sources st) \<and>
     list_all (\<lambda>f. id_check ''family_'' (fa_id f)) (st_families st) \<and>
     list_all (\<lambda>m. fm_role m = family_role.ROOT \<longleftrightarrow> fm_root m = None) (st_family_members st) \<and>
     list_all (\<lambda>v. id_check ''source_version_'' (ve_id v) \<and> 0 < ve_number v \<and> 0 \<le> ve_size v) (st_versions st) \<and>
     list_all (\<lambda>f. id_check ''fragment_'' (fr_id f) \<and> 0 \<le> fr_ordinal f \<and> fr_text f \<noteq> [] \<and>
       matches_hex 64 (fr_text_sha256 f) \<and> matches_hex 64 (fr_address_hash f)) (st_fragments st) \<and>
     list_all (\<lambda>b. id_check ''source_identity_'' (bi_id b) \<and> 0 \<le> bi_part_number b \<and>
       matches_hex 64 (bi_part_metadata_hash b) \<and> matches_hex 64 (bi_sha256 b) \<and>
       matches_hex 64 (bi_manifest_sha256 b)) (st_bindings st) \<and>
     list_all (\<lambda>p. id_check ''policy_'' (po_id p) \<and> matches_hex 64 (po_hash p)) (st_policies st) \<and>
     list_all (\<lambda>s. id_check ''snapshot_'' (sn_id s) \<and> matches_hex 64 (sn_hash s)) (st_snapshots st) \<and>
     list_all (\<lambda>e. id_check ''event_'' (ev_id e) \<and> matches_hex 64 (ev_payload_hash e)) (st_events st)"

interpretation schema_checks: delivery_invariant schema_checks
proof unfold_locales
  fix now i st st'
  assume "mark_delivered now i st = Inr st'" and "schema_checks st"
  then show "schema_checks st'"
    unfolding mark_delivered_Inr schema_checks_def by (auto simp: list_all_iff)
next
  fix e t g i p now st st'
  assume "insert_outbox_event e t g i p now st = Inr st'" and "schema_checks st"
  then show "schema_checks st'"
    by (auto simp: insert_outbox_event_def res_simps schema_checks_def)
next
  fix s v st n st'
  assume "update_head s v st = Inr (n, st')" and "schema_checks st"
  then show "schema_checks st'" unfolding update_head_Inr schema_checks_def by auto
qed (auto simp: insert_defs insert_blob_or_ignore_def res_simps schema_checks_def split: option.splits)

subsection \<open>Every reachable store\<close>

definition schema_ok :: "library_store \<Rightarrow> bool" where
  "schema_ok st \<longleftrightarrow> schema_keys st \<and> schema_references st \<and> schema_checks st"

lemma history_schema: "library_history st st' \<Longrightarrow> schema_ok st \<Longrightarrow> schema_ok st'"
  unfolding schema_ok_def
  by (blast intro: schema_keys.library_history_keeps schema_references.library_history_keeps
      schema_checks.library_history_keeps)

lemma empty_store_schema: "schema_ok (empty_store i)"
  by (simp add: schema_ok_def schema_keys_def schema_references_def schema_checks_def empty_store_def)

lemma initialize_schema: "initialize_library e now c = Inr st \<Longrightarrow> schema_ok st"
  using empty_store_schema [of "lc_library_id c"] library_payload_object [of c]
  unfolding initialize_library_def schema_ok_def
  by (elim conjE, intro conjI) (erule (2) schema_keys.event schema_references.event schema_checks.event)+

lemma reachable_schema: "reachable_store st \<Longrightarrow> schema_ok st"
  unfolding reachable_store_def by (blast intro: history_schema initialize_schema)

text \<open>The keys and references that the proofs of the operations use are part of the schema.\<close>

lemma single_image: "f ` A \<subseteq> {c} \<longleftrightarrow> (\<forall>x \<in> A. f x = c)"
  by auto

lemma distinct_second:
  assumes "distinct (map (\<lambda>x. (f x, g x)) xs)" and "f ` set xs \<subseteq> {c}"
  shows "distinct (map g xs)"
  using assms unfolding distinct_map inj_on_def by (auto simp: single_image)

lemma schema_tables:
  assumes "schema_ok st"
  shows "keys_ok st"
proof -
  have k: "schema_keys st" and r: "schema_references st" using assms by (simp_all add: schema_ok_def)
  have "(\<lambda>i. (fi_family_id i, fi_library_id i)) ` set (st_identities st) \<subseteq>
      (\<lambda>f. (fa_id f, fa_library_id f)) ` set (st_families st)"
    using r unfolding schema_references_def by (elim conjE)
  moreover have "fa_library_id ` set (st_families st) \<subseteq> {st_library_id st}"
    using r unfolding schema_references_def by (elim conjE)
  ultimately have "fi_library_id ` set (st_identities st) \<subseteq> {st_library_id st}" by fastforce
  moreover have "distinct (map (\<lambda>i. (fi_library_id i, fi_uri i)) (st_identities st))"
    using k unfolding schema_keys_def by (elim conjE)
  ultimately have i: "distinct (map fi_uri (st_identities st))"
    using distinct_second [of fi_library_id fi_uri] by blast
  have "so_library_id ` set (st_sources st) \<subseteq> {st_library_id st}"
    using r unfolding schema_references_def by (elim conjE)
  moreover have "distinct (map (\<lambda>s. (so_library_id s, so_uri s)) (st_sources st))"
    using k unfolding schema_keys_def by (elim conjE)
  ultimately have "distinct (map so_uri (st_sources st))"
    using distinct_second [of so_library_id so_uri] by blast
  with i k show ?thesis unfolding schema_keys_def keys_ok_def by (simp only: HOL.simp_thms)
qed

end
