(* ===== verification/Library_Frozen.thy ===== *)
theory Library_Frozen
  imports Library_Freeze
begin

text \<open>
  What a frozen snapshot has to say of each membership, stated over the rows: the head row of the
  Source, the version row it names and the family row of the Source.  The stored rows determine
  the member, and freezing produces it.
\<close>

definition frozen_from :: "library_store \<Rightarrow> membership_row \<Rightarrow> snapshot_member \<Rightarrow> bool" where
  "frozen_from st x m \<longleftrightarrow>
     sm_collection_id m = me_collection_id x \<and> sm_source_id m = me_source_id x \<and>
     sm_membership_state m = me_state x \<and>
     (\<exists>h \<in> set (st_heads st). he_source_id h = me_source_id x \<and> he_version_id h = sm_source_version_id m) \<and>
     (\<exists>v \<in> set (st_versions st). ve_id v = sm_source_version_id m \<and> ve_source_id v = me_source_id x \<and>
        ve_sha256 v = sm_content_sha256 m) \<and>
     (\<exists>f \<in> set (st_family_members st). fm_source_id f = me_source_id x \<and>
        fm_family_id f = sm_source_family_id m \<and> fm_role f = sm_family_role m \<and>
        sm_root_source_id m = (case fm_root f of None \<Rightarrow> me_source_id x | Some r \<Rightarrow> r))"

lemma head_id_row:
  "head_id st s = Some v \<Longrightarrow> \<exists>h \<in> set (st_heads st). he_source_id h = s \<and> he_version_id h = v"
  by (auto simp: head_id_def split: list.splits dest!: filter_eq_ConsD)

lemma lineage_for_source_row:
  assumes "lineage_for_source st s = Inr l"
  shows "\<exists>f \<in> set (st_family_members st). fm_source_id f = s \<and> fm_family_id f = fst l \<and> fm_role f = snd (snd l) \<and>
    fst (snd l) = (case fm_root f of None \<Rightarrow> s | Some r \<Rightarrow> r)"
proof -
  obtain m where one: "lineage_rows st s = [m]"
    using assms by (auto simp: lineage_for_source_def split: list.splits)
  then have "m \<in> set (lineage_rows st s)" by simp
  then have m: "m \<in> set (st_family_members st)" "fm_source_id m = s" by (auto simp: lineage_rows_def)
  from assms one have "fm_family_id m = fst l \<and> fm_role m = snd (snd l) \<and>
      fst (snd l) = (case fm_root m of None \<Rightarrow> s | Some r \<Rightarrow> r)"
    by (auto simp: lineage_for_source_def split: if_splits option.splits)
  with m show ?thesis by blast
qed

lemma lineage_member_fields:
  assumes "lineage_member st c v state = Inr m"
  shows "\<exists>l. lineage_for_source st (ve_source_id v) = Inr l \<and> sm_source_id m = ve_source_id v \<and>
    sm_content_sha256 m = ve_sha256 v \<and> sm_source_family_id m = fst l \<and>
    sm_root_source_id m = fst (snd l) \<and> sm_family_role m = snd (snd l)"
  using assms by (auto simp: lineage_member_def res_bind_eq_Inr validate_member_def wrap_validation_eq_Inr
      split: if_splits)

lemma current_frozen:
  assumes "current_member st x = Inr m"
  shows "frozen_from st x m"
proof -
  obtain v where v: "version_row_of st (sm_source_version_id m) = Some v"
    "lineage_member st (sm_collection_id m) v (sm_membership_state m) = Inr m"
    "sm_collection_id m = me_collection_id x" "sm_source_id m = me_source_id x"
    "head_id st (me_source_id x) = Some (sm_source_version_id m)" "sm_membership_state m = me_state x"
    by (rule current_memberE [OF assms])
  from v(2) obtain l where l: "lineage_for_source st (ve_source_id v) = Inr l"
    and f: "sm_source_id m = ve_source_id v" "sm_content_sha256 m = ve_sha256 v" "sm_source_family_id m = fst l"
      "sm_root_source_id m = fst (snd l)" "sm_family_role m = snd (snd l)"
    using lineage_member_fields by blast
  have src: "ve_source_id v = me_source_id x" using f(1) v(4) by simp
  have "\<exists>g \<in> set (st_family_members st). fm_source_id g = me_source_id x \<and>
        fm_family_id g = sm_source_family_id m \<and> fm_role g = sm_family_role m \<and>
        sm_root_source_id m = (case fm_root g of None \<Rightarrow> me_source_id x | Some r \<Rightarrow> r)"
    using lineage_for_source_row [OF l] unfolding f src by blast
  with v(3,4,6) head_id_row [OF v(5)] version_row_ofD [OF v(1)] src f(2) show ?thesis
    unfolding frozen_from_def by auto
qed

lemma frozen_from_unique:
  assumes k: "keys_ok st" and "frozen_from st x m" and "frozen_from st x n"
  shows "m = n"
proof -
  have h: "inj_on he_source_id (set (st_heads st))" and v: "inj_on ve_id (set (st_versions st))"
    and f: "inj_on fm_source_id (set (st_family_members st))"
    using k unfolding keys_ok_def distinct_map by blast+
  have "sm_source_version_id m = sm_source_version_id n"
    using assms(2,3) inj_onD [OF h] unfolding frozen_from_def by metis
  moreover from this have "sm_content_sha256 m = sm_content_sha256 n"
    using assms(2,3) inj_onD [OF v] unfolding frozen_from_def by metis
  moreover have "sm_source_family_id m = sm_source_family_id n \<and> sm_family_role m = sm_family_role n \<and>
      sm_root_source_id m = sm_root_source_id n"
    using assms(2,3) inj_onD [OF f] unfolding frozen_from_def by metis
  ultimately show ?thesis using assms(2,3) unfolding frozen_from_def by (cases m; cases n) simp
qed

lemma members_complete:
  assumes "current_snapshot_members st cs = Inr ms" and "x \<in> set (st_memberships st)" and "me_collection_id x \<in> set cs"
  shows "\<exists>m. current_member st x = Inr m"
proof -
  let ?raw = "filter (\<lambda>m. me_collection_id m \<in> set cs) (st_memberships st)"
  let ?rows = "filter (\<lambda>m. library_collection st (me_collection_id m) \<and> library_source st (me_source_id m)) ?raw"
  from assms(1) have len: "length ?rows = length ?raw"
    and m: "map_res (current_member st) (sort_key (membership_order st) ?rows) = Inr ms"
    unfolding current_snapshot_members_def Let_def by (simp_all add: reraise_Inr split: if_splits)
  have "x \<in> set (sort_key (membership_order st) ?rows)"
    using assms(2,3) unfolding filter_same_length [OF len] by simp
  from map_res_image [OF m this] show ?thesis by blast
qed

lemma frozen_members:
  assumes k: "keys_ok st" and c: "current_snapshot_members st cs = Inr ms"
  shows "set ms = {m. \<exists>x \<in> set (st_memberships st). me_collection_id x \<in> set cs \<and> frozen_from st x m}"
proof -
  have "current_member st x = Inr m \<longleftrightarrow> frozen_from st x m"
    if "x \<in> set (st_memberships st)" "me_collection_id x \<in> set cs" for x m
    using members_complete [OF c that] current_frozen frozen_from_unique [OF k] by metis
  then show ?thesis unfolding current_snapshot_members_iff [OF c] by blast
qed

lemma freeze_members:
  assumes f: "freeze_snapshot e now cs st = Inr (s, st')" and t: "tables_ok st"
  shows "set (cs_members s) = {m. \<exists>x \<in> set (st_memberships st). me_collection_id x \<in> set cs \<and> frozen_from st x m}"
    and "sorted (map member_key (cs_members s)) \<and> distinct (map member_key (cs_members s))"
proof -
  have k: "keys_ok st" using t by (simp add: tables_ok_def)
  obtain scope ms u where a: "build_corpus_snapshot (st_library_id st) cs [] = Inr scope"
    "require_collections st (cs_collection_ids scope) = Inr ()"
    "current_snapshot_members st (cs_collection_ids scope) = Inr ms"
    "build_corpus_snapshot (st_library_id st) (cs_collection_ids scope) ms = Inr u"
    and c: "same_snapshot_rows st u = [] \<and> store_snapshot e now u st = Inr st' \<and>
       reconstruct_corpus_snapshot st' (corpus_snapshot_id u) = Inr s \<or>
     (\<exists>i. same_snapshot_rows st u = [i] \<and> reconstruct_corpus_snapshot st i = Inr s \<and> s = u \<and> st' = st)"
    by (rule freeze_cases [OF f])
  have each: "\<forall>m \<in> set ms. \<exists>x. current_member st x = Inr m"
    unfolding current_snapshot_members_iff [OF a(3)] by blast
  have s: "s = u" using c reconstruct_stored [OF t a(2) each a(4)] by auto
  have ids: "set (cs_collection_ids scope) = set cs" using a(1) unfolding build_corpus_snapshot_Inr by auto
  have ms: "cs_members s = sort_key member_key ms" "distinct (map member_key ms)"
    using a(4) unfolding s build_corpus_snapshot_Inr by auto
  show "set (cs_members s) = {m. \<exists>x \<in> set (st_memberships st). me_collection_id x \<in> set cs \<and> frozen_from st x m}"
    using frozen_members [OF k a(3)] unfolding ms ids by simp
  show "sorted (map member_key (cs_members s)) \<and> distinct (map member_key (cs_members s))"
    using ms(2) unfolding ms(1) by (simp add: distinct_map)
qed

end
