(* ===== verification/Library_Recorded.thy ===== *)
theory Library_Recorded
  imports Library_Ingest_Props
begin

text \<open>
  The whole effect of recording one file, table by table, stated over the rows before and after:
  which rows appear, what they hold, which rows move and that nothing else changes.  No query of
  the repository occurs in it; lineage, role, version number and disposition are read off the rows.
\<close>

subsection \<open>Rows that stay\<close>

definition configuration_kept :: "library_store \<Rightarrow> library_store \<Rightarrow> bool" where
  "configuration_kept st st' \<longleftrightarrow>
     st_library_id st' = st_library_id st \<and> st_collections st' = st_collections st \<and>
     st_roots st' = st_roots st \<and> st_root_manifests st' = st_root_manifests st \<and>
     st_policies st' = st_policies st \<and> st_policy_collections st' = st_policy_collections st \<and>
     st_policy_sources st' = st_policy_sources st \<and> st_snapshots st' = st_snapshots st \<and>
     st_snapshot_members st' = st_snapshot_members st"

definition sources_kept :: "library_store \<Rightarrow> library_store \<Rightarrow> bool" where
  "sources_kept st st' \<longleftrightarrow>
     st_sources st' = st_sources st \<and> st_families st' = st_families st \<and>
     st_identities st' = st_identities st \<and> st_family_members st' = st_family_members st"

definition versions_kept :: "library_store \<Rightarrow> library_store \<Rightarrow> bool" where
  "versions_kept st st' \<longleftrightarrow>
     st_versions st' = st_versions st \<and> st_fragments st' = st_fragments st \<and> st_bindings st' = st_bindings st"

subsection \<open>Blob and membership\<close>

definition blob_row_for :: "promoted_blob \<Rightarrow> blob_row" where
  "blob_row_for b = \<lparr>bl_sha256 = pb_sha256 b, bl_size = pb_size b, bl_path = pb_path b\<rparr>"

definition blob_stored :: "promoted_blob \<Rightarrow> library_store \<Rightarrow> library_store \<Rightarrow> bool" where
  "blob_stored b st st' \<longleftrightarrow>
     blob_row_for b \<in> set (st_blobs st') \<and>
     st_blobs st' = (if pb_sha256 b \<in> bl_sha256 ` set (st_blobs st) then st_blobs st
       else st_blobs st @ [blob_row_for b])"

text \<open>The root of the Collection that holds the file, and the state its kind gives a member.\<close>

definition admitted :: "library_store \<Rightarrow> string \<Rightarrow> string \<Rightarrow> source_bytes \<Rightarrow> membership_state \<Rightarrow> bool" where
  "admitted st c root src state \<longleftrightarrow>
     (\<exists>k \<in> set (st_collections st). co_id k = c \<and>
        state = (if co_kind k = HOLDOUT_KIND then HOLDOUT else ACTIVE)) \<and>
     (\<exists>r \<in> set (st_roots st). ro_id r = root \<and> ro_collection_id r = c \<and> has_prefix ''/'' (ro_path r) \<and>
        sby_uri src = path_uri (join_path (ro_path r) (path_parts (sby_relative_path src))))"

definition enrolled :: "string \<Rightarrow> string \<Rightarrow> membership_state \<Rightarrow> library_store \<Rightarrow> library_store \<Rightarrow> bool" where
  "enrolled c s state st st' \<longleftrightarrow>
     \<lparr>me_collection_id = c, me_source_id = s, me_state = state\<rparr> \<in> set (st_memberships st') \<and>
     st_memberships st' = with_membership c s state (st_memberships st)"

subsection \<open>Lineage\<close>

text \<open>The family row of a Source: its family, its role, and the root (itself, or the one named).\<close>

definition in_lineage :: "library_store \<Rightarrow> string \<Rightarrow> string \<Rightarrow> string \<Rightarrow> bool" where
  "in_lineage st s f root \<longleftrightarrow>
     (\<exists>m \<in> set (st_family_members st). fm_source_id m = s \<and> fm_family_id m = f \<and>
        root = (case fm_root m of None \<Rightarrow> s | Some r \<Rightarrow> r))"

definition holders_in :: "library_store \<Rightarrow> string \<Rightarrow> string \<Rightarrow> string \<Rightarrow> bool" where
  "holders_in st sha f root \<longleftrightarrow>
     (\<forall>v \<in> set (st_versions st). ve_sha256 v = sha \<longrightarrow> in_lineage st (ve_source_id v) f root)"

definition root_members :: "library_store \<Rightarrow> string \<Rightarrow> string set" where
  "root_members st f =
     {fm_source_id m | m. m \<in> set (st_family_members st) \<and> fm_family_id m = f \<and>
        fm_role m = family_role.ROOT \<and> fm_root m = None}"

text \<open>
  A relative of a new file: without a declaration a Source that holds its bytes; with one, the
  family that has the declared identity.
\<close>

definition has_relative :: "library_store \<Rightarrow> identity_declaration option \<Rightarrow> string \<Rightarrow> bool" where
  "has_relative st decl sha \<longleftrightarrow>
     (case decl of
        None \<Rightarrow> sha \<in> ve_sha256 ` set (st_versions st)
      | Some d \<Rightarrow> de_uri d \<in> fi_uri ` set (st_identities st))"

definition joins ::
  "library_store \<Rightarrow> identity_declaration option \<Rightarrow> string \<Rightarrow> string \<Rightarrow> string \<Rightarrow> family_role \<Rightarrow> bool" where
  "joins st decl sha f root role \<longleftrightarrow>
     (case decl of
        None \<Rightarrow> holders_in st sha f root \<and> role = DUPLICATE
      | Some d \<Rightarrow>
          (\<exists>i \<in> set (st_identities st). fi_family_id i = f \<and> fi_uri i = de_uri d) \<and>
          root_members st f = {root} \<and>
          role = (if \<exists>b \<in> set (st_bindings st). bi_family_id b = f \<and> bi_sha256 b = sha
            then DUPLICATE else DERIVATIVE))"

definition source_added ::
  "fresh_ids \<Rightarrow> source_bytes \<Rightarrow> identity_declaration option \<Rightarrow> source_outcome \<Rightarrow> library_store \<Rightarrow> library_store \<Rightarrow> bool" where
  "source_added ids src decl out st st' \<longleftrightarrow>
     sby_uri src \<notin> so_uri ` set (st_sources st) \<and> out_source_id out = new_source_id ids \<and>
     new_source_id ids \<notin> so_id ` set (st_sources st) \<and>
     st_sources st' = st_sources st @ [source_row_of st ids src] \<and>
     (if has_relative st decl (sby_sha256 src)
      then joins st decl (sby_sha256 src) (out_family_id out) (out_root_id out) (out_role out) \<and>
        st_families st' = st_families st \<and> st_identities st' = st_identities st \<and>
        st_family_members st' = st_family_members st @
          [\<lparr>fm_family_id = out_family_id out, fm_source_id = new_source_id ids, fm_role = out_role out,
            fm_root = Some (out_root_id out)\<rparr>]
      else out_family_id out = new_family_id ids \<and> out_root_id out = new_source_id ids \<and>
        out_role out = family_role.ROOT \<and>
        st_families st' = st_families st @
          [\<lparr>fa_id = new_family_id ids, fa_library_id = st_library_id st, fa_label = new_source_id ids\<rparr>] \<and>
        st_identities st' = st_identities st @ identity_rows ids st decl \<and>
        st_family_members st' = st_family_members st @
          [\<lparr>fm_family_id = new_family_id ids, fm_source_id = new_source_id ids, fm_role = family_role.ROOT,
            fm_root = None\<rparr>])"

text \<open>The Source that has the URI, with the lineage of its family row and the declared identity.\<close>

definition source_known ::
  "source_bytes \<Rightarrow> identity_declaration option \<Rightarrow> source_outcome \<Rightarrow> library_store \<Rightarrow> bool" where
  "source_known src decl out st \<longleftrightarrow>
     (\<exists>s \<in> set (st_sources st). so_id s = out_source_id out \<and> so_uri s = sby_uri src \<and>
        so_media_type s = sby_media_type src) \<and>
     in_lineage st (out_source_id out) (out_family_id out) (out_root_id out) \<and>
     (\<exists>m \<in> set (st_family_members st). fm_source_id m = out_source_id out \<and> fm_role m = out_role out) \<and>
     declared_in st decl (out_family_id out)"

subsection \<open>Versions and events\<close>

definition head_row_is :: "library_store \<Rightarrow> string \<Rightarrow> version_row \<Rightarrow> bool" where
  "head_row_is st s v \<longleftrightarrow>
     v \<in> set (st_versions st) \<and> ve_source_id v = s \<and>
     \<lparr>he_source_id = s, he_version_id = ve_id v\<rparr> \<in> set (st_heads st)"

definition has_content :: "source_bytes \<Rightarrow> parse_result \<Rightarrow> version_row \<Rightarrow> bool" where
  "has_content src parsed v \<longleftrightarrow> ve_sha256 v = sby_sha256 src \<and> ve_profile v = pr_parser_profile parsed"

definition next_version_number :: "library_store \<Rightarrow> string \<Rightarrow> int" where
  "next_version_number st s =
     (if s \<in> ve_source_id ` set (st_versions st)
      then Max {ve_number v | v. v \<in> set (st_versions st) \<and> ve_source_id v = s} + 1 else 1)"

definition version_added ::
  "fresh_ids \<Rightarrow> string \<Rightarrow> string \<Rightarrow> string \<Rightarrow> source_bytes \<Rightarrow> parse_result \<Rightarrow> identity_declaration option \<Rightarrow>
     source_outcome \<Rightarrow> library_store \<Rightarrow> library_store \<Rightarrow> bool" where
  "version_added ids now c root src parsed decl out st st' \<longleftrightarrow>
     (let s = out_source_id out; v = new_version_id ids; f = out_family_id out;
          l = (out_family_id out, out_root_id out, out_role out); n = next_version_number st s
      in out_version_id out = v \<and> v \<notin> ve_id ` set (st_versions st) \<and>
         st_versions st' = st_versions st @
           [\<lparr>ve_id = v, ve_source_id = s, ve_number = n, ve_sha256 = sby_sha256 src, ve_size = byte_size src,
             ve_profile = pr_parser_profile parsed\<rparr>] \<and>
         st_fragments st' = st_fragments st @ map (fragment_row_of v) (pr_fragments parsed) \<and>
         out_fragments out = int (length (pr_fragments parsed)) \<and>
         st_bindings st' = st_bindings st @ binding_rows ids s f decl (sby_sha256 src) \<and>
         st_events st' = st_events st @ binding_events ids now st s f decl (sby_sha256 src) @
           [event_for (new_event_id ids) ''source_version.recorded'' ''source_version'' v
              (version_payload st c root s v l n src parsed (out_disposition out)) now])"

text \<open>An existing version of the Source that has the content, with the declared binding.\<close>

definition version_found ::
  "source_bytes \<Rightarrow> parse_result \<Rightarrow> identity_declaration option \<Rightarrow> source_outcome \<Rightarrow> library_store \<Rightarrow> version_row \<Rightarrow> bool" where
  "version_found src parsed decl out st v \<longleftrightarrow>
     v \<in> set (st_versions st) \<and> ve_source_id v = out_source_id out \<and> ve_id v = out_version_id out \<and>
     has_content src parsed v \<and>
     out_fragments out = int (length (filter (\<lambda>f. fr_version_id f = ve_id v) (st_fragments st))) \<and>
     (case decl of
        None \<Rightarrow> True
      | Some d \<Rightarrow> \<exists>b \<in> set (st_bindings st). bi_source_id b = out_source_id out \<and> bi_version_id b = ve_id v \<and>
          binding_matches b d)"

subsection \<open>The effect\<close>

definition record_effect ::
  "fresh_ids \<Rightarrow> string \<Rightarrow> string \<Rightarrow> string \<Rightarrow> source_bytes \<Rightarrow> parse_result \<Rightarrow> promoted_blob \<Rightarrow>
     identity_declaration option \<Rightarrow> source_outcome \<Rightarrow> library_store \<Rightarrow> library_store \<Rightarrow> bool" where
  "record_effect ids now c root src parsed b decl out st st' \<longleftrightarrow>
     configuration_kept st st' \<and> blob_stored b st st' \<and>
     (\<exists>state. admitted st c root src state \<and> enrolled c (out_source_id out) state st st') \<and>
     (case out_disposition out of
        ADDED \<Rightarrow>
          source_added ids src decl out st st' \<and> version_added ids now c root src parsed decl out st st' \<and>
          st_heads st' = st_heads st @ [\<lparr>he_source_id = new_source_id ids, he_version_id = new_version_id ids\<rparr>]
      | CHANGED \<Rightarrow>
          sources_kept st st' \<and> source_known src decl out st \<and>
          (\<forall>v \<in> set (st_versions st). ve_source_id v = out_source_id out \<longrightarrow> \<not> has_content src parsed v) \<and>
          (case decl of None \<Rightarrow> holders_in st (sby_sha256 src) (out_family_id out) (out_root_id out) | Some _ \<Rightarrow> True) \<and>
          version_added ids now c root src parsed decl out st st' \<and>
          st_heads st' = moved_heads (out_source_id out) (new_version_id ids) (st_heads st)
      | UNCHANGED \<Rightarrow>
          sources_kept st st' \<and> source_known src decl out st \<and> versions_kept st st' \<and>
          (\<exists>v. head_row_is st (out_source_id out) v \<and> version_found src parsed decl out st v) \<and>
          st_heads st' = st_heads st \<and> st_events st' = st_events st
      | REVERTED \<Rightarrow>
          sources_kept st st' \<and> source_known src decl out st \<and> versions_kept st st' \<and>
          (\<exists>v w. head_row_is st (out_source_id out) v \<and> \<not> has_content src parsed v \<and>
             version_found src parsed decl out st w \<and>
             st_heads st' = moved_heads (out_source_id out) (ve_id w) (st_heads st) \<and>
             st_events st' = st_events st @
               [event_for (new_event_id ids) ''source_head.reverted'' ''source'' (out_source_id out)
                  (reverted_payload st c root (out_source_id out) (ve_id v) (ve_id w) (sby_sha256 src)) now]))"

subsection \<open>The pieces\<close>

lemma ensure_blob_row_exact:
  assumes "ensure_blob_row b st = Inr st'"
  shows "\<exists>blobs. st' = st\<lparr>st_blobs := blobs\<rparr>" and "blob_stored b st st'"
proof -
  let ?row = "\<lparr>bl_sha256 = pb_sha256 b, bl_size = pb_size b, bl_path = pb_path b\<rparr>"
  let ?st = "insert_blob_or_ignore ?row st"
  from assms obtain r rs where r: "filter (\<lambda>r. bl_sha256 r = pb_sha256 b) (st_blobs ?st) = r # rs"
    "bl_size r = pb_size b" "bl_path r = pb_path b" and st': "st' = ?st"
    unfolding ensure_blob_row_def Let_def by (auto split: list.splits if_splits)
  then have m: "r \<in> set (st_blobs ?st)" "bl_sha256 r = pb_sha256 b" by (auto dest!: filter_eq_ConsD)
  with r have row: "blob_row_for b \<in> set (st_blobs ?st)" by (cases r) (simp add: blob_row_for_def)
  show "\<exists>blobs. st' = st\<lparr>st_blobs := blobs\<rparr>"
    unfolding st' insert_blob_or_ignore_def by (auto intro: exI [of _ "st_blobs st"])
  have "st_blobs ?st = (if pb_sha256 b \<in> bl_sha256 ` set (st_blobs st) then st_blobs st else st_blobs st @ [?row])"
    using m by (auto simp: insert_blob_or_ignore_def image_iff split: if_splits)
  with row show "blob_stored b st st'" unfolding blob_stored_def st' by (simp add: blob_row_for_def)
qed

lemma ingest_scope_admitted:
  assumes "ingest_scope st c root src = Inr state"
  shows "admitted st c root src state"
proof -
  obtain k ks where k: "filter (\<lambda>x. co_id x = c \<and> co_library_id x = st_library_id st) (st_collections st) = k # ks"
    using assms by (auto simp: ingest_scope_def split: list.splits)
  then have kin: "k \<in> set (st_collections st)" "co_id k = c" by (auto dest!: filter_eq_ConsD)
  obtain r rs where r: "filter (\<lambda>r. ro_collection_id r = co_id k \<and> ro_id r = root) (st_roots st) = r # rs"
    using assms k by (auto simp: ingest_scope_def split: list.splits)
  then have rin: "r \<in> set (st_roots st)" "ro_collection_id r = c" "ro_id r = root"
    using kin(2) by (auto dest!: filter_eq_ConsD)
  have "has_prefix ''/'' (ro_path r)" "sby_uri src = path_uri (join_path (ro_path r) (path_parts (sby_relative_path src)))"
    "state = (if co_kind k = HOLDOUT_KIND then HOLDOUT else ACTIVE)"
    using assms k r by (auto simp: ingest_scope_def split: if_splits)
  with kin rin show ?thesis unfolding admitted_def by blast
qed

subsection \<open>Lineage of a new Source\<close>

lemma in_lineage_of:
  assumes "lineage_for_source st s = Inr l"
  shows "in_lineage st s (fst l) (fst (snd l))"
    and "\<exists>m \<in> set (st_family_members st). fm_source_id m = s \<and> fm_role m = snd (snd l)"
proof -
  obtain m where one: "lineage_rows st s = [m]"
    using assms by (auto simp: lineage_for_source_def split: list.splits)
  then have "m \<in> set (lineage_rows st s)" by simp
  then have m: "m \<in> set (st_family_members st)" "fm_source_id m = s" by (auto simp: lineage_rows_def)
  from assms one have "fm_family_id m = fst l \<and> fm_role m = snd (snd l) \<and>
      fst (snd l) = (case fm_root m of None \<Rightarrow> s | Some r \<Rightarrow> r)"
    by (auto simp: lineage_for_source_def split: if_splits option.splits)
  with m show "in_lineage st s (fst l) (fst (snd l))"
    "\<exists>m \<in> set (st_family_members st). fm_source_id m = s \<and> fm_role m = snd (snd l)"
    unfolding in_lineage_def by blast+
qed

lemma content_sources:
  assumes "refs_ok st"
  shows "s \<in> set (sources_with_content st sha ex) \<longleftrightarrow>
    ex \<noteq> Some s \<and> (\<exists>v \<in> set (st_versions st). ve_sha256 v = sha \<and> ve_source_id v = s)"
proof -
  have lib: "x \<in> set (st_sources st) \<Longrightarrow> so_library_id x = st_library_id st" for x
    using assms unfolding refs_ok_def by (elim conjE) (erule (1) bspec)
  have "\<exists>x \<in> set (st_sources st). so_id x = ve_source_id v \<and> so_library_id x = st_library_id st"
    if "v \<in> set (st_versions st)" for v
    using refs_versions(3) [OF assms that] lib by (metis imageE)
  then have "filter (\<lambda>v. ve_sha256 v = sha \<and> ex \<noteq> Some (ve_source_id v) \<and>
       (\<exists>s \<in> set (st_sources st). so_id s = ve_source_id v \<and> so_library_id s = st_library_id st)) (st_versions st) =
     filter (\<lambda>v. ve_sha256 v = sha \<and> ex \<noteq> Some (ve_source_id v)) (st_versions st)"
    by (intro filter_cong) auto
  then show ?thesis by (auto simp: sources_with_content_def)
qed

lemma content_lineage_cases:
  assumes "lineage_for_content st sha ex = Inr r"
  obtains (none) "sources_with_content st sha ex = []" "r = None"
  | (one) lineages x where "sources_with_content st sha ex \<noteq> []"
      "map_res (lineage_for_source st) (sources_with_content st sha ex) = Inr lineages"
      "remdups (map (\<lambda>l. (fst l, fst (snd l))) lineages) = [x]" "r = Some x"
proof (cases "sources_with_content st sha ex = []")
  case True
  with assms show ?thesis by (intro none) (simp_all add: lineage_for_content_def)
next
  case False
  with assms obtain lineages where m: "map_res (lineage_for_source st) (sources_with_content st sha ex) = Inr lineages"
    and c: "(case remdups (map (\<lambda>l. (fst l, fst (snd l))) lineages) of
               [lineage] \<Rightarrow> Inr (Some lineage)
             | _ \<Rightarrow> Inl (SourceLineageIntegrityError
                      ''identical bytes resolve to incompatible SourceFamily roots'')) = Inr r"
    unfolding lineage_for_content_def Let_def by (auto simp: res_bind_eq_Inr)
  obtain x where x: "remdups (map (\<lambda>l. (fst l, fst (snd l))) lineages) = [x]"
    using c by (cases "remdups (map (\<lambda>l. (fst l, fst (snd l))) lineages)" rule: remdups_adj.cases) auto
  from c have "r = Some x" unfolding x by simp
  with one [OF False m x] show ?thesis by blast
qed

lemma content_lineage_None:
  assumes "refs_ok st" and "lineage_for_content st sha None = Inr None"
  shows "sha \<notin> ve_sha256 ` set (st_versions st)"
proof -
  have "sources_with_content st sha None = []" using assms(2) by (cases rule: content_lineage_cases) simp_all
  then have "s \<notin> set (sources_with_content st sha None)" for s by simp
  then show ?thesis unfolding content_sources [OF assms(1)] by auto
qed

lemma content_lineage_Some:
  assumes "refs_ok st" and c: "lineage_for_content st sha ex = Inr (Some (f, root))"
  shows "\<exists>v \<in> set (st_versions st). ve_sha256 v = sha"
    and "v \<in> set (st_versions st) \<Longrightarrow> ve_sha256 v = sha \<Longrightarrow> ex \<noteq> Some (ve_source_id v) \<Longrightarrow>
      in_lineage st (ve_source_id v) f root"
proof -
  let ?ss = "sources_with_content st sha ex"
  obtain lineages where ne: "?ss \<noteq> []" and m: "map_res (lineage_for_source st) ?ss = Inr lineages"
    and one: "remdups (map (\<lambda>l. (fst l, fst (snd l))) lineages) = [(f, root)]"
    using c by (cases rule: content_lineage_cases) auto
  from ne obtain s where "s \<in> set ?ss" by (cases ?ss) auto
  then show "\<exists>v \<in> set (st_versions st). ve_sha256 v = sha" unfolding content_sources [OF assms(1)] by blast
  have img: "(\<lambda>l. (fst l, fst (snd l))) ` set lineages = {(f, root)}"
    using arg_cong [OF one, of set] by simp
  assume "v \<in> set (st_versions st)" "ve_sha256 v = sha" "ex \<noteq> Some (ve_source_id v)"
  then have "ve_source_id v \<in> set ?ss" unfolding content_sources [OF assms(1)] by blast
  from map_res_image [OF m this] obtain l where l: "l \<in> set lineages" "lineage_for_source st (ve_source_id v) = Inr l"
    by blast
  with img have "fst l = f" "fst (snd l) = root" by auto
  with in_lineage_of(1) [OF l(2)] show "in_lineage st (ve_source_id v) f root" by simp
qed

lemma declared_new_None:
  assumes "refs_ok st" and "declared_lineage_for_new_source st d = Inr None"
  shows "de_uri d \<notin> fi_uri ` set (st_identities st)"
proof -
  have "filter (\<lambda>i. fi_library_id i = st_library_id st \<and> fi_uri i = de_uri d) (st_identities st) = []"
    using assms(2) unfolding declared_lineage_for_new_source_def by (auto split: list.splits)
  then have "\<not> (fi_library_id i = st_library_id st \<and> fi_uri i = de_uri d)" if "i \<in> set (st_identities st)" for i
    using that unfolding filter_empty_conv by blast
  moreover have "fi_library_id i = st_library_id st" if "i \<in> set (st_identities st)" for i
    using assms(1) that unfolding refs_ok_def by blast
  ultimately show ?thesis by fastforce
qed

lemma declared_new_Some:
  assumes "declared_lineage_for_new_source st d = Inr (Some (f, root))"
  shows "\<exists>i \<in> set (st_identities st). fi_family_id i = f \<and> fi_uri i = de_uri d" and "root_members st f = {root}"
proof -
  show "\<exists>i \<in> set (st_identities st). fi_family_id i = f \<and> fi_uri i = de_uri d"
    by (rule declared_lineage_declared [OF assms])
  obtain m where one: "filter (\<lambda>m. fm_family_id m = f \<and> fm_role m = family_role.ROOT \<and> fm_root m = None)
      (st_family_members st) = [m]" and m: "root = fm_source_id m"
    using assms by (auto simp: declared_lineage_for_new_source_def split: list.splits)
  have "root_members st f = fm_source_id ` set (filter (\<lambda>m. fm_family_id m = f \<and> fm_role m = family_role.ROOT \<and>
      fm_root m = None) (st_family_members st))" by (auto simp: root_members_def)
  then show "root_members st f = {root}" unfolding one m by simp
qed

lemma new_lineage_joins:
  assumes "refs_ok st" and "new_lineage decl sha st = Inr (Some (f, root))"
  shows "has_relative st decl sha \<and> joins st decl sha f root (join_role decl f sha st)"
proof (cases decl)
  case None
  then have c: "lineage_for_content st sha None = Inr (Some (f, root))" using assms(2) by (simp add: new_lineage_def)
  show ?thesis
    using content_lineage_Some [OF assms(1) c] None
    by (auto simp: has_relative_def joins_def holders_in_def join_role_def)
next
  case (Some d)
  then have "declared_lineage_for_new_source st d = Inr (Some (f, root))" using assms(2) by (simp add: new_lineage_def)
  from declared_new_Some [OF this] Some show ?thesis
    by (force simp: has_relative_def joins_def join_role_def declared_content_exists_def)
qed

lemma new_lineage_none:
  assumes "refs_ok st" and "new_lineage decl sha st = Inr None"
  shows "\<not> has_relative st decl sha"
  using assms content_lineage_None declared_new_None
  by (cases decl) (auto simp: new_lineage_def has_relative_def)

text \<open>The Source row itself does not enter the lineage.\<close>

lemma relative_sources:
  "has_relative (st\<lparr>st_sources := x\<rparr>) decl sha = has_relative st decl sha"
  "joins (st\<lparr>st_sources := x\<rparr>) decl sha f root role = joins st decl sha f root role"
  by (cases decl; simp add: has_relative_def joins_def holders_in_def in_lineage_def root_members_def)+

subsection \<open>The four recordings\<close>

lemma enroll_added:
  assumes e: "enroll_source ids src decl st = Inr (l, st')" and r: "refs_ok st"
    and u: "sby_uri src \<notin> so_uri ` set (st_sources st)"
    and out: "out_source_id out = new_source_id ids" "(out_family_id out, out_root_id out, out_role out) = l"
  shows "source_added ids src decl out st st'"
proof -
  let ?st = "st\<lparr>st_sources := st_sources st @ [source_row_of st ids src]\<rparr>"
  have r': "refs_ok ?st" using r unfolding refs_ok_def version_of_source_def by (auto simp: source_row_of_def)
  show ?thesis
    using e
  proof (cases rule: enroll_source_cases)
    case started
    note new_lineage_none [OF r' started(2), unfolded relative_sources]
    with started out u show ?thesis unfolding source_added_def by simp
  next
    case (joined f root)
    note new_lineage_joins [OF r' joined(2), unfolded relative_sources]
    moreover have "join_role decl f (sby_sha256 src) ?st = join_role decl f (sby_sha256 src) st"
      by (simp add: join_role_def declared_content_exists_def)
    ultimately show ?thesis using joined out u unfolding source_added_def by simp
  qed
qed

lemma next_number_new:
  assumes "refs_ok st" and "s \<notin> so_id ` set (st_sources st)"
  shows "next_version_number st s = 1"
  using assms refs_versions(3) [OF assms(1)] unfolding next_version_number_def by auto

lemma next_number_known:
  assumes "versions_of st s \<noteq> []"
  shows "next_version_number st s = Max (set (map ve_number (versions_of st s))) + 1"
proof -
  have vs: "set (versions_of st s) = {v \<in> set (st_versions st). ve_source_id v = s}" by (auto simp: versions_of_def)
  with assms have "s \<in> ve_source_id ` set (st_versions st)" by (metis (mono_tags, lifting) image_eqI list.set_intros(1)
    list.exhaust mem_Collect_eq)
  moreover have "set (map ve_number (versions_of st s)) = {ve_number v | v. v \<in> set (st_versions st) \<and> ve_source_id v = s}"
    unfolding set_map vs by blast
  ultimately show ?thesis unfolding next_version_number_def by simp
qed

lemma known_source_facts:
  assumes s: "sources_at st (sby_uri src) = s # rest" and m: "so_media_type s = sby_media_type src"
    and l: "known_lineage decl (so_id s) st = Inr l"
    and out: "out_source_id out = so_id s" "(out_family_id out, out_root_id out, out_role out) = l"
  shows "source_known src decl out st"
proof -
  note lin = known_lineage_source [OF l]
  have "fst l = out_family_id out" "fst (snd l) = out_root_id out" "snd (snd l) = out_role out"
    using out(2) by auto
  with in_lineage_of [OF lin(1)] lin(2) sources_at_Cons [OF s] m out(1) show ?thesis
    unfolding source_known_def by auto
qed

lemma head_version_row:
  assumes t: "tables_ok st" and "head_version st s = Some v"
  shows "head_row_is st s v"
proof -
  obtain h where h: "h \<in> set (st_heads st)" "he_source_id h = s" "he_version_id h = ve_id v"
    using head_versionD(2) [OF assms(2)] by blast
  have "h = \<lparr>he_source_id = s, he_version_id = ve_id v\<rparr>" using h(2,3) by (cases h) simp
  with h(1) have "\<lparr>he_source_id = s, he_version_id = ve_id v\<rparr> \<in> set (st_heads st)" by simp
  then show ?thesis using head_versionD(1) [OF assms(2)] head_version_source [OF assms] by (simp add: head_row_is_def)
qed

lemma binding_found:
  assumes "check_binding decl s v st = Inr ()"
  shows "case decl of None \<Rightarrow> True
    | Some d \<Rightarrow> \<exists>b \<in> set (st_bindings st). bi_source_id b = s \<and> bi_version_id b = v \<and> binding_matches b d"
proof (cases decl)
  case (Some d)
  let ?xs = "concat (map (\<lambda>b. map (Pair b) (bound_identities st b))
             (filter (\<lambda>b. bi_source_id b = s \<and> bi_version_id b = v) (st_bindings st)))"
  from assms Some obtain b i xs where x: "?xs = (b, i) # xs" "binding_matches b d"
    by (auto simp: check_binding_def require_identity_binding_def split: list.splits if_splits)
  then have "(b, i) \<in> set ?xs" by simp
  with x(2) Some show ?thesis by auto
qed simp

lemma found_version:
  assumes "v \<in> set (st_versions st)" and "ve_source_id v = out_source_id out" and "ve_id v = out_version_id out"
    and "same_content src (pr_parser_profile parsed) v" and "out_fragments out = fragment_count st (ve_id v)"
    and "check_binding decl (out_source_id out) (ve_id v) st = Inr ()"
  shows "version_found src parsed decl out st v"
  using assms(1-5) binding_found [OF assms(6)]
  unfolding version_found_def has_content_def same_content_def fragment_count_def by (auto split: option.splits)

subsection \<open>Every recording\<close>

text \<open>The pieces read and write few tables; the blob row is not among them.\<close>

lemma source_added_cong:
  assumes "st_sources st1 = st_sources st'" "st_families st1 = st_families st'" "st_identities st1 = st_identities st'"
    "st_family_members st1 = st_family_members st'"
  shows "source_added ids src decl out (st\<lparr>st_blobs := x\<rparr>) st1 = source_added ids src decl out st st'"
proof -
  have "identity_rows ids (st\<lparr>st_blobs := x\<rparr>) decl = identity_rows ids st decl"
    by (simp add: identity_rows_def split: option.split)
  moreover have "has_relative (st\<lparr>st_blobs := x\<rparr>) decl sha = has_relative st decl sha" for sha
    by (cases decl) (simp_all add: has_relative_def)
  moreover have "joins (st\<lparr>st_blobs := x\<rparr>) decl sha f root role = joins st decl sha f root role" for sha f root role
    by (cases decl) (simp_all add: joins_def holders_in_def in_lineage_def root_members_def)
  ultimately show ?thesis unfolding source_added_def using assms by (simp add: source_row_of_def)
qed

lemma version_added_cong:
  assumes "st_versions st1 = st_versions st" "st_fragments st1 = st_fragments st" "st_bindings st1 = st_bindings st"
    "st_events st1 = st_events st" and lib: "st_library_id st1 = st_library_id st"
  shows "version_added ids now c root src parsed decl out st1 st' = version_added ids now c root src parsed decl out st st'"
  unfolding version_added_def next_version_number_def Let_def assms(1-4) payload_cong [OF lib]
    binding_events_cong [OF lib] ..

lemma blob_stored_cong: "st_blobs st2 = st_blobs st1 \<Longrightarrow> blob_stored b st st1 \<Longrightarrow> blob_stored b st st2"
  unfolding blob_stored_def by metis

lemma next_number_cong: "st_versions st1 = st_versions st \<Longrightarrow> next_version_number st1 s = next_version_number st s"
  by (simp only: next_version_number_def)

lemma version_added_of:
  assumes "record_version ids now c root state src parsed decl d sid l n st = Inr (out, st')"
    and "n = next_version_number st sid"
  shows "version_added ids now c root src parsed decl out st st'"
proof -
  note eff = record_version_effect [OF assms(1)]
  show ?thesis unfolding version_added_def Let_def using eff(1,2) assms(2) unfolding eff(4) by simp
qed

lemma known_blobs:
  "source_known src decl out (st\<lparr>st_blobs := x\<rparr>) = source_known src decl out st"
  "head_row_is (st\<lparr>st_blobs := x\<rparr>) s v = head_row_is st s v"
  "version_found src parsed decl out (st\<lparr>st_blobs := x\<rparr>) v = version_found src parsed decl out st v"
  "holders_in (st\<lparr>st_blobs := x\<rparr>) sha f root = holders_in st sha f root"
  by (simp_all add: source_known_def in_lineage_def declared_in_def head_row_is_def version_found_def holders_in_def
      split: option.split)

lemma record_added:
  assumes t: "tables_ok st" and sc: "ingest_scope st c root src = Inr state" and b: "ensure_blob_row b st = Inr st1"
    and at: "sources_at st1 (sby_uri src) = []" and e: "enroll_source ids src decl st1 = Inr (l, st2)"
    and rv: "record_version ids now c root state src parsed decl ADDED (new_source_id ids) l 1 st2 = Inr (out, st')"
  shows "record_effect ids now c root src parsed b decl out st st'"
proof -
  obtain blobs where st1: "st1 = st\<lparr>st_blobs := blobs\<rparr>" using ensure_blob_row_exact(1) [OF b] by blast
  have t1: "tables_ok st1" by (rule tables.blob_keeps [OF b t])
  have t2: "tables_ok st2" by (rule tables.enroll_keeps [OF e t1])
  have r1: "refs_ok st1" and r: "refs_ok st" using t t1 by (simp_all add: tables_ok_def)
  note eff = record_version_effect [OF rv]
  have d: "out_disposition out = ADDED" "out_source_id out = new_source_id ids"
    "(out_family_id out, out_root_id out, out_role out) = l" unfolding eff(4) by simp_all
  have u: "sby_uri src \<notin> so_uri ` set (st_sources st1)"
  proof
    assume "sby_uri src \<in> so_uri ` set (st_sources st1)"
    then obtain s where "s \<in> set (st_sources st1)" "so_uri s = sby_uri src" by auto
    from source_present [OF t1 this] at show False by simp
  qed
  obtain families identities role rt where st2: "st2 = st1\<lparr>
      st_sources := st_sources st1 @ [source_row_of st1 ids src],
      st_families := st_families st1 @ families,
      st_identities := st_identities st1 @ identities,
      st_family_members := st_family_members st1 @
        [\<lparr>fm_family_id = fst l, fm_source_id = new_source_id ids, fm_role = role, fm_root = rt\<rparr>]\<rparr>"
    using enroll_source_effect(1) [OF e t1] by blast
  have "st_sources st2 = st_sources st'" "st_families st2 = st_families st'" "st_identities st2 = st_identities st'"
    "st_family_members st2 = st_family_members st'" unfolding eff(1) by simp_all
  from enroll_added [OF e r1 u d(2,3), unfolded st1 source_added_cong [OF this]]
  have "source_added ids src decl out st st'" .
  moreover have "1 = next_version_number st2 (new_source_id ids)"
  proof -
    have "new_source_id ids \<notin> so_id ` set (st_sources st)" using enroll_source_effect(2) [OF e t1] unfolding st1 by simp
    from next_number_new [OF r this] show ?thesis using next_number_cong [of st2 st] by (simp add: st2 st1)
  qed
  from version_added_of [OF rv this] have "version_added ids now c root src parsed decl out st st'"
    by (subst (asm) version_added_cong [of st2 st]) (simp_all add: st2 st1)
  moreover have "admitted st c root src state" by (rule ingest_scope_admitted [OF sc])
  moreover have "enrolled c (out_source_id out) state st st'"
    using eff(5) unfolding enrolled_def d(2) unfolding eff(1) st2 st1 by simp
  moreover have "blob_stored b st st'"
    by (rule blob_stored_cong [OF _ ensure_blob_row_exact(2) [OF b]]) (simp add: eff(1) st2)
  moreover have "configuration_kept st st'" unfolding configuration_kept_def eff(1) st2 st1 by simp
  moreover have "st_heads st' = st_heads st @ [\<lparr>he_source_id = new_source_id ids, he_version_id = new_version_id ids\<rparr>]"
    unfolding eff(1) st2 st1 by (simp add: heads_after_def)
  ultimately show ?thesis unfolding record_effect_def d(1) by auto
qed

lemma record_changed:
  assumes t: "tables_ok st" and sc: "ingest_scope st c root src = Inr state" and b: "ensure_blob_row b st = Inr st1"
    and at: "sources_at st1 (sby_uri src) = s # rest" and m: "so_media_type s = sby_media_type src"
    and l: "known_lineage decl (so_id s) st1 = Inr l" and ne: "versions_of st1 (so_id s) \<noteq> []"
    and none: "find (same_content src (pr_parser_profile parsed)) (versions_of st1 (so_id s)) = None"
    and col: "check_collision decl (sby_sha256 src) (so_id s) l st1 = Inr u"
    and rv: "record_version ids now c root state src parsed decl CHANGED (so_id s) l
      (Max (set (map ve_number (versions_of st1 (so_id s)))) + 1) st1 = Inr (out, st')"
  shows "record_effect ids now c root src parsed b decl out st st'"
proof -
  obtain blobs where st1: "st1 = st\<lparr>st_blobs := blobs\<rparr>" using ensure_blob_row_exact(1) [OF b] by blast
  have r1: "refs_ok st1" using tables.blob_keeps [OF b t] by (simp add: tables_ok_def)
  note eff = record_version_effect [OF rv]
  have d: "out_disposition out = CHANGED" "out_source_id out = so_id s"
    "(out_family_id out, out_root_id out, out_role out) = l" unfolding eff(4) by simp_all
  have known: "source_known src decl out st1" by (rule known_source_facts [OF at m l d(2,3)])
  have hold: "case decl of None \<Rightarrow> holders_in st1 (sby_sha256 src) (out_family_id out) (out_root_id out) | Some _ \<Rightarrow> True"
  proof (cases decl)
    case None
    with col obtain found where f: "lineage_for_content st1 (sby_sha256 src) (Some (so_id s)) = Inr found"
      and "(if found \<noteq> None \<and> found \<noteq> Some (fst l, fst (snd l))
            then Inl (SourceLineageIntegrityError
              ''changed Source bytes collide with an incompatible SourceFamily'')
            else Inr ()) = Inr u" by (auto simp: check_collision_def res_bind_eq_Inr)
    then have same: "found = None \<or> found = Some (fst l, fst (snd l))" by (metis sum.distinct(1))
    have "in_lineage st1 (ve_source_id v) (fst l) (fst (snd l))"
      if v: "v \<in> set (st_versions st1)" "ve_sha256 v = sby_sha256 src" "ve_source_id v \<noteq> so_id s" for v
    proof -
      have "ve_source_id v \<in> set (sources_with_content st1 (sby_sha256 src) (Some (so_id s)))"
        using v unfolding content_sources [OF r1] by auto
      then have "found \<noteq> None" using content_lineage_cases [OF f] by (metis empty_iff list.set(1) option.distinct(1))
      with f same have "lineage_for_content st1 (sby_sha256 src) (Some (so_id s)) = Inr (Some (fst l, fst (snd l)))" by auto
      from content_lineage_Some(2) [OF r1 this v(1,2)] v(3) show ?thesis by auto
    qed
    moreover have "in_lineage st1 (so_id s) (fst l) (fst (snd l))"
      by (rule in_lineage_of(1) [OF known_lineage_source(1) [OF l]])
    ultimately have "holders_in st1 (sby_sha256 src) (fst l) (fst (snd l))" unfolding holders_in_def by metis
    then show ?thesis using None d(3) by auto
  qed simp
  have "\<forall>v \<in> set (st_versions st1). ve_source_id v = so_id s \<longrightarrow> \<not> has_content src parsed v"
    using none unfolding find_None_iff versions_of_iff by (auto simp: same_content_def has_content_def)
  moreover note next_number_known [OF ne, symmetric]
  from version_added_of [OF rv this] have "version_added ids now c root src parsed decl out st st'"
    by (subst (asm) version_added_cong [of st1 st]) (simp_all add: st1)
  moreover have "admitted st c root src state" by (rule ingest_scope_admitted [OF sc])
  moreover have "enrolled c (out_source_id out) state st st'"
    using eff(5) unfolding enrolled_def d(2) unfolding eff(1) st1 by simp
  moreover have "blob_stored b st st'"
    by (rule blob_stored_cong [OF _ ensure_blob_row_exact(2) [OF b]]) (simp add: eff(1))
  moreover have "configuration_kept st st' \<and> sources_kept st st'"
    unfolding configuration_kept_def sources_kept_def eff(1) st1 by simp
  moreover have "st_heads st' = moved_heads (so_id s) (new_version_id ids) (st_heads st)"
    unfolding eff(1) st1 by (simp add: heads_after_def)
  ultimately show ?thesis
    using known hold unfolding record_effect_def d(1) d(2) st1 known_blobs by (auto split: option.splits)
qed

lemma record_unchanged:
  assumes t: "tables_ok st" and sc: "ingest_scope st c root src = Inr state" and b: "ensure_blob_row b st = Inr st1"
    and at: "sources_at st1 (sby_uri src) = s # rest" and m: "so_media_type s = sby_media_type src"
    and l: "known_lineage decl (so_id s) st1 = Inr l" and v: "head_version st1 (so_id s) = Some v"
    and same: "same_content src (pr_parser_profile parsed) v"
    and k: "keep_head c state decl (so_id s) l v st1 = Inr (out, st')"
  shows "record_effect ids now c root src parsed b decl out st st'"
proof -
  obtain blobs where st1: "st1 = st\<lparr>st_blobs := blobs\<rparr>" using ensure_blob_row_exact(1) [OF b] by blast
  have t1: "tables_ok st1" by (rule tables.blob_keeps [OF b t])
  note kr = keep_head_recorded(2,3) [OF b at m l v same k]
  from k have chk: "check_binding decl (so_id s) (ve_id v) st1 = Inr ()" "ensure_membership c (so_id s) state st1 = Inr st'"
    by (auto simp: keep_head_def res_bind_eq_Inr)
  have d: "out_disposition out = UNCHANGED" "out_source_id out = so_id s"
    "(out_family_id out, out_root_id out, out_role out) = l" unfolding kr(1) by simp_all
  have known: "source_known src decl out st1" by (rule known_source_facts [OF at m l d(2,3)])
  have "version_found src parsed decl out st1 v"
    using head_versionD(1) [OF v] head_version_source [OF t1 v] same chk(1)
    by (intro found_version) (simp_all add: kr(1))
  moreover note head_version_row [OF t1 v]
  moreover have "enrolled c (so_id s) state st st'"
    using ensure_membership_row [OF chk(2)] unfolding enrolled_def kr(2) st1 by simp
  moreover have "blob_stored b st st'"
    by (rule blob_stored_cong [OF _ ensure_blob_row_exact(2) [OF b]]) (simp add: kr(2))
  moreover have "configuration_kept st st' \<and> sources_kept st st' \<and> versions_kept st st' \<and>
      st_heads st' = st_heads st \<and> st_events st' = st_events st"
    unfolding configuration_kept_def sources_kept_def versions_kept_def kr(2) st1 by simp
  ultimately show ?thesis
    using known ingest_scope_admitted [OF sc] unfolding record_effect_def d(1) d(2) st1 known_blobs by auto
qed

lemma record_reverted:
  assumes t: "tables_ok st" and sc: "ingest_scope st c root src = Inr state" and b: "ensure_blob_row b st = Inr st1"
    and at: "sources_at st1 (sby_uri src) = s # rest" and m: "so_media_type s = sby_media_type src"
    and l: "known_lineage decl (so_id s) st1 = Inr l" and v: "head_version st1 (so_id s) = Some v"
    and differs: "\<not> same_content src (pr_parser_profile parsed) v"
    and x: "find (same_content src (pr_parser_profile parsed)) (versions_of st1 (so_id s)) = Some x"
    and rv: "revert_head ids now c root state src decl (so_id s) l v x st1 = Inr (out, st')"
  shows "record_effect ids now c root src parsed b decl out st st'"
proof -
  obtain blobs where st1: "st1 = st\<lparr>st_blobs := blobs\<rparr>" using ensure_blob_row_exact(1) [OF b] by blast
  have t1: "tables_ok st1" by (rule tables.blob_keeps [OF b t])
  have x': "x \<in> set (st_versions st1)" "ve_source_id x = so_id s" "same_content src (pr_parser_profile parsed) x"
    using x by (auto simp: find_Some_iff versions_of_iff dest!: nth_mem)
  have srcs: "\<exists>x \<in> set (st_sources st1). so_id x = so_id s \<and> so_uri x = sby_uri src \<and> so_media_type x = sby_media_type src"
    using sources_at_Cons [OF at] m by blast
  have blob: "\<exists>r \<in> set (st_blobs st1). bl_sha256 r = pb_sha256 b \<and> bl_size r = pb_size b \<and> bl_path r = pb_path b"
    using ensure_blob_row_effect [OF b] by auto
  note r = revert_head_recorded(2-5) [OF rv t1 known_lineage_source(1) [OF l] v x' srcs blob]
  have d: "out_disposition out = REVERTED" "out_source_id out = so_id s"
    "(out_family_id out, out_root_id out, out_role out) = l" unfolding r(2) by simp_all
  have known: "source_known src decl out st1" by (rule known_source_facts [OF at m l d(2,3)])
  have found: "version_found src parsed decl out st1 x"
    using x' r(4) by (intro found_version) (simp_all add: r(2))
  have head: "head_row_is st1 (so_id s) v" by (rule head_version_row [OF t1 v])
  have other: "\<not> has_content src parsed v" using differs by (simp add: has_content_def same_content_def)
  have lib: "st_library_id st1 = st_library_id st" unfolding st1 by simp
  have "enrolled c (so_id s) state st st'" using r(3) unfolding enrolled_def r(1) st1 by simp
  moreover have "blob_stored b st st'"
    by (rule blob_stored_cong [OF _ ensure_blob_row_exact(2) [OF b]]) (simp add: r(1))
  moreover have "configuration_kept st st' \<and> sources_kept st st' \<and> versions_kept st st'"
    unfolding configuration_kept_def sources_kept_def versions_kept_def r(1) st1 by simp
  moreover have "st_heads st' = moved_heads (so_id s) (ve_id x) (st_heads st)" unfolding r(1) st1 by simp
  moreover have "st_events st' = st_events st @ [event_for (new_event_id ids) ''source_head.reverted'' ''source'' (so_id s)
      (reverted_payload st c root (so_id s) (ve_id v) (ve_id x) (sby_sha256 src)) now]"
    unfolding r(1) payload_cong(3) [OF lib] unfolding st1 by simp
  ultimately show ?thesis
    using known found head other ingest_scope_admitted [OF sc]
    unfolding record_effect_def d(1) d(2) st1 known_blobs by auto
qed

lemma record_has_effect:
  assumes "record_processed_source verify ids now c root src parsed b decl st = Inr (out, st')" and t: "tables_ok st"
  shows "record_effect ids now c root src parsed b decl out st st'"
  using assms(1)
proof (cases rule: record_cases)
  case (added state st1 l st2)
  then show ?thesis by (intro record_added [OF t])
next
  case (known state st1 s rest l v)
  note pre = record_unchanged [OF t known(2-6)] record_changed [OF t known(2-6,7)] record_reverted [OF t known(2-6)]
  show ?thesis
  proof (cases "same_content src (pr_parser_profile parsed) v")
    case True
    with known(8,9) pre(1) show ?thesis by simp
  next
    case False
    show ?thesis
    proof (cases "find (same_content src (pr_parser_profile parsed)) (versions_of st1 (so_id s))")
      case None
      with known(9) False obtain u where "check_collision decl (sby_sha256 src) (so_id s) l st1 = Inr u"
        "record_version ids now c root state src parsed decl CHANGED (so_id s) l
          (Max (set (map ve_number (versions_of st1 (so_id s)))) + 1) st1 = Inr (out, st')"
        by (auto simp: res_bind_eq_Inr)
      with pre(2) [OF None] show ?thesis by blast
    next
      case (Some x)
      with known(8,9) False pre(3) show ?thesis by simp
    qed
  qed
qed

end
