(* ===== verification/Library_Theorems.thy ===== *)
theory Library_Theorems
  imports Library_Sample Library_Schema Library_Frozen Library_Recorded
begin

text \<open>
  The properties of the Library repository: what every reachable store satisfies, what recording
  and freezing do, and what a capability reads.
\<close>

text \<open>
  C15. In every store reached from the creation of a Library by any sequence of operations and
  deliveries, every primary key and uniqueness constraint, every foreign key and trigger reference
  and every check of the schema holds for the modelled tables, and every fragment and address has
  the hash stored beside it.
\<close>

theorem reachable_store_sound:
  assumes "reachable_store st"
  shows "schema_keys st \<and> schema_references st \<and> schema_checks st \<and> texts_ok st"
  using reachable_schema [OF assms] store_okD(2) [OF reachable_ok [OF assms]] by (simp add: schema_ok_def)

theorem reachable_store_sound_witness:
  "schema_keys demo4 \<and> schema_references demo4 \<and> schema_checks demo4 \<and> texts_ok demo4"
  by (rule reachable_store_sound [OF demo4_reachable])

text \<open>
  C5. Snapshot isolation: whatever is recorded, frozen or created later, a stored snapshot, a
  stored policy and the access compiled from them for a request stay exactly as they were.
\<close>

theorem snapshot_isolation:
  assumes "reachable_store st" and "library_history st st'"
  shows "(reconstruct_corpus_snapshot st i = Inr s \<longrightarrow> reconstruct_corpus_snapshot st' i = Inr s) \<and>
    (get_access_policy st p = Inr q \<longrightarrow> get_access_policy st' p = Inr q) \<and>
    (compile_db_access st p scope = Inr ca \<longrightarrow> compile_db_access st' p scope = Inr ca)"
  using reconstruct_stable get_access_policy_stable compile_db_access_stable
    library_history_extends [OF assms(2)] store_okD(4) [OF reachable_ok [OF assms(1)]] by blast

theorem snapshot_isolation_witness:
  "reconstruct_corpus_snapshot demo4 (corpus_snapshot_id demo_snapshot) = Inr demo_snapshot"
proof -
  have "reachable_store demo3"
    using demo2_reachable library_step.operation [OF library_operation.frozen [OF demo3]] unfolding reachable_store_def by (meson history_step)
  moreover have "library_history demo3 demo4"
    using demo4 library_operation.policy_created library_step.operation by (blast intro: library_history.intros)
  moreover have "reconstruct_corpus_snapshot demo3 (corpus_snapshot_id demo_snapshot) = Inr demo_snapshot"
    by (rule freeze_facts(4) [OF demo3 store_okD(1) [OF reachable_ok [OF demo2_reachable]]])
  ultimately show ?thesis using snapshot_isolation by blast
qed

text \<open>
  C2. Authorized reads: a capability issued by a repository reads, at any later time and whatever
  was committed or issued meanwhile, exactly the fragments that the policy and the request permit
  in the requested snapshot at the time of issue, each once, in increasing order, with the
  text stored then and its hash.
\<close>

theorem authorized_read_exact:
  assumes "reachable_store (re_store r)" and "authorize_read ob i pid scope r = Inr (a, r1)"
    and "repository_history r1 r2"
  shows "\<exists>n policy at snap texts.
    get_access_policy (re_store r) pid = Inr (n, policy, at) \<and>
    snap \<in> set (st_snapshots (re_store r)) \<and> sn_hash snap = sc_snapshot_hash scope \<and>
    read_permitted_fragments r2 a = Inr texts \<and> sorted_wrt (<) (map ft_fragment_id texts) \<and>
    set texts = {text_of f v | f v. f \<in> set (st_fragments (re_store r)) \<and>
      readable (re_store r) policy scope (sn_id snap) f \<and>
      version_row_of (re_store r) (fr_version_id f) = Some v} \<and>
    (\<forall>t \<in> set texts. ft_text_sha256 t = sha256_hex (utf8 (ft_text t)))"
proof -
  note ok = reachable_ok [OF assms(1)]
  from read_permitted_later [OF ok assms(2,3)] obtain n policy at snap texts where x:
    "get_access_policy (re_store r) pid = Inr (n, policy, at)"
    "snap \<in> set (st_snapshots (re_store r))" "sn_hash snap = sc_snapshot_hash scope"
    "read_permitted_fragments r2 a = Inr texts" "sorted_wrt (<) (map ft_fragment_id texts)"
    "set texts = {text_of f v | f v. f \<in> set (st_fragments (re_store r)) \<and>
      readable (re_store r) policy scope (sn_id snap) f \<and>
      version_row_of (re_store r) (fr_version_id f) = Some v}" by blast
  moreover have "\<forall>t \<in> set texts. ft_text_sha256 t = sha256_hex (utf8 (ft_text t))"
    using store_okD(2) [OF ok] unfolding x(6) by (auto simp: texts_ok_def text_of_def)
  ultimately show ?thesis by blast
qed

theorem authorized_read_exact_witness:
  "\<exists>a r texts. authorize_read 7 ''authorization_1'' ''policy_1'' demo_request demo_repository = Inr (a, r) \<and>
     read_permitted_fragments r a = Inr texts \<and> text_of demo_fragment_row demo_version \<in> set texts"
proof -
  have st: "re_store demo_repository = demo4" by (simp add: demo_repository_def open_repository_def)
  obtain a r where ar: "authorize_read 7 ''authorization_1'' ''policy_1'' demo_request demo_repository = Inr (a, r)"
    using demo_authorized by blast
  from authorized_read_exact [OF demo4_reachable [folded st] ar repository_refl] obtain n policy at snap texts where
    x: "get_access_policy demo4 ''policy_1'' = Inr (n, policy, at)" "snap \<in> set (st_snapshots demo4)"
      "read_permitted_fragments r a = Inr texts"
      "set texts = {text_of f v | f v. f \<in> set (st_fragments demo4) \<and>
      readable demo4 policy demo_request (sn_id snap) f \<and>
      version_row_of demo4 (fr_version_id f) = Some v}" unfolding st by (elim exE conjE)
  have "policy = demo_rules" "sn_id snap = corpus_snapshot_id demo_snapshot"
    using x(1,2) by (simp_all add: demo_policy_read snapshot_row_of_def)
  moreover have "version_row_of demo4 (fr_version_id demo_fragment_row) = Some demo_version"
    by (simp add: version_row_of_def)
  ultimately have "text_of demo_fragment_row demo_version \<in> set texts"
    unfolding x(4) using demo_readable by auto
  with ar x(3) show ?thesis by blast
qed

text \<open>
  C9. Capabilities cannot be forged, changed or kept after closing: a repository accepts only an
  object it issued itself, whose every field is still as issued (or exhibits a SHA-256 collision
  of the fingerprint payloads), for the access that its policy and snapshot still compile to;
  a closed repository accepts none.
\<close>

theorem capability_unforgeable:
  assumes "repository_history (open_repository instance_id st) r"
    and "revalidate_authorized_read r a = Inr ca"
  shows "(\<exists>x. map_of (re_authorizations r) (ar_id a) = Some x \<and> is_object x = ar_object a \<and>
      ca = is_compiled x \<and> compile_db_access (re_store r) (is_policy_id x) (is_scope x) = Inr ca \<and>
      (a = issued_capability r (ar_id a) x \<or>
       sha_collision (canonical_json_bytes (fingerprint_payload a))
         (canonical_json_bytes (fingerprint_payload (issued_capability r (ar_id a) x))))) \<and>
    (\<exists>e. revalidate_authorized_read (close_repository r) a = Inl e)"
proof -
  have ok: "authorizations_ok r"
    by (rule repository_history_authorizations [OF assms(1) open_repository_authorizations])
  from assms(2) obtain x where x: "map_of (re_authorizations r) (ar_id a) = Some x" "is_object x = ar_object a"
    "ar_instance_id a = re_instance_id r" "authorization_fingerprint a = is_fingerprint x"
    "compile_db_access (re_store r) (is_policy_id x) (is_scope x) = Inr ca" "ca = is_compiled x"
    unfolding revalidate_Inr by blast
  let ?i = "issued_capability r (ar_id a) x"
  have "is_fingerprint x = authorization_fingerprint ?i"
    using ok map_of_SomeD [OF x(1)] unfolding authorizations_ok_def by blast
  with x(4) have "canonical_sha256_hex (fingerprint_payload a) = canonical_sha256_hex (fingerprint_payload ?i)"
    by (simp add: authorization_fingerprint_def)
  then have "capability_fields a = capability_fields ?i \<or>
      sha_collision (canonical_json_bytes (fingerprint_payload a)) (canonical_json_bytes (fingerprint_payload ?i))"
    by (rule capability_addr.hash_eq_view)
  moreover have "a = ?i" if "capability_fields a = capability_fields ?i"
    using that x(2) by (cases a) (simp add: capability_fields_def issued_capability_def)
  ultimately have "a = ?i \<or>
      sha_collision (canonical_json_bytes (fingerprint_payload a)) (canonical_json_bytes (fingerprint_payload ?i))"
    by blast
  with x revalidate_closed show ?thesis by blast
qed

theorem capability_unforgeable_witness:
  "\<exists>a r. authorize_read 7 ''authorization_1'' ''policy_1'' demo_request demo_repository = Inr (a, r) \<and>
     (\<exists>e. revalidate_authorized_read (close_repository r) a = Inl e)"
proof -
  obtain a r where ar: "authorize_read 7 ''authorization_1'' ''policy_1'' demo_request demo_repository = Inr (a, r)"
    using demo_authorized by blast
  then have "repository_step demo_repository r"
    by (rule repository_step.authorized) (simp_all add: demo_repository_def open_repository_def)
  then have h: "repository_history (open_repository ''repository_1'' demo4) r"
    unfolding demo_repository_def [symmetric] by (blast intro: repository_history.intros)
  have "\<exists>ca. revalidate_authorized_read r a = Inr ca"
    using ar unfolding authorize_read_Inr revalidate_Inr by (auto simp: put_authorization_def)
  with capability_unforgeable [OF h] ar show ?thesis by blast
qed

text \<open>
  C4. Recording a processed file in a reachable store has exactly the declared effect, table by
  table.  Collections, roots, policies and snapshots stay.  The blob row is present, added when its
  hash was not; the file is admitted by its root, and the membership row with the state of the
  Collection's kind is present, added when it was not.  A file at a new URI adds one Source row,
  which joins the family of its relative (the Sources that hold the same bytes, as a duplicate; or
  the family with the declared identity, as a duplicate if it binds these bytes and as a derivative
  otherwise) or else founds a family as its root.  A known file keeps Sources and families.  A
  content new to the Source adds one version, numbered after the last, exactly the parsed
  fragments, the declared binding and the events of both, and moves the head to it; the content of
  the head adds nothing; the content of an older version moves the head back, with one event.
\<close>

theorem record_exact:
  assumes "reachable_store st"
    and "record_processed_source verify ids now c root src parsed b decl st = Inr (out, st')"
  shows "record_effect ids now c root src parsed b decl out st st'"
  by (rule record_has_effect [OF assms(2) store_okD(1) [OF reachable_ok [OF assms(1)]]])

theorem record_exact_witness:
  "record_effect demo_ids demo_now demo_collection ''root_1'' demo_bytes demo_parsed demo_blob None demo_outcome demo1 demo2 \<and>
   record_effect demo_ids demo_now demo_collection ''root_1'' demo_bytes demo_parsed demo_blob None
     (demo_outcome\<lparr>out_disposition := UNCHANGED\<rparr>) demo2 demo2"
  using record_exact [OF demo1_reachable demo2] record_exact [OF demo2_reachable
      record_twice [OF store_okD(1) [OF reachable_ok [OF demo1_reachable]] demo2]] by blast

text \<open>
  C18. Recording is idempotent: recording the same file again, whatever fresh identifiers and
  time are drawn, reports it unchanged, with the same source, version and lineage, and changes
  nothing, not even the outbox.
\<close>

theorem record_idempotent:
  assumes "reachable_store st"
    and "record_processed_source verify ids now c root src parsed b decl st = Inr (out, st')"
  shows "record_processed_source verify ids' now' c root src parsed b decl st' =
    Inr (out\<lparr>out_disposition := UNCHANGED\<rparr>, st')"
  by (rule record_twice [OF store_okD(1) [OF reachable_ok [OF assms(1)]] assms(2)])

theorem record_idempotent_witness:
  "record_processed_source (\<lambda>_. Inr ()) demo_ids demo_now demo_collection ''root_1'' demo_bytes demo_parsed demo_blob None demo2 =
     Inr (demo_outcome\<lparr>out_disposition := UNCHANGED\<rparr>, demo2)"
  by (rule record_idempotent [OF demo1_reachable demo2])



text \<open>
  C10. Freezing captures exactly the current state: the snapshot lists the given Collections in
  order and has one member, in key order, for each of their membership rows, with the state of that
  row, the version its Source's head row names, the content hash of that version's row, and the
  family, role and root of the Source's family row; it is stored so that it reconstructs to the
  same value, and freezing again, without a recording in between, returns it and changes nothing.
\<close>

theorem freeze_exact:
  assumes "reachable_store st" and "freeze_snapshot e now cs st = Inr (s, st')"
  shows "cs_library_id s = st_library_id st \<and> cs_collection_ids s = sort cs \<and>
    set (cs_members s) = {m. \<exists>x \<in> set (st_memberships st). me_collection_id x \<in> set cs \<and> frozen_from st x m} \<and>
    sorted (map member_key (cs_members s)) \<and> distinct (map member_key (cs_members s)) \<and>
    reconstruct_corpus_snapshot st' (corpus_snapshot_id s) = Inr s \<and>
    freeze_snapshot e' now' cs st' = Inr (s, st')"
  using freeze_facts(1,2,4,5) [OF assms(2) store_okD(1) [OF reachable_ok [OF assms(1)]]]
    freeze_members [OF assms(2) store_okD(1) [OF reachable_ok [OF assms(1)]]] by blast

theorem freeze_exact_witness:
  "freeze_snapshot ''event_9'' demo_now [demo_collection] demo3 = Inr (demo_snapshot, demo3) \<and>
   (\<exists>x \<in> set (st_memberships demo2). frozen_from demo2 x demo_member)"
proof -
  have m: "demo_member \<in> set (cs_members demo_snapshot)" by (simp add: demo_snapshot_def)
  have "set (cs_members demo_snapshot) = {m. \<exists>x \<in> set (st_memberships demo2).
      me_collection_id x \<in> set [demo_collection] \<and> frozen_from demo2 x m}"
    and "freeze_snapshot ''event_9'' demo_now [demo_collection] demo3 = Inr (demo_snapshot, demo3)"
    using freeze_exact [OF demo2_reachable demo3] by blast+
  with m show ?thesis by blast
qed

end
