(* ===== verification/Spec2Isabelle.thy ===== *)
theory Spec2Isabelle
  imports
    AccessProps SessionsProps Snapshots Markdown_Props Evidence_Props Address_Props Chain_Sample
    Route_Theorems Relation_Models Outbox_Theorems Library_Theorems
begin

text \<open>
  Dithyramba is a local research memory.  A Library holds the exact text of files in SQLite; a
  policy and a request scope compile to the set of fragments that may be read; a gate decides
  whether the evidence found for a question suffices; a Research Atlas is routed into a small
  packet for a task; an answer is accepted only when its citations are verbatim in local files; a
  review and a reasoning trace close over the accepted answer; a session journal records what was
  done.  Every stage passes on values whose canonical JSON is hashed with SHA-256, and checks what
  it is given against such hashes.  This development models those stages (Python, under
  \<open>src/dithyramba\<close>) and proves what each promises and how they compose.

  \<^bold>\<open>Foundations.\<close>  \<open>Prelude\<close> has the exceptions of the package as one datatype, results as
  \<open>error + 'a\<close>, monadic loops and the string idioms.  \<open>Sha256\<close> is FIPS 180-4, executable.
  \<open>Canonical\<close> is \<open>contracts/\<close>: normalization of a heap of Python values (shared or cyclic), the
  canonical encoding and the identifiers; the encoding is injective up to member order.  Statements
  about hashes therefore say \<open>equal, or here is a collision\<close> and assume nothing of SHA-256; the
  locale \<open>content_addressed\<close> states this once, and each component interprets it on its payloads.
  \<open>Model_Fields\<close> has the field constraints of pydantic, \<open>Json_Reader\<close> reads canonical JSON back.

  \<^bold>\<open>Access\<close> (\<open>access/\<close>).  \<open>Access\<close> has scopes, policies, candidates, manifests, tokens and
  \<open>compile_access\<close>; \<open>AccessProps\<close> shows that it computes its specification, does not depend on
  candidates it withholds, and what a verified token pins down.

  \<^bold>\<open>Library\<close> (\<open>persistence/repository.py\<close>, \<open>store/sql/0001_v1.sql\<close>, \<open>collections/\<close>, \<open>library/\<close>).
  The state \<open>library_store\<close> is one list of rows per table; \<open>Library_Tables\<close> has an insertion per
  statement, with the keys, checks and foreign keys of the schema.  \<open>Library_Ingest\<close> is
  \<open>record_processed_source\<close> with lineage and identity bindings, and the fast path
  \<open>find_reusable_unchanged_source\<close>; \<open>Library_Access\<close> and \<open>Library_Reads\<close> are snapshots, policies and the
  authorized read; \<open>Library_Collections\<close> the configurations and Collections.  The locale
  \<open>row_invariant\<close> (\<open>Library_Isolation\<close>) states what an invariant must keep row by row and gives its
  preservation by every operation; it is interpreted on keys and references, on text hashes, on the
  outbox rows and on their growth.  \<open>Library_Growth\<close>, \<open>Library_Stability\<close> and \<open>Library_History\<close> show
  that what is stored is read alike at every later time; \<open>Library_Read_Props\<close>, \<open>Library_Reading\<close> and
  \<open>Library_Safety\<close> what a capability reads and who can present one; \<open>Library_Effects\<close>,
  \<open>Library_Ingest_Props\<close> and \<open>Library_Freeze\<close> what recording and freezing do.  \<open>Library_Sample\<close> builds a
  small Library by the operations, for the witnesses; \<open>Library_Theorems\<close> states the properties.
  Transactions are atomic: an operation returns the new store or an error.

  \<^bold>\<open>Outbox\<close> (\<open>pending_outbox_events\<close>, \<open>export_outbox\<close> of the repository).  \<open>Outbox\<close> models the event file
  as bytes and an export that may stop after each of its effects; \<open>Outbox_Props\<close> and
  \<open>Outbox_Theorems\<close> show at most one line per event in every history and exactly one after an
  undisturbed export, and that a torn line blocks the export.

  \<^bold>\<open>Snapshots\<close> (\<open>snapshots/\<close>), \<^bold>\<open>text parser\<close> (\<open>ingest/models.py\<close>, \<open>ingest/parsers.py\<close>; theories
  \<open>Ingest_Models\<close>, \<open>Markdown_Parser\<close>, \<open>Markdown_Props\<close>, \<open>Address_Props\<close>) and \<^bold>\<open>sessions\<close>
  (\<open>sessions/\<close>; \<open>Sessions\<close>, \<open>SessionsProps\<close>): snapshots are canonical; the parser is total, its
  fragments are exact slices that cover every nonblank line; replay and append of a journal are
  exact and its last hash determines its history.

  \<^bold>\<open>Evidence gate\<close> (\<open>evidence/coverage.py\<close>, \<open>lexical.py\<close>; \<open>Lexical\<close>, \<open>Evidence_Gate\<close>,
  \<open>Evidence_Props\<close>): the decision is the declared one, over independence groups.

  \<^bold>\<open>Atlas routing\<close> (\<open>atlas/\<close>).  \<open>Atlas_Models\<close> is the manifest, \<open>Memory_Packet\<close> the packets,
  \<open>Semantic_Route\<close> the route receipts, \<open>Task_Router\<close> the lexical route and \<open>Budgeted_Route\<close> the route
  under a budget.  \<open>Selection_Props\<close>, \<open>Route_Inv\<close>, \<open>Route_Expansion\<close>, \<open>Route_Props\<close>, \<open>Route_Packet\<close> and
  \<open>Route_Receipts\<close> carry the invariant of the selection through seeds and expansion to the packet.

  \<^bold>\<open>Answers and reasoning\<close> (\<open>answers/\<close>, \<open>reasoning/\<close>).  \<open>Answers\<close>, \<open>Answer_Coverage\<close>, \<open>Entailment\<close> and
  \<open>Reasoning\<close> are the four gates; their properties are in the theories ending in \<open>_Props\<close>;
  \<open>Evidence_Chain\<close> composes them down to hash-bound lines of local files, \<open>Chain_Sample\<close> runs them.

  \<^bold>\<open>Relations\<close> (\<open>relations/models.py\<close>; \<open>Relation_Models\<close>): value types and identities.

  \<^bold>\<open>Conventions and bounds.\<close>  Strings are lists of characters below U+0100; Unicode normalization is
  an argument where it matters.  Fresh identifiers, the clock, file contents and the outcome of the
  file system are arguments.  The recursions of the code are structural or have a measure; the
  reader of \<open>Json_Reader\<close> takes a depth, and one more than the length of the text is enough
  (\<open>read_emit\<close>).  Integers of more than 4300 digits, which Python refuses to print, are excluded by
  \<open>ints_printable\<close> at the entry point of the canonical encoding.  An event line that holds a number
  with a fraction is refused here with the error of an invalid line; the code lets the error of the
  encoder escape.

  \<^bold>\<open>Not modelled.\<close>  The stores of statements, relations, structure, reviews and retrieval runs (SQL over
  tables of their own), full-text and vector retrieval (SQLite FTS5 and an external model), reading of
  files and PDF, backups, migrations, the verification of the database file, ingest runs and coverage
  reports, the HTTP interface, the command line and the connectors: they are input and output,
  third-party engines, or repeat the shape of the modelled repository on other tables.
\<close>

end
